(* ===== verification/Float64.thy ===== *)
theory Float64
  imports Main "HOL-Library.Log_Nat"
begin

text \<open>
  The float64 arithmetic the engine computes with (Python \<open>float\<close> and NumPy
  \<open>float64\<close>): a NaN, the two infinities, and finite values as exact rationals.  Every
  arithmetic operation computes the exact rational result and rounds it once, to nearest
  with ties to even, 53 bits of precision, exponent range of the binary64 format
  (gradual underflow, overflow to an infinity).  Comparisons with a NaN are false.

  The two zeros are one value here: no modelled operation tells them apart (every division
  the engine makes is guarded against a zero divisor).  Parts: \<open>rnd\<close> and its
  monotonicity, sign symmetry and exactness; the operations; Python's \<open>min\<close> and
  \<open>max\<close> (which keep their first argument on ties and NaNs) and NumPy's
  \<open>maximum\<close>/\<open>minimum\<close> (which propagate NaNs).
\<close>

section \<open>Powers of two, binary logarithm, rounding to an integer\<close>

definition pow2 :: "int \<Rightarrow> rat" where
  "pow2 k = (if 0 \<le> k then 2 ^ nat k else 1 / 2 ^ nat (- k))"

lemma pow2_pos [simp]: "0 < pow2 k"
  by (simp add: pow2_def)

lemma pow2_nonneg [simp]: "0 \<le> pow2 k"
  by (simp add: pow2_def)

lemma pow2_nz [simp]: "pow2 k \<noteq> 0"
  by (simp add: pow2_def)

lemma pow2_powi: "pow2 k = 2 powi k"
proof (cases "0 \<le> k")
  case False
  then show ?thesis by (simp add: pow2_def power_int_def inverse_eq_divide power_one_over)
qed (simp add: pow2_def power_int_def)

lemma pow2_add: "pow2 (a + b) = pow2 a * pow2 b"
  by (simp add: pow2_powi power_int_add)

lemma pow2_diff: "pow2 (a - b) = pow2 a / pow2 b"
  by (simp add: pow2_powi power_int_diff)

lemma pow2_0 [simp]: "pow2 0 = 1"
  by (simp add: pow2_def)

lemma pow2_1 [simp]: "pow2 1 = 2"
  by (simp add: pow2_def)

lemma pow2_mono: "a \<le> b \<Longrightarrow> pow2 a \<le> pow2 b"
  by (simp add: pow2_powi power_int_increasing)

lemma pow2_strict_mono: "a < b \<Longrightarrow> pow2 a < pow2 b"
  by (simp add: pow2_powi power_int_strict_increasing)

lemma pow2_less_iff [simp]: "pow2 a < pow2 b \<longleftrightarrow> a < b"
  using pow2_mono[of b a] pow2_strict_mono[of a b] by (cases "a < b") auto

lemma pow2_le_iff [simp]: "pow2 a \<le> pow2 b \<longleftrightarrow> a \<le> b"
  using pow2_mono[of a b] pow2_strict_mono[of b a] by (cases "a \<le> b") (auto simp: not_le)

lemma pow2_nat: "pow2 (int n) = 2 ^ n"
  by (simp add: pow2_def)

lemma pow2_nonneg_int: "0 \<le> k \<Longrightarrow> pow2 k = of_int (2 ^ nat k)"
  by (simp add: pow2_def)

text \<open>The exponent \<open>e\<close> with \<open>2\<^bsup>e\<^esup> \<le> x < 2\<^bsup>e + 1\<^esup>\<close>, from the bit lengths of numerator and denominator.\<close>

definition ilog2 :: "rat \<Rightarrow> int" where
  "ilog2 x =
     (let k = int (floorlog 2 (nat (fst (quotient_of x)))) - int (floorlog 2 (nat (snd (quotient_of x))))
      in if pow2 k \<le> x then k else k - 1)"

lemma ilog2_code [code]:
  "ilog2 x =
     (let q = quotient_of x; k = bitlen (fst q) - bitlen (snd q) in if pow2 k \<le> x then k else k - 1)"
  by (simp only: ilog2_def bitlen_def Let_def)

lemma ilog2_bounds:
  assumes "0 < x"
  shows "pow2 (ilog2 x) \<le> x" and "x < pow2 (ilog2 x + 1)"
proof -
  obtain n d where q: "quotient_of x = (n, d)" by (cases "quotient_of x")
  have d: "0 < d" and x: "x = of_int n / of_int d"
    using q by (auto simp: quotient_of_denom_pos quotient_of_div)
  have n: "0 < n" using assms d unfolding x by (simp add: zero_less_divide_iff)
  define a b where "a = floorlog 2 (nat n)" and "b = floorlog 2 (nat d)"
  have nb: "2 ^ (a - 1) \<le> nat n" "nat n < 2 ^ a" and db: "2 ^ (b - 1) \<le> nat d" "nat d < 2 ^ b"
    using floorlog_bounds[of "nat n" 2] floorlog_bounds[of "nat d" 2] n d by (auto simp: a_def b_def)
  have a1: "1 \<le> a" and b1: "1 \<le> b"
    using nb(2) db(2) n d by (cases a; cases b; auto)+
  have conv: "(of_nat (nat n) :: rat) = of_int n" "(of_nat (nat d) :: rat) = of_int d"
    using n d by (simp_all add: of_nat_nat)
  have N1: "pow2 (int a - 1) \<le> of_int n" and N2: "of_int n < pow2 (int a)"
  proof -
    have "(of_nat (2 ^ (a - 1)) :: rat) \<le> of_nat (nat n)" using nb(1) by (simp only: of_nat_le_iff)
    then show "pow2 (int a - 1) \<le> of_int n"
      using pow2_nat[of "a - 1"] a1 conv by (simp add: of_nat_diff)
    have "(of_nat (nat n) :: rat) < of_nat (2 ^ a)" using nb(2) by (simp only: of_nat_less_iff)
    then show "of_int n < pow2 (int a)" using pow2_nat[of a] conv by simp
  qed
  have D1: "pow2 (int b - 1) \<le> of_int d" and D2: "of_int d < pow2 (int b)"
  proof -
    have "(of_nat (2 ^ (b - 1)) :: rat) \<le> of_nat (nat d)" using db(1) by (simp only: of_nat_le_iff)
    then show "pow2 (int b - 1) \<le> of_int d"
      using pow2_nat[of "b - 1"] b1 conv by (simp add: of_nat_diff)
    have "(of_nat (nat d) :: rat) < of_nat (2 ^ b)" using db(2) by (simp only: of_nat_less_iff)
    then show "of_int d < pow2 (int b)" using pow2_nat[of b] conv by simp
  qed
  define k where "k = int a - int b"
  have d': "(0 :: rat) < of_int d" using d by simp
  have "pow2 (k - 1) * of_int d \<le> pow2 (k - 1) * pow2 (int b)" using D2 by (intro mult_left_mono) auto
  also have "\<dots> = pow2 (int a - 1)" by (simp add: k_def flip: pow2_add)
  finally have L: "pow2 (k - 1) \<le> x" using N1 d' unfolding x by (simp add: pos_le_divide_eq)
  have "pow2 (k + 1) * of_int d \<ge> pow2 (k + 1) * pow2 (int b - 1)" using D1 by (intro mult_left_mono) auto
  moreover have "pow2 (k + 1) * pow2 (int b - 1) = pow2 (int a)" by (simp add: k_def flip: pow2_add)
  ultimately have U: "x < pow2 (k + 1)" using N2 d' unfolding x by (simp add: pos_divide_less_eq)
  have e: "ilog2 x = (if pow2 k \<le> x then k else k - 1)"
    by (simp add: ilog2_def q a_def b_def k_def)
  show "pow2 (ilog2 x) \<le> x" "x < pow2 (ilog2 x + 1)"
    using L U by (auto simp: e)
qed

lemma ilog2_unique:
  assumes "pow2 e \<le> x" "x < pow2 (e + 1)"
  shows "ilog2 x = e"
proof -
  have "0 < x" using assms(1) pow2_pos[of e] by linarith
  note b = ilog2_bounds[OF this]
  have "pow2 (ilog2 x) < pow2 (e + 1)" "pow2 e < pow2 (ilog2 x + 1)" using b assms by linarith+
  then show ?thesis by simp
qed

lemma ilog2_mono: "0 < x \<Longrightarrow> x \<le> y \<Longrightarrow> ilog2 x \<le> ilog2 y"
proof -
  assume "0 < x" "x \<le> y"
  then have "pow2 (ilog2 x) < pow2 (ilog2 y + 1)"
    using ilog2_bounds(1)[of x] ilog2_bounds(2)[of y] by linarith
  then show ?thesis by simp
qed

definition round_even :: "rat \<Rightarrow> int" where
  "round_even x =
     (let f = \<lfloor>x\<rfloor>; r = x - of_int f
      in if r < 1 / 2 then f else if r > 1 / 2 then f + 1 else if even f then f else f + 1)"

lemma round_even_of_int [simp]: "round_even (of_int n) = n"
  by (simp add: round_even_def)

lemma round_even_range: "\<lfloor>x\<rfloor> \<le> round_even x \<and> round_even x \<le> \<lfloor>x\<rfloor> + 1"
  by (simp add: round_even_def Let_def)

lemma round_even_mono:
  assumes "x \<le> y"
  shows "round_even x \<le> round_even y"
proof (cases "\<lfloor>x\<rfloor> = \<lfloor>y\<rfloor>")
  case True
  then show ?thesis using assms by (auto simp: round_even_def Let_def)
next
  case False
  then have "\<lfloor>x\<rfloor> + 1 \<le> \<lfloor>y\<rfloor>" using floor_mono[OF assms] by linarith
  then show ?thesis using round_even_range[of x] round_even_range[of y] by linarith
qed

lemma round_even_minus: "round_even (- x) = - round_even x"
proof (cases "x = of_int \<lfloor>x\<rfloor>")
  case True
  have "- x = of_int (- \<lfloor>x\<rfloor>)" using True by simp
  then show ?thesis using True by (metis round_even_of_int)
next
  case False
  then have fr: "of_int \<lfloor>x\<rfloor> < x" using of_int_floor_le[of x] by linarith
  have fl: "\<lfloor>- x\<rfloor> = - \<lfloor>x\<rfloor> - 1"
    using fr by (intro floor_unique) (auto, linarith)
  show ?thesis unfolding round_even_def Let_def fl by auto
qed

section \<open>Values and rounding\<close>

datatype f64 = NaN | Inf (inf_neg: bool) | Fin (fin_val: rat)

definition quantum :: "rat \<Rightarrow> int" where
  "quantum x = max (ilog2 \<bar>x\<bar> - 52) (- 1074)"

definition round_rat :: "rat \<Rightarrow> rat" where
  "round_rat x =
     (if x = 0 then 0 else of_int (round_even (x / pow2 (quantum x))) * pow2 (quantum x))"

definition rnd :: "rat \<Rightarrow> f64" where
  "rnd x = (let y = round_rat x in if 2 ^ 1024 \<le> \<bar>y\<bar> then Inf (y < 0) else Fin y)"

lemma quantum_minus [simp]: "quantum (- x) = quantum x"
  by (simp add: quantum_def)

lemma round_rat_0 [simp]: "round_rat 0 = 0"
  by (simp add: round_rat_def)

lemma round_rat_minus: "round_rat (- x) = - round_rat x"
  by (simp add: round_rat_def round_even_minus)

lemma round_rat_mono_pos:
  assumes "0 < x" "x \<le> y"
  shows "round_rat x \<le> round_rat y"
proof (cases "quantum x = quantum y")
  case True
  have "x / pow2 (quantum y) \<le> y / pow2 (quantum y)" using assms by (simp add: divide_right_mono)
  then show ?thesis using assms True round_even_mono by (simp add: round_rat_def)
next
  case False
  define e where "e = ilog2 y"
  have le: "ilog2 x \<le> e" using ilog2_mono assms by (simp add: e_def)
  have lt: "ilog2 x < e" and qy: "quantum y = e - 52" and qx: "quantum x < quantum y"
    using False le assms by (auto simp: quantum_def e_def max_def split: if_splits)
  have "x < pow2 (ilog2 x + 1)" using assms by (simp add: ilog2_bounds)
  also have "\<dots> \<le> pow2 e" using lt by simp
  finally have xe: "x \<le> pow2 e" by simp
  have ye: "pow2 e \<le> y" using assms by (simp add: ilog2_bounds e_def)
  have "x / pow2 (quantum x) \<le> pow2 e / pow2 (quantum x)" using xe by (simp add: divide_right_mono)
  also have "\<dots> = of_int (2 ^ nat (e - quantum x))"
    using qx qy by (subst pow2_nonneg_int [symmetric]) (auto simp: pow2_diff)
  finally have "round_even (x / pow2 (quantum x)) \<le> 2 ^ nat (e - quantum x)"
    using round_even_mono[of "x / pow2 (quantum x)"] by (metis round_even_of_int)
  then have "(of_int (round_even (x / pow2 (quantum x))) :: rat) \<le> pow2 (e - quantum x)"
    using qx qy by (simp add: pow2_nonneg_int del: of_int_power)
  then have X: "round_rat x \<le> pow2 e"
    using assms by (simp add: round_rat_def pow2_diff pos_le_divide_eq)
  have "of_int (2 ^ nat (e - quantum y)) = pow2 e / pow2 (quantum y)"
    using qy by (subst pow2_nonneg_int [symmetric]) (auto simp: pow2_diff)
  also have "\<dots> \<le> y / pow2 (quantum y)" using ye by (simp add: divide_right_mono)
  finally have "2 ^ nat (e - quantum y) \<le> round_even (y / pow2 (quantum y))"
    using round_even_mono[of _ "y / pow2 (quantum y)"] by (metis round_even_of_int)
  then have "pow2 (e - quantum y) \<le> of_int (round_even (y / pow2 (quantum y)))"
    using qy by (simp add: pow2_nonneg_int del: of_int_power)
  then have "pow2 e \<le> round_rat y"
    using assms by (simp add: round_rat_def pow2_diff pos_divide_le_eq)
  with X show ?thesis by simp
qed

lemma round_rat_nonneg: "0 \<le> x \<Longrightarrow> 0 \<le> round_rat x"
proof -
  assume "0 \<le> x"
  then have "round_even (of_int 0) \<le> round_even (x / pow2 (quantum x))"
    by (intro round_even_mono) simp
  then show ?thesis unfolding round_even_of_int by (simp add: round_rat_def)
qed

lemma round_rat_mono: "x \<le> y \<Longrightarrow> round_rat x \<le> round_rat y"
proof -
  assume le: "x \<le> y"
  consider "0 < x" | "x \<le> 0" "0 \<le> y" | "y < 0" by linarith
  then show ?thesis
  proof cases
    case 1
    then show ?thesis using le by (rule round_rat_mono_pos)
  next
    case 2
    have "0 \<le> round_rat (- x)" using 2 by (intro round_rat_nonneg) simp
    then show ?thesis using 2 round_rat_nonneg[of y] by (simp add: round_rat_minus)
  next
    case 3
    then have "round_rat (- y) \<le> round_rat (- x)" using le by (intro round_rat_mono_pos) auto
    then show ?thesis by (simp add: round_rat_minus)
  qed
qed

text \<open>A multiple of a representable quantum with at most 53 significant bits is exact.\<close>

lemma round_rat_exact:
  assumes "x = of_int m * pow2 k" "\<bar>m\<bar> < 2 ^ 53" "- 1074 \<le> k"
  shows "round_rat x = x"
proof (cases "x = 0")
  case False
  then have m: "m \<noteq> 0" using assms by auto
  have "\<bar>x\<bar> = of_int \<bar>m\<bar> * pow2 k" using assms by (simp add: abs_mult)
  moreover have "(of_int \<bar>m\<bar> :: rat) < of_int (2 ^ 53)" using assms(2) by (simp only: of_int_less_iff)
  moreover have "(of_int (2 ^ 53) :: rat) = pow2 53" by (simp add: pow2_def)
  ultimately have "\<bar>x\<bar> < pow2 (53 + k)" by (simp add: pow2_add)
  then have "pow2 (ilog2 \<bar>x\<bar>) < pow2 (53 + k)" 
    using ilog2_bounds(1)[of "\<bar>x\<bar>"] False order_le_less_trans by fastforce
  then have q: "quantum x \<le> k" using assms(3) by (simp add: quantum_def)
  have "x / pow2 (quantum x) = of_int m * pow2 (k - quantum x)" using assms(1) by (simp add: pow2_diff)
  then have e: "x / pow2 (quantum x) = of_int (m * 2 ^ nat (k - quantum x))"
    using q by (simp add: pow2_nonneg_int)
  have "round_rat x = of_int (m * 2 ^ nat (k - quantum x)) * pow2 (quantum x)"
    unfolding round_rat_def e round_even_of_int using False by simp
  then show ?thesis unfolding e [symmetric] by simp
qed simp

lemma round_rat_int: "\<bar>n\<bar> < 2 ^ 53 \<Longrightarrow> round_rat (of_int n) = of_int n"
  by (rule round_rat_exact[where m = n and k = 0]) auto

lemma rnd_int: "\<bar>n\<bar> < 2 ^ 53 \<Longrightarrow> rnd (of_int n) = Fin (of_int n)"
proof -
  assume a: "\<bar>n\<bar> < 2 ^ 53"
  have "(of_int \<bar>n\<bar> :: rat) < of_int (2 ^ 53)" using a by (simp only: of_int_less_iff)
  also have "\<dots> \<le> 2 ^ 1024" by simp
  finally show ?thesis using a by (simp add: rnd_def round_rat_int)
qed

lemma rnd_0 [simp]: "rnd 0 = Fin 0"
  by (simp add: rnd_def)

lemma rnd_numeral [simp]: "(numeral w :: int) < 2 ^ 53 \<Longrightarrow> rnd (numeral w) = Fin (numeral w)"
  using rnd_int[of "numeral w"] by simp

lemma rnd_neg_numeral [simp]: "(numeral w :: int) < 2 ^ 53 \<Longrightarrow> rnd (- numeral w) = Fin (- numeral w)"
  using rnd_int[of "- numeral w"] by simp

lemma rnd_1 [simp]: "rnd 1 = Fin 1" "rnd (- 1) = Fin (- 1)"
  using rnd_int[of 1] rnd_int[of "- 1"] by simp_all

lemma rnd_nat: "n < 2 ^ 53 \<Longrightarrow> rnd (of_nat n) = Fin (of_nat n)"
  using rnd_int[of "int n"] by simp

lemma rnd_not_NaN [simp]: "rnd x \<noteq> NaN"
  by (simp add: rnd_def Let_def)

text \<open>
  For evaluation: multiples of \<open>2\<^bsup>-20\<^esup>\<close> with a 53-bit numerator are exact, so the general
  rounding is computed for other arguments only.
\<close>

definition rnd_general :: "rat \<Rightarrow> f64" where
  "rnd_general x = (let y = round_rat x in if 2 ^ 1024 \<le> \<bar>y\<bar> then Inf (y < 0) else Fin y)"

lemma rnd_exact:
  assumes "x * 1048576 = of_int m" "\<bar>m\<bar> < 2 ^ 53"
  shows "rnd x = Fin x"
proof -
  have "x = of_int m * pow2 (- 20)" using assms(1) by (simp add: pow2_def field_simps)
  then have r: "round_rat x = x" by (rule round_rat_exact) (use assms(2) in auto)
  have "(of_int \<bar>m\<bar> :: rat) < of_int (2 ^ 53)" using assms(2) by (simp only: of_int_less_iff)
  moreover have "\<bar>x\<bar> \<le> of_int \<bar>m\<bar>" using assms(1) by (simp add: abs_if split: if_splits)
  ultimately have "\<bar>x\<bar> < 2 ^ 53" by simp
  also have "(2 ^ 53 :: rat) \<le> 2 ^ 1024" by simp
  finally show ?thesis by (simp add: rnd_def r)
qed

lemma rnd_code [code]:
  "rnd x = (let m = \<lfloor>x * 1048576\<rfloor> in
     if of_int m = x * 1048576 \<and> - 9007199254740992 < m \<and> m < 9007199254740992 then Fin x
     else rnd_general x)"
proof -
  define m where "m = \<lfloor>x * 1048576\<rfloor>"
  have g: "rnd_general x = rnd x" by (simp only: rnd_general_def rnd_def)
  have "rnd x = Fin x" if "of_int m = x * 1048576" "- 9007199254740992 < m" "m < 9007199254740992"
    using that by (intro rnd_exact[of x m]) auto
  then show ?thesis unfolding Let_def m_def [symmetric] g by (simp only: if_cancel split: if_split) blast
qed

lemma rnd_general_code [code]:
  "rnd_general x = (let y = round_rat x in
     if \<bar>y\<bar> < 9007199254740992 then Fin y
     else if 2 ^ 1024 \<le> \<bar>y\<bar> then Inf (y < 0) else Fin y)"
  by (simp add: rnd_general_def Let_def)

text \<open>A value of the format: rounding leaves it alone.\<close>

fun f64_ok :: "f64 \<Rightarrow> bool" where
  "f64_ok (Fin r) = (rnd r = Fin r)"
| "f64_ok _ = True"

section \<open>Comparisons\<close>

fun flt :: "f64 \<Rightarrow> f64 \<Rightarrow> bool" where
  "flt (Fin x) (Fin y) = (x < y)"
| "flt (Fin x) (Inf s) = (\<not> s)"
| "flt (Inf s) (Fin y) = s"
| "flt (Inf s) (Inf t) = (s \<and> \<not> t)"
| "flt _ _ = False"

fun fle :: "f64 \<Rightarrow> f64 \<Rightarrow> bool" where
  "fle (Fin x) (Fin y) = (x \<le> y)"
| "fle (Fin x) (Inf s) = (\<not> s)"
| "fle (Inf s) (Fin y) = s"
| "fle (Inf s) (Inf t) = (s \<or> \<not> t)"
| "fle _ _ = False"

abbreviation fgt :: "f64 \<Rightarrow> f64 \<Rightarrow> bool" where "fgt x y \<equiv> flt y x"
abbreviation fge :: "f64 \<Rightarrow> f64 \<Rightarrow> bool" where "fge x y \<equiv> fle y x"

definition feq :: "f64 \<Rightarrow> f64 \<Rightarrow> bool" where
  "feq x y = (x \<noteq> NaN \<and> x = y)"

definition isfinite :: "f64 \<Rightarrow> bool" where
  "isfinite x = (case x of Fin _ \<Rightarrow> True | _ \<Rightarrow> False)"

lemma isfinite_simps [simp]: "isfinite (Fin r)" "\<not> isfinite NaN" "\<not> isfinite (Inf s)"
  by (simp_all add: isfinite_def)

lemma isfiniteE: "isfinite x \<Longrightarrow> (\<And>r. x = Fin r \<Longrightarrow> P) \<Longrightarrow> P"
  by (cases x) auto

lemma flt_irrefl [simp]: "\<not> flt x x" by (cases x) auto
lemma flt_NaN [simp]: "\<not> flt NaN x" "\<not> flt x NaN" by (cases x; simp)+
lemma fle_NaN [simp]: "\<not> fle NaN x" "\<not> fle x NaN" by (cases x; simp)+
lemma fle_refl: "fle x x \<longleftrightarrow> x \<noteq> NaN" by (cases x) auto
lemma flt_imp_fle: "flt x y \<Longrightarrow> fle x y" by (cases x; cases y) auto
lemma flt_trans: "flt x y \<Longrightarrow> flt y z \<Longrightarrow> flt x z" by (cases x; cases y; cases z) auto
lemma fle_trans: "fle x y \<Longrightarrow> fle y z \<Longrightarrow> fle x z" by (cases x; cases y; cases z) auto
lemma flt_fle_trans: "flt x y \<Longrightarrow> fle y z \<Longrightarrow> flt x z" by (cases x; cases y; cases z) auto
lemma fle_flt_trans: "fle x y \<Longrightarrow> flt y z \<Longrightarrow> flt x z" by (cases x; cases y; cases z) auto
lemma flt_asym: "flt x y \<Longrightarrow> \<not> flt y x" by (cases x; cases y) auto
lemma flt_not_fle: "flt x y \<Longrightarrow> \<not> fle y x" by (cases x; cases y) auto
lemma not_flt_iff: "x \<noteq> NaN \<Longrightarrow> y \<noteq> NaN \<Longrightarrow> \<not> flt x y \<longleftrightarrow> fle y x" by (cases x; cases y) auto
lemma not_fle_iff: "x \<noteq> NaN \<Longrightarrow> y \<noteq> NaN \<Longrightarrow> \<not> fle x y \<longleftrightarrow> flt y x" by (cases x; cases y) auto
lemma fle_antisym: "fle x y \<Longrightarrow> fle y x \<Longrightarrow> x = y" by (cases x; cases y) auto

lemma rnd_mono: "x \<le> y \<Longrightarrow> fle (rnd x) (rnd y)"
  using round_rat_mono[of x y] by (auto simp: rnd_def Let_def)

lemma rnd_minus_Inf: "rnd (- x) = Inf s \<longleftrightarrow> rnd x = Inf (\<not> s)"
proof -
  have "(2 :: rat) ^ 1024 \<le> \<bar>round_rat x\<bar> \<Longrightarrow> round_rat x \<noteq> 0" by auto
  then show ?thesis by (auto simp: rnd_def Let_def round_rat_minus)
qed

lemma rnd_minus_Fin: "rnd (- x) = Fin r \<longleftrightarrow> rnd x = Fin (- r)"
  by (auto simp: rnd_def Let_def round_rat_minus)

section \<open>Arithmetic\<close>

fun fneg :: "f64 \<Rightarrow> f64" where
  "fneg NaN = NaN" | "fneg (Inf s) = Inf (\<not> s)" | "fneg (Fin x) = Fin (- x)"

fun fabs :: "f64 \<Rightarrow> f64" where
  "fabs NaN = NaN" | "fabs (Inf s) = Inf False" | "fabs (Fin x) = Fin \<bar>x\<bar>"

fun fadd :: "f64 \<Rightarrow> f64 \<Rightarrow> f64" where
  "fadd (Fin x) (Fin y) = rnd (x + y)"
| "fadd (Inf s) (Inf t) = (if s = t then Inf s else NaN)"
| "fadd (Inf s) (Fin y) = Inf s"
| "fadd (Fin x) (Inf t) = Inf t"
| "fadd _ _ = NaN"

definition fsub :: "f64 \<Rightarrow> f64 \<Rightarrow> f64" where
  "fsub x y = fadd x (fneg y)"

fun fmul :: "f64 \<Rightarrow> f64 \<Rightarrow> f64" where
  "fmul (Fin x) (Fin y) = rnd (x * y)"
| "fmul (Inf s) (Inf t) = Inf (s \<noteq> t)"
| "fmul (Inf s) (Fin y) = (if y = 0 then NaN else Inf (s \<noteq> (y < 0)))"
| "fmul (Fin x) (Inf t) = (if x = 0 then NaN else Inf ((x < 0) \<noteq> t))"
| "fmul _ _ = NaN"

fun fdiv :: "f64 \<Rightarrow> f64 \<Rightarrow> f64" where
  "fdiv (Fin x) (Fin y) = (if y = 0 then (if x = 0 then NaN else Inf (x < 0)) else rnd (x / y))"
| "fdiv (Inf s) (Fin y) = Inf (s \<noteq> (y < 0))"
| "fdiv (Fin x) (Inf t) = Fin 0"
| "fdiv _ _ = NaN"

definition f64_of_int :: "int \<Rightarrow> f64" where
  "f64_of_int n = rnd (of_int n)"

abbreviation f64_of_nat :: "nat \<Rightarrow> f64" where
  "f64_of_nat n \<equiv> f64_of_int (int n)"

text \<open>Python's two-argument \<open>max\<close> and \<open>min\<close>: the first argument unless the second is strictly better.\<close>

definition py_max :: "f64 \<Rightarrow> f64 \<Rightarrow> f64" where "py_max a b = (if flt a b then b else a)"
definition py_min :: "f64 \<Rightarrow> f64 \<Rightarrow> f64" where "py_min a b = (if flt b a then b else a)"

text \<open>NumPy's \<open>maximum\<close> and \<open>minimum\<close>: a NaN wins.\<close>

definition np_maximum :: "f64 \<Rightarrow> f64 \<Rightarrow> f64" where
  "np_maximum a b = (if a = NaN \<or> b = NaN then NaN else if flt a b then b else a)"
definition np_minimum :: "f64 \<Rightarrow> f64 \<Rightarrow> f64" where
  "np_minimum a b = (if a = NaN \<or> b = NaN then NaN else if flt b a then b else a)"

lemma fneg_fneg [simp]: "fneg (fneg x) = x" by (cases x) auto
lemma fneg_eq_NaN [simp]: "fneg x = NaN \<longleftrightarrow> x = NaN" by (cases x) auto
lemma fneg_flt [simp]: "flt (fneg x) (fneg y) = flt y x" by (cases x; cases y) auto
lemma fneg_fle [simp]: "fle (fneg x) (fneg y) = fle y x" by (cases x; cases y) auto
lemma fneg_rnd: "fneg (rnd x) = rnd (- x)"
proof (cases "rnd x")
  case (Inf s)
  then have "rnd (- x) = Inf (\<not> s)" by (simp add: rnd_minus_Inf)
  then show ?thesis using Inf by simp
next
  case (Fin r)
  then have "rnd (- x) = Fin (- r)" by (simp add: rnd_minus_Fin)
  then show ?thesis using Fin by simp
qed simp
lemma isfinite_fneg [simp]: "isfinite (fneg x) = isfinite x" by (cases x) auto
lemma f64_ok_fneg: "f64_ok (fneg x) = f64_ok x"
  using rnd_minus_Fin[of "fin_val x" "- fin_val x"] by (cases x) auto

lemma py_max_ge: "\<not> flt (py_max a b) a" "a \<noteq> NaN \<Longrightarrow> \<not> flt (py_max a b) b"
  by (auto simp: py_max_def flt_asym)
lemma py_min_le: "\<not> flt a (py_min a b)" "a \<noteq> NaN \<Longrightarrow> \<not> flt b (py_min a b)"
  by (auto simp: py_min_def flt_asym)
lemma py_min_neg: "py_min (fneg a) (fneg b) = fneg (py_max a b)" by (simp add: py_min_def py_max_def)
lemma py_max_neg: "py_max (fneg a) (fneg b) = fneg (py_min a b)" by (simp add: py_min_def py_max_def)

lemma fadd_commute: "fadd x y = fadd y x" by (cases x; cases y) (auto simp: add.commute)

text \<open>Rounded addition keeps the order; in particular adding something non-negative never moves below.\<close>

lemma fle_Inf [simp]: "fle (Inf True) x \<longleftrightarrow> x \<noteq> NaN" "fle x (Inf False) \<longleftrightarrow> x \<noteq> NaN"
  by (cases x; simp)+

lemma fadd_mono:
  assumes "fle y z" "fadd x y \<noteq> NaN" "fadd x z \<noteq> NaN"
  shows "fle (fadd x y) (fadd x z)"
proof (cases x)
  case (Fin r)
  show ?thesis
  proof (cases y; cases z)
    fix a b assume "y = Fin a" "z = Fin b"
    then show ?thesis using assms(1) Fin by (simp add: rnd_mono)
  qed (use assms Fin in auto)
next
  case (Inf s)
  then show ?thesis using assms by (cases y; cases z) (auto split: if_splits simp: fle_refl)
qed (use assms in auto)

lemma fadd_nonneg_ge:
  assumes "f64_ok x" "x \<noteq> NaN" "fle (Fin 0) d" "fadd x d \<noteq> NaN"
  shows "fle x (fadd x d)"
proof -
  have "fadd x (Fin 0) = x" using assms(1,2) by (cases x) auto
  then show ?thesis using fadd_mono[OF assms(3), of x] assms(2,4) by simp
qed

lemma fsub_nonneg_le:
  assumes "f64_ok x" "x \<noteq> NaN" "fle (Fin 0) d" "fsub x d \<noteq> NaN"
  shows "fle (fsub x d) x"
proof -
  have "fadd x (Fin 0) = x" using assms(1,2) by (cases x) auto
  moreover have "fle (fneg d) (Fin 0)" using assms(3) by (cases d) auto
  ultimately show ?thesis using fadd_mono[of "fneg d" "Fin 0" x] assms(2,4) by (simp add: fsub_def)
qed

lemma rnd_nonneg: "0 \<le> x \<Longrightarrow> fle (Fin 0) (rnd x)"
  using rnd_mono[of 0 x] by simp

lemma fmul_nonneg: "fle (Fin 0) x \<Longrightarrow> fle (Fin 0) y \<Longrightarrow> fmul x y \<noteq> NaN \<Longrightarrow> fle (Fin 0) (fmul x y)"
  by (cases x; cases y) (auto intro: rnd_nonneg split: if_splits)

lemma fdiv_nonneg: "fle (Fin 0) x \<Longrightarrow> flt (Fin 0) y \<Longrightarrow> fdiv x y \<noteq> NaN \<Longrightarrow> fle (Fin 0) (fdiv x y)"
  by (cases x; cases y) (auto intro: rnd_nonneg split: if_splits)

lemma fabs_nonneg: "x \<noteq> NaN \<Longrightarrow> fle (Fin 0) (fabs x)" by (cases x) auto

lemma f64_of_nat_eq: "n < 2 ^ 53 \<Longrightarrow> f64_of_nat n = Fin (of_nat n)"
  by (simp add: f64_of_int_def rnd_nat)

lemma f64_of_int_finite: "\<bar>n\<bar> < 2 ^ 53 \<Longrightarrow> f64_of_int n = Fin (of_int n)"
  by (simp add: f64_of_int_def rnd_int)

section \<open>Order\<close>

text \<open>
  The comparison as a linear order, with NaN above everything: on numbers it is \<open>fle\<close>, so that
  sorting and sorted insertion of the library are those of Python's lists of numbers.
\<close>

instantiation f64 :: linorder
begin

definition less_eq_f64 :: "f64 \<Rightarrow> f64 \<Rightarrow> bool" where
  "less_eq_f64 x y \<longleftrightarrow> y = NaN \<or> fle x y"

definition less_f64 :: "f64 \<Rightarrow> f64 \<Rightarrow> bool" where
  "less_f64 x y \<longleftrightarrow> x \<noteq> NaN \<and> (y = NaN \<or> flt x y)"

instance
proof
  fix x y z :: f64
  show "x \<le> x" by (simp add: less_eq_f64_def fle_refl)
  show "x < y \<longleftrightarrow> x \<le> y \<and> \<not> y \<le> x" by (cases x; cases y) (auto simp: less_eq_f64_def less_f64_def)
  show "x \<le> y \<Longrightarrow> y \<le> z \<Longrightarrow> x \<le> z" by (auto simp: less_eq_f64_def intro: fle_trans)
  show "x \<le> y \<Longrightarrow> y \<le> x \<Longrightarrow> x = y" by (auto simp: less_eq_f64_def intro: fle_antisym)
  show "x \<le> y \<or> y \<le> x" by (cases x; cases y) (auto simp: less_eq_f64_def)
qed

end

lemma f64_order: "x \<noteq> NaN \<Longrightarrow> y \<noteq> NaN \<Longrightarrow> x \<le> y \<longleftrightarrow> fle x y"
  by (simp add: less_eq_f64_def)

end
