(* ===== verification/Prelude.thy ===== *)
theory Prelude
  imports Float64
begin

text \<open>
  What every component shares: the errors the engine raises as values, results
  (\<open>err + 'a\<close>) with their sequencing operators, JSON documents (the untyped
  \<open>raw_spec\<close> the engine receives: a Python \<open>Mapping\<close> is a \<open>JObj\<close>, a list
  or tuple a \<open>JList\<close>), the readers \<open>_mapping\<close>, \<open>get\<close> and their kin,
  and generic list lemmas.  Facts about results are collected in \<open>res_simps\<close>.
\<close>

named_theorems res_simps \<open>unfolding rules for results\<close>

section \<open>Errors and results\<close>

text \<open>
  The engine's own exceptions (\<open>domain/errors.py\<close>) carry the message; details
  dictionaries are dropped.  The Python exceptions a modelled expression can raise are listed
  with the argument that distinguishes them.
\<close>

datatype err =
    InvalidRequest string
  | UnknownResource string
  | UnsupportedCapability string
  | EvaluationInvariant string
  | MarketStreamNotFound string
  | MarketDataUnavailable string
  | UpstreamContract string
  | MarketStreamNotReady string
  | TargetBarNotCommitted string
  | TradeHistoryUnavailable string
  | MarketDataVersionChanged string
  | PyValueError string
  | PyTypeError string
  | PyKeyError string
  | PyIndexError
  | PyOverflowError
  | PyZeroDivisionError
  | PyAssertionError

type_synonym 'a res = "err + 'a"

text \<open>Stable error code and HTTP status of the engine's own exceptions.\<close>

fun error_code :: "err \<Rightarrow> (string \<times> int) option" where
  "error_code (InvalidRequest _) = Some (''invalid_request'', 422)"
| "error_code (UnknownResource _) = Some (''unknown_resource'', 404)"
| "error_code (UnsupportedCapability _) = Some (''unsupported_capability'', 501)"
| "error_code (EvaluationInvariant _) = Some (''evaluation_invariant_broken'', 500)"
| "error_code (MarketStreamNotFound _) = Some (''market_stream_not_found'', 404)"
| "error_code (MarketDataUnavailable _) = Some (''market_data_unavailable'', 503)"
| "error_code (UpstreamContract _) = Some (''upstream_contract_error'', 502)"
| "error_code (MarketStreamNotReady _) = Some (''market_stream_not_ready'', 409)"
| "error_code (TargetBarNotCommitted _) = Some (''target_bar_not_committed'', 409)"
| "error_code (TradeHistoryUnavailable _) = Some (''trade_history_unavailable'', 409)"
| "error_code (MarketDataVersionChanged _) = Some (''market_data_version_changed'', 409)"
| "error_code _ = None"

definition bindR :: "'a res \<Rightarrow> ('a \<Rightarrow> 'b res) \<Rightarrow> 'b res" where
  "bindR m f = (case m of Inl e \<Rightarrow> Inl e | Inr x \<Rightarrow> f x)"

text \<open>\<open>if cond: raise e\<close> followed by the rest.\<close>

definition raise_if :: "bool \<Rightarrow> err \<Rightarrow> 'a res \<Rightarrow> 'a res" where
  "raise_if c e k = (if c then Inl e else k)"

definition is_ok :: "'a res \<Rightarrow> bool" where
  "is_ok r = (case r of Inl _ \<Rightarrow> False | Inr _ \<Rightarrow> True)"

fun mapR :: "('a \<Rightarrow> 'b res) \<Rightarrow> 'a list \<Rightarrow> 'b list res" where
  "mapR f [] = Inr []"
| "mapR f (x # xs) = bindR (f x) (\<lambda>y. bindR (mapR f xs) (\<lambda>ys. Inr (y # ys)))"

fun foldR :: "('s \<Rightarrow> 'a \<Rightarrow> 's res) \<Rightarrow> 's \<Rightarrow> 'a list \<Rightarrow> 's res" where
  "foldR f s [] = Inr s"
| "foldR f s (x # xs) = bindR (f s x) (\<lambda>s'. foldR f s' xs)"

lemma bindR_simps [simp, res_simps]: "bindR (Inl e) f = Inl e" "bindR (Inr x) f = f x"
  by (simp_all add: bindR_def)

lemma bindR_Inr [res_simps]: "bindR m f = Inr y \<longleftrightarrow> (\<exists>x. m = Inr x \<and> f x = Inr y)"
  by (cases m) auto

lemma bindR_Inl: "bindR m f = Inl e \<longleftrightarrow> m = Inl e \<or> (\<exists>x. m = Inr x \<and> f x = Inl e)"
  by (cases m) auto

lemma bindRE: "bindR m f = Inr y \<Longrightarrow> (\<And>x. m = Inr x \<Longrightarrow> f x = Inr y \<Longrightarrow> P) \<Longrightarrow> P"
  by (cases m) auto

lemma raise_if_simps [simp, res_simps]: "raise_if True e k = Inl e" "raise_if False e k = k"
  by (simp_all add: raise_if_def)

lemma raise_if_Inr [res_simps]: "raise_if c e k = Inr y \<longleftrightarrow> \<not> c \<and> k = Inr y"
  by (simp add: raise_if_def)

lemma is_ok_simps [simp]: "\<not> is_ok (Inl e)" "is_ok (Inr x)"
  by (simp_all add: is_ok_def)

lemma mapR_length: "mapR f xs = Inr ys \<Longrightarrow> length ys = length xs"
  by (induction xs arbitrary: ys) (auto simp: bindR_Inr)

lemma mapR_nth: "mapR f xs = Inr ys \<Longrightarrow> i < length xs \<Longrightarrow> f (xs ! i) = Inr (ys ! i)"
  by (induction xs arbitrary: ys i) (auto simp: bindR_Inr nth_Cons split: nat.splits)

lemma mapR_set: "mapR f xs = Inr ys \<Longrightarrow> y \<in> set ys \<Longrightarrow> \<exists>x \<in> set xs. f x = Inr y"
  by (induction xs arbitrary: ys) (auto simp: bindR_Inr)

lemma mapR_ok: "(\<And>x. x \<in> set xs \<Longrightarrow> f x = Inr (g x)) \<Longrightarrow> mapR f xs = Inr (map g xs)"
  by (induction xs) auto

text \<open>An invariant every successful step keeps holds after the whole loop.\<close>

lemma foldR_invariant:
  assumes "foldR f s xs = Inr t" "P s" "\<And>s x s'. x \<in> set xs \<Longrightarrow> P s \<Longrightarrow> f s x = Inr s' \<Longrightarrow> P s'"
  shows "P t"
  using assms by (induction xs arbitrary: s) (auto simp: bindR_Inr)

text \<open>A relation between consecutive states that is reflexive and transitive relates the ends.\<close>

lemma foldR_relation:
  assumes "foldR f s xs = Inr t" "\<And>s. R s s" "\<And>a b c. R a b \<Longrightarrow> R b c \<Longrightarrow> R a c"
    "\<And>s x s'. x \<in> set xs \<Longrightarrow> f s x = Inr s' \<Longrightarrow> R s s'"
  shows "R s t"
  using assms(1,4)
proof (induction xs arbitrary: s)
  case Nil
  then show ?case using assms(2) by simp
next
  case (Cons x xs)
  from Cons.prems(1) obtain s' where s': "f s x = Inr s'" "foldR f s' xs = Inr t"
    by (auto simp: bindR_Inr)
  have step: "R s s'" using Cons.prems(2) s'(1) by (meson list.set_intros(1))
  have rest: "\<And>s y s'. y \<in> set xs \<Longrightarrow> f s y = Inr s' \<Longrightarrow> R s s'"
    using Cons.prems(2) by (meson list.set_intros(2))
  have "R s' t" by (rule Cons.IH [OF s'(2)]) (rule rest)
  with step show ?case by (rule assms(3))
qed

lemma foldR_append: "foldR f s (xs @ ys) = bindR (foldR f s xs) (\<lambda>s'. foldR f s' ys)"
  by (induction xs arbitrary: s) (simp_all add: bindR_def split: sum.splits)

text \<open>A loop that threads a state and collects one value per item.\<close>

fun mapS :: "('s \<Rightarrow> 'a \<Rightarrow> ('s \<times> 'b) res) \<Rightarrow> 's \<Rightarrow> 'a list \<Rightarrow> ('s \<times> 'b list) res" where
  "mapS f s [] = Inr (s, [])"
| "mapS f s (x # xs) = bindR (f s x) (\<lambda>(s', y). bindR (mapS f s' xs) (\<lambda>(s'', ys). Inr (s'', y # ys)))"

lemma mapS_relation:
  assumes "mapS f s xs = Inr (t, ys)" "\<And>s. R s s" "\<And>a b c. R a b \<Longrightarrow> R b c \<Longrightarrow> R a c"
    "\<And>s x t y. x \<in> set xs \<Longrightarrow> f s x = Inr (t, y) \<Longrightarrow> R s t"
  shows "R s t"
  using assms(1,4)
proof (induction xs arbitrary: s ys)
  case Nil
  then show ?case using assms(2) by simp
next
  case (Cons x xs)
  then obtain s1 y1 zs where st: "f s x = Inr (s1, y1)" "mapS f s1 xs = Inr (t, zs)" by (auto simp: bindR_Inr)
  have a: "R s s1" by (rule Cons.prems(2)[OF _ st(1)]) simp
  have b: "R s1 t" by (rule Cons.IH[OF st(2)]) (rule Cons.prems(2), simp_all)
  from a b show ?case by (rule assms(3))
qed

lemma mapS_length: "mapS f s xs = Inr (t, ys) \<Longrightarrow> length ys = length xs"
  by (induction xs arbitrary: s ys) (auto simp: bindR_Inr)

text \<open>The step of the item at a position, and the steps after it.\<close>

lemma mapS_nth:
  assumes "mapS f s xs = Inr (t, ys)" "j < length xs"
  shows "\<exists>s1 t1. mapS f s (take j xs) = Inr (s1, take j ys) \<and> f s1 (xs ! j) = Inr (t1, ys ! j) \<and>
    mapS f t1 (drop (Suc j) xs) = Inr (t, drop (Suc j) ys)"
  using assms
proof (induction xs arbitrary: s ys j)
  case (Cons x xs)
  obtain s1 y zs where st: "f s x = Inr (s1, y)" "mapS f s1 xs = Inr (t, zs)" "ys = y # zs"
    using Cons.prems(1) by (auto simp: bindR_Inr)
  show ?case
  proof (cases j)
    case 0
    then show ?thesis using st by simp
  next
    case (Suc i)
    obtain u v where "mapS f s1 (take i xs) = Inr (u, take i zs)" "f u (xs ! i) = Inr (v, zs ! i)"
      "mapS f v (drop (Suc i) xs) = Inr (t, drop (Suc i) zs)"
      using Cons.IH[OF st(2), of i] Cons.prems(2) Suc by auto
    then show ?thesis using st Suc by simp
  qed
qed simp

section \<open>JSON documents\<close>

datatype json =
    JNull
  | JBool bool
  | JInt int
  | JFloat f64
  | JStr string
  | JList "json list"
  | JObj "(string \<times> json) list"

type_synonym obj = "(string \<times> json) list"

definition has_key :: "obj \<Rightarrow> string \<Rightarrow> bool" where
  "has_key ob k = (k \<in> set (map fst ob))"

text \<open>\<open>payload.get(key, default)\<close> and \<open>payload.get(key)\<close>.\<close>

definition get_or :: "obj \<Rightarrow> string \<Rightarrow> json \<Rightarrow> json" where
  "get_or ob k d = (case map_of ob k of None \<Rightarrow> d | Some v \<Rightarrow> v)"

definition get :: "obj \<Rightarrow> string \<Rightarrow> json" where
  "get ob k = get_or ob k JNull"

text \<open>\<open>set(payload) - allowed\<close>, in declared order.\<close>

definition unknown_fields :: "obj \<Rightarrow> string list \<Rightarrow> string list" where
  "unknown_fields ob allowed = filter (\<lambda>k. k \<notin> set allowed) (map fst ob)"

fun as_mapping :: "json \<Rightarrow> obj option" where
  "as_mapping (JObj ob) = Some ob"
| "as_mapping _ = None"

fun is_mapping :: "json \<Rightarrow> bool" where
  "is_mapping (JObj _) = True"
| "is_mapping _ = False"

text \<open>Truth value of a JSON document in a Python condition.\<close>

fun truthy :: "json \<Rightarrow> bool" where
  "truthy JNull = False"
| "truthy (JBool b) = b"
| "truthy (JInt n) = (n \<noteq> 0)"
| "truthy (JFloat x) = (x \<noteq> Fin 0)"
| "truthy (JStr s) = (s \<noteq> [])"
| "truthy (JList xs) = (xs \<noteq> [])"
| "truthy (JObj ob) = (ob \<noteq> [])"

definition require_mapping :: "json \<Rightarrow> string \<Rightarrow> obj res" where
  "require_mapping v path =
     (case v of JObj ob \<Rightarrow> Inr ob | _ \<Rightarrow> Inl (InvalidRequest (path @ '' must be an object'')))"

lemma require_mapping_Inr [res_simps]: "require_mapping v path = Inr ob \<longleftrightarrow> v = JObj ob"
  by (cases v) (auto simp: require_mapping_def)

lemma require_mapping_JObj [simp]: "require_mapping (JObj ob) path = Inr ob"
  by (simp add: require_mapping_def)

section \<open>Decimal numerals\<close>

fun show_nat :: "nat \<Rightarrow> string" where
  "show_nat n = (if n < 10 then [char_of (48 + n)] else show_nat (n div 10) @ [char_of (48 + n mod 10)])"

declare show_nat.simps [simp del]

definition show_int :: "int \<Rightarrow> string" where
  "show_int n = (if n < 0 then ''-'' @ show_nat (nat (- n)) else show_nat (nat n))"

definition is_digit :: "char \<Rightarrow> bool" where
  "is_digit c = (48 \<le> (of_char c :: nat) \<and> (of_char c :: nat) \<le> 57)"

definition digit_val :: "char \<Rightarrow> nat" where
  "digit_val c = of_char c - 48"

definition digits_val :: "string \<Rightarrow> nat" where
  "digits_val ds = foldl (\<lambda>n c. 10 * n + digit_val c) 0 ds"

text \<open>\<open>f"{path}[{index}]"\<close>\<close>

definition at_index :: "string \<Rightarrow> nat \<Rightarrow> string" where
  "at_index path i = path @ ''['' @ show_nat i @ '']''"

lemma digit_char: "d < 10 \<Longrightarrow> is_digit (char_of (48 + d)) \<and> digit_val (char_of (48 + d)) = d"
proof -
  assume d: "d < 10"
  have "(of_char (char_of (48 + d) :: char) :: nat) = 48 + d" using d by simp
  then show ?thesis using d by (simp add: is_digit_def digit_val_def)
qed

lemma digits_val_snoc: "digits_val (ds @ [c]) = 10 * digits_val ds + digit_val c"
  by (simp add: digits_val_def)

lemma show_nat_digits: "show_nat n \<noteq> [] \<and> list_all is_digit (show_nat n) \<and> digits_val (show_nat n) = n"
proof (induction n rule: show_nat.induct)
  case (1 n)
  have "digits_val [c] = digit_val c" for c using digits_val_snoc[of "[]" c] by (simp add: digits_val_def)
  then show ?case using 1 digit_char[of n] digit_char[of "n mod 10"]
    by (subst (1 2 3) show_nat.simps) (auto simp: digits_val_snoc)
qed

lemma show_nat_inj: "show_nat m = show_nat n \<Longrightarrow> m = n"
  using show_nat_digits by metis

section \<open>Lists\<close>

lemma nth_append_last [simp]: "(xs @ [x]) ! length xs = x"
  by simp

lemma take_Suc_snoc: "n < length xs \<Longrightarrow> take (Suc n) xs = take n xs @ [xs ! n]"
  by (simp add: take_Suc_conv_app_nth)

lemma list_eq_nthI: "length xs = length ys \<Longrightarrow> (\<And>i. i < length xs \<Longrightarrow> xs ! i = ys ! i) \<Longrightarrow> xs = ys"
  by (simp add: list_eq_iff_nth_eq)

text \<open>First-occurrence order without duplicates: \<open>tuple(dict.fromkeys(xs))\<close>.\<close>

definition dedup :: "'a list \<Rightarrow> 'a list" where
  "dedup xs = rev (remdups (rev xs))"

lemma set_dedup [simp]: "set (dedup xs) = set xs"
  by (simp add: dedup_def)

lemma distinct_dedup [simp]: "distinct (dedup xs)"
  by (simp add: dedup_def)

text \<open>\<open>tuple.index(x)\<close>: the first position, or a \<open>ValueError\<close>.\<close>

fun index_of :: "'a \<Rightarrow> 'a list \<Rightarrow> nat option" where
  "index_of x [] = None"
| "index_of x (y # ys) = (if x = y then Some 0 else map_option Suc (index_of x ys))"

lemma index_of_Some: "index_of x xs = Some i \<Longrightarrow> i < length xs \<and> xs ! i = x"
  by (induction xs arbitrary: i) (auto split: if_splits)

lemma index_of_None: "index_of x xs = None \<longleftrightarrow> x \<notin> set xs"
  by (induction xs) auto

text \<open>Python's \<open>xs[i]\<close> on a list for a non-negative index.\<close>

definition item :: "'a list \<Rightarrow> nat \<Rightarrow> 'a res" where
  "item xs i = (if i < length xs then Inr (xs ! i) else Inl PyIndexError)"

lemma item_Inr [res_simps]: "item xs i = Inr x \<longleftrightarrow> i < length xs \<and> xs ! i = x"
  by (simp add: item_def)

lemma item_ok [simp]: "i < length xs \<Longrightarrow> item xs i = Inr (xs ! i)"
  by (simp add: item_def)

section \<open>Scans: one state transition per bar\<close>

text \<open>
  A causal pass over the bars: the step reads the state and the next input, and emits one row.
  The run over a prefix of the inputs is the prefix of the run.
\<close>

fun scan :: "('s \<Rightarrow> 'a \<Rightarrow> 's \<times> 'b) \<Rightarrow> 's \<Rightarrow> 'a list \<Rightarrow> 's \<times> 'b list" where
  "scan f s [] = (s, [])"
| "scan f s (x # xs) =
     (let (s1, y) = f s x; (s2, ys) = scan f s1 xs in (s2, y # ys))"

lemma scan_length: "length (snd (scan f s xs)) = length xs"
  by (induction xs arbitrary: s) (auto simp: split_beta)

lemma scan_append:
  "scan f s (xs @ ys) = (let (s1, us) = scan f s xs; (s2, vs) = scan f s1 ys in (s2, us @ vs))"
  by (induction xs arbitrary: s) (auto simp: split_beta Let_def)

lemma scan_take: "snd (scan f s (take n xs)) = take n (snd (scan f s xs))"
proof -
  have "snd (scan f s xs) = snd (scan f s (take n xs)) @ snd (scan f (fst (scan f s (take n xs))) (drop n xs))"
    using scan_append[of f s "take n xs" "drop n xs"] by (simp add: split_beta Let_def)
  moreover have "length (snd (scan f s (take n xs))) = min n (length xs)"
    by (simp add: scan_length min.commute)
  ultimately show ?thesis using scan_length[of f s xs]
    by (cases "n \<le> length xs") (simp_all add: min_def)
qed

lemma scan_nth:
  assumes "i < length xs"
  shows "snd (scan f s xs) ! i = snd (f (fst (scan f s (take i xs))) (xs ! i))"
proof -
  have xs: "xs = take i xs @ xs ! i # drop (Suc i) xs" using assms by (simp add: id_take_nth_drop)
  have len: "length (snd (scan f s (take i xs))) = i" using assms by (simp add: scan_length)
  show ?thesis using len by (subst xs) (simp add: scan_append split_beta Let_def nth_append)
qed

lemma scan_snoc:
  "scan f s (xs @ [x]) =
     (fst (f (fst (scan f s xs)) x), snd (scan f s xs) @ [snd (f (fst (scan f s xs)) x)])"
  by (simp add: scan_append split_beta Let_def)

text \<open>The contract of a machine with an invariant, proved once for every scan.\<close>

locale bar_machine =
  fixes step :: "'s \<Rightarrow> 'a \<Rightarrow> 's \<times> 'b"
    and init :: "'s"
    and inv :: "'a list \<Rightarrow> 's \<Rightarrow> bool"
  assumes inv_init: "inv [] init"
    and inv_step: "inv xs s \<Longrightarrow> inv (xs @ [x]) (fst (step s x))"
begin

lemma inv_run: "inv xs (fst (scan step init xs))"
  by (induction xs rule: rev_induct) (simp_all add: inv_init inv_step scan_snoc)

lemma inv_before: "inv (take i xs) (fst (scan step init (take i xs)))"
  by (rule inv_run)

text \<open>A row that holds of every step from an invariant state holds at every bar.\<close>

lemma row_invariant:
  assumes "\<And>ys s x. inv ys s \<Longrightarrow> Q (length ys) (snd (step s x))" "i < length xs"
  shows "Q i (snd (scan step init xs) ! i)"
  using assms(1)[OF inv_before[of i xs], of "xs ! i"] assms(2) by (simp add: scan_nth)

end

end
