(* ===== verification/StackEpisode.thy ===== *)
theory StackEpisode
  imports Prelude
begin

text \<open>
  The EMA stack episode of \<open>strategies/ema_pullback/stack_episode.py\<close>: the parameter
  parser, and the one-pass state machine \<open>_project_long\<close> on long-side prices.  A run is
  a \<open>scan\<close> over bar indices; the step reads the price arrays by index as the source does,
  and every bar emits one row (the source writes the same values into per-field lists at
  position \<open>i\<close>).  The current zone aliases the last row of the touch table in the source;
  here it is the index of that row.  Facts about the step are in \<open>episode_simps\<close>.
\<close>

named_theorems episode_simps \<open>unfolding rules of the episode step\<close>

section \<open>Parameters\<close>

record episode_params =
  fast_period :: int
  anchor_period :: int
  slow_period :: int
  window_bars :: int
  break_bars :: int
  history_bars :: int

definition DEFAULT_WINDOW_BARS :: int where "DEFAULT_WINDOW_BARS = 24"
definition DEFAULT_HISTORY_BARS :: int where "DEFAULT_HISTORY_BARS = 15000"

definition PARAM_KEYS :: "string list" where
  "PARAM_KEYS = [''fast_period'', ''anchor_period'', ''slow_period'', ''window_bars'', ''break_bars'', ''history_bars'']"

definition positive_int :: "json \<Rightarrow> string \<Rightarrow> int res" where
  "positive_int v path =
     (case v of JInt n \<Rightarrow> raise_if (n \<le> 0) (InvalidRequest (path @ '' must be a positive integer'')) (Inr n)
      | _ \<Rightarrow> Inl (InvalidRequest (path @ '' must be a positive integer'')))"

definition stack_period :: "obj \<Rightarrow> string \<Rightarrow> int res" where
  "stack_period raw_spec role =
     bindR (require_mapping (get raw_spec ''anchor_stack'') ''anchor_stack'') (\<lambda>stack.
     bindR (require_mapping (get stack role) (''anchor_stack.'' @ role)) (\<lambda>it.
     positive_int (get it ''period'') (''anchor_stack.'' @ role @ ''.period'')))"

text \<open>One of the three periods: from the parameters, from the default, or required.\<close>

definition parse_period :: "obj \<Rightarrow> string \<Rightarrow> (string \<Rightarrow> int res) option \<Rightarrow> string \<Rightarrow> int res" where
  "parse_period params path default_period role =
     (let name = role @ ''_period'' in
      if has_key params name then positive_int (get params name) (path @ ''.'' @ name)
      else (case default_period of Some d \<Rightarrow> d role
            | None \<Rightarrow> Inl (InvalidRequest (path @ ''.'' @ name @ '' is required''))))"

definition parse_bars :: "obj \<Rightarrow> string \<Rightarrow> string \<Rightarrow> int \<Rightarrow> int res" where
  "parse_bars params path name dflt =
     (if has_key params name then positive_int (get params name) (path @ ''.'' @ name) else Inr dflt)"

definition parse_episode_params ::
  "obj \<Rightarrow> string \<Rightarrow> (string \<Rightarrow> int res) option \<Rightarrow> string list \<Rightarrow> episode_params res" where
  "parse_episode_params params path default_period keys =
     raise_if (unknown_fields params keys \<noteq> []) (InvalidRequest (path @ '' has unknown fields''))
     (bindR (parse_period params path default_period ''fast'') (\<lambda>fast.
      bindR (parse_period params path default_period ''anchor'') (\<lambda>anchor.
      bindR (parse_period params path default_period ''slow'') (\<lambda>slow.
      raise_if (\<not> (fast < anchor \<and> anchor < slow))
        (InvalidRequest (path @ '' periods must satisfy fast_period < anchor_period < slow_period''))
      (bindR (parse_bars params path ''window_bars'' DEFAULT_WINDOW_BARS) (\<lambda>window.
       bindR (parse_bars params path ''break_bars'' window) (\<lambda>break_n.
       bindR (parse_bars params path ''history_bars'' DEFAULT_HISTORY_BARS) (\<lambda>history.
       Inr \<lparr>fast_period = fast, anchor_period = anchor, slow_period = slow,
            window_bars = window, break_bars = break_n, history_bars = history\<rparr>))))))))"

text \<open>\<open>ref.strip()\<close> is empty, over the code points below 256.\<close>

definition is_space :: "char \<Rightarrow> bool" where
  "is_space c = ((of_char c :: nat) \<in> {9, 10, 11, 12, 13, 28, 29, 30, 31, 32, 133, 160})"

definition blank :: "string \<Rightarrow> bool" where
  "blank s = list_all is_space s"

definition parse_episode_section :: "obj \<Rightarrow> (string \<times> episode_params) list res" where
  "parse_episode_section raw_spec =
     (case get raw_spec ''ema_stack_episode'' of JNull \<Rightarrow> Inr []
      | raw \<Rightarrow> bindR (require_mapping raw ''ema_stack_episode'')
          (mapR (\<lambda>(ref, params_raw).
             let path = ''ema_stack_episode.'' @ ref in
             raise_if (blank ref) (InvalidRequest ''ema_stack_episode episode_ref must be a non-empty string'')
             (bindR (require_mapping (if params_raw = JNull then JObj [] else params_raw) path) (\<lambda>params.
              bindR (parse_episode_params params path (Some (stack_period raw_spec)) PARAM_KEYS) (\<lambda>p.
              Inr (ref, p)))))))"

section \<open>State of the projection\<close>

record ep_bar =
  hi :: f64
  lo :: f64
  cl :: f64
  fa :: f64
  an :: f64
  sl :: f64

datatype phase = Away | Zone | FalseBreak | Broken

datatype event = EpisodeStart | TouchStart | ZoneEnd | FalseBreakStart | Comeback | StackBreak

record touch_row =
  tr_episode_id :: nat
  tr_number :: nat
  zone_start :: nat
  zone_end :: nat
  zone_high :: f64
  zone_low :: f64
  zone_final :: f64
  zone_known_at :: "nat option"
  has_false_break :: f64
  fb_start :: "nat option"
  fb_end :: "nat option"
  fb_high :: f64
  fb_low :: f64
  fb_depth :: f64
  fb_outcome_comeback :: f64
  fb_final :: f64
  fb_known_at :: "nat option"
  origin_bar :: nat
  origin_price :: f64
  peak_bar :: nat
  peak_price :: f64
  touch_bar :: nat
  touch_price :: f64
  up_high :: f64
  up_low :: f64
  down_high :: f64
  down_low :: f64

record episode_row =
  er_episode_id :: nat
  er_start_bar :: nat
  er_end_bar :: "nat option"
  er_censored :: bool

record forming_row =
  fr_episode_id :: nat
  fr_number :: nat
  fr_origin_bar :: nat
  fr_origin_price :: f64
  fr_peak_bar :: nat
  fr_peak_price :: f64
  fr_up_high :: f64
  fr_up_low :: f64
  fr_down_high :: f64
  fr_down_low :: f64
  fr_end_bar :: "nat option"
  fr_stack_break_bar :: "nat option"

record ep_state =
  active :: bool
  censored :: bool
  episode_id :: nat
  start :: nat
  violation :: nat
  touch_number :: nat
  false_breaks :: nat
  ph :: phase
  zone :: "nat option"
  last_contact :: nat
  all_low :: f64
  all_high :: f64
  below_run :: nat
  run_low :: f64
  run_high :: f64
  cur_fb_low :: f64
  cur_fb_high :: f64
  s_bar :: nat
  p_bar :: nat
  s_low :: f64
  p_high :: f64
  d_low :: f64
  d_high :: f64
  touches :: "touch_row list"
  episodes :: "episode_row list"
  forming_rows :: "forming_row list"

text \<open>The per-bar output: state fields and events, and three snapshots.\<close>

record state_now =
  sn_active :: f64
  sn_episode_id :: f64
  sn_bars_since_start :: f64
  sn_touch_number :: f64
  sn_in_zone :: f64
  sn_in_false_break :: f64
  sn_away :: f64
  sn_false_breaks :: f64
  sn_censored :: f64
  sn_event :: "event \<Rightarrow> f64"

record zone_now =
  zn_start :: f64
  zn_end :: f64
  zn_high :: f64
  zn_low :: f64
  zn_final :: f64
  zn_has_false_break :: f64

record fb_now =
  fn_start :: f64
  fn_end :: f64
  fn_high :: f64
  fn_low :: f64
  fn_depth :: f64
  fn_outcome_comeback :: f64
  fn_final :: f64

record forming_now =
  wn_origin_bar :: f64
  wn_origin_price :: f64
  wn_peak_bar :: f64
  wn_peak_price :: f64
  wn_down_low :: f64
  wn_down_high :: f64

record bar_out =
  out_state :: state_now
  out_zone :: zone_now
  out_fb :: fb_now
  out_forming :: forming_now

definition init_state :: ep_state where
  "init_state = \<lparr>active = False, censored = False, episode_id = 0, start = 0, violation = 0,
     touch_number = 0, false_breaks = 0, ph = Away, zone = None, last_contact = 0,
     all_low = Fin 0, all_high = Fin 0, below_run = 0, run_low = Fin 0, run_high = Fin 0,
     cur_fb_low = Fin 0, cur_fb_high = Fin 0, s_bar = 0, p_bar = 0, s_low = Fin 0, p_high = Fin 0,
     d_low = Fin 0, d_high = Fin 0, touches = [], episodes = [], forming_rows = []\<rparr>"

section \<open>Array reads\<close>

definition contact :: "ep_bar \<Rightarrow> bool" where
  "contact b = (fle (lo b) (an b) \<and> fle (an b) (hi b))"

text \<open>
  \<open>np.maximum.accumulate(np.where(contact, np.arange(size), -1))\<close>: the nearest bar at or
  before each bar whose range covers the anchor, -1 when there is none.
\<close>

fun accumulate_contact :: "nat \<Rightarrow> int \<Rightarrow> ep_bar list \<Rightarrow> int list" where
  "accumulate_contact i m [] = []"
| "accumulate_contact i m (b # bs) =
     (let m' = max m (if contact b then int i else - 1) in m' # accumulate_contact (Suc i) m' bs)"

definition latest_contact :: "ep_bar list \<Rightarrow> int list" where
  "latest_contact bs = accumulate_contact 0 (- 1) bs"

text \<open>\<open>np.argmax\<close>: the first largest element; the first NaN where there is one.\<close>

fun argmax_from :: "nat \<Rightarrow> nat \<Rightarrow> f64 \<Rightarrow> f64 list \<Rightarrow> nat" where
  "argmax_from k best v [] = best"
| "argmax_from k best v (x # xs) =
     (if v \<noteq> NaN \<and> (x = NaN \<or> flt v x) then argmax_from (Suc k) k x xs
      else argmax_from (Suc k) best v xs)"

definition np_argmax :: "f64 list \<Rightarrow> nat" where
  "np_argmax xs = (case xs of [] \<Rightarrow> 0 | x # xs' \<Rightarrow> argmax_from 1 0 x xs')"

text \<open>\<open>ndarray.min()\<close> of a non-empty slice.\<close>

definition np_min :: "f64 list \<Rightarrow> f64" where
  "np_min xs = foldl np_minimum (hd xs) (tl xs)"

text \<open>\<open>values[a : b + 1]\<close>\<close>

definition slice :: "'a list \<Rightarrow> nat \<Rightarrow> nat \<Rightarrow> 'a list" where
  "slice xs a b = take (Suc b - a) (drop a xs)"

section \<open>The forming wave\<close>

definition reset_forming :: "ep_bar list \<Rightarrow> nat \<Rightarrow> ep_state \<Rightarrow> ep_state" where
  "reset_forming bs i s =
     s\<lparr>s_bar := i, p_bar := i, s_low := lo (bs ! i), p_high := hi (bs ! i),
       d_high := hi (bs ! i), d_low := lo (bs ! i)\<rparr>"

definition seed_first_wave :: "ep_bar list \<Rightarrow> nat \<Rightarrow> ep_state \<Rightarrow> ep_state" where
  "seed_first_wave bs i s =
     (let j = (if 0 < i then latest_contact bs ! (i - 1) else - 1) in
      if j < 0 \<or> \<not> flt (lo (bs ! nat j)) (lo (bs ! i)) then s
      else
        let p = nat j + np_argmax (map hi (slice bs (nat j) i)) in
        s\<lparr>s_bar := nat j, s_low := lo (bs ! nat j), p_bar := p, p_high := hi (bs ! p),
          d_high := hi (bs ! p), d_low := np_min (map lo (slice bs p i))\<rparr>)"

definition update_forming :: "ep_bar list \<Rightarrow> nat \<Rightarrow> ep_state \<Rightarrow> ep_state" where
  "update_forming bs i s =
     (if flt (lo (bs ! i)) (s_low s) then reset_forming bs i s
      else if fgt (hi (bs ! i)) (p_high s) then
        s\<lparr>p_bar := i, p_high := hi (bs ! i), d_high := hi (bs ! i), d_low := lo (bs ! i)\<rparr>
      else if flt (lo (bs ! i)) (d_low s) then s\<lparr>d_low := lo (bs ! i)\<rparr>
      else s)"

definition make_forming_row :: "ep_state \<Rightarrow> nat option \<Rightarrow> forming_row" where
  "make_forming_row s stack_break_bar =
     \<lparr>fr_episode_id = episode_id s, fr_number = touch_number s + 1,
      fr_origin_bar = s_bar s, fr_origin_price = s_low s,
      fr_peak_bar = p_bar s, fr_peak_price = p_high s,
      fr_up_high = p_high s, fr_up_low = s_low s,
      fr_down_high = d_high s, fr_down_low = d_low s,
      fr_end_bar = None, fr_stack_break_bar = stack_break_bar\<rparr>"

text \<open>A write through the alias \<open>zone\<close> changes the row of the touch table.\<close>

definition update_zone :: "(touch_row \<Rightarrow> touch_row) \<Rightarrow> ep_state \<Rightarrow> ep_state" where
  "update_zone f s =
     (case zone s of None \<Rightarrow> s | Some k \<Rightarrow> s\<lparr>touches := (touches s)[k := f (touches s ! k)]\<rparr>)"

section \<open>One bar\<close>

definition order_ok :: "ep_bar \<Rightarrow> bool" where
  "order_ok b = (fgt (fa b) (an b) \<and> fgt (an b) (sl b))"

definition open_episode :: "int \<Rightarrow> ep_bar list \<Rightarrow> nat \<Rightarrow> ep_state \<Rightarrow> ep_state" where
  "open_episode censor_before bs i s =
     (let s1 = s\<lparr>active := True, episode_id := episode_id s + 1, start := i,
                censored := (int i < censor_before), violation := 0, touch_number := 0,
                false_breaks := 0, ph := Away, zone := None\<rparr>;
          s2 = seed_first_wave bs i (reset_forming bs i s1)
      in s2\<lparr>episodes := episodes s2 @
             [\<lparr>er_episode_id = episode_id s2, er_start_bar = i, er_end_bar = None,
               er_censored = censored s2\<rparr>]\<rparr>)"

text \<open>The false-break rows read the running extremes of the break so far.\<close>

definition extend_false_break :: "ep_bar list \<Rightarrow> nat \<Rightarrow> ep_state \<Rightarrow> ep_state" where
  "extend_false_break bs i s =
     (let l = py_min (cur_fb_low s) (lo (bs ! i)); h = py_max (cur_fb_high s) (hi (bs ! i)) in
      update_zone (\<lambda>r. r\<lparr>fb_end := Some i, fb_low := l, fb_high := h,
                          fb_depth := fsub (zone_low r) l\<rparr>)
        (s\<lparr>cur_fb_low := l, cur_fb_high := h\<rparr>))"

definition stack_break :: "ep_bar list \<Rightarrow> nat \<Rightarrow> ep_state \<Rightarrow> ep_state" where
  "stack_break bs i s =
     (let s1 = update_forming bs i s;
          s2 = (if zone s1 \<noteq> None \<and> ph s1 = Zone
                then update_zone (\<lambda>r. r\<lparr>zone_final := Fin 1, zone_known_at := Some i\<rparr>) s1 else s1);
          s3 = (if zone s2 \<noteq> None \<and> ph s2 = FalseBreak
                then update_zone (\<lambda>r. r\<lparr>fb_outcome_comeback := Fin 0, fb_final := Fin 1,
                                           fb_known_at := Some i\<rparr>)
                       (extend_false_break bs i s2)
                else s2);
          s4 = s3\<lparr>ph := Broken,
                  episodes := butlast (episodes s3) @ [(last (episodes s3))\<lparr>er_end_bar := Some i\<rparr>]\<rparr>
      in s4\<lparr>forming_rows := forming_rows s4 @ [make_forming_row s4 (Some i)]\<rparr>)"

definition open_zone :: "ep_bar list \<Rightarrow> nat \<Rightarrow> ep_state \<Rightarrow> ep_state" where
  "open_zone bs i s =
     (let h = hi (bs ! i); l = lo (bs ! i);
          row = \<lparr>tr_episode_id = episode_id s, tr_number = touch_number s + 1,
                 zone_start = i, zone_end = i, zone_high = h, zone_low = l,
                 zone_final = Fin 0, zone_known_at = None, has_false_break = Fin 0,
                 fb_start = None, fb_end = None, fb_high = NaN, fb_low = NaN, fb_depth = NaN,
                 fb_outcome_comeback = NaN, fb_final = NaN, fb_known_at = None,
                 origin_bar = s_bar s, origin_price = s_low s,
                 peak_bar = p_bar s, peak_price = p_high s,
                 touch_bar = i, touch_price = l, up_high = p_high s, up_low = s_low s,
                 down_high = py_max (d_high s) h, down_low = py_min (d_low s) l\<rparr>
      in reset_forming bs i
           (s\<lparr>touch_number := touch_number s + 1,
              zone := Some (length (touches s)), touches := touches s @ [row],
              last_contact := i, all_low := l, all_high := h, below_run := 0,
              run_low := l, run_high := h, ph := Zone\<rparr>))"

text \<open>Only wholly above on the previous bar, then contact, opens a zone.\<close>

definition touch_opens :: "ep_bar list \<Rightarrow> nat \<Rightarrow> bool" where
  "touch_opens bs i =
     (fgt (lo (bs ! (i - 1))) (an (bs ! (i - 1))) \<and> fle (lo (bs ! i)) (an (bs ! i)) \<and>
      fle (an (bs ! i)) (hi (bs ! i)))"

definition away_bar :: "ep_bar list \<Rightarrow> nat \<Rightarrow> ep_state \<Rightarrow> ep_state \<times> event option" where
  "away_bar bs i s =
     (if touch_opens bs i then (open_zone bs i s, Some TouchStart) else (update_forming bs i s, None))"

text \<open>Price wholly below the anchor for longer than the window: the zone ends in a false break.\<close>

definition open_false_break :: "nat \<Rightarrow> ep_state \<Rightarrow> ep_state" where
  "open_false_break i s =
     update_zone (\<lambda>r. r\<lparr>zone_final := Fin 1, zone_known_at := Some i, has_false_break := Fin 1,
                         fb_start := Some (i - below_run s + 1), fb_end := Some i,
                         fb_low := run_low s, fb_high := run_high s,
                         fb_depth := fsub (zone_low r) (run_low s), fb_final := Fin 0\<rparr>)
       (s\<lparr>false_breaks := false_breaks s + 1, cur_fb_low := run_low s, cur_fb_high := run_high s,
          ph := FalseBreak\<rparr>)"

definition zone_bar :: "nat \<Rightarrow> ep_bar list \<Rightarrow> nat \<Rightarrow> ep_state \<Rightarrow> ep_state \<times> event option" where
  "zone_bar window bs i s =
     (let a = an (bs ! i); h = hi (bs ! i); l = lo (bs ! i);
          s0 = update_forming bs i s;
          s1 = s0\<lparr>all_low := py_min (all_low s0) l, all_high := py_max (all_high s0) h\<rparr>
      in if fgt l a then
           (let s2 = s1\<lparr>below_run := 0\<rparr> in
            if window < i - last_contact s2
            then ((update_zone (\<lambda>r. r\<lparr>zone_final := Fin 1, zone_known_at := Some i\<rparr>) s2)\<lparr>ph := Away\<rparr>,
                  Some ZoneEnd)
            else (s2, None))
         else if flt h a then
           (let s2 = (if below_run s1 = 0 then s1\<lparr>run_low := l, run_high := h\<rparr>
                      else s1\<lparr>run_low := py_min (run_low s1) l, run_high := py_max (run_high s1) h\<rparr>);
                s3 = s2\<lparr>below_run := below_run s2 + 1\<rparr>
            in if window < below_run s3 then (open_false_break i s3, Some FalseBreakStart)
               else (s3, None))
         else
           (update_zone (\<lambda>r. r\<lparr>zone_end := i, zone_low := all_low s1, zone_high := all_high s1\<rparr>)
              (s1\<lparr>last_contact := i, below_run := 0\<rparr>), None))"

definition false_break_bar :: "ep_bar list \<Rightarrow> nat \<Rightarrow> ep_state \<Rightarrow> ep_state \<times> event option" where
  "false_break_bar bs i s =
     (let s1 = extend_false_break bs i (update_forming bs i s) in
      if fgt (cl (bs ! i)) (an (bs ! i))
      then ((update_zone (\<lambda>r. r\<lparr>fb_outcome_comeback := Fin 1, fb_final := Fin 1,
                                  fb_known_at := Some i\<rparr>) s1)\<lparr>ph := Away\<rparr>, Some Comeback)
      else (s1, None))"

text \<open>The rules of an active episode on a bar after its start bar.\<close>

definition active_bar ::
  "nat \<Rightarrow> nat \<Rightarrow> ep_bar list \<Rightarrow> nat \<Rightarrow> ep_state \<Rightarrow> ep_state \<times> event option" where
  "active_bar window break_n bs i s =
     (let s0 = s\<lparr>violation := (if order_ok (bs ! i) then 0 else violation s + 1)\<rparr> in
      if break_n < violation s0 then (stack_break bs i s0, Some StackBreak)
      else if \<not> isfinite (an (bs ! i)) then (update_forming bs i s0, None)
      else (case ph s0 of
              Away \<Rightarrow> away_bar bs i s0
            | Zone \<Rightarrow> zone_bar window bs i s0
            | _ \<Rightarrow> false_break_bar bs i s0))"

section \<open>The row of a bar\<close>

definition f01 :: "bool \<Rightarrow> f64" where "f01 b = (if b then Fin 1 else Fin 0)"

definition bar_val :: "nat option \<Rightarrow> f64" where
  "bar_val v = (case v of None \<Rightarrow> NaN | Some n \<Rightarrow> f64_of_nat n)"

definition no_state :: "f64 \<Rightarrow> f64 \<Rightarrow> state_now" where
  "no_state act cens =
     \<lparr>sn_active = act, sn_episode_id = NaN, sn_bars_since_start = NaN, sn_touch_number = NaN,
      sn_in_zone = NaN, sn_in_false_break = NaN, sn_away = NaN, sn_false_breaks = NaN,
      sn_censored = cens, sn_event = (\<lambda>_. NaN)\<rparr>"

definition no_zone :: zone_now where
  "no_zone = \<lparr>zn_start = NaN, zn_end = NaN, zn_high = NaN, zn_low = NaN, zn_final = NaN,
     zn_has_false_break = NaN\<rparr>"

definition no_fb :: fb_now where
  "no_fb = \<lparr>fn_start = NaN, fn_end = NaN, fn_high = NaN, fn_low = NaN, fn_depth = NaN,
     fn_outcome_comeback = NaN, fn_final = NaN\<rparr>"

definition no_forming :: forming_now where
  "no_forming = \<lparr>wn_origin_bar = NaN, wn_origin_price = NaN, wn_peak_bar = NaN,
     wn_peak_price = NaN, wn_down_low = NaN, wn_down_high = NaN\<rparr>"

definition inactive_row :: bar_out where
  "inactive_row = \<lparr>out_state = no_state (Fin 0) (Fin 0), out_zone = no_zone, out_fb = no_fb,
     out_forming = no_forming\<rparr>"

definition state_of :: "nat \<Rightarrow> ep_state \<Rightarrow> event option \<Rightarrow> state_now" where
  "state_of i s ev =
     \<lparr>sn_active = Fin 1, sn_episode_id = f64_of_nat (episode_id s),
      sn_bars_since_start = f64_of_nat (i - start s),
      sn_touch_number = f64_of_nat (touch_number s),
      sn_in_zone = f01 (ph s = Zone), sn_in_false_break = f01 (ph s = FalseBreak),
      sn_away = f01 (ph s = Away), sn_false_breaks = f64_of_nat (false_breaks s),
      sn_censored = Fin 0, sn_event = (\<lambda>e. f01 (ev = Some e))\<rparr>"

definition zone_of :: "touch_row \<Rightarrow> zone_now" where
  "zone_of r = \<lparr>zn_start = f64_of_nat (zone_start r), zn_end = f64_of_nat (zone_end r),
     zn_high = zone_high r, zn_low = zone_low r, zn_final = zone_final r,
     zn_has_false_break = has_false_break r\<rparr>"

definition fb_of :: "touch_row \<Rightarrow> fb_now" where
  "fb_of r = (case fb_start r of None \<Rightarrow> no_fb
     | Some b \<Rightarrow> \<lparr>fn_start = f64_of_nat b, fn_end = bar_val (fb_end r), fn_high = fb_high r,
         fn_low = fb_low r, fn_depth = fb_depth r, fn_outcome_comeback = fb_outcome_comeback r,
         fn_final = fb_final r\<rparr>)"

definition forming_of :: "ep_state \<Rightarrow> forming_now" where
  "forming_of s = \<lparr>wn_origin_bar = f64_of_nat (s_bar s), wn_origin_price = s_low s,
     wn_peak_bar = f64_of_nat (p_bar s), wn_peak_price = p_high s,
     wn_down_low = d_low s, wn_down_high = d_high s\<rparr>"

definition row_of :: "nat \<Rightarrow> ep_state \<Rightarrow> event option \<Rightarrow> bar_out" where
  "row_of i s ev =
     (if censored s
      then \<lparr>out_state = no_state (Fin 1) (Fin 1), out_zone = no_zone, out_fb = no_fb,
            out_forming = no_forming\<rparr>
      else \<lparr>out_state = state_of i s ev,
            out_zone = (case zone s of None \<Rightarrow> no_zone | Some k \<Rightarrow> zone_of (touches s ! k)),
            out_fb = (case zone s of None \<Rightarrow> no_fb | Some k \<Rightarrow> fb_of (touches s ! k)),
            out_forming = forming_of s\<rparr>)"

text \<open>A broken episode is closed after its row is written.\<close>

definition end_bar :: "ep_state \<Rightarrow> ep_state" where
  "end_bar s = (if ph s = Broken then s\<lparr>active := False, zone := None\<rparr> else s)"

definition bar_step ::
  "nat \<Rightarrow> nat \<Rightarrow> int \<Rightarrow> ep_bar list \<Rightarrow> ep_state \<Rightarrow> nat \<Rightarrow> ep_state \<times> bar_out" where
  "bar_step window break_n censor_before bs s i =
     (if \<not> active s then
        if \<not> order_ok (bs ! i) then (s, inactive_row)
        else (let s1 = open_episode censor_before bs i s
              in (end_bar s1, row_of i s1 (Some EpisodeStart)))
      else (let (s1, ev) = active_bar window break_n bs i s in (end_bar s1, row_of i s1 ev)))"

definition project_run ::
  "nat \<Rightarrow> nat \<Rightarrow> int \<Rightarrow> ep_bar list \<Rightarrow> ep_state \<times> bar_out list" where
  "project_run window break_n censor_before bs =
     scan (bar_step window break_n censor_before bs) init_state [0..<length bs]"

text \<open>After the last bar an episode still active leaves its forming wave.\<close>

definition project_long ::
  "nat \<Rightarrow> nat \<Rightarrow> int \<Rightarrow> ep_bar list \<Rightarrow> ep_state \<times> bar_out list" where
  "project_long window break_n censor_before bs =
     (let (s, rows) = project_run window break_n censor_before bs
      in (if active s then s\<lparr>forming_rows := forming_rows s @ [make_forming_row s None]\<rparr> else s, rows))"

end
