(* ===== verification/EpisodeCausality.thy ===== *)
theory EpisodeCausality
  imports StackEpisode
begin

text \<open>
  The projection is causal: the row of a bar depends only on the bars up to it.  The source
  reads arrays by index, among them a precomputed accumulation over the whole frame and
  slices back to an earlier anchor contact; the lemmas show that every index read at bar
  \<open>i\<close> is at most \<open>i\<close>, so that cutting the frame after \<open>i\<close> changes nothing.
\<close>

section \<open>The accumulated contact index\<close>

lemma accumulate_contact_length [simp]: "length (accumulate_contact i m bs) = length bs"
  by (induction bs arbitrary: i m) (auto simp: Let_def)

lemma accumulate_contact_take:
  "accumulate_contact i m (take n bs) = take n (accumulate_contact i m bs)"
proof (induction bs arbitrary: i m n)
  case Nil
  then show ?case by simp
next
  case (Cons b bs)
  then show ?case by (cases n) (simp_all add: Let_def)
qed

lemma accumulate_contact_bounds:
  "k < length bs \<Longrightarrow> - 1 \<le> m \<Longrightarrow> m < int i \<or> m = - 1 \<Longrightarrow>
     - 1 \<le> accumulate_contact i m bs ! k \<and> accumulate_contact i m bs ! k \<le> int (i + k)"
proof (induction bs arbitrary: i m k)
  case Nil
  then show ?case by simp
next
  case (Cons b bs)
  define m' where "m' = max m (if contact b then int i else - 1)"
  have m': "- 1 \<le> m'" "m' < int (Suc i) \<or> m' = - 1" "m' \<le> int i"
    using Cons.prems by (auto simp: m'_def)
  show ?case
  proof (cases k)
    case 0
    then show ?thesis using m' by (simp add: m'_def [symmetric])
  next
    case (Suc k')
    then show ?thesis using Cons.IH[OF _ m'(1,2), of k'] Cons.prems(1) by (simp add: m'_def [symmetric])
  qed
qed

lemma latest_contact_length [simp]: "length (latest_contact bs) = length bs"
  by (simp add: latest_contact_def)

lemma latest_contact_take: "latest_contact (take n bs) = take n (latest_contact bs)"
  by (simp add: latest_contact_def accumulate_contact_take)

lemma latest_contact_bounds:
  "k < length bs \<Longrightarrow> - 1 \<le> latest_contact bs ! k \<and> latest_contact bs ! k \<le> int k"
  using accumulate_contact_bounds[of k bs "- 1" 0] by (simp add: latest_contact_def)

section \<open>Slices\<close>

lemma slice_length: "b < length xs \<Longrightarrow> length (slice xs a b) = Suc b - a"
  by (simp add: slice_def)

lemma slice_nth: "b < length xs \<Longrightarrow> k < Suc b - a \<Longrightarrow> slice xs a b ! k = xs ! (a + k)"
  by (simp add: slice_def)

lemma slice_take: "b < n \<Longrightarrow> slice (take n xs) a b = slice xs a b"
  by (simp add: slice_def drop_take min_def)

lemma slice_nonempty: "a \<le> b \<Longrightarrow> b < length xs \<Longrightarrow> slice xs a b \<noteq> []"
  by (simp add: slice_def)

lemma argmax_from_bound: "best < k \<Longrightarrow> argmax_from k best v xs < k + length xs"
proof (induction xs arbitrary: k best v)
  case (Cons x xs)
  then show ?case
    using Cons.IH[of k "Suc k" x] Cons.IH[of best "Suc k" v] by auto
qed simp

lemma np_argmax_bound: "xs \<noteq> [] \<Longrightarrow> np_argmax xs < length xs"
  using argmax_from_bound[of 0 1] by (cases xs) (auto simp: np_argmax_def)

section \<open>Every read is at or before the bar\<close>

lemma seed_peak_bound:
  assumes "i < length bs" "nat j \<le> i"
  shows "nat j + np_argmax (map hi (slice bs (nat j) i)) \<le> i"
proof -
  have "np_argmax (map hi (slice bs (nat j) i)) < Suc i - nat j"
    using np_argmax_bound[of "map hi (slice bs (nat j) i)"] assms
    by (simp add: slice_nonempty slice_length)
  then show ?thesis using assms(2) by simp
qed

lemma reset_forming_take: "i < n \<Longrightarrow> reset_forming (take n bs) i s = reset_forming bs i s"
  by (simp add: reset_forming_def)

lemma update_forming_take: "i < n \<Longrightarrow> update_forming (take n bs) i s = update_forming bs i s"
  by (simp add: update_forming_def reset_forming_take)

lemma seed_first_wave_take:
  assumes "i < n" "n \<le> length bs"
  shows "seed_first_wave (take n bs) i s = seed_first_wave bs i s"
proof (cases "0 < i")
  case False
  then show ?thesis by (simp add: seed_first_wave_def)
next
  case True
  define j where "j = latest_contact bs ! (i - 1)"
  have ji: "j \<le> int (i - 1)" using latest_contact_bounds[of "i - 1" bs] assms by (simp add: j_def)
  have jn: "nat j < n" using ji assms by linarith
  have p: "nat j + np_argmax (map hi (slice bs (nat j) i)) < n"
    using seed_peak_bound[of i bs j] ji assms by linarith
  have r: "latest_contact (take n bs) ! (i - 1) = j"
    using assms by (simp add: latest_contact_take j_def)
  show ?thesis using True r jn p assms(1) j_def [symmetric]
    by (simp add: seed_first_wave_def slice_take Let_def)
qed

lemma touch_opens_take: "i < n \<Longrightarrow> touch_opens (take n bs) i = touch_opens bs i"
  by (simp add: touch_opens_def)

lemma open_zone_take: "i < n \<Longrightarrow> open_zone (take n bs) i s = open_zone bs i s"
  by (simp add: open_zone_def Let_def reset_forming_take)

lemma extend_false_break_take:
  "i < n \<Longrightarrow> extend_false_break (take n bs) i s = extend_false_break bs i s"
  by (simp add: extend_false_break_def)

lemma active_bar_take:
  assumes "i < n"
  shows "active_bar w k (take n bs) i s = active_bar w k bs i s"
proof -
  have a: "away_bar (take n bs) i t = away_bar bs i t" for t
    using assms by (simp add: away_bar_def touch_opens_take open_zone_take update_forming_take)
  have z: "zone_bar w (take n bs) i t = zone_bar w bs i t" for t
    using assms by (simp add: zone_bar_def update_forming_take Let_def)
  have f: "false_break_bar (take n bs) i t = false_break_bar bs i t" for t
    using assms by (simp add: false_break_bar_def extend_false_break_take update_forming_take)
  have b: "stack_break (take n bs) i t = stack_break bs i t" for t
    unfolding stack_break_def Let_def update_forming_take [OF assms] extend_false_break_take [OF assms] ..
  show ?thesis
    unfolding active_bar_def Let_def a z f b update_forming_take [OF assms] nth_take [OF assms] ..
qed

lemma bar_step_take:
  assumes "i < n" "n \<le> length bs"
  shows "bar_step w k c (take n bs) s i = bar_step w k c bs s i"
  using assms
  by (simp add: bar_step_def open_episode_def active_bar_take seed_first_wave_take reset_forming_take)

lemma scan_cong:
  "(\<And>s x. x \<in> set xs \<Longrightarrow> f s x = g s x) \<Longrightarrow> scan f s xs = scan g s xs"
  by (induction xs arbitrary: s) (simp_all add: split_beta Let_def)

text \<open>The run over a prefix of the bars is the prefix of the run, state included.\<close>

lemma project_run_prefix:
  assumes "n \<le> length bs"
  shows "project_run w k c (take n bs) = scan (bar_step w k c bs) init_state [0..<n]"
proof -
  have "length (take n bs) = n" using assms by simp
  then show ?thesis unfolding project_run_def
    using assms by (simp cong del: image_cong) (rule scan_cong, simp add: bar_step_take)
qed

lemma project_rows: "snd (project_long w k c bs) = snd (project_run w k c bs)"
  by (simp add: project_long_def split_beta)

lemma project_rows_length [simp]: "length (snd (project_long w k c bs)) = length bs"
  by (simp add: project_rows project_run_def scan_length)

lemma project_rows_take:
  "snd (project_long w k c (take n bs)) = take n (snd (project_long w k c bs))"
proof (cases "n \<le> length bs")
  case True
  have "snd (project_run w k c (take n bs)) = snd (scan (bar_step w k c bs) init_state (take n [0..<length bs]))"
    using True by (simp add: project_run_prefix take_upt)
  then show ?thesis by (simp add: project_rows project_run_def scan_take)
qed (simp add: project_rows project_run_def scan_length)

text \<open>Two frames that agree up to bar \<open>i\<close> have the same row at \<open>i\<close>.\<close>

lemma project_row_depends_on_past:
  assumes "take (Suc i) bs = take (Suc i) cs" "i < length bs" "i < length cs"
  shows "snd (project_long w k c bs) ! i = snd (project_long w k c cs) ! i"
proof -
  have "snd (project_long w k c bs) ! i = take (Suc i) (snd (project_long w k c bs)) ! i" by simp
  also have "\<dots> = snd (project_long w k c (take (Suc i) cs)) ! i"
    by (simp only: project_rows_take [symmetric] assms(1))
  also have "\<dots> = snd (project_long w k c cs) ! i" by (simp add: project_rows_take)
  finally show ?thesis .
qed

end
