(* ===== verification/EpisodeInvariant.thy ===== *)
theory EpisodeInvariant
  imports EpisodeCausality
begin

text \<open>
  The invariant of the episode machine: the geometry of the forming wave and of every row of
  the touch table, the consecutive numbering of the touches of each episode, the alias between
  the current zone and the last row, and the agreement between the phase and that row.
  \<open>bar_machine\<close> lifts it from one bar to every run.
\<close>

section \<open>Extremes of slices\<close>

lemma argmax_from_max:
  assumes "best < k" "xs = drop k ys" "v = ys ! best" "\<forall>j<k. \<not> flt v (ys ! j)" "k \<le> length ys"
  shows "\<forall>j<length ys. \<not> flt (ys ! argmax_from k best v xs) (ys ! j)"
  using assms
proof (induction xs arbitrary: k best v)
  case Nil
  then show ?case by simp
next
  case (Cons x xs)
  have kl: "k < length ys" using Cons.prems(2) by (metis drop_all leI list.distinct(1))
  have x: "x = ys ! k" and xs: "xs = drop (Suc k) ys"
    using Cons.prems(2) kl by (metis Cons_nth_drop_Suc list.inject)+
  show ?case
  proof (cases "v \<noteq> NaN \<and> (x = NaN \<or> flt v x)")
    case True
    have "\<forall>j<Suc k. \<not> flt x (ys ! j)"
    proof (intro allI impI)
      fix j assume j: "j < Suc k"
      show "\<not> flt x (ys ! j)"
      proof (cases "j = k")
        case False
        then have "\<not> flt v (ys ! j)" using Cons.prems(4) j by simp
        then show ?thesis using True flt_trans by fastforce
      qed (simp add: x)
    qed
    then show ?thesis using True Cons.IH[of k "Suc k" x] xs x kl by simp
  next
    case False
    then have "\<not> flt v x" by auto
    then have "\<forall>j<Suc k. \<not> flt v (ys ! j)" using Cons.prems(4) x by (auto simp: less_Suc_eq)
    moreover have "argmax_from k best v (x # xs) = argmax_from (Suc k) best v xs"
      using False by auto
    moreover have "\<forall>j<length ys. \<not> flt (ys ! argmax_from (Suc k) best v xs) (ys ! j)"
      by (rule Cons.IH) (use Cons.prems(1,3) xs kl \<open>\<forall>j<Suc k. \<not> flt v (ys ! j)\<close> in auto)
    ultimately show ?thesis by (simp only:)
  qed
qed

lemma np_argmax_max: "j < length xs \<Longrightarrow> \<not> flt (xs ! np_argmax xs) (xs ! j)"
  using argmax_from_max[of 0 1 "tl xs" xs "hd xs"]
  by (cases xs) (auto simp: np_argmax_def)

lemma np_minimum_le: "\<not> flt a (np_minimum a b)" "\<not> flt b (np_minimum a b)"
  by (auto simp: np_minimum_def flt_asym)

lemma foldl_np_minimum: "x = a \<or> x \<in> set xs \<Longrightarrow> \<not> flt x (foldl np_minimum a xs)"
proof (induction xs arbitrary: a x)
  case (Cons y ys)
  have step: "\<not> flt (np_minimum a y) (foldl np_minimum (np_minimum a y) ys)"
    by (rule Cons.IH) simp
  show ?case
  proof (cases "x \<in> set ys")
    case True
    then show ?thesis using Cons.IH by (metis foldl_Cons)
  next
    case False
    then have x: "x = a \<or> x = y" using Cons.prems by auto
    show ?thesis
    proof
      assume "flt x (foldl np_minimum a (y # ys))"
      then have f: "flt x (foldl np_minimum (np_minimum a y) ys)" by simp
      have nn: "np_minimum a y \<noteq> NaN"
      proof
        assume n: "np_minimum a y = NaN"
        have "foldl np_minimum NaN zs = NaN" for zs by (induction zs) (auto simp: np_minimum_def)
        then show False using f n by simp
      qed
      have "fle (np_minimum a y) x"
        using x nn np_minimum_le(1)[of a y] np_minimum_le(2)[of y a] f by (metis flt_NaN(1) not_flt_iff)
      then show False using f step fle_flt_trans by blast
    qed
  qed
qed simp

lemma np_min_le: "x \<in> set xs \<Longrightarrow> \<not> flt x (np_min xs)"
  using foldl_np_minimum[of x "hd xs" "tl xs"] by (cases xs) (auto simp: np_min_def)

section \<open>The forming wave\<close>

definition wave_ok :: "ep_bar list \<Rightarrow> nat \<Rightarrow> ep_state \<Rightarrow> bool" where
  "wave_ok bs i s \<longleftrightarrow>
     s_bar s \<le> p_bar s \<and> p_bar s < i \<and> s_low s = lo (bs ! s_bar s) \<and> p_high s = hi (bs ! p_bar s) \<and>
     d_high s = p_high s \<and>
     (\<forall>k. s_bar s \<le> k \<and> k < i \<longrightarrow> \<not> flt (p_high s) (hi (bs ! k))) \<and>
     (\<forall>k. p_bar s \<le> k \<and> k < i \<longrightarrow> \<not> flt (lo (bs ! k)) (d_low s))"

lemma wave_ok_reset: "wave_ok bs (Suc i) (reset_forming bs i s)"
proof -
  have "\<And>k. i \<le> k \<and> k < Suc i \<longleftrightarrow> k = i" by auto
  then show ?thesis by (simp add: wave_ok_def reset_forming_def)
qed

lemma wave_ok_update:
  assumes w: "wave_ok bs i s"
  shows "wave_ok bs (Suc i) (update_forming bs i s)"
proof -
  note f = w[unfolded wave_ok_def]
  consider (reset) "flt (lo (bs ! i)) (s_low s)"
    | (peak) "\<not> flt (lo (bs ! i)) (s_low s)" "flt (p_high s) (hi (bs ! i))"
    | (low) "\<not> flt (lo (bs ! i)) (s_low s)" "\<not> flt (p_high s) (hi (bs ! i))" "flt (lo (bs ! i)) (d_low s)"
    | (none) "\<not> flt (lo (bs ! i)) (s_low s)" "\<not> flt (p_high s) (hi (bs ! i))" "\<not> flt (lo (bs ! i)) (d_low s)"
    by blast
  then show ?thesis
  proof cases
    case reset
    then show ?thesis by (simp add: update_forming_def wave_ok_reset)
  next
    case peak
    have "\<not> flt (hi (bs ! i)) (hi (bs ! k))" if "s_bar s \<le> k" "k < Suc i" for k
      using that f peak(2) flt_trans by (cases "k = i") auto
    moreover have "\<And>k. i \<le> k \<and> k < Suc i \<longleftrightarrow> k = i" by auto
    ultimately show ?thesis using f peak by (auto simp: update_forming_def wave_ok_def)
  next
    case low
    have "\<not> flt (lo (bs ! k)) (lo (bs ! i))" if "p_bar s \<le> k" "k < Suc i" for k
      using that f low(3) flt_trans by (cases "k = i") auto
    moreover have "\<not> flt (p_high s) (hi (bs ! k))" if "s_bar s \<le> k" "k < Suc i" for k
      using that f low(2) by (cases "k = i") auto
    ultimately show ?thesis using f low by (auto simp: update_forming_def wave_ok_def)
  next
    case none
    have "\<not> flt (lo (bs ! k)) (d_low s)" if "p_bar s \<le> k" "k < Suc i" for k
      using that f none(3) by (cases "k = i") auto
    moreover have "\<not> flt (p_high s) (hi (bs ! k))" if "s_bar s \<le> k" "k < Suc i" for k
      using that f none(2) by (cases "k = i") auto
    ultimately show ?thesis using f none by (auto simp: update_forming_def wave_ok_def)
  qed
qed

lemma wave_ok_seed:
  assumes "i < length bs" "wave_ok bs (Suc i) s"
  shows "wave_ok bs (Suc i) (seed_first_wave bs i s)"
proof (cases "0 < i \<and> 0 \<le> latest_contact bs ! (i - 1) \<and>
    flt (lo (bs ! nat (latest_contact bs ! (i - 1)))) (lo (bs ! i))")
  case False
  then have "seed_first_wave bs i s = s" by (auto simp: seed_first_wave_def)
  then show ?thesis using assms(2) by simp
next
  case True
  define j where "j = nat (latest_contact bs ! (i - 1))"
  define p where "p = j + np_argmax (map hi (slice bs j i))"
  have ji: "j \<le> i" using latest_contact_bounds[of "i - 1" bs] assms(1) True unfolding j_def by linarith
  have pi: "p \<le> i" using seed_peak_bound[of i bs "int j"] assms(1) ji by (simp add: p_def)
  have len: "length (slice bs j i) = Suc i - j" using assms(1) by (simp add: slice_length)
  have top: "\<not> flt (hi (bs ! p)) (hi (bs ! k))" if "j \<le> k" "k < Suc i" for k
  proof -
    have "k - j < length (map hi (slice bs j i))" using that len by simp
    then have "\<not> flt (map hi (slice bs j i) ! np_argmax (map hi (slice bs j i))) (map hi (slice bs j i) ! (k - j))"
      by (rule np_argmax_max)
    moreover have "p - j < Suc i - j" using pi ji by (simp add: p_def)
    ultimately show ?thesis using that len assms(1) by (simp add: slice_nth p_def)
  qed
  have bot: "\<not> flt (lo (bs ! k)) (np_min (map lo (slice bs p i)))" if "p \<le> k" "k < Suc i" for k
  proof -
    have "slice bs p i ! (k - p) = bs ! k" using that assms(1) pi by (simp add: slice_nth)
    moreover have "k - p < length (slice bs p i)" using that assms(1) by (simp add: slice_length)
    ultimately have "bs ! k \<in> set (slice bs p i)" by (metis nth_mem)
    then show ?thesis by (intro np_min_le) simp
  qed
  have jp: "j \<le> p" by (simp add: p_def)
  have eq: "seed_first_wave bs i s =
      s\<lparr>s_bar := j, s_low := lo (bs ! j), p_bar := p, p_high := hi (bs ! p),
        d_high := hi (bs ! p), d_low := np_min (map lo (slice bs p i))\<rparr>"
    using True unfolding seed_first_wave_def Let_def j_def p_def by simp
  show ?thesis unfolding eq wave_ok_def using jp pi top bot by simp
qed

section \<open>Frame conditions\<close>

lemma forming_frame [simp]:
  "active (update_forming bs i s) = active s" "censored (update_forming bs i s) = censored s"
  "episode_id (update_forming bs i s) = episode_id s" "start (update_forming bs i s) = start s"
  "touch_number (update_forming bs i s) = touch_number s" "ph (update_forming bs i s) = ph s"
  "zone (update_forming bs i s) = zone s" "touches (update_forming bs i s) = touches s"
  "episodes (update_forming bs i s) = episodes s" "below_run (update_forming bs i s) = below_run s"
  "last_contact (update_forming bs i s) = last_contact s"
  "false_breaks (update_forming bs i s) = false_breaks s"
  by (simp_all add: update_forming_def reset_forming_def)

lemma reset_frame [simp]:
  "active (reset_forming bs i s) = active s" "censored (reset_forming bs i s) = censored s"
  "episode_id (reset_forming bs i s) = episode_id s" "start (reset_forming bs i s) = start s"
  "touch_number (reset_forming bs i s) = touch_number s" "ph (reset_forming bs i s) = ph s"
  "zone (reset_forming bs i s) = zone s" "touches (reset_forming bs i s) = touches s"
  "episodes (reset_forming bs i s) = episodes s"
  "false_breaks (reset_forming bs i s) = false_breaks s"
  by (simp_all add: reset_forming_def)

lemma seed_frame [simp]:
  "active (seed_first_wave bs i s) = active s" "censored (seed_first_wave bs i s) = censored s"
  "episode_id (seed_first_wave bs i s) = episode_id s" "start (seed_first_wave bs i s) = start s"
  "touch_number (seed_first_wave bs i s) = touch_number s" "ph (seed_first_wave bs i s) = ph s"
  "zone (seed_first_wave bs i s) = zone s" "touches (seed_first_wave bs i s) = touches s"
  "episodes (seed_first_wave bs i s) = episodes s"
  "false_breaks (seed_first_wave bs i s) = false_breaks s"
  by (simp_all add: seed_first_wave_def Let_def)

lemma update_zone_frame [simp]:
  "active (update_zone f s) = active s" "censored (update_zone f s) = censored s"
  "episode_id (update_zone f s) = episode_id s" "start (update_zone f s) = start s"
  "touch_number (update_zone f s) = touch_number s" "ph (update_zone f s) = ph s"
  "zone (update_zone f s) = zone s" "episodes (update_zone f s) = episodes s"
  "false_breaks (update_zone f s) = false_breaks s"
  "s_bar (update_zone f s) = s_bar s" "p_bar (update_zone f s) = p_bar s"
  "s_low (update_zone f s) = s_low s" "p_high (update_zone f s) = p_high s"
  "d_low (update_zone f s) = d_low s" "d_high (update_zone f s) = d_high s"
  "length (touches (update_zone f s)) = length (touches s)"
  by (simp_all add: update_zone_def split: option.split)

lemma update_zone_touches:
  "zone s = Some k \<Longrightarrow> touches (update_zone f s) = (touches s)[k := f (touches s ! k)]"
  "zone s = None \<Longrightarrow> touches (update_zone f s) = touches s"
  by (simp_all add: update_zone_def)

text \<open>The wave is a function of the six wave fields alone.\<close>

lemma wave_ok_cong:
  "s_bar s = s_bar t \<Longrightarrow> p_bar s = p_bar t \<Longrightarrow> s_low s = s_low t \<Longrightarrow> p_high s = p_high t \<Longrightarrow>
   d_low s = d_low t \<Longrightarrow> d_high s = d_high t \<Longrightarrow> wave_ok bs i s = wave_ok bs i t"
  by (simp add: wave_ok_def)

section \<open>The touch table\<close>

definition row_key :: "touch_row \<Rightarrow> nat \<times> nat" where
  "row_key r = (tr_episode_id r, tr_number r)"

text \<open>Touches of one episode are numbered from 1 without a gap, and episodes come in order.\<close>

definition numbered :: "(nat \<times> nat) list \<Rightarrow> bool" where
  "numbered ks \<longleftrightarrow>
     (\<forall>k<length ks. 1 \<le> snd (ks ! k) \<and>
        (if snd (ks ! k) = 1 then (\<forall>j<k. fst (ks ! j) < fst (ks ! k))
         else 0 < k \<and> ks ! (k - 1) = (fst (ks ! k), snd (ks ! k) - 1)))"

definition row_ok :: "ep_bar list \<Rightarrow> nat \<Rightarrow> touch_row \<Rightarrow> bool" where
  "row_ok bs i r \<longleftrightarrow>
     origin_bar r \<le> peak_bar r \<and> peak_bar r < touch_bar r \<and> touch_bar r = zone_start r \<and>
     zone_start r \<le> zone_end r \<and> zone_end r < i \<and>
     origin_price r = lo (bs ! origin_bar r) \<and> peak_price r = hi (bs ! peak_bar r) \<and>
     touch_price r = lo (bs ! touch_bar r) \<and>
     (\<forall>k. origin_bar r \<le> k \<and> k < touch_bar r \<longrightarrow> \<not> flt (peak_price r) (hi (bs ! k))) \<and>
     (zone_final r = Fin 0 \<and> zone_known_at r = None \<or> zone_final r = Fin 1 \<and> zone_known_at r \<noteq> None) \<and>
     (has_false_break r = Fin 0 \<and> fb_start r = None \<and> fb_final r = NaN \<and> fb_known_at r = None \<or>
      has_false_break r = Fin 1 \<and> fb_start r \<noteq> None \<and> zone_final r = Fin 1 \<and>
      (fb_final r = Fin 0 \<and> fb_known_at r = None \<or> fb_final r = Fin 1 \<and> fb_known_at r \<noteq> None))"

text \<open>What the phase says of the current row.\<close>

definition phase_ok :: "phase \<Rightarrow> touch_row \<Rightarrow> bool" where
  "phase_ok p r \<longleftrightarrow>
     (case p of
        Zone \<Rightarrow> zone_final r = Fin 0 \<and> has_false_break r = Fin 0
      | FalseBreak \<Rightarrow> has_false_break r = Fin 1 \<and> fb_final r = Fin 0
      | _ \<Rightarrow> zone_final r = Fin 1 \<and> fb_final r \<noteq> Fin 0)"

lemma row_ok_mono: "row_ok bs i r \<Longrightarrow> i \<le> j \<Longrightarrow> row_ok bs j r"
  by (auto simp: row_ok_def)

lemma numbered_snoc_first:
  "numbered ks \<Longrightarrow> (\<And>j. j < length ks \<Longrightarrow> fst (ks ! j) < e) \<Longrightarrow> numbered (ks @ [(e, 1)])"
  by (auto simp: numbered_def nth_append less_Suc_eq)

lemma numbered_snoc_next:
  assumes "numbered ks" "ks \<noteq> []" "last ks = (e, n)" "1 \<le> n"
  shows "numbered (ks @ [(e, Suc n)])"
  using assms by (auto simp: numbered_def nth_append less_Suc_eq last_conv_nth)

lemma numbered_first:
  assumes "numbered ks" "k < length ks" "ks ! k = (e, n)"
  shows "n \<le> Suc k \<and> ks ! (Suc k - n) = (e, 1)"
  using assms(2,3)
proof (induction k arbitrary: n)
  case 0
  then show ?case using assms(1) by (auto simp: numbered_def split: if_splits)
next
  case (Suc k)
  have n1: "1 \<le> n" using assms(1) Suc.prems by (force simp: numbered_def)
  show ?case
  proof (cases "n = 1")
    case True
    then show ?thesis using Suc.prems by simp
  next
    case False
    then have "ks ! k = (e, n - 1)" using assms(1) Suc.prems by (force simp: numbered_def)
    then have "n - 1 \<le> Suc k \<and> ks ! (Suc k - (n - 1)) = (e, 1)" using Suc by simp
    then show ?thesis using n1 by (simp add: Suc_diff_le le_diff_conv)
  qed
qed

lemma numbered_earlier:
  assumes "numbered ks" "k < length ks" "ks ! k = (e, 1)" "j < k"
  shows "fst (ks ! j) < e"
  using assms by (force simp: numbered_def)

section \<open>The invariant\<close>

definition ep_inv :: "ep_bar list \<Rightarrow> nat \<Rightarrow> ep_state \<Rightarrow> bool" where
  "ep_inv bs i s \<longleftrightarrow>
     (active s \<longrightarrow> wave_ok bs i s \<and> ph s \<noteq> Broken \<and> start s < i \<and> 1 \<le> episode_id s) \<and>
     (\<not> active s \<longrightarrow> zone s = None) \<and>
     (active s \<and> zone s = None \<longrightarrow> touch_number s = 0 \<and> ph s = Away \<and>
        (\<forall>r \<in> set (touches s). tr_episode_id r < episode_id s)) \<and>
     (\<forall>k. zone s = Some k \<longrightarrow> Suc k = length (touches s) \<and>
        row_key (touches s ! k) = (episode_id s, touch_number s) \<and> 1 \<le> touch_number s \<and>
        phase_ok (ph s) (touches s ! k)) \<and>
     numbered (map row_key (touches s)) \<and>
     (\<forall>r \<in> set (touches s). row_ok bs i r \<and> 1 \<le> tr_episode_id r \<and> tr_episode_id r \<le> episode_id s) \<and>
     (\<forall>k < length (touches s). zone s \<noteq> Some k \<longrightarrow> phase_ok Away (touches s ! k)) \<and>
     map er_episode_id (episodes s) = [1..<Suc (episode_id s)]"

text \<open>A write through the zone alias that keeps the key keeps the table's shape.\<close>

lemma update_zone_keys:
  assumes "zone s = Some k" "k < length (touches s)" "\<And>r. row_key (f r) = row_key r"
  shows "map row_key (touches (update_zone f s)) = map row_key (touches s)"
  using assms by (simp add: update_zone_touches map_update list_update_same_conv)

lemma ep_inv_init: "ep_inv bs 0 init_state"
  by (simp add: ep_inv_def init_state_def numbered_def)

text \<open>
  The shape of every step of an active episode that touches at most the current row: the new
  state keeps the identity of the episode, carries a good wave, and changes the current row
  (if any) by a key-preserving update that fits the new phase.
\<close>

lemma ep_inv_update:
  assumes inv: "ep_inv bs i s" "active s"
    and same: "active t" "episode_id t = episode_id s" "start t = start s" "touch_number t = touch_number s"
      "zone t = zone s" "episodes t = episodes s"
    and wave: "wave_ok bs (Suc i) t"
    and none: "zone s = None \<Longrightarrow> touches t = touches s \<and> ph t = Away"
    and some: "\<And>k. zone s = Some k \<Longrightarrow>
      \<exists>r. touches t = (touches s)[k := r] \<and> row_key r = row_key (touches s ! k) \<and>
          row_ok bs (Suc i) r \<and> phase_ok (ph t) r \<and> ph t \<noteq> Broken"
  shows "ep_inv bs (Suc i) t"
proof (cases "zone s")
  case None
  then show ?thesis using assms by (auto simp: ep_inv_def intro: row_ok_mono)
next
  case (Some k)
  from some[OF Some] obtain r where r: "touches t = (touches s)[k := r]"
    "row_key r = row_key (touches s ! k)" "row_ok bs (Suc i) r" "phase_ok (ph t) r" "ph t \<noteq> Broken"
    by blast
  have k: "Suc k = length (touches s)" and key: "row_key (touches s ! k) = (episode_id s, touch_number s)"
    using inv(1) Some by (auto simp: ep_inv_def)
  have keys: "map row_key (touches t) = map row_key (touches s)"
    using r(1,2) k by (simp add: map_update list_update_same_conv)
  have rows: "row_ok bs (Suc i) q \<and> 1 \<le> tr_episode_id q \<and> tr_episode_id q \<le> episode_id s"
    if q: "q \<in> set (touches t)" for q
  proof (cases "q = r")
    case True
    have "tr_episode_id q = episode_id s" using True r(2) key by (simp add: row_key_def)
    then show ?thesis using True r(3) inv by (simp add: ep_inv_def)
  next
    case False
    then have "q \<in> set (touches s)" using q r(1) set_update_subset_insert by fastforce
    then show ?thesis using inv(1) by (auto simp: ep_inv_def intro: row_ok_mono)
  qed
  have others: "phase_ok Away (touches t ! j)" if "j < length (touches t)" "j \<noteq> k" for j
    using that inv(1) Some r(1) by (auto simp: ep_inv_def)
  show ?thesis unfolding ep_inv_def
    using inv Some k key keys rows others wave same r by (auto simp: ep_inv_def)
qed

lemma wave_ok_update_zone [simp]: "wave_ok bs i (update_zone f s) = wave_ok bs i s"
  by (rule wave_ok_cong) simp_all

lemma current_row:
  assumes "ep_inv bs i s" "zone s = Some k"
  shows "k < length (touches s)" "row_ok bs i (touches s ! k)" "phase_ok (ph s) (touches s ! k)"
  using assms by (auto simp: ep_inv_def intro: nth_mem)

end
