(* ===== verification/EpisodeSteps.thy ===== *)
theory EpisodeSteps
  imports EpisodeInvariant
begin

text \<open>
  Every branch of the bar step keeps the episode invariant, so every run does
  (\<open>interpretation ep: bar_machine\<close>).
\<close>

section \<open>Branches of an active bar\<close>

lemma forming_frame_run [simp]:
  "run_low (update_forming bs i s) = run_low s" "run_high (update_forming bs i s) = run_high s"
  by (simp_all add: update_forming_def reset_forming_def)

lemma away_bar_inv:
  assumes inv: "ep_inv bs i s" and a: "active s" "ph s = Away"
  shows "ep_inv bs (Suc i) (fst (away_bar bs i s))"
proof (cases "touch_opens bs i")
  case False
  have "ep_inv bs (Suc i) (update_forming bs i s)"
  proof (rule ep_inv_update[OF inv a(1)])
    show "wave_ok bs (Suc i) (update_forming bs i s)"
      using inv a by (intro wave_ok_update) (simp add: ep_inv_def)
    fix k assume k: "zone s = Some k"
    note c = current_row[OF inv k]
    show "\<exists>r. touches (update_forming bs i s) = (touches s)[k := r] \<and> row_key r = row_key (touches s ! k) \<and>
        row_ok bs (Suc i) r \<and> phase_ok (ph (update_forming bs i s)) r \<and> ph (update_forming bs i s) \<noteq> Broken"
      using c a(2) by (intro exI[of _ "touches s ! k"]) (auto intro: row_ok_mono)
  qed (use a in simp_all)
  then show ?thesis using False by (simp add: away_bar_def)
next
  case True
  have w: "wave_ok bs i s" using inv a by (simp add: ep_inv_def)
  define t where "t = open_zone bs i s"
  obtain row where touches: "touches t = touches s @ [row]"
    and key: "row_key row = (episode_id s, touch_number s + 1)"
    and row: "row_ok bs (Suc i) row" and ph: "phase_ok Zone row"
  proof
    show "touches t = touches s @ [last (touches t)]"
      by (simp add: t_def open_zone_def Let_def)
    show "row_key (last (touches t)) = (episode_id s, touch_number s + 1)"
      by (simp add: t_def open_zone_def Let_def row_key_def)
    show "row_ok bs (Suc i) (last (touches t))"
      using w by (clarsimp simp add: t_def open_zone_def Let_def row_ok_def wave_ok_def)
    show "phase_ok Zone (last (touches t))"
      by (simp add: t_def open_zone_def Let_def phase_ok_def)
  qed
  have rest: "active t = active s" "episode_id t = episode_id s" "start t = start s"
    "touch_number t = touch_number s + 1" "zone t = Some (length (touches s))" "ph t = Zone"
    "episodes t = episodes s"
    by (simp_all add: t_def open_zone_def Let_def)
  have wave: "wave_ok bs (Suc i) t"
    by (simp add: t_def open_zone_def Let_def wave_ok_reset)
  have num: "numbered (map row_key (touches t))"
  proof (cases "zone s")
    case None
    then have "\<And>j. j < length (map row_key (touches s)) \<Longrightarrow> fst (map row_key (touches s) ! j) < episode_id s"
      and "touch_number s = 0"
      using inv a by (auto simp: ep_inv_def row_key_def)
    then show ?thesis using inv numbered_snoc_first[of "map row_key (touches s)" "episode_id s"]
      by (simp add: touches key ep_inv_def)
  next
    case (Some k)
    have k: "Suc k = length (touches s)" "row_key (touches s ! k) = (episode_id s, touch_number s)"
      "1 \<le> touch_number s"
      using inv Some by (auto simp: ep_inv_def)
    have "last (map row_key (touches s)) = (episode_id s, touch_number s)"
      using k by (cases "touches s" rule: rev_cases) auto
    moreover have "touches s \<noteq> []" using k(1) by auto
    moreover have "numbered (map row_key (touches s))" using inv by (simp add: ep_inv_def)
    ultimately show ?thesis
      using k(3) numbered_snoc_next[of "map row_key (touches s)" "episode_id s" "touch_number s"]
      by (simp add: touches key)
  qed
  have rows: "row_ok bs (Suc i) q \<and> 1 \<le> tr_episode_id q \<and> tr_episode_id q \<le> episode_id s"
    if "q \<in> set (touches t)" for q
    using that inv a row key by (auto simp: touches ep_inv_def row_key_def intro: row_ok_mono)
  have closed: "phase_ok Away (touches s ! k)" if "k < length (touches s)" for k
    using that inv a current_row(3)[OF inv] by (cases "zone s = Some k") (auto simp: ep_inv_def)
  have "ep_inv bs (Suc i) t"
    using inv a wave num rows closed key ph unfolding ep_inv_def rest
    by (auto simp: touches nth_append less_Suc_eq)
  then show ?thesis using True by (simp add: away_bar_def t_def)
qed

lemma zone_bar_inv:
  assumes inv: "ep_inv bs i s" and a: "active s" "ph s = Zone"
  shows "ep_inv bs (Suc i) (fst (zone_bar w bs i s))"
proof -
  obtain k where k: "zone s = Some k" using inv a by (auto simp: ep_inv_def)
  define r where "r = touches s ! k"
  note c = current_row[OF inv k, folded r_def]
  have w: "wave_ok bs (Suc i) (update_forming bs i s)"
    using inv a by (intro wave_ok_update) (simp add: ep_inv_def)
  have kl: "touches s = (touches s)[k := r]" by (simp add: r_def)
  have z: "zone_final r = Fin 0" "has_false_break r = Fin 0" "zone_known_at r = None"
    "fb_start r = None" "fb_final r = NaN" "fb_known_at r = None"
    using c(2,3) a(2) by (auto simp: phase_ok_def row_ok_def)
  define t where "t = fst (zone_bar w bs i s)"
  have frame: "active t" "episode_id t = episode_id s" "start t = start s"
    "touch_number t = touch_number s" "zone t = zone s" "episodes t = episodes s"
    by (simp_all add: a(1) t_def zone_bar_def Let_def open_false_break_def)
  have wave: "wave_ok bs (Suc i) t"
  proof -
    have "wave_ok bs (Suc i) t = wave_ok bs (Suc i) (update_forming bs i s)"
      by (rule wave_ok_cong) (simp_all add: t_def zone_bar_def Let_def open_false_break_def)
    then show ?thesis using w by simp
  qed
  have row: "\<exists>r'. touches t = (touches s)[k := r'] \<and> row_key r' = row_key r \<and>
      row_ok bs (Suc i) r' \<and> phase_ok (ph t) r' \<and> ph t \<noteq> Broken" (is "\<exists>r'. ?good r'")
  proof -
    let ?l = "lo (bs ! i)" and ?h = "hi (bs ! i)" and ?a = "an (bs ! i)"
    consider (leave) "fgt ?l ?a" "w < i - last_contact s" | (above) "fgt ?l ?a" "\<not> w < i - last_contact s"
      | (break) "\<not> fgt ?l ?a" "flt ?h ?a" "w < Suc (below_run s)"
      | (below) "\<not> fgt ?l ?a" "flt ?h ?a" "\<not> w < Suc (below_run s)"
      | (touch) "\<not> fgt ?l ?a" "\<not> flt ?h ?a"
      by blast
    then show ?thesis
    proof cases
      case leave
      then have "?good (r\<lparr>zone_final := Fin 1, zone_known_at := Some i\<rparr>)"
        using c z k kl by (auto simp: t_def zone_bar_def Let_def update_zone_touches row_key_def
            row_ok_def phase_ok_def r_def [symmetric])
      then show ?thesis ..
    next
      case above
      then have "?good r" using c(2,3) z k kl a
        by (auto simp: t_def zone_bar_def Let_def intro: row_ok_mono)
      then show ?thesis ..
    next
      case break
      define l h where "l = (if below_run s = 0 then ?l else py_min (run_low s) ?l)"
        and "h = (if below_run s = 0 then ?h else py_max (run_high s) ?h)"
      have t: "touches t = (touches s)[k := r\<lparr>zone_final := Fin 1, zone_known_at := Some i,
          has_false_break := Fin 1, fb_start := Some (i - Suc (below_run s) + 1), fb_end := Some i,
          fb_low := l, fb_high := h, fb_depth := fsub (zone_low r) l, fb_final := Fin 0\<rparr>]"
        and p: "ph t = FalseBreak"
        using break k by (simp_all add: t_def zone_bar_def Let_def open_false_break_def update_zone_touches
            r_def [symmetric] l_def h_def)
      have "?good (r\<lparr>zone_final := Fin 1, zone_known_at := Some i,
          has_false_break := Fin 1, fb_start := Some (i - Suc (below_run s) + 1), fb_end := Some i,
          fb_low := l, fb_high := h, fb_depth := fsub (zone_low r) l, fb_final := Fin 0\<rparr>)"
        using c z t p by (auto simp: row_key_def row_ok_def phase_ok_def)
      then show ?thesis ..
    next
      case below
      then have "?good r" using c(2,3) z k kl a
        by (auto simp: t_def zone_bar_def Let_def intro: row_ok_mono)
      then show ?thesis ..
    next
      case touch
      then obtain l h where t: "touches t = (touches s)[k := r\<lparr>zone_end := i, zone_low := l, zone_high := h\<rparr>]"
        and p: "ph t = Zone"
        using k a by (auto simp: t_def zone_bar_def Let_def update_zone_touches r_def [symmetric])
      have "?good (r\<lparr>zone_end := i, zone_low := l, zone_high := h\<rparr>)"
        using c z t p by (auto simp: row_key_def row_ok_def phase_ok_def)
      then show ?thesis ..
    qed
  qed
  show ?thesis unfolding t_def [symmetric]
    by (rule ep_inv_update[OF inv a(1) frame wave]) (use k row r_def in auto)
qed

lemma extend_false_break_touches:
  "zone s = Some k \<Longrightarrow> \<exists>l h d. touches (extend_false_break bs i s) =
     (touches s)[k := (touches s ! k)\<lparr>fb_end := Some i, fb_low := l, fb_high := h, fb_depth := d\<rparr>]"
  by (auto simp: extend_false_break_def Let_def update_zone_touches)

lemma extend_false_break_frame [simp]:
  "active (extend_false_break bs i s) = active s" "censored (extend_false_break bs i s) = censored s"
  "episode_id (extend_false_break bs i s) = episode_id s" "start (extend_false_break bs i s) = start s"
  "touch_number (extend_false_break bs i s) = touch_number s" "ph (extend_false_break bs i s) = ph s"
  "zone (extend_false_break bs i s) = zone s" "episodes (extend_false_break bs i s) = episodes s"
  "wave_ok bs j (extend_false_break bs i s) = wave_ok bs j s"
  by (simp_all add: extend_false_break_def Let_def) (rule wave_ok_cong, simp_all)

lemma false_break_bar_inv:
  assumes inv: "ep_inv bs i s" and a: "active s" "ph s = FalseBreak"
  shows "ep_inv bs (Suc i) (fst (false_break_bar bs i s))"
proof -
  obtain k where k: "zone s = Some k" using inv a by (auto simp: ep_inv_def)
  define r where "r = touches s ! k"
  note c = current_row[OF inv k, folded r_def]
  have w: "wave_ok bs (Suc i) (update_forming bs i s)"
    using inv a by (intro wave_ok_update) (simp add: ep_inv_def)
  have z: "zone_final r = Fin 1" "has_false_break r = Fin 1" "fb_final r = Fin 0" "fb_start r \<noteq> None"
    using c(2,3) a(2) by (auto simp: phase_ok_def row_ok_def)
  obtain l h d where e: "touches (extend_false_break bs i (update_forming bs i s)) =
     (touches s)[k := r\<lparr>fb_end := Some i, fb_low := l, fb_high := h, fb_depth := d\<rparr>]"
    using extend_false_break_touches[of "update_forming bs i s" k bs i] k by (auto simp: r_def)
  define t where "t = fst (false_break_bar bs i s)"
  have frame: "active t" "episode_id t = episode_id s" "start t = start s"
    "touch_number t = touch_number s" "zone t = zone s" "episodes t = episodes s"
    by (simp_all add: a(1) t_def false_break_bar_def Let_def)
  have wave: "wave_ok bs (Suc i) t"
  proof -
    have "wave_ok bs (Suc i) t = wave_ok bs (Suc i) (extend_false_break bs i (update_forming bs i s))"
      by (rule wave_ok_cong) (simp_all add: t_def false_break_bar_def Let_def)
    then show ?thesis using w by simp
  qed
  have row: "\<exists>r'. touches t = (touches s)[k := r'] \<and> row_key r' = row_key r \<and>
      row_ok bs (Suc i) r' \<and> phase_ok (ph t) r' \<and> ph t \<noteq> Broken" (is "\<exists>r'. ?good r'")
  proof (cases "fgt (cl (bs ! i)) (an (bs ! i))")
    case True
    then have "?good (r\<lparr>fb_end := Some i, fb_low := l, fb_high := h, fb_depth := d,
        fb_outcome_comeback := Fin 1, fb_final := Fin 1, fb_known_at := Some i\<rparr>)"
      using c z k a e by (auto simp: t_def false_break_bar_def Let_def update_zone_touches
          row_key_def row_ok_def phase_ok_def)
    then show ?thesis ..
  next
    case False
    then have "?good (r\<lparr>fb_end := Some i, fb_low := l, fb_high := h, fb_depth := d\<rparr>)"
      using c z k a e by (auto simp: t_def false_break_bar_def Let_def row_key_def row_ok_def phase_ok_def)
    then show ?thesis ..
  qed
  show ?thesis unfolding t_def [symmetric]
    by (rule ep_inv_update[OF inv a(1) frame wave]) (use k row r_def in auto)
qed

section \<open>Opening and breaking an episode\<close>

lemma open_episode_inv:
  assumes inv: "ep_inv bs i s" and a: "\<not> active s" and i: "i < length bs"
  shows "ep_inv bs (Suc i) (open_episode c bs i s)"
proof -
  define s1 where "s1 = s\<lparr>active := True, episode_id := episode_id s + 1, start := i,
                censored := (int i < c), violation := 0, touch_number := 0,
                false_breaks := 0, ph := Away, zone := None\<rparr>"
  define s2 where "s2 = seed_first_wave bs i (reset_forming bs i s1)"
  define t where "t = open_episode c bs i s"
  have t: "t = s2\<lparr>episodes := episodes s2 @
             [\<lparr>er_episode_id = episode_id s2, er_start_bar = i, er_end_bar = None,
               er_censored = censored s2\<rparr>]\<rparr>"
    by (simp add: t_def open_episode_def Let_def s1_def s2_def)
  have wave: "wave_ok bs (Suc i) t"
  proof -
    have "wave_ok bs (Suc i) s2" unfolding s2_def by (rule wave_ok_seed[OF i wave_ok_reset])
    then show ?thesis by (subst wave_ok_cong[of t s2]) (simp_all add: t)
  qed
  have f: "active t" "episode_id t = episode_id s + 1" "start t = i" "touch_number t = 0" "ph t = Away"
    "zone t = None" "touches t = touches s"
    "map er_episode_id (episodes t) = map er_episode_id (episodes s) @ [episode_id s + 1]"
    by (simp_all add: t s2_def s1_def)
  have z: "zone s = None" using inv a by (simp add: ep_inv_def)
  have rows: "row_ok bs (Suc i) r \<and> 1 \<le> tr_episode_id r \<and> tr_episode_id r \<le> episode_id s"
    if "r \<in> set (touches s)" for r
    using that inv by (auto simp: ep_inv_def intro: row_ok_mono)
  have ids: "map er_episode_id (episodes s) @ [episode_id s + 1] = [1..<Suc (episode_id s + 1)]"
    using inv by (simp add: ep_inv_def upt_Suc_append)
  have closed: "\<forall>k<length (touches s). phase_ok Away (touches s ! k)" and num: "numbered (map row_key (touches s))"
    using inv z by (simp_all add: ep_inv_def)
  show ?thesis unfolding t_def [symmetric] ep_inv_def f ids
  proof (intro conjI impI allI ballI)
    fix r assume "r \<in> set (touches s)"
    note r = rows [OF this]
    show "tr_episode_id r < episode_id s + 1" "row_ok bs (Suc i) r" "1 \<le> tr_episode_id r"
      "tr_episode_id r \<le> episode_id s + 1"
      using r by simp_all
  qed (use wave closed num in simp_all)
qed

lemma stack_break_inv:
  assumes inv: "ep_inv bs i s" and a: "active s" and e: "episodes s \<noteq> []"
  shows "ep_inv bs (Suc i) (end_bar (stack_break bs i s))"
proof -
  define s1 where "s1 = update_forming bs i s"
  define s2 where "s2 = (if zone s1 \<noteq> None \<and> ph s1 = Zone
        then update_zone (\<lambda>r. r\<lparr>zone_final := Fin 1, zone_known_at := Some i\<rparr>) s1 else s1)"
  define s3 where "s3 = (if zone s2 \<noteq> None \<and> ph s2 = FalseBreak
        then update_zone (\<lambda>r. r\<lparr>fb_outcome_comeback := Fin 0, fb_final := Fin 1, fb_known_at := Some i\<rparr>)
               (extend_false_break bs i s2) else s2)"
  define t where "t = end_bar (stack_break bs i s)"
  have s3: "episode_id s3 = episode_id s" "episodes s3 = episodes s"
    by (simp_all add: s1_def s2_def s3_def)
  have close: "map er_episode_id (butlast es @ [(last es)\<lparr>er_end_bar := v\<rparr>]) = map er_episode_id es"
    if "es \<noteq> []" for es :: "episode_row list" and v
    using that by (cases es rule: rev_cases) simp_all
  define s4 where "s4 = s3\<lparr>ph := Broken,
      episodes := butlast (episodes s3) @ [(last (episodes s3))\<lparr>er_end_bar := Some i\<rparr>]\<rparr>"
  have sb: "stack_break bs i s = s4\<lparr>forming_rows := forming_rows s4 @ [make_forming_row s4 (Some i)]\<rparr>"
    by (simp only: stack_break_def Let_def s1_def s2_def s3_def s4_def)
  have t: "touches t = touches s3" "zone t = None" "active t = False" "episode_id t = episode_id s"
    "map er_episode_id (episodes t) = map er_episode_id (episodes s)"
    using e close [of "episodes s"] s3 by (simp_all add: t_def end_bar_def sb s4_def)
  have none: "touches s3 = touches s" if "zone s = None"
    using that by (simp add: s1_def s2_def s3_def)
  have some: "\<exists>r. touches s3 = (touches s)[k := r] \<and> row_key r = row_key (touches s ! k) \<and>
      row_ok bs (Suc i) r \<and> phase_ok Away r" (is "\<exists>r. ?good r") if k: "zone s = Some k" for k
  proof -
    define r where "r = touches s ! k"
    note c = current_row[OF inv k, folded r_def]
    have nb: "ph s \<noteq> Broken" using inv a by (simp add: ep_inv_def)
    consider "ph s = Away" | "ph s = Zone" | "ph s = FalseBreak" using nb by (cases "ph s") auto
    then show ?thesis
    proof cases
      case 1
      then have "?good r" using k c by (auto simp: s1_def s2_def s3_def r_def intro: row_ok_mono)
      then show ?thesis ..
    next
      case 2
      then have "?good (r\<lparr>zone_final := Fin 1, zone_known_at := Some i\<rparr>)"
        using k c by (auto simp: s1_def s2_def s3_def r_def update_zone_touches row_key_def row_ok_def phase_ok_def)
      then show ?thesis ..
    next
      case 3
      obtain l h d where x: "touches (extend_false_break bs i s2) =
          (touches s)[k := r\<lparr>fb_end := Some i, fb_low := l, fb_high := h, fb_depth := d\<rparr>]"
        using extend_false_break_touches[of s2 k bs i] k 3 by (auto simp: s1_def s2_def r_def)
      have "?good (r\<lparr>fb_end := Some i, fb_low := l, fb_high := h, fb_depth := d,
          fb_outcome_comeback := Fin 0, fb_final := Fin 1, fb_known_at := Some i\<rparr>)"
        using 3 k c x by (auto simp: s1_def s2_def s3_def r_def update_zone_touches row_key_def row_ok_def phase_ok_def)
      then show ?thesis ..
    qed
  qed
  have closed: "phase_ok Away (touches s3 ! j)" if "j < length (touches s3)" for j
  proof (cases "zone s")
    case None
    then show ?thesis using that none inv by (simp add: ep_inv_def)
  next
    case (Some k)
    with some obtain r where r: "touches s3 = (touches s)[k := r]" "phase_ok Away r" by blast
    then show ?thesis using that inv Some by (cases "j = k") (auto simp: ep_inv_def)
  qed
  have keys: "map row_key (touches s3) = map row_key (touches s)"
  proof (cases "zone s")
    case (Some k)
    with some obtain r where "touches s3 = (touches s)[k := r]" "row_key r = row_key (touches s ! k)" by blast
    then show ?thesis by (simp add: map_update list_update_same_conv current_row(1)[OF inv Some])
  qed (simp add: none)
  have rows: "row_ok bs (Suc i) q" if "q \<in> set (touches s3)" for q
  proof (cases "zone s")
    case None
    then show ?thesis using that none inv by (auto simp: ep_inv_def intro: row_ok_mono)
  next
    case (Some k)
    with some obtain r where r: "touches s3 = (touches s)[k := r]" "row_ok bs (Suc i) r" by blast
    then have "q = r \<or> q \<in> set (touches s)" using that set_update_subset_insert by fastforce
    then show ?thesis using r(2) inv by (auto simp: ep_inv_def intro: row_ok_mono)
  qed
  have ids: "1 \<le> tr_episode_id q \<and> tr_episode_id q \<le> episode_id s" if q: "q \<in> set (touches s3)" for q
  proof -
    have "row_key q \<in> set (map row_key (touches s))" using q keys by (metis image_eqI list.set_map)
    then show ?thesis using inv by (auto simp: ep_inv_def row_key_def)
  qed
  show ?thesis unfolding t_def [symmetric] ep_inv_def t
    using closed keys rows ids inv by (simp add: t ep_inv_def)
qed

section \<open>The machine\<close>

lemma active_bar_not_broken:
  assumes "ep_inv bs i s" "active s"
  shows "ep_inv bs (Suc i) (end_bar (fst (active_bar w k bs i s)))"
proof -
  define s0 where "s0 = s\<lparr>violation := (if order_ok (bs ! i) then 0 else violation s + 1)\<rparr>"
  have w0: "wave_ok bs i s0 = wave_ok bs i s" by (rule wave_ok_cong) (simp_all add: s0_def)
  have inv: "ep_inv bs i s0" and a: "active s0" using assms w0 by (auto simp: ep_inv_def s0_def)
  have e: "episodes s0 \<noteq> []"
  proof
    assume "episodes s0 = []"
    then have "[1..<Suc (episode_id s0)] = []" using inv by (simp add: ep_inv_def)
    then show False using inv a by (simp add: ep_inv_def)
  qed
  have keep: "end_bar t = t" if "ep_inv bs (Suc i) t" "active t" for t
    using that by (simp add: end_bar_def ep_inv_def)
  show ?thesis
  proof (cases "k < violation s0")
    case True
    then show ?thesis using stack_break_inv[OF inv a e]
      by (simp add: active_bar_def s0_def [symmetric])
  next
    case nb: False
    show ?thesis
    proof (cases "isfinite (an (bs ! i))")
      case False
      have "ep_inv bs (Suc i) (update_forming bs i s0)"
      proof (rule ep_inv_update[OF inv a])
        show "wave_ok bs (Suc i) (update_forming bs i s0)"
          using inv a by (intro wave_ok_update) (simp add: ep_inv_def)
        show "\<exists>r. touches (update_forming bs i s0) = (touches s0)[q := r] \<and> row_key r = row_key (touches s0 ! q) \<and>
            row_ok bs (Suc i) r \<and> phase_ok (ph (update_forming bs i s0)) r \<and> ph (update_forming bs i s0) \<noteq> Broken"
          if "zone s0 = Some q" for q
          using current_row(3)[OF inv that] row_ok_mono[OF current_row(2)[OF inv that], of "Suc i"] inv a
          by (intro exI[of _ "touches s0 ! q"]) (simp add: ep_inv_def)
        show "touches (update_forming bs i s0) = touches s0 \<and> ph (update_forming bs i s0) = Away" if "zone s0 = None"
          using that inv a by (simp add: ep_inv_def)
      qed (use a in simp_all)
      moreover from this have "end_bar (update_forming bs i s0) = update_forming bs i s0"
        using a by (intro keep) simp_all
      ultimately show ?thesis using nb False by (simp add: active_bar_def s0_def [symmetric])
    next
      case True
      have acts: "active (fst (away_bar bs i s0)) = active s0" "active (fst (zone_bar w bs i s0)) = active s0"
        "active (fst (false_break_bar bs i s0)) = active s0"
        by (simp_all add: away_bar_def open_zone_def zone_bar_def false_break_bar_def open_false_break_def Let_def)
      have "ph s0 \<noteq> Broken" using inv a by (simp add: ep_inv_def)
      then have "ep_inv bs (Suc i) (fst (active_bar w k bs i s)) \<and> active (fst (active_bar w k bs i s))"
        using nb True a acts away_bar_inv[OF inv a] zone_bar_inv[OF inv a] false_break_bar_inv[OF inv a]
        by (cases "ph s0") (simp_all add: active_bar_def s0_def [symmetric])
      then show ?thesis using keep by simp
    qed
  qed
qed

lemma bar_step_inv:
  assumes "ep_inv bs i s" "i < length bs"
  shows "ep_inv bs (Suc i) (fst (bar_step w k c bs s i))"
proof (cases "active s")
  case True
  then show ?thesis using active_bar_not_broken[OF assms(1), of w k]
    by (simp add: bar_step_def split_beta)
next
  case False
  show ?thesis
  proof (cases "order_ok (bs ! i)")
    case True
    have "end_bar (open_episode c bs i s) = open_episode c bs i s"
      by (simp add: end_bar_def open_episode_def Let_def)
    then show ?thesis using False True open_episode_inv[OF assms(1) False assms(2)]
      by (simp add: bar_step_def Let_def)
  next
    case no: False
    have "ep_inv bs (Suc i) s" using assms(1) False by (auto simp: ep_inv_def intro: row_ok_mono)
    then show ?thesis using False no by (simp add: bar_step_def)
  qed
qed

text \<open>The run visits the bars in order; the invariant speaks of the bars seen so far.\<close>

definition run_inv :: "ep_bar list \<Rightarrow> nat list \<Rightarrow> ep_state \<Rightarrow> bool" where
  "run_inv bs xs s \<longleftrightarrow> (xs = [0..<length xs] \<and> length xs \<le> length bs \<longrightarrow> ep_inv bs (length xs) s)"

lemma upt_snoc_inv: "xs @ [x] = [0..<length (xs @ [x])] \<Longrightarrow> xs = [0..<length xs] \<and> x = length xs"
  by (simp add: upt_Suc_append)

interpretation ep: bar_machine "bar_step w k c bs" init_state "run_inv bs"
proof unfold_locales
  show "run_inv bs [] init_state" by (simp add: run_inv_def ep_inv_init)
  fix xs s x
  assume inv: "run_inv bs xs s"
  show "run_inv bs (xs @ [x]) (fst (bar_step w k c bs s x))"
    unfolding run_inv_def
  proof
    assume xs: "xs @ [x] = [0..<length (xs @ [x])] \<and> length (xs @ [x]) \<le> length bs"
    then have "xs = [0..<length xs]" "x = length xs" using upt_snoc_inv by blast+
    then show "ep_inv bs (length (xs @ [x])) (fst (bar_step w k c bs s x))"
      using inv xs bar_step_inv[of bs "length xs" s w k c] by (simp add: run_inv_def)
  qed
qed

lemma project_run_inv: "ep_inv bs (length bs) (fst (project_run w k c bs))"
  using ep.inv_run[of bs "[0..<length bs]" w k c] by (simp add: run_inv_def project_run_def)

lemma project_prefix_inv:
  "n \<le> length bs \<Longrightarrow> ep_inv bs n (fst (scan (bar_step w k c bs) init_state [0..<n]))"
  using ep.inv_run[of bs "[0..<n]" w k c] by (simp add: run_inv_def)

end
