(* ===== verification/PyText.thy ===== *)
theory PyText
  imports Prelude "HOL-Library.Char_ord" "HOL-Library.List_Lexorder"
begin

text \<open>
  Python's text conversions that the engine uses, over code points below 256: \<open>int(text)\<close>,
  \<open>repr\<close> of a string, \<open>float.hex\<close> of a double given by its bits, and the order of
  strings (by code point) that \<open>sorted\<close> uses.
\<close>

section \<open>Parsing integers\<close>

definition int_space :: "char \<Rightarrow> bool" where
  "int_space c = ((of_char c :: nat) \<in> {9, 10, 11, 12, 13, 32, 133, 160})"

definition strip_by :: "(char \<Rightarrow> bool) \<Rightarrow> string \<Rightarrow> string" where
  "strip_by p s = rev (dropWhile p (rev (dropWhile p s)))"

text \<open>Digits with single underscores between digits; the flag says a digit came before.\<close>

fun digit_run :: "bool \<Rightarrow> string \<Rightarrow> string option" where
  "digit_run prev [] = (if prev then Some [] else None)"
| "digit_run prev (c # cs) =
     (if is_digit c then map_option (Cons c) (digit_run True cs)
      else if prev \<and> c = CHR ''_'' then digit_run False cs
      else None)"

text \<open>More than 4300 digits are refused.\<close>

definition py_int_text :: "string \<Rightarrow> int option" where
  "py_int_text s =
     (let t = strip_by int_space s;
          neg = (take 1 t = ''-'');
          body = (if take 1 t = ''-'' \<or> take 1 t = ''+'' then drop 1 t else t)
      in case digit_run False body of
           None \<Rightarrow> None
         | Some ds \<Rightarrow> if 4300 < length ds then None
                    else Some (if neg then - int (digits_val ds) else int (digits_val ds)))"

lemma digit_run_digits: "list_all is_digit ds \<Longrightarrow> prev \<or> ds \<noteq> [] \<Longrightarrow> digit_run prev ds = Some ds"
  by (induction ds arbitrary: prev) auto

lemma digit_run_only: "digit_run prev cs = Some ds \<Longrightarrow> list_all is_digit ds"
  by (induction cs arbitrary: prev ds) (auto split: if_splits)

lemma digit_not_space: "is_digit c \<Longrightarrow> \<not> int_space c"
  by (auto simp: is_digit_def int_space_def)

lemma strip_digits: "list_all is_digit ds \<Longrightarrow> strip_by int_space ds = ds"
proof -
  assume d: "list_all is_digit ds"
  have *: "list_all is_digit xs \<Longrightarrow> dropWhile int_space xs = xs" for xs
    by (cases xs) (simp_all add: digit_not_space)
  show ?thesis using d by (simp add: strip_by_def * list_all_rev)
qed

lemma py_int_show_nat:
  assumes "length (show_nat n) \<le> 4300"
  shows "py_int_text (show_nat n) = Some (int n)"
proof -
  have d: "list_all is_digit (show_nat n)" "show_nat n \<noteq> []" "digits_val (show_nat n) = n"
    using show_nat_digits by auto
  obtain c cs where c: "show_nat n = c # cs" using d(2) by (cases "show_nat n") auto
  then have "is_digit c" using d(1) by simp
  then have "c \<noteq> CHR ''-''" "c \<noteq> CHR ''+''" by (auto simp: is_digit_def)
  then have "take 1 (show_nat n) \<noteq> ''-''" "take 1 (show_nat n) \<noteq> ''+''" by (simp_all add: c)
  then show ?thesis using d assms
    by (simp add: py_int_text_def Let_def strip_digits digit_run_digits)
qed

section \<open>repr\<close>

definition hex_digit :: "nat \<Rightarrow> char" where
  "hex_digit n = (if n < 10 then char_of (48 + n) else char_of (87 + n))"

definition printable :: "char \<Rightarrow> bool" where
  "printable c = (let n = (of_char c :: nat) in 32 \<le> n \<and> n \<noteq> 127 \<and> (n < 128 \<or> 160 < n) \<and> n \<noteq> 173)"

definition escape_char :: "char \<Rightarrow> char \<Rightarrow> string" where
  "escape_char q c =
     (let n = (of_char c :: nat) in
      if c = q \<or> n = 92 then [char_of (92 :: nat), c]
      else if n = 9 then [char_of (92 :: nat), CHR ''t'']
      else if n = 10 then [char_of (92 :: nat), CHR ''n'']
      else if n = 13 then [char_of (92 :: nat), CHR ''r'']
      else if printable c then [c]
      else [char_of (92 :: nat), CHR ''x'', hex_digit (n div 16), hex_digit (n mod 16)])"

definition single_quote :: char where "single_quote = char_of (39 :: nat)"
definition double_quote :: char where "double_quote = char_of (34 :: nat)"

definition repr_str :: "string \<Rightarrow> string" where
  "repr_str s =
     (let q = (if single_quote \<in> set s \<and> double_quote \<notin> set s then double_quote else single_quote)
      in [q] @ concat (map (escape_char q) s) @ [q])"

section \<open>float.hex\<close>

text \<open>A double as sign, biased exponent (below 2048) and fraction (below \<open>2 ^ 52\<close>).\<close>

record double =
  d_sign :: bool
  d_exp :: nat
  d_frac :: nat

definition double_ok :: "double \<Rightarrow> bool" where
  "double_ok d \<longleftrightarrow> d_exp d < 2048 \<and> d_frac d < 2 ^ 52"

definition is_nan :: "double \<Rightarrow> bool" where
  "is_nan d \<longleftrightarrow> d_exp d = 2047 \<and> d_frac d \<noteq> 0"

fun hex_pad :: "nat \<Rightarrow> nat \<Rightarrow> string" where
  "hex_pad 0 n = []"
| "hex_pad (Suc k) n = hex_pad k (n div 16) @ [hex_digit (n mod 16)]"

definition show_exp :: "int \<Rightarrow> string" where
  "show_exp e = (if e < 0 then ''-'' else ''+'') @ show_nat (nat \<bar>e\<bar>)"

definition float_hex :: "double \<Rightarrow> string" where
  "float_hex d =
     (if is_nan d then ''nan''
      else (if d_sign d then ''-'' else []) @
        (if d_exp d = 2047 then ''inf''
         else if d_exp d = 0 \<and> d_frac d = 0 then ''0x0.0p+0''
         else (if d_exp d = 0 then ''0x0.'' else ''0x1.'') @ hex_pad 13 (d_frac d) @
              ''p'' @ show_exp (if d_exp d = 0 then - 1022 else int (d_exp d) - 1023)))"

lemma hex_digit_inj: "m < 16 \<Longrightarrow> n < 16 \<Longrightarrow> hex_digit m = hex_digit n \<Longrightarrow> m = n"
proof -
  assume a: "m < 16" "n < 16" "hex_digit m = hex_digit n"
  have h: "(of_char (hex_digit k) :: nat) = (if k < 10 then 48 + k else 87 + k)" if "k < 16" for k
    using that by (simp add: hex_digit_def)
  have "(if m < 10 then 48 + m else 87 + m) = (if n < 10 then 48 + n else 87 + n)"
    unfolding h[OF a(1), symmetric] h[OF a(2), symmetric] a(3) ..
  then show "m = n" using a(1,2) by presburger
qed

lemma hex_pad_length [simp]: "length (hex_pad k n) = k"
  by (induction k arbitrary: n) auto

lemma hex_pad_inj: "m < 16 ^ k \<Longrightarrow> n < 16 ^ k \<Longrightarrow> hex_pad k m = hex_pad k n \<Longrightarrow> m = n"
proof (induction k arbitrary: m n)
  case (Suc k)
  have b: "m div 16 < 16 ^ k" "n div 16 < 16 ^ k" using Suc.prems by (simp_all add: less_mult_imp_div_less)
  have eq: "hex_pad k (m div 16) = hex_pad k (n div 16)" "hex_digit (m mod 16) = hex_digit (n mod 16)"
    using Suc.prems(3) by simp_all
  have "m div 16 = n div 16" by (rule Suc.IH[OF b eq(1)])
  moreover have "m mod 16 = n mod 16" using eq(2) by (intro hex_digit_inj) simp_all
  ultimately show ?case by (metis div_mult_mod_eq)
qed simp

lemma show_exp_inj: "show_exp a = show_exp b \<Longrightarrow> a = b"
proof -
  assume e: "show_exp a = show_exp b"
  have split: "show_exp x = (if x < 0 then CHR ''-'' else CHR ''+'') # show_nat (nat \<bar>x\<bar>)" for x
    by (simp add: show_exp_def)
  have "show_nat (nat \<bar>a\<bar>) = show_nat (nat \<bar>b\<bar>)" "(a < 0) = (b < 0)"
    using e unfolding split by (simp_all split: if_splits)
  then show "a = b" using show_nat_inj by fastforce
qed

text \<open>The magnitude text of a finite or infinite double.\<close>

definition hex_body :: "double \<Rightarrow> string" where
  "hex_body d =
     (if d_exp d = 2047 then ''inf''
      else if d_exp d = 0 \<and> d_frac d = 0 then ''0x0.0p+0''
      else (if d_exp d = 0 then ''0x0.'' else ''0x1.'') @ hex_pad 13 (d_frac d) @
           ''p'' @ show_exp (if d_exp d = 0 then - 1022 else int (d_exp d) - 1023))"

lemma hex_body_start: "take 1 (hex_body d) = ''i'' \<or> take 1 (hex_body d) = ''0''"
  by (simp add: hex_body_def)

lemma hex_body_inj:
  assumes "double_ok a" "double_ok b" "\<not> is_nan a" "\<not> is_nan b" "hex_body a = hex_body b"
  shows "d_exp a = d_exp b \<and> d_frac a = d_frac b"
proof -
  define Z where "Z = (\<lambda>d :: double. d_exp d = 0 \<and> d_frac d = 0)"
  define body where "body = (\<lambda>d :: double. hex_pad 13 (d_frac d) @
           ''p'' @ show_exp (if d_exp d = 0 then - 1022 else int (d_exp d) - 1023))"
  have big: "length (body d) \<ge> 16" for d
    using show_nat_digits by (simp add: body_def show_exp_def) (metis Suc_leI length_greater_0_conv)
  have frac: "d_frac a < 16 ^ 13" "d_frac b < 16 ^ 13" using assms(1,2) by (simp_all add: double_ok_def)
  consider (inf) "d_exp a = 2047" | (zero) "d_exp a \<noteq> 2047" "Z a" | (num) "d_exp a \<noteq> 2047" "\<not> Z a" by blast
  then show ?thesis
  proof cases
    case inf
    then have "d_exp b = 2047" using assms(5) by (auto simp: hex_body_def split: if_splits)
    then show ?thesis using inf assms(3,4) by (simp add: is_nan_def)
  next
    case zero
    have "Z b"
    proof (rule ccontr)
      assume n: "\<not> Z b"
      have "d_exp b \<noteq> 2047" using assms(5) zero by (auto simp: hex_body_def Z_def)
      then have "length (hex_body b) \<ge> 20" using n big[of b] by (simp add: hex_body_def Z_def body_def split: if_splits)
      moreover have "length (hex_body a) = 8" using zero by (simp add: hex_body_def Z_def)
      ultimately show False using assms(5) by simp
    qed
    then show ?thesis using zero by (simp add: Z_def)
  next
    case num
    have ha: "hex_body a = (if d_exp a = 0 then ''0x0.'' else ''0x1.'') @ body a"
      using num(1) num(2)[unfolded Z_def] unfolding hex_body_def body_def by (simp only: if_False)
    have eb: "d_exp b \<noteq> 2047"
    proof
      assume "d_exp b = 2047"
      then have "hex_body b = ''inf''" by (simp add: hex_body_def)
      then show False using assms(5) ha by (simp split: if_splits)
    qed
    have "\<not> Z b"
    proof
      assume "Z b"
      then have "length (hex_body b) = 8" by (simp add: hex_body_def Z_def)
      moreover have "20 \<le> length (hex_body a)" using big[of a] by (simp add: ha)
      ultimately show False using assms(5) by simp
    qed
    then have hb: "hex_body b = (if d_exp b = 0 then ''0x0.'' else ''0x1.'') @ body b"
      using eb by (auto simp: hex_body_def Z_def body_def)
    have body: "body a = body b" and z: "(d_exp a = 0) = (d_exp b = 0)"
      using assms(5) unfolding ha hb by (simp_all split: if_splits)
    have "hex_pad 13 (d_frac a) = hex_pad 13 (d_frac b)"
      "show_exp (if d_exp a = 0 then - 1022 else int (d_exp a) - 1023) =
       show_exp (if d_exp b = 0 then - 1022 else int (d_exp b) - 1023)"
      using body by (simp_all add: body_def)
    then have "d_frac a = d_frac b" "(if d_exp a = 0 then - 1022 else int (d_exp a) - 1023) =
       (if d_exp b = 0 then - 1022 else int (d_exp b) - 1023)"
      using hex_pad_inj[OF frac] show_exp_inj by blast+
    then show ?thesis using z by (simp split: if_splits)
  qed
qed

lemma float_hex_body: "\<not> is_nan d \<Longrightarrow> float_hex d = (if d_sign d then ''-'' else []) @ hex_body d"
  by (simp add: float_hex_def hex_body_def)

text \<open>\<open>float.hex\<close> tells any two doubles apart, except that every NaN has one text.\<close>

lemma float_hex_inj:
  assumes "double_ok a" "double_ok b"
  shows "float_hex a = float_hex b \<longleftrightarrow> is_nan a \<and> is_nan b \<or> a = b"
proof (cases "is_nan a \<or> is_nan b")
  case True
  have nan: "float_hex d \<noteq> ''nan''" if "\<not> is_nan d" for d
    using hex_body_start[of d] by (cases "hex_body d") (auto simp: float_hex_body[OF that])
  have "is_nan d \<Longrightarrow> float_hex d = ''nan''" for d by (simp add: float_hex_def)
  then show ?thesis using True nan by metis
next
  case False
  have "hex_body a = hex_body b \<and> d_sign a = d_sign b" if "float_hex a = float_hex b"
    using that hex_body_start[of a] hex_body_start[of b] False
    by (cases "hex_body a"; cases "hex_body b") (auto simp: float_hex_body split: if_splits)
  then have "float_hex a = float_hex b \<Longrightarrow> a = b" using hex_body_inj[OF assms] False by simp
  then show ?thesis using False by blast
qed

end
