(* ===== verification/Domain.thy ===== *)
theory Domain
  imports PyText
begin

text \<open>
  The domain contracts (\<open>domain/ranges.py\<close>, \<open>market.py\<close>, \<open>market_data.py\<close>): timeframes,
  aligned half-open ranges, market identities, complete bar grids and stream bounds.  A class
  whose \<open>__post_init__\<close> validates is a record with a constructor function that returns it
  or the error.  Prices are not read here, so bars carry them as a type parameter.
\<close>

section \<open>Timeframes and ranges\<close>

definition unit_ms :: "string \<Rightarrow> int option" where
  "unit_ms u = map_of [(''m'', 60000), (''h'', 3600000), (''d'', 86400000), (''w'', 604800000)] u"

definition timeframe_duration_ms :: "string \<Rightarrow> int res" where
  "timeframe_duration_ms tf =
     (case py_int_text (butlast tf) of
        None \<Rightarrow> Inl (InvalidRequest ''unsupported timeframe'')
      | Some count \<Rightarrow>
          (if tf = [] then Inl (InvalidRequest ''unsupported timeframe'')
           else case unit_ms [last tf] of
             None \<Rightarrow> Inl (InvalidRequest ''unsupported timeframe'')
           | Some mult \<Rightarrow> raise_if (count \<le> 0) (InvalidRequest ''unsupported timeframe'') (Inr (count * mult))))"

record time_range =
  from_ms :: int
  to_ms :: int

definition validate_alignment :: "time_range \<Rightarrow> string \<Rightarrow> unit res" where
  "validate_alignment r tf =
     raise_if (from_ms r < 0 \<or> to_ms r \<le> from_ms r) (InvalidRequest ''range must be a positive half-open interval'')
     (bindR (timeframe_duration_ms tf) (\<lambda>step_ms.
      raise_if (from_ms r mod step_ms \<noteq> 0 \<or> to_ms r mod step_ms \<noteq> 0)
        (InvalidRequest ''range boundaries must align to timeframe grid'')
        (Inr ())))"

section \<open>Markets\<close>

record market_stream =
  ticker :: string
  base_timeframe :: string

definition is_upper_alnum :: "char \<Rightarrow> bool" where
  "is_upper_alnum c = (is_digit c \<or> 65 \<le> (of_char c :: nat) \<and> (of_char c :: nat) \<le> 90)"

text \<open>\<open>^[A-Z0-9]+\.P$\<close> and \<open>^[1-9][0-9]*[mhdw]$\<close>, full match.\<close>

definition ticker_ok :: "string \<Rightarrow> bool" where
  "ticker_ok s = (2 < length s \<and> drop (length s - 2) s = ''.P'' \<and> list_all is_upper_alnum (take (length s - 2) s))"

definition timeframe_ok :: "string \<Rightarrow> bool" where
  "timeframe_ok s =
     (2 \<le> length s \<and> list_all is_digit (butlast s) \<and> hd s \<noteq> CHR ''0'' \<and> last s \<in> set ''mhdw'')"

definition make_market_stream :: "string \<Rightarrow> string \<Rightarrow> market_stream res" where
  "make_market_stream tk tf =
     raise_if (\<not> ticker_ok tk) (InvalidRequest ''ticker must be canonical .P identity'')
     (raise_if (\<not> timeframe_ok tf) (InvalidRequest ''base_timeframe must be canonical textual timeframe'')
     (bindR (timeframe_duration_ms tf) (\<lambda>_. Inr \<lparr>ticker = tk, base_timeframe = tf\<rparr>)))"

record 'd market_bar =
  open_time_ms :: int
  bar_open :: 'd
  bar_high :: 'd
  bar_low :: 'd
  bar_close :: 'd
  bar_volume :: 'd
  open_interest :: "'d option"

record 'd market_frame =
  market :: market_stream
  requested_range :: time_range
  bars :: "'d market_bar list"
  market_data_hash :: string

text \<open>The loop over the bars, with the open time expected next.\<close>

fun grid_end :: "int \<Rightarrow> int \<Rightarrow> 'd market_bar list \<Rightarrow> int res" where
  "grid_end step expected [] = Inr expected"
| "grid_end step expected (b # bs) =
     raise_if (open_time_ms b \<noteq> expected) (InvalidRequest ''market frame must contain a complete ordered grid'')
       (grid_end step (expected + step) bs)"

definition make_market_frame ::
  "market_stream \<Rightarrow> time_range \<Rightarrow> 'd market_bar list \<Rightarrow> string \<Rightarrow> 'd market_frame res" where
  "make_market_frame m r bs h =
     bindR (timeframe_duration_ms (base_timeframe m)) (\<lambda>step_ms.
     bindR (grid_end step_ms (from_ms r) bs) (\<lambda>expected.
     raise_if (expected \<noteq> to_ms r) (InvalidRequest ''market frame does not cover the complete requested range'')
       (Inr \<lparr>market = m, requested_range = r, bars = bs, market_data_hash = h\<rparr>)))"

section \<open>Stream bounds\<close>

record stream_bounds =
  sb_market :: market_stream
  sb_state :: string
  earliest_committed :: "int option"
  latest_committed :: "int option"

definition neg :: "int option \<Rightarrow> bool" where
  "neg v = (case v of None \<Rightarrow> False | Some n \<Rightarrow> n < 0)"

definition make_stream_bounds :: "market_stream \<Rightarrow> string \<Rightarrow> int option \<Rightarrow> int option \<Rightarrow> stream_bounds res" where
  "make_stream_bounds m st earliest latest =
     raise_if (neg earliest) (UpstreamContract ''Market Data Service returned a negative earliest committed bar'')
     (raise_if (neg latest) (UpstreamContract ''Market Data Service returned a negative latest committed bar'')
     (raise_if (case (earliest, latest) of (Some e, Some l) \<Rightarrow> l < e | _ \<Rightarrow> False)
       (UpstreamContract ''Market Data Service returned inverted stream bounds'')
       (Inr \<lparr>sb_market = m, sb_state = st, earliest_committed = earliest, latest_committed = latest\<rparr>)))"

section \<open>Facts\<close>

lemma unit_ms_pos: "unit_ms u = Some m \<Longrightarrow> 0 < m"
  by (auto simp: unit_ms_def split: if_splits)

lemma duration_pos: "timeframe_duration_ms tf = Inr d \<Longrightarrow> 0 < d"
  by (auto simp: timeframe_duration_ms_def raise_if_Inr dest: unit_ms_pos split: option.splits if_splits)

lemma validate_alignment_ok:
  "validate_alignment r tf = Inr () \<longleftrightarrow>
     0 \<le> from_ms r \<and> from_ms r < to_ms r \<and>
     (\<exists>d. timeframe_duration_ms tf = Inr d \<and> d dvd from_ms r \<and> d dvd to_ms r)"
  by (auto simp: validate_alignment_def bindR_Inr raise_if_Inr dvd_eq_mod_eq_0)

text \<open>A canonical timeframe parses to its digits; no other spelling reaches a stream.\<close>

lemma timeframe_ok_duration:
  assumes "timeframe_ok tf" "length tf \<le> 4301"
  shows "\<exists>m. unit_ms [last tf] = Some m \<and> timeframe_duration_ms tf = Inr (int (digits_val (butlast tf)) * m) \<and>
    0 < digits_val (butlast tf)"
proof -
  have d: "list_all is_digit (butlast tf)" "butlast tf \<noteq> []" "tf \<noteq> []" "length (butlast tf) \<le> 4300"
    using assms by (auto simp: timeframe_ok_def) (metis One_nat_def Suc_1 diff_is_0_eq length_butlast list.size(3) not_less_eq_eq)+
  obtain c cs where c: "butlast tf = c # cs" using d(2) by (cases "butlast tf") auto
  then have hd: "hd tf = c" by (metis append_butlast_last_id append_Cons d(3) list.sel(1))
  have cd: "is_digit c" "c \<noteq> CHR ''0''" using d(1) c assms(1) hd by (auto simp: timeframe_ok_def)
  then have "c \<noteq> CHR ''-''" "c \<noteq> CHR ''+''" by (auto simp: is_digit_def)
  then have p: "py_int_text (butlast tf) = Some (int (digits_val (butlast tf)))"
    using d by (simp add: py_int_text_def Let_def strip_digits digit_run_digits c)
  obtain m where m: "unit_ms [last tf] = Some m"
    using assms(1) by (auto simp: timeframe_ok_def unit_ms_def)
  have dv: "digit_val c \<noteq> 0"
  proof
    assume "digit_val c = 0"
    then have "(of_char c :: nat) = 48" using cd(1) by (simp add: digit_val_def is_digit_def)
    then have "c = char_of (48 :: nat)" by (metis char_of_char)
    moreover have "char_of (48 :: nat) = CHR ''0''" by code_simp
    ultimately show False using cd(2) by simp
  qed
  have ge: "n \<le> foldl (\<lambda>n c. 10 * n + digit_val c) n ds" for n :: nat and ds
  proof (induction ds arbitrary: n)
    case (Cons x ds)
    have "n \<le> 10 * n + digit_val x" by simp
    also have "\<dots> \<le> foldl (\<lambda>n c. 10 * n + digit_val c) (10 * n + digit_val x) ds" by (rule Cons.IH)
    finally show ?case by simp
  qed simp
  have "digit_val c \<le> digits_val (c # cs)" using ge[of "digit_val c" cs] by (simp add: digits_val_def)
  then have pos: "0 < digits_val (butlast tf)" using dv c by simp
  then show ?thesis using p m d(3) by (simp add: timeframe_duration_ms_def)
qed

lemma grid_end_spec:
  "grid_end step e bs = Inr f \<longleftrightarrow>
     f = e + step * int (length bs) \<and> (\<forall>i<length bs. open_time_ms (bs ! i) = e + step * int i)"
proof (induction bs arbitrary: e)
  case Nil
  then show ?case by auto
next
  case (Cons b bs)
  have "(\<forall>i<length (b # bs). open_time_ms ((b # bs) ! i) = e + step * int i) \<longleftrightarrow>
      open_time_ms b = e \<and> (\<forall>i<length bs. open_time_ms (bs ! i) = e + step + step * int i)"
    by (simp add: All_less_Suc2 algebra_simps)
  then show ?case using Cons.IH by (auto simp: raise_if_Inr algebra_simps)
qed

section \<open>Properties\<close>

text \<open>
  A constructed market frame is exactly the grid of its range: as many bars as the range
  holds timeframe steps, bar \<open>i\<close> opening \<open>i\<close> steps after the start, none missing or doubled.
\<close>

theorem market_frame_is_grid:
  assumes "make_market_frame m r bs h = Inr f"
  shows "\<exists>step. timeframe_duration_ms (base_timeframe m) = Inr step \<and> 0 < step \<and>
    to_ms r - from_ms r = step * int (length bs) \<and>
    (\<forall>i<length bs. open_time_ms (bs ! i) = from_ms r + step * int i) \<and>
    bars f = bs \<and> requested_range f = r"
proof -
  obtain step where s: "timeframe_duration_ms (base_timeframe m) = Inr step"
    "grid_end step (from_ms r) bs = Inr (to_ms r)" "f = \<lparr>market = m, requested_range = r, bars = bs, market_data_hash = h\<rparr>"
    using assms by (auto simp: make_market_frame_def bindR_Inr raise_if_Inr)
  then show ?thesis using duration_pos[OF s(1)] grid_end_spec[of step "from_ms r" bs "to_ms r"] by auto
qed

definition wmarket :: market_stream where
  "wmarket = \<lparr>ticker = ''BTC.P'', base_timeframe = ''5m''\<rparr>"

definition wgrid_bar :: "int \<Rightarrow> int market_bar" where
  "wgrid_bar t = \<lparr>open_time_ms = t, bar_open = 1, bar_high = 3, bar_low = 1, bar_close = 2, bar_volume = 0,
     open_interest = None\<rparr>"

theorem market_frame_is_grid_witness:
  "\<exists>f. make_market_frame wmarket \<lparr>from_ms = 300000, to_ms = 900000\<rparr> (map wgrid_bar [300000, 600000]) [] = Inr f \<and>
     length (bars f) = 2"
proof -
  have "make_market_frame wmarket \<lparr>from_ms = 300000, to_ms = 900000\<rparr> (map wgrid_bar [300000, 600000]) [] =
     Inr \<lparr>market = wmarket, requested_range = \<lparr>from_ms = 300000, to_ms = 900000\<rparr>,
       bars = map wgrid_bar [300000, 600000], market_data_hash = []\<rparr>"
    by code_simp
  from market_frame_is_grid[OF this] this show ?thesis by auto
qed

text \<open>
  A range passes the alignment check of a timeframe exactly when it is a non-empty range from
  a non-negative time and both ends are multiples of the timeframe's positive duration.
\<close>

theorem alignment_check_exact:
  "(validate_alignment r tf = Inr ()) =
     (0 \<le> from_ms r \<and> from_ms r < to_ms r \<and>
      (\<exists>d. timeframe_duration_ms tf = Inr d \<and> 0 < d \<and> d dvd from_ms r \<and> d dvd to_ms r))"
  using validate_alignment_ok[of r tf] duration_pos[of tf] by blast

text \<open>
  A constructed market stream has a ticker of upper-case letters and digits with the suffix
  \<open>.P\<close>, and a timeframe whose duration is its digits times its unit, at least one minute.
\<close>

theorem market_stream_canonical:
  assumes "make_market_stream tk tf = Inr s" "length tf \<le> 4301"
  shows "ticker s = tk \<and> base_timeframe s = tf \<and> ticker_ok tk \<and>
    (\<exists>m. unit_ms [last tf] = Some m \<and> timeframe_duration_ms tf = Inr (int (digits_val (butlast tf)) * m) \<and>
      60000 \<le> int (digits_val (butlast tf)) * m)"
proof -
  have ok: "ticker_ok tk" "timeframe_ok tf" "s = \<lparr>ticker = tk, base_timeframe = tf\<rparr>"
    using assms(1) by (auto simp: make_market_stream_def bindR_Inr raise_if_Inr)
  obtain m where m: "unit_ms [last tf] = Some m" "timeframe_duration_ms tf = Inr (int (digits_val (butlast tf)) * m)"
    "0 < digits_val (butlast tf)"
    using timeframe_ok_duration[OF ok(2) assms(2)] by blast
  have "60000 \<le> m" using m(1) by (auto simp: unit_ms_def split: if_splits)
  then have "60000 * 1 \<le> m * int (digits_val (butlast tf))" using m(3) by (intro mult_mono) auto
  then show ?thesis using ok m by (auto simp: mult.commute)
qed

theorem market_stream_canonical_witness:
  "make_market_stream ''BTC.P'' ''15m'' = Inr \<lparr>ticker = ''BTC.P'', base_timeframe = ''15m''\<rparr> \<and>
   (\<exists>m. unit_ms ''m'' = Some m \<and> 60000 \<le> 15 * m)"
proof -
  have m: "make_market_stream ''BTC.P'' ''15m'' = Inr \<lparr>ticker = ''BTC.P'', base_timeframe = ''15m''\<rparr>" by code_simp
  have d: "digits_val ''15'' = 15" by code_simp
  show ?thesis using market_stream_canonical[OF m] m by (auto simp: d)
qed

end
