(* ===== verification/PyFloat.thy ===== *)
theory PyFloat
  imports PyText
begin

text \<open>
  \<open>float(value)\<close> of a JSON document: numbers, truth values and decimal text.  Text is read
  exactly as a rational and rounded once, as the C library does.
\<close>

section \<open>Digits of integers\<close>

function show_pos :: "int \<Rightarrow> string" where
  "show_pos n = (if n < 10 then [char_of (nat (48 + n))] else show_pos (n div 10) @ [char_of (nat (48 + n mod 10))])"
  by auto
termination by (relation "measure nat") auto

declare show_pos.simps [simp del]

definition digits_int :: "string \<Rightarrow> int" where
  "digits_int ds = foldl (\<lambda>n c. 10 * n + int (digit_val c)) 0 ds"

section \<open>Reading decimal text\<close>

text \<open>Underscores may stand only between two digits; they are removed.\<close>

fun drop_underscores :: "bool \<Rightarrow> string \<Rightarrow> string option" where
  "drop_underscores prev [] = Some []"
| "drop_underscores prev (c # cs) =
     (if c = CHR ''_'' then
        (if prev \<and> cs \<noteq> [] \<and> is_digit (hd cs) then drop_underscores False cs else None)
      else map_option (Cons c) (drop_underscores (is_digit c) cs))"

definition lower_char :: "char \<Rightarrow> char" where
  "lower_char c = (let n = (of_char c :: nat) in if 65 \<le> n \<and> n \<le> 90 then char_of (n + 32) else c)"

text \<open>The exponent part: nothing, or \<open>e\<close> with an optionally signed run of digits.\<close>

definition read_exponent :: "string \<Rightarrow> int option" where
  "read_exponent s =
     (case s of [] \<Rightarrow> Some 0
      | c # r \<Rightarrow>
          if lower_char c \<noteq> CHR ''e'' then None
          else (let neg = (take 1 r = ''-'');
                    ds = (if take 1 r = ''-'' \<or> take 1 r = ''+'' then drop 1 r else r)
                in if ds \<noteq> [] \<and> list_all is_digit ds
                   then Some (if neg then - digits_int ds else digits_int ds) else None))"

definition ten_pow :: "int \<Rightarrow> rat" where
  "ten_pow e = (if 0 \<le> e then 10 ^ nat e else 1 / 10 ^ nat (- e))"

definition read_decimal :: "string \<Rightarrow> rat option" where
  "read_decimal s =
     (let ip = takeWhile is_digit s; r1 = dropWhile is_digit s;
          fp = (if take 1 r1 = ''.'' then takeWhile is_digit (drop 1 r1) else []);
          r2 = (if take 1 r1 = ''.'' then dropWhile is_digit (drop 1 r1) else r1)
      in if ip @ fp = [] then None
         else map_option (\<lambda>e. of_int (digits_int (ip @ fp)) * ten_pow (e - int (length fp))) (read_exponent r2))"

definition py_float_text :: "string \<Rightarrow> f64 option" where
  "py_float_text s =
     (let t = strip_by int_space s;
          neg = (take 1 t = ''-'');
          body = (if take 1 t = ''-'' \<or> take 1 t = ''+'' then drop 1 t else t);
          low = map lower_char body
      in if low = ''inf'' \<or> low = ''infinity'' then Some (Inf neg)
         else if low = ''nan'' then Some NaN
         else case drop_underscores False body of
                None \<Rightarrow> None
              | Some b \<Rightarrow> map_option (\<lambda>q. rnd (if neg then - q else q)) (read_decimal b))"

section \<open>Numbers\<close>

fun py_float :: "json \<Rightarrow> f64 res" where
  "py_float (JBool b) = Inr (if b then Fin 1 else Fin 0)"
| "py_float (JInt n) = (if isfinite (f64_of_int n) then Inr (f64_of_int n) else Inl PyOverflowError)"
| "py_float (JFloat x) = Inr x"
| "py_float (JStr s) =
     (case py_float_text s of None \<Rightarrow> Inl (PyValueError ''could not convert string to float'') | Some x \<Rightarrow> Inr x)"
| "py_float JNull = Inl (PyTypeError ''float() argument must be a string or a real number'')"
| "py_float (JList _) = Inl (PyTypeError ''float() argument must be a string or a real number'')"
| "py_float (JObj _) = Inl (PyTypeError ''float() argument must be a string or a real number'')"

text \<open>\<open>except (TypeError, ValueError)\<close>; an \<open>OverflowError\<close> propagates.\<close>

fun caught_type_value :: "err \<Rightarrow> bool" where
  "caught_type_value (PyTypeError _) = True"
| "caught_type_value (PyValueError _) = True"
| "caught_type_value _ = False"

text \<open>\<open>_float(value, path, positive)\<close>\<close>

definition read_float :: "json \<Rightarrow> string \<Rightarrow> bool \<Rightarrow> f64 res" where
  "read_float v path positive =
     (case py_float v of
        Inl e \<Rightarrow> Inl (if caught_type_value e then InvalidRequest (path @ '' must be numeric'') else e)
      | Inr x \<Rightarrow> raise_if (\<not> isfinite x \<or> positive \<and> fle x (Fin 0))
                  (InvalidRequest (path @ '' must be finite'' @ (if positive then '' and positive'' else []))) (Inr x))"

text \<open>\<open>_int(value, path)\<close>: an integer of at least one, no truth value.\<close>

definition read_int :: "json \<Rightarrow> string \<Rightarrow> int res" where
  "read_int v path =
     (case v of JInt n \<Rightarrow> raise_if (n < 1) (InvalidRequest (path @ '' must be an integer >= 1'')) (Inr n)
      | _ \<Rightarrow> Inl (InvalidRequest (path @ '' must be an integer >= 1'')))"

lemma read_float_Inr:
  "read_float v path positive = Inr x \<longleftrightarrow> py_float v = Inr x \<and> isfinite x \<and> (positive \<longrightarrow> flt (Fin 0) x)"
  by (cases "py_float v"; cases x) (auto simp: read_float_def raise_if_Inr)

lemma read_int_Inr: "read_int v path = Inr n \<longleftrightarrow> v = JInt n \<and> 1 \<le> n"
  by (cases v) (auto simp: read_int_def raise_if_Inr)

section \<open>repr of a float\<close>

text \<open>
  The shortest decimal digits that read back as the double; among those the nearest.  A positive
  rational is \<open>0.d\<^sub>1 d\<^sub>2 ... \<times> 10 ^ dec_exp\<close>.
\<close>

definition dec_exp :: "rat \<Rightarrow> int" where
  "dec_exp x = (if 1 \<le> x then int (length (show_pos \<lfloor>x\<rfloor>))
     else 1 - int (length (show_pos (\<lceil>1 / x\<rceil> - 1))))"

text \<open>The candidates with \<open>n\<close> digits are the two neighbours of the value on the grid.\<close>

definition digits_candidate :: "rat \<Rightarrow> int \<Rightarrow> nat \<Rightarrow> int option" where
  "digits_candidate x k n =
     (let y = x * ten_pow (int n - k); a = \<lfloor>y\<rfloor>; b = a + 1;
          ok = (\<lambda>d. rnd (of_int d * ten_pow (k - int n)) = Fin x)
      in if ok a \<and> ok b then Some (if y - of_int a \<le> of_int b - y then a else b)
         else if ok a then Some a else if ok b then Some b else None)"

fun shortest_digits :: "nat \<Rightarrow> nat \<Rightarrow> rat \<Rightarrow> int \<Rightarrow> int \<times> nat" where
  "shortest_digits 0 n x k = (\<lfloor>x * ten_pow (int n - k)\<rfloor>, n)"
| "shortest_digits (Suc fuel) n x k =
     (case digits_candidate x k n of Some d \<Rightarrow> (d, n) | None \<Rightarrow> shortest_digits fuel (Suc n) x k)"

definition zeros :: "nat \<Rightarrow> string" where
  "zeros n = replicate n (CHR ''0'')"

text \<open>The digits of a positive double and the position of the decimal point.\<close>

definition float_digits :: "rat \<Rightarrow> string \<times> int" where
  "float_digits x =
     (let k = dec_exp x; (d, n) = shortest_digits 16 1 x k; ds = show_pos d
      in (ds, k + (int (length ds) - int n)))"

definition positive_repr :: "rat \<Rightarrow> string" where
  "positive_repr x =
     (let (ds, p) = float_digits x in
      if - 4 < p \<and> p \<le> 16 then
        (if p \<le> 0 then ''0.'' @ zeros (nat (- p)) @ ds
         else if int (length ds) \<le> p then ds @ zeros (nat p - length ds) @ ''.0''
         else take (nat p) ds @ ''.'' @ drop (nat p) ds)
      else (let e = p - 1; es = show_pos \<bar>e\<bar> in
        take 1 ds @ (if length ds = 1 then [] else ''.'' @ drop 1 ds) @ ''e'' @
        (if e < 0 then ''-'' else ''+'') @ (if length es = 1 then ''0'' else []) @ es))"

text \<open>The two zeros are one value here, printed as the positive one.\<close>

definition float_repr :: "f64 \<Rightarrow> string" where
  "float_repr v = (case v of NaN \<Rightarrow> ''nan'' | Inf neg \<Rightarrow> (if neg then ''-inf'' else ''inf'')
     | Fin x \<Rightarrow> if x = 0 then ''0.0'' else if x < 0 then ''-'' @ positive_repr (- x) else positive_repr x)"

text \<open>\<open>normalized_decimal_text(Decimal(str(value)))\<close>: the same digits without exponent.\<close>

definition plain_text :: "f64 \<Rightarrow> string" where
  "plain_text v = (case v of
       Fin x \<Rightarrow> if x = 0 then ''0''
         else (let (ds, p) = float_digits \<bar>x\<bar>; sign = (if x < 0 then ''-'' else []) in
           if p \<le> 0 then sign @ ''0.'' @ zeros (nat (- p)) @ ds
           else if int (length ds) \<le> p then sign @ ds @ zeros (nat p - length ds)
           else sign @ take (nat p) ds @ ''.'' @ drop (nat p) ds)
     | _ \<Rightarrow> [])"

text \<open>\<open>_text(value)\<close>: nothing for a missing or non-finite value.\<close>

definition wire_text :: "f64 option \<Rightarrow> json" where
  "wire_text v = (case v of None \<Rightarrow> JNull | Some x \<Rightarrow> if isfinite x then JStr (plain_text x) else JNull)"

section \<open>str of a document\<close>

definition join_text :: "string list \<Rightarrow> string" where
  "join_text xs = (case xs of [] \<Rightarrow> [] | x # rest \<Rightarrow> x @ concat (map (\<lambda>y. '', '' @ y) rest))"

fun json_repr :: "json \<Rightarrow> string" where
  "json_repr JNull = ''None''"
| "json_repr (JBool b) = (if b then ''True'' else ''False'')"
| "json_repr (JInt n) = show_int n"
| "json_repr (JFloat x) = float_repr x"
| "json_repr (JStr s) = repr_str s"
| "json_repr (JList xs) = ''['' @ join_text (map json_repr xs) @ '']''"
| "json_repr (JObj kvs) = ''{'' @ join_text (map (\<lambda>(k, v). repr_str k @ '': '' @ json_repr v) kvs) @ ''}''"

definition py_str :: "json \<Rightarrow> string" where
  "py_str v = (case v of JStr s \<Rightarrow> s | _ \<Rightarrow> json_repr v)"

lemma py_str_JStr [simp]: "py_str (JStr s) = s"
  by (simp add: py_str_def)

end
