(* ===== verification/LiveWindow.thy ===== *)
theory LiveWindow
  imports Domain PyFloat
begin

text \<open>
  Planned features (\<open>indicators/contracts.py\<close>), the history requirement of each indicator kind
  (\<open>live_calculation/indicator_requirements.py\<close>) and the bounded history start
  (\<open>live_calculation/plan_window.py\<close>).  The C logarithm is a parameter, as in the episode's
  warm-up.
\<close>

section \<open>Planned features\<close>

record planned_feature =
  output_id :: string
  feature_kind :: string
  feature_timeframe :: string
  feature_source :: "string option"
  parameters :: obj
  dependencies :: "string list"
  availability :: string

definition make_planned_feature :: "planned_feature \<Rightarrow> planned_feature res" where
  "make_planned_feature f =
     raise_if (availability f \<noteq> ''bar_open'' \<and> availability f \<noteq> ''bar_close'')
       (InvalidRequest ''feature availability must be bar_open or bar_close'')
     (raise_if (dependencies f \<noteq> [] \<and> availability f \<noteq> ''bar_open'')
       (InvalidRequest ''derived features inherit availability from dependencies'')
       (Inr f))"

definition canonical_payload :: "planned_feature \<Rightarrow> obj" where
  "canonical_payload f =
     [(''output_id'', JStr (output_id f)), (''kind'', JStr (feature_kind f)),
      (''timeframe'', JStr (feature_timeframe f)),
      (''source'', case feature_source f of None \<Rightarrow> JNull | Some s \<Rightarrow> JStr s),
      (''parameters'', JObj (parameters f)), (''dependencies'', JList (map JStr (dependencies f)))] @
     (if availability f \<noteq> ''bar_open'' then [(''availability'', JStr (availability f))] else [])"

record indicator_plan =
  plan_version :: string
  features :: "planned_feature list"

section \<open>Requirements of the indicator kinds\<close>

record history_requirement =
  req_timeframe :: string
  req_bars :: int

text \<open>\<open>int(value)\<close> of a parameter: integers and truth values, floats towards zero, text.\<close>

fun py_int :: "json \<Rightarrow> int res" where
  "py_int (JInt n) = Inr n"
| "py_int (JBool b) = Inr (if b then 1 else 0)"
| "py_int (JFloat x) =
     (case x of Fin r \<Rightarrow> Inr (if 0 \<le> r then \<lfloor>r\<rfloor> else \<lceil>r\<rceil>) | Inf _ \<Rightarrow> Inl PyOverflowError
      | NaN \<Rightarrow> Inl (PyValueError ''cannot convert float NaN to integer''))"
| "py_int (JStr s) = (case py_int_text s of None \<Rightarrow> Inl (PyValueError ''invalid literal for int()'') | Some n \<Rightarrow> Inr n)"
| "py_int _ = Inl (PyTypeError ''int() argument must be a string or a real number'')"

text \<open>\<open>parameters["period"]\<close>\<close>

definition int_parameter :: "planned_feature \<Rightarrow> string \<Rightarrow> int res" where
  "int_parameter f k = (case map_of (parameters f) k of None \<Rightarrow> Inl (PyKeyError k) | Some v \<Rightarrow> py_int v)"

definition py_ceil :: "f64 \<Rightarrow> int res" where
  "py_ceil x = (case x of Fin r \<Rightarrow> Inr \<lceil>r\<rceil> | Inf _ \<Rightarrow> Inl PyOverflowError
     | NaN \<Rightarrow> Inl (PyValueError ''cannot convert float NaN to integer''))"

text \<open>Python's division of floats raises on a zero divisor; \<open>math.log\<close> is the parameter.\<close>

definition py_div :: "f64 \<Rightarrow> f64 \<Rightarrow> f64 res" where
  "py_div x y = (if y = Fin 0 then Inl PyZeroDivisionError else Inr (fdiv x y))"

definition log_ratio_bars :: "(f64 \<Rightarrow> f64) \<Rightarrow> f64 \<Rightarrow> f64 \<Rightarrow> int res" where
  "log_ratio_bars py_log tolerance decay =
     bindR (py_div (py_log tolerance) (py_log decay)) (\<lambda>q. bindR (py_ceil q) (\<lambda>n. Inr (max 1 n)))"

definition ema_convergence_bars :: "(f64 \<Rightarrow> f64) \<Rightarrow> int \<Rightarrow> f64 \<Rightarrow> int res" where
  "ema_convergence_bars py_log period tolerance =
     bindR (py_div (Fin 2) (f64_of_int (period + 1))) (\<lambda>alpha.
     (let decay_base = fsub (Fin 1) alpha in
      if fle decay_base (Fin 0) then Inr 1 else log_ratio_bars py_log tolerance decay_base))"

text \<open>\<open>(period - 1) / period\<close>: the division of two integers, correctly rounded.\<close>

definition wilder_convergence_bars :: "(f64 \<Rightarrow> f64) \<Rightarrow> int \<Rightarrow> f64 \<Rightarrow> int res" where
  "wilder_convergence_bars py_log period tolerance =
     (if period \<le> 1 then Inr 1
      else log_ratio_bars py_log tolerance (rnd (of_int (period - 1) / of_int period)))"

definition adx_dmi_convergence_bars :: "(f64 \<Rightarrow> f64) \<Rightarrow> int \<Rightarrow> f64 \<Rightarrow> int res" where
  "adx_dmi_convergence_bars py_log period tolerance =
     bindR (wilder_convergence_bars py_log period tolerance) (\<lambda>single_stage. Inr (2 * period + 2 * single_stage))"

definition FINITE_KINDS :: "string list" where
  "FINITE_KINDS = [''rsi'', ''atr'', ''rolling_max'', ''rolling_min'']"
definition WILDER_KINDS :: "string list" where "WILDER_KINDS = [''adx'', ''di_plus'', ''di_minus'']"
definition WILDER_ATR_KINDS :: "string list" where "WILDER_ATR_KINDS = [''atr_wilder'', ''candle_body_atr'']"

definition indicator_requirement ::
  "(f64 \<Rightarrow> f64) \<Rightarrow> f64 \<Rightarrow> f64 \<Rightarrow> planned_feature \<Rightarrow> history_requirement res" where
  "indicator_requirement py_log ema_tol adx_tol f =
     (let kind = feature_kind f;
          req = (\<lambda>n. Inr \<lparr>req_timeframe = feature_timeframe f, req_bars = n\<rparr>);
          period = int_parameter f ''period'' in
      if kind = ''atr_distance'' then req 0
      else if kind = ''candle_close_position'' then req 1
      else if kind = ''rolling_sum'' then
        bindR period (\<lambda>p. bindR (py_int (get_or (parameters f) ''lag'' (JInt 0))) (\<lambda>lag. req (p + lag)))
      else if kind = ''rsi_ewm'' then
        bindR period (\<lambda>p. bindR (wilder_convergence_bars py_log p (rnd (1 / 10 ^ 12))) (\<lambda>n. req (1 + n)))
      else if kind \<in> set FINITE_KINDS then bindR period req
      else if kind = ''ema'' then bindR period (\<lambda>p. bindR (ema_convergence_bars py_log p ema_tol) req)
      else if kind \<in> set WILDER_KINDS then
        bindR period (\<lambda>p. bindR (adx_dmi_convergence_bars py_log p adx_tol) req)
      else if kind \<in> set WILDER_ATR_KINDS then
        bindR period (\<lambda>p. bindR (wilder_convergence_bars py_log p adx_tol) (\<lambda>n.
          req (p + n + (if kind = ''candle_body_atr'' then 1 else 0))))
      else Inl (InvalidRequest ''no registered live history policy for indicator kind''))"

definition indicator_requirements ::
  "(f64 \<Rightarrow> f64) \<Rightarrow> f64 \<Rightarrow> f64 \<Rightarrow> indicator_plan \<Rightarrow> history_requirement list res" where
  "indicator_requirements py_log ema_tol adx_tol plan =
     mapR (indicator_requirement py_log ema_tol adx_tol) (features plan)"

section \<open>The start of the live window\<close>

definition resolve_timeframe :: "string \<Rightarrow> string \<Rightarrow> string" where
  "resolve_timeframe tf base = (if tf = ''base'' then base else tf)"

definition span_ms :: "history_requirement \<Rightarrow> string \<Rightarrow> int res" where
  "span_ms r base =
     bindR (timeframe_duration_ms (resolve_timeframe (req_timeframe r) base)) (\<lambda>d. Inr (req_bars r * d))"

text \<open>\<open>max(requirements, key=...)\<close>: the first requirement of the largest span.\<close>

fun max_span :: "string \<Rightarrow> history_requirement \<Rightarrow> int \<Rightarrow> history_requirement list \<Rightarrow> history_requirement res" where
  "max_span base best v [] = Inr best"
| "max_span base best v (r # rs) =
     bindR (span_ms r base) (\<lambda>s. if v < s then max_span base r s rs else max_span base best v rs)"

definition winner :: "history_requirement list \<Rightarrow> string \<Rightarrow> history_requirement res" where
  "winner rs base =
     (case rs of [] \<Rightarrow> Inr \<lparr>req_timeframe = ''base'', req_bars = 0\<rparr>
      | r # rest \<Rightarrow> bindR (span_ms r base) (\<lambda>s. max_span base r s rest))"

definition htf_timeframes :: "indicator_plan \<Rightarrow> string \<Rightarrow> string list" where
  "htf_timeframes plan base =
     filter (\<lambda>tf. tf \<noteq> base) (map (\<lambda>f. resolve_timeframe (feature_timeframe f) base) (features plan))"

definition align_to_htf_buckets :: "int \<Rightarrow> indicator_plan \<Rightarrow> string \<Rightarrow> int res" where
  "align_to_htf_buckets candidate plan base =
     bindR (mapR timeframe_duration_ms (htf_timeframes plan base)) (\<lambda>durations.
     bindR (timeframe_duration_ms base) (\<lambda>base_duration.
     (let alignment = foldl lcm base_duration (remdups durations) in
      Inr (candidate div alignment * alignment))))"

record planned_start =
  ps_from_ms :: int
  winning_indicator :: history_requirement
  winning_strategy :: history_requirement
  ps_requirements :: "history_requirement list"

definition plan_history_start ::
  "(f64 \<Rightarrow> f64) \<Rightarrow> f64 \<Rightarrow> f64 \<Rightarrow> (obj \<Rightarrow> history_requirement list res) \<Rightarrow>
     obj \<Rightarrow> indicator_plan \<Rightarrow> string \<Rightarrow> int \<Rightarrow> planned_start res" where
  "plan_history_start py_log ema_tol adx_tol strategy_requirements raw_spec plan base anchor =
     bindR (indicator_requirements py_log ema_tol adx_tol plan) (\<lambda>ind.
     bindR (strategy_requirements raw_spec) (\<lambda>strat.
     bindR (winner ind base) (\<lambda>wi.
     bindR (winner strat base) (\<lambda>ws.
     bindR (span_ms wi base) (\<lambda>si.
     bindR (span_ms ws base) (\<lambda>ss.
     bindR (align_to_htf_buckets (anchor - (si + ss)) plan base) (\<lambda>st0.
     Inr \<lparr>ps_from_ms = st0, winning_indicator = wi, winning_strategy = ws, ps_requirements = ind @ strat\<rparr>)))))))"

section \<open>Facts\<close>

lemma max_span_spec:
  assumes "span_ms best base = Inr v" "max_span base best v rs = Inr w"
  shows "w \<in> set (best # rs) \<and> (\<exists>s. span_ms w base = Inr s \<and> v \<le> s \<and> (\<forall>r\<in>set rs. \<exists>t. span_ms r base = Inr t \<and> t \<le> s))"
  using assms
proof (induction rs arbitrary: best v)
  case (Cons r rs)
  from Cons.prems(2) obtain s where s: "span_ms r base = Inr s"
    "(if v < s then max_span base r s rs else max_span base best v rs) = Inr w" by (auto simp: bindR_Inr)
  show ?case
  proof (cases "v < s")
    case True
    then show ?thesis using Cons.IH[OF s(1)] s by force
  next
    case False
    then show ?thesis using Cons.IH[OF Cons.prems(1)] s by force
  qed
qed simp

lemma winner_covers:
  assumes "winner rs base = Inr w" "span_ms w base = Inr s" "r \<in> set rs" "span_ms r base = Inr t"
  shows "t \<le> s"
proof (cases rs)
  case (Cons a rest)
  then obtain v where v: "span_ms a base = Inr v" "max_span base a v rest = Inr w"
    using assms(1) by (auto simp: winner_def bindR_Inr)
  from max_span_spec[OF this] show ?thesis using assms(2-4) v(1) Cons by fastforce
qed (use assms(3) in simp)

lemma foldl_lcm_dvd:
  fixes a :: int
  assumes "0 < a" "\<forall>d\<in>set ds. 0 < d"
  shows "0 < foldl lcm a ds \<and> a dvd foldl lcm a ds \<and> (\<forall>d\<in>set ds. d dvd foldl lcm a ds)"
  using assms
proof (induction ds arbitrary: a)
  case (Cons d ds)
  have "0 < lcm a d" using Cons.prems by (simp add: lcm_pos_int)
  then show ?case using Cons.IH[of "lcm a d"] Cons.prems by (auto intro: dvd_trans)
qed simp

lemma aligned_below:
  fixes c m :: int
  assumes "0 < m"
  shows "c div m * m \<le> c" "c < c div m * m + m" "m dvd c div m * m"
  using assms by (simp_all add: pos_mod_bound minus_mod_eq_div_mult [symmetric])

lemma mapR_durations: "mapR timeframe_duration_ms tfs = Inr ds \<Longrightarrow> \<forall>d\<in>set ds. 0 < d"
  using mapR_set duration_pos by metis

section \<open>Properties\<close>

text \<open>
  C28. The planned start covers every requirement: it lies at or before the anchor by at least the
  span of any indicator requirement plus the span of any strategy requirement, on their own
  timeframes.
\<close>

theorem planned_start_covers_requirements:
  assumes "plan_history_start py_log ema_tol adx_tol strategy raw_spec plan base anchor = Inr p"
    and "indicator_requirements py_log ema_tol adx_tol plan = Inr ind" "strategy raw_spec = Inr strat"
    and "r \<in> set ind" "span_ms r base = Inr sr" "q \<in> set strat" "span_ms q base = Inr sq"
  shows "ps_from_ms p + sr + sq \<le> anchor"
proof -
  from assms(1-3) obtain wi ws si ss st0 where w: "winner ind base = Inr wi" "winner strat base = Inr ws"
    "span_ms wi base = Inr si" "span_ms ws base = Inr ss"
    "align_to_htf_buckets (anchor - (si + ss)) plan base = Inr st0" "ps_from_ms p = st0"
    by (auto simp: plan_history_start_def bindR_Inr)
  obtain ds b where a: "mapR timeframe_duration_ms (htf_timeframes plan base) = Inr ds"
    "timeframe_duration_ms base = Inr b"
    "st0 = (anchor - (si + ss)) div foldl lcm b (remdups ds) * foldl lcm b (remdups ds)"
    using w(5) by (auto simp: align_to_htf_buckets_def bindR_Inr Let_def)
  have "0 < foldl lcm b (remdups ds)"
    using foldl_lcm_dvd[of b "remdups ds"] duration_pos[OF a(2)] mapR_durations[OF a(1)] by simp
  then have "st0 \<le> anchor - (si + ss)" unfolding a(3) by (rule aligned_below(1))
  moreover have "sr \<le> si" "sq \<le> ss"
    using winner_covers[OF w(1) w(3) assms(4,5)] winner_covers[OF w(2) w(4) assms(6,7)] by simp_all
  ultimately show ?thesis using w(6) by simp
qed

definition wfeature :: "string \<Rightarrow> string \<Rightarrow> int \<Rightarrow> planned_feature" where
  "wfeature k tf n = \<lparr>output_id = k, feature_kind = k, feature_timeframe = tf, feature_source = None,
     parameters = [(''period'', JInt n)], dependencies = [], availability = ''bar_open''\<rparr>"

definition wplan :: indicator_plan where
  "wplan = \<lparr>plan_version = ''v1'', features = [wfeature ''rsi'' ''base'' 14, wfeature ''atr'' ''1h'' 3]\<rparr>"

definition wstrategy :: "obj \<Rightarrow> history_requirement list res" where
  "wstrategy raw = Inr [\<lparr>req_timeframe = ''base'', req_bars = 5\<rparr>]"

definition wstart :: planned_start where
  "wstart = \<lparr>ps_from_ms = 86400000, winning_indicator = \<lparr>req_timeframe = ''1h'', req_bars = 3\<rparr>,
     winning_strategy = \<lparr>req_timeframe = ''base'', req_bars = 5\<rparr>,
     ps_requirements = [\<lparr>req_timeframe = ''base'', req_bars = 14\<rparr>, \<lparr>req_timeframe = ''1h'', req_bars = 3\<rparr>,
       \<lparr>req_timeframe = ''base'', req_bars = 5\<rparr>]\<rparr>"

lemma wstart_planned:
  "plan_history_start (\<lambda>x. x) (Fin 1) (Fin 1) wstrategy [] wplan ''5m'' 100000000 = Inr wstart"
  by code_simp

theorem planned_start_covers_requirements_witness:
  "ps_from_ms wstart + 10800000 + 1500000 \<le> (100000000 :: int)"
proof (rule planned_start_covers_requirements[OF wstart_planned])
  show "indicator_requirements (\<lambda>x. x) (Fin 1) (Fin 1) wplan =
     Inr [\<lparr>req_timeframe = ''base'', req_bars = 14\<rparr>, \<lparr>req_timeframe = ''1h'', req_bars = 3\<rparr>]" by code_simp
  show "wstrategy [] = Inr [\<lparr>req_timeframe = ''base'', req_bars = 5\<rparr>]" by (simp add: wstrategy_def)
  show "span_ms \<lparr>req_timeframe = ''1h'', req_bars = 3\<rparr> ''5m'' = Inr 10800000" by code_simp
  show "span_ms \<lparr>req_timeframe = ''base'', req_bars = 5\<rparr> ''5m'' = Inr 1500000" by code_simp
qed simp_all

text \<open>
  The planned start is on the bucket grid of the base timeframe and of every higher timeframe
  of the plan at once, and less than the least common multiple of those durations before the
  required instant.
\<close>

theorem planned_start_on_every_grid:
  assumes "align_to_htf_buckets candidate plan base = Inr st0" "timeframe_duration_ms base = Inr b"
  shows "b dvd st0 \<and>
    (\<forall>f\<in>set (features plan). \<exists>d. timeframe_duration_ms (resolve_timeframe (feature_timeframe f) base) = Inr d \<and> d dvd st0) \<and>
    st0 \<le> candidate \<and>
    (\<exists>ds. mapR timeframe_duration_ms (htf_timeframes plan base) = Inr ds \<and> candidate < st0 + foldl lcm b (remdups ds))"
proof -
  obtain ds where a: "mapR timeframe_duration_ms (htf_timeframes plan base) = Inr ds"
    "st0 = candidate div foldl lcm b (remdups ds) * foldl lcm b (remdups ds)"
    using assms by (auto simp: align_to_htf_buckets_def bindR_Inr Let_def)
  define m where "m = foldl lcm b (remdups ds)"
  have m: "0 < m" "b dvd m" "\<forall>d\<in>set ds. d dvd m"
    using foldl_lcm_dvd[of b "remdups ds"] duration_pos[OF assms(2)] mapR_durations[OF a(1)]
    by (simp_all add: m_def)
  note al = aligned_below[OF m(1), of candidate, folded a(2)[folded m_def]]
  have "\<exists>d. timeframe_duration_ms (resolve_timeframe (feature_timeframe f) base) = Inr d \<and> d dvd st0"
    if f: "f \<in> set (features plan)" for f
  proof (cases "resolve_timeframe (feature_timeframe f) base = base")
    case True
    then show ?thesis using assms(2) m(2) al(3) by (auto intro: dvd_trans)
  next
    case False
    then have "resolve_timeframe (feature_timeframe f) base \<in> set (htf_timeframes plan base)"
      using f by (auto simp: htf_timeframes_def)
    then obtain i where i: "i < length (htf_timeframes plan base)"
      "htf_timeframes plan base ! i = resolve_timeframe (feature_timeframe f) base"
      by (auto simp: in_set_conv_nth)
    then have "timeframe_duration_ms (resolve_timeframe (feature_timeframe f) base) = Inr (ds ! i)"
      using mapR_nth[OF a(1) i(1)] by simp
    moreover have "ds ! i \<in> set ds" using i(1) mapR_length[OF a(1)] by simp
    ultimately show ?thesis using m(3) al(3) by (auto intro: dvd_trans)
  qed
  then show ?thesis using al m(2) a(1) by (auto simp: m_def intro: dvd_trans)
qed

theorem planned_start_on_every_grid_witness:
  "3600000 dvd (86400000 :: int)"
proof -
  have a: "align_to_htf_buckets 87700000 wplan ''5m'' = Inr 86400000"
    and b: "timeframe_duration_ms ''5m'' = Inr 300000" by code_simp+
  have h: "timeframe_duration_ms (resolve_timeframe (feature_timeframe (wfeature ''atr'' ''1h'' 3)) ''5m'') = Inr 3600000"
    by code_simp
  have "wfeature ''atr'' ''1h'' 3 \<in> set (features wplan)" by (simp add: wplan_def)
  then show ?thesis using planned_start_on_every_grid[OF a b] h by fastforce
qed

end
