(* ===== verification/EpisodeProject.thy ===== *)
theory EpisodeProject
  imports EpisodeSteps LiveWindow
begin

text \<open>
  One side of an episode (\<open>project_side\<close>): the short side runs the long machine on mirrored
  prices and mirrors the outputs back; the touch table is indexed by \<open>first_row\<close>.  The
  operand reader \<open>episode_operand_values\<close> gathers from the per-bar snapshots and the touch
  table, and \<open>side_entities_to_wire\<close> lists the entities of every non-censored episode.
\<close>

section \<open>Projection of one side\<close>

record side_episode =
  se_side :: string
  se_rows :: "bar_out list"
  se_touches :: "touch_row list"
  se_first_row :: "int list"
  se_episodes :: "episode_row list"
  se_forming_rows :: "forming_row list"
  se_anchor :: "f64 list"

definition mirror_bar :: "ep_bar \<Rightarrow> ep_bar" where
  "mirror_bar b = \<lparr>hi = fneg (lo b), lo = fneg (hi b), cl = fneg (cl b),
     fa = fneg (fa b), an = fneg (an b), sl = fneg (sl b)\<rparr>"

definition unmirror_touch :: "touch_row \<Rightarrow> touch_row" where
  "unmirror_touch r =
     r\<lparr>zone_high := fneg (zone_low r), zone_low := fneg (zone_high r),
       fb_high := fneg (fb_low r), fb_low := fneg (fb_high r),
       up_high := fneg (up_low r), up_low := fneg (up_high r),
       down_high := fneg (down_low r), down_low := fneg (down_high r),
       origin_price := fneg (origin_price r), peak_price := fneg (peak_price r),
       touch_price := fneg (touch_price r)\<rparr>"

definition unmirror_forming :: "forming_row \<Rightarrow> forming_row" where
  "unmirror_forming r =
     r\<lparr>fr_up_high := fneg (fr_up_low r), fr_up_low := fneg (fr_up_high r),
       fr_down_high := fneg (fr_down_low r), fr_down_low := fneg (fr_down_high r),
       fr_origin_price := fneg (fr_origin_price r), fr_peak_price := fneg (fr_peak_price r)\<rparr>"

definition unmirror_out :: "bar_out \<Rightarrow> bar_out" where
  "unmirror_out b =
     b\<lparr>out_zone := (out_zone b)\<lparr>zn_high := fneg (zn_low (out_zone b)), zn_low := fneg (zn_high (out_zone b))\<rparr>,
       out_fb := (out_fb b)\<lparr>fn_high := fneg (fn_low (out_fb b)), fn_low := fneg (fn_high (out_fb b))\<rparr>,
       out_forming := (out_forming b)\<lparr>wn_origin_price := fneg (wn_origin_price (out_forming b)),
         wn_peak_price := fneg (wn_peak_price (out_forming b)),
         wn_down_high := fneg (wn_down_low (out_forming b)),
         wn_down_low := fneg (wn_down_high (out_forming b))\<rparr>\<rparr>"

text \<open>\<open>first_row[e]\<close>: the row of the first touch of episode \<open>e\<close>, -1 when it has none.\<close>

fun fill_first :: "nat \<Rightarrow> touch_row list \<Rightarrow> int list \<Rightarrow> int list" where
  "fill_first k [] fr = fr"
| "fill_first k (r # rs) fr =
     fill_first (Suc k) rs (if fr ! tr_episode_id r < 0 then fr[tr_episode_id r := int k] else fr)"

definition first_rows :: "nat \<Rightarrow> touch_row list \<Rightarrow> int list" where
  "first_rows n_episodes rows = fill_first 0 rows (replicate (n_episodes + 1) (- 1))"

text \<open>
  The C library's logarithm is a parameter (\<open>py_log\<close>); it decides only how many warm-up bars
  censor an episode.  The tolerance is the literal \<open>1e-4\<close>.
\<close>

definition CONVERGENCE_TOLERANCE :: f64 where
  "CONVERGENCE_TOLERANCE = rnd (1 / 10000)"

lemma CONVERGENCE_TOLERANCE_code [code]:
  "CONVERGENCE_TOLERANCE = Fin (7378697629483821 / 73786976294838206464)"
proof -
  have "ilog2 (1 / 10000) = - 14" by (rule ilog2_unique) (simp_all add: pow2_def)
  then have q: "quantum (1 / 10000) = - 66" by (simp add: quantum_def)
  have f: "\<lfloor>4611686018427387904 / 625 :: rat\<rfloor> = 7378697629483820" by (rule floor_unique) simp_all
  have "round_even (1 / 10000 / pow2 (- 66)) = 7378697629483821"
    by (simp add: pow2_def round_even_def f Let_def)
  then have "round_rat (1 / 10000) = 7378697629483821 / 73786976294838206464"
    by (simp add: round_rat_def q) (simp add: pow2_def)
  then show ?thesis by (simp add: CONVERGENCE_TOLERANCE_def rnd_def)
qed

definition ema_warmup_bars :: "(f64 \<Rightarrow> f64) \<Rightarrow> int \<Rightarrow> int res" where
  "ema_warmup_bars py_log period = ema_convergence_bars py_log period CONVERGENCE_TOLERANCE"

definition project_side ::
  "(f64 \<Rightarrow> f64) \<Rightarrow> ep_bar list \<Rightarrow> episode_params \<Rightarrow> string \<Rightarrow> side_episode res" where
  "project_side py_log bs p sd =
     raise_if (sd \<noteq> ''long'' \<and> sd \<noteq> ''short'') (InvalidRequest ''trade side must be long or short'')
     (bindR (ema_warmup_bars py_log (slow_period p)) (\<lambda>censor.
      (let short = (sd = ''short'');
           (s, rows) = project_long (nat (window_bars p)) (nat (break_bars p)) censor
                         (if short then map mirror_bar bs else bs);
           tch = (if short then map unmirror_touch (touches s) else touches s)
       in Inr \<lparr>se_side = sd,
               se_rows = (if short then map unmirror_out rows else rows),
               se_touches = tch,
               se_first_row = first_rows (length (episodes s)) tch,
               se_episodes = episodes s,
               se_forming_rows = (if short then map unmirror_forming (forming_rows s) else forming_rows s),
               se_anchor = map an bs\<rparr>)))"

section \<open>Operand reader\<close>

datatype entity_index = Idx int | Forming

record episode_ref =
  ref_ref :: string
  ref_entity :: "string option"
  ref_index :: "entity_index option"
  ref_field :: string

definition STATE_FIELDS :: "string list" where
  "STATE_FIELDS = [''active'', ''episode_id'', ''bars_since_start'', ''touch_number'', ''in_zone'',
     ''in_false_break'', ''away'', ''false_breaks'', ''censored'']"

definition EVENT_FIELDS :: "string list" where
  "EVENT_FIELDS = [''episode_start'', ''touch_start'', ''zone_end'', ''false_break_start'',
     ''comeback'', ''stack_break'']"

definition RANGE_FIELDS :: "string list" where
  "RANGE_FIELDS = [''bars'', ''high'', ''low'', ''range'', ''start_bars_ago'', ''end_bars_ago'', ''final'']"

definition ENTITY_FIELDS :: "(string \<times> string list) list" where
  "ENTITY_FIELDS =
     [(''zone'', RANGE_FIELDS @ [''has_false_break'']),
      (''false_break'', RANGE_FIELDS @ [''depth'', ''outcome_comeback'']),
      (''up_leg'', RANGE_FIELDS),
      (''down_leg'', RANGE_FIELDS),
      (''wave'', [''origin_price'', ''peak_price'', ''touch_price'', ''bars'', ''start_bars_ago'',
                ''end_bars_ago'', ''final''])]"

definition FORMING_ENTITIES :: "string list" where
  "FORMING_ENTITIES = [''wave'', ''up_leg'', ''down_leg'']"

fun parse_index :: "json \<Rightarrow> string \<Rightarrow> entity_index res" where
  "parse_index (JStr s) path =
     (if s = ''current'' then Inr (Idx 0) else if s = ''previous'' then Inr (Idx (- 1))
      else if s = ''forming'' then Inr Forming
      else Inl (InvalidRequest (path @ ''.index must be an integer, current, previous or forming'')))"
| "parse_index (JInt n) path = Inr (Idx n)"
| "parse_index _ path =
     Inl (InvalidRequest (path @ ''.index must be an integer, current, previous or forming''))"

definition nonempty_str :: "json \<Rightarrow> string \<Rightarrow> string res" where
  "nonempty_str v path =
     (case v of JStr s \<Rightarrow> raise_if (s = []) (InvalidRequest (path @ '' must be a non-empty string'')) (Inr s)
      | _ \<Rightarrow> Inl (InvalidRequest (path @ '' must be a non-empty string'')))"

definition parse_episode_ref :: "json \<Rightarrow> string \<Rightarrow> string list option \<Rightarrow> episode_ref res" where
  "parse_episode_ref raw path refs =
     bindR (require_mapping raw path) (\<lambda>payload.
     raise_if (unknown_fields payload [''ref'', ''entity'', ''index'', ''field''] \<noteq> [])
       (InvalidRequest (path @ '' has unknown fields''))
     (bindR (nonempty_str (get payload ''ref'') (path @ ''.ref'')) (\<lambda>ref.
      raise_if (case refs of None \<Rightarrow> False | Some rs \<Rightarrow> ref \<notin> set rs)
        (InvalidRequest (path @ ''.ref is not declared in ema_stack_episode''))
      (bindR (nonempty_str (get payload ''field'') (path @ ''.field'')) (\<lambda>field_name.
       (case get payload ''entity'' of
          JNull \<Rightarrow>
            raise_if (has_key payload ''index'') (InvalidRequest (path @ ''.index requires entity''))
            (raise_if (field_name \<notin> set (STATE_FIELDS @ EVENT_FIELDS))
               (InvalidRequest (path @ ''.field is not an episode state field''))
               (Inr \<lparr>ref_ref = ref, ref_entity = None, ref_index = None, ref_field = field_name\<rparr>))
        | JStr entity \<Rightarrow>
            (case map_of ENTITY_FIELDS entity of
               None \<Rightarrow> Inl (InvalidRequest (path @ ''.entity must be one of zone, false_break, up_leg, down_leg, wave''))
             | Some flds \<Rightarrow>
                 raise_if (\<not> has_key payload ''index'') (InvalidRequest (path @ ''.entity requires index''))
                 (bindR (parse_index (get payload ''index'') path) (\<lambda>index.
                  raise_if (index = Forming \<and> entity \<notin> set FORMING_ENTITIES)
                    (InvalidRequest (path @ ''.index forming is allowed for wave, up_leg, down_leg''))
                  (raise_if (field_name \<notin> set flds)
                    (InvalidRequest (path @ ''.field is not a field of '' @ entity))
                    (Inr \<lparr>ref_ref = ref, ref_entity = Some entity, ref_index = Some index,
                          ref_field = field_name\<rparr>)))))
        | JList _ \<Rightarrow> Inl (PyTypeError ''unhashable type: list'')
        | JObj _ \<Rightarrow> Inl (PyTypeError ''unhashable type: dict'')
        | _ \<Rightarrow> Inl (InvalidRequest (path @ ''.entity must be one of zone, false_break, up_leg, down_leg, wave''))))))))"

definition state_field :: "string \<Rightarrow> state_now \<Rightarrow> f64 option" where
  "state_field name s =
     map_of [(''active'', sn_active s), (''episode_id'', sn_episode_id s),
        (''bars_since_start'', sn_bars_since_start s), (''touch_number'', sn_touch_number s),
        (''in_zone'', sn_in_zone s), (''in_false_break'', sn_in_false_break s), (''away'', sn_away s),
        (''false_breaks'', sn_false_breaks s), (''censored'', sn_censored s),
        (''episode_start'', sn_event s EpisodeStart), (''touch_start'', sn_event s TouchStart),
        (''zone_end'', sn_event s ZoneEnd), (''false_break_start'', sn_event s FalseBreakStart),
        (''comeback'', sn_event s Comeback), (''stack_break'', sn_event s StackBreak)] name"

text \<open>\<open>_range_field\<close> on one bar.\<close>

definition range_field :: "string \<Rightarrow> f64 \<Rightarrow> f64 \<Rightarrow> f64 \<Rightarrow> f64 \<Rightarrow> f64 \<Rightarrow> f64 \<Rightarrow> f64 option" where
  "range_field name t st en h l final =
     map_of [(''bars'', fadd (fsub en st) (Fin 1)), (''high'', h), (''low'', l), (''range'', fsub h l),
        (''start_bars_ago'', fsub t st), (''end_bars_ago'', fsub t en), (''final'', final)] name"

definition wave_field ::
  "string \<Rightarrow> f64 \<Rightarrow> f64 \<Rightarrow> f64 \<Rightarrow> f64 \<Rightarrow> f64 \<Rightarrow> f64 \<Rightarrow> f64 \<Rightarrow> f64 option" where
  "wave_field name t st en orig peak touch final =
     map_of [(''origin_price'', orig), (''peak_price'', peak), (''touch_price'', touch),
        (''bars'', fadd (fsub en st) (Fin 1)), (''start_bars_ago'', fsub t st),
        (''end_bars_ago'', fsub t en), (''final'', final)] name"

definition forming_value :: "string \<Rightarrow> string \<Rightarrow> f64 \<Rightarrow> forming_now \<Rightarrow> f64 option" where
  "forming_value entity name t w =
     (if entity = ''wave'' then
        wave_field name t (wn_origin_bar w) t (wn_origin_price w) (wn_peak_price w) NaN (Fin 0)
      else if entity = ''up_leg'' then
        range_field name t (wn_origin_bar w) (wn_peak_bar w) (wn_peak_price w) (wn_origin_price w) (Fin 0)
      else range_field name t (wn_peak_bar w) t (wn_down_high w) (wn_down_low w) (Fin 0))"

text \<open>Integer part of a finite float (\<open>astype(np.int64)\<close> on the engine's indices).\<close>

definition to_int :: "f64 \<Rightarrow> int" where
  "to_int x = (case x of Fin r \<Rightarrow> (if 0 \<le> r then \<lfloor>r\<rfloor> else \<lceil>r\<rceil>) | _ \<Rightarrow> 0)"

definition clip :: "int \<Rightarrow> int \<Rightarrow> int \<Rightarrow> int" where
  "clip v a b = min (max v a) b"

text \<open>The touch-table row of touch \<open>number\<close> of the episode of a bar.\<close>

definition table_row :: "side_episode \<Rightarrow> f64 \<Rightarrow> f64 \<Rightarrow> int" where
  "table_row e ep_id number =
     (se_first_row e ! nat (clip (to_int ep_id) 0 (int (length (se_first_row e)) - 1))
        + to_int number - 1)"

definition zone_value :: "string \<Rightarrow> f64 \<Rightarrow> bool \<Rightarrow> zone_now \<Rightarrow> touch_row \<Rightarrow> f64 option" where
  "zone_value name t current z r =
     (if name = ''has_false_break''
      then Some (if current then zn_has_false_break z else has_false_break r)
      else range_field name t
        (if current then zn_start z else f64_of_nat (zone_start r))
        (if current then zn_end z else f64_of_nat (zone_end r))
        (if current then zn_high z else zone_high r)
        (if current then zn_low z else zone_low r)
        (if current then zn_final z else zone_final r))"

definition fb_value :: "string \<Rightarrow> f64 \<Rightarrow> bool \<Rightarrow> fb_now \<Rightarrow> touch_row \<Rightarrow> f64 option" where
  "fb_value name t current z r =
     (if name = ''depth'' then Some (if current then fn_depth z else fb_depth r)
      else if name = ''outcome_comeback''
      then Some (if current then fn_outcome_comeback z else fb_outcome_comeback r)
      else range_field name t
        (if current then fn_start z else bar_val (fb_start r))
        (if current then fn_end z else bar_val (fb_end r))
        (if current then fn_high z else fb_high r)
        (if current then fn_low z else fb_low r)
        (if current then fn_final z else fb_final r))"

definition entity_value ::
  "string \<Rightarrow> string \<Rightarrow> f64 \<Rightarrow> bool \<Rightarrow> bar_out \<Rightarrow> touch_row \<Rightarrow> f64 option" where
  "entity_value entity name t current b r =
     (if entity = ''zone'' then zone_value name t current (out_zone b) r
      else if entity = ''false_break'' then fb_value name t current (out_fb b) r
      else if entity = ''wave'' then
        wave_field name t (f64_of_nat (origin_bar r)) (f64_of_nat (touch_bar r))
          (origin_price r) (peak_price r) (touch_price r) (Fin 1)
      else if entity = ''up_leg'' then
        range_field name t (f64_of_nat (origin_bar r)) (f64_of_nat (peak_bar r)) (up_high r) (up_low r) (Fin 1)
      else range_field name t (f64_of_nat (peak_bar r)) (f64_of_nat (touch_bar r)) (down_high r) (down_low r) (Fin 1))"

definition finite_or_nan :: "f64 \<Rightarrow> f64" where
  "finite_or_nan x = (if isfinite x then x else NaN)"

definition or_nan :: "f64 option \<Rightarrow> f64" where
  "or_nan v = (case v of None \<Rightarrow> NaN | Some x \<Rightarrow> x)"

text \<open>The operand on bar \<open>t\<close>, for a reference that passed \<open>parse_episode_ref\<close>.\<close>

definition operand_at :: "side_episode \<Rightarrow> episode_ref \<Rightarrow> nat \<Rightarrow> f64" where
  "operand_at e op t =
     (let b = se_rows e ! t; st = out_state b; tf = f64_of_nat t; tn = sn_touch_number st;
          live = isfinite tn in
      (case ref_entity op of
         None \<Rightarrow> or_nan (state_field (ref_field op) st)
       | Some entity \<Rightarrow>
           (case ref_index op of
              Some Forming \<Rightarrow>
                finite_or_nan (if live then or_nan (forming_value entity (ref_field op) tf (out_forming b)) else NaN)
            | Some (Idx k) \<Rightarrow>
                (let m = (if live then tn else Fin 0);
                     number = (if k \<le> 0 then fadd m (f64_of_int k) else f64_of_int k);
                     valid = (live \<and> fge number (Fin 1) \<and> fle number m);
                     row = table_row e (if live then sn_episode_id st else Fin 0) number in
                 finite_or_nan
                   (if valid
                    then or_nan (entity_value entity (ref_field op) tf (feq number m) b (se_touches e ! nat row))
                    else NaN))
            | None \<Rightarrow> NaN)))"

definition operand_values :: "side_episode \<Rightarrow> episode_ref \<Rightarrow> f64 list" where
  "operand_values e op = map (operand_at e op) [0..<length (se_rows e)]"

section \<open>Wire form of the entities\<close>

definition at_bar :: "int list \<Rightarrow> nat option \<Rightarrow> json res" where
  "at_bar time_ms b =
     (case b of None \<Rightarrow> Inr (JObj [(''bar'', JNull), (''time_ms'', JNull)])
      | Some i \<Rightarrow> bindR (item time_ms i) (\<lambda>t. Inr (JObj [(''bar'', JInt (int i)), (''time_ms'', JInt t)])))"

definition zone_wire :: "int list \<Rightarrow> touch_row \<Rightarrow> json res" where
  "zone_wire tm r =
     bindR (at_bar tm (Some (zone_start r))) (\<lambda>st.
     bindR (at_bar tm (Some (zone_end r))) (\<lambda>en.
     bindR (at_bar tm (zone_known_at r)) (\<lambda>kn.
     Inr (JObj [(''episode_id'', JInt (int (tr_episode_id r))), (''number'', JInt (int (tr_number r))),
       (''start'', st), (''end'', en), (''high'', JFloat (zone_high r)), (''low'', JFloat (zone_low r)),
       (''has_false_break'', JBool (has_false_break r = Fin 1)), (''final'', JBool (zone_final r = Fin 1)),
       (''known_at'', kn)]))))"

definition fb_wire :: "int list \<Rightarrow> touch_row \<Rightarrow> json res" where
  "fb_wire tm r =
     bindR (at_bar tm (fb_start r)) (\<lambda>st.
     bindR (at_bar tm (fb_end r)) (\<lambda>en.
     bindR (at_bar tm (fb_known_at r)) (\<lambda>kn.
     Inr (JObj [(''episode_id'', JInt (int (tr_episode_id r))), (''number'', JInt (int (tr_number r))),
       (''start'', st), (''end'', en), (''high'', JFloat (fb_high r)), (''low'', JFloat (fb_low r)),
       (''depth'', JFloat (fb_depth r)),
       (''outcome'', if \<not> isfinite (fb_outcome_comeback r) then JNull
                   else if fb_outcome_comeback r = Fin 1 then JStr ''comeback'' else JStr ''stack_break''),
       (''final'', JBool (fb_final r = Fin 1)), (''known_at'', kn)]))))"

definition leg_wire :: "f64 \<Rightarrow> f64 \<Rightarrow> json" where
  "leg_wire h l = JObj [(''high'', JFloat h), (''low'', JFloat l)]"

definition wave_wire :: "int list \<Rightarrow> touch_row \<Rightarrow> json res" where
  "wave_wire tm r =
     bindR (at_bar tm (Some (origin_bar r))) (\<lambda>org.
     bindR (at_bar tm (Some (peak_bar r))) (\<lambda>pk.
     bindR (at_bar tm (Some (touch_bar r))) (\<lambda>tb.
     Inr (JObj [(''episode_id'', JInt (int (tr_episode_id r))), (''number'', JInt (int (tr_number r))),
       (''origin'', org), (''origin_price'', JFloat (origin_price r)), (''peak'', pk),
       (''peak_price'', JFloat (peak_price r)), (''touch'', tb), (''touch_price'', JFloat (touch_price r)),
       (''up_leg'', leg_wire (up_high r) (up_low r)), (''down_leg'', leg_wire (down_high r) (down_low r)),
       (''final'', JBool True), (''known_at'', tb)]))))"

definition forming_wire :: "int list \<Rightarrow> forming_row \<Rightarrow> json res" where
  "forming_wire tm f =
     bindR (at_bar tm (Some (fr_origin_bar f))) (\<lambda>org.
     bindR (at_bar tm (Some (fr_peak_bar f))) (\<lambda>pk.
     bindR (at_bar tm None) (\<lambda>none.
     bindR (at_bar tm (fr_stack_break_bar f)) (\<lambda>sb.
     Inr (JObj [(''episode_id'', JInt (int (fr_episode_id f))), (''number'', JInt (int (fr_number f))),
       (''origin'', org), (''origin_price'', JFloat (fr_origin_price f)), (''peak'', pk),
       (''peak_price'', JFloat (fr_peak_price f)), (''touch'', none), (''touch_price'', JNull),
       (''up_leg'', leg_wire (fr_up_high f) (fr_up_low f)),
       (''down_leg'', leg_wire (fr_down_high f) (fr_down_low f)),
       (''final'', JBool False), (''known_at'', none), (''stack_break'', sb)])))))"

definition episode_wire :: "int list \<Rightarrow> episode_row \<Rightarrow> json res" where
  "episode_wire tm r =
     bindR (at_bar tm (Some (er_start_bar r))) (\<lambda>st.
     bindR (at_bar tm (er_end_bar r)) (\<lambda>sb.
     Inr (JObj [(''episode_id'', JInt (int (er_episode_id r))), (''start'', st), (''stack_break'', sb),
       (''censored'', JBool (er_censored r))])))"

definition censored_ids :: "side_episode \<Rightarrow> nat list" where
  "censored_ids e = map er_episode_id (filter er_censored (se_episodes e))"

text \<open>The loops over the touch rows collect three lists; the first failing bar index raises.\<close>

definition side_entities_to_wire :: "side_episode \<Rightarrow> int list \<Rightarrow> obj res" where
  "side_entities_to_wire e tm =
     (let known = filter (\<lambda>r. tr_episode_id r \<notin> set (censored_ids e)) (se_touches e);
          forming = filter (\<lambda>f. fr_episode_id f \<notin> set (censored_ids e)) (se_forming_rows e) in
      bindR (mapR (zone_wire tm) known) (\<lambda>zones.
      bindR (mapR (fb_wire tm) (filter (\<lambda>r. has_false_break r = Fin 1) known)) (\<lambda>fbs.
      bindR (mapR (wave_wire tm) known) (\<lambda>waves.
      bindR (mapR (forming_wire tm) forming) (\<lambda>fwaves.
      bindR (mapR (episode_wire tm) (se_episodes e)) (\<lambda>eps.
      Inr [(''episodes'', JList eps), (''zones'', JList zones), (''false_breaks'', JList fbs),
           (''waves'', JList (waves @ fwaves))]))))))"

end
