(* ===== verification/EpisodeLookahead.thy ===== *)
theory EpisodeLookahead
  imports EpisodeProject
begin

text \<open>
  The operand reader never looks ahead.  A row of the touch table is frozen once it is no
  longer the current zone, and its wave part is frozen from the start; the index
  \<open>first_row[e] + n - 1\<close> is the row of touch \<open>n\<close> of episode \<open>e\<close> in every later
  table.  So an operand value read from the table of the whole frame equals the one read from
  the table of the frame cut at that bar.
\<close>

section \<open>Frozen rows\<close>

definition wave_part :: "touch_row \<Rightarrow> (nat \<times> nat) \<times> nat \<times> f64 \<times> nat \<times> f64 \<times> nat \<times> f64 \<times> f64 \<times> f64 \<times> f64 \<times> f64" where
  "wave_part r = (row_key r, origin_bar r, origin_price r, peak_bar r, peak_price r, touch_bar r,
     touch_price r, up_high r, up_low r, down_high r, down_low r)"

definition extends :: "ep_state \<Rightarrow> ep_state \<Rightarrow> bool" where
  "extends s t \<longleftrightarrow>
     length (touches s) \<le> length (touches t) \<and>
     (\<forall>k<length (touches s).
        wave_part (touches t ! k) = wave_part (touches s ! k) \<and>
        (zone s \<noteq> Some k \<longrightarrow> touches t ! k = touches s ! k \<and> zone t \<noteq> Some k))"

lemma extends_refl: "extends s s"
  by (simp add: extends_def)

lemma extends_trans: "extends a b \<Longrightarrow> extends b c \<Longrightarrow> extends a c"
  unfolding extends_def by (metis (no_types, lifting) order_less_le_trans order_trans)

lemma extends_same: "touches t = touches s \<Longrightarrow> zone t = zone s \<or> zone t = None \<Longrightarrow> extends s t"
  by (auto simp: extends_def)

lemma extends_update_zone:
  assumes "\<And>r. wave_part (f r) = wave_part r" "touches u = touches s" "zone u = zone s"
  shows "extends s (update_zone f u)" "extends s ((update_zone f u)\<lparr>ph := p\<rparr>)"
proof -
  have "wave_part ((touches s)[q := f (touches s ! q)] ! k) = wave_part (touches s ! k)" for q k
    using assms(1) by (cases "k = q"; cases "q < length (touches s)") (simp_all add: list_update_beyond)
  then show "extends s (update_zone f u)" "extends s ((update_zone f u)\<lparr>ph := p\<rparr>)"
    using assms(2,3) by (auto simp: extends_def update_zone_def split: option.split)
qed

lemma extends_open_zone: "extends s (open_zone bs i s)"
  by (simp add: extends_def open_zone_def Let_def nth_append)

lemma extends_false_break: "extends s (extend_false_break bs i s)"
  unfolding extend_false_break_def Let_def
  by (rule extends_update_zone) (simp_all add: wave_part_def row_key_def)

lemma extends_zone_bar: "extends s (fst (zone_bar w bs i s))"
proof -
  let ?l = "lo (bs ! i)" and ?h = "hi (bs ! i)" and ?a = "an (bs ! i)"
  consider (leave) "fgt ?l ?a" "w < i - last_contact s" | (above) "fgt ?l ?a" "\<not> w < i - last_contact s"
    | (break) "\<not> fgt ?l ?a" "flt ?h ?a" "w < Suc (below_run s)"
    | (below) "\<not> fgt ?l ?a" "flt ?h ?a" "\<not> w < Suc (below_run s)"
    | (touch) "\<not> fgt ?l ?a" "\<not> flt ?h ?a"
    by blast
  then show ?thesis
  proof cases
    case leave
    then show ?thesis unfolding zone_bar_def Let_def
      by (simp, intro extends_update_zone) (simp_all add: wave_part_def row_key_def)
  next
    case above
    then show ?thesis unfolding zone_bar_def Let_def by (simp add: extends_same)
  next
    case break
    then show ?thesis unfolding zone_bar_def Let_def open_false_break_def
      by (cases "below_run s = 0"; simp, intro extends_update_zone) (simp_all add: wave_part_def row_key_def)
  next
    case below
    then show ?thesis unfolding zone_bar_def Let_def by (simp add: extends_same)
  next
    case touch
    then show ?thesis unfolding zone_bar_def Let_def
      by (simp, intro extends_update_zone) (simp_all add: wave_part_def row_key_def)
  qed
qed

lemma extends_false_break_bar: "extends s (fst (false_break_bar bs i s))"
proof -
  define s1 where "s1 = extend_false_break bs i (update_forming bs i s)"
  have "extends s (update_forming bs i s)" by (simp add: extends_same)
  then have 1: "extends s s1" unfolding s1_def by (rule extends_trans[OF _ extends_false_break])
  have "extends s1 (fst (false_break_bar bs i s))"
  proof (cases "fgt (cl (bs ! i)) (an (bs ! i))")
    case True
    then show ?thesis unfolding false_break_bar_def s1_def [symmetric] Let_def
      by (simp, intro extends_update_zone) (simp_all add: wave_part_def row_key_def)
  qed (simp add: false_break_bar_def s1_def [symmetric] Let_def extends_refl)
  with 1 show ?thesis by (rule extends_trans)
qed

lemma extends_stack_break: "extends s (end_bar (stack_break bs i s))"
proof -
  define s1 where "s1 = update_forming bs i s"
  define s2 where "s2 = (if zone s1 \<noteq> None \<and> ph s1 = Zone
        then update_zone (\<lambda>r. r\<lparr>zone_final := Fin 1, zone_known_at := Some i\<rparr>) s1 else s1)"
  define s3 where "s3 = (if zone s2 \<noteq> None \<and> ph s2 = FalseBreak
        then update_zone (\<lambda>r. r\<lparr>fb_outcome_comeback := Fin 0, fb_final := Fin 1, fb_known_at := Some i\<rparr>)
               (extend_false_break bs i s2) else s2)"
  have 1: "extends s s1" by (simp add: s1_def extends_same)
  have 2: "extends s1 s2" unfolding s2_def
    by (auto simp: extends_refl wave_part_def row_key_def intro!: extends_update_zone)
  have 3: "extends s2 s3" unfolding s3_def
    by (auto simp: extends_refl wave_part_def row_key_def
        intro!: extends_trans[OF extends_false_break extends_update_zone(1)])
  have "touches (end_bar (stack_break bs i s)) = touches s3" "zone (end_bar (stack_break bs i s)) = None"
    unfolding end_bar_def stack_break_def Let_def s1_def s2_def s3_def by simp_all
  then have 4: "extends s3 (end_bar (stack_break bs i s))" by (simp add: extends_same)
  show ?thesis using 1 2 3 4 by (blast intro: extends_trans)
qed

lemma extends_active_bar: "extends s (end_bar (fst (active_bar w k bs i s)))"
proof -
  have eb: "extends s (end_bar t)" if "extends s t" for t
    using that by (auto simp: end_bar_def extends_def)
  define s0 where "s0 = s\<lparr>violation := (if order_ok (bs ! i) then 0 else violation s + 1)\<rparr>"
  have s0: "extends s0 t \<Longrightarrow> extends s t" for t
    by (simp add: extends_def s0_def)
  show ?thesis
  proof (cases "k < violation s0")
    case True
    then show ?thesis using s0 extends_stack_break[of s0] by (simp add: active_bar_def s0_def [symmetric])
  next
    case nb: False
    show ?thesis
    proof (cases "isfinite (an (bs ! i))")
      case False
      then show ?thesis using nb by (intro eb s0) (simp add: active_bar_def s0_def [symmetric] extends_same)
    next
      case True
      have "extends s0 (fst (away_bar bs i s0))"
        by (simp add: away_bar_def extends_open_zone extends_same)
      then show ?thesis using nb True extends_zone_bar[of s0 w bs i] extends_false_break_bar[of s0 bs i] s0
        by (intro eb) (cases "ph s0", simp_all add: active_bar_def s0_def [symmetric])
    qed
  qed
qed

lemma extends_bar_step: "ep_inv bs i s \<Longrightarrow> extends s (fst (bar_step w k c bs s i))"
proof (cases "active s")
  case True
  then show ?thesis using extends_active_bar[of s w k bs i] by (simp add: bar_step_def split_beta)
next
  case False
  have "extends s (end_bar (open_episode c bs i s))"
    by (rule extends_same) (simp_all add: end_bar_def open_episode_def Let_def)
  then show ?thesis using False by (simp add: bar_step_def Let_def extends_refl)
qed

abbreviation run_state :: "nat \<Rightarrow> nat \<Rightarrow> int \<Rightarrow> ep_bar list \<Rightarrow> nat \<Rightarrow> ep_state" where
  "run_state w k c bs n \<equiv> fst (scan (bar_step w k c bs) init_state [0..<n])"

lemma run_state_Suc: "run_state w k c bs (Suc n) = fst (bar_step w k c bs (run_state w k c bs n) n)"
  by (simp add: scan_snoc)

lemma extends_run:
  assumes "m \<le> n" "n \<le> length bs"
  shows "extends (run_state w k c bs m) (run_state w k c bs n)"
  using assms
proof (induction n)
  case 0
  then show ?case by (simp add: extends_refl)
next
  case (Suc n)
  show ?case
  proof (cases "m = Suc n")
    case False
    then have "extends (run_state w k c bs m) (run_state w k c bs n)" using Suc by simp
    moreover have "extends (run_state w k c bs n) (run_state w k c bs (Suc n))"
      unfolding run_state_Suc using Suc.prems project_prefix_inv[of n bs w k c]
      by (intro extends_bar_step) simp
    ultimately show ?thesis by (rule extends_trans)
  qed (simp add: extends_refl)
qed

section \<open>The row index\<close>

lemma index_of_first: "j < length xs \<Longrightarrow> xs ! j = x \<Longrightarrow> (\<And>i. i < j \<Longrightarrow> xs ! i \<noteq> x) \<Longrightarrow> index_of x xs = Some j"
proof (induction xs arbitrary: j)
  case (Cons y ys)
  show ?case
  proof (cases j)
    case 0
    then show ?thesis using Cons.prems by simp
  next
    case (Suc j')
    have "y \<noteq> x" using Cons.prems(3)[of 0] Suc by simp
    moreover have "index_of x ys = Some j'"
    proof (rule Cons.IH)
      show "j' < length ys" "ys ! j' = x" using Cons.prems Suc by simp_all
      show "ys ! i \<noteq> x" if "i < j'" for i using Cons.prems(3)[of "Suc i"] Suc that by simp
    qed
    ultimately show ?thesis using Suc by simp
  qed
qed simp

lemma fill_first_spec:
  assumes "\<forall>r \<in> set rs. tr_episode_id r < length fr" "e < length fr"
  shows "fill_first k rs fr ! e =
    (if 0 \<le> fr ! e then fr ! e
     else case index_of e (map tr_episode_id rs) of None \<Rightarrow> fr ! e | Some j \<Rightarrow> int (k + j))"
  using assms
proof (induction rs arbitrary: k fr)
  case (Cons r rs)
  define fr' where "fr' = (if fr ! tr_episode_id r < 0 then fr[tr_episode_id r := int k] else fr)"
  have len: "length fr' = length fr" by (simp add: fr'_def)
  have IH: "fill_first (Suc k) rs fr' ! e =
    (if 0 \<le> fr' ! e then fr' ! e
     else case index_of e (map tr_episode_id rs) of None \<Rightarrow> fr' ! e | Some j \<Rightarrow> int (Suc k + j))"
    using Cons.prems by (intro Cons.IH) (simp_all add: len)
  show ?case
  proof (cases "e = tr_episode_id r")
    case True
    then show ?thesis using IH Cons.prems by (simp add: fr'_def [symmetric]) (simp add: fr'_def)
  next
    case False
    then have "fr' ! e = fr ! e" by (simp add: fr'_def)
    then show ?thesis using IH False by (simp add: fr'_def [symmetric] split: option.split)
  qed
qed simp

lemma first_rows_spec:
  assumes num: "numbered (map row_key rows)" and k: "k < length rows"
    and ids: "\<forall>r \<in> set rows. tr_episode_id r \<le> ne"
  shows "tr_number (rows ! k) \<le> Suc k \<and>
    first_rows ne rows ! tr_episode_id (rows ! k) = int (Suc k - tr_number (rows ! k))"
proof -
  define e n j where "e = tr_episode_id (rows ! k)" and "n = tr_number (rows ! k)" and "j = Suc k - n"
  have key: "map row_key rows ! k = (e, n)" using k by (simp add: e_def n_def row_key_def)
  have f: "n \<le> Suc k" "map row_key rows ! j = (e, 1)"
    using numbered_first[OF num _ key] k by (simp_all add: j_def)
  have n1: "1 \<le> n" using num k by (auto simp: numbered_def row_key_def n_def)
  have jl: "j < length rows" using k n1 by (simp add: j_def)
  have early: "map tr_episode_id rows ! i \<noteq> e" if "i < j" for i
    using numbered_earlier[OF num _ f(2) that] jl that by (simp add: row_key_def)
  have "map tr_episode_id rows ! j = e" using f(2) jl by (simp add: row_key_def)
  then have io: "index_of e (map tr_episode_id rows) = Some j"
    using jl early by (intro index_of_first) simp_all
  have "e \<le> ne" using ids k by (simp add: e_def)
  moreover have "replicate (ne + 1) (- 1 :: int) ! e = - 1"
    using \<open>e \<le> ne\<close> by (simp add: less_Suc_eq_le del: replicate_Suc)
  ultimately have "first_rows ne rows ! e = int j"
    using fill_first_spec[of rows "replicate (ne + 1) (- 1)" e 0] ids io
    by (simp add: first_rows_def less_Suc_eq_le del: replicate_Suc)
  then show ?thesis using f(1) by (simp add: e_def n_def j_def)
qed

section \<open>Counters stay below the number of bars\<close>

definition count_inv :: "nat list \<Rightarrow> ep_state \<Rightarrow> bool" where
  "count_inv xs s \<longleftrightarrow> episode_id s \<le> length xs \<and> touch_number s \<le> length xs"

lemma stack_break_counts:
  "episode_id (stack_break bs i s) = episode_id s" "touch_number (stack_break bs i s) = touch_number s"
  unfolding stack_break_def Let_def by simp_all

lemma active_bar_counts:
  "episode_id (fst (active_bar w k bs i s)) = episode_id s \<and>
   touch_number (fst (active_bar w k bs i s)) \<le> Suc (touch_number s)"
  unfolding active_bar_def Let_def
  by (auto simp: stack_break_counts away_bar_def open_zone_def zone_bar_def false_break_bar_def
      open_false_break_def Let_def split: phase.split)

interpretation counts: bar_machine "bar_step w k c bs" init_state count_inv
proof unfold_locales
  show "count_inv [] init_state" by (simp add: count_inv_def init_state_def)
  fix xs s x
  assume "count_inv xs s"
  then show "count_inv (xs @ [x]) (fst (bar_step w k c bs s x))"
    using active_bar_counts[of w k bs x s]
    by (auto simp: count_inv_def bar_step_def end_bar_def open_episode_def Let_def split_beta)
qed

lemma run_counts: "episode_id (run_state w k c bs n) \<le> n \<and> touch_number (run_state w k c bs n) \<le> n"
  using counts.inv_run[of "[0..<n]" w k c bs] by (simp add: count_inv_def)

section \<open>Rows of live bars\<close>

lemma bar_step_cases:
  "snd (bar_step w k c bs s i) = inactive_row \<or>
   (\<exists>s1 ev. fst (bar_step w k c bs s i) = end_bar s1 \<and> snd (bar_step w k c bs s i) = row_of i s1 ev \<and>
      (zone s1 = None \<or> zone (end_bar s1) = zone s1 \<or> zone (end_bar s1) = None))"
  by (auto simp: bar_step_def Let_def split_beta end_bar_def)

section \<open>Every touch number up to the current one has a row\<close>

lemma numbered_back:
  assumes "numbered ks" "k < length ks" "ks ! k = (e, n)" "1 \<le> n'" "n' \<le> n"
  shows "n - n' \<le> k \<and> ks ! (k - (n - n')) = (e, n')"
  using assms(2,3,5)
proof (induction "n - n'" arbitrary: k n)
  case 0
  then show ?case by simp
next
  case (Suc d)
  then have "n \<noteq> 1" using assms(4) by simp
  then have p: "0 < k" "ks ! (k - 1) = (e, n - 1)" using assms(1) Suc.prems by (force simp: numbered_def)+
  have "d = (n - 1) - n'" "n' \<le> n - 1" using Suc.hyps(2) by simp_all
  moreover have "k - 1 < length ks" using Suc.prems(1) by simp
  ultimately have "(n - 1) - n' \<le> k - 1 \<and> ks ! (k - 1 - ((n - 1) - n')) = (e, n')"
    using Suc.hyps(1)[of "n - 1" "k - 1"] p(2) by blast
  moreover have "k - 1 - ((n - 1) - n') = k - (n - n')" using Suc.hyps(2) p(1) by simp
  ultimately show ?case using p(1) by (simp add: le_diff_conv)
qed

definition last_key :: "ep_state \<Rightarrow> bool" where
  "last_key s \<longleftrightarrow> (1 \<le> touch_number s \<longrightarrow>
     touches s \<noteq> [] \<and> row_key (last (touches s)) = (episode_id s, touch_number s))"

lemma update_zone_length: "length (touches (update_zone f s)) = length (touches s)"
  by simp

lemma stack_break_length: "length (touches (stack_break bs i s)) = length (touches s)"
  unfolding stack_break_def extend_false_break_def Let_def by simp

lemma active_bar_last:
  "(length (touches (fst (active_bar w k bs i s))) = length (touches s) \<and>
      touch_number (fst (active_bar w k bs i s)) = touch_number s) \<or>
   (touches (fst (active_bar w k bs i s)) \<noteq> [] \<and>
      row_key (last (touches (fst (active_bar w k bs i s)))) =
        (episode_id s, touch_number (fst (active_bar w k bs i s))))"
  unfolding active_bar_def Let_def
  by (simp add: stack_break_counts stack_break_length split: phase.split)
    (simp add: away_bar_def open_zone_def zone_bar_def false_break_bar_def open_false_break_def
      extend_false_break_def Let_def row_key_def)

lemma last_key_step:
  assumes lk: "last_key s" and inv: "ep_inv bs i s"
  shows "last_key (fst (bar_step w k c bs s i))"
proof (cases "active s")
  case False
  then show ?thesis using lk
    by (auto simp: bar_step_def Let_def last_key_def end_bar_def open_episode_def)
next
  case True
  define t where "t = fst (active_bar w k bs i s)"
  have eid: "episode_id t = episode_id s" using active_bar_counts by (simp add: t_def)
  have ext: "extends s (end_bar t)" unfolding t_def by (rule extends_active_bar)
  have eb: "touches (end_bar t) = touches t" "touch_number (end_bar t) = touch_number t"
    "episode_id (end_bar t) = episode_id t" by (simp_all add: end_bar_def)
  from active_bar_last[of w k bs i s, folded t_def] have "last_key t"
  proof (elim disjE conjE)
    assume len: "length (touches t) = length (touches s)" and tn: "touch_number t = touch_number s"
    show ?thesis unfolding last_key_def
    proof
      assume "1 \<le> touch_number t"
      then have ne: "touches s \<noteq> []" and key: "row_key (last (touches s)) = (episode_id s, touch_number s)"
        using lk tn by (auto simp: last_key_def)
      have "length (touches s) - 1 < length (touches s)" using ne by simp
      then have "wave_part (touches t ! (length (touches s) - 1)) = wave_part (touches s ! (length (touches s) - 1))"
        using ext eb by (simp add: extends_def)
      then have "row_key (last (touches t)) = row_key (last (touches s))"
        using ne len by (cases "touches t = []") (simp_all add: last_conv_nth wave_part_def)
      then show "touches t \<noteq> [] \<and> row_key (last (touches t)) = (episode_id t, touch_number t)"
        using ne len key tn eid by auto
    qed
  qed (simp add: last_key_def eid)
  then show ?thesis using True eb by (simp add: bar_step_def split_beta t_def last_key_def)
qed

lemma last_key_run: "n \<le> length bs \<Longrightarrow> last_key (run_state w k c bs n)"
proof (induction n)
  case 0
  then show ?case by (simp add: last_key_def init_state_def)
next
  case (Suc n)
  then show ?case using last_key_step project_prefix_inv[of n bs w k c]
    by (simp only: run_state_Suc)
qed

text \<open>The position of touch \<open>n\<close> of the current episode, and that it is found in every later table.\<close>

lemma touch_position:
  assumes t: "t \<le> length bs" and n: "1 \<le> n" "n \<le> touch_number (run_state w k c bs t)"
  obtains q where "q < length (touches (run_state w k c bs t))"
    "row_key (touches (run_state w k c bs t) ! q) = (episode_id (run_state w k c bs t), n)"
    "n < touch_number (run_state w k c bs t) \<Longrightarrow> zone (run_state w k c bs t) \<noteq> Some q"
proof -
  define s where "s = run_state w k c bs t"
  have inv: "ep_inv bs t s" using project_prefix_inv[OF t] by (simp add: s_def)
  have num: "numbered (map row_key (touches s))" using inv by (simp add: ep_inv_def)
  have ne: "touches s \<noteq> []" and key: "row_key (last (touches s)) = (episode_id s, touch_number s)"
    using last_key_run[OF t, of w k c] n by (simp_all add: last_key_def s_def)
  define l where "l = length (touches s) - 1"
  have ll: "l < length (touches s)" using ne by (simp add: l_def)
  have kl: "map row_key (touches s) ! l = (episode_id s, touch_number s)"
    using key ne ll by (simp add: last_conv_nth l_def)
  define q where "q = l - (touch_number s - n)"
  have b: "touch_number s - n \<le> l" "map row_key (touches s) ! q = (episode_id s, n)"
    using numbered_back[OF num _ kl n(1)] ll n(2) by (simp_all add: q_def s_def)
  have ql: "q < length (touches s)" using ll by (simp add: q_def)
  show thesis
  proof (rule that [of q, folded s_def])
    show "q < length (touches s)" by (rule ql)
    show "row_key (touches s ! q) = (episode_id s, n)" using b ql by simp
    show "zone s \<noteq> Some q" if "n < touch_number s"
    proof
      assume "zone s = Some q"
      then have "row_key (touches s ! q) = (episode_id s, touch_number s)" using inv by (simp add: ep_inv_def)
      then show False using b(2) ql that by simp
    qed
  qed
qed

lemma later_table:
  assumes t: "t \<le> n" "n \<le> length bs"
    and q: "q < length (touches (run_state w k c bs t))"
      "row_key (touches (run_state w k c bs t) ! q) = (e, m)"
    and g: "\<And>r. row_key (g r) = row_key r"
    and rows: "rows = map g (touches (run_state w k c bs n))"
  shows "q < length rows" "m \<le> Suc q"
    "first_rows (length (episodes (run_state w k c bs n))) rows ! e = int (Suc q - m)" "1 \<le> m"
    "e \<le> length (episodes (run_state w k c bs n))"
proof -
  define s where "s = run_state w k c bs n"
  have inv: "ep_inv bs n s" using project_prefix_inv[OF t(2)] by (simp add: s_def)
  have ext: "extends (run_state w k c bs t) s" unfolding s_def by (rule extends_run[OF t])
  have ql: "q < length (touches s)" using ext q(1) by (simp add: extends_def)
  have "wave_part (touches s ! q) = wave_part (touches (run_state w k c bs t) ! q)"
    using ext q(1) by (simp add: extends_def)
  then have key: "row_key (touches s ! q) = (e, m)" using q(2) by (simp add: wave_part_def)
  have gk: "map row_key rows = map row_key (touches s)" using g by (simp add: rows s_def)
  have num: "numbered (map row_key rows)" using inv gk by (simp add: ep_inv_def)
  have "length (map er_episode_id (episodes s)) = length [1..<Suc (episode_id s)]"
    using inv by (simp only: ep_inv_def)
  then have le: "length (episodes s) = episode_id s" by simp
  have ids: "\<forall>r \<in> set rows. tr_episode_id r \<le> length (episodes s)"
  proof
    fix r assume "r \<in> set rows"
    then have "row_key r \<in> set (map row_key (touches s))" by (metis gk image_eqI list.set_map)
    then show "tr_episode_id r \<le> length (episodes s)" using inv le by (auto simp: ep_inv_def row_key_def)
  qed
  show qr: "q < length rows" using ql by (simp add: rows s_def)
  have kr: "row_key (rows ! q) = (e, m)" using key g ql by (simp add: rows s_def)
  show "m \<le> Suc q" "first_rows (length (episodes (run_state w k c bs n))) rows ! e = int (Suc q - m)"
    using first_rows_spec[OF num qr ids] kr by (simp_all add: row_key_def s_def)
  have "map row_key rows ! q = (e, m)" using kr qr by simp
  then show "1 \<le> m" using num qr by (force simp: numbered_def)
  show "e \<le> length (episodes (run_state w k c bs n))"
    using ids qr kr by (auto simp: row_key_def s_def dest: nth_mem)
qed

section \<open>Operand numbers\<close>

lemma to_int_nat [simp]: "to_int (Fin (of_nat n)) = int n" "to_int (Fin (of_int i)) = i"
  by (simp_all add: to_int_def)

text \<open>A valid touch number is an integer between 1 and the number of touches.\<close>

lemma valid_number:
  assumes m: "m < 2 ^ 53"
    and num: "number = (if k \<le> 0 then fadd (Fin (of_nat m)) (f64_of_int k) else f64_of_int k)"
    and v: "fge number (Fin 1)" "fle number (Fin (of_nat m))"
  shows "\<exists>n. number = Fin (of_nat n) \<and> 1 \<le> n \<and> n \<le> m"
proof -
  have int_case: "\<exists>n. number = Fin (of_nat n) \<and> 1 \<le> n \<and> n \<le> m" if "number = Fin (of_int i)" for i
  proof -
    have i: "1 \<le> i" "i \<le> int m" using v that by simp_all
    then show ?thesis using that by (intro exI[of _ "nat i"]) auto
  qed
  show ?thesis
  proof (cases "k \<le> 0")
    case True
    show ?thesis
    proof (cases "- (2 ^ 53) < k")
      case small: True
      then have "f64_of_int k = Fin (of_int k)" using True by (intro f64_of_int_finite) simp
      then have "number = rnd (of_int (int m + k))" using True num by simp
      also have "\<dots> = Fin (of_int (int m + k))" using True small m by (intro rnd_int) simp
      finally show ?thesis by (rule int_case)
    next
      case False
      then have "k \<le> - (2 ^ 53) + 1" by linarith
      then have "(of_int k :: rat) \<le> of_int (- (2 ^ 53) + 1)" by (simp only: of_int_le_iff)
      then have "fle (rnd (of_int k)) (rnd (of_int (- (2 ^ 53) + 1)))" by (rule rnd_mono)
      moreover have "rnd (of_int (- (2 ^ 53) + 1)) = Fin (of_int (- (2 ^ 53) + 1))" by (rule rnd_int) simp
      ultimately have f: "fle (f64_of_int k) (Fin (of_int (- (2 ^ 53) + 1)))"
        by (simp only: f64_of_int_def)
      have "fle (fadd (Fin (of_nat m)) (f64_of_int k)) (Fin 0)"
      proof (cases "f64_of_int k")
        case (Fin r)
        then have "r \<le> of_int (- (2 ^ 53) + 1)" using f by simp
        moreover have "(of_nat m :: rat) \<le> of_int (2 ^ 53 - 1)"
          using m by (metis of_int_le_iff of_int_of_nat_eq of_nat_less_iff of_nat_numeral of_nat_power zle_diff1_eq)
        ultimately have "of_nat m + r \<le> (0 :: rat)" by simp
        then show ?thesis using Fin rnd_mono[of "of_nat m + r" 0] by simp
      qed (use f in auto)
      then have "fle (Fin 1) (Fin 0)" using v(1) num True fle_trans by (metis (full_types))
      then have False by simp
      then show ?thesis ..
    qed
  next
    case False
    show ?thesis
    proof (cases "k < 2 ^ 53")
      case True
      then have "f64_of_int k = Fin (of_int k)" using False by (intro f64_of_int_finite) simp
      then show ?thesis using num False int_case by simp
    next
      case big: False
      have "rnd (of_int (2 ^ 53 - 1)) = Fin (of_int (2 ^ 53 - 1))" by (rule rnd_int) simp
      moreover have "fle (rnd (of_int (2 ^ 53))) (rnd (of_int k))" using big by (intro rnd_mono) simp
      moreover have "rnd (of_int (2 ^ 53)) = Fin (2 ^ 53)"
      proof -
        have "round_rat (of_int (2 ^ 53)) = of_int (2 ^ 53)"
          by (rule round_rat_exact[where m = 1 and k = 53]) (simp_all add: pow2_def)
        then show ?thesis by (simp add: rnd_def)
      qed
      ultimately have "fle (Fin (2 ^ 53)) number" using num False by (simp add: f64_of_int_def)
      then have "fle (Fin (2 ^ 53)) (Fin (of_nat m))" using v(2) fle_trans by blast
      moreover have "(of_nat m :: rat) < 2 ^ 53"
        using m by (metis of_nat_less_iff of_nat_numeral of_nat_power)
      ultimately show ?thesis by simp
    qed
  qed
qed

section \<open>Operand values do not look ahead\<close>

text \<open>What the side does to the rows and the table of the long machine.\<close>

definition side_touch :: "string \<Rightarrow> touch_row \<Rightarrow> touch_row" where
  "side_touch sd = (if sd = ''short'' then unmirror_touch else (\<lambda>r. r))"

definition side_out :: "string \<Rightarrow> bar_out \<Rightarrow> bar_out" where
  "side_out sd = (if sd = ''short'' then unmirror_out else (\<lambda>b. b))"

lemma side_touch_key [simp]: "row_key (side_touch sd r) = row_key r"
  by (simp add: side_touch_def unmirror_touch_def row_key_def)

lemma side_out_state [simp]: "out_state (side_out sd b) = out_state b"
  by (simp add: side_out_def unmirror_out_def)

definition side_bars :: "string \<Rightarrow> ep_bar list \<Rightarrow> ep_bar list" where
  "side_bars sd bs = (if sd = ''short'' then map mirror_bar bs else bs)"

lemma project_side_fields:
  assumes "project_side py_log bs p sd = Inr e"
  obtains c where "ema_warmup_bars py_log (slow_period p) = Inr c"
    "se_rows e = map (side_out sd) (snd (project_long (nat (window_bars p)) (nat (break_bars p)) c (side_bars sd bs)))"
    "se_touches e = map (side_touch sd)
       (touches (run_state (nat (window_bars p)) (nat (break_bars p)) c (side_bars sd bs) (length bs)))"
    "se_first_row e = first_rows (length (episodes (run_state (nat (window_bars p)) (nat (break_bars p)) c (side_bars sd bs) (length bs)))) (se_touches e)"
proof -
  obtain c where c: "ema_warmup_bars py_log (slow_period p) = Inr c"
    using assms by (auto simp: project_side_def bindR_Inr raise_if_Inr)
  define s where "s = run_state (nat (window_bars p)) (nat (break_bars p)) c (side_bars sd bs) (length bs)"
  have tp: "touches (fst (project_long (nat (window_bars p)) (nat (break_bars p)) c (side_bars sd bs))) = touches s"
    "episodes (fst (project_long (nat (window_bars p)) (nat (break_bars p)) c (side_bars sd bs))) = episodes s"
    by (simp_all add: project_long_def split_beta project_run_def s_def side_bars_def)
  show thesis
  proof (rule that [of c])
    show "ema_warmup_bars py_log (slow_period p) = Inr c" by (rule c)
  qed (use assms c tp in \<open>auto simp: project_side_def raise_if_Inr split_beta Let_def side_bars_def side_out_def
      side_touch_def s_def\<close>)
qed

lemma entity_value_frozen:
  assumes "wave_part r = wave_part r'" "\<not> current \<Longrightarrow> r = r'"
  shows "entity_value entity name t current b (side_touch sd r) = entity_value entity name t current b (side_touch sd r')"
proof (cases current)
  case True
  then show ?thesis using assms(1)
    by (simp add: entity_value_def zone_value_def fb_value_def side_touch_def unmirror_touch_def wave_part_def)
qed (use assms(2) in simp)

lemma live_row:
  assumes t: "t < length bs" and live: "isfinite (sn_touch_number (out_state (snd (project_long w k c bs) ! t)))"
  shows "sn_touch_number (out_state (snd (project_long w k c bs) ! t)) =
      f64_of_nat (touch_number (run_state w k c bs (Suc t)))"
    "sn_episode_id (out_state (snd (project_long w k c bs) ! t)) =
      f64_of_nat (episode_id (run_state w k c bs (Suc t)))"
proof -
  have row: "snd (project_long w k c bs) ! t = snd (bar_step w k c bs (run_state w k c bs t) t)"
    using t by (simp add: project_rows project_run_def scan_nth take_upt)
  have nf: "\<not> isfinite (sn_touch_number (out_state inactive_row))"
    by (simp add: inactive_row_def no_state_def)
  obtain s1 ev where s1: "run_state w k c bs (Suc t) = end_bar s1" "snd (project_long w k c bs) ! t = row_of t s1 ev"
    using bar_step_cases[of w k c bs "run_state w k c bs t" t] live nf
    unfolding row run_state_Suc by auto
  have "\<not> censored s1" using live by (auto simp: s1(2) row_of_def no_state_def split: if_splits)
  then show "sn_touch_number (out_state (snd (project_long w k c bs) ! t)) =
      f64_of_nat (touch_number (run_state w k c bs (Suc t)))"
    "sn_episode_id (out_state (snd (project_long w k c bs) ! t)) =
      f64_of_nat (episode_id (run_state w k c bs (Suc t)))"
    by (simp_all only: s1) (simp_all add: row_of_def state_of_def end_bar_def)
qed

text \<open>The touch-table row a valid reference reads, in the table of any later frame.\<close>

lemma table_row_later:
  assumes t: "t < n" "n \<le> length bs" and big: "length bs < 2 ^ 53"
    and e: "se_touches e = map (side_touch sd) (touches (run_state w k c bs n))"
      "se_first_row e = first_rows (length (episodes (run_state w k c bs n))) (se_touches e)"
    and m: "1 \<le> m" "m \<le> touch_number (run_state w k c bs (Suc t))"
    and q: "q < length (touches (run_state w k c bs (Suc t)))"
      "row_key (touches (run_state w k c bs (Suc t)) ! q) = (episode_id (run_state w k c bs (Suc t)), m)"
  shows "table_row e (f64_of_nat (episode_id (run_state w k c bs (Suc t)))) (Fin (of_nat m)) = int q"
    "q < length (se_touches e)"
proof -
  define i where "i = episode_id (run_state w k c bs (Suc t))"
  note l = later_table[OF _ t(2) q, of "side_touch sd" "se_touches e", OF _ _ e(1), folded i_def]
  have il: "i \<le> length (episodes (run_state w k c bs n))"
    and fr: "se_first_row e ! i = int (Suc q - m)" and mq: "m \<le> Suc q"
    using l t by (simp_all add: e(2))
  have len: "length (se_first_row e) = length (episodes (run_state w k c bs n)) + 1"
  proof -
    have "length (fill_first j rs fr) = length fr" for j rs fr
      by (induction rs arbitrary: j fr) auto
    then show ?thesis by (simp add: e(2) first_rows_def)
  qed
  have "i \<le> Suc t" using run_counts[of w k c bs "Suc t"] by (simp add: i_def)
  then have "i < 2 ^ 53" using t big by linarith
  then have ti: "to_int (f64_of_nat i) = int i" by (simp add: f64_of_nat_eq)
  show "table_row e (f64_of_nat (episode_id (run_state w k c bs (Suc t)))) (Fin (of_nat m)) = int q"
    unfolding i_def [symmetric] using fr mq il len by (simp add: table_row_def ti clip_def of_nat_diff)
  show "q < length (se_touches e)" using l t by simp
qed

text \<open>
  The row of a valid touch number is the same row of the table of the cut frame and of the table
  of the whole frame; its wave is the same, and all of it unless it is the current zone's.
\<close>

lemma table_row_prefix:
  assumes big: "length bs < 2 ^ 53" and n: "n \<le> length bs" "t < n"
    and full: "project_side py_log bs p sd = Inr e"
    and cut: "project_side py_log (take n bs) p sd = Inr e'"
    and live: "isfinite (sn_touch_number (out_state (se_rows e ! t)))"
  obtains m where "m < 2 ^ 53" "sn_touch_number (out_state (se_rows e ! t)) = Fin (of_nat m)"
    "\<And>x. 1 \<le> x \<Longrightarrow> x \<le> m \<Longrightarrow> \<exists>q r r'.
       table_row e (sn_episode_id (out_state (se_rows e ! t))) (Fin (of_nat x)) = int q \<and>
       table_row e' (sn_episode_id (out_state (se_rows e ! t))) (Fin (of_nat x)) = int q \<and>
       q < length (se_touches e) \<and> q < length (se_touches e') \<and>
       se_touches e ! q = side_touch sd r \<and> se_touches e' ! q = side_touch sd r' \<and>
       wave_part r' = wave_part r \<and> (x \<noteq> m \<longrightarrow> r' = r)"
proof -
  define w k where "w = nat (window_bars p)" and "k = nat (break_bars p)"
  define cs where "cs = side_bars sd bs"
  have cut_cs: "side_bars sd (take n bs) = take n cs" and len: "length cs = length bs"
    by (simp_all add: cs_def side_bars_def take_map)
  from full obtain c where c: "ema_warmup_bars py_log (slow_period p) = Inr c"
    and r: "se_rows e = map (side_out sd) (snd (project_long w k c cs))"
    and tb: "se_touches e = map (side_touch sd) (touches (run_state w k c cs (length bs)))"
    and fr: "se_first_row e = first_rows (length (episodes (run_state w k c cs (length bs)))) (se_touches e)"
    by (rule project_side_fields) (simp add: w_def k_def cs_def)
  have rs: "run_state w k c (take n cs) n = run_state w k c cs n"
    using n project_run_prefix[of n cs w k c] len by (simp add: project_run_def)
  from cut have tb': "se_touches e' = map (side_touch sd) (touches (run_state w k c cs n))"
    and fr': "se_first_row e' = first_rows (length (episodes (run_state w k c cs n))) (se_touches e')"
    using n c by (auto elim!: project_side_fields simp: cut_cs w_def [symmetric] k_def [symmetric] rs min_def)
  define S where "S = run_state w k c cs (Suc t)"
  have bt: "out_state (se_rows e ! t) = out_state (snd (project_long w k c cs) ! t)" using n len by (simp add: r)
  have tl: "t < length cs" using n len by simp
  note lr = live_row[OF tl, of w k c, folded bt S_def, OF live]
  define m where "m = touch_number S"
  have "m \<le> Suc t" using run_counts[of w k c cs "Suc t"] by (simp add: m_def S_def)
  then have mb: "m < 2 ^ 53" using n big by linarith
  show ?thesis
  proof (rule that[OF mb])
    show "sn_touch_number (out_state (se_rows e ! t)) = Fin (of_nat m)" using lr mb by (simp add: m_def f64_of_nat_eq)
    fix x assume x: "1 \<le> x" "x \<le> m"
    obtain q where q: "q < length (touches S)" "row_key (touches S ! q) = (episode_id S, x)" "x < m \<Longrightarrow> zone S \<noteq> Some q"
      using touch_position[of "Suc t" cs x w k c] x n len by (auto simp: S_def m_def)
    have x': "x \<le> touch_number (run_state w k c cs (Suc t))" using x(2) by (simp add: m_def S_def)
    have a: "table_row e (sn_episode_id (out_state (se_rows e ! t))) (Fin (of_nat x)) = int q" "q < length (se_touches e)"
      unfolding lr(2) using table_row_later[of t "length bs" cs e sd w k c x q] n len big tb fr x(1) x' q
      by (auto simp: S_def)
    have a': "table_row e' (sn_episode_id (out_state (se_rows e ! t))) (Fin (of_nat x)) = int q" "q < length (se_touches e')"
      unfolding lr(2) using table_row_later[of t n cs e' sd w k c x q] n len big tb' fr' x(1) x' q
      by (auto simp: S_def)
    have ex: "extends S (run_state w k c cs n)" "extends S (run_state w k c cs (length bs))"
      unfolding S_def using n len by (simp_all only: extends_run Suc_le_eq order_refl)
    let ?r = "touches (run_state w k c cs (length bs)) ! q" and ?r' = "touches (run_state w k c cs n) ! q"
    have "wave_part ?r' = wave_part ?r" "x \<noteq> m \<longrightarrow> ?r' = ?r" using ex q x(2) by (simp_all add: extends_def)
    then show "\<exists>q r r'. table_row e (sn_episode_id (out_state (se_rows e ! t))) (Fin (of_nat x)) = int q \<and>
       table_row e' (sn_episode_id (out_state (se_rows e ! t))) (Fin (of_nat x)) = int q \<and>
       q < length (se_touches e) \<and> q < length (se_touches e') \<and>
       se_touches e ! q = side_touch sd r \<and> se_touches e' ! q = side_touch sd r' \<and>
       wave_part r' = wave_part r \<and> (x \<noteq> m \<longrightarrow> r' = r)"
      using a a' by (intro exI[of _ q] exI[of _ ?r] exI[of _ ?r']) (simp add: tb tb')
  qed
qed

lemma rows_prefix:
  assumes "n \<le> length bs" "t < n" "project_side py_log bs p sd = Inr e" "project_side py_log (take n bs) p sd = Inr e'"
  shows "se_rows e' ! t = se_rows e ! t" "se_side e' = se_side e"
proof -
  define w k where "w = nat (window_bars p)" and "k = nat (break_bars p)"
  define cs where "cs = side_bars sd bs"
  have cut_cs: "side_bars sd (take n bs) = take n cs" and len: "length cs = length bs"
    by (simp_all add: cs_def side_bars_def take_map)
  from assms(3) obtain c where c: "ema_warmup_bars py_log (slow_period p) = Inr c"
    and r: "se_rows e = map (side_out sd) (snd (project_long w k c cs))"
    by (rule project_side_fields) (simp add: w_def k_def cs_def)
  from assms(4) have "se_rows e' = map (side_out sd) (take n (snd (project_long w k c cs)))"
    using assms(1) c by (auto elim!: project_side_fields simp: cut_cs w_def [symmetric] k_def [symmetric] project_rows_take min_def)
  then show "se_rows e' ! t = se_rows e ! t" using assms(1,2) by (simp add: r len)
  show "se_side e' = se_side e" using assms(3,4) by (auto simp: project_side_def bindR_Inr raise_if_Inr Let_def split_beta)
qed

lemma operand_prefix:
  assumes big: "length bs < 2 ^ 53" and n: "n \<le> length bs" "t < n"
    and full: "project_side py_log bs p sd = Inr e"
    and cut: "project_side py_log (take n bs) p sd = Inr e'"
  shows "operand_at e' rf t = operand_at e rf t"
proof -
  note row = rows_prefix(1)[OF n full cut]
  define b where "b = se_rows e ! t"
  show ?thesis
  proof (cases "\<exists>entity j. ref_entity rf = Some entity \<and> ref_index rf = Some (Idx j)")
    case False
    then show ?thesis by (auto simp: operand_at_def Let_def row split: option.split entity_index.split)
  next
    case True
    then obtain entity j where ent: "ref_entity rf = Some entity" "ref_index rf = Some (Idx j)" by blast
    define live where "live = isfinite (sn_touch_number (out_state b))"
    define mm where "mm = (if live then sn_touch_number (out_state b) else Fin 0)"
    define number where "number = (if j \<le> 0 then fadd mm (f64_of_int j) else f64_of_int j)"
    define valid where "valid = (live \<and> fge number (Fin 1) \<and> fle number mm)"
    define eid where "eid = (if live then sn_episode_id (out_state b) else Fin 0)"
    have op: "operand_at f rf t = finite_or_nan (if valid then or_nan (entity_value entity (ref_field rf)
        (f64_of_nat t) (feq number mm) b (se_touches f ! nat (table_row f eid number))) else NaN)"
      if "se_rows f ! t = b" for f
      using ent that unfolding operand_at_def Let_def valid_def number_def mm_def eid_def live_def by auto
    have "entity_value entity (ref_field rf) tf (feq number mm) b (se_touches e' ! nat (table_row e' eid number))
        = entity_value entity (ref_field rf) tf (feq number mm) b (se_touches e ! nat (table_row e eid number))"
      if v: valid for tf
    proof -
      have lv: "isfinite (sn_touch_number (out_state (se_rows e ! t)))" using v by (simp add: valid_def live_def b_def)
      obtain m where m: "m < 2 ^ 53" "sn_touch_number (out_state (se_rows e ! t)) = Fin (of_nat m)"
        and rows: "\<And>x. 1 \<le> x \<Longrightarrow> x \<le> m \<Longrightarrow> \<exists>q r r'.
           table_row e (sn_episode_id (out_state (se_rows e ! t))) (Fin (of_nat x)) = int q \<and>
           table_row e' (sn_episode_id (out_state (se_rows e ! t))) (Fin (of_nat x)) = int q \<and>
           q < length (se_touches e) \<and> q < length (se_touches e') \<and>
           se_touches e ! q = side_touch sd r \<and> se_touches e' ! q = side_touch sd r' \<and>
           wave_part r' = wave_part r \<and> (x \<noteq> m \<longrightarrow> r' = r)"
        using table_row_prefix[OF big n full cut lv] by blast
      have mm: "mm = Fin (of_nat m)" "eid = sn_episode_id (out_state (se_rows e ! t))"
        using lv m by (simp_all add: mm_def eid_def live_def b_def)
      obtain x where x: "number = Fin (of_nat x)" "1 \<le> x" "x \<le> m"
        using valid_number[OF m(1), of number j] v mm by (auto simp: number_def valid_def)
      obtain q r r' where q: "table_row e eid number = int q" "table_row e' eid number = int q"
        "se_touches e ! q = side_touch sd r" "se_touches e' ! q = side_touch sd r'" "wave_part r' = wave_part r" "x \<noteq> m \<longrightarrow> r' = r"
        using rows[OF x(2,3)] by (auto simp: x(1) mm(2))
      have "r' = r" if "\<not> feq number mm" using that q(6) mm x(1) by (auto simp: feq_def)
      then show ?thesis
        using entity_value_frozen[OF q(5), where entity = entity and name = "ref_field rf" and t = tf and b = b and sd = sd] q by simp
    qed
    then show ?thesis using op[of e'] op[of e] row by (auto simp: b_def)
  qed
qed

end
