(* ===== verification/EpisodeWire.thy ===== *)
theory EpisodeWire
  imports EpisodeLookahead
begin

text \<open>
  Every bar index stored in the touch table, the episode list and the forming waves lies inside
  the frame, so serialising the entities against the frame's own time axis cannot fail.
\<close>

section \<open>Stored bar indices\<close>

definition below :: "nat \<Rightarrow> nat option \<Rightarrow> bool" where
  "below i v = (case v of None \<Rightarrow> True | Some b \<Rightarrow> b < i)"

lemma below_simps [simp]: "below i None" "below i (Some b) = (b < i)"
  by (simp_all add: below_def)

lemma below_mono: "below i v \<Longrightarrow> i \<le> j \<Longrightarrow> below j v"
  by (cases v) auto

definition row_bars :: "nat \<Rightarrow> touch_row \<Rightarrow> bool" where
  "row_bars i r \<longleftrightarrow> below i (zone_known_at r) \<and> below i (fb_start r) \<and> below i (fb_end r) \<and> below i (fb_known_at r)"

definition wave_bars :: "nat \<Rightarrow> forming_row \<Rightarrow> bool" where
  "wave_bars i f \<longleftrightarrow> fr_origin_bar f < i \<and> fr_peak_bar f < i \<and> below i (fr_stack_break_bar f)"

definition episode_bars :: "nat \<Rightarrow> episode_row \<Rightarrow> bool" where
  "episode_bars i r \<longleftrightarrow> er_start_bar r < i \<and> below i (er_end_bar r)"

definition bars_ok :: "nat \<Rightarrow> ep_state \<Rightarrow> bool" where
  "bars_ok i s \<longleftrightarrow> list_all (row_bars i) (touches s) \<and> list_all (episode_bars i) (episodes s) \<and>
     list_all (wave_bars i) (forming_rows s)"

lemma bars_ok_mono: "bars_ok i s \<Longrightarrow> i \<le> j \<Longrightarrow> bars_ok j s"
  by (auto simp: bars_ok_def row_bars_def episode_bars_def wave_bars_def list_all_iff intro: below_mono)

lemma bars_ok_same:
  "bars_ok i s \<Longrightarrow> touches t = touches s \<Longrightarrow> episodes t = episodes s \<Longrightarrow> forming_rows t = forming_rows s \<Longrightarrow> bars_ok i t"
  by (simp add: bars_ok_def)

lemma forming_rows_frame [simp]:
  "forming_rows (update_forming bs i s) = forming_rows s"
  "forming_rows (reset_forming bs i s) = forming_rows s"
  "forming_rows (seed_first_wave bs i s) = forming_rows s"
  "forming_rows (update_zone f s) = forming_rows s"
  "forming_rows (extend_false_break bs i s) = forming_rows s"
  by (simp_all add: update_forming_def reset_forming_def seed_first_wave_def Let_def extend_false_break_def
      update_zone_def split: option.split)

lemma bars_ok_update_zone:
  assumes "bars_ok i s" "\<And>r. row_bars i r \<Longrightarrow> row_bars i (f r)"
  shows "bars_ok i (update_zone f s)"
proof (cases "zone s")
  case (Some k)
  show ?thesis
  proof (cases "k < length (touches s)")
    case True
    then have "row_bars i (touches s ! k)" using assms(1) by (simp add: bars_ok_def list_all_length)
    then show ?thesis using assms(1) assms(2)[of "touches s ! k"] Some
      by (simp add: bars_ok_def update_zone_touches list_all_length) (metis nth_list_update_eq nth_list_update_neq)
  next
    case False
    then show ?thesis using assms(1) Some by (simp add: bars_ok_def update_zone_touches list_update_beyond)
  qed
qed (use assms in \<open>simp add: bars_ok_def update_zone_touches\<close>)

lemma bars_ok_update [simp]:
  "bars_ok i (update_forming bs j s) = bars_ok i s" "bars_ok i (reset_forming bs j s) = bars_ok i s"
  by (simp_all add: bars_ok_def)

lemma bars_ok_fields [simp]:
  "bars_ok i (s\<lparr>ph := p\<rparr>) = bars_ok i s" "bars_ok i (s\<lparr>violation := n\<rparr>) = bars_ok i s"
  by (simp_all add: bars_ok_def)

lemma bars_ok_extend: "bars_ok (Suc i) s \<Longrightarrow> bars_ok (Suc i) (extend_false_break bs i s)"
  unfolding extend_false_break_def Let_def
  by (intro bars_ok_update_zone) (auto simp: row_bars_def intro: bars_ok_same)

lemma bars_ok_zone_bar:
  assumes "bars_ok (Suc i) s" "0 < i"
  shows "bars_ok (Suc i) (fst (zone_bar w bs i s))"
proof -
  have same: "bars_ok (Suc i) t" if "touches t = touches s" "episodes t = episodes s"
      "forming_rows t = forming_rows s" for t
    by (rule bars_ok_same[OF assms(1) that])
  have false_break: "bars_ok (Suc i) (open_false_break i t)"
    if "bars_ok (Suc i) t" "0 < below_run t" for t
    unfolding open_false_break_def
    by (rule bars_ok_update_zone) (use that assms(2) in \<open>auto simp: row_bars_def intro: bars_ok_same\<close>)
  show ?thesis unfolding zone_bar_def Let_def
    by (auto intro!: bars_ok_update_zone same false_break simp: row_bars_def)
qed

lemma bars_ok_false_break_bar:
  "bars_ok (Suc i) s \<Longrightarrow> bars_ok (Suc i) (fst (false_break_bar bs i s))"
  unfolding false_break_bar_def Let_def
  by (auto intro!: bars_ok_update_zone bars_ok_extend simp: row_bars_def)

lemma bars_ok_away_bar: "bars_ok (Suc i) s \<Longrightarrow> bars_ok (Suc i) (fst (away_bar bs i s))"
  by (auto simp: away_bar_def open_zone_def Let_def bars_ok_def row_bars_def)

lemma wave_bars_made:
  "wave_ok bs (Suc i) s \<Longrightarrow> below (Suc i) v \<Longrightarrow> wave_bars (Suc i) (make_forming_row s v)"
  by (auto simp: wave_ok_def wave_bars_def make_forming_row_def)

lemma bars_ok_stack_break:
  assumes "bars_ok (Suc i) s" "wave_ok bs i s" "episodes s \<noteq> []"
  shows "bars_ok (Suc i) (stack_break bs i s)"
proof -
  define s1 where "s1 = update_forming bs i s"
  define s2 where "s2 = (if zone s1 \<noteq> None \<and> ph s1 = Zone
        then update_zone (\<lambda>r. r\<lparr>zone_final := Fin 1, zone_known_at := Some i\<rparr>) s1 else s1)"
  define s3 where "s3 = (if zone s2 \<noteq> None \<and> ph s2 = FalseBreak
        then update_zone (\<lambda>r. r\<lparr>fb_outcome_comeback := Fin 0, fb_final := Fin 1, fb_known_at := Some i\<rparr>)
               (extend_false_break bs i s2) else s2)"
  have 1: "bars_ok (Suc i) s1" "wave_ok bs (Suc i) s1"
    using assms by (simp_all add: s1_def wave_ok_update)
  have 2: "bars_ok (Suc i) s2" "wave_ok bs (Suc i) s2" "episodes s2 = episodes s"
    using 1 by (auto simp: s2_def s1_def row_bars_def intro: bars_ok_update_zone)
  have wx: "wave_ok bs (Suc i) (extend_false_break bs i s2) = wave_ok bs (Suc i) s2"
    by (rule wave_ok_cong) (simp_all add: extend_false_break_def Let_def)
  have 3: "bars_ok (Suc i) s3" "wave_ok bs (Suc i) s3" "episodes s3 = episodes s"
    using 2 wx by (auto simp: s3_def row_bars_def intro!: bars_ok_update_zone bars_ok_extend)
  have ep: "stack_break bs i s = (let s4 = s3\<lparr>ph := Broken,
      episodes := butlast (episodes s3) @ [(last (episodes s3))\<lparr>er_end_bar := Some i\<rparr>]\<rparr>
      in s4\<lparr>forming_rows := forming_rows s4 @ [make_forming_row s4 (Some i)]\<rparr>)"
    unfolding stack_break_def Let_def s3_def s2_def s1_def by simp
  have all: "list_all (episode_bars (Suc i)) (butlast (episodes s3) @ [(last (episodes s3))\<lparr>er_end_bar := Some i\<rparr>])"
    using 3 assms(3) by (auto simp: bars_ok_def list_all_iff episode_bars_def dest: in_set_butlastD)
  have "wave_ok bs (Suc i) (s3\<lparr>ph := Broken,
      episodes := butlast (episodes s3) @ [(last (episodes s3))\<lparr>er_end_bar := Some i\<rparr>]\<rparr>) = wave_ok bs (Suc i) s3"
    by (rule wave_ok_cong) simp_all
  then show ?thesis using 3 all unfolding ep Let_def
    by (simp add: bars_ok_def wave_bars_made)
qed

lemma bars_ok_step:
  assumes inv: "ep_inv bs i s" and b: "bars_ok i s"
  shows "bars_ok (Suc i) (fst (bar_step w k c bs s i))"
proof -
  have b': "bars_ok (Suc i) s" using b by (rule bars_ok_mono) simp
  have eb: "bars_ok j (end_bar t) = bars_ok j t" for j t by (simp add: end_bar_def bars_ok_def)
  show ?thesis
  proof (cases "active s")
    case False
    have "bars_ok (Suc i) (open_episode c bs i s)"
      using b' by (simp add: open_episode_def Let_def bars_ok_def episode_bars_def)
    then show ?thesis using b' False by (simp add: bar_step_def Let_def eb)
  next
    case True
    define s0 where "s0 = s\<lparr>violation := (if order_ok (bs ! i) then 0 else violation s + 1)\<rparr>"
    have wv: "wave_ok bs i s" and i: "0 < i" and id: "1 \<le> episode_id s"
      using inv True by (auto simp: ep_inv_def)
    have w0: "wave_ok bs i s0 = wave_ok bs i s" by (rule wave_ok_cong) (simp_all add: s0_def)
    have "episodes s \<noteq> []" using inv id by (auto simp: ep_inv_def)
    then have "bars_ok (Suc i) (fst (active_bar w k bs i s))"
      using b' wv w0 i unfolding active_bar_def Let_def s0_def [symmetric]
      by (auto simp: bars_ok_stack_break bars_ok_zone_bar bars_ok_false_break_bar bars_ok_away_bar s0_def
          split: phase.split)
    then show ?thesis using True by (simp add: bar_step_def split_beta eb)
  qed
qed

lemma bars_ok_run: "n \<le> length bs \<Longrightarrow> bars_ok n (run_state w k c bs n)"
proof (induction n)
  case 0
  then show ?case by (simp add: bars_ok_def init_state_def)
next
  case (Suc n)
  then show ?case using bars_ok_step project_prefix_inv[of n bs w k c]
    by (simp only: run_state_Suc)
qed

section \<open>The whole frame\<close>

text \<open>Everything the wire form looks up on the time axis.\<close>

lemma long_bars:
  assumes "s = fst (project_long w k c bs)"
  shows "bars_ok (length bs) s" "\<forall>r\<in>set (touches s). row_ok bs (length bs) r"
proof -
  define u where "u = fst (project_run w k c bs)"
  have inv: "ep_inv bs (length bs) u" unfolding u_def by (rule project_run_inv)
  have b: "bars_ok (length bs) u" unfolding u_def project_run_def by (rule bars_ok_run) simp
  have s: "s = (if active u then u\<lparr>forming_rows := forming_rows u @ [make_forming_row u None]\<rparr> else u)"
    using assms by (simp add: project_long_def split_beta u_def)
  show "\<forall>r\<in>set (touches s). row_ok bs (length bs) r" using inv by (simp add: s ep_inv_def)
  have "wave_bars (length bs) (make_forming_row u None)" if "active u"
    using inv that by (auto simp: ep_inv_def wave_ok_def wave_bars_def make_forming_row_def)
  then show "bars_ok (length bs) s" using b by (simp add: s bars_ok_def)
qed

lemma at_bar_ok: "below (length tm) v \<Longrightarrow> \<exists>j. at_bar tm v = Inr j"
  by (cases v) (auto simp: at_bar_def)

lemma mapR_total: "\<forall>x\<in>set xs. \<exists>y. f x = Inr y \<Longrightarrow> \<exists>ys. mapR f xs = Inr ys"
  by (induction xs) auto

lemma bindR_total: "\<exists>x. m = Inr x \<Longrightarrow> (\<And>x. m = Inr x \<Longrightarrow> \<exists>y. f x = Inr y) \<Longrightarrow> \<exists>y. bindR m f = Inr y"
  by auto

lemma touch_wires_ok:
  assumes "row_bars (length tm) r" "zone_start r < length tm" "zone_end r < length tm"
    "origin_bar r < length tm" "peak_bar r < length tm" "touch_bar r < length tm"
  shows "\<exists>j. zone_wire tm r = Inr j" "\<exists>j. fb_wire tm r = Inr j" "\<exists>j. wave_wire tm r = Inr j"
  unfolding zone_wire_def fb_wire_def wave_wire_def
  by (intro bindR_total at_bar_ok; use assms in \<open>simp add: row_bars_def\<close>)+

lemma forming_wire_ok: "wave_bars (length tm) f \<Longrightarrow> \<exists>j. forming_wire tm f = Inr j"
  unfolding forming_wire_def by (intro bindR_total at_bar_ok) (simp_all add: wave_bars_def)

lemma episode_wire_ok: "episode_bars (length tm) r \<Longrightarrow> \<exists>j. episode_wire tm r = Inr j"
  unfolding episode_wire_def by (intro bindR_total at_bar_ok) (simp_all add: episode_bars_def)

lemma project_side_bars:
  assumes "project_side py_log bs p sd = Inr e"
  shows "\<forall>r\<in>set (se_touches e). row_bars (length bs) r \<and> zone_start r < length bs \<and> zone_end r < length bs \<and>
      origin_bar r < length bs \<and> peak_bar r < length bs \<and> touch_bar r < length bs"
    "\<forall>f\<in>set (se_forming_rows e). wave_bars (length bs) f" "\<forall>r\<in>set (se_episodes e). episode_bars (length bs) r"
proof -
  from assms obtain c s where s: "s = fst (project_long (nat (window_bars p)) (nat (break_bars p)) c (side_bars sd bs))"
    and e: "se_touches e = map (side_touch sd) (touches s)" "se_episodes e = episodes s"
      "se_forming_rows e = map (if sd = ''short'' then unmirror_forming else (\<lambda>f. f)) (forming_rows s)"
    by (auto simp: project_side_def bindR_Inr raise_if_Inr Let_def split_beta side_bars_def side_touch_def)
  have len: "length (side_bars sd bs) = length bs" by (simp add: side_bars_def)
  note b = long_bars[OF s, unfolded len]
  show "\<forall>r\<in>set (se_touches e). row_bars (length bs) r \<and> zone_start r < length bs \<and> zone_end r < length bs \<and>
      origin_bar r < length bs \<and> peak_bar r < length bs \<and> touch_bar r < length bs"
    using b by (fastforce simp: e side_touch_def unmirror_touch_def row_bars_def bars_ok_def list_all_iff row_ok_def)
  show "\<forall>f\<in>set (se_forming_rows e). wave_bars (length bs) f"
    using b(1) by (auto simp: e bars_ok_def list_all_iff unmirror_forming_def wave_bars_def)
  show "\<forall>r\<in>set (se_episodes e). episode_bars (length bs) r"
    using b(1) by (simp add: e bars_ok_def list_all_iff)
qed

end
