(* ===== verification/EpisodeProperties.thy ===== *)
theory EpisodeProperties
  imports EpisodeWire
begin

text \<open>
  The properties of the EMA stack episode, each with a witness on a small frame: six bars in
  which price touches a rising anchor twice.
\<close>

section \<open>A small frame\<close>

definition wbar :: "int \<Rightarrow> int \<Rightarrow> int \<Rightarrow> ep_bar" where
  "wbar h l a = \<lparr>hi = f64_of_int h, lo = f64_of_int l, cl = f64_of_int l,
     fa = f64_of_int (a + 1), an = f64_of_int a, sl = f64_of_int (a - 1)\<rparr>"

definition wframe :: "ep_bar list" where
  "wframe = [(wbar 10 8 5)\<lparr>fa := f64_of_int 3\<rparr>, wbar 12 9 5, wbar 11 4 6, wbar 9 7 6, wbar 10 8 6, wbar 11 5 7]"

definition wparams :: episode_params where
  "wparams = \<lparr>fast_period = 2, anchor_period = 3, slow_period = 7, window_bars = 1, break_bars = 2,
     history_bars = 100\<rparr>"

definition wlog :: "f64 \<Rightarrow> f64" where
  "wlog x = Fin 1"

definition wref :: episode_ref where
  "wref = \<lparr>ref_ref = ''e'', ref_entity = Some ''wave'', ref_index = Some (Idx 0), ref_field = ''peak_price''\<rparr>"

lemma wframe_length [simp]: "length wframe = 6"
  by (simp add: wframe_def)

definition side_ok :: "(f64 \<Rightarrow> f64) \<Rightarrow> ep_bar list \<Rightarrow> episode_params \<Rightarrow> string \<Rightarrow> side_episode" where
  "side_ok lg bs p sd = (case project_side lg bs p sd of Inr e \<Rightarrow> e | Inl _ \<Rightarrow>
     \<lparr>se_side = [], se_rows = [], se_touches = [], se_first_row = [], se_episodes = [], se_forming_rows = [],
      se_anchor = []\<rparr>)"

lemma wwarmup: "ema_warmup_bars wlog 7 = Inr 1"
  by code_simp

lemma wside: "sd = ''long'' \<or> sd = ''short'' \<Longrightarrow> project_side wlog bs wparams sd = Inr (side_ok wlog bs wparams sd)"
  using wwarmup by (auto simp: side_ok_def project_side_def wparams_def Let_def split_beta)

lemma wtouches: "touch_bar (touches (fst (project_long 1 2 1 wframe)) ! 1) = 5"
    "length (touches (fst (project_long 1 2 1 wframe))) = 2"
  by code_simp+

lemma wrow: "sn_episode_id (out_state (snd (project_long 1 2 1 wframe) ! 3)) = Fin 1"
  by code_simp

section \<open>Facts the properties share\<close>

lemma project_long_touches: "touches (fst (project_long w k c bs)) = touches (fst (project_run w k c bs))"
    "episodes (fst (project_long w k c bs)) = episodes (fst (project_run w k c bs))"
    "episode_id (fst (project_long w k c bs)) = episode_id (fst (project_run w k c bs))"
  by (simp_all add: project_long_def split_beta)

lemma stack_break_ph: "ph (stack_break bs i s) = Broken"
  unfolding stack_break_def Let_def by simp

text \<open>The flags of one bar, from the state before it.\<close>

lemma active_bar_event:
  assumes "active s" "ph s \<noteq> Broken"
  shows "snd (active_bar w k bs i s) = Some StackBreak \<longleftrightarrow> ph (fst (active_bar w k bs i s)) = Broken"
  using assms
  by (simp add: active_bar_def stack_break_ph Let_def split: phase.split)
    (auto simp: away_bar_def open_zone_def zone_bar_def false_break_bar_def open_false_break_def Let_def)

lemma bar_step_flags:
  assumes inv: "ep_inv bs i s" and live: "isfinite (sn_episode_id (out_state (snd (bar_step w k c bs s i))))"
  shows "\<exists>p. sn_in_zone (out_state (snd (bar_step w k c bs s i))) = f01 (p = Zone) \<and>
     sn_in_false_break (out_state (snd (bar_step w k c bs s i))) = f01 (p = FalseBreak) \<and>
     sn_away (out_state (snd (bar_step w k c bs s i))) = f01 (p = Away) \<and>
     sn_event (out_state (snd (bar_step w k c bs s i))) StackBreak = f01 (p = Broken) \<and>
     sn_active (out_state (snd (bar_step w k c bs s i))) = Fin 1"
proof (cases "active s")
  case True
  then have nb: "ph s \<noteq> Broken" using inv by (simp add: ep_inv_def)
  obtain s1 ev where ab: "active_bar w k bs i s = (s1, ev)" by fastforce
  then have "snd (bar_step w k c bs s i) = row_of i s1 ev" using True by (simp add: bar_step_def)
  moreover have "(ev = Some StackBreak) = (ph s1 = Broken)" using active_bar_event[OF True nb, of w k bs i] ab by simp
  ultimately show ?thesis using live
    by (intro exI[of _ "ph s1"]) (simp add: row_of_def state_of_def no_state_def split: if_splits)
next
  case False
  then show ?thesis using live
    by (intro exI[of _ Away]) (auto simp: bar_step_def Let_def row_of_def state_of_def no_state_def inactive_row_def
       open_episode_def f01_def split: if_splits)
qed




text \<open>The row a reference to touch \<open>n\<close> of the current episode reads.\<close>

lemma touch_lookup:
  assumes big: "length bs < 2 ^ 53" and t: "t < length bs"
    and e: "project_side py_log bs p sd = Inr e"
    and m: "sn_touch_number (out_state (se_rows e ! t)) = Fin (of_nat m)" and n: "1 \<le> n" "n \<le> m"
  shows "\<exists>q<length (se_touches e). table_row e (sn_episode_id (out_state (se_rows e ! t))) (Fin (of_nat n)) = int q \<and>
    tr_number (se_touches e ! q) = n \<and>
    f64_of_nat (tr_episode_id (se_touches e ! q)) = sn_episode_id (out_state (se_rows e ! t))"
proof -
  define w k where "w = nat (window_bars p)" and "k = nat (break_bars p)"
  define cs where "cs = side_bars sd bs"
  have len: "length cs = length bs" by (simp add: cs_def side_bars_def)
  from e obtain c where r: "se_rows e = map (side_out sd) (snd (project_long w k c cs))"
    and tb: "se_touches e = map (side_touch sd) (touches (run_state w k c cs (length bs)))"
    and fr: "se_first_row e = first_rows (length (episodes (run_state w k c cs (length bs)))) (se_touches e)"
    by (rule project_side_fields) (simp add: w_def k_def cs_def)
  define S where "S = run_state w k c cs (Suc t)"
  have st: "out_state (se_rows e ! t) = out_state (snd (project_long w k c cs) ! t)" using t len by (simp add: r)
  have tl: "t < length cs" using t len by simp
  note lr = live_row[OF tl, of w k c, folded S_def st, unfolded m, simplified]
  have "touch_number S \<le> Suc t" using run_counts[of w k c cs "Suc t"] by (simp add: S_def)
  then have "touch_number S < 2 ^ 53" using t big by linarith
  then have mt: "m = touch_number S" using lr(1) by (simp add: f64_of_nat_eq)
  obtain q where q: "q < length (touches S)" "row_key (touches S ! q) = (episode_id S, n)"
    using touch_position[of "Suc t" cs n w k c] n t len mt by (auto simp: S_def)
  have n': "n \<le> touch_number (run_state w k c cs (Suc t))" using n(2) mt by (simp add: S_def)
  have a: "table_row e (f64_of_nat (episode_id S)) (Fin (of_nat n)) = int q" "q < length (se_touches e)"
    using table_row_later[of t "length bs" cs e sd w k c n q] t len big tb fr n(1) n' q by (auto simp: S_def)
  have "extends S (run_state w k c cs (length bs))"
    unfolding S_def using t len by (simp only: extends_run Suc_le_eq order_refl)
  then have "row_key (touches (run_state w k c cs (length bs)) ! q) = row_key (touches S ! q)"
    using q(1) by (simp add: extends_def wave_part_def)
  then have "row_key (se_touches e ! q) = (episode_id S, n)" using q(2) a(2) by (simp add: tb)
  then show ?thesis using a lr(2) by (intro exI[of _ q]) (simp add: row_key_def)
qed

lemma touch_number_of_index:
  assumes "1 \<le> n" "n \<le> m" "m < 2 ^ 53" "j = int n \<or> j = int n - int m"
  shows "(if j \<le> 0 then fadd (Fin (of_nat m)) (f64_of_int j) else f64_of_int j) = Fin (of_nat n)"
proof (cases "j \<le> 0")
  case True
  then have j: "j = int n - int m" using assms(1,4) by auto
  then have "f64_of_int j = Fin (of_int j)" using assms by (intro f64_of_int_finite) simp
  then have "fadd (Fin (of_nat m)) (f64_of_int j) = rnd (of_int (int m + j))" by simp
  also have "\<dots> = Fin (of_int (int m + j))" using assms j by (intro rnd_int) simp
  finally show ?thesis using True j by simp
next
  case False
  then have "j = int n" using assms(2,4) by auto
  then show ?thesis using False assms by (simp add: f64_of_int_finite)
qed

text \<open>The value of an entity reference whose touch number is valid.\<close>

lemma valid_operand:
  assumes "sn_touch_number (out_state (se_rows e ! t)) = Fin m"
    and "x = (if j \<le> 0 then fadd (Fin m) (f64_of_int j) else f64_of_int j)" "fge x (Fin 1)" "fle x (Fin m)"
  shows "operand_at e \<lparr>ref_ref = nm, ref_entity = Some ent, ref_index = Some (Idx j), ref_field = fld\<rparr> t =
    finite_or_nan (or_nan (entity_value ent fld (f64_of_nat t) (feq x (Fin m)) (se_rows e ! t)
      (se_touches e ! nat (table_row e (sn_episode_id (out_state (se_rows e ! t))) x))))"
  using assms(3,4) unfolding operand_at_def Let_def assms(1)
  by (simp only: assms(2) [symmetric] isfinite_def f64.case simp_thms if_True option.case entity_index.case
      episode_ref.simps)

section \<open>Causality\<close>

text \<open>
  C1. No look-ahead: an episode operand read at bar \<open>t\<close> of a frame equals the one read after
  cutting the frame anywhere after \<open>t\<close>, for every entity, index and field of the reference, on
  both sides, although the reader gathers from a touch table whose rows are still written later.
\<close>

theorem operand_no_lookahead:
  assumes "length bs < 2 ^ 53" "n \<le> length bs" "t < n"
    and "project_side py_log bs p sd = Inr e"
    and "project_side py_log (take n bs) p sd = Inr e'"
  shows "operand_at e' rf t = operand_at e rf t"
  using assms by (rule operand_prefix)

theorem operand_no_lookahead_witness:
  "operand_at (side_ok wlog (take 4 wframe) wparams ''short'') wref 3 =
     operand_at (side_ok wlog wframe wparams ''short'') wref 3 \<and>
   operand_at (side_ok wlog wframe wparams ''long'') wref 3 = Fin 12"
proof
  show "operand_at (side_ok wlog (take 4 wframe) wparams ''short'') wref 3 =
     operand_at (side_ok wlog wframe wparams ''short'') wref 3"
    by (rule operand_no_lookahead[of wframe 4 3 wlog wparams "''short''", OF _ _ _ wside wside]) simp_all
  show "operand_at (side_ok wlog wframe wparams ''long'') wref 3 = Fin 12" by code_simp
qed

section \<open>Geometry and numbering of the touch table\<close>

text \<open>
  C38. Every touch of a projected frame is the end of a wave of that frame: origin before peak
  before touch, the three prices read off the bars at those positions, no bar of the wave above
  its peak, and the zone starting at the touch and ending inside the frame.
\<close>

theorem touch_wave_geometry:
  assumes "r \<in> set (touches (fst (project_long w k c bs)))"
  shows "origin_bar r \<le> peak_bar r \<and> peak_bar r < touch_bar r \<and> touch_bar r = zone_start r \<and>
    zone_start r \<le> zone_end r \<and> zone_end r < length bs \<and>
    origin_price r = lo (bs ! origin_bar r) \<and> peak_price r = hi (bs ! peak_bar r) \<and>
    touch_price r = lo (bs ! touch_bar r) \<and>
    (\<forall>j. origin_bar r \<le> j \<and> j < touch_bar r \<longrightarrow> \<not> flt (peak_price r) (hi (bs ! j)))"
proof -
  have "row_ok bs (length bs) r"
    using project_run_inv[of bs w k c] assms by (auto simp: ep_inv_def project_long_touches)
  then show ?thesis unfolding row_ok_def by blast
qed

theorem touch_wave_geometry_witness:
  "touch_bar (touches (fst (project_long 1 2 1 wframe)) ! 1) = 5 \<and>
   origin_bar (touches (fst (project_long 1 2 1 wframe)) ! 1) \<le> peak_bar (touches (fst (project_long 1 2 1 wframe)) ! 1)"
proof
  have "1 < length (touches (fst (project_long 1 2 1 wframe)))" using wtouches(2) by simp
  then show "origin_bar (touches (fst (project_long 1 2 1 wframe)) ! 1) \<le> peak_bar (touches (fst (project_long 1 2 1 wframe)) ! 1)"
    using touch_wave_geometry[OF nth_mem] by blast
qed (rule wtouches(1))

text \<open>
  Episodes are numbered 1, 2, ... without a gap, and the touches of each episode are numbered
  1, 2, ... without a gap: a first touch belongs to a newer episode than every earlier row, and
  touch \<open>n > 1\<close> directly follows touch \<open>n - 1\<close> of the same episode.
\<close>

theorem touches_are_numbered:
  "numbered (map row_key (touches (fst (project_long w k c bs)))) \<and>
   map er_episode_id (episodes (fst (project_long w k c bs))) =
     [1..<Suc (episode_id (fst (project_long w k c bs)))]"
  using project_run_inv[of bs w k c] by (simp add: ep_inv_def project_long_touches)

text \<open>
  Only the last row of the touch table can still be open: every earlier row has its zone final
  with the bar it became known at, and a false break either never started or is final too.
\<close>

theorem earlier_touches_are_final:
  assumes "Suc j < length (touches (fst (project_long w k c bs)))"
  shows "zone_final (touches (fst (project_long w k c bs)) ! j) = Fin 1 \<and>
    zone_known_at (touches (fst (project_long w k c bs)) ! j) \<noteq> None \<and>
    (fb_start (touches (fst (project_long w k c bs)) ! j) \<noteq> None \<longrightarrow>
       fb_final (touches (fst (project_long w k c bs)) ! j) = Fin 1 \<and>
       fb_known_at (touches (fst (project_long w k c bs)) ! j) \<noteq> None)"
proof -
  define s where "s = fst (project_run w k c bs)"
  have inv: "ep_inv bs (length bs) s" unfolding s_def by (rule project_run_inv)
  have j: "Suc j < length (touches s)" using assms by (simp add: s_def project_long_touches)
  have "zone s \<noteq> Some j" using inv j unfolding ep_inv_def by fastforce
  then have "phase_ok Away (touches s ! j)" using inv j by (simp add: ep_inv_def)
  moreover have "row_ok bs (length bs) (touches s ! j)" using inv j by (simp add: ep_inv_def)
  ultimately show ?thesis unfolding project_long_touches s_def [symmetric]
    by (auto simp: phase_ok_def row_ok_def)
qed

theorem earlier_touches_are_final_witness:
  "zone_final (touches (fst (project_long 1 2 1 wframe)) ! 0) = Fin 1"
  using earlier_touches_are_final[of 0 1 2 1 wframe] wtouches by simp

section \<open>State rows\<close>

text \<open>
  On a bar of a known (uncensored) episode exactly one of the three phase flags is set, unless
  the stack broke on that bar, when none is; the touch number is at most the episode's bar count.
\<close>

theorem phase_flags_exclusive:
  assumes "i < length bs" "isfinite (sn_episode_id (out_state (snd (project_long w k c bs) ! i)))"
  shows "\<exists>p. sn_in_zone (out_state (snd (project_long w k c bs) ! i)) = f01 (p = Zone) \<and>
     sn_in_false_break (out_state (snd (project_long w k c bs) ! i)) = f01 (p = FalseBreak) \<and>
     sn_away (out_state (snd (project_long w k c bs) ! i)) = f01 (p = Away) \<and>
     sn_event (out_state (snd (project_long w k c bs) ! i)) StackBreak = f01 (p = Broken) \<and>
     sn_active (out_state (snd (project_long w k c bs) ! i)) = Fin 1"
proof -
  define s where "s = run_state w k c bs i"
  have row: "snd (project_long w k c bs) ! i = snd (bar_step w k c bs s i)"
    using assms(1) by (simp add: project_rows project_run_def scan_nth take_upt s_def)
  have inv: "ep_inv bs i s" unfolding s_def using assms(1) by (intro project_prefix_inv) simp
  show ?thesis unfolding row by (rule bar_step_flags[OF inv]) (use assms(2) row in simp)
qed

theorem phase_flags_exclusive_witness:
  "\<exists>p. sn_in_zone (out_state (snd (project_long 1 2 1 wframe) ! 3)) = f01 (p = Zone) \<and>
     sn_away (out_state (snd (project_long 1 2 1 wframe) ! 3)) = f01 (p = Away)"
  using phase_flags_exclusive[of 3 wframe 1 2 1] wrow by auto

section \<open>Sides\<close>



section \<open>Operands\<close>

text \<open>
  A wave operand reads the wave it names: on a bar whose episode has had \<open>m\<close> touches, index
  \<open>n\<close> in \<open>1..m\<close>, or equivalently the relative index \<open>n - m\<close> (0 for the current touch, negative
  for earlier ones), gives the field of the touch of the current episode numbered \<open>n\<close>.
\<close>

theorem wave_operand_reads_touch:
  assumes "length bs < 2 ^ 53" "t < length bs" "project_side py_log bs p sd = Inr e"
    and "sn_touch_number (out_state (se_rows e ! t)) = Fin (of_nat m)" "1 \<le> n" "n \<le> m" "m < 2 ^ 53"
    and "j = int n \<or> j = int n - int m"
  shows "\<exists>r\<in>set (se_touches e). tr_number r = n \<and>
    f64_of_nat (tr_episode_id r) = sn_episode_id (out_state (se_rows e ! t)) \<and>
    operand_at e \<lparr>ref_ref = nm, ref_entity = Some ''wave'', ref_index = Some (Idx j), ref_field = fld\<rparr> t =
      finite_or_nan (or_nan (wave_field fld (f64_of_nat t) (f64_of_nat (origin_bar r)) (f64_of_nat (touch_bar r))
        (origin_price r) (peak_price r) (touch_price r) (Fin 1)))"
proof -
  from touch_lookup[OF assms(1-6)] obtain q where q: "q < length (se_touches e)"
    "table_row e (sn_episode_id (out_state (se_rows e ! t))) (Fin (of_nat n)) = int q"
    "tr_number (se_touches e ! q) = n"
    "f64_of_nat (tr_episode_id (se_touches e ! q)) = sn_episode_id (out_state (se_rows e ! t))"
    by blast
  have number: "(if j \<le> 0 then fadd (Fin (of_nat m)) (f64_of_int j) else f64_of_int j) = Fin (of_nat n)"
    using assms(5-8) by (rule touch_number_of_index)
  have "operand_at e \<lparr>ref_ref = nm, ref_entity = Some ''wave'', ref_index = Some (Idx j), ref_field = fld\<rparr> t =
      finite_or_nan (or_nan (entity_value ''wave'' fld (f64_of_nat t) (feq (Fin (of_nat n)) (Fin (of_nat m)))
        (se_rows e ! t) (se_touches e ! q)))"
    using assms(5,6) by (subst valid_operand[OF assms(4) number [symmetric]]) (simp_all add: q(2))
  then show ?thesis using q by (intro bexI[of _ "se_touches e ! q"]) (simp_all add: entity_value_def)
qed

theorem wave_operand_reads_touch_witness:
  "\<exists>r\<in>set (se_touches (side_ok wlog wframe wparams ''long'')). tr_number r = 1 \<and>
     operand_at (side_ok wlog wframe wparams ''long'')
       \<lparr>ref_ref = ''e'', ref_entity = Some ''wave'', ref_index = Some (Idx (-1)), ref_field = ''peak_price''\<rparr> 5 =
     finite_or_nan (peak_price r)"
proof -
  have m: "sn_touch_number (out_state (se_rows (side_ok wlog wframe wparams ''long'') ! 5)) = Fin (of_nat 2)" by code_simp
  show ?thesis
    using wave_operand_reads_touch[of wframe 5 wlog wparams "''long''", OF _ _ wside m, of 1 "-1" "''e''" "''peak_price''"]
    by (auto simp: wave_field_def or_nan_def)
qed

section \<open>Parameters and wire form\<close>

text \<open>
  Accepted episode parameters are ordered and positive: the three periods strictly increase
  from a positive fast period, the three bar counts are positive, the break count defaults to
  the window, and no key outside the allowed ones was given.
\<close>

theorem episode_params_valid:
  assumes "parse_episode_params params path None keys = Inr p"
  shows "0 < fast_period p \<and> fast_period p < anchor_period p \<and> anchor_period p < slow_period p \<and>
    0 < window_bars p \<and> 0 < break_bars p \<and> 0 < history_bars p \<and>
    (\<not> has_key params ''break_bars'' \<longrightarrow> break_bars p = window_bars p) \<and>
    (\<forall>k v. (k, v) \<in> set params \<longrightarrow> k \<in> set keys)"
  using assms
  by (auto simp: parse_episode_params_def parse_period_def parse_bars_def positive_int_def bindR_Inr raise_if_Inr
      Let_def unknown_fields_def filter_empty_conv DEFAULT_WINDOW_BARS_def DEFAULT_HISTORY_BARS_def
      split: json.splits if_splits)

definition wjson :: obj where
  "wjson = [(''fast_period'', JInt 2), (''anchor_period'', JInt 3), (''slow_period'', JInt 7), (''window_bars'', JInt 1)]"

definition wparsed :: episode_params where
  "wparsed = \<lparr>fast_period = 2, anchor_period = 3, slow_period = 7, window_bars = 1, break_bars = 1, history_bars = 15000\<rparr>"

theorem episode_params_valid_witness:
  "parse_episode_params wjson ''p'' None PARAM_KEYS = Inr wparsed \<and>
   break_bars wparsed = window_bars wparsed \<and> fast_period wparsed < anchor_period wparsed"
proof -
  have p: "parse_episode_params wjson ''p'' None PARAM_KEYS = Inr wparsed" by code_simp
  have "\<not> has_key wjson ''break_bars''" by code_simp
  then show ?thesis using p episode_params_valid[OF p] by blast
qed

text \<open>
  Serialising a projected side on the frame's own time axis never fails: it lists every
  episode, and as zones and waves the touches of the uncensored episodes, in table order.
\<close>

theorem wire_lists_known_touches:
  assumes "project_side py_log bs p sd = Inr e" "length tm = length bs"
  shows "\<exists>eps zones fbs waves fwaves. side_entities_to_wire e tm =
      Inr [(''episodes'', JList eps), (''zones'', JList zones), (''false_breaks'', JList fbs),
           (''waves'', JList (waves @ fwaves))] \<and>
    mapR (episode_wire tm) (se_episodes e) = Inr eps \<and>
    mapR (zone_wire tm) (filter (\<lambda>r. tr_episode_id r \<notin> set (censored_ids e)) (se_touches e)) = Inr zones \<and>
    mapR (wave_wire tm) (filter (\<lambda>r. tr_episode_id r \<notin> set (censored_ids e)) (se_touches e)) = Inr waves"
proof -
  note b = project_side_bars[OF assms(1), folded assms(2)]
  define known where "known = filter (\<lambda>r. tr_episode_id r \<notin> set (censored_ids e)) (se_touches e)"
  have k: "\<forall>r\<in>set known. \<exists>j. zone_wire tm r = Inr j" "\<forall>r\<in>set known. \<exists>j. wave_wire tm r = Inr j"
    "\<forall>r\<in>set (filter (\<lambda>r. has_false_break r = Fin 1) known). \<exists>j. fb_wire tm r = Inr j"
    using b(1) touch_wires_ok[of tm] by (auto simp: known_def)
  have f: "\<forall>f\<in>set (filter (\<lambda>f. fr_episode_id f \<notin> set (censored_ids e)) (se_forming_rows e)). \<exists>j. forming_wire tm f = Inr j"
    using b(2) forming_wire_ok[of tm] by auto
  have p: "\<forall>r\<in>set (se_episodes e). \<exists>j. episode_wire tm r = Inr j"
    using b(3) episode_wire_ok[of tm] by auto
  show ?thesis
    using mapR_total[OF k(1)] mapR_total[OF k(2)] mapR_total[OF k(3)] mapR_total[OF f] mapR_total[OF p]
    by (auto simp: side_entities_to_wire_def Let_def known_def)
qed

theorem wire_lists_known_touches_witness:
  "is_ok (side_entities_to_wire (side_ok wlog wframe wparams ''short'') [0, 60000, 120000, 180000, 240000, 300000])"
  using wire_lists_known_touches[OF wside[of "''short''"], of "[0, 60000, 120000, 180000, 240000, 300000]" wframe] by force

end
