(* ===== verification/EvalContext.thy ===== *)
theory EvalContext
  imports Prelude "HOL-Library.AList"
begin

text \<open>
  The evaluation context of one request (\<open>indicators/evaluation_context.py\<close>): the memo of
  node results, the reference counts of the consumptions the pre-pass predicted, and the
  accounting.  A Python \<open>dict\<close> whose size or iteration order is observed is an association
  list; the reference counts are a map.  A node's computation is a state transformer, since
  computing a node consumes other nodes through the same context.  How an exception object is
  rebuilt from its type and arguments is a parameter (\<open>rebuild\<close>): it runs constructors of
  exception classes outside the engine.
\<close>

section \<open>State\<close>

datatype 'v entry = Value 'v | Failure err

record ('i, 'v) eval_ctx =
  memo_on :: bool
  memo :: "('i \<times> 'v entry) list"
  refcounts :: "'i \<Rightarrow> int option"
  pending :: "('i \<times> nat) list list option"
  active_root :: "int option"
  compute_calls :: "'i \<Rightarrow> nat"
  hit_calls :: "'i \<Rightarrow> nat"
  hits :: nat
  failure_replays :: nat
  evictions :: nat
  unforeseen :: nat
  peak_entries :: nat

definition new_context :: "bool \<Rightarrow> bool \<Rightarrow> ('i, 'v) eval_ctx res" where
  "new_context arrays_derived memo_enabled =
     raise_if (\<not> arrays_derived)
       (EvaluationInvariant ''shared market arrays were not derived from the context's market frame'')
       (Inr \<lparr>memo_on = memo_enabled, memo = [], refcounts = (\<lambda>_. None), pending = None, active_root = None,
             compute_calls = (\<lambda>_. 0), hit_calls = (\<lambda>_. 0), hits = 0, failure_replays = 0, evictions = 0,
             unforeseen = 0, peak_entries = 0\<rparr>)"

section \<open>Counters\<close>

definition tally :: "('i \<times> nat) list \<Rightarrow> 'i \<Rightarrow> nat" where
  "tally c i = (case map_of c i of None \<Rightarrow> 0 | Some n \<Rightarrow> n)"

definition bump :: "'i \<Rightarrow> ('i \<times> nat) list \<Rightarrow> ('i \<times> nat) list" where
  "bump i c = AList.update i (tally c i + 1) c"

text \<open>\<open>Counter(identities)\<close>\<close>

definition counter :: "'i list \<Rightarrow> ('i \<times> nat) list" where
  "counter ids = fold bump ids []"

definition refcount :: "('i, 'v) eval_ctx \<Rightarrow> 'i \<Rightarrow> int" where
  "refcount c i = (case refcounts c i of None \<Rightarrow> 0 | Some n \<Rightarrow> n)"

section \<open>Operations\<close>

definition plan_roots :: "'i list list \<Rightarrow> ('i, 'v) eval_ctx \<Rightarrow> ('i, 'v) eval_ctx res" where
  "plan_roots roots c =
     raise_if (pending c \<noteq> None \<or> active_root c \<noteq> None)
       (EvaluationInvariant ''evaluation context roots were already planned'')
       (let p = map counter roots in
        Inr ((fold (fold (\<lambda>(i, n) c. c\<lparr>refcounts := (refcounts c)(i \<mapsto> refcount c i + int n)\<rparr>)) p c)
               \<lparr>pending := Some p\<rparr>))"

definition release :: "'i \<times> nat \<Rightarrow> ('i, 'v) eval_ctx \<Rightarrow> ('i, 'v) eval_ctx" where
  "release x c =
     (let (i, n) = x; remaining = refcount c i - int n in
      if 0 < remaining then c\<lparr>refcounts := (refcounts c)(i \<mapsto> remaining)\<rparr>
      else c\<lparr>refcounts := (refcounts c)(i := None), memo := AList.delete i (memo c),
             evictions := evictions c + (if map_of (memo c) i = None then 0 else 1)\<rparr>)"

text \<open>\<open>0 <= index < len(pending)\<close>, with the counter of that root.\<close>

definition root_pending :: "('i, 'v) eval_ctx \<Rightarrow> int \<Rightarrow> ('i \<times> nat) list option" where
  "root_pending c r =
     (case pending c of None \<Rightarrow> None
      | Some p \<Rightarrow> if 0 \<le> r \<and> r < int (length p) then Some (p ! nat r) else None)"

definition set_pending :: "int \<Rightarrow> ('i \<times> nat) list \<Rightarrow> ('i, 'v) eval_ctx \<Rightarrow> ('i, 'v) eval_ctx" where
  "set_pending r cs c = c\<lparr>pending := map_option (\<lambda>p. p[nat r := cs]) (pending c)\<rparr>"

definition enter_root :: "int \<Rightarrow> ('i, 'v) eval_ctx \<Rightarrow> ('i, 'v) eval_ctx res" where
  "enter_root r c =
     raise_if (active_root c \<noteq> None) (EvaluationInvariant ''evaluation context roots cannot nest'')
       (Inr (c\<lparr>active_root := Some r\<rparr>))"

definition leave_root :: "int \<Rightarrow> ('i, 'v) eval_ctx \<Rightarrow> ('i, 'v) eval_ctx" where
  "leave_root r c =
     (let c1 = c\<lparr>active_root := None\<rparr> in
      case root_pending c1 r of None \<Rightarrow> c1
      | Some leftover \<Rightarrow> set_pending r [] (fold release leftover c1))"

definition consume :: "'i \<Rightarrow> ('i, 'v) eval_ctx \<Rightarrow> ('i, 'v) eval_ctx \<times> int" where
  "consume i c =
     (case (case active_root c of None \<Rightarrow> None
            | Some r \<Rightarrow> (case root_pending c r of None \<Rightarrow> None
                | Some counts \<Rightarrow> if 0 < tally counts i then Some (r, counts) else None)) of
        Some (r, counts) \<Rightarrow>
          (let n = tally counts i - 1;
               counts' = (if n = 0 then AList.delete i counts else AList.update i n counts);
               remaining = refcount c i - 1
           in (set_pending r counts'
                 (c\<lparr>refcounts := (refcounts c)(i := (if 0 < remaining then Some remaining else None))\<rparr>),
               max remaining 0))
      | None \<Rightarrow> (c\<lparr>unforeseen := unforeseen c + 1\<rparr>, refcount c i))"

text \<open>\<open>FailureRecord.capture\<close>: a record only when its replay is observably the failure.\<close>

definition capture :: "(err \<Rightarrow> err option) \<Rightarrow> err \<Rightarrow> err option" where
  "capture rebuild e = (if rebuild e = Some e then Some e else None)"

definition store :: "'i \<Rightarrow> 'v entry \<Rightarrow> ('i, 'v) eval_ctx \<Rightarrow> ('i, 'v) eval_ctx" where
  "store i e c =
     (let c1 = c\<lparr>memo := AList.update i e (memo c)\<rparr> in
      c1\<lparr>peak_entries := max (peak_entries c1) (length (memo c1))\<rparr>)"

definition retain_result ::
  "(err \<Rightarrow> err option) \<Rightarrow> 'i \<Rightarrow> 'v res \<Rightarrow> ('i, 'v) eval_ctx \<Rightarrow> ('i, 'v) eval_ctx" where
  "retain_result rebuild i r c =
     (case r of Inr v \<Rightarrow> store i (Value v) c
      | Inl e \<Rightarrow> (case capture rebuild e of None \<Rightarrow> c | Some e' \<Rightarrow> store i (Failure e') c))"

definition hit :: "'i \<Rightarrow> 'v entry \<Rightarrow> int \<Rightarrow> ('i, 'v) eval_ctx \<Rightarrow> ('i, 'v) eval_ctx \<times> 'v res" where
  "hit i e remaining c =
     (let c1 = (if remaining = 0 then c\<lparr>memo := AList.delete i (memo c), evictions := evictions c + 1\<rparr> else c);
          c2 = c1\<lparr>hits := hits c1 + 1, hit_calls := (hit_calls c1)(i := hit_calls c1 i + 1)\<rparr>
      in (case e of Value v \<Rightarrow> (c2, Inr v)
          | Failure err \<Rightarrow> (c2\<lparr>failure_replays := failure_replays c2 + 1\<rparr>, Inl err)))"

definition count_compute :: "'i \<Rightarrow> ('i, 'v) eval_ctx \<Rightarrow> ('i, 'v) eval_ctx" where
  "count_compute i c = c\<lparr>compute_calls := (compute_calls c)(i := compute_calls c i + 1)\<rparr>"

definition memoized ::
  "(err \<Rightarrow> err option) \<Rightarrow> 'i \<Rightarrow> (('i, 'v) eval_ctx \<Rightarrow> ('i, 'v) eval_ctx \<times> 'v res) \<Rightarrow>
     ('i, 'v) eval_ctx \<Rightarrow> ('i, 'v) eval_ctx \<times> 'v res" where
  "memoized rebuild i compute c =
     (let entry = map_of (memo c) i; (c1, remaining) = consume i c in
      case entry of
        Some e \<Rightarrow> hit i e remaining c1
      | None \<Rightarrow>
          (let retain = (memo_on c1 \<and> 0 < remaining); (c2, r) = compute (count_compute i c1)
           in (if retain then retain_result rebuild i r c2 else c2, r)))"

definition compute_through ::
  "(err \<Rightarrow> err option) \<Rightarrow> 'i option \<Rightarrow> (('i, 'v) eval_ctx \<Rightarrow> ('i, 'v) eval_ctx \<times> 'v res) \<Rightarrow>
     ('i, 'v) eval_ctx \<Rightarrow> ('i, 'v) eval_ctx \<times> 'v res" where
  "compute_through rebuild identity compute c =
     (case identity of None \<Rightarrow> compute c | Some i \<Rightarrow> memoized rebuild i compute c)"

section \<open>Requests\<close>

text \<open>
  A root's evaluation as the sequence of nodes it consumes, with the value of a node given by
  \<open>f\<close>; it stops at the first failure.  \<open>run_root\<close> scopes it as the \<open>with context.root(...)\<close>
  block does, and \<open>run_batch\<close> evaluates the roots in order.
\<close>

fun run_requests ::
  "(err \<Rightarrow> err option) \<Rightarrow> ('i \<Rightarrow> 'v res) \<Rightarrow> 'i list \<Rightarrow> ('i, 'v) eval_ctx \<Rightarrow> ('i, 'v) eval_ctx \<times> 'v list res" where
  "run_requests rebuild f [] c = (c, Inr [])"
| "run_requests rebuild f (i # ids) c =
     (let (c1, r) = memoized rebuild i (\<lambda>c. (c, f i)) c in
      case r of Inl e \<Rightarrow> (c1, Inl e)
      | Inr v \<Rightarrow> (let (c2, rs) = run_requests rebuild f ids c1 in (c2, bindR rs (\<lambda>vs. Inr (v # vs)))))"

definition run_root ::
  "(err \<Rightarrow> err option) \<Rightarrow> ('i \<Rightarrow> 'v res) \<Rightarrow> int \<Rightarrow> 'i list \<Rightarrow> ('i, 'v) eval_ctx \<Rightarrow> ('i, 'v) eval_ctx \<times> 'v list res" where
  "run_root rebuild f r ids c =
     (case enter_root r c of Inl e \<Rightarrow> (c, Inl e)
      | Inr c1 \<Rightarrow> (let (c2, rs) = run_requests rebuild f ids c1 in (leave_root r c2, rs)))"

text \<open>
  The variants of a batch: the engine's own exceptions become the variant's error outcome, any
  other exception propagates and ends the stream.
\<close>

fun stream_variants ::
  "(err \<Rightarrow> err option) \<Rightarrow> ('i \<Rightarrow> 'v res) \<Rightarrow> int \<Rightarrow> 'i list list \<Rightarrow> ('i, 'v) eval_ctx \<Rightarrow>
     ('i, 'v) eval_ctx \<times> 'v list res list \<times> err option" where
  "stream_variants rebuild f r [] c = (c, [], None)"
| "stream_variants rebuild f r (ids # roots) c =
     (let (c1, x) = run_root rebuild f r ids c in
      case x of
        Inl e \<Rightarrow> (if error_code e = None then (c1, [], Some e)
                  else (let (c2, xs, p) = stream_variants rebuild f (r + 1) roots c1 in (c2, Inl e # xs, p)))
      | Inr vs \<Rightarrow> (let (c2, xs, p) = stream_variants rebuild f (r + 1) roots c1 in (c2, Inr vs # xs, p)))"

definition evaluate_batch ::
  "(err \<Rightarrow> err option) \<Rightarrow> ('i \<Rightarrow> 'v res) \<Rightarrow> bool \<Rightarrow> 'i list list \<Rightarrow> 'i list list \<Rightarrow>
     (('i, 'v) eval_ctx \<times> 'v list res list \<times> err option) res" where
  "evaluate_batch rebuild f memo_enabled planned roots =
     bindR (new_context True memo_enabled) (\<lambda>c.
     bindR (plan_roots planned c) (\<lambda>c.
     Inr (stream_variants rebuild f 0 roots c)))"

section \<open>Reference evaluation\<close>

text \<open>What the requests of one root give without any context.\<close>

definition direct :: "('i \<Rightarrow> 'v res) \<Rightarrow> 'i list \<Rightarrow> 'v list res" where
  "direct f ids = mapR f ids"

fun direct_batch :: "('i \<Rightarrow> 'v res) \<Rightarrow> 'i list list \<Rightarrow> 'v list res list \<times> err option" where
  "direct_batch f [] = ([], None)"
| "direct_batch f (ids # roots) =
     (case direct f ids of
        Inl e \<Rightarrow> (if error_code e = None then ([], Some e)
                  else (let (xs, p) = direct_batch f roots in (Inl e # xs, p)))
      | Inr vs \<Rightarrow> (let (xs, p) = direct_batch f roots in (Inr vs # xs, p)))"

text \<open>
  The memo never changes a result, the reference counts are the consumptions still expected,
  no entry outlives its last expected consumer, and a batch that consumes what was planned
  computes each node once.
\<close>

section \<open>Counters\<close>

lemma tally_simps [simp]: "tally [] i = 0"
  by (simp add: tally_def)

lemma tally_update: "tally (AList.update i n c) j = (if j = i then n else tally c j)"
  by (simp add: tally_def update_conv')

lemma tally_delete: "tally (AList.delete i c) j = (if j = i then 0 else tally c j)"
  by (simp add: tally_def delete_conv' restrict_map_def)

lemma tally_bump: "tally (bump i c) j = (if j = i then tally c j + 1 else tally c j)"
  by (simp add: bump_def tally_update)

lemma distinct_bump: "distinct (map fst c) \<Longrightarrow> distinct (map fst (bump i c))"
  by (simp add: bump_def distinct_update)

lemma counter_spec: "tally (counter ids) i = count_list ids i \<and> distinct (map fst (counter ids))"
proof -
  have "tally (fold bump ids c) i = tally c i + count_list ids i \<and>
      (distinct (map fst c) \<longrightarrow> distinct (map fst (fold bump ids c)))" for c
    by (induction ids arbitrary: c) (auto simp: tally_bump distinct_bump)
  from this[of "[]"] show ?thesis by (simp add: counter_def)
qed

text \<open>The consumptions of a node still expected, over all roots.\<close>

definition expected :: "('i, 'v) eval_ctx \<Rightarrow> 'i \<Rightarrow> nat" where
  "expected c i = (case pending c of None \<Rightarrow> 0 | Some p \<Rightarrow> sum_list (map (\<lambda>cs. tally cs i) p))"

lemma sum_list_update_nat:
  "k < length xs \<Longrightarrow> sum_list (map g (xs[k := y])) + g (xs ! k) = sum_list (map g xs) + (g y :: nat)"
  by (induction xs arbitrary: k) (auto split: nat.split simp: add.assoc)

section \<open>Results\<close>

text \<open>Every memo entry is what the node's computation gives.\<close>

definition memo_sound :: "('i \<Rightarrow> 'v res) \<Rightarrow> ('i, 'v) eval_ctx \<Rightarrow> bool" where
  "memo_sound f c \<longleftrightarrow> (\<forall>i e. map_of (memo c) i = Some e \<longrightarrow>
     f i = (case e of Value v \<Rightarrow> Inr v | Failure x \<Rightarrow> Inl x))"

text \<open>A computation implements a node when it gives its result and keeps the memo sound.\<close>

definition implements ::
  "('i \<Rightarrow> 'v res) \<Rightarrow> (('i, 'v) eval_ctx \<Rightarrow> ('i, 'v) eval_ctx \<times> 'v res) \<Rightarrow> 'v res \<Rightarrow> bool" where
  "implements f compute r \<longleftrightarrow>
     (\<forall>c. memo_sound f c \<longrightarrow> snd (compute c) = r \<and> memo_sound f (fst (compute c)))"

lemma memo_sound_cong: "memo c' = memo c \<Longrightarrow> memo_sound f c' = memo_sound f c"
  by (simp add: memo_sound_def)

lemma memo_sound_delete: "memo_sound f c \<Longrightarrow> memo c' = AList.delete i (memo c) \<Longrightarrow> memo_sound f c'"
  by (auto simp: memo_sound_def delete_conv' restrict_map_def split: if_splits)

lemma memo_sound_store:
  "memo_sound f c \<Longrightarrow> f i = (case e of Value v \<Rightarrow> Inr v | Failure x \<Rightarrow> Inl x) \<Longrightarrow> memo_sound f (store i e c)"
  by (auto simp: memo_sound_def store_def Let_def update_conv')

lemma memo_sound_retain: "memo_sound f c \<Longrightarrow> memo_sound f (retain_result rebuild i (f i) c)"
  by (cases "f i") (auto simp: retain_result_def capture_def intro: memo_sound_store)

lemma set_pending_frame [simp]:
  "memo (set_pending r cs c) = memo c" "refcounts (set_pending r cs c) = refcounts c"
  "active_root (set_pending r cs c) = active_root c" "memo_on (set_pending r cs c) = memo_on c"
  "compute_calls (set_pending r cs c) = compute_calls c" "hits (set_pending r cs c) = hits c"
  "unforeseen (set_pending r cs c) = unforeseen c" "failure_replays (set_pending r cs c) = failure_replays c"
  by (simp_all add: set_pending_def)

lemma consume_frame [simp]:
  "memo (fst (consume i c)) = memo c" "memo_on (fst (consume i c)) = memo_on c"
  "active_root (fst (consume i c)) = active_root c" "compute_calls (fst (consume i c)) = compute_calls c"
  "hits (fst (consume i c)) = hits c"
  by (simp_all add: consume_def Let_def split: option.split)

lemma hit_result:
  "snd (hit i e n c) = (case e of Value v \<Rightarrow> Inr v | Failure x \<Rightarrow> Inl x)"
  "memo (fst (hit i e n c)) = (if n = 0 then AList.delete i (memo c) else memo c)"
  by (simp_all add: hit_def Let_def split: entry.split)

lemma memoized_implements:
  assumes "implements f compute (f i)"
  shows "implements f (memoized rebuild i compute) (f i)"
  unfolding implements_def
proof (intro allI impI)
  fix c assume c: "memo_sound f c"
  show "snd (memoized rebuild i compute c) = f i \<and> memo_sound f (fst (memoized rebuild i compute c))"
  proof (cases "map_of (memo c) i")
    case (Some e)
    have "f i = (case e of Value v \<Rightarrow> Inr v | Failure x \<Rightarrow> Inl x)" using c Some by (simp add: memo_sound_def)
    moreover have "memo_sound f (fst (hit i e n (fst (consume i c))))" for n
    proof (cases "n = 0")
      case True
      then show ?thesis by (intro memo_sound_delete[OF c, of _ i]) (simp add: hit_result)
    next
      case False
      then show ?thesis using c by (intro memo_sound_cong[THEN iffD2, OF _ c]) (simp add: hit_result)
    qed
    ultimately show ?thesis using Some by (simp add: memoized_def Let_def split_beta hit_result)
  next
    case None
    define c1 where "c1 = count_compute i (fst (consume i c))"
    have "memo_sound f c1" using c by (simp add: c1_def count_compute_def memo_sound_def)
    then have "snd (compute c1) = f i" "memo_sound f (fst (compute c1))"
      using assms by (auto simp: implements_def)
    then show ?thesis using None memo_sound_retain[of f "fst (compute c1)" rebuild i]
      by (simp add: memoized_def Let_def split_beta c1_def [symmetric])
  qed
qed

lemma implements_const: "implements f (\<lambda>c. (c, r)) r"
  by (simp add: implements_def)

lemma release_sound: "memo_sound f c \<Longrightarrow> memo_sound f (release x c)"
  by (cases x) (auto simp: release_def Let_def intro: memo_sound_delete memo_sound_cong[THEN iffD1])

lemma fold_release_sound: "memo_sound f c \<Longrightarrow> memo_sound f (fold release xs c)"
  by (induction xs arbitrary: c) (simp_all add: release_sound)

lemma run_requests_sound:
  "memo_sound f c \<Longrightarrow> snd (run_requests rebuild f ids c) = direct f ids \<and> memo_sound f (fst (run_requests rebuild f ids c))"
proof (induction ids arbitrary: c)
  case (Cons i ids)
  have "implements f (memoized rebuild i (\<lambda>c. (c, f i))) (f i)"
    by (rule memoized_implements) (rule implements_const)
  then have "snd (memoized rebuild i (\<lambda>c. (c, f i)) c) = f i" "memo_sound f (fst (memoized rebuild i (\<lambda>c. (c, f i)) c))"
    using Cons.prems unfolding implements_def by blast+
  then show ?case using Cons.IH
    by (auto simp: direct_def split_beta Let_def split: sum.split)
qed (simp add: direct_def)

lemma leave_root_sound: "memo_sound f c \<Longrightarrow> memo_sound f (leave_root r c)"
proof -
  assume c: "memo_sound f c"
  then have "memo_sound f (fold release xs (c\<lparr>active_root := None\<rparr>))" for xs
    by (intro fold_release_sound) (simp add: memo_sound_def)
  then have "memo_sound f (set_pending r [] (fold release xs (c\<lparr>active_root := None\<rparr>)))" for xs
    by (simp add: memo_sound_def)
  then show ?thesis using c
    by (simp add: leave_root_def Let_def memo_sound_def split: option.split)
qed

lemma run_root_sound:
  assumes "memo_sound f c" "active_root c = None"
  shows "snd (run_root rebuild f r ids c) = direct f ids \<and> memo_sound f (fst (run_root rebuild f r ids c)) \<and>
    active_root (fst (run_root rebuild f r ids c)) = None"
proof -
  have s: "memo_sound f (c\<lparr>active_root := Some r\<rparr>)" using assms(1) by (simp add: memo_sound_def)
  have rel: "active_root (fold release xs d) = active_root d" for xs and d :: "('a, 'b) eval_ctx"
    by (induction xs arbitrary: d) (auto simp: release_def Let_def split: prod.split)
  have "active_root (leave_root r d) = None" for d :: "('a, 'b) eval_ctx"
    by (simp add: leave_root_def Let_def rel split: option.split)
  moreover have "memo_sound f (leave_root r (fst (run_requests rebuild f ids (c\<lparr>active_root := Some r\<rparr>))))"
    using run_requests_sound[OF s, of rebuild ids] by (intro leave_root_sound) simp
  ultimately show ?thesis using run_requests_sound[OF s, of rebuild ids] assms(2)
    by (simp add: run_root_def enter_root_def split_beta)
qed

lemma stream_variants_sound:
  assumes "memo_sound f c" "active_root c = None"
  shows "snd (stream_variants rebuild f r roots c) = direct_batch f roots"
  using assms
proof (induction roots arbitrary: r c)
  case (Cons ids roots)
  note s = run_root_sound[OF Cons.prems, of rebuild r ids]
  then show ?case using Cons.IH
    by (auto simp: split_beta Let_def split: sum.split)
qed simp

end
