(* ===== verification/EvalContextCounts.thy ===== *)
theory EvalContextCounts
  imports EvalContext
begin

text \<open>
  The reference counts of the evaluation context: an inductive class of computations that
  consume nodes through the context, the invariant \<open>accounted\<close> that each keeps, and the
  count of computations of a batch that consumes what was planned.
\<close>

section \<open>The invariant\<close>

definition counters_ok :: "('i \<times> nat) list list \<Rightarrow> bool" where
  "counters_ok p \<longleftrightarrow> (\<forall>cs \<in> set p. distinct (map fst cs) \<and> (\<forall>x \<in> set cs. 0 < snd x))"

lemma update_set: "set (AList.update j m c) \<subseteq> insert (j, m) (set c)"
  by (induction c) auto

lemma delete_set: "set (AList.delete j c) \<subseteq> set c"
  by (simp add: AList.delete_eq)

lemma counters_ok_update:
  "counters_ok p \<Longrightarrow> distinct (map fst cs) \<Longrightarrow> \<forall>x \<in> set cs. 0 < snd x \<Longrightarrow> counters_ok (p[k := cs])"
  unfolding counters_ok_def by (metis insertE subsetD set_update_subset_insert)

definition accounted :: "('i, 'v) eval_ctx \<Rightarrow> bool" where
  "accounted c \<longleftrightarrow>
     (case pending c of None \<Rightarrow> True | Some p \<Rightarrow> counters_ok p) \<and>
     (\<forall>i. refcounts c i = (if expected c i = 0 then None else Some (int (expected c i)))) \<and>
     (\<forall>i. map_of (memo c) i \<noteq> None \<longrightarrow> 0 < expected c i)"

lemma accounted_refcount: "accounted c \<Longrightarrow> refcount c i = int (expected c i)"
  by (simp add: accounted_def refcount_def)

lemma accounted_cong:
  "pending c' = pending c \<Longrightarrow> refcounts c' = refcounts c \<Longrightarrow> memo c' = memo c \<Longrightarrow> accounted c' = accounted c"
  by (simp add: accounted_def expected_def)

lemma expected_cong: "pending c' = pending c \<Longrightarrow> expected c' i = expected c i"
  by (simp add: expected_def)

text \<open>What a consumption does to the expected counts.\<close>

definition predicted :: "'i \<Rightarrow> ('i, 'v) eval_ctx \<Rightarrow> bool" where
  "predicted i c = (\<exists>r cs. active_root c = Some r \<and> root_pending c r = Some cs \<and> 0 < tally cs i)"

lemma root_pending_Some:
  "root_pending c r = Some cs \<longleftrightarrow>
     (\<exists>p. pending c = Some p \<and> 0 \<le> r \<and> nat r < length p \<and> cs = p ! nat r)"
  by (auto simp: root_pending_def split: option.splits if_splits)

lemma expected_set_pending:
  assumes "pending c = Some p" "nat r < length p"
  shows "expected (set_pending r cs c) i + tally (p ! nat r) i = expected c i + tally cs i"
  using sum_list_update_nat[OF assms(2), of "\<lambda>cs. tally cs i" cs] assms(1)
  by (simp add: expected_def set_pending_def)

lemma expected_ge: "pending c = Some p \<Longrightarrow> k < length p \<Longrightarrow> tally (p ! k) i \<le> expected c i"
  unfolding expected_def by (auto intro!: member_le_sum_list)

lemma consume_expected:
  "expected (fst (consume i c)) j = expected c j - (if j = i \<and> predicted i c then 1 else 0)"
  "predicted i c \<Longrightarrow> 0 < expected c i"
proof -
  have pos: "0 < expected c i" if "predicted i c"
  proof -
    obtain r p where "0 < tally (p ! nat r) i" "pending c = Some p" "nat r < length p"
      using \<open>predicted i c\<close> by (auto simp: predicted_def root_pending_Some)
    then show ?thesis using expected_ge[of c p "nat r" i] by simp
  qed
  then show "predicted i c \<Longrightarrow> 0 < expected c i" .
  show "expected (fst (consume i c)) j = expected c j - (if j = i \<and> predicted i c then 1 else 0)"
  proof (cases "predicted i c")
    case True
    then obtain r p where r: "active_root c = Some r" "root_pending c r = Some (p ! nat r)"
      "0 < tally (p ! nat r) i" "pending c = Some p" "0 \<le> r" "nat r < length p"
      by (auto simp: predicted_def root_pending_Some)
    define n where "n = tally (p ! nat r) i - 1"
    define cs where "cs = (if n = 0 then AList.delete i (p ! nat r) else AList.update i n (p ! nat r))"
    have t: "tally cs j = (if j = i then n else tally (p ! nat r) j)" for j
      by (simp add: cs_def tally_delete tally_update)
    have "expected (fst (consume i c)) j = expected (set_pending r cs c) j"
      using r by (simp add: consume_def Let_def n_def cs_def expected_def set_pending_def)
    moreover have "expected (set_pending r cs c) j + tally (p ! nat r) j = expected c j + tally cs j"
      by (rule expected_set_pending[OF r(4,6)])
    ultimately show ?thesis using t[of j] r(3) True by (auto simp: n_def)
  next
    case False
    then have "fst (consume i c) = c\<lparr>unforeseen := unforeseen c + 1\<rparr>"
      by (auto simp: consume_def predicted_def split: option.split)
    then show ?thesis using False by (simp add: expected_def)
  qed
qed

lemma consume_remaining:
  assumes "accounted c"
  shows "snd (consume i c) = int (expected (fst (consume i c)) i)"
    "refcounts (fst (consume i c)) j =
      (if expected (fst (consume i c)) j = 0 then None else Some (int (expected (fst (consume i c)) j)))"
    "(case pending (fst (consume i c)) of None \<Rightarrow> True | Some p \<Rightarrow> counters_ok p)"
proof -
  note rc = accounted_refcount[OF assms]
  have "snd (consume i c) = int (expected (fst (consume i c)) i) \<and>
    refcounts (fst (consume i c)) j =
      (if expected (fst (consume i c)) j = 0 then None else Some (int (expected (fst (consume i c)) j))) \<and>
    (case pending (fst (consume i c)) of None \<Rightarrow> True | Some p \<Rightarrow> counters_ok p)"
  proof (cases "predicted i c")
    case True
    then obtain r p where r: "active_root c = Some r" "root_pending c r = Some (p ! nat r)"
      "0 < tally (p ! nat r) i" "pending c = Some p" "nat r < length p"
      by (auto simp: predicted_def root_pending_Some)
    have d: "distinct (map fst (p ! nat r))" and z: "\<forall>x \<in> set (p ! nat r). 0 < snd x" and ok: "counters_ok p"
      using assms r(4,5) by (auto simp: accounted_def counters_ok_def)
    have "counters_ok (p[nat r := AList.delete i (p ! nat r)])"
      using d z delete_set[of i "p ! nat r"] by (intro counters_ok_update[OF ok]) (auto simp: distinct_delete)
    moreover have "counters_ok (p[nat r := AList.update i n (p ! nat r)])" if "0 < n" for n
      using d z that update_set[of i n "p ! nat r"]
      by (intro counters_ok_update[OF ok] distinct_update) auto
    ultimately have ok': "counters_ok (p[nat r := (if n = 0 then AList.delete i (p ! nat r)
        else AList.update i n (p ! nat r))])" for n by (cases "n = 0") simp_all
    have c3: "case pending (fst (consume i c)) of None \<Rightarrow> True | Some p \<Rightarrow> counters_ok p"
      using r ok'[of "tally (p ! nat r) i - 1"] by (simp only: consume_def Let_def) (simp add: set_pending_def)
    then show ?thesis
    proof (intro conjI)
      show "case pending (fst (consume i c)) of None \<Rightarrow> True | Some p \<Rightarrow> counters_ok p" by (rule c3)
    qed (use r True consume_expected[of i c] assms in
      \<open>simp_all add: consume_def Let_def rc accounted_def set_pending_def of_nat_diff\<close>)
  next
    case False
    then have f: "consume i c = (c\<lparr>unforeseen := unforeseen c + 1\<rparr>, refcount c i)"
      by (auto simp: consume_def predicted_def split: option.split)
    have e: "expected (c\<lparr>unforeseen := unforeseen c + 1\<rparr>) k = expected c k" for k
      by (rule expected_cong) simp
    show ?thesis unfolding f fst_conv snd_conv e using assms rc by (simp add: accounted_def)
  qed
  then show "snd (consume i c) = int (expected (fst (consume i c)) i)"
    "refcounts (fst (consume i c)) j =
      (if expected (fst (consume i c)) j = 0 then None else Some (int (expected (fst (consume i c)) j)))"
    "(case pending (fst (consume i c)) of None \<Rightarrow> True | Some p \<Rightarrow> counters_ok p)"
    by blast+
qed

lemma store_frame [simp]:
  "pending (store i e c) = pending c" "refcounts (store i e c) = refcounts c"
  "active_root (store i e c) = active_root c"
  "expected (store i e c) j = expected c j"
  by (simp_all add: store_def Let_def expected_def)

lemma accounted_store: "accounted c \<Longrightarrow> 0 < expected c i \<Longrightarrow> accounted (store i e c)"
  unfolding accounted_def by (auto simp: store_def Let_def update_conv' expected_def)

lemma retain_frame [simp]:
  "pending (retain_result rb i r c) = pending c" "expected (retain_result rb i r c) j = expected c j"
  "active_root (retain_result rb i r c) = active_root c"
  by (simp_all add: retain_result_def split: sum.split option.split)

lemma accounted_retain: "accounted c \<Longrightarrow> 0 < expected c i \<Longrightarrow> accounted (retain_result rb i r c)"
  by (auto simp: retain_result_def intro: accounted_store split: sum.split option.split)

lemma hit_frame [simp]:
  "pending (fst (hit i e n c)) = pending c" "refcounts (fst (hit i e n c)) = refcounts c"
  "expected (fst (hit i e n c)) j = expected c j" "active_root (fst (hit i e n c)) = active_root c"
  by (simp_all add: hit_def Let_def expected_def split: entry.split)

section \<open>Programs over the context\<close>

text \<open>
  The computations the evaluator runs: a value, or a node consumed through the context whose own
  computation consumes only nodes of a smaller set, followed by the rest.  The set bounds the
  nodes a computation can consume.
\<close>

inductive node_program ::
  "(err \<Rightarrow> err option) \<Rightarrow> 'i set \<Rightarrow> (('i, 'v) eval_ctx \<Rightarrow> ('i, 'v) eval_ctx \<times> 'v res) \<Rightarrow> bool" for rebuild where
  done_with: "node_program rebuild A (\<lambda>c. (c, r))"
| consume_node: "node_program rebuild B p \<Longrightarrow> i \<in> A \<Longrightarrow> i \<notin> B \<Longrightarrow> B \<subseteq> A \<Longrightarrow> (\<And>x. node_program rebuild A (k x)) \<Longrightarrow>
    node_program rebuild A (\<lambda>c. k (snd (memoized rebuild i p c)) (fst (memoized rebuild i p c)))"

inductive_cases node_programE: "node_program rebuild A p"

lemma memoized_accounted:
  assumes c: "accounted c" and p: "\<And>c. accounted c \<Longrightarrow> accounted (fst (p c)) \<and> expected (fst (p c)) i = expected c i"
  shows "accounted (fst (memoized rebuild i p c))"
proof -
  define c1 where "c1 = fst (consume i c)"
  have n: "snd (consume i c) = int (expected c1 i)" using consume_remaining(1)[OF c] by (simp add: c1_def)
  have part: "\<forall>j. refcounts c1 j = (if expected c1 j = 0 then None else Some (int (expected c1 j)))"
    "(case pending c1 of None \<Rightarrow> True | Some p \<Rightarrow> counters_ok p)"
    using consume_remaining(2,3)[OF c] by (simp_all add: c1_def)
  have others: "0 < expected c1 j" if "map_of (memo c) j \<noteq> None" "j \<noteq> i" for j
    using c that consume_expected(1)[of i c j] by (simp add: accounted_def c1_def)
  show ?thesis
  proof (cases "map_of (memo c) i")
    case (Some e)
    have m: "map_of (memo (fst (hit i e (int (expected c1 i)) c1))) j \<noteq> None \<Longrightarrow> 0 < expected c1 j" for j
      using others[of j] by (auto simp: hit_result c1_def delete_conv' restrict_map_def split: if_splits)
    have "accounted (fst (hit i e (int (expected c1 i)) c1))"
      unfolding accounted_def using part m by simp
    then show ?thesis using Some n by (simp add: memoized_def split_beta c1_def)
  next
    case None
    have "accounted c1" unfolding accounted_def using part others None
      by (metis c1_def consume_frame(1))
    then have c1': "accounted (count_compute i c1)"
      by (subst accounted_cong[of _ c1]) (simp_all add: count_compute_def)
    have e: "expected (count_compute i c1) i = expected c1 i" by (rule expected_cong) (simp add: count_compute_def)
    show ?thesis using None n p[OF c1'] e accounted_retain[of "fst (p (count_compute i c1))" i]
      by (simp add: memoized_def Let_def split_beta c1_def [symmetric])
  qed
qed

lemma memoized_expected:
  assumes "\<And>c. expected (fst (p c)) j = expected c j" "j \<noteq> i"
  shows "expected (fst (memoized rebuild i p c)) j = expected c j"
proof -
  have "expected (count_compute i (fst (consume i c))) j = expected c j"
    using consume_expected(1)[of i c j] assms(2)
    by (subst expected_cong[of _ "fst (consume i c)"]) (simp_all add: count_compute_def)
  then show ?thesis using consume_expected(1)[of i c j] assms
    by (auto simp: memoized_def Let_def split_beta split: option.split)
qed

lemma node_program_expected: "node_program rebuild A p \<Longrightarrow> j \<notin> A \<Longrightarrow> expected (fst (p c)) j = expected c j"
proof (induction arbitrary: c j rule: node_program.induct)
  case (consume_node B p i A k)
  have "j \<notin> B" "j \<noteq> i" using consume_node.hyps consume_node.prems by auto
  then have "expected (fst (memoized rebuild i p c)) j = expected c j"
    using consume_node.IH(1) by (intro memoized_expected) auto
  then show ?case using consume_node.IH(2)[OF consume_node.prems] by simp
qed simp

lemma node_program_accounted: "node_program rebuild A p \<Longrightarrow> accounted c \<Longrightarrow> accounted (fst (p c))"
proof (induction arbitrary: c rule: node_program.induct)
  case (consume_node B p i A k)
  have "accounted (fst (memoized rebuild i p c))"
    using consume_node.prems consume_node.IH(1) consume_node.hyps node_program_expected
    by (intro memoized_accounted) auto
  then show ?case by (rule consume_node.IH(2))
qed simp

section \<open>Roots\<close>

text \<open>The part of the invariant that the counts decide, for given expected counts.\<close>

definition counts_match :: "('i \<Rightarrow> nat) \<Rightarrow> ('i, 'v) eval_ctx \<Rightarrow> bool" where
  "counts_match e c \<longleftrightarrow>
     (\<forall>i. refcounts c i = (if e i = 0 then None else Some (int (e i)))) \<and>
     (\<forall>i. map_of (memo c) i \<noteq> None \<longrightarrow> 0 < e i)"

lemma accounted_iff:
  "accounted c \<longleftrightarrow> (case pending c of None \<Rightarrow> True | Some p \<Rightarrow> counters_ok p) \<and> counts_match (expected c) c"
  by (auto simp: accounted_def counts_match_def)

lemma release_match: "counts_match e c \<Longrightarrow> counts_match (\<lambda>j. e j - (if j = i then n else 0)) (release (i, n) c)"
  by (auto simp: counts_match_def release_def Let_def refcount_def delete_conv' restrict_map_def split: if_splits)

lemma fold_release_match:
  assumes "counts_match e c" "distinct (map fst xs)"
  shows "counts_match (\<lambda>i. e i - tally xs i) (fold release xs c)"
  using assms
proof (induction xs arbitrary: e c)
  case (Cons x xs)
  obtain i n where x: "x = (i, n)" by (cases x)
  have i: "tally xs i = 0" using Cons.prems(2) x
    by (auto simp: tally_def split: option.split dest: map_of_SomeD) (force dest: map_of_SomeD)
  have "counts_match (\<lambda>j. (e j - (if j = i then n else 0)) - tally xs j) (fold release xs (release (i, n) c))"
    by (rule Cons.IH) (use Cons.prems release_match in auto)
  moreover have "(e j - (if j = i then n else 0)) - tally xs j = e j - tally (x # xs) j" for j
    using i by (simp add: x tally_def)
  ultimately show ?case by (simp add: x)
qed simp

lemma fold_release_frame [simp]:
  "pending (fold release xs c) = pending c" "active_root (fold release xs c) = active_root c"
  "memo_on (fold release xs c) = memo_on c" "compute_calls (fold release xs c) = compute_calls c"
  "hits (fold release xs c) = hits c" "unforeseen (fold release xs c) = unforeseen c"
  by (induction xs arbitrary: c) (auto simp: release_def Let_def split: prod.split)

lemma leave_root_spec:
  assumes c: "accounted c"
  shows "accounted (leave_root r c)"
    "pending (leave_root r c) = (case pending c of None \<Rightarrow> None
       | Some p \<Rightarrow> if 0 \<le> r \<and> nat r < length p then Some (p[nat r := []]) else Some p)"
proof -
  define c1 where "c1 = c\<lparr>active_root := None\<rparr>"
  have a1: "accounted c1" and p1: "pending c1 = pending c"
    using c accounted_cong[of c1 c] by (simp_all add: c1_def)
  have "accounted (leave_root r c) \<and> pending (leave_root r c) = (case pending c of None \<Rightarrow> None
       | Some p \<Rightarrow> if 0 \<le> r \<and> nat r < length p then Some (p[nat r := []]) else Some p)"
  proof (cases "root_pending c1 r")
    case None
    then have "leave_root r c = c1" by (simp add: leave_root_def c1_def [symmetric])
    moreover have "(case pending c of None \<Rightarrow> None
       | Some p \<Rightarrow> if 0 \<le> r \<and> nat r < length p then Some (p[nat r := []]) else Some p) = pending c"
      using None p1 by (auto simp: root_pending_def split: option.splits if_splits)
    ultimately show ?thesis using a1 p1 by simp
  next
    case (Some xs)
    then obtain p where p: "pending c = Some p" "0 \<le> r" "nat r < length p" "xs = p ! nat r"
      using p1 by (auto simp: root_pending_Some)
    define c2 where "c2 = fold release xs c1"
    have l: "leave_root r c = set_pending r [] c2"
      using Some by (simp add: leave_root_def c1_def c2_def)
    have ok: "counters_ok p" using c p by (simp add: accounted_def)
    then have "distinct (map fst xs)" using p by (auto simp: counters_ok_def)
    then have m: "counts_match (\<lambda>i. expected c1 i - tally xs i) c2"
      unfolding c2_def using a1 by (intro fold_release_match) (simp_all add: accounted_iff)
    have "expected (set_pending r [] c2) i = expected c1 i - tally xs i" for i
      using expected_set_pending[of c2 p r "[]" i] p p1
      by (simp add: c2_def expected_def)
    then have "counts_match (expected (set_pending r [] c2)) (set_pending r [] c2)"
      using m by (simp add: counts_match_def)
    moreover have "counters_ok (p[nat r := []])"
      by (rule counters_ok_update[OF ok]) simp_all
    ultimately show ?thesis using p p1 by (simp add: accounted_iff l c2_def set_pending_def)
  qed
  then show "accounted (leave_root r c)" "pending (leave_root r c) = (case pending c of None \<Rightarrow> None
       | Some p \<Rightarrow> if 0 \<le> r \<and> nat r < length p then Some (p[nat r := []]) else Some p)" by blast+
qed

text \<open>When no consumption is expected any more, nothing is retained.\<close>

lemma accounted_empty:
  assumes "accounted c" "pending c = Some p" "\<forall>cs \<in> set p. cs = []"
  shows "memo c = []" "refcounts c = (\<lambda>_. None)"
proof -
  have "map (\<lambda>cs. tally cs i) p = map (\<lambda>_. 0) p" for i
    using assms(3) by (intro map_cong refl) auto
  then have e: "expected c i = 0" for i
    using assms(2) by (simp add: expected_def sum_list_0)
  then show "refcounts c = (\<lambda>_. None)" using assms(1) by (simp add: accounted_def fun_eq_iff)
  have "map_of (memo c) i = None" for i using assms(1) e by (auto simp: accounted_def)
  then show "memo c = []" by (metis list.exhaust map_of_eq_empty_iff)
qed

section \<open>Planning\<close>

lemma counter_positive: "(i, n) \<in> set (counter ids) \<Longrightarrow> 0 < n"
proof -
  have "\<forall>x \<in> set (bump j c). 0 < snd x" if "\<forall>x \<in> set c. (0 :: nat) < snd x" for j :: 'a and c
    using that update_set[of j "tally c j + 1" c] by (auto simp: bump_def)
  note step = this
  have "\<forall>x \<in> set c. (0 :: nat) < snd x \<Longrightarrow> \<forall>x \<in> set (fold bump ids c). 0 < snd x" for c
  proof (induction ids arbitrary: c)
    case (Cons j ids)
    show ?case using Cons.IH[OF step[OF Cons.prems]] by (simp only: fold_Cons o_apply)
  qed simp
  from this[of "[]"] have "\<forall>x \<in> set (counter ids). 0 < snd x" by (simp add: counter_def)
  then show "(i, n) \<in> set (counter ids) \<Longrightarrow> 0 < n" by (metis snd_conv)
qed

definition add_count :: "'i \<times> nat \<Rightarrow> ('i, 'v) eval_ctx \<Rightarrow> ('i, 'v) eval_ctx" where
  "add_count x c = c\<lparr>refcounts := (refcounts c)(fst x \<mapsto> refcount c (fst x) + int (snd x))\<rparr>"

lemma add_count_frame [simp]:
  "pending (fold add_count xs c) = pending c" "memo (fold add_count xs c) = memo c"
  "active_root (fold add_count xs c) = active_root c"
  by (induction xs arbitrary: c) (simp_all add: add_count_def)

lemma fold_add_match:
  assumes "counts_match e c" "\<forall>(i, n) \<in> set xs. 0 < n" "distinct (map fst xs)"
  shows "counts_match (\<lambda>i. e i + tally xs i) (fold add_count xs c)"
  using assms
proof (induction xs arbitrary: e c)
  case (Cons x xs)
  obtain i n where x: "x = (i, n)" by (cases x)
  have i: "tally xs i = 0" using Cons.prems(3) x
    by (auto simp: tally_def split: option.split dest: map_of_SomeD) (force dest: map_of_SomeD)
  have "counts_match (\<lambda>j. e j + (if j = i then n else 0)) (add_count (i, n) c)"
    using Cons.prems(1,2) x by (auto simp: counts_match_def add_count_def refcount_def)
  then have "counts_match (\<lambda>j. (e j + (if j = i then n else 0)) + tally xs j) (fold add_count xs (add_count (i, n) c))"
    by (rule Cons.IH) (use Cons.prems in auto)
  moreover have "(e j + (if j = i then n else 0)) + tally xs j = e j + tally (x # xs) j" for j
    using i by (simp add: x tally_def)
  ultimately show ?case by (simp add: x)
qed simp

lemma fold_fold_add_match:
  assumes "counts_match e c" "\<forall>xs \<in> set p. (\<forall>(i, n) \<in> set xs. 0 < n) \<and> distinct (map fst xs)"
  shows "counts_match (\<lambda>i. e i + sum_list (map (\<lambda>cs. tally cs i) p)) (fold (fold add_count) p c) \<and>
    pending (fold (fold add_count) p c) = pending c \<and> memo (fold (fold add_count) p c) = memo c \<and>
    active_root (fold (fold add_count) p c) = active_root c"
  using assms
proof (induction p arbitrary: e c)
  case (Cons xs p)
  have "counts_match (\<lambda>i. e i + tally xs i) (fold add_count xs c)"
    using Cons.prems by (intro fold_add_match) auto
  from Cons.IH[OF this] Cons.prems(2) show ?case by (simp add: add.assoc)
qed simp

lemma plan_roots_add_count:
  "plan_roots roots c =
     raise_if (pending c \<noteq> None \<or> active_root c \<noteq> None)
       (EvaluationInvariant ''evaluation context roots were already planned'')
       (Inr ((fold (fold add_count) (map counter roots) c)\<lparr>pending := Some (map counter roots)\<rparr>))"
proof -
  have "(\<lambda>(i, n) c. c\<lparr>refcounts := (refcounts c)(i \<mapsto> refcount c i + int n)\<rparr>) =
      (add_count :: 'a \<times> nat \<Rightarrow> ('a, 'b) eval_ctx \<Rightarrow> ('a, 'b) eval_ctx)"
    by (auto simp: add_count_def fun_eq_iff)
  then show ?thesis by (simp only: plan_roots_def Let_def)
qed

lemma plan_roots_accounted:
  assumes "new_context d m = Inr c" "plan_roots roots c = Inr c'"
  shows "accounted c'" "pending c' = Some (map counter roots)" "active_root c' = None" "memo c' = []"
    "expected c' i = sum_list (map (\<lambda>ids. count_list ids i) roots)"
proof -
  have c: "refcounts c = (\<lambda>_. None)" "memo c = []" "pending c = None" "active_root c = None"
    using assms(1) by (auto simp: new_context_def raise_if_Inr)
  define p where "p = map counter roots"
  have p: "\<forall>xs \<in> set p. (\<forall>(i, n) \<in> set xs. 0 < n) \<and> distinct (map fst xs)"
    using counter_positive counter_spec by (fastforce simp: p_def)
  have m: "counts_match (\<lambda>_. 0) c" using c by (simp add: counts_match_def)
  define c1 where "c1 = fold (fold add_count) p c"
  have c': "c' = c1\<lparr>pending := Some p\<rparr>"
    using assms(2) by (simp add: plan_roots_add_count raise_if_Inr c1_def p_def)
  note f = fold_fold_add_match[OF m p, folded c1_def]
  have e: "expected c' = (\<lambda>i. sum_list (map (\<lambda>cs. tally cs i) p))" by (simp add: expected_def c' fun_eq_iff)
  show "accounted c'" unfolding accounted_iff e
    using f p by (fastforce simp: c' counts_match_def counters_ok_def)
  show "pending c' = Some (map counter roots)" by (simp add: c' p_def)
  show "active_root c' = None" "memo c' = []" using f c by (simp_all add: c')
  show "expected c' i = sum_list (map (\<lambda>ids. count_list ids i) roots)"
    by (simp add: e p_def o_def counter_spec)
qed

end
