(* ===== verification/EvalContextOnce.thy ===== *)
theory EvalContextOnce
  imports EvalContextCounts
begin

text \<open>
  Whole batches: after the last root nothing is retained, and a batch whose roots consume
  exactly what was planned computes every node once and serves every other consumption from
  the memo.
\<close>

section \<open>Frames of the pending counters\<close>

lemma consume_pending:
  "root_pending (fst (consume i c)) q = (case root_pending c q of None \<Rightarrow> None
     | Some cs \<Rightarrow> Some (if active_root c = Some q \<and> 0 < tally cs i
         then (if tally cs i = 1 then AList.delete i cs else AList.update i (tally cs i - 1) cs) else cs))"
  by (auto simp: consume_def Let_def root_pending_def set_pending_def nth_list_update split: option.splits)

lemma store_pending [simp]:
  "root_pending (store i e c) q = root_pending c q"
  "root_pending (retain_result rb i r c) q = root_pending c q"
  "root_pending (count_compute i c) q = root_pending c q"
  "root_pending (fst (hit i e n c)) q = root_pending c q"
  by (simp_all add: root_pending_def count_compute_def)

lemma leaf_pending:
  "root_pending (fst (memoized rb i (\<lambda>c. (c, r)) c)) q = root_pending (fst (consume i c)) q"
  "active_root (fst (memoized rb i (\<lambda>c. (c, r)) c)) = active_root c"
  by (simp_all add: memoized_def Let_def split_beta count_compute_def split: option.split)
    (simp add: root_pending_def)

lemma leaf_expected:
  "expected (fst (memoized rb i (\<lambda>c. (c, r)) c)) j = expected (fst (consume i c)) j"
proof -
  have "pending (count_compute i d) = pending d" for d :: "('a, 'b) eval_ctx" by (simp add: count_compute_def)
  then have "pending (fst (memoized rb i (\<lambda>c. (c, r)) c)) = pending (fst (consume i c))"
    by (simp add: memoized_def Let_def split_beta split: option.split)
  then show ?thesis by (rule expected_cong)
qed

lemma leaf_tally:
  assumes "active_root c = Some r" "root_pending c r = Some cs" "0 < tally cs i"
  obtains cs' where "root_pending (fst (memoized rb i (\<lambda>c. (c, x)) c)) r = Some cs'"
    "\<And>j. tally cs' j = tally cs j - (if j = i then 1 else 0)"
  using assms by (auto simp: leaf_pending consume_pending tally_delete tally_update)

lemma leaf_other_root:
  assumes "active_root c = Some r" "q \<noteq> r"
  shows "root_pending (fst (memoized rb i (\<lambda>c. (c, x)) c)) q = root_pending c q"
  using assms by (simp add: leaf_pending consume_pending split: option.split)

section \<open>One computation per node\<close>

text \<open>\<open>D\<close> lists the consumptions made so far.\<close>

definition once :: "('i \<Rightarrow> 'v res) \<Rightarrow> 'i list \<Rightarrow> ('i, 'v) eval_ctx \<Rightarrow> bool" where
  "once f D c \<longleftrightarrow> accounted c \<and> memo_on c \<and> memo_sound f c \<and>
     (\<forall>i. compute_calls c i = (if i \<in> set D then 1 else 0)) \<and>
     (\<forall>i. map_of (memo c) i \<noteq> None \<longleftrightarrow> i \<in> set D \<and> 0 < expected c i) \<and>
     hits c + card (set D) = length D \<and> unforeseen c = 0"

lemma hit_counts [simp]:
  "compute_calls (fst (hit i e n c)) = compute_calls c" "hits (fst (hit i e n c)) = hits c + 1"
  "unforeseen (fst (hit i e n c)) = unforeseen c" "memo_on (fst (hit i e n c)) = memo_on c"
  by (simp_all add: hit_def Let_def split: entry.split)

lemma store_counts [simp]:
  "compute_calls (store i e c) = compute_calls c" "hits (store i e c) = hits c"
  "unforeseen (store i e c) = unforeseen c" "memo_on (store i e c) = memo_on c"
  "map_of (memo (store i e c)) = (map_of (memo c))(i \<mapsto> e)"
  by (simp_all add: store_def Let_def update_conv')

lemma consume_predicted_unforeseen: "predicted i c \<Longrightarrow> unforeseen (fst (consume i c)) = unforeseen c"
  by (auto simp: consume_def predicted_def Let_def)

lemma leaf_program: "node_program rb UNIV (\<lambda>c. memoized rb i (\<lambda>c. (c, x)) c)"
proof -
  have "node_program rb UNIV (\<lambda>c. (\<lambda>y c. (c, y)) (snd (memoized rb i (\<lambda>c. (c, x)) c)) (fst (memoized rb i (\<lambda>c. (c, x)) c)))"
    by (rule consume_node[where B = "{}" and k = "\<lambda>y c. (c, y)"]) (rule done_with, simp_all, rule done_with)
  then show ?thesis by simp
qed

lemma once_step:
  assumes o: "once f D c" and p: "predicted i c" and v: "f i = Inr v"
  shows "once f (D @ [i]) (fst (memoized rb i (\<lambda>c. (c, f i)) c))"
proof -
  define c1 where "c1 = fst (consume i c)"
  define c' where "c' = fst (memoized rb i (\<lambda>c. (c, f i)) c)"
  have a: "accounted c" using o by (simp add: once_def)
  have acc: "accounted c'" unfolding c'_def using node_program_accounted[OF leaf_program a] .
  have "implements f (memoized rb i (\<lambda>c. (c, f i))) (f i)"
    by (rule memoized_implements) (rule implements_const)
  then have snd: "memo_sound f c'" using o by (simp add: c'_def implements_def once_def)
  have n: "snd (consume i c) = int (expected c1 i)" using consume_remaining(1)[OF a] by (simp add: c1_def)
  have e1: "expected c1 j = expected c j - (if j = i then 1 else 0)" for j
    using consume_expected(1)[of i c j] p by (simp add: c1_def)
  have pos: "0 < expected c i" by (rule consume_expected(2)[OF p])
  have un: "unforeseen c1 = 0" using o consume_predicted_unforeseen[OF p] by (simp add: c1_def once_def)
  have f1: "memo c1 = memo c" "memo_on c1" "compute_calls c1 = compute_calls c" "hits c1 = hits c"
    using o by (simp_all add: c1_def once_def)
  have mo: "map_of (memo c) j \<noteq> None \<longleftrightarrow> j \<in> set D \<and> 0 < expected c j" for j
    using o by (simp add: once_def)
  show ?thesis
  proof (cases "i \<in> set D")
    case True
    then obtain e where e: "map_of (memo c) i = Some e" using mo[of i] pos by auto
    have c': "c' = fst (hit i e (int (expected c1 i)) c1)"
      using e n by (simp add: c'_def memoized_def split_beta c1_def)
    have ex: "expected c' j = expected c1 j" for j by (simp add: c')
    have "map_of (memo c') j \<noteq> None \<longleftrightarrow> j \<in> set (D @ [i]) \<and> 0 < expected c' j" for j
      using mo[of j] e1[of j] True unfolding ex
      by (auto simp: c' hit_result f1 delete_conv' restrict_map_def)
    then show ?thesis using acc snd True un f1 o unfolding c'_def [symmetric]
      by (simp add: once_def c' insert_absorb)
  next
    case False
    then have e: "map_of (memo c) i = None" using mo[of i] by auto
    define c2 where "c2 = count_compute i c1"
    have c': "c' = (if 0 < expected c1 i then store i (Value v) c2 else c2)"
      using e n f1 v by (simp add: c'_def memoized_def split_beta c1_def [symmetric] c2_def retain_result_def Let_def)
    have x2: "expected c2 j = expected c1 j" for j by (rule expected_cong) (simp add: c2_def count_compute_def)
    have m2: "memo c2 = memo c" "compute_calls c2 = (compute_calls c)(i := compute_calls c i + 1)"
      "hits c2 = hits c" "memo_on c2" "unforeseen c2 = 0"
      using f1 un by (simp_all add: c2_def count_compute_def)
    have ex: "expected c' j = expected c1 j" for j by (simp add: c' x2)
    have "map_of (memo c') j \<noteq> None \<longleftrightarrow> j \<in> set (D @ [i]) \<and> 0 < expected c' j" for j
      using mo[of j] e1[of j] False unfolding ex by (auto simp: c' m2)
    moreover have "compute_calls c' = (compute_calls c)(i := compute_calls c i + 1)" "hits c' = hits c"
      "memo_on c'" "unforeseen c' = 0"
      by (simp_all add: c' m2)
    ultimately show ?thesis using acc snd False o unfolding c'_def [symmetric]
      by (simp add: once_def)
  qed
qed

lemma once_requests:
  assumes "once f D c" "active_root c = Some r" "root_pending c r = Some cs"
    "\<And>i. count_list ids i \<le> tally cs i" "\<And>i. i \<in> set ids \<Longrightarrow> \<exists>v. f i = Inr v"
  shows "once f (D @ ids) (fst (run_requests rb f ids c)) \<and>
    (\<forall>q. q \<noteq> r \<longrightarrow> root_pending (fst (run_requests rb f ids c)) q = root_pending c q) \<and>
    active_root (fst (run_requests rb f ids c)) = Some r \<and> is_ok (snd (run_requests rb f ids c))"
  using assms
proof (induction ids arbitrary: D c cs)
  case (Cons i ids)
  obtain v where v: "f i = Inr v" using Cons.prems(5)[of i] by auto
  define c1 where "c1 = fst (memoized rb i (\<lambda>c. (c, f i)) c)"
  have t: "0 < tally cs i" using Cons.prems(4)[of i] by simp
  then have p: "predicted i c" using Cons.prems(2,3) by (auto simp: predicted_def)
  obtain cs' where cs': "root_pending c1 r = Some cs'" "\<And>j. tally cs' j = tally cs j - (if j = i then 1 else 0)"
    using leaf_tally[OF Cons.prems(2,3) t, where rb = rb and x = "f i"] unfolding c1_def by blast
  have "count_list ids j \<le> tally cs' j" for j
    using Cons.prems(4)[of j] cs'(2)[of j] by (auto split: if_splits)
  moreover have "once f (D @ [i]) c1" unfolding c1_def by (rule once_step[OF Cons.prems(1) p v])
  moreover have "active_root c1 = Some r" using Cons.prems(2) by (simp add: c1_def leaf_pending)
  ultimately have IH: "once f ((D @ [i]) @ ids) (fst (run_requests rb f ids c1)) \<and>
    (\<forall>q. q \<noteq> r \<longrightarrow> root_pending (fst (run_requests rb f ids c1)) q = root_pending c1 q) \<and>
    active_root (fst (run_requests rb f ids c1)) = Some r \<and> is_ok (snd (run_requests rb f ids c1))"
    using cs'(1) Cons.prems(5) by (intro Cons.IH) auto
  have "implements f (memoized rb i (\<lambda>c. (c, f i))) (f i)"
    by (rule memoized_implements) (rule implements_const)
  then have r: "snd (memoized rb i (\<lambda>c. (c, f i)) c) = Inr v"
    using Cons.prems(1) v by (simp add: once_def implements_def)
  have "fst (run_requests rb f (i # ids) c) = fst (run_requests rb f ids c1)"
    "is_ok (snd (run_requests rb f (i # ids) c)) = is_ok (snd (run_requests rb f ids c1))"
    using r by (simp_all add: c1_def split_beta Let_def) (cases "snd (run_requests rb f ids c1)"; simp add: c1_def)
  then show ?case using IH leaf_other_root[OF Cons.prems(2), where i = i] by (simp add: c1_def)
qed simp

lemma once_leave:
  assumes o: "once f D c" and z: "root_pending c r = Some cs" "\<And>i. tally cs i = 0"
  shows "once f D (leave_root r c)" "root_pending (leave_root r c) q = root_pending c q"
    "active_root (leave_root r c) = None"
proof -
  obtain p where p: "pending c = Some p" "0 \<le> r" "nat r < length p" "cs = p ! nat r"
    using z(1) by (auto simp: root_pending_Some)
  then have pos: "\<forall>x \<in> set cs. 0 < snd x" "distinct (map fst cs)"
    using o by (auto simp: once_def accounted_def counters_ok_def)
  have "cs = []"
  proof (cases cs)
    case (Cons x xs)
    then have "tally cs (fst x) = snd x" by (cases x) (simp add: tally_def)
    then show ?thesis using z(2)[of "fst x"] pos(1) Cons by simp
  qed
  then have l: "leave_root r c = set_pending r [] (c\<lparr>active_root := None\<rparr>)"
    using z(1) by (simp add: leave_root_def root_pending_def)
  have same: "p[nat r := []] = p" using p \<open>cs = []\<close> by (metis list_update_id)
  have l': "leave_root r c = c\<lparr>active_root := None\<rparr>"
    using p(1) same by (simp add: l set_pending_def)
  have "expected (c\<lparr>active_root := None\<rparr>) i = expected c i" for i by (rule expected_cong) simp
  moreover have "accounted (c\<lparr>active_root := None\<rparr>) = accounted c" by (rule accounted_cong) simp_all
  ultimately show "once f D (leave_root r c)" using o by (simp add: l' once_def memo_sound_def)
  show "root_pending (leave_root r c) q = root_pending c q" "active_root (leave_root r c) = None"
    by (simp_all add: l' root_pending_def)
qed

lemma once_requests_tally:
  assumes "once f D c" "active_root c = Some r" "root_pending c r = Some cs"
    "\<And>i. tally cs i = count_list ids i + count_list rest i" "\<And>i. i \<in> set ids \<Longrightarrow> \<exists>v. f i = Inr v"
  shows "\<exists>cs'. root_pending (fst (run_requests rb f ids c)) r = Some cs' \<and> (\<forall>i. tally cs' i = count_list rest i)"
  using assms
proof (induction ids arbitrary: D c cs)
  case (Cons i ids)
  obtain v where v: "f i = Inr v" using Cons.prems(5)[of i] by auto
  define c1 where "c1 = fst (memoized rb i (\<lambda>c. (c, f i)) c)"
  have t: "0 < tally cs i" using Cons.prems(4)[of i] by simp
  then have p: "predicted i c" using Cons.prems(2,3) by (auto simp: predicted_def)
  obtain cs' where cs': "root_pending c1 r = Some cs'" "\<And>j. tally cs' j = tally cs j - (if j = i then 1 else 0)"
    using leaf_tally[OF Cons.prems(2,3) t, where rb = rb and x = "f i"] unfolding c1_def by blast
  have "once f (D @ [i]) c1" unfolding c1_def by (rule once_step[OF Cons.prems(1) p v])
  moreover have "active_root c1 = Some r" using Cons.prems(2) by (simp add: c1_def leaf_pending)
  moreover have "tally cs' j = count_list ids j + count_list rest j" for j
    using Cons.prems(4)[of j] cs'(2)[of j] by (auto split: if_splits)
  ultimately have IH: "\<exists>cs'. root_pending (fst (run_requests rb f ids c1)) r = Some cs' \<and>
      (\<forall>i. tally cs' i = count_list rest i)"
    using cs'(1) Cons.prems(5) by (intro Cons.IH) auto
  have "implements f (memoized rb i (\<lambda>c. (c, f i))) (f i)"
    by (rule memoized_implements) (rule implements_const)
  then have "snd (memoized rb i (\<lambda>c. (c, f i)) c) = Inr v"
    using Cons.prems(1) v by (simp add: once_def implements_def)
  then have "fst (run_requests rb f (i # ids) c) = fst (run_requests rb f ids c1)"
    by (simp add: c1_def split_beta Let_def)
  then show ?case using IH by simp
qed auto

section \<open>A whole batch\<close>

text \<open>The roots from \<open>r\<close> on have exactly their planned consumptions ahead.\<close>

definition planned_ahead :: "int \<Rightarrow> 'i list list \<Rightarrow> ('i, 'v) eval_ctx \<Rightarrow> bool" where
  "planned_ahead r roots c \<longleftrightarrow>
     (\<forall>k<length roots. \<exists>cs. root_pending c (r + int k) = Some cs \<and> (\<forall>i. tally cs i = count_list (roots ! k) i))"

lemma once_root:
  assumes "once f D c" "active_root c = None" "planned_ahead r (ids # roots) c" "0 \<le> r"
    "\<And>i. i \<in> set ids \<Longrightarrow> \<exists>v. f i = Inr v"
  shows "once f (D @ ids) (fst (run_root rb f r ids c))" "active_root (fst (run_root rb f r ids c)) = None"
    "planned_ahead (r + 1) roots (fst (run_root rb f r ids c))" "is_ok (snd (run_root rb f r ids c))"
proof -
  define c1 where "c1 = c\<lparr>active_root := Some r\<rparr>"
  define c2 where "c2 = fst (run_requests rb f ids c1)"
  have "expected c1 i = expected c i" for i by (rule expected_cong) (simp add: c1_def)
  moreover have "accounted c1 = accounted c" by (rule accounted_cong) (simp_all add: c1_def)
  ultimately have o1: "once f D c1" using assms(1) by (simp add: once_def c1_def memo_sound_def)
  have pend: "root_pending c1 q = root_pending c q" for q by (simp add: c1_def root_pending_def)
  obtain cs where cs: "root_pending c1 r = Some cs" "\<And>i. tally cs i = count_list ids i"
    using assms(3) unfolding planned_ahead_def pend by force
  have a1: "active_root c1 = Some r" by (simp add: c1_def)
  have o2: "once f (D @ ids) c2 \<and> (\<forall>q. q \<noteq> r \<longrightarrow> root_pending c2 q = root_pending c1 q) \<and>
      active_root c2 = Some r \<and> is_ok (snd (run_requests rb f ids c1))"
    unfolding c2_def by (rule once_requests[OF o1 a1 cs(1)]) (use cs(2) assms(5) in simp_all)
  obtain cs' where cs': "root_pending c2 r = Some cs'" "\<And>i. tally cs' i = 0"
    using once_requests_tally[OF o1 a1 cs(1), of ids "[]" rb] cs(2) assms(5) by (auto simp: c2_def)
  have res: "run_root rb f r ids c = (leave_root r c2, snd (run_requests rb f ids c1))"
    using assms(2) by (simp add: run_root_def enter_root_def split_beta c1_def c2_def)
  note l = once_leave[OF conjunct1[OF o2] cs']
  show "once f (D @ ids) (fst (run_root rb f r ids c))" "active_root (fst (run_root rb f r ids c)) = None"
    "is_ok (snd (run_root rb f r ids c))"
    using l o2 by (simp_all add: res)
  show "planned_ahead (r + 1) roots (fst (run_root rb f r ids c))"
    unfolding planned_ahead_def res fst_conv l(2)
  proof (intro allI impI)
    fix k assume k: "k < length roots"
    then have "\<exists>cs. root_pending c (r + int (Suc k)) = Some cs \<and> (\<forall>i. tally cs i = count_list ((ids # roots) ! Suc k) i)"
      using assms(3) unfolding planned_ahead_def by (metis Suc_mono length_Cons)
    then show "\<exists>cs. root_pending c2 (r + 1 + int k) = Some cs \<and> (\<forall>i. tally cs i = count_list (roots ! k) i)"
      using o2 by (simp add: pend algebra_simps)
  qed
qed

lemma once_stream:
  assumes "once f D c" "active_root c = None" "planned_ahead r roots c" "0 \<le> r"
    "\<And>i. i \<in> set (concat roots) \<Longrightarrow> \<exists>v. f i = Inr v"
  shows "once f (D @ concat roots) (fst (stream_variants rb f r roots c))"
  using assms
proof (induction roots arbitrary: D c r)
  case (Cons ids roots)
  define c1 where "c1 = fst (run_root rb f r ids c)"
  have f: "\<exists>v. f i = Inr v" if "i \<in> set ids" for i using Cons.prems(5) that by simp
  note s = once_root[OF Cons.prems(1-4) f, of rb, folded c1_def]
  then obtain vs where "snd (run_root rb f r ids c) = Inr vs"
    by (cases "snd (run_root rb f r ids c)") auto
  moreover have "once f ((D @ ids) @ concat roots) (fst (stream_variants rb f (r + 1) roots c1))"
    by (rule Cons.IH) (use s Cons.prems in auto)
  ultimately show ?case by (simp add: c1_def split_beta Let_def)
qed simp

lemma once_batch:
  assumes "evaluate_batch rb f True roots roots = Inr (c, xs, p)" "\<And>i. i \<in> set (concat roots) \<Longrightarrow> \<exists>v. f i = Inr v"
  shows "once f (concat roots) c"
proof -
  from assms(1) obtain c0 c1 where c: "new_context True True = Inr c0" "plan_roots roots c0 = Inr c1"
    "c = fst (stream_variants rb f 0 roots c1)"
    by (auto simp: evaluate_batch_def bindR_Inr)
  note pl = plan_roots_accounted[OF c(1,2)]
  have z: "memo_on c1" "compute_calls c1 = (\<lambda>_. 0)" "hits c1 = 0" "unforeseen c1 = 0"
  proof -
    have f: "memo_on (fold add_count ys d) = memo_on d \<and> compute_calls (fold add_count ys d) = compute_calls d \<and>
        hits (fold add_count ys d) = hits d \<and> unforeseen (fold add_count ys d) = unforeseen d"
      for ys and d :: "('a, 'b) eval_ctx"
      by (induction ys arbitrary: d) (simp_all add: add_count_def)
    have "memo_on (fold (fold add_count) ys d) = memo_on d \<and> compute_calls (fold (fold add_count) ys d) = compute_calls d \<and>
        hits (fold (fold add_count) ys d) = hits d \<and> unforeseen (fold (fold add_count) ys d) = unforeseen d"
      for ys and d :: "('a, 'b) eval_ctx"
      by (induction ys arbitrary: d) (simp_all add: f)
    then show "memo_on c1" "compute_calls c1 = (\<lambda>_. 0)" "hits c1 = 0" "unforeseen c1 = 0"
      using c(1,2) by (auto simp: plan_roots_add_count raise_if_Inr new_context_def)
  qed
  have "once f [] c1" using pl z by (simp add: once_def memo_sound_def)
  moreover have "planned_ahead 0 roots c1"
    using pl(2) by (auto simp: planned_ahead_def root_pending_def counter_spec)
  ultimately have "once f ([] @ concat roots) (fst (stream_variants rb f 0 roots c1))"
    using pl(3) assms(2) by (intro once_stream) auto
  then show ?thesis by (simp add: c(3))
qed

section \<open>Nothing is retained at the end\<close>

text \<open>The requests of a root are one of the programs over the context.\<close>

lemma requests_program:
  "\<exists>p. node_program rb UNIV p \<and> (\<forall>c. fst (p c) = fst (run_requests rb f ids c))"
proof (induction ids)
  case Nil
  show ?case by (intro exI[of _ "\<lambda>c. (c, undefined)"]) (simp add: done_with)
next
  case (Cons i ids)
  then obtain p where p: "node_program rb UNIV p" "\<And>c. fst (p c) = fst (run_requests rb f ids c)" by blast
  define k where "k = (\<lambda>x. case x of Inl e \<Rightarrow> (\<lambda>c. (c, Inl e)) | Inr (v :: 'b) \<Rightarrow> p)"
  have "node_program rb UNIV (k x)" for x using p(1) by (cases x) (simp_all add: k_def done_with)
  then have "node_program rb UNIV (\<lambda>c. k (snd (memoized rb i (\<lambda>c. (c, f i)) c)) (fst (memoized rb i (\<lambda>c. (c, f i)) c)))"
    by (intro consume_node[where B = "{}"] done_with) simp_all
  moreover have "fst (k (snd (memoized rb i (\<lambda>c. (c, f i)) c)) (fst (memoized rb i (\<lambda>c. (c, f i)) c))) =
      fst (run_requests rb f (i # ids) c)" for c
    by (simp add: k_def split_beta p(2) split: sum.split)
  ultimately show ?case by blast
qed

lemma requests_accounted: "accounted c \<Longrightarrow> accounted (fst (run_requests rb f ids c))"
  using requests_program[of rb f ids] node_program_accounted by metis

lemma requests_length:
  "map_option length (pending (fst (run_requests rb f ids c))) = map_option length (pending c)"
  "active_root (fst (run_requests rb f ids c)) = active_root c"
  "\<And>q. active_root c = Some r \<Longrightarrow> q \<noteq> r \<Longrightarrow> root_pending (fst (run_requests rb f ids c)) q = root_pending c q"
proof -
  have len: "map_option length (pending (fst (consume i d))) = map_option length (pending d)"
    for i and d :: "('a, 'b) eval_ctx"
    by (cases "pending d") (auto simp: consume_def Let_def set_pending_def root_pending_def split: option.splits)
  have leaf: "map_option length (pending (fst (memoized rb i (\<lambda>c. (c, x)) d))) = map_option length (pending d)"
    for i x and d :: "('a, 'b) eval_ctx"
    using len[of i d] by (simp add: memoized_def Let_def split_beta count_compute_def split: option.split)
  have "map_option length (pending (fst (run_requests rb f ids c))) = map_option length (pending c) \<and>
    active_root (fst (run_requests rb f ids c)) = active_root c \<and>
    (\<forall>q. active_root c = Some r \<and> q \<noteq> r \<longrightarrow> root_pending (fst (run_requests rb f ids c)) q = root_pending c q)"
    by (induction ids arbitrary: c) (auto simp: split_beta Let_def leaf leaf_pending(2) leaf_other_root split: sum.split)
  then show "map_option length (pending (fst (run_requests rb f ids c))) = map_option length (pending c)"
    "active_root (fst (run_requests rb f ids c)) = active_root c"
    "\<And>q. active_root c = Some r \<Longrightarrow> q \<noteq> r \<Longrightarrow> root_pending (fst (run_requests rb f ids c)) q = root_pending c q"
    by auto
qed

lemma root_cleared:
  assumes "accounted c" "active_root c = None" "pending c = Some p" "0 \<le> r" "nat r < length p"
  shows "accounted (fst (run_root rb f r ids c))" "active_root (fst (run_root rb f r ids c)) = None"
    "pending (fst (run_root rb f r ids c)) = Some (p[nat r := []])"
proof -
  define c1 where "c1 = c\<lparr>active_root := Some r\<rparr>"
  define c2 where "c2 = fst (run_requests rb f ids c1)"
  have "accounted c1" using assms(1) accounted_cong[of c1 c] by (simp add: c1_def)
  then have a2: "accounted c2" unfolding c2_def by (rule requests_accounted)
  have r1: "active_root c1 = Some r" "pending c1 = Some p" using assms(3) by (simp_all add: c1_def)
  obtain p2 where p2: "pending c2 = Some p2" "length p2 = length p"
    using requests_length(1)[of rb f ids c1] r1(2) by (auto simp: c2_def)
  have other: "p2 ! k = p ! k" if "k < length p" "k \<noteq> nat r" for k
  proof -
    have "root_pending c2 (int k) = root_pending c1 (int k)"
      unfolding c2_def by (rule requests_length(3)[OF r1(1)]) (use that assms(4) in auto)
    then show ?thesis using that p2 r1(2) by (simp add: root_pending_def)
  qed
  have res: "fst (run_root rb f r ids c) = leave_root r c2"
    using assms(2) by (simp add: run_root_def enter_root_def split_beta c1_def c2_def)
  show "accounted (fst (run_root rb f r ids c))" unfolding res by (rule leave_root_spec(1)[OF a2])
  show "active_root (fst (run_root rb f r ids c)) = None"
    unfolding res by (simp add: leave_root_def Let_def split: option.split)
  have "p2[nat r := []] = p[nat r := []]"
  proof (rule nth_equalityI)
    show "p2[nat r := []] ! k = p[nat r := []] ! k" if "k < length (p2[nat r := []])" for k
      using that p2(2) by (cases "k = nat r") (simp_all add: other)
  qed (simp add: p2(2))
  then show "pending (fst (run_root rb f r ids c)) = Some (p[nat r := []])"
    unfolding res using leave_root_spec(2)[OF a2, of r] p2 assms(4,5) by simp
qed

lemma stream_cleared:
  assumes "accounted c" "active_root c = None" "pending c = Some (replicate m [] @ q)" "length q = length roots"
    and "snd (snd (stream_variants rb f (int m) roots c)) = None"
  shows "accounted (fst (stream_variants rb f (int m) roots c)) \<and>
    pending (fst (stream_variants rb f (int m) roots c)) = Some (replicate (m + length roots) [])"
  using assms
proof (induction roots arbitrary: c m q)
  case (Cons ids roots)
  define c1 where "c1 = fst (run_root rb f (int m) ids c)"
  obtain x q' where q: "q = x # q'" using Cons.prems(4) by (cases q) simp_all
  note r = root_cleared[OF Cons.prems(1,2,3), of "int m" rb f ids, folded c1_def, simplified q, simplified]
  have p1: "pending c1 = Some (replicate (Suc m) [] @ q')"
    using r(3) by (simp add: list_update_append replicate_append_same [symmetric])
  have st: "fst (stream_variants rb f (int m) (ids # roots) c) = fst (stream_variants rb f (int (Suc m)) roots c1)"
    "snd (snd (stream_variants rb f (int (Suc m)) roots c1)) = None"
    using Cons.prems(5) by (auto simp: c1_def split_beta Let_def algebra_simps split: sum.splits if_splits)
  show ?case using Cons.IH[OF r(1,2) p1 _ st(2)] Cons.prems(4) q st(1) by simp
qed simp

lemma batch_cleared:
  assumes "evaluate_batch rb f m planned roots = Inr (c, xs, None)" "length planned = length roots"
  shows "memo c = [] \<and> refcounts c = (\<lambda>_. None)"
proof -
  from assms(1) obtain c0 c1 where c: "new_context True m = Inr c0" "plan_roots planned c0 = Inr c1"
    "stream_variants rb f 0 roots c1 = (c, xs, None)"
    by (auto simp: evaluate_batch_def bindR_Inr)
  note pl = plan_roots_accounted[OF c(1,2)]
  have "accounted c \<and> pending c = Some (replicate (length roots) [])"
    using stream_cleared[OF pl(1,3), of 0 "map counter planned" roots rb f] pl(2) assms(2) c(3) by simp
  then show ?thesis using accounted_empty[of c] by auto
qed

end
