(* ===== verification/EvalContextProperties.thy ===== *)
theory EvalContextProperties
  imports EvalContextOnce
begin

text \<open>
  The properties of the evaluation context, each with a witness on a batch of two roots that
  share the node 1.
\<close>

definition wnode :: "nat \<Rightarrow> nat res" where
  "wnode i = (if i = 9 then Inl (InvalidRequest ''bad'') else Inr (10 * i))"

definition wrebuild :: "err \<Rightarrow> err option" where
  "wrebuild e = Some e"

definition wroots :: "nat list list" where
  "wroots = [[1, 2, 1], [3, 1]]"

section \<open>Results\<close>

text \<open>
  C16. Memoization never changes a batch: whatever consumptions were planned, with the memo on or
  off, and however exceptions are rebuilt, every root's result and the propagated exception are
  the ones of evaluating each root's nodes directly.
\<close>

theorem batch_result_is_direct:
  fixes f :: "'a \<Rightarrow> 'b res"
  shows "map_sum id snd (evaluate_batch rebuild f memo_enabled planned roots) = Inr (direct_batch f roots)"
proof -
  obtain c where c: "new_context True memo_enabled = (Inr c :: ('a, 'b) eval_ctx res)"
    by (auto simp: new_context_def)
  then have "pending c = None" "active_root c = None" by (auto simp: new_context_def)
  then obtain c' where c': "plan_roots planned c = Inr c'" by (auto simp: plan_roots_def Let_def)
  note p = plan_roots_accounted[OF c c']
  have "memo_sound f c'" using p(4) by (simp add: memo_sound_def)
  from stream_variants_sound[OF this p(3), of rebuild 0 roots] c c' show ?thesis
    by (simp add: evaluate_batch_def)
qed

text \<open>
  A memoized consumption returns exactly what the node's own computation gives, value or
  failure, and leaves every memo entry correct, also when that computation consumes other nodes
  through the same context.
\<close>

theorem memoized_returns_node:
  assumes "memo_sound f c"
    and "\<forall>c. memo_sound f c \<longrightarrow> snd (compute c) = f i \<and> memo_sound f (fst (compute c))"
  shows "snd (memoized rebuild i compute c) = f i \<and> memo_sound f (fst (memoized rebuild i compute c))"
  using memoized_implements[of f compute i rebuild] assms by (simp add: implements_def)

theorem memoized_returns_node_witness:
  "\<exists>c. new_context True True = Inr c \<and> snd (memoized wrebuild (9 :: nat) (\<lambda>c. (c, wnode 9)) c) = Inl (InvalidRequest ''bad'')"
proof -
  obtain c where c: "new_context True True = (Inr c :: (nat, nat) eval_ctx res)" by (auto simp: new_context_def)
  then have "memo_sound wnode c" by (auto simp: new_context_def memo_sound_def)
  from memoized_returns_node[OF this, of "\<lambda>c. (c, wnode 9)" 9 wrebuild] have
    "snd (memoized wrebuild (9 :: nat) (\<lambda>c. (c, wnode 9)) c) = Inl (InvalidRequest ''bad'')"
    by (simp add: wnode_def)
  with c show ?thesis by blast
qed

section \<open>Retention\<close>

text \<open>
  C40. The reference counts stay the consumptions still expected: any computation over the context
  in which no node consumes itself keeps every count equal to the sum of the roots' pending
  counters, without zero entries, and keeps a result only while a consumer of it is expected.
\<close>

theorem counts_are_expected_consumptions:
  assumes "node_program rebuild A p" "accounted c"
  shows "refcount (fst (p c)) i = int (expected (fst (p c)) i) \<and>
    (refcounts (fst (p c)) i = None \<longleftrightarrow> expected (fst (p c)) i = 0) \<and>
    (map_of (memo (fst (p c))) i = None \<or> 0 < expected (fst (p c)) i)"
  using node_program_accounted[OF assms] by (auto simp: accounted_def refcount_def)

theorem counts_are_expected_consumptions_witness:
  "\<exists>c c'. new_context True True = Inr c \<and> plan_roots wroots c = Inr c' \<and>
     refcount (fst (memoized wrebuild 1 (\<lambda>c. (c, wnode 1)) (c'\<lparr>active_root := Some 0\<rparr>))) 1 = 2"
proof -
  obtain c where c: "new_context True True = (Inr c :: (nat, nat) eval_ctx res)" by (auto simp: new_context_def)
  then obtain c' where c': "plan_roots wroots c = Inr c'" by (auto simp: plan_roots_def Let_def new_context_def)
  note pl = plan_roots_accounted[OF c c']
  define c1 where "c1 = c'\<lparr>active_root := Some 0\<rparr>"
  have a: "accounted c1" using pl(1) accounted_cong[of c1 c'] by (simp add: c1_def)
  have p: "pending c1 = Some (map counter wroots)" using pl(2) by (simp add: c1_def)
  have "tally (counter [1, 2, 1 :: nat]) 1 = 2" using counter_spec[of "[1, 2, 1 :: nat]" 1] by simp
  then have pr: "predicted 1 c1" using p by (simp add: predicted_def c1_def root_pending_def wroots_def)
  have "expected c1 1 = 3" using pl(5)[of 1] expected_cong[of c1 c' 1] by (simp add: c1_def wroots_def)
  then have e: "expected (fst (memoized wrebuild 1 (\<lambda>c. (c, wnode 1)) c1)) 1 = 2"
    using consume_expected(1)[of 1 c1 1] pr by (simp add: leaf_expected)
  show ?thesis using counts_are_expected_consumptions[OF leaf_program a, of wrebuild 1 "wnode 1" 1] e c c'
    unfolding c1_def by auto
qed

text \<open>
  C27. Nothing leaks: when every planned root of a batch has been evaluated, with failing roots and
  wrong predictions included, no memo entry and no reference count is left.
\<close>

theorem batch_retains_nothing:
  assumes "evaluate_batch rebuild f memo_enabled planned roots = Inr (c, outcomes, None)"
    and "length planned = length roots"
  shows "memo c = [] \<and> refcounts c = (\<lambda>_. None)"
  using assms by (rule batch_cleared)

theorem batch_retains_nothing_witness:
  "\<exists>c outcomes. evaluate_batch wrebuild wnode True [[1, 9], [2, 1]] [[9, 1], [1]] = Inr (c, outcomes, None) \<and>
     memo c = [] \<and> refcounts c = (\<lambda>_. None)"
proof -
  have d: "map_sum id snd (evaluate_batch wrebuild wnode True [[1, 9], [2, 1]] [[9, 1], [1]]) =
      Inr ([Inl (InvalidRequest ''bad''), Inr [10]], None)"
    by code_simp
  then obtain c where e: "evaluate_batch wrebuild wnode True [[1, 9], [2, 1]] [[9, 1], [1]] =
      Inr (c, [Inl (InvalidRequest ''bad''), Inr [10]], None)"
    by (cases "evaluate_batch wrebuild wnode True [[1, 9], [2, 1]] [[9, 1], [1]]") auto
  show ?thesis using batch_retains_nothing[OF e] e by auto
qed

section \<open>Reuse\<close>

text \<open>
  A batch whose roots consume exactly what was planned, with the memo on and no failing node,
  computes each consumed node once and no other node, serves every further consumption from the
  memo, and meets no consumption that was not predicted.
\<close>

theorem batch_computes_once:
  assumes "evaluate_batch rebuild f True roots roots = Inr (c, outcomes, p)"
    and "\<forall>i \<in> set (concat roots). \<exists>v. f i = Inr v"
  shows "compute_calls c i = (if i \<in> set (concat roots) then 1 else 0) \<and>
    hits c + card (set (concat roots)) = length (concat roots) \<and> unforeseen c = 0"
  using once_batch[OF assms(1)] assms(2) by (simp add: once_def)

theorem batch_computes_once_witness:
  "\<exists>c outcomes p. evaluate_batch wrebuild wnode True wroots wroots = Inr (c, outcomes, p) \<and>
     compute_calls c 1 = 1 \<and> compute_calls c 7 = 0 \<and> hits c = 2"
proof -
  obtain c outcomes p where e: "evaluate_batch wrebuild wnode True wroots wroots = Inr (c, outcomes, p)"
    by (cases "evaluate_batch wrebuild wnode True wroots wroots")
      (auto simp: evaluate_batch_def new_context_def plan_roots_def Let_def)
  have "\<forall>i \<in> set (concat wroots). \<exists>v. wnode i = Inr v" by (simp add: wroots_def wnode_def)
  moreover have "card (set (concat wroots)) = 3" "length (concat wroots) = 5"
    "1 \<in> set (concat wroots)" "7 \<notin> set (concat wroots)" by (simp_all add: wroots_def card_insert_if)
  ultimately show ?thesis
    using batch_computes_once[OF e, of 1] batch_computes_once[OF e, of 7] e by auto
qed

end
