(* ===== verification/NodeIdentity.thy ===== *)
theory NodeIdentity
  imports PyText "HOL-Library.FSet" "HOL-Library.Multiset"
begin

text \<open>
  Semantic node identities (\<open>domain/node_identity.py\<close>): the type-tagged canonical form of a
  parameter value, with floats given by their bits, and \<open>node_spec\<close> with its key-sorted
  layout.  The memo of the evaluation context is keyed by these identities, so two nodes must
  share one only when they compute the same.
\<close>

section \<open>Canonical values\<close>

datatype pval =
    PNone
  | PBool bool
  | PInt int
  | PFloat double
  | PStr string
  | PTuple "pval list"
  | PSet "pval list"
  | POther string

datatype canon =
    CNone
  | CBool bool
  | CInt int
  | CFloat string
  | CStr string
  | CTuple "canon list"
  | CSet "canon list"

definition join :: "string \<Rightarrow> string list \<Rightarrow> string" where
  "join sep xs = (case xs of [] \<Rightarrow> [] | x # rest \<Rightarrow> x @ concat (map (\<lambda>y. sep @ y) rest))"

definition repr_items :: "string list \<Rightarrow> string" where
  "repr_items xs = ''('' @ join '', '' xs @ (if length xs = 1 then '','' else []) @ '')''"

text \<open>\<open>repr\<close> of the tagged tuple.\<close>

fun repr_canon :: "canon \<Rightarrow> string" where
  "repr_canon CNone = repr_items [repr_str ''none'']"
| "repr_canon (CBool b) = repr_items [repr_str ''bool'', if b then ''True'' else ''False'']"
| "repr_canon (CInt n) = repr_items [repr_str ''int'', show_int n]"
| "repr_canon (CFloat h) = repr_items [repr_str ''float'', repr_str h]"
| "repr_canon (CStr s) = repr_items [repr_str ''str'', repr_str s]"
| "repr_canon (CTuple xs) = repr_items [repr_str ''tuple'', repr_items (map repr_canon xs)]"
| "repr_canon (CSet xs) = repr_items [repr_str ''set'', repr_items (map repr_canon xs)]"

lemma mapR_cong [fundef_cong]: "xs = ys \<Longrightarrow> (\<And>x. x \<in> set ys \<Longrightarrow> f x = g x) \<Longrightarrow> mapR f xs = mapR g ys"
  by (induction xs arbitrary: ys) auto

text \<open>\<open>isinstance\<close> tests in the source's order; \<open>bool\<close> comes before \<open>int\<close>.\<close>

fun canonical :: "pval \<Rightarrow> canon res" where
  "canonical PNone = Inr CNone"
| "canonical (PBool b) = Inr (CBool b)"
| "canonical (PInt n) = Inr (CInt n)"
| "canonical (PFloat x) = Inr (CFloat (float_hex x))"
| "canonical (PStr s) = Inr (CStr s)"
| "canonical (PTuple xs) = bindR (mapR canonical xs) (\<lambda>cs. Inr (CTuple cs))"
| "canonical (PSet xs) = bindR (mapR canonical xs) (\<lambda>cs. Inr (CSet (sort_key repr_canon cs)))"
| "canonical (POther t) = Inl (PyTypeError (''unsupported NodeSpec parameter type: '' @ t))"

section \<open>Node specifications\<close>

datatype node =
    NodeSpec (n_kind: string) (n_version: int) (n_params: "(string \<times> canon) list")
      (n_upstream: "(string \<times> upstream) list") (n_side: "string option")
  and upstream = Absent | One node | Many "node fset"

text \<open>An upstream value as the caller passes it: an iterable becomes a set.\<close>

datatype dependency = NoNode | Single node | Several "node list"

definition normal_upstream :: "dependency \<Rightarrow> upstream" where
  "normal_upstream d = (case d of NoNode \<Rightarrow> Absent | Single n \<Rightarrow> One n | Several ns \<Rightarrow> Many (fset_of_list ns))"

definition node_spec ::
  "string \<Rightarrow> int \<Rightarrow> (string \<times> pval) list \<Rightarrow> (string \<times> dependency) list \<Rightarrow> string option \<Rightarrow> node res" where
  "node_spec kind version params ups side =
     raise_if (side \<noteq> None \<and> side \<noteq> Some ''long'' \<and> side \<noteq> Some ''short'')
       (PyValueError ''NodeSpec side must be long, short, or None'')
     (bindR (mapR (\<lambda>(k, v). bindR (canonical v) (\<lambda>c. Inr (k, c))) (sort_key fst params)) (\<lambda>ps.
      Inr (NodeSpec kind version ps (map (map_prod id normal_upstream) (sort_key fst ups)) side)))"

definition param :: "node \<Rightarrow> string \<Rightarrow> canon res" where
  "param n name = (case map_of (n_params n) name of None \<Rightarrow> Inl (PyKeyError name) | Some v \<Rightarrow> Inr v)"

definition dependency_of :: "node \<Rightarrow> string \<Rightarrow> upstream res" where
  "dependency_of n role = (case map_of (n_upstream n) role of None \<Rightarrow> Inl (PyKeyError role) | Some v \<Rightarrow> Inr v)"

section \<open>When two values are the same parameter\<close>

text \<open>Same type and same value; a float is the same only bit for bit, except that all NaNs are one.\<close>

fun same_value :: "pval \<Rightarrow> pval \<Rightarrow> bool" where
  "same_value PNone PNone = True"
| "same_value (PBool a) (PBool b) = (a = b)"
| "same_value (PInt a) (PInt b) = (a = b)"
| "same_value (PFloat a) (PFloat b) = (is_nan a \<and> is_nan b \<or> a = b)"
| "same_value (PStr a) (PStr b) = (a = b)"
| "same_value (PTuple xs) (PTuple ys) = list_all2 same_value xs ys"
| "same_value _ _ = False"

text \<open>Parameters without sets and of supported types, with well-formed doubles.\<close>

fun plain :: "pval \<Rightarrow> bool" where
  "plain (PFloat d) = double_ok d"
| "plain (PTuple xs) = list_all plain xs"
| "plain (PSet xs) = False"
| "plain (POther t) = False"
| "plain _ = True"

lemma canonical_plain: "plain v \<Longrightarrow> \<exists>c. canonical v = Inr c"
proof (induction v rule: plain.induct)
  case (2 xs)
  then have "\<exists>cs. mapR canonical xs = Inr cs"
  proof (induction xs)
    case (Cons x xs)
    then show ?case by fastforce
  qed simp
  then show ?case by auto
qed auto

lemma mapR_same:
  assumes "\<And>x y. x \<in> set xs \<Longrightarrow> y \<in> set ys \<Longrightarrow> (f x = f y) = P x y"
    "\<And>x. x \<in> set xs \<Longrightarrow> is_ok (f x)" "\<And>y. y \<in> set ys \<Longrightarrow> is_ok (f y)"
  shows "(mapR f xs = mapR f ys) = list_all2 P xs ys"
proof -
  have ok: "is_ok (f x) \<Longrightarrow> \<exists>c. f x = Inr c" for x by (cases "f x") auto
  have all: "\<exists>cs. mapR f zs = Inr cs" if "\<And>z. z \<in> set zs \<Longrightarrow> is_ok (f z)" for zs
    using that
  proof (induction zs)
    case (Cons z zs)
    obtain c where "f z = Inr c" using ok Cons.prems by auto
    moreover obtain cs where "mapR f zs = Inr cs" using Cons by auto
    ultimately show ?case by simp
  qed simp
  show ?thesis using assms
  proof (induction xs arbitrary: ys)
    case Nil
    obtain cs where cs: "mapR f ys = Inr cs" using all Nil.prems(3) by blast
    then have "length cs = length ys" by (rule mapR_length)
    then show ?case using cs by (cases ys) (auto simp del: mapR.simps(2))
  next
    case (Cons x xs)
    show ?case
    proof (cases ys)
      case Nil
      obtain cs where "mapR f (x # xs) = Inr cs" using all Cons.prems(2) by blast
      moreover from mapR_length[OF this] have "cs \<noteq> []" by auto
      ultimately show ?thesis using Nil by (simp del: mapR.simps(2))
    next
      case (Cons y ys')
      obtain a b as bs where r: "f x = Inr a" "f y = Inr b" "mapR f xs = Inr as" "mapR f ys' = Inr bs"
        using ok Cons.prems(2,3) all[of xs] all[of ys'] unfolding Cons by (metis list.set_intros)
      have "(mapR f xs = mapR f ys') = list_all2 P xs ys'"
        by (rule Cons.IH) (use Cons.prems Cons in auto)
      moreover have "(f x = f y) = P x y" using Cons.prems(1) Cons by simp
      ultimately show ?thesis using r Cons by auto
    qed
  qed
qed

lemma canonical_same: "plain v \<Longrightarrow> plain w \<Longrightarrow> (canonical v = canonical w) = same_value v w"
proof (induction v w rule: same_value.induct)
  case (6 xs ys)
  have "(mapR canonical xs = mapR canonical ys) = list_all2 same_value xs ys"
  proof (rule mapR_same)
    have ok: "is_ok (canonical v)" if "plain v" for v using canonical_plain[OF that] by auto
    show "is_ok (canonical x)" if "x \<in> set xs" for x using that 6(2) by (intro ok) (simp add: list_all_iff)
    show "is_ok (canonical y)" if "y \<in> set ys" for y using that 6(3) by (intro ok) (simp add: list_all_iff)
  qed (use 6 in \<open>simp add: list_all_iff\<close>)
  moreover obtain as bs where "mapR canonical xs = Inr as" "mapR canonical ys = Inr bs"
    using canonical_plain[OF 6(2)] canonical_plain[OF 6(3)] by (auto simp: bindR_Inr)
  ultimately show ?case by auto
qed (auto simp: float_hex_inj bindR_def split: sum.splits)

text \<open>Sorting by distinct keys forgets the order of declaration.\<close>

lemma sort_key_distinct_keys:
  fixes xs ys :: "('k :: linorder \<times> 'v) list"
  assumes "mset xs = mset ys" "distinct (map fst xs)"
  shows "sort_key fst xs = sort_key fst ys"
proof (rule properties_for_sort_key)
  have d: "distinct (map fst ys)" using assms by (metis mset_eq_imp_distinct_iff mset_map)
  have single: "filter (\<lambda>x. fst k = fst x) zs = [k]" if "distinct (map fst zs)" "k \<in> set zs" for k and zs :: "('k \<times> 'v) list"
    using that
  proof (induction zs)
    case (Cons z zs)
    show ?case
    proof (cases "k = z")
      case True
      have "fst z \<notin> fst ` set zs" using Cons.prems(1) by simp
      then have "\<forall>x\<in>set zs. fst x \<noteq> fst z" by (metis image_eqI)
      then have "filter (\<lambda>x. fst z = fst x) zs = []" by (auto simp: filter_empty_conv)
      then show ?thesis using True by simp
    next
      case False
      then have "k \<in> set zs" using Cons.prems(2) by simp
      then have "filter (\<lambda>x. fst k = fst x) zs = [k]" using Cons by simp
      moreover have "fst k \<noteq> fst z" using Cons.prems(1) \<open>k \<in> set zs\<close> by (metis distinct.simps(2) image_eqI list.map(2) list.set_map)
      ultimately show ?thesis by simp
    qed
  qed simp
  show "mset (sort_key fst ys) = mset xs" using assms(1) by simp
  show "filter (\<lambda>x. fst k = fst x) (sort_key fst ys) = filter (\<lambda>x. fst k = fst x) xs"
    if "k \<in> set (sort_key fst ys)" for k
  proof -
    have k: "k \<in> set ys" using that by simp
    then have "k \<in> set xs" using assms(1) by (metis set_mset_mset)
    moreover have "distinct (map fst (sort_key fst ys))"
      using d by (metis mset_eq_imp_distinct_iff mset_map mset_sort)
    ultimately show ?thesis using single assms(2) that by metis
  qed
  show "sorted (map fst (sort_key fst ys))" by simp
qed

lemma mapR_pairs_fst:
  "mapR (\<lambda>(k, v). bindR (g v) (\<lambda>c. Inr (k, c))) xs = Inr ys \<Longrightarrow> map fst ys = map fst xs"
  by (induction xs arbitrary: ys) (auto simp: bindR_Inr)

lemma mapR_pairs_lookup:
  "mapR (\<lambda>(k, v). bindR (g v) (\<lambda>c. Inr (k, c))) xs = Inr ys \<Longrightarrow> map_of xs k = Some v \<Longrightarrow>
     \<exists>c. g v = Inr c \<and> map_of ys k = Some c"
  by (induction xs arbitrary: ys) (auto simp: bindR_Inr split: if_splits)

text \<open>
  What equal nodes have in common, dependency by dependency and parameter by parameter.
\<close>

lemma map_of_sort_key_fst: "distinct (map fst zs) \<Longrightarrow> map_of (sort_key fst zs) = map_of zs"
proof (rule map_of_inject_set[THEN iffD2])
  assume d: "distinct (map fst zs)"
  have "mset (map fst (sort_key fst zs)) = mset (map fst zs)" by (simp only: mset_map mset_sort)
  then show "distinct (map fst (sort_key fst zs))" using d by (metis mset_eq_imp_distinct_iff)
qed simp_all

lemma map_of_normal_upstream: "map_of (map (map_prod id normal_upstream) xs) k = map_option normal_upstream (map_of xs k)"
  by (induction xs) auto

lemma node_spec_same_upstream:
  assumes "node_spec kind ver params ups side = Inr n" "node_spec kind' ver' params' ups' side' = Inr n"
    and "distinct (map fst ups)" "distinct (map fst ups')"
  shows "map_option normal_upstream (map_of ups k) = map_option normal_upstream (map_of ups' k)"
proof -
  have e: "map (map_prod id normal_upstream) (sort_key fst ups) = map (map_prod id normal_upstream) (sort_key fst ups')"
    using assms(1,2) by (auto simp: node_spec_def bindR_Inr raise_if_Inr)
  show ?thesis using arg_cong[OF e, of "\<lambda>m. map_of m k"] assms(3,4)
    by (simp add: map_of_normal_upstream map_of_sort_key_fst)
qed

lemma node_spec_same_kind:
  "node_spec kind ver params ups side = Inr n \<Longrightarrow> node_spec kind' ver' params' ups' side' = Inr n \<Longrightarrow>
     kind = kind' \<and> ver = ver' \<and> side = side'"
  by (auto simp: node_spec_def bindR_Inr raise_if_Inr)

lemma node_spec_same_params:
  assumes "node_spec kind ver params ups side = Inr n" "node_spec kind' ver' params' ups' side' = Inr n"
    and "distinct (map fst params)" "distinct (map fst params')"
    and "map_of params k = Some v" "plain v"
  shows "kind = kind' \<and> ver = ver' \<and> side = side' \<and> set (map fst params) = set (map fst params') \<and>
    (\<exists>v'. map_of params' k = Some v' \<and> canonical v' = canonical v)"
proof -
  let ?g = "\<lambda>(k, v). bindR (canonical v) (\<lambda>c. Inr (k, c))"
  from assms(1) obtain ps where ps: "mapR ?g (sort_key fst params) = Inr ps"
    "n = NodeSpec kind ver ps (map (map_prod id normal_upstream) (sort_key fst ups)) side"
    by (auto simp: node_spec_def bindR_Inr raise_if_Inr)
  from assms(2) ps(2) have ps': "mapR ?g (sort_key fst params') = Inr ps" and
    eq: "kind = kind'" "ver = ver'" "side = side'"
    by (auto simp: node_spec_def bindR_Inr raise_if_Inr)
  have "map fst (sort_key fst params) = map fst (sort_key fst params')"
    using mapR_pairs_fst[OF ps(1)] mapR_pairs_fst[OF ps'] by simp
  then have "set (map fst (sort_key fst params)) = set (map fst (sort_key fst params'))" by (simp only:)
  then have keys: "set (map fst params) = set (map fst params')" by simp
  have lookup: "map_of (sort_key fst zs) k = map_of zs k" if "distinct (map fst zs)" for zs :: "(string \<times> pval) list"
    using map_of_sort_key_fst[OF that] by simp
  obtain c where c: "canonical v = Inr c" "map_of ps k = Some c"
    using mapR_pairs_lookup[OF ps(1)] lookup[OF assms(3)] assms(5) by metis
  then have "k \<in> set (map fst ps)" by (auto dest: map_of_SomeD intro: rev_image_eqI)
  then have "k \<in> set (map fst (sort_key fst params'))" using mapR_pairs_fst[OF ps'] by simp
  then obtain v' where v': "map_of (sort_key fst params') k = Some v'"
    by (metis map_of_eq_None_iff list.set_map not_None_eq)
  then obtain c' where "canonical v' = Inr c'" "map_of ps k = Some c'"
    using mapR_pairs_lookup[OF ps'] by metis
  then show ?thesis using c keys eq v' lookup[OF assms(4)] by auto
qed

section \<open>Properties\<close>

text \<open>
  Parameters get the same canonical form exactly when they have the same type and value, floats
  compared bit for bit: \<open>True\<close>, \<open>1\<close>, \<open>1.0\<close> and \<open>''1''\<close> all differ, \<open>0.0\<close> differs from
  \<open>-0.0\<close>, and a NaN is equal to every NaN.
\<close>

theorem canonical_is_exact:
  assumes "plain v" "plain w"
  shows "(canonical v = canonical w) = same_value v w"
  using assms by (rule canonical_same)

theorem canonical_is_exact_witness:
  "canonical (PTuple [PInt 1, PFloat \<lparr>d_sign = True, d_exp = 0, d_frac = 0\<rparr>]) \<noteq>
   canonical (PTuple [PInt 1, PFloat \<lparr>d_sign = False, d_exp = 0, d_frac = 0\<rparr>])"
  by (subst canonical_is_exact) (simp_all add: double_ok_def is_nan_def)

text \<open>
  A node specification does not depend on the order in which parameters and dependencies were
  declared, nor on the order and repetition of the nodes of a dependency set.
\<close>

theorem node_spec_order_free:
  assumes "mset params = mset params'" "distinct (map fst params)"
    and "mset ups = mset ups'" "distinct (map fst ups)" and "set ns = set ns'"
  shows "node_spec kind ver params ups side = node_spec kind ver params' ups' side \<and>
    normal_upstream (Several ns) = normal_upstream (Several ns')"
proof
  show "node_spec kind ver params ups side = node_spec kind ver params' ups' side"
    using sort_key_distinct_keys[OF assms(1,2)] sort_key_distinct_keys[OF assms(3,4)]
    by (simp add: node_spec_def)
  have "fset_of_list ns = fset_of_list ns'" using assms(5) by (auto simp: fset_eq_iff fset_of_list_elem)
  then show "normal_upstream (Several ns) = normal_upstream (Several ns')" by (simp add: normal_upstream_def)
qed

theorem node_spec_order_free_witness:
  "node_spec ''k'' 1 [(''b'', PInt 2), (''a'', PInt 1)] [] None = node_spec ''k'' 1 [(''a'', PInt 1), (''b'', PInt 2)] [] None"
  using node_spec_order_free[of "[(''b'', PInt 2), (''a'', PInt 1)]" "[(''a'', PInt 1), (''b'', PInt 2)]" "[]" "[]" "[]" "[]"]
  by auto

text \<open>
  Equal identities mean equal inputs: two specifications that build the same node agree in kind,
  version and side, name the same parameters, and give each parameter the same value.
\<close>

theorem node_spec_injective:
  assumes "node_spec kind ver params ups side = Inr n" "node_spec kind' ver' params' ups' side' = Inr n"
    and "distinct (map fst params)" "distinct (map fst params')"
    and "map_of params k = Some v" "plain v"
  shows "kind = kind' \<and> ver = ver' \<and> side = side' \<and> set (map fst params) = set (map fst params') \<and>
    (\<exists>v'. map_of params' k = Some v' \<and> canonical v' = canonical v)"
  using assms by (rule node_spec_same_params)

theorem node_spec_injective_witness:
  "node_spec ''k'' 1 [(''a'', PInt 1)] [] None \<noteq> node_spec ''k'' 1 [(''a'', PBool True)] [] None"
proof
  assume e: "node_spec ''k'' 1 [(''a'', PInt 1)] [] None = node_spec ''k'' 1 [(''a'', PBool True)] [] None"
  have n: "node_spec ''k'' 1 [(''a'', PInt 1)] [] None = Inr (NodeSpec ''k'' 1 [(''a'', CInt 1)] [] None)"
    by (simp add: node_spec_def)
  from node_spec_injective[OF n e[symmetric, unfolded n], of "''a''" "PInt 1"] show False by simp
qed

end
