(* ===== verification/CompositeSpec.thy ===== *)
theory CompositeSpec
  imports Prelude
begin

text \<open>
  Composites (\<open>strategies/ema_pullback/composite_spec.py\<close>): the parser that
  \<open>composite_setup\<close> and \<open>composite_phase_condition\<close> share, with their two child
  parsers, the composites of a section, and the internal keys of semantic children.
\<close>

section \<open>Data\<close>

definition COMPOSITE_SETUP :: string where "COMPOSITE_SETUP = ''composite_setup''"
definition COMPOSITE_PHASE_CONDITION :: string where "COMPOSITE_PHASE_CONDITION = ''composite_phase_condition''"

definition SEMANTIC_SETUP_CHILDREN :: "string list" where
  "SEMANTIC_SETUP_CHILDREN = [''untouched_anchor_setup'', ''ema_bounce_counter_setup'',
     ''anchor_stack_width_setup'', ''anchor_stack_width_band_setup'']"

definition PHASE_ATOM_CHILDREN :: "string list" where
  "PHASE_ATOM_CHILDREN = [''bars_in_trade'', ''mfe_pct'', ''mfe_atr'', ''mfe_r'', ''adx_di_threshold'',
     ''change_since_entry'']"

record composite_child =
  child_id :: string
  child_setup :: "obj option"
  child_predicate :: "obj option"
  child_condition :: "obj option"

record composite_path =
  path_id :: string
  require :: "string list"
  at_least_k :: "int option"
  at_least_of :: "string list"

record composite_spec =
  instance_id :: string
  spec_children :: "composite_child list"
  spec_paths :: "composite_path list"

record composite_phase_condition =
  cond_children :: "composite_child list"
  cond_paths :: "composite_path list"

text \<open>\<open>spec.child(child_id)\<close>\<close>

definition find_child :: "composite_child list \<Rightarrow> string \<Rightarrow> composite_child res" where
  "find_child cs k = (case find (\<lambda>c. child_id c = k) cs of None \<Rightarrow> Inl (PyKeyError k) | Some c \<Rightarrow> Inr c)"

definition child_instance_key :: "string \<Rightarrow> string \<Rightarrow> string" where
  "child_instance_key inst child = inst @ ''/'' @ child"

text \<open>
  \<open>str(payload.get("component_id", ""))\<close> where it is compared with component names: only a
  string document can equal one, so every other document is a text that is no component's name.
\<close>

definition component_id :: "obj \<Rightarrow> string option" where
  "component_id ob = (case get_or ob ''component_id'' (JStr []) of JStr s \<Rightarrow> Some s | _ \<Rightarrow> None)"

definition child_setup_item :: "composite_spec \<Rightarrow> composite_child \<Rightarrow> obj res" where
  "child_setup_item spec child =
     (case child_setup child of
        None \<Rightarrow> Inl PyAssertionError
      | Some su \<Rightarrow>
          bindR (require_mapping (get_or su ''params'' (JObj [])) ''params'') (\<lambda>params.
          Inr [(''component_id'', case component_id su of Some s \<Rightarrow> JStr s | None \<Rightarrow> get su ''component_id''),
               (''instance_id'', JStr (child_instance_key (instance_id spec) (child_id child))),
               (''params'', JObj params)]))"

section \<open>Readers\<close>

definition nonempty_list :: "json \<Rightarrow> string \<Rightarrow> json list res" where
  "nonempty_list v path =
     (case v of JList xs \<Rightarrow> raise_if (xs = []) (InvalidRequest (path @ '' must be a non-empty list'')) (Inr xs)
      | _ \<Rightarrow> Inl (InvalidRequest (path @ '' must be a non-empty list'')))"

definition ident :: "json \<Rightarrow> string \<Rightarrow> string res" where
  "ident v path =
     (case v of
        JStr s \<Rightarrow> raise_if (s = []) (InvalidRequest (path @ '' must be a non-empty string''))
                 (raise_if (CHR ''/'' \<in> set s) (InvalidRequest (path @ '' must not contain '' @ [char_of (39 :: nat), CHR ''/'', char_of (39 :: nat)]))
                   (Inr s))
      | _ \<Rightarrow> Inl (InvalidRequest (path @ '' must be a non-empty string'')))"

text \<open>\<open>tuple(f(item, f"{path}[{index}]") ...)\<close>\<close>

fun map_indexed :: "(json \<Rightarrow> string \<Rightarrow> 'a res) \<Rightarrow> string \<Rightarrow> nat \<Rightarrow> json list \<Rightarrow> 'a list res" where
  "map_indexed f path i [] = Inr []"
| "map_indexed f path i (x # xs) =
     bindR (f x (at_index path i)) (\<lambda>y. bindR (map_indexed f path (Suc i) xs) (\<lambda>ys. Inr (y # ys)))"

section \<open>Children\<close>

definition setup_child :: "json \<Rightarrow> string \<Rightarrow> composite_child res" where
  "setup_child raw path =
     bindR (require_mapping raw path) (\<lambda>payload.
     bindR (ident (get payload ''child_id'') (path @ ''.child_id'')) (\<lambda>cid.
     (let has_setup = (get payload ''setup'' \<noteq> JNull); has_predicate = (get payload ''predicate'' \<noteq> JNull) in
      raise_if (has_setup = has_predicate) (InvalidRequest (path @ '' must carry exactly one of setup or predicate''))
      (raise_if (unknown_fields payload [''child_id'', ''setup'', ''predicate''] \<noteq> [])
        (InvalidRequest (path @ '' has unknown fields''))
      (if has_setup then
         bindR (require_mapping (get payload ''setup'') (path @ ''.setup'')) (\<lambda>su.
         (let cmp = component_id su in
          raise_if (cmp = Some COMPOSITE_SETUP) (InvalidRequest ''composite_setup cannot be nested'')
          (raise_if (case cmp of None \<Rightarrow> True | Some c \<Rightarrow> c \<notin> set SEMANTIC_SETUP_CHILDREN)
            (InvalidRequest ''unsupported composite setup child'')
          (raise_if (has_key su ''instance_id'') (InvalidRequest ''composite setup child must not declare instance_id'')
          (raise_if (has_key su ''context_consumption'')
            (InvalidRequest ''composite setup child must not declare context_consumption'')
          (bindR (require_mapping (get_or su ''params'' (JObj [])) (path @ ''.setup.params'')) (\<lambda>_.
           Inr \<lparr>child_id = cid, child_setup = Some su, child_predicate = None, child_condition = None\<rparr>)))))))
       else
         bindR (require_mapping (get payload ''predicate'') (path @ ''.predicate'')) (\<lambda>pr.
         Inr \<lparr>child_id = cid, child_setup = None, child_predicate = Some pr, child_condition = None\<rparr>))))))"

definition phase_child :: "json \<Rightarrow> string \<Rightarrow> composite_child res" where
  "phase_child raw path =
     bindR (require_mapping raw path) (\<lambda>payload.
     bindR (ident (get payload ''child_id'') (path @ ''.child_id'')) (\<lambda>cid.
     (let has_condition = (get payload ''condition'' \<noteq> JNull); has_predicate = (get payload ''predicate'' \<noteq> JNull) in
      raise_if (has_condition = has_predicate)
        (InvalidRequest (path @ '' must carry exactly one of condition or predicate''))
      (raise_if (unknown_fields payload [''child_id'', ''condition'', ''predicate''] \<noteq> [])
        (InvalidRequest (path @ '' has unknown fields''))
      (if has_predicate then
         bindR (require_mapping (get payload ''predicate'') (path @ ''.predicate'')) (\<lambda>pr.
         Inr \<lparr>child_id = cid, child_setup = None, child_predicate = Some pr, child_condition = None\<rparr>)
       else
         bindR (require_mapping (get payload ''condition'') (path @ ''.condition'')) (\<lambda>co.
         (let cmp = component_id co in
          raise_if (cmp = Some COMPOSITE_PHASE_CONDITION) (InvalidRequest ''composite_phase_condition cannot be nested'')
          (raise_if (case cmp of None \<Rightarrow> True | Some c \<Rightarrow> c \<notin> set PHASE_ATOM_CHILDREN)
            (InvalidRequest ''unsupported composite phase condition child'')
          (raise_if (unknown_fields co [''component_id'', ''params''] \<noteq> [])
            (InvalidRequest (path @ ''.condition has unknown fields''))
          (bindR (require_mapping (get_or co ''params'' (JObj [])) (path @ ''.condition.params'')) (\<lambda>_.
           Inr \<lparr>child_id = cid, child_setup = None, child_predicate = None, child_condition = Some co\<rparr>)))))))))))"

section \<open>Paths and structure\<close>

definition references :: "json \<Rightarrow> string \<Rightarrow> string list res" where
  "references v path =
     bindR (nonempty_list v path) (\<lambda>items.
     bindR (map_indexed ident path 0 items) (\<lambda>refs.
     raise_if (\<not> distinct refs) (InvalidRequest (path @ '' must not repeat a child_id'')) (Inr refs)))"

text \<open>The vote of a path: \<open>at_least\<close> with its \<open>k\<close> (a \<open>bool\<close> is no integer here).\<close>

definition parse_at_least :: "obj \<Rightarrow> string \<Rightarrow> (int option \<times> string list) res" where
  "parse_at_least payload path =
     (if get payload ''at_least'' = JNull then Inr (None, [])
      else bindR (require_mapping (get payload ''at_least'') (path @ ''.at_least'')) (\<lambda>al.
           bindR (references (get al ''of'') (path @ ''.at_least.of'')) (\<lambda>al_of.
           (case get al ''k'' of
              JInt k \<Rightarrow> raise_if (\<not> (1 \<le> k \<and> k \<le> int (length al_of)))
                         (InvalidRequest (path @ ''.at_least.k must be an integer in 1..len(of)''))
                         (Inr (Some k, al_of))
            | _ \<Rightarrow> Inl (InvalidRequest (path @ ''.at_least.k must be an integer in 1..len(of)''))))))"

definition parse_path :: "json \<Rightarrow> string \<Rightarrow> composite_path res" where
  "parse_path raw path =
     bindR (require_mapping raw path) (\<lambda>payload.
     bindR (ident (get payload ''path_id'') (path @ ''.path_id'')) (\<lambda>pid.
     raise_if (unknown_fields payload [''path_id'', ''require'', ''at_least''] \<noteq> [])
       (InvalidRequest (path @ '' has unknown fields''))
     (bindR (if get payload ''require'' = JNull then Inr []
             else references (get payload ''require'') (path @ ''.require'')) (\<lambda>req.
      bindR (parse_at_least payload path) (\<lambda>(k, al_of).
      raise_if (req = [] \<and> k = None) (InvalidRequest (path @ '' must declare require or at_least''))
        (Inr \<lparr>path_id = pid, require = req, at_least_k = k, at_least_of = al_of\<rparr>))))))"

definition path_refs :: "composite_path \<Rightarrow> string list" where
  "path_refs p = require p @ at_least_of p"

definition composite_structure ::
  "obj \<Rightarrow> string \<Rightarrow> (json \<Rightarrow> string \<Rightarrow> composite_child res) \<Rightarrow> (composite_child list \<times> composite_path list) res" where
  "composite_structure params path parse_child =
     bindR (nonempty_list (get params ''children'') (path @ ''.params.children'')) (\<lambda>raw_children.
     bindR (map_indexed parse_child (path @ ''.params.children'') 0 raw_children) (\<lambda>children.
     raise_if (\<not> distinct (map child_id children)) (InvalidRequest ''composite child_id values must be unique'')
     (bindR (nonempty_list (get params ''paths'') (path @ ''.params.paths'')) (\<lambda>raw_paths.
      bindR (map_indexed parse_path (path @ ''.params.paths'') 0 raw_paths) (\<lambda>paths.
      raise_if (\<not> distinct (map path_id paths)) (InvalidRequest ''composite path_id values must be unique'')
      (raise_if (\<not> set (concat (map path_refs paths)) \<subseteq> set (map child_id children))
        (InvalidRequest ''composite path references an unknown child'')
      (raise_if (\<not> set (map child_id children) \<subseteq> set (concat (map path_refs paths)))
        (InvalidRequest ''composite children must be referenced by a path'')
        (Inr (children, paths)))))))))"

definition parse_composite_setup :: "obj \<Rightarrow> string \<Rightarrow> composite_spec res" where
  "parse_composite_setup it path =
     bindR (ident (get it ''instance_id'') (path @ ''.instance_id'')) (\<lambda>inst.
     bindR (require_mapping (get_or it ''params'' (JObj [])) (path @ ''.params'')) (\<lambda>params.
     bindR (composite_structure params path setup_child) (\<lambda>(children, paths).
     Inr \<lparr>instance_id = inst, spec_children = children, spec_paths = paths\<rparr>)))"

definition parse_composite_phase_condition :: "obj \<Rightarrow> string \<Rightarrow> composite_phase_condition res" where
  "parse_composite_phase_condition condition path =
     raise_if (unknown_fields condition [''component_id'', ''params''] \<noteq> [])
       (InvalidRequest (path @ '' has unknown fields''))
     (bindR (require_mapping (get_or condition ''params'' (JObj [])) (path @ ''.params'')) (\<lambda>params.
      raise_if (unknown_fields params [''children'', ''paths''] \<noteq> [])
        (InvalidRequest (path @ ''.params has unknown fields''))
      (bindR (composite_structure params path phase_child) (\<lambda>(children, paths).
       Inr \<lparr>cond_children = children, cond_paths = paths\<rparr>))))"

section \<open>Composites of a section\<close>

text \<open>\<open>exit_management.get("phase_rules", ()) or ()\<close>; anything but a list gives none.\<close>

definition phase_rule_list :: "obj \<Rightarrow> json list" where
  "phase_rule_list em = (case get_or em ''phase_rules'' (JList []) of JList xs \<Rightarrow> xs | _ \<Rightarrow> [])"

definition rule_condition :: "json \<Rightarrow> obj option" where
  "rule_condition rule = (case rule of JObj r \<Rightarrow> as_mapping (get r ''condition'') | _ \<Rightarrow> None)"

definition is_composite_condition :: "obj \<Rightarrow> bool" where
  "is_composite_condition c = (component_id c = Some COMPOSITE_PHASE_CONDITION)"

fun composites_from :: "nat \<Rightarrow> json list \<Rightarrow> (nat \<times> composite_phase_condition) list res" where
  "composites_from i [] = Inr []"
| "composites_from i (rule # rules) =
     (case rule_condition rule of
        Some c \<Rightarrow>
          (if is_composite_condition c then
             bindR (parse_composite_phase_condition c (at_index ''phase_rules'' i @ ''.condition'')) (\<lambda>p.
             bindR (composites_from (Suc i) rules) (\<lambda>rest. Inr ((i, p) # rest)))
           else composites_from (Suc i) rules)
      | None \<Rightarrow> composites_from (Suc i) rules)"

definition phase_rule_composites :: "obj \<Rightarrow> (nat \<times> composite_phase_condition) list res" where
  "phase_rule_composites em = composites_from 0 (phase_rule_list em)"

fun composite_items_from :: "nat \<Rightarrow> obj list \<Rightarrow> composite_spec list res" where
  "composite_items_from i [] = Inr []"
| "composite_items_from i (it # its) =
     (if component_id it = Some COMPOSITE_SETUP then
        bindR (parse_composite_setup it (at_index ''setups'' i)) (\<lambda>s.
        bindR (composite_items_from (Suc i) its) (\<lambda>rest. Inr (s # rest)))
      else composite_items_from (Suc i) its)"

definition composite_items :: "obj list \<Rightarrow> composite_spec list res" where
  "composite_items setups = composite_items_from 0 setups"

definition spec_keys :: "composite_spec \<Rightarrow> string list" where
  "spec_keys s = map (\<lambda>c. child_instance_key (instance_id s) (child_id c)) (spec_children s)"

definition require_no_internal_key_collision :: "string list \<Rightarrow> composite_spec list \<Rightarrow> unit res" where
  "require_no_internal_key_collision top_level composites =
     raise_if (list_ex (\<lambda>k. k \<in> set top_level) (concat (map spec_keys composites)))
       (InvalidRequest ''setup instance_id collides with a composite child key'') (Inr ())"

section \<open>Well-formed structures\<close>

definition path_ok :: "composite_path \<Rightarrow> bool" where
  "path_ok p \<longleftrightarrow> (require p \<noteq> [] \<or> at_least_k p \<noteq> None) \<and> distinct (require p) \<and> distinct (at_least_of p) \<and>
     (case at_least_k p of None \<Rightarrow> at_least_of p = []
      | Some k \<Rightarrow> 1 \<le> k \<and> k \<le> int (length (at_least_of p)))"

definition structure_ok :: "composite_child list \<Rightarrow> composite_path list \<Rightarrow> bool" where
  "structure_ok cs ps \<longleftrightarrow> cs \<noteq> [] \<and> ps \<noteq> [] \<and> distinct (map child_id cs) \<and> distinct (map path_id ps) \<and>
     set (concat (map path_refs ps)) = set (map child_id cs) \<and> list_all path_ok ps"

lemma map_indexed_set:
  "map_indexed f path i xs = Inr ys \<Longrightarrow> y \<in> set ys \<Longrightarrow> \<exists>x j. x \<in> set xs \<and> f x (at_index path j) = Inr y"
proof (induction xs arbitrary: i ys)
  case (Cons a xs)
  then obtain b bs where b: "f a (at_index path i) = Inr b" "map_indexed f path (Suc i) xs = Inr bs" "ys = b # bs"
    by (auto simp: bindR_Inr)
  show ?case
  proof (cases "y = b")
    case True
    then show ?thesis using b(1) by auto
  next
    case False
    then have "y \<in> set bs" using Cons.prems(2) b(3) by simp
    then show ?thesis using Cons.IH[OF b(2)] by auto
  qed
qed simp

lemma map_indexed_length: "map_indexed f path i xs = Inr ys \<Longrightarrow> length ys = length xs"
  by (induction xs arbitrary: i ys) (auto simp: bindR_Inr)

lemma nonempty_list_Inr: "nonempty_list v path = Inr xs \<longleftrightarrow> v = JList xs \<and> xs \<noteq> []"
  by (cases v) (auto simp: nonempty_list_def raise_if_Inr)

lemma ident_Inr: "ident v path = Inr s \<longleftrightarrow> v = JStr s \<and> s \<noteq> [] \<and> CHR ''/'' \<notin> set s"
  by (cases v) (auto simp: ident_def raise_if_Inr)

lemma references_ok: "references v path = Inr refs \<Longrightarrow> distinct refs \<and> refs \<noteq> []"
  by (auto simp: references_def bindR_Inr raise_if_Inr nonempty_list_Inr dest: map_indexed_length)

lemma case_int_Inr:
  "(case v of JInt k \<Rightarrow> f k | _ \<Rightarrow> Inl e) = Inr y \<longleftrightarrow> (\<exists>k. v = JInt k \<and> f k = Inr y)"
  by (cases v) auto

lemma parse_at_least_ok:
  "parse_at_least payload path = Inr (k, al_of) \<Longrightarrow> distinct al_of \<and>
     (case k of None \<Rightarrow> al_of = [] | Some k \<Rightarrow> 1 \<le> k \<and> k \<le> int (length al_of))"
  by (cases "get payload ''at_least'' = JNull")
    (auto simp: parse_at_least_def bindR_Inr raise_if_Inr case_int_Inr dest: references_ok)

lemma parse_path_ok: "parse_path raw path = Inr p \<Longrightarrow> path_ok p"
  by (auto simp: parse_path_def bindR_Inr raise_if_Inr path_ok_def split: if_splits option.split
      dest!: parse_at_least_ok dest: references_ok)

lemma structure_Inr:
  assumes "composite_structure params path f = Inr (cs, ps)"
  shows "structure_ok cs ps" "\<forall>c\<in>set cs. \<exists>x j. f x j = Inr c"
proof -
  from assms obtain rc rp where r: "rc \<noteq> []" "map_indexed f (path @ ''.params.children'') 0 rc = Inr cs"
    "rp \<noteq> []" "map_indexed parse_path (path @ ''.params.paths'') 0 rp = Inr ps"
    and d: "distinct (map child_id cs)" "distinct (map path_id ps)"
      "set (concat (map path_refs ps)) = set (map child_id cs)"
    by (auto simp: composite_structure_def bindR_Inr raise_if_Inr nonempty_list_Inr)
  have "cs \<noteq> []" "ps \<noteq> []" using map_indexed_length[OF r(2)] map_indexed_length[OF r(4)] r(1,3) by auto
  moreover have "list_all path_ok ps"
    unfolding list_all_iff using map_indexed_set[OF r(4)] parse_path_ok by blast
  ultimately show "structure_ok cs ps" using d by (simp add: structure_ok_def)
  show "\<forall>c\<in>set cs. \<exists>x j. f x j = Inr c" using map_indexed_set[OF r(2)] by blast
qed

lemma setup_child_ok:
  "setup_child raw path = Inr c \<Longrightarrow> child_id c \<noteq> [] \<and> CHR ''/'' \<notin> set (child_id c) \<and> child_condition c = None \<and>
     (child_setup c = None) \<noteq> (child_predicate c = None) \<and>
     (\<forall>s. child_setup c = Some s \<longrightarrow> (\<exists>n \<in> set SEMANTIC_SETUP_CHILDREN. component_id s = Some n))"
  by (auto simp: setup_child_def bindR_Inr raise_if_Inr Let_def ident_Inr split: if_splits option.splits)

lemma phase_child_ok:
  "phase_child raw path = Inr c \<Longrightarrow> child_id c \<noteq> [] \<and> CHR ''/'' \<notin> set (child_id c) \<and> child_setup c = None \<and>
     (child_condition c = None) \<noteq> (child_predicate c = None) \<and>
     (\<forall>s. child_condition c = Some s \<longrightarrow> (\<exists>n \<in> set PHASE_ATOM_CHILDREN. component_id s = Some n))"
  by (auto simp: phase_child_def bindR_Inr raise_if_Inr Let_def ident_Inr split: if_splits option.splits)

text \<open>Identifiers without the separator make the internal keys unambiguous.\<close>

lemma child_key_inj:
  assumes "child_instance_key i c = child_instance_key i' c'" "CHR ''/'' \<notin> set i" "CHR ''/'' \<notin> set i'"
  shows "i = i' \<and> c = c'"
  using assms
proof (induction i arbitrary: i')
  case Nil
  then show ?case by (cases i') (auto simp: child_instance_key_def)
next
  case (Cons x xs)
  then show ?case by (cases i') (auto simp: child_instance_key_def)
qed

end
