(* ===== verification/Frames.thy ===== *)
theory Frames
  imports LiveWindow
begin

text \<open>
  What the strategy components read: the feature frame (times, series and bars, every price as
  the float the code converts it to) and the feature plan of the EMA pullback strategy, whose
  columns name the series of the frame (\<open>indicators/contracts.py\<close>, \<open>feature_plan.py\<close>).
  Python dictionaries are association lists.
\<close>

record feature_frame =
  frame_time_ms :: "int list"
  frame_series :: "(string \<times> f64 option list) list"
  frame_bars :: "f64 market_bar list"

record ema_plan =
  plan_indicators :: indicator_plan
  anchor_columns :: "(string \<times> string) list"
  exit_distance_columns :: "(string \<times> string) list"
  rsi_columns :: "((string \<times> int) \<times> string) list"
  adx_dmi_columns :: "((string \<times> int) \<times> (string \<times> string) list) list"
  setup_columns_by_instance_id :: "(string \<times> (string \<times> string) list) list"
  ema_columns :: "((string \<times> int) \<times> string) list"
  htf_context_columns_by_ref :: "(string \<times> (string \<times> string) list) list"
  episode_columns_by_ref :: "(string \<times> (string \<times> string) list) list"
  episode_params_by_ref :: "(string \<times> (string \<times> int) list) list"

definition empty_plan :: ema_plan where
  "empty_plan = \<lparr>plan_indicators = \<lparr>plan_version = [], features = []\<rparr>, anchor_columns = [], exit_distance_columns = [],
     rsi_columns = [], adx_dmi_columns = [], setup_columns_by_instance_id = [], ema_columns = [],
     htf_context_columns_by_ref = [], episode_columns_by_ref = [], episode_params_by_ref = []\<rparr>"

text \<open>\<open>_series\<close>: a missing output is a series of missing values.\<close>

definition series_of :: "feature_frame \<Rightarrow> string \<Rightarrow> f64 option list" where
  "series_of fr oid = (case map_of (frame_series fr) oid of
     None \<Rightarrow> replicate (length (frame_time_ms fr)) None | Some vs \<Rightarrow> vs)"

text \<open>\<open>_feature_value\<close>: missing outside the series and for no output at all.\<close>

definition feature_value :: "feature_frame \<Rightarrow> string option \<Rightarrow> nat \<Rightarrow> f64 option" where
  "feature_value fr oid i =
     (case oid of None \<Rightarrow> None
      | Some k \<Rightarrow> (let vs = series_of fr k in if i < length vs then vs ! i else None))"

text \<open>\<open>_atr_output_id\<close>: the first planned ATR of the timeframe and the period.\<close>

fun atr_output :: "planned_feature list \<Rightarrow> string \<Rightarrow> int \<Rightarrow> string option res" where
  "atr_output [] tf period = Inr None"
| "atr_output (f # fs) tf period =
     (if feature_kind f = ''atr'' \<and> feature_timeframe f = tf then
        bindR (py_int (get_or (parameters f) ''period'' (JInt 0))) (\<lambda>p.
        if p = period then Inr (Some (output_id f)) else atr_output fs tf period)
      else atr_output fs tf period)"

definition atr_output_id :: "ema_plan \<Rightarrow> string \<Rightarrow> int \<Rightarrow> string option res" where
  "atr_output_id plan tf period = atr_output (features (plan_indicators plan)) tf period"

end
