(* ===== verification/ManagedComposite.thy ===== *)
theory ManagedComposite
  imports CompositeSpec Frames
begin

text \<open>
  The market fold of a composite phase condition (\<open>managed_composite.py\<close>): market children are
  evaluated once over the frame and folded per path, trade children stay to be valued per bar.
  The predicate layer and the parser of \<open>change_since_entry\<close> are arguments; the numeric
  comparison of that atom (\<open>entry_change.py\<close>) and the ADX atom are modelled.  The series cache
  of the source only avoids converting a series twice and is left out.
\<close>

section \<open>change_since_entry\<close>

definition compare_op :: "string \<Rightarrow> (f64 \<Rightarrow> f64 \<Rightarrow> bool) option" where
  "compare_op op = map_of [(''>'', \<lambda>x y. flt y x), (''>='', \<lambda>x y. fle y x), (''<'', flt), (''<='', fle)] op"

record change_since_entry =
  cse_feature :: planned_feature
  cse_op :: string
  cse_value :: f64

definition change_met :: "change_since_entry \<Rightarrow> f64 option \<Rightarrow> f64 option \<Rightarrow> bool res" where
  "change_met c current anchor =
     (case (current, anchor) of
        (Some x, Some a) \<Rightarrow>
          (if isfinite x \<and> isfinite a then
             (case compare_op (cse_op c) of None \<Rightarrow> Inl (PyKeyError (cse_op c))
              | Some f \<Rightarrow> Inr (f (fsub x a) (cse_value c)))
           else Inr False)
      | _ \<Rightarrow> Inr False)"

section \<open>The ADX atom\<close>

definition adx_value :: "string \<Rightarrow> f64 \<Rightarrow> bool \<Rightarrow> f64 option \<Rightarrow> f64 option \<Rightarrow> f64 option \<Rightarrow> bool" where
  "adx_value sd threshold aligned adx pl mi =
     (case (adx, pl, mi) of
        (Some a, Some p, Some m) \<Rightarrow>
          fge a threshold \<and> (\<not> aligned \<or> (if sd = ''long'' then fgt p m else fgt m p))
      | _ \<Rightarrow> False)"

definition adx_columns :: "ema_plan \<Rightarrow> string \<Rightarrow> int \<Rightarrow> (string \<times> string) list" where
  "adx_columns plan tf period = (case map_of (adx_dmi_columns plan) (tf, period) of None \<Rightarrow> [] | Some c \<Rightarrow> c)"

definition column_series :: "feature_frame \<Rightarrow> (string \<times> string) list \<Rightarrow> string \<Rightarrow> f64 option list" where
  "column_series fr cols name = series_of fr (case map_of cols name of None \<Rightarrow> [] | Some oid \<Rightarrow> oid)"

text \<open>\<open>zip(..., strict=True)\<close> raises on series of different lengths.\<close>

definition adx_di_series :: "obj \<Rightarrow> feature_frame \<Rightarrow> ema_plan \<Rightarrow> (bool list \<times> bool list) res" where
  "adx_di_series params fr plan =
     bindR (read_int (get params ''period'') ''adx_di_threshold.period'') (\<lambda>period.
     (let cols = adx_columns plan (py_str (get_or params ''timeframe'' (JStr []))) period;
          adx = column_series fr cols ''adx''; pl = column_series fr cols ''di_plus'';
          mi = column_series fr cols ''di_minus'';
          aligned = truthy (get_or params ''require_di_alignment'' (JBool True)) in
      bindR (read_float (get params ''adx_threshold'') ''adx_di_threshold.adx_threshold'' True) (\<lambda>threshold.
      raise_if (length pl \<noteq> length adx \<or> length mi \<noteq> length adx) (PyValueError ''zip() arguments differ in length'')
      (Inr (map (\<lambda>(a, p, m). adx_value ''long'' threshold aligned a p m) (zip adx (zip pl mi)),
            map (\<lambda>(a, p, m). adx_value ''short'' threshold aligned a p m) (zip adx (zip pl mi)))))))"

section \<open>The fold\<close>

record folded_path =
  fp_path_id :: string
  fp_market :: "bool list option"
  fp_trade_require :: "string list"
  fp_at_least_k :: "int option"
  fp_at_least_terms :: "string list"
  fp_referenced :: "string list"

record folded_composite =
  fc_spec :: composite_phase_condition
  fc_paths :: "folded_path list"
  fc_market :: "(string \<times> bool list) list"
  fc_changes :: "(string \<times> change_since_entry) list"

definition is_market_child :: "composite_child \<Rightarrow> bool res" where
  "is_market_child c =
     (if child_predicate c \<noteq> None then Inr True
      else case child_condition c of None \<Rightarrow> Inl PyAssertionError
        | Some co \<Rightarrow> Inr (component_id co = Some ''adx_di_threshold''))"

type_synonym predicate_layer = "obj \<Rightarrow> string \<Rightarrow> string \<Rightarrow> bool list res"
type_synonym change_parser = "json \<Rightarrow> string \<Rightarrow> change_since_entry res"

definition market_mask ::
  "predicate_layer \<Rightarrow> feature_frame \<Rightarrow> ema_plan \<Rightarrow> string \<Rightarrow> composite_child \<Rightarrow> bool list res" where
  "market_mask eval fr plan sd c =
     (case child_predicate c of
        Some p \<Rightarrow> eval p (''composite_phase_condition.'' @ child_id c) sd
      | None \<Rightarrow>
          (case child_condition c of None \<Rightarrow> Inl PyAssertionError
           | Some co \<Rightarrow>
               bindR (require_mapping (get_or co ''params'' (JObj [])) ''phase condition params'') (\<lambda>params.
               raise_if (case get_or params ''require_di_alignment'' (JBool True) of JBool _ \<Rightarrow> False | _ \<Rightarrow> True)
                 (InvalidRequest ''require_di_alignment must be boolean'')
               (bindR (adx_di_series params fr plan) (\<lambda>(l, s). Inr (if sd = ''long'' then l else s))))))"

text \<open>\<open>change_since_entry_of\<close>: the parsed atom when the condition is one.\<close>

definition change_since_entry_of :: "change_parser \<Rightarrow> obj \<Rightarrow> string \<Rightarrow> change_since_entry option res" where
  "change_since_entry_of parse co path =
     (if component_id co \<noteq> Some ''change_since_entry'' then Inr None
      else bindR (parse (get_or co ''params'' (JObj [])) (path @ ''.params'')) (\<lambda>c. Inr (Some c)))"

definition child_change :: "change_parser \<Rightarrow> composite_child \<Rightarrow> change_since_entry option res" where
  "child_change parse c =
     (case child_condition c of None \<Rightarrow> Inr None
      | Some co \<Rightarrow> change_since_entry_of parse co (''composite_phase_condition.'' @ child_id c @ ''.condition''))"

text \<open>The loop over the children: the market masks and the parsed entry changes.\<close>

fun fold_children ::
  "predicate_layer \<Rightarrow> change_parser \<Rightarrow> feature_frame \<Rightarrow> ema_plan \<Rightarrow> string \<Rightarrow> composite_child list \<Rightarrow>
     ((string \<times> bool list) list \<times> (string \<times> change_since_entry) list) res" where
  "fold_children eval parse fr plan sd [] = Inr ([], [])"
| "fold_children eval parse fr plan sd (c # cs) =
     bindR (child_change parse c) (\<lambda>ch.
     case ch of
       Some change \<Rightarrow>
         bindR (fold_children eval parse fr plan sd cs) (\<lambda>(ms, chs). Inr (ms, (child_id c, change) # chs))
     | None \<Rightarrow>
         bindR (is_market_child c) (\<lambda>is_m.
         if is_m then
           bindR (market_mask eval fr plan sd c) (\<lambda>m.
           bindR (fold_children eval parse fr plan sd cs) (\<lambda>(ms, chs). Inr ((child_id c, m) # ms, chs)))
         else fold_children eval parse fr plan sd cs))"

text \<open>\<open>a & b\<close> of two boolean arrays; arrays of different lengths do not broadcast.\<close>

definition np_and :: "bool list \<Rightarrow> bool list \<Rightarrow> bool list res" where
  "np_and a b = (if length a = length b then Inr (map2 (\<and>) a b) else Inl (PyValueError ''operands could not be broadcast together''))"

definition and_opt :: "bool list option \<Rightarrow> bool list \<Rightarrow> bool list option res" where
  "and_opt acc m = (case acc of None \<Rightarrow> Inr (Some m) | Some a \<Rightarrow> bindR (np_and a m) (\<lambda>r. Inr (Some r)))"

definition fold_require :: "(string \<times> bool list) list \<Rightarrow> string list \<Rightarrow> bool list option res" where
  "fold_require masks refs =
     foldR (\<lambda>acc ref. case map_of masks ref of None \<Rightarrow> Inr acc | Some m \<Rightarrow> and_opt acc m) None refs"

text \<open>\<open>counts += mask\<close> for every referenced mask, from zeros.\<close>

definition add_mask :: "int list \<Rightarrow> bool list \<Rightarrow> int list res" where
  "add_mask counts m =
     (if length counts = length m then Inr (map2 (\<lambda>n b. n + of_bool b) counts m)
      else Inl (PyValueError ''operands could not be broadcast together''))"

definition count_masks :: "(string \<times> bool list) list \<Rightarrow> nat \<Rightarrow> string list \<Rightarrow> int list res" where
  "count_masks masks n refs =
     foldR (\<lambda>counts ref. case map_of masks ref of None \<Rightarrow> Inl (PyKeyError ref) | Some m \<Rightarrow> add_mask counts m)
       (replicate n 0) refs"

definition fold_path :: "(string \<times> bool list) list \<Rightarrow> nat \<Rightarrow> composite_path \<Rightarrow> folded_path res" where
  "fold_path masks n p =
     bindR (fold_require masks (require p)) (\<lambda>folded.
     bindR (case at_least_k p of
              None \<Rightarrow> Inr (folded, None, [])
            | Some k \<Rightarrow>
                (if list_all (\<lambda>r. map_of masks r \<noteq> None) (at_least_of p) then
                   bindR (count_masks masks n (at_least_of p)) (\<lambda>counts.
                   bindR (and_opt folded (map (\<lambda>c. k \<le> c) counts)) (\<lambda>f. Inr (f, None, [])))
                 else Inr (folded, Some k, at_least_of p))) (\<lambda>(f, k, terms).
     Inr \<lparr>fp_path_id = path_id p, fp_market = f,
          fp_trade_require = filter (\<lambda>r. map_of masks r = None) (require p),
          fp_at_least_k = k, fp_at_least_terms = terms, fp_referenced = dedup (path_refs p)\<rparr>))"

definition fold_phase_paths ::
  "predicate_layer \<Rightarrow> change_parser \<Rightarrow> composite_phase_condition \<Rightarrow> feature_frame \<Rightarrow> ema_plan \<Rightarrow> string \<Rightarrow>
     folded_composite res" where
  "fold_phase_paths eval parse spec fr plan sd =
     bindR (fold_children eval parse fr plan sd (cond_children spec)) (\<lambda>(masks, changes).
     bindR (mapR (fold_path masks (length (frame_time_ms fr))) (cond_paths spec)) (\<lambda>paths.
     Inr \<lparr>fc_spec = spec, fc_paths = paths, fc_market = masks, fc_changes = changes\<rparr>))"

section \<open>The value on a bar\<close>

text \<open>\<open>all(...)\<close> stops at the first false value; \<open>sum(...)\<close> reads every term.\<close>

fun allR :: "('a \<Rightarrow> bool res) \<Rightarrow> 'a list \<Rightarrow> bool res" where
  "allR f [] = Inr True"
| "allR f (x # xs) = bindR (f x) (\<lambda>b. if b then allR f xs else Inr False)"

definition countR :: "('a \<Rightarrow> bool res) \<Rightarrow> 'a list \<Rightarrow> int res" where
  "countR f xs = bindR (mapR f xs) (\<lambda>bs. Inr (int (length (filter id bs))))"

definition child_value ::
  "folded_composite \<Rightarrow> nat \<Rightarrow> (obj \<Rightarrow> bool res) \<Rightarrow> (change_since_entry \<Rightarrow> bool res) \<Rightarrow> string \<Rightarrow> bool res" where
  "child_value fc i trade_met change_met_at ref =
     (case map_of (fc_market fc) ref of
        Some m \<Rightarrow> item m i
      | None \<Rightarrow>
          (case map_of (fc_changes fc) ref of
             Some ch \<Rightarrow> change_met_at ch
           | None \<Rightarrow>
               bindR (find_child (cond_children (fc_spec fc)) ref) (\<lambda>c.
               case child_condition c of None \<Rightarrow> Inl PyAssertionError | Some co \<Rightarrow> trade_met co)))"

definition path_met :: "(string \<Rightarrow> bool res) \<Rightarrow> nat \<Rightarrow> folded_path \<Rightarrow> bool res" where
  "path_met val i p =
     bindR (case fp_market p of None \<Rightarrow> Inr True | Some m \<Rightarrow> item m i) (\<lambda>mk.
     if \<not> mk then Inr False
     else bindR (allR val (fp_trade_require p)) (\<lambda>tr.
          if \<not> tr then Inr False
          else (case fp_at_least_k p of None \<Rightarrow> Inr True
                | Some k \<Rightarrow> bindR (countR val (fp_at_least_terms p)) (\<lambda>n. Inr (\<not> n < k)))))"

type_synonym attribution = "string \<times> (string \<times> bool) list"

fun first_path :: "(string \<Rightarrow> bool res) \<Rightarrow> nat \<Rightarrow> folded_path list \<Rightarrow> attribution option res" where
  "first_path val i [] = Inr None"
| "first_path val i (p # ps) =
     bindR (path_met val i p) (\<lambda>met.
     if met then bindR (mapR (\<lambda>r. bindR (val r) (\<lambda>b. Inr (r, b))) (fp_referenced p)) (\<lambda>ch. Inr (Some (fp_path_id p, ch)))
     else first_path val i ps)"

definition composite_met ::
  "folded_composite \<Rightarrow> nat \<Rightarrow> (obj \<Rightarrow> bool res) \<Rightarrow> (change_since_entry \<Rightarrow> bool res) \<Rightarrow> (bool \<times> attribution option) res" where
  "composite_met fc i trade_met change_met_at =
     bindR (first_path (child_value fc i trade_met change_met_at) i (fc_paths fc)) (\<lambda>r. Inr (r \<noteq> None, r))"

section \<open>Reference value\<close>

text \<open>A path over the values of all children, and the first true path.\<close>

definition path_true :: "(string \<Rightarrow> bool) \<Rightarrow> composite_path \<Rightarrow> bool" where
  "path_true v p \<longleftrightarrow> list_all v (require p) \<and>
     (case at_least_k p of None \<Rightarrow> True | Some k \<Rightarrow> k \<le> int (length (filter v (at_least_of p))))"

definition composite_value :: "(string \<Rightarrow> bool) \<Rightarrow> composite_path list \<Rightarrow> bool \<times> attribution option" where
  "composite_value v ps =
     (case find (path_true v) ps of None \<Rightarrow> (False, None)
      | Some p \<Rightarrow> (True, Some (path_id p, map (\<lambda>r. (r, v r)) (dedup (path_refs p)))))"

section \<open>The fold agrees with the reference\<close>

text \<open>On bar \<open>i\<close> every mask has the value of its child.\<close>

definition masks_at :: "(string \<times> bool list) list \<Rightarrow> nat \<Rightarrow> (string \<Rightarrow> bool) \<Rightarrow> string list \<Rightarrow> bool" where
  "masks_at masks i v refs \<longleftrightarrow>
     (\<forall>r\<in>set refs. case map_of masks r of None \<Rightarrow> True | Some m \<Rightarrow> i < length m \<and> m ! i = v r)"

lemma masks_at_Cons [simp]:
  "masks_at masks i v (r # refs) \<longleftrightarrow>
     (case map_of masks r of None \<Rightarrow> True | Some m \<Rightarrow> i < length m \<and> m ! i = v r) \<and> masks_at masks i v refs"
  by (simp add: masks_at_def)

lemma masks_at_subset: "masks_at masks i v refs \<Longrightarrow> set refs' \<subseteq> set refs \<Longrightarrow> masks_at masks i v refs'"
  by (auto simp: masks_at_def)

text \<open>The value at \<open>i\<close> of an optional folded mask; a missing one is true everywhere.\<close>

definition opt_at :: "nat \<Rightarrow> bool list option \<Rightarrow> bool" where
  "opt_at i a = (case a of None \<Rightarrow> True | Some m \<Rightarrow> m ! i)"

definition opt_len :: "nat \<Rightarrow> bool list option \<Rightarrow> bool" where
  "opt_len i a = (case a of None \<Rightarrow> True | Some m \<Rightarrow> i < length m)"

lemma opt_at_simps [simp]: "opt_at i None" "opt_at i (Some m) = m ! i" "opt_len i None" "opt_len i (Some m) = (i < length m)"
  by (simp_all add: opt_at_def opt_len_def)

lemma and_opt_at:
  assumes "and_opt acc m = Inr out" "opt_len i acc" "i < length m"
  shows "\<exists>o'. out = Some o' \<and> i < length o' \<and> o' ! i = (opt_at i acc \<and> m ! i)"
  using assms by (cases acc) (auto simp: and_opt_def np_and_def bindR_Inr split: if_splits)

definition market_true :: "(string \<times> bool list) list \<Rightarrow> (string \<Rightarrow> bool) \<Rightarrow> string list \<Rightarrow> bool" where
  "market_true masks v refs \<longleftrightarrow> list_all v (filter (\<lambda>r. map_of masks r \<noteq> None) refs)"

lemma fold_require_at:
  assumes "foldR (\<lambda>acc ref. case map_of masks ref of None \<Rightarrow> Inr acc | Some m \<Rightarrow> and_opt acc m) acc refs = Inr out"
    and "masks_at masks i v refs" "opt_len i acc"
  shows "opt_len i out \<and> opt_at i out = (opt_at i acc \<and> market_true masks v refs)"
  using assms
proof (induction refs arbitrary: acc)
  case Nil
  then show ?case by (simp add: market_true_def)
next
  case (Cons r refs)
  show ?case
  proof (cases "map_of masks r")
    case None
    then show ?thesis using Cons by (simp add: market_true_def)
  next
    case (Some m)
    obtain acc' where acc': "and_opt acc m = Inr acc'"
      "foldR (\<lambda>acc ref. case map_of masks ref of None \<Rightarrow> Inr acc | Some m \<Rightarrow> and_opt acc m) acc' refs = Inr out"
      using Cons.prems(1) Some by (auto simp: bindR_Inr)
    obtain b where "acc' = Some b" "i < length b" "b ! i = (opt_at i acc \<and> m ! i)"
      using and_opt_at[OF acc'(1) Cons.prems(3)] Cons.prems(2) Some by auto
    then show ?thesis using Cons.IH[OF acc'(2)] Cons.prems(2) Some by (auto simp: market_true_def)
  qed
qed

lemma count_masks_at:
  assumes "foldR (\<lambda>counts ref. case map_of masks ref of None \<Rightarrow> Inl (PyKeyError ref) | Some m \<Rightarrow> add_mask counts m)
      counts refs = Inr out"
    and "masks_at masks i v refs" "i < length counts"
  shows "i < length out \<and> out ! i = counts ! i + int (length (filter v refs))"
  using assms
proof (induction refs arbitrary: counts)
  case (Cons r refs)
  then obtain m c' where m: "map_of masks r = Some m" "add_mask counts m = Inr c'"
    "foldR (\<lambda>counts ref. case map_of masks ref of None \<Rightarrow> Inl (PyKeyError ref) | Some m \<Rightarrow> add_mask counts m)
      c' refs = Inr out"
    by (auto simp: bindR_Inr split: option.splits)
  have "i < length m" "m ! i = v r" using Cons.prems(2) m(1) by auto
  then have "i < length c'" "c' ! i = counts ! i + of_bool (v r)"
    using m(2) Cons.prems(3) by (auto simp: add_mask_def split: if_splits)
  then show ?case using Cons.IH[OF m(3)] Cons.prems(2) by auto
qed simp

lemma allR_value: "\<forall>x\<in>set xs. f x = Inr (v x) \<Longrightarrow> allR f xs = Inr (list_all v xs)"
  by (induction xs) auto

lemma countR_value:
  assumes "\<forall>x\<in>set xs. f x = Inr (v x)"
  shows "countR f xs = Inr (int (length (filter v xs)))"
proof -
  have "mapR f xs = Inr (map v xs)" using assms by (intro mapR_ok) simp
  then show ?thesis by (simp add: countR_def filter_map o_def)
qed

lemma list_all_split: "list_all v (filter P xs) \<and> list_all v (filter (\<lambda>x. \<not> P x) xs) \<longleftrightarrow> list_all v xs"
  by (auto simp: list_all_iff)

text \<open>The value of a folded path in terms of the parts of its record.\<close>

lemma path_met_value:
  assumes "opt_len i (fp_market fp)" "\<forall>r\<in>set (fp_trade_require fp) \<union> set (fp_at_least_terms fp). val r = Inr (v r)"
  shows "path_met val i fp = Inr (opt_at i (fp_market fp) \<and> list_all v (fp_trade_require fp) \<and>
    (case fp_at_least_k fp of None \<Rightarrow> True | Some k \<Rightarrow> k \<le> int (length (filter v (fp_at_least_terms fp)))))"
proof -
  have "allR val (fp_trade_require fp) = Inr (list_all v (fp_trade_require fp))"
    "countR val (fp_at_least_terms fp) = Inr (int (length (filter v (fp_at_least_terms fp))))"
    using assms(2) by (auto intro: allR_value countR_value)
  then show ?thesis using assms(1) by (cases "fp_market fp"; cases "fp_at_least_k fp") (auto simp: path_met_def)
qed

lemma fold_path_met:
  assumes f: "fold_path masks n p = Inr fp" and n: "i < n"
    and val: "\<forall>r\<in>set (path_refs p). val r = Inr (v r)" and mk: "masks_at masks i v (path_refs p)"
  shows "path_met val i fp = Inr (path_true v p) \<and> fp_path_id fp = path_id p \<and> fp_referenced fp = dedup (path_refs p)"
proof -
  let ?trade = "filter (\<lambda>r. map_of masks r = None) (require p)"
  obtain folded where fo: "fold_require masks (require p) = Inr folded"
    using f by (auto simp: fold_path_def bindR_Inr)
  have req: "opt_len i folded \<and> opt_at i folded = market_true masks v (require p)"
    using fold_require_at[OF fo[unfolded fold_require_def], of i v] masks_at_subset[OF mk] by (simp add: path_refs_def)
  have all_req: "list_all v (require p) = (market_true masks v (require p) \<and> list_all v ?trade)"
    using list_all_split[of v "\<lambda>r. map_of masks r \<noteq> None" "require p"] by (simp add: market_true_def)
  have val': "\<forall>r\<in>set ?trade \<union> set (at_least_of p). val r = Inr (v r)" using val by (auto simp: path_refs_def)
  show ?thesis
  proof (cases "at_least_k p")
    case None
    then have "fp_market fp = folded" "fp_trade_require fp = ?trade" "fp_at_least_k fp = None" "fp_at_least_terms fp = []"
      "fp_path_id fp = path_id p" "fp_referenced fp = dedup (path_refs p)"
      using f fo by (auto simp: fold_path_def)
    then show ?thesis using path_met_value[of i fp val v] req all_req val' None by (simp add: path_true_def)
  next
    case (Some k)
    show ?thesis
    proof (cases "list_all (\<lambda>r. map_of masks r \<noteq> None) (at_least_of p)")
      case False
      then have "fp_market fp = folded" "fp_trade_require fp = ?trade" "fp_at_least_k fp = Some k"
        "fp_at_least_terms fp = at_least_of p" "fp_path_id fp = path_id p" "fp_referenced fp = dedup (path_refs p)"
        using f fo Some by (auto simp: fold_path_def)
      then show ?thesis using path_met_value[of i fp val v] req all_req val' Some by (simp add: path_true_def)
    next
      case True
      then obtain counts g where c: "count_masks masks n (at_least_of p) = Inr counts"
        "and_opt folded (map (\<lambda>c. k \<le> c) counts) = Inr g"
        and fp: "fp_market fp = g" "fp_trade_require fp = ?trade" "fp_at_least_k fp = None" "fp_at_least_terms fp = []"
        "fp_path_id fp = path_id p" "fp_referenced fp = dedup (path_refs p)"
        using f fo Some by (auto simp: fold_path_def bindR_Inr)
      have co: "i < length counts" "counts ! i = int (length (filter v (at_least_of p)))"
        using count_masks_at[OF c(1)[unfolded count_masks_def], of i v] masks_at_subset[OF mk] n
        by (auto simp: path_refs_def)
      obtain g' where "g = Some g'" "i < length g'" "g' ! i = (opt_at i folded \<and> k \<le> counts ! i)"
        using and_opt_at[OF c(2), of i] req co by auto
      then show ?thesis using path_met_value[of i fp val v] fp req all_req val' Some co(2) by (auto simp: path_true_def)
    qed
  qed
qed

lemma first_path_value:
  assumes "mapR (fold_path masks n) ps = Inr fps" "i < n"
    and "\<forall>r\<in>set (concat (map path_refs ps)). val r = Inr (v r)" "masks_at masks i v (concat (map path_refs ps))"
  shows "first_path val i fps = Inr (snd (composite_value v ps))"
  using assms
proof (induction ps arbitrary: fps)
  case Nil
  then show ?case by (simp add: composite_value_def)
next
  case (Cons p ps)
  obtain fp fps' where f: "fold_path masks n p = Inr fp" "mapR (fold_path masks n) ps = Inr fps'" "fps = fp # fps'"
    using Cons.prems(1) by (auto simp: bindR_Inr)
  have mk: "masks_at masks i v (path_refs p)" "masks_at masks i v (concat (map path_refs ps))"
    using Cons.prems(4) by (auto elim: masks_at_subset)
  have pm: "path_met val i fp = Inr (path_true v p)" "fp_path_id fp = path_id p" "fp_referenced fp = dedup (path_refs p)"
    using fold_path_met[OF f(1) Cons.prems(2) _ mk(1), of val] Cons.prems(3) by simp_all
  have ch: "mapR (\<lambda>r. bindR (val r) (\<lambda>b. Inr (r, b))) (dedup (path_refs p)) = Inr (map (\<lambda>r. (r, v r)) (dedup (path_refs p)))"
    by (rule mapR_ok) (use Cons.prems(3) in simp)
  have "first_path val i fps' = Inr (snd (composite_value v ps))"
    by (rule Cons.IH[OF f(2) Cons.prems(2) _ mk(2)]) (use Cons.prems(3) in simp)
  then show ?case using pm ch by (simp add: f(3) composite_value_def split: option.splits)
qed

end
