(* ===== verification/RawSpec.thy ===== *)
theory RawSpec
  imports PyFloat
begin

text \<open>
  Component and identity resolution over the untyped strategy document
  (\<open>strategies/ema_pullback/raw_spec_identity.py\<close>): the width band parameters, sides,
  trigger, risk and exit rule groups, unique instance identifiers, the initial-R stops and the
  frozen ladder of partial takes.  A missing key and \<open>str(...)\<close> of a document follow
  Python; decimals are rationals rounded to the 28 digits of the default context.
\<close>

section \<open>Names\<close>

definition VALID_SIDES :: "string list" where "VALID_SIDES = [''long'', ''short'']"
definition PROFILE_ORDER :: "string list" where "PROFILE_ORDER = [''aligned'', ''countertrend'', ''neutral'']"
definition EXIT_PARTIAL_TAKE_SUPPORTED :: "string list" where
  "EXIT_PARTIAL_TAKE_SUPPORTED = [''pct_partial_take'', ''atr_partial_take'']"
definition INITIAL_R_STOP_SUPPORTED :: "string list" where
  "INITIAL_R_STOP_SUPPORTED = [''initial_r_lock_stop'', ''initial_r_trailing_stop'']"
definition PARTIAL_TAKE_EXIT_KIND :: string where "PARTIAL_TAKE_EXIT_KIND = ''partial_take''"
definition WIDTH_BAND_KEYS :: "string list" where
  "WIDTH_BAND_KEYS = [''atr_timeframe'', ''atr_period'', ''min_width_atr'', ''max_width_atr'']"

text \<open>\<open>str(ob.get(key, default))\<close>\<close>

definition text_of :: "obj \<Rightarrow> string \<Rightarrow> string \<Rightarrow> string" where
  "text_of ob k d = py_str (get_or ob k (JStr d))"

section \<open>Width band\<close>

record width_band_params =
  min_width_atr :: f64
  max_width_atr :: "f64 option"
  band_atr_timeframe :: string
  band_atr_period :: int

text \<open>\<open>isfinite\<close> of an integer beyond the doubles raises \<open>OverflowError\<close>.\<close>

definition band_number :: "json \<Rightarrow> string \<Rightarrow> f64 res" where
  "band_number v name =
     (case v of
        JInt n \<Rightarrow> py_float (JInt n)
      | JFloat x \<Rightarrow> raise_if (\<not> isfinite x) (InvalidRequest (name @ '' must be a finite number'')) (Inr x)
      | _ \<Rightarrow> Inl (InvalidRequest (name @ '' must be a finite number'')))"

definition band_max_width :: "obj \<Rightarrow> f64 \<Rightarrow> f64 option res" where
  "band_max_width params mn =
     (if has_key params ''max_width_atr'' then
        bindR (band_number (get params ''max_width_atr'') ''max_width_atr'') (\<lambda>mx.
        raise_if (flt mx mn) (InvalidRequest ''max_width_atr must not be less than min_width_atr'') (Inr (Some mx)))
      else Inr None)"

definition parse_width_band_params :: "obj \<Rightarrow> width_band_params res" where
  "parse_width_band_params params =
     raise_if (unknown_fields params WIDTH_BAND_KEYS \<noteq> [])
       (InvalidRequest ''anchor_stack_width_band_setup has unknown params'')
     (raise_if (\<not> has_key params ''min_width_atr'')
       (InvalidRequest ''anchor_stack_width_band_setup requires min_width_atr'')
     (bindR (band_number (get params ''min_width_atr'') ''min_width_atr'') (\<lambda>mn.
      raise_if (fle mn (Fin 0)) (InvalidRequest ''min_width_atr must be greater than zero'')
      (bindR (band_max_width params mn) (\<lambda>mx.
       case get_or params ''atr_timeframe'' (JStr ''base'') of
         JStr tf \<Rightarrow>
           raise_if (tf = []) (InvalidRequest ''atr_timeframe must be a non-empty string'')
           (case get_or params ''atr_period'' (JInt 14) of
              JInt p \<Rightarrow> raise_if (p \<le> 0) (InvalidRequest ''atr_period must be a positive integer'')
                (Inr \<lparr>min_width_atr = mn, max_width_atr = mx, band_atr_timeframe = tf, band_atr_period = p\<rparr>)
            | _ \<Rightarrow> Inl (InvalidRequest ''atr_period must be a positive integer''))
       | _ \<Rightarrow> Inl (InvalidRequest ''atr_timeframe must be a non-empty string''))))))"

section \<open>Sections of the document\<close>

definition require_list :: "json \<Rightarrow> string \<Rightarrow> json list res" where
  "require_list v path = (case v of JList xs \<Rightarrow> Inr xs | _ \<Rightarrow> Inl (InvalidRequest (path @ '' must be a list'')))"

fun mappings_at :: "string \<Rightarrow> nat \<Rightarrow> json list \<Rightarrow> obj list res" where
  "mappings_at path i [] = Inr []"
| "mappings_at path i (x # xs) =
     bindR (require_mapping x (at_index path i)) (\<lambda>ob. bindR (mappings_at path (Suc i) xs) (\<lambda>obs. Inr (ob # obs)))"

definition mapping_list :: "json \<Rightarrow> string \<Rightarrow> obj list res" where
  "mapping_list v path = bindR (require_list v path) (mappings_at path 0)"

definition resolve_enabled_sides :: "obj \<Rightarrow> string list res" where
  "resolve_enabled_sides raw_spec =
     (let raw = get_or raw_spec ''trade_sides'' (JList [JStr ''long'']);
          listed = (case raw of JObj ob \<Rightarrow> get_or ob ''enabled'' (JList [JStr ''long'']) | _ \<Rightarrow> raw) in
      bindR (require_list listed ''raw_spec.trade_sides'') (\<lambda>xs.
      (let sides = map py_str xs in
       raise_if (sides = [] \<or> list_ex (\<lambda>s. s \<notin> set VALID_SIDES) sides)
         (InvalidRequest ''raw_spec.trade_sides must contain long/short'') (Inr sides))))"

definition components_of :: "obj \<Rightarrow> obj res" where
  "components_of raw_spec = require_mapping (get_or raw_spec ''components'' (JObj [])) ''raw_spec.components''"

definition resolve_direction_component_id :: "obj \<Rightarrow> string res" where
  "resolve_direction_component_id raw_spec =
     bindR (components_of raw_spec) (\<lambda>cs. Inr (text_of cs ''direction'' ''ema_anchor_stack_trend''))"

definition resolve_blocker_identity :: "obj \<Rightarrow> string \<times> string" where
  "resolve_blocker_identity it =
     (let cmp = text_of it ''component_id'' [] in (cmp, text_of it ''instance_id'' cmp))"

definition resolve_trigger_rule :: "obj \<Rightarrow> obj res" where
  "resolve_trigger_rule raw_spec =
     bindR (components_of raw_spec) (\<lambda>cs.
     case get_or cs ''trigger'' (JObj [(''component_id'', JStr ''reclaim_anchor''), (''lookback'', JInt 1)]) of
       JStr s \<Rightarrow> Inr [(''component_id'', JStr s)]
     | v \<Rightarrow> require_mapping v ''raw_spec.components.trigger'')"

definition resolve_risk_component_id :: "obj \<Rightarrow> string res" where
  "resolve_risk_component_id raw_spec =
     bindR (components_of raw_spec) (\<lambda>cs.
     case get_or cs ''risk'' (JStr ''no_risk_filter'') of
       JStr s \<Rightarrow> Inr s
     | v \<Rightarrow> bindR (require_mapping v ''raw_spec.components.risk'') (\<lambda>ob. Inr (text_of ob ''component_id'' ''no_risk_filter'')))"

definition resolve_setup_identity :: "obj \<Rightarrow> string \<times> string" where
  "resolve_setup_identity it =
     (let cmp = text_of it ''component_id'' [] in (cmp, text_of it ''instance_id'' cmp))"

type_synonym rule_groups = "(string \<times> obj list) list"

definition profile_rules :: "obj \<Rightarrow> string \<Rightarrow> (string \<times> obj list) res" where
  "profile_rules profiles p =
     bindR (require_mapping (get_or profiles p (JObj [])) (''exit_policy.profiles.'' @ p)) (\<lambda>payload.
     bindR (mapping_list (get_or payload ''exits'' (JList [])) (''profiles.'' @ p @ ''.exits'')) (\<lambda>rs. Inr (p, rs)))"

definition resolve_exit_rule_groups :: "obj \<Rightarrow> rule_groups res" where
  "resolve_exit_rule_groups raw_spec =
     bindR (require_mapping (get_or raw_spec ''trade_management'' (JObj [])) ''trade_management'') (\<lambda>tm.
     bindR (require_mapping (get_or tm ''exit_policy'' (JObj [])) ''exit_policy'') (\<lambda>policy.
     bindR (require_mapping (get_or policy ''always_on'' (JObj [])) ''exit_policy.always_on'') (\<lambda>always.
     bindR (require_mapping (get_or policy ''profiles'' (JObj [])) ''exit_policy.profiles'') (\<lambda>profiles.
     bindR (mapping_list (get_or always ''exits'' (JList [])) ''always_on.exits'') (\<lambda>rs.
     bindR (mapR (profile_rules profiles) PROFILE_ORDER) (\<lambda>groups. Inr ((''always_on'', rs) # groups)))))))"

section \<open>Instance identifiers\<close>

definition require_non_empty_instance_id :: "json \<Rightarrow> string \<Rightarrow> string res" where
  "require_non_empty_instance_id v path =
     (case v of JStr s \<Rightarrow> raise_if (s = []) (InvalidRequest (path @ '' must be a non-empty string'')) (Inr s)
      | _ \<Rightarrow> Inl (InvalidRequest (path @ '' must be a non-empty string'')))"

fun unique_ids_from :: "string \<Rightarrow> string list \<Rightarrow> (json \<times> string) list \<Rightarrow> unit res" where
  "unique_ids_from scope seen [] = Inr ()"
| "unique_ids_from scope seen ((raw, path) # pairs) =
     bindR (require_non_empty_instance_id raw path) (\<lambda>i.
     raise_if (i \<in> set seen) (InvalidRequest (scope @ '' instance_id must be unique''))
       (unique_ids_from scope (i # seen) pairs))"

definition require_unique_instance_ids :: "string \<Rightarrow> (json \<times> string) list \<Rightarrow> unit res" where
  "require_unique_instance_ids scope pairs = unique_ids_from scope [] pairs"

section \<open>Initial-R stops\<close>

text \<open>A number or its text (no truth value), finite; only the \<open>ValueError\<close> of \<open>float\<close> is caught.\<close>

definition finite_number :: "json \<Rightarrow> string \<Rightarrow> f64 res" where
  "finite_number v msg =
     (if (case v of JInt _ \<Rightarrow> False | JFloat _ \<Rightarrow> False | JStr _ \<Rightarrow> False | _ \<Rightarrow> True) then Inl (InvalidRequest msg)
      else (case py_float v of
              Inl (PyValueError _) \<Rightarrow> Inl (InvalidRequest msg) | Inl e \<Rightarrow> Inl e
            | Inr x \<Rightarrow> raise_if (\<not> isfinite x) (InvalidRequest msg) (Inr x)))"

definition positive_finite :: "json \<Rightarrow> string \<Rightarrow> f64 res" where
  "positive_finite v path =
     bindR (finite_number v (path @ '' must be a positive number'')) (\<lambda>x.
     raise_if (fle x (Fin 0)) (InvalidRequest (path @ '' must be a positive number'')) (Inr x))"

definition non_negative_finite :: "json \<Rightarrow> string \<Rightarrow> f64 res" where
  "non_negative_finite v path =
     bindR (finite_number v (path @ '' must be a non-negative number'')) (\<lambda>x.
     raise_if (flt x (Fin 0)) (InvalidRequest (path @ '' must be a non-negative number'')) (Inr x))"

datatype initial_r_formula = Initial_r_lock | Initial_r_trailing

definition resolve_initial_r_stop :: "string \<Rightarrow> obj \<Rightarrow> string \<Rightarrow> (initial_r_formula \<times> f64 \<times> f64) option res" where
  "resolve_initial_r_stop cmp params path =
     (if cmp \<notin> set INITIAL_R_STOP_SUPPORTED then Inr None
      else bindR (positive_finite (get params ''trigger_r'') (path @ ''.trigger_r'')) (\<lambda>trigger_r.
        if cmp = ''initial_r_lock_stop'' then
          bindR (non_negative_finite (get params ''lock_r'') (path @ ''.lock_r'')) (\<lambda>lock_r.
          raise_if (fgt lock_r trigger_r) (InvalidRequest (path @ ''.lock_r must not exceed trigger_r''))
            (Inr (Some (Initial_r_lock, trigger_r, lock_r))))
        else
          bindR (positive_finite (get params ''trail_distance_r'') (path @ ''.trail_distance_r'')) (\<lambda>trail_r.
          raise_if (fgt trail_r trigger_r) (InvalidRequest (path @ ''.trail_distance_r must not exceed trigger_r''))
            (Inr (Some (Initial_r_trailing, trigger_r, trail_r))))))"

definition stop_path :: "nat \<Rightarrow> string" where
  "stop_path i = at_index ''trade_management.exit_management.stop_management'' i @ ''.params''"

fun check_initial_r_stops :: "nat \<Rightarrow> json list \<Rightarrow> unit res" where
  "check_initial_r_stops i [] = Inr ()"
| "check_initial_r_stops i (stop # rest) =
     (case stop of
        JObj ob \<Rightarrow>
          (let cmp = text_of ob ''component_id'' [] in
           if cmp \<notin> set INITIAL_R_STOP_SUPPORTED then check_initial_r_stops (Suc i) rest
           else bindR (require_mapping (get_or ob ''params'' (JObj [])) (stop_path i)) (\<lambda>params.
                bindR (resolve_initial_r_stop cmp params (stop_path i)) (\<lambda>_. check_initial_r_stops (Suc i) rest)))
      | _ \<Rightarrow> check_initial_r_stops (Suc i) rest)"

definition require_initial_r_stops :: "obj \<Rightarrow> unit res" where
  "require_initial_r_stops raw_spec =
     (case get raw_spec ''trade_management'' of
        JObj tm \<Rightarrow>
          (case get tm ''exit_management'' of
             JObj em \<Rightarrow> check_initial_r_stops 0 (case get em ''stop_management'' of JList xs \<Rightarrow> xs | _ \<Rightarrow> [])
           | _ \<Rightarrow> Inr ())
      | _ \<Rightarrow> Inr ())"

section \<open>Partial takes\<close>

text \<open>\<open>Decimal(repr(x))\<close> of a finite float.\<close>

definition float_decimal :: "rat \<Rightarrow> rat" where
  "float_decimal x =
     (if x = 0 then 0
      else (let (ds, p) = float_digits \<bar>x\<bar>; m = of_int (digits_int ds) * ten_pow (p - int (length ds))
            in if x < 0 then - m else m))"

text \<open>The sum of two decimals, rounded half to even at 28 significant digits.\<close>

definition dec_round :: "rat \<Rightarrow> rat" where
  "dec_round q = (if q = 0 then 0 else (let k = dec_exp \<bar>q\<bar> in of_int (round_even (q * ten_pow (28 - k))) * ten_pow (k - 28)))"

definition dec_add :: "rat \<Rightarrow> rat \<Rightarrow> rat" where
  "dec_add a b = dec_round (a + b)"

definition resolve_partial_take_fraction :: "obj \<Rightarrow> string \<Rightarrow> f64 res" where
  "resolve_partial_take_fraction rule path =
     bindR (positive_finite (get rule ''fraction_of_initial'') (path @ ''.fraction_of_initial'')) (\<lambda>x.
     raise_if (fle (Fin 1) x) (InvalidRequest (path @ ''.fraction_of_initial must be below 1'')) (Inr x))"

definition resolve_partial_take_pct :: "obj \<Rightarrow> string \<Rightarrow> f64 res" where
  "resolve_partial_take_pct rule path = positive_finite (get rule ''pct'') (path @ ''.pct'')"

text \<open>One rule of a group: the sum of the fractions so far and whether a final take was seen.\<close>

definition ladder_rule :: "string \<Rightarrow> rat \<times> bool \<Rightarrow> obj \<Rightarrow> (rat \<times> bool) res" where
  "ladder_rule path acc rule =
     (let total = fst acc; cmp = text_of rule ''component_id'' []; kind = text_of rule ''exit_kind'' ''signal'';
          take_seen = (snd acc \<or> kind = ''take_profit'') in
      if cmp \<notin> set EXIT_PARTIAL_TAKE_SUPPORTED then
        raise_if (kind = PARTIAL_TAKE_EXIT_KIND) (InvalidRequest ''exit component has mismatched exit_kind'')
          (Inr (total, take_seen))
      else raise_if (kind \<noteq> PARTIAL_TAKE_EXIT_KIND)
        (InvalidRequest ''partial take exit component requires exit_kind partial_take'')
        (bindR (resolve_partial_take_fraction rule path) (\<lambda>x.
         (let total' = dec_add total (float_decimal (fin_val x)) in
          if cmp = ''pct_partial_take'' then
            bindR (resolve_partial_take_pct rule path) (\<lambda>_. Inr (total', take_seen))
          else
            bindR (require_mapping (get rule ''distance'') (path @ ''.distance'')) (\<lambda>distance.
            bindR (positive_finite (get distance ''multiplier'') (path @ ''.distance.multiplier'')) (\<lambda>_.
            Inr (total', take_seen)))))))"

fun ladder_group :: "string \<Rightarrow> nat \<Rightarrow> rat \<times> bool \<Rightarrow> obj list \<Rightarrow> (rat \<times> bool) res" where
  "ladder_group g i acc [] = Inr acc"
| "ladder_group g i acc (rule # rules) =
     bindR (ladder_rule (at_index (''trade_management.exit_policy.'' @ g @ ''.exits'') i) acc rule) (\<lambda>acc'.
     ladder_group g (Suc i) acc' rules)"

definition group_ladder :: "rule_groups \<Rightarrow> string \<Rightarrow> (rat \<times> bool) res" where
  "group_ladder groups g =
     (case map_of groups g of None \<Rightarrow> Inl (PyKeyError g) | Some rules \<Rightarrow> ladder_group g 0 (0, False) rules)"

text \<open>The second loop: one profile against the rules that are always on.\<close>

definition profile_check :: "rat \<times> bool \<Rightarrow> rat \<times> bool \<Rightarrow> unit res" where
  "profile_check always own =
     (let total = dec_add (fst always) (fst own) in
      if total = 0 then Inr ()
      else raise_if (1 \<le> total) (InvalidRequest ''partial take fractions must sum below 1 per profile'')
        (raise_if (\<not> (snd always \<or> snd own))
          (InvalidRequest ''partial takes require a take_profit rule in the same profile'') (Inr ())))"

definition require_partial_take_ladder :: "rule_groups \<Rightarrow> unit res" where
  "require_partial_take_ladder groups =
     bindR (group_ladder groups ''always_on'') (\<lambda>always.
     bindR (mapR (group_ladder groups) PROFILE_ORDER) (\<lambda>own.
     bindR (mapR (profile_check always) own) (\<lambda>_. Inr ())))"

section \<open>What the readers return\<close>

text \<open>A document that must be of one kind.\<close>

lemma case_kind_Inr:
  "(case v of JInt n \<Rightarrow> f n | _ \<Rightarrow> Inl e) = Inr y \<longleftrightarrow> (\<exists>n. v = JInt n \<and> f n = Inr y)"
  "(case v of JStr s \<Rightarrow> g s | _ \<Rightarrow> Inl e) = Inr y \<longleftrightarrow> (\<exists>s. v = JStr s \<and> g s = Inr y)"
  "(case v of JList xs \<Rightarrow> h xs | _ \<Rightarrow> Inl e) = Inr y \<longleftrightarrow> (\<exists>xs. v = JList xs \<and> h xs = Inr y)"
  by (cases v; auto)+

lemma finite_number_Inr: "finite_number v msg = Inr x \<Longrightarrow> isfinite x"
  by (cases v) (auto simp: finite_number_def raise_if_Inr split: sum.splits err.splits option.splits if_splits)

lemma positive_finite_Inr: "positive_finite v path = Inr x \<Longrightarrow> isfinite x \<and> flt (Fin 0) x"
  by (cases x) (auto simp: positive_finite_def bindR_Inr raise_if_Inr dest: finite_number_Inr)

lemma non_negative_finite_Inr: "non_negative_finite v path = Inr x \<Longrightarrow> isfinite x \<and> fle (Fin 0) x"
  by (cases x) (auto simp: non_negative_finite_def bindR_Inr raise_if_Inr dest: finite_number_Inr)

lemma initial_r_stop_bounds:
  assumes "resolve_initial_r_stop cmp params path = Inr (Some (formula, trigger_r, r))"
  shows "isfinite trigger_r \<and> isfinite r \<and> flt (Fin 0) trigger_r \<and> fle r trigger_r \<and>
    (case formula of Initial_r_lock \<Rightarrow> fle (Fin 0) r \<and> cmp = ''initial_r_lock_stop''
     | Initial_r_trailing \<Rightarrow> flt (Fin 0) r \<and> cmp = ''initial_r_trailing_stop'')"
proof -
  have le: "fle a b" if "isfinite a" "isfinite b" "\<not> flt b a" for a b
    using that by (cases a; cases b) auto
  show ?thesis using assms
    by (auto simp: resolve_initial_r_stop_def INITIAL_R_STOP_SUPPORTED_def bindR_Inr raise_if_Inr split: if_splits
        dest!: positive_finite_Inr non_negative_finite_Inr intro: le)
qed

end
