(* ===== verification/ManagedTrade.thy ===== *)
theory ManagedTrade
  imports ManagedComposite RawSpec
begin

text \<open>
  The state of one open trade under managed exits and the conditions read on a bar
  (\<open>strategies/ema_pullback/managed.py\<close>): phases, favourable and adverse extremes, the atomic
  phase conditions, composite conditions, runtime exit signals and initial-R stop candidates.
  The state object the source mutates is a record returned updated.
\<close>

section \<open>State\<close>

definition PHASES :: "string list" where
  "PHASES = [''initial_risk'', ''proven'', ''protected'', ''runner'', ''exhaustion'']"

record managed_state =
  ms_side :: string
  entry_index :: nat
  entry_time_ms :: int
  entry_price :: f64
  bars_in_trade :: int
  cur_phase :: string
  max_phase_reached :: string
  best_price :: f64
  worst_price :: f64
  mfe_price :: f64
  mfe_pct :: f64
  mae_price :: f64
  mae_pct :: f64
  initial_risk :: "f64 option"
  active_stop_price :: "f64 option"
  active_stop_rule_id :: "string option"
  active_stop_component_id :: "string option"
  active_take_profile :: string
  active_take_rule_id :: "string option"
  active_take_component_id :: "string option"
  active_runtime_exit_rules :: "string list"

definition initial_state :: "string \<Rightarrow> nat \<Rightarrow> int \<Rightarrow> f64 \<Rightarrow> managed_state" where
  "initial_state sd i t price = \<lparr>ms_side = sd, entry_index = i, entry_time_ms = t, entry_price = price, bars_in_trade = 0,
     cur_phase = ''initial_risk'', max_phase_reached = ''initial_risk'', best_price = price, worst_price = price,
     mfe_price = price, mfe_pct = Fin 0, mae_price = price, mae_pct = Fin 0, initial_risk = None,
     active_stop_price = None, active_stop_rule_id = None, active_stop_component_id = None,
     active_take_profile = ''initial'', active_take_rule_id = None, active_take_component_id = None,
     active_runtime_exit_rules = []\<rparr>"

definition rank :: "string \<Rightarrow> nat res" where
  "rank p = (case index_of p PHASES of None \<Rightarrow> Inl (InvalidRequest ''unknown trade-management phase'') | Some n \<Rightarrow> Inr n)"

definition phase_at_least :: "string \<Rightarrow> string \<Rightarrow> bool res" where
  "phase_at_least cur threshold = bindR (rank cur) (\<lambda>a. bindR (rank threshold) (\<lambda>b. Inr (b \<le> a)))"

text \<open>\<open>_items\<close>: nothing for \<open>None\<close>, otherwise a list of objects.\<close>

definition rule_items :: "json \<Rightarrow> string \<Rightarrow> obj list res" where
  "rule_items v path =
     (case v of JNull \<Rightarrow> Inr [] | JList xs \<Rightarrow> mapR (\<lambda>x. require_mapping x (path @ ''[]'')) xs
      | _ \<Rightarrow> Inl (InvalidRequest (path @ '' must be a list'')))"

section \<open>Extremes\<close>

definition update_extremes :: "managed_state \<Rightarrow> nat \<Rightarrow> f64 \<Rightarrow> f64 \<Rightarrow> managed_state res" where
  "update_extremes st i high low =
     (let e = entry_price st; n = int i - int (entry_index st) + 1 in
      if ms_side st = ''long'' then
        (let b = py_max (best_price st) high; w = py_min (worst_price st) low in
         bindR (py_div (fsub b e) e) (\<lambda>mfe. bindR (py_div (fsub e w) e) (\<lambda>mae.
         Inr (st\<lparr>bars_in_trade := n, best_price := b, worst_price := w, mfe_price := b, mae_price := w,
                mfe_pct := mfe, mae_pct := mae\<rparr>))))
      else
        (let b = py_min (best_price st) low; w = py_max (worst_price st) high in
         bindR (py_div (fsub e b) e) (\<lambda>mfe. bindR (py_div (fsub w e) e) (\<lambda>mae.
         Inr (st\<lparr>bars_in_trade := n, best_price := b, worst_price := w, mfe_price := b, mae_price := w,
                mfe_pct := mfe, mae_pct := mae\<rparr>)))))"

section \<open>Phase conditions\<close>

definition not_ready :: obj where
  "not_ready = [(''reason'', JStr ''indicator_not_ready'')]"

definition favourable :: "managed_state \<Rightarrow> f64" where
  "favourable st = fabs (fsub (mfe_price st) (entry_price st))"

definition mfe_atr_met :: "managed_state \<Rightarrow> nat \<Rightarrow> feature_frame \<Rightarrow> ema_plan \<Rightarrow> obj \<Rightarrow> (bool \<times> obj) res" where
  "mfe_atr_met st i fr plan params =
     bindR (read_float (get params ''threshold'') ''mfe_atr.threshold'' True) (\<lambda>threshold.
     bindR (require_mapping (get params ''atr'') ''mfe_atr.atr'') (\<lambda>atr.
     bindR (read_int (get atr ''period'') ''mfe_atr.atr.period'') (\<lambda>period.
     bindR (atr_output_id plan (text_of atr ''timeframe'' []) period) (\<lambda>oid.
     case feature_value fr oid i of
       None \<Rightarrow> Inr (False, not_ready)
     | Some v \<Rightarrow>
         if fle v (Fin 0) then Inr (False, not_ready)
         else Inr (fge (favourable st) (fmul threshold v), [(''threshold'', JFloat threshold), (''atr'', JFloat v)])))))"

definition mfe_r_met :: "managed_state \<Rightarrow> obj \<Rightarrow> (bool \<times> obj) res" where
  "mfe_r_met st params =
     bindR (read_float (get params ''threshold'') ''mfe_r.threshold'' True) (\<lambda>threshold.
     case initial_risk st of
       None \<Rightarrow> Inr (False, [(''reason'', JStr ''initial_risk_unavailable'')])
     | Some risk \<Rightarrow>
         if fle risk (Fin 0) then Inr (False, [(''reason'', JStr ''initial_risk_unavailable'')])
         else (let r = fdiv (favourable st) risk in
               Inr (fge r threshold, [(''threshold'', JFloat threshold), (''mfe_r'', JFloat r)])))"

definition adx_di_met :: "managed_state \<Rightarrow> nat \<Rightarrow> feature_frame \<Rightarrow> ema_plan \<Rightarrow> obj \<Rightarrow> (bool \<times> obj) res" where
  "adx_di_met st i fr plan params =
     bindR (read_int (get params ''period'') ''adx_di_threshold.period'') (\<lambda>period.
     (let cols = adx_columns plan (text_of params ''timeframe'' []) period;
          v = (\<lambda>k. feature_value fr (map_of cols k) i) in
      case (v ''adx'', v ''di_plus'', v ''di_minus'') of
        (Some adx, Some pl, Some mi) \<Rightarrow>
          bindR (read_float (get params ''adx_threshold'') ''adx_di_threshold.adx_threshold'' True) (\<lambda>threshold.
          (let aligned = (if ms_side st = ''long'' then fgt pl mi else fgt mi pl) in
           case get_or params ''require_di_alignment'' (JBool True) of
             JBool req \<Rightarrow>
               Inr (fge adx threshold \<and> (\<not> req \<or> aligned),
                    [(''adx'', JFloat adx), (''di_plus'', JFloat pl), (''di_minus'', JFloat mi), (''di_aligned'', JBool aligned)])
           | _ \<Rightarrow> Inl (InvalidRequest ''require_di_alignment must be boolean'')))
      | _ \<Rightarrow> Inr (False, not_ready)))"

definition phase_met :: "obj \<Rightarrow> managed_state \<Rightarrow> nat \<Rightarrow> feature_frame \<Rightarrow> ema_plan \<Rightarrow> (bool \<times> obj) res" where
  "phase_met condition st i fr plan =
     (let cmp = text_of condition ''component_id'' [] in
      bindR (require_mapping (get_or condition ''params'' (JObj [])) ''phase condition params'') (\<lambda>params.
      if cmp = ''bars_in_trade'' then
        bindR (read_int (get params ''threshold'') ''bars_in_trade.threshold'') (\<lambda>n.
        Inr (n \<le> bars_in_trade st, [(''threshold'', JInt n)]))
      else if cmp = ''mfe_pct'' then
        bindR (read_float (get params ''threshold'') ''mfe_pct.threshold'' True) (\<lambda>x.
        Inr (fge (mfe_pct st) x, [(''threshold'', JFloat x)]))
      else if cmp = ''mfe_atr'' then mfe_atr_met st i fr plan params
      else if cmp = ''mfe_r'' then mfe_r_met st params
      else if cmp = ''adx_di_threshold'' then adx_di_met st i fr plan params
      else Inl (InvalidRequest ''unsupported phase condition'')))"

text \<open>A phase rule with its fold; only composite conditions have one.\<close>

definition fold_rule ::
  "predicate_layer \<Rightarrow> change_parser \<Rightarrow> feature_frame \<Rightarrow> ema_plan \<Rightarrow> string \<Rightarrow> nat \<Rightarrow> obj \<Rightarrow> folded_composite option res" where
  "fold_rule eval parse fr plan sd k rule =
     (case get rule ''condition'' of
        JObj c \<Rightarrow>
          (if text_of c ''component_id'' [] \<noteq> COMPOSITE_PHASE_CONDITION then Inr None
           else bindR (parse_composite_phase_condition c (at_index ''phase_rules'' k @ ''.condition'')) (\<lambda>spec.
                bindR (fold_phase_paths eval parse spec fr plan sd) (\<lambda>f. Inr (Some f))))
      | _ \<Rightarrow> Inr None)"

fun fold_composite_rules ::
  "predicate_layer \<Rightarrow> change_parser \<Rightarrow> feature_frame \<Rightarrow> ema_plan \<Rightarrow> string \<Rightarrow> nat \<Rightarrow> obj list \<Rightarrow>
     (obj \<times> folded_composite option) list res" where
  "fold_composite_rules eval parse fr plan sd k [] = Inr []"
| "fold_composite_rules eval parse fr plan sd k (rule # rules) =
     bindR (fold_rule eval parse fr plan sd k rule) (\<lambda>f.
     bindR (fold_composite_rules eval parse fr plan sd (Suc k) rules) (\<lambda>rest. Inr ((rule, f) # rest)))"

definition attribution_obj :: "attribution option \<Rightarrow> obj" where
  "attribution_obj a =
     (case a of None \<Rightarrow> []
      | Some (pid, ch) \<Rightarrow> [(''path_id'', JStr pid), (''children'', JObj (map (\<lambda>(r, b). (r, JBool b)) ch))])"

definition composite_phase_met ::
  "folded_composite \<Rightarrow> managed_state \<Rightarrow> nat \<Rightarrow> feature_frame \<Rightarrow> ema_plan \<Rightarrow> (bool \<times> obj) res" where
  "composite_phase_met f st i fr plan =
     bindR (composite_met f i
       (\<lambda>c. bindR (phase_met c st i fr plan) (\<lambda>r. Inr (fst r)))
       (\<lambda>ch. change_met ch (feature_value fr (Some (output_id (cse_feature ch))) i)
                (feature_value fr (Some (output_id (cse_feature ch))) (entry_index st)))) (\<lambda>(met, a).
     Inr (met, attribution_obj a))"

section \<open>Initial-R stop candidates\<close>

definition initial_r_stop_candidate :: "initial_r_formula \<times> f64 \<times> f64 \<Rightarrow> managed_state \<Rightarrow> f64 option" where
  "initial_r_stop_candidate q st =
     (case q of (formula, trigger_r, action_r) \<Rightarrow>
      (case initial_risk st of
         None \<Rightarrow> None
       | Some risk \<Rightarrow>
           if fle risk (Fin 0) then None
           else if flt (fdiv (favourable st) risk) trigger_r then None
           else (let offset = fmul action_r risk in
             case formula of
               Initial_r_lock \<Rightarrow> Some (if ms_side st = ''long'' then fadd (entry_price st) offset else fsub (entry_price st) offset)
             | Initial_r_trailing \<Rightarrow> Some (if ms_side st = ''long'' then fsub (mfe_price st) offset else fadd (mfe_price st) offset))))"

section \<open>Runtime exit signals\<close>

definition py_slice :: "'a list \<Rightarrow> int \<Rightarrow> nat \<Rightarrow> 'a list" where
  "py_slice xs a b = drop (nat a) (take b xs)"

fun ema_crossed :: "string \<Rightarrow> f64 option list \<Rightarrow> f64 option list \<Rightarrow> nat list \<Rightarrow> bool res" where
  "ema_crossed sd fast slow [] = Inr True"
| "ema_crossed sd fast slow (p # ps) =
     bindR (item fast p) (\<lambda>a. bindR (item slow p) (\<lambda>b.
     case (a, b) of
       (Some x, Some y) \<Rightarrow> (if (if sd = ''long'' then fle x y else fge x y) then ema_crossed sd fast slow ps else Inr False)
     | _ \<Rightarrow> Inr False))"

definition ema_column :: "ema_plan \<Rightarrow> obj \<Rightarrow> string res" where
  "ema_column plan ref =
     bindR (py_int (get_or ref ''period'' (JInt 0))) (\<lambda>p.
     Inr (case map_of (ema_columns plan) (text_of ref ''timeframe'' [], p) of None \<Rightarrow> [] | Some k \<Rightarrow> k))"

definition rsi_signal :: "obj \<Rightarrow> managed_state \<Rightarrow> nat \<Rightarrow> int \<Rightarrow> feature_frame \<Rightarrow> ema_plan \<Rightarrow> bool res" where
  "rsi_signal params st i start_at fr plan =
     bindR (require_mapping (get params ''rsi'') ''runtime rsi'') (\<lambda>rsi.
     bindR (py_int (get_or rsi ''period'' (JInt 0))) (\<lambda>p.
     (let oid = (case map_of (rsi_columns plan) (text_of rsi ''timeframe'' [], p) of None \<Rightarrow> [] | Some k \<Rightarrow> k);
          vs = series_of fr oid;
          threshold = get params (if ms_side st = ''long'' then ''long_exit_above'' else ''short_exit_below'') in
      if threshold = JNull then Inr False
      else bindR (py_float threshold) (\<lambda>boundary.
        Inr (list_all (\<lambda>v. case v of None \<Rightarrow> False
               | Some x \<Rightarrow> if ms_side st = ''long'' then fge x boundary else fle x boundary)
             (py_slice vs start_at (i + 1)))))))"

definition ema_cross_signal :: "obj \<Rightarrow> managed_state \<Rightarrow> nat \<Rightarrow> int \<Rightarrow> feature_frame \<Rightarrow> ema_plan \<Rightarrow> bool res" where
  "ema_cross_signal params st i start_at fr plan =
     bindR (require_mapping (get params ''fast_ema'') ''runtime fast_ema'') (\<lambda>fast.
     bindR (require_mapping (get params ''slow_ema'') ''runtime slow_ema'') (\<lambda>slow.
     bindR (ema_column plan fast) (\<lambda>fk. bindR (ema_column plan slow) (\<lambda>sk.
     ema_crossed (ms_side st) (series_of fr fk) (series_of fr sk) [nat start_at ..< i + 1]))))"

definition runtime_signal :: "obj \<Rightarrow> managed_state \<Rightarrow> nat \<Rightarrow> feature_frame \<Rightarrow> ema_plan \<Rightarrow> nat \<Rightarrow> bool res" where
  "runtime_signal rule st i fr plan eval_start =
     (let cmp = text_of rule ''component_id'' [] in
      bindR (require_mapping (get_or rule ''params'' (JObj [])) ''runtime exit params'') (\<lambda>params.
      if cmp = ''phase_runtime_exit'' then Inr (text_of params ''exit_price'' ''close'' = ''close'')
      else bindR (py_int (get_or params ''confirm_bars'' (JInt 1))) (\<lambda>confirm.
        (let start_at = int i - confirm + 1 in
         if start_at < int eval_start then Inr False
         else if cmp = ''rsi_signal_exit'' then rsi_signal params st i start_at fr plan
         else if cmp = ''ema_cross_loss_exit'' then ema_cross_signal params st i start_at fr plan
         else Inl (InvalidRequest ''unsupported runtime exit component'')))))"

end
