(* ===== verification/ManagedReplay.thy ===== *)
theory ManagedReplay
  imports ManagedTrade
begin

text \<open>
  The replay of managed exits over the bars of one trade (\<open>managed.py\<close>): phase rules, stop
  candidates and the tightened stop, the take profile, runtime exits, the two entry points and
  the wire form.  The loop over the bars is a fold whose state is the trade with the events and
  the bar decisions so far.
\<close>

record managed_event =
  ev_time_ms :: int
  ev_bar_index :: nat
  ev_type :: string
  ev_rule_id :: "string option"
  ev_component_id :: "string option"
  ev_from_phase :: "string option"
  ev_to_phase :: "string option"
  ev_price :: "f64 option"
  ev_metadata :: obj

record bar_decision =
  bd_time_ms :: int
  bd_bar_index :: nat
  bd_phase :: string
  bd_bars_in_trade :: int
  bd_mfe_pct :: f64
  bd_mae_pct :: f64
  bd_active_stop_price :: "f64 option"
  bd_active_take_profile :: string
  bd_runtime_exit_rule_ids :: "string list"
  bd_effective_from :: "int option"

type_synonym trade_log = "managed_state \<times> managed_event list"

definition effective_from_bar :: "nat \<Rightarrow> string \<times> json" where
  "effective_from_bar i = (''effective_from_bar'', JInt (int i + 1))"

text \<open>The phase threshold of a stop, take or runtime rule, against the current phase.\<close>

definition rule_active :: "managed_state \<Rightarrow> obj \<Rightarrow> bool res" where
  "rule_active st rule =
     bindR (require_mapping (get rule ''activate_when'') ''activate_when'') (\<lambda>aw.
     phase_at_least (cur_phase st) (text_of aw ''phase_at_least'' []))"

section \<open>Phase rules\<close>

definition enter_phase :: "managed_state \<Rightarrow> string \<Rightarrow> managed_state res" where
  "enter_phase st to_phase =
     bindR (rank to_phase) (\<lambda>a. bindR (rank (max_phase_reached st)) (\<lambda>b.
     Inr (st\<lparr>cur_phase := to_phase, max_phase_reached := (if b < a then to_phase else max_phase_reached st)\<rparr>)))"

definition phase_rule_step ::
  "feature_frame \<Rightarrow> ema_plan \<Rightarrow> nat \<Rightarrow> int \<Rightarrow> trade_log \<Rightarrow> obj \<times> folded_composite option \<Rightarrow> trade_log res" where
  "phase_rule_step fr plan i t lg rf =
     (let st = fst lg; rule = fst rf; to_phase = text_of rule ''to_phase'' [] in
      bindR (rank to_phase) (\<lambda>a. bindR (rank (cur_phase st)) (\<lambda>b.
      if a \<le> b then Inr lg
      else bindR (case snd rf of Some f \<Rightarrow> composite_phase_met f st i fr plan
                  | None \<Rightarrow> bindR (require_mapping (get rule ''condition'') ''phase rule condition'') (\<lambda>c. phase_met c st i fr plan))
        (\<lambda>(met, diagnostics).
        if \<not> met then Inr lg
        else bindR (enter_phase st to_phase) (\<lambda>st'.
             bindR (require_mapping (get rule ''condition'') ''condition'') (\<lambda>c.
             Inr (st', snd lg @ [\<lparr>ev_time_ms = t, ev_bar_index = i, ev_type = ''phase_changed'',
               ev_rule_id = Some (text_of rule ''rule_id'' []), ev_component_id = Some (text_of c ''component_id'' []),
               ev_from_phase = Some (cur_phase st), ev_to_phase = Some to_phase, ev_price = Some (mfe_price st'),
               ev_metadata = diagnostics\<rparr>])))))))"

section \<open>Stop management\<close>

text \<open>The ATR an action refers to; its period defaults to \<open>atr_period\<close>, then to 14.\<close>

definition action_atr :: "feature_frame \<Rightarrow> ema_plan \<Rightarrow> nat \<Rightarrow> obj \<Rightarrow> string \<Rightarrow> f64 option res" where
  "action_atr fr plan i params path =
     bindR (require_mapping (get_or params ''atr'' (JObj [])) path) (\<lambda>ref.
     bindR (py_int (get_or ref ''period'' (get_or params ''atr_period'' (JInt 14)))) (\<lambda>period.
     bindR (atr_output_id plan (text_of ref ''timeframe'' ''base'') period) (\<lambda>oid.
     Inr (feature_value fr oid i))))"

definition offset_price :: "managed_state \<Rightarrow> string \<Rightarrow> f64 \<Rightarrow> f64" where
  "offset_price st sd offset = (if sd = ''long'' then fadd (entry_price st) offset else fsub (entry_price st) offset)"

definition atr_offset_price ::
  "feature_frame \<Rightarrow> ema_plan \<Rightarrow> nat \<Rightarrow> managed_state \<Rightarrow> string \<Rightarrow> obj \<Rightarrow> string \<Rightarrow> string \<Rightarrow> f64 option res" where
  "atr_offset_price fr plan i st sd params path k =
     bindR (action_atr fr plan i params path) (\<lambda>atr.
     case atr of None \<Rightarrow> Inr None
     | Some v \<Rightarrow> bindR (py_float (get_or params k (JFloat (Fin 0)))) (\<lambda>x. Inr (Some (offset_price st sd (fmul x v)))))"

definition stop_rule_price ::
  "feature_frame \<Rightarrow> ema_plan \<Rightarrow> nat \<Rightarrow> managed_state \<Rightarrow> string \<Rightarrow> obj \<Rightarrow> f64 option res" where
  "stop_rule_price fr plan i st sd rule =
     (let cmp = text_of rule ''component_id'' [] in
      bindR (require_mapping (get_or rule ''params'' (JObj [])) ''stop params'') (\<lambda>params.
      if cmp = ''break_even_stop'' then
        (if get_or params ''buffer_type'' (JStr ''none'') = JStr ''none'' then
           bindR (py_float (get_or params ''buffer'' (JFloat (Fin 0)))) (\<lambda>x. Inr (Some (offset_price st sd x)))
         else atr_offset_price fr plan i st sd params ''break-even atr'' ''buffer_atr'')
      else if cmp = ''lock_profit_stop'' then atr_offset_price fr plan i st sd params ''lock atr'' ''lock_atr''
      else bindR (resolve_initial_r_stop cmp params (cmp @ ''.params'')) (\<lambda>q.
        case q of None \<Rightarrow> Inl (InvalidRequest ''unsupported stop management component'')
        | Some f \<Rightarrow> Inr (initial_r_stop_candidate f st))))"

fun stop_candidates ::
  "feature_frame \<Rightarrow> ema_plan \<Rightarrow> nat \<Rightarrow> managed_state \<Rightarrow> string \<Rightarrow> obj list \<Rightarrow> (f64 \<times> obj) list res" where
  "stop_candidates fr plan i st sd [] = Inr []"
| "stop_candidates fr plan i st sd (rule # rules) =
     bindR (rule_active st rule) (\<lambda>act.
     bindR (if act then stop_rule_price fr plan i st sd rule else Inr None) (\<lambda>price.
     bindR (stop_candidates fr plan i st sd rules) (\<lambda>rest.
     Inr (case price of None \<Rightarrow> rest | Some p \<Rightarrow> (p, rule) # rest))))"

text \<open>\<open>max(candidates, key=...)\<close> keeps the first of equal ones; for a short trade \<open>min\<close>.\<close>

definition better :: "string \<Rightarrow> f64 \<Rightarrow> f64 \<Rightarrow> bool" where
  "better sd x y = (if sd = ''long'' then flt y x else flt x y)"

fun choose_stop :: "string \<Rightarrow> f64 \<times> obj \<Rightarrow> (f64 \<times> obj) list \<Rightarrow> f64 \<times> obj" where
  "choose_stop sd c [] = c"
| "choose_stop sd c (d # ds) = choose_stop sd (if better sd (fst d) (fst c) then d else c) ds"

definition tighten :: "string \<Rightarrow> f64 option \<Rightarrow> f64 \<Rightarrow> f64" where
  "tighten sd cur p = (case cur of None \<Rightarrow> p | Some s \<Rightarrow> if sd = ''long'' then py_max s p else py_min s p)"

definition stop_tolerance :: f64 where "stop_tolerance = rnd (1 / 100000000)"

definition stop_moves :: "f64 option \<Rightarrow> f64 \<Rightarrow> bool" where
  "stop_moves cur p = (case cur of None \<Rightarrow> True | Some s \<Rightarrow> fgt (fabs (fsub p s)) stop_tolerance)"

definition stop_step ::
  "feature_frame \<Rightarrow> ema_plan \<Rightarrow> nat \<Rightarrow> int \<Rightarrow> string \<Rightarrow> obj list \<Rightarrow> trade_log \<Rightarrow> trade_log res" where
  "stop_step fr plan i t sd rules lg =
     (let st = fst lg in
      bindR (stop_candidates fr plan i st sd rules) (\<lambda>cands.
      case cands of [] \<Rightarrow> Inr lg
      | c # cs \<Rightarrow>
          (let (price, rule) = choose_stop sd c cs; p = tighten sd (active_stop_price st) price in
           if stop_moves (active_stop_price st) p then
             (let st' = st\<lparr>active_stop_price := Some p, active_stop_rule_id := Some (text_of rule ''rule_id'' []),
                           active_stop_component_id := Some (text_of rule ''component_id'' [])\<rparr> in
              Inr (st', snd lg @ [\<lparr>ev_time_ms = t, ev_bar_index = i, ev_type = ''active_stop_updated'',
                ev_rule_id = active_stop_rule_id st', ev_component_id = active_stop_component_id st',
                ev_from_phase = None, ev_to_phase = None, ev_price = Some p, ev_metadata = [effective_from_bar i]\<rparr>]))
           else Inr lg)))"

section \<open>Take management\<close>

definition take_profile :: "string \<Rightarrow> string" where
  "take_profile action =
     (if action = ''disable_fixed_tp'' then ''disable_initial_tp''
      else if action = ''keep_initial'' then ''initial'' else action)"

definition take_rule_step :: "nat \<Rightarrow> int \<Rightarrow> trade_log \<Rightarrow> obj \<Rightarrow> trade_log res" where
  "take_rule_step i t lg rule =
     (let st = fst lg in
      bindR (rule_active st rule) (\<lambda>act.
      if \<not> act then Inr lg
      else raise_if (text_of rule ''component_id'' [] \<noteq> ''take_profile_switch'')
        (InvalidRequest ''unsupported take management component'')
        (bindR (require_mapping (get_or rule ''params'' (JObj [])) ''take params'') (\<lambda>params.
         (let prof = take_profile (text_of params ''action'' []) in
          if prof = active_take_profile st then Inr lg
          else (let st' = st\<lparr>active_take_profile := prof, active_take_rule_id := Some (text_of rule ''rule_id'' []),
                             active_take_component_id := Some ''take_profile_switch''\<rparr> in
            Inr (st', snd lg @ [\<lparr>ev_time_ms = t, ev_bar_index = i, ev_type = ''active_take_updated'',
              ev_rule_id = active_take_rule_id st', ev_component_id = active_take_component_id st',
              ev_from_phase = None, ev_to_phase = None, ev_price = None,
              ev_metadata = [(''take_profile'', JStr prof), effective_from_bar i]\<rparr>])))))))"

section \<open>Runtime exits\<close>

definition runtime_rule_step ::
  "feature_frame \<Rightarrow> ema_plan \<Rightarrow> nat \<Rightarrow> int \<Rightarrow> f64 \<Rightarrow> nat \<Rightarrow> managed_state \<Rightarrow> string list \<times> managed_event list \<Rightarrow> obj \<Rightarrow>
     (string list \<times> managed_event list) res" where
  "runtime_rule_step fr plan i t close_at eval_start st acc rule =
     bindR (rule_active st rule) (\<lambda>act.
     bindR (if act then runtime_signal rule st i fr plan eval_start else Inr False) (\<lambda>fired.
     if \<not> fired then Inr acc
     else (let rid = text_of rule ''rule_id'' [] in
       Inr (fst acc @ [rid], snd acc @ [\<lparr>ev_time_ms = t, ev_bar_index = i, ev_type = ''runtime_exit_triggered'',
         ev_rule_id = Some rid, ev_component_id = Some (text_of rule ''component_id'' []), ev_from_phase = None,
         ev_to_phase = None, ev_price = Some close_at,
         ev_metadata = [(''exit_kind'', JStr (text_of rule ''exit_kind'' ''market_close'')), effective_from_bar i]\<rparr>]))))"

definition runtime_step ::
  "feature_frame \<Rightarrow> ema_plan \<Rightarrow> nat \<Rightarrow> int \<Rightarrow> f64 \<Rightarrow> nat \<Rightarrow> obj list \<Rightarrow> trade_log \<Rightarrow> trade_log res" where
  "runtime_step fr plan i t close_at eval_start rules lg =
     bindR (foldR (runtime_rule_step fr plan i t close_at eval_start (fst lg)) ([], snd lg) rules) (\<lambda>(armed, evs).
     Inr ((fst lg)\<lparr>active_runtime_exit_rules := armed\<rparr>, evs))"

section \<open>One bar\<close>

definition decide_bar :: "feature_frame \<Rightarrow> nat \<Rightarrow> int \<Rightarrow> managed_state \<Rightarrow> bar_decision" where
  "decide_bar fr i t st =
     \<lparr>bd_time_ms = t, bd_bar_index = i, bd_phase = cur_phase st, bd_bars_in_trade = bars_in_trade st,
      bd_mfe_pct = mfe_pct st, bd_mae_pct = mae_pct st, bd_active_stop_price = active_stop_price st,
      bd_active_take_profile = active_take_profile st, bd_runtime_exit_rule_ids = active_runtime_exit_rules st,
      bd_effective_from = (if i + 1 < length (frame_time_ms fr) then Some (frame_time_ms fr ! (i + 1)) else None)\<rparr>"

record managed_rules =
  phase_rules :: "(obj \<times> folded_composite option) list"
  stop_rules :: "obj list"
  take_rules :: "obj list"
  runtime_rules :: "obj list"

definition bar_step ::
  "feature_frame \<Rightarrow> ema_plan \<Rightarrow> string \<Rightarrow> nat \<Rightarrow> managed_rules \<Rightarrow> trade_log \<times> bar_decision list \<Rightarrow> nat \<Rightarrow>
     (trade_log \<times> bar_decision list) res" where
  "bar_step fr plan sd eval_start rs acc i =
     bindR (item (frame_bars fr) i) (\<lambda>bar.
     bindR (update_extremes (fst (fst acc)) i (bar_high bar) (bar_low bar)) (\<lambda>st.
     bindR (item (frame_time_ms fr) i) (\<lambda>t.
     bindR (foldR (phase_rule_step fr plan i t) (st, snd (fst acc)) (phase_rules rs)) (\<lambda>lg1.
     bindR (stop_step fr plan i t sd (stop_rules rs) lg1) (\<lambda>lg2.
     bindR (foldR (take_rule_step i t) lg2 (take_rules rs)) (\<lambda>lg3.
     bindR (runtime_step fr plan i t (bar_close bar) eval_start (runtime_rules rs) lg3) (\<lambda>lg4.
     Inr (lg4, snd acc @ [decide_bar fr i t (fst lg4)]))))))))"

section \<open>The replay\<close>

record managed_result =
  mr_side :: string
  mr_entry_time_ms :: int
  mr_events :: "managed_event list"
  mr_bars :: "bar_decision list"
  mr_final_state :: managed_state

text \<open>The exit management section of the document.\<close>

definition exit_management :: "obj \<Rightarrow> obj res" where
  "exit_management raw_spec =
     bindR (require_mapping (get_or raw_spec ''trade_management'' (JObj [])) ''trade_management'') (\<lambda>m.
     require_mapping (get_or m ''exit_management'' (JObj [])) ''exit_management'')"

definition start_state :: "string \<Rightarrow> nat \<Rightarrow> int \<Rightarrow> f64 \<Rightarrow> int \<Rightarrow> f64 option \<Rightarrow> managed_state" where
  "start_state sd i t price offset stop =
     (initial_state sd i t price)\<lparr>bars_in_trade := (if offset = 1 then 1 else 0), active_stop_price := stop,
        initial_risk := map_option (\<lambda>s. fabs (fsub price s)) stop\<rparr>"

definition replay_core ::
  "predicate_layer \<Rightarrow> change_parser \<Rightarrow> obj \<Rightarrow> feature_frame \<Rightarrow> ema_plan \<Rightarrow> string \<Rightarrow> int \<Rightarrow> f64 \<Rightarrow> int \<Rightarrow> f64 option \<Rightarrow>
     int option \<Rightarrow> bool \<Rightarrow> managed_result res" where
  "replay_core eval parse raw_spec fr plan sd entry_t price offset stop target need_managed =
     bindR (exit_management raw_spec) (\<lambda>config.
     raise_if (need_managed \<and> get config ''mode'' \<noteq> JStr ''managed'')
       (InvalidRequest ''managed replay requires exit_management.mode=managed'')
     (case index_of entry_t (frame_time_ms fr) of
        None \<Rightarrow> Inl (InvalidRequest ''entry_time_ms is not on the evaluation grid'')
      | Some e \<Rightarrow>
     raise_if (fle price (Fin 0)) (InvalidRequest ''entry_price must be positive'')
     (bindR (rule_items (get_or config ''phase_rules'' (JList [])) ''phase_rules'') (\<lambda>prs.
      bindR (rule_items (get_or config ''stop_management'' (JList [])) ''stop_management'') (\<lambda>srs.
      bindR (rule_items (get_or config ''take_management'' (JList [])) ''take_management'') (\<lambda>trs.
      bindR (rule_items (get_or config ''runtime_exits'' (JList [])) ''runtime_exits'') (\<lambda>rrs.
      raise_if (offset \<notin> {0, 1}) (InvalidRequest ''evaluation_start_offset must be 0 or 1'')
      (let last = (case target of None \<Rightarrow> int (length (frame_time_ms fr)) - 1 | Some t \<Rightarrow> t);
           eval_start = e + nat offset in
       raise_if (last < int e \<or> int (length (frame_time_ms fr)) \<le> last)
         (InvalidRequest ''target_index is outside the managed replay frame'')
       (bindR (fold_composite_rules eval parse fr plan sd 0 prs) (\<lambda>folds.
        bindR (foldR (bar_step fr plan sd eval_start
                 \<lparr>phase_rules = folds, stop_rules = srs, take_rules = trs, runtime_rules = rrs\<rparr>)
               ((start_state sd e entry_t price offset stop, []), []) [eval_start ..< nat last + 1]) (\<lambda>(lg, bds).
        Inr \<lparr>mr_side = sd, mr_entry_time_ms = entry_t, mr_events = snd lg, mr_bars = bds, mr_final_state = fst lg\<rparr>)))))))))))"

definition evaluate_managed_replay ::
  "predicate_layer \<Rightarrow> change_parser \<Rightarrow> obj \<Rightarrow> feature_frame \<Rightarrow> ema_plan \<Rightarrow> string \<Rightarrow> int \<Rightarrow> f64 \<Rightarrow> f64 option \<Rightarrow>
     managed_result res" where
  "evaluate_managed_replay eval parse raw_spec fr plan sd entry_t price stop =
     replay_core eval parse raw_spec fr plan sd entry_t price 0 stop None True"

section \<open>Start after entry\<close>

text \<open>
  The planned entry, stop and take prices are decimals (rationals); the stop of the replay is a
  float, turned into a decimal through its shortest representation.
\<close>

datatype decimal = Decimal rat | NonFinite f64

definition decimal_of_float :: "f64 \<Rightarrow> decimal" where
  "decimal_of_float x = (case x of Fin r \<Rightarrow> Decimal (float_decimal r) | _ \<Rightarrow> NonFinite x)"

record start_after_entry =
  sa_replay :: managed_result
  desired_stop_price :: decimal
  desired_take_price :: "decimal option"

text \<open>\<open>float(Decimal)\<close> rounds once; beyond the largest double it is an infinity.\<close>

definition start_after_entry_projection ::
  "predicate_layer \<Rightarrow> change_parser \<Rightarrow> obj \<Rightarrow> feature_frame \<Rightarrow> ema_plan \<Rightarrow> string \<Rightarrow> int \<Rightarrow> rat \<Rightarrow> rat \<Rightarrow> rat \<Rightarrow> int \<Rightarrow>
     start_after_entry res" where
  "start_after_entry_projection eval parse raw_spec fr plan sd entry_t planned_entry initial_stop initial_take target_t =
     (case index_of target_t (frame_time_ms fr) of
        None \<Rightarrow> Inl (InvalidRequest ''target_time_ms is not on the evaluation grid'')
      | Some target \<Rightarrow>
          raise_if (initial_stop \<le> 0 \<or> initial_take \<le> 0) (InvalidRequest ''initial stop and take prices must be positive'')
          (bindR (replay_core eval parse raw_spec fr plan sd entry_t (rnd planned_entry) 1 (Some (rnd initial_stop))
                    (Some (int target)) False) (\<lambda>r.
           (let st = mr_final_state r in
            Inr \<lparr>sa_replay = r,
                 desired_stop_price = (case active_stop_rule_id st of None \<Rightarrow> Decimal initial_stop
                   | Some _ \<Rightarrow> (case active_stop_price st of Some p \<Rightarrow> decimal_of_float p | None \<Rightarrow> Decimal initial_stop)),
                 desired_take_price = (if active_take_profile st = ''disable_initial_tp'' then None
                   else Some (Decimal initial_take))\<rparr>))))"

section \<open>Wire form\<close>

definition opt_str :: "string option \<Rightarrow> json" where
  "opt_str v = (case v of None \<Rightarrow> JNull | Some s \<Rightarrow> JStr s)"

definition opt_int :: "int option \<Rightarrow> json" where
  "opt_int v = (case v of None \<Rightarrow> JNull | Some n \<Rightarrow> JInt n)"

definition event_to_wire :: "managed_event \<Rightarrow> json" where
  "event_to_wire e = JObj
     [(''time_ms'', JInt (ev_time_ms e)), (''bar_index'', JInt (int (ev_bar_index e))), (''event_type'', JStr (ev_type e)),
      (''rule_id'', opt_str (ev_rule_id e)), (''component_id'', opt_str (ev_component_id e)),
      (''from_phase'', opt_str (ev_from_phase e)), (''to_phase'', opt_str (ev_to_phase e)),
      (''price'', wire_text (ev_price e)), (''metadata'', JObj (ev_metadata e))]"

definition decision_to_wire :: "bar_decision \<Rightarrow> json" where
  "decision_to_wire b = JObj
     [(''time_ms'', JInt (bd_time_ms b)), (''bar_index'', JInt (int (bd_bar_index b))), (''phase'', JStr (bd_phase b)),
      (''bars_in_trade'', JInt (bd_bars_in_trade b)), (''mfe_pct'', wire_text (Some (bd_mfe_pct b))),
      (''mae_pct'', wire_text (Some (bd_mae_pct b))), (''active_stop_price'', wire_text (bd_active_stop_price b)),
      (''active_take_profile'', JStr (bd_active_take_profile b)),
      (''runtime_exit_rule_ids'', JList (map JStr (bd_runtime_exit_rule_ids b))),
      (''effective_from_time_ms'', opt_int (bd_effective_from b))]"

definition replay_to_wire :: "string \<Rightarrow> managed_result \<Rightarrow> json" where
  "replay_to_wire trade r =
     (let st = mr_final_state r in JObj
     [(''contract_version'', JStr ''managed_policy_replay.v1''),
      (''decision_timing'', JStr ''end_of_bar_effective_next_bar''), (''trade_id'', JStr trade),
      (''side'', JStr (mr_side r)), (''entry_time_ms'', JInt (mr_entry_time_ms r)),
      (''events'', JList (map event_to_wire (mr_events r))), (''bars'', JList (map decision_to_wire (mr_bars r))),
      (''final_state'', JObj
        [(''phase'', JStr (cur_phase st)), (''max_phase_reached'', JStr (max_phase_reached st)),
         (''bars_in_trade'', JInt (bars_in_trade st)), (''mfe_pct'', wire_text (Some (mfe_pct st))),
         (''mae_pct'', wire_text (Some (mae_pct st))), (''active_stop_price'', wire_text (active_stop_price st)),
         (''active_stop_rule_id'', opt_str (active_stop_rule_id st)),
         (''active_stop_component_id'', opt_str (active_stop_component_id st)),
         (''active_take_profile'', JStr (active_take_profile st)),
         (''active_take_rule_id'', opt_str (active_take_rule_id st)),
         (''active_take_component_id'', opt_str (active_take_component_id st)),
         (''active_runtime_exit_rules'', JList (map JStr (active_runtime_exit_rules st)))])])"

end
