(* ===== verification/ManagedSteps.thy ===== *)
theory ManagedSteps
  imports ManagedReplay
begin

text \<open>
  An abstract machine of managed exits: on a bar the extremes are updated, then the policy takes
  any number of steps, each entering a later phase, moving the stop, switching the take profile
  or arming runtime exits.  Every bar of the replay is a transition of this machine; facts about
  trades are proved once for relations its steps respect.
\<close>

section \<open>Phases in order\<close>

datatype managed_phase = Initial_risk | Proven | Protected | Runner | Exhaustion

primrec phase_order :: "managed_phase \<Rightarrow> nat" where
  "phase_order Initial_risk = 0"
| "phase_order Proven = 1"
| "phase_order Protected = 2"
| "phase_order Runner = 3"
| "phase_order Exhaustion = 4"

instantiation managed_phase :: linorder
begin

definition less_eq_managed_phase :: "managed_phase \<Rightarrow> managed_phase \<Rightarrow> bool" where
  "less_eq_managed_phase a b = (phase_order a \<le> phase_order b)"

definition less_managed_phase :: "managed_phase \<Rightarrow> managed_phase \<Rightarrow> bool" where
  "less_managed_phase a b = (phase_order a < phase_order b)"

instance
proof
  fix x y z :: managed_phase
  show "(x < y) = (x \<le> y \<and> \<not> y \<le> x)" by (auto simp: less_managed_phase_def less_eq_managed_phase_def)
  show "x \<le> x" by (simp add: less_eq_managed_phase_def)
  show "x \<le> y \<Longrightarrow> y \<le> z \<Longrightarrow> x \<le> z" by (simp add: less_eq_managed_phase_def)
  show "x \<le> y \<Longrightarrow> y \<le> x \<Longrightarrow> x = y" by (cases x; cases y) (auto simp: less_eq_managed_phase_def)
  show "x \<le> y \<or> y \<le> x" by (auto simp: less_eq_managed_phase_def)
qed

end

definition phase_of :: "string \<Rightarrow> managed_phase option" where
  "phase_of s = map_of (zip PHASES [Initial_risk, Proven, Protected, Runner, Exhaustion]) s"

lemma rank_phase_of: "rank s = Inr n \<longleftrightarrow> (\<exists>p. phase_of s = Some p \<and> phase_order p = n)"
  by (auto simp: rank_def phase_of_def PHASES_def split: option.splits if_splits)

section \<open>The abstract machine\<close>

inductive policy_step :: "string \<Rightarrow> managed_state \<Rightarrow> managed_state \<Rightarrow> bool" for sd where
  enter: "phase_of p = Some a \<Longrightarrow> phase_of (cur_phase s) = Some b \<Longrightarrow> b < a \<Longrightarrow> phase_of (max_phase_reached s) = Some m \<Longrightarrow>
     policy_step sd s (s\<lparr>cur_phase := p, max_phase_reached := (if m < a then p else max_phase_reached s)\<rparr>)"
| move_stop: "stop_moves (active_stop_price s) (tighten sd (active_stop_price s) q) \<Longrightarrow>
     policy_step sd s (s\<lparr>active_stop_price := Some (tighten sd (active_stop_price s) q), active_stop_rule_id := Some r,
       active_stop_component_id := Some c\<rparr>)"
| switch_take: "f \<noteq> active_take_profile s \<Longrightarrow>
     policy_step sd s (s\<lparr>active_take_profile := f, active_take_rule_id := Some r, active_take_component_id := Some c\<rparr>)"
| arm: "policy_step sd s (s\<lparr>active_runtime_exit_rules := rs\<rparr>)"

inductive_cases policy_stepE: "policy_step sd s t"

definition bar_transition :: "feature_frame \<Rightarrow> string \<Rightarrow> nat \<Rightarrow> managed_state \<Rightarrow> managed_state \<Rightarrow> bool" where
  "bar_transition fr sd i s t \<longleftrightarrow>
     (\<exists>bar u. i < length (frame_bars fr) \<and> bar = frame_bars fr ! i \<and>
        update_extremes s i (bar_high bar) (bar_low bar) = Inr u \<and> (policy_step sd)\<^sup>*\<^sup>* u t)"

section \<open>The replay is a run of the machine\<close>

lemma phase_rule_step_policy:
  assumes "phase_rule_step fr plan i t lg rf = Inr lg'"
  shows "(policy_step sd)\<^sup>*\<^sup>* (fst lg) (fst lg')"
proof -
  define p where "p = text_of (fst rf) ''to_phase'' []"
  obtain a b where ab: "rank p = Inr a" "rank (cur_phase (fst lg)) = Inr b"
    using assms by (auto simp: phase_rule_step_def bindR_Inr Let_def p_def)
  show ?thesis
  proof (cases "a \<le> b")
    case True
    then show ?thesis using assms ab by (simp add: phase_rule_step_def Let_def p_def)
  next
    case False
    then consider "lg' = lg" | st' where "enter_phase (fst lg) p = Inr st'" "fst lg' = st'"
      using assms ab by (auto simp: phase_rule_step_def bindR_Inr Let_def p_def split: if_splits)
    then show ?thesis
    proof cases
      case 2
      obtain m where m: "rank (max_phase_reached (fst lg)) = Inr m"
        "st' = (fst lg)\<lparr>cur_phase := p, max_phase_reached := (if m < a then p else max_phase_reached (fst lg))\<rparr>"
        using 2(1) ab by (auto simp: enter_phase_def bindR_Inr)
      obtain pa pb pm where ph: "phase_of p = Some pa" "phase_order pa = a" "phase_of (cur_phase (fst lg)) = Some pb"
        "phase_order pb = b" "phase_of (max_phase_reached (fst lg)) = Some pm" "phase_order pm = m"
        using ab m(1) by (auto simp: rank_phase_of)
      have "policy_step sd (fst lg) st'"
        using policy_step.enter[OF ph(1,3) _ ph(5), of sd] False ph(2,4,6) m(2) by (simp add: less_managed_phase_def)
      then show ?thesis using 2(2) by simp
    qed simp
  qed
qed

lemma stop_step_policy:
  assumes "stop_step fr plan i t sd rules lg = Inr lg'"
  shows "(policy_step sd)\<^sup>*\<^sup>* (fst lg) (fst lg')"
proof -
  obtain cands where c: "stop_candidates fr plan i (fst lg) sd rules = Inr cands"
    using assms by (auto simp: stop_step_def bindR_Inr Let_def)
  show ?thesis
  proof (cases cands)
    case Nil
    then show ?thesis using assms c by (simp add: stop_step_def)
  next
    case (Cons x xs)
    obtain q r where qr: "choose_stop sd x xs = (q, r)" by (cases "choose_stop sd x xs")
    show ?thesis
    proof (cases "stop_moves (active_stop_price (fst lg)) (tighten sd (active_stop_price (fst lg)) q)")
      case True
      then have "policy_step sd (fst lg) (fst lg')"
        using assms c Cons qr policy_step.move_stop[OF True] by (auto simp: stop_step_def Let_def)
      then show ?thesis by simp
    next
      case False
      then show ?thesis using assms c Cons qr by (simp add: stop_step_def Let_def)
    qed
  qed
qed

lemma take_rule_step_policy:
  assumes "take_rule_step i t lg rule = Inr lg'"
  shows "(policy_step sd)\<^sup>*\<^sup>* (fst lg) (fst lg')"
proof -
  obtain act where act: "rule_active (fst lg) rule = Inr act" using assms by (auto simp: take_rule_step_def bindR_Inr Let_def)
  show ?thesis
  proof (cases act)
    case False
    then show ?thesis using assms act by (simp add: take_rule_step_def Let_def)
  next
    case True
    obtain params where p: "require_mapping (get_or rule ''params'' (JObj [])) ''take params'' = Inr params"
      "text_of rule ''component_id'' [] = ''take_profile_switch''"
      using assms act True by (auto simp: take_rule_step_def Let_def bindR_Inr raise_if_Inr)
    define f where "f = take_profile (text_of params ''action'' [])"
    show ?thesis
    proof (cases "f = active_take_profile (fst lg)")
      case True
      then show ?thesis using assms act \<open>act\<close> p by (simp add: take_rule_step_def Let_def f_def)
    next
      case False
      then have "fst lg' = (fst lg)\<lparr>active_take_profile := f, active_take_rule_id := Some (text_of rule ''rule_id'' []),
          active_take_component_id := Some ''take_profile_switch''\<rparr>"
        using assms act \<open>act\<close> p by (auto simp: take_rule_step_def Let_def f_def)
      then have "policy_step sd (fst lg) (fst lg')" by (simp only: policy_step.switch_take[OF False])
      then show ?thesis by (rule r_into_rtranclp)
    qed
  qed
qed

lemma runtime_step_policy:
  assumes "runtime_step fr plan i t c es rules lg = Inr lg'"
  shows "(policy_step sd)\<^sup>*\<^sup>* (fst lg) (fst lg')"
proof -
  obtain armed evs where "lg' = ((fst lg)\<lparr>active_runtime_exit_rules := armed\<rparr>, evs)"
    using assms by (auto simp: runtime_step_def bindR_Inr)
  then show ?thesis using policy_step.arm[of sd "fst lg" armed] by auto
qed

lemma foldR_policy:
  assumes "foldR f lg xs = Inr lg'" "\<And>lg x lg'. f lg x = Inr lg' \<Longrightarrow> (policy_step sd)\<^sup>*\<^sup>* (fst lg) (fst lg')"
  shows "(policy_step sd)\<^sup>*\<^sup>* (fst lg) (fst lg')"
  using assms(1) by (rule foldR_relation[where R = "\<lambda>a b. (policy_step sd)\<^sup>*\<^sup>* (fst a) (fst b)"])
    (auto intro: rtranclp_trans assms(2))

lemma bar_step_transition:
  assumes "bar_step fr plan sd es rs acc i = Inr acc'"
  shows "bar_transition fr sd i (fst (fst acc)) (fst (fst acc'))"
    "i < length (frame_time_ms fr) \<and> snd acc' = snd acc @ [decide_bar fr i (frame_time_ms fr ! i) (fst (fst acc'))]"
proof -
  obtain st lg1 lg2 lg3 lg4 where b: "i < length (frame_bars fr)" "i < length (frame_time_ms fr)"
    "update_extremes (fst (fst acc)) i (bar_high (frame_bars fr ! i)) (bar_low (frame_bars fr ! i)) = Inr st"
    and s: "foldR (phase_rule_step fr plan i (frame_time_ms fr ! i)) (st, snd (fst acc)) (phase_rules rs) = Inr lg1"
    "stop_step fr plan i (frame_time_ms fr ! i) sd (stop_rules rs) lg1 = Inr lg2"
    "foldR (take_rule_step i (frame_time_ms fr ! i)) lg2 (take_rules rs) = Inr lg3"
    "runtime_step fr plan i (frame_time_ms fr ! i) (bar_close (frame_bars fr ! i)) es (runtime_rules rs) lg3 = Inr lg4"
    and acc': "acc' = (lg4, snd acc @ [decide_bar fr i (frame_time_ms fr ! i) (fst lg4)])"
    using assms by (auto simp: bar_step_def bindR_Inr item_Inr)
  have "(policy_step sd)\<^sup>*\<^sup>* st (fst lg1)" using foldR_policy[OF s(1)] phase_rule_step_policy by force
  also have "(policy_step sd)\<^sup>*\<^sup>* (fst lg1) (fst lg2)" using stop_step_policy[OF s(2)] .
  also have "(policy_step sd)\<^sup>*\<^sup>* (fst lg2) (fst lg3)" using foldR_policy[OF s(3)] take_rule_step_policy by blast
  also have "(policy_step sd)\<^sup>*\<^sup>* (fst lg3) (fst lg4)" using runtime_step_policy[OF s(4)] .
  finally have "(policy_step sd)\<^sup>*\<^sup>* st (fst lg4)" .
  then show "bar_transition fr sd i (fst (fst acc)) (fst (fst acc'))" using b acc' by (auto simp: bar_transition_def)
  show "i < length (frame_time_ms fr) \<and> snd acc' = snd acc @ [decide_bar fr i (frame_time_ms fr ! i) (fst (fst acc'))]"
    using b acc' by simp
qed

text \<open>The states after the bars, each a transition from the one before.\<close>

fun trade_run :: "feature_frame \<Rightarrow> string \<Rightarrow> managed_state \<Rightarrow> (nat \<times> managed_state) list \<Rightarrow> bool" where
  "trade_run fr sd s [] = True"
| "trade_run fr sd s ((i, t) # rest) = (bar_transition fr sd i s t \<and> trade_run fr sd t rest)"

lemma foldR_bars_run:
  assumes "foldR (bar_step fr plan sd es rs) acc is = Inr acc'"
  shows "\<exists>ts. length ts = length is \<and> trade_run fr sd (fst (fst acc)) (zip is ts) \<and>
     fst (fst acc') = last (fst (fst acc) # ts) \<and> set is \<subseteq> {..<length (frame_time_ms fr)} \<and>
     snd acc' = snd acc @ map (\<lambda>(i, s). decide_bar fr i (frame_time_ms fr ! i) s) (zip is ts)"
  using assms
proof (induction "is" arbitrary: acc)
  case Nil
  then show ?case by simp
next
  case (Cons i js)
  then obtain acc1 where a: "bar_step fr plan sd es rs acc i = Inr acc1" "foldR (bar_step fr plan sd es rs) acc1 js = Inr acc'"
    by (auto simp: bindR_Inr)
  obtain ts where "length ts = length js" "trade_run fr sd (fst (fst acc1)) (zip js ts)"
    "fst (fst acc') = last (fst (fst acc1) # ts)" "set js \<subseteq> {..<length (frame_time_ms fr)}"
    "snd acc' = snd acc1 @ map (\<lambda>(i, s). decide_bar fr i (frame_time_ms fr ! i) s) (zip js ts)"
    using Cons.IH[OF a(2)] by blast
  then show ?case using bar_step_transition[OF a(1)] by (intro exI[of _ "fst (fst acc1) # ts"]) auto
qed

section \<open>Relations the machine respects\<close>

locale trade_contract =
  fixes R :: "managed_state \<Rightarrow> managed_state \<Rightarrow> bool"
    and sd :: string
  assumes R_refl: "R s s"
    and R_trans: "R s t \<Longrightarrow> R t u \<Longrightarrow> R s u"
    and R_extremes: "update_extremes s i h l = Inr t \<Longrightarrow> R s t"
    and R_policy: "policy_step sd s t \<Longrightarrow> R s t"
begin

lemma R_policies: "(policy_step sd)\<^sup>*\<^sup>* s t \<Longrightarrow> R s t"
  by (induction rule: rtranclp_induct) (auto intro: R_refl R_trans R_policy)

lemma R_bar: "bar_transition fr sd i s t \<Longrightarrow> R s t"
  unfolding bar_transition_def using R_extremes R_policies R_trans by blast

lemma R_run_all: "trade_run fr sd s ps \<Longrightarrow> p \<in> set ps \<Longrightarrow> R s (snd p)"
proof (induction ps arbitrary: s)
  case (Cons q ps)
  obtain i t where q: "q = (i, t)" by (cases q)
  have t: "R s t" "trade_run fr sd t ps" using Cons.prems(1) q by (auto intro: R_bar)
  then show ?case using Cons.IH[OF t(2)] Cons.prems(2) q by (auto intro: R_trans)
qed simp

lemma R_run: "trade_run fr sd s ps \<Longrightarrow> sorted_wrt R (s # map snd ps)"
proof (induction ps arbitrary: s)
  case (Cons p ps)
  obtain i t where p: "p = (i, t)" by (cases p)
  have "sorted_wrt R (t # map snd ps)" "R s t" using Cons p by (auto intro: R_bar)
  then show ?case using p by (auto intro: R_trans)
qed simp

end

text \<open>A fact about the state of a bar: established by the extremes, kept by the policy.\<close>

locale bar_fact =
  fixes Q :: "nat \<Rightarrow> managed_state \<Rightarrow> bool" and P :: "managed_state \<Rightarrow> bool"
    and sd :: string
  assumes Q_extremes: "P s \<Longrightarrow> update_extremes s i h l = Inr t \<Longrightarrow> P t \<and> Q i t"
    and Q_policy: "policy_step sd s t \<Longrightarrow> P s \<Longrightarrow> P t \<and> (Q i s \<longrightarrow> Q i t)"
begin

lemma Q_policies: "(policy_step sd)\<^sup>*\<^sup>* s t \<Longrightarrow> P s \<Longrightarrow> Q i s \<Longrightarrow> P t \<and> Q i t"
  by (induction rule: rtranclp_induct) (auto dest: Q_policy)

lemma Q_bar: "bar_transition fr sd i s t \<Longrightarrow> P s \<Longrightarrow> P t \<and> Q i t"
  unfolding bar_transition_def using Q_extremes Q_policies by blast

lemma Q_run: "trade_run fr sd s ps \<Longrightarrow> P s \<Longrightarrow> list_all (\<lambda>(i, t). Q i t) ps"
proof (induction ps arbitrary: s)
  case (Cons q ps)
  obtain i t where q: "q = (i, t)" by (cases q)
  have t: "P t \<and> Q i t" "trade_run fr sd t ps" using Cons.prems q by (auto dest: Q_bar)
  then show ?case using Cons.IH[OF t(2)] q by simp
qed simp

end

end
