(* ===== verification/ManagedFacts.thy ===== *)
theory ManagedFacts
  imports ManagedSteps
begin

text \<open>
  The contracts of the abstract machine on the code's model: what is fixed at entry, phases and
  stops only move forward, the bar counter; the states behind the rows of a replay.
\<close>

section \<open>Contracts\<close>

definition frozen :: "managed_state \<Rightarrow> managed_state \<Rightarrow> bool" where
  "frozen s t \<longleftrightarrow> ms_side t = ms_side s \<and> entry_index t = entry_index s \<and> entry_time_ms t = entry_time_ms s \<and>
     entry_price t = entry_price s \<and> initial_risk t = initial_risk s"

definition phase_ok :: "managed_state \<Rightarrow> bool" where
  "phase_ok s \<longleftrightarrow> phase_of (cur_phase s) \<noteq> None \<and> max_phase_reached s = cur_phase s"

definition the_phase :: "string \<Rightarrow> managed_phase" where
  "the_phase p = the (phase_of p)"

definition phase_up :: "managed_state \<Rightarrow> managed_state \<Rightarrow> bool" where
  "phase_up s t \<longleftrightarrow> (phase_ok s \<longrightarrow> phase_ok t \<and> the_phase (cur_phase s) \<le> the_phase (cur_phase t))"

text \<open>A stop is kept or replaced by a strictly better one; it is never dropped.\<close>

definition stop_le :: "string \<Rightarrow> f64 option \<Rightarrow> f64 option \<Rightarrow> bool" where
  "stop_le sd a b \<longleftrightarrow> (case a of None \<Rightarrow> True | Some x \<Rightarrow> (case b of None \<Rightarrow> False | Some y \<Rightarrow> y = x \<or> better sd y x))"

definition stop_ok :: "managed_state \<Rightarrow> bool" where
  "stop_ok s \<longleftrightarrow> (active_stop_rule_id s \<noteq> None \<longrightarrow> active_stop_price s \<noteq> None)"

definition stop_up :: "string \<Rightarrow> managed_state \<Rightarrow> managed_state \<Rightarrow> bool" where
  "stop_up sd s t \<longleftrightarrow> stop_le sd (active_stop_price s) (active_stop_price t) \<and>
     (active_stop_rule_id t = None \<longrightarrow> active_stop_rule_id s = None \<and> active_stop_price t = active_stop_price s) \<and>
     (stop_ok s \<longrightarrow> stop_ok t)"

lemma better_trans: "better sd x y \<Longrightarrow> better sd y z \<Longrightarrow> better sd x z"
  by (auto simp: better_def intro: flt_trans split: if_splits)

lemma stop_le_refl [simp]: "stop_le sd a a"
  by (simp add: stop_le_def split: option.splits)

lemma stop_le_trans: "stop_le sd a b \<Longrightarrow> stop_le sd b c \<Longrightarrow> stop_le sd a c"
  by (auto simp: stop_le_def split: option.splits intro: better_trans)

lemma stop_le_tighten: "stop_le sd a (Some (tighten sd a p))"
  by (auto simp: stop_le_def tighten_def better_def py_max_def py_min_def split: option.splits)

lemma update_extremes_frame:
  assumes "update_extremes s i h l = Inr t"
  shows "frozen s t" "cur_phase t = cur_phase s" "max_phase_reached t = max_phase_reached s"
    "active_stop_price t = active_stop_price s" "active_stop_rule_id t = active_stop_rule_id s"
    "bars_in_trade t = int i - int (entry_index t) + 1" "mfe_price t = best_price t" "mae_price t = worst_price t"
  using assms by (auto simp: update_extremes_def Let_def bindR_Inr frozen_def split: if_splits)

interpretation frozen: trade_contract frozen sd for sd
proof unfold_locales
  fix s t assume "policy_step sd s t"
  then show "frozen s t" by (rule policy_stepE) (simp_all add: frozen_def)
qed (auto simp: frozen_def dest: update_extremes_frame(1)[unfolded frozen_def])

interpretation phases: trade_contract phase_up sd for sd
proof unfold_locales
  fix s t assume "policy_step sd s t"
  then show "phase_up s t"
    by (rule policy_stepE) (auto simp: phase_up_def phase_ok_def the_phase_def)
next
  fix s i h l t assume "update_extremes s i h l = Inr t"
  from update_extremes_frame(2,3)[OF this] show "phase_up s t" by (simp add: phase_up_def phase_ok_def)
qed (auto simp: phase_up_def)

interpretation stops: trade_contract "stop_up sd" sd for sd
proof unfold_locales
  fix s t assume "policy_step sd s t"
  then show "stop_up sd s t"
    by (rule policy_stepE) (auto simp: stop_up_def stop_ok_def stop_le_tighten)
next
  fix s i h l t assume "update_extremes s i h l = Inr t"
  from update_extremes_frame(4,5)[OF this] show "stop_up sd s t" by (simp add: stop_up_def stop_ok_def)
next
  fix s t u assume "stop_up sd s t" "stop_up sd t u"
  then show "stop_up sd s u"
    unfolding stop_up_def using stop_le_trans by metis
qed (simp add: stop_up_def)

interpretation counters: bar_fact "\<lambda>i s. bars_in_trade s = int i - int (entry_index s) + 1 \<and> mfe_price s = best_price s \<and>
    mae_price s = worst_price s" "\<lambda>_. True" sd for sd
proof unfold_locales
  fix s i h l t assume "update_extremes s i h l = Inr t"
  from update_extremes_frame(6-8)[OF this]
  show "True \<and> bars_in_trade t = int i - int (entry_index t) + 1 \<and> mfe_price t = best_price t \<and> mae_price t = worst_price t"
    by simp
next
  fix s t i assume "policy_step sd s t"
  then show "True \<and> (bars_in_trade s = int i - int (entry_index s) + 1 \<and> mfe_price s = best_price s \<and> mae_price s = worst_price s \<longrightarrow>
      bars_in_trade t = int i - int (entry_index t) + 1 \<and> mfe_price t = best_price t \<and> mae_price t = worst_price t)"
    by (rule policy_stepE) simp_all
qed

section \<open>The run behind a replay\<close>

definition replay_rows :: "feature_frame \<Rightarrow> nat list \<Rightarrow> managed_state list \<Rightarrow> bar_decision list" where
  "replay_rows fr is ts = map (\<lambda>(i, s). decide_bar fr i (frame_time_ms fr ! i) s) (zip is ts)"

definition replay_run ::
  "feature_frame \<Rightarrow> string \<Rightarrow> managed_state \<Rightarrow> nat list \<Rightarrow> managed_state list \<Rightarrow> managed_result \<Rightarrow> bool" where
  "replay_run fr sd s is ts r \<longleftrightarrow> length ts = length is \<and> trade_run fr sd s (zip is ts) \<and>
     mr_final_state r = last (s # ts) \<and> mr_bars r = replay_rows fr is ts"

lemma replay_core_run:
  assumes "replay_core eval parse raw fr plan sd entry_t price offset stop target managed = Inr r"
  obtains e ts where "index_of entry_t (frame_time_ms fr) = Some e" "e < length (frame_time_ms fr)" "frame_time_ms fr ! e = entry_t" "\<not> fle price (Fin 0)" "offset \<in> {0, 1}"
    "mr_side r = sd" "mr_entry_time_ms r = entry_t"
    "(case target of None \<Rightarrow> int (length (frame_time_ms fr)) - 1 | Some t \<Rightarrow> t) \<in> {int e ..< int (length (frame_time_ms fr))}"
    "replay_run fr sd (start_state sd e entry_t price offset stop)
      [e + nat offset ..< nat (case target of None \<Rightarrow> int (length (frame_time_ms fr)) - 1 | Some t \<Rightarrow> t) + 1] ts r"
proof -
  obtain config where config: "exit_management raw = Inr config"
    using assms by (auto simp: replay_core_def bindR_Inr)
  obtain e where e: "index_of entry_t (frame_time_ms fr) = Some e"
    using assms config by (auto simp: replay_core_def raise_if_Inr split: option.splits)
  define lst where "lst = (case target of None \<Rightarrow> int (length (frame_time_ms fr)) - 1 | Some t \<Rightarrow> t)"
  obtain prs srs trs rrs folds lg bds where
    c: "\<not> fle price (Fin 0)" "offset \<in> {0, 1}" "int e \<le> lst" "lst < int (length (frame_time_ms fr))"
    and run: "foldR (bar_step fr plan sd (e + nat offset)
       \<lparr>phase_rules = folds, stop_rules = srs, take_rules = trs, runtime_rules = rrs\<rparr>)
       ((start_state sd e entry_t price offset stop, []), []) [e + nat offset ..< nat lst + 1] = Inr (lg, bds)"
    and r: "r = \<lparr>mr_side = sd, mr_entry_time_ms = entry_t, mr_events = snd lg, mr_bars = bds, mr_final_state = fst lg\<rparr>"
    using assms config e unfolding replay_core_def lst_def [symmetric]
    by (auto simp: bindR_Inr raise_if_Inr Let_def lst_def [symmetric] not_less not_le)
  obtain ts where ts: "length ts = length [e + nat offset ..< nat lst + 1]"
    "trade_run fr sd (start_state sd e entry_t price offset stop) (zip [e + nat offset ..< nat lst + 1] ts)"
    "fst lg = last (start_state sd e entry_t price offset stop # ts)"
    "bds = replay_rows fr [e + nat offset ..< nat lst + 1] ts"
    using foldR_bars_run[OF run] by (auto simp: replay_rows_def)
  show thesis
    using that[of e ts] e index_of_Some[OF e] c ts r unfolding lst_def [symmetric] by (simp add: replay_run_def)
qed

lemma evaluate_run:
  assumes "evaluate_managed_replay eval parse raw fr plan sd entry_t price stop = Inr r"
  obtains e ts where "index_of entry_t (frame_time_ms fr) = Some e" "e < length (frame_time_ms fr)" "frame_time_ms fr ! e = entry_t"
    "mr_side r = sd" "mr_entry_time_ms r = entry_t"
    "replay_run fr sd (start_state sd e entry_t price 0 stop) [e ..< length (frame_time_ms fr)] ts r"
proof -
  from assms[unfolded evaluate_managed_replay_def] show thesis
  proof (rule replay_core_run)
    fix e ts assume a: "index_of entry_t (frame_time_ms fr) = Some e" "e < length (frame_time_ms fr)" "frame_time_ms fr ! e = entry_t"
      "mr_side r = sd" "mr_entry_time_ms r = entry_t"
      "replay_run fr sd (start_state sd e entry_t price 0 stop)
        [e + nat 0 ..< nat (case None of None \<Rightarrow> int (length (frame_time_ms fr)) - 1 | Some t \<Rightarrow> t) + 1] ts r"
    have "nat (int (length (frame_time_ms fr)) - 1) + 1 = length (frame_time_ms fr)" using a(2) by simp
    with a show thesis using that[of e ts] by (simp del: upt_Suc)
  qed
qed

text \<open>The invariant relations along the run, from the start state on.\<close>

lemma run_relations:
  assumes "replay_run fr sd s is ts r"
  shows "sorted_wrt frozen (s # ts)" "sorted_wrt phase_up (s # ts)" "sorted_wrt (stop_up sd) (s # ts)"
proof -
  have run: "trade_run fr sd s (zip is ts)" and ts: "map snd (zip is ts) = ts" using assms by (simp_all add: replay_run_def)
  show "sorted_wrt frozen (s # ts)" "sorted_wrt phase_up (s # ts)" "sorted_wrt (stop_up sd) (s # ts)"
    using frozen.R_run[OF run] phases.R_run[OF run] stops.R_run[OF run] unfolding ts by blast+
qed

lemma run_counter:
  assumes "replay_run fr sd s is ts r" "k < length is"
  shows "bars_in_trade (ts ! k) = int (is ! k) - int (entry_index s) + 1"
proof -
  have "list_all (\<lambda>(i, t). bars_in_trade t = int i - int (entry_index t) + 1 \<and> mfe_price t = best_price t \<and>
      mae_price t = worst_price t) (zip is ts)"
    using counters.Q_run[of fr sd s "zip is ts"] assms(1) by (simp add: replay_run_def case_prod_beta)
  then have "bars_in_trade (ts ! k) = int (is ! k) - int (entry_index (ts ! k)) + 1"
    using assms by (auto simp: list_all_length replay_run_def)
  moreover have "frozen s (ts ! k)" using run_relations(1)[OF assms(1)] assms by (simp add: replay_run_def)
  ultimately show ?thesis by (simp add: frozen_def)
qed

lemma start_state_facts [simp]:
  "entry_index (start_state sd e t p off stop) = e" "cur_phase (start_state sd e t p off stop) = ''initial_risk''"
  "phase_ok (start_state sd e t p off stop)" "active_stop_price (start_state sd e t p off stop) = stop"
  "active_stop_rule_id (start_state sd e t p off stop) = None" "stop_ok (start_state sd e t p off stop)"
  by (simp_all add: start_state_def initial_state_def phase_ok_def phase_of_def PHASES_def stop_ok_def)

lemma run_phase_ok:
  assumes "replay_run fr sd (start_state sd e t p off stop) is ts r" "u \<in> set ts"
  shows "phase_ok u"
  using run_relations(2)[OF assms(1)] assms(2) by (auto simp: phase_up_def)

lemma row_of_run:
  assumes "replay_run fr sd s is ts r" "k < length is"
  shows "mr_bars r ! k = decide_bar fr (is ! k) (frame_time_ms fr ! (is ! k)) (ts ! k)"
  using assms by (simp add: replay_run_def replay_rows_def)

end
