(* ===== verification/CompositeProperties.thy ===== *)
theory CompositeProperties
  imports ManagedComposite
begin

text \<open>
  Properties of composites: what the parser guarantees, the internal keys of semantic children,
  and the market fold against the direct evaluation of every child on the bar.
\<close>

lemma ok_projr: "is_ok r \<Longrightarrow> r = Inr (projr r)"
  by (cases r) auto

section \<open>The direct value of a child\<close>

definition child_reference ::
  "predicate_layer \<Rightarrow> change_parser \<Rightarrow> feature_frame \<Rightarrow> ema_plan \<Rightarrow> string \<Rightarrow> nat \<Rightarrow> (obj \<Rightarrow> bool res) \<Rightarrow>
     (change_since_entry \<Rightarrow> bool res) \<Rightarrow> composite_child \<Rightarrow> bool res" where
  "child_reference eval parse fr plan sd i trade_met change_met_at c =
     bindR (child_change parse c) (\<lambda>ch.
     case ch of Some change \<Rightarrow> change_met_at change
     | None \<Rightarrow>
         bindR (is_market_child c) (\<lambda>is_m.
         if is_m then bindR (market_mask eval fr plan sd c) (\<lambda>m. item m i)
         else (case child_condition c of None \<Rightarrow> Inl PyAssertionError | Some co \<Rightarrow> trade_met co)))"

definition child_of :: "composite_child list \<Rightarrow> string \<Rightarrow> composite_child" where
  "child_of cs r = the (find (\<lambda>c. child_id c = r) cs)"

definition composite_reference ::
  "predicate_layer \<Rightarrow> change_parser \<Rightarrow> composite_phase_condition \<Rightarrow> feature_frame \<Rightarrow> ema_plan \<Rightarrow> string \<Rightarrow> nat \<Rightarrow>
     (obj \<Rightarrow> bool res) \<Rightarrow> (change_since_entry \<Rightarrow> bool res) \<Rightarrow> bool \<times> attribution option" where
  "composite_reference eval parse spec fr plan sd i trade_met change_met_at =
     composite_value
       (\<lambda>r. projr (child_reference eval parse fr plan sd i trade_met change_met_at (child_of (cond_children spec) r)))
       (cond_paths spec)"

lemma find_child_id: "distinct (map child_id cs) \<Longrightarrow> c \<in> set cs \<Longrightarrow> find (\<lambda>x. child_id x = child_id c) cs = Some c"
  by (induction cs) auto

lemma fold_children_ConsE:
  assumes "fold_children eval parse fr plan sd (c # cs) = Inr (ms, chs)"
  obtains ms' chs' where "fold_children eval parse fr plan sd cs = Inr (ms', chs')"
    "(\<exists>ch. child_change parse c = Inr (Some ch) \<and> ms = ms' \<and> chs = (child_id c, ch) # chs') \<or>
     child_change parse c = Inr None \<and>
       ((\<exists>m. is_market_child c = Inr True \<and> market_mask eval fr plan sd c = Inr m \<and>
           ms = (child_id c, m) # ms' \<and> chs = chs') \<or>
        is_market_child c = Inr False \<and> ms = ms' \<and> chs = chs')"
proof -
  obtain ch where ch: "child_change parse c = Inr ch" using assms by (auto simp: bindR_Inr)
  show thesis
  proof (cases ch)
    case (Some x)
    then show thesis using assms ch by (auto simp: bindR_Inr intro: that)
  next
    case None
    obtain b where b: "is_market_child c = Inr b" using assms ch None by (auto simp: bindR_Inr)
    show thesis using assms ch None b by (cases b) (auto simp: bindR_Inr intro: that)
  qed
qed

lemma fold_children_keys:
  "fold_children eval parse fr plan sd cs = Inr (ms, chs) \<Longrightarrow>
     fst ` set ms \<subseteq> child_id ` set cs \<and> fst ` set chs \<subseteq> child_id ` set cs"
proof (induction cs arbitrary: ms chs)
  case (Cons c cs)
  from Cons.prems show ?case
  proof (rule fold_children_ConsE)
    fix ms' chs' assume r: "fold_children eval parse fr plan sd cs = Inr (ms', chs')"
      and e: "(\<exists>ch. child_change parse c = Inr (Some ch) \<and> ms = ms' \<and> chs = (child_id c, ch) # chs') \<or>
         child_change parse c = Inr None \<and>
           ((\<exists>m. is_market_child c = Inr True \<and> market_mask eval fr plan sd c = Inr m \<and>
               ms = (child_id c, m) # ms' \<and> chs = chs') \<or>
            is_market_child c = Inr False \<and> ms = ms' \<and> chs = chs')"
    have "fst ` set ms' \<subseteq> child_id ` set cs" "fst ` set chs' \<subseteq> child_id ` set cs" using Cons.IH[OF r] by simp_all
    with e show ?thesis by (elim disjE exE conjE) (simp_all add: subset_insertI2)
  qed
qed simp

text \<open>What the two maps of the fold say of one child.\<close>

lemma fold_children_at:
  assumes "fold_children eval parse fr plan sd cs = Inr (ms, chs)" "distinct (map child_id cs)" "c \<in> set cs"
  shows "child_reference eval parse fr plan sd i tm cm c =
    (case map_of ms (child_id c) of Some m \<Rightarrow> item m i
     | None \<Rightarrow> (case map_of chs (child_id c) of Some ch \<Rightarrow> cm ch
        | None \<Rightarrow> (case child_condition c of None \<Rightarrow> Inl PyAssertionError | Some co \<Rightarrow> tm co)))"
  using assms
proof (induction cs arbitrary: ms chs)
  case (Cons d ds)
  from Cons.prems(1) show ?case
  proof (rule fold_children_ConsE)
    fix ms' chs' assume rest: "fold_children eval parse fr plan sd ds = Inr (ms', chs')"
      and e: "(\<exists>ch. child_change parse d = Inr (Some ch) \<and> ms = ms' \<and> chs = (child_id d, ch) # chs') \<or>
         child_change parse d = Inr None \<and>
           ((\<exists>m. is_market_child d = Inr True \<and> market_mask eval fr plan sd d = Inr m \<and>
               ms = (child_id d, m) # ms' \<and> chs = chs') \<or>
            is_market_child d = Inr False \<and> ms = ms' \<and> chs = chs')"
    show ?thesis
    proof (cases "c = d")
      case True
      have "child_id c \<notin> child_id ` set ds" using Cons.prems(2) True by simp
      then have none: "map_of ms' (child_id c) = None" "map_of chs' (child_id c) = None"
        using fold_children_keys[OF rest] by (auto simp: map_of_eq_None_iff)
      from e show ?thesis using none True by (auto simp: child_reference_def)
    next
      case False
      then have ne: "child_id d \<noteq> child_id c" and c: "c \<in> set ds" using Cons.prems(2,3) by auto
      from e have "map_of ms (child_id c) = map_of ms' (child_id c)" "map_of chs (child_id c) = map_of chs' (child_id c)"
        using ne by auto
      moreover have "distinct (map child_id ds)" using Cons.prems(2) by simp
      ultimately show ?thesis using Cons.IH[OF rest _ c]
        by (cases "map_of ms' (child_id c)"; cases "map_of chs' (child_id c)") simp_all
    qed
  qed
qed simp

lemma child_value_reference:
  assumes "fold_phase_paths eval parse spec fr plan sd = Inr fc" "distinct (map child_id (cond_children spec))"
    "c \<in> set (cond_children spec)"
  shows "child_value fc i tm cm (child_id c) = child_reference eval parse fr plan sd i tm cm c"
proof -
  obtain ms chs where "fold_children eval parse fr plan sd (cond_children spec) = Inr (ms, chs)"
    "fc_market fc = ms" "fc_changes fc = chs" "fc_spec fc = spec"
    using assms(1) by (auto simp: fold_phase_paths_def bindR_Inr)
  then show ?thesis using fold_children_at[OF _ assms(2,3)] find_child_id[OF assms(2,3)]
    by (auto simp: child_value_def find_child_def split: option.splits)
qed

lemma parsed_structure:
  assumes "parse_composite_phase_condition condition path = Inr spec"
  shows "structure_ok (cond_children spec) (cond_paths spec)" "c \<in> set (cond_children spec) \<Longrightarrow> \<exists>x j. phase_child x j = Inr c"
proof -
  obtain params where s: "composite_structure params path phase_child = Inr (cond_children spec, cond_paths spec)"
    using assms by (auto simp: parse_composite_phase_condition_def raise_if_Inr bindR_Inr)
  show "structure_ok (cond_children spec) (cond_paths spec)" by (rule structure_Inr(1)[OF s])
  show "c \<in> set (cond_children spec) \<Longrightarrow> \<exists>x j. phase_child x j = Inr c" using structure_Inr(2)[OF s] by blast
qed

section \<open>Properties\<close>

text \<open>
  C36. A composite phase condition the parser accepts is well formed: its children and paths have
  distinct identifiers, every path references only its children, every child is referenced, a
  vote asks for between one and all of its distinct terms, and every child is either a predicate
  or one of the atoms a phase condition allows, never a nested composite.
\<close>

theorem parsed_composite_well_formed:
  assumes "parse_composite_phase_condition condition path = Inr spec"
  shows "structure_ok (cond_children spec) (cond_paths spec) \<and>
    (\<forall>c\<in>set (cond_children spec). child_setup c = None \<and> (child_condition c = None) \<noteq> (child_predicate c = None) \<and>
       CHR ''/'' \<notin> set (child_id c) \<and> child_id c \<noteq> [] \<and>
       (\<forall>co. child_condition c = Some co \<longrightarrow>
          component_id co \<noteq> Some COMPOSITE_PHASE_CONDITION \<and> (\<exists>n\<in>set PHASE_ATOM_CHILDREN. component_id co = Some n)))"
proof -
  have "COMPOSITE_PHASE_CONDITION \<notin> set PHASE_ATOM_CHILDREN"
    by (simp add: COMPOSITE_PHASE_CONDITION_def PHASE_ATOM_CHILDREN_def)
  then have atoms: "n \<noteq> COMPOSITE_PHASE_CONDITION" if "n \<in> set PHASE_ATOM_CHILDREN" for n using that by auto
  show ?thesis
  proof (intro conjI ballI)
    show "structure_ok (cond_children spec) (cond_paths spec)" by (rule parsed_structure[OF assms])
  next
    fix c assume "c \<in> set (cond_children spec)"
    then obtain x j where "phase_child x j = Inr c" using parsed_structure(2)[OF assms] by blast
    note ok = phase_child_ok[OF this]
    from ok show "child_setup c = None" "(child_condition c = None) \<noteq> (child_predicate c = None)"
      "CHR ''/'' \<notin> set (child_id c)" "child_id c \<noteq> []" by simp_all
    from ok atoms show "\<forall>co. child_condition c = Some co \<longrightarrow>
        component_id co \<noteq> Some COMPOSITE_PHASE_CONDITION \<and> (\<exists>n\<in>set PHASE_ATOM_CHILDREN. component_id co = Some n)"
      by auto
  qed
qed

definition sample_condition :: obj where
  "sample_condition =
     [(''component_id'', JStr ''composite_phase_condition''),
      (''params'', JObj
        [(''children'', JList
           [JObj [(''child_id'', JStr ''bars''), (''condition'', JObj [(''component_id'', JStr ''bars_in_trade''),
                    (''params'', JObj [(''threshold'', JInt 3)])])],
            JObj [(''child_id'', JStr ''pred''), (''predicate'', JObj [(''kind'', JStr ''compare'')])],
            JObj [(''child_id'', JStr ''adx''), (''condition'', JObj [(''component_id'', JStr ''adx_di_threshold''),
                    (''params'', JObj [(''timeframe'', JStr ''1h''), (''period'', JInt 14), (''adx_threshold'', JInt 25)])])]]),
         (''paths'', JList
           [JObj [(''path_id'', JStr ''first''), (''require'', JList [JStr ''pred'', JStr ''bars''])],
            JObj [(''path_id'', JStr ''second''),
                  (''at_least'', JObj [(''k'', JInt 2), (''of'', JList [JStr ''pred'', JStr ''adx''])])]])])]"

definition sample_spec :: composite_phase_condition where
  "sample_spec = projr (parse_composite_phase_condition sample_condition ''c'')"

theorem parsed_composite_well_formed_witness:
  "parse_composite_phase_condition sample_condition ''c'' = Inr sample_spec \<and>
   structure_ok (cond_children sample_spec) (cond_paths sample_spec)"
proof -
  have p: "parse_composite_phase_condition sample_condition ''c'' = Inr sample_spec" by code_simp
  then show ?thesis using parsed_composite_well_formed[OF p] by blast
qed

text \<open>
  C13. The market fold does not change the condition: on every bar where the children have values,
  reading the folded masks and checking the remaining trade children gives the same verdict and
  the same attribution as evaluating every child directly and taking the first true path.
\<close>

theorem composite_met_eq_reference:
  assumes "fold_phase_paths eval parse spec fr plan sd = Inr fc"
    and "structure_ok (cond_children spec) (cond_paths spec)" "i < length (frame_time_ms fr)"
    and "\<forall>c\<in>set (cond_children spec). is_ok (child_reference eval parse fr plan sd i tm cm c)"
  shows "composite_met fc i tm cm = Inr (composite_reference eval parse spec fr plan sd i tm cm)"
proof -
  let ?v = "\<lambda>r. projr (child_reference eval parse fr plan sd i tm cm (child_of (cond_children spec) r))"
  have dist: "distinct (map child_id (cond_children spec))"
    and refs: "set (concat (map path_refs (cond_paths spec))) = child_id ` set (cond_children spec)"
    using assms(2) by (auto simp: structure_ok_def)
  have val: "\<forall>r\<in>set (concat (map path_refs (cond_paths spec))). child_value fc i tm cm r = Inr (?v r)"
  proof
    fix r assume "r \<in> set (concat (map path_refs (cond_paths spec)))"
    then obtain c where c: "c \<in> set (cond_children spec)" "r = child_id c" unfolding refs by auto
    then obtain b where "child_reference eval parse fr plan sd i tm cm c = Inr b"
      using assms(4) ok_projr by blast
    then show "child_value fc i tm cm r = Inr (?v r)"
      using child_value_reference[OF assms(1) dist c(1)] find_child_id[OF dist c(1)] c(2) by (simp add: child_of_def)
  qed
  have mk: "masks_at (fc_market fc) i ?v (concat (map path_refs (cond_paths spec)))"
    unfolding masks_at_def using val by (auto simp: child_value_def item_Inr split: option.splits)
  obtain masks where "mapR (fold_path masks (length (frame_time_ms fr))) (cond_paths spec) = Inr (fc_paths fc)"
    "fc_market fc = masks"
    using assms(1) by (auto simp: fold_phase_paths_def bindR_Inr)
  then have "first_path (child_value fc i tm cm) i (fc_paths fc) = Inr (snd (composite_value ?v (cond_paths spec)))"
    using first_path_value[OF _ assms(3) val] mk by blast
  then show ?thesis
    by (auto simp: composite_met_def composite_reference_def composite_value_def split: option.splits)
qed

definition sample_frame :: feature_frame where
  "sample_frame = \<lparr>frame_time_ms = [0, 300000, 600000],
     frame_series = [(''a'', [None, Some (Fin 30), Some (Fin 28)]), (''p'', [Some (Fin 20), Some (Fin 25), Some (Fin 26)]),
       (''m'', [Some (Fin 10), Some (Fin 12), Some (Fin 14)])], frame_bars = []\<rparr>"

definition sample_plan :: ema_plan where
  "sample_plan = empty_plan\<lparr>adx_dmi_columns := [((''1h'', 14), [(''adx'', ''a''), (''di_plus'', ''p''), (''di_minus'', ''m'')])]\<rparr>"

definition sample_layer :: predicate_layer where
  "sample_layer p path sd = Inr [True, False, True]"

definition sample_fold :: folded_composite where
  "sample_fold = projr (fold_phase_paths sample_layer (\<lambda>_ _. Inl PyAssertionError) sample_spec sample_frame sample_plan ''long'')"

theorem composite_met_eq_reference_witness:
  "composite_met sample_fold 2 (\<lambda>_. Inr False) (\<lambda>_. Inr False) =
     Inr (composite_reference sample_layer (\<lambda>_ _. Inl PyAssertionError) sample_spec sample_frame sample_plan ''long'' 2
            (\<lambda>_. Inr False) (\<lambda>_. Inr False)) \<and>
   composite_met sample_fold 2 (\<lambda>_. Inr False) (\<lambda>_. Inr False) =
     Inr (True, Some (''second'', [(''pred'', True), (''adx'', True)]))"
proof -
  have "is_ok (fold_phase_paths sample_layer (\<lambda>_ _. Inl PyAssertionError) sample_spec sample_frame sample_plan ''long'')"
    by code_simp
  then have 1: "fold_phase_paths sample_layer (\<lambda>_ _. Inl PyAssertionError) sample_spec sample_frame sample_plan ''long'' = Inr sample_fold"
    unfolding sample_fold_def by (rule ok_projr)
  have 2: "parse_composite_phase_condition sample_condition ''c'' = Inr sample_spec" by code_simp
  have 3: "structure_ok (cond_children sample_spec) (cond_paths sample_spec)" by (rule parsed_structure[OF 2])
  have 4: "2 < length (frame_time_ms sample_frame)" by code_simp
  have 5: "\<forall>c\<in>set (cond_children sample_spec). is_ok (child_reference sample_layer (\<lambda>_ _. Inl PyAssertionError) sample_frame
      sample_plan ''long'' 2 (\<lambda>_. Inr False) (\<lambda>_. Inr False) c)" by code_simp
  have "projr (composite_met sample_fold 2 (\<lambda>_. Inr False) (\<lambda>_. Inr False)) =
     (True, Some (''second'', [(''pred'', True), (''adx'', True)]))" by code_simp
  then show ?thesis using composite_met_eq_reference[OF 1 3 4 5] by simp
qed

text \<open>
  The internal keys under which the semantic children of the composites are stored are
  unambiguous: composites with distinct instance identifiers never share a key, and none collides
  with a top-level setup the collision check accepted.
\<close>

lemma composite_items_from_ok:
  assumes "composite_items_from j setups = Inr specs" "s \<in> set specs"
  shows "CHR ''/'' \<notin> set (instance_id s) \<and> distinct (map child_id (spec_children s))"
  using assms
proof (induction setups arbitrary: j specs)
  case (Cons it its)
  show ?case
  proof (cases "component_id it = Some COMPOSITE_SETUP")
    case False
    then show ?thesis using Cons.IH[of "Suc j" specs] Cons.prems by simp
  next
    case True
    obtain s0 rest where r: "parse_composite_setup it (at_index ''setups'' j) = Inr s0"
      "composite_items_from (Suc j) its = Inr rest" "specs = s0 # rest"
      using Cons.prems(1) True by (auto simp: bindR_Inr)
    obtain params where "composite_structure params (at_index ''setups'' j) setup_child = Inr (spec_children s0, spec_paths s0)"
      "CHR ''/'' \<notin> set (instance_id s0)"
      using r(1) by (auto simp: parse_composite_setup_def bindR_Inr ident_Inr)
    then have "CHR ''/'' \<notin> set (instance_id s0) \<and> distinct (map child_id (spec_children s0))"
      using structure_Inr(1) by (auto simp: structure_ok_def)
    then show ?thesis using Cons.IH[OF r(2)] Cons.prems(2) r(3) by auto
  qed
qed simp

lemma spec_keys_disjoint:
  assumes "k \<in> set (spec_keys a)" "k \<in> set (spec_keys b)" "CHR ''/'' \<notin> set (instance_id a)" "CHR ''/'' \<notin> set (instance_id b)"
  shows "instance_id a = instance_id b"
proof -
  obtain c d where "k = child_instance_key (instance_id a) c" "k = child_instance_key (instance_id b) d"
    using assms(1,2) unfolding spec_keys_def by (metis (no_types, lifting) imageE set_map)
  then show ?thesis using child_key_inj[of "instance_id a" c "instance_id b" d] assms(3,4) by simp
qed

lemma spec_keys_distinct: "distinct (map child_id (spec_children s)) \<Longrightarrow> distinct (spec_keys s)"
  by (simp add: spec_keys_def child_instance_key_def distinct_map inj_on_def)

theorem composite_child_keys_unambiguous:
  assumes "composite_items setups = Inr specs" "distinct (map instance_id specs)"
    and "require_no_internal_key_collision top_level specs = Inr ()"
  shows "distinct (concat (map spec_keys specs)) \<and> set (concat (map spec_keys specs)) \<inter> set top_level = {}"
proof
  have ok: "\<forall>s\<in>set specs. CHR ''/'' \<notin> set (instance_id s) \<and> distinct (map child_id (spec_children s))"
    using assms(1) composite_items_from_ok by (auto simp: composite_items_def)
  from ok assms(2) show "distinct (concat (map spec_keys specs))"
  proof (induction specs)
    case (Cons s ss)
    have "k \<notin> set (spec_keys t)" if "k \<in> set (spec_keys s)" "t \<in> set ss" for k t
      using spec_keys_disjoint[OF that(1), of t] Cons.prems that(2) by auto
    moreover have "distinct (spec_keys s)" using Cons.prems(1) by (intro spec_keys_distinct) simp
    moreover have "distinct (concat (map spec_keys ss))" using Cons.IH Cons.prems by simp
    ultimately show ?case by auto
  qed simp
  show "set (concat (map spec_keys specs)) \<inter> set top_level = {}"
    using assms(3) by (auto simp: require_no_internal_key_collision_def raise_if_Inr list_ex_iff)
qed

definition sample_setups :: "obj list" where
  "sample_setups = map (\<lambda>n.
     [(''component_id'', JStr ''composite_setup''), (''instance_id'', JStr n),
      (''params'', JObj
        [(''children'', JList [JObj [(''child_id'', JStr ''x''), (''predicate'', JObj [])]]),
         (''paths'', JList [JObj [(''path_id'', JStr ''p''), (''require'', JList [JStr ''x''])]])])]) [''a'', ''b'']"

theorem composite_child_keys_unambiguous_witness:
  "composite_items sample_setups = Inr (projr (composite_items sample_setups)) \<and>
   distinct (concat (map spec_keys (projr (composite_items sample_setups)))) \<and>
   concat (map spec_keys (projr (composite_items sample_setups))) = [''a/x'', ''b/x'']"
proof -
  have "is_ok (composite_items sample_setups)" by code_simp
  then have 1: "composite_items sample_setups = Inr (projr (composite_items sample_setups))" by (rule ok_projr)
  have 2: "distinct (map instance_id (projr (composite_items sample_setups)))" by code_simp
  have 3: "require_no_internal_key_collision [''a'', ''b''] (projr (composite_items sample_setups)) = Inr ()" by code_simp
  have "concat (map spec_keys (projr (composite_items sample_setups))) = [''a/x'', ''b/x'']" by code_simp
  then show ?thesis using composite_child_keys_unambiguous[OF 1 2 3] 1 by simp
qed

end
