(* ===== verification/ManagedProperties.thy ===== *)
theory ManagedProperties
  imports ManagedFacts CompositeProperties
begin

text \<open>
  Properties of managed exits: the replay refines the abstract machine, phases and stops only
  move forward, one decision per bar, the protection projected for an open trade, the two
  evaluations of the ADX atom, and where an initial-R stop may lie.
\<close>

section \<open>A sample trade\<close>

definition sample_managed :: obj where
  "sample_managed =
     [(''trade_management'', JObj [(''exit_management'', JObj
        [(''mode'', JStr ''managed''),
         (''phase_rules'', JList
            [JObj [(''rule_id'', JStr ''p1''), (''to_phase'', JStr ''proven''),
               (''condition'', JObj [(''component_id'', JStr ''bars_in_trade''), (''params'', JObj [(''threshold'', JInt 2)])])],
             JObj [(''rule_id'', JStr ''p2''), (''to_phase'', JStr ''protected''),
               (''condition'', JObj [(''component_id'', JStr ''mfe_r''), (''params'', JObj [(''threshold'', JInt 2)])])]]),
         (''stop_management'', JList
            [JObj [(''rule_id'', JStr ''s1''), (''component_id'', JStr ''break_even_stop''),
               (''activate_when'', JObj [(''phase_at_least'', JStr ''proven'')]), (''params'', JObj [])],
             JObj [(''rule_id'', JStr ''s2''), (''component_id'', JStr ''initial_r_trailing_stop''),
               (''activate_when'', JObj [(''phase_at_least'', JStr ''protected'')]),
               (''params'', JObj [(''trigger_r'', JInt 2), (''trail_distance_r'', JInt 1)])]]),
         (''take_management'', JList
            [JObj [(''rule_id'', JStr ''t1''), (''component_id'', JStr ''take_profile_switch''),
               (''activate_when'', JObj [(''phase_at_least'', JStr ''protected'')]),
               (''params'', JObj [(''action'', JStr ''disable_fixed_tp'')])]]),
         (''runtime_exits'', JList
            [JObj [(''rule_id'', JStr ''r1''), (''component_id'', JStr ''phase_runtime_exit''),
               (''activate_when'', JObj [(''phase_at_least'', JStr ''protected'')])]])])])]"

definition sample_bar :: "int \<Rightarrow> rat \<Rightarrow> rat \<Rightarrow> f64 market_bar" where
  "sample_bar t hi lo = \<lparr>open_time_ms = t, bar_open = Fin lo, bar_high = Fin hi, bar_low = Fin lo, bar_close = Fin hi,
     bar_volume = Fin 1, open_interest = None\<rparr>"

definition sample_trade_frame :: feature_frame where
  "sample_trade_frame = \<lparr>frame_time_ms = [0, 60000, 120000, 180000], frame_series = [],
     frame_bars = [sample_bar 0 99 95, sample_bar 60000 102 98, sample_bar 120000 105 101, sample_bar 180000 121 110]\<rparr>"

abbreviation no_layer :: predicate_layer where "no_layer \<equiv> \<lambda>_ _ _. Inl PyAssertionError"
abbreviation no_change :: change_parser where "no_change \<equiv> \<lambda>_ _. Inl PyAssertionError"

definition sample_replay :: "managed_result res" where
  "sample_replay = evaluate_managed_replay no_layer no_change sample_managed sample_trade_frame empty_plan ''long'' 60000
     (Fin 100) (Some (Fin 90))"

definition sample_result :: managed_result where "sample_result = projr sample_replay"

lemma sample_replay_ok:
  "evaluate_managed_replay no_layer no_change sample_managed sample_trade_frame empty_plan ''long'' 60000 (Fin 100) (Some (Fin 90))
     = Inr sample_result"
proof -
  have "is_ok sample_replay" by code_simp
  then show ?thesis by (cases sample_replay) (simp_all add: sample_replay_def sample_result_def)
qed

lemma sample_rows:
  "map bd_active_stop_price (mr_bars sample_result) = [Some (Fin 90), Some (Fin 100), Some (Fin 111)]"
  "map bd_phase (mr_bars sample_result) = [''initial_risk'', ''proven'', ''protected'']"
  by code_simp+

section \<open>Properties\<close>

text \<open>
  C4. The replay implements the abstract machine of managed exits: there are states, one per bar
  from the entry bar to the last, each reached from the one before by updating the extremes with
  that bar and then taking policy steps only; the decisions are read off these states and the
  final state is the last of them.
\<close>

theorem managed_replay_refines_machine:
  assumes "evaluate_managed_replay eval parse raw fr plan sd entry_t price stop = Inr r"
  shows "\<exists>e ts. e < length (frame_time_ms fr) \<and> frame_time_ms fr ! e = entry_t \<and>
    length ts = length (frame_time_ms fr) - e \<and>
    trade_run fr sd (start_state sd e entry_t price 0 stop) (zip [e ..< length (frame_time_ms fr)] ts) \<and>
    mr_final_state r = last ts \<and>
    mr_bars r = map (\<lambda>(i, s). decide_bar fr i (frame_time_ms fr ! i) s) (zip [e ..< length (frame_time_ms fr)] ts)"
  using assms
proof (rule evaluate_run)
  fix e ts assume e: "e < length (frame_time_ms fr)" "frame_time_ms fr ! e = entry_t"
    and run: "replay_run fr sd (start_state sd e entry_t price 0 stop) [e ..< length (frame_time_ms fr)] ts r"
  have "ts \<noteq> []" using run e(1) by (auto simp: replay_run_def)
  then show ?thesis using e run by (intro exI[of _ e] exI[of _ ts]) (simp add: replay_run_def replay_rows_def)
qed

theorem managed_replay_refines_machine_witness:
  "\<exists>e ts. e < length (frame_time_ms sample_trade_frame) \<and> frame_time_ms sample_trade_frame ! e = 60000 \<and>
    length ts = length (frame_time_ms sample_trade_frame) - e \<and>
    trade_run sample_trade_frame ''long'' (start_state ''long'' e 60000 (Fin 100) 0 (Some (Fin 90)))
      (zip [e ..< length (frame_time_ms sample_trade_frame)] ts) \<and>
    mr_final_state sample_result = last ts \<and>
    mr_bars sample_result = map (\<lambda>(i, s). decide_bar sample_trade_frame i (frame_time_ms sample_trade_frame ! i) s)
      (zip [e ..< length (frame_time_ms sample_trade_frame)] ts)"
  by (rule managed_replay_refines_machine[OF sample_replay_ok])

text \<open>
  The replay decides exactly once per bar, from the entry bar to the last: row \<open>k\<close> carries
  the index and the time of its bar, the number of bars in the trade, and as the time it takes
  effect the next bar of the frame, if there is one.
\<close>

theorem managed_decisions_per_bar:
  assumes "evaluate_managed_replay eval parse raw fr plan sd entry_t price stop = Inr r"
  shows "\<exists>e. index_of entry_t (frame_time_ms fr) = Some e \<and> length (mr_bars r) = length (frame_time_ms fr) - e \<and>
    (\<forall>k. k < length (mr_bars r) \<longrightarrow>
       bd_bar_index (mr_bars r ! k) = e + k \<and> bd_time_ms (mr_bars r ! k) = frame_time_ms fr ! (e + k) \<and>
       bd_bars_in_trade (mr_bars r ! k) = int k + 1 \<and>
       bd_effective_from (mr_bars r ! k) =
         (if e + k + 1 < length (frame_time_ms fr) then Some (frame_time_ms fr ! (e + k + 1)) else None))"
  using assms
proof (rule evaluate_run)
  fix e ts assume e: "index_of entry_t (frame_time_ms fr) = Some e"
    and run: "replay_run fr sd (start_state sd e entry_t price 0 stop) [e ..< length (frame_time_ms fr)] ts r"
  have len: "length (mr_bars r) = length (frame_time_ms fr) - e" using run by (simp add: replay_run_def replay_rows_def)
  show ?thesis using e len row_of_run[OF run] run_counter[OF run] by (auto simp: decide_bar_def)
qed

theorem managed_decisions_per_bar_witness:
  "\<exists>e. index_of 60000 (frame_time_ms sample_trade_frame) = Some e \<and>
     length (mr_bars sample_result) = length (frame_time_ms sample_trade_frame) - e"
  using managed_decisions_per_bar[OF sample_replay_ok] by blast

text \<open>
  C31. The phase of a trade never goes back: along the decisions the phases are sorted in the order
  initial risk, proven, protected, runner, exhaustion, and the highest phase reached is the phase
  the trade ends in.
\<close>

theorem managed_phase_never_goes_back:
  assumes "evaluate_managed_replay eval parse raw fr plan sd entry_t price stop = Inr r"
  shows "sorted (map (\<lambda>b. the_phase (bd_phase b)) (mr_bars r)) \<and> phase_of (cur_phase (mr_final_state r)) \<noteq> None \<and>
    max_phase_reached (mr_final_state r) = cur_phase (mr_final_state r)"
  using assms
proof (rule evaluate_run)
  fix e ts assume e: "e < length (frame_time_ms fr)"
    and run: "replay_run fr sd (start_state sd e entry_t price 0 stop) [e ..< length (frame_time_ms fr)] ts r"
  have "sorted_wrt phase_up ts" using run_relations(2)[OF run] by simp
  then have "sorted_wrt (\<lambda>s t. the_phase (cur_phase s) \<le> the_phase (cur_phase t)) ts"
    by (rule sorted_wrt_mono_rel[rotated]) (use run_phase_ok[OF run] in \<open>auto simp: phase_up_def\<close>)
  moreover have "map (\<lambda>b. the_phase (bd_phase b)) (mr_bars r) = map (\<lambda>s. the_phase (cur_phase s)) ts"
    using run by (intro list_eq_nthI) (auto simp: replay_run_def replay_rows_def decide_bar_def)
  moreover have "mr_final_state r \<in> set ts" using run e by (auto simp: replay_run_def)
  ultimately show ?thesis using run_phase_ok[OF run] by (auto simp: phase_ok_def sorted_wrt_map)
qed

theorem managed_phase_never_goes_back_witness:
  "sorted (map (\<lambda>b. the_phase (bd_phase b)) (mr_bars sample_result)) \<and>
   map bd_phase (mr_bars sample_result) = [''initial_risk'', ''proven'', ''protected'']"
  using managed_phase_never_goes_back[OF sample_replay_ok] sample_rows by simp

text \<open>
  C12. The active stop of a trade never loosens and is never removed: from the initial stop on,
  every stop is the one before or strictly better for the side of the trade, higher for a long
  trade and lower for a short one.
\<close>

theorem managed_stop_never_loosens:
  assumes "evaluate_managed_replay eval parse raw fr plan sd entry_t price stop = Inr r"
  shows "sorted_wrt (stop_le sd) (stop # map bd_active_stop_price (mr_bars r))"
  using assms
proof (rule evaluate_run)
  fix e ts
  assume run: "replay_run fr sd (start_state sd e entry_t price 0 stop) [e ..< length (frame_time_ms fr)] ts r"
  let ?s = "start_state sd e entry_t price 0 stop"
  have "sorted_wrt (\<lambda>s t. stop_le sd (active_stop_price s) (active_stop_price t)) (?s # ts)"
    by (rule sorted_wrt_mono_rel[OF _ run_relations(3)[OF run]]) (simp add: stop_up_def)
  then have "sorted_wrt (stop_le sd) (map active_stop_price (?s # ts))" by (simp only: sorted_wrt_map)
  moreover have "map bd_active_stop_price (mr_bars r) = map active_stop_price ts"
    using run by (intro list_eq_nthI) (auto simp: replay_run_def replay_rows_def decide_bar_def)
  ultimately show ?thesis by simp
qed

theorem managed_stop_never_loosens_witness:
  "sorted_wrt (stop_le ''long'') (Some (Fin 90) # map bd_active_stop_price (mr_bars sample_result)) \<and>
   map bd_active_stop_price (mr_bars sample_result) = [Some (Fin 90), Some (Fin 100), Some (Fin 111)]"
  using managed_stop_never_loosens[OF sample_replay_ok] sample_rows by simp

text \<open>
  C32. The protection projected for an open trade starts from the receipt: while no stop rule has
  fired the desired stop is exactly the receipt's decimal and the replay still holds its float;
  once one has, it is the decimal of a stop that equals the initial one or is strictly better for
  the side.  The take price is the receipt's, or none once the take profile is disabled.
\<close>

lemma run_final_stop:
  assumes "replay_run fr sd s is ts r"
  shows "stop_up sd s (mr_final_state r)"
proof (cases ts)
  case Nil
  then show ?thesis using assms by (simp add: replay_run_def stop_up_def)
next
  case (Cons t us)
  then have "mr_final_state r \<in> set ts" using assms by (simp add: replay_run_def)
  then show ?thesis using run_relations(3)[OF assms] by simp
qed

theorem start_after_entry_protection:
  assumes "start_after_entry_projection eval parse raw fr plan sd entry_t planned initial_stop initial_take target_t = Inr p"
  shows "let st = mr_final_state (sa_replay p) in
    (case active_stop_rule_id st of
       None \<Rightarrow> desired_stop_price p = Decimal initial_stop \<and> active_stop_price st = Some (rnd initial_stop)
     | Some _ \<Rightarrow> \<exists>x. active_stop_price st = Some x \<and> desired_stop_price p = decimal_of_float x \<and>
         (x = rnd initial_stop \<or> better sd x (rnd initial_stop))) \<and>
    desired_take_price p = (if active_take_profile st = ''disable_initial_tp'' then None else Some (Decimal initial_take)) \<and>
    0 < initial_stop \<and> 0 < initial_take"
proof -
  obtain target r where t: "index_of target_t (frame_time_ms fr) = Some target" "0 < initial_stop" "0 < initial_take"
    and core: "replay_core eval parse raw fr plan sd entry_t (rnd planned) 1 (Some (rnd initial_stop)) (Some (int target)) False = Inr r"
    and p: "sa_replay p = r" "desired_take_price p = (if active_take_profile (mr_final_state r) = ''disable_initial_tp'' then None
        else Some (Decimal initial_take))"
      "desired_stop_price p = (case active_stop_rule_id (mr_final_state r) of None \<Rightarrow> Decimal initial_stop
        | Some _ \<Rightarrow> (case active_stop_price (mr_final_state r) of Some p \<Rightarrow> decimal_of_float p | None \<Rightarrow> Decimal initial_stop))"
    using assms by (auto simp: start_after_entry_projection_def bindR_Inr raise_if_Inr Let_def not_le split: option.splits)
  obtain e "is" ts where "replay_run fr sd (start_state sd e entry_t (rnd planned) 1 (Some (rnd initial_stop))) is ts r"
    using core by (rule replay_core_run)
  from run_final_stop[OF this] have "stop_up sd (start_state sd e entry_t (rnd planned) 1 (Some (rnd initial_stop))) (mr_final_state r)" .
  then show ?thesis using p t by (auto simp: stop_up_def stop_le_def Let_def split: option.splits)
qed

definition sample_projection :: start_after_entry where
  "sample_projection = projr (start_after_entry_projection no_layer no_change sample_managed sample_trade_frame empty_plan
     ''long'' 60000 100 90 150 180000)"

theorem start_after_entry_protection_witness:
  "desired_stop_price sample_projection = Decimal 111 \<and> desired_take_price sample_projection = None \<and>
   (let st = mr_final_state (sa_replay sample_projection) in
    (case active_stop_rule_id st of
       None \<Rightarrow> desired_stop_price sample_projection = Decimal 90 \<and> active_stop_price st = Some (rnd 90)
     | Some _ \<Rightarrow> \<exists>x. active_stop_price st = Some x \<and> desired_stop_price sample_projection = decimal_of_float x \<and>
         (x = rnd 90 \<or> better ''long'' x (rnd 90))))"
proof -
  have "is_ok (start_after_entry_projection no_layer no_change sample_managed sample_trade_frame empty_plan
     ''long'' 60000 100 90 150 180000)" by code_simp
  then have ok: "start_after_entry_projection no_layer no_change sample_managed sample_trade_frame empty_plan
     ''long'' 60000 100 90 150 180000 = Inr sample_projection"
    unfolding sample_projection_def by (rule ok_projr)
  have "desired_stop_price sample_projection = Decimal 111 \<and> desired_take_price sample_projection = None" by code_simp
  then show ?thesis using start_after_entry_protection[OF ok] by (simp add: Let_def)
qed

text \<open>
  The two evaluations of the ADX atom agree: on every bar, the atom as the replay checks it
  has the value that the series of the market fold carries for the side of the trade.
\<close>

lemma column_entry:
  assumes "i < length (column_series fr cols k)" "map_of (frame_series fr) [] = None"
  shows "feature_value fr (map_of cols k) i = column_series fr cols k ! i"
  using assms by (cases "map_of cols k") (auto simp: feature_value_def column_series_def series_of_def)

theorem adx_atom_agrees_with_series:
  assumes "adx_di_series params fr plan = Inr (longs, shorts)" "i < length longs"
    and "get_or params ''require_di_alignment'' (JBool True) = JBool req" "map_of (frame_series fr) [] = None"
  shows "\<exists>d. adx_di_met st i fr plan params = Inr ((if ms_side st = ''long'' then longs else shorts) ! i, d)"
proof -
  obtain period threshold where pt: "read_int (get params ''period'') ''adx_di_threshold.period'' = Inr period"
    "read_float (get params ''adx_threshold'') ''adx_di_threshold.adx_threshold'' True = Inr threshold"
    using assms(1) by (auto simp: adx_di_series_def bindR_Inr Let_def)
  define cols where "cols = adx_columns plan (text_of params ''timeframe'' []) period"
  let ?c = "column_series fr cols"
  have len: "length (?c ''di_plus'') = length (?c ''adx'')" "length (?c ''di_minus'') = length (?c ''adx'')"
    and out: "longs = map (\<lambda>(a, p, m). adx_value ''long'' threshold req a p m) (zip (?c ''adx'') (zip (?c ''di_plus'') (?c ''di_minus'')))"
      "shorts = map (\<lambda>(a, p, m). adx_value ''short'' threshold req a p m) (zip (?c ''adx'') (zip (?c ''di_plus'') (?c ''di_minus'')))"
    using assms(1,3) pt by (auto simp: adx_di_series_def Let_def raise_if_Inr cols_def text_of_def)
  have i: "i < length (?c ''adx'')" using assms(2) out(1) by simp
  have v: "feature_value fr (map_of cols k) i = ?c k ! i" if "k \<in> {''adx'', ''di_plus'', ''di_minus''}" for k
    using column_entry[OF _ assms(4), of i cols k] that i len by auto
  show ?thesis using pt assms(3) i len v[of "''adx''"] v[of "''di_plus''"] v[of "''di_minus''"]
    by (auto simp: adx_di_met_def Let_def cols_def [symmetric] out adx_value_def split: option.splits)
qed

definition sample_adx :: obj where
  "sample_adx = [(''timeframe'', JStr ''1h''), (''period'', JInt 14), (''adx_threshold'', JInt 25)]"

theorem adx_atom_agrees_with_series_witness:
  "\<exists>d. adx_di_met (initial_state ''long'' 0 0 (Fin 100)) 2 sample_frame sample_plan sample_adx = Inr (True, d)"
proof -
  have 1: "adx_di_series sample_adx sample_frame sample_plan = Inr ([False, True, True], [False, False, False])" by code_simp
  have 2: "get_or sample_adx ''require_di_alignment'' (JBool True) = JBool True" by code_simp
  have 3: "map_of (frame_series sample_frame) [] = None" by code_simp
  show ?thesis using adx_atom_agrees_with_series[OF 1 _ 2 3, of 2 "initial_state ''long'' 0 0 (Fin 100)"]
    by (simp add: initial_state_def)
qed

text \<open>
  An initial-R stop lies where its formula puts it: a lock candidate is never on the losing
  side of the entry, and a trailing candidate never beyond the best price the trade reached.
\<close>

lemma offset_nonneg:
  assumes "fle (Fin 0) r" "isfinite r" "isfinite k" "\<not> fle k (Fin 0)"
  shows "fle (Fin 0) (fmul r k)"
  using assms by (cases r; cases k) (auto intro: rnd_nonneg)

lemma add_nonneg_side:
  assumes "f64_ok x" "isfinite x" "fle (Fin 0) d"
  shows "fle x (fadd x d)" "fle (fsub x d) x"
proof -
  have "fadd x d \<noteq> NaN" "fsub x d \<noteq> NaN" using assms(2,3) by (cases x; cases d; simp add: fsub_def)+
  moreover have "x \<noteq> NaN" using assms(2) by auto
  ultimately show "fle x (fadd x d)" "fle (fsub x d) x"
    using fadd_nonneg_ge[OF assms(1) _ assms(3)] fsub_nonneg_le[OF assms(1) _ assms(3)] by simp_all
qed

theorem initial_r_candidate_side:
  assumes "resolve_initial_r_stop cmp params path = Inr (Some (formula, trigger_r, action_r))"
    and "initial_r_stop_candidate (formula, trigger_r, action_r) st = Some p"
    and "initial_risk st = Some risk" "isfinite risk"
    and "f64_ok (entry_price st) \<and> isfinite (entry_price st)" "f64_ok (mfe_price st) \<and> isfinite (mfe_price st)"
  shows "case formula of
      Initial_r_lock \<Rightarrow> if ms_side st = ''long'' then fle (entry_price st) p else fle p (entry_price st)
    | Initial_r_trailing \<Rightarrow> if ms_side st = ''long'' then fle p (mfe_price st) else fle (mfe_price st) p"
proof -
  have risk: "\<not> fle risk (Fin 0)" using assms(2,3) by (auto simp: initial_r_stop_candidate_def)
  have "fle (Fin 0) action_r" "isfinite action_r"
    using initial_r_stop_bounds[OF assms(1)] by (auto split: initial_r_formula.splits intro: flt_imp_fle)
  from offset_nonneg[OF this assms(4) risk] have "fle (Fin 0) (fmul action_r risk)" .
  note side = add_nonneg_side[OF _ _ this]
  show ?thesis using assms(2,3,5,6) risk side[of "entry_price st"] side[of "mfe_price st"]
    by (cases formula) (auto simp: initial_r_stop_candidate_def Let_def split: if_splits)
qed

definition trailing_params :: obj where
  "trailing_params = [(''trigger_r'', JInt 2), (''trail_distance_r'', JInt 2)]"

definition fractional_trade :: "rat \<Rightarrow> rat \<Rightarrow> rat \<Rightarrow> managed_state" where
  "fractional_trade e s best =
     (initial_state ''long'' 0 0 (rnd e))\<lparr>mfe_price := rnd best, best_price := rnd best, initial_risk := Some (fabs (fsub (rnd e) (rnd s)))\<rparr>"

theorem initial_r_candidate_side_witness:
  "fle (the (initial_r_stop_candidate (Initial_r_trailing, Fin 2, Fin 2) (fractional_trade 100 90 120))) (Fin 120)"
proof -
  let ?st = "fractional_trade 100 90 120"
  have 1: "resolve_initial_r_stop ''initial_r_trailing_stop'' trailing_params ''p'' = Inr (Some (Initial_r_trailing, Fin 2, Fin 2))"
    by code_simp
  have 2: "initial_r_stop_candidate (Initial_r_trailing, Fin 2, Fin 2) ?st = Some (Fin 100)" by code_simp
  have 3: "initial_risk ?st = Some (Fin 10)" by code_simp
  have 4: "f64_ok (entry_price ?st) \<and> isfinite (entry_price ?st)" by code_simp
  have 5: "f64_ok (mfe_price ?st) \<and> isfinite (mfe_price ?st)" by code_simp
  have "mfe_price ?st = Fin 120" "ms_side ?st = ''long''" by code_simp+
  then show ?thesis using initial_r_candidate_side[OF 1 2 3 _ 4 5] 2 by simp
qed

text \<open>
  The bounds on the distances do not keep the first eligible trailing candidate at or beyond the
  entry: with entry 1.3, stop 0.2 and best price 3.5 the trade has reached exactly two initial
  risks, and the stop that trails by two lies one unit in the last place below the entry.
\<close>

lemma trailing_candidate_below_entry:
  "resolve_initial_r_stop ''initial_r_trailing_stop'' trailing_params ''p'' = Inr (Some (Initial_r_trailing, Fin 2, Fin 2))"
  "flt (the (initial_r_stop_candidate (Initial_r_trailing, Fin 2, Fin 2) (fractional_trade (13 / 10) (1 / 5) (7 / 2))))
     (entry_price (fractional_trade (13 / 10) (1 / 5) (7 / 2)))"
  by code_simp+

text \<open>
  A managed replay that returns has read a valid request: the exit management is in managed
  mode, the entry is on the grid, the entry price is not zero or below, and every phase rule
  names one of the five phases; anything else is an error.
\<close>

lemma foldR_all: "foldR f s xs = Inr t \<Longrightarrow> x \<in> set xs \<Longrightarrow> \<exists>a b. f a x = Inr b"
  by (induction xs arbitrary: s) (auto simp: bindR_Inr)

lemma fold_composite_rules_fst:
  "fold_composite_rules eval parse fr plan sd k rules = Inr folds \<Longrightarrow> map fst folds = rules"
  by (induction rules arbitrary: k folds) (auto simp: bindR_Inr)

theorem managed_replay_request_valid:
  assumes "evaluate_managed_replay eval parse raw fr plan sd entry_t price stop = Inr r"
  shows "\<exists>config rules. exit_management raw = Inr config \<and> get config ''mode'' = JStr ''managed'' \<and>
    entry_t \<in> set (frame_time_ms fr) \<and> \<not> fle price (Fin 0) \<and>
    rule_items (get_or config ''phase_rules'' (JList [])) ''phase_rules'' = Inr rules \<and>
    list_all (\<lambda>rule. phase_of (text_of rule ''to_phase'' []) \<noteq> None) rules"
proof -
  obtain config e where c: "exit_management raw = Inr config" "get config ''mode'' = JStr ''managed''"
    "index_of entry_t (frame_time_ms fr) = Some e" "\<not> fle price (Fin 0)"
    using assms by (auto simp: evaluate_managed_replay_def replay_core_def bindR_Inr raise_if_Inr split: option.splits)
  obtain prs srs trs rrs folds acc where
    prs: "rule_items (get_or config ''phase_rules'' (JList [])) ''phase_rules'' = Inr prs"
    and folds: "fold_composite_rules eval parse fr plan sd 0 prs = Inr folds"
    and run: "foldR (bar_step fr plan sd e \<lparr>phase_rules = folds, stop_rules = srs, take_rules = trs, runtime_rules = rrs\<rparr>)
       ((start_state sd e entry_t price 0 stop, []), []) [e ..< nat (int (length (frame_time_ms fr)) - 1) + 1] = Inr acc"
    using assms c unfolding evaluate_managed_replay_def replay_core_def
    by (auto simp: bindR_Inr raise_if_Inr Let_def simp del: upt_Suc)
  have e: "e < length (frame_time_ms fr)" "entry_t \<in> set (frame_time_ms fr)" using index_of_Some[OF c(3)] by auto
  then have "e \<in> set [e ..< nat (int (length (frame_time_ms fr)) - 1) + 1]" by auto
  from foldR_all[OF run this] obtain lg t lg' where step: "foldR (phase_rule_step fr plan e t) lg folds = Inr lg'"
    by (auto simp: bar_step_def bindR_Inr)
  have "phase_of (text_of (fst rf) ''to_phase'' []) \<noteq> None" if "rf \<in> set folds" for rf
    using foldR_all[OF step that] by (auto simp: phase_rule_step_def bindR_Inr Let_def rank_phase_of)
  then have "list_all (\<lambda>rule. phase_of (text_of rule ''to_phase'' []) \<noteq> None) prs"
    using fold_composite_rules_fst[OF folds] by (auto simp: list_all_iff)
  then show ?thesis using c e(2) prs by blast
qed

theorem managed_replay_request_valid_witness:
  "\<exists>config rules. exit_management sample_managed = Inr config \<and>
     rule_items (get_or config ''phase_rules'' (JList [])) ''phase_rules'' = Inr rules \<and>
     list_all (\<lambda>rule. phase_of (text_of rule ''to_phase'' []) \<noteq> None) rules"
  using managed_replay_request_valid[OF sample_replay_ok] by blast

end
