(* ===== verification/RawSpecProperties.thy ===== *)
theory RawSpecProperties
  imports RawSpec
begin

text \<open>
  Properties of the document readers: the width band, unique instance identifiers and the ladder
  of partial takes.
\<close>

section \<open>What a successful ladder has read\<close>

definition partial_rules :: "obj list \<Rightarrow> obj list" where
  "partial_rules rules = filter (\<lambda>r. text_of r ''component_id'' [] \<in> set EXIT_PARTIAL_TAKE_SUPPORTED) rules"

definition fraction_value :: "obj \<Rightarrow> f64" where
  "fraction_value rule = projr (py_float (get rule ''fraction_of_initial''))"

definition take_rule :: "obj \<Rightarrow> bool" where
  "take_rule r = (text_of r ''exit_kind'' ''signal'' = ''take_profit'')"

text \<open>The decimal sum of the fractions of the partial takes, in declared order.\<close>

definition fraction_sum :: "rat \<Rightarrow> obj list \<Rightarrow> rat" where
  "fraction_sum start_sum rules = foldl (\<lambda>t r. dec_add t (float_decimal (fin_val (fraction_value r)))) start_sum (partial_rules rules)"

definition partial_ok :: "obj \<Rightarrow> bool" where
  "partial_ok r \<longleftrightarrow> text_of r ''exit_kind'' ''signal'' = PARTIAL_TAKE_EXIT_KIND \<and>
     isfinite (fraction_value r) \<and> flt (Fin 0) (fraction_value r) \<and> flt (fraction_value r) (Fin 1)"

lemma finite_number_py_float: "finite_number v msg = Inr x \<Longrightarrow> py_float v = Inr x"
  by (cases v) (auto simp: finite_number_def raise_if_Inr split: sum.splits err.splits if_splits)

lemma positive_finite_py_float: "positive_finite v path = Inr x \<Longrightarrow> py_float v = Inr x"
  by (auto simp: positive_finite_def bindR_Inr raise_if_Inr dest: finite_number_py_float)

lemma fraction_Inr:
  assumes "resolve_partial_take_fraction rule path = Inr x"
  shows "fraction_value rule = x \<and> isfinite x \<and> flt (Fin 0) x \<and> flt x (Fin 1)"
proof -
  have p: "positive_finite (get rule ''fraction_of_initial'') (path @ ''.fraction_of_initial'') = Inr x" "\<not> fle (Fin 1) x"
    using assms by (auto simp: resolve_partial_take_fraction_def bindR_Inr raise_if_Inr)
  then have "isfinite x \<and> flt (Fin 0) x" by (auto dest: positive_finite_Inr)
  moreover from this p(2) have "flt x (Fin 1)" by (cases x) auto
  ultimately show ?thesis using positive_finite_py_float[OF p(1)] by (simp add: fraction_value_def)
qed

lemma ladder_rule_Inr:
  assumes "ladder_rule path acc rule = Inr acc'"
  shows "fst acc' = fraction_sum (fst acc) [rule] \<and> snd acc' = (snd acc \<or> take_rule rule) \<and>
    list_all partial_ok (partial_rules [rule])"
proof (cases "text_of rule ''component_id'' [] \<in> set EXIT_PARTIAL_TAKE_SUPPORTED")
  case False
  then show ?thesis using assms
    by (auto simp: ladder_rule_def Let_def raise_if_Inr fraction_sum_def partial_rules_def take_rule_def)
next
  case True
  obtain x where x: "resolve_partial_take_fraction rule path = Inr x" "text_of rule ''exit_kind'' ''signal'' = PARTIAL_TAKE_EXIT_KIND"
    "acc' = (dec_add (fst acc) (float_decimal (fin_val x)), snd acc \<or> take_rule rule)"
    using assms True by (auto simp: ladder_rule_def Let_def raise_if_Inr bindR_Inr take_rule_def split: if_splits)
  show ?thesis using fraction_Inr[OF x(1)] x True by (simp add: fraction_sum_def partial_rules_def partial_ok_def)
qed

lemma ladder_group_Inr:
  "ladder_group g i acc rules = Inr acc' \<Longrightarrow>
     fst acc' = fraction_sum (fst acc) rules \<and> snd acc' = (snd acc \<or> list_ex take_rule rules) \<and>
     list_all partial_ok (partial_rules rules)"
proof (induction rules arbitrary: i acc)
  case Nil
  then show ?case by (simp add: fraction_sum_def partial_rules_def)
next
  case (Cons r rs)
  then obtain acc1 where a: "ladder_rule (at_index (''trade_management.exit_policy.'' @ g @ ''.exits'') i) acc r = Inr acc1"
    "ladder_group g (Suc i) acc1 rs = Inr acc'"
    by (auto simp: bindR_Inr)
  show ?case using ladder_rule_Inr[OF a(1)] Cons.IH[OF a(2)]
    by (auto simp: fraction_sum_def partial_rules_def split: if_splits)
qed

section \<open>Properties\<close>

text \<open>
  A width band that is accepted is one: the minimum is finite and positive, the maximum, where
  there is one, is finite and not below it, the ATR timeframe is not empty and its period positive.
\<close>

lemma band_number_Inr: "band_number v name = Inr x \<Longrightarrow> isfinite x"
  by (cases v) (auto simp: band_number_def raise_if_Inr split: if_splits)

theorem width_band_well_formed:
  assumes "parse_width_band_params params = Inr p"
  shows "isfinite (min_width_atr p) \<and> flt (Fin 0) (min_width_atr p) \<and>
    (case max_width_atr p of None \<Rightarrow> True | Some m \<Rightarrow> isfinite m \<and> fle (min_width_atr p) m) \<and>
    band_atr_timeframe p \<noteq> [] \<and> 0 < band_atr_period p"
proof -
  obtain mn mx where m: "band_number (get params ''min_width_atr'') ''min_width_atr'' = Inr mn" "\<not> fle mn (Fin 0)"
    "band_max_width params mn = Inr mx"
    and p: "min_width_atr p = mn" "max_width_atr p = mx" "band_atr_timeframe p \<noteq> []" "0 < band_atr_period p"
    using assms
    by (auto simp: parse_width_band_params_def bindR_Inr raise_if_Inr not_le case_kind_Inr)
  have mn: "isfinite mn" "flt (Fin 0) mn" using band_number_Inr[OF m(1)] m(2) by (cases mn; auto)+
  have "case mx of None \<Rightarrow> True | Some x \<Rightarrow> isfinite x \<and> fle mn x"
  proof (cases mx)
    case (Some x)
    then have "band_number (get params ''max_width_atr'') ''max_width_atr'' = Inr x" "\<not> flt x mn"
      using m(3) by (auto simp: band_max_width_def bindR_Inr raise_if_Inr split: if_splits)
    moreover from this(1) have "isfinite x" by (rule band_number_Inr)
    ultimately show ?thesis using mn(1) Some by (cases x; cases mn) auto
  qed simp
  then show ?thesis using mn p by (auto split: option.splits)
qed

theorem width_band_well_formed_witness:
  "parse_width_band_params [(''min_width_atr'', JFloat (Fin (1 / 2))), (''max_width_atr'', JInt 2)] =
     Inr \<lparr>min_width_atr = Fin (1 / 2), max_width_atr = Some (Fin 2), band_atr_timeframe = ''base'', band_atr_period = 14\<rparr> \<and>
   fle (Fin (1 / 2)) (Fin 2)"
proof -
  have 1: "parse_width_band_params [(''min_width_atr'', JFloat (Fin (1 / 2))), (''max_width_atr'', JInt 2)] =
     Inr \<lparr>min_width_atr = Fin (1 / 2), max_width_atr = Some (Fin 2), band_atr_timeframe = ''base'', band_atr_period = 14\<rparr>"
    by code_simp
  show ?thesis using 1 width_band_well_formed[OF 1] by simp
qed

text \<open>
  The check of instance identifiers accepts exactly the lists of non-empty strings without a
  repetition; everything else is rejected.
\<close>

lemma unique_ids_from_iff:
  "unique_ids_from scope seen pairs = Inr () \<longleftrightarrow>
     (\<exists>ids. map fst pairs = map JStr ids \<and> [] \<notin> set ids \<and> distinct ids \<and> set ids \<inter> set seen = {})"
proof (induction pairs arbitrary: seen)
  case (Cons q pairs)
  obtain raw path where q: "q = (raw, path)" by (cases q)
  show ?case
  proof (cases "\<exists>s. raw = JStr s \<and> s \<noteq> []")
    case True
    then obtain s where s: "raw = JStr s" "s \<noteq> []" by blast
    have "unique_ids_from scope seen (q # pairs) = Inr () \<longleftrightarrow>
        s \<notin> set seen \<and> (\<exists>ids. map fst pairs = map JStr ids \<and> [] \<notin> set ids \<and> distinct ids \<and> set ids \<inter> set (s # seen) = {})"
      using s q Cons.IH[of "s # seen"] by (simp add: require_non_empty_instance_id_def raise_if_Inr)
    also have "\<dots> \<longleftrightarrow> (\<exists>ids. map fst (q # pairs) = map JStr ids \<and> [] \<notin> set ids \<and> distinct ids \<and> set ids \<inter> set seen = {})"
      (is "?L \<longleftrightarrow> ?R")
    proof
      assume ?L
      then obtain ids where "s \<notin> set seen" "map fst pairs = map JStr ids" "[] \<notin> set ids" "distinct ids"
        "set ids \<inter> set (s # seen) = {}" by blast
      then show ?R using s q by (intro exI[of _ "s # ids"]) auto
    next
      assume ?R
      then obtain ids where i: "map fst (q # pairs) = map JStr ids" "[] \<notin> set ids" "distinct ids" "set ids \<inter> set seen = {}"
        by blast
      then obtain ids' where "ids = s # ids'" using s q by (cases ids) auto
      then show ?L using i by auto
    qed
    finally show ?thesis .
  next
    case False
    then have "unique_ids_from scope seen (q # pairs) \<noteq> Inr ()"
      using q by (cases raw) (auto simp: require_non_empty_instance_id_def)
    moreover have "map fst (q # pairs) = map JStr ids \<Longrightarrow> [] \<in> set ids" for ids
      using False q by (cases ids) auto
    ultimately show ?thesis by blast
  qed
qed simp

theorem unique_instance_ids_iff:
  "require_unique_instance_ids scope pairs = Inr () \<longleftrightarrow>
     (\<exists>ids. map fst pairs = map JStr ids \<and> [] \<notin> set ids \<and> distinct ids)"
  by (simp add: require_unique_instance_ids_def unique_ids_from_iff)

text \<open>
  C34. A ladder of partial takes that is accepted closes less than the whole position: every
  partial take takes a fraction strictly between zero and one, and in each profile the fractions,
  together with those that are always on, sum below one, with a final take profit in force
  wherever there is a partial take.
\<close>

lemma group_ladder_Inr:
  assumes "group_ladder groups g = Inr acc"
  obtains rules where "map_of groups g = Some rules" "acc = (fraction_sum 0 rules, list_ex take_rule rules)"
    "list_all partial_ok (partial_rules rules)"
proof -
  obtain rules where r: "map_of groups g = Some rules" "ladder_group g 0 (0, False) rules = Inr acc"
    using assms by (auto simp: group_ladder_def split: option.splits)
  show thesis using that[OF r(1)] ladder_group_Inr[OF r(2)] by (cases acc) auto
qed

theorem partial_take_ladder_bounded:
  assumes "require_partial_take_ladder groups = Inr ()" "profile \<in> set PROFILE_ORDER"
  shows "\<exists>always own. map_of groups ''always_on'' = Some always \<and> map_of groups profile = Some own \<and>
    list_all partial_ok (partial_rules (always @ own)) \<and>
    (let total = dec_add (fraction_sum 0 always) (fraction_sum 0 own) in
     total < 1 \<and> (total = 0 \<or> list_ex take_rule (always @ own)))"
proof -
  obtain aa oo us where a: "group_ladder groups ''always_on'' = Inr aa" "mapR (group_ladder groups) PROFILE_ORDER = Inr oo"
    "mapR (profile_check aa) oo = Inr us"
    using assms(1) by (auto simp: require_partial_take_ladder_def bindR_Inr)
  obtain i where i: "i < length PROFILE_ORDER" "PROFILE_ORDER ! i = profile" using assms(2) by (auto simp: in_set_conv_nth)
  have o: "group_ladder groups profile = Inr (oo ! i)" using mapR_nth[OF a(2) i(1)] i(2) by simp
  have c: "profile_check aa (oo ! i) = Inr ()" using mapR_nth[OF a(3), of i] mapR_length[OF a(2)] i(1) by simp
  obtain always where al: "map_of groups ''always_on'' = Some always" "aa = (fraction_sum 0 always, list_ex take_rule always)"
    "list_all partial_ok (partial_rules always)" using a(1) by (rule group_ladder_Inr)
  obtain own where ow: "map_of groups profile = Some own" "oo ! i = (fraction_sum 0 own, list_ex take_rule own)"
    "list_all partial_ok (partial_rules own)" using o by (rule group_ladder_Inr)
  have "list_all partial_ok (partial_rules (always @ own))" using al(3) ow(3) by (simp add: partial_rules_def)
  then show ?thesis using c al ow
    by (auto simp: profile_check_def Let_def raise_if_Inr not_le split: if_splits)
qed

definition sample_ladder :: rule_groups where
  "sample_ladder =
     [(''always_on'', [[(''component_id'', JStr ''atr_take_profit''), (''exit_kind'', JStr ''take_profit'')]]),
      (''aligned'', [[(''component_id'', JStr ''pct_partial_take''), (''exit_kind'', JStr ''partial_take''),
         (''fraction_of_initial'', JFloat (Fin (1 / 2))), (''pct'', JInt 1)],
        [(''component_id'', JStr ''pct_partial_take''), (''exit_kind'', JStr ''partial_take''),
         (''fraction_of_initial'', JFloat (Fin (1 / 4))), (''pct'', JInt 2)]]),
      (''countertrend'', []), (''neutral'', [])]"

theorem partial_take_ladder_bounded_witness:
  "\<exists>always own. map_of sample_ladder ''always_on'' = Some always \<and> map_of sample_ladder ''aligned'' = Some own \<and>
    (let total = dec_add (fraction_sum 0 always) (fraction_sum 0 own) in
     total < 1 \<and> (total = 0 \<or> list_ex take_rule (always @ own)))"
proof -
  have 1: "require_partial_take_ladder sample_ladder = Inr ()" by code_simp
  have 2: "''aligned'' \<in> set PROFILE_ORDER" by (simp add: PROFILE_ORDER_def)
  show ?thesis using partial_take_ladder_bounded[OF 1 2] by blast
qed

end
