(* ===== verification/HistoricalManaged.thy ===== *)
theory HistoricalManaged
  imports ManagedReplay "HOL-Library.AList"
begin

text \<open>
  The candidate-wide projection of managed exits (\<open>historical_managed_projection.py\<close>): every
  rule of the policy as a rule over named condition and distance series, which a consumer reads
  for any trade.  The dictionaries the source fills in place are association lists updated under
  their keys and threaded through the rules.  The contract types are those of
  \<open>strategies/contracts.py\<close>; memoized evaluation of predicates is left out.
\<close>

section \<open>Contract types\<close>

datatype trade_metric = Bars_since_entry | Mfe_pct | Mfe_distance | Mfe_r

record transition_threshold =
  th_distance_id :: string
  th_metric :: trade_metric

record entry_change =
  ec_series_id :: string
  ec_op :: string
  ec_value :: f64

datatype transition_term =
    Market_term string
  | Threshold_term string trade_metric
  | Change_term entry_change

record transition_at_least =
  ta_k :: int
  ta_terms :: "transition_term list"

record transition_path =
  tp_path_id :: string
  tp_condition_id :: "string option"
  tp_thresholds :: "transition_threshold list"
  tp_at_least :: "transition_at_least option"
  tp_entry_changes :: "entry_change list"

text \<open>Exactly one of condition, threshold and paths is set: one constructor each.\<close>

datatype transition_source =
    By_condition string
  | By_threshold string trade_metric
  | By_paths "transition_path list"

datatype exit_class = Runtime_protective | Runtime_take | Runtime_close

datatype managed_rule =
    Phase_transition string string transition_source
  | Stop_action string string string "initial_r_formula option" "string option"
  | Take_action string string string
  | Runtime_exit string string string int exit_class

type_synonym condition_series = "bool list \<times> bool list"

record series_store =
  st_conditions :: "(string \<times> condition_series) list"
  st_distances :: "(string \<times> f64 list) list"

record historical_projection =
  hp_store :: series_store
  hp_rules :: "managed_rule list"

definition put_condition :: "string \<Rightarrow> condition_series \<Rightarrow> series_store \<Rightarrow> series_store" where
  "put_condition k v s = s\<lparr>st_conditions := AList.update k v (st_conditions s)\<rparr>"

definition put_distance :: "string \<Rightarrow> f64 list \<Rightarrow> series_store \<Rightarrow> series_store" where
  "put_distance k v s = s\<lparr>st_distances := AList.update k v (st_distances s)\<rparr>"

section \<open>Trade atoms\<close>

definition METRIC :: "(string \<times> trade_metric) list" where
  "METRIC = [(''mfe_atr'', Mfe_distance), (''mfe_pct'', Mfe_pct), (''mfe_r'', Mfe_r), (''bars_in_trade'', Bars_since_entry)]"

definition metric_of :: "string \<Rightarrow> trade_metric res" where
  "metric_of cmp = (case map_of METRIC cmp of None \<Rightarrow> Inl (PyKeyError cmp) | Some m \<Rightarrow> Inr m)"

definition runtime_exit_class :: "string \<Rightarrow> exit_class" where
  "runtime_exit_class kind =
     (if kind = ''protective_exit'' then Runtime_protective
      else if kind = ''take_profit'' then Runtime_take else Runtime_close)"

text \<open>\<open>_cached_series(cache, frame, output_id or "")\<close>\<close>

definition series_or_empty :: "feature_frame \<Rightarrow> string option \<Rightarrow> f64 option list" where
  "series_or_empty fr oid = series_of fr (case oid of None \<Rightarrow> [] | Some k \<Rightarrow> k)"

definition atr_distances :: "(f64 \<Rightarrow> bool) \<Rightarrow> f64 \<Rightarrow> f64 option list \<Rightarrow> f64 list" where
  "atr_distances ok x vs = map (\<lambda>v. case v of None \<Rightarrow> NaN | Some a \<Rightarrow> if ok a then fmul x a else NaN) vs"

definition trade_threshold :: "string \<Rightarrow> obj \<Rightarrow> feature_frame \<Rightarrow> ema_plan \<Rightarrow> nat \<Rightarrow> (f64 list \<times> trade_metric) res" where
  "trade_threshold cmp params fr plan n =
     (if cmp = ''mfe_atr'' then
        bindR (read_float (get params ''threshold'') ''mfe_atr.threshold'' True) (\<lambda>x.
        bindR (require_mapping (get params ''atr'') ''mfe_atr.atr'') (\<lambda>atr.
        bindR (read_int (get atr ''period'') ''mfe_atr.atr.period'') (\<lambda>period.
        bindR (atr_output_id plan (text_of atr ''timeframe'' []) period) (\<lambda>oid.
        Inr (atr_distances (\<lambda>a. flt (Fin 0) a) x (series_or_empty fr oid), Mfe_distance)))))
      else if cmp = ''mfe_pct'' then
        bindR (read_float (get params ''threshold'') ''mfe_pct.threshold'' True) (\<lambda>x. Inr (replicate n x, Mfe_pct))
      else if cmp = ''mfe_r'' then
        bindR (read_float (get params ''threshold'') ''mfe_r.threshold'' True) (\<lambda>x. Inr (replicate n x, Mfe_r))
      else
        bindR (read_int (get params ''threshold'') ''bars_in_trade.threshold'') (\<lambda>k.
        bindR (mapR (\<lambda>_. py_float (JInt k)) [0 ..< n]) (\<lambda>xs.
        bindR (metric_of cmp) (\<lambda>m. Inr (xs, m)))))"

section \<open>Composite paths\<close>

definition child_key :: "string \<Rightarrow> string \<Rightarrow> string \<Rightarrow> string" where
  "child_key rid cid what = ''phase:'' @ rid @ '':child:'' @ cid @ '':'' @ what"

definition path_key :: "string \<Rightarrow> string \<Rightarrow> string" where
  "path_key rid pid = ''phase:'' @ rid @ '':path:'' @ pid @ '':condition''"

definition lookup :: "(string \<times> 'a) list \<Rightarrow> string \<Rightarrow> 'a res" where
  "lookup m k = (case map_of m k of None \<Rightarrow> Inl (PyKeyError k) | Some v \<Rightarrow> Inr v)"

definition market_term :: "string \<Rightarrow> folded_composite \<Rightarrow> folded_composite \<Rightarrow> series_store \<Rightarrow> string \<Rightarrow> (series_store \<times> string) res" where
  "market_term rid lf sf st cid =
     (let k = child_key rid cid ''condition'' in
      if map_of (st_conditions st) k \<noteq> None then Inr (st, k)
      else bindR (lookup (fc_market lf) cid) (\<lambda>l. bindR (lookup (fc_market sf) cid) (\<lambda>s.
           Inr (put_condition k (l, s) st, k))))"

definition trade_term ::
  "string \<Rightarrow> composite_phase_condition \<Rightarrow> feature_frame \<Rightarrow> ema_plan \<Rightarrow> nat \<Rightarrow> series_store \<Rightarrow> string \<Rightarrow>
     (series_store \<times> transition_threshold) res" where
  "trade_term rid spec fr plan n st cid =
     (let k = child_key rid cid ''distance'' in
      bindR (find_child (cond_children spec) cid) (\<lambda>c.
      case child_condition c of None \<Rightarrow> Inl PyAssertionError
      | Some atom \<Rightarrow>
          (let cmp = text_of atom ''component_id'' [] in
           bindR (if map_of (st_distances st) k \<noteq> None then Inr st
             else bindR (require_mapping (get_or atom ''params'' (JObj [])) ''phase condition params'') (\<lambda>params.
                  bindR (trade_threshold cmp params fr plan n) (\<lambda>(xs, m). Inr (put_distance k xs st)))) (\<lambda>st'.
           bindR (metric_of cmp) (\<lambda>m. Inr (st', \<lparr>th_distance_id = k, th_metric = m\<rparr>))))))"

definition change_series :: "f64 option list \<Rightarrow> f64 list" where
  "change_series vs = map (\<lambda>v. case v of None \<Rightarrow> NaN | Some x \<Rightarrow> if isfinite x then x else NaN) vs"

definition entry_change_term ::
  "string \<Rightarrow> folded_composite \<Rightarrow> feature_frame \<Rightarrow> series_store \<Rightarrow> string \<Rightarrow> (series_store \<times> entry_change) res" where
  "entry_change_term rid lf fr st cid =
     (let k = child_key rid cid ''series'' in
      bindR (lookup (fc_changes lf) cid) (\<lambda>ch.
      Inr (if map_of (st_distances st) k \<noteq> None then st
           else put_distance k (change_series (series_of fr (output_id (cse_feature ch)))) st,
           \<lparr>ec_series_id = k, ec_op = cse_op ch, ec_value = cse_value ch\<rparr>)))"

definition at_least_term ::
  "string \<Rightarrow> composite_phase_condition \<Rightarrow> folded_composite \<Rightarrow> folded_composite \<Rightarrow> feature_frame \<Rightarrow> ema_plan \<Rightarrow> nat \<Rightarrow>
     series_store \<Rightarrow> string \<Rightarrow> (series_store \<times> transition_term) res" where
  "at_least_term rid spec lf sf fr plan n st ref =
     (if map_of (fc_market lf) ref \<noteq> None then
        bindR (market_term rid lf sf st ref) (\<lambda>(st', k). Inr (st', Market_term k))
      else if map_of (fc_changes lf) ref \<noteq> None then
        bindR (entry_change_term rid lf fr st ref) (\<lambda>(st', e). Inr (st', Change_term e))
      else bindR (trade_term rid spec fr plan n st ref) (\<lambda>(st', t).
           Inr (st', Threshold_term (th_distance_id t) (th_metric t))))"

definition path_condition :: "string \<Rightarrow> series_store \<Rightarrow> folded_path \<Rightarrow> folded_path \<Rightarrow> (series_store \<times> string option) res" where
  "path_condition rid st lp sp =
     (case fp_market lp of None \<Rightarrow> Inr (st, None)
      | Some l \<Rightarrow>
          (case fp_market sp of None \<Rightarrow> Inl PyAssertionError
           | Some s \<Rightarrow> (let k = path_key rid (fp_path_id lp) in Inr (put_condition k (l, s) st, Some k))))"

definition path_at_least ::
  "string \<Rightarrow> composite_phase_condition \<Rightarrow> folded_composite \<Rightarrow> folded_composite \<Rightarrow> feature_frame \<Rightarrow> ema_plan \<Rightarrow> nat \<Rightarrow>
     series_store \<Rightarrow> folded_path \<Rightarrow> (series_store \<times> transition_at_least option) res" where
  "path_at_least rid spec lf sf fr plan n st lp =
     (case fp_at_least_k lp of None \<Rightarrow> Inr (st, None)
      | Some k \<Rightarrow> bindR (mapS (at_least_term rid spec lf sf fr plan n) st (fp_at_least_terms lp)) (\<lambda>(st', ts).
          Inr (st', Some \<lparr>ta_k = k, ta_terms = ts\<rparr>)))"

definition composite_path ::
  "string \<Rightarrow> composite_phase_condition \<Rightarrow> folded_composite \<Rightarrow> folded_composite \<Rightarrow> feature_frame \<Rightarrow> ema_plan \<Rightarrow> nat \<Rightarrow>
     series_store \<Rightarrow> folded_path \<times> folded_path \<Rightarrow> (series_store \<times> transition_path) res" where
  "composite_path rid spec lf sf fr plan n st pp =
     (let lp = fst pp; is_change = (\<lambda>r. map_of (fc_changes lf) r \<noteq> None) in
      bindR (path_condition rid st lp (snd pp)) (\<lambda>(st1, cond_id).
      bindR (path_at_least rid spec lf sf fr plan n st1 lp) (\<lambda>(st2, al).
      bindR (mapS (trade_term rid spec fr plan n) st2 (filter (\<lambda>r. \<not> is_change r) (fp_trade_require lp))) (\<lambda>(st3, ths).
      bindR (mapS (entry_change_term rid lf fr) st3 (filter is_change (fp_trade_require lp))) (\<lambda>(st4, chs).
      Inr (st4, \<lparr>tp_path_id = fp_path_id lp, tp_condition_id = cond_id, tp_thresholds = ths, tp_at_least = al,
                 tp_entry_changes = chs\<rparr>))))))"

definition composite_paths ::
  "predicate_layer \<Rightarrow> change_parser \<Rightarrow> nat \<Rightarrow> string \<Rightarrow> obj \<Rightarrow> feature_frame \<Rightarrow> ema_plan \<Rightarrow> nat \<Rightarrow> series_store \<Rightarrow>
     (series_store \<times> transition_path list) res" where
  "composite_paths eval parse k rid condition fr plan n st =
     bindR (parse_composite_phase_condition condition (at_index ''phase_rules'' k @ ''.condition'')) (\<lambda>spec.
     bindR (fold_phase_paths eval parse spec fr plan ''long'') (\<lambda>lf.
     bindR (fold_phase_paths eval parse spec fr plan ''short'') (\<lambda>sf.
     raise_if (length (fc_paths lf) \<noteq> length (fc_paths sf)) (PyValueError ''zip() arguments differ in length'')
       (mapS (composite_path rid spec lf sf fr plan n) st (zip (fc_paths lf) (fc_paths sf))))))"

section \<open>Phase rules\<close>

definition rule_key :: "string \<Rightarrow> string \<Rightarrow> string \<Rightarrow> string" where
  "rule_key family rid what = family @ '':'' @ rid @ '':'' @ what"

definition phase_rule_entry ::
  "predicate_layer \<Rightarrow> change_parser \<Rightarrow> feature_frame \<Rightarrow> ema_plan \<Rightarrow> nat \<Rightarrow> series_store \<Rightarrow> nat \<times> obj \<Rightarrow>
     (series_store \<times> managed_rule) res" where
  "phase_rule_entry eval parse fr plan n st ir =
     (let rule = snd ir; rid = text_of rule ''rule_id'' []; target = text_of rule ''to_phase'' [] in
      bindR (require_mapping (get rule ''condition'') (''phase_rules['' @ rid @ ''].condition'')) (\<lambda>condition.
      (let cmp = text_of condition ''component_id'' [] in
      bindR (require_mapping (get_or condition ''params'' (JObj [])) ''phase condition params'') (\<lambda>params.
      if cmp = COMPOSITE_PHASE_CONDITION then
        bindR (composite_paths eval parse (fst ir) rid condition fr plan n st) (\<lambda>(st', ps).
        Inr (st', Phase_transition rid target (By_paths ps)))
      else if cmp = ''adx_di_threshold'' then
        bindR (adx_di_series params fr plan) (\<lambda>ls.
        (let k = rule_key ''phase'' rid ''condition'' in
         Inr (put_condition k ls st, Phase_transition rid target (By_condition k))))
      else if map_of METRIC cmp \<noteq> None then
        bindR (trade_threshold cmp params fr plan n) (\<lambda>(xs, m).
        (let k = rule_key ''phase'' rid ''distance'' in
         Inr (put_distance k xs st, Phase_transition rid target (By_threshold k m))))
      else Inl (PyValueError ''unsupported phase condition'')))))"

section \<open>Stops, takes and runtime exits\<close>

definition activation_phase :: "obj \<Rightarrow> string res" where
  "activation_phase rule =
     bindR (require_mapping (get rule ''activate_when'') ''activate_when'') (\<lambda>aw. Inr (text_of aw ''phase_at_least'' []))"

text \<open>The series of the ATR an action refers to.\<close>

definition action_atr_series :: "feature_frame \<Rightarrow> ema_plan \<Rightarrow> obj \<Rightarrow> string \<Rightarrow> f64 option list res" where
  "action_atr_series fr plan params path =
     bindR (require_mapping (get_or params ''atr'' (JObj [])) path) (\<lambda>ref.
     bindR (py_int (get_or ref ''period'' (get_or params ''atr_period'' (JInt 14)))) (\<lambda>period.
     bindR (atr_output_id plan (text_of ref ''timeframe'' ''base'') period) (\<lambda>oid. Inr (series_or_empty fr oid))))"

definition atr_offset_series :: "feature_frame \<Rightarrow> ema_plan \<Rightarrow> obj \<Rightarrow> string \<Rightarrow> string \<Rightarrow> f64 list res" where
  "atr_offset_series fr plan params path k =
     bindR (action_atr_series fr plan params path) (\<lambda>vs.
     bindR (py_float (get_or params k (JFloat (Fin 0)))) (\<lambda>x. Inr (atr_distances (\<lambda>_. True) x vs)))"

definition stop_rule_entry :: "feature_frame \<Rightarrow> ema_plan \<Rightarrow> nat \<Rightarrow> series_store \<Rightarrow> obj \<Rightarrow> (series_store \<times> managed_rule) res" where
  "stop_rule_entry fr plan n st rule =
     (let rid = text_of rule ''rule_id'' [] in
      bindR (activation_phase rule) (\<lambda>phase.
      (let cmp = text_of rule ''component_id'' []; k = rule_key ''stop'' rid ''distance'' in
      bindR (require_mapping (get_or rule ''params'' (JObj [])) ''stop params'') (\<lambda>params.
      if cmp = ''break_even_stop'' then
        bindR (if get_or params ''buffer_type'' (JStr ''none'') = JStr ''none'' then
                 bindR (py_float (get_or params ''buffer'' (JFloat (Fin 0)))) (\<lambda>x. Inr (replicate n x))
               else atr_offset_series fr plan params ''break-even atr'' ''buffer_atr'') (\<lambda>xs.
        Inr (put_distance k xs st, Stop_action rid phase k None None))
      else if cmp = ''lock_profit_stop'' then
        bindR (atr_offset_series fr plan params ''lock atr'' ''lock_atr'') (\<lambda>xs.
        Inr (put_distance k xs st, Stop_action rid phase k None None))
      else
        bindR (resolve_initial_r_stop cmp params (cmp @ ''.params'')) (\<lambda>q.
        case q of None \<Rightarrow> Inl (PyValueError ''unsupported stop management component'')
        | Some (formula, trigger_r, action_r) \<Rightarrow>
            (let tk = rule_key ''stop'' rid ''trigger'' in
             Inr (put_distance k (replicate n action_r) (put_distance tk (replicate n trigger_r) st),
                  Stop_action rid phase k (Some formula) (Some tk))))))))"

definition take_rule_entry :: "series_store \<Rightarrow> obj \<Rightarrow> (series_store \<times> managed_rule) res" where
  "take_rule_entry st rule =
     bindR (activation_phase rule) (\<lambda>phase.
     raise_if (text_of rule ''component_id'' [] \<noteq> ''take_profile_switch'') (PyValueError ''unsupported take management component'')
     (bindR (require_mapping (get_or rule ''params'' (JObj [])) ''take params'') (\<lambda>params.
      Inr (st, Take_action (text_of rule ''rule_id'' []) phase (take_profile (text_of params ''action'' []))))))"

definition boundary_of :: "json \<Rightarrow> f64 option res" where
  "boundary_of v = (if v = JNull then Inr None else bindR (py_float v) (\<lambda>x. Inr (Some x)))"

definition against :: "(f64 \<Rightarrow> f64 \<Rightarrow> bool) \<Rightarrow> f64 option \<Rightarrow> f64 option \<Rightarrow> bool" where
  "against cmp b v = (case (b, v) of (Some y, Some x) \<Rightarrow> cmp x y | _ \<Rightarrow> False)"

definition rsi_condition :: "feature_frame \<Rightarrow> ema_plan \<Rightarrow> obj \<Rightarrow> condition_series res" where
  "rsi_condition fr plan params =
     bindR (require_mapping (get params ''rsi'') ''runtime rsi'') (\<lambda>rsi.
     bindR (py_int (get_or rsi ''period'' (JInt 0))) (\<lambda>p.
     (let vs = series_or_empty fr (map_of (rsi_columns plan) (text_of rsi ''timeframe'' [], p)) in
      bindR (boundary_of (get params ''long_exit_above'')) (\<lambda>lb.
      bindR (boundary_of (get params ''short_exit_below'')) (\<lambda>sb.
      Inr (map (against (\<lambda>x y. fle y x) lb) vs, map (against fle sb) vs))))))"

definition ema_condition :: "feature_frame \<Rightarrow> ema_plan \<Rightarrow> obj \<Rightarrow> condition_series res" where
  "ema_condition fr plan params =
     bindR (require_mapping (get params ''fast_ema'') ''runtime fast_ema'') (\<lambda>fast.
     bindR (require_mapping (get params ''slow_ema'') ''runtime slow_ema'') (\<lambda>slow.
     bindR (ema_column plan fast) (\<lambda>fk. bindR (ema_column plan slow) (\<lambda>sk.
     (let fs = series_of fr fk; ss = series_of fr sk in
      raise_if (length fs \<noteq> length ss) (PyValueError ''zip() arguments differ in length'')
        (Inr (map2 (against fle) ss fs, map2 (against (\<lambda>x y. fle y x)) ss fs)))))))"

definition runtime_rule_entry :: "feature_frame \<Rightarrow> ema_plan \<Rightarrow> nat \<Rightarrow> series_store \<Rightarrow> obj \<Rightarrow> (series_store \<times> managed_rule) res" where
  "runtime_rule_entry fr plan n st rule =
     (let rid = text_of rule ''rule_id'' [] in
      bindR (activation_phase rule) (\<lambda>phase.
      bindR (require_mapping (get_or rule ''params'' (JObj [])) ''runtime exit params'') (\<lambda>params.
      bindR (read_int (get_or params ''confirm_bars'' (JInt 1)) ''confirm_bars'') (\<lambda>confirm.
      (let cmp = text_of rule ''component_id'' []; cls = runtime_exit_class (text_of rule ''exit_kind'' ''market_close'');
           k = rule_key ''runtime'' rid ''condition'' in
       bindR (if cmp = ''phase_runtime_exit'' then
                (let c = (text_of params ''exit_price'' ''close'' = ''close'') in Inr (replicate n c, replicate n c))
              else if cmp = ''rsi_signal_exit'' then rsi_condition fr plan params
              else if cmp = ''ema_cross_loss_exit'' then ema_condition fr plan params
              else Inl (PyValueError ''unsupported runtime exit component'')) (\<lambda>series.
       Inr (put_condition k series st, Runtime_exit rid phase k confirm cls)))))))"

section \<open>The projection\<close>

definition build_historical_managed_projection ::
  "predicate_layer \<Rightarrow> change_parser \<Rightarrow> obj \<Rightarrow> feature_frame \<Rightarrow> ema_plan \<Rightarrow> historical_projection option res" where
  "build_historical_managed_projection eval parse raw_spec fr plan =
     bindR (exit_management raw_spec) (\<lambda>config.
     if get config ''mode'' \<noteq> JStr ''managed'' then Inr None
     else
       (let n = length (frame_time_ms fr); st0 = \<lparr>st_conditions = [], st_distances = []\<rparr> in
        bindR (rule_items (get_or config ''phase_rules'' (JList [])) ''phase_rules'') (\<lambda>prs.
        bindR (mapS (phase_rule_entry eval parse fr plan n) st0 (enumerate 0 prs)) (\<lambda>(st1, r1).
        bindR (rule_items (get_or config ''stop_management'' (JList [])) ''stop_management'') (\<lambda>srs.
        bindR (mapS (stop_rule_entry fr plan n) st1 srs) (\<lambda>(st2, r2).
        bindR (rule_items (get_or config ''take_management'' (JList [])) ''take_management'') (\<lambda>trs.
        bindR (mapS take_rule_entry st2 trs) (\<lambda>(st3, r3).
        bindR (rule_items (get_or config ''runtime_exits'' (JList [])) ''runtime_exits'') (\<lambda>rrs.
        bindR (mapS (runtime_rule_entry fr plan n) st3 rrs) (\<lambda>(st4, r4).
        Inr (Some \<lparr>hp_store = st4, hp_rules = r1 @ r2 @ r3 @ r4\<rparr>)))))))))))"

section \<open>What a consumer reads\<close>

text \<open>
  The meaning the contract types document: a condition of the side of the trade on the bar, a
  quantity of the trade at least the distance (NaN and a missing quantity never are), and the
  first true path.  The quantities are those of the trade's own state.
\<close>

definition metric_value :: "managed_state \<Rightarrow> trade_metric \<Rightarrow> f64 option" where
  "metric_value s m =
     (case m of
        Mfe_distance \<Rightarrow> Some (favourable s)
      | Mfe_pct \<Rightarrow> Some (mfe_pct s)
      | Bars_since_entry \<Rightarrow> Some (f64_of_int (bars_in_trade s))
      | Mfe_r \<Rightarrow> (case initial_risk s of None \<Rightarrow> None
          | Some risk \<Rightarrow> if fle risk (Fin 0) then None else Some (fdiv (favourable s) risk)))"

definition condition_holds :: "series_store \<Rightarrow> string \<Rightarrow> string \<Rightarrow> nat \<Rightarrow> bool" where
  "condition_holds st sd k i =
     (case map_of (st_conditions st) k of None \<Rightarrow> False | Some (l, s) \<Rightarrow> (if sd = ''long'' then l else s) ! i)"

definition distance_at :: "series_store \<Rightarrow> string \<Rightarrow> nat \<Rightarrow> f64" where
  "distance_at st k i = (case map_of (st_distances st) k of None \<Rightarrow> NaN | Some xs \<Rightarrow> xs ! i)"

definition threshold_holds :: "series_store \<Rightarrow> managed_state \<Rightarrow> nat \<Rightarrow> string \<Rightarrow> trade_metric \<Rightarrow> bool" where
  "threshold_holds st s i k m = (case metric_value s m of None \<Rightarrow> False | Some v \<Rightarrow> fge v (distance_at st k i))"

definition change_holds :: "series_store \<Rightarrow> nat \<Rightarrow> nat \<Rightarrow> entry_change \<Rightarrow> bool" where
  "change_holds st e i c =
     (let x = distance_at st (ec_series_id c) i; a = distance_at st (ec_series_id c) e in
      x \<noteq> NaN \<and> a \<noteq> NaN \<and> (case compare_op (ec_op c) of None \<Rightarrow> False | Some f \<Rightarrow> f (fsub x a) (ec_value c)))"

definition term_holds :: "series_store \<Rightarrow> managed_state \<Rightarrow> nat \<Rightarrow> transition_term \<Rightarrow> bool" where
  "term_holds st s i t =
     (case t of Market_term k \<Rightarrow> condition_holds st (ms_side s) k i
      | Threshold_term k m \<Rightarrow> threshold_holds st s i k m
      | Change_term c \<Rightarrow> change_holds st (entry_index s) i c)"

definition transition_path_holds :: "series_store \<Rightarrow> managed_state \<Rightarrow> nat \<Rightarrow> transition_path \<Rightarrow> bool" where
  "transition_path_holds st s i p \<longleftrightarrow>
     (case tp_condition_id p of None \<Rightarrow> True | Some k \<Rightarrow> condition_holds st (ms_side s) k i) \<and>
     list_all (\<lambda>t. threshold_holds st s i (th_distance_id t) (th_metric t)) (tp_thresholds p) \<and>
     list_all (change_holds st (entry_index s) i) (tp_entry_changes p) \<and>
     (case tp_at_least p of None \<Rightarrow> True | Some al \<Rightarrow> ta_k al \<le> int (length (filter (term_holds st s i) (ta_terms al))))"

definition transition_fires :: "series_store \<Rightarrow> managed_state \<Rightarrow> nat \<Rightarrow> transition_source \<Rightarrow> bool" where
  "transition_fires st s i src =
     (case src of By_condition k \<Rightarrow> condition_holds st (ms_side s) k i
      | By_threshold k m \<Rightarrow> threshold_holds st s i k m
      | By_paths ps \<Rightarrow> list_ex (transition_path_holds st s i) ps)"

end
