(* ===== verification/HistoricalFacts.thy ===== *)
theory HistoricalFacts
  imports HistoricalManaged ManagedFacts "HOL-Library.Sublist"
begin

text \<open>
  Facts about the historical projection: a rule writes only under its own keys, and the sources
  it returns mean, for a consumer, what the condition means in the replay of one trade.
\<close>

section \<open>Keys\<close>

definition own :: "string \<Rightarrow> string \<Rightarrow> string" where
  "own family rid = family @ '':'' @ rid @ '':''"

lemma own_prefixes [simp]:
  "prefix (own family rid) (rule_key family rid what)"
  "prefix (own ''phase'' rid) (child_key rid cid what)"
  "prefix (own ''phase'' rid) (path_key rid pid)"
  by (simp_all add: own_def rule_key_def child_key_def path_key_def)

lemma prefix_same_rest: "prefix (a @ '':'') k \<Longrightarrow> prefix (b @ '':'') k \<Longrightarrow> CHR '':'' \<notin> set a \<Longrightarrow> CHR '':'' \<notin> set b \<Longrightarrow> a = b"
proof (induction a arbitrary: b k)
  case Nil
  then show ?case by (cases b; cases k) auto
next
  case (Cons x xs)
  then show ?case by (cases b; cases k) auto
qed

lemma own_phase_disjoint:
  assumes "prefix (own ''phase'' r) k" "prefix (own ''phase'' r') k" "CHR '':'' \<notin> set r" "CHR '':'' \<notin> set r'"
  shows "r = r'"
proof -
  obtain rest where k: "k = ''phase:'' @ rest" "prefix (r @ '':'') rest" "prefix (r' @ '':'') rest"
    using assms(1,2) by (auto simp: own_def prefix_def)
  show ?thesis by (rule prefix_same_rest[OF k(2,3) assms(3,4)])
qed

lemma own_family_disjoint: "prefix (own ''phase'' r) k \<Longrightarrow> \<not> prefix (own ''stop'' r') k \<and> \<not> prefix (own ''runtime'' r') k"
  by (auto simp: own_def prefix_def)

section \<open>Stores\<close>

text \<open>Two stores with the same entries under the keys of a set.\<close>

definition agree :: "(string \<Rightarrow> bool) \<Rightarrow> series_store \<Rightarrow> series_store \<Rightarrow> bool" where
  "agree P s t \<longleftrightarrow> (\<forall>k. P k \<longrightarrow> map_of (st_conditions t) k = map_of (st_conditions s) k \<and>
     map_of (st_distances t) k = map_of (st_distances s) k)"

lemma agree_refl [simp]: "agree P s s" by (simp add: agree_def)
lemma agree_trans [trans]: "agree P s t \<Longrightarrow> agree P t u \<Longrightarrow> agree P s u" by (simp add: agree_def)
lemma agree_mono: "agree P s t \<Longrightarrow> (\<And>k. Q k \<Longrightarrow> P k) \<Longrightarrow> agree Q s t" by (simp add: agree_def)

lemma put_lookup [simp]:
  "map_of (st_conditions (put_condition k v s)) k' = (if k' = k then Some v else map_of (st_conditions s) k')"
  "map_of (st_distances (put_condition k v s)) k' = map_of (st_distances s) k'"
  "map_of (st_distances (put_distance k w s)) k' = (if k' = k then Some w else map_of (st_distances s) k')"
  "map_of (st_conditions (put_distance k w s)) k' = map_of (st_conditions s) k'"
  by (simp_all add: put_condition_def put_distance_def update_conv')

lemma agree_put [simp]:
  "\<not> P k \<Longrightarrow> agree P s (put_condition k v t) = agree P s t" "\<not> P k \<Longrightarrow> agree P s (put_distance k w t) = agree P s t"
  by (auto simp: agree_def)

section \<open>A rule writes only under its own keys\<close>

abbreviation outside :: "string \<Rightarrow> string \<Rightarrow> string \<Rightarrow> bool" where
  "outside family rid \<equiv> \<lambda>k. \<not> prefix (own family rid) k"

lemma term_agree:
  assumes "\<And>c w. \<not> P (child_key rid c w)"
  shows "market_term rid lf sf st cid = Inr (st', k) \<Longrightarrow> agree P st st'"
    "trade_term rid spec fr plan n st cid = Inr (st', t) \<Longrightarrow> agree P st st'"
    "entry_change_term rid lf fr st cid = Inr (st', e) \<Longrightarrow> agree P st st'"
  using assms
  by (auto simp: market_term_def trade_term_def entry_change_term_def Let_def bindR_Inr
      split: option.splits if_splits)

lemma at_least_term_agree:
  assumes "\<And>c w. \<not> P (child_key rid c w)" "at_least_term rid spec lf sf fr plan n st ref = Inr (st', t)"
  shows "agree P st st'"
  using assms(2) term_agree[of P rid, OF assms(1)] by (auto simp: at_least_term_def bindR_Inr split: if_splits)

lemma agree_induct:
  assumes "mapS f s xs = Inr (t, ys)" "\<And>s x t y. x \<in> set xs \<Longrightarrow> f s x = Inr (t, y) \<Longrightarrow> agree P s t"
  shows "agree P s t"
  by (rule mapS_relation[OF assms(1), where R = "agree P"]) (auto intro: agree_trans assms(2))

lemma composite_path_agree:
  assumes P: "\<And>c w. \<not> P (child_key rid c w)" "\<not> P (path_key rid (fp_path_id (fst pp)))"
    and "composite_path rid spec lf sf fr plan n st pp = Inr (st', tp)"
  shows "agree P st st'"
proof -
  obtain st1 st2 st3 c al ths chs where s: "path_condition rid st (fst pp) (snd pp) = Inr (st1, c)"
    "path_at_least rid spec lf sf fr plan n st1 (fst pp) = Inr (st2, al)"
    "mapS (trade_term rid spec fr plan n) st2 (filter (\<lambda>r. \<not> map_of (fc_changes lf) r \<noteq> None) (fp_trade_require (fst pp))) = Inr (st3, ths)"
    "mapS (entry_change_term rid lf fr) st3 (filter (\<lambda>r. map_of (fc_changes lf) r \<noteq> None) (fp_trade_require (fst pp))) = Inr (st', chs)"
    using assms(3) by (auto simp: composite_path_def bindR_Inr Let_def)
  have "agree P st st1" using s(1) P(2) by (auto simp: path_condition_def Let_def split: option.splits)
  also have "agree P st1 st2"
    using s(2) at_least_term_agree[of P rid, OF P(1)] by (auto simp: path_at_least_def bindR_Inr split: option.splits intro: agree_induct)
  also have "agree P st2 st3" by (rule agree_induct[OF s(3)]) (rule term_agree(2)[of P rid, OF P(1)])
  also have "agree P st3 st'" by (rule agree_induct[OF s(4)]) (rule term_agree(3)[of P rid, OF P(1)])
  finally show ?thesis .
qed

lemma composite_path_outside:
  "composite_path rid spec lf sf fr plan n st pp = Inr (st', tp) \<Longrightarrow> agree (outside ''phase'' rid) st st'"
  by (rule composite_path_agree) simp_all

lemma phase_rule_agree:
  assumes "phase_rule_entry eval parse fr plan n st ir = Inr (st', r)"
  shows "agree (outside ''phase'' (text_of (snd ir) ''rule_id'' [])) st st'"
  using assms
  by (auto simp: phase_rule_entry_def Let_def bindR_Inr composite_paths_def raise_if_Inr split: if_splits
      intro: agree_induct composite_path_outside)

lemma stop_rule_agree:
  assumes "stop_rule_entry fr plan n st rule = Inr (st', r)"
  shows "agree (outside ''stop'' (text_of rule ''rule_id'' [])) st st'"
  using assms
  by (auto simp: stop_rule_entry_def Let_def bindR_Inr split: if_splits option.splits)

lemma take_rule_agree: "take_rule_entry st rule = Inr (st', r) \<Longrightarrow> agree P st st'"
  by (auto simp: take_rule_entry_def bindR_Inr raise_if_Inr)

lemma runtime_rule_agree:
  assumes "runtime_rule_entry fr plan n st rule = Inr (st', r)"
  shows "agree (outside ''runtime'' (text_of rule ''rule_id'' [])) st st'"
  using assms by (auto simp: runtime_rule_entry_def Let_def bindR_Inr)

section \<open>Frames with aligned series\<close>

definition frame_aligned :: "feature_frame \<Rightarrow> bool" where
  "frame_aligned fr \<longleftrightarrow>
     list_all (\<lambda>(k, vs). k \<noteq> [] \<and> length vs = length (frame_time_ms fr)) (frame_series fr)"

lemma series_length: "frame_aligned fr \<Longrightarrow> length (series_of fr k) = length (frame_time_ms fr)"
  by (auto simp: series_of_def frame_aligned_def list_all_iff split: option.splits dest!: map_of_SomeD)

lemma series_unnamed: "frame_aligned fr \<Longrightarrow> series_of fr [] = replicate (length (frame_time_ms fr)) None"
  by (auto simp: series_of_def frame_aligned_def list_all_iff split: option.splits dest!: map_of_SomeD)

lemma feature_value_series:
  assumes "frame_aligned fr" "i < length (frame_time_ms fr)"
  shows "feature_value fr oid i = series_or_empty fr oid ! i"
  using assms by (cases oid) (auto simp: feature_value_def series_or_empty_def series_length series_unnamed Let_def)

lemma series_or_empty_length: "frame_aligned fr \<Longrightarrow> length (series_or_empty fr oid) = length (frame_time_ms fr)"
  by (simp add: series_or_empty_def series_length)

section \<open>The atoms\<close>

lemma f64_int_le:
  assumes "0 \<le> b" "b < 9007199254740991"
  shows "fle (f64_of_int k) (f64_of_int b) \<longleftrightarrow> k \<le> b"
proof -
  have b: "f64_of_int b = Fin (of_int b)" "f64_of_int (b + 1) = Fin (of_int (b + 1))"
    by (rule f64_of_int_finite, use assms in simp)+
  show ?thesis
  proof (cases "k \<le> b")
    case True
    then show ?thesis using rnd_mono[of "of_int k" "of_int b"] by (simp add: f64_of_int_def)
  next
    case False
    then have "fle (f64_of_int (b + 1)) (f64_of_int k)" unfolding f64_of_int_def by (intro rnd_mono) simp
    then show ?thesis using b False by (cases "f64_of_int k") auto
  qed
qed

definition quantity_reaches :: "managed_state \<Rightarrow> trade_metric \<Rightarrow> f64 \<Rightarrow> bool" where
  "quantity_reaches s m x = (case metric_value s m of None \<Rightarrow> False | Some v \<Rightarrow> fge v x)"

text \<open>The bar counter of a trade is far below the integers that doubles represent exactly.\<close>

definition counter_ok :: "managed_state \<Rightarrow> bool" where
  "counter_ok s \<longleftrightarrow> 0 \<le> bars_in_trade s \<and> bars_in_trade s < 9007199254740991"

lemma trade_atom_value:
  assumes th: "trade_threshold cmp params fr plan (length (frame_time_ms fr)) = Inr (xs, m)"
    and met: "phase_met condition s i fr plan = Inr (b, d)"
    and c: "text_of condition ''component_id'' [] = cmp" "get_or condition ''params'' (JObj []) = JObj params"
      "map_of METRIC cmp \<noteq> None"
    and ok: "frame_aligned fr" "i < length (frame_time_ms fr)" "counter_ok s"
  shows "quantity_reaches s m (xs ! i) = b \<and> metric_of cmp = Inr m"
proof -
  consider "cmp = ''mfe_atr''" | "cmp = ''mfe_pct''" | "cmp = ''mfe_r''" | "cmp = ''bars_in_trade''"
    using c(3) by (auto simp: METRIC_def split: if_splits)
  then show ?thesis
  proof cases
    case 1
    obtain x atr period oid where r: "read_float (get params ''threshold'') ''mfe_atr.threshold'' True = Inr x"
      "require_mapping (get params ''atr'') ''mfe_atr.atr'' = Inr atr" "read_int (get atr ''period'') ''mfe_atr.atr.period'' = Inr period"
      "atr_output_id plan (text_of atr ''timeframe'' []) period = Inr oid"
      and x: "xs = atr_distances (\<lambda>a. flt (Fin 0) a) x (series_or_empty fr oid)" "m = Mfe_distance"
      using th 1 by (auto simp: trade_threshold_def bindR_Inr)
    have bv: "b = (case feature_value fr oid i of None \<Rightarrow> False | Some v \<Rightarrow> \<not> fle v (Fin 0) \<and> fge (favourable s) (fmul x v))"
      using met r c(1,2) 1 by (auto simp: phase_met_def mfe_atr_met_def split: option.splits if_splits)
    have "xs ! i = (case feature_value fr oid i of None \<Rightarrow> NaN | Some a \<Rightarrow> if flt (Fin 0) a then fmul x a else NaN)"
      using ok(2) by (simp add: x(1) atr_distances_def series_or_empty_length[OF ok(1)] feature_value_series[OF ok(1,2)])
    moreover have "(\<not> fle v (Fin 0) \<and> fge q (fmul x v)) = (flt (Fin 0) v \<and> fge q (fmul x v))" for v q
      by (cases v; cases x) auto
    ultimately show ?thesis using x(2) bv 1
      by (cases "feature_value fr oid i") (auto simp: quantity_reaches_def metric_value_def metric_of_def METRIC_def)
  next
    case 2
    then show ?thesis using th met c(1,2) ok(2)
      by (auto simp: trade_threshold_def phase_met_def bindR_Inr quantity_reaches_def metric_value_def metric_of_def METRIC_def)
  next
    case 3
    then show ?thesis using th met c(1,2) ok(2)
      by (auto simp: trade_threshold_def phase_met_def mfe_r_met_def bindR_Inr quantity_reaches_def metric_value_def Let_def
          metric_of_def METRIC_def split: option.splits if_splits)
  next
    case 4
    obtain k where k: "read_int (get params ''threshold'') ''bars_in_trade.threshold'' = Inr k"
      "mapR (\<lambda>_. py_float (JInt k)) [0 ..< length (frame_time_ms fr)] = Inr xs" "m = Bars_since_entry" "b = (k \<le> bars_in_trade s)"
      using th met c(1,2) 4 by (auto simp: trade_threshold_def phase_met_def bindR_Inr metric_of_def METRIC_def)
    have "xs ! i = f64_of_int k"
      using mapR_nth[OF k(2), of i] ok(2) by (auto split: if_splits)
    then show ?thesis using k(3,4) 4 f64_int_le[of "bars_in_trade s" k] ok(3)
      by (simp add: quantity_reaches_def metric_value_def counter_ok_def metric_of_def METRIC_def)
  qed
qed

text \<open>The ADX atom on a bar and the series of the market fold.\<close>

lemma column_value:
  assumes "i < length (frame_time_ms fr)" "frame_aligned fr"
  shows "feature_value fr (map_of cols k) i = column_series fr cols k ! i"
  using feature_value_series[OF assms(2,1)] by (simp add: column_series_def series_or_empty_def)

lemma adx_atom_value:
  assumes series: "adx_di_series params fr plan = Inr (longs, shorts)" and met: "adx_di_met s i fr plan params = Inr (b, d)"
    and ok: "frame_aligned fr" "i < length (frame_time_ms fr)"
  shows "(if ms_side s = ''long'' then longs else shorts) ! i = b"
proof -
  obtain period threshold where pt: "read_int (get params ''period'') ''adx_di_threshold.period'' = Inr period"
    "read_float (get params ''adx_threshold'') ''adx_di_threshold.adx_threshold'' True = Inr threshold"
    using series by (auto simp: adx_di_series_def bindR_Inr Let_def)
  define cols where "cols = adx_columns plan (text_of params ''timeframe'' []) period"
  define req where "req = truthy (get_or params ''require_di_alignment'' (JBool True))"
  let ?c = "column_series fr cols"
  have out: "longs = map (\<lambda>(a, p, m). adx_value ''long'' threshold req a p m) (zip (?c ''adx'') (zip (?c ''di_plus'') (?c ''di_minus'')))"
      "shorts = map (\<lambda>(a, p, m). adx_value ''short'' threshold req a p m) (zip (?c ''adx'') (zip (?c ''di_plus'') (?c ''di_minus'')))"
    using series pt by (auto simp: adx_di_series_def Let_def raise_if_Inr cols_def text_of_def req_def)
  have len: "length (?c k) = length (frame_time_ms fr)" for k by (simp add: column_series_def series_length[OF ok(1)])
  note v = column_value[OF ok(2,1), of cols]
  show ?thesis using met pt ok(2) len
    by (auto simp: adx_di_met_def Let_def cols_def [symmetric] req_def out adx_value_def v split: option.splits json.splits)
qed

end
