(* ===== verification/HistoricalComposite.thy ===== *)
theory HistoricalComposite
  imports HistoricalFacts CompositeProperties
begin

text \<open>
  Composite phase conditions in the historical projection: the folds of the two sides have the
  same shape, the series written for their children keep what they say, and a projected path
  holds for a consumer exactly when the path is met in the replay of the trade.
\<close>

section \<open>The two sides have the same shape\<close>

lemma fold_children_sides:
  assumes "fold_children eval parse fr plan sd cs = Inr (ms, chs)" "fold_children eval parse fr plan sd' cs = Inr (ms', chs')"
  shows "map fst ms = map fst ms' \<and> chs = chs'"
  using assms
proof (induction cs arbitrary: ms chs ms' chs')
  case (Cons c cs)
  from Cons.prems(1) show ?case
  proof (rule fold_children_ConsE)
    fix ms1 chs1 assume 1: "fold_children eval parse fr plan sd cs = Inr (ms1, chs1)"
      and e1: "(\<exists>ch. child_change parse c = Inr (Some ch) \<and> ms = ms1 \<and> chs = (child_id c, ch) # chs1) \<or>
         child_change parse c = Inr None \<and>
           ((\<exists>m. is_market_child c = Inr True \<and> market_mask eval fr plan sd c = Inr m \<and>
               ms = (child_id c, m) # ms1 \<and> chs = chs1) \<or>
            is_market_child c = Inr False \<and> ms = ms1 \<and> chs = chs1)"
    from Cons.prems(2) show ?thesis
    proof (rule fold_children_ConsE)
      fix ms2 chs2 assume 2: "fold_children eval parse fr plan sd' cs = Inr (ms2, chs2)"
        and e2: "(\<exists>ch. child_change parse c = Inr (Some ch) \<and> ms' = ms2 \<and> chs' = (child_id c, ch) # chs2) \<or>
           child_change parse c = Inr None \<and>
             ((\<exists>m. is_market_child c = Inr True \<and> market_mask eval fr plan sd' c = Inr m \<and>
                 ms' = (child_id c, m) # ms2 \<and> chs' = chs2) \<or>
              is_market_child c = Inr False \<and> ms' = ms2 \<and> chs' = chs2)"
      from Cons.IH[OF 1 2] e1 e2 show ?thesis by auto
    qed
  qed
qed simp

lemma map_of_None_keys: "map fst ms = map fst ms' \<Longrightarrow> map_of ms k = None \<longleftrightarrow> map_of ms' k = None"
  by (simp only: map_of_eq_None_iff) (metis list.set_map)

definition same_shape :: "folded_path \<Rightarrow> folded_path \<Rightarrow> bool" where
  "same_shape p q \<longleftrightarrow> fp_path_id q = fp_path_id p \<and> fp_trade_require q = fp_trade_require p \<and>
     fp_at_least_k q = fp_at_least_k p \<and> fp_at_least_terms q = fp_at_least_terms p \<and>
     (fp_market q = None \<longleftrightarrow> fp_market p = None)"

lemma fold_require_None:
  assumes "foldR (\<lambda>acc ref. case map_of masks ref of None \<Rightarrow> Inr acc | Some m \<Rightarrow> and_opt acc m) acc refs = Inr out"
  shows "out = None \<longleftrightarrow> acc = None \<and> (\<forall>r\<in>set refs. map_of masks r = None)"
  using assms
proof (induction refs arbitrary: acc)
  case (Cons r refs)
  show ?case
  proof (cases "map_of masks r")
    case (Some m)
    then obtain acc' where "and_opt acc m = Inr acc'"
      "foldR (\<lambda>acc ref. case map_of masks ref of None \<Rightarrow> Inr acc | Some m \<Rightarrow> and_opt acc m) acc' refs = Inr out"
      using Cons.prems by (auto simp: bindR_Inr)
    moreover from this(1) have "acc' \<noteq> None" by (auto simp: and_opt_def bindR_Inr split: option.splits)
    ultimately show ?thesis using Cons.IH Some by auto
  qed (use Cons in simp)
qed simp

lemma fold_path_shape:
  assumes "fold_path ms n p = Inr fp" "fold_path ms' n p = Inr fp'" "map fst ms = map fst ms'"
  shows "same_shape fp fp'"
proof -
  note k = map_of_None_keys[OF assms(3)]
  obtain f f' where f: "fold_require ms (require p) = Inr f" "fold_require ms' (require p) = Inr f'"
    using assms(1,2) by (auto simp: fold_path_def bindR_Inr)
  have none: "f = None \<longleftrightarrow> f' = None"
    using fold_require_None[OF f(1)[unfolded fold_require_def]] fold_require_None[OF f(2)[unfolded fold_require_def]] k by simp
  have all: "list_all (\<lambda>r. map_of ms r \<noteq> None) xs = list_all (\<lambda>r. map_of ms' r \<noteq> None) xs" for xs
    using k by (simp add: list_all_iff)
  show ?thesis using assms(1,2) f none k all[of "at_least_of p"]
    by (cases "at_least_k p")
      (auto simp: fold_path_def same_shape_def bindR_Inr and_opt_def split: if_splits option.splits)
qed

lemma mapR_all2: "mapR f xs = Inr ys \<Longrightarrow> list_all2 (\<lambda>x y. f x = Inr y) xs ys"
  by (induction xs arbitrary: ys) (auto simp: bindR_Inr)

lemma folds_same_shape:
  assumes "fold_phase_paths eval parse spec fr plan sd = Inr f" "fold_phase_paths eval parse spec fr plan sd' = Inr f'"
  shows "list_all2 same_shape (fc_paths f) (fc_paths f')" "map fst (fc_market f) = map fst (fc_market f')"
    "fc_changes f = fc_changes f'" "fc_spec f = spec" "map fp_path_id (fc_paths f) = map path_id (cond_paths spec)"
proof -
  obtain ms chs where 1: "fold_children eval parse fr plan sd (cond_children spec) = Inr (ms, chs)"
    "mapR (fold_path ms (length (frame_time_ms fr))) (cond_paths spec) = Inr (fc_paths f)" "fc_market f = ms" "fc_changes f = chs"
    "fc_spec f = spec"
    using assms(1) by (auto simp: fold_phase_paths_def bindR_Inr)
  obtain ms' chs' where 2: "fold_children eval parse fr plan sd' (cond_children spec) = Inr (ms', chs')"
    "mapR (fold_path ms' (length (frame_time_ms fr))) (cond_paths spec) = Inr (fc_paths f')" "fc_market f' = ms'" "fc_changes f' = chs'"
    using assms(2) by (auto simp: fold_phase_paths_def bindR_Inr)
  have keys: "map fst ms = map fst ms'" "chs = chs'" using fold_children_sides[OF 1(1) 2(1)] by auto
  show "map fst (fc_market f) = map fst (fc_market f')" "fc_changes f = fc_changes f'" "fc_spec f = spec"
    using keys 1 2 by simp_all
  show "list_all2 same_shape (fc_paths f) (fc_paths f')"
    unfolding list_all2_conv_all_nth
  proof (intro conjI allI impI)
    show "length (fc_paths f) = length (fc_paths f')" using mapR_length[OF 1(2)] mapR_length[OF 2(2)] by simp
    fix i assume "i < length (fc_paths f)"
    then have i: "i < length (cond_paths spec)" using mapR_length[OF 1(2)] by simp
    show "same_shape (fc_paths f ! i) (fc_paths f' ! i)"
      by (rule fold_path_shape[OF mapR_nth[OF 1(2) i] mapR_nth[OF 2(2) i] keys(1)])
  qed
  have "fp_path_id fp = path_id p" if "fold_path ms (length (frame_time_ms fr)) p = Inr fp" for p fp
    using that by (auto simp: fold_path_def bindR_Inr)
  then have "fp_path_id (fc_paths f ! i) = path_id (cond_paths spec ! i)" if "i < length (cond_paths spec)" for i
    using mapR_nth[OF 1(2) that] by simp
  then show "map fp_path_id (fc_paths f) = map path_id (cond_paths spec)"
    using mapR_length[OF 1(2)] by (simp add: list_eq_iff_nth_eq)
qed

section \<open>Entries that stay\<close>

definition own_grows :: "string \<Rightarrow> series_store \<Rightarrow> series_store \<Rightarrow> bool" where
  "own_grows rid s t \<longleftrightarrow> (\<forall>k. prefix (own ''phase'' rid) k \<longrightarrow>
     (\<forall>v. map_of (st_conditions s) k = Some v \<longrightarrow> map_of (st_conditions t) k = Some v) \<and>
     (\<forall>v. map_of (st_distances s) k = Some v \<longrightarrow> map_of (st_distances t) k = Some v))"

lemma own_grows_refl [simp]: "own_grows rid s s" by (simp add: own_grows_def)
lemma own_grows_trans: "own_grows rid s t \<Longrightarrow> own_grows rid t u \<Longrightarrow> own_grows rid s u" by (simp add: own_grows_def)
lemma agree_own_grows: "agree (prefix (own ''phase'' rid)) s t \<Longrightarrow> own_grows rid s t"
  by (simp add: agree_def own_grows_def)

lemma mapS_collect:
  assumes "mapS f s xs = Inr (t, ys)" "I s"
    and "\<And>s x t y. I s \<Longrightarrow> x \<in> set xs \<Longrightarrow> f s x = Inr (t, y) \<Longrightarrow> I t \<and> own_grows rid s t \<and> T t x y"
    and "\<And>s t x y. own_grows rid s t \<Longrightarrow> T s x y \<Longrightarrow> T t x y"
  shows "I t \<and> own_grows rid s t \<and> list_all2 (T t) xs ys"
  using assms(1-3)
proof (induction xs arbitrary: s ys)
  case Nil
  then show ?case by simp
next
  case (Cons x xs)
  from Cons.prems(1) obtain u y zs where st: "f s x = Inr (u, y)" "mapS f u xs = Inr (t, zs)" "ys = y # zs"
    by (auto simp: bindR_Inr)
  have 1: "I u \<and> own_grows rid s u \<and> T u x y" by (rule Cons.prems(3)[OF Cons.prems(2) _ st(1)]) simp
  have 2: "I t \<and> own_grows rid u t \<and> list_all2 (T t) xs zs"
  proof (rule Cons.IH[OF st(2)])
    show "I u" using 1 by simp
    fix s x t y assume "I s" "x \<in> set xs" "f s x = Inr (t, y)"
    then show "I t \<and> own_grows rid s t \<and> T t x y" by (intro Cons.prems(3)) simp_all
  qed
  have "T t x y" using 1 2 assms(4) by blast
  with 1 2 show ?case using st(3) own_grows_trans by auto
qed

text \<open>What the entries under the keys of children say.\<close>

definition child_entries ::
  "string \<Rightarrow> composite_phase_condition \<Rightarrow> folded_composite \<Rightarrow> folded_composite \<Rightarrow> feature_frame \<Rightarrow> ema_plan \<Rightarrow> series_store \<Rightarrow> bool" where
  "child_entries rid spec lf sf fr plan st \<longleftrightarrow>
     (\<forall>cid v. map_of (st_conditions st) (child_key rid cid ''condition'') = Some v \<longrightarrow>
        map_of (fc_market lf) cid = Some (fst v) \<and> map_of (fc_market sf) cid = Some (snd v)) \<and>
     (\<forall>cid xs. map_of (st_distances st) (child_key rid cid ''series'') = Some xs \<longrightarrow>
        (\<exists>ch. map_of (fc_changes lf) cid = Some ch \<and> xs = change_series (series_of fr (output_id (cse_feature ch))))) \<and>
     (\<forall>cid xs. map_of (st_distances st) (child_key rid cid ''distance'') = Some xs \<longrightarrow>
        (\<exists>c atom params m. find_child (cond_children spec) cid = Inr c \<and> child_condition c = Some atom \<and>
           get_or atom ''params'' (JObj []) = JObj params \<and>
           trade_threshold (text_of atom ''component_id'' []) params fr plan (length (frame_time_ms fr)) = Inr (xs, m)))"

lemma key_injects [simp]:
  "child_key rid a w = child_key rid b w \<longleftrightarrow> a = b" "path_key rid p = path_key rid q \<longleftrightarrow> p = q"
  "child_key rid a w \<noteq> path_key rid p" "path_key rid p \<noteq> child_key rid a w"
  by (simp_all add: child_key_def path_key_def)

lemma key_kinds [simp]: "child_key rid a ''series'' \<noteq> child_key rid b ''distance''" "child_key rid b ''distance'' \<noteq> child_key rid a ''series''"
proof -
  have s: "last (child_key rid a ''series'') = CHR ''s''" for a by (simp add: child_key_def)
  have e: "last (child_key rid b ''distance'') = CHR ''e''" for b by (simp add: child_key_def)
  show "child_key rid a ''series'' \<noteq> child_key rid b ''distance''"
  proof
    assume "child_key rid a ''series'' = child_key rid b ''distance''"
    then have "CHR ''s'' = CHR ''e''" using s[of a] e[of b] by simp
    then show False by simp
  qed
  then show "child_key rid b ''distance'' \<noteq> child_key rid a ''series''" by (rule not_sym)
qed

section \<open>One term\<close>

definition side_fold :: "string \<Rightarrow> folded_composite \<Rightarrow> folded_composite \<Rightarrow> folded_composite" where
  "side_fold sd lf sf = (if sd = ''long'' then lf else sf)"

text \<open>The value of a child in the replay of a trade on a bar.\<close>

definition trade_value :: "folded_composite \<Rightarrow> managed_state \<Rightarrow> nat \<Rightarrow> feature_frame \<Rightarrow> ema_plan \<Rightarrow> string \<Rightarrow> bool res" where
  "trade_value f s i fr plan =
     child_value f i (\<lambda>c. bindR (phase_met c s i fr plan) (\<lambda>r. Inr (fst r)))
       (\<lambda>ch. change_met ch (feature_value fr (Some (output_id (cse_feature ch))) i)
          (feature_value fr (Some (output_id (cse_feature ch))) (entry_index s)))"

definition on_frame :: "feature_frame \<Rightarrow> managed_state \<Rightarrow> nat \<Rightarrow> bool" where
  "on_frame fr s i \<longleftrightarrow> frame_aligned fr \<and> i < length (frame_time_ms fr) \<and> entry_index s < length (frame_time_ms fr) \<and> counter_ok s"

definition twin_folds :: "composite_phase_condition \<Rightarrow> folded_composite \<Rightarrow> folded_composite \<Rightarrow> bool" where
  "twin_folds spec lf sf \<longleftrightarrow> map fst (fc_market lf) = map fst (fc_market sf) \<and> fc_changes lf = fc_changes sf \<and>
     fc_spec lf = spec \<and> fc_spec sf = spec"

text \<open>What a projected term must mean for every store that keeps the entries of the rule.\<close>

definition term_reads ::
  "string \<Rightarrow> folded_composite \<Rightarrow> managed_state \<Rightarrow> nat \<Rightarrow> feature_frame \<Rightarrow> ema_plan \<Rightarrow> series_store \<Rightarrow> string \<Rightarrow> transition_term \<Rightarrow> bool" where
  "term_reads rid f s i fr plan st ref t \<longleftrightarrow>
     (\<forall>w b. own_grows rid st w \<longrightarrow> trade_value f s i fr plan ref = Inr b \<longrightarrow> term_holds w s i t = b)"

lemma term_reads_grows: "own_grows rid st u \<Longrightarrow> term_reads rid f s i fr plan st ref t \<Longrightarrow> term_reads rid f s i fr plan u ref t"
  by (auto simp: term_reads_def intro: own_grows_trans)

lemma twin_lookup:
  assumes "twin_folds spec lf sf"
  shows "map_of (fc_market (side_fold sd lf sf)) k = None \<longleftrightarrow> map_of (fc_market lf) k = None"
    "fc_changes (side_fold sd lf sf) = fc_changes lf" "fc_spec (side_fold sd lf sf) = spec"
  using assms map_of_None_keys[of "fc_market lf" "fc_market sf" k] by (auto simp: twin_folds_def side_fold_def)

lemma own_grows_condition: "own_grows rid st w \<Longrightarrow> map_of (st_conditions st) (child_key rid c x) = Some v \<Longrightarrow>
    map_of (st_conditions w) (child_key rid c x) = Some v"
  unfolding own_grows_def using own_prefixes(2) by blast

lemma own_grows_distance: "own_grows rid st w \<Longrightarrow> map_of (st_distances st) (child_key rid c x) = Some v \<Longrightarrow>
    map_of (st_distances w) (child_key rid c x) = Some v"
  unfolding own_grows_def using own_prefixes(2) by blast

lemma own_grows_put:
  "map_of (st_conditions st) k = None \<Longrightarrow> own_grows rid st (put_condition k v st)"
  "map_of (st_distances st) k = None \<Longrightarrow> own_grows rid st (put_distance k w st)"
  by (auto simp: own_grows_def)

lemma market_term_reads:
  assumes "market_term rid lf sf st ref = Inr (st', k)" "child_entries rid spec lf sf fr plan st" "twin_folds spec lf sf"
    "map_of (fc_market lf) ref \<noteq> None"
  shows "child_entries rid spec lf sf fr plan st' \<and> own_grows rid st st' \<and>
    term_reads rid (side_fold (ms_side s) lf sf) s i fr plan st' ref (Market_term k)"
proof -
  let ?k = "child_key rid ref ''condition''"
  have k: "k = ?k" using assms(1) by (auto simp: market_term_def Let_def bindR_Inr split: if_splits)
  obtain l where l: "map_of (fc_market lf) ref = Some l" using assms(4) by auto
  obtain sh where sh: "map_of (fc_market sf) ref = Some sh"
    using map_of_None_keys[of "fc_market lf" "fc_market sf" ref] assms(3) l by (auto simp: twin_folds_def)
  have st': "child_entries rid spec lf sf fr plan st' \<and> own_grows rid st st' \<and> map_of (st_conditions st') ?k = Some (l, sh)"
  proof (cases "map_of (st_conditions st) ?k")
    case None
    then have "st' = put_condition ?k (l, sh) st" using assms(1) l sh by (auto simp: market_term_def Let_def lookup_def)
    then show ?thesis using None assms(2) l sh by (auto simp: child_entries_def own_grows_put)
  next
    case (Some v)
    then have "st' = st" using assms(1) by (simp add: market_term_def Let_def)
    moreover have "map_of (fc_market lf) ref = Some (fst v) \<and> map_of (fc_market sf) ref = Some (snd v)"
      using assms(2) Some unfolding child_entries_def by blast
    then have "v = (l, sh)" using l sh by (cases v) simp
    ultimately show ?thesis using assms(2) Some by simp
  qed
  have "term_holds w s i (Market_term k) = b"
    if "own_grows rid st' w" "trade_value (side_fold (ms_side s) lf sf) s i fr plan ref = Inr b" for w b
    using own_grows_condition[OF that(1)] st' that(2) k l sh
    by (auto simp: term_holds_def condition_holds_def trade_value_def child_value_def side_fold_def item_Inr split: if_splits)
  then show ?thesis using st' by (simp add: term_reads_def)
qed

lemma change_series_at:
  "i < length vs \<Longrightarrow> change_series vs ! i = (case vs ! i of None \<Rightarrow> NaN | Some x \<Rightarrow> if isfinite x then x else NaN)"
  by (simp add: change_series_def)

lemma change_term_reads:
  assumes "entry_change_term rid lf fr st ref = Inr (st', e)" "child_entries rid spec lf sf fr plan st" "twin_folds spec lf sf"
    "map_of (fc_market lf) ref = None" "on_frame fr s i"
  shows "child_entries rid spec lf sf fr plan st' \<and> own_grows rid st st' \<and>
    term_reads rid (side_fold (ms_side s) lf sf) s i fr plan st' ref (Change_term e)"
proof -
  let ?k = "child_key rid ref ''series''"
  obtain ch where ch: "map_of (fc_changes lf) ref = Some ch" "e = \<lparr>ec_series_id = ?k, ec_op = cse_op ch, ec_value = cse_value ch\<rparr>"
    using assms(1) by (auto simp: entry_change_term_def Let_def bindR_Inr lookup_def split: option.splits)
  define vs where "vs = series_of fr (output_id (cse_feature ch))"
  have st': "child_entries rid spec lf sf fr plan st' \<and> own_grows rid st st' \<and> map_of (st_distances st') ?k = Some (change_series vs)"
  proof (cases "map_of (st_distances st) ?k")
    case None
    then have "st' = put_distance ?k (change_series vs) st"
      using assms(1) ch by (simp add: entry_change_term_def Let_def lookup_def vs_def)
    then show ?thesis using None assms(2) ch by (auto simp: child_entries_def own_grows_put vs_def)
  next
    case (Some v)
    then have "st' = st" using assms(1) ch by (simp add: entry_change_term_def Let_def lookup_def)
    moreover have "\<exists>c. map_of (fc_changes lf) ref = Some c \<and> v = change_series (series_of fr (output_id (cse_feature c)))"
      using assms(2) Some unfolding child_entries_def by blast
    then have "v = change_series vs" using ch(1) by (simp add: vs_def)
    ultimately show ?thesis using assms(2) Some by simp
  qed
  have len: "i < length vs" "entry_index s < length vs" "frame_aligned fr"
    using assms(5) by (auto simp: on_frame_def vs_def series_length)
  have fv: "feature_value fr (Some (output_id (cse_feature ch))) j = vs ! j" if "j < length vs" for j
    using that by (simp add: feature_value_def vs_def)
  have "term_holds w s i (Change_term e) = b"
    if w: "own_grows rid st' w" "trade_value (side_fold (ms_side s) lf sf) s i fr plan ref = Inr b" for w b
  proof -
    have d: "distance_at w ?k j = change_series vs ! j" for j
      using own_grows_distance[OF w(1)] st' by (simp add: distance_at_def)
    have met: "change_met ch (vs ! i) (vs ! entry_index s) = Inr b"
      using w(2) ch(1) assms(4) twin_lookup(1)[OF assms(3), of "ms_side s" ref] twin_lookup(2,3)[OF assms(3), of "ms_side s"] fv len
      by (simp add: trade_value_def child_value_def)
    then show ?thesis using ch(2) len
      by (auto simp: term_holds_def change_holds_def Let_def d change_series_at change_met_def split: option.splits if_splits)
  qed
  then show ?thesis using st' by (simp add: term_reads_def)
qed

lemma trade_term_reads:
  assumes "trade_term rid spec fr plan (length (frame_time_ms fr)) st ref = Inr (st', th)"
    "child_entries rid spec lf sf fr plan st" "twin_folds spec lf sf"
    "map_of (fc_market lf) ref = None" "map_of (fc_changes lf) ref = None" "on_frame fr s i"
  shows "child_entries rid spec lf sf fr plan st' \<and> own_grows rid st st' \<and>
    term_reads rid (side_fold (ms_side s) lf sf) s i fr plan st' ref (Threshold_term (th_distance_id th) (th_metric th))"
proof -
  let ?k = "child_key rid ref ''distance''"
  obtain c atom m where c: "find_child (cond_children spec) ref = Inr c" "child_condition c = Some atom"
    "metric_of (text_of atom ''component_id'' []) = Inr m" "th = \<lparr>th_distance_id = ?k, th_metric = m\<rparr>"
    using assms(1) by (auto simp: trade_term_def Let_def bindR_Inr split: option.splits)
  obtain xs params m' where st': "child_entries rid spec lf sf fr plan st'" "own_grows rid st st'" "map_of (st_distances st') ?k = Some xs"
    and p: "get_or atom ''params'' (JObj []) = JObj params"
      "trade_threshold (text_of atom ''component_id'' []) params fr plan (length (frame_time_ms fr)) = Inr (xs, m')"
  proof (cases "map_of (st_distances st) ?k")
    case None
    then obtain params xs m' where p: "get_or atom ''params'' (JObj []) = JObj params"
      "trade_threshold (text_of atom ''component_id'' []) params fr plan (length (frame_time_ms fr)) = Inr (xs, m')"
      "st' = put_distance ?k xs st"
      using assms(1) c by (auto simp: trade_term_def Let_def bindR_Inr require_mapping_Inr)
    then show thesis using None assms(2) c by (intro that) (auto simp: child_entries_def own_grows_put)
  next
    case (Some xs)
    then have "st' = st" using assms(1) c by (simp add: trade_term_def Let_def)
    moreover have "\<exists>c atom params m. find_child (cond_children spec) ref = Inr c \<and> child_condition c = Some atom \<and>
        get_or atom ''params'' (JObj []) = JObj params \<and>
        trade_threshold (text_of atom ''component_id'' []) params fr plan (length (frame_time_ms fr)) = Inr (xs, m)"
      using assms(2) Some unfolding child_entries_def by blast
    ultimately show thesis using that[of xs] assms(2) Some c by auto
  qed
  have in_metric: "map_of METRIC (text_of atom ''component_id'' []) \<noteq> None"
    using c(3) by (auto simp: metric_of_def split: option.splits)
  have "term_holds w s i (Threshold_term (th_distance_id th) (th_metric th)) = b"
    if w: "own_grows rid st' w" "trade_value (side_fold (ms_side s) lf sf) s i fr plan ref = Inr b" for w b
  proof -
    have "distance_at w ?k i = xs ! i" using own_grows_distance[OF w(1) st'(3)] by (simp add: distance_at_def)
    moreover obtain d where "phase_met atom s i fr plan = Inr (b, d)"
      using w(2) c(1,2) assms(4,5) twin_lookup(1)[OF assms(3), of "ms_side s" ref] twin_lookup(2,3)[OF assms(3), of "ms_side s"]
      by (auto simp: trade_value_def child_value_def bindR_Inr)
    from trade_atom_value[OF p(2) this refl p(1) in_metric] assms(6)
    have "quantity_reaches s m' (xs ! i) = b" "m' = m" using c(3) by (auto simp: on_frame_def)
    ultimately show ?thesis using c(4)
      by (auto simp: term_holds_def threshold_holds_def quantity_reaches_def split: option.splits)
  qed
  then show ?thesis using st' by (simp add: term_reads_def)
qed

lemma at_least_term_reads:
  assumes "at_least_term rid spec lf sf fr plan (length (frame_time_ms fr)) st ref = Inr (st', t)"
    "child_entries rid spec lf sf fr plan st" "twin_folds spec lf sf" "on_frame fr s i"
  shows "child_entries rid spec lf sf fr plan st' \<and> own_grows rid st st' \<and>
    term_reads rid (side_fold (ms_side s) lf sf) s i fr plan st' ref t"
proof (cases "map_of (fc_market lf) ref")
  case None
  show ?thesis
  proof (cases "map_of (fc_changes lf) ref")
    case no: None
    then obtain th where "trade_term rid spec fr plan (length (frame_time_ms fr)) st ref = Inr (st', th)"
      "t = Threshold_term (th_distance_id th) (th_metric th)"
      using assms(1) None by (auto simp: at_least_term_def bindR_Inr)
    then show ?thesis using trade_term_reads[OF _ assms(2,3) None no assms(4)] by simp
  next
    case (Some ch)
    then obtain e where "entry_change_term rid lf fr st ref = Inr (st', e)" "t = Change_term e"
      using assms(1) None by (auto simp: at_least_term_def bindR_Inr)
    then show ?thesis using change_term_reads[OF _ assms(2,3) None assms(4)] by simp
  qed
next
  case (Some m)
  then obtain k where "market_term rid lf sf st ref = Inr (st', k)" "t = Market_term k"
    using assms(1) by (auto simp: at_least_term_def bindR_Inr)
  then show ?thesis using market_term_reads[OF _ assms(2,3)] Some by simp
qed

section \<open>One path\<close>

lemma allR_split:
  assumes "allR val rs = Inr b" "list_all2 (\<lambda>r t. \<forall>v. val r = Inr v \<longrightarrow> g t = v) (filter (\<lambda>r. \<not> P r) rs) ts"
    "list_all2 (\<lambda>r t. \<forall>v. val r = Inr v \<longrightarrow> h t = v) (filter P rs) us"
  shows "(list_all g ts \<and> list_all h us) = b"
  using assms
proof (induction rs arbitrary: ts us)
  case (Cons r rs)
  obtain v where v: "val r = Inr v" using Cons.prems(1) by (auto simp: bindR_Inr)
  show ?case
  proof (cases v)
    case True
    then have rest: "allR val rs = Inr b" using Cons.prems(1) v by simp
    show ?thesis
    proof (cases "P r")
      case p: True
      then obtain u us' where u: "us = u # us'" "h u" "list_all2 (\<lambda>r t. \<forall>v. val r = Inr v \<longrightarrow> h t = v) (filter P rs) us'"
        using Cons.prems(3) v True by (auto simp: list_all2_Cons1)
      from Cons.IH[OF rest _ u(3), of ts] Cons.prems(2) p u(1,2) show ?thesis by simp
    next
      case p: False
      then obtain t ts' where t: "ts = t # ts'" "g t" "list_all2 (\<lambda>r t. \<forall>v. val r = Inr v \<longrightarrow> g t = v) (filter (\<lambda>r. \<not> P r) rs) ts'"
        using Cons.prems(2) v True by (auto simp: list_all2_Cons1)
      from Cons.IH[OF rest t(3), of us] Cons.prems(3) p t(1,2) show ?thesis by simp
    qed
  next
    case False
    then have "b = False" using Cons.prems(1) v by simp
    then show ?thesis using Cons.prems(2,3) v False by (cases "P r") (auto simp: list_all2_Cons1)
  qed
qed simp

lemma countR_terms:
  assumes "countR val rs = Inr n" "list_all2 (\<lambda>r t. \<forall>v. val r = Inr v \<longrightarrow> g t = v) rs ts"
  shows "int (length (filter g ts)) = n"
proof -
  obtain bs where bs: "mapR val rs = Inr bs" "n = int (length (filter id bs))" using assms(1) by (auto simp: countR_def bindR_Inr)
  from bs(1) assms(2) have "length (filter g ts) = length (filter id bs)"
    by (induction rs arbitrary: bs ts) (auto simp: bindR_Inr list_all2_Cons1)
  then show ?thesis using bs(2) by simp
qed

lemma trade_require_no_market:
  assumes "fold_phase_paths eval parse spec fr plan sd = Inr f" "p \<in> set (fc_paths f)" "r \<in> set (fp_trade_require p)"
  shows "map_of (fc_market f) r = None"
proof -
  obtain cp where "fold_path (fc_market f) (length (frame_time_ms fr)) cp = Inr p"
    using assms(1,2) by (auto simp: fold_phase_paths_def bindR_Inr dest: mapR_set)
  then show ?thesis using assms(3) by (auto simp: fold_path_def bindR_Inr)
qed

lemma composite_path_reads:
  assumes step: "composite_path rid spec lf sf fr plan (length (frame_time_ms fr)) st (lp, sp) = Inr (st', tp)"
    and inv: "child_entries rid spec lf sf fr plan st" "map_of (st_conditions st) (path_key rid (fp_path_id lp)) = None"
    and tw: "twin_folds spec lf sf" "on_frame fr s i" and sh: "same_shape lp sp"
    and nm: "\<forall>r\<in>set (fp_trade_require lp). map_of (fc_market lf) r = None"
  shows "child_entries rid spec lf sf fr plan st' \<and> own_grows rid st st' \<and>
    (\<forall>w b. own_grows rid st' w \<longrightarrow>
       path_met (trade_value (side_fold (ms_side s) lf sf) s i fr plan) i (if ms_side s = ''long'' then lp else sp) = Inr b \<longrightarrow>
       transition_path_holds w s i tp = b)"
proof -
  let ?n = "length (frame_time_ms fr)" and ?f = "side_fold (ms_side s) lf sf" and ?P = "\<lambda>r. map_of (fc_changes lf) r \<noteq> None"
  let ?val = "trade_value ?f s i fr plan"
  define pp where "pp = (if ms_side s = ''long'' then lp else sp)"
  let ?E = "child_entries rid spec lf sf fr plan"
  obtain st1 st2 st3 cnd al ths chs where s: "path_condition rid st lp sp = Inr (st1, cnd)"
    "path_at_least rid spec lf sf fr plan ?n st1 lp = Inr (st2, al)"
    "mapS (trade_term rid spec fr plan ?n) st2 (filter (\<lambda>r. \<not> ?P r) (fp_trade_require lp)) = Inr (st3, ths)"
    "mapS (entry_change_term rid lf fr) st3 (filter ?P (fp_trade_require lp)) = Inr (st', chs)"
    and tp: "tp = \<lparr>tp_path_id = fp_path_id lp, tp_condition_id = cnd, tp_thresholds = ths, tp_at_least = al, tp_entry_changes = chs\<rparr>"
    using step by (auto simp: composite_path_def bindR_Inr Let_def)
  have c: "?E st1 \<and> own_grows rid st st1 \<and>
      (\<forall>w. own_grows rid st1 w \<longrightarrow> (case fp_market pp of None \<Rightarrow> cnd = None
         | Some m \<Rightarrow> \<exists>k. cnd = Some k \<and> condition_holds w (ms_side s) k i = m ! i))"
  proof (cases "fp_market lp")
    case None
    then show ?thesis using s(1) inv(1) sh by (auto simp: path_condition_def same_shape_def pp_def)
  next
    case (Some l)
    then obtain sm where sm: "fp_market sp = Some sm" using sh by (auto simp: same_shape_def)
    let ?k = "path_key rid (fp_path_id lp)"
    have st1: "st1 = put_condition ?k (l, sm) st" "cnd = Some ?k" using s(1) Some sm by (auto simp: path_condition_def Let_def)
    have "condition_holds w (ms_side s) ?k i = (if ms_side s = ''long'' then l else sm) ! i" if "own_grows rid st1 w" for w
    proof -
      have "map_of (st_conditions w) ?k = Some (l, sm)"
        using that st1(1) own_prefixes(3)[of rid "fp_path_id lp"] unfolding own_grows_def by simp
      then show ?thesis by (simp add: condition_holds_def)
    qed
    then show ?thesis using st1 Some sm inv by (auto simp: child_entries_def own_grows_put pp_def)
  qed
  have a: "?E st2 \<and> own_grows rid st1 st2 \<and> (case fp_at_least_k lp of None \<Rightarrow> al = None
      | Some k \<Rightarrow> \<exists>ts. al = Some \<lparr>ta_k = k, ta_terms = ts\<rparr> \<and> list_all2 (term_reads rid ?f s i fr plan st2) (fp_at_least_terms lp) ts)"
  proof (cases "fp_at_least_k lp")
    case None
    then show ?thesis using s(2) c by (simp add: path_at_least_def)
  next
    case (Some k)
    then obtain ts where ts: "mapS (at_least_term rid spec lf sf fr plan ?n) st1 (fp_at_least_terms lp) = Inr (st2, ts)"
      "al = Some \<lparr>ta_k = k, ta_terms = ts\<rparr>"
      using s(2) by (auto simp: path_at_least_def bindR_Inr)
    have "?E st2 \<and> own_grows rid st1 st2 \<and> list_all2 (term_reads rid ?f s i fr plan st2) (fp_at_least_terms lp) ts"
    proof (rule mapS_collect[OF ts(1)])
      show "?E st1" using c by simp
      fix u r u' t assume "?E u" "at_least_term rid spec lf sf fr plan ?n u r = Inr (u', t)"
      from at_least_term_reads[OF this(2,1) tw]
      show "?E u' \<and> own_grows rid u u' \<and> term_reads rid ?f s i fr plan u' r t" .
    qed (rule term_reads_grows)
    then show ?thesis using ts(2) Some by auto
  qed
  have t: "?E st3 \<and> own_grows rid st2 st3 \<and>
      list_all2 (\<lambda>r th. term_reads rid ?f s i fr plan st3 r (Threshold_term (th_distance_id th) (th_metric th)))
        (filter (\<lambda>r. \<not> ?P r) (fp_trade_require lp)) ths"
  proof (rule mapS_collect[OF s(3)])
    show "?E st2" using a by simp
    fix u r u' th assume u: "?E u" "r \<in> set (filter (\<lambda>r. \<not> ?P r) (fp_trade_require lp))" "trade_term rid spec fr plan ?n u r = Inr (u', th)"
    then have "map_of (fc_market lf) r = None" "map_of (fc_changes lf) r = None" using nm by auto
    from trade_term_reads[OF u(3,1) tw(1) this tw(2)]
    show "?E u' \<and> own_grows rid u u' \<and>
      term_reads rid ?f s i fr plan u' r (Threshold_term (th_distance_id th) (th_metric th))" .
  qed (rule term_reads_grows)
  have e: "?E st' \<and> own_grows rid st3 st' \<and>
      list_all2 (\<lambda>r ec. term_reads rid ?f s i fr plan st' r (Change_term ec)) (filter ?P (fp_trade_require lp)) chs"
  proof (rule mapS_collect[OF s(4)])
    show "?E st3" using t by simp
    fix u r u' ec assume u: "?E u" "r \<in> set (filter ?P (fp_trade_require lp))" "entry_change_term rid lf fr u r = Inr (u', ec)"
    then have "map_of (fc_market lf) r = None" using nm by auto
    from change_term_reads[OF u(3,1) tw(1) this tw(2)]
    show "?E u' \<and> own_grows rid u u' \<and> term_reads rid ?f s i fr plan u' r (Change_term ec)" .
  qed (rule term_reads_grows)
  have g: "own_grows rid st st'" "own_grows rid st1 st'" "own_grows rid st2 st'" "own_grows rid st3 st'"
    using c a t e own_grows_trans by blast+
  have shape: "fp_trade_require pp = fp_trade_require lp" "fp_at_least_k pp = fp_at_least_k lp" "fp_at_least_terms pp = fp_at_least_terms lp"
    using sh by (auto simp: same_shape_def pp_def)
  have "transition_path_holds w s i tp = b" if w: "own_grows rid st' w" and met: "path_met ?val i pp = Inr b" for w b
  proof -
    have gw: "own_grows rid st1 w" "own_grows rid st2 w" "own_grows rid st3 w" using g w own_grows_trans by blast+
    define mk where "mk = (case cnd of None \<Rightarrow> True | Some k \<Rightarrow> condition_holds w (ms_side s) k i)"
    have mk: "(case fp_market pp of None \<Rightarrow> Inr True | Some m \<Rightarrow> item m i) = Inr v \<Longrightarrow> v = mk" for v
      using c gw(1) unfolding mk_def by (cases "fp_market pp") (auto simp: item_Inr)
    obtain v where v: "(case fp_market pp of None \<Rightarrow> Inr True | Some m \<Rightarrow> item m i) = Inr v"
      using met unfolding path_met_def by (auto simp: bindR_Inr simp del: split_paired_Ex)
    show ?thesis
    proof (cases v)
      case False
      then have "b = False" "\<not> mk" using met v mk by (auto simp: path_met_def)
      then show ?thesis by (simp add: transition_path_holds_def tp mk_def)
    next
      case True
      then have mk1: "mk" using v mk by simp
      obtain tr where tr: "allR ?val (fp_trade_require lp) = Inr tr"
        "(if \<not> tr then Inr False else case fp_at_least_k lp of None \<Rightarrow> Inr True
           | Some k \<Rightarrow> bindR (countR ?val (fp_at_least_terms lp)) (\<lambda>n. Inr (\<not> n < k))) = Inr b"
        using met[unfolded path_met_def shape] v True by (auto simp: bindR_Inr)
      have ths: "list_all2 (\<lambda>r th. \<forall>b. ?val r = Inr b \<longrightarrow> threshold_holds w s i (th_distance_id th) (th_metric th) = b)
          (filter (\<lambda>r. \<not> ?P r) (fp_trade_require lp)) ths"
        using t gw(3) by (auto simp: term_reads_def term_holds_def elim!: list_all2_mono)
      have chs: "list_all2 (\<lambda>r ec. \<forall>b. ?val r = Inr b \<longrightarrow> change_holds w (entry_index s) i ec = b) (filter ?P (fp_trade_require lp)) chs"
        using e w by (auto simp: term_reads_def term_holds_def elim!: list_all2_mono)
      note req = allR_split[OF tr(1) ths chs]
      have vote: "(case al of None \<Rightarrow> True | Some al \<Rightarrow> ta_k al \<le> int (length (filter (term_holds w s i) (ta_terms al)))) = b" if T: "tr"
      proof (cases "fp_at_least_k lp")
        case None
        then show ?thesis using tr(2) T a by simp
      next
        case (Some k)
        obtain n where n: "countR ?val (fp_at_least_terms lp) = Inr n" "b = (\<not> n < k)"
          using tr(2) T Some by (auto simp: bindR_Inr)
        obtain ts where ts: "al = Some \<lparr>ta_k = k, ta_terms = ts\<rparr>"
          "list_all2 (term_reads rid ?f s i fr plan st2) (fp_at_least_terms lp) ts"
          using a Some by auto
        have "list_all2 (\<lambda>r t. \<forall>v. ?val r = Inr v \<longrightarrow> term_holds w s i t = v) (fp_at_least_terms lp) ts"
          by (rule list_all2_mono[OF ts(2)]) (use gw(2) in \<open>simp add: term_reads_def\<close>)
        note ts = ts(1) this
        show ?thesis using countR_terms[OF n(1) ts(2)] n(2) ts(1) by auto
      qed
      show ?thesis
      proof (cases tr)
        case True
        then show ?thesis using req vote mk1 by (simp add: transition_path_holds_def tp mk_def)
      next
        case False
        then show ?thesis using req tr(2) by (auto simp: transition_path_holds_def tp)
      qed
    qed
  qed
  then show ?thesis using e g(1) unfolding pp_def by blast
qed

section \<open>All paths of a rule\<close>

definition path_reads ::
  "string \<Rightarrow> folded_composite \<Rightarrow> managed_state \<Rightarrow> nat \<Rightarrow> feature_frame \<Rightarrow> ema_plan \<Rightarrow> series_store \<Rightarrow> folded_path \<Rightarrow> transition_path \<Rightarrow> bool" where
  "path_reads rid f s i fr plan st p tp \<longleftrightarrow>
     (\<forall>w b. own_grows rid st w \<longrightarrow> path_met (trade_value f s i fr plan) i p = Inr b \<longrightarrow> transition_path_holds w s i tp = b)"

lemma path_reads_grows: "own_grows rid st u \<Longrightarrow> path_reads rid f s i fr plan st p tp \<Longrightarrow> path_reads rid f s i fr plan u p tp"
  by (auto simp: path_reads_def intro: own_grows_trans)

lemma composite_paths_read:
  assumes "mapS (composite_path rid spec lf sf fr plan (length (frame_time_ms fr))) st (zip lps sps) = Inr (st', tps)"
    and "list_all2 same_shape lps sps" "distinct (map fp_path_id lps)" "child_entries rid spec lf sf fr plan st"
    and "\<forall>p\<in>set lps. map_of (st_conditions st) (path_key rid (fp_path_id p)) = None"
    and tw: "twin_folds spec lf sf" "on_frame fr s i"
    and "\<forall>p\<in>set lps. \<forall>r\<in>set (fp_trade_require p). map_of (fc_market lf) r = None"
  shows "own_grows rid st st' \<and>
    list_all2 (path_reads rid (side_fold (ms_side s) lf sf) s i fr plan st') (if ms_side s = ''long'' then lps else sps) tps"
  using assms(1-5,8)
proof (induction lps arbitrary: sps st tps)
  case Nil
  then show ?case by simp
next
  case (Cons lp lps)
  obtain sp sps' where sps: "sps = sp # sps'" "same_shape lp sp" "list_all2 same_shape lps sps'"
    using Cons.prems(2) by (auto simp: list_all2_Cons1)
  obtain st1 tp tps' where st: "composite_path rid spec lf sf fr plan (length (frame_time_ms fr)) st (lp, sp) = Inr (st1, tp)"
    "mapS (composite_path rid spec lf sf fr plan (length (frame_time_ms fr))) st1 (zip lps sps') = Inr (st', tps')" "tps = tp # tps'"
    using Cons.prems(1) sps(1) by (auto simp: bindR_Inr)
  have 1: "child_entries rid spec lf sf fr plan st1 \<and> own_grows rid st st1 \<and>
      path_reads rid (side_fold (ms_side s) lf sf) s i fr plan st1 (if ms_side s = ''long'' then lp else sp) tp"
    using composite_path_reads[OF st(1) _ _ tw sps(2)] Cons.prems(4-6) by (simp add: path_reads_def)
  have "agree (\<lambda>k. \<exists>p\<in>set lps. k = path_key rid (fp_path_id p)) st st1"
    by (rule composite_path_agree[OF _ _ st(1)]) (use Cons.prems(3) in auto)
  then have "\<forall>p\<in>set lps. map_of (st_conditions st1) (path_key rid (fp_path_id p)) = None"
    using Cons.prems(5) by (auto simp: agree_def)
  then have 2: "own_grows rid st1 st' \<and>
      list_all2 (path_reads rid (side_fold (ms_side s) lf sf) s i fr plan st') (if ms_side s = ''long'' then lps else sps') tps'"
    using Cons.prems(3,6) 1 by (intro Cons.IH[OF st(2) sps(3)]) auto
  from 1 2 show ?case using sps(1) st(3) own_grows_trans path_reads_grows by (auto split: if_splits)
qed

lemma first_path_holds:
  assumes "first_path val i ps = Inr r" "list_all2 (\<lambda>p t. \<forall>b. path_met val i p = Inr b \<longrightarrow> g t = b) ps ts"
  shows "list_ex g ts = (r \<noteq> None)"
  using assms
proof (induction ps arbitrary: ts)
  case (Cons p ps)
  obtain b where b: "path_met val i p = Inr b" using Cons.prems(1) by (auto simp: bindR_Inr)
  obtain t ts' where t: "ts = t # ts'" "g t = b" "list_all2 (\<lambda>p t. \<forall>b. path_met val i p = Inr b \<longrightarrow> g t = b) ps ts'"
    using Cons.prems(2) b by (auto simp: list_all2_Cons1)
  show ?case
  proof (cases b)
    case True
    then show ?thesis using Cons.prems(1) b t by (auto simp: bindR_Inr)
  next
    case False
    then show ?thesis using Cons.IH[OF _ t(3)] Cons.prems(1) b t by simp
  qed
qed simp

definition no_entries :: "string \<Rightarrow> series_store \<Rightarrow> bool" where
  "no_entries rid st \<longleftrightarrow> (\<forall>k. prefix (own ''phase'' rid) k \<longrightarrow> map_of (st_conditions st) k = None \<and> map_of (st_distances st) k = None)"

lemma composite_rule_value:
  assumes "composite_paths eval parse k rid condition fr plan (length (frame_time_ms fr)) st = Inr (st', tps)"
    and "parse_composite_phase_condition condition (at_index ''phase_rules'' k @ ''.condition'') = Inr spec"
    and "fold_phase_paths eval parse spec fr plan (ms_side s) = Inr f" "ms_side s = ''long'' \<or> ms_side s = ''short''"
    and "composite_phase_met f s i fr plan = Inr (b, d)" "no_entries rid st" "on_frame fr s i" "own_grows rid st' w"
  shows "list_ex (transition_path_holds w s i) tps = b"
proof -
  obtain lf sf where folds: "fold_phase_paths eval parse spec fr plan ''long'' = Inr lf" "fold_phase_paths eval parse spec fr plan ''short'' = Inr sf"
    and m: "mapS (composite_path rid spec lf sf fr plan (length (frame_time_ms fr))) st (zip (fc_paths lf) (fc_paths sf)) = Inr (st', tps)"
    using assms(1,2) by (auto simp: composite_paths_def bindR_Inr raise_if_Inr)
  have f: "f = side_fold (ms_side s) lf sf" using assms(3,4) folds by (auto simp: side_fold_def)
  have fps: "fc_paths f = (if ms_side s = ''long'' then fc_paths lf else fc_paths sf)" by (simp add: f side_fold_def)
  have tw: "twin_folds spec lf sf"
    using folds_same_shape[OF folds] folds_same_shape(4)[OF folds(2,1)] by (simp add: twin_folds_def)
  have dist: "distinct (map fp_path_id (fc_paths lf))"
    using folds_same_shape(5)[OF folds] parsed_structure(1)[OF assms(2)] by (simp add: structure_ok_def)
  have e: "child_entries rid spec lf sf fr plan st" using assms(6) by (auto simp: child_entries_def no_entries_def)
  have "list_all2 (path_reads rid f s i fr plan st') (if ms_side s = ''long'' then fc_paths lf else fc_paths sf) tps"
    using composite_paths_read[OF m folds_same_shape(1)[OF folds] dist e _ tw assms(7)] assms(6)
      trade_require_no_market[OF folds(1)] by (simp add: f no_entries_def)
  then have "list_all2 (\<lambda>p t. \<forall>b. path_met (trade_value f s i fr plan) i p = Inr b \<longrightarrow> transition_path_holds w s i t = b) (fc_paths f) tps"
    unfolding fps by (rule list_all2_mono) (use assms(8) in \<open>simp add: path_reads_def\<close>)
  moreover obtain r where "first_path (trade_value f s i fr plan) i (fc_paths f) = Inr r" "b = (r \<noteq> None)"
    using assms(5) by (auto simp: composite_phase_met_def composite_met_def trade_value_def bindR_Inr)
  ultimately show ?thesis using first_path_holds by blast
qed

end
