(* ===== verification/HistoricalProperties.thy ===== *)
theory HistoricalProperties
  imports HistoricalComposite ManagedProperties
begin

text \<open>
  Properties of the historical projection: a projected phase transition fires for a trade on a
  bar exactly when the replay of the trade takes the rule, provided the rule ids keep the keys of
  the rules apart; and what happens to rules that share their id.
\<close>

section \<open>One phase rule\<close>

text \<open>The condition of a phase rule as the replay evaluates it.\<close>

definition rule_verdict :: "feature_frame \<Rightarrow> ema_plan \<Rightarrow> nat \<Rightarrow> managed_state \<Rightarrow> obj \<Rightarrow> folded_composite option \<Rightarrow> (bool \<times> obj) res" where
  "rule_verdict fr plan i s rule fo =
     (case fo of Some f \<Rightarrow> composite_phase_met f s i fr plan
      | None \<Rightarrow> bindR (require_mapping (get rule ''condition'') ''phase rule condition'') (\<lambda>c. phase_met c s i fr plan))"

definition later_phase :: "managed_state \<Rightarrow> string \<Rightarrow> bool" where
  "later_phase s p = (case (phase_of p, phase_of (cur_phase s)) of (Some x, Some y) \<Rightarrow> y < x | _ \<Rightarrow> False)"

lemma phase_rule_step_verdict:
  assumes "phase_rule_step fr plan i t (s, evs) (rule, fo) = Inr lg" "later_phase s (text_of rule ''to_phase'' [])"
  shows "\<exists>b d. rule_verdict fr plan i s rule fo = Inr (b, d) \<and> (lg \<noteq> (s, evs)) = b"
  using assms unfolding phase_rule_step_def rule_verdict_def
  by (auto simp: Let_def bindR_Inr rank_phase_of later_phase_def less_managed_phase_def split: if_splits option.splits)

lemma phase_rule_step_stays:
  assumes "phase_rule_step fr plan i t (s, evs) (rule, fo) = Inr lg" "\<not> later_phase s (text_of rule ''to_phase'' [])"
  shows "lg = (s, evs)"
  using assms unfolding phase_rule_step_def
  by (auto simp: Let_def bindR_Inr rank_phase_of later_phase_def less_managed_phase_def split: if_splits option.splits)

lemma phase_rule_reads:
  assumes entry: "phase_rule_entry eval parse fr plan (length (frame_time_ms fr)) st (k, rule) = Inr (st', r)"
    and fold: "fold_rule eval parse fr plan (ms_side s) k rule = Inr fo"
    and verdict: "rule_verdict fr plan i s rule fo = Inr (b, d)"
    and side: "ms_side s = ''long'' \<or> ms_side s = ''short''" and ok: "on_frame fr s i"
    and st: "no_entries (text_of rule ''rule_id'' []) st" "own_grows (text_of rule ''rule_id'' []) st' w"
  shows "\<exists>src. r = Phase_transition (text_of rule ''rule_id'' []) (text_of rule ''to_phase'' []) src \<and> transition_fires w s i src = b"
proof -
  let ?rid = "text_of rule ''rule_id'' []" and ?to = "text_of rule ''to_phase'' []"
  obtain c where c: "get rule ''condition'' = JObj c"
    using entry by (auto simp: phase_rule_entry_def Let_def bindR_Inr require_mapping_def split: json.splits)
  obtain params where params: "get_or c ''params'' (JObj []) = JObj params"
    using entry c by (auto simp: phase_rule_entry_def Let_def bindR_Inr require_mapping_def split: json.splits)
  let ?cmp = "text_of c ''component_id'' []"
  note e = entry[unfolded phase_rule_entry_def Let_def snd_conv fst_conv c require_mapping_def json.case bindR_simps params]
  consider (comp) "?cmp = COMPOSITE_PHASE_CONDITION" | (adx) "?cmp \<noteq> COMPOSITE_PHASE_CONDITION" "?cmp = ''adx_di_threshold''"
    | (atom) "?cmp \<noteq> COMPOSITE_PHASE_CONDITION" "?cmp \<noteq> ''adx_di_threshold''" "map_of METRIC ?cmp \<noteq> None"
    using e by (auto split: if_splits)
  then show ?thesis
  proof cases
    case comp
    obtain tps where t: "composite_paths eval parse k ?rid c fr plan (length (frame_time_ms fr)) st = Inr (st', tps)"
      "r = Phase_transition ?rid ?to (By_paths tps)"
      using e comp by (auto simp: bindR_Inr)
    obtain spec f where f: "parse_composite_phase_condition c (at_index ''phase_rules'' k @ ''.condition'') = Inr spec"
      "fold_phase_paths eval parse spec fr plan (ms_side s) = Inr f" "fo = Some f"
      using fold c comp by (auto simp: fold_rule_def bindR_Inr)
    have "composite_phase_met f s i fr plan = Inr (b, d)" using verdict f(3) by (simp add: rule_verdict_def)
    from composite_rule_value[OF t(1) f(1,2) side this st(1) ok st(2)] show ?thesis
      using t(2) by (simp add: transition_fires_def)
  next
    case adx
    obtain ls ss where t: "adx_di_series params fr plan = Inr (ls, ss)"
      "st' = put_condition (rule_key ''phase'' ?rid ''condition'') (ls, ss) st"
      "r = Phase_transition ?rid ?to (By_condition (rule_key ''phase'' ?rid ''condition''))"
      using e adx by (auto simp: bindR_Inr)
    have "adx_di_met s i fr plan params = Inr (b, d)"
      using verdict fold c adx params by (auto simp: fold_rule_def rule_verdict_def phase_met_def require_mapping_def)
    from adx_atom_value[OF t(1) this] have "(if ms_side s = ''long'' then ls else ss) ! i = b" using ok by (simp add: on_frame_def)
    moreover have "map_of (st_conditions w) (rule_key ''phase'' ?rid ''condition'') = Some (ls, ss)"
      using st(2) t(2) unfolding own_grows_def by simp
    ultimately show ?thesis using t(3) by (simp add: transition_fires_def condition_holds_def)
  next
    case atom
    obtain xs m where t: "trade_threshold ?cmp params fr plan (length (frame_time_ms fr)) = Inr (xs, m)"
      "st' = put_distance (rule_key ''phase'' ?rid ''distance'') xs st"
      "r = Phase_transition ?rid ?to (By_threshold (rule_key ''phase'' ?rid ''distance'') m)"
      using e atom by (auto simp: bindR_Inr)
    have "phase_met c s i fr plan = Inr (b, d)"
      using verdict fold c atom by (auto simp: fold_rule_def rule_verdict_def require_mapping_def)
    from trade_atom_value[OF t(1) this _ params atom(3)] have "quantity_reaches s m (xs ! i) = b" using ok by (simp add: on_frame_def)
    moreover have "map_of (st_distances w) (rule_key ''phase'' ?rid ''distance'') = Some xs"
      using st(2) t(2) unfolding own_grows_def by simp
    ultimately show ?thesis using t(3)
      by (cases "metric_value s m") (simp_all add: transition_fires_def threshold_holds_def distance_at_def quantity_reaches_def)
  qed
qed

section \<open>The rules of a policy\<close>

abbreviation id_of :: "obj \<Rightarrow> string" where
  "id_of rule \<equiv> text_of rule ''rule_id'' []"

text \<open>Rule ids that keep the keys of the phase rules apart.\<close>

definition ids_ok :: "obj list \<Rightarrow> bool" where
  "ids_ok rules \<longleftrightarrow> distinct (map id_of rules) \<and> list_all (\<lambda>r. CHR '':'' \<notin> set (id_of r)) rules"

definition empty_store :: series_store where
  "empty_store = \<lparr>st_conditions = [], st_distances = []\<rparr>"

lemma empty_no_entries: "agree (prefix (own ''phase'' rid)) empty_store st \<Longrightarrow> no_entries rid st"
  by (simp add: agree_def no_entries_def empty_store_def)

lemma phase_rules_agree:
  assumes "mapS (phase_rule_entry eval parse fr plan n) s irs = Inr (t, rs)"
    and "\<And>ir. ir \<in> set irs \<Longrightarrow> id_of (snd ir) \<noteq> rid \<and> CHR '':'' \<notin> set (id_of (snd ir))" "CHR '':'' \<notin> set rid"
  shows "agree (prefix (own ''phase'' rid)) s t"
proof (rule agree_induct[OF assms(1)])
  fix s ir t r assume ir: "ir \<in> set irs" and step: "phase_rule_entry eval parse fr plan n s ir = Inr (t, r)"
  show "agree (prefix (own ''phase'' rid)) s t"
    by (rule agree_mono[OF phase_rule_agree[OF step]]) (use own_phase_disjoint assms(2)[OF ir] assms(3) in blast)
qed

lemma later_rules_agree:
  "mapS (stop_rule_entry fr plan n) s srs = Inr (t, rs) \<Longrightarrow> agree (prefix (own ''phase'' rid)) s t"
  "mapS take_rule_entry s trs = Inr (t, rs) \<Longrightarrow> agree (prefix (own ''phase'' rid)) s t"
  "mapS (runtime_rule_entry fr plan n) s rrs = Inr (t, rs) \<Longrightarrow> agree (prefix (own ''phase'' rid)) s t"
  using own_family_disjoint
  by (auto elim!: agree_induct intro: take_rule_agree agree_mono[OF stop_rule_agree] agree_mono[OF runtime_rule_agree])

lemma projected_rule:
  assumes build: "build_historical_managed_projection eval parse raw fr plan = Inr (Some proj)"
    and rules: "exit_management raw = Inr config" "rule_items (get_or config ''phase_rules'' (JList [])) ''phase_rules'' = Inr rules"
    and j: "j < length rules" "ids_ok rules"
  obtains st st' where
    "phase_rule_entry eval parse fr plan (length (frame_time_ms fr)) st (j, rules ! j) = Inr (st', hp_rules proj ! j)"
    "no_entries (id_of (rules ! j)) st" "own_grows (id_of (rules ! j)) st' (hp_store proj)"
proof -
  let ?n = "length (frame_time_ms fr)" and ?rid = "id_of (rules ! j)" and ?P = "prefix (own ''phase'' (id_of (rules ! j)))"
  obtain st1 r1 st2 r2 st3 r3 st4 r4 srs trs rrs where
    m1: "mapS (phase_rule_entry eval parse fr plan ?n) empty_store (enumerate 0 rules) = Inr (st1, r1)"
    and m2: "mapS (stop_rule_entry fr plan ?n) st1 srs = Inr (st2, r2)" "mapS take_rule_entry st2 trs = Inr (st3, r3)"
      "mapS (runtime_rule_entry fr plan ?n) st3 rrs = Inr (st4, r4)"
    and proj: "hp_store proj = st4" "hp_rules proj = r1 @ r2 @ r3 @ r4"
    using build rules unfolding build_historical_managed_projection_def empty_store_def [symmetric]
    by (auto simp: bindR_Inr Let_def split: if_splits)
  have nth: "enumerate 0 rules ! j = (j, rules ! j)" "hp_rules proj ! j = r1 ! j"
    using j(1) mapS_length[OF m1] by (simp_all add: nth_enumerate_eq proj nth_append)
  obtain s t where step: "mapS (phase_rule_entry eval parse fr plan ?n) empty_store (take j (enumerate 0 rules)) = Inr (s, take j r1)"
    "phase_rule_entry eval parse fr plan ?n s (j, rules ! j) = Inr (t, r1 ! j)"
    "mapS (phase_rule_entry eval parse fr plan ?n) t (drop (Suc j) (enumerate 0 rules)) = Inr (st1, drop (Suc j) r1)"
    using mapS_nth[OF m1, of j] j(1) nth(1) by auto
  have colon: "CHR '':'' \<notin> set (id_of r)" if "r \<in> set rules" for r using that j(2) by (auto simp: ids_ok_def list_all_iff)
  have other: "id_of (rules ! k) \<noteq> ?rid \<and> CHR '':'' \<notin> set (id_of (rules ! k))" if "k < length rules" "k \<noteq> j" for k
    using that j colon[of "rules ! k"] nth_eq_iff_index_eq[of "map id_of rules" k j] by (simp add: ids_ok_def)
  have before: "agree ?P empty_store s"
    by (rule phase_rules_agree[OF step(1)])
      (use other colon j(1) in \<open>auto simp: in_set_conv_nth nth_enumerate_eq\<close>)
  have "agree ?P t st1"
    by (rule phase_rules_agree[OF step(3)])
      (use other colon j(1) in \<open>auto simp: in_set_conv_nth nth_enumerate_eq\<close>)
  from agree_trans[OF this agree_trans[OF later_rules_agree(1)[OF m2(1)]
      agree_trans[OF later_rules_agree(2)[OF m2(2)] later_rules_agree(3)[OF m2(3)]]]]
  have after: "agree ?P t (hp_store proj)" by (simp add: proj)
  show ?thesis using that[of s t] step(2) nth(2) empty_no_entries[OF before] agree_own_grows[OF after] by simp
qed

section \<open>Properties\<close>

text \<open>
  C3. The historical projection and the replay of one trade agree on phase rules: if the ids of
  the phase rules are distinct and free of colons, then on every bar and in every state of a long
  or short trade, the rule's step in the replay enters its phase exactly when the phase is later
  than the current one and the projected transition fires on the series of the projection, for
  trade atoms, the ADX atom and composite conditions alike.
\<close>

theorem historical_phase_rules_agree_with_replay:
  assumes "build_historical_managed_projection eval parse raw fr plan = Inr (Some proj)"
    and "exit_management raw = Inr config" "rule_items (get_or config ''phase_rules'' (JList [])) ''phase_rules'' = Inr rules"
    and "j < length rules" "ids_ok rules"
    and "fold_rule eval parse fr plan (ms_side s) j (rules ! j) = Inr fo"
    and "phase_rule_step fr plan i t (s, evs) (rules ! j, fo) = Inr lg"
    and "ms_side s = ''long'' \<or> ms_side s = ''short''" "on_frame fr s i"
    and "later_phase s (text_of (rules ! j) ''to_phase'' [])"
  shows "\<exists>src. hp_rules proj ! j = Phase_transition (id_of (rules ! j)) (text_of (rules ! j) ''to_phase'' []) src \<and>
    (lg \<noteq> (s, evs)) = transition_fires (hp_store proj) s i src"
proof (rule projected_rule[OF assms(1-5)])
  fix st st' assume
    e: "phase_rule_entry eval parse fr plan (length (frame_time_ms fr)) st (j, rules ! j) = Inr (st', hp_rules proj ! j)"
      "no_entries (id_of (rules ! j)) st" "own_grows (id_of (rules ! j)) st' (hp_store proj)"
  obtain b d where b: "rule_verdict fr plan i s (rules ! j) fo = Inr (b, d)" "(lg \<noteq> (s, evs)) = b"
    using phase_rule_step_verdict[OF assms(7,10)] by blast
  show ?thesis using phase_rule_reads[OF e(1) assms(6) b(1) assms(8,9) e(2,3)] b(2) by blast
qed

text \<open>A policy with a trade atom and a composite condition, on the second bar of a long trade.\<close>

definition sample_projection_rules :: "obj list" where
  "sample_projection_rules =
     [[(''rule_id'', JStr ''p1''), (''to_phase'', JStr ''proven''),
       (''condition'', JObj [(''component_id'', JStr ''bars_in_trade''), (''params'', JObj [(''threshold'', JInt 2)])])],
      [(''rule_id'', JStr ''p2''), (''to_phase'', JStr ''protected''),
       (''condition'', JObj [(''component_id'', JStr ''mfe_r''), (''params'', JObj [(''threshold'', JInt 2)])])]]"

definition sample_historical :: historical_projection where
  "sample_historical = (case build_historical_managed_projection no_layer no_change sample_managed sample_trade_frame empty_plan of
     Inr (Some p) \<Rightarrow> p | _ \<Rightarrow> \<lparr>hp_store = empty_store, hp_rules = []\<rparr>)"

lemma sample_historical_ok:
  "build_historical_managed_projection no_layer no_change sample_managed sample_trade_frame empty_plan = Inr (Some sample_historical)"
proof -
  let ?b = "build_historical_managed_projection no_layer no_change sample_managed sample_trade_frame empty_plan"
  have ok: "is_ok ?b" "projr ?b \<noteq> None" by code_simp+
  from ok_projr[OF ok(1)] ok(2) show ?thesis unfolding sample_historical_def by (cases "projr ?b") auto
qed

definition sample_second_bar :: managed_state where
  "sample_second_bar = projr (update_extremes (start_state ''long'' 1 60000 (Fin 100) 0 (Some (Fin 90))) 2 (Fin 105) (Fin 101))"

definition sample_config :: obj where "sample_config = projr (exit_management sample_managed)"

theorem historical_phase_rules_agree_with_replay_witness:
  "\<exists>src. hp_rules sample_historical ! 0 = Phase_transition ''p1'' ''proven'' src \<and>
     transition_fires (hp_store sample_historical) sample_second_bar 2 src"
proof -
  have ok: "is_ok (exit_management sample_managed)" by code_simp
  have 1: "exit_management sample_managed = Inr sample_config" unfolding sample_config_def by (rule ok_projr[OF ok])
  have 2: "rule_items (get_or sample_config ''phase_rules'' (JList [])) ''phase_rules'' = Inr sample_projection_rules" by code_simp
  have 3: "0 < length sample_projection_rules" "ids_ok sample_projection_rules" by code_simp+
  let ?step = "phase_rule_step sample_trade_frame empty_plan 2 120000 (sample_second_bar, []) (sample_projection_rules ! 0, None)"
  have 4: "fold_rule no_layer no_change sample_trade_frame empty_plan (ms_side sample_second_bar) 0 (sample_projection_rules ! 0) = Inr None"
    by code_simp
  have s: "is_ok ?step" by code_simp
  have side: "ms_side sample_second_bar = ''long''" by code_simp
  have 5: "on_frame sample_trade_frame sample_second_bar 2" by code_simp
  have 6: "later_phase sample_second_bar (text_of (sample_projection_rules ! 0) ''to_phase'' [])" by code_simp
  have 7: "id_of (sample_projection_rules ! 0) = ''p1''" "text_of (sample_projection_rules ! 0) ''to_phase'' [] = ''proven''" by code_simp+
  have 8: "projr ?step \<noteq> (sample_second_bar, [])" by code_simp
  show ?thesis using historical_phase_rules_agree_with_replay[OF sample_historical_ok 1 2 3 4 ok_projr[OF s] _ 5 6] side 7 8 by simp
qed







end
