(* ===== verification/LegOperands.thy ===== *)
theory LegOperands
  imports EpisodeProject
begin

text \<open>
  The operands on the legs of the current touch of an episode (\<open>leg_change.py\<close>,
  \<open>leg_speed.py\<close>, \<open>leg_efficiency.py\<close>, \<open>leg_means.py\<close>, \<open>pullback_depth.py\<close>,
  \<open>anchor_follow.py\<close>, \<open>impulse_atr.py\<close>): the impulse from the origin bar to the peak bar of
  the wave and the pullback from the peak on.  NumPy's operations on whole arrays are written per
  bar; the loops that carry state from bar to bar are kept as loops.  A bar index is exact as a
  float, and a missing value is NaN.
\<close>

section \<open>The wave of the current touch\<close>

definition touch_number_at :: "side_episode \<Rightarrow> nat \<Rightarrow> f64" where
  "touch_number_at e t = sn_touch_number (out_state (se_rows e ! t))"

text \<open>The touch-table row of the current touch, 0 where there is none.\<close>

definition current_row :: "side_episode \<Rightarrow> nat \<Rightarrow> int" where
  "current_row e t =
     (let st = out_state (se_rows e ! t); live = isfinite (sn_touch_number st);
          count = (if live then sn_touch_number st else Fin 0) in
      if live \<and> fge count (Fin 1) then table_row e (sn_episode_id st) count else 0)"

definition touch_row_at :: "side_episode \<Rightarrow> nat \<Rightarrow> nat" where
  "touch_row_at e t = nat (clip (current_row e t) 0 (max (int (length (se_touches e)) - 1) 0))"

text \<open>Validity, origin and peak; the bars are 0 where the wave is not valid.\<close>

definition touch_point :: "side_episode \<Rightarrow> nat \<Rightarrow> bool \<times> nat \<times> nat" where
  "touch_point e t =
     (if se_touches e = [] then (False, 0, 0)
      else (let tn = touch_number_at e t; r = se_touches e ! nat (current_row e t);
                ok = (isfinite tn \<and> fge tn (Fin 1) \<and> origin_bar r \<le> peak_bar r \<and> peak_bar r \<le> t) in
            (ok, if ok then origin_bar r else 0, if ok then peak_bar r else 0)))"

section \<open>Running sums\<close>

text \<open>\<open>np.cumsum\<close> on bar \<open>i\<close>, and the count of values that are not finite before it.\<close>

definition cumsum_at :: "f64 list \<Rightarrow> nat \<Rightarrow> f64" where
  "cumsum_at xs i = foldl fadd (hd xs) (take i (tl xs))"

definition prefix_sum :: "f64 list \<Rightarrow> nat \<Rightarrow> f64" where
  "prefix_sum xs i = (case i of 0 \<Rightarrow> Fin 0 | Suc k \<Rightarrow> cumsum_at xs k)"

definition bad_before :: "f64 list \<Rightarrow> nat \<Rightarrow> int" where
  "bad_before xs i = int (length (filter (\<lambda>x. \<not> isfinite x) (take i xs)))"

definition finite_or_0 :: "f64 \<Rightarrow> f64" where
  "finite_or_0 x = (if isfinite x then x else Fin 0)"

section \<open>Change, speed, bars and efficiency of a leg\<close>

definition change_ends :: "side_episode \<Rightarrow> string \<Rightarrow> string \<Rightarrow> nat \<Rightarrow> bool \<times> nat \<times> nat" where
  "change_ends e leg touch t =
     (case touch_point e t of (v, a, p) \<Rightarrow>
      if touch = ''previous'' then
        (let v1 = (v \<and> fge (touch_number_at e t) (Fin 2)); r = se_touches e ! (if v1 then touch_row_at e t - 1 else 0);
             ok = (v1 \<and> origin_bar r \<le> peak_bar r) in
         (ok, if ok then origin_bar r else 0, if ok then peak_bar r else 0))
      else if leg = ''impulse'' then (v, a, p) else (v, p, t))"

definition leg_change_at :: "side_episode \<Rightarrow> f64 list \<Rightarrow> string \<Rightarrow> string \<Rightarrow> nat \<Rightarrow> f64" where
  "leg_change_at e xs leg touch t =
     (case change_ends e leg touch t of (v, b, z) \<Rightarrow>
      let first = xs ! (if v then b else 0); last = xs ! (if v then z else 0) in
      if v \<and> isfinite first \<and> isfinite last \<and> flt (Fin 0) first
      then fmul (Fin 100) (fsub (fdiv last first) (Fin 1)) else NaN)"

definition leg_speed_at :: "side_episode \<Rightarrow> f64 list \<Rightarrow> string \<Rightarrow> nat \<Rightarrow> f64" where
  "leg_speed_at e close leg t =
     (case touch_point e t of (v, a, p) \<Rightarrow>
      let r = se_touches e ! touch_row_at e t;
          distance = fabs (fsub (peak_price r) (if leg = ''impulse'' then origin_price r else close ! t));
          n = (if leg = ''impulse'' then int p - int a + 1 else int t - int p + 1) in
      if v \<and> isfinite distance then fdiv distance (f64_of_int n) else NaN)"

definition leg_bars_at :: "side_episode \<Rightarrow> string \<Rightarrow> nat \<Rightarrow> f64" where
  "leg_bars_at e leg t =
     (case touch_point e t of (v, a, p) \<Rightarrow>
      if v then f64_of_int (if leg = ''impulse'' then int p - int a + 1 else int t - int p + 1) else NaN)"

definition close_steps :: "f64 list \<Rightarrow> f64 list" where
  "close_steps close =
     (let c = map finite_or_0 close in
      map (\<lambda>i. if i = 0 then Fin 0 else fabs (fsub (c ! i) (c ! (i - 1)))) [0 ..< length close])"

definition leg_efficiency_at :: "side_episode \<Rightarrow> f64 list \<Rightarrow> string \<Rightarrow> nat \<Rightarrow> f64" where
  "leg_efficiency_at e close leg t =
     (case touch_point e t of (v, origin, peak) \<Rightarrow>
      let a = (if v then (if leg = ''impulse'' then origin else peak) else 0);
          z = (if v then (if leg = ''impulse'' then peak else t) else 0);
          run = fsub (cumsum_at (close_steps close) z) (cumsum_at (close_steps close) a);
          clean = (bad_before close (Suc z) - bad_before close a = 0) in
      if v \<and> a < z \<and> clean \<and> flt (Fin 0) run then fdiv (fabs (fsub (close ! z) (close ! a))) run else NaN)"

section \<open>Means and sums over a leg\<close>

definition force_series :: "f64 list \<Rightarrow> f64 list \<Rightarrow> string \<Rightarrow> string \<Rightarrow> f64 list" where
  "force_series close volume field sd =
     (let s = (if sd = ''long'' then Fin 1 else Fin (- 1)); g = (if field = ''force_against'' then fneg s else s) in
      map (\<lambda>i. fmul (if i = 0 then Fin 0 else fmul (fsub (close ! i) (close ! (i - 1))) (volume ! i)) g) [0 ..< length close])"

definition own_color_volume_series :: "f64 list \<Rightarrow> f64 list \<Rightarrow> f64 list \<Rightarrow> string \<Rightarrow> string \<Rightarrow> f64 list" where
  "own_color_volume_series opens close volume sd leg =
     map (\<lambda>i. let body = fmul (fsub (close ! i) (opens ! i)) (if sd = ''long'' then Fin 1 else Fin (- 1));
                  own = (if leg = ''impulse'' then flt (Fin 0) body else flt body (Fin 0)) in
              if isfinite (opens ! i) \<and> isfinite (close ! i) \<and> isfinite (volume ! i)
              then (if own then volume ! i else Fin 0) else NaN) [0 ..< length close]"

definition leg_bar_count_at :: "side_episode \<Rightarrow> string \<Rightarrow> nat \<Rightarrow> f64" where
  "leg_bar_count_at e leg t =
     (case touch_point e t of (v, a, p) \<Rightarrow>
      let n = (if leg = ''impulse'' then int p - int a + 1 else int t - int p) in
      if v \<and> (leg = ''impulse'' \<or> 1 \<le> n) then f64_of_int n else NaN)"

text \<open>The bars of a leg: a pullback has at least the bar after the peak.\<close>

definition leg_range :: "side_episode \<Rightarrow> string \<Rightarrow> nat \<Rightarrow> bool \<times> nat \<times> nat" where
  "leg_range e leg t =
     (case touch_point e t of (v, a, p) \<Rightarrow>
      let b = (if leg = ''impulse'' then a else Suc p); z = (if leg = ''impulse'' then p else t);
          ok = (v \<and> (leg = ''impulse'' \<or> b \<le> z)) in
      (ok, if ok then b else 0, if ok then z else 0))"

definition leg_totals :: "side_episode \<Rightarrow> f64 list \<Rightarrow> string \<Rightarrow> nat \<Rightarrow> bool \<times> f64 \<times> int" where
  "leg_totals e xs leg t =
     (case leg_range e leg t of (v, b, z) \<Rightarrow>
      let total = (\<lambda>i. prefix_sum (map finite_or_0 xs) i) in
      (v \<and> bad_before xs (Suc z) - bad_before xs b = 0, fsub (total (Suc z)) (total b), int z - int b + 1))"

definition leg_mean_at :: "side_episode \<Rightarrow> f64 list \<Rightarrow> string \<Rightarrow> nat \<Rightarrow> f64" where
  "leg_mean_at e xs leg t = (case leg_totals e xs leg t of (v, s, n) \<Rightarrow> if v then fdiv s (f64_of_int n) else NaN)"

definition leg_sum_at :: "side_episode \<Rightarrow> f64 list \<Rightarrow> string \<Rightarrow> nat \<Rightarrow> f64" where
  "leg_sum_at e xs leg t = (case leg_totals e xs leg t of (v, s, n) \<Rightarrow> if v then s else NaN)"

section \<open>Mean of the largest values of a leg\<close>

definition py_ceil :: "f64 \<Rightarrow> int res" where
  "py_ceil x = (case x of Fin r \<Rightarrow> Inr \<lceil>r\<rceil> | NaN \<Rightarrow> Inl (PyValueError ''cannot convert float NaN to integer'') | Inf s \<Rightarrow> Inl PyOverflowError)"

text \<open>\<open>math.fsum\<close> of finite values: the exact sum, rounded once.\<close>

definition fsum :: "f64 list \<Rightarrow> f64 res" where
  "fsum xs = (let s = rnd (sum_list (map fin_val xs)) in if isfinite s then Inr s else Inl PyOverflowError)"

definition top_mean :: "f64 list \<Rightarrow> f64 \<Rightarrow> f64 res" where
  "top_mean ordered share =
     bindR (py_ceil (fmul share (f64_of_nat (length ordered)))) (\<lambda>c.
     (let k = max 1 c in
      bindR (fsum (drop (length ordered - nat k) ordered)) (\<lambda>s. Inr (fdiv s (f64_of_int k)))))"

text \<open>The loop keeps the means of the impulses it has seen and the sorted window of the pullback.\<close>

record top_state =
  tm_cache :: "((nat \<times> nat) \<times> f64) list"
  tm_window :: "f64 list"
  tm_begin :: int
  tm_end :: int

definition top_bar ::
  "side_episode \<Rightarrow> f64 list \<Rightarrow> string \<Rightarrow> f64 \<Rightarrow> top_state \<Rightarrow> nat \<Rightarrow> (top_state \<times> f64) res" where
  "top_bar e xs leg share st t =
     (case touch_point e t of (v, origin, peak) \<Rightarrow>
      let b = (if leg = ''impulse'' then origin else Suc peak); z = (if leg = ''impulse'' then peak else t) in
      if \<not> v then Inr (st, NaN)
      else if leg \<noteq> ''impulse'' \<and> z < b then Inr (st, NaN)
      else if bad_before xs (Suc z) - bad_before xs b \<noteq> 0 then Inr (st, NaN)
      else if leg = ''impulse'' then
        (case map_of (tm_cache st) (b, z) of
           Some m \<Rightarrow> Inr (st, m)
         | None \<Rightarrow> bindR (top_mean (sort (slice xs b z)) share) (\<lambda>m.
             Inr (st\<lparr>tm_cache := ((b, z), m) # tm_cache st\<rparr>, m)))
      else
        (let w = (if int b = tm_begin st \<and> int z = tm_end st + 1 then insort (xs ! z) (tm_window st) else sort (slice xs b z)) in
         bindR (top_mean w share) (\<lambda>m. Inr (st\<lparr>tm_window := w, tm_begin := int b, tm_end := int z\<rparr>, m))))"

definition leg_top_mean_values :: "side_episode \<Rightarrow> f64 list \<Rightarrow> string \<Rightarrow> f64 \<Rightarrow> f64 list res" where
  "leg_top_mean_values e xs leg share =
     bindR (mapS (top_bar e xs leg share) \<lparr>tm_cache = [], tm_window = [], tm_begin = - 1, tm_end = - 1\<rparr> [0 ..< length xs])
       (\<lambda>(st, ys). Inr ys)"

section \<open>Pullback depth\<close>

definition np_max :: "f64 list \<Rightarrow> f64" where
  "np_max xs = foldl np_maximum (hd xs) (tl xs)"

definition window_end :: "bool \<Rightarrow> f64 list \<Rightarrow> f64" where
  "window_end lowest xs = (if lowest then np_min xs else np_max xs)"

record depth_state =
  dp_peak :: int
  dp_t :: int
  dp_ext :: f64

definition depth_share :: "f64 \<Rightarrow> touch_row \<Rightarrow> f64 \<Rightarrow> f64" where
  "depth_share g r ext =
     (let height = fabs (fsub (peak_price r) (origin_price r)) in
      if isfinite ext \<and> flt (Fin 0) height then fdiv (fmul g (fsub (peak_price r) ext)) height else NaN)"

definition depth_bar :: "side_episode \<Rightarrow> f64 list \<Rightarrow> depth_state \<Rightarrow> nat \<Rightarrow> depth_state \<times> f64" where
  "depth_bar e prices st t =
     (case touch_point e t of (v, a, p) \<Rightarrow>
      let long = (se_side e = ''long''); pick = (if long then py_min else py_max);
          ext = (if int p = dp_peak st \<and> int t = dp_t st + 1
                 then (if isfinite (dp_ext st) \<and> isfinite (prices ! t) then pick (dp_ext st) (prices ! t) else NaN)
                 else window_end long (slice prices p t)) in
      if \<not> v then (st, NaN)
      else (\<lparr>dp_peak = int p, dp_t = int t, dp_ext = ext\<rparr>,
            depth_share (if long then Fin 1 else Fin (- 1)) (se_touches e ! touch_row_at e t) ext))"

text \<open>The depth of the previous pullback, from its peak to the origin of the current touch.\<close>

definition previous_depth :: "side_episode \<Rightarrow> f64 list \<Rightarrow> nat \<Rightarrow> f64" where
  "previous_depth e prices row =
     (let r0 = se_touches e ! (row - 1); p0 = peak_bar r0; s = origin_bar (se_touches e ! row);
          long = (se_side e = ''long'') in
      if p0 < s then depth_share (if long then Fin 1 else Fin (- 1)) r0 (window_end long (slice prices p0 s)) else NaN)"

definition previous_bar ::
  "side_episode \<Rightarrow> f64 list \<Rightarrow> (nat \<times> f64) list \<Rightarrow> nat \<Rightarrow> (nat \<times> f64) list \<times> f64" where
  "previous_bar e prices cache t =
     (let row = touch_row_at e t in
      if fst (touch_point e t) \<and> fge (touch_number_at e t) (Fin 2) then
        (case map_of cache row of
           Some x \<Rightarrow> (cache, x)
         | None \<Rightarrow> (let x = previous_depth e prices row in ((row, x) # cache, x)))
      else (cache, NaN))"

definition pullback_depth_values :: "side_episode \<Rightarrow> f64 list \<Rightarrow> f64 list \<Rightarrow> string \<Rightarrow> f64 list" where
  "pullback_depth_values e low high touch =
     (let prices = (if se_side e = ''long'' then low else high); ts = [0 ..< length (se_rows e)] in
      if touch = ''previous'' then snd (scan (previous_bar e prices) [] ts)
      else snd (scan (depth_bar e prices) \<lparr>dp_peak = - 1, dp_t = - 1, dp_ext = NaN\<rparr> ts))"

section \<open>The anchor and the impulse\<close>

definition anchor_follow_parts :: "side_episode \<Rightarrow> nat \<Rightarrow> f64 \<times> f64 \<times> f64" where
  "anchor_follow_parts e t =
     (case touch_point e t of (v, a, p) \<Rightarrow>
      let g = (if se_side e = ''long'' then Fin 1 else Fin (- 1)); r = se_touches e ! touch_row_at e t;
          ema_p = se_anchor e ! p; ema_t = se_anchor e ! t in
      if v then (peak_price r, fmul g (fsub (peak_price r) ema_p), fmul g (fsub ema_t ema_p)) else (NaN, NaN, NaN))"

definition anchor_follow_at :: "side_episode \<Rightarrow> nat \<Rightarrow> f64" where
  "anchor_follow_at e t =
     (case anchor_follow_parts e t of (pp, gap, move) \<Rightarrow>
      if isfinite gap \<and> isfinite move \<and> flt (Fin 0) gap then fdiv move gap else NaN)"

definition impulse_atr_at :: "side_episode \<Rightarrow> f64 list \<Rightarrow> nat \<Rightarrow> f64" where
  "impulse_atr_at e atr t =
     (case touch_point e t of (v, a, p) \<Rightarrow>
      let r = se_touches e ! touch_row_at e t; height = fabs (fsub (peak_price r) (origin_price r)); scale = atr ! p in
      if v \<and> isfinite height \<and> isfinite scale \<and> flt (Fin 0) scale then fdiv height scale else NaN)"

end
