(* ===== verification/CandleOperands.thy ===== *)
theory CandleOperands
  imports LegOperands "HOL-Library.Log_Nat"
begin

text \<open>
  The operands on candles of a timeframe built from base bars: the sparse table of window
  extremes (\<open>window_extreme.py\<close>), the largest body of a leg (\<open>candles.py\<close>) and the forming
  candle (\<open>forming_candle.py\<close>).  NumPy's whole-array operations are written per bar or per candle.
\<close>

section \<open>Window extremes by a sparse table\<close>

text \<open>
  Level \<open>j\<close> holds the extremes of the windows of \<open>2 ^ j\<close> values; a query combines two of them.
  The integer part of \<open>np.log2\<close> is exact for the lengths of a series.
\<close>

fun level_table :: "('a \<Rightarrow> 'a \<Rightarrow> 'a) \<Rightarrow> 'a list \<Rightarrow> nat \<Rightarrow> 'a list" where
  "level_table f xs 0 = xs"
| "level_table f xs (Suc j) =
     (let p = level_table f xs j; half = 2 ^ j in map2 f (take (length p - half) p) (drop half p))"

definition table_query :: "('a \<Rightarrow> 'a \<Rightarrow> 'a) \<Rightarrow> 'a list \<Rightarrow> nat \<Rightarrow> nat \<Rightarrow> 'a" where
  "table_query f xs a b =
     (let j = floorlog 2 (Suc b - a) - 1; t = level_table f xs j in f (t ! a) (t ! (Suc b - 2 ^ j)))"

definition window_extreme :: "f64 list \<Rightarrow> nat \<Rightarrow> nat \<Rightarrow> bool \<Rightarrow> f64" where
  "window_extreme values a b largest = table_query (if largest then np_maximum else np_minimum) values a b"

section \<open>Candles of a timeframe\<close>

definition bucket_of :: "int list \<Rightarrow> int \<Rightarrow> nat \<Rightarrow> int" where
  "bucket_of time_ms tf i = (time_ms ! i) div tf"

definition starts_bucket :: "int list \<Rightarrow> int \<Rightarrow> nat \<Rightarrow> bool" where
  "starts_bucket time_ms tf i \<longleftrightarrow> i = 0 \<or> bucket_of time_ms tf i \<noteq> bucket_of time_ms tf (i - 1)"

text \<open>\<open>np.flatnonzero(starts)\<close>, and \<open>np.cumsum(starts) - 1\<close> on a bar.\<close>

definition first_bars :: "int list \<Rightarrow> int \<Rightarrow> nat list" where
  "first_bars time_ms tf = filter (starts_bucket time_ms tf) [0 ..< length time_ms]"

definition last_bars :: "int list \<Rightarrow> int \<Rightarrow> nat list" where
  "last_bars time_ms tf = map (\<lambda>b. b - 1) (tl (first_bars time_ms tf)) @ [length time_ms - 1]"

definition ordinal :: "int list \<Rightarrow> int \<Rightarrow> nat \<Rightarrow> nat" where
  "ordinal time_ms tf i = length (filter (starts_bucket time_ms tf) [0 ..< Suc i]) - 1"

text \<open>\<open>max(body, 0) / atr\<close>; a candle without a usable ATR counts 0, without a series the body stays.\<close>

definition normalised :: "f64 \<Rightarrow> f64 option \<Rightarrow> f64" where
  "normalised body atr =
     (let positive = np_maximum body (Fin 0) in
      case atr of
        None \<Rightarrow> (if isfinite positive then positive else Fin 0)
      | Some a \<Rightarrow> (if isfinite a \<and> flt (Fin 0) a \<and> isfinite positive then fdiv positive a else Fin 0))"

record candle =
  cd_first :: nat
  cd_open :: f64
  cd_close :: f64
  cd_high :: f64
  cd_low :: f64

definition candles :: "int list \<Rightarrow> int \<Rightarrow> f64 list \<Rightarrow> f64 list \<Rightarrow> f64 list \<Rightarrow> f64 list \<Rightarrow> candle list" where
  "candles time_ms tf opens high low close =
     map2 (\<lambda>a z. \<lparr>cd_first = a, cd_open = opens ! a, cd_close = close ! z,
       cd_high = np_max (slice high a z), cd_low = np_min (slice low a z)\<rparr>)
       (first_bars time_ms tf) (last_bars time_ms tf)"

definition true_range_of :: "candle list \<Rightarrow> nat \<Rightarrow> f64" where
  "true_range_of cs k =
     (let c = cs ! k; previous = (if k = 0 then NaN else cd_close (cs ! (k - 1)));
          range = fsub (cd_high c) (cd_low c);
          tr = np_maximum (np_maximum range (fabs (fsub (cd_high c) previous))) (fabs (fsub (cd_low c) previous)) in
      if isfinite tr then tr else range)"

text \<open>
  The ATR before each candle and its own ATR.  On the base timeframe both are read from the
  series; above it the aligned value at the open of a candle is the ATR of the candle before it.
\<close>

definition candle_atrs ::
  "int list \<Rightarrow> int \<Rightarrow> int \<Rightarrow> candle list \<Rightarrow> f64 list \<Rightarrow> int option \<Rightarrow> (f64 list \<times> f64 list) res" where
  "candle_atrs time_ms tf base_ms cs atr atr_period =
     (let first = map cd_first cs; n = length cs in
      if tf = base_ms then
        Inr (map (\<lambda>a. if 0 < a then atr ! (a - 1) else NaN) first, map (\<lambda>a. atr ! a) first)
      else case atr_period of None \<Rightarrow> Inl PyAssertionError
        | Some period \<Rightarrow>
            (let prev = map (\<lambda>a. atr ! a) first; b = (\<lambda>k. bucket_of time_ms tf (first ! k));
                 adjacent = (\<lambda>k. 0 < k \<and> b k - b (k - 1) = 1);
                 recurred = (\<lambda>k. if adjacent k
                   then fdiv (fadd (fmul (prev ! k) (f64_of_int (period - 1))) (true_range_of cs k)) (f64_of_int period) else NaN) in
             Inr (prev, map (\<lambda>k. if Suc k < n \<and> adjacent (Suc k) then prev ! Suc k else recurred k) [0 ..< n])))"

text \<open>The value on one bar, from the candles, their normalised bodies and their ATRs.\<close>

definition candle_at ::
  "side_episode \<Rightarrow> int list \<Rightarrow> int \<Rightarrow> int \<Rightarrow> f64 list \<Rightarrow> f64 list \<Rightarrow> candle list \<Rightarrow> (f64 list \<times> f64 list) option \<Rightarrow> f64 \<Rightarrow>
     f64 list \<Rightarrow> string \<Rightarrow> nat \<Rightarrow> f64" where
  "candle_at e time_ms tf base_ms opens close cs atrs sign full leg t =
     (case leg_range e leg t of (v, b, z) \<Rightarrow>
      let ob = ordinal time_ms tf b; oz = ordinal time_ms tf z;
          closed = (bucket_of time_ms tf z + 1) * tf \<le> time_ms ! z + base_ms;
          own = (\<lambda>k. map_option (\<lambda>p. snd p ! k) atrs);
          last_atr = (if closed then own oz else map_option (\<lambda>p. fst p ! oz) atrs);
          single = normalised (fmul sign (fsub (close ! z) (opens ! b))) last_atr;
          first = normalised (fmul sign (fsub (cd_close (cs ! ob)) (opens ! b))) (own ob);
          last = normalised (fmul sign (fsub (close ! z) (cd_open (cs ! oz)))) last_atr;
          result = (if ob = oz then single else np_maximum first last) in
      if \<not> v then NaN
      else if ob + 2 \<le> oz then np_maximum result (window_extreme full (ob + 1) (oz - 1) True) else result)"

definition candle_values ::
  "side_episode \<Rightarrow> int list \<Rightarrow> f64 list \<Rightarrow> f64 list \<Rightarrow> f64 list \<Rightarrow> f64 list \<Rightarrow> int \<Rightarrow> int \<Rightarrow> string \<Rightarrow> string \<Rightarrow> string \<Rightarrow>
     f64 list option \<Rightarrow> int option \<Rightarrow> f64 list res" where
  "candle_values e time_ms opens high low close tf base_ms leg direction sd atr atr_period =
     (if time_ms = [] then Inr []
      else (let cs = candles time_ms tf opens high low close;
                sign = (if (direction = ''with'') = (sd = ''long'') then Fin 1 else Fin (- 1)) in
        bindR (case atr of None \<Rightarrow> Inr None
               | Some xs \<Rightarrow> bindR (candle_atrs time_ms tf base_ms cs xs atr_period) (\<lambda>p. Inr (Some p))) (\<lambda>atrs.
        (let full = map (\<lambda>k. normalised (fmul sign (fsub (cd_close (cs ! k)) (cd_open (cs ! k))))
                       (map_option (\<lambda>p. snd p ! k) atrs)) [0 ..< length cs] in
         Inr (map (candle_at e time_ms tf base_ms opens close cs atrs sign full leg) [0 ..< length time_ms])))))"

section \<open>The forming candle\<close>

text \<open>The first bar of the run of bars of one bucket that a bar belongs to.\<close>

fun run_start :: "int list \<Rightarrow> int \<Rightarrow> nat \<Rightarrow> nat" where
  "run_start time_ms tf 0 = 0"
| "run_start time_ms tf (Suc t) = (if starts_bucket time_ms tf (Suc t) then Suc t else run_start time_ms tf t)"

definition forming_body_at :: "side_episode \<Rightarrow> int list \<Rightarrow> f64 list \<Rightarrow> f64 list \<Rightarrow> int \<Rightarrow> f64 list \<Rightarrow> nat \<Rightarrow> f64" where
  "forming_body_at e time_ms opens close tf atr t =
     (if fst (touch_point e t) \<and> isfinite (atr ! t) \<and> flt (Fin 0) (atr ! t)
      then fdiv (fmul (if se_side e = ''long'' then Fin 1 else Fin (- 1)) (fsub (close ! t) (opens ! run_start time_ms tf t))) (atr ! t)
      else NaN)"

record range_state =
  rg_bucket :: int
  rg_valid :: bool
  rg_hi :: f64
  rg_lo :: f64
  rg_atr :: f64

definition range_bar ::
  "int list \<Rightarrow> f64 list \<Rightarrow> f64 list \<Rightarrow> f64 list \<Rightarrow> int \<Rightarrow> int \<Rightarrow> range_state \<Rightarrow> nat \<Rightarrow> range_state \<times> f64" where
  "range_bar time_ms high low atr tf base_ms st i =
     (let stamp = time_ms ! i; bucket = stamp div tf; fresh = (bucket \<noteq> rg_bucket st);
          v0 = (if fresh then stamp mod tf = 0 else if 0 < i \<and> stamp - time_ms ! (i - 1) \<noteq> base_ms then False else rg_valid st);
          hi0 = (if fresh then Inf True else rg_hi st); lo0 = (if fresh then Inf False else rg_lo st);
          den = (if fresh then atr ! i else rg_atr st);
          v = (v0 \<and> isfinite (high ! i) \<and> isfinite (low ! i));
          hi1 = (if v then py_max hi0 (high ! i) else hi0); lo1 = (if v then py_min lo0 (low ! i) else lo0) in
      (\<lparr>rg_bucket = bucket, rg_valid = v, rg_hi = hi1, rg_lo = lo1, rg_atr = den\<rparr>,
       if v \<and> isfinite den \<and> flt (Fin 0) den then fdiv (fsub hi1 lo1) den else NaN))"

definition forming_range_values :: "int list \<Rightarrow> f64 list \<Rightarrow> f64 list \<Rightarrow> f64 list \<Rightarrow> int \<Rightarrow> int \<Rightarrow> f64 list" where
  "forming_range_values time_ms high low atr tf base_ms =
     snd (scan (range_bar time_ms high low atr tf base_ms)
       \<lparr>rg_bucket = - 1, rg_valid = False, rg_hi = NaN, rg_lo = NaN, rg_atr = NaN\<rparr> [0 ..< length time_ms])"

definition forming_candle_values ::
  "side_episode \<Rightarrow> int list \<Rightarrow> f64 list \<Rightarrow> f64 list \<Rightarrow> int \<Rightarrow> f64 list \<Rightarrow> string \<Rightarrow> (f64 list \<times> f64 list \<times> int) option \<Rightarrow> f64 list res" where
  "forming_candle_values e time_ms opens close tf atr field range_inputs =
     (if field = ''range'' then
        (case range_inputs of
           None \<Rightarrow> Inl (PyValueError ''range requires high, low and base_ms'')
         | Some (high, low, base_ms) \<Rightarrow>
             Inr (map2 (\<lambda>t x. if fst (touch_point e t) then x else NaN) [0 ..< length time_ms]
                    (forming_range_values time_ms high low atr tf base_ms)))
      else Inr (map (forming_body_at e time_ms opens close tf atr) [0 ..< length time_ms]))"

end
