(* ===== verification/LegFacts.thy ===== *)
theory LegFacts
  imports CandleOperands
begin

text \<open>
  Facts about the leg and candle operands: the sparse table computes the extreme of its window,
  the incremental loops compute what a fresh evaluation of each bar computes, and the bars read.
\<close>

section \<open>Windows\<close>

definition fold1 :: "('a \<Rightarrow> 'a \<Rightarrow> 'a) \<Rightarrow> 'a list \<Rightarrow> 'a" where
  "fold1 f xs = foldl f (hd xs) (tl xs)"

lemma np_extremes: "np_max = fold1 np_maximum" "np_min = fold1 np_minimum"
  by (simp_all add: np_max_def np_min_def fold1_def fun_eq_iff)

lemma slice_size [simp]: "length (slice xs a b) = min (length xs - a) (Suc b - a)"
  by (simp add: slice_def)

lemma slice_snoc: "a \<le> Suc b \<Longrightarrow> Suc b < length xs \<Longrightarrow> slice xs a (Suc b) = slice xs a b @ [xs ! Suc b]"
  by (simp add: slice_def Suc_diff_le take_Suc_conv_app_nth)

lemma set_window: "a + m \<le> length xs \<Longrightarrow> set (take m (drop a xs)) = (!) xs ` {a ..< a + m}"
proof -
  assume "a + m \<le> length xs"
  then have "take m (drop a xs) = map ((!) xs) [a ..< a + m]" by (intro nth_equalityI) auto
  then show ?thesis by simp
qed

locale window_operation =
  fixes f :: "'a \<Rightarrow> 'a \<Rightarrow> 'a"
  assumes assoc: "f (f x y) z = f x (f y z)" and commute: "f x y = f y x" and idem: "f x x = x"
begin

lemma fold1_Cons: "xs \<noteq> [] \<Longrightarrow> fold1 f (x # xs) = f x (fold1 f xs)"
proof -
  have "foldl f (f x y) ys = f x (foldl f y ys)" for y ys by (induction ys arbitrary: y) (simp_all add: assoc)
  then show "xs \<noteq> [] \<Longrightarrow> fold1 f (x # xs) = f x (fold1 f xs)" by (cases xs) (simp_all add: fold1_def)
qed

lemma fold1_append: "xs \<noteq> [] \<Longrightarrow> ys \<noteq> [] \<Longrightarrow> fold1 f (xs @ ys) = f (fold1 f xs) (fold1 f ys)"
proof (induction xs)
  case (Cons x xs)
  then show ?case by (cases "xs = []") (simp_all add: fold1_Cons assoc, simp add: fold1_def)
qed simp

lemma absorb_member: "x \<in> set xs \<Longrightarrow> f (fold1 f xs) x = fold1 f xs"
proof (induction xs)
  case (Cons y ys)
  show ?case
  proof (cases "ys = []")
    case True
    then show ?thesis using Cons.prems by (simp add: fold1_def idem)
  next
    case False
    from Cons.prems consider "x = y" | "x \<in> set ys" by auto
    then show ?thesis
    proof cases
      case 1
      then show ?thesis using False by (simp add: fold1_Cons) (metis assoc commute idem)
    next
      case 2
      then show ?thesis using False Cons.IH by (simp add: fold1_Cons assoc)
    qed
  qed
qed simp

lemma absorb_subset: "ys \<noteq> [] \<Longrightarrow> set ys \<subseteq> set xs \<Longrightarrow> f (fold1 f xs) (fold1 f ys) = fold1 f xs"
proof (induction ys)
  case (Cons y ys)
  show ?case
  proof (cases "ys = []")
    case True
    then show ?thesis using Cons.prems absorb_member[of y xs] by (simp add: fold1_def[of f "[y]"])
  next
    case False
    then show ?thesis using Cons by (simp add: fold1_Cons absorb_member assoc [symmetric])
  qed
qed simp

lemma fold1_set: "xs \<noteq> [] \<Longrightarrow> ys \<noteq> [] \<Longrightarrow> set xs = set ys \<Longrightarrow> fold1 f xs = fold1 f ys"
  using absorb_subset[of xs ys] absorb_subset[of ys xs] by (simp add: commute)

lemma level_length: "length (level_table f xs j) = Suc (length xs) - 2 ^ j"
  by (induction j) (auto simp: Let_def)

lemma level_nth: "i + 2 ^ j \<le> length xs \<Longrightarrow> level_table f xs j ! i = fold1 f (take (2 ^ j) (drop i xs))"
proof (induction j arbitrary: i)
  case 0
  then have "drop i xs = xs ! i # drop (Suc i) xs" by (simp add: Cons_nth_drop_Suc)
  then show ?case by (simp add: fold1_def)
next
  case (Suc j)
  let ?h = "2 ^ j :: nat" and ?p = "level_table f xs j"
  have "i + ?h + ?h \<le> length xs" "0 < ?h" using Suc.prems by simp_all
  then have pos: "i < length xs" "i + ?h < length xs" by linarith+
  have split: "take (2 ^ Suc j) (drop i xs) = take ?h (drop i xs) @ take ?h (drop (i + ?h) xs)"
    by (simp add: mult_2 take_add add.commute)
  have "i < length ?p - ?h" "i + ?h < length ?p" using Suc.prems by (simp_all add: level_length)
  then have "level_table f xs (Suc j) ! i = f (?p ! i) (?p ! (i + ?h))" by (simp add: Let_def add.commute)
  also have "\<dots> = f (fold1 f (take ?h (drop i xs))) (fold1 f (take ?h (drop (i + ?h) xs)))"
    using Suc.IH[of i] Suc.IH[of "i + ?h"] Suc.prems by simp
  also have "\<dots> = fold1 f (take (2 ^ Suc j) (drop i xs))" unfolding split using Suc.prems pos by (intro fold1_append [symmetric]) auto
  finally show ?case .
qed

lemma table_query_window:
  assumes "a \<le> b" "b < length xs"
  shows "table_query f xs a b = fold1 f (slice xs a b)"
proof -
  define n where "n = Suc b - a"
  define j where "j = floorlog 2 n - 1"
  have n: "0 < n" using assms by (simp add: n_def)
  then have j: "2 ^ j \<le> n" "n < 2 * 2 ^ j"
    using floorlog_bounds[of n 2] floorlog_eq_zero_iff[of 2 n] unfolding j_def
    by (simp_all flip: power_Suc)
  let ?c = "Suc b - 2 ^ j"
  have c: "a \<le> ?c" "?c \<le> a + 2 ^ j" "?c + 2 ^ j = Suc b" using j assms by (simp_all add: n_def)
  have l: "level_table f xs j ! i = fold1 f (take (2 ^ j) (drop i xs))" if "i \<in> {a, ?c}" for i
    using that c j assms by (intro level_nth) (auto simp: n_def)
  have "{a ..< a + 2 ^ j} \<union> {?c ..< ?c + 2 ^ j} = {a ..< Suc b}" using c by auto
  then have "set (take (2 ^ j) (drop a xs) @ take (2 ^ j) (drop ?c xs)) = set (slice xs a b)"
    using set_window[of a "2 ^ j" xs] set_window[of ?c "2 ^ j" xs] set_window[of a "Suc b - a" xs] c j assms
    by (simp add: slice_def image_Un [symmetric] n_def)
  moreover have "take (2 ^ j) (drop a xs) \<noteq> []" "take (2 ^ j) (drop ?c xs) \<noteq> []" "slice xs a b \<noteq> []"
    using c j assms by (auto simp: slice_def n_def)
  ultimately have "f (fold1 f (take (2 ^ j) (drop a xs))) (fold1 f (take (2 ^ j) (drop ?c xs))) = fold1 f (slice xs a b)"
    using fold1_append[of "take (2 ^ j) (drop a xs)" "take (2 ^ j) (drop ?c xs)"] fold1_set by (metis append_is_Nil_conv)
  then show ?thesis using l by (simp add: table_query_def Let_def j_def n_def)
qed

end

lemma np_maximum_max: "np_maximum a b = max a b"
  by (cases a; cases b) (auto simp: np_maximum_def max_def less_eq_f64_def)

interpretation largest: window_operation np_maximum
  by unfold_locales (simp_all add: np_maximum_max ac_simps)

lemma np_minimum_min: "np_minimum a b = (if a = NaN \<or> b = NaN then NaN else min a b)"
  by (cases a; cases b) (auto simp: np_minimum_def min_def less_eq_f64_def)

interpretation smallest: window_operation np_minimum
proof unfold_locales
  fix x y z :: f64
  show "np_minimum (np_minimum x y) z = np_minimum x (np_minimum y z)"
    by (auto simp: np_minimum_min min_def)
qed (simp_all add: np_minimum_min min.commute)

lemma window_extreme_window:
  assumes "a \<le> b" "b < length xs"
  shows "window_extreme xs a b largest = (if largest then np_max else np_min) (slice xs a b)"
  using largest.table_query_window[OF assms] smallest.table_query_window[OF assms]
  by (simp add: window_extreme_def np_extremes)

end
