(* ===== verification/LegLoops.thy ===== *)
theory LegLoops
  imports LegFacts "HOL-Library.Multiset"
begin

text \<open>
  The loops of the leg operands against a fresh evaluation of every bar: the pullback depth, the
  mean of the largest values, and the candles of a leg; and the bars the other operands read.
\<close>

section \<open>Loops with state\<close>

lemma scan_map:
  assumes "I s" "\<And>s x s' y. I s \<Longrightarrow> x \<in> set xs \<Longrightarrow> f s x = (s', y) \<Longrightarrow> I s' \<and> y = g x"
  shows "snd (scan f s xs) = map g xs"
  using assms
proof (induction xs arbitrary: s)
  case (Cons x xs)
  obtain s' y where f: "f s x = (s', y)" by (cases "f s x")
  have 1: "I s' \<and> y = g x" by (rule Cons.prems(2)[OF Cons.prems(1) _ f]) simp
  have "snd (scan f s' xs) = map g xs"
  proof (rule Cons.IH)
    show "I s'" using 1 by simp
    fix a x' b c assume "I a" "x' \<in> set xs" "f a x' = (b, c)"
    then show "I b \<and> c = g x'" using Cons.prems(2)[of a x' b c] by simp
  qed
  then show ?case using f 1 by (simp add: split_beta)
qed simp

lemma mapS_mapR:
  assumes "I s"
    and "\<And>s x. I s \<Longrightarrow> x \<in> set xs \<Longrightarrow> (case f s x of Inl e \<Rightarrow> g x = Inl e | Inr (s', y) \<Rightarrow> I s' \<and> g x = Inr y)"
  shows "bindR (mapS f s xs) (\<lambda>(s', ys). Inr ys) = mapR g xs"
  using assms
proof (induction xs arbitrary: s)
  case (Cons x xs)
  have step: "case f s x of Inl e \<Rightarrow> g x = Inl e | Inr (s', y) \<Rightarrow> I s' \<and> g x = Inr y"
    by (rule Cons.prems(2)[OF Cons.prems(1)]) simp
  show ?case
  proof (cases "f s x")
    case (Inl e)
    then show ?thesis using step by simp
  next
    case (Inr r)
    obtain s' y where r: "r = (s', y)" by (cases r)
    have "mapR g xs = bindR (mapS f s' xs) (\<lambda>(s', ys). Inr ys)"
      by (rule Cons.IH [symmetric]) (use step Inr r Cons.prems(2) in auto)
    then show ?thesis using step Inr r by (cases "mapS f s' xs") auto
  qed
qed simp

section \<open>The wave\<close>

lemma touch_point_bars:
  assumes "touch_point e t = (v, a, p)"
  shows "a \<le> p" "p \<le> t" "a \<le> t"
  using assms by (auto simp: touch_point_def Let_def split: if_splits)

lemma leg_range_bars:
  assumes "leg_range e leg t = (v, b, z)"
  shows "b \<le> z" "z \<le> t"
  using assms touch_point_bars[of e t] by (auto simp: leg_range_def Let_def split: prod.splits if_splits)

section \<open>Pullback depth\<close>

text \<open>The depth of the current pullback evaluated afresh on a bar, and of the previous one.\<close>

definition depth_reference :: "side_episode \<Rightarrow> f64 list \<Rightarrow> string \<Rightarrow> nat \<Rightarrow> f64" where
  "depth_reference e prices touch t =
     (case touch_point e t of (v, a, p) \<Rightarrow>
      let long = (se_side e = ''long''); row = touch_row_at e t in
      if touch = ''previous'' then (if v \<and> fge (touch_number_at e t) (Fin 2) then previous_depth e prices row else NaN)
      else if v then depth_share (if long then Fin 1 else Fin (- 1)) (se_touches e ! row) (window_end long (slice prices p t))
      else NaN)"

definition no_infinity :: "f64 list \<Rightarrow> bool" where
  "no_infinity xs \<longleftrightarrow> list_all (\<lambda>x. isfinite x \<or> x = NaN) xs"

definition same_extreme :: "f64 \<Rightarrow> f64 \<Rightarrow> bool" where
  "same_extreme x w \<longleftrightarrow> (isfinite x \<longleftrightarrow> isfinite w) \<and> (isfinite x \<longrightarrow> x = w)"

lemma depth_share_same: "same_extreme x w \<Longrightarrow> depth_share g r x = depth_share g r w"
  unfolding depth_share_def Let_def same_extreme_def by (cases "isfinite x") simp_all

lemma window_end_snoc: "xs \<noteq> [] \<Longrightarrow> window_end lowest (xs @ [y]) = (if lowest then np_minimum else np_maximum) (window_end lowest xs) y"
  by (simp add: window_end_def np_min_def np_max_def)

lemma window_end_no_infinity: "xs \<noteq> [] \<Longrightarrow> no_infinity xs \<Longrightarrow> isfinite (window_end lowest xs) \<or> window_end lowest xs = NaN"
proof (induction xs rule: rev_induct)
  case (snoc y xs)
  show ?case
  proof (cases "xs = []")
    case True
    then show ?thesis using snoc.prems by (simp add: window_end_def np_min_def np_max_def no_infinity_def)
  next
    case False
    then show ?thesis using snoc
      by (auto simp: window_end_snoc no_infinity_def np_minimum_def np_maximum_def)
  qed
qed simp

lemma no_infinity_slice: "no_infinity xs \<Longrightarrow> no_infinity (slice xs a b)"
  by (auto simp: no_infinity_def list_all_iff slice_def dest!: in_set_takeD in_set_dropD)

lemma extreme_extends:
  assumes "same_extreme x (window_end lowest ws)" "ws \<noteq> []" "no_infinity ws" "isfinite y \<or> y = NaN"
  shows "same_extreme (if isfinite x \<and> isfinite y then (if lowest then py_min else py_max) x y else NaN) (window_end lowest (ws @ [y]))"
proof (cases "isfinite x")
  case True
  then have "window_end lowest ws = x" using assms(1) by (simp add: same_extreme_def)
  then show ?thesis using assms(4) True
    by (cases x; cases y) (simp_all add: window_end_snoc[OF assms(2)] same_extreme_def py_min_def py_max_def np_minimum_def np_maximum_def)
next
  case False
  then have "window_end lowest ws = NaN"
    using assms(1) window_end_no_infinity[OF assms(2,3), of lowest] by (auto simp: same_extreme_def)
  then show ?thesis using False by (simp add: window_end_snoc[OF assms(2)] same_extreme_def np_minimum_def np_maximum_def)
qed

definition depth_inv :: "side_episode \<Rightarrow> f64 list \<Rightarrow> depth_state \<Rightarrow> bool" where
  "depth_inv e prices st \<longleftrightarrow> dp_t st = - 1 \<or>
     (\<exists>p t. dp_peak st = int p \<and> dp_t st = int t \<and> p \<le> t \<and> t < length prices \<and>
        same_extreme (dp_ext st) (window_end (se_side e = ''long'') (slice prices p t)))"

lemma depth_bar_step:
  assumes inv: "depth_inv e prices st" "dp_t st = - 1 \<longrightarrow> dp_peak st = - 1" and t: "t < length prices" "no_infinity prices"
    and step: "depth_bar e prices st t = (st', y)"
  shows "depth_inv e prices st' \<and> (dp_t st' = - 1 \<longrightarrow> dp_peak st' = - 1) \<and> y = depth_reference e prices ''current'' t"
proof -
  obtain v a p where tp: "touch_point e t = (v, a, p)" by (cases "touch_point e t")
  note bars = touch_point_bars[OF tp]
  let ?long = "se_side e = ''long''"
  define ext where "ext = (if int p = dp_peak st \<and> int t = dp_t st + 1
      then (if isfinite (dp_ext st) \<and> isfinite (prices ! t) then (if ?long then py_min else py_max) (dp_ext st) (prices ! t) else NaN)
      else window_end ?long (slice prices p t))"
  have ext: "same_extreme ext (window_end ?long (slice prices p t))"
  proof (cases "int p = dp_peak st \<and> int t = dp_t st + 1")
    case True
    then have "dp_t st \<noteq> - 1" using inv(2) by auto
    then obtain u where u': "int p = dp_peak st" "int t = int u + 1" "p \<le> u" "same_extreme (dp_ext st) (window_end ?long (slice prices p u))"
      using inv(1) True by (auto simp: depth_inv_def)
    then have u: "t = Suc u" "p \<le> u" "same_extreme (dp_ext st) (window_end ?long (slice prices p u))" by simp_all
    have ne: "slice prices p u \<noteq> []" by (rule slice_nonempty) (use u t in simp_all)
    have y: "isfinite (prices ! t) \<or> prices ! t = NaN" using t by (simp add: no_infinity_def list_all_length)
    have sn: "slice prices p t = slice prices p u @ [prices ! t]" unfolding u(1) by (rule slice_snoc) (use u t in simp_all)
    show ?thesis using extreme_extends[OF u(3) ne no_infinity_slice[OF t(2)] y] True unfolding ext_def sn by simp
  next
    case False
    then have "ext = window_end ?long (slice prices p t)" unfolding ext_def by (rule if_not_P)
    then show ?thesis by (simp add: same_extreme_def)
  qed
  show ?thesis
  proof (cases v)
    case False
    then show ?thesis using step tp inv by (simp add: depth_bar_def depth_reference_def Let_def)
  next
    case True
    let ?g = "if ?long then Fin 1 else Fin (- 1)" and ?r = "se_touches e ! touch_row_at e t"
    have "st' = \<lparr>dp_peak = int p, dp_t = int t, dp_ext = ext\<rparr>" "y = depth_share ?g ?r ext"
      using step tp True by (auto simp: depth_bar_def Let_def ext_def)
    moreover have "depth_share ?g ?r ext = depth_reference e prices ''current'' t"
      using depth_share_same[OF ext, of ?g ?r] tp True by (simp add: depth_reference_def Let_def)
    ultimately show ?thesis using bars t(1) ext by (auto simp: depth_inv_def)
  qed
qed

lemma previous_bar_step:
  assumes "\<forall>k x. map_of cache k = Some x \<longrightarrow> x = previous_depth e prices k" "previous_bar e prices cache t = (cache', y)"
  shows "(\<forall>k x. map_of cache' k = Some x \<longrightarrow> x = previous_depth e prices k) \<and> y = depth_reference e prices ''previous'' t"
  using assms by (auto simp: previous_bar_def depth_reference_def Let_def split: if_splits option.splits prod.splits)

lemma depth_values:
  assumes "no_infinity (if se_side e = ''long'' then low else high)"
    "length (se_rows e) \<le> length (if se_side e = ''long'' then low else high)" "touch = ''current'' \<or> touch = ''previous''"
  shows "pullback_depth_values e low high touch =
    map (depth_reference e (if se_side e = ''long'' then low else high) touch) [0 ..< length (se_rows e)]"
proof (cases "touch = ''previous''")
  case True
  let ?prices = "if se_side e = ''long'' then low else high"
  have "snd (scan (previous_bar e ?prices) [] [0 ..< length (se_rows e)]) =
      map (depth_reference e ?prices ''previous'') [0 ..< length (se_rows e)]"
    by (rule scan_map[where I = "\<lambda>c. \<forall>k x. map_of c k = Some x \<longrightarrow> x = previous_depth e ?prices k"])
      (simp, rule previous_bar_step)
  then show ?thesis using True by (simp add: pullback_depth_values_def Let_def)
next
  case False
  let ?prices = "if se_side e = ''long'' then low else high"
  have "snd (scan (depth_bar e ?prices) \<lparr>dp_peak = - 1, dp_t = - 1, dp_ext = NaN\<rparr> [0 ..< length (se_rows e)]) =
      map (depth_reference e ?prices ''current'') [0 ..< length (se_rows e)]"
  proof (rule scan_map[where I = "\<lambda>st. depth_inv e ?prices st \<and> (dp_t st = - 1 \<longrightarrow> dp_peak st = - 1)"])
    fix s x s' y assume "depth_inv e ?prices s \<and> (dp_t s = - 1 \<longrightarrow> dp_peak s = - 1)" "x \<in> set [0 ..< length (se_rows e)]"
      "depth_bar e ?prices s x = (s', y)"
    then show "(depth_inv e ?prices s' \<and> (dp_t s' = - 1 \<longrightarrow> dp_peak s' = - 1)) \<and> y = depth_reference e ?prices ''current'' x"
      using depth_bar_step[of e ?prices s x s' y] assms(1,2) by simp
  qed (simp add: depth_inv_def)
  then show ?thesis using False assms(3) by (simp add: pullback_depth_values_def Let_def)
qed

section \<open>Mean of the largest values\<close>

definition top_reference :: "side_episode \<Rightarrow> f64 list \<Rightarrow> string \<Rightarrow> f64 \<Rightarrow> nat \<Rightarrow> f64 res" where
  "top_reference e xs leg share t =
     (case leg_range e leg t of (v, b, z) \<Rightarrow>
      if v \<and> list_all isfinite (slice xs b z) then top_mean (sort (slice xs b z)) share else Inr NaN)"

lemma bad_slice:
  assumes "b \<le> z" "z < length xs"
  shows "bad_before xs (Suc z) - bad_before xs b = 0 \<longleftrightarrow> list_all isfinite (slice xs b z)"
proof -
  have "take (Suc z) xs = take b xs @ slice xs b z"
    using take_add[of b "Suc z - b" xs] assms(1) by (simp add: slice_def)
  then have "bad_before xs (Suc z) = bad_before xs b + int (length (filter (\<lambda>x. \<not> isfinite x) (slice xs b z)))"
    by (simp add: bad_before_def)
  then show ?thesis by (simp add: filter_empty_conv list_all_iff)
qed

lemma sort_snoc: "sort (xs @ [x]) = insort x (sort xs)"
  by (rule properties_for_sort) (simp_all add: sorted_insort)

definition top_inv :: "f64 list \<Rightarrow> f64 \<Rightarrow> top_state \<Rightarrow> bool" where
  "top_inv xs share st \<longleftrightarrow>
     (\<forall>b z m. map_of (tm_cache st) (b, z) = Some m \<longrightarrow> top_mean (sort (slice xs b z)) share = Inr m) \<and>
     (tm_begin st = - 1 \<or> (\<exists>b z. tm_begin st = int b \<and> tm_end st = int z \<and> b \<le> z \<and> tm_window st = sort (slice xs b z)))"

lemma top_bar_step:
  assumes inv: "top_inv xs share st" and t: "t < length xs"
  shows "case top_bar e xs leg share st t of Inl err \<Rightarrow> top_reference e xs leg share t = Inl err
    | Inr (st', y) \<Rightarrow> top_inv xs share st' \<and> top_reference e xs leg share t = Inr y"
proof -
  obtain v a p where tp: "touch_point e t = (v, a, p)" by (cases "touch_point e t")
  note bars = touch_point_bars[OF tp]
  define b where "b = (if leg = ''impulse'' then a else Suc p)"
  define z where "z = (if leg = ''impulse'' then p else t)"
  consider (none) "\<not> v \<or> leg \<noteq> ''impulse'' \<and> z < b" | (leg) "v" "b \<le> z" unfolding b_def z_def using bars by (cases v; cases "leg = ''impulse''"; cases "t < Suc p") simp_all
  then show ?thesis
  proof cases
    case none
    then show ?thesis using tp inv by (auto simp: top_bar_def top_reference_def leg_range_def Let_def b_def z_def)
  next
    case leg
    have z: "z < length xs" using bars t by (simp add: z_def)
    have range: "leg_range e leg t = (True, b, z)" using tp leg by (auto simp: leg_range_def Let_def b_def z_def)
    let ?w = "if int b = tm_begin st \<and> int z = tm_end st + 1 then insort (xs ! z) (tm_window st) else sort (slice xs b z)"
    have w: "?w = sort (slice xs b z)"
    proof (cases "int b = tm_begin st \<and> int z = tm_end st + 1")
      case True
      then obtain u where u': "int z = int u + 1" "b \<le> u" "tm_window st = sort (slice xs b u)"
        using inv by (auto simp: top_inv_def)
      then have u: "z = Suc u" "b \<le> u" "tm_window st = sort (slice xs b u)" by simp_all
      have "slice xs b z = slice xs b u @ [xs ! z]" unfolding u(1) by (rule slice_snoc) (use u z in simp_all)
      then show ?thesis using True u(3) by (simp add: sort_snoc)
    next
      case False
      then show ?thesis by (rule if_not_P)
    qed
    note ref = top_reference_def[of e xs leg share t] and bad = bad_slice[OF leg(2) z]
    show ?thesis
    proof (cases "list_all isfinite (slice xs b z)")
      case False
      then show ?thesis using tp leg bad inv range by (simp add: ref top_bar_def Let_def b_def [symmetric] z_def [symmetric])
    next
      case True
      then have r: "top_reference e xs leg share t = top_mean (sort (slice xs b z)) share" using range by (simp add: ref)
      have bar: "top_bar e xs leg share st t =
          (if leg = ''impulse'' then
             (case map_of (tm_cache st) (b, z) of Some m \<Rightarrow> Inr (st, m)
              | None \<Rightarrow> bindR (top_mean (sort (slice xs b z)) share) (\<lambda>m. Inr (st\<lparr>tm_cache := ((b, z), m) # tm_cache st\<rparr>, m)))
           else bindR (top_mean ?w share) (\<lambda>m. Inr (st\<lparr>tm_window := ?w, tm_begin := int b, tm_end := int z\<rparr>, m)))"
        by (cases "leg = ''impulse''") (use tp leg bad True in \<open>simp_all add: top_bar_def Let_def b_def z_def split: option.split\<close>)
      show ?thesis unfolding bar w r using inv leg(2)
        by (cases "top_mean (sort (slice xs b z)) share") (auto simp: top_inv_def split: option.splits)
    qed
  qed
qed

lemma top_values: "leg_top_mean_values e xs leg share = mapR (top_reference e xs leg share) [0 ..< length xs]"
  unfolding leg_top_mean_values_def
proof (rule mapS_mapR[where I = "top_inv xs share"])
  fix s t assume "top_inv xs share s" "t \<in> set [0 ..< length xs]"
  then show "case top_bar e xs leg share s t of Inl err \<Rightarrow> top_reference e xs leg share t = Inl err
    | Inr (st', y) \<Rightarrow> top_inv xs share st' \<and> top_reference e xs leg share t = Inr y"
    by (intro top_bar_step) simp_all
qed (simp add: top_inv_def)

end
