(* ===== verification/CandleFacts.thy ===== *)
theory CandleFacts
  imports LegLoops
begin

text \<open>
  The candles of a leg: base bars fall into the buckets between the first and the last bars, and
  the largest body computed with clipped ends and the sparse table is the largest over all candles
  that the bars of the leg build.
\<close>

section \<open>Buckets\<close>

declare upt_Suc [simp del]

lemma first_bars_split:
  assumes "i < length time_ms"
  shows "first_bars time_ms tf = filter (starts_bucket time_ms tf) [0 ..< Suc i] @ filter (starts_bucket time_ms tf) [Suc i ..< length time_ms]"
proof -
  have "[0 ..< Suc i + (length time_ms - Suc i)] = [0 ..< Suc i] @ [Suc i ..< Suc i + (length time_ms - Suc i)]"
    by (rule upt_add_eq_append) simp
  then have "[0 ..< length time_ms] = [0 ..< Suc i] @ [Suc i ..< length time_ms]"
    using le_add_diff_inverse[of "Suc i" "length time_ms"] assms by (simp only: Suc_leI)
  then show ?thesis unfolding first_bars_def by (simp only: filter_append)
qed

lemma prefix_nonempty: "filter (starts_bucket time_ms tf) [0 ..< Suc i] \<noteq> []"
proof -
  have "0 \<in> set (filter (starts_bucket time_ms tf) [0 ..< Suc i])" by (simp add: starts_bucket_def)
  then show ?thesis by (metis empty_iff empty_set)
qed

lemma sorted_firsts: "sorted_wrt (<) (first_bars time_ms tf)"
  unfolding first_bars_def by (rule sorted_wrt_filter) simp

lemma ordinal_bound: "i < length time_ms \<Longrightarrow> ordinal time_ms tf i < length (first_bars time_ms tf)"
  using first_bars_split[of i time_ms tf] prefix_nonempty[of time_ms tf i]
  by (cases "filter (starts_bucket time_ms tf) [0 ..< Suc i]") (simp_all add: ordinal_def)

lemma first_le:
  assumes "i < length time_ms"
  shows "first_bars time_ms tf ! ordinal time_ms tf i \<le> i"
proof -
  let ?p = "filter (starts_bucket time_ms tf) [0 ..< Suc i]"
  have "first_bars time_ms tf ! ordinal time_ms tf i = last ?p"
    using first_bars_split[OF assms] prefix_nonempty[of time_ms tf i] by (simp add: ordinal_def nth_append last_conv_nth)
  moreover have "last ?p \<in> set ?p" using prefix_nonempty[of time_ms tf i] by (rule last_in_set)
  ultimately show ?thesis by (metis atLeastLessThan_iff filter_is_subset less_Suc_eq_le set_upt subsetD)
qed

lemma next_first:
  assumes "i < length time_ms" "Suc (ordinal time_ms tf i) \<le> k" "k < length (first_bars time_ms tf)"
  shows "i < first_bars time_ms tf ! k"
proof -
  let ?p = "filter (starts_bucket time_ms tf) [0 ..< Suc i]" and ?q = "filter (starts_bucket time_ms tf) [Suc i ..< length time_ms]"
  have "length ?p \<le> k" using assms(2) prefix_nonempty[of time_ms tf i] by (cases ?p) (auto simp: ordinal_def)
  then have k: "first_bars time_ms tf ! k = ?q ! (k - length ?p)" "k - length ?p < length ?q"
    using assms(3) first_bars_split[OF assms(1), of tf] by (simp_all add: nth_append)
  have "first_bars time_ms tf ! k \<in> set ?q" unfolding k(1) by (rule nth_mem[OF k(2)])
  then show ?thesis by auto
qed

lemma last_bars_length: "time_ms \<noteq> [] \<Longrightarrow> length (last_bars time_ms tf) = length (first_bars time_ms tf)"
proof -
  assume "time_ms \<noteq> []"
  then have "first_bars time_ms tf \<noteq> []" using ordinal_bound[of 0 time_ms tf] by auto
  then show ?thesis by (simp add: last_bars_def)
qed

lemma last_bars_nth: "k < length (first_bars time_ms tf) \<Longrightarrow> last_bars time_ms tf ! k = (if Suc k < length (first_bars time_ms tf) then first_bars time_ms tf ! Suc k - 1 else length time_ms - 1)"
  by (auto simp: last_bars_def nth_append nth_tl)

lemma last_ge:
  assumes "i < length time_ms"
  shows "i \<le> last_bars time_ms tf ! ordinal time_ms tf i"
  using next_first[OF assms, of tf "Suc (ordinal time_ms tf i)"] ordinal_bound[OF assms, of tf] assms by (auto simp: last_bars_nth)

lemma ordinal_mono: "i \<le> j \<Longrightarrow> ordinal time_ms tf i \<le> ordinal time_ms tf j"
proof -
  assume "i \<le> j"
  then have "[0 ..< Suc j] = [0 ..< Suc i] @ [Suc i ..< Suc j]" using upt_add_eq_append[of 0 "Suc i" "j - i"] by simp
  then show ?thesis by (simp add: ordinal_def del: upt_Suc)
qed

lemma last_le:
  assumes "i < length time_ms" "k < ordinal time_ms tf i"
  shows "last_bars time_ms tf ! k \<le> i"
proof -
  have k: "Suc k < length (first_bars time_ms tf)" using assms(2) ordinal_bound[OF assms(1), of tf] by simp
  have "first_bars time_ms tf ! Suc k \<le> first_bars time_ms tf ! ordinal time_ms tf i"
    using sorted_firsts[of time_ms tf] assms(2) ordinal_bound[OF assms(1), of tf] by (cases "Suc k = ordinal time_ms tf i") (auto simp: sorted_wrt_iff_nth_less less_imp_le)
  then show ?thesis using first_le[OF assms(1), of tf] k by (simp add: last_bars_nth)
qed

declare upt_Suc [simp]

section \<open>The largest body of a leg\<close>

text \<open>
  The candle \<open>k\<close> as the bars of the leg build it: from the later of its first bar and the start of
  the leg to the earlier of its last bar and the end of the leg.  A candle the leg does not close
  is divided by the ATR before it.
\<close>

definition leg_body ::
  "int list \<Rightarrow> int \<Rightarrow> int \<Rightarrow> f64 list \<Rightarrow> f64 list \<Rightarrow> (f64 list \<times> f64 list) option \<Rightarrow> f64 \<Rightarrow> nat \<Rightarrow> nat \<Rightarrow> nat \<Rightarrow> f64" where
  "leg_body time_ms tf base_ms opens close atrs sign b z k =
     (let closed = (k < ordinal time_ms tf z \<or> (bucket_of time_ms tf z + 1) * tf \<le> time_ms ! z + base_ms) in
      normalised (fmul sign (fsub (close ! min z (last_bars time_ms tf ! k)) (opens ! max b (first_bars time_ms tf ! k))))
        (map_option (\<lambda>p. (if closed then snd p else fst p) ! k) atrs))"

definition candle_reference ::
  "side_episode \<Rightarrow> int list \<Rightarrow> int \<Rightarrow> int \<Rightarrow> f64 list \<Rightarrow> f64 list \<Rightarrow> (f64 list \<times> f64 list) option \<Rightarrow> f64 \<Rightarrow> string \<Rightarrow> nat \<Rightarrow> f64" where
  "candle_reference e time_ms tf base_ms opens close atrs sign leg t =
     (case leg_range e leg t of (v, b, z) \<Rightarrow>
      if v then np_max (map (leg_body time_ms tf base_ms opens close atrs sign b z) [ordinal time_ms tf b ..< Suc (ordinal time_ms tf z)])
      else NaN)"

lemma candle_at_reference:
  assumes t: "t < length time_ms" and cs_def: "cs = candles time_ms tf opens high low close"
  shows "candle_at e time_ms tf base_ms opens close cs atrs sign
      (map (\<lambda>k. normalised (fmul sign (fsub (cd_close (cs ! k)) (cd_open (cs ! k)))) (map_option (\<lambda>p. snd p ! k) atrs)) [0 ..< length cs]) leg t =
    candle_reference e time_ms tf base_ms opens close atrs sign leg t"
proof -
  obtain v b z where r: "leg_range e leg t = (v, b, z)" by (cases "leg_range e leg t")
  show ?thesis
  proof (cases v)
    case False
    then show ?thesis by (simp add: candle_at_def candle_reference_def r Let_def)
  next
    case True
    have ne: "time_ms \<noteq> []" using t by auto
    have b: "b \<le> z" "z < length time_ms" "b < length time_ms" using leg_range_bars[OF r] t by simp_all
    let ?ob = "ordinal time_ms tf b" and ?oz = "ordinal time_ms tf z" and ?F = "first_bars time_ms tf" and ?L = "last_bars time_ms tf"
    let ?closed = "(bucket_of time_ms tf z + 1) * tf \<le> time_ms ! z + base_ms"
    let ?body = "leg_body time_ms tf base_ms opens close atrs sign b z"
    have o: "?ob \<le> ?oz" "?oz < length ?F" by (rule ordinal_mono[OF b(1)], rule ordinal_bound[OF b(2)])
    have len: "length cs = length ?F" by (simp add: cs_def candles_def last_bars_length[OF ne])
    have cs: "cd_open (cs ! k) = opens ! (?F ! k)" "cd_close (cs ! k) = close ! (?L ! k)" if "k < length ?F" for k
      using that by (simp_all add: cs_def candles_def last_bars_length[OF ne])
    have up: "max b (?F ! k) = ?F ! k" if "?ob < k" "k \<le> ?oz" for k
      using next_first[OF b(3), of tf k] that o(2) by simp
    have down: "min z (?L ! k) = ?L ! k" if "k < ?oz" for k
      using last_le[OF b(2) that] by simp
    have ends: "max b (?F ! ?ob) = b" "min z (?L ! ?oz) = z"
      using first_le[OF b(3), of tf] last_ge[OF b(2), of tf] by simp_all
    define full where "full = map (\<lambda>k. normalised (fmul sign (fsub (cd_close (cs ! k)) (cd_open (cs ! k)))) (map_option (\<lambda>p. snd p ! k) atrs)) [0 ..< length cs]"
    have mid: "full ! k = ?body k" if "?ob < k" "k < ?oz" for k
      using that o len cs[of k] up[of k] down[of k] by (simp add: full_def leg_body_def Let_def)
    have single: "?body ?oz = normalised (fmul sign (fsub (close ! z) (opens ! b)))
        (if ?closed then map_option (\<lambda>p. snd p ! ?oz) atrs else map_option (\<lambda>p. fst p ! ?oz) atrs)" if "?ob = ?oz"
      using ends that by (simp add: leg_body_def Let_def)
    have first: "?body ?ob = normalised (fmul sign (fsub (cd_close (cs ! ?ob)) (opens ! b))) (map_option (\<lambda>p. snd p ! ?ob) atrs)" if "?ob < ?oz"
      using ends down[OF that] cs[of ?ob] o that by (simp add: leg_body_def Let_def)
    have last: "?body ?oz = normalised (fmul sign (fsub (close ! z) (cd_open (cs ! ?oz))))
        (if ?closed then map_option (\<lambda>p. snd p ! ?oz) atrs else map_option (\<lambda>p. fst p ! ?oz) atrs)" if "?ob < ?oz"
      using ends up[OF that] cs[of ?oz] o by (simp add: leg_body_def Let_def)
    have val: "candle_at e time_ms tf base_ms opens close cs atrs sign full leg t =
        (let result = (if ?ob = ?oz then ?body ?oz else np_maximum (?body ?ob) (?body ?oz)) in
         if ?ob + 2 \<le> ?oz then np_maximum result (window_extreme full (?ob + 1) (?oz - 1) True) else result)"
      using True o single first last by (simp add: candle_at_def r Let_def)
    have ref: "candle_reference e time_ms tf base_ms opens close atrs sign leg t = fold1 np_maximum (map ?body [?ob ..< Suc ?oz])"
      using True by (simp add: candle_reference_def r np_extremes)
    have "candle_at e time_ms tf base_ms opens close cs atrs sign full leg t = fold1 np_maximum (map ?body [?ob ..< Suc ?oz])"
    proof (cases "?ob = ?oz")
      case True
      then show ?thesis by (simp add: val fold1_def)
    next
      case False
      then have lt: "?ob < ?oz" using o by simp
      have list: "[?ob ..< Suc ?oz] = ?ob # [Suc ?ob ..< ?oz] @ [?oz]" using lt by (simp add: upt_rec[of ?ob])
      show ?thesis
      proof (cases "?ob + 2 \<le> ?oz")
        case far: True
        have "slice full (?ob + 1) (?oz - 1) = map ?body [Suc ?ob ..< ?oz]"
        proof (rule nth_equalityI)
          show "length (slice full (?ob + 1) (?oz - 1)) = length (map ?body [Suc ?ob ..< ?oz])"
            using far o len by (simp add: full_def)
          fix i assume "i < length (slice full (?ob + 1) (?oz - 1))"
          then have i: "i < ?oz - Suc ?ob" using far by simp
          then have "slice full (?ob + 1) (?oz - 1) ! i = full ! (Suc ?ob + i)"
            using far o len by (simp add: slice_def full_def)
          then show "slice full (?ob + 1) (?oz - 1) ! i = map ?body [Suc ?ob ..< ?oz] ! i" using mid[of "Suc ?ob + i"] i by simp
        qed
        moreover have "window_extreme full (?ob + 1) (?oz - 1) True = np_max (slice full (?ob + 1) (?oz - 1))"
          using far o len by (subst window_extreme_window) (simp_all add: full_def)
        moreover have "fold1 np_maximum (map ?body [?ob ..< Suc ?oz]) =
            np_maximum (?body ?ob) (np_maximum (fold1 np_maximum (map ?body [Suc ?ob ..< ?oz])) (?body ?oz))"
          unfolding list using far largest.fold1_append[of "map ?body [Suc ?ob ..< ?oz]" "[?body ?oz]"]
          by (simp add: largest.fold1_Cons fold1_def[of _ "[?body ?oz]"])
        ultimately show ?thesis using far False by (simp add: val np_extremes np_maximum_max ac_simps)
      next
        case near: False
        then have "?oz = Suc ?ob" using lt by simp
        then have "[?ob ..< Suc ?oz] = [?ob, ?oz]" by (simp add: upt_rec[of ?ob])
        then show ?thesis using near False by (simp add: val fold1_def)
      qed
    qed
    then show ?thesis using ref by (simp add: full_def)
  qed
qed

end
