(* ===== verification/LegProperties.thy ===== *)
theory LegProperties
  imports CandleFacts EpisodeProperties
begin

text \<open>
  Properties of the operands on the legs of an episode: they never look ahead, and the loops,
  caches and tables they use change nothing of what a fresh evaluation gives.
\<close>

section \<open>Series cut after a bar\<close>

lemma bad_before_take: "i \<le> n \<Longrightarrow> bad_before (take n xs) i = bad_before xs i"
  by (simp add: bad_before_def min_def)

lemma cumsum_take: "i < n \<Longrightarrow> cumsum_at (take n xs) i = cumsum_at xs i"
  by (cases xs; cases n) (simp_all add: cumsum_at_def min_def)

lemma prefix_sum_take: "i \<le> n \<Longrightarrow> prefix_sum (take n xs) i = prefix_sum xs i"
  by (auto simp: prefix_sum_def cumsum_take split: nat.split)

lemma close_steps_length [simp]: "length (close_steps xs) = length xs"
  by (simp add: close_steps_def Let_def)

lemma close_steps_take: "close_steps (take n xs) = take n (close_steps xs)"
proof (rule nth_equalityI)
  fix i assume "i < length (close_steps (take n xs))"
  then have "i < n" "i < length xs" by simp_all
  then show "close_steps (take n xs) ! i = take n (close_steps xs) ! i" by (simp add: close_steps_def Let_def less_imp_diff_less)
qed simp

section \<open>The wave of a cut frame\<close>

lemma table_row_previous: "table_row e i (Fin (of_nat (Suc m))) = table_row e i (Fin (of_nat m)) + 1"
  by (simp add: table_row_def to_int_def del: of_nat_Suc)

lemma current_row_live:
  assumes "sn_touch_number (out_state (se_rows e ! t)) = Fin (of_nat m)" "1 \<le> m"
  shows "current_row e t = table_row e (sn_episode_id (out_state (se_rows e ! t))) (Fin (of_nat m))"
  using assms by (simp add: current_row_def Let_def)

text \<open>What the operands read of the rows of the current touch and of the one before it.\<close>

definition same_wave :: "side_episode \<Rightarrow> side_episode \<Rightarrow> nat \<Rightarrow> bool" where
  "same_wave e e' q \<longleftrightarrow> q < length (se_touches e) \<and> q < length (se_touches e') \<and> (\<exists>sd r r'. se_touches e ! q = side_touch sd r \<and>
     se_touches e' ! q = side_touch sd r' \<and> wave_part r' = wave_part r)"

lemma same_wave_fields:
  assumes "same_wave e e' q"
  shows "origin_bar (se_touches e' ! q) = origin_bar (se_touches e ! q)" "peak_bar (se_touches e' ! q) = peak_bar (se_touches e ! q)"
    "peak_price (se_touches e' ! q) = peak_price (se_touches e ! q)" "origin_price (se_touches e' ! q) = origin_price (se_touches e ! q)"
    "touch_bar (se_touches e' ! q) = touch_bar (se_touches e ! q)"
  using assms by (auto simp: same_wave_def side_touch_def unmirror_touch_def wave_part_def)

lemma live_wave:
  assumes big: "length bs < 2 ^ 53" and n: "n \<le> length bs" "t < n"
    and full: "project_side py_log bs p sd = Inr e" and cut: "project_side py_log (take n bs) p sd = Inr e'"
    and live: "isfinite (touch_number_at e t)" "fge (touch_number_at e t) (Fin 1)"
  obtains q where "current_row e t = int q" "current_row e' t = int q" "same_wave e e' q"
    "fge (touch_number_at e t) (Fin 2) \<Longrightarrow> 1 \<le> q \<and> same_wave e e' (q - 1)"
proof -
  note row = rows_prefix[OF n full cut]
  have "isfinite (sn_touch_number (out_state (se_rows e ! t)))" using live(1) by (simp add: touch_number_at_def)
  then obtain m where m: "sn_touch_number (out_state (se_rows e ! t)) = Fin (of_nat m)"
    and rows: "\<And>x. 1 \<le> x \<Longrightarrow> x \<le> m \<Longrightarrow> \<exists>q r r'.
       table_row e (sn_episode_id (out_state (se_rows e ! t))) (Fin (of_nat x)) = int q \<and>
       table_row e' (sn_episode_id (out_state (se_rows e ! t))) (Fin (of_nat x)) = int q \<and>
       q < length (se_touches e) \<and> q < length (se_touches e') \<and>
       se_touches e ! q = side_touch sd r \<and> se_touches e' ! q = side_touch sd r' \<and>
       wave_part r' = wave_part r \<and> (x \<noteq> m \<longrightarrow> r' = r)"
    using table_row_prefix[OF big n full cut] by blast
  have m1: "1 \<le> m" using live m by (simp add: touch_number_at_def)
  obtain q where q: "table_row e (sn_episode_id (out_state (se_rows e ! t))) (Fin (of_nat m)) = int q"
    "table_row e' (sn_episode_id (out_state (se_rows e ! t))) (Fin (of_nat m)) = int q" "same_wave e e' q"
    using rows[OF m1 order_refl] by (auto simp: same_wave_def)
  have cr: "current_row e t = int q" "current_row e' t = int q"
    using current_row_live[OF m m1] current_row_live[of e' t m] q row m m1 by simp_all
  have "1 \<le> q \<and> same_wave e e' (q - 1)" if "fge (touch_number_at e t) (Fin 2)"
  proof -
    have "2 \<le> m" using that m by (simp add: touch_number_at_def)
    then obtain j where j: "m = Suc j" "1 \<le> j" by (cases m) auto
    obtain q' where q': "table_row e (sn_episode_id (out_state (se_rows e ! t))) (Fin (of_nat j)) = int q'" "same_wave e e' q'"
      using rows[OF j(2)] j(1) by (auto simp: same_wave_def)
    have "q = Suc q'" using q(1) q'(1) table_row_previous[of e _ j] j(1) by (simp del: of_nat_Suc)
    then show ?thesis using q'(2) by simp
  qed
  then show thesis using that[OF cr q(3)] by blast
qed

lemma wave_prefix:
  assumes big: "length bs < 2 ^ 53" and n: "n \<le> length bs" "t < n"
    and full: "project_side py_log bs p sd = Inr e" and cut: "project_side py_log (take n bs) p sd = Inr e'"
  shows "touch_point e' t = touch_point e t" "touch_number_at e' t = touch_number_at e t"
    "fst (touch_point e t) \<Longrightarrow> touch_row_at e' t = touch_row_at e t \<and> same_wave e e' (touch_row_at e t)"
    "fst (touch_point e t) \<Longrightarrow> fge (touch_number_at e t) (Fin 2) \<Longrightarrow> same_wave e e' (touch_row_at e t - 1)"
proof -
  note row = rows_prefix[OF n full cut]
  show tn: "touch_number_at e' t = touch_number_at e t" by (simp add: touch_number_at_def row)
  have eq: "touch_point e' t = touch_point e t \<and> (fst (touch_point e t) \<longrightarrow> touch_row_at e' t = touch_row_at e t \<and>
      same_wave e e' (touch_row_at e t) \<and> (fge (touch_number_at e t) (Fin 2) \<longrightarrow> same_wave e e' (touch_row_at e t - 1)))"
  proof (cases "isfinite (touch_number_at e t) \<and> fge (touch_number_at e t) (Fin 1)")
    case False
    then show ?thesis using tn by (auto simp: touch_point_def Let_def)
  next
    case True
    obtain q where cr: "current_row e t = int q" "current_row e' t = int q" "same_wave e e' q"
      and prev: "fge (touch_number_at e t) (Fin 2) \<Longrightarrow> 1 \<le> q \<and> same_wave e e' (q - 1)"
      using live_wave[OF big n full cut conjunct1[OF True] conjunct2[OF True]] by blast
    have tr: "touch_row_at e t = q" "touch_row_at e' t = q"
      using cr by (auto simp: touch_row_at_def clip_def same_wave_def)
    have "touch_point e' t = touch_point e t"
      using cr same_wave_fields[OF cr(3)] tn by (auto simp: touch_point_def Let_def same_wave_def)
    then show ?thesis using tr cr(3) prev by simp
  qed
  then show "touch_point e' t = touch_point e t" by simp
  show "fst (touch_point e t) \<Longrightarrow> touch_row_at e' t = touch_row_at e t \<and> same_wave e e' (touch_row_at e t)"
    "fst (touch_point e t) \<Longrightarrow> fge (touch_number_at e t) (Fin 2) \<Longrightarrow> same_wave e e' (touch_row_at e t - 1)"
    using eq by simp_all
qed

lemma side_touch_bars: "origin_bar (side_touch sd r) = origin_bar r" "peak_bar (side_touch sd r) = peak_bar r"
  by (simp_all add: side_touch_def unmirror_touch_def)

text \<open>The bars of a row lie inside the frame it was projected from.\<close>

lemma touch_bars:
  assumes "project_side py_log bs p sd = Inr e" "q < length (se_touches e)"
  shows "origin_bar (se_touches e ! q) \<le> peak_bar (se_touches e ! q)" "peak_bar (se_touches e ! q) < length bs"
proof -
  obtain w k c where tb: "se_touches e = map (side_touch sd) (touches (run_state w k c (side_bars sd bs) (length bs)))"
    using assms(1) by (rule project_side_fields) blast
  let ?r = "touches (run_state w k c (side_bars sd bs) (length bs)) ! q"
  have len: "length (side_bars sd bs) = length bs" by (simp add: side_bars_def)
  have "row_ok (side_bars sd bs) (length bs) ?r"
    using project_prefix_inv[of "length bs" "side_bars sd bs" w k c] assms(2) len by (auto simp: ep_inv_def tb)
  then have "origin_bar ?r \<le> peak_bar ?r" "peak_bar ?r < length bs" by (auto simp: row_ok_def)
  then show "origin_bar (se_touches e ! q) \<le> peak_bar (se_touches e ! q)" "peak_bar (se_touches e ! q) < length bs"
    using assms(2) by (simp_all add: tb side_touch_bars)
qed

section \<open>Values before the cut\<close>

lemma leg_operands_prefix:
  assumes big: "length bs < 2 ^ 53" and n: "n \<le> length bs" "t < n"
    and full: "project_side py_log bs p sd = Inr e" and cut: "project_side py_log (take n bs) p sd = Inr e'"
  shows "leg_change_at e' (take n xs) leg touch t = leg_change_at e xs leg touch t"
    "leg_speed_at e' (take n xs) leg t = leg_speed_at e xs leg t" "leg_bars_at e' leg t = leg_bars_at e leg t"
    "leg_efficiency_at e' (take n xs) leg t = leg_efficiency_at e xs leg t"
    "leg_mean_at e' (take n xs) leg t = leg_mean_at e xs leg t" "leg_sum_at e' (take n xs) leg t = leg_sum_at e xs leg t"
    "top_reference e' (take n xs) leg share t = top_reference e xs leg share t"
    "depth_bar e' (take n xs) st t = depth_bar e xs st t" "previous_bar e' (take n xs) cache t = previous_bar e xs cache t"
    "anchor_follow_at e' t = anchor_follow_at e t" "impulse_atr_at e' (take n xs) t = impulse_atr_at e xs t"
proof -
  note w = wave_prefix[OF big n full cut] and side = rows_prefix(2)[OF n full cut]
  obtain v a pk where tp: "touch_point e t = (v, a, pk)" by (cases "touch_point e t")
  note bars = touch_point_bars[OF tp]
  have row: "touch_row_at e' t = touch_row_at e t" "same_wave e e' (touch_row_at e t)" if v
    using w(3) tp that by simp_all
  have prev: "same_wave e e' (touch_row_at e t - 1)" if "v" "fge (touch_number_at e t) (Fin 2)"
    using w(4) tp that by simp
  note f = same_wave_fields
  have len: "length (take n bs) = n" using n by simp
  have inside: "origin_bar (se_touches e ! q) < n" "peak_bar (se_touches e ! q) < n" if "same_wave e e' q" for q
    using touch_bars[OF cut, of q] that len f(1,2)[OF that] by (auto simp: same_wave_def)
  obtain v' b z where ce: "change_ends e leg touch t = (v', b, z)" by (cases "change_ends e leg touch t")
  have ce': "change_ends e' leg touch t = (v', b, z)"
    using ce tp w(1,2) row prev f by (auto simp: change_ends_def Let_def split: if_splits)
  have "v' \<Longrightarrow> b < n \<and> z < n"
    using ce tp bars n prev inside by (auto simp: change_ends_def Let_def split: if_splits)
  then show "leg_change_at e' (take n xs) leg touch t = leg_change_at e xs leg touch t"
    by (cases v') (simp_all add: leg_change_at_def ce ce')
  show "leg_speed_at e' (take n xs) leg t = leg_speed_at e xs leg t"
    using tp w(1) row f n by (cases v) (auto simp: leg_speed_at_def Let_def)
  show "leg_bars_at e' leg t = leg_bars_at e leg t" by (simp add: leg_bars_at_def w(1))
  show "leg_efficiency_at e' (take n xs) leg t = leg_efficiency_at e xs leg t"
    using tp w(1) bars n by (cases v) (simp_all add: leg_efficiency_at_def Let_def close_steps_take cumsum_take bad_before_take)
  have lr: "leg_range e' leg t = leg_range e leg t" by (simp add: leg_range_def w(1))
  obtain u c d where r: "leg_range e leg t = (u, c, d)" by (cases "leg_range e leg t")
  have cd: "c \<le> d" "d < n" using leg_range_bars[OF r] n by simp_all
  have tot: "leg_totals e' (take n xs) leg t = leg_totals e xs leg t"
    using cd by (simp add: leg_totals_def lr r Let_def bad_before_take prefix_sum_take take_map [symmetric])
  show "leg_mean_at e' (take n xs) leg t = leg_mean_at e xs leg t" "leg_sum_at e' (take n xs) leg t = leg_sum_at e xs leg t"
    by (simp_all add: leg_mean_at_def leg_sum_at_def tot)
  show "top_reference e' (take n xs) leg share t = top_reference e xs leg share t"
    using cd by (simp add: top_reference_def lr r slice_take)
  have ds: "depth_share g (se_touches e' ! q) x = depth_share g (se_touches e ! q) x" if "same_wave e e' q" for g q x
    using f[OF that] by (simp add: depth_share_def Let_def)
  have pd: "previous_depth e' (take n xs) (touch_row_at e t) = previous_depth e xs (touch_row_at e t)"
    if "v" "fge (touch_number_at e t) (Fin 2)"
    using f[OF row(2)[OF that(1)]] f[OF prev[OF that]] ds[OF prev[OF that]] inside(1)[OF row(2)[OF that(1)]] side
    by (simp add: previous_depth_def Let_def slice_take)
  show "depth_bar e' (take n xs) st t = depth_bar e xs st t"
    using tp w(1) row ds bars n side by (cases v) (simp_all add: depth_bar_def Let_def slice_take)
  show "previous_bar e' (take n xs) cache t = previous_bar e xs cache t"
    using tp w(1,2) row pd by (cases v) (auto simp: previous_bar_def Let_def split: option.splits)
  have anchor: "se_anchor e' ! i = se_anchor e ! i" if "i < n" for i
    using full cut that n by (auto simp: project_side_def bindR_Inr raise_if_Inr Let_def split_beta)
  show "anchor_follow_at e' t = anchor_follow_at e t"
    using tp w(1) row f bars n side anchor by (cases v) (auto simp: anchor_follow_at_def anchor_follow_parts_def Let_def)
  show "impulse_atr_at e' (take n xs) t = impulse_atr_at e xs t"
    using tp w(1) row f bars n by (cases v) (auto simp: impulse_atr_at_def Let_def)
qed

lemma scan_prefix:
  assumes "\<And>s t. t < n \<Longrightarrow> f s t = g s t" "n \<le> m"
  shows "snd (scan f s [0 ..< n]) = take n (snd (scan g s [0 ..< m]))"
proof -
  have "scan f s [0 ..< n] = scan g s [0 ..< n]" by (rule scan_cong) (use assms(1) in simp)
  then show ?thesis using assms(2) scan_take[of g s n "[0 ..< m]"] by (simp add: take_upt)
qed

lemma mapR_prefix:
  assumes "mapR g [0 ..< m] = Inr ys" "\<And>t. t < n \<Longrightarrow> f t = g t" "n \<le> m"
  shows "mapR f [0 ..< n] = Inr (take n ys)"
proof -
  have "mapR f [0 ..< n] = Inr (map ((!) ys) [0 ..< n])"
    by (rule mapR_ok) (use mapR_nth[OF assms(1)] assms(2,3) in auto)
  moreover have "map ((!) ys) [0 ..< n] = take n ys"
    using mapR_length[OF assms(1)] assms(3) by (intro nth_equalityI) simp_all
  ultimately show ?thesis by simp
qed

lemma project_side_rows: "project_side py_log bs p sd = Inr e \<Longrightarrow> length (se_rows e) = length bs"
  by (erule project_side_fields) (simp add: side_bars_def)

text \<open>The series that are computed with loops and caches, as wholes.\<close>

lemma loops_prefix:
  assumes "length bs < 2 ^ 53" "n \<le> length bs"
    and "project_side py_log bs p sd = Inr e" "project_side py_log (take n bs) p sd = Inr e'"
  shows "pullback_depth_values e' (take n low) (take n high) touch = take n (pullback_depth_values e low high touch)"
    "leg_top_mean_values e xs leg share = Inr ys \<Longrightarrow> length xs = length bs \<Longrightarrow> leg_top_mean_values e' (take n xs) leg share = Inr (take n ys)"
proof -
  note pre = leg_operands_prefix[OF assms(1,2) _ assms(3,4)]
  have rows: "length (se_rows e) = length bs" "length (se_rows e') = n"
    using project_side_rows[OF assms(3)] project_side_rows[OF assms(4)] assms(2) by simp_all
  have side: "se_side e' = se_side e"
    using assms(3,4) by (auto simp: project_side_def bindR_Inr raise_if_Inr Let_def split_beta)
  show "pullback_depth_values e' (take n low) (take n high) touch = take n (pullback_depth_values e low high touch)"
    using assms(2) by (simp add: pullback_depth_values_def Let_def rows side scan_prefix[OF pre(8)] scan_prefix[OF pre(9)])
  show "leg_top_mean_values e' (take n xs) leg share = Inr (take n ys)" if "leg_top_mean_values e xs leg share = Inr ys" "length xs = length bs"
    using mapR_prefix[OF that(1)[unfolded top_values] pre(7), of n] assms(2) that(2) by (simp add: top_values min_absorb2)
qed

section \<open>Properties\<close>

text \<open>
  C17. No operand on a leg looks ahead: cut the frame and every series at bar \<open>n\<close>, project the
  episode again, and the change, speed, bar count, efficiency, mean and sum of either leg, the
  anchor share and the impulse in candles keep their values on every bar before the cut, and so do
  the depths of the current and the previous pullback and the means of the largest values as whole
  series, although they read prefix sums, caches and a touch table built from the whole frame.
\<close>

theorem leg_operands_no_lookahead:
  assumes "length bs < 2 ^ 53" "n \<le> length bs" "t < n"
    and "project_side py_log bs p sd = Inr e" "project_side py_log (take n bs) p sd = Inr e'"
    and "length xs = length bs"
  shows "leg_change_at e' (take n xs) leg touch t = leg_change_at e xs leg touch t \<and>
    leg_speed_at e' (take n xs) leg t = leg_speed_at e xs leg t \<and> leg_bars_at e' leg t = leg_bars_at e leg t \<and>
    leg_efficiency_at e' (take n xs) leg t = leg_efficiency_at e xs leg t \<and>
    leg_mean_at e' (take n xs) leg t = leg_mean_at e xs leg t \<and> leg_sum_at e' (take n xs) leg t = leg_sum_at e xs leg t \<and>
    anchor_follow_at e' t = anchor_follow_at e t \<and> impulse_atr_at e' (take n xs) t = impulse_atr_at e xs t \<and>
    pullback_depth_values e' (take n low) (take n high) touch = take n (pullback_depth_values e low high touch) \<and>
    (case leg_top_mean_values e xs leg share of Inl _ \<Rightarrow> True
     | Inr ys \<Rightarrow> leg_top_mean_values e' (take n xs) leg share = Inr (take n ys))"
proof -
  show ?thesis using leg_operands_prefix(1-6,10,11)[OF assms(1-5)] loops_prefix[OF assms(1,2,4,5)] assms(6) by (simp split: sum.split)
qed

theorem leg_operands_no_lookahead_witness:
  "leg_bars_at (side_ok wlog (take 5 wframe) wparams ''long'') ''pullback'' 4 =
     leg_bars_at (side_ok wlog wframe wparams ''long'') ''pullback'' 4 \<and>
   leg_bars_at (side_ok wlog wframe wparams ''long'') ''pullback'' 4 = Fin 4"
proof
  show "leg_bars_at (side_ok wlog (take 5 wframe) wparams ''long'') ''pullback'' 4 =
      leg_bars_at (side_ok wlog wframe wparams ''long'') ''pullback'' 4"
    using leg_operands_no_lookahead[where bs = wframe and n = 5 and t = 4 and xs = "map cl wframe" and leg = "''pullback''",
      OF _ _ _ wside wside, of "''long''" "''long''"] by simp
  show "leg_bars_at (side_ok wlog wframe wparams ''long'') ''pullback'' 4 = Fin 4" by code_simp
qed

text \<open>
  C30. The depth of the pullback is kept from bar to bar and per touch; on series without infinite
  prices it is on every bar what the bars say: the share of the impulse given back by the extreme
  of the bars from the peak to the bar, missing where one of them is, and the same for the previous
  pullback, from its peak to the origin of the current touch.
\<close>

theorem pullback_depth_is_fresh:
  assumes "no_infinity (if se_side e = ''long'' then low else high)"
    and "length (se_rows e) \<le> length (if se_side e = ''long'' then low else high)" "touch = ''current'' \<or> touch = ''previous''"
  shows "pullback_depth_values e low high touch =
    map (depth_reference e (if se_side e = ''long'' then low else high) touch) [0 ..< length (se_rows e)]"
  using assms by (rule depth_values)

theorem pullback_depth_is_fresh_witness:
  "pullback_depth_values (side_ok wlog wframe wparams ''long'') (map lo wframe) (map hi wframe) ''current'' =
     map (depth_reference (side_ok wlog wframe wparams ''long'') (map lo wframe) ''current'') [0 ..< 6]"
proof -
  have s: "se_side (side_ok wlog wframe wparams ''long'') = ''long''" "length (se_rows (side_ok wlog wframe wparams ''long'')) = 6"
    by code_simp+
  have "no_infinity (map lo wframe)" by code_simp
  then show ?thesis using pullback_depth_is_fresh[of "side_ok wlog wframe wparams ''long''" "map lo wframe" "map hi wframe" "''current''"] s
    by simp
qed

text \<open>
  C26. The mean of the largest values keeps a sorted window of the pullback and a cache of the
  impulses; the series it returns, and the error it raises, are those of sorting the bars of the
  leg again on every bar.
\<close>

theorem leg_top_mean_is_fresh:
  "leg_top_mean_values e xs leg share = mapR (top_reference e xs leg share) [0 ..< length xs]"
  by (rule top_values)

text \<open>
  C25. The largest candle of a leg: the value computed from clipped ends and a sparse table of
  window extremes is the largest of the normalised bodies of all the candles that the bars of the
  leg build, each from its first to its last bar inside the leg, the last one divided by the ATR
  before it unless the leg closes it.
\<close>

theorem candle_values_are_largest_body:
  assumes "candle_values e time_ms opens high low close tf base_ms leg direction sd atr period = Inr vs" "t < length time_ms"
  shows "\<exists>atrs. (case atr of None \<Rightarrow> atrs = None
      | Some xs \<Rightarrow> \<exists>p. candle_atrs time_ms tf base_ms (candles time_ms tf opens high low close) xs period = Inr p \<and> atrs = Some p) \<and>
    vs ! t = candle_reference e time_ms tf base_ms opens close atrs
      (if (direction = ''with'') = (sd = ''long'') then Fin 1 else Fin (- 1)) leg t"
proof -
  let ?cs = "candles time_ms tf opens high low close" and ?sign = "if (direction = ''with'') = (sd = ''long'') then Fin 1 else Fin (- 1)"
  have ne: "time_ms \<noteq> []" using assms(2) by auto
  obtain atrs where a: "(case atr of None \<Rightarrow> Inr None
      | Some xs \<Rightarrow> bindR (candle_atrs time_ms tf base_ms ?cs xs period) (\<lambda>p. Inr (Some p))) = Inr atrs"
    and vs: "vs = map (candle_at e time_ms tf base_ms opens close ?cs atrs ?sign
      (map (\<lambda>k. normalised (fmul ?sign (fsub (cd_close (?cs ! k)) (cd_open (?cs ! k)))) (map_option (\<lambda>p. snd p ! k) atrs)) [0 ..< length ?cs]) leg)
      [0 ..< length time_ms]"
    using assms(1) ne by (auto simp: candle_values_def Let_def bindR_Inr)
  have "vs ! t = candle_reference e time_ms tf base_ms opens close atrs ?sign leg t"
    using candle_at_reference[OF assms(2) refl, of e tf base_ms opens close high low atrs ?sign leg] vs assms(2) by simp
  then show ?thesis using a by (intro exI[of _ atrs]) (auto simp: bindR_Inr split: option.splits)
qed

definition sample_times :: "int list" where
  "sample_times = map (\<lambda>i. 60000 * int i) [0 ..< 6]"

definition sample_candles :: "f64 list res" where
  "sample_candles = candle_values (side_ok wlog wframe wparams ''long'') sample_times (map lo wframe) (map hi wframe) (map lo wframe)
     (map hi wframe) 120000 60000 ''pullback'' ''with'' ''long'' None None"

theorem candle_values_are_largest_body_witness:
  "projr sample_candles ! 4 = candle_reference (side_ok wlog wframe wparams ''long'') sample_times 120000 60000 (map lo wframe) (map hi wframe)
     None (Fin 1) ''pullback'' 4 \<and> projr sample_candles ! 4 = Fin 5"
proof
  have "is_ok sample_candles" by code_simp
  then have ok: "candle_values (side_ok wlog wframe wparams ''long'') sample_times (map lo wframe) (map hi wframe) (map lo wframe)
     (map hi wframe) 120000 60000 ''pullback'' ''with'' ''long'' None None = Inr (projr sample_candles)"
    unfolding sample_candles_def by (cases "candle_values (side_ok wlog wframe wparams ''long'') sample_times (map lo wframe)
      (map hi wframe) (map lo wframe) (map hi wframe) 120000 60000 ''pullback'' ''with'' ''long'' None None") simp_all
  show "projr sample_candles ! 4 = candle_reference (side_ok wlog wframe wparams ''long'') sample_times 120000 60000 (map lo wframe)
      (map hi wframe) None (Fin 1) ''pullback'' 4"
    using candle_values_are_largest_body[OF ok, of 4] by (simp add: sample_times_def)
  show "projr sample_candles ! 4 = Fin 5" by code_simp
qed

end
