(* ===== verification/FloatBits.thy ===== *)
theory FloatBits
  imports PyFloat
begin

text \<open>
  The bits of a float, which a node identity records (\<open>float.hex\<close> in
  \<open>domain/node_identity.py\<close>): sign, biased exponent and fraction of a representable value, and
  that they determine it.  A zero has the positive sign here, as everywhere in the model.
\<close>

definition f64_bits :: "f64 \<Rightarrow> double" where
  "f64_bits x =
     (case x of NaN \<Rightarrow> \<lparr>d_sign = False, d_exp = 2047, d_frac = 2 ^ 51\<rparr>
      | Inf s \<Rightarrow> \<lparr>d_sign = s, d_exp = 2047, d_frac = 0\<rparr>
      | Fin r \<Rightarrow>
          if r = 0 then \<lparr>d_sign = False, d_exp = 0, d_frac = 0\<rparr>
          else (let q = quantum r; m = nat \<lfloor>\<bar>r\<bar> / pow2 q\<rfloor> in
            if m < 2 ^ 52 then \<lparr>d_sign = r < 0, d_exp = 0, d_frac = m\<rparr>
            else \<lparr>d_sign = r < 0, d_exp = nat (q + 1075), d_frac = m - 2 ^ 52\<rparr>))"

definition double_value :: "double \<Rightarrow> f64" where
  "double_value d =
     (if d_exp d = 2047 then (if d_frac d = 0 then Inf (d_sign d) else NaN)
      else Fin ((if d_sign d then - 1 else 1) *
        (if d_exp d = 0 then of_nat (d_frac d) * pow2 (- 1074)
         else of_nat (d_frac d + 2 ^ 52) * pow2 (int (d_exp d) - 1075))))"

section \<open>Rounding gives representable values\<close>

text \<open>A representable rational is a multiple of its quantum with at most 53 bits.\<close>

lemma significand:
  assumes "rnd r = Fin r" "r \<noteq> 0"
  obtains m where "\<bar>r\<bar> = of_nat m * pow2 (quantum r)" "m < 2 ^ 53" "- 1074 \<le> quantum r" "quantum r \<le> 971"
    "quantum r \<noteq> - 1074 \<longrightarrow> 2 ^ 52 \<le> m"
proof -
  let ?q = "quantum r"
  have r: "round_rat r = r" and big: "\<bar>r\<bar> < 2 ^ 1024" using assms(1) by (auto simp: rnd_def Let_def split: if_splits)
  have "r = of_int (round_even (r / pow2 ?q)) * pow2 ?q" using r assms(2) by (simp add: round_rat_def)
  then obtain k where k: "r = of_int k * pow2 ?q" ..
  let ?m = "nat \<bar>k\<bar>"
  have m: "\<bar>r\<bar> = of_nat ?m * pow2 ?q" using arg_cong[OF k, of abs] by (simp add: abs_mult)
  have pos: "0 < \<bar>r\<bar>" using assms(2) by simp
  have p53: "(2 ^ 53 :: rat) = pow2 53" "(2 ^ 52 :: rat) = pow2 52" "(2 ^ 1024 :: rat) = pow2 1024" by (simp_all add: pow2_def)
  have "\<bar>r\<bar> < pow2 (ilog2 \<bar>r\<bar> + 1)" by (rule ilog2_bounds(2)[OF pos])
  also have "\<dots> \<le> pow2 (53 + ?q)" by (simp add: quantum_def)
  finally have "of_nat ?m * pow2 ?q < pow2 53 * pow2 ?q" unfolding m pow2_add by simp
  then have "(of_nat ?m :: rat) < of_nat (2 ^ 53)" using p53(1) by (metis mult_less_cancel_right_pos of_nat_numeral of_nat_power pow2_pos)
  then have lt: "?m < 2 ^ 53" by (simp only: of_nat_less_iff)
  have "pow2 (ilog2 \<bar>r\<bar>) < pow2 1024" using ilog2_bounds(1)[OF pos] big p53(3) by linarith
  then have q: "?q \<le> 971" by (simp add: quantum_def)
  have ge: "2 ^ 52 \<le> ?m" if "?q \<noteq> - 1074"
  proof -
    have "?q = ilog2 \<bar>r\<bar> - 52" using that by (auto simp: quantum_def)
    then have "pow2 (52 + ?q) \<le> \<bar>r\<bar>" using ilog2_bounds(1)[OF pos] by simp
    then have "pow2 52 * pow2 ?q \<le> of_nat ?m * pow2 ?q" unfolding m pow2_add .
    then have "of_nat (2 ^ 52) \<le> (of_nat ?m :: rat)"
      using p53(2) by (metis mult_le_cancel_right_pos of_nat_numeral of_nat_power pow2_pos)
    then show ?thesis by (simp only: of_nat_le_iff)
  qed
  show ?thesis by (rule that[OF m lt _ q]) (simp add: quantum_def, use ge in blast)
qed

lemma bits_of_finite:
  assumes "rnd r = Fin r"
  shows "double_value (f64_bits (Fin r)) = Fin r \<and> double_ok (f64_bits (Fin r)) \<and> \<not> is_nan (f64_bits (Fin r))"
proof (cases "r = 0")
  case True
  then show ?thesis by (simp add: f64_bits_def double_value_def double_ok_def is_nan_def)
next
  case False
  obtain m where m: "\<bar>r\<bar> = of_nat m * pow2 (quantum r)" "m < 2 ^ 53" "- 1074 \<le> quantum r" "quantum r \<le> 971"
    "quantum r \<noteq> - 1074 \<longrightarrow> 2 ^ 52 \<le> m" using significand[OF assms False] .
  have e: "nat \<lfloor>\<bar>r\<bar> / pow2 (quantum r)\<rfloor> = m" using m(1) by simp
  have sg: "(if r < 0 then - 1 else 1) * \<bar>r\<bar> = r" by simp
  show ?thesis
  proof (cases "m < 2 ^ 52")
    case True
    then have q: "quantum r = - 1074" using m(5) by fastforce
    have v: "of_nat m * pow2 (- 1074) = \<bar>r\<bar>" using m(1) q by simp
    have b: "f64_bits (Fin r) = \<lparr>d_sign = r < 0, d_exp = 0, d_frac = m\<rparr>" using False True e by (simp add: f64_bits_def Let_def)
    show ?thesis unfolding b using True by (simp add: double_value_def double_ok_def is_nan_def v)
  next
    case big: False
    then have "2 ^ 52 \<le> m" by simp
    then have fr: "m - 2 ^ 52 + 2 ^ 52 = m" by (rule le_add_diff_inverse2)
    have lt: "m - 2 ^ 52 < 2 ^ 52" using m(2) by simp
    have ex: "int (nat (quantum r + 1075)) - 1075 = quantum r" "0 < nat (quantum r + 1075)" "nat (quantum r + 1075) < 2047"
      using m(3,4) by simp_all
    have b: "f64_bits (Fin r) = \<lparr>d_sign = r < 0, d_exp = nat (quantum r + 1075), d_frac = m - 2 ^ 52\<rparr>"
      using False big e by (simp only: f64_bits_def Let_def f64.case if_False)
    show ?thesis unfolding b double_value_def double_ok_def is_nan_def double.simps fr ex(1)
      using ex(2,3) lt m(1)[symmetric] by simp
  qed
qed

lemma double_value_bits: "f64_ok x \<Longrightarrow> double_value (f64_bits x) = x"
  using bits_of_finite by (cases x) (auto simp: f64_bits_def double_value_def)

lemma double_ok_bits: "f64_ok x \<Longrightarrow> double_ok (f64_bits x)"
  using bits_of_finite by (cases x) (auto simp: f64_bits_def double_ok_def)

lemma nan_bits: "f64_ok x \<Longrightarrow> is_nan (f64_bits x) \<longleftrightarrow> x = NaN"
  using bits_of_finite by (cases x) (auto simp: f64_bits_def is_nan_def)

text \<open>The text of the bits is the same only for the same value.\<close>

lemma float_hex_bits: "f64_ok x \<Longrightarrow> f64_ok y \<Longrightarrow> float_hex (f64_bits x) = float_hex (f64_bits y) \<longleftrightarrow> x = y"
  by (auto simp: float_hex_inj double_ok_bits nan_bits dest: arg_cong[of _ _ double_value] simp: double_value_bits)

lemma f64_ok_rnd: "f64_ok (rnd x)"
proof (cases "x = 0")
  case False
  have pos: "0 < \<bar>x\<bar>" using False by simp
  let ?y = "x / pow2 (quantum x)" and ?k = "round_even (x / pow2 (quantum x))"
  have lim: "\<bar>?y\<bar> < of_int (2 ^ 53)"
  proof -
    have "\<bar>x\<bar> < pow2 (ilog2 \<bar>x\<bar> + 1)" by (rule ilog2_bounds(2)[OF pos])
    also have "\<dots> \<le> pow2 (53 + quantum x)" by (simp add: quantum_def)
    finally have "\<bar>x\<bar> < of_int (2 ^ 53) * pow2 (quantum x)" by (simp add: pow2_add pow2_def[of 53])
    then show ?thesis by (simp only: abs_divide abs_of_pos[OF pow2_pos] pos_divide_less_eq[OF pow2_pos])
  qed
  have k: "\<bar>?k\<bar> \<le> 2 ^ 53"
  proof -
    have "round_even ?y \<le> round_even (of_int (2 ^ 53))" by (rule round_even_mono) (use lim in linarith)
    moreover have "round_even (of_int (- (2 ^ 53))) \<le> round_even ?y"
    proof (rule round_even_mono)
      have "- of_int (2 ^ 53) \<le> ?y" using lim by linarith
      then show "of_int (- (2 ^ 53)) \<le> ?y" by (simp only: of_int_minus)
    qed
    ultimately show ?thesis unfolding round_even_of_int by linarith
  qed
  have q: "- 1074 \<le> quantum x" by (simp add: quantum_def)
  have rr: "round_rat x = of_int ?k * pow2 (quantum x)" using False by (simp add: round_rat_def)
  have "round_rat (round_rat x) = round_rat x"
  proof (cases "\<bar>?k\<bar> < 2 ^ 53")
    case True
    then show ?thesis using round_rat_exact[OF rr _ q] by simp
  next
    case False
    then have "?k = sgn ?k * 2 ^ 53" using k by (metis antisym_conv not_less sgn_mult_abs)
    then have "round_rat x = of_int (sgn ?k * 2 ^ 52) * pow2 (quantum x + 1)"
      by (subst rr, subst \<open>?k = _\<close>) (simp add: pow2_add)
    then show ?thesis using round_rat_exact[of "round_rat x" "sgn ?k * 2 ^ 52" "quantum x + 1"] q by (auto simp: sgn_if split: if_splits)
  qed
  then show ?thesis by (auto simp: rnd_def Let_def)
qed simp

text \<open>The numbers of a document are representable.\<close>

fun doc_ok :: "json \<Rightarrow> bool" where
  "doc_ok (JFloat x) = f64_ok x"
| "doc_ok (JList xs) = list_all doc_ok xs"
| "doc_ok (JObj ob) = list_all (\<lambda>(k, v). doc_ok v) ob"
| "doc_ok _ = True"

lemma doc_ok_get_or: "doc_ok (JObj ob) \<Longrightarrow> doc_ok d \<Longrightarrow> doc_ok (get_or ob k d)"
  by (auto simp: get_or_def list_all_iff split: option.splits dest: map_of_SomeD)

lemma doc_ok_get: "doc_ok (JObj ob) \<Longrightarrow> doc_ok (get ob k)"
  by (simp add: get_def doc_ok_get_or)

lemma py_float_ok: "doc_ok v \<Longrightarrow> py_float v = Inr x \<Longrightarrow> f64_ok x"
  by (cases v) (auto simp: f64_of_int_def f64_ok_rnd py_float_text_def Let_def split: if_splits option.splits)

end
