(* ===== verification/Masks.thy ===== *)
theory Masks
  imports Frames RawSpec NodeIdentity FloatBits
begin

text \<open>
  What the evaluated components of the strategy share: reading the planned series and the market
  of a frame, bar-aligned masks with their strict zips and trailing windows, the bits of a float
  inside a node identity, and the identities of mask compositions
  (\<open>and_pair\<close>, \<open>and_masks_node\<close>, \<open>_float_series\<close> of \<open>direction_blockers.py\<close>).
\<close>

section \<open>Masks\<close>

definition strict_zip :: "'a list \<Rightarrow> 'b list \<Rightarrow> ('a \<times> 'b) list res" where
  "strict_zip xs ys =
     raise_if (length xs \<noteq> length ys) (PyValueError ''zip() arguments differ in length'') (Inr (zip xs ys))"

definition zip_with :: "('a \<Rightarrow> 'b \<Rightarrow> 'c) \<Rightarrow> 'a list \<Rightarrow> 'b list \<Rightarrow> 'c list res" where
  "zip_with f xs ys = bindR (strict_zip xs ys) (\<lambda>ps. Inr (map (\<lambda>(x, y). f x y) ps))"

definition and_pair :: "bool list \<Rightarrow> bool list \<Rightarrow> bool list res" where
  "and_pair left right = zip_with (\<and>) left right"

lemma strict_zip_Inr [res_simps]: "strict_zip xs ys = Inr ps \<longleftrightarrow> length xs = length ys \<and> ps = zip xs ys"
  by (auto simp: strict_zip_def raise_if_Inr)

lemma zip_with_Inr [res_simps]:
  "zip_with f xs ys = Inr zs \<longleftrightarrow> length xs = length ys \<and> zs = map2 f xs ys"
  by (auto simp: zip_with_def res_simps)

lemma and_pair_Inr [res_simps]: "and_pair xs ys = Inr zs \<longleftrightarrow> length xs = length ys \<and> zs = map2 (\<and>) xs ys"
  by (simp add: and_pair_def zip_with_Inr)

text \<open>The values a trace holds for a key, one per bar.\<close>

datatype trace_values =
    Floats "f64 list" | Bools "bool list" | Texts "string list" | Ints "int list"
  | OptFloats "f64 option list" | Labels "string option list"

type_synonym trace = "(string \<times> trace_values) list"

section \<open>Trailing windows\<close>

text \<open>The last \<open>n\<close> values up to a bar, fewer at the start of the range.\<close>

definition trailing :: "nat \<Rightarrow> nat \<Rightarrow> 'a list \<Rightarrow> 'a list" where
  "trailing n i xs = drop (Suc i - n) (take (Suc i) xs)"

text \<open>
  pandas' \<open>rolling(n, min_periods=1).max()\<close> and \<open>rolling(n, min_periods=n).min().fillna(0)\<close> of
  truth values.
\<close>

definition rolling_any :: "nat \<Rightarrow> bool list \<Rightarrow> bool list" where
  "rolling_any n xs = map (\<lambda>i. list_ex id (trailing n i xs)) [0 ..< length xs]"

definition rolling_all :: "nat \<Rightarrow> bool list \<Rightarrow> bool list" where
  "rolling_all n xs = map (\<lambda>i. n \<le> Suc i \<and> list_all id (trailing n i xs)) [0 ..< length xs]"

lemma length_rolling [simp]: "length (rolling_any n xs) = length xs" "length (rolling_all n xs) = length xs"
  by (simp_all add: rolling_any_def rolling_all_def)

lemma trailing_take: "i < m \<Longrightarrow> trailing n i (take m xs) = trailing n i xs"
  by (simp add: trailing_def min_absorb1)

lemma set_trailing: "i < length xs \<Longrightarrow> set (trailing n i xs) = {xs ! j |j. Suc i - n \<le> j \<and> j \<le> i}"
proof -
  assume i: "i < length xs"
  have "x \<in> set (trailing n i xs) \<longleftrightarrow> (\<exists>j. Suc i - n \<le> j \<and> j \<le> i \<and> x = xs ! j)" (is "_ \<longleftrightarrow> ?R") for x
  proof
    assume "x \<in> set (trailing n i xs)"
    then obtain k where "k < length (trailing n i xs)" "x = trailing n i xs ! k" by (auto simp: in_set_conv_nth)
    then show ?R using i by (intro exI[of _ "Suc i - n + k"]) (auto simp: trailing_def)
  next
    assume ?R
    then obtain j where j: "Suc i - n \<le> j" "j \<le> i" "x = xs ! j" by blast
    then have "trailing n i xs ! (j - (Suc i - n)) = x" "j - (Suc i - n) < length (trailing n i xs)"
      using i by (auto simp: trailing_def)
    then show "x \<in> set (trailing n i xs)" by (metis nth_mem)
  qed
  then show ?thesis by blast
qed

lemma rolling_any_nth: "i < length xs \<Longrightarrow> rolling_any n xs ! i \<longleftrightarrow> (\<exists>j. Suc i - n \<le> j \<and> j \<le> i \<and> xs ! j)"
  by (auto simp: rolling_any_def list_ex_iff set_trailing)

lemma rolling_all_nth:
  "i < length xs \<Longrightarrow> rolling_all n xs ! i \<longleftrightarrow> n \<le> Suc i \<and> (\<forall>j. Suc i - n \<le> j \<and> j \<le> i \<longrightarrow> xs ! j)"
  by (auto simp: rolling_all_def list_all_iff set_trailing)

lemma rolling_take:
  "rolling_any n (take m xs) = take m (rolling_any n xs)" "rolling_all n (take m xs) = take m (rolling_all n xs)"
  by (rule list_eq_nthI; simp add: rolling_any_def rolling_all_def trailing_take)+

section \<open>Reading the frame\<close>

text \<open>\<open>_float_series\<close>: a planned series must exist; a missing value is a NaN.\<close>

definition float_values :: "f64 option list \<Rightarrow> f64 list" where
  "float_values vs = map (\<lambda>v. case v of None \<Rightarrow> NaN | Some x \<Rightarrow> x) vs"

definition float_series :: "feature_frame \<Rightarrow> string \<Rightarrow> f64 list res" where
  "float_series fr oid =
     (case map_of (frame_series fr) oid of None \<Rightarrow> Inl (InvalidRequest ''missing planned feature series'')
      | Some vs \<Rightarrow> Inr (float_values vs))"

text \<open>A role's column of the plan, \<open>columns[role]\<close>.\<close>

definition column_at :: "(string \<times> string) list \<Rightarrow> string \<Rightarrow> string res" where
  "column_at cols role = (case map_of cols role of None \<Rightarrow> Inl (PyKeyError role) | Some oid \<Rightarrow> Inr oid)"

definition column_floats :: "feature_frame \<Rightarrow> (string \<times> string) list \<Rightarrow> string \<Rightarrow> f64 list res" where
  "column_floats fr cols role = bindR (column_at cols role) (float_series fr)"

text \<open>\<open>_market_values\<close>: a field of the bars, which must align with the times.\<close>

definition market_values :: "string \<Rightarrow> feature_frame \<Rightarrow> (f64 market_bar \<Rightarrow> f64) \<Rightarrow> f64 list res" where
  "market_values msg fr field =
     raise_if (length (frame_bars fr) \<noteq> length (frame_time_ms fr)) (InvalidRequest msg) (Inr (map field (frame_bars fr)))"

text \<open>The frame after cutting everything behind the first \<open>n\<close> bars.\<close>

definition cut_frame :: "nat \<Rightarrow> feature_frame \<Rightarrow> feature_frame" where
  "cut_frame n fr = \<lparr>frame_time_ms = take n (frame_time_ms fr),
     frame_series = map (map_prod id (take n)) (frame_series fr), frame_bars = take n (frame_bars fr)\<rparr>"

lemma map_of_cut: "map_of (map (map_prod id (take n)) xs) k = map_option (take n) (map_of xs k)"
  by (induction xs) auto

lemma float_series_cut: "float_series fr oid = Inr vs \<Longrightarrow> float_series (cut_frame n fr) oid = Inr (take n vs)"
  by (auto simp: float_series_def cut_frame_def map_of_cut float_values_def take_map split: option.splits)

lemma market_values_cut: "market_values msg fr f = Inr vs \<Longrightarrow> market_values msg (cut_frame n fr) f = Inr (take n vs)"
  by (auto simp: market_values_def raise_if_Inr cut_frame_def take_map)

lemma column_floats_cut:
  "column_floats fr cols role = Inr vs \<Longrightarrow> column_floats (cut_frame n fr) cols role = Inr (take n vs)"
  by (auto simp: column_floats_def bindR_Inr dest: float_series_cut)

section \<open>Identities of masks\<close>

type_synonym node_ids = "(string \<times> node) list"

text \<open>\<open>_feature_node\<close>, \<open>gated_mask_node\<close>, \<open>and_masks_node\<close>, \<open>pairwise_and_node\<close>\<close>

definition DIRECTION_BLOCKER_NODE_VERSION :: int where "DIRECTION_BLOCKER_NODE_VERSION = 1"

definition feature_node :: "node_ids \<Rightarrow> string \<Rightarrow> node res" where
  "feature_node ids oid =
     (case map_of ids oid of None \<Rightarrow> Inl (InvalidRequest ''missing planned feature series'') | Some n \<Rightarrow> Inr n)"

definition gated_mask_node :: "node \<Rightarrow> node option \<Rightarrow> node res" where
  "gated_mask_node intrinsic gate =
     node_spec ''mask.gated'' DIRECTION_BLOCKER_NODE_VERSION []
       [(''mask'', Single intrinsic), (''gate'', case gate of None \<Rightarrow> NoNode | Some g \<Rightarrow> Single g)] None"

definition and_masks_node :: "string \<Rightarrow> node list \<Rightarrow> node res" where
  "and_masks_node kind masks = node_spec kind DIRECTION_BLOCKER_NODE_VERSION [] [(''masks'', Several masks)] None"

definition pairwise_and_node :: "string \<Rightarrow> node \<Rightarrow> node \<Rightarrow> node res" where
  "pairwise_and_node kind left right = and_masks_node kind [left, right]"

text \<open>Two requests agree on the features: one identity names the same series in both.\<close>

definition ids_agree :: "node_ids \<Rightarrow> feature_frame \<Rightarrow> node_ids \<Rightarrow> feature_frame \<Rightarrow> bool" where
  "ids_agree ids fr ids' fr' \<longleftrightarrow>
     (\<forall>l l' n. map_of ids l = Some n \<longrightarrow> map_of ids' l' = Some n \<longrightarrow>
        map_of (frame_series fr) l = map_of (frame_series fr') l')"

lemma ids_agree_floats:
  "ids_agree ids fr ids' fr' \<Longrightarrow> feature_node ids l = Inr n \<Longrightarrow> feature_node ids' l' = Inr n \<Longrightarrow>
     float_series fr l = float_series fr' l'"
  by (auto simp: ids_agree_def feature_node_def float_series_def split: option.splits)

lemma feature_node_Inr: "feature_node ids oid = Inr n \<longleftrightarrow> map_of ids oid = Some n"
  by (simp add: feature_node_def split: option.splits)

text \<open>A single dependency is read back from the node.\<close>

lemma same_dependency:
  assumes "node_spec kind ver params ups side = Inr n" "node_spec kind' ver' params' ups' side' = Inr n"
    and "distinct (map fst ups)" "distinct (map fst ups')"
    and "map_of ups k = Some (Single a)" "map_of ups' k = Some (Single b)"
  shows "a = b"
  using node_spec_same_upstream[OF assms(1-4), of k] assms(5,6) by (simp add: normal_upstream_def)

text \<open>A parameter is read back from the node up to the value it stands for.\<close>

lemma same_int_parameter:
  assumes "node_spec kind ver params ups side = Inr n" "node_spec kind' ver' params' ups' side' = Inr n"
    and "distinct (map fst params)" "distinct (map fst params')"
    and "map_of params k = Some (PInt a)" "map_of params' k = Some (PInt b)"
  shows "a = b"
  using node_spec_same_params[OF assms(1-5)] assms(6) by simp

lemma same_bool_parameter:
  assumes "node_spec kind ver params ups side = Inr n" "node_spec kind' ver' params' ups' side' = Inr n"
    and "distinct (map fst params)" "distinct (map fst params')"
    and "map_of params k = Some (PBool a)" "map_of params' k = Some (PBool b)"
  shows "a = b"
  using node_spec_same_params[OF assms(1-5)] assms(6) by simp

lemma same_float_parameter:
  assumes "node_spec kind ver params ups side = Inr n" "node_spec kind' ver' params' ups' side' = Inr n"
    and "distinct (map fst params)" "distinct (map fst params')"
    and "map_of params k = Some (PFloat (f64_bits a))" "map_of params' k = Some (PFloat (f64_bits b))"
    and "f64_ok a" "f64_ok b"
  shows "a = b"
  using node_spec_same_params[OF assms(1-5)] assms(6-) by (simp add: double_ok_bits float_hex_bits)

end
