(* ===== verification/ContextStates.thy ===== *)
theory ContextStates
  imports Masks
begin

text \<open>
  Strategy contexts (\<open>contexts.py\<close>): the state of a stack of three averages of a higher timeframe
  on every bar; and their consumption (\<open>context_consumption.py\<close>): the regime of a side, the gates of
  blockers and setups, the exit profile, and the identities of all of them.
\<close>

section \<open>Context providers\<close>

record context_output =
  ctx_ref :: string
  ctx_provider :: obj
  ctx_state :: "string list"
  ctx_up :: "bool list"
  ctx_down :: "bool list"
  ctx_neutral :: "bool list"

record context_bundle =
  bundle_time_ms :: "int list"
  bundle_outputs :: "context_output list"

text \<open>One bar of \<open>_evaluate_stack\<close>: whether the stack is up, and whether it is down.\<close>

definition stack_at :: "f64 option \<Rightarrow> f64 option \<Rightarrow> f64 option \<Rightarrow> bool \<times> bool" where
  "stack_at fast anchor slow =
     (case (fast, anchor, slow) of
        (Some f, Some a, Some s) \<Rightarrow> (fgt f a \<and> fgt a s, flt f a \<and> flt a s)
      | _ \<Rightarrow> (False, False))"

definition state_text :: "bool \<times> bool \<Rightarrow> string" where
  "state_text ud = (if fst ud then ''up'' else if snd ud then ''down'' else ''neutral'')"

definition stack_result :: "(bool \<times> bool) list \<Rightarrow> string list \<times> bool list \<times> bool list \<times> bool list" where
  "stack_result uds =
     (map state_text uds, map fst uds, map snd uds, map (\<lambda>ud. \<not> fst ud \<and> \<not> snd ud) uds)"

definition evaluate_stack ::
  "f64 option list option \<Rightarrow> f64 option list option \<Rightarrow> f64 option list option \<Rightarrow> nat \<Rightarrow>
     (string list \<times> bool list \<times> bool list \<times> bool list) res" where
  "evaluate_stack fast anchor slow n_bars =
     (case (fast, anchor, slow) of
        (Some fs, Some as, Some ss) \<Rightarrow>
          bindR (strict_zip as ss) (\<lambda>rest. bindR (strict_zip fs rest) (\<lambda>rows.
          Inr (stack_result (map (\<lambda>(f, a, s). stack_at f a s) rows))))
      | _ \<Rightarrow> Inr (stack_result (replicate n_bars (False, False))))"

text \<open>\<open>_context_providers\<close>: the provider and the columns of one declared context.\<close>

definition context_provider :: "ema_plan \<Rightarrow> string \<times> json \<Rightarrow> (string \<times> obj \<times> (string \<times> string) list) res" where
  "context_provider plan entry =
     (case entry of (ref, raw) \<Rightarrow>
        bindR (require_mapping raw (''raw_spec.contexts.'' @ ref)) (\<lambda>provider.
        raise_if (get provider ''component_id'' \<noteq> JStr ''htf_context'') (InvalidRequest ''unsupported context provider'')
        (case map_of (htf_context_columns_by_ref plan) ref of
           None \<Rightarrow> Inl (InvalidRequest ''context provider has no feature-plan mapping'')
         | Some cols \<Rightarrow> Inr (ref, provider, cols))))"

definition declared_contexts :: "obj \<Rightarrow> obj res" where
  "declared_contexts raw_spec =
     (case get_or raw_spec ''contexts'' (JObj []) of JNull \<Rightarrow> Inr [] | v \<Rightarrow> require_mapping v ''raw_spec.contexts'')"

definition build_context :: "feature_frame \<Rightarrow> ema_plan \<Rightarrow> string \<times> json \<Rightarrow> context_output res" where
  "build_context fr plan entry =
     bindR (context_provider plan entry) (\<lambda>(ref, provider, cols).
     bindR (column_at cols ''fast'') (\<lambda>f.
     bindR (column_at cols ''anchor'') (\<lambda>a.
     bindR (column_at cols ''slow'') (\<lambda>s.
     bindR (evaluate_stack (map_of (frame_series fr) f) (map_of (frame_series fr) a) (map_of (frame_series fr) s)
       (length (frame_time_ms fr))) (\<lambda>(st, up, down, neutral).
     Inr \<lparr>ctx_ref = ref, ctx_provider = provider, ctx_state = st, ctx_up = up, ctx_down = down, ctx_neutral = neutral\<rparr>)))))"

definition build_context_bundle :: "obj \<Rightarrow> feature_frame \<Rightarrow> ema_plan \<Rightarrow> context_bundle res" where
  "build_context_bundle raw_spec fr plan =
     bindR (declared_contexts raw_spec) (\<lambda>entries.
     bindR (mapR (build_context fr plan) entries) (\<lambda>outs.
     Inr \<lparr>bundle_time_ms = frame_time_ms fr, bundle_outputs = outs\<rparr>))"

section \<open>Regimes and gates\<close>

definition resolve_htf_regime :: "string \<Rightarrow> string \<Rightarrow> string res" where
  "resolve_htf_regime raw side =
     (if raw \<notin> {''up'', ''down'', ''neutral''} then Inr ''neutral''
      else if side = ''long'' then Inr (if raw = ''up'' then ''aligned'' else if raw = ''down'' then ''countertrend'' else ''neutral'')
      else if side = ''short'' then Inr (if raw = ''down'' then ''aligned'' else if raw = ''up'' then ''countertrend'' else ''neutral'')
      else Inl (InvalidRequest ''trade side must be long or short''))"

record consumption_record =
  cr_role :: string
  cr_context_ref :: string
  cr_policy_id :: string
  cr_side :: "string option"
  cr_component_id :: "string option"
  cr_instance_id :: "string option"
  cr_raw_state :: "string list"
  cr_resolved_regime :: "string list option"
  cr_allowed :: "bool list option"
  cr_allowed_regimes :: "string list"
  cr_profile_long :: "string list option"
  cr_profile_short :: "string list option"

text \<open>This reader of the sides accepts an empty list.\<close>

definition consumption_sides :: "obj \<Rightarrow> string list res" where
  "consumption_sides raw_spec =
     (let raw = get_or raw_spec ''trade_sides'' (JList [JStr ''long'']);
          listed = (case raw of JObj ob \<Rightarrow> get_or ob ''enabled'' (JList [JStr ''long'']) | _ \<Rightarrow> raw) in
      bindR (require_list listed ''raw_spec.trade_sides'') (\<lambda>xs.
      raise_if (list_ex (\<lambda>s. s \<notin> set VALID_SIDES) (map py_str xs))
        (InvalidRequest ''raw_spec.trade_sides has invalid value'') (Inr (map py_str xs))))"

text \<open>\<open>str.strip()\<close>: the white space below code point 256.\<close>

definition py_space :: "char \<Rightarrow> bool" where
  "py_space c = (let n = (of_char c :: nat) in 9 \<le> n \<and> n \<le> 13 \<or> 28 \<le> n \<and> n \<le> 32 \<or> n = 133 \<or> n = 160)"

definition stripped :: "obj \<Rightarrow> string \<Rightarrow> string" where
  "stripped ob k = strip_by py_space (text_of ob k [])"

definition consumption_of :: "json \<Rightarrow> string \<Rightarrow> (string \<times> string \<times> obj) option res" where
  "consumption_of v path =
     (case v of JNull \<Rightarrow> Inr None
      | _ \<Rightarrow>
        bindR (require_mapping v path) (\<lambda>it.
        bindR (require_mapping (get it ''policy'') (path @ ''.policy'')) (\<lambda>policy.
        bindR (require_mapping (get_or policy ''params'' (JObj [])) (path @ ''.policy.params'')) (\<lambda>params.
        raise_if (stripped it ''context_ref'' = [] \<or> stripped policy ''policy_id'' = [])
          (InvalidRequest (path @ '' requires context_ref and policy.policy_id''))
          (Inr (Some (stripped it ''context_ref'', stripped policy ''policy_id'', params)))))))"

fun raw_state_of :: "context_output list \<Rightarrow> string \<Rightarrow> string list res" where
  "raw_state_of [] ref = Inl (InvalidRequest ''unknown context_ref'')"
| "raw_state_of (out # outs) ref = (if ctx_ref out = ref then Inr (ctx_state out) else raw_state_of outs ref)"

definition gate_allowed_regimes :: "string \<Rightarrow> obj \<Rightarrow> string list res" where
  "gate_allowed_regimes policy_id params =
     raise_if (policy_id \<noteq> ''htf_regime_gate'') (InvalidRequest ''unsupported context consumption policy'')
     (case get params ''allowed_regimes'' of
        JList xs \<Rightarrow>
          raise_if (xs = []) (InvalidRequest ''allowed_regimes must be a non-empty list'')
          (raise_if (\<not> set (map py_str xs) \<subseteq> {''aligned'', ''countertrend'', ''neutral''})
            (InvalidRequest ''allowed_regimes contains invalid values'') (Inr (map py_str xs)))
      | _ \<Rightarrow> Inl (InvalidRequest ''allowed_regimes must be a non-empty list''))"

text \<open>\<open>str(component.get(key))\<close> unless it is \<open>None\<close>\<close>

definition optional_text :: "obj \<Rightarrow> string \<Rightarrow> string option" where
  "optional_text ob k = (case get ob k of JNull \<Rightarrow> None | v \<Rightarrow> Some (py_str v))"

definition gate_record ::
  "context_bundle \<Rightarrow> string \<Rightarrow> obj \<Rightarrow> string \<times> string \<times> obj \<Rightarrow> string \<Rightarrow> consumption_record res" where
  "gate_record bundle role cmp con side =
     (case con of (ref, policy_id, params) \<Rightarrow>
        bindR (gate_allowed_regimes policy_id params) (\<lambda>regimes.
        bindR (raw_state_of (bundle_outputs bundle) ref) (\<lambda>raw.
        bindR (mapR (\<lambda>s. resolve_htf_regime s side) raw) (\<lambda>resolved.
        Inr \<lparr>cr_role = role, cr_context_ref = ref, cr_policy_id = policy_id, cr_side = Some side,
             cr_component_id = optional_text cmp ''component_id'', cr_instance_id = optional_text cmp ''instance_id'',
             cr_raw_state = raw, cr_resolved_regime = Some resolved,
             cr_allowed = Some (map (\<lambda>r. r \<in> set regimes) resolved), cr_allowed_regimes = regimes,
             cr_profile_long = None, cr_profile_short = None\<rparr>))))"

text \<open>
  \<open>_gate_declarations\<close> is a generator: what is done with a declaration happens before the next
  one is parsed.  The walk takes what is done as an argument.
\<close>

fun gate_items ::
  "(string \<Rightarrow> obj \<Rightarrow> string \<times> string \<times> obj \<Rightarrow> string \<Rightarrow> 'a res) \<Rightarrow> string list \<Rightarrow> string \<Rightarrow> nat \<Rightarrow> json list \<Rightarrow> 'a list res" where
  "gate_items f sides role i [] = Inr []"
| "gate_items f sides role i (x # xs) =
     (let path = at_index (''raw_spec.'' @ role) i in
      bindR (require_mapping x path) (\<lambda>it.
      bindR (consumption_of (get it ''context_consumption'') (path @ ''.context_consumption'')) (\<lambda>con.
      bindR (case con of None \<Rightarrow> Inr [] | Some c \<Rightarrow> mapR (f role it c) sides) (\<lambda>here.
      bindR (gate_items f sides role (Suc i) xs) (\<lambda>rest. Inr (here @ rest))))))"

definition gate_role ::
  "(string \<Rightarrow> obj \<Rightarrow> string \<times> string \<times> obj \<Rightarrow> string \<Rightarrow> 'a res) \<Rightarrow> string list \<Rightarrow> string \<times> json \<Rightarrow> 'a list res" where
  "gate_role f sides role =
     (case snd role of
        JList xs \<Rightarrow> gate_items f sides (fst role) 0 xs
      | _ \<Rightarrow> Inl (InvalidRequest (''raw_spec '' @ fst role @ '' list must be an array'')))"

definition gate_declarations ::
  "(string \<Rightarrow> obj \<Rightarrow> string \<times> string \<times> obj \<Rightarrow> string \<Rightarrow> 'a res) \<Rightarrow> obj \<Rightarrow> string list \<Rightarrow> 'a list res" where
  "gate_declarations f raw_spec sides =
     bindR (components_of raw_spec) (\<lambda>cs.
     bindR (mapR (gate_role f sides) [(''blocker'', get_or cs ''blockers'' (JList [])), (''setup'', get_or raw_spec ''setups'' (JList []))])
       (\<lambda>xss. Inr (concat xss)))"

definition exit_consumption :: "obj \<Rightarrow> (string \<times> string) option res" where
  "exit_consumption raw_spec =
     bindR (require_mapping (get_or raw_spec ''trade_management'' (JObj [])) ''raw_spec.trade_management'') (\<lambda>tm.
     bindR (require_mapping (get_or tm ''exit_policy'' (JObj [])) ''raw_spec.trade_management.exit_policy'') (\<lambda>policy.
     bindR (consumption_of (get policy ''context_consumption'') ''raw_spec.trade_management.exit_policy.context_consumption'') (\<lambda>con.
     case con of None \<Rightarrow> Inr None
     | Some (ref, policy_id, params) \<Rightarrow>
         raise_if (policy_id \<noteq> ''exit_profile_by_htf_state'') (InvalidRequest ''unsupported exit context policy'')
           (Inr (Some (ref, policy_id))))))"

text \<open>The contexts a document consumes.\<close>

definition consumption_context_refs :: "obj \<Rightarrow> string list res" where
  "consumption_context_refs raw_spec =
     bindR (gate_declarations (\<lambda>role it con side. Inr (fst con)) raw_spec [''long'']) (\<lambda>refs.
     bindR (exit_consumption raw_spec) (\<lambda>ex. Inr (remdups (case ex of None \<Rightarrow> refs | Some (ref, _) \<Rightarrow> refs @ [ref]))))"

definition side_profile :: "string list \<Rightarrow> string \<Rightarrow> string list \<Rightarrow> string list res" where
  "side_profile sides side raw =
     (if side \<in> set sides then mapR (\<lambda>s. resolve_htf_regime s side) raw else Inr (map (\<lambda>_. ''neutral'') raw))"

definition exit_record :: "context_bundle \<Rightarrow> string list \<Rightarrow> string \<times> string \<Rightarrow> consumption_record res" where
  "exit_record bundle sides con =
     bindR (raw_state_of (bundle_outputs bundle) (fst con)) (\<lambda>raw.
     bindR (side_profile sides ''long'' raw) (\<lambda>lp.
     bindR (side_profile sides ''short'' raw) (\<lambda>sp.
     Inr \<lparr>cr_role = ''exit_policy'', cr_context_ref = fst con, cr_policy_id = snd con, cr_side = None,
          cr_component_id = Some ''exit_policy'', cr_instance_id = None, cr_raw_state = raw,
          cr_resolved_regime = None, cr_allowed = None, cr_allowed_regimes = [],
          cr_profile_long = Some lp, cr_profile_short = Some sp\<rparr>)))"

definition build_context_consumption_evidence :: "obj \<Rightarrow> context_bundle \<Rightarrow> consumption_record list res" where
  "build_context_consumption_evidence raw_spec bundle =
     bindR (consumption_sides raw_spec) (\<lambda>sides.
     bindR (gate_declarations (gate_record bundle) raw_spec sides) (\<lambda>gates.
     bindR (exit_consumption raw_spec) (\<lambda>ex.
     case ex of None \<Rightarrow> Inr gates
     | Some con \<Rightarrow> bindR (exit_record bundle sides con) (\<lambda>r. Inr (gates @ [r])))))"

section \<open>Identities\<close>

definition CONTEXT_NODE_VERSION :: int where "CONTEXT_NODE_VERSION = 1"
definition CONTEXT_CONSUMPTION_NODE_VERSION :: int where "CONTEXT_CONSUMPTION_NODE_VERSION = 1"

definition optional_node :: "node_ids \<Rightarrow> string \<Rightarrow> dependency" where
  "optional_node ids oid = (case map_of ids oid of None \<Rightarrow> NoNode | Some n \<Rightarrow> Single n)"

text \<open>The contexts of \<open>resolve_context_bundle\<close>; the episodes it adds are not modelled.\<close>

definition context_identity :: "ema_plan \<Rightarrow> node_ids \<Rightarrow> string \<times> json \<Rightarrow> (string \<times> node) res" where
  "context_identity plan ids entry =
     bindR (context_provider plan entry) (\<lambda>(ref, provider, cols).
     bindR (mapR (\<lambda>role. bindR (column_at cols role) (\<lambda>oid. Inr (role, optional_node ids oid))) [''fast'', ''anchor'', ''slow'']) (\<lambda>ups.
     bindR (node_spec ''context.htf_context'' CONTEXT_NODE_VERSION [] ups None) (\<lambda>n. Inr (ref, n))))"

definition context_identities :: "obj \<Rightarrow> ema_plan \<Rightarrow> node_ids \<Rightarrow> node_ids res" where
  "context_identities raw_spec plan ids =
     bindR (declared_contexts raw_spec) (mapR (context_identity plan ids))"

record gate_identity =
  gi_role :: string
  gi_instance_id :: "string option"
  gi_side :: string
  gi_node :: node

definition context_node :: "node_ids \<Rightarrow> string \<Rightarrow> node res" where
  "context_node ids ref = (case map_of ids ref of None \<Rightarrow> Inl (InvalidRequest ''unknown context_ref'') | Some n \<Rightarrow> Inr n)"

definition gate_identity_of :: "node_ids \<Rightarrow> string \<Rightarrow> obj \<Rightarrow> string \<times> string \<times> obj \<Rightarrow> string \<Rightarrow> gate_identity res" where
  "gate_identity_of ids role it con side =
     (case con of (ref, policy_id, params) \<Rightarrow>
        bindR (gate_allowed_regimes policy_id params) (\<lambda>regimes.
        bindR (context_node ids ref) (\<lambda>c.
        bindR (node_spec ''context_consumption.htf_regime_gate'' CONTEXT_CONSUMPTION_NODE_VERSION
          [(''allowed_regimes'', PSet (map PStr (remdups regimes)))] [(''context'', Single c)] (Some side)) (\<lambda>n.
        Inr \<lparr>gi_role = role, gi_instance_id = optional_text it ''instance_id'', gi_side = side, gi_node = n\<rparr>))))"

definition resolve_context_consumption :: "obj \<Rightarrow> node_ids \<Rightarrow> gate_identity list res" where
  "resolve_context_consumption raw_spec ids =
     bindR (consumption_sides raw_spec) (gate_declarations (gate_identity_of ids) raw_spec)"

definition constant_neutral_profile :: "node res" where
  "constant_neutral_profile =
     node_spec ''context_consumption.exit_profile.constant_neutral'' CONTEXT_CONSUMPTION_NODE_VERSION [] [] None"

definition profile_identity :: "string list \<Rightarrow> node \<Rightarrow> string \<Rightarrow> node res" where
  "profile_identity sides c side =
     (if side \<notin> set sides then constant_neutral_profile
      else node_spec ''context_consumption.exit_profile'' CONTEXT_CONSUMPTION_NODE_VERSION [] [(''context'', Single c)] (Some side))"

definition resolve_exit_profiles :: "obj \<Rightarrow> node_ids \<Rightarrow> (node option \<times> node \<times> node) res" where
  "resolve_exit_profiles raw_spec ids =
     bindR (consumption_sides raw_spec) (\<lambda>sides.
     bindR (exit_consumption raw_spec) (\<lambda>ex.
     case ex of
       None \<Rightarrow> bindR constant_neutral_profile (\<lambda>n. Inr (None, n, n))
     | Some (ref, _) \<Rightarrow>
         bindR (context_node ids ref) (\<lambda>c.
         bindR (profile_identity sides c ''long'') (\<lambda>l.
         bindR (profile_identity sides c ''short'') (\<lambda>s. Inr (Some c, l, s))))))"

end
