(* ===== verification/Blockers.thy ===== *)
theory Blockers
  imports ContextStates
begin

text \<open>
  Direction and blockers (\<open>direction_blockers.py\<close>): the mask of the trend direction, the masks of
  the blockers with their context gates, their conjunction per side, and the identities under
  which a batch memoizes them.  The arrays of one evaluation have one length, and the integers of
  the document fit in 64 bits.  The counter candle compares the decimal prices of the bars, an
  argument of its own beside the frame, whose bars are the floats of those decimals.
\<close>

definition DIRECTION_SUPPORTED :: "string list" where "DIRECTION_SUPPORTED = [''ema_anchor_stack_trend'']"
definition BLOCKER_SUPPORTED :: "string list" where
  "BLOCKER_SUPPORTED = [''no_blockers'', ''counter_candle_blocker'', ''rsi_lookback_extreme_blocker'',
     ''trend_strength_episode_blocker'']"

record component_mask =
  cm_role :: string
  cm_component_id :: string
  cm_instance_id :: string
  cm_side :: string
  cm_intrinsic_allowed :: "bool list"
  cm_context_allowed :: "bool list option"
  cm_allowed :: "bool list"
  cm_trace :: trace

record side_direction_blockers =
  sdb_side :: string
  sdb_direction :: component_mask
  sdb_blockers :: "component_mask list"
  sdb_blockers_ok :: "bool list"
  sdb_pre_setup_allowed :: "bool list"

section \<open>The wire form\<close>

definition wire_bools :: "bool list \<Rightarrow> json" where "wire_bools bs = JList (map JBool bs)"

fun wire_values :: "trace_values \<Rightarrow> json" where
  "wire_values (Floats xs) = JList (map JFloat xs)"
| "wire_values (Bools bs) = wire_bools bs"
| "wire_values (Texts ts) = JList (map JStr ts)"
| "wire_values (Ints ns) = JList (map JInt ns)"
| "wire_values (OptFloats xs) = JList (map (\<lambda>x. case x of None \<Rightarrow> JNull | Some v \<Rightarrow> JFloat v) xs)"
| "wire_values (Labels ts) = JList (map (\<lambda>t. case t of None \<Rightarrow> JNull | Some s \<Rightarrow> JStr s) ts)"

definition wire_trace :: "trace \<Rightarrow> json" where
  "wire_trace tr = JObj (map (\<lambda>(k, v). (k, wire_values v)) tr)"

definition count_true :: "bool list \<Rightarrow> int" where
  "count_true bs = int (length (filter id bs))"

definition component_mask_to_wire :: "component_mask \<Rightarrow> json" where
  "component_mask_to_wire m = JObj
     [(''role'', JStr (cm_role m)), (''component_id'', JStr (cm_component_id m)),
      (''instance_id'', JStr (cm_instance_id m)), (''side'', JStr (cm_side m)),
      (''intrinsic_allowed'', wire_bools (cm_intrinsic_allowed m)),
      (''context_allowed'', case cm_context_allowed m of None \<Rightarrow> JNull | Some g \<Rightarrow> wire_bools g),
      (''allowed'', wire_bools (cm_allowed m)), (''trace'', wire_trace (cm_trace m)),
      (''counters'', JObj
        [(''intrinsic_allowed_count'', JInt (count_true (cm_intrinsic_allowed m))),
         (''intrinsic_blocked_count'', JInt (int (length (cm_intrinsic_allowed m)) - count_true (cm_intrinsic_allowed m))),
         (''allowed_count'', JInt (count_true (cm_allowed m))),
         (''blocked_count'', JInt (int (length (cm_allowed m)) - count_true (cm_allowed m)))])]"

definition side_blockers_to_wire :: "side_direction_blockers \<Rightarrow> json" where
  "side_blockers_to_wire s = JObj
     [(''side'', JStr (sdb_side s)), (''direction'', component_mask_to_wire (sdb_direction s)),
      (''blockers'', JList (map component_mask_to_wire (sdb_blockers s))),
      (''blockers_ok'', wire_bools (sdb_blockers_ok s)), (''pre_setup_allowed'', wire_bools (sdb_pre_setup_allowed s))]"

section \<open>Gates\<close>

definition gate_for :: "consumption_record list \<Rightarrow> string \<Rightarrow> string \<Rightarrow> string \<Rightarrow> bool list option" where
  "gate_for records role inst side =
     (case find (\<lambda>r. cr_role r = role \<and> cr_instance_id r = Some inst \<and> cr_side r = Some side) records of
        None \<Rightarrow> None | Some r \<Rightarrow> cr_allowed r)"

definition apply_gate :: "bool list \<Rightarrow> bool list option \<Rightarrow> bool list res" where
  "apply_gate intrinsic gate =
     (case gate of None \<Rightarrow> Inr intrinsic
      | Some g \<Rightarrow>
          raise_if (length g \<noteq> length intrinsic) (InvalidRequest ''context gate length does not match component mask'')
            (and_pair intrinsic g))"

section \<open>Direction\<close>

definition supported_direction_component_id :: "obj \<Rightarrow> string res" where
  "supported_direction_component_id raw_spec =
     bindR (resolve_direction_component_id raw_spec) (\<lambda>cid.
     raise_if (cid \<notin> set DIRECTION_SUPPORTED) (InvalidRequest ''unsupported direction component'') (Inr cid))"

definition direction :: "obj \<Rightarrow> feature_frame \<Rightarrow> ema_plan \<Rightarrow> string \<Rightarrow> component_mask res" where
  "direction raw_spec fr plan side =
     bindR (supported_direction_component_id raw_spec) (\<lambda>cid.
     bindR (column_floats fr (anchor_columns plan) ''fast'') (\<lambda>fast.
     bindR (column_floats fr (anchor_columns plan) ''anchor'') (\<lambda>anchor.
     bindR (column_floats fr (anchor_columns plan) ''slow'') (\<lambda>slow.
     (let cmp = (if side = ''long'' then fgt else flt) in
      bindR (zip_with cmp fast anchor) (\<lambda>upper.
      bindR (zip_with cmp anchor slow) (\<lambda>lower.
      bindR (and_pair upper lower) (\<lambda>ok.
      Inr \<lparr>cm_role = ''direction'', cm_component_id = cid, cm_instance_id = cid, cm_side = side,
           cm_intrinsic_allowed = ok, cm_context_allowed = None, cm_allowed = ok,
           cm_trace = [(''fast_gt_anchor'', Bools upper), (''anchor_gt_slow'', Bools lower)]\<rparr>))))))))"

section \<open>RSI extreme\<close>

definition rsi_blocker_column :: "obj \<Rightarrow> ema_plan \<Rightarrow> string res" where
  "rsi_blocker_column it plan =
     bindR (require_mapping (get it ''rsi'') ''blocker.rsi'') (\<lambda>rsi.
     bindR (py_int (get_or rsi ''period'' (JInt 14))) (\<lambda>period.
     case map_of (rsi_columns plan) (text_of rsi ''timeframe'' ''base'', period) of
       None \<Rightarrow> Inl (InvalidRequest ''missing RSI mapping for blocker'') | Some oid \<Rightarrow> Inr oid))"

definition rsi_blocker_params :: "obj \<Rightarrow> string \<Rightarrow> (int \<times> f64) res" where
  "rsi_blocker_params it side =
     bindR (py_int (get_or it ''lookback'' (JInt 20))) (\<lambda>lookback.
     raise_if (lookback \<le> 0) (InvalidRequest ''blocker lookback must be positive'')
     (bindR (if side = ''long'' then py_float (get_or it ''long_block_above'' (JFloat (Fin 80)))
             else py_float (get_or it ''short_block_below'' (JFloat (Fin 20)))) (\<lambda>threshold.
      Inr (lookback, threshold))))"

definition rsi_blocker :: "obj \<Rightarrow> feature_frame \<Rightarrow> ema_plan \<Rightarrow> string \<Rightarrow> (bool list \<times> trace) res" where
  "rsi_blocker it fr plan side =
     bindR (rsi_blocker_column it plan) (\<lambda>oid.
     bindR (float_series fr oid) (\<lambda>vs.
     bindR (rsi_blocker_params it side) (\<lambda>(lookback, threshold).
     (let extreme = map (\<lambda>v. isfinite v \<and> (if side = ''long'' then fgt v threshold else flt v threshold)) vs;
          seen = rolling_any (nat lookback) extreme in
      Inr (map Not seen, [(''rsi'', Floats vs), (''extreme_seen'', Bools seen)])))))"

section \<open>Trend strength\<close>

record trend_params =
  tp_min_peak :: f64
  tp_peak_lookback :: int
  tp_max_since :: int
  tp_min_current :: f64
  tp_require_alignment :: bool
  tp_block_flip :: bool
  tp_margin :: f64

definition trend_strength_columns :: "obj \<Rightarrow> ema_plan \<Rightarrow> (obj \<times> (string \<times> string) list) res" where
  "trend_strength_columns it plan =
     bindR (require_mapping (get it ''trend_strength'') ''blocker.trend_strength'') (\<lambda>params.
     bindR (py_int (get_or params ''adx_period'' (JInt 14))) (\<lambda>period.
     case map_of (adx_dmi_columns plan) (text_of params ''timeframe'' ''base'', period) of
       None \<Rightarrow> Inl (InvalidRequest ''missing ADX/DMI mapping for blocker'') | Some cols \<Rightarrow> Inr (params, cols)))"

definition trend_strength_params :: "obj \<Rightarrow> trend_params res" where
  "trend_strength_params params =
     bindR (py_float (get_or params ''min_adx_peak'' (JFloat (Fin 25)))) (\<lambda>min_peak.
     bindR (py_int (get_or params ''peak_lookback_bars'' (JInt 60))) (\<lambda>lookback.
     bindR (py_int (get_or params ''max_bars_since_peak'' (JInt 30))) (\<lambda>since.
     bindR (py_float (get_or params ''min_current_adx'' (JFloat (Fin 15)))) (\<lambda>current.
     bindR (py_float (get_or params ''opposite_di_margin'' (JFloat (Fin 0)))) (\<lambda>margin.
     Inr \<lparr>tp_min_peak = min_peak, tp_peak_lookback = lookback, tp_max_since = since, tp_min_current = current,
          tp_require_alignment = truthy (get_or params ''require_di_alignment_on_peak'' (JBool True)),
          tp_block_flip = truthy (get_or params ''block_on_opposite_di_flip'' (JBool True)), tp_margin = margin\<rparr>)))))"

text \<open>The arrays of the vectorised evaluation, bar by bar.\<close>

definition bar_finite :: "f64 \<times> f64 \<times> f64 \<Rightarrow> bool" where
  "bar_finite apm = (case apm of (a, p, m) \<Rightarrow> isfinite a \<and> isfinite p \<and> isfinite m)"

definition qualifies :: "trend_params \<Rightarrow> string \<Rightarrow> f64 \<times> f64 \<times> f64 \<Rightarrow> bool" where
  "qualifies tp side apm =
     (case apm of (a, p, m) \<Rightarrow>
        bar_finite apm \<and> fge a (tp_min_peak tp) \<and>
        ((if side = ''long'' then fgt p m else fgt m p) \<or> \<not> tp_require_alignment tp))"

definition opposite_di :: "trend_params \<Rightarrow> string \<Rightarrow> f64 \<times> f64 \<times> f64 \<Rightarrow> bool" where
  "opposite_di tp side apm =
     (case apm of (a, p, m) \<Rightarrow> if side = ''long'' then fgt m (fadd p (tp_margin tp)) else fgt p (fadd m (tp_margin tp)))"

text \<open>\<open>np.maximum.accumulate\<close> over the positions that qualify.\<close>

definition running_last :: "bool list \<Rightarrow> int list" where
  "running_last qs =
     snd (scan (\<lambda>m c. (max m c, max m c)) (- 1) (map (\<lambda>i. if qs ! i then int i else - 1) [0 ..< length qs]))"

definition peak_index :: "int \<Rightarrow> bool list \<Rightarrow> nat \<Rightarrow> int" where
  "peak_index lookback qs i =
     (if int i - lookback + 1 \<le> running_last qs ! i then running_last qs ! i else - 1)"

text \<open>Each reason overrides the empty one where its mask holds; a bar is allowed where no mask does.\<close>

definition reason_masks :: "trend_params \<Rightarrow> string \<Rightarrow> f64 \<times> f64 \<times> f64 \<Rightarrow> nat \<Rightarrow> int \<Rightarrow> (bool \<times> string) list" where
  "reason_masks tp side apm i peak =
     (let not_ready = \<not> bar_finite apm; missing = peak < 0;
          since = (if 0 \<le> peak then int i - peak else - 1);
          too_old = \<not> missing \<and> tp_max_since tp < since;
          too_low = flt (fst apm) (tp_min_current tp); flip = tp_block_flip tp \<and> opposite_di tp side apm in
      [(not_ready, ''indicator_not_ready''),
       (\<not> not_ready \<and> missing, ''no_recent_adx_peak''),
       (\<not> not_ready \<and> \<not> missing \<and> too_old, ''peak_too_old''),
       (\<not> not_ready \<and> \<not> missing \<and> \<not> too_old \<and> too_low, ''current_adx_too_low''),
       (\<not> not_ready \<and> \<not> missing \<and> \<not> too_old \<and> \<not> too_low \<and> flip, ''opposite_di_flip'')])"

text \<open>One bar of the result: allowed, reason, index of the peak, bars since the peak.\<close>

definition trend_bar ::
  "trend_params \<Rightarrow> string \<Rightarrow> (f64 \<times> f64 \<times> f64) list \<Rightarrow> nat \<Rightarrow> bool \<times> string \<times> int \<times> int" where
  "trend_bar tp side rows i =
     (let peak = peak_index (tp_peak_lookback tp) (map (qualifies tp side) rows) i;
          masks = reason_masks tp side (rows ! i) i peak; ready = bar_finite (rows ! i) in
      (list_all (\<lambda>mr. \<not> fst mr) masks, foldl (\<lambda>r mr. if fst mr then snd mr else r) [] masks,
       if ready then peak else - 1, if ready \<and> 0 \<le> peak then int i - peak else - 1))"

definition trend_strength_blocker :: "obj \<Rightarrow> feature_frame \<Rightarrow> ema_plan \<Rightarrow> string \<Rightarrow> (bool list \<times> trace) res" where
  "trend_strength_blocker it fr plan side =
     bindR (trend_strength_columns it plan) (\<lambda>(params, cols).
     bindR (column_floats fr cols ''adx'') (\<lambda>adx.
     bindR (column_floats fr cols ''di_plus'') (\<lambda>di_plus.
     bindR (column_floats fr cols ''di_minus'') (\<lambda>di_minus.
     bindR (trend_strength_params params) (\<lambda>tp.
     bindR (strict_zip di_plus di_minus) (\<lambda>pm.
     bindR (strict_zip adx pm) (\<lambda>rows.
     (let out = map (trend_bar tp side rows) [0 ..< length rows] in
      Inr (map fst out,
           [(''blocked_reason'', Texts (map (fst \<circ> snd) out)), (''adx_current'', Floats adx),
            (''di_plus_current'', Floats di_plus), (''di_minus_current'', Floats di_minus),
            (''adx_peak_idx'', Ints (map (fst \<circ> snd \<circ> snd) out)),
            (''bars_since_adx_peak'', Ints (map (snd \<circ> snd \<circ> snd) out))])))))))))"

section \<open>Blockers\<close>

definition blocker_intrinsic ::
  "string \<Rightarrow> obj \<Rightarrow> feature_frame \<Rightarrow> rat market_bar list \<Rightarrow> ema_plan \<Rightarrow> string \<Rightarrow> (bool list \<times> trace) res" where
  "blocker_intrinsic cid it fr decs plan side =
     (if cid = ''no_blockers'' then Inr (map (\<lambda>_. True) (frame_time_ms fr), [])
      else if cid = ''counter_candle_blocker'' then
        raise_if (length decs \<noteq> length (frame_time_ms fr))
          (InvalidRequest ''market bars unavailable for counter candle blocker'')
          (Inr (map (\<lambda>b. if side = ''long'' then bar_open b \<le> bar_close b else bar_close b \<le> bar_open b) decs, []))
      else if cid = ''rsi_lookback_extreme_blocker'' then rsi_blocker it fr plan side
      else trend_strength_blocker it fr plan side)"

definition blocker ::
  "feature_frame \<Rightarrow> rat market_bar list \<Rightarrow> ema_plan \<Rightarrow> consumption_record list \<Rightarrow> string \<Rightarrow> obj \<Rightarrow> component_mask res" where
  "blocker fr decs plan records side it =
     (let cid = fst (resolve_blocker_identity it); inst = snd (resolve_blocker_identity it) in
      raise_if (cid \<notin> set BLOCKER_SUPPORTED) (InvalidRequest ''unsupported blocker component'')
      (bindR (blocker_intrinsic cid it fr decs plan side) (\<lambda>(intrinsic, tr).
       (let gate = gate_for records ''blocker'' inst side in
        bindR (apply_gate intrinsic gate) (\<lambda>ok.
        Inr \<lparr>cm_role = ''blockers'', cm_component_id = cid, cm_instance_id = inst, cm_side = side,
             cm_intrinsic_allowed = intrinsic, cm_context_allowed = gate, cm_allowed = ok, cm_trace = tr\<rparr>)))))"

text \<open>\<open>np.array\<close> of masks of different lengths raises.\<close>

definition combine_blocker_masks :: "bool list list \<Rightarrow> nat \<Rightarrow> bool list res" where
  "combine_blocker_masks masks n =
     (case masks of [] \<Rightarrow> Inr (replicate n True)
      | m # ms \<Rightarrow>
          raise_if (list_ex (\<lambda>x. length x \<noteq> length m) ms) (PyValueError ''setting an array element with a sequence'')
            (Inr (map (\<lambda>i. list_all (\<lambda>x. x ! i) masks) [0 ..< length m])))"

definition blocker_items :: "obj \<Rightarrow> obj list res" where
  "blocker_items raw_spec =
     bindR (components_of raw_spec) (\<lambda>cs.
     bindR (mapping_list (get_or cs ''blockers'' (JList [])) ''raw_spec.components.blockers'') (\<lambda>its.
     Inr (if its = [] then [[(''component_id'', JStr ''no_blockers''), (''instance_id'', JStr ''no_blockers'')]] else its)))"

definition side_blockers ::
  "obj \<Rightarrow> feature_frame \<Rightarrow> rat market_bar list \<Rightarrow> ema_plan \<Rightarrow> consumption_record list \<Rightarrow> obj list \<Rightarrow> string \<Rightarrow>
     side_direction_blockers res" where
  "side_blockers raw_spec fr decs plan records its side =
     bindR (direction raw_spec fr plan side) (\<lambda>dir.
     bindR (mapR (blocker fr decs plan records side) its) (\<lambda>bs.
     bindR (combine_blocker_masks (map cm_allowed bs) (length (frame_time_ms fr))) (\<lambda>ok.
     bindR (and_pair (cm_allowed dir) ok) (\<lambda>pre.
     Inr \<lparr>sdb_side = side, sdb_direction = dir, sdb_blockers = bs, sdb_blockers_ok = ok, sdb_pre_setup_allowed = pre\<rparr>))))"

definition evaluate_direction_and_blockers ::
  "obj \<Rightarrow> feature_frame \<Rightarrow> rat market_bar list \<Rightarrow> ema_plan \<Rightarrow> consumption_record list \<Rightarrow> side_direction_blockers list res" where
  "evaluate_direction_and_blockers raw_spec fr decs plan records =
     bindR (blocker_items raw_spec) (\<lambda>its.
     bindR (resolve_enabled_sides raw_spec) (mapR (side_blockers raw_spec fr decs plan records its)))"

section \<open>Identities\<close>

definition gate_node_for :: "gate_identity list \<Rightarrow> string \<Rightarrow> string \<Rightarrow> string \<Rightarrow> node option" where
  "gate_node_for gates role inst side =
     map_option gi_node (find (\<lambda>g. gi_role g = role \<and> gi_instance_id g = Some inst \<and> gi_side g = side) gates)"

definition resolve_direction :: "obj \<Rightarrow> ema_plan \<Rightarrow> node_ids \<Rightarrow> string \<Rightarrow> node res" where
  "resolve_direction raw_spec plan ids side =
     bindR (supported_direction_component_id raw_spec) (\<lambda>cid.
     bindR (mapR (\<lambda>role. bindR (column_at (anchor_columns plan) role) (\<lambda>oid. bindR (feature_node ids oid) (\<lambda>n. Inr (role, Single n))))
       [''fast'', ''anchor'', ''slow'']) (\<lambda>ups.
     node_spec (''direction.'' @ cid) DIRECTION_BLOCKER_NODE_VERSION [] ups (Some side)))"

definition resolve_blocker_intrinsic :: "obj \<Rightarrow> ema_plan \<Rightarrow> node_ids \<Rightarrow> string \<Rightarrow> node res" where
  "resolve_blocker_intrinsic it plan ids side =
     (let cid = fst (resolve_blocker_identity it); kind = ''blocker.'' @ cid in
      raise_if (cid \<notin> set BLOCKER_SUPPORTED) (InvalidRequest ''unsupported blocker component'')
      (if cid = ''no_blockers'' then node_spec kind DIRECTION_BLOCKER_NODE_VERSION [] [] None
       else if cid = ''counter_candle_blocker'' then node_spec kind DIRECTION_BLOCKER_NODE_VERSION [] [] (Some side)
       else if cid = ''rsi_lookback_extreme_blocker'' then
         bindR (rsi_blocker_column it plan) (\<lambda>oid.
         bindR (feature_node ids oid) (\<lambda>rsi.
         bindR (rsi_blocker_params it side) (\<lambda>(lookback, threshold).
         node_spec kind DIRECTION_BLOCKER_NODE_VERSION
           [(''lookback'', PInt lookback), (''threshold'', PFloat (f64_bits threshold))] [(''rsi'', Single rsi)] (Some side))))
       else
         bindR (trend_strength_columns it plan) (\<lambda>(params, cols).
         bindR (mapR (\<lambda>(role, oid). bindR (feature_node ids oid) (\<lambda>n. Inr (role, Single n))) cols) (\<lambda>ups.
         bindR (trend_strength_params params) (\<lambda>tp.
         node_spec kind DIRECTION_BLOCKER_NODE_VERSION
           [(''min_adx_peak'', PFloat (f64_bits (tp_min_peak tp))), (''peak_lookback_bars'', PInt (tp_peak_lookback tp)),
            (''max_bars_since_peak'', PInt (tp_max_since tp)), (''min_current_adx'', PFloat (f64_bits (tp_min_current tp))),
            (''require_di_alignment_on_peak'', PBool (tp_require_alignment tp)),
            (''block_on_opposite_di_flip'', PBool (tp_block_flip tp)), (''opposite_di_margin'', PFloat (f64_bits (tp_margin tp)))]
           ups (Some side))))))"

record side_blocker_identity =
  sbi_side :: string
  sbi_direction :: node
  sbi_blocker_intrinsic :: "(string \<times> node) list"
  sbi_blocker_allowed :: "(string \<times> node) list"
  sbi_blockers_ok :: node
  sbi_pre_setup_allowed :: node

definition blocker_identity_nodes ::
  "ema_plan \<Rightarrow> node_ids \<Rightarrow> gate_identity list \<Rightarrow> string \<Rightarrow> obj \<Rightarrow> (string \<times> node \<times> node) res" where
  "blocker_identity_nodes plan ids gates side it =
     (let inst = snd (resolve_blocker_identity it) in
      bindR (resolve_blocker_intrinsic it plan ids side) (\<lambda>n.
      bindR (gated_mask_node n (gate_node_for gates ''blocker'' inst side)) (\<lambda>g. Inr (inst, n, g))))"

definition resolve_side_blockers ::
  "obj \<Rightarrow> ema_plan \<Rightarrow> node_ids \<Rightarrow> gate_identity list \<Rightarrow> obj list \<Rightarrow> string \<Rightarrow> side_blocker_identity res" where
  "resolve_side_blockers raw_spec plan ids gates its side =
     bindR (resolve_direction raw_spec plan ids side) (\<lambda>dir.
     bindR (mapR (blocker_identity_nodes plan ids gates side) its) (\<lambda>ns.
     bindR (and_masks_node ''mask.all'' (map (\<lambda>(_, _, g). g) ns)) (\<lambda>ok.
     bindR (pairwise_and_node ''mask.all'' dir ok) (\<lambda>pre.
     Inr \<lparr>sbi_side = side, sbi_direction = dir, sbi_blocker_intrinsic = map (\<lambda>(i, n, _). (i, n)) ns,
          sbi_blocker_allowed = map (\<lambda>(i, _, g). (i, g)) ns, sbi_blockers_ok = ok, sbi_pre_setup_allowed = pre\<rparr>))))"

definition resolve_direction_and_blockers ::
  "obj \<Rightarrow> ema_plan \<Rightarrow> node_ids \<Rightarrow> gate_identity list \<Rightarrow> side_blocker_identity list res" where
  "resolve_direction_and_blockers raw_spec plan ids gates =
     bindR (blocker_items raw_spec) (\<lambda>its.
     bindR (resolve_enabled_sides raw_spec) (mapR (resolve_side_blockers raw_spec plan ids gates its)))"

end
