(* ===== verification/BlockerFacts.thy ===== *)
theory BlockerFacts
  imports Blockers
begin

text \<open>
  Facts about contexts, direction and blockers: the vectorised trend-strength blocker against the
  nested backward search it replaces, and the evaluation on a frame that is cut short.
\<close>

section \<open>The most recent qualifying bar\<close>

text \<open>The nested search: from bar \<open>i\<close> back over at most \<open>k\<close> bars.\<close>

fun last_true :: "bool list \<Rightarrow> nat \<Rightarrow> nat \<Rightarrow> nat option" where
  "last_true qs 0 i = None"
| "last_true qs (Suc k) i = (if qs ! i then Some i else if i = 0 then None else last_true qs k (i - 1))"

lemma last_true_None: "last_true qs k i = None \<Longrightarrow> j \<le> i \<Longrightarrow> i < j + k \<Longrightarrow> \<not> qs ! j"
proof (induction qs k i arbitrary: j rule: last_true.induct)
  case (2 qs k i)
  then show ?case by (cases "j = i") (auto split: if_splits)
qed simp

lemma last_true_Some:
  "last_true qs k i = Some j \<Longrightarrow> j \<le> i \<and> i < j + k \<and> qs ! j \<and> (\<forall>m. j < m \<longrightarrow> m \<le> i \<longrightarrow> \<not> qs ! m)"
proof (induction qs k i rule: last_true.induct)
  case (2 qs k i)
  show ?case
  proof (cases "qs ! i")
    case False
    then have i: "i \<noteq> 0" and l: "last_true qs k (i - 1) = Some j" using "2.prems" by (auto split: if_splits)
    have ih: "j \<le> i - 1 \<and> i - 1 < j + k \<and> qs ! j \<and> (\<forall>m. j < m \<longrightarrow> m \<le> i - 1 \<longrightarrow> \<not> qs ! m)"
      using "2.IH"[OF False i l] .
    have "\<not> qs ! m" if "j < m" "m \<le> i" for m using ih that False by (cases "m = i") auto
    then show ?thesis using ih i by auto
  qed (use 2 in simp)
qed simp

lemma last_true_cong: "(\<And>j. j \<le> i \<Longrightarrow> qs ! j = rs ! j) \<Longrightarrow> last_true qs k i = last_true rs k i"
  by (induction qs k i rule: last_true.induct) auto

lemma scan_accumulate: "i < length xs \<Longrightarrow> snd (scan (\<lambda>m c. (f m c, f m c)) a xs) ! i = foldl f a (take (Suc i) xs)"
proof -
  have st: "fst (scan (\<lambda>m c. (f m c, f m c)) a ys) = foldl f a ys" for a ys
    by (induction ys arbitrary: a) (auto simp: split_beta)
  assume "i < length xs"
  then show ?thesis by (simp add: scan_nth st take_Suc_conv_app_nth)
qed

lemma running_last_greatest:
  assumes "i < length qs"
  shows "(running_last qs ! i = - 1 \<and> (\<forall>j \<le> i. \<not> qs ! j)) \<or>
    (\<exists>j \<le> i. running_last qs ! i = int j \<and> qs ! j \<and> (\<forall>m. j < m \<longrightarrow> m \<le> i \<longrightarrow> \<not> qs ! m))"
proof -
  define cs where "cs = map (\<lambda>i. if qs ! i then int i else - 1) [0 ..< length qs]"
  have r: "running_last qs ! i = foldl max (- 1) (take (Suc i) cs)" if "i < length qs" for i
    unfolding running_last_def cs_def[symmetric] by (rule scan_accumulate) (simp add: cs_def that)
  have c: "cs ! i = (if qs ! i then int i else - 1)" if "i < length qs" for i using that by (simp add: cs_def)
  show ?thesis using assms
  proof (induction i)
    case 0
    then have "take (Suc 0) cs = [cs ! 0]" by (simp add: cs_def take_Suc_conv_app_nth)
    then show ?case using r[OF 0] c[OF 0] by auto
  next
    case (Suc i)
    have len: "Suc i < length cs" using Suc.prems by (simp add: cs_def)
    have e: "running_last qs ! Suc i = max (running_last qs ! i) (cs ! Suc i)"
      using r[of "Suc i"] r[of i] Suc.prems len by (simp add: take_Suc_conv_app_nth[of "Suc i"])
    show ?case
    proof (cases "qs ! Suc i")
      case True
      have "running_last qs ! i \<le> int (Suc i)" using Suc by auto
      then have "running_last qs ! Suc i = int (Suc i)" using e c[OF Suc.prems] True by simp
      then show ?thesis using True by (intro disjI2 exI[of _ "Suc i"]) simp
    next
      case False
      then have "running_last qs ! Suc i = running_last qs ! i"
        using e c[OF Suc.prems] Suc by (auto simp: max_def)
      then show ?thesis using Suc False by (auto simp: le_Suc_eq)
    qed
  qed
qed

lemma peak_index_last_true:
  assumes "i < length qs"
  shows "peak_index lookback qs i = (case last_true qs (nat lookback) i of None \<Rightarrow> - 1 | Some j \<Rightarrow> int j)"
proof (cases "last_true qs (nat lookback) i")
  case None
  have no: "\<not> qs ! j" if "j \<le> i" "i < j + nat lookback" for j using last_true_None[OF None that] .
  from running_last_greatest[OF assms] show ?thesis
    using no None by (fastforce simp: peak_index_def)
next
  case (Some j)
  note l = last_true_Some[OF Some]
  have "running_last qs ! i = int j"
    using running_last_greatest[OF assms] l by (metis linorder_neqE_nat)
  moreover have "int i - lookback + 1 \<le> int j" using l by linarith
  ultimately show ?thesis using Some by (simp add: peak_index_def)
qed

text \<open>The search bar by bar, with the reasons in the order of their priority.\<close>

definition searched_bar ::
  "trend_params \<Rightarrow> string \<Rightarrow> (f64 \<times> f64 \<times> f64) list \<Rightarrow> nat \<Rightarrow> bool \<times> string \<times> int \<times> int" where
  "searched_bar tp side rows i =
     (if \<not> bar_finite (rows ! i) then (False, ''indicator_not_ready'', - 1, - 1)
      else case last_true (map (qualifies tp side) rows) (nat (tp_peak_lookback tp)) i of
        None \<Rightarrow> (False, ''no_recent_adx_peak'', - 1, - 1)
      | Some j \<Rightarrow>
          let since = int i - int j; blocked = (\<lambda>reason. (False, reason, int j, since)) in
          if tp_max_since tp < since then blocked ''peak_too_old''
          else if flt (fst (rows ! i)) (tp_min_current tp) then blocked ''current_adx_too_low''
          else if tp_block_flip tp \<and> opposite_di tp side (rows ! i) then blocked ''opposite_di_flip''
          else (True, [], int j, since))"

lemma trend_bar_searched: "i < length rows \<Longrightarrow> trend_bar tp side rows i = searched_bar tp side rows i"
  by (auto simp: trend_bar_def searched_bar_def reason_masks_def peak_index_last_true Let_def split: option.splits)

lemma searched_bar_take: "i < n \<Longrightarrow> i < length rows \<Longrightarrow> searched_bar tp side (take n rows) i = searched_bar tp side rows i"
proof -
  assume "i < n" "i < length rows"
  then have "last_true (map (qualifies tp side) (take n rows)) k i = last_true (map (qualifies tp side) rows) k i" for k
    by (intro last_true_cong) auto
  then show ?thesis using \<open>i < n\<close> by (simp add: searched_bar_def Let_def split: option.split)
qed

lemma trend_bars_take:
  "map (trend_bar tp side (take n rows)) [0 ..< length (take n rows)] = take n (map (trend_bar tp side rows) [0 ..< length rows])"
  by (rule list_eq_nthI) (simp_all add: trend_bar_searched searched_bar_take)

section \<open>Frames cut short\<close>

fun cut_values :: "nat \<Rightarrow> trace_values \<Rightarrow> trace_values" where
  "cut_values n (Floats xs) = Floats (take n xs)"
| "cut_values n (Bools bs) = Bools (take n bs)"
| "cut_values n (Texts ts) = Texts (take n ts)"
| "cut_values n (Ints ns) = Ints (take n ns)"
| "cut_values n (OptFloats xs) = OptFloats (take n xs)"
| "cut_values n (Labels ts) = Labels (take n ts)"

definition cut_trace :: "nat \<Rightarrow> trace \<Rightarrow> trace" where
  "cut_trace n tr = map (map_prod id (cut_values n)) tr"

definition cut_context :: "nat \<Rightarrow> context_output \<Rightarrow> context_output" where
  "cut_context n c = c\<lparr>ctx_state := take n (ctx_state c), ctx_up := take n (ctx_up c), ctx_down := take n (ctx_down c),
     ctx_neutral := take n (ctx_neutral c)\<rparr>"

definition cut_bundle :: "nat \<Rightarrow> context_bundle \<Rightarrow> context_bundle" where
  "cut_bundle n b = \<lparr>bundle_time_ms = take n (bundle_time_ms b), bundle_outputs = map (cut_context n) (bundle_outputs b)\<rparr>"

definition cut_record :: "nat \<Rightarrow> consumption_record \<Rightarrow> consumption_record" where
  "cut_record n r = r\<lparr>cr_raw_state := take n (cr_raw_state r), cr_resolved_regime := map_option (take n) (cr_resolved_regime r),
     cr_allowed := map_option (take n) (cr_allowed r), cr_profile_long := map_option (take n) (cr_profile_long r),
     cr_profile_short := map_option (take n) (cr_profile_short r)\<rparr>"

definition cut_mask :: "nat \<Rightarrow> component_mask \<Rightarrow> component_mask" where
  "cut_mask n m = m\<lparr>cm_intrinsic_allowed := take n (cm_intrinsic_allowed m),
     cm_context_allowed := map_option (take n) (cm_context_allowed m), cm_allowed := take n (cm_allowed m),
     cm_trace := cut_trace n (cm_trace m)\<rparr>"

definition cut_side :: "nat \<Rightarrow> side_direction_blockers \<Rightarrow> side_direction_blockers" where
  "cut_side n s = s\<lparr>sdb_direction := cut_mask n (sdb_direction s), sdb_blockers := map (cut_mask n) (sdb_blockers s),
     sdb_blockers_ok := take n (sdb_blockers_ok s), sdb_pre_setup_allowed := take n (sdb_pre_setup_allowed s)\<rparr>"

lemma zip_with_cut: "zip_with f xs ys = Inr zs \<Longrightarrow> zip_with f (take n xs) (take n ys) = Inr (take n zs)"
  by (auto simp: zip_with_Inr take_zip take_map)

lemma and_pair_cut: "and_pair xs ys = Inr zs \<Longrightarrow> and_pair (take n xs) (take n ys) = Inr (take n zs)"
  by (simp add: and_pair_def zip_with_cut)

lemma strict_zip_cut: "strict_zip xs ys = Inr zs \<Longrightarrow> strict_zip (take n xs) (take n ys) = Inr (take n zs)"
  by (auto simp: strict_zip_Inr take_zip)

lemma mapR_cut:
  "mapR f xs = Inr ys \<Longrightarrow> (\<And>x y. f x = Inr y \<Longrightarrow> g x = Inr (c y)) \<Longrightarrow> mapR g xs = Inr (map c ys)"
  by (induction xs arbitrary: ys) (auto simp: bindR_Inr)

lemma mapR_take: "mapR f xs = Inr ys \<Longrightarrow> mapR f (take n xs) = Inr (take n ys)"
  by (induction xs arbitrary: ys n) (auto simp: bindR_Inr take_Cons split: nat.splits)

lemmas cut_rules = market_values_cut column_floats_cut float_series_cut zip_with_cut and_pair_cut strict_zip_cut

lemma direction_cut: "direction raw_spec fr plan side = Inr m \<Longrightarrow> direction raw_spec (cut_frame n fr) plan side = Inr (cut_mask n m)"
  by (auto simp: direction_def bindR_Inr Let_def cut_mask_def cut_trace_def simp: cut_rules[where n = n])

lemma rsi_blocker_cut:
  "rsi_blocker it fr plan side = Inr (ok, tr) \<Longrightarrow> rsi_blocker it (cut_frame n fr) plan side = Inr (take n ok, cut_trace n tr)"
  by (auto simp: rsi_blocker_def bindR_Inr Let_def cut_trace_def rolling_take take_map[symmetric] simp: cut_rules[where n = n])

lemma trend_strength_cut:
  assumes "trend_strength_blocker it fr plan side = Inr (ok, tr)"
  shows "trend_strength_blocker it (cut_frame n fr) plan side = Inr (take n ok, cut_trace n tr)"
proof -
  obtain params cols adx p m tp pm rows where g: "trend_strength_columns it plan = Inr (params, cols)"
    "column_floats fr cols ''adx'' = Inr adx" "column_floats fr cols ''di_plus'' = Inr p" "column_floats fr cols ''di_minus'' = Inr m"
    "trend_strength_params params = Inr tp" "strict_zip p m = Inr pm" "strict_zip adx pm = Inr rows"
    and out: "ok = map fst (map (trend_bar tp side rows) [0 ..< length rows])"
      "tr = (let out = map (trend_bar tp side rows) [0 ..< length rows] in
        [(''blocked_reason'', Texts (map (fst \<circ> snd) out)), (''adx_current'', Floats adx),
            (''di_plus_current'', Floats p), (''di_minus_current'', Floats m),
            (''adx_peak_idx'', Ints (map (fst \<circ> snd \<circ> snd) out)),
            (''bars_since_adx_peak'', Ints (map (snd \<circ> snd \<circ> snd) out))])"
    using assms by (auto simp: trend_strength_blocker_def bindR_Inr Let_def)
  note c = g(1,5) column_floats_cut[OF g(2), of n] column_floats_cut[OF g(3), of n] column_floats_cut[OF g(4), of n]
    strict_zip_cut[OF g(6), of n] strict_zip_cut[OF g(7), of n]
  show ?thesis unfolding trend_strength_blocker_def out Let_def cut_trace_def
    by (simp only: c bindR_simps prod.case trend_bars_take Let_def) (simp add: take_map)
qed

lemma blocker_intrinsic_cut:
  assumes "blocker_intrinsic cid it fr decs plan side = Inr (ok, tr)"
  shows "blocker_intrinsic cid it (cut_frame n fr) (take n decs) plan side = Inr (take n ok, cut_trace n tr)"
  using assms rsi_blocker_cut[of it fr plan side ok tr n] trend_strength_cut[of it fr plan side ok tr n]
  by (auto simp: blocker_intrinsic_def raise_if_Inr cut_frame_def take_map cut_trace_def split: if_splits)

lemma gate_for_cut: "gate_for (map (cut_record n) records) role inst side = map_option (take n) (gate_for records role inst side)"
  by (induction records) (auto simp: gate_for_def cut_record_def)

lemma apply_gate_cut: "apply_gate xs g = Inr ok \<Longrightarrow> apply_gate (take n xs) (map_option (take n) g) = Inr (take n ok)"
  by (auto simp: apply_gate_def raise_if_Inr split: option.splits dest: and_pair_cut[where n = n])

lemma blocker_cut:
  "blocker fr decs plan records side it = Inr m \<Longrightarrow>
     blocker (cut_frame n fr) (take n decs) plan (map (cut_record n) records) side it = Inr (cut_mask n m)"
  by (auto simp: blocker_def Let_def raise_if_Inr bindR_Inr gate_for_cut cut_mask_def
      simp: blocker_intrinsic_cut[where n = n] apply_gate_cut[where n = n])

lemma combine_cut: "combine_blocker_masks masks k = Inr ok \<Longrightarrow>
    combine_blocker_masks (map (take n) masks) (min k n) = Inr (take n ok)"
  by (cases masks) (auto simp: combine_blocker_masks_def raise_if_Inr list_ex_iff intro!: list_eq_nthI list.pred_cong simp: min_def list_all_iff)

lemma side_blockers_cut:
  assumes "side_blockers raw_spec fr decs plan records its side = Inr s"
  shows "side_blockers raw_spec (cut_frame n fr) (take n decs) plan (map (cut_record n) records) its side = Inr (cut_side n s)"
proof -
  obtain dir bs ok pre where g: "direction raw_spec fr plan side = Inr dir" "mapR (blocker fr decs plan records side) its = Inr bs"
    "combine_blocker_masks (map cm_allowed bs) (length (frame_time_ms fr)) = Inr ok" "and_pair (cm_allowed dir) ok = Inr pre"
    and s: "s = \<lparr>sdb_side = side, sdb_direction = dir, sdb_blockers = bs, sdb_blockers_ok = ok, sdb_pre_setup_allowed = pre\<rparr>"
    using assms by (auto simp: side_blockers_def bindR_Inr)
  have b: "mapR (blocker (cut_frame n fr) (take n decs) plan (map (cut_record n) records) side) its = Inr (map (cut_mask n) bs)"
    by (rule mapR_cut[OF g(2)]) (rule blocker_cut)
  have m: "map cm_allowed (map (cut_mask n) bs) = map (take n) (map cm_allowed bs)" by (simp add: cut_mask_def)
  show ?thesis using direction_cut[OF g(1), of n] b combine_cut[OF g(3), of n] and_pair_cut[OF g(4), of n]
    by (simp add: side_blockers_def s cut_side_def m cut_frame_def min.commute del: map_map) (simp add: cut_mask_def)
qed

lemma blockers_cut:
  assumes "evaluate_direction_and_blockers raw_spec fr decs plan records = Inr outs"
  shows "evaluate_direction_and_blockers raw_spec (cut_frame n fr) (take n decs) plan (map (cut_record n) records) =
    Inr (map (cut_side n) outs)"
proof -
  obtain its sides where g: "blocker_items raw_spec = Inr its" "resolve_enabled_sides raw_spec = Inr sides"
    "mapR (side_blockers raw_spec fr decs plan records its) sides = Inr outs"
    using assms by (auto simp: evaluate_direction_and_blockers_def bindR_Inr)
  have "mapR (side_blockers raw_spec (cut_frame n fr) (take n decs) plan (map (cut_record n) records) its) sides = Inr (map (cut_side n) outs)"
    by (rule mapR_cut[OF g(3)]) (rule side_blockers_cut)
  then show ?thesis using g by (simp add: evaluate_direction_and_blockers_def)
qed

section \<open>Contexts cut short\<close>

lemma evaluate_stack_cut:
  "evaluate_stack f a s k = Inr (st, up, down, ne) \<Longrightarrow>
     evaluate_stack (map_option (take n) f) (map_option (take n) a) (map_option (take n) s) (min k n) =
       Inr (take n st, take n up, take n down, take n ne)"
  by (auto simp: evaluate_stack_def bindR_Inr stack_result_def take_map min.commute split: option.splits
      simp: strict_zip_cut[where n = n])

lemma build_context_cut: "build_context fr plan en = Inr c \<Longrightarrow> build_context (cut_frame n fr) plan en = Inr (cut_context n c)"
  by (auto simp: build_context_def bindR_Inr cut_frame_def map_of_cut cut_context_def min.commute[of n]
      simp: evaluate_stack_cut[where n = n])

lemma bundle_cut:
  "build_context_bundle raw_spec fr plan = Inr b \<Longrightarrow> build_context_bundle raw_spec (cut_frame n fr) plan = Inr (cut_bundle n b)"
  using mapR_cut[where c = "cut_context n" and g = "build_context (cut_frame n fr) plan" and f = "build_context fr plan"]
  by (auto simp: build_context_bundle_def bindR_Inr cut_bundle_def build_context_cut) (simp add: cut_frame_def)

lemma raw_state_cut: "raw_state_of outs ref = Inr s \<Longrightarrow> raw_state_of (map (cut_context n) outs) ref = Inr (take n s)"
  by (induction outs) (auto simp: cut_context_def split: if_splits)

lemma gate_record_cut:
  "gate_record b role cmp con side = Inr r \<Longrightarrow> gate_record (cut_bundle n b) role cmp con side = Inr (cut_record n r)"
  by (auto simp: gate_record_def bindR_Inr cut_bundle_def cut_record_def take_map
      simp: raw_state_cut[where n = n] mapR_take[where n = n] split: prod.splits)

lemma gate_items_cut:
  "gate_items f sides role i xs = Inr rs \<Longrightarrow> (\<And>it c sd r. f role it c sd = Inr r \<Longrightarrow> g role it c sd = Inr (h r)) \<Longrightarrow>
     gate_items g sides role i xs = Inr (map h rs)"
proof (induction xs arbitrary: i rs)
  case (Cons x xs)
  have m: "mapR (g role it c) sides = Inr (map h ys)" if "mapR (f role it c) sides = Inr ys" for it c ys
    by (rule mapR_cut[OF that]) (rule Cons.prems(2))
  obtain it con here rest where st: "require_mapping x (at_index (''raw_spec.'' @ role) i) = Inr it"
    "consumption_of (get it ''context_consumption'') (at_index (''raw_spec.'' @ role) i @ ''.context_consumption'') = Inr con"
    "(case con of None \<Rightarrow> Inr [] | Some c \<Rightarrow> mapR (f role it c) sides) = Inr here"
    "gate_items f sides role (Suc i) xs = Inr rest" "rs = here @ rest"
    using Cons.prems(1) by (auto simp only: gate_items.simps Let_def bindR_Inr sum.inject)
  have "(case con of None \<Rightarrow> Inr [] | Some c \<Rightarrow> mapR (g role it c) sides) = Inr (map h here)"
    using st(3) by (cases con) (auto dest: m)
  moreover have "gate_items g sides role (Suc i) xs = Inr (map h rest)" using Cons.IH[OF st(4)] Cons.prems(2) by blast
  ultimately show ?case using st(1,2,5) by (simp only: gate_items.simps Let_def bindR_simps map_append)
qed simp

lemma gate_declarations_cut:
  assumes "gate_declarations f raw_spec sides = Inr rs" "\<And>role it c sd r. f role it c sd = Inr r \<Longrightarrow> g role it c sd = Inr (h r)"
  shows "gate_declarations g raw_spec sides = Inr (map h rs)"
proof -
  have r: "gate_role g sides role = Inr (map h ys)" if "gate_role f sides role = Inr ys" for role ys
    using that assms(2) by (auto simp: gate_role_def split: json.splits intro: gate_items_cut)
  obtain cs rss where g: "components_of raw_spec = Inr cs"
    "mapR (gate_role f sides) [(''blocker'', get_or cs ''blockers'' (JList [])), (''setup'', get_or raw_spec ''setups'' (JList []))] = Inr rss"
    "rs = concat rss" using assms(1) unfolding gate_declarations_def by (auto simp only: bindR_Inr sum.inject)
  from mapR_cut[OF g(2) r] show ?thesis using g unfolding gate_declarations_def by (simp add: map_concat del: mapR.simps)
qed

lemma side_profile_cut: "side_profile sides side raw = Inr p \<Longrightarrow> side_profile sides side (take n raw) = Inr (take n p)"
  by (auto simp: side_profile_def take_map split: if_splits intro: mapR_take)

lemma exit_record_cut: "exit_record b sides con = Inr r \<Longrightarrow> exit_record (cut_bundle n b) sides con = Inr (cut_record n r)"
  by (auto simp: exit_record_def bindR_Inr cut_bundle_def cut_record_def
      simp: raw_state_cut[where n = n] side_profile_cut[where n = n])

lemma evidence_cut:
  assumes "build_context_consumption_evidence raw_spec b = Inr rs"
  shows "build_context_consumption_evidence raw_spec (cut_bundle n b) = Inr (map (cut_record n) rs)"
proof -
  obtain sides gates ex where g: "consumption_sides raw_spec = Inr sides" "gate_declarations (gate_record b) raw_spec sides = Inr gates"
    "exit_consumption raw_spec = Inr ex"
    and rest: "(case ex of None \<Rightarrow> Inr gates | Some con \<Rightarrow> bindR (exit_record b sides con) (\<lambda>r. Inr (gates @ [r]))) = Inr rs"
    using assms by (auto simp: build_context_consumption_evidence_def bindR_Inr)
  have "gate_declarations (gate_record (cut_bundle n b)) raw_spec sides = Inr (map (cut_record n) gates)"
    by (rule gate_declarations_cut[OF g(2)]) (rule gate_record_cut)
  then show ?thesis using g rest
    by (auto simp: build_context_consumption_evidence_def bindR_Inr split: option.splits simp: exit_record_cut[where n = n])
qed

end
