(* ===== verification/BlockerIdentity.thy ===== *)
theory BlockerIdentity
  imports BlockerFacts
begin

text \<open>
  The identities of direction and blockers determine what they compute: two requests of one batch,
  which share the market and agree on the identities of their features, compute the same under the
  same node.  This is what the memo of the evaluation context relies on.
\<close>

definition shared_market :: "feature_frame \<Rightarrow> feature_frame \<Rightarrow> bool" where
  "shared_market fr fr' \<longleftrightarrow> frame_time_ms fr = frame_time_ms fr' \<and> frame_bars fr = frame_bars fr'"

text \<open>A dictionary of columns holds each role once.\<close>

definition plan_ok :: "ema_plan \<Rightarrow> bool" where
  "plan_ok plan \<longleftrightarrow> (\<forall>(k, cols) \<in> set (adx_dmi_columns plan). distinct (map fst cols))"

lemma plan_ok_columns: "plan_ok plan \<Longrightarrow> map_of (adx_dmi_columns plan) k = Some cols \<Longrightarrow> distinct (map fst cols)"
  by (auto simp: plan_ok_def dest!: map_of_SomeD)

section \<open>Dependencies by role\<close>

lemma role_nodes:
  assumes "mapR (\<lambda>(role, oid). bindR (feature_node ids oid) (\<lambda>n. Inr (role, Single n))) cols = Inr ups"
  shows "map fst ups = map fst cols \<and>
    map_of ups role = (case map_of cols role of None \<Rightarrow> None | Some oid \<Rightarrow> map_option Single (map_of ids oid))"
  using assms
proof (induction cols arbitrary: ups)
  case (Cons c cols)
  then show ?case by (cases c) (auto simp: bindR_Inr feature_node_Inr)
qed simp

text \<open>Equal dependencies of a role make its column read the same series.\<close>

lemma role_floats:
  assumes "mapR (\<lambda>(role, oid). bindR (feature_node ids oid) (\<lambda>n. Inr (role, Single n))) cols = Inr ups"
    and "mapR (\<lambda>(role, oid). bindR (feature_node ids' oid) (\<lambda>n. Inr (role, Single n))) cols' = Inr ups'"
    and "node_spec k v params ups side = Inr n" "node_spec k' v' params' ups' side' = Inr n"
    and "distinct (map fst cols)" "distinct (map fst cols')" "ids_agree ids fr ids' fr'"
  shows "column_floats fr cols role = column_floats fr' cols' role"
proof -
  note r = role_nodes[OF assms(1), of role] role_nodes[OF assms(2), of role]
  have e: "map_option normal_upstream (map_of ups role) = map_option normal_upstream (map_of ups' role)"
    by (rule node_spec_same_upstream[OF assms(3,4)]) (use r assms(5,6) in simp_all)
  have known: "\<exists>n. map_of ids oid = Some n" if "map_of cols role = Some oid" for oid
  proof -
    have "\<exists>y. bindR (feature_node ids oid) (\<lambda>n. Inr (role, Single n)) = Inr y"
      using mapR_nth[OF assms(1)] map_of_SomeD[OF that] by (fastforce simp: in_set_conv_nth)
    then show ?thesis by (auto simp: bindR_Inr feature_node_Inr)
  qed
  have known': "\<exists>n. map_of ids' oid = Some n" if "map_of cols' role = Some oid" for oid
  proof -
    have "\<exists>y. bindR (feature_node ids' oid) (\<lambda>n. Inr (role, Single n)) = Inr y"
      using mapR_nth[OF assms(2)] map_of_SomeD[OF that] by (fastforce simp: in_set_conv_nth)
    then show ?thesis by (auto simp: bindR_Inr feature_node_Inr)
  qed
  show ?thesis
  proof (cases "map_of cols role")
    case None
    then show ?thesis using r e known' by (cases "map_of cols' role") (auto simp: column_floats_def column_at_def)
  next
    case (Some oid)
    then obtain m where m: "map_of ids oid = Some m" using known by blast
    then obtain oid' where o: "map_of cols' role = Some oid'" using r e Some by (cases "map_of cols' role") auto
    then obtain m' where m': "map_of ids' oid' = Some m'" using known' by blast
    have "m = m'" using r e Some m o m' by (simp add: normal_upstream_def)
    then show ?thesis using ids_agree_floats[OF assms(7), of oid m oid'] m m' Some o
      by (simp add: column_floats_def column_at_def feature_node_Inr)
  qed
qed

section \<open>Direction\<close>

lemma anchor_roles:
  assumes "mapR (\<lambda>role. bindR (column_at cols role) (\<lambda>oid. bindR (feature_node ids oid) (\<lambda>n. Inr (role, Single n))))
    [''fast'', ''anchor'', ''slow''] = Inr ups"
  obtains f a s where "ups = [(''fast'', Single f), (''anchor'', Single a), (''slow'', Single s)]"
    "bindR (column_at cols ''fast'') (feature_node ids) = Inr f" "bindR (column_at cols ''anchor'') (feature_node ids) = Inr a"
    "bindR (column_at cols ''slow'') (feature_node ids) = Inr s"
  using assms by (auto simp: bindR_Inr)

lemma column_floats_agree:
  assumes "bindR (column_at cols role) (feature_node ids) = Inr n" "bindR (column_at cols' role) (feature_node ids') = Inr n"
    and "ids_agree ids fr ids' fr'"
  shows "column_floats fr cols role = column_floats fr' cols' role"
  using assms ids_agree_floats[OF assms(3)] by (auto simp: bindR_Inr column_floats_def)

lemma direction_identity_sound:
  assumes n: "resolve_direction spec plan ids side = Inr n" "resolve_direction spec' plan' ids' side' = Inr n"
    and agree: "ids_agree ids fr ids' fr'"
  shows "direction spec fr plan side = direction spec' fr' plan' side'"
proof -
  obtain cid ups where c: "supported_direction_component_id spec = Inr cid"
    "mapR (\<lambda>role. bindR (column_at (anchor_columns plan) role) (\<lambda>oid. bindR (feature_node ids oid) (\<lambda>n. Inr (role, Single n))))
       [''fast'', ''anchor'', ''slow''] = Inr ups"
    and ns: "node_spec (''direction.'' @ cid) DIRECTION_BLOCKER_NODE_VERSION [] ups (Some side) = Inr n"
    using n(1) by (auto simp only: resolve_direction_def bindR_Inr sum.inject)
  obtain cid' ups' where c': "supported_direction_component_id spec' = Inr cid'"
    "mapR (\<lambda>role. bindR (column_at (anchor_columns plan') role) (\<lambda>oid. bindR (feature_node ids' oid) (\<lambda>n. Inr (role, Single n))))
       [''fast'', ''anchor'', ''slow''] = Inr ups'"
    and ns': "node_spec (''direction.'' @ cid') DIRECTION_BLOCKER_NODE_VERSION [] ups' (Some side') = Inr n"
    using n(2) by (auto simp only: resolve_direction_def bindR_Inr sum.inject)
  have eq: "cid = cid'" "side = side'" using node_spec_same_kind[OF ns ns'] by simp_all
  obtain f a s where u: "ups = [(''fast'', Single f), (''anchor'', Single a), (''slow'', Single s)]"
    and r: "bindR (column_at (anchor_columns plan) ''fast'') (feature_node ids) = Inr f"
      "bindR (column_at (anchor_columns plan) ''anchor'') (feature_node ids) = Inr a"
      "bindR (column_at (anchor_columns plan) ''slow'') (feature_node ids) = Inr s"
    using anchor_roles[OF c(2)] by metis
  obtain f' a' s' where u': "ups' = [(''fast'', Single f'), (''anchor'', Single a'), (''slow'', Single s')]"
    and r': "bindR (column_at (anchor_columns plan') ''fast'') (feature_node ids') = Inr f'"
      "bindR (column_at (anchor_columns plan') ''anchor'') (feature_node ids') = Inr a'"
      "bindR (column_at (anchor_columns plan') ''slow'') (feature_node ids') = Inr s'"
    using anchor_roles[OF c'(2)] by metis
  have d: "x = y" if "map_of ups k = Some (Single x)" "map_of ups' k = Some (Single y)" for k x y
    by (rule same_dependency[OF ns ns' _ _ that]) (simp_all add: u u')
  have "f = f'" by (rule d[of "''fast''"]) (simp_all add: u u')
  moreover have "a = a'" by (rule d[of "''anchor''"]) (simp_all add: u u')
  moreover have "s = s'" by (rule d[of "''slow''"]) (simp_all add: u u')
  ultimately have "column_floats fr (anchor_columns plan) role = column_floats fr' (anchor_columns plan') role"
    if "role \<in> {''fast'', ''anchor'', ''slow''}" for role
    using that r r' column_floats_agree[OF _ _ agree] by blast
  then show ?thesis by (simp add: direction_def c(1) c'(1) eq)
qed

section \<open>Blockers\<close>

lemma blocker_identity_kind:
  "resolve_blocker_intrinsic it plan ids side = Inr n \<Longrightarrow> n_kind n = ''blocker.'' @ fst (resolve_blocker_identity it)"
  by (auto simp: resolve_blocker_intrinsic_def Let_def node_spec_def res_simps split: if_splits prod.splits)

lemma rsi_params_ok: "doc_ok (JObj it) \<Longrightarrow> rsi_blocker_params it side = Inr (k, t) \<Longrightarrow> f64_ok t"
  using doc_ok_get_or[of it] rnd_int[of 80] rnd_int[of 20]
  by (auto simp: rsi_blocker_params_def bindR_Inr raise_if_Inr split: if_splits intro!: py_float_ok)

lemma trend_params_ok:
  assumes "doc_ok (JObj params)" "trend_strength_params params = Inr tp"
  shows "f64_ok (tp_min_peak tp) \<and> f64_ok (tp_min_current tp) \<and> f64_ok (tp_margin tp)"
  using assms doc_ok_get_or[of params]
  by (auto simp: trend_strength_params_def bindR_Inr intro!: py_float_ok)

lemma rsi_identity_sound:
  assumes cid: "fst (resolve_blocker_identity it) = ''rsi_lookback_extreme_blocker''"
      "fst (resolve_blocker_identity it') = ''rsi_lookback_extreme_blocker''"
    and n: "resolve_blocker_intrinsic it plan ids side = Inr n" "resolve_blocker_intrinsic it' plan' ids' side' = Inr n"
    and agree: "ids_agree ids fr ids' fr'" and doc: "doc_ok (JObj it)" "doc_ok (JObj it')"
  shows "rsi_blocker it fr plan side = rsi_blocker it' fr' plan' side'"
proof -
  let ?ns = "\<lambda>k t r sd. node_spec (''blocker.'' @ ''rsi_lookback_extreme_blocker'') DIRECTION_BLOCKER_NODE_VERSION
    [(''lookback'', PInt k), (''threshold'', PFloat (f64_bits t))] [(''rsi'', Single r)] (Some sd)"
  obtain oid r k t where c: "rsi_blocker_column it plan = Inr oid" "feature_node ids oid = Inr r"
    "rsi_blocker_params it side = Inr (k, t)" and ns: "?ns k t r side = Inr n"
    using n(1) by (auto simp: resolve_blocker_intrinsic_def cid Let_def bindR_Inr raise_if_Inr)
  obtain oid' r' k' t' where c': "rsi_blocker_column it' plan' = Inr oid'" "feature_node ids' oid' = Inr r'"
    "rsi_blocker_params it' side' = Inr (k', t')" and ns': "?ns k' t' r' side' = Inr n"
    using n(2) by (auto simp: resolve_blocker_intrinsic_def cid Let_def bindR_Inr raise_if_Inr)
  have "side = side'" using node_spec_same_kind[OF ns ns'] by simp
  moreover have "r = r'" by (rule same_dependency[OF ns ns', of "''rsi''"]) simp_all
  moreover have "k = k'" by (rule same_int_parameter[OF ns ns', of "''lookback''"]) simp_all
  moreover have "t = t'" by (rule same_float_parameter[OF ns ns', of "''threshold''"])
      (simp_all add: rsi_params_ok[OF doc(1) c(3)] rsi_params_ok[OF doc(2) c'(3)])
  ultimately show ?thesis using ids_agree_floats[OF agree c(2), of oid'] c c' by (simp add: rsi_blocker_def)
qed

lemma trend_identity_sound:
  assumes cid: "fst (resolve_blocker_identity it) = ''trend_strength_episode_blocker''"
      "fst (resolve_blocker_identity it') = ''trend_strength_episode_blocker''"
    and n: "resolve_blocker_intrinsic it plan ids side = Inr n" "resolve_blocker_intrinsic it' plan' ids' side' = Inr n"
    and agree: "ids_agree ids fr ids' fr'" and doc: "doc_ok (JObj it)" "doc_ok (JObj it')" and plans: "plan_ok plan" "plan_ok plan'"
  shows "trend_strength_blocker it fr plan side = trend_strength_blocker it' fr' plan' side'"
proof -
  let ?ps = "\<lambda>tp. [(''min_adx_peak'', PFloat (f64_bits (tp_min_peak tp))), (''peak_lookback_bars'', PInt (tp_peak_lookback tp)),
    (''max_bars_since_peak'', PInt (tp_max_since tp)), (''min_current_adx'', PFloat (f64_bits (tp_min_current tp))),
    (''require_di_alignment_on_peak'', PBool (tp_require_alignment tp)),
    (''block_on_opposite_di_flip'', PBool (tp_block_flip tp)), (''opposite_di_margin'', PFloat (f64_bits (tp_margin tp)))]"
  let ?ns = "\<lambda>tp ups sd. node_spec (''blocker.'' @ ''trend_strength_episode_blocker'') DIRECTION_BLOCKER_NODE_VERSION (?ps tp) ups (Some sd)"
  obtain params cols ups tp where c: "trend_strength_columns it plan = Inr (params, cols)"
    "mapR (\<lambda>(role, oid). bindR (feature_node ids oid) (\<lambda>n. Inr (role, Single n))) cols = Inr ups"
    "trend_strength_params params = Inr tp" and ns: "?ns tp ups side = Inr n"
    using n(1) by (auto simp: resolve_blocker_intrinsic_def cid Let_def bindR_Inr raise_if_Inr)
  obtain params' cols' ups' tp' where c': "trend_strength_columns it' plan' = Inr (params', cols')"
    "mapR (\<lambda>(role, oid). bindR (feature_node ids' oid) (\<lambda>n. Inr (role, Single n))) cols' = Inr ups'"
    "trend_strength_params params' = Inr tp'" and ns': "?ns tp' ups' side' = Inr n"
    using n(2) by (auto simp: resolve_blocker_intrinsic_def cid Let_def bindR_Inr raise_if_Inr)
  have pk: "doc_ok (JObj params)" "doc_ok (JObj params')"
    using c(1) c'(1) doc_ok_get[OF doc(1), of "''trend_strength''"] doc_ok_get[OF doc(2), of "''trend_strength''"]
    by (auto simp: trend_strength_columns_def bindR_Inr require_mapping_Inr split: option.splits)
  have dist: "distinct (map fst cols)" "distinct (map fst cols')"
    using c(1) c'(1) plan_ok_columns[OF plans(1)] plan_ok_columns[OF plans(2)]
    by (auto simp: trend_strength_columns_def bindR_Inr split: option.splits)
  have cf: "column_floats fr cols role = column_floats fr' cols' role" for role
    by (rule role_floats[OF c(2) c'(2) ns ns' dist agree])
  note ok = trend_params_ok[OF pk(1) c(3)] trend_params_ok[OF pk(2) c'(3)]
  have "tp_min_peak tp = tp_min_peak tp'" by (rule same_float_parameter[OF ns ns', of "''min_adx_peak''"]) (use ok in simp_all)
  moreover have "tp_peak_lookback tp = tp_peak_lookback tp'" by (rule same_int_parameter[OF ns ns', of "''peak_lookback_bars''"]) simp_all
  moreover have "tp_max_since tp = tp_max_since tp'" by (rule same_int_parameter[OF ns ns', of "''max_bars_since_peak''"]) simp_all
  moreover have "tp_min_current tp = tp_min_current tp'" by (rule same_float_parameter[OF ns ns', of "''min_current_adx''"]) (use ok in simp_all)
  moreover have "tp_require_alignment tp = tp_require_alignment tp'"
    by (rule same_bool_parameter[OF ns ns', of "''require_di_alignment_on_peak''"]) simp_all
  moreover have "tp_block_flip tp = tp_block_flip tp'" by (rule same_bool_parameter[OF ns ns', of "''block_on_opposite_di_flip''"]) simp_all
  moreover have "tp_margin tp = tp_margin tp'" by (rule same_float_parameter[OF ns ns', of "''opposite_di_margin''"]) (use ok in simp_all)
  ultimately have "tp = tp'" by simp
  moreover have "side = side'" using node_spec_same_kind[OF ns ns'] by simp
  ultimately show ?thesis using c c' by (simp add: trend_strength_blocker_def cf)
qed

lemma blocker_identity_sound:
  assumes n: "resolve_blocker_intrinsic it plan ids side = Inr n" "resolve_blocker_intrinsic it' plan' ids' side' = Inr n"
    and "ids_agree ids fr ids' fr'" "doc_ok (JObj it)" "doc_ok (JObj it')" "plan_ok plan" "plan_ok plan'" "shared_market fr fr'"
  shows "blocker_intrinsic (fst (resolve_blocker_identity it)) it fr decs plan side =
    blocker_intrinsic (fst (resolve_blocker_identity it')) it' fr' decs plan' side'"
proof -
  define cid where "cid = fst (resolve_blocker_identity it)"
  have cid': "fst (resolve_blocker_identity it') = cid"
    using blocker_identity_kind[OF n(1)] blocker_identity_kind[OF n(2)] by (simp add: cid_def)
  have times: "frame_time_ms fr = frame_time_ms fr'" using assms(8) by (simp add: shared_market_def)
  have sup: "cid \<in> set BLOCKER_SUPPORTED" using n(1) by (simp add: resolve_blocker_intrinsic_def Let_def raise_if_Inr cid_def)
  show ?thesis
  proof (cases "cid = ''rsi_lookback_extreme_blocker'' \<or> cid = ''trend_strength_episode_blocker''")
    case True
    then show ?thesis
      using rsi_identity_sound[OF _ _ n assms(3-5)] trend_identity_sound[OF _ _ n assms(3-7)] cid' cid_def
      by (auto simp: blocker_intrinsic_def)
  next
    case False
    moreover have "cid = ''no_blockers'' \<or> cid = ''counter_candle_blocker'' \<or> cid = ''rsi_lookback_extreme_blocker'' \<or>
      cid = ''trend_strength_episode_blocker''" using sup by (simp add: BLOCKER_SUPPORTED_def)
    ultimately consider "cid = ''no_blockers''" | "cid = ''counter_candle_blocker''" by blast
    then show ?thesis
    proof cases
      case 1
      then show ?thesis using cid' times by (simp add: blocker_intrinsic_def cid_def)
    next
      case 2
      have "n_side n = Some side" "n_side n = Some side'"
        using n 2 cid' by (auto simp: resolve_blocker_intrinsic_def Let_def node_spec_def res_simps cid_def)
      then show ?thesis using 2 cid' times by (simp add: blocker_intrinsic_def cid_def)
    qed
  qed
qed

end
