(* ===== verification/Setups.thy ===== *)
theory Setups
  imports Blockers CompositeSpec
begin

text \<open>
  The semantic setups (\<open>setups.py\<close>): the untouched anchor, the bounce counter with its trend
  episodes and pending bounces, and the two setups on the width of the stack in ATR units.
\<close>

definition SETUP_SUPPORTED :: "string list" where
  "SETUP_SUPPORTED = [''untouched_anchor_setup'', ''ema_bounce_counter_setup'', ''anchor_stack_width_setup'',
     ''anchor_stack_width_band_setup'', ''composite_setup'', ''weighted_vote_setup'']"

definition WIDTH_BAND_SETUP :: string where "WIDTH_BAND_SETUP = ''anchor_stack_width_band_setup''"

abbreviation setup_market :: "feature_frame \<Rightarrow> (f64 market_bar \<Rightarrow> f64) \<Rightarrow> f64 list res" where
  "setup_market \<equiv> market_values ''market bars unavailable for setup evaluation''"

definition zip3_with :: "('a \<Rightarrow> 'b \<Rightarrow> 'c \<Rightarrow> 'd) \<Rightarrow> 'a list \<Rightarrow> 'b list \<Rightarrow> 'c list \<Rightarrow> 'd list res" where
  "zip3_with f xs ys zs =
     bindR (strict_zip ys zs) (\<lambda>rest. bindR (strict_zip xs rest) (\<lambda>rows. Inr (map (\<lambda>(x, y, z). f x y z) rows)))"

lemma zip3_with_Inr [res_simps]:
  "zip3_with f xs ys zs = Inr ws \<longleftrightarrow> length xs = length ys \<and> length ys = length zs \<and>
     ws = map (\<lambda>(x, y, z). f x y z) (zip xs (zip ys zs))"
  by (auto simp: zip3_with_def res_simps)

section \<open>Untouched anchor\<close>

definition untouched_anchor_params :: "obj \<Rightarrow> (int \<times> int) res" where
  "untouched_anchor_params params =
     bindR (py_int (get_or params ''lookback'' (JInt 50))) (\<lambda>lookback.
     bindR (py_int (get_or params ''active_bars'' (JInt 3))) (\<lambda>active_bars.
     raise_if (lookback \<le> 0 \<or> active_bars \<le> 0) (InvalidRequest ''untouched anchor setup periods must be positive'')
       (Inr (lookback, active_bars))))"

text \<open>\<open>shift(1, fill_value=False)\<close>\<close>

definition shifted :: "bool list \<Rightarrow> bool list" where
  "shifted xs = take (length xs) (False # xs)"

definition untouched_prior :: "nat \<Rightarrow> bool list \<Rightarrow> bool list" where
  "untouched_prior lookback touch =
     map (\<lambda>i. lookback \<le> i \<and> \<not> rolling_any lookback (shifted touch) ! i) [0 ..< length touch]"

definition untouched_anchor :: "feature_frame \<Rightarrow> string \<Rightarrow> obj \<Rightarrow> string \<Rightarrow> (bool list \<times> trace) res" where
  "untouched_anchor fr anchor_id params side =
     bindR (untouched_anchor_params params) (\<lambda>(lookback, active_bars).
     bindR (float_series fr anchor_id) (\<lambda>anchor.
     bindR (setup_market fr bar_close) (\<lambda>close.
     bindR (setup_market fr bar_low) (\<lambda>low.
     bindR (setup_market fr bar_high) (\<lambda>high.
     bindR (zip3_with (\<lambda>l h a. if side = ''long'' then fle l a else fge h a) low high anchor) (\<lambda>touch.
     bindR (zip_with (\<lambda>c a. if side = ''long'' then fgt c a else flt c a) close anchor) (\<lambda>side_ok.
     (let untouched = untouched_prior (nat lookback) touch;
          first_touch = map2 (\<and>) touch untouched;
          touch_active = rolling_any (nat active_bars) first_touch in
      bindR (zip3_with (\<lambda>ok u t. ok \<and> u \<and> \<not> t) side_ok untouched touch) (\<lambda>armed_pre.
      bindR (zip_with (\<or>) armed_pre touch_active) (\<lambda>setup.
      Inr (setup, [(''touch'', Bools touch), (''side_ok'', Bools side_ok), (''prior_touch'', Bools (False # butlast touch)),
        (''untouched_prior'', Bools untouched), (''armed_pre'', Bools armed_pre), (''first_touch'', Bools first_touch),
        (''touch_active'', Bools touch_active)])))))))))))"

section \<open>Bounce counter\<close>

record bounce_params =
  bp_max_bounces :: int
  bp_touch_lookback :: int
  bp_start_confirm :: int
  bp_break_confirm :: int

definition ema_bounce_counter_params :: "obj \<Rightarrow> (bounce_params \<times> string) res" where
  "ema_bounce_counter_params params =
     bindR (py_int (get_or params ''max_bounces'' (JInt 3))) (\<lambda>max_bounces.
     bindR (py_int (get_or params ''touch_lookback_bars'' (JInt 10))) (\<lambda>touch_lookback.
     bindR (py_int (get_or params ''trend_start_confirmation_bars'' (JInt 1))) (\<lambda>start_confirm.
     bindR (py_int (get_or params ''trend_break_confirmation_bars'' (JInt 1))) (\<lambda>break_confirm.
     (let mode = text_of params ''raw_touch_mode'' ''range_cross'' in
      raise_if (max_bounces \<le> 0 \<or> touch_lookback \<le> 0 \<or> start_confirm \<le> 0 \<or> break_confirm \<le> 0)
        (InvalidRequest ''ema bounce counter parameters must be positive'')
      (raise_if (mode \<noteq> ''range_cross'') (InvalidRequest ''raw_touch_mode must be range_cross'')
        (Inr (\<lparr>bp_max_bounces = max_bounces, bp_touch_lookback = touch_lookback, bp_start_confirm = start_confirm,
               bp_break_confirm = break_confirm\<rparr>, mode))))))))"

record bounce_state =
  bs_index :: nat
  bs_trend_active :: bool
  bs_episode_id :: int
  bs_trend_run :: int
  bs_break_run :: int
  bs_completed :: int
  bs_pending :: bool
  bs_pending_end :: int

definition bounce_start :: bounce_state where
  "bounce_start = \<lparr>bs_index = 0, bs_trend_active = False, bs_episode_id = 0, bs_trend_run = 0, bs_break_run = 0,
     bs_completed = 0, bs_pending = False, bs_pending_end = - 1\<rparr>"

text \<open>What the counter reads on a bar.\<close>

record bounce_bar =
  bb_raw_trend :: bool
  bb_armed :: bool
  bb_raw_touch :: bool
  bb_price_side :: string

record bounce_row =
  br_trend_active :: bool
  br_trend_episode_id :: int
  br_armed :: bool
  br_raw_touch :: bool
  br_pending_bounce :: bool
  br_in_touch_lookback :: bool
  br_touch_lookback_left :: int
  br_completed_bounce_count :: int
  br_effective_bounce_number :: int
  br_setup_allowed :: bool
  br_price_side :: string
  br_trend_start_event :: bool
  br_trend_break_event :: bool
  br_pending_start :: bool
  br_pending_end :: bool

text \<open>A pending bounce whose window is over counts.\<close>

definition settle_bounce :: "bounce_state \<Rightarrow> bounce_state" where
  "settle_bounce s =
     (if bs_pending s \<and> bs_pending_end s < int (bs_index s)
      then s\<lparr>bs_completed := bs_completed s + 1, bs_pending := False, bs_pending_end := - 1\<rparr> else s)"

definition reset_bounces :: "bounce_state \<Rightarrow> bounce_state" where
  "reset_bounces s = s\<lparr>bs_completed := 0, bs_pending := False, bs_pending_end := - 1, bs_break_run := 0\<rparr>"

text \<open>The trend of the bar: the new state, whether it started and whether it broke.\<close>

definition trend_step :: "bounce_params \<Rightarrow> bool \<Rightarrow> bounce_state \<Rightarrow> bounce_state \<times> bool \<times> bool" where
  "trend_step p raw s =
     (if bs_trend_active s then
        (if raw then (s\<lparr>bs_break_run := 0\<rparr>, False, False)
         else if bp_break_confirm p \<le> bs_break_run s + 1 then
           ((reset_bounces s)\<lparr>bs_trend_active := False, bs_trend_run := 0\<rparr>, False, True)
         else (s\<lparr>bs_break_run := bs_break_run s + 1\<rparr>, False, False))
      else if raw then
        (if bp_start_confirm p \<le> bs_trend_run s + 1 then
           ((reset_bounces s)\<lparr>bs_trend_run := bs_trend_run s + 1, bs_trend_active := True, bs_episode_id := bs_episode_id s + 1\<rparr>,
            True, False)
         else (s\<lparr>bs_trend_run := bs_trend_run s + 1\<rparr>, False, False))
      else (s\<lparr>bs_trend_run := 0\<rparr>, False, False))"

definition bounce_starts :: "bounce_params \<Rightarrow> bounce_bar \<Rightarrow> bounce_state \<Rightarrow> bool" where
  "bounce_starts p b s \<longleftrightarrow> bs_trend_active s \<and> bb_armed b \<and> bb_raw_touch b \<and> \<not> bs_pending s \<and> bs_completed s < bp_max_bounces p"

definition start_bounce :: "bounce_params \<Rightarrow> bounce_bar \<Rightarrow> bounce_state \<Rightarrow> bounce_state" where
  "start_bounce p b s =
     (if bounce_starts p b s then s\<lparr>bs_pending := True, bs_pending_end := int (bs_index s) + bp_touch_lookback p - 1\<rparr> else s)"

definition bounce_row_of :: "bounce_params \<Rightarrow> bounce_bar \<Rightarrow> bool \<Rightarrow> bool \<Rightarrow> bool \<Rightarrow> bounce_state \<Rightarrow> bounce_row" where
  "bounce_row_of p b started broke opened s =
     (let i = int (bs_index s); in_lookback = bs_pending s \<and> i \<le> bs_pending_end s in
      \<lparr>br_trend_active = bs_trend_active s, br_trend_episode_id = (if bs_trend_active s then bs_episode_id s else 0),
       br_armed = bb_armed b, br_raw_touch = bb_raw_touch b, br_pending_bounce = bs_pending s,
       br_in_touch_lookback = in_lookback,
       br_touch_lookback_left = (if in_lookback then max (bs_pending_end s - i + 1) 0 else 0),
       br_completed_bounce_count = bs_completed s,
       br_effective_bounce_number = (if bs_pending s then bs_completed s + 1 else bs_completed s),
       br_setup_allowed = (bs_trend_active s \<and>
         (bs_completed s < bp_max_bounces p \<or> bs_pending s \<and> bs_completed s + 1 \<le> bp_max_bounces p)),
       br_price_side = bb_price_side b, br_trend_start_event = started, br_trend_break_event = broke,
       br_pending_start = opened, br_pending_end = (bs_pending s \<and> i = bs_pending_end s)\<rparr>)"

text \<open>One iteration of the loop over the bars.\<close>

definition bounce_step :: "bounce_params \<Rightarrow> bounce_state \<Rightarrow> bounce_bar \<Rightarrow> bounce_state \<times> bounce_row" where
  "bounce_step p s b =
     (let s0 = settle_bounce s; r = trend_step p (bb_raw_trend b) s0; s1 = fst r;
          s2 = start_bounce p b s1 in
      (s2\<lparr>bs_index := Suc (bs_index s2)\<rparr>,
       bounce_row_of p b (fst (snd r)) (snd (snd r)) (bounce_starts p b s1) s2))"

definition bounce_trace :: "bounce_row list \<Rightarrow> trace" where
  "bounce_trace rs =
     [(''trend_active'', Bools (map br_trend_active rs)), (''trend_episode_id'', Ints (map br_trend_episode_id rs)),
      (''armed'', Bools (map br_armed rs)), (''raw_touch'', Bools (map br_raw_touch rs)),
      (''pending_bounce'', Bools (map br_pending_bounce rs)), (''in_touch_lookback'', Bools (map br_in_touch_lookback rs)),
      (''touch_lookback_left'', Ints (map br_touch_lookback_left rs)),
      (''completed_bounce_count'', Ints (map br_completed_bounce_count rs)),
      (''effective_bounce_number'', Ints (map br_effective_bounce_number rs)),
      (''setup_allowed'', Bools (map br_setup_allowed rs)), (''price_side_of_anchor'', Texts (map br_price_side rs)),
      (''trend_start_event'', Bools (map br_trend_start_event rs)), (''trend_break_event'', Bools (map br_trend_break_event rs)),
      (''pending_bounce_start'', Bools (map br_pending_start rs)), (''pending_bounce_end'', Bools (map br_pending_end rs))]"

definition bounce_bars :: "bool list \<Rightarrow> bool list \<Rightarrow> bool list \<Rightarrow> string list \<Rightarrow> bounce_bar list" where
  "bounce_bars raw armed touch sides =
     map (\<lambda>(r, a, t, s). \<lparr>bb_raw_trend = r, bb_armed = a, bb_raw_touch = t, bb_price_side = s\<rparr>)
       (zip raw (zip armed (zip touch sides)))"

definition ema_bounce_counter :: "feature_frame \<Rightarrow> (string \<times> string) list \<Rightarrow> obj \<Rightarrow> string \<Rightarrow> (bool list \<times> trace) res" where
  "ema_bounce_counter fr cols params side =
     bindR (ema_bounce_counter_params params) (\<lambda>(p, mode).
     bindR (column_floats fr cols ''fast'') (\<lambda>fast.
     bindR (column_floats fr cols ''anchor'') (\<lambda>anchor.
     bindR (column_floats fr cols ''slow'') (\<lambda>slow.
     bindR (setup_market fr bar_close) (\<lambda>close.
     bindR (setup_market fr bar_low) (\<lambda>low.
     bindR (setup_market fr bar_high) (\<lambda>high.
     (let cmp = (if side = ''long'' then fgt else flt) in
      bindR (zip3_with (\<lambda>f a s. cmp f a \<and> cmp a s) fast anchor slow) (\<lambda>raw_trend.
      bindR (zip_with cmp close anchor) (\<lambda>armed.
      bindR (zip3_with (\<lambda>l a h. fle l a \<and> fle a h) low anchor high) (\<lambda>raw_touch.
      bindR (zip_with (\<lambda>c a. if fgt c a then ''above'' else if flt c a then ''below'' else ''at'') close anchor) (\<lambda>sides.
      (let rows = snd (scan (bounce_step p) bounce_start (bounce_bars raw_trend armed raw_touch sides)) in
       Inr (map br_setup_allowed rows, bounce_trace rows))))))))))))))"

section \<open>Stack width\<close>

definition anchor_stack_width_params :: "obj \<Rightarrow> (f64 \<times> f64 \<times> int) res" where
  "anchor_stack_width_params params =
     bindR (py_float (get_or params ''min_current_width_atr'' (JFloat (Fin 2)))) (\<lambda>min_current.
     bindR (py_float (get_or params ''min_recent_width_atr'' (JFloat (Fin 4)))) (\<lambda>min_recent.
     bindR (py_int (get_or params ''width_lookback_bars'' (JInt 80))) (\<lambda>lookback.
     raise_if (fle min_current (Fin 0) \<or> fle min_recent (Fin 0) \<or> lookback \<le> 0)
       (InvalidRequest ''anchor stack width parameters must be positive'') (Inr (min_current, min_recent, lookback)))))"

definition width_in_atr :: "f64 \<Rightarrow> f64 \<Rightarrow> f64 \<Rightarrow> f64" where
  "width_in_atr f s a =
     (if isfinite f \<and> isfinite s \<and> isfinite a \<and> fgt a (Fin 0) then fdiv (fabs (fsub f s)) a else NaN)"

text \<open>The rolling maximum, kept only where the window is full and all of it finite.\<close>

definition window_max :: "f64 list \<Rightarrow> f64" where
  "window_max w = foldl np_maximum (hd w) (tl w)"

definition recent_width :: "nat \<Rightarrow> f64 list \<Rightarrow> nat \<Rightarrow> f64" where
  "recent_width lookback width i =
     (let w = trailing lookback i width in if lookback \<le> Suc i \<and> list_all isfinite w then window_max w else NaN)"

definition anchor_stack_width_prefix :: "f64 list \<Rightarrow> f64 list \<Rightarrow> f64 list \<Rightarrow> nat \<Rightarrow> (f64 list \<times> f64 list) res" where
  "anchor_stack_width_prefix fast slow atr lookback =
     bindR (zip3_with width_in_atr fast slow atr) (\<lambda>width.
     Inr (width, map (recent_width lookback width) [0 ..< length width]))"

text \<open>One bar: allowed, reason, current width wide enough, recent width wide enough.\<close>

definition width_bar :: "f64 \<Rightarrow> f64 \<Rightarrow> f64 \<Rightarrow> f64 \<Rightarrow> f64 \<Rightarrow> f64 \<Rightarrow> f64 \<Rightarrow> f64 \<Rightarrow> bool \<times> string \<times> bool \<times> bool" where
  "width_bar min_current min_recent f an s a current recent =
     (let not_ready = \<not> list_all isfinite [f, an, s, a, recent] \<or> fle a (Fin 0);
          cur = isfinite current \<and> fge current min_current; rec = isfinite recent \<and> fge recent min_recent in
      (\<not> not_ready \<and> cur \<and> rec,
       if not_ready then ''indicator_not_ready'' else if \<not> cur then ''current_width_too_narrow''
       else if \<not> rec then ''recent_width_never_expanded'' else [], cur, rec))"

definition anchor_stack_width :: "feature_frame \<Rightarrow> (string \<times> string) list \<Rightarrow> obj \<Rightarrow> (bool list \<times> trace) res" where
  "anchor_stack_width fr cols params =
     bindR (anchor_stack_width_params params) (\<lambda>(min_current, min_recent, lookback).
     bindR (column_floats fr cols ''fast'') (\<lambda>fast.
     bindR (column_floats fr cols ''anchor'') (\<lambda>anchor.
     bindR (column_floats fr cols ''slow'') (\<lambda>slow.
     bindR (column_floats fr cols ''atr'') (\<lambda>atr.
     bindR (anchor_stack_width_prefix fast slow atr (nat lookback)) (\<lambda>(width, recent).
     raise_if (length anchor < length width) PyIndexError
     (let n = length width;
          out = map (\<lambda>i. width_bar min_current min_recent (fast ! i) (anchor ! i) (slow ! i) (atr ! i) (width ! i) (recent ! i)) [0 ..< n] in
      Inr (map fst out,
        [(''blocked_reason'', Texts (map (fst \<circ> snd) out)), (''current_width_atr'', Floats width),
         (''recent_max_width_atr'', Floats recent), (''width_lookback_bars'', Ints (replicate n lookback)),
         (''min_current_width_atr'', Floats (replicate n min_current)), (''min_recent_width_atr'', Floats (replicate n min_recent)),
         (''current_width_ok'', Bools (map (fst \<circ> snd \<circ> snd) out)), (''recent_width_ok'', Bools (map (snd \<circ> snd \<circ> snd) out)),
         (''fast_ema'', Floats fast), (''anchor_ema'', Floats anchor), (''slow_ema'', Floats slow), (''atr_value'', Floats atr)]))))))))"

section \<open>Width band\<close>

definition band_width :: "f64 list \<Rightarrow> f64 list \<Rightarrow> f64 list \<Rightarrow> f64 list res" where
  "band_width fast slow atr =
     zip3_with (\<lambda>f s a. let ready = isfinite f \<and> isfinite s \<and> isfinite a \<and> fgt a (Fin 0);
       safe = (if ready then a else Fin 1) in if ready then fdiv (fabs (fsub f s)) safe else NaN) fast slow atr"

definition band_bar :: "width_band_params \<Rightarrow> f64 \<Rightarrow> bool \<times> string" where
  "band_bar band w =
     (let ready = isfinite w; below = flt w (min_width_atr band);
          above = (case max_width_atr band of None \<Rightarrow> False | Some mx \<Rightarrow> fgt w mx) in
      (ready \<and> \<not> below \<and> \<not> above,
       if \<not> ready then ''indicator_not_ready'' else if below then ''width_below_min'' else if above then ''width_above_max'' else []))"

definition anchor_stack_width_band :: "feature_frame \<Rightarrow> (string \<times> string) list \<Rightarrow> obj \<Rightarrow> (bool list \<times> trace) res" where
  "anchor_stack_width_band fr cols params =
     bindR (parse_width_band_params params) (\<lambda>band.
     bindR (column_floats fr cols ''fast'') (\<lambda>fast.
     bindR (column_floats fr cols ''slow'') (\<lambda>slow.
     bindR (column_floats fr cols ''atr'') (\<lambda>atr.
     bindR (band_width fast slow atr) (\<lambda>width.
     (let out = map (band_bar band) width; n = length width in
      Inr (map fst out,
        [(''blocked_reason'', Texts (map snd out)), (''width_atr'', Floats width),
         (''min_width_atr'', Floats (replicate n (min_width_atr band))),
         (''max_width_atr'', OptFloats (replicate n (max_width_atr band))),
         (''fast_ema'', Floats fast), (''slow_ema'', Floats slow), (''atr_value'', Floats atr)])))))))"

section \<open>Dispatch\<close>

definition setup_head :: "obj \<Rightarrow> string \<Rightarrow> (string \<times> string \<times> obj) res" where
  "setup_head it side =
     (let cid = fst (resolve_setup_identity it); inst = snd (resolve_setup_identity it) in
      raise_if (cid \<notin> set SETUP_SUPPORTED) (InvalidRequest ''unsupported setup component'')
      (bindR (require_mapping (get_or it ''params'' (JObj [])) (''setup['' @ inst @ ''].params'')) (\<lambda>params.
       raise_if (side \<notin> set VALID_SIDES) (InvalidRequest ''trade side must be long or short'') (Inr (cid, inst, params)))))"

definition setup_columns :: "ema_plan \<Rightarrow> string \<Rightarrow> (string \<times> string) list res" where
  "setup_columns plan inst =
     (case map_of (setup_columns_by_instance_id plan) inst of
        None \<Rightarrow> Inl (InvalidRequest ''missing setup feature mapping'') | Some cols \<Rightarrow> Inr cols)"

definition semantic_setup :: "string \<Rightarrow> string \<Rightarrow> obj \<Rightarrow> feature_frame \<Rightarrow> ema_plan \<Rightarrow> string \<Rightarrow> (bool list \<times> trace) res" where
  "semantic_setup cid inst params fr plan side =
     (if cid = ''untouched_anchor_setup'' then
        bindR (column_at (anchor_columns plan) ''anchor'') (\<lambda>oid. untouched_anchor fr oid params side)
      else bindR (setup_columns plan inst) (\<lambda>cols.
        if cid = ''ema_bounce_counter_setup'' then ema_bounce_counter fr cols params side
        else if cid = WIDTH_BAND_SETUP then anchor_stack_width_band fr cols params
        else anchor_stack_width fr cols params))"

end
