(* ===== verification/WeightedVote.thy ===== *)
theory WeightedVote
  imports Setups
begin

text \<open>
  The document of a weighted vote (\<open>weighted_vote_spec.py\<close>): steps, inputs and voters with exact
  weights in units of \<open>10\<^sup>-\<^sup>9\<close>, and what the parser guarantees.
\<close>

definition WEIGHTED_VOTE_SETUP :: string where "WEIGHTED_VOTE_SETUP = ''weighted_vote_setup''"
definition WEIGHT_SCALE :: int where "WEIGHT_SCALE = 10 ^ 9"
definition WEIGHT_MAX :: int where "WEIGHT_MAX = 10 ^ 6"

text \<open>The level of an operand step is a float, that of a count step an integer.\<close>

datatype level = Operand_level f64 | Count_level int

record vote_step =
  vs_level :: level
  vs_weight :: "int option"

record exponent =
  ex_k :: f64
  ex_e_v :: f64

record vote_input =
  vi_input_id :: string
  vi_steps :: "vote_step list"
  vi_operand_predicate :: "obj option"
  vi_direction :: "string option"
  vi_count_of :: "obj list"
  vi_between :: string
  vi_exponent :: "exponent option"

record voter =
  vt_voter_id :: string
  vt_role :: string
  vt_inputs :: "vote_input list"

record vote_spec =
  wv_instance_id :: string
  wv_threshold :: int
  wv_voters :: "voter list"

definition linear :: "vote_input \<Rightarrow> bool" where
  "linear i \<longleftrightarrow> vi_between i = ''linear''"

definition input_predicates :: "vote_input \<Rightarrow> obj list" where
  "input_predicates i = (case vi_operand_predicate i of Some p \<Rightarrow> [p] | None \<Rightarrow> vi_count_of i)"

definition has_extensions :: "vote_input \<Rightarrow> bool" where
  "has_extensions i \<longleftrightarrow> linear i \<or> vi_exponent i \<noteq> None"

definition spec_inputs :: "vote_spec \<Rightarrow> vote_input list" where
  "spec_inputs s = concat (map vt_inputs (wv_voters s))"

definition has_exponent :: "vote_spec \<Rightarrow> bool" where
  "has_exponent s \<longleftrightarrow> list_ex (\<lambda>i. vi_exponent i \<noteq> None) (spec_inputs s)"

text \<open>An operand is read through a range without bounds.\<close>

definition operand_range_item :: "json \<Rightarrow> obj" where
  "operand_range_item operand = [(''kind'', JStr ''range''), (''operand'', operand), (''min'', JNull), (''max'', JNull)]"

definition scaled_to_float :: "int \<Rightarrow> f64" where
  "scaled_to_float n = rnd (of_int n / of_int WEIGHT_SCALE)"

text \<open>The exact decimal text of a non-negative scaled integer, without trailing zeros.\<close>

definition nine_digits :: "nat \<Rightarrow> string" where
  "nine_digits n = (let ds = show_nat n in zeros (9 - length ds) @ ds)"

definition scaled_to_text :: "int \<Rightarrow> string" where
  "scaled_to_text n =
     (let whole = n div WEIGHT_SCALE; frac = nine_digits (nat (n mod WEIGHT_SCALE));
          kept = rev (dropWhile (\<lambda>c. c = CHR ''0'') (rev frac)) in
      show_int whole @ (if kept = [] then [] else ''.'' @ kept))"

section \<open>Readers\<close>

definition only :: "obj \<Rightarrow> string list \<Rightarrow> string \<Rightarrow> 'a res \<Rightarrow> 'a res" where
  "only payload allowed path k = raise_if (unknown_fields payload allowed \<noteq> []) (InvalidRequest (path @ '' has unknown fields'')) k"

text \<open>\<open>_real\<close>: a finite number that is no truth value; a huge integer overflows in \<open>isfinite\<close>.\<close>

definition real_number :: "json \<Rightarrow> string \<Rightarrow> json res" where
  "real_number v path =
     (case v of
        JInt n \<Rightarrow> bindR (py_float v) (\<lambda>_. Inr v)
      | JFloat x \<Rightarrow> raise_if (\<not> isfinite x) (InvalidRequest (path @ '' must be finite'')) (Inr v)
      | _ \<Rightarrow> Inl (InvalidRequest (path @ '' must be a number'')))"

text \<open>\<open>Decimal(repr(number))\<close> or \<open>Decimal(number)\<close> as an exact rational.\<close>

definition exact_value :: "json \<Rightarrow> rat" where
  "exact_value v = (case v of JInt n \<Rightarrow> of_int n | JFloat (Fin r) \<Rightarrow> float_decimal r | _ \<Rightarrow> 0)"

text \<open>
  The shortest representation has a digit beyond the ninth place exactly when the value is no
  multiple of \<open>10\<^sup>-\<^sup>9\<close>.
\<close>

definition exact_decimal :: "json \<Rightarrow> string \<Rightarrow> int res" where
  "exact_decimal v path =
     bindR (real_number v path) (\<lambda>num.
     (let e = exact_value num; s = e * of_int WEIGHT_SCALE in
      raise_if (of_int WEIGHT_MAX < \<bar>e\<bar>) (InvalidRequest (path @ '' must not exceed 1000000 in magnitude''))
      (raise_if (of_int \<lfloor>s\<rfloor> \<noteq> s) (InvalidRequest (path @ '' must have at most 9 digits after the decimal point''))
        (Inr \<lfloor>s\<rfloor>))))"

definition count_level :: "json \<Rightarrow> int option" where
  "count_level v = (case v of JInt n \<Rightarrow> Some n | JFloat (Fin r) \<Rightarrow> if of_int \<lfloor>r\<rfloor> = r then Some \<lfloor>r\<rfloor> else None | _ \<Rightarrow> None)"

definition step_level :: "nat option \<Rightarrow> json \<Rightarrow> string \<Rightarrow> level res" where
  "step_level count_of v path =
     bindR (real_number v (path @ ''.level'')) (\<lambda>num.
     case count_of of
       Some n \<Rightarrow>
         (case count_level num of
            Some k \<Rightarrow> raise_if (\<not> (1 \<le> k \<and> k \<le> int n))
                (InvalidRequest (path @ ''.level of a count input must be an integer in 1..len(of)'')) (Inr (Count_level k))
          | None \<Rightarrow> Inl (InvalidRequest (path @ ''.level of a count input must be an integer in 1..len(of)'')))
     | None \<Rightarrow> bindR (py_float num) (\<lambda>x. Inr (Operand_level x)))"

definition parse_step :: "nat option \<Rightarrow> json \<Rightarrow> string \<Rightarrow> vote_step res" where
  "parse_step count_of raw path =
     bindR (require_mapping raw path) (\<lambda>payload.
     only payload [''level'', ''weight'', ''veto''] path
     (raise_if (\<not> has_key payload ''level'') (InvalidRequest (path @ ''.level is required''))
     (bindR (step_level count_of (get payload ''level'') path) (\<lambda>lv.
      (let has_weight = has_key payload ''weight''; has_veto = has_key payload ''veto'' in
       raise_if (has_weight = has_veto) (InvalidRequest (path @ '' must carry exactly one of weight or veto''))
       (if has_veto then
          raise_if (get payload ''veto'' \<noteq> JBool True) (InvalidRequest (path @ ''.veto must be the literal true''))
            (Inr \<lparr>vs_level = lv, vs_weight = None\<rparr>)
        else
          bindR (exact_decimal (get payload ''weight'') (path @ ''.weight'')) (\<lambda>w.
          raise_if (w < 0) (InvalidRequest (path @ ''.weight must not be negative'')) (Inr \<lparr>vs_level = lv, vs_weight = Some w\<rparr>))))))))"

definition positive_number :: "json \<Rightarrow> string \<Rightarrow> f64 res" where
  "positive_number v path =
     bindR (real_number v path) (\<lambda>num. bindR (py_float num) (\<lambda>x.
     raise_if (fle x (Fin 0)) (InvalidRequest (path @ '' must be greater than 0'')) (Inr x)))"

definition parse_exponent :: "json \<Rightarrow> string \<Rightarrow> exponent res" where
  "parse_exponent raw path =
     bindR (require_mapping raw path) (\<lambda>payload.
     only payload [''exponent''] path
     (raise_if (\<not> has_key payload ''exponent'') (InvalidRequest (path @ '' must carry exponent''))
     (bindR (require_mapping (get payload ''exponent'') (path @ ''.exponent'')) (\<lambda>ex.
      only ex [''k'', ''e_v''] (path @ ''.exponent'')
      (raise_if (\<not> has_key ex ''k'') (InvalidRequest (path @ ''.exponent.k is required''))
      (raise_if (\<not> has_key ex ''e_v'') (InvalidRequest (path @ ''.exponent.e_v is required''))
      (bindR (positive_number (get ex ''k'') (path @ ''.exponent.k'')) (\<lambda>k.
       bindR (positive_number (get ex ''e_v'') (path @ ''.exponent.e_v'')) (\<lambda>e.
       Inr \<lparr>ex_k = k, ex_e_v = e\<rparr>)))))))))"

text \<open>Membership of a document in a set of texts: a list or a mapping has no hash.\<close>

definition text_among :: "json \<Rightarrow> string list \<Rightarrow> string \<Rightarrow> string res" where
  "text_among v allowed msg =
     (case v of
        JStr s \<Rightarrow> raise_if (s \<notin> set allowed) (InvalidRequest msg) (Inr s)
      | JList _ \<Rightarrow> Inl (PyTypeError ''unhashable type'')
      | JObj _ \<Rightarrow> Inl (PyTypeError ''unhashable type'')
      | _ \<Rightarrow> Inl (InvalidRequest msg))"

definition level_float :: "level \<Rightarrow> f64" where
  "level_float lv = (case lv of Operand_level x \<Rightarrow> x | Count_level n \<Rightarrow> f64_of_int n)"

definition is_veto :: "vote_step \<Rightarrow> bool" where "is_veto s \<longleftrightarrow> vs_weight s = None"

definition step_weight :: "vote_step \<Rightarrow> int" where
  "step_weight s = (case vs_weight s of None \<Rightarrow> 0 | Some w \<Rightarrow> w)"

section \<open>Inputs\<close>

definition operand_input :: "obj \<Rightarrow> string \<Rightarrow> string \<Rightarrow> string \<Rightarrow> json list \<Rightarrow> exponent option \<Rightarrow> vote_input res" where
  "operand_input payload iid between path raw_steps ex =
     bindR (map_indexed (parse_step None) (path @ ''.steps'') 0 raw_steps) (\<lambda>steps.
     bindR (if between = ''linear'' then
              raise_if (has_key payload ''direction'') (InvalidRequest (path @ ''.direction is not allowed with between linear''))
              (raise_if (length steps < 2 \<or> list_ex is_veto steps)
                (InvalidRequest (path @ ''.steps of a linear input must be at least 2 weight steps'')) (Inr None))
            else bindR (text_among (get payload ''direction'') [''at_most'', ''at_least'']
                (path @ ''.direction must be at_most or at_least'')) (\<lambda>d. Inr (Some d))) (\<lambda>direction.
     Inr \<lparr>vi_input_id = iid, vi_steps = steps, vi_operand_predicate = Some (operand_range_item (get payload ''operand'')),
          vi_direction = direction, vi_count_of = [], vi_between = between, vi_exponent = ex\<rparr>))"

definition count_input :: "obj \<Rightarrow> string \<Rightarrow> string \<Rightarrow> string \<Rightarrow> json list \<Rightarrow> exponent option \<Rightarrow> vote_input res" where
  "count_input payload iid between path raw_steps ex =
     raise_if (has_key payload ''direction'') (InvalidRequest (path @ ''.direction is not allowed with count''))
     (raise_if (between = ''linear'') (InvalidRequest (path @ ''.between linear is not allowed with count''))
     (bindR (require_mapping (get payload ''count'') (path @ ''.count'')) (\<lambda>count.
      only count [''of''] (path @ ''.count'')
      (bindR (nonempty_list (get count ''of'') (path @ ''.count.of'')) (\<lambda>raw_of.
       bindR (map_indexed require_mapping (path @ ''.count.of'') 0 raw_of) (\<lambda>preds.
       bindR (map_indexed (parse_step (Some (length preds))) (path @ ''.steps'') 0 raw_steps) (\<lambda>steps.
       Inr \<lparr>vi_input_id = iid, vi_steps = steps, vi_operand_predicate = None, vi_direction = None,
            vi_count_of = preds, vi_between = ''step'', vi_exponent = ex\<rparr>)))))))"

definition EXPONENT_MAX :: f64 where "EXPONENT_MAX = Fin 700"

text \<open>The largest weight of the steps as a float; Python's \<open>max\<close>.\<close>

definition largest_weight :: "vote_step list \<Rightarrow> f64" where
  "largest_weight steps = foldl py_max (scaled_to_float (step_weight (hd steps))) (map (\<lambda>s. scaled_to_float (step_weight s)) (tl steps))"

definition check_exponent :: "string \<Rightarrow> vote_input \<Rightarrow> exponent \<Rightarrow> unit res" where
  "check_exponent path i ex =
     raise_if (list_ex is_veto (vi_steps i)) (InvalidRequest (path @ '': an exponent input must not have veto steps''))
     (raise_if (fgt (fmul (ex_k ex) (py_max (largest_weight (vi_steps i)) (Fin 0))) EXPONENT_MAX \<or>
         fgt (fmul (ex_k ex) (ex_e_v ex)) EXPONENT_MAX)
       (InvalidRequest (path @ ''.weighting.exponent overflows'')) (Inr ()))"

definition parse_input :: "json \<Rightarrow> string \<Rightarrow> vote_input res" where
  "parse_input raw path =
     bindR (require_mapping raw path) (\<lambda>payload.
     only payload [''input_id'', ''steps'', ''operand'', ''direction'', ''count'', ''between'', ''weighting''] path
     (bindR (ident (get payload ''input_id'') (path @ ''.input_id'')) (\<lambda>iid.
      (let has_operand = has_key payload ''operand''; has_count = has_key payload ''count'' in
       raise_if (has_operand = has_count) (InvalidRequest (path @ '' must carry exactly one of operand or count''))
       (bindR (text_among (get_or payload ''between'' (JStr ''step'')) [''step'', ''linear'']
          (path @ ''.between must be step or linear'')) (\<lambda>between.
        bindR (nonempty_list (get payload ''steps'') (path @ ''.steps'')) (\<lambda>raw_steps.
        bindR (if has_key payload ''weighting''
               then bindR (parse_exponent (get payload ''weighting'') (path @ ''.weighting'')) (\<lambda>e. Inr (Some e))
               else Inr None) (\<lambda>ex.
        bindR (if has_operand then operand_input payload iid between path raw_steps ex
               else count_input payload iid between path raw_steps ex) (\<lambda>i.
        raise_if (\<not> distinct (map (\<lambda>s. level_float (vs_level s)) (vi_steps i)))
          (InvalidRequest (path @ ''.steps levels must be unique''))
        (bindR (case ex of None \<Rightarrow> Inr () | Some e \<Rightarrow> check_exponent path i e) (\<lambda>_. Inr i)))))))))))"

section \<open>Voters\<close>

definition parse_voter :: "json \<Rightarrow> string \<Rightarrow> voter res" where
  "parse_voter raw path =
     bindR (require_mapping raw path) (\<lambda>payload.
     only payload [''voter_id'', ''role'', ''inputs''] path
     (bindR (ident (get payload ''voter_id'') (path @ ''.voter_id'')) (\<lambda>vid.
      bindR (text_among (get payload ''role'') [''vote'', ''veto''] (path @ ''.role must be vote or veto'')) (\<lambda>role.
      bindR (nonempty_list (get payload ''inputs'') (path @ ''.inputs'')) (\<lambda>raw_inputs.
      bindR (map_indexed parse_input (path @ ''.inputs'') 0 raw_inputs) (\<lambda>inputs.
      raise_if (role = ''veto'' \<and> list_ex (\<lambda>i. list_ex (\<lambda>s. \<not> is_veto s) (vi_steps i)) inputs)
        (InvalidRequest (path @ '': a veto voter must have only veto steps''))
      (raise_if (role = ''veto'' \<and> list_ex (\<lambda>i. vi_exponent i \<noteq> None) inputs)
        (InvalidRequest (path @ '': a veto voter must not have exponent inputs''))
        (Inr \<lparr>vt_voter_id = vid, vt_role = role, vt_inputs = inputs\<rparr>))))))))"

definition parse_weighted_vote_setup :: "obj \<Rightarrow> string \<Rightarrow> vote_spec res" where
  "parse_weighted_vote_setup it path =
     bindR (ident (get it ''instance_id'') (path @ ''.instance_id'')) (\<lambda>inst.
     bindR (require_mapping (get_or it ''params'' (JObj [])) (path @ ''.params'')) (\<lambda>params.
     only params [''threshold'', ''voters''] (path @ ''.params'')
     (raise_if (\<not> has_key params ''threshold'') (InvalidRequest (path @ ''.params.threshold is required''))
     (bindR (exact_decimal (get params ''threshold'') (path @ ''.params.threshold'')) (\<lambda>threshold.
      raise_if (threshold \<le> 0) (InvalidRequest (path @ ''.params.threshold must be greater than 0''))
      (bindR (nonempty_list (get params ''voters'') (path @ ''.params.voters'')) (\<lambda>raw_voters.
       bindR (map_indexed parse_voter (path @ ''.params.voters'') 0 raw_voters) (\<lambda>voters.
       raise_if (\<not> distinct (map vt_voter_id voters)) (InvalidRequest ''weighted vote voter_id values must be unique'')
       (raise_if (\<not> distinct (map vi_input_id (concat (map vt_inputs voters))))
         (InvalidRequest ''weighted vote input_id values must be unique'')
         (Inr \<lparr>wv_instance_id = inst, wv_threshold = threshold, wv_voters = voters\<rparr>))))))))))"

fun weighted_vote_items_from :: "nat \<Rightarrow> obj list \<Rightarrow> vote_spec list res" where
  "weighted_vote_items_from i [] = Inr []"
| "weighted_vote_items_from i (it # its) =
     (if text_of it ''component_id'' [] = WEIGHTED_VOTE_SETUP then
        bindR (parse_weighted_vote_setup it (at_index ''setups'' i)) (\<lambda>s.
        bindR (weighted_vote_items_from (Suc i) its) (\<lambda>rest. Inr (s # rest)))
      else weighted_vote_items_from (Suc i) its)"

definition weighted_vote_items :: "obj list \<Rightarrow> vote_spec list res" where
  "weighted_vote_items setups = weighted_vote_items_from 0 setups"

section \<open>What the parser guarantees\<close>

definition step_ok :: "vote_step \<Rightarrow> bool" where
  "step_ok s \<longleftrightarrow> (case vs_weight s of None \<Rightarrow> True | Some w \<Rightarrow> 0 \<le> w \<and> w \<le> WEIGHT_MAX * WEIGHT_SCALE)"

definition level_ok :: "nat option \<Rightarrow> level \<Rightarrow> bool" where
  "level_ok c lv = (case c of None \<Rightarrow> \<exists>x. lv = Operand_level x \<and> isfinite x
     | Some n \<Rightarrow> \<exists>k. lv = Count_level k \<and> 1 \<le> k \<and> k \<le> int n)"

definition input_ok :: "vote_input \<Rightarrow> bool" where
  "input_ok i \<longleftrightarrow> vi_steps i \<noteq> [] \<and> list_all step_ok (vi_steps i) \<and> distinct (map (\<lambda>s. level_float (vs_level s)) (vi_steps i)) \<and>
     (case vi_operand_predicate i of
        None \<Rightarrow> vi_count_of i \<noteq> [] \<and> vi_between i = ''step'' \<and> list_all (\<lambda>s. level_ok (Some (length (vi_count_of i))) (vs_level s)) (vi_steps i)
      | Some _ \<Rightarrow> list_all (\<lambda>s. level_ok None (vs_level s)) (vi_steps i)) \<and>
     (linear i \<longrightarrow> 2 \<le> length (vi_steps i) \<and> vi_direction i = None) \<and>
     (has_extensions i \<longrightarrow> \<not> list_ex is_veto (vi_steps i))"

definition voter_ok :: "voter \<Rightarrow> bool" where
  "voter_ok v \<longleftrightarrow> vt_inputs v \<noteq> [] \<and> list_all input_ok (vt_inputs v) \<and> vt_role v \<in> {''vote'', ''veto''} \<and>
     (vt_role v = ''veto'' \<longrightarrow> list_all (\<lambda>i. list_all is_veto (vi_steps i) \<and> \<not> has_extensions i) (vt_inputs v))"

definition vote_spec_ok :: "vote_spec \<Rightarrow> bool" where
  "vote_spec_ok s \<longleftrightarrow> 0 < wv_threshold s \<and> wv_threshold s \<le> WEIGHT_MAX * WEIGHT_SCALE \<and> wv_voters s \<noteq> [] \<and>
     list_all voter_ok (wv_voters s) \<and> distinct (map vt_voter_id (wv_voters s)) \<and> distinct (map vi_input_id (spec_inputs s))"

lemma only_Inr [res_simps]: "only p allowed path k = Inr y \<longleftrightarrow> unknown_fields p allowed = [] \<and> k = Inr y"
  by (auto simp: only_def raise_if_Inr)

lemma exact_decimal_bound: "exact_decimal v path = Inr w \<Longrightarrow> \<bar>w\<bar> \<le> WEIGHT_MAX * WEIGHT_SCALE"
proof -
  assume "exact_decimal v path = Inr w"
  then obtain e :: rat where e: "\<not> of_int WEIGHT_MAX < \<bar>e\<bar>" "of_int w = e * of_int WEIGHT_SCALE"
    by (auto simp: exact_decimal_def bindR_Inr raise_if_Inr Let_def)
  have "\<bar>of_int w :: rat\<bar> = \<bar>e\<bar> * of_int WEIGHT_SCALE" unfolding e(2) by (simp add: abs_mult WEIGHT_SCALE_def)
  also have "\<dots> \<le> of_int WEIGHT_MAX * of_int WEIGHT_SCALE" using e(1) by (intro mult_right_mono) (auto simp: WEIGHT_SCALE_def)
  finally show ?thesis by (simp only: of_int_abs[symmetric] of_int_mult[symmetric] of_int_le_iff)
qed

lemma real_number_finite: "real_number v path = Inr num \<Longrightarrow> py_float num = Inr x \<Longrightarrow> isfinite x"
  by (cases v) (auto simp: real_number_def bindR_Inr raise_if_Inr split: if_splits)

lemma step_level_ok: "step_level c v path = Inr lv \<Longrightarrow> level_ok c lv"
  by (auto simp: level_ok_def step_level_def bindR_Inr raise_if_Inr split: option.splits dest: real_number_finite)

lemma parse_step_ok:
  assumes "parse_step c raw path = Inr s"
  shows "step_ok s \<and> level_ok c (vs_level s)"
  using assms
  by (auto simp: parse_step_def bindR_Inr raise_if_Inr only_Inr Let_def step_ok_def split: if_splits
      dest!: exact_decimal_bound step_level_ok)

lemma text_among_Inr: "text_among v allowed msg = Inr s \<longleftrightarrow> v = JStr s \<and> s \<in> set allowed"
  by (cases v) (auto simp: text_among_def raise_if_Inr)

lemma map_indexed_all:
  assumes "map_indexed f path i xs = Inr ys" "\<And>x p y. f x p = Inr y \<Longrightarrow> P y"
  shows "list_all P ys"
  using map_indexed_set[OF assms(1)] assms(2) by (auto simp: list_all_iff)

lemma steps_ok:
  assumes "map_indexed (parse_step c) path 0 raw = Inr steps" "raw \<noteq> []"
  shows "steps \<noteq> [] \<and> list_all step_ok steps \<and> list_all (\<lambda>s. level_ok c (vs_level s)) steps"
proof (intro conjI)
  show "steps \<noteq> []" using map_indexed_length[OF assms(1)] assms(2) by auto
  show "list_all step_ok steps" by (rule map_indexed_all[OF assms(1)]) (simp add: parse_step_ok)
  show "list_all (\<lambda>s. level_ok c (vs_level s)) steps" by (rule map_indexed_all[OF assms(1)]) (simp add: parse_step_ok)
qed

lemma operand_input_ok:
  assumes "operand_input payload iid between path raw ex = Inr i" "raw \<noteq> []"
  shows "vi_steps i \<noteq> [] \<and> list_all step_ok (vi_steps i) \<and> vi_operand_predicate i \<noteq> None \<and> vi_exponent i = ex \<and>
    list_all (\<lambda>s. level_ok None (vs_level s)) (vi_steps i) \<and>
    (linear i \<longrightarrow> 2 \<le> length (vi_steps i) \<and> vi_direction i = None \<and> \<not> list_ex is_veto (vi_steps i))"
  using assms steps_ok[where c = None and path = "path @ ''.steps''" and raw = raw]
  by (auto simp: operand_input_def bindR_Inr raise_if_Inr linear_def split: if_splits)

lemma count_input_ok:
  assumes "count_input payload iid between path raw ex = Inr i" "raw \<noteq> []"
  shows "vi_steps i \<noteq> [] \<and> list_all step_ok (vi_steps i) \<and> vi_operand_predicate i = None \<and> vi_exponent i = ex \<and> vi_count_of i \<noteq> [] \<and>
    vi_between i = ''step'' \<and> list_all (\<lambda>s. level_ok (Some (length (vi_count_of i))) (vs_level s)) (vi_steps i)"
proof -
  obtain raw_of preds steps where g: "raw_of \<noteq> []" "map_indexed require_mapping (path @ ''.count.of'') 0 raw_of = Inr preds"
    "map_indexed (parse_step (Some (length preds))) (path @ ''.steps'') 0 raw = Inr steps"
    and i: "i = \<lparr>vi_input_id = iid, vi_steps = steps, vi_operand_predicate = None, vi_direction = None,
            vi_count_of = preds, vi_between = ''step'', vi_exponent = ex\<rparr>"
    using assms(1) by (auto simp: count_input_def bindR_Inr raise_if_Inr only_Inr nonempty_list_Inr)
  show ?thesis using steps_ok[OF g(3) assms(2)] map_indexed_length[OF g(2)] g(1) by (auto simp: i)
qed

lemma raise_ifE: "raise_if c e k = Inr y \<Longrightarrow> (\<not> c \<Longrightarrow> k = Inr y \<Longrightarrow> P) \<Longrightarrow> P"
  by (simp add: raise_if_Inr)

lemma onlyE: "only p allowed path k = Inr y \<Longrightarrow> (k = Inr y \<Longrightarrow> P) \<Longrightarrow> P"
  by (simp add: only_Inr)

lemma input_okI:
  assumes "nonempty_list raw_steps sp = Inr steps"
    "(if c then operand_input payload iid between path steps ex else count_input payload iid between path steps ex) = Inr i"
    "\<not> \<not> distinct (map (\<lambda>s. level_float (vs_level s)) (vi_steps i))"
    "(case ex of None \<Rightarrow> Inr () | Some e \<Rightarrow> check_exponent path i e) = Inr u"
  shows "input_ok i"
proof -
  have ne: "steps \<noteq> []" using assms(1) by (simp add: nonempty_list_Inr)
  have ex: "\<not> list_ex is_veto (vi_steps i)" if "ex \<noteq> None"
    using that assms(4) by (auto simp: check_exponent_def raise_if_Inr)
  show ?thesis
  proof (cases c)
    case True
    then have o: "operand_input payload iid between path steps ex = Inr i" using assms(2) by simp
    show ?thesis using operand_input_ok[OF o ne] assms(3) ex by (auto simp: input_ok_def has_extensions_def)
  next
    case False
    then have c: "count_input payload iid between path steps ex = Inr i" using assms(2) by simp
    show ?thesis using count_input_ok[OF c ne] assms(3) ex by (auto simp: input_ok_def has_extensions_def linear_def)
  qed
qed

lemma parse_input_ok: "parse_input raw path = Inr i \<Longrightarrow> input_ok i"
  unfolding parse_input_def Let_def
  by (elim bindRE onlyE raise_ifE) (simp only: sum.inject, erule (3) input_okI)

lemma voter_okI:
  assumes "map_indexed parse_input path 0 raw_inputs = Inr inputs" "nonempty_list js p = Inr raw_inputs"
    "text_among js' [''vote'', ''veto''] msg = Inr role"
    "\<not> (role = ''veto'' \<and> list_ex (\<lambda>i. list_ex (\<lambda>s. \<not> is_veto s) (vi_steps i)) inputs)"
    "\<not> (role = ''veto'' \<and> list_ex (\<lambda>i. vi_exponent i \<noteq> None) inputs)"
  shows "voter_ok \<lparr>vt_voter_id = vid, vt_role = role, vt_inputs = inputs\<rparr>"
proof -
  have ok: "list_all input_ok inputs" by (rule map_indexed_all[OF assms(1)]) (rule parse_input_ok)
  have "list_all (\<lambda>i. list_all is_veto (vi_steps i) \<and> \<not> has_extensions i) inputs" if r: "role = ''veto''"
    unfolding list_all_iff
  proof (intro ballI conjI)
    fix i s assume i: "i \<in> set inputs"
    have v: "\<forall>s \<in> set (vi_steps i). is_veto s" "vi_exponent i = None"
      using assms(4,5) r i by (auto simp: list_ex_iff)
    show "is_veto s" if "s \<in> set (vi_steps i)" using v that by blast
    have "vi_steps i \<noteq> []" and e: "has_extensions i \<longrightarrow> \<not> list_ex is_veto (vi_steps i)"
      using ok i by (auto simp: list_all_iff input_ok_def)
    then show "\<not> has_extensions i" using v by (cases "vi_steps i") auto
  qed
  moreover have "inputs \<noteq> []" using map_indexed_length[OF assms(1)] assms(2) by (auto simp: nonempty_list_Inr)
  moreover have "role \<in> {''vote'', ''veto''}" using assms(3) by (simp add: text_among_Inr)
  ultimately show ?thesis using ok by (simp add: voter_ok_def)
qed

lemma parse_voter_ok: "parse_voter raw path = Inr v \<Longrightarrow> voter_ok v"
  unfolding parse_voter_def
  by (elim bindRE onlyE raise_ifE) (drule sum.inject(2)[THEN iffD1], hypsubst, rule voter_okI, assumption+)

lemma parse_vote_ok:
  assumes "parse_weighted_vote_setup it path = Inr s"
  shows "vote_spec_ok s"
proof -
  obtain params raw_voters where g: "exact_decimal (get params ''threshold'') (path @ ''.params.threshold'') = Inr (wv_threshold s)"
    "0 < wv_threshold s" "raw_voters \<noteq> []" "map_indexed parse_voter (path @ ''.params.voters'') 0 raw_voters = Inr (wv_voters s)"
    "distinct (map vt_voter_id (wv_voters s))" "distinct (map vi_input_id (concat (map vt_inputs (wv_voters s))))"
    using assms by (auto simp: parse_weighted_vote_setup_def bindR_Inr raise_if_Inr only_Inr nonempty_list_Inr)
  have "list_all voter_ok (wv_voters s)" by (rule map_indexed_all[OF g(4)]) (rule parse_voter_ok)
  then show ?thesis using g map_indexed_length[OF g(4)] exact_decimal_bound[OF g(1)]
    by (auto simp: vote_spec_ok_def spec_inputs_def)
qed

end
