(* ===== verification/SetupEvaluation.thy ===== *)
theory SetupEvaluation
  imports WeightedVote
begin

text \<open>
  Composite setups, weighted votes and the conjunction of all setups of a side (\<open>setups.py\<close>).
  What the predicate layer (\<open>predicates.py\<close>) computes for a raw predicate is a parameter, as are
  the exponential and the linear interpolation of NumPy.
\<close>

text \<open>
  A raw predicate with its path and side: its mask, its operand value where it is a range over a
  segment or a ratio, and the operand of a range.
\<close>

record predicate_functions =
  pf_mask :: "feature_frame \<Rightarrow> context_bundle \<Rightarrow> obj \<Rightarrow> string \<Rightarrow> string \<Rightarrow> bool list res"
  pf_value :: "feature_frame \<Rightarrow> context_bundle \<Rightarrow> obj \<Rightarrow> string \<Rightarrow> string \<Rightarrow> f64 list option res"
  pf_range :: "feature_frame \<Rightarrow> context_bundle \<Rightarrow> obj \<Rightarrow> string \<Rightarrow> string \<Rightarrow> f64 list res"
  np_exp :: "f64 \<Rightarrow> f64"
  np_interp :: "f64 \<Rightarrow> f64 list \<Rightarrow> f64 list \<Rightarrow> f64"

definition finite_option :: "f64 \<Rightarrow> f64 option" where
  "finite_option x = (if isfinite x then Some x else None)"

section \<open>Composite setups\<close>

record composite_core =
  core_local :: "bool list"
  core_child_masks :: "bool list list"
  core_child_values :: "f64 option list option list"
  core_path_masks :: "bool list list"
  core_counts :: "int list option list"
  core_winning :: "int list"

definition composite_child_result ::
  "predicate_functions \<Rightarrow> feature_frame \<Rightarrow> ema_plan \<Rightarrow> context_bundle \<Rightarrow> string \<Rightarrow> composite_spec \<Rightarrow> composite_child \<Rightarrow>
     (bool list \<times> f64 option list option) res" where
  "composite_child_result pf fr plan bundle side spec child =
     (let n = length (frame_time_ms fr) in
      case child_predicate child of
        Some p \<Rightarrow>
          (let path = ''setup['' @ instance_id spec @ ''].'' @ child_id child in
           bindR (pf_mask pf fr bundle p path side) (\<lambda>msk.
           raise_if (length msk \<noteq> n) (InvalidRequest ''composite child mask length mismatch'')
           (bindR (pf_value pf fr bundle p path side) (\<lambda>v.
            Inr (msk, map_option (map finite_option) v)))))
      | None \<Rightarrow>
          bindR (child_setup_item spec child) (\<lambda>it.
          bindR (setup_head it side) (\<lambda>(cid, inst, params).
          bindR (semantic_setup cid inst params fr plan side) (\<lambda>(msk, _).
          raise_if (length msk \<noteq> n) (InvalidRequest ''composite child mask length mismatch'') (Inr (msk, None))))))"

definition mask_of :: "(string \<times> bool list) list \<Rightarrow> string \<Rightarrow> bool list res" where
  "mask_of arrays ref = (case map_of arrays ref of None \<Rightarrow> Inl (PyKeyError ref) | Some m \<Rightarrow> Inr m)"

definition count_at :: "bool list list \<Rightarrow> nat \<Rightarrow> int" where
  "count_at masks i = int (length (filter (\<lambda>m. m ! i) masks))"

definition composite_path_result ::
  "(string \<times> bool list) list \<Rightarrow> nat \<Rightarrow> composite_path \<Rightarrow> (bool list \<times> int list option) res" where
  "composite_path_result arrays n p =
     bindR (mapR (mask_of arrays) (require p)) (\<lambda>req.
     (let base = map (\<lambda>i. list_all (\<lambda>m. m ! i) req) [0 ..< n] in
      case at_least_k p of
        None \<Rightarrow> Inr (base, None)
      | Some k \<Rightarrow>
          bindR (mapR (mask_of arrays) (at_least_of p)) (\<lambda>ofs.
          (let counts = map (count_at ofs) [0 ..< n] in Inr (map2 (\<lambda>b c. b \<and> k \<le> c) base counts, Some counts)))))"

text \<open>The first path that holds on the bar, or \<open>-1\<close>.\<close>

definition first_true :: "bool list list \<Rightarrow> nat \<Rightarrow> int" where
  "first_true masks i = (case find (\<lambda>j. masks ! j ! i) [0 ..< length masks] of None \<Rightarrow> - 1 | Some j \<Rightarrow> int j)"

definition composite_core_of ::
  "predicate_functions \<Rightarrow> composite_spec \<Rightarrow> feature_frame \<Rightarrow> ema_plan \<Rightarrow> context_bundle \<Rightarrow> string \<Rightarrow> composite_core res" where
  "composite_core_of pf spec fr plan bundle side =
     bindR (mapR (composite_child_result pf fr plan bundle side spec) (spec_children spec)) (\<lambda>cs.
     (let n = length (frame_time_ms fr); arrays = zip (map child_id (spec_children spec)) (map fst cs) in
      bindR (mapR (composite_path_result arrays n) (spec_paths spec)) (\<lambda>ps.
      Inr \<lparr>core_local = map (\<lambda>i. list_ex (\<lambda>p. fst p ! i) ps) [0 ..< n], core_child_masks = map fst cs,
           core_child_values = map snd cs, core_path_masks = map fst ps, core_counts = map snd ps,
           core_winning = map (first_true (map fst ps)) [0 ..< n]\<rparr>)))"

definition child_trace :: "composite_child \<Rightarrow> bool list \<Rightarrow> f64 option list option \<Rightarrow> trace" where
  "child_trace c msk vs =
     (''child:'' @ child_id c, Bools msk) #
     (case vs of None \<Rightarrow> [] | Some xs \<Rightarrow> [(''child:'' @ child_id c @ '':value'', OptFloats xs)])"

definition path_trace :: "composite_path \<Rightarrow> bool list \<Rightarrow> int list option \<Rightarrow> trace" where
  "path_trace p msk counts =
     (''path:'' @ path_id p, Bools msk) #
     (case counts of None \<Rightarrow> [] | Some ns \<Rightarrow> [(''path:'' @ path_id p @ '':at_least_count'', Ints ns)])"

definition composite_trace :: "composite_spec \<Rightarrow> composite_core \<Rightarrow> trace" where
  "composite_trace spec core =
     concat (map (\<lambda>(c, m, v). child_trace c m v) (zip (spec_children spec) (zip (core_child_masks core) (core_child_values core)))) @
     concat (map (\<lambda>(p, m, c). path_trace p m c) (zip (spec_paths spec) (zip (core_path_masks core) (core_counts core)))) @
     [(''winning_path'', Labels (map (\<lambda>w. if w < 0 then None else Some (path_id (spec_paths spec ! nat w))) (core_winning core)))]"

section \<open>Weighted votes\<close>

text \<open>The value of an input on every bar, and where each step is crossed.\<close>

definition crosses :: "vote_input \<Rightarrow> f64 \<Rightarrow> vote_step \<Rightarrow> bool" where
  "crosses i x s \<longleftrightarrow> isfinite x \<and>
     (if vi_direction i = Some ''at_most'' then fle x (level_float (vs_level s)) else fge x (level_float (vs_level s)))"

definition count_crosses :: "int \<Rightarrow> vote_step \<Rightarrow> bool" where
  "count_crosses c s = (case vs_level s of Count_level k \<Rightarrow> k \<le> c | Operand_level x \<Rightarrow> False)"

fun count_masks ::
  "(obj \<Rightarrow> string \<Rightarrow> bool list res) \<Rightarrow> string \<Rightarrow> nat \<Rightarrow> nat \<Rightarrow> obj list \<Rightarrow> bool list list res" where
  "count_masks f path n i [] = Inr []"
| "count_masks f path n i (p # ps) =
     bindR (f p (at_index (path @ ''.count.of'') i)) (\<lambda>m.
     raise_if (length m \<noteq> n) (InvalidRequest ''weighted vote predicate mask length mismatch'')
     (bindR (count_masks f path n (Suc i) ps) (\<lambda>ms. Inr (m # ms))))"

definition vote_input_crossings ::
  "predicate_functions \<Rightarrow> vote_input \<Rightarrow> string \<Rightarrow> feature_frame \<Rightarrow> string \<Rightarrow> context_bundle \<Rightarrow>
     (trace_values \<times> bool list list \<times> f64 list option) res" where
  "vote_input_crossings pf i path fr side bundle =
     (case vi_operand_predicate i of
        Some p \<Rightarrow>
          bindR (pf_range pf fr bundle p path side) (\<lambda>vs.
          Inr (OptFloats (map finite_option vs),
               if linear i then [] else map (\<lambda>s. map (\<lambda>x. crosses i x s) vs) (vi_steps i), Some vs))
      | None \<Rightarrow>
          (let n = length (frame_time_ms fr) in
           bindR (count_masks (\<lambda>p pa. pf_mask pf fr bundle p pa side) path n 0 (vi_count_of i)) (\<lambda>ms.
           (let counts = map (count_at ms) [0 ..< n] in
            Inr (Ints counts, map (\<lambda>s. map (\<lambda>c. count_crosses c s) counts) (vi_steps i), None)))))"

text \<open>Weights in units of \<open>10\<^sup>-\<^sup>9\<close>, or floats.\<close>

datatype weights = Scaled "int list" | Real "f64 list"

definition linear_ladder :: "predicate_functions \<Rightarrow> vote_input \<Rightarrow> f64 list \<Rightarrow> f64 list" where
  "linear_ladder pf i vs =
     (let points = sort_key fst (map (\<lambda>s. (level_float (vs_level s), step_weight s)) (vi_steps i));
          levels = map fst points; ws = map (\<lambda>p. scaled_to_float (snd p)) points in
      map (\<lambda>x. if isfinite x then np_interp pf x levels ws else Fin 0) vs)"

definition exponent_weight :: "predicate_functions \<Rightarrow> f64 list \<Rightarrow> exponent \<Rightarrow> f64 list" where
  "exponent_weight pf vs ex =
     map (\<lambda>x. fdiv (fsub (np_exp pf (fmul (ex_k ex) x)) (Fin 1)) (fsub (np_exp pf (fmul (ex_k ex) (ex_e_v ex))) (Fin 1))) vs"

definition scaled_floats :: "int list \<Rightarrow> f64 list" where
  "scaled_floats ns = map (\<lambda>n. fdiv (f64_of_int n) (f64_of_int WEIGHT_SCALE)) ns"

definition as_floats :: "weights \<Rightarrow> f64 list" where
  "as_floats w = (case w of Scaled ns \<Rightarrow> scaled_floats ns | Real xs \<Rightarrow> xs)"

text \<open>On one bar: the largest weight of the crossed steps, and whether a veto step is crossed.\<close>

definition crossed_weight :: "vote_step list \<Rightarrow> bool list list \<Rightarrow> nat \<Rightarrow> int" where
  "crossed_weight steps crossed b =
     foldl (\<lambda>w (s, m). case vs_weight s of None \<Rightarrow> w | Some v \<Rightarrow> if m ! b then max w v else w) 0 (zip steps crossed)"

definition crossed_veto :: "vote_step list \<Rightarrow> bool list list \<Rightarrow> nat \<Rightarrow> bool" where
  "crossed_veto steps crossed b = list_ex (\<lambda>(s, m). is_veto s \<and> m ! b) (zip steps crossed)"

record input_result =
  ir_value :: trace_values
  ir_level_value :: "f64 list"
  ir_weight :: weights
  ir_veto :: "bool list"

definition vote_input_result ::
  "predicate_functions \<Rightarrow> vote_spec \<Rightarrow> feature_frame \<Rightarrow> string \<Rightarrow> context_bundle \<Rightarrow> vote_input \<Rightarrow> input_result res" where
  "vote_input_result pf spec fr side bundle i =
     (let n = length (frame_time_ms fr) in
      bindR (vote_input_crossings pf i (''setup['' @ wv_instance_id spec @ ''].'' @ vi_input_id i) fr side bundle) (\<lambda>(value_trace, crossed, vs).
      (let plain = (if linear i then Real (linear_ladder pf i (case vs of None \<Rightarrow> [] | Some xs \<Rightarrow> xs))
             else Scaled (map (crossed_weight (vi_steps i) crossed) [0 ..< n])) in
       Inr \<lparr>ir_value = value_trace, ir_level_value = as_floats plain,
            ir_weight = (case vi_exponent i of None \<Rightarrow> plain | Some ex \<Rightarrow> Real (exponent_weight pf (as_floats plain) ex)),
            ir_veto = (if linear i then replicate n False else map (crossed_veto (vi_steps i) crossed) [0 ..< n])\<rparr>)))"

definition floating :: "vote_spec \<Rightarrow> bool" where
  "floating s \<longleftrightarrow> list_ex has_extensions (spec_inputs s)"

definition scaled_ints :: "weights \<Rightarrow> int list" where
  "scaled_ints w = (case w of Scaled ns \<Rightarrow> ns | Real xs \<Rightarrow> [])"

text \<open>The largest weight of a voter's inputs on every bar.\<close>

definition voter_weight_int :: "nat \<Rightarrow> input_result list \<Rightarrow> int list" where
  "voter_weight_int n rs = foldl (\<lambda>acc r. map2 max acc (scaled_ints (ir_weight r))) (replicate n 0) rs"

definition voter_weight_float :: "nat \<Rightarrow> input_result list \<Rightarrow> f64 list" where
  "voter_weight_float n rs = foldl (\<lambda>acc r. map2 np_maximum acc (as_floats (ir_weight r))) (replicate n (Fin 0)) rs"

definition voter_veto :: "nat \<Rightarrow> input_result list \<Rightarrow> bool list" where
  "voter_veto n rs = foldl (\<lambda>acc r. map2 (\<or>) acc (ir_veto r)) (replicate n False) rs"

text \<open>\<open>Fraction(float)\<close> raises on what is not finite.\<close>

definition exact_weight :: "weights \<Rightarrow> nat \<Rightarrow> rat res" where
  "exact_weight w b =
     (case w of Scaled ns \<Rightarrow> Inr (of_int (ns ! b) / of_int WEIGHT_SCALE)
      | Real xs \<Rightarrow> (case xs ! b of Fin r \<Rightarrow> Inr r | Inf _ \<Rightarrow> Inl PyOverflowError
          | NaN \<Rightarrow> Inl (PyValueError ''cannot convert NaN to integer ratio'')))"

definition exact_voter :: "input_result list \<Rightarrow> nat \<Rightarrow> rat res" where
  "exact_voter rs b =
     bindR (mapR (\<lambda>r. exact_weight (ir_weight r) b) rs) (\<lambda>qs.
     case qs of [] \<Rightarrow> Inl (PyValueError ''max() arg is an empty sequence'') | q # rest \<Rightarrow> Inr (foldl max q rest))"

definition EXACT_BAND :: f64 where "EXACT_BAND = rnd (1 / 10 ^ 6)"

definition float_threshold :: "vote_spec \<Rightarrow> f64" where
  "float_threshold s = scaled_to_float (wv_threshold s)"

text \<open>The decision of one bar: by the float score, or exactly where the score is near the threshold.\<close>

definition decide_float :: "vote_spec \<Rightarrow> input_result list list \<Rightarrow> f64 list \<Rightarrow> nat \<Rightarrow> bool res" where
  "decide_float s parts score b =
     (if fle (fabs (fsub (score ! b) (float_threshold s))) EXACT_BAND then
        bindR (mapR (\<lambda>rs. exact_voter rs b) parts) (\<lambda>qs.
        Inr (of_int (wv_threshold s) / of_int WEIGHT_SCALE \<le> sum_list qs))
      else Inr (fge (score ! b) (float_threshold s)))"

definition column_sum_float :: "f64 list list \<Rightarrow> nat \<Rightarrow> f64" where
  "column_sum_float ws b = foldl (\<lambda>acc w. fadd acc (w ! b)) (hd ws ! b) (tl ws)"

definition column_sum_int :: "int list list \<Rightarrow> nat \<Rightarrow> int" where
  "column_sum_int ws b = sum_list (map (\<lambda>w. w ! b) ws)"

definition blocked_by :: "vote_spec \<Rightarrow> bool list list \<Rightarrow> bool list \<Rightarrow> nat \<Rightarrow> string option" where
  "blocked_by s vetoes by_score b =
     (case find (\<lambda>j. vetoes ! j ! b) [0 ..< length vetoes] of
        Some j \<Rightarrow> Some (''veto:'' @ vt_voter_id (wv_voters s ! j))
      | None \<Rightarrow> if by_score ! b then Some ''score'' else None)"

definition input_trace :: "vote_input \<Rightarrow> input_result \<Rightarrow> trace" where
  "input_trace i r =
     (let k = ''input:'' @ vi_input_id i in
      [(k @ '':value'', ir_value r)] @
      (if vi_exponent i \<noteq> None then [(k @ '':level_value'', Floats (ir_level_value r))] else []) @
      [(k @ '':weight'', Floats (as_floats (ir_weight r))), (k @ '':veto'', Bools (ir_veto r))])"

definition vote_traces :: "vote_spec \<Rightarrow> input_result list list \<Rightarrow> f64 list list \<Rightarrow> bool list list \<Rightarrow> trace" where
  "vote_traces s parts ws vetoes =
     concat (map (\<lambda>(v, rs, w, ve).
       concat (map2 input_trace (vt_inputs v) rs) @
       [(''voter:'' @ vt_voter_id v @ '':weight'', Floats w), (''voter:'' @ vt_voter_id v @ '':veto'', Bools ve)])
       (zip (wv_voters s) (zip parts (zip ws vetoes))))"

definition weighted_vote_compute ::
  "predicate_functions \<Rightarrow> vote_spec \<Rightarrow> feature_frame \<Rightarrow> string \<Rightarrow> context_bundle \<Rightarrow> (bool list \<times> trace) res" where
  "weighted_vote_compute pf s fr side bundle =
     (let n = length (frame_time_ms fr) in
      bindR (mapR (\<lambda>v. mapR (vote_input_result pf s fr side bundle) (vt_inputs v)) (wv_voters s)) (\<lambda>parts.
      (let vetoes = map (voter_veto n) parts;
           float_ws = map (voter_weight_float n) parts; int_ws = map (voter_weight_int n) parts;
           float_score = map (column_sum_float float_ws) [0 ..< n]; int_score = map (column_sum_int int_ws) [0 ..< n] in
       bindR (if floating s then mapR (decide_float s parts float_score) [0 ..< n]
              else Inr (map (\<lambda>x. wv_threshold s \<le> x) int_score)) (\<lambda>by_score.
       Inr (map (\<lambda>b. \<not> (list_ex (\<lambda>v. v ! b) vetoes \<or> by_score ! b)) [0 ..< n],
            vote_traces s parts (if floating s then float_ws else map scaled_floats int_ws) vetoes @
            [(''score'', Floats (if floating s then float_score else scaled_floats int_score)),
             (''blocked_by'', Labels (map (blocked_by s vetoes by_score) [0 ..< n]))])))))"

section \<open>All setups of a side\<close>

record setup_mask =
  sm_component_id :: string
  sm_instance_id :: string
  sm_side :: string
  sm_local_allowed :: "bool list"
  sm_gate_allowed :: "bool list option"
  sm_final_allowed :: "bool list"
  sm_trace :: trace

record side_setup_evaluation =
  ss_side :: string
  ss_setups :: "setup_mask list"
  ss_setups_ok :: "bool list"
  ss_pre_trigger_allowed :: "bool list"

definition setup_mask_to_wire :: "setup_mask \<Rightarrow> json" where
  "setup_mask_to_wire m = JObj
     [(''component_id'', JStr (sm_component_id m)), (''instance_id'', JStr (sm_instance_id m)), (''side'', JStr (sm_side m)),
      (''local_setup_allowed'', wire_bools (sm_local_allowed m)),
      (''context_gate_allowed'', case sm_gate_allowed m of None \<Rightarrow> JNull | Some g \<Rightarrow> wire_bools g),
      (''final_setup_allowed'', wire_bools (sm_final_allowed m)), (''trace'', wire_trace (sm_trace m))]"

definition side_setups_to_wire :: "side_setup_evaluation \<Rightarrow> json" where
  "side_setups_to_wire s = JObj
     [(''side'', JStr (ss_side s)), (''setups'', JList (map setup_mask_to_wire (ss_setups s))),
      (''setups_ok'', wire_bools (ss_setups_ok s)), (''pre_trigger_allowed'', wire_bools (ss_pre_trigger_allowed s))]"

definition apply_setup_gate :: "bool list \<Rightarrow> bool list option \<Rightarrow> bool list res" where
  "apply_setup_gate local gate =
     (case gate of None \<Rightarrow> Inr local
      | Some g \<Rightarrow>
          raise_if (length g \<noteq> length local) (InvalidRequest ''context gate length does not match setup mask'') (and_pair local g))"

definition setup_local ::
  "predicate_functions \<Rightarrow> obj \<Rightarrow> feature_frame \<Rightarrow> ema_plan \<Rightarrow> context_bundle \<Rightarrow> string \<Rightarrow> string \<times> string \<times> obj \<Rightarrow>
     (bool list \<times> trace) res" where
  "setup_local pf it fr plan bundle side head =
     (case head of (cid, inst, params) \<Rightarrow>
        if cid = COMPOSITE_SETUP then
          bindR (parse_composite_setup it (''setup['' @ inst @ '']'')) (\<lambda>spec.
          bindR (composite_core_of pf spec fr plan bundle side) (\<lambda>core. Inr (core_local core, composite_trace spec core)))
        else if cid = WEIGHTED_VOTE_SETUP then
          bindR (parse_weighted_vote_setup it (''setup['' @ inst @ '']'')) (\<lambda>spec. weighted_vote_compute pf spec fr side bundle)
        else semantic_setup cid inst params fr plan side)"

definition setup_of ::
  "predicate_functions \<Rightarrow> feature_frame \<Rightarrow> ema_plan \<Rightarrow> consumption_record list \<Rightarrow> context_bundle \<Rightarrow> string \<Rightarrow> obj \<Rightarrow> setup_mask res" where
  "setup_of pf fr plan records bundle side it =
     bindR (setup_head it side) (\<lambda>(cid, inst, params).
     bindR (setup_local pf it fr plan bundle side (cid, inst, params)) (\<lambda>(local, tr).
     (let gate = gate_for records ''setup'' inst side in
      bindR (apply_setup_gate local gate) (\<lambda>final.
      Inr \<lparr>sm_component_id = cid, sm_instance_id = inst, sm_side = side, sm_local_allowed = local, sm_gate_allowed = gate,
           sm_final_allowed = final, sm_trace = tr\<rparr>))))"

definition combine_setup_masks :: "bool list list \<Rightarrow> nat \<Rightarrow> bool list res" where
  "combine_setup_masks masks n = combine_blocker_masks masks n"

definition setup_items :: "obj \<Rightarrow> obj list res" where
  "setup_items raw_spec = mapping_list (get_or raw_spec ''setups'' (JList [])) ''raw_spec.setups''"

definition side_setups ::
  "predicate_functions \<Rightarrow> feature_frame \<Rightarrow> ema_plan \<Rightarrow> consumption_record list \<Rightarrow> context_bundle \<Rightarrow> obj list \<Rightarrow>
     side_direction_blockers \<Rightarrow> side_setup_evaluation res" where
  "side_setups pf fr plan records bundle its prior =
     bindR (mapR (setup_of pf fr plan records bundle (sdb_side prior)) its) (\<lambda>masks.
     bindR (combine_setup_masks (map sm_final_allowed masks) (length (frame_time_ms fr))) (\<lambda>ok.
     bindR (and_pair (sdb_pre_setup_allowed prior) ok) (\<lambda>pre.
     Inr \<lparr>ss_side = sdb_side prior, ss_setups = masks, ss_setups_ok = ok, ss_pre_trigger_allowed = pre\<rparr>)))"

definition evaluate_setups ::
  "predicate_functions \<Rightarrow> obj \<Rightarrow> feature_frame \<Rightarrow> ema_plan \<Rightarrow> consumption_record list \<Rightarrow> side_direction_blockers list \<Rightarrow>
     context_bundle \<Rightarrow> side_setup_evaluation list res" where
  "evaluate_setups pf raw_spec fr plan records priors bundle =
     bindR (setup_items raw_spec) (\<lambda>its. mapR (side_setups pf fr plan records bundle its) priors)"

end
