(* ===== verification/VoteFacts.thy ===== *)
theory VoteFacts
  imports SetupEvaluation
begin

text \<open>
  Facts about weighted votes with integer weights: the score of a bar is a sum over the voters of
  the largest crossed weight, it fits in 64 bits, and no order of the voters changes a decision.
\<close>

definition vote_parts ::
  "predicate_functions \<Rightarrow> vote_spec \<Rightarrow> feature_frame \<Rightarrow> string \<Rightarrow> context_bundle \<Rightarrow> input_result list list res" where
  "vote_parts pf s fr side bundle = mapR (\<lambda>v. mapR (vote_input_result pf s fr side bundle) (vt_inputs v)) (wv_voters s)"

section \<open>Results of lists\<close>

lemma mapR_projr: "mapR f xs = Inr ys \<Longrightarrow> ys = map (\<lambda>x. projr (f x)) xs \<and> (\<forall>x \<in> set xs. f x = Inr (projr (f x)))"
  by (induction xs arbitrary: ys) (auto simp: bindR_Inr)

lemma mapR_same_set:
  assumes "mapR f xs = Inr ys" "set xs' \<subseteq> set xs"
  shows "mapR f xs' = Inr (map (\<lambda>x. projr (f x)) xs')"
  by (rule mapR_ok) (use mapR_projr[OF assms(1)] assms(2) in auto)

section \<open>Weights of one bar\<close>

lemma crossed_weight_bounds:
  assumes "list_all step_ok steps"
  shows "0 \<le> crossed_weight steps crossed b \<and> crossed_weight steps crossed b \<le> WEIGHT_MAX * WEIGHT_SCALE"
proof -
  have "0 \<le> w \<Longrightarrow> w \<le> WEIGHT_MAX * WEIGHT_SCALE \<Longrightarrow> list_all (\<lambda>(s, m). step_ok s) ps \<Longrightarrow>
    0 \<le> foldl (\<lambda>w (s, m). case vs_weight s of None \<Rightarrow> w | Some v \<Rightarrow> if m ! b then max w v else w) w ps \<and>
    foldl (\<lambda>w (s, m). case vs_weight s of None \<Rightarrow> w | Some v \<Rightarrow> if m ! b then max w v else w) w ps \<le> WEIGHT_MAX * WEIGHT_SCALE"
    for w and ps :: "(vote_step \<times> bool list) list"
  proof (induction ps arbitrary: w)
    case (Cons p ps)
    obtain s m where p: "p = (s, m)" by (cases p)
    have s: "step_ok s" and rest: "list_all (\<lambda>(s, m). step_ok s) ps" using Cons.prems(3) p by auto
    define w' where "w' = (case vs_weight s of None \<Rightarrow> w | Some v \<Rightarrow> if m ! b then max w v else w)"
    have "0 \<le> w'" "w' \<le> WEIGHT_MAX * WEIGHT_SCALE"
      using s Cons.prems(1,2) by (auto simp: w'_def step_ok_def split: option.splits)
    then show ?case using Cons.IH[of w'] rest by (simp add: p w'_def)
  qed simp
  moreover have "list_all (\<lambda>(s, m). step_ok s) (zip steps crossed)"
    using assms by (auto simp: list_all_iff dest: set_zip_leftD)
  ultimately show ?thesis by (simp add: crossed_weight_def WEIGHT_MAX_def WEIGHT_SCALE_def)
qed

text \<open>The result of an input without extensions: integers of the frame's length within the bounds.\<close>

definition int_result :: "nat \<Rightarrow> input_result \<Rightarrow> bool" where
  "int_result n r \<longleftrightarrow> (\<exists>ns. ir_weight r = Scaled ns \<and> length ns = n \<and> (\<forall>x \<in> set ns. 0 \<le> x \<and> x \<le> WEIGHT_MAX * WEIGHT_SCALE)) \<and>
     length (ir_veto r) = n"

lemma vote_input_int:
  assumes "vote_input_result pf s fr side bundle i = Inr r" "input_ok i" "\<not> has_extensions i"
  shows "int_result (length (frame_time_ms fr)) r"
proof -
  have i: "list_all step_ok (vi_steps i)" "\<not> linear i" "vi_exponent i = None"
    using assms(2,3) by (auto simp: input_ok_def has_extensions_def)
  then show ?thesis using assms(1) crossed_weight_bounds[OF i(1)]
    by (auto simp: vote_input_result_def bindR_Inr Let_def int_result_def)
qed

lemma voter_weight_int_bounds:
  assumes "\<forall>r \<in> set rs. int_result n r"
  shows "length (voter_weight_int n rs) = n \<and> (\<forall>x \<in> set (voter_weight_int n rs). 0 \<le> x \<and> x \<le> WEIGHT_MAX * WEIGHT_SCALE)"
proof -
  have "\<forall>r \<in> set rs. int_result n r \<Longrightarrow> length acc = n \<Longrightarrow> \<forall>x \<in> set acc. 0 \<le> x \<and> x \<le> WEIGHT_MAX * WEIGHT_SCALE \<Longrightarrow>
    length (foldl (\<lambda>acc r. map2 max acc (scaled_ints (ir_weight r))) acc rs) = n \<and>
    (\<forall>x \<in> set (foldl (\<lambda>acc r. map2 max acc (scaled_ints (ir_weight r))) acc rs). 0 \<le> x \<and> x \<le> WEIGHT_MAX * WEIGHT_SCALE)" for acc
  proof (induction rs arbitrary: acc)
    case (Cons r rs)
    obtain ns where ns: "ir_weight r = Scaled ns" "length ns = n" "\<forall>x \<in> set ns. 0 \<le> x \<and> x \<le> WEIGHT_MAX * WEIGHT_SCALE"
      using Cons.prems(1) by (auto simp: int_result_def)
    have "\<forall>x \<in> set (map2 max acc ns). 0 \<le> x \<and> x \<le> WEIGHT_MAX * WEIGHT_SCALE"
      using Cons.prems(3) ns(3) by (auto simp: max_def) (meson set_zip_leftD set_zip_rightD)+
    moreover have "\<forall>r \<in> set rs. int_result n r" "length (map2 max acc ns) = n" using Cons.prems(1,2) ns(2) by simp_all
    moreover have "scaled_ints (ir_weight r) = ns" by (simp add: ns(1) scaled_ints_def)
    ultimately show ?case unfolding foldl_Cons by (intro Cons.IH) simp_all
  qed simp
  from this[of "replicate n 0"] assms show ?thesis by (simp add: voter_weight_int_def WEIGHT_MAX_def WEIGHT_SCALE_def)
qed

lemma not_floating: "\<not> floating s \<Longrightarrow> v \<in> set (wv_voters s) \<Longrightarrow> i \<in> set (vt_inputs v) \<Longrightarrow> \<not> has_extensions i"
  by (auto simp: floating_def spec_inputs_def list_ex_iff)

lemma vote_parts_int:
  assumes "vote_parts pf s fr side bundle = Inr parts" "vote_spec_ok s" "\<not> floating s"
  shows "length parts = length (wv_voters s) \<and> (\<forall>rs \<in> set parts. \<forall>r \<in> set rs. int_result (length (frame_time_ms fr)) r)"
proof (intro conjI ballI)
  show "length parts = length (wv_voters s)" using assms(1) mapR_length by (auto simp: vote_parts_def)
  fix rs r assume "rs \<in> set parts" "r \<in> set rs"
  then obtain v where v: "v \<in> set (wv_voters s)" "mapR (vote_input_result pf s fr side bundle) (vt_inputs v) = Inr rs"
    using mapR_set[OF assms(1)[unfolded vote_parts_def]] by blast
  then obtain i where i: "i \<in> set (vt_inputs v)" "vote_input_result pf s fr side bundle i = Inr r"
    using mapR_set \<open>r \<in> set rs\<close> by metis
  have "input_ok i" using assms(2) v(1) i(1) by (auto simp: vote_spec_ok_def voter_ok_def list_all_iff)
  then show "int_result (length (frame_time_ms fr)) r" by (rule vote_input_int[OF i(2)]) (rule not_floating[OF assms(3) v(1) i(1)])
qed

text \<open>The score of a bar lies between zero and the number of voters times the largest weight.\<close>

lemma vote_score_bounds:
  assumes "vote_parts pf s fr side bundle = Inr parts" "vote_spec_ok s" "\<not> floating s" "b < length (frame_time_ms fr)"
  shows "0 \<le> column_sum_int (map (voter_weight_int (length (frame_time_ms fr))) parts) b \<and>
    column_sum_int (map (voter_weight_int (length (frame_time_ms fr))) parts) b \<le> int (length (wv_voters s)) * (WEIGHT_MAX * WEIGHT_SCALE)"
proof -
  let ?n = "length (frame_time_ms fr)"
  note p = vote_parts_int[OF assms(1-3)]
  have "0 \<le> sum_list (map (\<lambda>w. w ! b) (map (voter_weight_int ?n) qs)) \<and>
    sum_list (map (\<lambda>w. w ! b) (map (voter_weight_int ?n) qs)) \<le> int (length qs) * (WEIGHT_MAX * WEIGHT_SCALE)"
    if "\<forall>rs \<in> set qs. \<forall>r \<in> set rs. int_result ?n r" for qs
    using that
  proof (induction qs)
    case (Cons rs qs)
    have "0 \<le> voter_weight_int ?n rs ! b \<and> voter_weight_int ?n rs ! b \<le> WEIGHT_MAX * WEIGHT_SCALE"
      using voter_weight_int_bounds[of rs ?n] Cons.prems assms(4) by simp
    then show ?case using Cons by (simp add: algebra_simps)
  qed simp
  from this[of parts] p show ?thesis by (simp add: column_sum_int_def)
qed

section \<open>Decisions\<close>

text \<open>What an integer vote decides on a bar, from the results of its voters.\<close>

definition int_decision :: "nat \<Rightarrow> int \<Rightarrow> input_result list multiset \<Rightarrow> nat \<Rightarrow> bool" where
  "int_decision n threshold parts b \<longleftrightarrow>
     (\<forall>rs \<in># parts. \<not> voter_veto n rs ! b) \<and> (\<Sum>rs \<in># parts. voter_weight_int n rs ! b) < threshold"

lemma int_vote_decision:
  assumes "vote_parts pf s fr side bundle = Inr parts" "\<not> floating s"
  shows "\<exists>tr. weighted_vote_compute pf s fr side bundle =
    Inr (map (int_decision (length (frame_time_ms fr)) (wv_threshold s) (mset parts)) [0 ..< length (frame_time_ms fr)], tr)"
proof -
  have d: "(\<not> (list_ex (\<lambda>v. v ! b) (map (voter_veto n) parts) \<or>
      map (\<lambda>x. wv_threshold s \<le> x) (map (column_sum_int (map (voter_weight_int n) parts)) [0 ..< n]) ! b)) =
      int_decision n (wv_threshold s) (mset parts) b" if "b < n" for b n
    using that by (simp add: int_decision_def column_sum_int_def list_ex_iff not_le sum_mset_sum_list[symmetric] comp_def)
  show ?thesis
    using assms d by (simp add: weighted_vote_compute_def vote_parts_def Let_def)
qed

lemma vote_result_same_voters:
  assumes "wv_instance_id s = wv_instance_id s'"
  shows "vote_input_result pf s fr side bundle = vote_input_result pf s' fr side bundle"
  by (rule ext) (simp add: vote_input_result_def assms)

lemma int_vote_order_free:
  assumes "weighted_vote_compute pf s fr side bundle = Inr (ok, tr)" "\<not> floating s"
    and "mset (wv_voters s) = mset (wv_voters s')" "wv_threshold s = wv_threshold s'" "wv_instance_id s = wv_instance_id s'"
  shows "\<exists>tr'. weighted_vote_compute pf s' fr side bundle = Inr (ok, tr')"
proof -
  obtain parts where p: "vote_parts pf s fr side bundle = Inr parts"
    using assms(1) by (auto simp: weighted_vote_compute_def vote_parts_def Let_def bindR_Inr)
  let ?f = "\<lambda>v. mapR (vote_input_result pf s fr side bundle) (vt_inputs v)"
  have sets: "set (wv_voters s) = set (wv_voters s')" using assms(3) by (metis set_mset_mset)
  have p': "vote_parts pf s' fr side bundle = Inr (map (\<lambda>v. projr (?f v)) (wv_voters s'))"
    using mapR_same_set[OF p[unfolded vote_parts_def]] sets
    by (simp add: vote_parts_def vote_result_same_voters[OF assms(5)])
  have parts: "parts = map (\<lambda>v. projr (?f v)) (wv_voters s)" using mapR_projr[OF p[unfolded vote_parts_def]] by simp
  have "mset parts = mset (map (\<lambda>v. projr (?f v)) (wv_voters s'))" unfolding parts by (simp only: mset_map assms(3))
  moreover have "\<not> floating s'" using assms(2) sets by (auto simp: floating_def spec_inputs_def list_ex_iff)
  ultimately show ?thesis using int_vote_decision[OF p assms(2)] int_vote_decision[OF p'] assms(1,4) by auto
qed

end
