(* ===== verification/SetupFacts.thy ===== *)
theory SetupFacts
  imports Setups BlockerFacts
begin

text \<open>
  Facts about the semantic setups: what an untouched anchor means bar by bar, the invariant of the
  bounce counter and the fate of a pending bounce, and evaluation on a frame cut short.
\<close>

section \<open>Untouched anchor\<close>

lemma untouched_prior_nth:
  assumes "i < length touch" "0 < lookback"
  shows "untouched_prior lookback touch ! i \<longleftrightarrow> lookback \<le> i \<and> (\<forall>j. i - lookback \<le> j \<and> j < i \<longrightarrow> \<not> touch ! j)"
proof -
  have len: "length (shifted touch) = length touch" by (simp add: shifted_def)
  have nth: "shifted touch ! j \<longleftrightarrow> 0 < j \<and> touch ! (j - 1)" if "j \<le> i" for j
    using that assms(1) by (simp add: shifted_def nth_Cons')
  have "rolling_any lookback (shifted touch) ! i \<longleftrightarrow> (\<exists>j. Suc i - lookback \<le> j \<and> j \<le> i \<and> 0 < j \<and> touch ! (j - 1))"
    using assms(1) len nth by (auto simp: rolling_any_nth)
  also have "\<dots> \<longleftrightarrow> (\<exists>j. i - lookback \<le> j \<and> j < i \<and> touch ! j)" if "lookback \<le> i"
  proof
    assume "\<exists>j. Suc i - lookback \<le> j \<and> j \<le> i \<and> 0 < j \<and> touch ! (j - 1)"
    then obtain j where "Suc i - lookback \<le> j" "j \<le> i" "0 < j" "touch ! (j - 1)" by blast
    then show "\<exists>j. i - lookback \<le> j \<and> j < i \<and> touch ! j" using that by (intro exI[of _ "j - 1"]) auto
  next
    assume "\<exists>j. i - lookback \<le> j \<and> j < i \<and> touch ! j"
    then obtain j where "i - lookback \<le> j" "j < i" "touch ! j" by blast
    then show "\<exists>j. Suc i - lookback \<le> j \<and> j \<le> i \<and> 0 < j \<and> touch ! (j - 1)" using that by (intro exI[of _ "Suc j"]) auto
  qed
  finally show ?thesis using assms(1) by (auto simp: untouched_prior_def)
qed

lemma untouched_prior_length [simp]: "length (untouched_prior k touch) = length touch"
  by (simp add: untouched_prior_def)

lemma untouched_prior_take: "untouched_prior k (take n touch) = take n (untouched_prior k touch)"
proof -
  have "shifted (take n touch) = take n (shifted touch)" by (rule list_eq_nthI) (auto simp: shifted_def nth_Cons')
  then show ?thesis by (intro list_eq_nthI) (auto simp: untouched_prior_def rolling_take)
qed

section \<open>Bounce counter\<close>

definition bounce_params_ok :: "bounce_params \<Rightarrow> bool" where
  "bounce_params_ok p \<longleftrightarrow> 0 < bp_max_bounces p \<and> 0 < bp_touch_lookback p \<and> 0 < bp_start_confirm p \<and> 0 < bp_break_confirm p"

lemma bounce_params_valid: "ema_bounce_counter_params params = Inr (p, mode) \<Longrightarrow> bounce_params_ok p"
  by (auto simp: ema_bounce_counter_params_def bindR_Inr raise_if_Inr Let_def bounce_params_ok_def)

text \<open>Before the next bar: a pending bounce lies inside an active trend and its window is not over.\<close>

definition bounce_inv :: "bounce_params \<Rightarrow> bounce_state \<Rightarrow> bool" where
  "bounce_inv p s \<longleftrightarrow>
     0 \<le> bs_completed s \<and> bs_completed s \<le> bp_max_bounces p \<and> 0 \<le> bs_trend_run s \<and> 0 \<le> bs_break_run s \<and>
     (\<not> bs_trend_active s \<longrightarrow> \<not> bs_pending s \<and> bs_completed s = 0 \<and> bs_trend_run s < bp_start_confirm p) \<and>
     (bs_trend_active s \<longrightarrow> bs_break_run s < bp_break_confirm p) \<and>
     (bs_pending s \<longrightarrow> bs_completed s < bp_max_bounces p \<and> int (bs_index s) \<le> bs_pending_end s + 1 \<and>
        bs_pending_end s < int (bs_index s) + bp_touch_lookback p - 1) \<and>
     (\<not> bs_pending s \<longrightarrow> bs_pending_end s = - 1)"

lemmas bounce_defs = settle_bounce_def trend_step_def reset_bounces_def start_bounce_def bounce_starts_def

lemma bounce_inv_start: "bounce_params_ok p \<Longrightarrow> bounce_inv p bounce_start"
  by (simp add: bounce_inv_def bounce_start_def bounce_params_ok_def)

text \<open>After the pending bounce is settled and the trend updated, the state within the bar.\<close>

definition bar_inv :: "bounce_params \<Rightarrow> bounce_state \<Rightarrow> bool" where
  "bar_inv p s \<longleftrightarrow>
     0 \<le> bs_completed s \<and> bs_completed s \<le> bp_max_bounces p \<and> 0 \<le> bs_trend_run s \<and> 0 \<le> bs_break_run s \<and>
     (\<not> bs_trend_active s \<longrightarrow> \<not> bs_pending s \<and> bs_completed s = 0 \<and> bs_trend_run s < bp_start_confirm p) \<and>
     (bs_trend_active s \<longrightarrow> bs_break_run s < bp_break_confirm p) \<and>
     (bs_pending s \<longrightarrow> bs_completed s < bp_max_bounces p \<and> int (bs_index s) \<le> bs_pending_end s \<and>
        bs_pending_end s < int (bs_index s) + bp_touch_lookback p) \<and>
     (\<not> bs_pending s \<longrightarrow> bs_pending_end s = - 1)"

lemma settle_inv: "bounce_inv p s \<Longrightarrow> bar_inv p (settle_bounce s)"
  by (auto simp: bounce_inv_def bar_inv_def settle_bounce_def)

lemma trend_inv: "bounce_params_ok p \<Longrightarrow> bar_inv p s \<Longrightarrow> bar_inv p (fst (trend_step p raw s))"
  by (auto simp: bar_inv_def trend_step_def reset_bounces_def bounce_params_ok_def)

lemma start_inv: "bounce_params_ok p \<Longrightarrow> bar_inv p s \<Longrightarrow> bar_inv p (start_bounce p b s)"
  by (auto simp: bar_inv_def start_bounce_def bounce_starts_def bounce_params_ok_def)

lemma next_bar_inv: "bar_inv p s \<Longrightarrow> bounce_inv p (s\<lparr>bs_index := Suc (bs_index s)\<rparr>)"
  by (auto simp: bounce_inv_def bar_inv_def)

lemma bounce_step_fst:
  "fst (bounce_step p s b) =
     (let t = start_bounce p b (fst (trend_step p (bb_raw_trend b) (settle_bounce s))) in t\<lparr>bs_index := Suc (bs_index t)\<rparr>)"
  by (simp add: bounce_step_def Let_def)

lemma bounce_step_inv: "bounce_params_ok p \<Longrightarrow> bounce_inv p s \<Longrightarrow> bounce_inv p (fst (bounce_step p s b))"
  by (simp add: bounce_step_fst Let_def next_bar_inv start_inv trend_inv settle_inv)

lemma bounce_step_index: "bs_index (fst (bounce_step p s b)) = Suc (bs_index s)"
  by (simp add: bounce_step_fst Let_def bounce_defs)

definition bounce_run_inv :: "bounce_params \<Rightarrow> bounce_bar list \<Rightarrow> bounce_state \<Rightarrow> bool" where
  "bounce_run_inv p bs s \<longleftrightarrow> bs_index s = length bs \<and> (bounce_params_ok p \<longrightarrow> bounce_inv p s)"

interpretation bounces: bar_machine "bounce_step p" bounce_start "bounce_run_inv p" for p
proof unfold_locales
  show "bounce_run_inv p [] bounce_start" by (simp add: bounce_run_inv_def bounce_inv_start) (simp add: bounce_start_def)
  show "bounce_run_inv p (bs @ [b]) (fst (bounce_step p s b))" if "bounce_run_inv p bs s" for bs b s
    using that by (simp add: bounce_run_inv_def bounce_step_inv bounce_step_index)
qed

text \<open>What every row satisfies.\<close>

definition bounce_row_ok :: "bounce_params \<Rightarrow> nat \<Rightarrow> bounce_row \<Rightarrow> bool" where
  "bounce_row_ok p i r \<longleftrightarrow>
     0 \<le> br_completed_bounce_count r \<and> br_effective_bounce_number r \<le> bp_max_bounces p \<and>
     (br_setup_allowed r \<longleftrightarrow> br_trend_active r \<and> br_completed_bounce_count r < bp_max_bounces p) \<and>
     (br_pending_bounce r \<longrightarrow> br_trend_active r \<and> br_in_touch_lookback r \<and> 1 \<le> br_touch_lookback_left r \<and>
        br_touch_lookback_left r \<le> bp_touch_lookback p) \<and>
     (br_pending_end r \<longleftrightarrow> br_pending_bounce r \<and> br_touch_lookback_left r = 1)"

lemma bounce_row_bar: "bar_inv p s \<Longrightarrow> bounce_row_ok p i (bounce_row_of p b st br op s)"
  by (auto simp: bounce_row_ok_def bounce_row_of_def bar_inv_def Let_def)

lemma bounce_step_row:
  "bounce_params_ok p \<Longrightarrow> bounce_inv p s \<Longrightarrow> bounce_row_ok p i (snd (bounce_step p s b))"
  by (simp add: bounce_step_def Let_def bounce_row_bar start_inv trend_inv settle_inv)

lemma bounce_rows_ok:
  assumes "bounce_params_ok p" "i < length bs"
  shows "bounce_row_ok p i (snd (scan (bounce_step p) bounce_start bs) ! i)"
  using bounces.inv_before[of p i bs] assms by (simp add: scan_nth bounce_step_row bounce_run_inv_def)

text \<open>A pending bounce waits for the end of its window, unless the trend breaks.\<close>

definition waiting :: "int \<Rightarrow> int \<Rightarrow> bounce_state \<Rightarrow> bool" where
  "waiting c e s \<longleftrightarrow> bs_trend_active s \<and> bs_pending s \<and> bs_completed s = c \<and> bs_pending_end s = e"

lemma waiting_step:
  assumes "waiting c e s" "int (bs_index s) \<le> e" "\<not> br_trend_break_event (snd (bounce_step p s b))"
  shows "waiting c e (fst (bounce_step p s b))"
  using assms by (auto simp: waiting_def bounce_step_def bounce_row_of_def Let_def bounce_defs split: if_splits)

lemma waiting_ends:
  assumes "waiting c e s" "e < int (bs_index s)" "\<not> br_trend_break_event (snd (bounce_step p s b))"
  shows "br_completed_bounce_count (snd (bounce_step p s b)) = c + 1"
  using assms by (auto simp: waiting_def bounce_step_def bounce_row_of_def Let_def bounce_defs split: if_splits)

lemma waiting_begins:
  assumes "br_pending_start (snd (bounce_step p s b))"
  shows "waiting (br_completed_bounce_count (snd (bounce_step p s b))) (int (bs_index s) + bp_touch_lookback p - 1) (fst (bounce_step p s b))"
  using assms by (auto simp: waiting_def bounce_step_def bounce_row_of_def Let_def bounce_defs split: if_splits)

lemma pending_bounce_completes:
  fixes p bs
  defines "rows \<equiv> snd (scan (bounce_step p) bounce_start bs)"
  assumes ok: "bounce_params_ok p" and len: "i + nat (bp_touch_lookback p) < length bs" and st: "br_pending_start (rows ! i)"
    and no: "\<And>k. i < k \<Longrightarrow> k \<le> i + nat (bp_touch_lookback p) \<Longrightarrow> \<not> br_trend_break_event (rows ! k)"
  shows "br_completed_bounce_count (rows ! (i + nat (bp_touch_lookback p))) = br_completed_bounce_count (rows ! i) + 1"
proof -
  define state where "state k = fst (scan (bounce_step p) bounce_start (take k bs))" for k
  let ?L = "nat (bp_touch_lookback p)" and ?c = "br_completed_bounce_count (rows ! i)"
  have L: "1 \<le> ?L" "int ?L = bp_touch_lookback p" using ok by (auto simp: bounce_params_ok_def)
  have idx: "bs_index (state k) = k" if "k \<le> length bs" for k
    using bounces.inv_before[of p k bs] that by (simp add: bounce_run_inv_def state_def min_absorb2)
  have row: "rows ! k = snd (bounce_step p (state k) (bs ! k))" if "k < length bs" for k
    using that by (simp add: rows_def state_def scan_nth)
  have nxt: "state (Suc k) = fst (bounce_step p (state k) (bs ! k))" if "k < length bs" for k
    using that by (simp add: state_def take_Suc_conv_app_nth scan_snoc)
  have wait: "waiting ?c (int i + bp_touch_lookback p - 1) (state k)" if "i < k" "k \<le> i + ?L" for k
    using that
  proof (induction k)
    case (Suc k)
    have k: "k < length bs" using Suc.prems len by simp
    show ?case
    proof (cases "k = i")
      case True
      then show ?thesis using waiting_begins[of p "state i" "bs ! i"] st row[OF k] nxt[OF k] idx[of i] k by simp
    next
      case False
      then have "i < k" "k \<le> i + ?L" using Suc.prems by simp_all
      then have w: "waiting ?c (int i + bp_touch_lookback p - 1) (state k)" by (rule Suc.IH)
      have "int (bs_index (state k)) \<le> int i + bp_touch_lookback p - 1" using idx[of k] k Suc.prems L by simp
      then show ?thesis unfolding nxt[OF k] using waiting_step[OF w] no[of k] row[OF k] \<open>i < k\<close> Suc.prems by simp
    qed
  qed simp
  have w: "waiting ?c (int i + bp_touch_lookback p - 1) (state (i + ?L))" using wait[of "i + ?L"] L(1) by simp
  show ?thesis using waiting_ends[OF w, of p "bs ! (i + ?L)"] idx[of "i + ?L"] row[of "i + ?L"] no[of "i + ?L"] L len by simp
qed

section \<open>Frames cut short\<close>

lemma zip3_with_cut: "zip3_with f xs ys zs = Inr ws \<Longrightarrow> zip3_with f (take n xs) (take n ys) (take n zs) = Inr (take n ws)"
  by (auto simp: zip3_with_Inr take_zip take_map)

lemma untouched_anchor_cut:
  assumes "untouched_anchor fr oid params side = Inr (ok, tr)"
  shows "\<exists>tr'. untouched_anchor (cut_frame n fr) oid params side = Inr (take n ok, tr')"
proof -
  obtain k m a c l h touch so armed where g: "untouched_anchor_params params = Inr (k, m)" "float_series fr oid = Inr a"
    "setup_market fr bar_close = Inr c" "setup_market fr bar_low = Inr l" "setup_market fr bar_high = Inr h"
    "zip3_with (\<lambda>l h a. if side = ''long'' then fle l a else fge h a) l h a = Inr touch"
    "zip_with (\<lambda>c a. if side = ''long'' then fgt c a else flt c a) c a = Inr so"
    "zip3_with (\<lambda>ok u t. ok \<and> u \<and> \<not> t) so (untouched_prior (nat k) touch) touch = Inr armed"
    "zip_with (\<or>) armed (rolling_any (nat m) (map2 (\<and>) touch (untouched_prior (nat k) touch))) = Inr ok"
    using assms unfolding untouched_anchor_def by (auto simp only: bindR_Inr Let_def prod.case split_paired_Ex sum.inject prod.inject)
  have ft: "map2 (\<and>) (take n touch) (untouched_prior (nat k) (take n touch)) = take n (map2 (\<and>) touch (untouched_prior (nat k) touch))"
    by (simp add: untouched_prior_take take_zip take_map)
  have z: "zip3_with (\<lambda>ok u t. ok \<and> u \<and> \<not> t) (take n so) (untouched_prior (nat k) (take n touch)) (take n touch) = Inr (take n armed)"
    using zip3_with_cut[OF g(8), of n] by (simp add: untouched_prior_take)
  have f: "zip_with (\<or>) (take n armed) (rolling_any (nat m) (take n (map2 (\<and>) touch (untouched_prior (nat k) touch)))) = Inr (take n ok)"
    using zip_with_cut[OF g(9), of n] by (simp only: rolling_take)
  show ?thesis unfolding untouched_anchor_def
    by (simp only: g(1) float_series_cut[OF g(2)] market_values_cut[OF g(3)] market_values_cut[OF g(4)] market_values_cut[OF g(5)]
        zip3_with_cut[OF g(6)] zip_with_cut[OF g(7)] bindR_simps prod.case Let_def ft z f) simp
qed

lemma bounce_bars_take:
  "bounce_bars (take n raw) (take n armed) (take n touch) (take n sides) = take n (bounce_bars raw armed touch sides)"
  by (simp add: bounce_bars_def take_zip take_map)

lemma bounce_counter_cut:
  "ema_bounce_counter fr cols params side = Inr (ok, tr) \<Longrightarrow>
     \<exists>tr'. ema_bounce_counter (cut_frame n fr) cols params side = Inr (take n ok, tr')"
  by (auto simp: ema_bounce_counter_def bindR_Inr Let_def cut_rules[where n = n] zip3_with_cut[where n = n]
      bounce_bars_take scan_take take_map)

lemma recent_width_take: "i < n \<Longrightarrow> recent_width k (take n w) i = recent_width k w i"
  by (simp add: recent_width_def trailing_take)

lemma width_prefix_cut:
  "anchor_stack_width_prefix f s a k = Inr (w, r) \<Longrightarrow> anchor_stack_width_prefix (take n f) (take n s) (take n a) k = Inr (take n w, take n r)"
  by (auto simp: anchor_stack_width_prefix_def bindR_Inr zip3_with_cut[where n = n] recent_width_take intro!: list_eq_nthI)

lemma width_cut:
  assumes "anchor_stack_width fr cols params = Inr (ok, tr)"
  shows "\<exists>tr'. anchor_stack_width (cut_frame n fr) cols params = Inr (take n ok, tr')"
proof -
  obtain mc mr k f an s a w r where g: "anchor_stack_width_params params = Inr (mc, mr, k)" "column_floats fr cols ''fast'' = Inr f"
    "column_floats fr cols ''anchor'' = Inr an" "column_floats fr cols ''slow'' = Inr s" "column_floats fr cols ''atr'' = Inr a"
    "anchor_stack_width_prefix f s a (nat k) = Inr (w, r)" "\<not> length an < length w"
    and ok: "ok = map fst (map (\<lambda>i. width_bar mc mr (f ! i) (an ! i) (s ! i) (a ! i) (w ! i) (r ! i)) [0 ..< length w])"
    using assms by (auto simp: anchor_stack_width_def bindR_Inr raise_if_Inr Let_def)
  have lens: "length f = length w" "length s = length w" "length a = length w" "length r = length w"
    using g(6) by (auto simp: anchor_stack_width_prefix_def bindR_Inr zip3_with_Inr)
  have eq: "map fst (map (\<lambda>i. width_bar mc mr (take n f ! i) (take n an ! i) (take n s ! i) (take n a ! i) (take n w ! i) (take n r ! i))
      [0 ..< length (take n w)]) = take n ok"
    using lens g(7) by (intro list_eq_nthI) (auto simp: ok)
  have "\<not> length (take n an) < length (take n w)" using g(7) by auto
  then show ?thesis unfolding eq[symmetric]
    by (simp add: anchor_stack_width_def g(1) column_floats_cut[OF g(2)] column_floats_cut[OF g(3)] column_floats_cut[OF g(4)]
        column_floats_cut[OF g(5)] width_prefix_cut[OF g(6)] Let_def del: length_take map_map)
qed

lemma band_cut:
  "anchor_stack_width_band fr cols params = Inr (ok, tr) \<Longrightarrow>
     \<exists>tr'. anchor_stack_width_band (cut_frame n fr) cols params = Inr (take n ok, tr')"
  by (auto simp: anchor_stack_width_band_def band_width_def bindR_Inr Let_def cut_rules[where n = n] zip3_with_cut[where n = n] take_map)

lemma semantic_setup_cut:
  assumes "semantic_setup cid inst params fr plan side = Inr (ok, tr)"
  shows "\<exists>tr'. semantic_setup cid inst params (cut_frame n fr) plan side = Inr (take n ok, tr')"
proof (cases "cid = ''untouched_anchor_setup''")
  case True
  then obtain oid where "column_at (anchor_columns plan) ''anchor'' = Inr oid" "untouched_anchor fr oid params side = Inr (ok, tr)"
    using assms by (auto simp: semantic_setup_def bindR_Inr)
  then show ?thesis using True untouched_anchor_cut by (simp add: semantic_setup_def)
next
  case False
  then obtain cols where cols: "setup_columns plan inst = Inr cols"
    and r: "(if cid = ''ema_bounce_counter_setup'' then ema_bounce_counter fr cols params side
        else if cid = WIDTH_BAND_SETUP then anchor_stack_width_band fr cols params
        else anchor_stack_width fr cols params) = Inr (ok, tr)"
    using assms by (auto simp only: semantic_setup_def bindR_Inr if_False sum.inject)
  have "\<exists>tr'. (if cid = ''ema_bounce_counter_setup'' then ema_bounce_counter (cut_frame n fr) cols params side
        else if cid = WIDTH_BAND_SETUP then anchor_stack_width_band (cut_frame n fr) cols params
        else anchor_stack_width (cut_frame n fr) cols params) = Inr (take n ok, tr')"
    using r by (cases "cid = ''ema_bounce_counter_setup''"; cases "cid = WIDTH_BAND_SETUP")
      (simp_all add: bounce_counter_cut band_cut width_cut)
  then show ?thesis using False cols by (simp add: semantic_setup_def)
qed

end
