(* ===== verification/SetupCausality.thy ===== *)
theory SetupCausality
  imports VoteFacts SetupFacts
begin

text \<open>
  Composite setups, weighted votes and the setups of a side on a frame cut short.  The predicate
  layer, a parameter, must itself be causal.
\<close>

definition causal_predicates :: "predicate_functions \<Rightarrow> bool" where
  "causal_predicates pf \<longleftrightarrow>
     (\<forall>fr b p path side n m. pf_mask pf fr b p path side = Inr m \<longrightarrow>
        pf_mask pf (cut_frame n fr) (cut_bundle n b) p path side = Inr (take n m)) \<and>
     (\<forall>fr b p path side n v. pf_value pf fr b p path side = Inr v \<longrightarrow>
        pf_value pf (cut_frame n fr) (cut_bundle n b) p path side = Inr (map_option (take n) v)) \<and>
     (\<forall>fr b p path side n v. pf_range pf fr b p path side = Inr v \<longrightarrow>
        pf_range pf (cut_frame n fr) (cut_bundle n b) p path side = Inr (take n v))"

lemma causal_predicatesD:
  assumes "causal_predicates pf"
  shows "pf_mask pf fr b p path side = Inr m \<Longrightarrow> pf_mask pf (cut_frame n fr) (cut_bundle n b) p path side = Inr (take n m)"
    and "pf_value pf fr b p path side = Inr v \<Longrightarrow> pf_value pf (cut_frame n fr) (cut_bundle n b) p path side = Inr (map_option (take n) v)"
    and "pf_range pf fr b p path side = Inr w \<Longrightarrow> pf_range pf (cut_frame n fr) (cut_bundle n b) p path side = Inr (take n w)"
  using assms by (simp_all add: causal_predicates_def)

lemma cut_frame_times [simp]: "length (frame_time_ms (cut_frame n fr)) = min n (length (frame_time_ms fr))"
  by (simp add: cut_frame_def min.commute)

lemma upt_cut: "[0 ..< min n k] = take n [0 ..< k]"
  by (rule list_eq_nthI) auto

lemma map_upt_cut: "(\<And>i. i < n \<Longrightarrow> i < k \<Longrightarrow> f i = g i) \<Longrightarrow> map f [0 ..< min n k] = take n (map g [0 ..< k])"
  by (rule list_eq_nthI) auto

lemma map2_cut: "map2 f (take n xs) (take n ys) = take n (map2 f xs ys)"
  by (simp add: take_zip take_map)

section \<open>Composites\<close>

lemma composite_child_cut:
  assumes "causal_predicates pf" "composite_child_result pf fr plan b side spec c = Inr (m, v)"
  shows "composite_child_result pf (cut_frame n fr) plan (cut_bundle n b) side spec c =
    Inr (take n m, map_option (take n) v)"
proof (cases "child_predicate c")
  case None
  then obtain it cid inst params tr where g: "child_setup_item spec c = Inr it" "setup_head it side = Inr (cid, inst, params)"
    "semantic_setup cid inst params fr plan side = Inr (m, tr)" "length m = length (frame_time_ms fr)" "v = None"
    using assms(2) by (auto simp: composite_child_result_def Let_def bindR_Inr raise_if_Inr)
  obtain tr' where "semantic_setup cid inst params (cut_frame n fr) plan side = Inr (take n m, tr')"
    using semantic_setup_cut[OF g(3)] by blast
  then show ?thesis using None g by (simp add: composite_child_result_def min.commute)
next
  case (Some p)
  let ?path = "''setup['' @ instance_id spec @ ''].'' @ child_id c"
  obtain u where g: "pf_mask pf fr b p ?path side = Inr m" "length m = length (frame_time_ms fr)"
    "pf_value pf fr b p ?path side = Inr u" "v = map_option (map finite_option) u"
    using assms(2) Some by (auto simp: composite_child_result_def Let_def bindR_Inr raise_if_Inr)
  show ?thesis using Some g(2,4) causal_predicatesD(1)[OF assms(1) g(1), of n] causal_predicatesD(2)[OF assms(1) g(3), of n]
    by (simp add: composite_child_result_def min.commute option.map_comp comp_def take_map)
qed

lemma mask_of_cut: "mask_of arrays ref = Inr m \<Longrightarrow> mask_of (map (map_prod id (take n)) arrays) ref = Inr (take n m)"
  by (auto simp: mask_of_def map_of_cut split: option.splits)

lemma list_all_cut: "i < n \<Longrightarrow> list_all (\<lambda>m. m ! i) (map (take n) ms) = list_all (\<lambda>m. m ! i) ms"
  by (simp add: list_all_iff)

lemma count_at_cut: "i < n \<Longrightarrow> count_at (map (take n) ms) i = count_at ms i"
  by (induction ms) (simp_all add: count_at_def)

lemma path_result_cut:
  assumes "composite_path_result arrays k p = Inr (m, c)"
  shows "composite_path_result (map (map_prod id (take n)) arrays) (min n k) p = Inr (take n m, map_option (take n) c)"
proof -
  obtain req where r: "mapR (mask_of arrays) (require p) = Inr req" using assms by (auto simp: composite_path_result_def bindR_Inr)
  have r': "mapR (mask_of (map (map_prod id (take n)) arrays)) (require p) = Inr (map (take n) req)"
    by (rule mapR_cut[OF r]) (rule mask_of_cut)
  have base: "map (\<lambda>i. list_all (\<lambda>m. m ! i) (map (take n) req)) [0 ..< min n k] = take n (map (\<lambda>i. list_all (\<lambda>m. m ! i) req) [0 ..< k])"
    by (rule map_upt_cut) (rule list_all_cut)
  show ?thesis
  proof (cases "at_least_k p")
    case None
    then show ?thesis using assms r r' base by (simp add: composite_path_result_def Let_def)
  next
    case (Some l)
    then obtain ofs where o: "mapR (mask_of arrays) (at_least_of p) = Inr ofs"
      using assms r by (auto simp: composite_path_result_def bindR_Inr Let_def)
    have o': "mapR (mask_of (map (map_prod id (take n)) arrays)) (at_least_of p) = Inr (map (take n) ofs)"
      by (rule mapR_cut[OF o]) (rule mask_of_cut)
    have counts: "map (count_at (map (take n) ofs)) [0 ..< min n k] = take n (map (count_at ofs) [0 ..< k])"
      by (rule map_upt_cut) (rule count_at_cut)
    show ?thesis using assms Some r r' o o'
      by (auto simp: composite_path_result_def Let_def base counts map2_cut)
  qed
qed

lemma find_cong_list: "(\<And>x. x \<in> set xs \<Longrightarrow> P x = Q x) \<Longrightarrow> find P xs = find Q xs"
  by (induction xs) auto

lemma first_true_cut: "i < n \<Longrightarrow> first_true (map (take n) ms) i = first_true ms i"
  unfolding first_true_def length_map by (subst find_cong_list[where Q = "\<lambda>j. ms ! j ! i"]) auto

lemma composite_core_cut:
  assumes "causal_predicates pf" "composite_core_of pf spec fr plan b side = Inr core"
  shows "\<exists>core'. composite_core_of pf spec (cut_frame n fr) plan (cut_bundle n b) side = Inr core' \<and>
    core_local core' = take n (core_local core) \<and> core_winning core' = take n (core_winning core)"
proof -
  let ?k = "length (frame_time_ms fr)"
  let ?cut = "\<lambda>(m, v). (take n m, map_option (take n) v)"
  obtain cs where c: "mapR (composite_child_result pf fr plan b side spec) (spec_children spec) = Inr cs"
    using assms(2) by (auto simp: composite_core_of_def bindR_Inr)
  define arrays where "arrays = zip (map child_id (spec_children spec)) (map fst cs)"
  obtain ps where p: "mapR (composite_path_result arrays ?k) (spec_paths spec) = Inr ps"
    and core: "core_local core = map (\<lambda>i. list_ex (\<lambda>p. fst p ! i) ps) [0 ..< ?k]"
      "core_winning core = map (first_true (map fst ps)) [0 ..< ?k]"
    using assms(2) c by (auto simp: composite_core_of_def bindR_Inr Let_def arrays_def)
  have c': "mapR (composite_child_result pf (cut_frame n fr) plan (cut_bundle n b) side spec) (spec_children spec) = Inr (map ?cut cs)"
    by (rule mapR_cut[OF c]) (use composite_child_cut[OF assms(1)] in force)
  have arrays': "zip (map child_id (spec_children spec)) (map fst (map ?cut cs)) = map (map_prod id (take n)) arrays"
  proof -
    have "map fst (map ?cut cs) = map (take n) (map fst cs)" by auto
    then show ?thesis by (simp only: arrays_def zip_map2) (simp add: map_prod_def id_def)
  qed
  have p': "mapR (composite_path_result (map (map_prod id (take n)) arrays) (min n ?k)) (spec_paths spec) = Inr (map ?cut ps)"
    by (rule mapR_cut[OF p]) (use path_result_cut in force)
  have fsts: "map fst (map ?cut ps) = map (take n) (map fst ps)" by auto
  have l: "map (\<lambda>i. list_ex (\<lambda>p. fst p ! i) (map ?cut ps)) [0 ..< min n ?k] = take n (core_local core)"
  proof -
    have "list_ex (\<lambda>p. fst p ! i) (map ?cut xs) = list_ex (\<lambda>p. fst p ! i) xs" if "i < n" for i xs
      using that by (induction xs) (auto simp: split_beta)
    then show ?thesis unfolding core by (intro map_upt_cut)
  qed
  have w: "map (first_true (map fst (map ?cut ps))) [0 ..< min n ?k] = take n (core_winning core)"
    unfolding core fsts by (rule map_upt_cut) (rule first_true_cut)
  show ?thesis unfolding composite_core_of_def c' bindR_simps Let_def arrays' cut_frame_times p'
    by (simp only: sum.inject ex_simps simp_thms l w composite_core.simps)
qed

section \<open>Votes\<close>

definition cut_weights :: "nat \<Rightarrow> weights \<Rightarrow> weights" where
  "cut_weights n w = (case w of Scaled ns \<Rightarrow> Scaled (take n ns) | Real xs \<Rightarrow> Real (take n xs))"

definition cut_result :: "nat \<Rightarrow> input_result \<Rightarrow> input_result" where
  "cut_result n r = \<lparr>ir_value = cut_values n (ir_value r), ir_level_value = take n (ir_level_value r),
     ir_weight = cut_weights n (ir_weight r), ir_veto = take n (ir_veto r)\<rparr>"

lemma count_masks_cut:
  assumes "\<And>p pa m. f p pa = Inr m \<Longrightarrow> g p pa = Inr (take n m)"
  shows "count_masks f path k i ps = Inr ms \<Longrightarrow> count_masks g path (min n k) i ps = Inr (map (take n) ms)"
  by (induction ps arbitrary: i ms) (auto simp: bindR_Inr raise_if_Inr assms min.commute)

lemma crossings_cut:
  assumes "causal_predicates pf" "vote_input_crossings pf i path fr side b = Inr (v, crossed, vs)"
  shows "vote_input_crossings pf i path (cut_frame n fr) side (cut_bundle n b) =
    Inr (cut_values n v, map (take n) crossed, map_option (take n) vs)"
proof (cases "vi_operand_predicate i")
  case None
  let ?k = "length (frame_time_ms fr)"
  obtain ms where m: "count_masks (\<lambda>p pa. pf_mask pf fr b p pa side) path ?k 0 (vi_count_of i) = Inr ms"
    and out: "v = Ints (map (count_at ms) [0 ..< ?k])" "vs = None"
      "crossed = map (\<lambda>s. map (\<lambda>c. count_crosses c s) (map (count_at ms) [0 ..< ?k])) (vi_steps i)"
    using assms(2) None by (auto simp: vote_input_crossings_def bindR_Inr Let_def)
  have m': "count_masks (\<lambda>p pa. pf_mask pf (cut_frame n fr) (cut_bundle n b) p pa side) path (min n ?k) 0 (vi_count_of i) = Inr (map (take n) ms)"
    by (rule count_masks_cut[OF _ m]) (rule causal_predicatesD(1)[OF assms(1)])
  have counts: "map (count_at (map (take n) ms)) [0 ..< min n ?k] = take n (map (count_at ms) [0 ..< ?k])"
    by (rule map_upt_cut) (rule count_at_cut)
  show ?thesis unfolding vote_input_crossings_def None option.case Let_def cut_frame_times m' bindR_simps counts
    by (simp add: out take_map)
next
  case (Some p)
  obtain w where w: "pf_range pf fr b p path side = Inr w" "v = OptFloats (map finite_option w)" "vs = Some w"
    "crossed = (if linear i then [] else map (\<lambda>s. map (\<lambda>x. crosses i x s) w) (vi_steps i))"
    using assms(2) Some by (auto simp: vote_input_crossings_def bindR_Inr)
  show ?thesis using causal_predicatesD(3)[OF assms(1) w(1), of n] Some
    by (simp add: vote_input_crossings_def w take_map)
qed

lemma crossed_weight_cut:
  assumes "c < n"
  shows "crossed_weight steps (map (take n) crossed) c = crossed_weight steps crossed c"
proof -
  have "foldl (\<lambda>w (s, m). case vs_weight s of None \<Rightarrow> w | Some v \<Rightarrow> if m ! c then max w v else w) w (zip steps (map (take n) crossed)) =
    foldl (\<lambda>w (s, m). case vs_weight s of None \<Rightarrow> w | Some v \<Rightarrow> if m ! c then max w v else w) w (zip steps crossed)" for w
  proof (induction steps arbitrary: crossed w)
    case (Cons s steps)
    then show ?case using assms by (cases crossed; cases "vs_weight s") simp_all
  qed simp
  then show ?thesis by (simp add: crossed_weight_def)
qed

lemma crossed_veto_cut: "c < n \<Longrightarrow> crossed_veto steps (map (take n) crossed) c = crossed_veto steps crossed c"
proof (induction steps arbitrary: crossed)
  case (Cons s steps)
  then show ?case by (cases crossed) (auto simp: crossed_veto_def)
qed (simp add: crossed_veto_def)

lemma as_floats_cut: "as_floats (cut_weights n w) = take n (as_floats w)"
  by (cases w) (simp_all add: as_floats_def cut_weights_def scaled_floats_def take_map)

lemma scaled_ints_cut: "scaled_ints (cut_weights n w) = take n (scaled_ints w)"
  by (cases w) (simp_all add: scaled_ints_def cut_weights_def)

lemma vote_input_cut:
  assumes "causal_predicates pf" "vote_input_result pf s fr side b i = Inr r"
  shows "vote_input_result pf s (cut_frame n fr) side (cut_bundle n b) i = Inr (cut_result n r)"
proof -
  let ?k = "length (frame_time_ms fr)"
  obtain v crossed vs where c: "vote_input_crossings pf i (''setup['' @ wv_instance_id s @ ''].'' @ vi_input_id i) fr side b = Inr (v, crossed, vs)"
    using assms(2) by (auto simp: vote_input_result_def bindR_Inr Let_def)
  define plain where "plain = (if linear i then Real (linear_ladder pf i (case vs of None \<Rightarrow> [] | Some xs \<Rightarrow> xs))
    else Scaled (map (crossed_weight (vi_steps i) crossed) [0 ..< ?k]))"
  define veto where "veto = (if linear i then replicate ?k False else map (crossed_veto (vi_steps i) crossed) [0 ..< ?k])"
  have r: "r = \<lparr>ir_value = v, ir_level_value = as_floats plain,
      ir_weight = (case vi_exponent i of None \<Rightarrow> plain | Some ex \<Rightarrow> Real (exponent_weight pf (as_floats plain) ex)), ir_veto = veto\<rparr>"
    using assms(2) c unfolding vote_input_result_def Let_def plain_def veto_def by simp
  have w: "map (crossed_weight (vi_steps i) (map (take n) crossed)) [0 ..< min n ?k] = take n (map (crossed_weight (vi_steps i) crossed) [0 ..< ?k])"
    by (rule map_upt_cut) (rule crossed_weight_cut)
  have ve: "map (crossed_veto (vi_steps i) (map (take n) crossed)) [0 ..< min n ?k] = take n (map (crossed_veto (vi_steps i) crossed) [0 ..< ?k])"
    by (rule map_upt_cut) (rule crossed_veto_cut)
  have lad: "linear_ladder pf i (case map_option (take n) vs of None \<Rightarrow> [] | Some xs \<Rightarrow> xs) =
      take n (linear_ladder pf i (case vs of None \<Rightarrow> [] | Some xs \<Rightarrow> xs))"
    by (cases vs) (simp_all add: linear_ladder_def Let_def take_map)
  have pl: "(if linear i then Real (linear_ladder pf i (case map_option (take n) vs of None \<Rightarrow> [] | Some xs \<Rightarrow> xs))
    else Scaled (map (crossed_weight (vi_steps i) (map (take n) crossed)) [0 ..< min n ?k])) = cut_weights n plain"
    unfolding w lad by (simp add: plain_def cut_weights_def)
  have vt: "(if linear i then replicate (min n ?k) False else map (crossed_veto (vi_steps i) (map (take n) crossed)) [0 ..< min n ?k]) = take n veto"
    unfolding ve by (simp add: veto_def)
  show ?thesis unfolding vote_input_result_def Let_def crossings_cut[OF assms(1) c] bindR_simps prod.case cut_frame_times pl vt as_floats_cut
    by (simp add: r cut_result_def exponent_weight_def take_map cut_weights_def split: option.split)
qed

lemma foldl_map2_cut:
  assumes "\<And>r. g (cut_result n r) = take n (g r)"
  shows "foldl (\<lambda>acc r. map2 f acc (g r)) (take n z) (map (cut_result n) rs) = take n (foldl (\<lambda>acc r. map2 f acc (g r)) z rs)"
  by (induction rs arbitrary: z) (simp_all add: assms map2_cut del: take_map)

lemma voter_cut:
  "voter_weight_int (min n k) (map (cut_result n) rs) = take n (voter_weight_int k rs)"
  "voter_weight_float (min n k) (map (cut_result n) rs) = take n (voter_weight_float k rs)"
  "voter_veto (min n k) (map (cut_result n) rs) = take n (voter_veto k rs)"
proof -
  have rep: "replicate (min n k) x = take n (replicate k x)" for x :: 'z by simp
  show "voter_weight_int (min n k) (map (cut_result n) rs) = take n (voter_weight_int k rs)"
    unfolding voter_weight_int_def rep by (rule foldl_map2_cut) (simp add: cut_result_def scaled_ints_cut)
  show "voter_weight_float (min n k) (map (cut_result n) rs) = take n (voter_weight_float k rs)"
    unfolding voter_weight_float_def rep by (rule foldl_map2_cut) (simp add: cut_result_def as_floats_cut)
  show "voter_veto (min n k) (map (cut_result n) rs) = take n (voter_veto k rs)"
    unfolding voter_veto_def rep by (rule foldl_map2_cut) (simp add: cut_result_def)
qed

lemma exact_voter_cut: "c < n \<Longrightarrow> exact_voter (map (cut_result n) rs) c = exact_voter rs c"
proof -
  assume c: "c < n"
  have "mapR (\<lambda>r. exact_weight (ir_weight r) c) (map (cut_result n) rs) = mapR (\<lambda>r. exact_weight (ir_weight r) c) rs"
    by (induction rs) (auto simp: c cut_result_def cut_weights_def exact_weight_def split: weights.splits)
  then show ?thesis by (simp add: exact_voter_def)
qed

lemma mapR_map: "mapR f (map g xs) = mapR (\<lambda>x. f (g x)) xs"
  by (induction xs) auto

lemma column_sum_cut:
  "c < n \<Longrightarrow> column_sum_int (map (take n) ws) c = column_sum_int ws c"
  "c < n \<Longrightarrow> us \<noteq> [] \<Longrightarrow> column_sum_float (map (take n) us) c = column_sum_float us c"
proof -
  show "c < n \<Longrightarrow> column_sum_int (map (take n) ws) c = column_sum_int ws c"
    by (induction ws) (simp_all add: column_sum_int_def)
  have "foldl (\<lambda>acc w. fadd acc (w ! c)) z (map (take n) vs) = foldl (\<lambda>acc w. fadd acc (w ! c)) z vs" if "c < n" for z vs
    using that by (induction vs arbitrary: z) simp_all
  then show "c < n \<Longrightarrow> us \<noteq> [] \<Longrightarrow> column_sum_float (map (take n) us) c = column_sum_float us c"
    by (cases us) (simp_all add: column_sum_float_def)
qed

lemma weighted_vote_cut:
  assumes pf: "causal_predicates pf" and "weighted_vote_compute pf s fr side b = Inr (ok, tr)" and ne: "wv_voters s \<noteq> []"
  shows "\<exists>tr'. weighted_vote_compute pf s (cut_frame n fr) side (cut_bundle n b) = Inr (take n ok, tr')"
proof -
  let ?k = "length (frame_time_ms fr)"
  obtain parts by_score where p: "mapR (\<lambda>v. mapR (vote_input_result pf s fr side b) (vt_inputs v)) (wv_voters s) = Inr parts"
    and bs: "(if floating s then mapR (decide_float s parts (map (column_sum_float (map (voter_weight_float ?k) parts)) [0 ..< ?k])) [0 ..< ?k]
      else Inr (map (\<lambda>x. wv_threshold s \<le> x) (map (column_sum_int (map (voter_weight_int ?k) parts)) [0 ..< ?k]))) = Inr by_score"
    and ok: "ok = map (\<lambda>c. \<not> (list_ex (\<lambda>v. v ! c) (map (voter_veto ?k) parts) \<or> by_score ! c)) [0 ..< ?k]"
    using assms(2) by (auto simp: weighted_vote_compute_def bindR_Inr Let_def)
  have ne': "parts \<noteq> []" using mapR_length[OF p] ne by auto
  let ?parts = "map (map (cut_result n)) parts"
  have inner: "mapR (vote_input_result pf s (cut_frame n fr) side (cut_bundle n b)) (vt_inputs v) = Inr (map (cut_result n) rs)"
    if "mapR (vote_input_result pf s fr side b) (vt_inputs v) = Inr rs" for v rs
    by (rule mapR_cut[OF that]) (rule vote_input_cut[OF pf])
  have p': "mapR (\<lambda>v. mapR (vote_input_result pf s (cut_frame n fr) side (cut_bundle n b)) (vt_inputs v)) (wv_voters s) = Inr ?parts"
    by (rule mapR_cut[OF p]) (rule inner)
  have ws: "map (voter_weight_float (min n ?k)) ?parts = map (take n) (map (voter_weight_float ?k) parts)"
    "map (voter_weight_int (min n ?k)) ?parts = map (take n) (map (voter_weight_int ?k) parts)"
    "map (voter_veto (min n ?k)) ?parts = map (take n) (map (voter_veto ?k) parts)"
    by (simp_all add: voter_cut)
  have fs: "map (column_sum_float (map (voter_weight_float (min n ?k)) ?parts)) [0 ..< min n ?k] =
      take n (map (column_sum_float (map (voter_weight_float ?k) parts)) [0 ..< ?k])"
    unfolding ws by (rule map_upt_cut) (simp add: column_sum_cut ne' del: map_map)
  have ints: "map (column_sum_int (map (voter_weight_int (min n ?k)) ?parts)) [0 ..< min n ?k] =
      take n (map (column_sum_int (map (voter_weight_int ?k) parts)) [0 ..< ?k])"
    unfolding ws by (rule map_upt_cut) (rule column_sum_cut(1))
  have dec: "decide_float s ?parts (take n sc) c = decide_float s parts sc c" if "c < n" for sc c
    using that by (simp add: decide_float_def mapR_map exact_voter_cut)
  have bs': "(if floating s then mapR (decide_float s ?parts (take n (map (column_sum_float (map (voter_weight_float ?k) parts)) [0 ..< ?k]))) [0 ..< min n ?k]
      else Inr (map (\<lambda>x. wv_threshold s \<le> x) (take n (map (column_sum_int (map (voter_weight_int ?k) parts)) [0 ..< ?k])))) = Inr (take n by_score)"
  proof (cases "floating s")
    case True
    let ?sc = "map (column_sum_float (map (voter_weight_float ?k) parts)) [0 ..< ?k]"
    have "mapR (decide_float s ?parts (take n ?sc)) [0 ..< min n ?k] = mapR (decide_float s parts ?sc) [0 ..< min n ?k]"
      by (rule mapR_cong[OF refl]) (simp add: dec)
    then show ?thesis using True bs mapR_take[of "decide_float s parts ?sc" "[0 ..< ?k]" by_score n] by (simp add: upt_cut)
  next
    case False
    then show ?thesis using bs by (auto simp: take_map)
  qed
  have res: "map (\<lambda>c. \<not> (list_ex (\<lambda>v. v ! c) (map (take n) (map (voter_veto ?k) parts)) \<or> take n by_score ! c)) [0 ..< min n ?k] = take n ok"
    unfolding ok by (rule map_upt_cut) (simp add: list_ex_iff)
  show ?thesis unfolding weighted_vote_compute_def Let_def p' bindR_simps cut_frame_times fs ints
    by (simp only: bs' bindR_simps ws res) simp
qed

section \<open>The setups of a side\<close>

lemma setup_local_cut:
  assumes pf: "causal_predicates pf" and "setup_local pf it fr plan b side head = Inr (ok, tr)"
  shows "\<exists>tr'. setup_local pf it (cut_frame n fr) plan (cut_bundle n b) side head = Inr (take n ok, tr')"
proof -
  obtain cid inst params where h: "head = (cid, inst, params)" by (cases head)
  consider "cid = COMPOSITE_SETUP" | "cid \<noteq> COMPOSITE_SETUP" "cid = WEIGHTED_VOTE_SETUP" | "cid \<noteq> COMPOSITE_SETUP" "cid \<noteq> WEIGHTED_VOTE_SETUP"
    by blast
  then show ?thesis
  proof cases
    case 1
    then obtain spec core where c: "parse_composite_setup it (''setup['' @ inst @ '']'') = Inr spec"
      "composite_core_of pf spec fr plan b side = Inr core" "ok = core_local core"
      using assms(2) by (auto simp: setup_local_def h bindR_Inr)
    show ?thesis using composite_core_cut[OF pf c(2), of n] c 1 by (auto simp: setup_local_def h)
  next
    case 2
    then obtain spec where c: "parse_weighted_vote_setup it (''setup['' @ inst @ '']'') = Inr spec"
      "weighted_vote_compute pf spec fr side b = Inr (ok, tr)"
      using assms(2) by (auto simp: setup_local_def h bindR_Inr)
    have "wv_voters spec \<noteq> []" using parse_vote_ok[OF c(1)] by (simp add: vote_spec_ok_def)
    then show ?thesis using weighted_vote_cut[OF pf c(2)] c(1) 2 by (simp add: setup_local_def h)
  next
    case 3
    then show ?thesis using assms(2) semantic_setup_cut by (simp add: setup_local_def h)
  qed
qed

text \<open>Masks of a side agree when they agree on what is allowed.\<close>

definition setups_cut :: "nat \<Rightarrow> side_setup_evaluation \<Rightarrow> side_setup_evaluation \<Rightarrow> bool" where
  "setups_cut n s t \<longleftrightarrow> ss_side t = ss_side s \<and> ss_setups_ok t = take n (ss_setups_ok s) \<and>
     ss_pre_trigger_allowed t = take n (ss_pre_trigger_allowed s)"

lemma apply_setup_gate_cut: "apply_setup_gate xs g = Inr ok \<Longrightarrow> apply_setup_gate (take n xs) (map_option (take n) g) = Inr (take n ok)"
  by (auto simp: apply_setup_gate_def raise_if_Inr and_pair_cut[where n = n] split: option.splits)

lemma setup_of_cut:
  assumes pf: "causal_predicates pf" and "setup_of pf fr plan records b side it = Inr m"
  shows "\<exists>m'. setup_of pf (cut_frame n fr) plan (map (cut_record n) records) (cut_bundle n b) side it = Inr m' \<and>
    sm_final_allowed m' = take n (sm_final_allowed m)"
proof -
  obtain cid inst params loc tr final where g: "setup_head it side = Inr (cid, inst, params)"
    "setup_local pf it fr plan b side (cid, inst, params) = Inr (loc, tr)"
    "apply_setup_gate loc (gate_for records ''setup'' inst side) = Inr final" "sm_final_allowed m = final"
    using assms(2) by (auto simp: setup_of_def bindR_Inr Let_def)
  obtain tr' where "setup_local pf it (cut_frame n fr) plan (cut_bundle n b) side (cid, inst, params) = Inr (take n loc, tr')"
    using setup_local_cut[OF pf g(2)] by blast
  then show ?thesis using g apply_setup_gate_cut[OF g(3), of n] by (simp add: setup_of_def gate_for_cut)
qed

lemma mapR_related:
  assumes "mapR f xs = Inr ys" "\<And>x y. f x = Inr y \<Longrightarrow> \<exists>z. g x = Inr z \<and> R y z"
  shows "\<exists>zs. mapR g xs = Inr zs \<and> list_all2 R ys zs"
  using assms(1)
proof (induction xs arbitrary: ys)
  case (Cons x xs)
  then obtain y ys' where y: "f x = Inr y" "mapR f xs = Inr ys'" "ys = y # ys'" by (auto simp: bindR_Inr)
  then show ?case using Cons.IH[OF y(2)] assms(2)[OF y(1)] by auto
qed simp

lemma side_setups_cut:
  assumes pf: "causal_predicates pf" and "side_setups pf fr plan records b its prior = Inr s"
  shows "\<exists>t. side_setups pf (cut_frame n fr) plan (map (cut_record n) records) (cut_bundle n b) its (cut_side n prior) = Inr t \<and> setups_cut n s t"
proof -
  obtain ms ok pre where g: "mapR (setup_of pf fr plan records b (sdb_side prior)) its = Inr ms"
    "combine_setup_masks (map sm_final_allowed ms) (length (frame_time_ms fr)) = Inr ok" "and_pair (sdb_pre_setup_allowed prior) ok = Inr pre"
    and s: "s = \<lparr>ss_side = sdb_side prior, ss_setups = ms, ss_setups_ok = ok, ss_pre_trigger_allowed = pre\<rparr>"
    using assms(2) by (auto simp: side_setups_def bindR_Inr)
  obtain ns where ns: "mapR (setup_of pf (cut_frame n fr) plan (map (cut_record n) records) (cut_bundle n b) (sdb_side prior)) its = Inr ns"
    "list_all2 (\<lambda>m m'. sm_final_allowed m' = take n (sm_final_allowed m)) ms ns"
    using mapR_related[OF g(1), where R = "\<lambda>m m'. sm_final_allowed m' = take n (sm_final_allowed m)"
        and g = "setup_of pf (cut_frame n fr) plan (map (cut_record n) records) (cut_bundle n b) (sdb_side prior)"]
      setup_of_cut[OF pf] by blast
  have m: "map sm_final_allowed ns = map (take n) (map sm_final_allowed ms)"
    using ns(2) by (induction) auto
  have c: "combine_setup_masks (map sm_final_allowed ns) (length (frame_time_ms (cut_frame n fr))) = Inr (take n ok)"
    unfolding m using combine_cut[OF g(2)[unfolded combine_setup_masks_def], of n]
    by (simp only: combine_setup_masks_def cut_frame_times min.commute)
  have "cut_side n prior = cut_side n prior\<lparr>sdb_side := sdb_side prior\<rparr>" by (simp add: cut_side_def)
  have sides: "sdb_side (cut_side n prior) = sdb_side prior" "sdb_pre_setup_allowed (cut_side n prior) = take n (sdb_pre_setup_allowed prior)"
    by (simp_all add: cut_side_def)
  show ?thesis unfolding side_setups_def sides ns(1) bindR_simps c and_pair_cut[OF g(3), of n]
    by (simp add: setups_cut_def s)
qed

lemma setups_causal:
  assumes pf: "causal_predicates pf" and "evaluate_setups pf raw_spec fr plan records priors b = Inr outs"
  shows "\<exists>outs'. evaluate_setups pf raw_spec (cut_frame n fr) plan (map (cut_record n) records) (map (cut_side n) priors) (cut_bundle n b) = Inr outs' \<and>
    list_all2 (setups_cut n) outs outs'"
proof -
  obtain its where i: "setup_items raw_spec = Inr its" "mapR (side_setups pf fr plan records b its) priors = Inr outs"
    using assms(2) by (auto simp: evaluate_setups_def bindR_Inr)
  show ?thesis using i(1) mapR_related[OF i(2), where R = "setups_cut n"
      and g = "\<lambda>prior. side_setups pf (cut_frame n fr) plan (map (cut_record n) records) (cut_bundle n b) its (cut_side n prior)",
      OF side_setups_cut[OF pf]]
    by (simp add: evaluate_setups_def mapR_map)
qed

end
