(* ===== verification/SetupIdentity.thy ===== *)
theory SetupIdentity
  imports SetupEvaluation
begin

text \<open>
  The identities of setups (\<open>setups.py\<close>): one node per local mask, its context gate, and the
  conjunction of a side.  The identity of a raw predicate is a parameter, as its evaluation is.
\<close>

definition SETUP_NODE_VERSION :: int where "SETUP_NODE_VERSION = 1"

record predicate_identity =
  pi_local :: node
  pi_nested :: "node list"

type_synonym predicate_resolver = "obj \<Rightarrow> string \<Rightarrow> string \<Rightarrow> predicate_identity res"

record child_identity =
  ci_instance_id :: string
  ci_side :: string
  ci_local :: node
  ci_final :: node
  ci_width_prefix :: "node option"
  ci_predicate :: "predicate_identity option"

record setup_identity =
  si_instance_id :: string
  si_side :: string
  si_local :: node
  si_final :: node
  si_width_prefix :: "node option"
  si_children :: "child_identity list"
  si_vote_inputs :: "predicate_identity list list"
  si_vote_consumptions :: "node list"

section \<open>Semantic setups\<close>

text \<open>The nodes of the columns of some roles.\<close>

definition role_node :: "node_ids \<Rightarrow> (string \<times> string) list \<Rightarrow> string \<Rightarrow> node res" where
  "role_node ids cols role = bindR (column_at cols role) (feature_node ids)"

definition role_deps :: "node_ids \<Rightarrow> (string \<times> string) list \<Rightarrow> string list \<Rightarrow> (string \<times> dependency) list res" where
  "role_deps ids cols roles = mapR (\<lambda>role. bindR (role_node ids cols role) (\<lambda>n. Inr (role, Single n))) roles"

definition untouched_anchor_node :: "string \<Rightarrow> obj \<Rightarrow> ema_plan \<Rightarrow> node_ids \<Rightarrow> string \<Rightarrow> (node \<times> node option) res" where
  "untouched_anchor_node kind params plan ids side =
     bindR (untouched_anchor_params params) (\<lambda>(lookback, active_bars).
     bindR (role_deps ids (anchor_columns plan) [''anchor'']) (\<lambda>ups.
     bindR (node_spec kind SETUP_NODE_VERSION [(''lookback'', PInt lookback), (''active_bars'', PInt active_bars)] ups (Some side))
       (\<lambda>n. Inr (n, None))))"

definition bounce_counter_node ::
  "string \<Rightarrow> obj \<Rightarrow> (string \<times> string) list \<Rightarrow> node_ids \<Rightarrow> string \<Rightarrow> (node \<times> node option) res" where
  "bounce_counter_node kind params cols ids side =
     bindR (ema_bounce_counter_params params) (\<lambda>(p, mode).
     bindR (role_deps ids cols [''fast'', ''anchor'', ''slow'']) (\<lambda>ups.
     bindR (node_spec kind SETUP_NODE_VERSION
       [(''max_bounces'', PInt (bp_max_bounces p)), (''raw_touch_mode'', PStr mode),
        (''touch_lookback_bars'', PInt (bp_touch_lookback p)),
        (''trend_start_confirmation_bars'', PInt (bp_start_confirm p)),
        (''trend_break_confirmation_bars'', PInt (bp_break_confirm p))] ups (Some side)) (\<lambda>n. Inr (n, None))))"

definition width_band_node :: "string \<Rightarrow> obj \<Rightarrow> (string \<times> string) list \<Rightarrow> node_ids \<Rightarrow> (node \<times> node option) res" where
  "width_band_node kind params cols ids =
     bindR (parse_width_band_params params) (\<lambda>band.
     bindR (role_deps ids cols [''fast'', ''slow'', ''atr'']) (\<lambda>ups.
     bindR (node_spec ''setup.anchor_stack_width_band.width'' SETUP_NODE_VERSION [] ups None) (\<lambda>width.
     bindR (node_spec kind SETUP_NODE_VERSION
       ((''min_width_atr'', PFloat (f64_bits (min_width_atr band))) #
        (case max_width_atr band of None \<Rightarrow> [] | Some mx \<Rightarrow> [(''max_width_atr'', PFloat (f64_bits mx))]))
       [(''width'', Single width)] None) (\<lambda>n. Inr (n, Some width)))))"

definition stack_width_node :: "string \<Rightarrow> obj \<Rightarrow> (string \<times> string) list \<Rightarrow> node_ids \<Rightarrow> (node \<times> node option) res" where
  "stack_width_node kind params cols ids =
     bindR (anchor_stack_width_params params) (\<lambda>(min_current, min_recent, lookback).
     bindR (role_deps ids cols [''fast'', ''anchor'', ''slow'', ''atr'']) (\<lambda>ups.
     bindR (node_spec ''setup.anchor_stack_width.prefix'' SETUP_NODE_VERSION [(''width_lookback_bars'', PInt lookback)]
       (filter (\<lambda>u. fst u \<noteq> ''anchor'') ups) None) (\<lambda>prefix.
     bindR (node_spec kind SETUP_NODE_VERSION
       [(''min_current_width_atr'', PFloat (f64_bits min_current)), (''min_recent_width_atr'', PFloat (f64_bits min_recent))]
       ((''prefix'', Single prefix) # ups) None) (\<lambda>n. Inr (n, Some prefix)))))"

definition resolve_setup_local :: "obj \<Rightarrow> ema_plan \<Rightarrow> node_ids \<Rightarrow> string \<Rightarrow> (node \<times> node option) res" where
  "resolve_setup_local it plan ids side =
     bindR (setup_head it side) (\<lambda>(cid, inst, params).
     (let kind = ''setup.'' @ cid in
      raise_if (cid = COMPOSITE_SETUP \<or> cid = WEIGHTED_VOTE_SETUP)
        (InvalidRequest (cid @ '' resolves through resolve_setup_identity''))
      (if cid = ''untouched_anchor_setup'' then untouched_anchor_node kind params plan ids side
       else bindR (setup_columns plan inst) (\<lambda>cols.
         if cid = ''ema_bounce_counter_setup'' then bounce_counter_node kind params cols ids side
         else if cid = WIDTH_BAND_SETUP then width_band_node kind params cols ids
         else stack_width_node kind params cols ids))))"

section \<open>Composites\<close>

definition child_identity_of ::
  "predicate_resolver \<Rightarrow> string \<Rightarrow> composite_spec \<Rightarrow> ema_plan \<Rightarrow> node_ids \<Rightarrow> string \<Rightarrow> composite_child \<Rightarrow> child_identity res" where
  "child_identity_of rp inst spec plan ids side c =
     (case child_predicate c of
        Some p \<Rightarrow>
          bindR (rp p (''setup['' @ inst @ ''].'' @ child_id c) side) (\<lambda>pid.
          Inr \<lparr>ci_instance_id = child_instance_key (instance_id spec) (child_id c), ci_side = side, ci_local = pi_local pid,
               ci_final = pi_local pid, ci_width_prefix = None, ci_predicate = Some pid\<rparr>)
      | None \<Rightarrow>
          bindR (child_setup_item spec c) (\<lambda>it.
          bindR (resolve_setup_local it plan ids side) (\<lambda>(local, prefix).
          Inr \<lparr>ci_instance_id = text_of it ''instance_id'' [], ci_side = side, ci_local = local, ci_final = local,
               ci_width_prefix = prefix, ci_predicate = None\<rparr>)))"

definition position_of :: "composite_spec \<Rightarrow> string \<Rightarrow> pval res" where
  "position_of spec ref =
     (case map_of (zip (map child_id (spec_children spec)) [0 ..< length (spec_children spec)]) ref of
        None \<Rightarrow> Inl (PyKeyError ref) | Some i \<Rightarrow> Inr (PInt (int i)))"

definition path_param :: "composite_spec \<Rightarrow> composite_path \<Rightarrow> pval res" where
  "path_param spec p =
     bindR (mapR (position_of spec) (require p)) (\<lambda>req.
     bindR (mapR (position_of spec) (at_least_of p)) (\<lambda>ofs.
     Inr (PTuple [PTuple req, case at_least_k p of None \<Rightarrow> PNone | Some k \<Rightarrow> PInt k, PTuple ofs])))"

definition child_role :: "nat \<Rightarrow> string" where "child_role i = ''child_'' @ show_nat i"

definition resolve_composite ::
  "predicate_resolver \<Rightarrow> obj \<Rightarrow> ema_plan \<Rightarrow> node_ids \<Rightarrow> string \<Rightarrow> (node \<times> child_identity list) res" where
  "resolve_composite rp it plan ids side =
     bindR (setup_head it side) (\<lambda>(cid, inst, params).
     bindR (parse_composite_setup it (''setup['' @ inst @ '']'')) (\<lambda>spec.
     bindR (mapR (child_identity_of rp inst spec plan ids side) (spec_children spec)) (\<lambda>cs.
     bindR (mapR (path_param spec) (spec_paths spec)) (\<lambda>ps.
     bindR (node_spec (''setup.'' @ COMPOSITE_SETUP) SETUP_NODE_VERSION [(''paths'', PTuple ps)]
       (zip (map child_role [0 ..< length cs]) (map (Single \<circ> ci_local) cs)) None) (\<lambda>n. Inr (n, cs))))))"

section \<open>Weighted votes\<close>

definition vote_step_param :: "vote_step \<Rightarrow> pval" where
  "vote_step_param s = PTuple
     [case vs_level s of Operand_level x \<Rightarrow> PFloat (f64_bits x) | Count_level k \<Rightarrow> PInt k,
      case vs_weight s of None \<Rightarrow> PNone | Some w \<Rightarrow> PStr (scaled_to_text w), PBool (vs_weight s = None)]"

definition vote_input_param :: "vote_input \<Rightarrow> pval" where
  "vote_input_param i = PTuple
     ([PStr (vi_input_id i), PStr (if vi_operand_predicate i \<noteq> None then ''operand'' else ''count''),
       case vi_direction i of None \<Rightarrow> PNone | Some d \<Rightarrow> PStr d, PTuple (map vote_step_param (vi_steps i))] @
      (if has_extensions i then
         [PTuple [PTuple [PStr ''between'', PStr (vi_between i)],
                  PTuple [PStr ''exponent'', case vi_exponent i of None \<Rightarrow> PNone
                    | Some ex \<Rightarrow> PTuple [PStr (float_repr (ex_k ex)), PStr (float_repr (ex_e_v ex))]]]] else []))"

definition voter_param :: "voter \<Rightarrow> pval" where
  "voter_param v = PTuple [PStr (vt_voter_id v), PStr (vt_role v), PTuple (map vote_input_param (vt_inputs v))]"

definition vote_input_identities ::
  "predicate_resolver \<Rightarrow> string \<Rightarrow> string \<Rightarrow> vote_input \<Rightarrow> predicate_identity list res" where
  "vote_input_identities rp inst side i =
     mapR (\<lambda>p. rp p (''setup['' @ inst @ ''].'' @ vi_input_id i) side) (input_predicates i)"

definition input_role :: "nat \<Rightarrow> nat \<Rightarrow> string" where
  "input_role i j = ''input_'' @ show_nat i @ ''_'' @ show_nat j"

definition vote_upstream :: "predicate_identity list list \<Rightarrow> (string \<times> dependency) list" where
  "vote_upstream ids =
     concat (map (\<lambda>(i, pids). map (\<lambda>(j, p). (input_role i j, Single (pi_local p))) (zip [0 ..< length pids] pids))
       (zip [0 ..< length ids] ids))"

definition input_consumptions :: "vote_input \<Rightarrow> predicate_identity list \<Rightarrow> node list" where
  "input_consumptions i pids =
     concat (map (\<lambda>p. (if vi_operand_predicate i = None then [pi_local p] else []) @ pi_nested p) pids)"

definition resolve_weighted_vote ::
  "predicate_resolver \<Rightarrow> obj \<Rightarrow> string \<Rightarrow> (node \<times> predicate_identity list list \<times> node list) res" where
  "resolve_weighted_vote rp it side =
     bindR (setup_head it side) (\<lambda>(cid, inst, params).
     bindR (parse_weighted_vote_setup it (''setup['' @ inst @ '']'')) (\<lambda>spec.
     bindR (mapR (vote_input_identities rp inst side) (spec_inputs spec)) (\<lambda>ids.
     bindR (node_spec ''setup.weighted_vote'' SETUP_NODE_VERSION
       [(''threshold'', PStr (scaled_to_text (wv_threshold spec))), (''voters'', PTuple (map voter_param (wv_voters spec)))]
       (vote_upstream ids) (Some side)) (\<lambda>n.
     Inr (n, ids, concat (map2 input_consumptions (spec_inputs spec) ids))))))"

section \<open>All setups of a side\<close>

definition resolve_setup_identity_for_side ::
  "predicate_resolver \<Rightarrow> ema_plan \<Rightarrow> node_ids \<Rightarrow> gate_identity list \<Rightarrow> string \<Rightarrow> obj \<Rightarrow> setup_identity res" where
  "resolve_setup_identity_for_side rp plan ids gates side it =
     (let cid = fst (resolve_setup_identity it); inst = snd (resolve_setup_identity it);
          gate = gate_node_for gates ''setup'' inst side in
      if cid = COMPOSITE_SETUP then
        bindR (resolve_composite rp it plan ids side) (\<lambda>(local, cs).
        bindR (gated_mask_node local gate) (\<lambda>final.
        Inr \<lparr>si_instance_id = inst, si_side = side, si_local = local, si_final = final, si_width_prefix = None,
             si_children = cs, si_vote_inputs = [], si_vote_consumptions = []\<rparr>))
      else if cid = WEIGHTED_VOTE_SETUP then
        bindR (resolve_weighted_vote rp it side) (\<lambda>(local, inputs, consumed).
        bindR (gated_mask_node local gate) (\<lambda>final.
        Inr \<lparr>si_instance_id = inst, si_side = side, si_local = local, si_final = final, si_width_prefix = None,
             si_children = [], si_vote_inputs = inputs, si_vote_consumptions = consumed\<rparr>))
      else
        bindR (resolve_setup_local it plan ids side) (\<lambda>(local, prefix).
        bindR (gated_mask_node local gate) (\<lambda>final.
        Inr \<lparr>si_instance_id = inst, si_side = side, si_local = local, si_final = final, si_width_prefix = prefix,
             si_children = [], si_vote_inputs = [], si_vote_consumptions = []\<rparr>)))"

record side_setup_identity =
  ssi_side :: string
  ssi_setups :: "setup_identity list"
  ssi_setups_ok :: node
  ssi_pre_trigger_allowed :: node

definition resolve_side_setups ::
  "predicate_resolver \<Rightarrow> ema_plan \<Rightarrow> node_ids \<Rightarrow> gate_identity list \<Rightarrow> obj list \<Rightarrow> side_blocker_identity \<Rightarrow>
     side_setup_identity res" where
  "resolve_side_setups rp plan ids gates its prior =
     bindR (mapR (resolve_setup_identity_for_side rp plan ids gates (sbi_side prior)) its) (\<lambda>ss.
     bindR (and_masks_node ''mask.all'' (map si_final ss)) (\<lambda>ok.
     bindR (pairwise_and_node ''mask.all'' (sbi_pre_setup_allowed prior) ok) (\<lambda>pre.
     Inr \<lparr>ssi_side = sbi_side prior, ssi_setups = ss, ssi_setups_ok = ok, ssi_pre_trigger_allowed = pre\<rparr>)))"

definition resolve_setups ::
  "predicate_resolver \<Rightarrow> obj \<Rightarrow> ema_plan \<Rightarrow> node_ids \<Rightarrow> gate_identity list \<Rightarrow> side_blocker_identity list \<Rightarrow>
     side_setup_identity list res" where
  "resolve_setups rp raw_spec plan ids gates priors =
     bindR (setup_items raw_spec) (\<lambda>its. mapR (resolve_side_setups rp plan ids gates its) priors)"

end
