(* ===== verification/Triggers.thy ===== *)
theory Triggers
  imports SetupIdentity
begin

text \<open>
  Triggers (\<open>triggers.py\<close>): the reclaim of the anchor after a probe, the touch of the anchor,
  their conjunction with what the setups allow, and their identities.
\<close>

definition TRIGGER_SUPPORTED :: "string list" where
  "TRIGGER_SUPPORTED = [''reclaim_anchor'', ''strong_reclaim_anchor'', ''touch_anchor'']"

record trigger_mask =
  tm_component_id :: string
  tm_side :: string
  tm_allowed :: "bool list"
  tm_trace :: trace

record side_trigger_evaluation =
  st_side :: string
  st_trigger :: trigger_mask
  st_pre_risk_entry_allowed :: "bool list"

definition trigger_mask_to_wire :: "trigger_mask \<Rightarrow> json" where
  "trigger_mask_to_wire m = JObj
     [(''component_id'', JStr (tm_component_id m)), (''side'', JStr (tm_side m)), (''allowed'', wire_bools (tm_allowed m)),
      (''trace'', wire_trace (tm_trace m)),
      (''counters'', JObj
        [(''triggered_count'', JInt (count_true (tm_allowed m))),
         (''not_triggered_count'', JInt (int (length (tm_allowed m)) - count_true (tm_allowed m)))])]"

definition side_trigger_to_wire :: "side_trigger_evaluation \<Rightarrow> json" where
  "side_trigger_to_wire s = JObj
     [(''side'', JStr (st_side s)), (''trigger'', trigger_mask_to_wire (st_trigger s)),
      (''pre_risk_entry_allowed'', wire_bools (st_pre_risk_entry_allowed s))]"

text \<open>The close-side precondition of an evaluated touch.\<close>

definition touch_anchor_close_ok :: "side_trigger_evaluation \<Rightarrow> bool list res" where
  "touch_anchor_close_ok e =
     (let t = st_trigger e in
      raise_if (tm_component_id t \<noteq> ''touch_anchor'') (InvalidRequest ''potential entry trigger must be touch_anchor'')
      (case map_of (tm_trace t) ''close_ok'' of
         Some (Bools vs) \<Rightarrow>
           raise_if (length vs \<noteq> length (tm_allowed t))
             (InvalidRequest ''touch_anchor trigger must expose a bar-aligned boolean close_ok trace'') (Inr vs)
       | _ \<Rightarrow> Inl (InvalidRequest ''touch_anchor trigger must expose a bar-aligned boolean close_ok trace'')))"

abbreviation trigger_market :: "feature_frame \<Rightarrow> (f64 market_bar \<Rightarrow> f64) \<Rightarrow> f64 list res" where
  "trigger_market \<equiv> market_values ''market bars unavailable for trigger evaluation''"

section \<open>Reclaim\<close>

text \<open>A bar is probed when its close, or its extreme, reaches the anchor; reclaimed when it closes beyond.\<close>

definition probe_mask :: "string \<Rightarrow> bool \<Rightarrow> f64 list \<Rightarrow> f64 list \<Rightarrow> f64 list \<Rightarrow> f64 list \<Rightarrow> bool list res" where
  "probe_mask side close_probe close low high anchor =
     (if side = ''long'' then zip3_with (\<lambda>c l a. if close_probe then fle c a else fle l a) close low anchor
      else if side = ''short'' then zip3_with (\<lambda>c h a. if close_probe then fge c a else fge h a) close high anchor
      else Inl (InvalidRequest ''trade side must be long or short''))"

definition reclaim_mask :: "string \<Rightarrow> f64 list \<Rightarrow> f64 list \<Rightarrow> bool list res" where
  "reclaim_mask side close anchor = zip_with (if side = ''long'' then fgt else flt) close anchor"

definition had_prior_probe :: "nat \<Rightarrow> bool list \<Rightarrow> bool list" where
  "had_prior_probe lookback probed =
     map (\<lambda>i. lookback \<le> i \<and> list_ex id (take lookback (drop (i - lookback) probed))) [0 ..< length probed]"

definition rolling_reclaim :: "feature_frame \<Rightarrow> f64 list \<Rightarrow> string \<Rightarrow> int \<Rightarrow> bool \<Rightarrow> (bool list \<times> trace) res" where
  "rolling_reclaim fr anchor side lookback close_probe =
     raise_if (lookback \<le> 0) (InvalidRequest ''trigger.lookback must be > 0'')
     (bindR (trigger_market fr bar_close) (\<lambda>close.
      bindR (trigger_market fr bar_low) (\<lambda>low.
      bindR (trigger_market fr bar_high) (\<lambda>high.
      bindR (probe_mask side close_probe close low high anchor) (\<lambda>probed.
      bindR (reclaim_mask side close anchor) (\<lambda>reclaimed.
      (let prior = had_prior_probe (nat lookback) probed in
       bindR (and_pair prior reclaimed) (\<lambda>trigger.
       Inr (trigger, [(''close'', Floats close), (''anchor'', Floats anchor), (''probed'', Bools probed),
         (''had_prior_probe'', Bools prior), (''reclaimed'', Bools reclaimed), (''trigger'', Bools trigger)])))))))))"

section \<open>Touch\<close>

definition touch_anchor :: "feature_frame \<Rightarrow> f64 list \<Rightarrow> string \<Rightarrow> (bool list \<times> trace) res" where
  "touch_anchor fr anchor side =
     bindR (trigger_market fr bar_close) (\<lambda>close.
     bindR (trigger_market fr bar_low) (\<lambda>low.
     bindR (trigger_market fr bar_high) (\<lambda>high.
     bindR (if side = ''long'' then zip_with fle low anchor else if side = ''short'' then zip_with fge high anchor
            else Inl (InvalidRequest ''trade side must be long or short'')) (\<lambda>touch.
     bindR (zip_with (if side = ''long'' then fge else fle) close anchor) (\<lambda>close_ok.
     bindR (and_pair touch close_ok) (\<lambda>trigger.
     Inr (trigger, [(''touch'', Bools touch), (''close_ok'', Bools close_ok), (''trigger'', Bools trigger)])))))))"

section \<open>The triggers of a strategy\<close>

definition trigger_component :: "obj \<Rightarrow> (obj \<times> string) res" where
  "trigger_component raw_spec =
     bindR (resolve_trigger_rule raw_spec) (\<lambda>rule.
     (let cid = text_of rule ''component_id'' ''reclaim_anchor'' in
      raise_if (cid \<notin> set TRIGGER_SUPPORTED) (InvalidRequest ''unsupported trigger component'') (Inr (rule, cid))))"

definition reclaim_lookback :: "obj \<Rightarrow> int res" where
  "reclaim_lookback rule = py_int (get_or rule ''lookback'' (JInt 1))"

definition trigger_of :: "obj \<Rightarrow> string \<Rightarrow> feature_frame \<Rightarrow> f64 list \<Rightarrow> string \<Rightarrow> (bool list \<times> trace) res" where
  "trigger_of rule cid fr anchor side =
     raise_if (side \<notin> set VALID_SIDES) (InvalidRequest ''trade side must be long or short'')
     (if cid = ''touch_anchor'' then touch_anchor fr anchor side
      else bindR (reclaim_lookback rule) (\<lambda>lookback.
        rolling_reclaim fr anchor side lookback (cid = ''strong_reclaim_anchor'')))"

definition side_trigger ::
  "obj \<Rightarrow> string \<Rightarrow> feature_frame \<Rightarrow> f64 list \<Rightarrow> side_setup_evaluation \<Rightarrow> side_trigger_evaluation res" where
  "side_trigger rule cid fr anchor prior =
     bindR (trigger_of rule cid fr anchor (ss_side prior)) (\<lambda>(ok, tr).
     bindR (and_pair (ss_pre_trigger_allowed prior) ok) (\<lambda>pre.
     Inr \<lparr>st_side = ss_side prior,
          st_trigger = \<lparr>tm_component_id = cid, tm_side = ss_side prior, tm_allowed = ok, tm_trace = tr\<rparr>,
          st_pre_risk_entry_allowed = pre\<rparr>))"

definition evaluate_triggers ::
  "obj \<Rightarrow> feature_frame \<Rightarrow> ema_plan \<Rightarrow> side_setup_evaluation list \<Rightarrow> side_trigger_evaluation list res" where
  "evaluate_triggers raw_spec fr plan setups =
     bindR (trigger_component raw_spec) (\<lambda>(rule, cid).
     bindR (column_floats fr (anchor_columns plan) ''anchor'') (\<lambda>anchor.
     mapR (side_trigger rule cid fr anchor) setups))"

section \<open>Identities\<close>

definition TRIGGER_NODE_VERSION :: int where "TRIGGER_NODE_VERSION = 1"

definition resolve_trigger :: "obj \<Rightarrow> ema_plan \<Rightarrow> node_ids \<Rightarrow> string \<Rightarrow> node res" where
  "resolve_trigger raw_spec plan ids side =
     bindR (trigger_component raw_spec) (\<lambda>(rule, cid).
     raise_if (side \<notin> set VALID_SIDES) (InvalidRequest ''trade side must be long or short'')
     (bindR (role_node ids (anchor_columns plan) ''anchor'') (\<lambda>anchor.
      bindR (if cid = ''touch_anchor'' then Inr []
             else bindR (reclaim_lookback rule) (\<lambda>lookback.
               raise_if (lookback \<le> 0) (InvalidRequest ''trigger.lookback must be > 0'')
                 (Inr [(''lookback'', PInt lookback)]))) (\<lambda>params.
      node_spec (''trigger.'' @ cid) TRIGGER_NODE_VERSION params [(''anchor'', Single anchor)] (Some side)))))"

record side_trigger_identity =
  sti_side :: string
  sti_trigger :: node
  sti_pre_risk_entry_allowed :: node

definition resolve_side_trigger ::
  "obj \<Rightarrow> ema_plan \<Rightarrow> node_ids \<Rightarrow> side_setup_identity \<Rightarrow> side_trigger_identity res" where
  "resolve_side_trigger raw_spec plan ids prior =
     bindR (resolve_trigger raw_spec plan ids (ssi_side prior)) (\<lambda>t.
     bindR (pairwise_and_node ''mask.all'' (ssi_pre_trigger_allowed prior) t) (\<lambda>pre.
     Inr \<lparr>sti_side = ssi_side prior, sti_trigger = t, sti_pre_risk_entry_allowed = pre\<rparr>))"

definition resolve_triggers ::
  "obj \<Rightarrow> ema_plan \<Rightarrow> node_ids \<Rightarrow> side_setup_identity list \<Rightarrow> side_trigger_identity list res" where
  "resolve_triggers raw_spec plan ids setups = mapR (resolve_side_trigger raw_spec plan ids) setups"

end
