(* ===== verification/TriggerFacts.thy ===== *)
theory TriggerFacts
  imports SetupCausality BlockerIdentity Triggers
begin

text \<open>
  Facts about triggers: which earlier bars a reclaim looks at, the evaluation of a frame cut short,
  and the identity of a trigger, which determines its mask.
\<close>

section \<open>The reclaim\<close>

lemma had_prior_probe_nth:
  assumes "i < length probed"
  shows "had_prior_probe k probed ! i \<longleftrightarrow> k \<le> i \<and> (\<exists>j. i - k \<le> j \<and> j < i \<and> probed ! j)"
proof (cases "k \<le> i")
  case True
  have "list_ex id (take k (drop (i - k) probed)) \<longleftrightarrow> (\<exists>m < k. probed ! (i - k + m))"
  proof -
    have "length (take k (drop (i - k) probed)) = k" using assms True by simp
    then show ?thesis unfolding list_ex_length using assms True by auto
  qed
  also have "\<dots> \<longleftrightarrow> (\<exists>j. i - k \<le> j \<and> j < i \<and> probed ! j)"
  proof
    assume "\<exists>m < k. probed ! (i - k + m)"
    then obtain m where "m < k" "probed ! (i - k + m)" by blast
    then show "\<exists>j. i - k \<le> j \<and> j < i \<and> probed ! j" using True by (intro exI[of _ "i - k + m"]) auto
  next
    assume "\<exists>j. i - k \<le> j \<and> j < i \<and> probed ! j"
    then obtain j where "i - k \<le> j" "j < i" "probed ! j" by blast
    then show "\<exists>m < k. probed ! (i - k + m)" using True by (intro exI[of _ "j - (i - k)"]) auto
  qed
  finally show ?thesis using assms True by (simp add: had_prior_probe_def)
qed (use assms in \<open>simp add: had_prior_probe_def\<close>)

lemma length_had_prior_probe [simp]: "length (had_prior_probe k probed) = length probed"
  by (simp add: had_prior_probe_def)

lemma had_prior_probe_cut: "had_prior_probe k (take n probed) = take n (had_prior_probe k probed)"
  by (rule list_eq_nthI) (auto simp: had_prior_probe_nth)

section \<open>Frames cut short\<close>

lemma probe_mask_cut:
  "probe_mask side p c l h a = Inr m \<Longrightarrow> probe_mask side p (take n c) (take n l) (take n h) (take n a) = Inr (take n m)"
  unfolding probe_mask_def
  by (cases "side = ''long''"; cases "side = ''short''")
    (simp_all only: if_True if_False zip3_with_cut bool_simps HOL.refl sum.distinct)

lemma rolling_reclaim_cut:
  "rolling_reclaim fr a side k p = Inr (ok, tr) \<Longrightarrow> rolling_reclaim (cut_frame n fr) (take n a) side k p = Inr (take n ok, cut_trace n tr)"
  by (auto simp: rolling_reclaim_def raise_if_Inr bindR_Inr Let_def cut_trace_def reclaim_mask_def had_prior_probe_cut
      simp: cut_rules[where n = n] probe_mask_cut[where n = n])

lemma touch_anchor_cut:
  "touch_anchor fr a side = Inr (ok, tr) \<Longrightarrow> touch_anchor (cut_frame n fr) (take n a) side = Inr (take n ok, cut_trace n tr)"
  by (auto simp: touch_anchor_def bindR_Inr cut_trace_def cut_rules[where n = n] split: if_splits)

lemma trigger_of_cut:
  "trigger_of rule cid fr a side = Inr (ok, tr) \<Longrightarrow> trigger_of rule cid (cut_frame n fr) (take n a) side = Inr (take n ok, cut_trace n tr)"
  by (auto simp: trigger_of_def raise_if_Inr bindR_Inr rolling_reclaim_cut[where n = n] touch_anchor_cut[where n = n] split: if_splits)

definition cut_trigger :: "nat \<Rightarrow> side_trigger_evaluation \<Rightarrow> side_trigger_evaluation" where
  "cut_trigger n s = s\<lparr>st_trigger := (st_trigger s)\<lparr>tm_allowed := take n (tm_allowed (st_trigger s)),
       tm_trace := cut_trace n (tm_trace (st_trigger s))\<rparr>,
     st_pre_risk_entry_allowed := take n (st_pre_risk_entry_allowed s)\<rparr>"

lemma side_trigger_cut:
  assumes "side_trigger rule cid fr a prior = Inr s" "setups_cut n prior prior'"
  shows "side_trigger rule cid (cut_frame n fr) (take n a) prior' = Inr (cut_trigger n s)"
  using assms by (auto simp: side_trigger_def bindR_Inr setups_cut_def cut_trigger_def trigger_of_cut[where n = n] and_pair_cut[where n = n])

lemma mapR_rel:
  assumes "mapR f xs = Inr ys" "list_all2 R xs xs'" "\<And>x x' y. R x x' \<Longrightarrow> f x = Inr y \<Longrightarrow> g x' = Inr (c y)"
  shows "mapR g xs' = Inr (map c ys)"
  using assms(2,1) by (induction arbitrary: ys) (auto simp: bindR_Inr assms(3))

lemma triggers_cut:
  assumes "evaluate_triggers raw_spec fr plan setups = Inr ts" "list_all2 (setups_cut n) setups setups'"
  shows "evaluate_triggers raw_spec (cut_frame n fr) plan setups' = Inr (map (cut_trigger n) ts)"
proof -
  obtain rule cid a where g: "trigger_component raw_spec = Inr (rule, cid)"
    "column_floats fr (anchor_columns plan) ''anchor'' = Inr a" "mapR (side_trigger rule cid fr a) setups = Inr ts"
    using assms(1) by (auto simp: evaluate_triggers_def bindR_Inr)
  have "mapR (side_trigger rule cid (cut_frame n fr) (take n a)) setups' = Inr (map (cut_trigger n) ts)"
    using g(3) assms(2) by (rule mapR_rel) (rule side_trigger_cut)
  then show ?thesis using g column_floats_cut[OF g(2)] by (simp add: evaluate_triggers_def)
qed

section \<open>Identities\<close>

lemma resolve_trigger_Inr:
  assumes "resolve_trigger raw_spec plan ids side = Inr n"
  obtains rule cid anchor params where "trigger_component raw_spec = Inr (rule, cid)" "side \<in> set VALID_SIDES"
    "role_node ids (anchor_columns plan) ''anchor'' = Inr anchor"
    "if cid = ''touch_anchor'' then params = []
     else \<exists>k. reclaim_lookback rule = Inr k \<and> 0 < k \<and> params = [(''lookback'', PInt k)]"
    "node_spec (''trigger.'' @ cid) TRIGGER_NODE_VERSION params [(''anchor'', Single anchor)] (Some side) = Inr n"
  using assms by (auto simp: resolve_trigger_def bindR_Inr raise_if_Inr split: if_splits)

lemma trigger_market_shared: "shared_market fr fr' \<Longrightarrow> market_values msg fr f = market_values msg fr' f"
  by (simp add: shared_market_def market_values_def)

lemma trigger_identity_sound:
  assumes n: "resolve_trigger spec plan ids side = Inr n" "resolve_trigger spec' plan' ids' side' = Inr n"
    and agree: "ids_agree ids fr ids' fr'" and market: "shared_market fr fr'"
    and c: "trigger_component spec = Inr (rule, cid)" "trigger_component spec' = Inr (rule', cid')"
    and a: "column_floats fr (anchor_columns plan) ''anchor'' = Inr a" "column_floats fr' (anchor_columns plan') ''anchor'' = Inr a'"
  shows "trigger_of rule cid fr a side = trigger_of rule' cid' fr' a' side'"
proof -
  obtain an ps where g: "side \<in> set VALID_SIDES" "role_node ids (anchor_columns plan) ''anchor'' = Inr an"
    "if cid = ''touch_anchor'' then ps = [] else \<exists>k. reclaim_lookback rule = Inr k \<and> 0 < k \<and> ps = [(''lookback'', PInt k)]"
    and ns: "node_spec (''trigger.'' @ cid) TRIGGER_NODE_VERSION ps [(''anchor'', Single an)] (Some side) = Inr n"
    by (rule resolve_trigger_Inr[OF n(1)]) (use c in auto)
  obtain an' ps' where g': "role_node ids' (anchor_columns plan') ''anchor'' = Inr an'"
    "if cid' = ''touch_anchor'' then ps' = [] else \<exists>k. reclaim_lookback rule' = Inr k \<and> 0 < k \<and> ps' = [(''lookback'', PInt k)]"
    and ns': "node_spec (''trigger.'' @ cid') TRIGGER_NODE_VERSION ps' [(''anchor'', Single an')] (Some side') = Inr n"
    by (rule resolve_trigger_Inr[OF n(2)]) (use c in auto)
  have eq: "cid' = cid" "side' = side" using node_spec_same_kind[OF ns ns'] by simp_all
  have "an = an'" by (rule same_dependency[OF ns ns', of "''anchor''"]) simp_all
  then have aa: "a' = a" using column_floats_agree[OF _ _ agree] g(2) g'(1) a by (simp add: role_node_def)
  have mk: "market_values msg fr f = market_values msg fr' f" for msg f by (rule trigger_market_shared[OF market])
  show ?thesis
  proof (cases "cid = ''touch_anchor''")
    case True
    then show ?thesis by (simp add: trigger_of_def eq aa touch_anchor_def mk)
  next
    case False
    then obtain k k' where k: "reclaim_lookback rule = Inr k" "ps = [(''lookback'', PInt k)]"
      "reclaim_lookback rule' = Inr k'" "ps' = [(''lookback'', PInt k')]" using g(3) g'(2) eq by auto
    have "k = k'" by (rule same_int_parameter[OF ns ns', of "''lookback''"]) (simp_all add: k)
    then show ?thesis using False k by (simp add: trigger_of_def eq aa rolling_reclaim_def mk)
  qed
qed

end
