(* ===== verification/ExitPolicy.thy ===== *)
theory ExitPolicy
  imports Triggers
begin

text \<open>
  The exit policy (\<open>exits.py\<close>): the signal and the distance of each exit rule, their aggregates per
  regime profile, and the selection of the profile in force on every bar.
\<close>

definition EXIT_SIGNAL_SUPPORTED :: "string list" where
  "EXIT_SIGNAL_SUPPORTED = [''no_signal_exit'', ''rsi_signal_exit'', ''ema_close_loss_exit'', ''ema_cross_loss_exit'']"
definition EXIT_DISTANCE_SUPPORTED :: "string list" where
  "EXIT_DISTANCE_SUPPORTED = [''atr_stop_loss'', ''atr_take_profit'', ''constant_usd_stop_loss'', ''constant_usd_take_profit'']"
definition ATR_DISTANCE_COMPONENTS :: "string list" where
  "ATR_DISTANCE_COMPONENTS = [''atr_stop_loss'', ''atr_take_profit'', ''atr_partial_take'']"
definition USD_DISTANCE_COMPONENTS :: "string list" where
  "USD_DISTANCE_COMPONENTS = [''constant_usd_stop_loss'', ''constant_usd_take_profit'']"

record exit_rule_evidence =
  re_instance_id :: string
  re_component_id :: string
  re_exit_kind :: string
  re_group :: string
  re_side :: "string option"
  re_signal :: "bool list option"
  re_distance_ratio :: "f64 option list option"

record partial_take_rule =
  pt_instance_id :: string
  pt_component_id :: string
  pt_group :: string
  pt_fraction_of_initial :: f64
  pt_pct :: "f64 option"
  pt_distance :: "f64 option list"

text \<open>What the aggregates of a profile, or the selection of a side, hold per bar.\<close>

record exit_sides =
  xs_signal :: "bool list"
  xs_stop_loss_ratio :: "f64 list"
  xs_take_profit_ratio :: "f64 list"
  xs_stop_loss_distance :: "f64 list"
  xs_take_profit_distance :: "f64 list"
  xs_ready :: "bool list"

record exit_policy_evaluation =
  xp_context_state :: "string list"
  xp_profile_long :: "string list"
  xp_profile_short :: "string list"
  xp_long :: exit_sides
  xp_short :: exit_sides
  xp_signal_by_profile_long :: "(string \<times> bool list) list"
  xp_signal_by_profile_short :: "(string \<times> bool list) list"
  xp_stop_loss_by_profile :: "(string \<times> f64 list) list"
  xp_take_profit_by_profile :: "(string \<times> f64 list) list"
  xp_rule_evidence :: "exit_rule_evidence list"
  xp_partial_takes :: "partial_take_rule list"

text \<open>\<open>_optional_floats\<close>\<close>

definition optional_float :: "f64 \<Rightarrow> f64 option" where
  "optional_float x = (case x of NaN \<Rightarrow> None | _ \<Rightarrow> Some x)"

definition optional_floats :: "f64 list \<Rightarrow> f64 option list" where
  "optional_floats xs = map optional_float xs"

section \<open>The wire form\<close>

definition wire_ratios :: "f64 option list \<Rightarrow> json" where
  "wire_ratios xs = JList (map wire_text xs)"

definition rule_evidence_to_wire :: "exit_rule_evidence \<Rightarrow> json" where
  "rule_evidence_to_wire e = JObj
     [(''instance_id'', JStr (re_instance_id e)), (''component_id'', JStr (re_component_id e)),
      (''exit_kind'', JStr (re_exit_kind e)), (''group'', JStr (re_group e)),
      (''side'', case re_side e of None \<Rightarrow> JNull | Some s \<Rightarrow> JStr s),
      (''signal'', case re_signal e of None \<Rightarrow> JNull | Some bs \<Rightarrow> wire_bools bs),
      (''distance_ratio'', case re_distance_ratio e of None \<Rightarrow> JNull | Some xs \<Rightarrow> wire_ratios xs),
      (''counters'', JObj
        [(''signal_count'', case re_signal e of None \<Rightarrow> JNull | Some bs \<Rightarrow> JInt (count_true bs)),
         (''ready_count'', case re_distance_ratio e of None \<Rightarrow> JNull
            | Some xs \<Rightarrow> JInt (count_true (map (\<lambda>x. x \<noteq> None) xs)))])]"

definition wire_texts :: "string list \<Rightarrow> json" where "wire_texts ts = JList (map JStr ts)"

definition wire_floats :: "f64 list \<Rightarrow> json" where "wire_floats xs = wire_ratios (optional_floats xs)"

definition both_sides :: "(exit_sides \<Rightarrow> json) \<Rightarrow> exit_policy_evaluation \<Rightarrow> json" where
  "both_sides f e = JObj [(''long'', f (xp_long e)), (''short'', f (xp_short e))]"

definition exit_policy_to_wire :: "exit_policy_evaluation \<Rightarrow> json" where
  "exit_policy_to_wire e = JObj
     [(''context_state'', wire_texts (xp_context_state e)), (''profile_long'', wire_texts (xp_profile_long e)),
      (''profile_short'', wire_texts (xp_profile_short e)), (''signal_exit'', both_sides (wire_bools \<circ> xs_signal) e),
      (''stop_loss_ratio'', both_sides (wire_floats \<circ> xs_stop_loss_ratio) e),
      (''take_profit_ratio'', both_sides (wire_floats \<circ> xs_take_profit_ratio) e),
      (''stop_ready'', both_sides (wire_bools \<circ> xs_ready) e),
      (''by_profile'', JObj
        [(''signal_long'', JObj (map (map_prod id wire_bools) (xp_signal_by_profile_long e))),
         (''signal_short'', JObj (map (map_prod id wire_bools) (xp_signal_by_profile_short e))),
         (''stop_loss_ratio'', JObj (map (map_prod id wire_floats) (xp_stop_loss_by_profile e))),
         (''take_profit_ratio'', JObj (map (map_prod id wire_floats) (xp_take_profit_by_profile e)))]),
      (''rules'', JList (map rule_evidence_to_wire (xp_rule_evidence e)))]"

section \<open>The data frame\<close>

text \<open>
  \<open>_frame_dataframe\<close>: the columns of the bars and of the planned series; a series under the name of
  a market field replaces it, and a series that does not align with the index is refused.
\<close>

type_synonym data_frame = "(string \<times> f64 list) list"

definition frame_dataframe :: "feature_frame \<Rightarrow> data_frame res" where
  "frame_dataframe fr =
     raise_if (length (frame_bars fr) \<noteq> length (frame_time_ms fr)) (InvalidRequest ''market bars unavailable for exit policy'')
     (raise_if (list_ex (\<lambda>s. length (snd s) \<noteq> length (frame_time_ms fr)) (frame_series fr))
       (PyValueError ''Length of values does not match length of index'')
       (Inr (map (map_prod id float_values) (frame_series fr) @
         [(''open'', map bar_open (frame_bars fr)), (''high'', map bar_high (frame_bars fr)),
          (''low'', map bar_low (frame_bars fr)), (''close'', map bar_close (frame_bars fr)),
          (''volume'', map bar_volume (frame_bars fr))])))"

definition df_column :: "data_frame \<Rightarrow> string \<Rightarrow> f64 list res" where
  "df_column df name = (case map_of df name of None \<Rightarrow> Inl (PyKeyError name) | Some xs \<Rightarrow> Inr xs)"

text \<open>A planned column that may be missing from the plan or from the frame.\<close>

definition planned_df_column :: "data_frame \<Rightarrow> string option \<Rightarrow> string \<Rightarrow> f64 list res" where
  "planned_df_column df oid msg =
     (case oid of None \<Rightarrow> Inl (InvalidRequest msg)
      | Some k \<Rightarrow> (case map_of df k of None \<Rightarrow> Inl (InvalidRequest msg) | Some xs \<Rightarrow> Inr xs))"

section \<open>Signals\<close>

definition exit_ema_column :: "json \<Rightarrow> ema_plan \<Rightarrow> string \<Rightarrow> string res" where
  "exit_ema_column raw plan path =
     bindR (require_mapping raw path) (\<lambda>payload.
     bindR (py_int (get payload ''period'')) (\<lambda>period.
     case map_of (ema_columns plan) (text_of payload ''timeframe'' ''base'', period) of
       None \<Rightarrow> Inl (InvalidRequest ''missing EMA mapping for exit'') | Some oid \<Rightarrow> Inr oid))"

definition exit_confirm_bars :: "obj \<Rightarrow> int res" where
  "exit_confirm_bars rule = py_int (get_or rule ''confirm_bars'' (JInt 1))"

definition require_confirm_bars :: "int \<Rightarrow> 'a res \<Rightarrow> 'a res" where
  "require_confirm_bars confirm k = raise_if (confirm < 1) (InvalidRequest ''confirm_bars must be >= 1'') k"

definition rsi_exit_key :: "obj \<Rightarrow> (string \<times> int) res" where
  "rsi_exit_key rule =
     bindR (require_mapping (get rule ''rsi'') ''exit.rsi'') (\<lambda>rsi.
     bindR (py_int (get_or rsi ''period'' (JInt 14))) (\<lambda>period. Inr (text_of rsi ''timeframe'' ''base'', period)))"

definition rsi_exit_threshold :: "obj \<Rightarrow> string \<Rightarrow> f64 res" where
  "rsi_exit_threshold rule side =
     (if side = ''long'' then
        (case get rule ''long_exit_above'' of
           JNull \<Rightarrow> Inl (InvalidRequest ''rsi_signal_exit requires long_exit_above'') | v \<Rightarrow> py_float v)
      else
        (case get rule ''short_exit_below'' of
           JNull \<Rightarrow> Inl (InvalidRequest ''rsi_signal_exit requires short_exit_below'') | v \<Rightarrow> py_float v))"

definition consecutive_true :: "bool list \<Rightarrow> int \<Rightarrow> bool list res" where
  "consecutive_true cond confirm =
     require_confirm_bars confirm (Inr (if confirm = 1 then cond else rolling_all (nat confirm) cond))"

text \<open>\<open>shift(1)\<close> of floats: nothing known before the first bar.\<close>

definition shift_floats :: "f64 list \<Rightarrow> f64 list" where
  "shift_floats xs = take (length xs) (NaN # xs)"

definition exit_rsi_signal :: "data_frame \<Rightarrow> obj \<Rightarrow> ema_plan \<Rightarrow> string \<Rightarrow> bool list res" where
  "exit_rsi_signal df rule plan side =
     bindR (rsi_exit_key rule) (\<lambda>key.
     bindR (planned_df_column df (map_of (rsi_columns plan) key) ''missing RSI mapping for exit'') (\<lambda>vs.
     bindR (rsi_exit_threshold rule side) (\<lambda>threshold.
     Inr (map (\<lambda>v. if side = ''long'' then fgt v threshold else flt v threshold) vs))))"

definition exit_close_signal :: "data_frame \<Rightarrow> obj \<Rightarrow> ema_plan \<Rightarrow> string \<Rightarrow> bool list res" where
  "exit_close_signal df rule plan side =
     bindR (exit_ema_column (get rule ''ema'') plan ''exit.ema'') (\<lambda>oid.
     bindR (df_column df oid) (\<lambda>ema.
     bindR (df_column df ''close'') (\<lambda>close.
     bindR (exit_confirm_bars rule) (\<lambda>confirm.
     consecutive_true (map2 (if side = ''long'' then flt else fgt) close ema) confirm))))"

definition exit_cross_signal :: "data_frame \<Rightarrow> obj \<Rightarrow> ema_plan \<Rightarrow> string \<Rightarrow> bool list res" where
  "exit_cross_signal df rule plan side =
     bindR (exit_ema_column (get rule ''fast_ema'') plan ''exit.fast_ema'') (\<lambda>foid.
     bindR (df_column df foid) (\<lambda>fast.
     bindR (exit_ema_column (get rule ''slow_ema'') plan ''exit.slow_ema'') (\<lambda>soid.
     bindR (df_column df soid) (\<lambda>slow.
     bindR (exit_confirm_bars rule) (\<lambda>confirm.
     (let adverse = map2 (if side = ''long'' then flt else fgt) fast slow;
          before = map2 (if side = ''long'' then fge else fle) (shift_floats fast) (shift_floats slow);
          cross = map2 (\<and>) adverse before in
      if confirm = 1 then Inr cross
      else bindR (consecutive_true adverse confirm) (\<lambda>hold. Inr (map2 (\<and>) hold (rolling_any (nat confirm) cross)))))))))"

definition signal_rule :: "data_frame \<Rightarrow> nat \<Rightarrow> obj \<Rightarrow> ema_plan \<Rightarrow> string \<Rightarrow> bool list res" where
  "signal_rule df n rule plan side =
     (let cid = text_of rule ''component_id'' [] in
      if cid = ''no_signal_exit'' then Inr (replicate n False)
      else if cid = ''rsi_signal_exit'' then exit_rsi_signal df rule plan side
      else if cid = ''ema_close_loss_exit'' then exit_close_signal df rule plan side
      else if cid = ''ema_cross_loss_exit'' then exit_cross_signal df rule plan side
      else Inl (InvalidRequest ''unsupported signal exit component''))"

section \<open>Distances\<close>

definition usd_distance :: "obj \<Rightarrow> f64 res" where
  "usd_distance rule =
     (case get rule ''usd_distance'' of
        JNull \<Rightarrow> Inl (InvalidRequest ''constant USD exit requires usd_distance'') | v \<Rightarrow> py_float v)"

definition positive_close :: "data_frame \<Rightarrow> f64 list res" where
  "positive_close df =
     bindR (df_column df ''close'') (\<lambda>close.
     raise_if (list_ex (\<lambda>c. fle c (Fin 0)) close) (InvalidRequest ''exit distance ratio requires positive close'') (Inr close))"

definition exit_pct :: "obj \<Rightarrow> f64 res" where
  "exit_pct rule = resolve_partial_take_pct rule (''exit['' @ text_of rule ''instance_id'' [] @ '']'')"

definition distance_and_ratio :: "data_frame \<Rightarrow> f64 list \<Rightarrow> (f64 list \<times> f64 list) res" where
  "distance_and_ratio df distance =
     bindR (positive_close df) (\<lambda>close. Inr (distance, map2 fdiv distance close))"

text \<open>\<open>_distance\<close>: the distance of a rule on every bar and its ratio to the close.\<close>

definition rule_distance :: "data_frame \<Rightarrow> nat \<Rightarrow> obj \<Rightarrow> ema_plan \<Rightarrow> (f64 list \<times> f64 list) res" where
  "rule_distance df n rule plan =
     (let cid = text_of rule ''component_id'' [] in
      if cid \<in> set ATR_DISTANCE_COMPONENTS then
        bindR (planned_df_column df (map_of (exit_distance_columns plan) (text_of rule ''instance_id'' []))
          ''missing ATR distance mapping for exit'') (distance_and_ratio df)
      else if cid \<in> set USD_DISTANCE_COMPONENTS then
        bindR (usd_distance rule) (\<lambda>d. distance_and_ratio df (replicate n d))
      else if cid = ''pct_partial_take'' then
        bindR (exit_pct rule) (\<lambda>pct.
        bindR (positive_close df) (\<lambda>close. Inr (map (\<lambda>c. fmul c pct) close, replicate n pct)))
      else Inl (InvalidRequest ''unsupported distance exit component''))"

section \<open>Rules\<close>

definition exit_rule_head :: "obj \<Rightarrow> (string \<times> string \<times> string \<times> string) res" where
  "exit_rule_head rule =
     (let inst = text_of rule ''instance_id'' []; cid = text_of rule ''component_id'' [];
          kind = text_of rule ''exit_kind'' ''signal'' in
      raise_if (inst = []) (InvalidRequest ''exit rule requires instance_id'')
      (if cid \<in> set EXIT_SIGNAL_SUPPORTED then
         raise_if (kind \<noteq> ''signal'') (InvalidRequest ''signal exit component requires exit_kind signal'')
           (Inr (inst, cid, kind, ''signal''))
       else if cid \<in> set EXIT_DISTANCE_SUPPORTED then
         raise_if (kind \<noteq> (if cid \<in> {''atr_stop_loss'', ''constant_usd_stop_loss''} then ''stop_loss'' else ''take_profit''))
           (InvalidRequest ''distance exit component has mismatched exit_kind'') (Inr (inst, cid, kind, ''distance''))
       else if cid \<in> set EXIT_PARTIAL_TAKE_SUPPORTED then
         raise_if (kind \<noteq> PARTIAL_TAKE_EXIT_KIND)
           (InvalidRequest ''partial take exit component requires exit_kind partial_take'')
           (Inr (inst, cid, kind, ''partial_take''))
       else Inl (InvalidRequest ''unsupported exit component'')))"

text \<open>The rule tables; a later rule of the same name replaces an earlier one.\<close>

record exit_tables =
  xt_signal_long :: "(string \<times> bool list) list"
  xt_signal_short :: "(string \<times> bool list) list"
  xt_distance :: "(string \<times> f64 list) list"
  xt_ratio :: "(string \<times> f64 list) list"
  xt_evidence :: "exit_rule_evidence list"
  xt_partial_takes :: "partial_take_rule list"

definition no_tables :: exit_tables where
  "no_tables = \<lparr>xt_signal_long = [], xt_signal_short = [], xt_distance = [], xt_ratio = [], xt_evidence = [],
     xt_partial_takes = []\<rparr>"

text \<open>The signal of one side, constantly false where the side is not enabled.\<close>

definition side_signal :: "data_frame \<Rightarrow> nat \<Rightarrow> string list \<Rightarrow> ema_plan \<Rightarrow> obj \<Rightarrow> string \<Rightarrow> bool list res" where
  "side_signal df n sides plan rule side =
     (if side \<in> set sides then signal_rule df n rule plan side else Inr (replicate n False))"

definition signal_evidence :: "string list \<Rightarrow> string \<Rightarrow> string \<times> string \<times> string \<Rightarrow> string \<Rightarrow> bool list \<Rightarrow> exit_rule_evidence list" where
  "signal_evidence sides grp head side s =
     (case head of (inst, cid, kind) \<Rightarrow>
        if side \<in> set sides then
          [\<lparr>re_instance_id = inst, re_component_id = cid, re_exit_kind = kind, re_group = grp, re_side = Some side,
            re_signal = Some s, re_distance_ratio = None\<rparr>] else [])"

definition add_signal_rule ::
  "data_frame \<Rightarrow> nat \<Rightarrow> string list \<Rightarrow> ema_plan \<Rightarrow> string \<Rightarrow> obj \<Rightarrow> string \<times> string \<times> string \<Rightarrow> exit_tables \<Rightarrow> exit_tables res" where
  "add_signal_rule df n sides plan grp rule head t =
     bindR (side_signal df n sides plan rule ''long'') (\<lambda>l.
     bindR (side_signal df n sides plan rule ''short'') (\<lambda>s.
     Inr (t\<lparr>xt_signal_long := (fst head, l) # xt_signal_long t, xt_signal_short := (fst head, s) # xt_signal_short t,
            xt_evidence := xt_evidence t @ signal_evidence sides grp head ''long'' l @
              signal_evidence sides grp head ''short'' s\<rparr>)))"

definition partial_take_of :: "string \<Rightarrow> obj \<Rightarrow> string \<times> string \<times> string \<Rightarrow> f64 list \<Rightarrow> partial_take_rule res" where
  "partial_take_of grp rule head distance =
     (case head of (inst, cid, kind) \<Rightarrow>
        bindR (resolve_partial_take_fraction rule (''exit['' @ inst @ '']'')) (\<lambda>fraction.
        bindR (if cid = ''pct_partial_take'' then bindR (exit_pct rule) (\<lambda>p. Inr (Some p)) else Inr None) (\<lambda>pct.
        Inr \<lparr>pt_instance_id = inst, pt_component_id = cid, pt_group = grp, pt_fraction_of_initial = fraction,
             pt_pct = pct, pt_distance = optional_floats distance\<rparr>)))"

definition add_distance_rule ::
  "data_frame \<Rightarrow> nat \<Rightarrow> ema_plan \<Rightarrow> string \<Rightarrow> obj \<Rightarrow> string \<times> string \<times> string \<Rightarrow> bool \<Rightarrow> exit_tables \<Rightarrow> exit_tables res" where
  "add_distance_rule df n plan grp rule head partial t =
     (case head of (inst, cid, kind) \<Rightarrow>
        bindR (rule_distance df n rule plan) (\<lambda>(distance, ratio).
        bindR (if partial then bindR (partial_take_of grp rule head distance) (\<lambda>p. Inr [p]) else Inr []) (\<lambda>takes.
        Inr (t\<lparr>xt_distance := (inst, distance) # xt_distance t, xt_ratio := (inst, ratio) # xt_ratio t,
               xt_evidence := xt_evidence t @ [\<lparr>re_instance_id = inst, re_component_id = cid, re_exit_kind = kind,
                 re_group = grp, re_side = None, re_signal = None, re_distance_ratio = Some (optional_floats ratio)\<rparr>],
               xt_partial_takes := xt_partial_takes t @ takes\<rparr>))))"

definition add_exit_rule ::
  "data_frame \<Rightarrow> nat \<Rightarrow> string list \<Rightarrow> ema_plan \<Rightarrow> exit_tables \<Rightarrow> string \<times> obj \<Rightarrow> exit_tables res" where
  "add_exit_rule df n sides plan t gr =
     bindR (exit_rule_head (snd gr)) (\<lambda>(inst, cid, kind, family).
     if family = ''signal'' then add_signal_rule df n sides plan (fst gr) (snd gr) (inst, cid, kind) t
     else add_distance_rule df n plan (fst gr) (snd gr) (inst, cid, kind) (family = ''partial_take'') t)"

text \<open>All rules with their group, in declared order.\<close>

definition grouped_rules :: "rule_groups \<Rightarrow> (string \<times> obj) list" where
  "grouped_rules groups = concat (map (\<lambda>(g, rs). map (Pair g) rs) groups)"

definition exit_tables_of :: "data_frame \<Rightarrow> nat \<Rightarrow> string list \<Rightarrow> ema_plan \<Rightarrow> rule_groups \<Rightarrow> exit_tables res" where
  "exit_tables_of df n sides plan groups = foldR (add_exit_rule df n sides plan) no_tables (grouped_rules groups)"

section \<open>Profiles\<close>

record profile_selection =
  sel_signal :: "string list"
  sel_stop_loss :: "string list"
  sel_take_profit :: "string list"
  sel_partial_take :: "string list"

definition stop_loss_configured :: "profile_selection \<Rightarrow> bool" where "stop_loss_configured s \<longleftrightarrow> sel_stop_loss s \<noteq> []"
definition take_profit_configured :: "profile_selection \<Rightarrow> bool" where "take_profit_configured s \<longleftrightarrow> sel_take_profit s \<noteq> []"

text \<open>The rules that are always on, then those of the profile, by their kind.\<close>

definition ids_of_kind :: "obj list \<Rightarrow> string \<Rightarrow> string \<Rightarrow> string list" where
  "ids_of_kind rules missing kind =
     map (\<lambda>r. text_of r ''instance_id'' ''None'') (filter (\<lambda>r. text_of r ''exit_kind'' missing = kind) rules)"

definition rules_of_group :: "rule_groups \<Rightarrow> string \<Rightarrow> obj list res" where
  "rules_of_group groups g = (case map_of groups g of None \<Rightarrow> Inl (PyKeyError g) | Some rs \<Rightarrow> Inr rs)"

definition profile_selection_of :: "rule_groups \<Rightarrow> string \<Rightarrow> profile_selection res" where
  "profile_selection_of groups profile =
     bindR (rules_of_group groups ''always_on'') (\<lambda>always.
     bindR (rules_of_group groups profile) (\<lambda>own.
     Inr \<lparr>sel_signal = ids_of_kind (always @ own) ''signal'' ''signal'',
          sel_stop_loss = ids_of_kind (always @ own) ''None'' ''stop_loss'',
          sel_take_profit = ids_of_kind (always @ own) ''None'' ''take_profit'',
          sel_partial_take = ids_of_kind (always @ own) ''None'' PARTIAL_TAKE_EXIT_KIND\<rparr>))"

text \<open>\<open>_or\<close>, and \<open>_min\<close>, which skips what is not a number.\<close>

definition or_signals :: "nat \<Rightarrow> bool list list \<Rightarrow> bool list" where
  "or_signals n signals = foldl (map2 (\<or>)) (replicate n False) signals"

definition nan_min :: "f64 \<Rightarrow> f64 \<Rightarrow> f64" where
  "nan_min a b = (if a = NaN then b else if b = NaN then a else if fle a b then a else b)"

definition min_ratios :: "nat \<Rightarrow> f64 list list \<Rightarrow> f64 list" where
  "min_ratios n ratios = foldl (map2 nan_min) (replicate n NaN) ratios"

definition not_na :: "f64 list \<Rightarrow> bool list" where "not_na xs = map (\<lambda>x. x \<noteq> NaN) xs"

text \<open>\<open>_ready\<close>: every protection that is configured is known on the bar.\<close>

definition protection_ready :: "f64 list \<Rightarrow> f64 list \<Rightarrow> profile_selection \<Rightarrow> f64 list list \<Rightarrow> bool list" where
  "protection_ready sl tp sel legs =
     foldl (map2 (\<and>)) (replicate (length sl) True)
       ((if stop_loss_configured sel then [not_na sl] else []) @ (if take_profit_configured sel then [not_na tp] else []) @
        map not_na legs)"

definition by_instance :: "(string \<times> 'a) list \<Rightarrow> string list \<Rightarrow> 'a list res" where
  "by_instance table ids =
     mapR (\<lambda>i. case map_of table i of None \<Rightarrow> Inl (PyKeyError i) | Some x \<Rightarrow> Inr x) ids"

record profile_aggregate =
  pa_signal_long :: "bool list"
  pa_signal_short :: "bool list"
  pa_stop_loss_ratio :: "f64 list"
  pa_take_profit_ratio :: "f64 list"
  pa_stop_loss_distance :: "f64 list"
  pa_take_profit_distance :: "f64 list"
  pa_ready :: "bool list"

definition profile_aggregate_of :: "nat \<Rightarrow> rule_groups \<Rightarrow> exit_tables \<Rightarrow> string \<Rightarrow> (string \<times> profile_aggregate) res" where
  "profile_aggregate_of n groups t profile =
     bindR (profile_selection_of groups profile) (\<lambda>sel.
     bindR (by_instance (xt_ratio t) (sel_partial_take sel)) (\<lambda>legs.
     bindR (by_instance (xt_signal_long t) (sel_signal sel)) (\<lambda>longs.
     bindR (by_instance (xt_signal_short t) (sel_signal sel)) (\<lambda>shorts.
     bindR (by_instance (xt_ratio t) (sel_stop_loss sel)) (\<lambda>slr.
     bindR (by_instance (xt_ratio t) (sel_take_profit sel)) (\<lambda>tpr.
     bindR (by_instance (xt_distance t) (sel_stop_loss sel)) (\<lambda>sld.
     bindR (by_instance (xt_distance t) (sel_take_profit sel)) (\<lambda>tpd.
     Inr (profile, \<lparr>pa_signal_long = or_signals n longs, pa_signal_short = or_signals n shorts,
       pa_stop_loss_ratio = min_ratios n slr, pa_take_profit_ratio = min_ratios n tpr,
       pa_stop_loss_distance = min_ratios n sld, pa_take_profit_distance = min_ratios n tpd,
       pa_ready = protection_ready (min_ratios n slr) (min_ratios n tpr) sel legs\<rparr>)))))))))"

text \<open>
  \<open>_select\<close> and \<open>_select_bool\<close>: on every bar the value of the profile in force there.  An unknown
  profile, or a profile list that does not align with the bars, raises.
\<close>

definition select_at :: "nat \<Rightarrow> string list \<Rightarrow> (string \<times> 'a list) list \<Rightarrow> 'a list res" where
  "select_at n profile table =
     bindR (mapR (\<lambda>p. raise_if (p \<notin> set PROFILE_ORDER) (PyKeyError p) (Inr p)) profile) (\<lambda>codes.
     raise_if (n < length profile) PyIndexError
     (raise_if (length profile < n) (PyValueError ''Length of values does not match length of index'')
       (mapR (\<lambda>i. case map_of table (codes ! i) of None \<Rightarrow> Inl (PyKeyError (codes ! i)) | Some xs \<Rightarrow> Inr (xs ! i)) [0 ..< n])))"

definition aggregates_by :: "(profile_aggregate \<Rightarrow> 'a) \<Rightarrow> (string \<times> profile_aggregate) list \<Rightarrow> (string \<times> 'a) list" where
  "aggregates_by f aggs = map (map_prod id f) aggs"

definition exit_side_of ::
  "nat \<Rightarrow> (string \<times> profile_aggregate) list \<Rightarrow> (profile_aggregate \<Rightarrow> bool list) \<Rightarrow> string list \<Rightarrow> exit_sides res" where
  "exit_side_of n aggs signal profile =
     bindR (select_at n profile (aggregates_by signal aggs)) (\<lambda>sg.
     bindR (select_at n profile (aggregates_by pa_stop_loss_ratio aggs)) (\<lambda>slr.
     bindR (select_at n profile (aggregates_by pa_take_profit_ratio aggs)) (\<lambda>tpr.
     bindR (select_at n profile (aggregates_by pa_stop_loss_distance aggs)) (\<lambda>sld.
     bindR (select_at n profile (aggregates_by pa_take_profit_distance aggs)) (\<lambda>tpd.
     bindR (select_at n profile (aggregates_by pa_ready aggs)) (\<lambda>ready.
     Inr \<lparr>xs_signal = sg, xs_stop_loss_ratio = slr, xs_take_profit_ratio = tpr, xs_stop_loss_distance = sld,
          xs_take_profit_distance = tpd, xs_ready = ready\<rparr>))))))"

text \<open>The regimes of the consumption record of the exit policy, neutral without one.\<close>

definition exit_profiles :: "consumption_record list \<Rightarrow> nat \<Rightarrow> (string list \<times> string list \<times> string list) res" where
  "exit_profiles records n =
     (case find (\<lambda>r. cr_role r = ''exit_policy'') records of
        None \<Rightarrow> Inr (replicate n ''neutral'', replicate n ''neutral'', replicate n ''neutral'')
      | Some r \<Rightarrow>
          (case (cr_profile_long r, cr_profile_short r) of
             (Some l, Some s) \<Rightarrow> Inr (cr_raw_state r, l, s) | _ \<Rightarrow> Inl PyAssertionError))"

definition evaluate_exit_policy ::
  "obj \<Rightarrow> feature_frame \<Rightarrow> ema_plan \<Rightarrow> consumption_record list \<Rightarrow> exit_policy_evaluation res" where
  "evaluate_exit_policy raw_spec fr plan records =
     (let n = length (frame_time_ms fr) in
      bindR (frame_dataframe fr) (\<lambda>df.
      bindR (resolve_enabled_sides raw_spec) (\<lambda>sides.
      bindR (resolve_exit_rule_groups raw_spec) (\<lambda>groups.
      bindR (exit_profiles records n) (\<lambda>(state, profile_long, profile_short).
      bindR (exit_tables_of df n sides plan groups) (\<lambda>t.
      bindR (mapR (profile_aggregate_of n groups t) PROFILE_ORDER) (\<lambda>aggs.
      bindR (exit_side_of n aggs pa_signal_long profile_long) (\<lambda>l.
      bindR (exit_side_of n aggs pa_signal_short profile_short) (\<lambda>s.
      Inr \<lparr>xp_context_state = state, xp_profile_long = profile_long, xp_profile_short = profile_short,
           xp_long = l, xp_short = s,
           xp_signal_by_profile_long = aggregates_by pa_signal_long aggs,
           xp_signal_by_profile_short = aggregates_by pa_signal_short aggs,
           xp_stop_loss_by_profile = aggregates_by pa_stop_loss_ratio aggs,
           xp_take_profit_by_profile = aggregates_by pa_take_profit_ratio aggs,
           xp_rule_evidence = xt_evidence t, xp_partial_takes = xt_partial_takes t\<rparr>)))))))))"

end
