(* ===== verification/Entries.thy ===== *)
theory Entries
  imports ExitPolicy "HOL-Library.AList"
begin

text \<open>
  Risk and final entries (\<open>risk.py\<close>), and the prices of a potential entry at the anchor with the
  stop and the take of the exit policy (\<open>potential_entries.py\<close>).
\<close>

section \<open>Risk\<close>

definition RISK_SUPPORTED :: "string list" where "RISK_SUPPORTED = [''no_risk_filter'']"

record risk_mask =
  rk_component_id :: string
  rk_side :: string
  rk_allowed :: "bool list"

record side_entry_evaluation =
  se_side :: string
  se_risk :: risk_mask
  se_entry_allowed :: "bool list"

definition risk_mask_to_wire :: "risk_mask \<Rightarrow> json" where
  "risk_mask_to_wire m = JObj
     [(''component_id'', JStr (rk_component_id m)), (''side'', JStr (rk_side m)), (''allowed'', wire_bools (rk_allowed m)),
      (''counters'', JObj
        [(''allowed_count'', JInt (count_true (rk_allowed m))),
         (''blocked_count'', JInt (int (length (rk_allowed m)) - count_true (rk_allowed m)))])]"

definition side_entry_to_wire :: "side_entry_evaluation \<Rightarrow> json" where
  "side_entry_to_wire s = JObj
     [(''side'', JStr (se_side s)), (''risk'', risk_mask_to_wire (se_risk s)),
      (''entry_allowed'', wire_bools (se_entry_allowed s)), (''entry_count'', JInt (count_true (se_entry_allowed s)))]"

definition side_entry :: "string \<Rightarrow> side_trigger_evaluation \<Rightarrow> side_entry_evaluation res" where
  "side_entry cid prior =
     (let risk = map (\<lambda>_. True) (st_pre_risk_entry_allowed prior) in
      bindR (and_pair (st_pre_risk_entry_allowed prior) risk) (\<lambda>ok.
      Inr \<lparr>se_side = st_side prior, se_risk = \<lparr>rk_component_id = cid, rk_side = st_side prior, rk_allowed = risk\<rparr>,
           se_entry_allowed = ok\<rparr>))"

definition evaluate_risk_and_entries :: "obj \<Rightarrow> side_trigger_evaluation list \<Rightarrow> side_entry_evaluation list res" where
  "evaluate_risk_and_entries raw_spec triggers =
     bindR (resolve_risk_component_id raw_spec) (\<lambda>cid.
     raise_if (cid \<notin> set RISK_SUPPORTED) (InvalidRequest ''unsupported risk component'') (mapR (side_entry cid) triggers))"

section \<open>Potential entries\<close>

record potential_entry =
  pe_side :: string
  pe_entry_price :: "f64 option list"
  pe_stop_price :: "f64 option list"
  pe_take_price :: "f64 option list"

definition anchor_values :: "feature_frame \<Rightarrow> ema_plan \<Rightarrow> f64 option list res" where
  "anchor_values fr plan =
     bindR (column_at (anchor_columns plan) ''anchor'') (\<lambda>oid.
     case map_of (frame_series fr) oid of
       None \<Rightarrow> Inl (InvalidRequest ''missing planned anchor feature series'') | Some vs \<Rightarrow> Inr vs)"

definition exit_side :: "exit_policy_evaluation \<Rightarrow> string \<Rightarrow> exit_sides" where
  "exit_side ep side = (if side = ''long'' then xp_long ep else xp_short ep)"

definition distances_for :: "exit_policy_evaluation \<Rightarrow> string \<Rightarrow> (f64 option list \<times> f64 option list) res" where
  "distances_for ep side =
     raise_if (side \<notin> set VALID_SIDES) (InvalidRequest ''trade side must be long or short'')
       (Inr (optional_floats (xs_stop_loss_distance (exit_side ep side)),
             optional_floats (xs_take_profit_distance (exit_side ep side))))"

definition positive_price :: "f64 \<Rightarrow> bool" where
  "positive_price x \<longleftrightarrow> isfinite x \<and> fgt x (Fin 0)"

text \<open>The prices of one bar: entry, stop and take, or none of them.\<close>

definition no_prices :: "f64 option \<times> f64 option \<times> f64 option" where "no_prices = (None, None, None)"

definition kept_prices :: "f64 \<Rightarrow> f64 \<Rightarrow> f64 \<Rightarrow> f64 option \<times> f64 option \<times> f64 option" where
  "kept_prices entry stop take_p =
     (if positive_price entry \<and> positive_price stop \<and> positive_price take_p
      then (Some entry, Some stop, Some take_p) else no_prices)"

definition price_bar ::
  "string \<Rightarrow> bool \<times> bool \<times> f64 option \<times> f64 option \<times> f64 option \<Rightarrow> (f64 option \<times> f64 option \<times> f64 option) res" where
  "price_bar side row =
     (case row of (ok, close_ok, anchor, stop_d, take_d) \<Rightarrow>
        case (anchor, stop_d, take_d) of
          (Some a, Some sd, Some td) \<Rightarrow>
            if \<not> ok \<or> \<not> close_ok \<or> \<not> (positive_price a \<and> positive_price sd \<and> positive_price td) then Inr no_prices
            else if side = ''long'' then Inr (kept_prices a (fsub a sd) (fadd a td))
            else if side = ''short'' then Inr (kept_prices a (fadd a sd) (fsub a td))
            else Inl (InvalidRequest ''trade side must be long or short'')
        | _ \<Rightarrow> Inr no_prices)"

definition project_side_entry ::
  "side_setup_evaluation \<Rightarrow> bool list \<Rightarrow> f64 option list \<Rightarrow> f64 option list \<Rightarrow> f64 option list \<Rightarrow> potential_entry res" where
  "project_side_entry s close_ok anchors stop_ds take_ds =
     (let n = length anchors in
      raise_if (length (ss_pre_trigger_allowed s) \<noteq> n \<or> length close_ok \<noteq> n \<or> length stop_ds \<noteq> n \<or> length take_ds \<noteq> n)
        (InvalidRequest ''potential entry inputs must share the bar axis'')
      (bindR (mapR (price_bar (ss_side s)) (zip (ss_pre_trigger_allowed s) (zip close_ok (zip anchors (zip stop_ds take_ds)))))
        (\<lambda>ps. Inr \<lparr>pe_side = ss_side s, pe_entry_price = map fst ps, pe_stop_price = map (fst \<circ> snd) ps,
                   pe_take_price = map (snd \<circ> snd) ps\<rparr>)))"

definition side_potential ::
  "(string \<times> side_trigger_evaluation) list \<Rightarrow> exit_policy_evaluation \<Rightarrow> f64 option list \<Rightarrow> side_setup_evaluation \<Rightarrow>
     potential_entry res" where
  "side_potential by_side ep anchors s =
     (case map_of by_side (ss_side s) of
        None \<Rightarrow> Inl (InvalidRequest ''missing trigger evaluation for potential entry side'')
      | Some t \<Rightarrow>
          bindR (distances_for ep (ss_side s)) (\<lambda>(stop_ds, take_ds).
          bindR (touch_anchor_close_ok t) (\<lambda>close_ok. project_side_entry s close_ok anchors stop_ds take_ds)))"

text \<open>Only touch triggers have potential entries; the result is a dictionary by side.\<close>

definition project_potential_entries ::
  "feature_frame \<Rightarrow> ema_plan \<Rightarrow> side_setup_evaluation list \<Rightarrow> side_trigger_evaluation list \<Rightarrow> exit_policy_evaluation \<Rightarrow>
     (string \<times> potential_entry) list res" where
  "project_potential_entries fr plan setups triggers ep =
     (let cids = remdups (map (tm_component_id \<circ> st_trigger) triggers); by_side = map (\<lambda>t. (st_side t, t)) triggers in
      raise_if (length cids \<noteq> 1) (InvalidRequest ''potential entry triggers must share one component'')
      (if cids \<noteq> [''touch_anchor''] then Inr []
       else raise_if (\<not> distinct (map st_side triggers)) (InvalidRequest ''potential entry triggers must have unique sides'')
         (bindR (anchor_values fr plan) (\<lambda>anchors.
          bindR (mapR (side_potential by_side ep anchors) setups) (\<lambda>es.
          (let out = foldl (\<lambda>d e. AList.update (pe_side e) e d) [] es in
           raise_if (set (map fst by_side) \<noteq> set (map fst out)) (InvalidRequest ''setup and trigger sides must match'') (Inr out)))))))"

definition potential_entry_to_wire :: "potential_entry \<Rightarrow> json" where
  "potential_entry_to_wire e = JObj
     [(''entry_price'', wire_ratios (pe_entry_price e)), (''stop_price'', wire_ratios (pe_stop_price e)),
      (''take_price'', wire_ratios (pe_take_price e))]"

definition potential_entries_to_wire :: "(string \<times> potential_entry) list \<Rightarrow> json" where
  "potential_entries_to_wire es = JObj (map (map_prod id potential_entry_to_wire) es)"

section \<open>The whole evaluation\<close>

text \<open>
  \<open>evaluate_ema_pullback_frame\<close> without its memo.  The episodes of the frame reach only the predicate
  layer, a parameter.
\<close>

record ema_evaluation =
  ev_contexts :: context_bundle
  ev_consumption :: "consumption_record list"
  ev_direction_blockers :: "side_direction_blockers list"
  ev_setups :: "side_setup_evaluation list"
  ev_triggers :: "side_trigger_evaluation list"
  ev_entries :: "side_entry_evaluation list"
  ev_exit_policy :: exit_policy_evaluation
  ev_potential_entries :: "(string \<times> potential_entry) list"

definition evaluate_ema_pullback_frame ::
  "predicate_functions \<Rightarrow> obj \<Rightarrow> feature_frame \<Rightarrow> rat market_bar list \<Rightarrow> ema_plan \<Rightarrow> ema_evaluation res" where
  "evaluate_ema_pullback_frame pf raw_spec fr decs plan =
     bindR (build_context_bundle raw_spec fr plan) (\<lambda>bundle.
     bindR (build_context_consumption_evidence raw_spec bundle) (\<lambda>records.
     bindR (evaluate_direction_and_blockers raw_spec fr decs plan records) (\<lambda>blockers.
     bindR (evaluate_setups pf raw_spec fr plan records blockers bundle) (\<lambda>setups.
     bindR (evaluate_triggers raw_spec fr plan setups) (\<lambda>triggers.
     bindR (evaluate_risk_and_entries raw_spec triggers) (\<lambda>entries.
     bindR (evaluate_exit_policy raw_spec fr plan records) (\<lambda>ep.
     bindR (project_potential_entries fr plan setups triggers ep) (\<lambda>potential.
     Inr \<lparr>ev_contexts = bundle, ev_consumption = records, ev_direction_blockers = blockers, ev_setups = setups,
          ev_triggers = triggers, ev_entries = entries, ev_exit_policy = ep, ev_potential_entries = potential\<rparr>))))))))"

end
