(* ===== verification/ExitCausality.thy ===== *)
theory ExitCausality
  imports TriggerFacts Entries
begin

text \<open>
  The exit policy and the entry prices of a frame cut short.
\<close>

section \<open>Columns and signals\<close>

definition cut_df :: "nat \<Rightarrow> data_frame \<Rightarrow> data_frame" where
  "cut_df n df = map (map_prod id (take n)) df"

lemma map_of_cut_df: "map_of (cut_df n df) k = map_option (take n) (map_of df k)"
  by (simp add: cut_df_def map_of_cut)

lemma df_column_cut: "df_column df name = Inr xs \<Longrightarrow> df_column (cut_df n df) name = Inr (take n xs)"
  by (auto simp: df_column_def map_of_cut_df split: option.splits)

lemma planned_df_column_cut: "planned_df_column df k msg = Inr xs \<Longrightarrow> planned_df_column (cut_df n df) k msg = Inr (take n xs)"
  by (auto simp: planned_df_column_def map_of_cut_df split: option.splits)

lemma frame_dataframe_cut:
  assumes "frame_dataframe fr = Inr df"
  shows "frame_dataframe (cut_frame n fr) = Inr (cut_df n df)"
proof -
  have "length (frame_bars fr) = length (frame_time_ms fr)" "\<not> list_ex (\<lambda>s. length (snd s) \<noteq> length (frame_time_ms fr)) (frame_series fr)"
    using assms by (auto simp: frame_dataframe_def raise_if_Inr)
  moreover have "float_values (take n xs) = take n (float_values xs)" for xs by (simp add: float_values_def take_map)
  moreover have "map (map_prod id float_values) (map (map_prod id (take n)) ss) = map (map_prod id (take n)) (map (map_prod id float_values) ss)" for ss
    by (induction ss) (auto simp: float_values_def take_map)
  ultimately show ?thesis using assms
    by (auto simp: frame_dataframe_def raise_if_Inr cut_frame_def cut_df_def take_map list_ex_iff)
qed

lemma shift_floats_cut: "shift_floats (take n xs) = take n (shift_floats xs)"
  by (rule list_eq_nthI) (auto simp: shift_floats_def nth_Cons split: nat.splits)

lemma consecutive_true_cut: "consecutive_true c k = Inr s \<Longrightarrow> consecutive_true (take n c) k = Inr (take n s)"
  by (auto simp: consecutive_true_def require_confirm_bars_def raise_if_Inr rolling_take)

lemma rsi_signal_cut: "exit_rsi_signal df rule plan side = Inr s \<Longrightarrow> exit_rsi_signal (cut_df n df) rule plan side = Inr (take n s)"
  by (auto simp: exit_rsi_signal_def bindR_Inr planned_df_column_cut[where n = n] take_map)

lemma close_signal_cut: "exit_close_signal df rule plan side = Inr s \<Longrightarrow> exit_close_signal (cut_df n df) rule plan side = Inr (take n s)"
  by (auto simp: exit_close_signal_def bindR_Inr df_column_cut[where n = n] map2_cut consecutive_true_cut[where n = n] simp del: take_map)

lemma cross_signal_cut:
  assumes "exit_cross_signal df rule plan side = Inr s"
  shows "exit_cross_signal (cut_df n df) rule plan side = Inr (take n s)"
proof -
  obtain fo f so sl k where g: "exit_ema_column (get rule ''fast_ema'') plan ''exit.fast_ema'' = Inr fo" "df_column df fo = Inr f"
    "exit_ema_column (get rule ''slow_ema'') plan ''exit.slow_ema'' = Inr so" "df_column df so = Inr sl" "exit_confirm_bars rule = Inr k"
    using assms by (auto simp: exit_cross_signal_def bindR_Inr)
  define adverse where "adverse = map2 (if side = ''long'' then flt else fgt) f sl"
  define before where "before = map2 (if side = ''long'' then fge else fle) (shift_floats f) (shift_floats sl)"
  have c: "map2 (if side = ''long'' then flt else fgt) (take n f) (take n sl) = take n adverse"
    "map2 (if side = ''long'' then fge else fle) (shift_floats (take n f)) (shift_floats (take n sl)) = take n before"
    unfolding adverse_def before_def shift_floats_cut by (simp_all only: map2_cut)
  note reads = g df_column_cut[OF g(2), of n] df_column_cut[OF g(4), of n] bindR_simps
  show ?thesis
  proof (cases "k = 1")
    case True
    have "s = map2 (\<and>) adverse before"
      using assms True unfolding exit_cross_signal_def Let_def reads adverse_def before_def by simp
    then show ?thesis using True unfolding exit_cross_signal_def Let_def reads c unfolding map2_cut by simp
  next
    case False
    obtain hold where h: "consecutive_true adverse k = Inr hold" "s = map2 (\<and>) hold (rolling_any (nat k) (map2 (\<and>) adverse before))"
      using assms False unfolding exit_cross_signal_def Let_def reads adverse_def[symmetric] before_def[symmetric]
      by (auto simp: bindR_Inr)
    show ?thesis using False unfolding exit_cross_signal_def Let_def reads c unfolding map2_cut
      by (simp add: consecutive_true_cut[OF h(1)] rolling_take map2_cut h(2) del: take_map)
  qed
qed

lemma replicate_cut: "replicate (min n k) x = take n (replicate k x)"
  by simp

lemma signal_rule_cut: "signal_rule df k rule plan side = Inr s \<Longrightarrow> signal_rule (cut_df n df) (min n k) rule plan side = Inr (take n s)"
  by (auto simp: signal_rule_def Let_def rsi_signal_cut[where n = n] close_signal_cut[where n = n] cross_signal_cut[where n = n] split: if_splits)

lemma side_signal_cut:
  "side_signal df k sides plan rule side = Inr s \<Longrightarrow> side_signal (cut_df n df) (min n k) sides plan rule side = Inr (take n s)"
  by (auto simp: side_signal_def signal_rule_cut[where n = n] split: if_splits)

section \<open>Distances\<close>

lemma positive_close_cut: "positive_close df = Inr c \<Longrightarrow> positive_close (cut_df n df) = Inr (take n c)"
  by (auto simp: positive_close_def bindR_Inr raise_if_Inr df_column_cut[where n = n] list_ex_iff dest: in_set_takeD)

lemma distance_and_ratio_cut:
  "distance_and_ratio df d = Inr (x, r) \<Longrightarrow> distance_and_ratio (cut_df n df) (take n d) = Inr (take n x, take n r)"
  by (auto simp: distance_and_ratio_def bindR_Inr positive_close_cut[where n = n] map2_cut simp del: take_map)

lemma rule_distance_cut:
  "rule_distance df k rule plan = Inr (d, r) \<Longrightarrow> rule_distance (cut_df n df) (min n k) rule plan = Inr (take n d, take n r)"
  by (auto simp: rule_distance_def Let_def bindR_Inr planned_df_column_cut[where n = n] replicate_cut take_map distance_and_ratio_cut[where n = n] positive_close_cut[where n = n]
      simp del: take_replicate split: if_splits)

section \<open>Tables\<close>

definition cut_evidence :: "nat \<Rightarrow> exit_rule_evidence \<Rightarrow> exit_rule_evidence" where
  "cut_evidence n e = e\<lparr>re_signal := map_option (take n) (re_signal e), re_distance_ratio := map_option (take n) (re_distance_ratio e)\<rparr>"

definition cut_partial :: "nat \<Rightarrow> partial_take_rule \<Rightarrow> partial_take_rule" where
  "cut_partial n p = p\<lparr>pt_distance := take n (pt_distance p)\<rparr>"

definition cut_tables :: "nat \<Rightarrow> exit_tables \<Rightarrow> exit_tables" where
  "cut_tables n t = \<lparr>xt_signal_long = map (map_prod id (take n)) (xt_signal_long t),
     xt_signal_short = map (map_prod id (take n)) (xt_signal_short t), xt_distance = map (map_prod id (take n)) (xt_distance t),
     xt_ratio = map (map_prod id (take n)) (xt_ratio t), xt_evidence = map (cut_evidence n) (xt_evidence t),
     xt_partial_takes = map (cut_partial n) (xt_partial_takes t)\<rparr>"

lemma add_signal_rule_cut:
  "add_signal_rule df k sides plan g rule h t = Inr u \<Longrightarrow>
     add_signal_rule (cut_df n df) (min n k) sides plan g rule h (cut_tables n t) = Inr (cut_tables n u)"
  by (cases h) (auto simp: add_signal_rule_def bindR_Inr side_signal_cut[where n = n] cut_tables_def signal_evidence_def cut_evidence_def)

lemma partial_take_of_cut:
  "partial_take_of g rule h d = Inr p \<Longrightarrow> partial_take_of g rule h (take n d) = Inr (cut_partial n p)"
  by (cases h) (auto simp: partial_take_of_def bindR_Inr cut_partial_def optional_floats_def take_map)

lemma add_distance_rule_cut:
  "add_distance_rule df k plan g rule h b t = Inr u \<Longrightarrow>
     add_distance_rule (cut_df n df) (min n k) plan g rule h b (cut_tables n t) = Inr (cut_tables n u)"
  by (cases h; cases b) (auto simp: add_distance_rule_def bindR_Inr rule_distance_cut[where n = n] partial_take_of_cut[where n = n] cut_tables_def cut_evidence_def
      optional_floats_def take_map split: if_splits)

lemma add_exit_rule_cut:
  "add_exit_rule df k sides plan t gr = Inr u \<Longrightarrow> add_exit_rule (cut_df n df) (min n k) sides plan (cut_tables n t) gr = Inr (cut_tables n u)"
  by (cases "exit_rule_head (snd gr)")
    (auto simp: add_exit_rule_def add_signal_rule_cut[where n = n] add_distance_rule_cut[where n = n] split: if_splits prod.splits)

lemma foldR_cut:
  assumes "\<And>s x u. f s x = Inr u \<Longrightarrow> g (c s) x = Inr (c u)"
  shows "foldR f s xs = Inr u \<Longrightarrow> foldR g (c s) xs = Inr (c u)"
  by (induction xs arbitrary: s) (auto simp: bindR_Inr assms)

lemma exit_tables_cut:
  "exit_tables_of df k sides plan groups = Inr t \<Longrightarrow> exit_tables_of (cut_df n df) (min n k) sides plan groups = Inr (cut_tables n t)"
  using foldR_cut[of "add_exit_rule df k sides plan" "add_exit_rule (cut_df n df) (min n k) sides plan" "cut_tables n", OF add_exit_rule_cut,
      of no_tables "grouped_rules groups" t]
  by (simp add: exit_tables_of_def cut_tables_def no_tables_def)

section \<open>Profiles\<close>

lemma foldl_map2_take: "foldl (map2 f) (take n z) (map (take n) rs) = take n (foldl (map2 f) z rs)"
  by (induction rs arbitrary: z) (simp_all only: foldl.simps list.map map2_cut)

lemma or_signals_cut: "or_signals (min n k) (map (take n) rs) = take n (or_signals k rs)"
  unfolding or_signals_def replicate_cut by (rule foldl_map2_take)

lemma min_ratios_cut: "min_ratios (min n k) (map (take n) rs) = take n (min_ratios k rs)"
  unfolding min_ratios_def replicate_cut by (rule foldl_map2_take)

lemma protection_ready_cut:
  "protection_ready (take n sl) (take n tp) sel (map (take n) legs) = take n (protection_ready sl tp sel legs)"
proof -
  let ?masks = "\<lambda>sl tp legs. (if stop_loss_configured sel then [not_na sl] else []) @
    (if take_profit_configured sel then [not_na tp] else []) @ map not_na legs"
  have m: "?masks (take n sl) (take n tp) (map (take n) legs) = map (take n) (?masks sl tp legs)"
    by (simp add: not_na_def take_map)
  have r: "replicate (length (take n sl)) True = take n (replicate (length sl) True)" by (simp add: min.commute)
  show ?thesis unfolding protection_ready_def m r by (rule foldl_map2_take)
qed

lemma by_instance_cut: "by_instance tb ids = Inr xs \<Longrightarrow> by_instance (map (map_prod id (take n)) tb) ids = Inr (map (take n) xs)"
  unfolding by_instance_def by (rule mapR_cut) (auto simp: map_of_cut split: option.splits)

definition cut_aggregate :: "nat \<Rightarrow> profile_aggregate \<Rightarrow> profile_aggregate" where
  "cut_aggregate n a = \<lparr>pa_signal_long = take n (pa_signal_long a), pa_signal_short = take n (pa_signal_short a),
     pa_stop_loss_ratio = take n (pa_stop_loss_ratio a), pa_take_profit_ratio = take n (pa_take_profit_ratio a),
     pa_stop_loss_distance = take n (pa_stop_loss_distance a), pa_take_profit_distance = take n (pa_take_profit_distance a),
     pa_ready = take n (pa_ready a)\<rparr>"

lemma profile_aggregate_cut:
  assumes "profile_aggregate_of k groups t profile = Inr pa"
  shows "profile_aggregate_of (min n k) groups (cut_tables n t) profile = Inr (map_prod id (cut_aggregate n) pa)"
proof -
  obtain sel legs longs shorts slr tpr sld tpd where g: "profile_selection_of groups profile = Inr sel"
    "by_instance (xt_ratio t) (sel_partial_take sel) = Inr legs" "by_instance (xt_signal_long t) (sel_signal sel) = Inr longs"
    "by_instance (xt_signal_short t) (sel_signal sel) = Inr shorts" "by_instance (xt_ratio t) (sel_stop_loss sel) = Inr slr"
    "by_instance (xt_ratio t) (sel_take_profit sel) = Inr tpr" "by_instance (xt_distance t) (sel_stop_loss sel) = Inr sld"
    "by_instance (xt_distance t) (sel_take_profit sel) = Inr tpd"
    and pa: "pa = (profile, \<lparr>pa_signal_long = or_signals k longs, pa_signal_short = or_signals k shorts,
       pa_stop_loss_ratio = min_ratios k slr, pa_take_profit_ratio = min_ratios k tpr,
       pa_stop_loss_distance = min_ratios k sld, pa_take_profit_distance = min_ratios k tpd,
       pa_ready = protection_ready (min_ratios k slr) (min_ratios k tpr) sel legs\<rparr>)"
    using assms by (auto simp: profile_aggregate_of_def bindR_Inr)
  note t = g(2-8)[THEN by_instance_cut[where n = n]]
  show ?thesis unfolding profile_aggregate_of_def cut_tables_def exit_tables.simps g(1) bindR_simps t
    by (simp only: or_signals_cut min_ratios_cut protection_ready_cut) (simp add: pa cut_aggregate_def)
qed

section \<open>The profile in force\<close>

lemma select_at_cut:
  assumes "select_at k profile tb = Inr out"
  shows "select_at (min n k) (take n profile) (map (map_prod id (take n)) tb) = Inr (take n out)"
proof -
  obtain codes where c: "mapR (\<lambda>p. raise_if (p \<notin> set PROFILE_ORDER) (PyKeyError p) (Inr p)) profile = Inr codes"
    and l: "length profile = k"
    and o: "mapR (\<lambda>i. case map_of tb (codes ! i) of None \<Rightarrow> Inl (PyKeyError (codes ! i)) | Some xs \<Rightarrow> Inr (xs ! i)) [0 ..< k] = Inr out"
    using assms by (auto simp: select_at_def bindR_Inr raise_if_Inr)
  have len: "length (take n profile) = min n k" using l by (simp add: min.commute)
  have "mapR (\<lambda>i. case map_of (map (map_prod id (take n)) tb) (take n codes ! i) of None \<Rightarrow> Inl (PyKeyError (take n codes ! i)) | Some xs \<Rightarrow> Inr (xs ! i)) [0 ..< min n k] =
    mapR (\<lambda>i. case map_of tb (codes ! i) of None \<Rightarrow> Inl (PyKeyError (codes ! i)) | Some xs \<Rightarrow> Inr (xs ! i)) [0 ..< min n k]"
    by (rule mapR_cong) (auto simp: map_of_cut split: option.splits)
  also have "\<dots> = Inr (take n out)" unfolding upt_cut by (rule mapR_take[OF o])
  finally show ?thesis unfolding select_at_def mapR_take[OF c] bindR_simps len by (simp add: raise_if_def)
qed

lemma aggregates_by_cut:
  assumes "\<And>a. f (cut_aggregate n a) = take n (f a)"
  shows "aggregates_by f (map (map_prod id (cut_aggregate n)) aggs) = map (map_prod id (take n)) (aggregates_by f aggs)"
  by (induction aggs) (auto simp: aggregates_by_def assms)

definition cut_sides :: "nat \<Rightarrow> exit_sides \<Rightarrow> exit_sides" where
  "cut_sides n x = \<lparr>xs_signal = take n (xs_signal x), xs_stop_loss_ratio = take n (xs_stop_loss_ratio x),
     xs_take_profit_ratio = take n (xs_take_profit_ratio x), xs_stop_loss_distance = take n (xs_stop_loss_distance x),
     xs_take_profit_distance = take n (xs_take_profit_distance x), xs_ready = take n (xs_ready x)\<rparr>"

lemma exit_side_cut:
  assumes "exit_side_of k aggs sg profile = Inr x" "\<And>a. sg (cut_aggregate n a) = take n (sg a)"
  shows "exit_side_of (min n k) (map (map_prod id (cut_aggregate n)) aggs) sg (take n profile) = Inr (cut_sides n x)"
proof -
  have f: "\<And>a. pa_stop_loss_ratio (cut_aggregate n a) = take n (pa_stop_loss_ratio a)"
    "\<And>a. pa_take_profit_ratio (cut_aggregate n a) = take n (pa_take_profit_ratio a)"
    "\<And>a. pa_stop_loss_distance (cut_aggregate n a) = take n (pa_stop_loss_distance a)"
    "\<And>a. pa_take_profit_distance (cut_aggregate n a) = take n (pa_take_profit_distance a)"
    "\<And>a. pa_ready (cut_aggregate n a) = take n (pa_ready a)" by (simp_all add: cut_aggregate_def)
  show ?thesis using assms(1)
    by (auto simp: exit_side_of_def bindR_Inr aggregates_by_cut[of sg n, OF assms(2)] aggregates_by_cut[of pa_stop_loss_ratio n, OF f(1)]
        aggregates_by_cut[of pa_take_profit_ratio n, OF f(2)] aggregates_by_cut[of pa_stop_loss_distance n, OF f(3)] aggregates_by_cut[of pa_take_profit_distance n, OF f(4)]
        aggregates_by_cut[of pa_ready n, OF f(5)] select_at_cut[where n = n] cut_sides_def)
qed

lemma exit_profiles_cut:
  "exit_profiles records k = Inr (st, l, s) \<Longrightarrow> exit_profiles (map (cut_record n) records) (min n k) = Inr (take n st, take n l, take n s)"
proof -
  assume a: "exit_profiles records k = Inr (st, l, s)"
  have "find (\<lambda>r. cr_role r = ''exit_policy'') (map (cut_record n) records) =
    map_option (cut_record n) (find (\<lambda>r. cr_role r = ''exit_policy'') records)"
    by (induction records) (simp_all add: cut_record_def)
  then show ?thesis using a by (auto simp: exit_profiles_def cut_record_def split: option.splits)
qed

section \<open>The exit policy\<close>

definition cut_exit :: "nat \<Rightarrow> exit_policy_evaluation \<Rightarrow> exit_policy_evaluation" where
  "cut_exit n e = \<lparr>xp_context_state = take n (xp_context_state e), xp_profile_long = take n (xp_profile_long e),
     xp_profile_short = take n (xp_profile_short e), xp_long = cut_sides n (xp_long e), xp_short = cut_sides n (xp_short e),
     xp_signal_by_profile_long = map (map_prod id (take n)) (xp_signal_by_profile_long e),
     xp_signal_by_profile_short = map (map_prod id (take n)) (xp_signal_by_profile_short e),
     xp_stop_loss_by_profile = map (map_prod id (take n)) (xp_stop_loss_by_profile e),
     xp_take_profit_by_profile = map (map_prod id (take n)) (xp_take_profit_by_profile e),
     xp_rule_evidence = map (cut_evidence n) (xp_rule_evidence e), xp_partial_takes = map (cut_partial n) (xp_partial_takes e)\<rparr>"

lemma exit_policy_cut:
  assumes "evaluate_exit_policy raw_spec fr plan records = Inr e"
  shows "evaluate_exit_policy raw_spec (cut_frame n fr) plan (map (cut_record n) records) = Inr (cut_exit n e)"
proof -
  let ?k = "length (frame_time_ms fr)"
  obtain df sides groups st pl ps t aggs l s where g: "frame_dataframe fr = Inr df" "resolve_enabled_sides raw_spec = Inr sides"
    "resolve_exit_rule_groups raw_spec = Inr groups" "exit_profiles records ?k = Inr (st, pl, ps)"
    "exit_tables_of df ?k sides plan groups = Inr t" "mapR (profile_aggregate_of ?k groups t) PROFILE_ORDER = Inr aggs"
    "exit_side_of ?k aggs pa_signal_long pl = Inr l" "exit_side_of ?k aggs pa_signal_short ps = Inr s"
    and e: "e = \<lparr>xp_context_state = st, xp_profile_long = pl, xp_profile_short = ps, xp_long = l, xp_short = s,
           xp_signal_by_profile_long = aggregates_by pa_signal_long aggs,
           xp_signal_by_profile_short = aggregates_by pa_signal_short aggs,
           xp_stop_loss_by_profile = aggregates_by pa_stop_loss_ratio aggs,
           xp_take_profit_by_profile = aggregates_by pa_take_profit_ratio aggs,
           xp_rule_evidence = xt_evidence t, xp_partial_takes = xt_partial_takes t\<rparr>"
    using assms by (auto simp: evaluate_exit_policy_def Let_def bindR_Inr)
  have aggs': "mapR (profile_aggregate_of (min n ?k) groups (cut_tables n t)) PROFILE_ORDER = Inr (map (map_prod id (cut_aggregate n)) aggs)"
    by (rule mapR_cut[OF g(6)]) (rule profile_aggregate_cut)
  have f: "\<And>a. pa_signal_long (cut_aggregate n a) = take n (pa_signal_long a)"
    "\<And>a. pa_signal_short (cut_aggregate n a) = take n (pa_signal_short a)"
    "\<And>a. pa_stop_loss_ratio (cut_aggregate n a) = take n (pa_stop_loss_ratio a)"
    "\<And>a. pa_take_profit_ratio (cut_aggregate n a) = take n (pa_take_profit_ratio a)" by (simp_all add: cut_aggregate_def)
  note reads = frame_dataframe_cut[OF g(1), of n] g(2,3) exit_profiles_cut[OF g(4), of n] exit_tables_cut[OF g(5), of n] aggs'
    exit_side_cut[of ?k aggs pa_signal_long, OF g(7) f(1)] exit_side_cut[of ?k aggs pa_signal_short, OF g(8) f(2)] bindR_simps cut_frame_times prod.case
  show ?thesis unfolding evaluate_exit_policy_def Let_def reads
    by (simp add: e cut_exit_def cut_tables_def aggregates_by_cut[of pa_signal_long n, OF f(1)] aggregates_by_cut[of pa_signal_short n, OF f(2)]
        aggregates_by_cut[of pa_stop_loss_ratio n, OF f(3)] aggregates_by_cut[of pa_take_profit_ratio n, OF f(4)])
qed

end
