(* ===== verification/DecimalText.thy ===== *)
theory DecimalText
  imports ContextStates
begin

text \<open>
  Decimal text (\<open>domain/values.py\<close>): reading it, the normalized text of a decimal, and the round trip
  between them.  A finite decimal is the rational it denotes; \<open>normalize()\<close> rounds to the 28 digits
  of the default context.  Exponents are those of practical size, below \<open>10\<^sup>1\<^sup>8\<close>.
\<close>

section \<open>Normalized text\<close>

text \<open>
  The fewest decimal places of a decimal: every place takes the common factors with ten out of the
  denominator.
\<close>

function places_of :: "nat \<Rightarrow> nat" where
  "places_of d = (if d = 0 \<or> coprime d 10 then 0 else Suc (places_of (d div gcd d 10)))"
  by auto
termination
proof (relation "measure id")
  fix d :: nat
  assume "\<not> (d = 0 \<or> coprime d 10)"
  then have "0 < d" "gcd d 10 \<noteq> 1" "gcd d 10 \<noteq> 0" by (auto simp: coprime_iff_gcd_eq_1)
  then have "1 < gcd d 10" by linarith
  then have "d div gcd d 10 < d" using \<open>0 < d\<close> by (intro div_less_dividend)
  then show "(d div gcd d 10, d) \<in> measure id" by simp
qed simp

declare places_of.simps [simp del]

definition decimal_places :: "rat \<Rightarrow> nat" where
  "decimal_places q = places_of (nat (snd (quotient_of q)))"

definition decimal_text :: "rat \<Rightarrow> string" where
  "decimal_text q =
     (let n = decimal_places q; ds = show_nat (nat \<lfloor>\<bar>q\<bar> * 10 ^ n\<rfloor>); padded = zeros (Suc n - length ds) @ ds;
          cut = length padded - n; sign = (if q < 0 then ''-'' else []) in
      if n = 0 then sign @ ds else sign @ take cut padded @ ''.'' @ drop cut padded)"

definition normalized_decimal_text :: "rat \<Rightarrow> string" where
  "normalized_decimal_text q = decimal_text (dec_round q)"

section \<open>Reading\<close>

text \<open>\<open>Decimal(text)\<close>: outer white space and every underscore are dropped.\<close>

definition nan_text :: "string \<Rightarrow> bool" where
  "nan_text low \<longleftrightarrow> (\<exists>p \<in> {''nan'', ''snan''}. take (length p) low = p \<and> list_all is_digit (drop (length p) low))"

definition decimal_body :: "string \<Rightarrow> string" where
  "decimal_body t = (if take 1 t = ''-'' \<or> take 1 t = ''+'' then drop 1 t else t)"

definition parse_decimal_text :: "string \<Rightarrow> rat res" where
  "parse_decimal_text s =
     (let t = filter (\<lambda>c. c \<noteq> CHR ''_'') (strip_by py_space s); body = decimal_body t; low = map lower_char body in
      if low = ''inf'' \<or> low = ''infinity'' \<or> nan_text low then Inl (InvalidRequest ''decimal value must be finite'')
      else (case read_decimal body of
          None \<Rightarrow> Inl (InvalidRequest ''invalid decimal text'')
        | Some q \<Rightarrow> Inr (if take 1 t = ''-'' then - q else q)))"

definition parse_normalized_decimal_text :: "string \<Rightarrow> rat res" where
  "parse_normalized_decimal_text s =
     bindR (parse_decimal_text s) (\<lambda>q.
     raise_if (s \<noteq> normalized_decimal_text q) (InvalidRequest ''decimal text must be normalized'') (Inr q))"

section \<open>Powers of ten\<close>

lemma ten_pow_powi: "ten_pow e = 10 powi e"
  by (simp add: ten_pow_def power_int_def inverse_eq_divide power_one_over)

lemma ten_add: "(10 :: rat) powi a * 10 powi b = 10 powi (a + b)"
  by (simp add: power_int_add)

lemma ten_less: "(10 :: rat) powi a < 10 powi b \<longleftrightarrow> a < b"
  using power_int_strict_increasing[of a b "10 :: rat"] power_int_increasing[of b a "10 :: rat"] by (auto simp: not_less[symmetric])

lemma ten_nat: "(10 :: rat) ^ n = 10 powi int n"
  by simp

lemma ten_shift: "of_int (10 ^ n) * (10 :: rat) powi e = 10 powi (int n + e)"
  by (simp only: of_int_power of_int_numeral ten_nat ten_add)

lemma show_pos_bounds:
  assumes "1 \<le> n"
  shows "10 ^ (length (show_pos n) - 1) \<le> n \<and> n < 10 ^ length (show_pos n) \<and> show_pos n \<noteq> []"
  using assms
proof (induction n rule: show_pos.induct)
  case (1 n)
  show ?case
  proof (cases "n < 10")
    case True
    then show ?thesis using 1 by (simp add: show_pos.simps)
  next
    case False
    let ?l = "length (show_pos (n div 10))"
    have ih: "10 ^ (?l - 1) \<le> n div 10" "n div 10 < 10 ^ ?l" "show_pos (n div 10) \<noteq> []" using 1 False by auto
    then obtain l where l: "?l = Suc l" by (cases ?l) auto
    have "n < 10 * 10 ^ ?l" "10 * 10 ^ (?l - 1) \<le> n" using ih(1,2) by linarith+
    then show ?thesis using False l by (subst (1 2 3) show_pos.simps) simp
  qed
qed

lemma dec_exp_bounds:
  assumes "0 < x"
  shows "10 powi (dec_exp x - 1) \<le> x \<and> x < 10 powi (dec_exp x)"
proof (cases "1 \<le> x")
  case True
  then have f: "1 \<le> \<lfloor>x\<rfloor>" by simp
  note b = show_pos_bounds[OF f]
  define l where "l = length (show_pos \<lfloor>x\<rfloor>)"
  have "(10 :: rat) ^ (l - 1) \<le> of_int \<lfloor>x\<rfloor>" using b by (metis l_def of_int_le_iff of_int_numeral of_int_power)
  moreover have "of_int (\<lfloor>x\<rfloor> + 1) \<le> (10 :: rat) ^ l" using b
    by (metis l_def of_int_le_iff of_int_numeral of_int_power zless_imp_add1_zle)
  ultimately have "(10 :: rat) ^ (l - 1) \<le> x" "x < 10 ^ l" by linarith+
  moreover have "l \<noteq> 0" using b by (simp add: l_def)
  moreover have "dec_exp x = int l" using True by (simp add: dec_exp_def l_def)
  moreover have "int l - 1 = int (l - 1)" using \<open>l \<noteq> 0\<close> by simp
  ultimately show ?thesis by (metis power_int_of_nat)
next
  case False
  define c where "c = \<lceil>1 / x\<rceil> - 1"
  have y: "1 < 1 / x" using assms False by simp
  then have "1 \<le> c" unfolding c_def by (simp add: less_ceiling_iff)
  note b = show_pos_bounds[OF this]
  define l where "l = length (show_pos c)"
  have "of_int c < 1 / x" "1 / x \<le> of_int (c + 1)" unfolding c_def by linarith+
  moreover have "(10 :: rat) ^ (l - 1) \<le> of_int c" using b by (metis l_def of_int_le_iff of_int_numeral of_int_power)
  moreover have "of_int (c + 1) \<le> (10 :: rat) ^ l" using b
    by (metis l_def of_int_le_iff of_int_numeral of_int_power zless_imp_add1_zle)
  ultimately have "(10 :: rat) ^ (l - 1) < 1 / x" "1 / x \<le> 10 ^ l" by linarith+
  then have "x < 1 / 10 ^ (l - 1)" "1 / 10 ^ l \<le> x" using assms by (simp_all add: field_simps)
  moreover have "l \<noteq> 0" using b by (simp add: l_def)
  moreover have "dec_exp x = 1 - int l" using False by (simp add: dec_exp_def l_def c_def)
  moreover have "1 - int l = - int (l - 1)" using \<open>l \<noteq> 0\<close> by (simp add: of_nat_diff)
  moreover have "1 / (10 :: rat) ^ (l - 1) = 10 powi (- int (l - 1))" "1 / (10 :: rat) ^ l = 10 powi (- int l)"
    by (simp_all only: power_int_minus power_int_of_nat inverse_eq_divide)
  ultimately show ?thesis by (metis add_diff_cancel_left' diff_add_cancel minus_diff_eq uminus_add_conv_diff diff_diff_eq2)
qed

section \<open>Rounding to 28 digits\<close>

lemma dec_round_decimal: "\<exists>m e. dec_round q = of_int m * 10 powi e"
  by (cases "q = 0") (auto simp: dec_round_def Let_def ten_pow_powi)

lemma dec_exp_unique:
  assumes "10 powi (k - 1) \<le> x" "x < 10 powi k"
  shows "dec_exp x = k"
proof -
  have "0 < x" using assms(1) by (rule less_le_trans[rotated]) simp
  note b = dec_exp_bounds[OF this]
  have "(10 :: rat) powi (k - 1) < 10 powi (dec_exp x)" "(10 :: rat) powi (dec_exp x - 1) < 10 powi k" using assms b by linarith+
  then have "k - 1 < dec_exp x" "dec_exp x - 1 < k" by (simp_all only: ten_less)
  then show ?thesis by simp
qed

lemma dec_round_minus: "dec_round (- q) = - dec_round q"
  by (simp add: dec_round_def Let_def round_even_minus)

text \<open>The 28 digits of a positive decimal, as an integer.\<close>

definition dec_digits :: "rat \<Rightarrow> int" where
  "dec_digits q = round_even (q * 10 powi (28 - dec_exp q))"

lemma dec_round_digits: "0 < q \<Longrightarrow> dec_round q = of_int (dec_digits q) * 10 powi (dec_exp q - 28)"
  by (simp add: dec_round_def Let_def ten_pow_powi dec_digits_def)

lemma dec_digits_bounds:
  assumes "0 < q"
  shows "10 ^ 27 \<le> dec_digits q" "dec_digits q \<le> 10 ^ 28"
proof -
  define k where "k = dec_exp q"
  have b: "10 powi (k - 1) \<le> q" "q < 10 powi k" using dec_exp_bounds[OF assms] by (simp_all add: k_def)
  have s: "(10 :: rat) powi (k - 1) * 10 powi (28 - k) = 10 ^ 27" "(10 :: rat) powi k * 10 powi (28 - k) = 10 ^ 28"
    by (simp_all add: ten_add ten_nat del: power_int_of_nat)
  have "10 ^ 27 \<le> q * 10 powi (28 - k)" "q * 10 powi (28 - k) \<le> 10 ^ 28"
    using mult_right_mono[OF b(1), of "10 powi (28 - k)"] mult_right_mono[OF less_imp_le[OF b(2)], of "10 powi (28 - k)"] s by simp_all
  then show "10 ^ 27 \<le> dec_digits q" "dec_digits q \<le> 10 ^ 28"
    using round_even_mono[of "of_int (10 ^ 27)" "q * 10 powi (28 - k)"] round_even_mono[of "q * 10 powi (28 - k)" "of_int (10 ^ 28)"]
    unfolding dec_digits_def k_def round_even_of_int by simp_all
qed

lemma dec_round_bounds:
  assumes "0 < q"
  shows "10 powi (dec_exp q - 1) \<le> dec_round q" "dec_round q \<le> 10 powi (dec_exp q)"
proof -
  have "(10 :: rat) ^ 27 \<le> of_int (dec_digits q)" "of_int (dec_digits q) \<le> (10 :: rat) ^ 28"
    using dec_digits_bounds[OF assms] by (metis of_int_le_iff of_int_numeral of_int_power)+
  then have lo: "(10 :: rat) ^ 27 * 10 powi (dec_exp q - 28) \<le> dec_round q"
    and hi: "dec_round q \<le> (10 :: rat) ^ 28 * 10 powi (dec_exp q - 28)"
    unfolding dec_round_digits[OF assms] by (intro mult_right_mono zero_le_power_int; simp)+
  have e: "(10 :: rat) ^ 27 * 10 powi (dec_exp q - 28) = 10 powi (dec_exp q - 1)"
    "(10 :: rat) ^ 28 * 10 powi (dec_exp q - 28) = 10 powi dec_exp q"
    using ten_shift[of 27 "dec_exp q - 28"] ten_shift[of 28 "dec_exp q - 28"] by simp_all
  show "10 powi (dec_exp q - 1) \<le> dec_round q" using lo unfolding e .
  show "dec_round q \<le> 10 powi (dec_exp q)" using hi unfolding e .
qed

lemma dec_round_pos: "0 < q \<Longrightarrow> 0 < dec_round q"
  using dec_round_bounds(1)[of q] by (metis less_le_trans zero_less_numeral zero_less_power_int)

lemma dec_round_mono_pos:
  assumes "0 < x" "x \<le> y"
  shows "dec_round x \<le> dec_round y"
proof -
  have y: "0 < y" using assms by linarith
  have "10 powi (dec_exp x - 1) < (10 :: rat) powi dec_exp y" using dec_exp_bounds[OF assms(1)] dec_exp_bounds[OF y] assms(2) by linarith
  then have "dec_exp x \<le> dec_exp y" by (simp add: ten_less)
  then consider "dec_exp x = dec_exp y" | "dec_exp x \<le> dec_exp y - 1" by linarith
  then show ?thesis
  proof cases
    case 1
    have "dec_digits x \<le> dec_digits y" unfolding dec_digits_def 1
      by (intro round_even_mono mult_right_mono[OF assms(2)]) simp
    then show ?thesis unfolding dec_round_digits[OF assms(1)] dec_round_digits[OF y] 1 by (intro mult_right_mono) simp_all
  next
    case 2
    have "dec_round x \<le> 10 powi dec_exp x" by (rule dec_round_bounds(2)[OF assms(1)])
    also have "\<dots> \<le> 10 powi (dec_exp y - 1)" using 2 by (intro power_int_increasing) simp_all
    also have "\<dots> \<le> dec_round y" by (rule dec_round_bounds(1)[OF y])
    finally show ?thesis .
  qed
qed

lemma dec_round_nonneg: "0 \<le> q \<Longrightarrow> 0 \<le> dec_round q"
  using dec_round_pos[of q] by (cases "q = 0") (simp_all add: dec_round_def)

lemma dec_round_mono: "x \<le> y \<Longrightarrow> dec_round x \<le> dec_round y"
proof -
  assume le: "x \<le> y"
  consider "0 < x" | "y < 0" | "x \<le> 0" "0 \<le> y" by linarith
  then show ?thesis
  proof cases
    case 2
    then have "dec_round (- y) \<le> dec_round (- x)" using le by (intro dec_round_mono_pos) simp_all
    then show ?thesis by (simp add: dec_round_minus)
  next
    case 3
    then have "0 \<le> dec_round (- x)" "0 \<le> dec_round y" by (simp_all add: dec_round_nonneg)
    then show ?thesis by (simp add: dec_round_minus)
  next
    case 1
    then show ?thesis using le by (rule dec_round_mono_pos)
  qed
qed

lemma dec_round_pos_iff: "0 < dec_round q \<longleftrightarrow> 0 < q"
proof -
  have "dec_round 0 = 0" by (simp add: dec_round_def)
  then show ?thesis using dec_round_pos[of q] dec_round_mono[of q 0] by (metis not_less)
qed

lemma dec_round_idem_pos:
  assumes "0 < q"
  shows "dec_round (dec_round q) = dec_round q"
proof -
  define k where "k = dec_exp q"
  define m where "m = dec_digits q"
  have r: "dec_round q = of_int m * 10 powi (k - 28)" using dec_round_digits[OF assms] by (simp add: k_def m_def)
  have m: "10 ^ 27 \<le> m" "m \<le> 10 ^ 28" using dec_digits_bounds[OF assms] by (simp_all add: m_def)
  show ?thesis
  proof (cases "m = 10 ^ 28")
    case True
    have r': "dec_round q = 10 powi k" unfolding r True using ten_shift[of 28 "k - 28"] by simp
    have "dec_exp (10 powi k) = k + 1" by (rule dec_exp_unique) (simp_all add: power_int_add)
    then have "dec_round (10 powi k) = of_int (round_even (10 powi k * 10 powi (27 - k))) * 10 powi (k - 27)"
      by (simp add: dec_round_def Let_def ten_pow_powi)
    also have "(10 :: rat) powi k * 10 powi (27 - k) = of_int (10 ^ 27)" by (simp add: ten_add)
    also have "of_int (round_even (of_int (10 ^ 27))) * 10 powi (k - 27) = (10 :: rat) powi k"
      unfolding round_even_of_int using ten_shift[of 27 "k - 27"] by simp
    finally show ?thesis unfolding r' .
  next
    case False
    have "dec_exp (of_int m * 10 powi (k - 28)) = k"
    proof (rule dec_exp_unique)
      have "(10 :: rat) ^ 27 \<le> of_int m" "of_int m < (10 :: rat) ^ 28"
        using m False by (metis of_int_le_iff of_int_numeral of_int_power, metis of_int_less_iff of_int_numeral of_int_power order_less_le)
      then have lo: "(10 :: rat) ^ 27 * 10 powi (k - 28) \<le> of_int m * 10 powi (k - 28)"
        and hi: "of_int m * 10 powi (k - 28) < (10 :: rat) ^ 28 * 10 powi (k - 28)"
        by (intro mult_right_mono mult_strict_right_mono zero_less_power_int zero_le_power_int; simp)+
      have e: "(10 :: rat) ^ 27 * 10 powi (k - 28) = 10 powi (k - 1)" "(10 :: rat) ^ 28 * 10 powi (k - 28) = 10 powi k"
        using ten_shift[of 27 "k - 28"] ten_shift[of 28 "k - 28"] by simp_all
      show "10 powi (k - 1) \<le> (of_int m * 10 powi (k - 28) :: rat)" using lo unfolding e .
      show "of_int m * 10 powi (k - 28) < (10 :: rat) powi k" using hi unfolding e .
    qed
    moreover have "of_int m * 10 powi (k - 28) * 10 powi (28 - k) = (of_int m :: rat)" by (simp add: mult.assoc ten_add)
    moreover have "m \<noteq> 0" "\<bar>of_int m * 10 powi (k - 28)\<bar> = (of_int m * 10 powi (k - 28) :: rat)"
      using m by (auto simp: abs_mult)
    ultimately show ?thesis unfolding r by (simp only: dec_round_def Let_def ten_pow_powi) simp
  qed
qed

lemma dec_round_idem: "dec_round (dec_round q) = dec_round q"
proof (cases q "0 :: rat" rule: linorder_cases)
  case less
  then have "dec_round (dec_round (- q)) = dec_round (- q)" by (intro dec_round_idem_pos) simp
  then show ?thesis by (simp add: dec_round_minus)
next
  case equal
  then show ?thesis by (simp add: dec_round_def)
qed (rule dec_round_idem_pos)

section \<open>Places\<close>

lemma places_of_enough: "d \<noteq> 0 \<Longrightarrow> d dvd 10 ^ n \<Longrightarrow> d dvd 10 ^ places_of d"
proof (induction d rule: places_of.induct)
  case (1 d)
  show ?case
  proof (cases "coprime d 10")
    case True
    then have "coprime d (10 ^ n)" by simp
    then have "is_unit d" using 1(3) coprime_common_divisor[of d "10 ^ n" d] by simp
    then show ?thesis by simp
  next
    case False
    define g where "g = gcd d 10"
    have d: "d = g * (d div g)" and g: "g dvd 10" by (simp_all add: g_def)
    then have nz: "d div g \<noteq> 0" using 1(2) by (metis mult_0_right)
    have "d div g dvd 10 ^ n" using d 1(3) by (metis dvd_mult_right)
    then have "d div g dvd 10 ^ places_of (d div g)" using 1(1,2) False nz by (simp add: g_def)
    then have "g * (d div g) dvd 10 * 10 ^ places_of (d div g)" using g by (rule mult_dvd_mono[rotated])
    then show ?thesis using d False 1(2) by (subst places_of.simps) (simp add: g_def)
  qed
qed

lemma decimal_places_enough:
  assumes "q * 10 ^ n = of_int z"
  shows "of_int \<lfloor>q * 10 ^ decimal_places q\<rfloor> = q * 10 ^ decimal_places q"
proof -
  obtain a b where ab: "quotient_of q = (a, b)" by (cases "quotient_of q")
  have b: "0 < b" "coprime a b" "q = of_int a / of_int b"
    using ab quotient_of_denom_pos quotient_of_coprime quotient_of_div by auto
  have "of_int (a * 10 ^ n) = (of_int (z * b) :: rat)" using assms b(1,3) by (simp add: field_simps)
  then have "a * 10 ^ n = z * b" by (simp only: of_int_eq_iff)
  then have "b dvd a * 10 ^ n" by simp
  then have "b dvd 10 ^ n" using b(2) by (simp add: coprime_dvd_mult_right_iff coprime_commute)
  moreover obtain d where d: "b = int d" using b(1) by (metis zero_le_imp_eq_int less_imp_le)
  ultimately have "d dvd 10 ^ n" by (metis of_nat_dvd_iff of_nat_numeral of_nat_power)
  then have "d dvd 10 ^ decimal_places q" using places_of_enough[of d n] b(1) by (simp add: decimal_places_def ab d)
  then have "b dvd 10 ^ decimal_places q" unfolding d by (metis of_nat_dvd_iff of_nat_numeral of_nat_power)
  then obtain c where c: "10 ^ decimal_places q = b * c" by blast
  have "q * 10 ^ decimal_places q = q * of_int (10 ^ decimal_places q)" by simp
  also have "\<dots> = of_int (a * c)" unfolding c using b(1,3) by simp
  finally show ?thesis by (metis floor_of_int)
qed

lemma dec_round_places: "of_int \<lfloor>dec_round q * 10 ^ decimal_places (dec_round q)\<rfloor> = dec_round q * 10 ^ decimal_places (dec_round q)"
proof -
  obtain m e where e: "dec_round q = of_int m * 10 powi e" using dec_round_decimal by blast
  have "dec_round q * 10 ^ nat (- e) = of_int (m * 10 ^ nat e)"
  proof (cases "0 \<le> e")
    case True
    then show ?thesis by (simp add: e power_int_nonneg_exp)
  next
    case False
    then show ?thesis by (simp add: e power_int_def power_one_over flip: power_mult_distrib)
  qed
  then show ?thesis by (rule decimal_places_enough)
qed

section \<open>The round trip\<close>

lemma strip_by_none: "s \<noteq> [] \<Longrightarrow> \<not> p (hd s) \<Longrightarrow> \<not> p (last s) \<Longrightarrow> strip_by p s = s"
proof -
  assume s: "s \<noteq> []" "\<not> p (hd s)" "\<not> p (last s)"
  have "dropWhile p s = s" using s(1,2) by (cases s) auto
  moreover have "dropWhile p (rev s) = rev s" using s(1,3) by (cases s rule: rev_cases) auto
  ultimately show ?thesis by (simp add: strip_by_def)
qed

text \<open>A character of plain decimal text.\<close>

definition plain_char :: "char \<Rightarrow> bool" where "plain_char c \<longleftrightarrow> is_digit c \<or> c = CHR ''.''"

lemma plain_char_facts:
  assumes "plain_char c"
  shows "\<not> py_space c" "c \<noteq> CHR ''_''" "lower_char c = c" "c \<noteq> CHR ''-''" "c \<noteq> CHR ''+''" "c \<noteq> CHR ''i''" "c \<noteq> CHR ''n''" "c \<noteq> CHR ''s''"
  using assms by (auto simp: plain_char_def is_digit_def py_space_def lower_char_def Let_def)

lemma parse_plain:
  assumes "body \<noteq> []" "list_all plain_char body" "read_decimal body = Some q"
  shows "parse_decimal_text body = Inr q" "parse_decimal_text (CHR ''-'' # body) = Inr (- q)"
proof -
  obtain c cs where c: "body = c # cs" using assms(1) by (cases body) auto
  have pc: "plain_char c" "list_all plain_char body" using assms(2) by (simp_all add: c)
  have l: "plain_char (last body)" using assms(1,2) by (simp add: list_all_iff)
  have low: "map lower_char body = body" using assms(2) by (intro map_idI) (auto simp: list_all_iff plain_char_facts(3))
  have und: "filter (\<lambda>c. c \<noteq> CHR ''_'') body = body" using assms(2) by (intro filter_True) (auto simp: list_all_iff plain_char_facts(2))
  have no: "body \<noteq> ''inf''" "body \<noteq> ''infinity''" "\<not> nan_text body"
    using plain_char_facts(6-8)[OF pc(1)] by (auto simp: c nan_text_def)
  have b1: "decimal_body body = body" "take 1 body \<noteq> ''-''" using plain_char_facts(4,5)[OF pc(1)] by (simp_all add: decimal_body_def c)
  have b2: "decimal_body (CHR ''-'' # body) = body" by (simp add: decimal_body_def)
  have s1: "strip_by py_space body = body"
    using assms(1) plain_char_facts(1)[OF pc(1)] plain_char_facts(1)[OF l] by (intro strip_by_none) (simp_all add: c)
  have "\<not> py_space (CHR ''-'')" by (simp add: py_space_def)
  then have s2: "strip_by py_space (CHR ''-'' # body) = CHR ''-'' # body"
    using assms(1) plain_char_facts(1)[OF l] by (intro strip_by_none) simp_all
  show "parse_decimal_text body = Inr q" unfolding parse_decimal_text_def Let_def s1 und b1(1) low using no assms(3) b1(2) by simp
  show "parse_decimal_text (CHR ''-'' # body) = Inr (- q)"
    unfolding parse_decimal_text_def Let_def s2 filter.simps und using no assms(3) by (simp add: b2 low)
qed

lemma digits_int_val: "digits_int ds = int (digits_val ds)"
proof -
  have "foldl (\<lambda>n c. 10 * n + int (digit_val c)) (int k) ds = int (foldl (\<lambda>n c. 10 * n + digit_val c) k ds)" for k
  proof (induction ds arbitrary: k)
    case (Cons c ds)
    then show ?case using Cons.IH[of "10 * k + digit_val c"] by simp
  qed simp
  from this[of 0] show ?thesis by (simp add: digits_int_def digits_val_def)
qed

lemma digits_val_zeros: "digits_val (zeros k @ ds) = digits_val ds"
proof -
  have "digit_val CHR ''0'' = 0" by code_simp
  then have "foldl (\<lambda>n c. 10 * n + digit_val c) 0 (zeros k) = 0" by (induction k) (simp_all add: zeros_def)
  then show ?thesis by (simp add: digits_val_def)
qed

lemma read_whole: "list_all is_digit ip \<Longrightarrow> ip \<noteq> [] \<Longrightarrow> read_decimal ip = Some (of_nat (digits_val ip))"
proof -
  assume ip: "list_all is_digit ip" "ip \<noteq> []"
  have e: "takeWhile is_digit ip = ip" "dropWhile is_digit ip = []"
    using ip(1) by (simp_all add: takeWhile_eq_all_conv dropWhile_eq_Nil_conv list_all_iff)
  show ?thesis using ip(2) unfolding read_decimal_def Let_def e by (simp add: read_exponent_def ten_pow_def digits_int_val)
qed

lemma read_places:
  assumes "list_all is_digit ip" "list_all is_digit fp" "ip \<noteq> []"
  shows "read_decimal (ip @ ''.'' @ fp) = Some (of_nat (digits_val (ip @ fp)) / 10 ^ length fp)"
proof -
  have nd: "\<not> is_digit CHR ''.''" by (simp add: is_digit_def)
  have e: "takeWhile is_digit (ip @ ''.'' @ fp) = ip" "dropWhile is_digit (ip @ ''.'' @ fp) = ''.'' @ fp"
    using assms(1) nd by (simp_all add: takeWhile_append2 dropWhile_append2 list_all_iff)
  have d: "take 1 (''.'' @ fp) = ''.''" "drop 1 (''.'' @ fp) = fp" by simp_all
  have f: "takeWhile is_digit fp = fp" "dropWhile is_digit fp = []"
    using assms(2) by (simp_all add: takeWhile_eq_all_conv dropWhile_eq_Nil_conv list_all_iff)
  show ?thesis using assms(3) unfolding read_decimal_def Let_def e d f
    by (simp add: f read_exponent_def ten_pow_def digits_int_val)
qed

lemma decimal_text_parses:
  assumes "of_int \<lfloor>q * 10 ^ decimal_places q\<rfloor> = q * 10 ^ decimal_places q"
  shows "parse_decimal_text (decimal_text q) = Inr q"
proof -
  define n where "n = decimal_places q"
  define N where "N = nat \<lfloor>\<bar>q\<bar> * 10 ^ n\<rfloor>"
  define ds where "ds = show_nat N"
  define padded where "padded = zeros (Suc n - length ds) @ ds"
  define body where "body = (if n = 0 then ds else take (length padded - n) padded @ ''.'' @ drop (length padded - n) padded)"
  have shape: "decimal_text q = (if q < 0 then ''-'' else []) @ body"
    by (simp add: decimal_text_def Let_def body_def padded_def ds_def N_def n_def)
  have "\<bar>q\<bar> * 10 ^ n = of_int \<bar>\<lfloor>q * 10 ^ n\<rfloor>\<bar>" unfolding of_int_abs n_def assms by (simp add: abs_mult)
  then have N: "of_nat N = \<bar>q\<bar> * 10 ^ n" unfolding N_def by (metis abs_ge_zero floor_of_int of_int_of_nat_eq int_nat_eq of_nat_nat)
  have ds: "ds \<noteq> []" "list_all is_digit ds" "digits_val ds = N" using show_nat_digits by (simp_all add: ds_def)
  have z: "list_all is_digit (zeros k)" for k by (simp add: zeros_def list_all_iff is_digit_def)
  have pd: "list_all is_digit padded" "digits_val padded = N" "n < length padded"
    using ds z by (simp_all add: padded_def digits_val_zeros) (simp add: zeros_def)
  have body: "body \<noteq> [] \<and> list_all plain_char body \<and> read_decimal body = Some \<bar>q\<bar>"
  proof (cases "n = 0")
    case True
    then show ?thesis using ds N read_whole[OF ds(2,1)] by (simp add: body_def list_all_iff plain_char_def)
  next
    case False
    let ?ip = "take (length padded - n) padded" and ?fp = "drop (length padded - n) padded"
    have d: "list_all is_digit ?ip" "list_all is_digit ?fp" using pd(1) by (auto simp: list_all_iff dest: in_set_takeD in_set_dropD)
    have "?ip \<noteq> []" using pd(3) by auto
    note r = read_places[OF d this]
    have "length ?fp = n" using pd(3) by simp
    then have "read_decimal body = Some (of_nat N / 10 ^ n)" using r False pd(2) by (simp add: body_def del: length_drop)
    moreover have "list_all plain_char body" using d False by (auto simp: body_def list_all_iff plain_char_def)
    ultimately show ?thesis using N False by (simp add: body_def)
  qed
  then show ?thesis using parse_plain[of body "\<bar>q\<bar>"] by (cases "q < 0") (simp_all add: shape)
qed

lemma normalized_round_trip: "parse_normalized_decimal_text (normalized_decimal_text q) = Inr (dec_round q)"
proof -
  have "parse_decimal_text (decimal_text (dec_round q)) = Inr (dec_round q)"
    by (rule decimal_text_parses) (rule dec_round_places)
  then show ?thesis by (simp add: parse_normalized_decimal_text_def normalized_decimal_text_def dec_round_idem raise_if_Inr)
qed

end
