(* ===== verification/LiveEntry.thy ===== *)
theory LiveEntry
  imports Entries DecimalText
begin

text \<open>
  The live entry projection (\<open>live_projections/live_entry.py\<close>): the plan of a side on the target bar,
  at the anchor or at the close of a touch signal, with its frozen partial takes.  Prices are decimal
  texts, compared as decimals.
\<close>

record live_partial_take =
  lt_take_id :: string
  lt_price :: string
  lt_fraction_of_initial :: string

record live_entry_plan =
  lp_side :: string
  lp_source_plan_bar :: int
  lp_planned_entry_price :: string
  lp_initial_stop_price :: string
  lp_initial_take_price :: string
  lp_locked_exit_profile :: string
  lp_partial_takes :: "live_partial_take list"

definition LIVE_ENTRY_MODES :: "string list" where "LIVE_ENTRY_MODES = [''ema_anchor'', ''touch_trigger'']"
definition SUPPORTED_PROFILES :: "string list" where
  "SUPPORTED_PROFILES = [''always_on'', ''aligned'', ''countertrend'', ''neutral'']"

text \<open>\<open>xs[index]\<close> where an index error becomes a request error.\<close>

definition item_or :: "string \<Rightarrow> 'a list \<Rightarrow> nat \<Rightarrow> 'a res" where
  "item_or msg xs i = (if i < length xs then Inr (xs ! i) else Inl (InvalidRequest msg))"

definition normalized_positive :: "f64 option \<Rightarrow> string option" where
  "normalized_positive v =
     (case v of Some (Fin r) \<Rightarrow> if 0 < float_decimal r then Some (normalized_decimal_text (float_decimal r)) else None | _ \<Rightarrow> None)"

definition profile_at :: "ema_evaluation \<Rightarrow> string \<Rightarrow> nat \<Rightarrow> string res" where
  "profile_at e side i =
     (let ep = ev_exit_policy e in
      bindR (item_or ''exit profile does not contain target index'' (if side = ''long'' then xp_profile_long ep else xp_profile_short ep) i)
        (\<lambda>p. raise_if (p \<notin> set SUPPORTED_PROFILES) (InvalidRequest ''unsupported locked exit profile'') (Inr p)))"

section \<open>Partial takes\<close>

definition dec_mul :: "rat \<Rightarrow> rat \<Rightarrow> rat" where "dec_mul a b = dec_round (a * b)"

text \<open>The distance of a leg on the bar, where it is finite and positive.\<close>

definition leg_distance :: "rat \<Rightarrow> nat \<Rightarrow> partial_take_rule \<Rightarrow> rat option res" where
  "leg_distance entry i r =
     bindR (case pt_pct r of
              Some p \<Rightarrow> Inr (case p of Fin x \<Rightarrow> Some (dec_mul entry (float_decimal x)) | _ \<Rightarrow> None)
            | None \<Rightarrow> bindR (item_or ''partial take distance does not contain target index'' (pt_distance r) i)
                (\<lambda>d. Inr (case d of Some (Fin x) \<Rightarrow> Some (float_decimal x) | _ \<Rightarrow> None))) (\<lambda>d.
     Inr (case d of Some q \<Rightarrow> if 0 < q then Some q else None | None \<Rightarrow> None))"

definition leg_price :: "string \<Rightarrow> rat \<Rightarrow> rat \<Rightarrow> rat" where
  "leg_price side entry d = dec_add entry (dec_mul (if side = ''long'' then 1 else - 1) d)"

definition leg_of :: "partial_take_rule \<Rightarrow> rat \<Rightarrow> live_partial_take" where
  "leg_of r price = \<lparr>lt_take_id = pt_instance_id r, lt_price = normalized_decimal_text price,
     lt_fraction_of_initial = normalized_decimal_text (float_decimal (fin_val (pt_fraction_of_initial r)))\<rparr>"

text \<open>The legs in declared order; one that has no valid price leaves the side without a plan.\<close>

fun legs_of :: "string \<Rightarrow> nat \<Rightarrow> string \<Rightarrow> rat \<Rightarrow> partial_take_rule list \<Rightarrow> (rat \<times> live_partial_take) list option res" where
  "legs_of side i locked entry [] = Inr (Some [])"
| "legs_of side i locked entry (r # rs) =
     (if pt_group r \<noteq> ''always_on'' \<and> pt_group r \<noteq> locked then legs_of side i locked entry rs
      else bindR (leg_distance entry i r) (\<lambda>d. case d of
          None \<Rightarrow> Inr None
        | Some q \<Rightarrow>
            (let price = leg_price side entry q in
             if price \<le> 0 then Inr None
             else bindR (legs_of side i locked entry rs) (\<lambda>rest. Inr (map_option (Cons (q, leg_of r price)) rest)))))"

definition partial_takes_of ::
  "partial_take_rule list \<Rightarrow> string \<Rightarrow> nat \<Rightarrow> string \<Rightarrow> rat \<Rightarrow> live_partial_take list option res" where
  "partial_takes_of rules side i locked entry =
     bindR (legs_of side i locked entry rules) (\<lambda>legs. Inr (map_option (\<lambda>ls. map snd (sort_key fst ls)) legs))"

section \<open>Plans\<close>

definition plan_from_prices ::
  "ema_evaluation \<Rightarrow> string \<Rightarrow> nat \<Rightarrow> int \<Rightarrow> f64 option \<Rightarrow> f64 option \<Rightarrow> f64 option \<Rightarrow> live_entry_plan option res" where
  "plan_from_prices e side i target entry_raw stop_raw take_raw =
     (case (normalized_positive entry_raw, normalized_positive stop_raw, normalized_positive take_raw) of
        (Some entry, Some stop, Some take_p) \<Rightarrow>
          bindR (parse_decimal_text entry) (\<lambda>ed.
          bindR (parse_decimal_text stop) (\<lambda>sd.
          bindR (parse_decimal_text take_p) (\<lambda>td.
          if \<not> (if side = ''long'' then sd < ed \<and> ed < td else td < ed \<and> ed < sd) then Inr None
          else
            bindR (profile_at e side i) (\<lambda>locked.
            bindR (partial_takes_of (xp_partial_takes (ev_exit_policy e)) side i locked ed) (\<lambda>legs.
            Inr (map_option (\<lambda>ls. \<lparr>lp_side = side, lp_source_plan_bar = target, lp_planned_entry_price = entry,
              lp_initial_stop_price = stop, lp_initial_take_price = take_p, lp_locked_exit_profile = locked,
              lp_partial_takes = ls\<rparr>) legs))))))
      | _ \<Rightarrow> Inr None)"

definition plan_for_side :: "ema_evaluation \<Rightarrow> nat \<Rightarrow> int \<Rightarrow> string \<Rightarrow> live_entry_plan option res" where
  "plan_for_side e i target side =
     (case map_of (ev_potential_entries e) side of
        None \<Rightarrow> Inr None
      | Some p \<Rightarrow>
          bindR (item_or ''PotentialEntry does not contain target index'' (pe_entry_price p) i) (\<lambda>entry.
          bindR (item_or ''PotentialEntry does not contain target index'' (pe_stop_price p) i) (\<lambda>stop.
          bindR (item_or ''PotentialEntry does not contain target index'' (pe_take_price p) i) (\<lambda>take_p.
          plan_from_prices e side i target entry stop take_p))))"

definition touch_prices :: "string \<Rightarrow> f64 \<Rightarrow> f64 \<Rightarrow> f64 \<Rightarrow> f64 \<times> f64" where
  "touch_prices side close sd td = (if side = ''long'' then (fsub close sd, fadd close td) else (fadd close sd, fsub close td))"

definition touch_signal_plan ::
  "ema_evaluation \<Rightarrow> string \<Rightarrow> nat \<Rightarrow> int \<Rightarrow> bool \<Rightarrow> f64 \<Rightarrow> f64 option \<Rightarrow> f64 option \<Rightarrow> live_entry_plan option res" where
  "touch_signal_plan e side i target signal close stop_d take_d =
     (case (stop_d, take_d) of
        (Some sd, Some td) \<Rightarrow>
          if \<not> signal \<or> \<not> (positive_price close \<and> positive_price sd \<and> positive_price td) then Inr None
          else plan_from_prices e side i target (Some close) (Some (fst (touch_prices side close sd td)))
            (Some (snd (touch_prices side close sd td)))
      | _ \<Rightarrow> Inr None)"

definition touch_trigger_plan_for_side ::
  "ema_evaluation \<Rightarrow> feature_frame \<Rightarrow> nat \<Rightarrow> int \<Rightarrow> string \<Rightarrow> live_entry_plan option res" where
  "touch_trigger_plan_for_side e fr i target side =
     (case (find (\<lambda>t. st_side t = side) (ev_triggers e), find (\<lambda>s. se_side s = side) (ev_entries e)) of
        (Some t, Some s) \<Rightarrow>
          if tm_component_id (st_trigger t) \<noteq> ''touch_anchor'' then Inr None
          else
            bindR (item_or ''live evaluation does not contain target index'' (se_entry_allowed s) i) (\<lambda>signal.
            bindR (item_or ''live evaluation does not contain target index'' (map bar_close (frame_bars fr)) i) (\<lambda>close.
            bindR (item_or ''live evaluation does not contain target index''
              (optional_floats (xs_stop_loss_distance (exit_side (ev_exit_policy e) side))) i) (\<lambda>stop_d.
            bindR (item_or ''live evaluation does not contain target index''
              (optional_floats (xs_take_profit_distance (exit_side (ev_exit_policy e) side))) i) (\<lambda>take_d.
            touch_signal_plan e side i target signal close stop_d take_d))))
      | _ \<Rightarrow> Inr None)"

text \<open>The adapter in one of its two modes, on an evaluated frame.\<close>

definition live_plan_of ::
  "string \<Rightarrow> ema_evaluation \<Rightarrow> feature_frame \<Rightarrow> nat \<Rightarrow> int \<Rightarrow> string \<Rightarrow> live_entry_plan option res" where
  "live_plan_of mode e fr i target side =
     (if mode = ''touch_trigger'' then touch_trigger_plan_for_side e fr i target side else plan_for_side e i target side)"

definition make_live_entry_mode :: "string \<Rightarrow> string res" where
  "make_live_entry_mode mode =
     raise_if (mode \<notin> set LIVE_ENTRY_MODES) (PyValueError ''unsupported live_entry_mode'') (Inr mode)"

definition evaluate_live_entry ::
  "predicate_functions \<Rightarrow> string \<Rightarrow> obj \<Rightarrow> feature_frame \<Rightarrow> rat market_bar list \<Rightarrow> ema_plan \<Rightarrow> nat \<Rightarrow> int \<Rightarrow>
     (string \<times> live_entry_plan option) list res" where
  "evaluate_live_entry pf mode raw_spec fr decs plan i target =
     bindR (evaluate_ema_pullback_frame pf raw_spec fr decs plan) (\<lambda>e.
     mapR (\<lambda>side. bindR (live_plan_of mode e fr i target side) (\<lambda>p. Inr (side, p))) [''long'', ''short''])"

end
