(* ===== verification/OpenTrade.thy ===== *)
theory OpenTrade
  imports LiveEntry ManagedReplay LiveWindow
begin

text \<open>
  The open trade projection (\<open>live_projections/open_trade.py\<close>): the protection and the close signal
  of a confirmed trade on the target bar.
\<close>

record executed_trade_receipt =
  rc_side :: string
  rc_source_plan_bar :: int
  rc_entry_bar :: int
  rc_planned_entry_price :: string
  rc_initial_stop_price :: string
  rc_initial_take_price :: string
  rc_locked_exit_profile :: string

record close_signal =
  cs_active :: bool
  cs_reason :: "string option"
  cs_component_id :: "string option"
  cs_layer :: "string option"

record open_trade_projection =
  ot_stop_price :: string
  ot_take_price :: "string option"
  ot_close_signal :: close_signal
  ot_phase :: string
  ot_max_phase_reached :: string
  ot_bars_in_trade :: int
  ot_mfe_pct :: string
  ot_mae_pct :: string
  ot_managed_events :: "json list"

definition decimal_to_text :: "decimal \<Rightarrow> string res" where
  "decimal_to_text d =
     (case d of Decimal q \<Rightarrow> Inr (normalized_decimal_text q) | NonFinite _ \<Rightarrow> Inl (InvalidRequest ''decimal value must be finite''))"

section \<open>Close signals\<close>

definition locked_exit_list :: "obj \<Rightarrow> json" where "locked_exit_list ob = get_or ob ''exits'' (JList [])"

definition rules_for_locked_profile :: "obj \<Rightarrow> string \<Rightarrow> obj list res" where
  "rules_for_locked_profile raw_spec locked =
     bindR (require_mapping (get_or raw_spec ''trade_management'' (JObj [])) ''trade_management'') (\<lambda>tm.
     bindR (require_mapping (get_or tm ''exit_policy'' (JObj [])) ''exit_policy'') (\<lambda>policy.
     bindR (require_mapping (get_or policy ''always_on'' (JObj [])) ''exit_policy.always_on'') (\<lambda>always.
     bindR (require_mapping (get_or policy ''profiles'' (JObj [])) ''exit_policy.profiles'') (\<lambda>profiles.
     bindR (require_mapping (get_or profiles locked (JObj [])) (''exit_policy.profiles.'' @ locked)) (\<lambda>profile.
     case (locked_exit_list always, locked_exit_list profile) of
       (JList xs, JList ys) \<Rightarrow> mapR (\<lambda>x. require_mapping x ''exit rule'') (xs @ ys)
     | _ \<Rightarrow> Inl (InvalidRequest ''exit policy rules must be lists''))))))"

text \<open>A dictionary keeps the last evidence of an instance.\<close>

definition signal_evidence_by_instance :: "exit_policy_evaluation \<Rightarrow> string \<Rightarrow> (string \<times> string \<times> bool list) list" where
  "signal_evidence_by_instance ep side =
     rev (concat (map (\<lambda>e. case re_signal e of
         Some bs \<Rightarrow> if re_exit_kind e = ''signal'' \<and> re_side e = Some side then [(re_instance_id e, re_component_id e, bs)] else []
       | None \<Rightarrow> []) (xp_rule_evidence ep)))"

fun signal_candidates ::
  "(string \<times> string \<times> bool list) list \<Rightarrow> nat \<Rightarrow> obj list \<Rightarrow> (string \<times> string) list res" where
  "signal_candidates evidence i [] = Inr []"
| "signal_candidates evidence i (r # rs) =
     (if text_of r ''exit_kind'' ''signal'' \<noteq> ''signal'' then signal_candidates evidence i rs
      else (case map_of evidence (text_of r ''instance_id'' []) of
          None \<Rightarrow> signal_candidates evidence i rs
        | Some (cid, bs) \<Rightarrow>
            bindR (item_or ''signal evidence does not contain target index'' bs i) (\<lambda>active.
            bindR (signal_candidates evidence i rs) (\<lambda>rest.
            Inr (if active then (text_of r ''instance_id'' [], cid) # rest else rest)))))"

definition standard_signal_candidates ::
  "ema_evaluation \<Rightarrow> obj \<Rightarrow> string \<Rightarrow> string \<Rightarrow> nat \<Rightarrow> (string \<times> string) list res" where
  "standard_signal_candidates e raw_spec side locked i =
     (let ep = ev_exit_policy e;
          table = (if side = ''long'' then xp_signal_by_profile_long ep else xp_signal_by_profile_short ep);
          msg = ''locked exit profile does not contain target signal'' in
      case map_of table locked of
        None \<Rightarrow> Inl (InvalidRequest msg)
      | Some bs \<Rightarrow>
          bindR (item_or msg bs i) (\<lambda>active.
          if \<not> active then Inr []
          else bindR (rules_for_locked_profile raw_spec locked) (signal_candidates (signal_evidence_by_instance ep side) i)))"

definition runtime_rule_components :: "obj \<Rightarrow> (string \<times> string) list res" where
  "runtime_rule_components raw_spec =
     bindR (require_mapping (get_or raw_spec ''trade_management'' (JObj [])) ''trade_management'') (\<lambda>tm.
     bindR (require_mapping (get_or tm ''exit_management'' (JObj [])) ''exit_management'') (\<lambda>em.
     case get_or em ''runtime_exits'' (JList []) of
       JList xs \<Rightarrow>
         bindR (mapR (\<lambda>x. require_mapping x ''runtime exit'') xs) (\<lambda>rs.
         Inr (rev (map (\<lambda>r. (text_of r ''rule_id'' [], text_of r ''component_id'' [])) rs)))
     | _ \<Rightarrow> Inl (InvalidRequest ''runtime_exits must be a list'')))"

definition runtime_candidates :: "obj \<Rightarrow> managed_state \<Rightarrow> (string \<times> string) list res" where
  "runtime_candidates raw_spec st =
     bindR (runtime_rule_components raw_spec) (\<lambda>cs.
     Inr (map (\<lambda>rid. (rid, case map_of cs rid of None \<Rightarrow> [] | Some c \<Rightarrow> c)) (active_runtime_exit_rules st)))"

text \<open>A managed exit takes precedence; among several the least identifier.\<close>

definition signal_of :: "string \<Rightarrow> string \<Rightarrow> string \<times> string \<Rightarrow> close_signal" where
  "signal_of prefix layer c = \<lparr>cs_active = True, cs_reason = Some (prefix @ fst c),
     cs_component_id = (if snd c = [] then None else Some (snd c)), cs_layer = Some layer\<rparr>"

definition compose_close_signal :: "(string \<times> string) list \<Rightarrow> (string \<times> string) list \<Rightarrow> close_signal" where
  "compose_close_signal runtime standard =
     (if runtime \<noteq> [] then signal_of ''runtime_exit:'' ''managed'' (hd (sort_key fst runtime))
      else if standard \<noteq> [] then signal_of ''signal:'' ''exit_policy'' (hd (sort_key fst standard))
      else \<lparr>cs_active = False, cs_reason = None, cs_component_id = None, cs_layer = None\<rparr>)"

section \<open>The projection\<close>

definition receipt_on_grid :: "feature_frame \<Rightarrow> executed_trade_receipt \<Rightarrow> 'a res \<Rightarrow> 'a res" where
  "receipt_on_grid fr rc k =
     raise_if (rc_source_plan_bar rc \<notin> set (frame_time_ms fr) \<or> rc_entry_bar rc \<notin> set (frame_time_ms fr))
       (TradeHistoryUnavailable ''trade history unavailable'') k"

definition managed_of_receipt ::
  "predicate_layer \<Rightarrow> change_parser \<Rightarrow> obj \<Rightarrow> feature_frame \<Rightarrow> ema_plan \<Rightarrow> executed_trade_receipt \<Rightarrow> int \<Rightarrow> start_after_entry res" where
  "managed_of_receipt eval parse raw_spec fr plan rc target =
     bindR (parse_decimal_text (rc_planned_entry_price rc)) (\<lambda>planned.
     bindR (parse_decimal_text (rc_initial_stop_price rc)) (\<lambda>stop.
     bindR (parse_decimal_text (rc_initial_take_price rc)) (\<lambda>take_p.
     start_after_entry_projection eval parse raw_spec fr plan (rc_side rc) (rc_entry_bar rc) planned stop take_p target)))"

definition open_trade_of ::
  "start_after_entry \<Rightarrow> (string \<times> string) list \<Rightarrow> (string \<times> string) list \<Rightarrow> open_trade_projection res" where
  "open_trade_of managed standard runtime =
     (let st = mr_final_state (sa_replay managed) in
      bindR (decimal_to_text (desired_stop_price managed)) (\<lambda>stop.
      bindR (case desired_take_price managed of None \<Rightarrow> Inr None | Some d \<Rightarrow> bindR (decimal_to_text d) (\<lambda>t. Inr (Some t))) (\<lambda>take_p.
      bindR (decimal_to_text (decimal_of_float (mfe_pct st))) (\<lambda>mfe.
      bindR (decimal_to_text (decimal_of_float (mae_pct st))) (\<lambda>mae.
      Inr \<lparr>ot_stop_price = stop, ot_take_price = take_p, ot_close_signal = compose_close_signal runtime standard,
           ot_phase = cur_phase st, ot_max_phase_reached = max_phase_reached st, ot_bars_in_trade = bars_in_trade st,
           ot_mfe_pct = mfe, ot_mae_pct = mae, ot_managed_events = map event_to_wire (mr_events (sa_replay managed))\<rparr>)))))"

definition evaluate_open_trade ::
  "predicate_functions \<Rightarrow> predicate_layer \<Rightarrow> change_parser \<Rightarrow> obj \<Rightarrow> feature_frame \<Rightarrow> rat market_bar list \<Rightarrow> ema_plan \<Rightarrow>
     executed_trade_receipt \<Rightarrow> nat \<Rightarrow> int \<Rightarrow> open_trade_projection res" where
  "evaluate_open_trade pf eval parse raw_spec fr decs plan rc i target =
     receipt_on_grid fr rc
     (bindR (evaluate_ema_pullback_frame pf raw_spec fr decs plan) (\<lambda>e.
      bindR (managed_of_receipt eval parse raw_spec fr plan rc target) (\<lambda>managed.
      bindR (standard_signal_candidates e raw_spec (rc_side rc) (rc_locked_exit_profile rc) i) (\<lambda>standard.
      bindR (runtime_candidates raw_spec (mr_final_state (sa_replay managed))) (\<lambda>runtime.
      open_trade_of managed standard runtime)))))"

text \<open>
  The two live use cases (\<open>strategies/application\<close>): the checks of an executed trade receipt, the
  frame that ends on the target bar, and the entry that a projection may desire.  The market data
  service, the feature planner, the validator and the indicator engine are parameters.
\<close>

section \<open>Receipts\<close>

text \<open>\<open>validate_open_trade_request\<close>\<close>

definition aligned_time :: "int \<Rightarrow> int \<Rightarrow> bool" where
  "aligned_time step t \<longleftrightarrow> 0 \<le> t \<and> t mod step = 0"

definition receipt_geometry :: "string \<Rightarrow> rat \<Rightarrow> rat \<Rightarrow> rat \<Rightarrow> bool" where
  "receipt_geometry side planned stop take_p \<longleftrightarrow>
     (if side = ''long'' then stop < planned \<and> planned < take_p else take_p < planned \<and> planned < stop)"

definition validate_receipt_prices :: "executed_trade_receipt \<Rightarrow> unit res" where
  "validate_receipt_prices rc =
     bindR (parse_normalized_decimal_text (rc_planned_entry_price rc)) (\<lambda>planned.
     bindR (parse_normalized_decimal_text (rc_initial_stop_price rc)) (\<lambda>stop.
     bindR (parse_normalized_decimal_text (rc_initial_take_price rc)) (\<lambda>take_p.
     raise_if (planned \<le> 0 \<or> stop \<le> 0 \<or> take_p \<le> 0) (InvalidRequest ''receipt prices must be positive'')
     (raise_if (\<not> receipt_geometry (rc_side rc) planned stop take_p)
       (InvalidRequest ''receipt stop/entry/take geometry is invalid'') (Inr ())))))"

definition validate_open_trade_request :: "market_stream \<Rightarrow> int \<Rightarrow> executed_trade_receipt \<Rightarrow> unit res" where
  "validate_open_trade_request m target rc =
     raise_if (rc_side rc \<notin> set VALID_SIDES) (InvalidRequest ''side must be long or short'')
     (raise_if (rc_locked_exit_profile rc \<notin> set SUPPORTED_PROFILES) (InvalidRequest ''locked_exit_profile is unsupported'')
     (bindR (timeframe_duration_ms (base_timeframe m)) (\<lambda>step.
      raise_if (\<not> aligned_time step (rc_source_plan_bar rc))
        (InvalidRequest ''source_plan_bar_open_time_ms must be base-timeframe aligned'')
      (raise_if (\<not> aligned_time step (rc_entry_bar rc))
        (InvalidRequest ''entry_bar_open_time_ms must be base-timeframe aligned'')
      (raise_if (\<not> aligned_time step target) (InvalidRequest ''target_bar_open_time_ms must be base-timeframe aligned'')
      (raise_if (\<not> (rc_source_plan_bar rc \<le> rc_entry_bar rc \<and> rc_entry_bar rc \<le> target))
        (InvalidRequest ''trade timestamps must satisfy source_plan <= entry <= target'')
        (validate_receipt_prices rc)))))))"

section \<open>The live frame\<close>

record live_frame_bundle =
  lf_target_index :: nat
  lf_requested_range :: time_range
  lf_planned :: ema_plan
  lf_frame :: feature_frame
  lf_planned_from_ms :: int

text \<open>What the evaluated frame says of itself.\<close>

record evaluated_frame =
  ef_market :: market_stream
  ef_requested_range :: time_range
  ef_frame :: feature_frame

definition bounds_of_ready :: "stream_bounds \<Rightarrow> (int \<times> int) res" where
  "bounds_of_ready b =
     (case (earliest_committed b, latest_committed b) of
        (Some e, Some l) \<Rightarrow> raise_if (sb_state b \<noteq> ''ready'') (MarketStreamNotReady ''market stream not ready'') (Inr (e, l))
      | _ \<Rightarrow> Inl (MarketStreamNotReady ''market stream not ready''))"

definition checked_frame :: "market_stream \<Rightarrow> time_range \<Rightarrow> int \<Rightarrow> evaluated_frame \<Rightarrow> feature_frame res" where
  "checked_frame m r target ef =
     raise_if (ef_market ef \<noteq> m \<or> ef_requested_range ef \<noteq> r)
       (UpstreamContract ''live FeatureFrame identity does not match the requested market range'')
     (raise_if (frame_time_ms (ef_frame ef) = [] \<or> last (frame_time_ms (ef_frame ef)) \<noteq> target)
       (UpstreamContract ''live FeatureFrame does not end on the requested target bar'') (Inr (ef_frame ef)))"

definition load_live_feature_frame ::
  "unit res \<Rightarrow> stream_bounds res \<Rightarrow> ema_plan res \<Rightarrow> (ema_plan \<Rightarrow> int res) \<Rightarrow> (time_range \<Rightarrow> ema_plan \<Rightarrow> evaluated_frame res) \<Rightarrow>
     market_stream \<Rightarrow> int \<Rightarrow> live_frame_bundle res" where
  "load_live_feature_frame validate bounds planner window evaluate m target =
     bindR (timeframe_duration_ms (base_timeframe m)) (\<lambda>step.
     raise_if (target < 0 \<or> target mod step \<noteq> 0) (InvalidRequest ''target bar must align to the base timeframe grid'')
     (bindR validate (\<lambda>_.
      bindR bounds (\<lambda>b.
      bindR (bounds_of_ready b) (\<lambda>(earliest, latest).
      raise_if (target < earliest \<or> latest < target) (TargetBarNotCommitted ''target bar not committed'')
      (bindR planner (\<lambda>plan.
       bindR (window plan) (\<lambda>from_planned.
       (let r = \<lparr>from_ms = max from_planned earliest, to_ms = target + step\<rparr> in
       bindR (validate_alignment r (base_timeframe m)) (\<lambda>_.
       bindR (evaluate r plan) (\<lambda>ef.
       bindR (checked_frame m r target ef) (\<lambda>fr.
       Inr \<lparr>lf_target_index = length (frame_time_ms fr) - 1, lf_requested_range = r, lf_planned = plan, lf_frame = fr,
            lf_planned_from_ms = from_planned\<rparr>))))))))))))"

section \<open>The desired entry\<close>

text \<open>\<open>_normalize_desired_entry\<close>: at most one side may have a plan.\<close>

definition normalize_desired_entry :: "(string \<times> live_entry_plan option) list \<Rightarrow> live_entry_plan option res" where
  "normalize_desired_entry plans =
     (case List.map_filter snd plans of
        [] \<Rightarrow> Inr None
      | [p] \<Rightarrow> Inr (Some p)
      | _ \<Rightarrow> Inl (EvaluationInvariant ''live-entry adapter returned conflicting side plans''))"

text \<open>The registries of adapters know one strategy family.\<close>

definition resolve_adapter :: "string \<Rightarrow> string \<Rightarrow> 'a res \<Rightarrow> 'a res" where
  "resolve_adapter capability sid k = raise_if (sid \<noteq> ''ema_pullback'') (UnsupportedCapability (capability @ '':'' @ sid)) k"

definition live_entry_projection ::
  "predicate_functions \<Rightarrow> string \<Rightarrow> string \<Rightarrow> obj \<Rightarrow> rat market_bar list \<Rightarrow> live_frame_bundle res \<Rightarrow> int \<Rightarrow> live_entry_plan option res" where
  "live_entry_projection pf mode sid raw_spec decs loaded target =
     bindR loaded (\<lambda>b. resolve_adapter ''strategy_live_entry'' sid
     (bindR (evaluate_live_entry pf mode raw_spec (lf_frame b) decs (lf_planned b) (lf_target_index b) target)
       normalize_desired_entry))"

text \<open>The open trade use case loads history from the plan bar of the trade.\<close>

definition history_anchor :: "executed_trade_receipt \<Rightarrow> int" where
  "history_anchor rc = min (rc_source_plan_bar rc) (rc_entry_bar rc)"

definition open_trade_use_case ::
  "predicate_functions \<Rightarrow> predicate_layer \<Rightarrow> change_parser \<Rightarrow> string \<Rightarrow> obj \<Rightarrow> rat market_bar list \<Rightarrow> (int \<Rightarrow> live_frame_bundle res) \<Rightarrow>
     market_stream \<Rightarrow> executed_trade_receipt \<Rightarrow> int \<Rightarrow> open_trade_projection res" where
  "open_trade_use_case pf eval parse sid raw_spec decs load m rc target =
     bindR (validate_open_trade_request m target rc) (\<lambda>_.
     bindR (load (history_anchor rc)) (\<lambda>b. resolve_adapter ''strategy_open_trade'' sid
     (evaluate_open_trade pf eval parse raw_spec (lf_frame b) decs (lf_planned b) rc (lf_target_index b) target)))"

end
