(* ===== verification/EvaluationCausality.thy ===== *)
theory EvaluationCausality
  imports ExitCausality OpenTrade
begin

text \<open>
  The evaluation of a frame cut short is the evaluation cut short: what the strategy decides on a
  bar depends on no later bar.
\<close>

section \<open>Entries\<close>

definition cut_entry :: "nat \<Rightarrow> side_entry_evaluation \<Rightarrow> side_entry_evaluation" where
  "cut_entry n s = s\<lparr>se_risk := (se_risk s)\<lparr>rk_allowed := take n (rk_allowed (se_risk s))\<rparr>,
     se_entry_allowed := take n (se_entry_allowed s)\<rparr>"

lemma side_entry_cut: "side_entry cid t = Inr s \<Longrightarrow> side_entry cid (cut_trigger n t) = Inr (cut_entry n s)"
  by (auto simp: side_entry_def Let_def bindR_Inr cut_trigger_def cut_entry_def and_pair_cut[where n = n] take_map[symmetric])

lemma entries_cut:
  "evaluate_risk_and_entries raw_spec ts = Inr es \<Longrightarrow>
     evaluate_risk_and_entries raw_spec (map (cut_trigger n) ts) = Inr (map (cut_entry n) es)"
  using mapR_rel[where R = "\<lambda>x y. y = cut_trigger n x" and c = "cut_entry n"]
  by (auto simp: evaluate_risk_and_entries_def bindR_Inr raise_if_Inr mapR_map list_all2_map2 list_all2_same side_entry_cut
      intro!: mapR_cut)

section \<open>Potential entries\<close>

definition cut_potential :: "nat \<Rightarrow> potential_entry \<Rightarrow> potential_entry" where
  "cut_potential n e = e\<lparr>pe_entry_price := take n (pe_entry_price e), pe_stop_price := take n (pe_stop_price e),
     pe_take_price := take n (pe_take_price e)\<rparr>"

lemma anchor_values_cut: "anchor_values fr plan = Inr vs \<Longrightarrow> anchor_values (cut_frame n fr) plan = Inr (take n vs)"
  by (auto simp: anchor_values_def bindR_Inr cut_frame_def map_of_cut split: option.splits)

lemma distances_for_cut: "distances_for ep side = Inr (a, b) \<Longrightarrow> distances_for (cut_exit n ep) side = Inr (take n a, take n b)"
  by (auto simp: distances_for_def raise_if_Inr cut_exit_def cut_sides_def exit_side_def optional_floats_def take_map)

lemma close_ok_cut: "touch_anchor_close_ok t = Inr vs \<Longrightarrow> touch_anchor_close_ok (cut_trigger n t) = Inr (take n vs)"
proof -
  assume a: "touch_anchor_close_ok t = Inr vs"
  have "map_of (cut_trace n tr) k = map_option (cut_values n) (map_of tr k)" for tr k
    by (induction tr) (auto simp: cut_trace_def)
  then show ?thesis using a
    by (auto simp: touch_anchor_close_ok_def Let_def raise_if_Inr cut_trigger_def split: option.splits trace_values.splits)
qed

lemma project_side_cut:
  assumes "project_side_entry s ok an sd td = Inr e" "setups_cut n s s'"
  shows "project_side_entry s' (take n ok) (take n an) (take n sd) (take n td) = Inr (cut_potential n e)"
proof -
  obtain ps where l: "length (ss_pre_trigger_allowed s) = length an" "length ok = length an" "length sd = length an" "length td = length an"
    and p: "mapR (price_bar (ss_side s)) (zip (ss_pre_trigger_allowed s) (zip ok (zip an (zip sd td)))) = Inr ps"
    and e: "e = \<lparr>pe_side = ss_side s, pe_entry_price = map fst ps, pe_stop_price = map (fst \<circ> snd) ps, pe_take_price = map (snd \<circ> snd) ps\<rparr>"
    using assms(1) by (auto simp: project_side_entry_def Let_def raise_if_Inr bindR_Inr)
  have "mapR (price_bar (ss_side s)) (zip (take n (ss_pre_trigger_allowed s)) (zip (take n ok) (zip (take n an) (zip (take n sd) (take n td))))) = Inr (take n ps)"
    using mapR_take[OF p, of n] by (simp only: take_zip)
  then show ?thesis using assms(2) l
    by (simp add: project_side_entry_def setups_cut_def raise_if_def e cut_potential_def take_map)
qed

lemma side_potential_cut:
  assumes "side_potential bs ep an s = Inr e" "setups_cut n s s'"
  shows "side_potential (map (map_prod id (cut_trigger n)) bs) (cut_exit n ep) (take n an) s' = Inr (cut_potential n e)"
proof -
  obtain t a b ok where g: "map_of bs (ss_side s) = Some t" "distances_for ep (ss_side s) = Inr (a, b)"
    "touch_anchor_close_ok t = Inr ok" "project_side_entry s ok an a b = Inr e"
    using assms(1) by (auto simp: side_potential_def bindR_Inr split: option.splits)
  have "map_of (map (map_prod id c) bs) k = map_option c (map_of bs k)" for k and c :: "side_trigger_evaluation \<Rightarrow> side_trigger_evaluation"
    by (induction bs) auto
  moreover have "ss_side s' = ss_side s" using assms(2) by (simp add: setups_cut_def)
  ultimately show ?thesis
    using g distances_for_cut[OF g(2), of n] close_ok_cut[OF g(3), of n] project_side_cut[OF g(4) assms(2)]
    by (simp add: side_potential_def)
qed

lemma update_map: "AList.update k (f v) (map (map_prod id f) xs) = map (map_prod id f) (AList.update k v xs)"
  by (induction xs) auto

lemma foldl_update_cut:
  "foldl (\<lambda>d e. AList.update (pe_side e) e d) (map (map_prod id (cut_potential n)) ds) (map (cut_potential n) es) =
   map (map_prod id (cut_potential n)) (foldl (\<lambda>d e. AList.update (pe_side e) e d) ds es)"
proof (induction es arbitrary: ds)
  case (Cons e es)
  have "pe_side (cut_potential n e) = pe_side e" by (simp add: cut_potential_def)
  then show ?case using Cons.IH by (simp only: list.map foldl.simps update_map)
qed simp

lemma potential_cut:
  assumes "project_potential_entries fr plan ss ts ep = Inr out" "list_all2 (setups_cut n) ss ss'"
  shows "project_potential_entries (cut_frame n fr) plan ss' (map (cut_trigger n) ts) (cut_exit n ep) =
    Inr (map (map_prod id (cut_potential n)) out)"
proof -
  let ?cids = "remdups (map (tm_component_id \<circ> st_trigger) ts)" and ?bs = "map (\<lambda>t. (st_side t, t)) ts"
  have cids: "map (tm_component_id \<circ> st_trigger) (map (cut_trigger n) ts) = map (tm_component_id \<circ> st_trigger) ts"
    and sides: "map st_side (map (cut_trigger n) ts) = map st_side ts"
    and bs: "map (\<lambda>t. (st_side t, t)) (map (cut_trigger n) ts) = map (map_prod id (cut_trigger n)) ?bs"
    and keys: "map fst (map (map_prod id (cut_trigger n)) ?bs) = map fst ?bs"
    by (simp_all add: cut_trigger_def)
  have one: "length ?cids = 1" using assms(1) by (simp add: project_potential_entries_def Let_def raise_if_Inr)
  show ?thesis
  proof (cases "?cids = [''touch_anchor'']")
    case False
    then show ?thesis using assms(1) one unfolding project_potential_entries_def Let_def cids by (simp add: raise_if_def)
  next
    case True
    let ?fold = "foldl (\<lambda>d e. AList.update (pe_side e) e d) []"
    obtain an es where g: "distinct (map st_side ts)" "anchor_values fr plan = Inr an" "mapR (side_potential ?bs ep an) ss = Inr es"
      "set (map fst ?bs) = set (map fst (?fold es))" "out = ?fold es"
      using assms(1) one True unfolding project_potential_entries_def Let_def by (auto simp: raise_if_Inr bindR_Inr)
    have es': "mapR (side_potential (map (map_prod id (cut_trigger n)) ?bs) (cut_exit n ep) (take n an)) ss' = Inr (map (cut_potential n) es)"
      using g(3) assms(2) by (rule mapR_rel) (rule side_potential_cut)
    have out': "?fold (map (cut_potential n) es) = map (map_prod id (cut_potential n)) out"
      using foldl_update_cut[of n "[]" es] by (simp add: g(5))
    show ?thesis using True g(1,4)
      unfolding project_potential_entries_def Let_def cids sides bs keys anchor_values_cut[OF g(2)] bindR_simps es' out' g(5)[symmetric]
      by (simp add: raise_if_def)
  qed
qed

section \<open>The whole evaluation\<close>

definition cut_evaluation :: "nat \<Rightarrow> ema_evaluation \<Rightarrow> ema_evaluation \<Rightarrow> bool" where
  "cut_evaluation n e e' \<longleftrightarrow>
     ev_contexts e' = cut_bundle n (ev_contexts e) \<and> ev_consumption e' = map (cut_record n) (ev_consumption e) \<and>
     ev_direction_blockers e' = map (cut_side n) (ev_direction_blockers e) \<and>
     list_all2 (setups_cut n) (ev_setups e) (ev_setups e') \<and> ev_triggers e' = map (cut_trigger n) (ev_triggers e) \<and>
     ev_entries e' = map (cut_entry n) (ev_entries e) \<and> ev_exit_policy e' = cut_exit n (ev_exit_policy e) \<and>
     ev_potential_entries e' = map (map_prod id (cut_potential n)) (ev_potential_entries e)"

lemma evaluation_cut:
  assumes pf: "causal_predicates pf" and "evaluate_ema_pullback_frame pf raw_spec fr decs plan = Inr e"
  shows "\<exists>e'. evaluate_ema_pullback_frame pf raw_spec (cut_frame n fr) (take n decs) plan = Inr e' \<and> cut_evaluation n e e'"
proof -
  obtain b rs bl ss ts es ep pot where g: "build_context_bundle raw_spec fr plan = Inr b"
    "build_context_consumption_evidence raw_spec b = Inr rs" "evaluate_direction_and_blockers raw_spec fr decs plan rs = Inr bl"
    "evaluate_setups pf raw_spec fr plan rs bl b = Inr ss" "evaluate_triggers raw_spec fr plan ss = Inr ts"
    "evaluate_risk_and_entries raw_spec ts = Inr es" "evaluate_exit_policy raw_spec fr plan rs = Inr ep"
    "project_potential_entries fr plan ss ts ep = Inr pot"
    and e: "e = \<lparr>ev_contexts = b, ev_consumption = rs, ev_direction_blockers = bl, ev_setups = ss,
          ev_triggers = ts, ev_entries = es, ev_exit_policy = ep, ev_potential_entries = pot\<rparr>"
    using assms(2) by (auto simp: evaluate_ema_pullback_frame_def bindR_Inr)
  obtain ss' where s: "evaluate_setups pf raw_spec (cut_frame n fr) plan (map (cut_record n) rs) (map (cut_side n) bl) (cut_bundle n b) = Inr ss'"
    "list_all2 (setups_cut n) ss ss'"
    using setups_causal[OF pf g(4)] by blast
  note reads = bundle_cut[OF g(1), of n] evidence_cut[OF g(2), of n] blockers_cut[OF g(3), of n] s(1) triggers_cut[OF g(5) s(2)]
    entries_cut[OF g(6), of n] exit_policy_cut[OF g(7), of n] potential_cut[OF g(8) s(2)] bindR_simps
  show ?thesis unfolding evaluate_ema_pullback_frame_def reads by (simp add: cut_evaluation_def e s(2))
qed

end
