(* ===== verification/LiveFacts.thy ===== *)
theory LiveFacts
  imports OpenTrade
begin

text \<open>
  What a live plan rests on: the chain of masks from the trigger back to the direction of the trend,
  and the geometry of its prices.
\<close>

section \<open>The chain of masks\<close>

lemma and_pair_bar: "and_pair xs ys = Inr zs \<Longrightarrow> i < length zs \<Longrightarrow> zs ! i \<Longrightarrow> i < length xs \<and> xs ! i \<and> i < length ys \<and> ys ! i"
  by (auto simp: and_pair_Inr)

text \<open>The anchor columns on a bar, in the order of the trend.\<close>

definition trend_on :: "feature_frame \<Rightarrow> ema_plan \<Rightarrow> string \<Rightarrow> nat \<Rightarrow> bool" where
  "trend_on fr plan side i \<longleftrightarrow>
     (\<exists>f a. column_floats fr (anchor_columns plan) ''fast'' = Inr f \<and> column_floats fr (anchor_columns plan) ''anchor'' = Inr a \<and>
        (if side = ''long'' then fgt (f ! i) (a ! i) else flt (f ! i) (a ! i)))"

lemma trend_one_way: "trend_on fr plan ''long'' i \<Longrightarrow> \<not> trend_on fr plan ''short'' i"
  by (auto simp: trend_on_def dest: flt_asym)

lemma direction_bar:
  assumes "direction raw_spec fr plan side = Inr m" "i < length (cm_allowed m)" "cm_allowed m ! i"
  shows "trend_on fr plan side i"
proof -
  obtain f a s up lo ok where g: "column_floats fr (anchor_columns plan) ''fast'' = Inr f"
    "column_floats fr (anchor_columns plan) ''anchor'' = Inr a" "zip_with (if side = ''long'' then fgt else flt) f a = Inr up"
    "and_pair up lo = Inr ok" "cm_allowed m = ok"
    using assms(1) by (auto simp: direction_def bindR_Inr Let_def)
  then have "i < length up \<and> up ! i" using assms(2,3) and_pair_bar by blast
  then show ?thesis using g(1-3) by (auto simp: trend_on_def zip_with_Inr split: if_splits)
qed

lemma blockers_bar:
  assumes "evaluate_direction_and_blockers raw_spec fr decs plan records = Inr outs" "s \<in> set outs"
    "i < length (sdb_pre_setup_allowed s)" "sdb_pre_setup_allowed s ! i"
  shows "trend_on fr plan (sdb_side s) i"
proof -
  obtain its side where "side_blockers raw_spec fr decs plan records its side = Inr s"
    using assms(1,2) mapR_set by (fastforce simp: evaluate_direction_and_blockers_def bindR_Inr)
  then obtain dir ok where g: "direction raw_spec fr plan side = Inr dir" "and_pair (cm_allowed dir) ok = Inr (sdb_pre_setup_allowed s)"
    "sdb_side s = side"
    by (auto simp: side_blockers_def bindR_Inr)
  then show ?thesis using and_pair_bar[OF g(2) assms(3,4)] direction_bar[OF g(1)] by simp
qed

lemma setups_bar:
  assumes "evaluate_setups pf raw_spec fr plan records priors b = Inr ss" "s \<in> set ss"
    "i < length (ss_pre_trigger_allowed s)" "ss_pre_trigger_allowed s ! i"
  shows "\<exists>p \<in> set priors. sdb_side p = ss_side s \<and> i < length (sdb_pre_setup_allowed p) \<and> sdb_pre_setup_allowed p ! i"
proof -
  obtain its p where p: "p \<in> set priors" "side_setups pf fr plan records b its p = Inr s"
    using assms(1,2) mapR_set by (fastforce simp: evaluate_setups_def bindR_Inr)
  then obtain ok where "and_pair (sdb_pre_setup_allowed p) ok = Inr (ss_pre_trigger_allowed s)" "ss_side s = sdb_side p"
    by (auto simp: side_setups_def bindR_Inr)
  then show ?thesis using and_pair_bar assms(3,4) p(1) by metis
qed

lemma triggers_bar:
  assumes "evaluate_triggers raw_spec fr plan ss = Inr ts" "t \<in> set ts"
    "i < length (st_pre_risk_entry_allowed t)" "st_pre_risk_entry_allowed t ! i"
  shows "\<exists>s \<in> set ss. ss_side s = st_side t \<and> i < length (ss_pre_trigger_allowed s) \<and> ss_pre_trigger_allowed s ! i"
proof -
  obtain rule cid a s where s: "s \<in> set ss" "side_trigger rule cid fr a s = Inr t"
    using assms(1,2) mapR_set by (fastforce simp: evaluate_triggers_def bindR_Inr)
  then obtain ok where "and_pair (ss_pre_trigger_allowed s) ok = Inr (st_pre_risk_entry_allowed t)" "st_side t = ss_side s"
    by (auto simp: side_trigger_def bindR_Inr)
  then show ?thesis using and_pair_bar assms(3,4) s(1) by metis
qed

lemma entries_bar:
  assumes "evaluate_risk_and_entries raw_spec ts = Inr es" "x \<in> set es" "i < length (se_entry_allowed x)" "se_entry_allowed x ! i"
  shows "\<exists>t \<in> set ts. st_side t = se_side x \<and> i < length (st_pre_risk_entry_allowed t) \<and> st_pre_risk_entry_allowed t ! i"
proof -
  obtain cid t where t: "t \<in> set ts" "side_entry cid t = Inr x"
    using assms(1,2) mapR_set by (fastforce simp: evaluate_risk_and_entries_def bindR_Inr raise_if_Inr)
  then obtain r where "and_pair (st_pre_risk_entry_allowed t) r = Inr (se_entry_allowed x)" "se_side x = st_side t"
    by (auto simp: side_entry_def Let_def bindR_Inr)
  then show ?thesis using and_pair_bar assms(3,4) t(1) by metis
qed

lemma update_lookup:
  "map_of (foldl (\<lambda>d e. AList.update (pe_side e) e d) ds es) k = Some p \<Longrightarrow> (p \<in> set es \<and> pe_side p = k) \<or> map_of ds k = Some p"
proof (induction es arbitrary: ds)
  case (Cons e es)
  from Cons.IH[of "AList.update (pe_side e) e ds"] Cons.prems
  have "(p \<in> set es \<and> pe_side p = k) \<or> map_of (AList.update (pe_side e) e ds) k = Some p" by simp
  then show ?case by (cases "k = pe_side e") (auto simp: update_conv)
qed simp

lemma price_bar_entry: "price_bar side (ok, c, a, sd, td) = Inr (Some v, x, y) \<Longrightarrow> ok"
  by (simp add: price_bar_def no_prices_def split: option.splits if_splits)

lemma project_side_bar:
  assumes "project_side_entry s ok an sd td = Inr p" "i < length (pe_entry_price p)" "pe_entry_price p ! i = Some v"
  shows "pe_side p = ss_side s \<and> i < length (ss_pre_trigger_allowed s) \<and> ss_pre_trigger_allowed s ! i"
proof -
  obtain ps where p: "mapR (price_bar (ss_side s)) (zip (ss_pre_trigger_allowed s) (zip ok (zip an (zip sd td)))) = Inr ps"
    "p = \<lparr>pe_side = ss_side s, pe_entry_price = map fst ps, pe_stop_price = map (fst \<circ> snd) ps, pe_take_price = map (snd \<circ> snd) ps\<rparr>"
    using assms(1) by (auto simp: project_side_entry_def Let_def raise_if_Inr bindR_Inr)
  have i: "i < length (zip (ss_pre_trigger_allowed s) (zip ok (zip an (zip sd td))))" using mapR_length[OF p(1)] assms(2) by (simp add: p(2))
  obtain x y where "ps ! i = (Some v, x, y)" using assms(2,3) by (cases "ps ! i") (auto simp: p(2))
  then have "price_bar (ss_side s) (ss_pre_trigger_allowed s ! i, ok ! i, an ! i, sd ! i, td ! i) = Inr (Some v, x, y)"
    using mapR_nth[OF p(1) i] i by simp
  from price_bar_entry[OF this] show ?thesis using i p(2) by simp
qed

lemma potential_bar:
  assumes "project_potential_entries fr plan ss ts ep = Inr out" "map_of out side = Some p"
    "i < length (pe_entry_price p)" "pe_entry_price p ! i = Some v"
  shows "\<exists>s \<in> set ss. ss_side s = side \<and> i < length (ss_pre_trigger_allowed s) \<and> ss_pre_trigger_allowed s ! i"
proof -
  obtain bs an es where es: "mapR (side_potential bs ep an) ss = Inr es" "out = foldl (\<lambda>d e. AList.update (pe_side e) e d) [] es"
    using assms(1,2) by (auto simp: project_potential_entries_def Let_def raise_if_Inr bindR_Inr split: if_splits)
  then have "p \<in> set es" "pe_side p = side" using update_lookup[of "[]" es side p] assms(2) by auto
  then obtain s where s: "s \<in> set ss" "side_potential bs ep an s = Inr p" using mapR_set[OF es(1)] by blast
  then obtain ok sd td where "project_side_entry s ok an sd td = Inr p"
    by (auto simp: side_potential_def bindR_Inr split: option.splits)
  then show ?thesis using project_side_bar[OF _ assms(3,4)] s(1) \<open>pe_side p = side\<close> by metis
qed

section \<open>At most one side\<close>

lemma item_or_Inr: "item_or msg xs i = Inr x \<longleftrightarrow> i < length xs \<and> x = xs ! i"
  by (auto simp: item_or_def)

lemma no_plan_without_entry: "plan_from_prices e side i t None s k \<noteq> Inr (Some p)"
  by (simp add: plan_from_prices_def normalized_positive_def)

lemma touch_signal_plan_Some:
  "touch_signal_plan e side i t sg c sd td = Inr (Some p) \<Longrightarrow> sg \<and> (\<exists>a b. plan_from_prices e side i t (Some c) a b = Inr (Some p))"
  by (auto simp: touch_signal_plan_def split: option.splits if_splits)

lemma plan_trend:
  assumes "evaluate_ema_pullback_frame pf raw_spec fr decs plan = Inr e" "live_plan_of mode e fr i t side = Inr (Some p)"
  shows "trend_on fr plan side i"
proof -
  obtain b rs where g: "evaluate_direction_and_blockers raw_spec fr decs plan rs = Inr (ev_direction_blockers e)"
    "evaluate_setups pf raw_spec fr plan rs (ev_direction_blockers e) b = Inr (ev_setups e)"
    "evaluate_triggers raw_spec fr plan (ev_setups e) = Inr (ev_triggers e)"
    "evaluate_risk_and_entries raw_spec (ev_triggers e) = Inr (ev_entries e)"
    "project_potential_entries fr plan (ev_setups e) (ev_triggers e) (ev_exit_policy e) = Inr (ev_potential_entries e)"
    using assms(1) by (auto simp: evaluate_ema_pullback_frame_def bindR_Inr)
  have "\<exists>s \<in> set (ev_setups e). ss_side s = side \<and> i < length (ss_pre_trigger_allowed s) \<and> ss_pre_trigger_allowed s ! i"
  proof (cases "mode = ''touch_trigger''")
    case True
    then obtain x where x: "find (\<lambda>s. se_side s = side) (ev_entries e) = Some x" "i < length (se_entry_allowed x)" "se_entry_allowed x ! i"
      using assms(2) by (auto simp: live_plan_of_def touch_trigger_plan_for_side_def bindR_Inr item_or_Inr
          dest!: touch_signal_plan_Some split: option.splits if_splits)
    have "x \<in> set (ev_entries e)" "se_side x = side" using x(1) by (auto simp: find_Some_iff in_set_conv_nth)
    then obtain tr where "tr \<in> set (ev_triggers e)" "st_side tr = side" "i < length (st_pre_risk_entry_allowed tr)" "st_pre_risk_entry_allowed tr ! i"
      using entries_bar[OF g(4) _ x(2,3)] by metis
    then show ?thesis using triggers_bar[OF g(3)] by metis
  next
    case False
    then obtain pe v s k where pe: "map_of (ev_potential_entries e) side = Some pe" "i < length (pe_entry_price pe)" "pe_entry_price pe ! i = v"
      "plan_from_prices e side i t v s k = Inr (Some p)"
      using assms(2) by (auto simp: live_plan_of_def plan_for_side_def bindR_Inr item_or_Inr split: option.splits)
    then obtain x where "pe_entry_price pe ! i = Some x" using no_plan_without_entry by (cases v) simp_all
    then show ?thesis using potential_bar[OF g(5) pe(1,2)] by blast
  qed
  then show ?thesis using setups_bar[OF g(2)] blockers_bar[OF g(1)] by metis
qed

lemma desired_entry_total:
  assumes "evaluate_live_entry pf mode raw_spec fr decs plan i t = Inr plans"
  shows "\<exists>d. normalize_desired_entry plans = Inr d"
proof -
  obtain e pl ps where g: "evaluate_ema_pullback_frame pf raw_spec fr decs plan = Inr e"
    "live_plan_of mode e fr i t ''long'' = Inr pl" "live_plan_of mode e fr i t ''short'' = Inr ps"
    "plans = [(''long'', pl), (''short'', ps)]"
    using assms by (auto simp: evaluate_live_entry_def bindR_Inr)
  have "pl = None \<or> ps = None"
    using plan_trend[OF g(1)] g(2,3) trend_one_way by (cases pl; cases ps) blast+
  then show ?thesis by (auto simp: normalize_desired_entry_def g(4) List.map_filter_simps split: option.splits)
qed

text \<open>
  The texts of a live plan are read back as the decimals they were written for, in the order the
  side demands; the legs lie on the profit side, ordered by their distance.
\<close>

section \<open>Prices\<close>

lemma normalized_parses: "parse_decimal_text (normalized_decimal_text q) = Inr (dec_round q)"
  unfolding normalized_decimal_text_def by (rule decimal_text_parses) (rule dec_round_places)

lemma normalized_positive_Some:
  assumes "normalized_positive v = Some s"
  obtains q where "0 < q" "s = normalized_decimal_text q" "parse_decimal_text s = Inr (dec_round q)"
    "parse_normalized_decimal_text s = Inr (dec_round q)" "0 < dec_round q"
  using assms normalized_parses normalized_round_trip dec_round_pos
  by (auto simp: normalized_positive_def split: option.splits f64.splits if_splits)

lemma plan_prices:
  assumes "plan_from_prices e side i t entry stop take_p = Inr (Some p)"
  obtains en st tk where "parse_normalized_decimal_text (lp_planned_entry_price p) = Inr en"
    "parse_normalized_decimal_text (lp_initial_stop_price p) = Inr st"
    "parse_normalized_decimal_text (lp_initial_take_price p) = Inr tk"
    "0 < en" "0 < st" "0 < tk" "receipt_geometry side en st tk"
    "lp_side p = side" "lp_source_plan_bar p = t" "profile_at e side i = Inr (lp_locked_exit_profile p)"
    "partial_takes_of (xp_partial_takes (ev_exit_policy e)) side i (lp_locked_exit_profile p) en = Inr (Some (lp_partial_takes p))"
proof -
  obtain a b c where n: "normalized_positive entry = Some a" "normalized_positive stop = Some b" "normalized_positive take_p = Some c"
    using assms by (auto simp: plan_from_prices_def split: option.splits)
  obtain qa where a: "parse_decimal_text a = Inr (dec_round qa)" "parse_normalized_decimal_text a = Inr (dec_round qa)" "0 < dec_round qa"
    by (rule normalized_positive_Some[OF n(1)])
  obtain qb where b: "parse_decimal_text b = Inr (dec_round qb)" "parse_normalized_decimal_text b = Inr (dec_round qb)" "0 < dec_round qb"
    by (rule normalized_positive_Some[OF n(2)])
  obtain qc where c: "parse_decimal_text c = Inr (dec_round qc)" "parse_normalized_decimal_text c = Inr (dec_round qc)" "0 < dec_round qc"
    by (rule normalized_positive_Some[OF n(3)])
  have geo: "receipt_geometry side (dec_round qa) (dec_round qb) (dec_round qc)"
    using assms by (auto simp: plan_from_prices_def n a(1) b(1) c(1) receipt_geometry_def split: if_splits)
  obtain locked legs where l: "profile_at e side i = Inr locked"
    "partial_takes_of (xp_partial_takes (ev_exit_policy e)) side i locked (dec_round qa) = Inr (Some legs)"
    and p: "p = \<lparr>lp_side = side, lp_source_plan_bar = t, lp_planned_entry_price = a,
      lp_initial_stop_price = b, lp_initial_take_price = c, lp_locked_exit_profile = locked, lp_partial_takes = legs\<rparr>"
    using assms geo unfolding plan_from_prices_def n option.case prod.case a(1) b(1) c(1) bindR_simps receipt_geometry_def[symmetric]
    by (auto simp: bindR_Inr)
  show thesis by (rule that) (use a b c geo l in \<open>simp_all add: p\<close>)
qed

lemma live_plan_from_prices:
  assumes "live_plan_of mode e fr i t side = Inr (Some p)"
  obtains entry stop take_p where "plan_from_prices e side i t entry stop take_p = Inr (Some p)"
  using assms
  by (auto simp: live_plan_of_def touch_trigger_plan_for_side_def plan_for_side_def bindR_Inr dest!: touch_signal_plan_Some
      split: if_splits option.splits)

section \<open>The plan as a receipt\<close>

definition receipt_of :: "live_entry_plan \<Rightarrow> int \<Rightarrow> executed_trade_receipt" where
  "receipt_of p entry_bar = \<lparr>rc_side = lp_side p, rc_source_plan_bar = lp_source_plan_bar p, rc_entry_bar = entry_bar,
     rc_planned_entry_price = lp_planned_entry_price p, rc_initial_stop_price = lp_initial_stop_price p,
     rc_initial_take_price = lp_initial_take_price p, rc_locked_exit_profile = lp_locked_exit_profile p\<rparr>"

lemma plan_receipt_valid:
  assumes "live_plan_of mode e fr i t side = Inr (Some p)" "side \<in> set VALID_SIDES"
    and step: "timeframe_duration_ms (base_timeframe m) = Inr step"
    and times: "aligned_time step t" "aligned_time step entry_bar" "aligned_time step target" "t \<le> entry_bar" "entry_bar \<le> target"
  shows "validate_open_trade_request m target (receipt_of p entry_bar) = Inr ()"
proof -
  obtain entry stop take_p where "plan_from_prices e side i t entry stop take_p = Inr (Some p)"
    by (rule live_plan_from_prices[OF assms(1)])
  then obtain en st tk where g: "parse_normalized_decimal_text (lp_planned_entry_price p) = Inr en"
    "parse_normalized_decimal_text (lp_initial_stop_price p) = Inr st"
    "parse_normalized_decimal_text (lp_initial_take_price p) = Inr tk"
    "0 < en" "0 < st" "0 < tk" "receipt_geometry side en st tk"
    "lp_side p = side" "lp_source_plan_bar p = t" "profile_at e side i = Inr (lp_locked_exit_profile p)"
    by (rule plan_prices)
  have "lp_locked_exit_profile p \<in> set SUPPORTED_PROFILES" using g(10) by (auto simp: profile_at_def Let_def bindR_Inr raise_if_Inr)
  then show ?thesis using assms(2) step times g(1-9)
    by (simp add: validate_open_trade_request_def validate_receipt_prices_def receipt_of_def raise_if_def)
qed

section \<open>Legs\<close>

text \<open>A leg was priced from a positive distance.\<close>

definition leg_priced :: "string \<Rightarrow> rat \<Rightarrow> rat \<times> live_partial_take \<Rightarrow> bool" where
  "leg_priced side entry ql \<longleftrightarrow> 0 < fst ql \<and> 0 < leg_price side entry (fst ql) \<and>
     lt_price (snd ql) = normalized_decimal_text (leg_price side entry (fst ql))"

lemma leg_distance_pos: "leg_distance entry i r = Inr (Some q) \<Longrightarrow> 0 < q"
  unfolding leg_distance_def bindR_Inr by (elim exE conjE) (auto split: option.splits if_splits)

lemma legs_priced: "legs_of side i locked entry rs = Inr (Some ls) \<Longrightarrow> list_all (leg_priced side entry) ls"
proof (induction rs arbitrary: ls)
  case (Cons r rs)
  show ?case
  proof (cases "pt_group r \<noteq> ''always_on'' \<and> pt_group r \<noteq> locked")
    case True
    then show ?thesis using Cons by simp
  next
    case False
    obtain d where d: "leg_distance entry i r = Inr d" using Cons.prems False by (auto simp: bindR_Inr split: if_splits)
    then obtain q where q: "d = Some q" using Cons.prems False by (cases d) (auto split: if_splits)
    have p: "0 < leg_price side entry q" using Cons.prems False d q by (auto simp: Let_def not_le split: if_splits)
    obtain ms where "legs_of side i locked entry rs = Inr (Some ms)" "ls = (q, leg_of r (leg_price side entry q)) # ms"
      using Cons.prems False d q p by (auto simp: Let_def bindR_Inr split: if_splits)
    then show ?thesis using Cons.IH p leg_distance_pos[of entry i r q] d q by (simp add: leg_priced_def leg_of_def)
  qed
qed simp

lemma leg_price_text: "leg_priced side entry l \<Longrightarrow> parse_decimal_text (lt_price (snd l)) = Inr (leg_price side entry (fst l))"
  by (simp add: leg_priced_def normalized_parses leg_price_def dec_add_def dec_round_idem)

lemma leg_price_order:
  assumes "d \<le> d'"
  shows "leg_price ''long'' entry d \<le> leg_price ''long'' entry d'" "leg_price ''short'' entry d' \<le> leg_price ''short'' entry d"
  using assms by (auto simp: leg_price_def dec_add_def dec_mul_def dec_round_minus intro!: dec_round_mono)

lemma leg_profit_side:
  assumes "dec_round entry = entry" "0 < d"
  shows "entry \<le> leg_price ''long'' entry d" "leg_price ''short'' entry d \<le> entry"
proof -
  have d: "0 \<le> dec_round d" using assms(2) by (simp add: dec_round_nonneg)
  have "dec_round entry \<le> leg_price ''long'' entry d" "leg_price ''short'' entry d \<le> dec_round entry"
    using d by (auto simp: leg_price_def dec_add_def dec_mul_def dec_round_minus intro!: dec_round_mono)
  then show "entry \<le> leg_price ''long'' entry d" "leg_price ''short'' entry d \<le> entry" by (simp_all add: assms(1))
qed

text \<open>The prices the legs of a plan stand for.\<close>

definition leg_prices :: "live_entry_plan \<Rightarrow> rat list" where
  "leg_prices p = map (\<lambda>l. projr (parse_decimal_text (lt_price l))) (lp_partial_takes p)"

lemma plan_legs_ordered:
  assumes "live_plan_of mode e fr i t side = Inr (Some p)" "side \<in> set VALID_SIDES"
    and entry: "parse_decimal_text (lp_planned_entry_price p) = Inr en"
  shows "list_all (\<lambda>q. 0 < q) (leg_prices p) \<and>
    (if side = ''long'' then sorted (en # leg_prices p) else sorted (rev (en # leg_prices p)))"
proof -
  obtain a b c where "plan_from_prices e side i t a b c = Inr (Some p)"
    by (rule live_plan_from_prices[OF assms(1)])
  then obtain en' where g: "parse_normalized_decimal_text (lp_planned_entry_price p) = Inr en'"
    "partial_takes_of (xp_partial_takes (ev_exit_policy e)) side i (lp_locked_exit_profile p) en' = Inr (Some (lp_partial_takes p))"
    by (rule plan_prices)
  have "parse_decimal_text (lp_planned_entry_price p) = Inr en'" "lp_planned_entry_price p = normalized_decimal_text en'"
    using g(1) by (auto simp: parse_normalized_decimal_text_def bindR_Inr raise_if_Inr)
  then have en: "en' = en" "dec_round en = en" using entry normalized_parses[of en'] by simp_all
  obtain ls where ls: "legs_of side i (lp_locked_exit_profile p) en (xp_partial_takes (ev_exit_policy e)) = Inr (Some ls)"
    "lp_partial_takes p = map snd (sort_key fst ls)"
    using g(2) by (auto simp: partial_takes_of_def bindR_Inr en(1))
  define ss where "ss = sort_key fst ls"
  have priced: "\<forall>l \<in> set ss. leg_priced side en l" using legs_priced[OF ls(1)] by (simp add: ss_def list_all_iff)
  have ps: "leg_prices p = map (\<lambda>l. leg_price side en (fst l)) ss"
    unfolding leg_prices_def ls(2) ss_def[symmetric] map_map
    by (rule map_cong[OF refl]) (use priced leg_price_text in fastforce)
  have pos: "list_all (\<lambda>q. 0 < q) (leg_prices p)" using priced by (simp add: ps list_all_iff leg_priced_def)
  have sorted: "sorted (map fst ss)" by (simp add: ss_def)
  have d: "0 < fst l" if "l \<in> set ss" for l using priced that by (simp add: leg_priced_def)
  show ?thesis
  proof (cases "side = ''long''")
    case True
    have "sorted (leg_prices p)" unfolding ps using sorted
      by (induction ss) (auto simp: True intro: leg_price_order(1))
    moreover have "\<forall>q \<in> set (leg_prices p). en \<le> q" using d leg_profit_side(1)[OF en(2)] by (auto simp: ps True)
    ultimately show ?thesis using pos True by simp
  next
    case False
    then have short: "side = ''short''" using assms(2) by (simp add: VALID_SIDES_def)
    have "sorted (rev (leg_prices p))" unfolding ps using sorted
      by (induction ss) (auto simp: short sorted_append intro: leg_price_order(2))
    moreover have "\<forall>q \<in> set (leg_prices p). q \<le> en" using d leg_profit_side(2)[OF en(2)] by (auto simp: ps short)
    ultimately show ?thesis using pos short by (simp add: sorted_append)
  qed
qed

end
