(* ===== verification/SetupProperties.thy ===== *)
theory SetupProperties
  imports BlockerIdentity EvaluationProperties
begin

text \<open>
  Properties of the filters and setups of an evaluation: the trend blocker and its search, the
  identities of the blockers, the bounce counter and the weighted votes.
\<close>

section \<open>Blockers\<close>

text \<open>
  C20. The trend strength blocker, evaluated with arrays and a running maximum of positions, is on every
  bar the search its parameters describe: look back from the bar over the window for the last bar that
  qualifies as a peak, and give the first reason that blocks.
\<close>
theorem trend_blocker_is_backward_search:
  assumes "i < length rows"
  shows "trend_bar tp side rows i = searched_bar tp side rows i"
  using assms by (rule trend_bar_searched)

definition sample_trend :: trend_params where
  "sample_trend = \<lparr>tp_min_peak = Fin 25, tp_peak_lookback = 3, tp_max_since = 1, tp_min_current = Fin 15,
     tp_require_alignment = True, tp_block_flip = True, tp_margin = Fin 0\<rparr>"

definition sample_adx :: "(f64 \<times> f64 \<times> f64) list" where
  "sample_adx = [(NaN, Fin 0, Fin 0), (Fin 30, Fin 20, Fin 10), (Fin 20, Fin 20, Fin 10), (Fin 20, Fin 20, Fin 10), (Fin 20, Fin 20, Fin 10)]"

theorem trend_blocker_is_backward_search_witness:
  "trend_bar sample_trend ''long'' sample_adx 3 = (False, ''peak_too_old'', 1, 2)"
proof -
  have i: "3 < length sample_adx" by (simp add: sample_adx_def)
  have "searched_bar sample_trend ''long'' sample_adx 3 = (False, ''peak_too_old'', 1, 2)" by code_simp
  then show ?thesis using trend_blocker_is_backward_search[OF i, of sample_trend "''long''"] by simp
qed

text \<open>
  C18. The memo may share a blocker only where it computes the same: two blocker items, of any strategy,
  any labels and any order of their fields, that resolve to one node on the same bars give the same
  mask and trace.
\<close>
theorem equal_blocker_identity_equal_mask:
  assumes "resolve_blocker_intrinsic it plan ids side = Inr n" "resolve_blocker_intrinsic it' plan' ids' side' = Inr n"
    and "ids_agree ids fr ids' fr'" "doc_ok (JObj it)" "doc_ok (JObj it')" "plan_ok plan" "plan_ok plan'" "shared_market fr fr'"
  shows "blocker_intrinsic (fst (resolve_blocker_identity it)) it fr decs plan side =
    blocker_intrinsic (fst (resolve_blocker_identity it')) it' fr' decs plan' side'"
  by (rule blocker_identity_sound[OF assms])

definition rsi_item :: "string \<Rightarrow> obj \<Rightarrow> obj" where
  "rsi_item inst rest = [(''instance_id'', JStr inst), (''component_id'', JStr ''rsi_lookback_extreme_blocker''),
     (''rsi'', JObj [(''period'', JInt 14)])] @ rest"

definition rsi_plan :: "string \<Rightarrow> ema_plan" where
  "rsi_plan oid = empty_plan\<lparr>rsi_columns := [((''base'', 14), oid)]\<rparr>"

definition rsi_node :: node where
  "rsi_node = NodeSpec ''indicator.rsi'' 1 [(''period'', CInt 14)] [] None"

definition rsi_frame :: "string \<Rightarrow> feature_frame" where
  "rsi_frame oid = \<lparr>frame_time_ms = [0, 60000, 120000], frame_series = [(oid, [None, Some (Fin 90), Some (Fin 50)])], frame_bars = []\<rparr>"

theorem equal_blocker_identity_equal_mask_witness:
  "blocker_intrinsic ''rsi_lookback_extreme_blocker'' (rsi_item ''one'' [(''lookback'', JInt 20)]) (rsi_frame ''r'') [] (rsi_plan ''r'') ''long'' =
    blocker_intrinsic ''rsi_lookback_extreme_blocker'' (rsi_item ''two'' [(''long_block_above'', JInt 80)]) (rsi_frame ''rsi_14'') [] (rsi_plan ''rsi_14'') ''long''"
proof -
  let ?one = "rsi_item ''one'' [(''lookback'', JInt 20)]"
  let ?two = "rsi_item ''two'' [(''long_block_above'', JInt 80)]"
  let ?spec = "node_spec ''blocker.rsi_lookback_extreme_blocker'' DIRECTION_BLOCKER_NODE_VERSION
    [(''lookback'', PInt 20), (''threshold'', PFloat (f64_bits (Fin 80)))] [(''rsi'', Single rsi_node)] (Some ''long'')"
  have k: "fst (resolve_blocker_identity ?one) = ''rsi_lookback_extreme_blocker''" "fst (resolve_blocker_identity ?two) = ''rsi_lookback_extreme_blocker''"
    by code_simp+
  have c: "rsi_blocker_column ?one (rsi_plan ''r'') = Inr ''r''" "rsi_blocker_column ?two (rsi_plan ''rsi_14'') = Inr ''rsi_14''"
    "rsi_blocker_params ?one ''long'' = Inr (20, Fin 80)" "rsi_blocker_params ?two ''long'' = Inr (20, Fin 80)" by code_simp+
  have r: "resolve_blocker_intrinsic ?one (rsi_plan ''r'') [(''r'', rsi_node)] ''long'' = ?spec"
    "resolve_blocker_intrinsic ?two (rsi_plan ''rsi_14'') [(''rsi_14'', rsi_node)] ''long'' = ?spec"
    by (simp_all add: resolve_blocker_intrinsic_def k c Let_def BLOCKER_SUPPORTED_def feature_node_def)
  obtain m where "?spec = Inr m" by (auto simp: node_spec_def)
  note n = r[unfolded this]
  have d: "doc_ok (JObj ?one)" "doc_ok (JObj ?two)" by code_simp+
  have p: "plan_ok (rsi_plan oid)" for oid by (simp add: plan_ok_def rsi_plan_def empty_plan_def)
  have a: "ids_agree [(''r'', rsi_node)] (rsi_frame ''r'') [(''rsi_14'', rsi_node)] (rsi_frame ''rsi_14'')"
    by (auto simp: ids_agree_def rsi_frame_def)
  have m: "shared_market (rsi_frame ''r'') (rsi_frame ''rsi_14'')" by (simp add: shared_market_def rsi_frame_def)
  from equal_blocker_identity_equal_mask[OF n a d p p m] show ?thesis unfolding k .
qed

section \<open>The bounce counter\<close>

text \<open>
  Every row the bounce counter writes is consistent, whatever the bars: the count never is
  negative or beyond the maximum, the setup is allowed exactly in an active trend with bounces left,
  and a pending bounce lies in its look-back with between one and all of its bars left.
\<close>
theorem bounce_rows_well_formed:
  assumes "ema_bounce_counter_params params = Inr (p, mode)" "i < length bs"
  shows "bounce_row_ok p i (snd (scan (bounce_step p) bounce_start bs) ! i)"
  using bounce_rows_ok[OF bounce_params_valid[OF assms(1)] assms(2)] .

definition bounce_bar_at :: "bool \<Rightarrow> bounce_bar" where
  "bounce_bar_at t = \<lparr>bb_raw_trend = True, bb_armed = True, bb_raw_touch = t, bb_price_side = ''above''\<rparr>"

definition two_bar_bounce :: bounce_params where
  "two_bar_bounce = \<lparr>bp_max_bounces = 3, bp_touch_lookback = 2, bp_start_confirm = 1, bp_break_confirm = 1\<rparr>"

definition touching_bars :: "bounce_bar list" where
  "touching_bars = map bounce_bar_at [False, True, False, False, True]"

lemma two_bar_params: "ema_bounce_counter_params [(''touch_lookback_bars'', JInt 2)] = Inr (two_bar_bounce, ''range_cross'')"
  by code_simp

theorem bounce_rows_well_formed_witness:
  "bounce_row_ok two_bar_bounce 4 (snd (scan (bounce_step two_bar_bounce) bounce_start touching_bars) ! 4)"
  by (rule bounce_rows_well_formed[OF two_bar_params]) (simp add: touching_bars_def)

text \<open>
  C19. A bounce that starts is counted: once it is pending, and unless the trend breaks meanwhile, the
  bar after its touch look-back has one completed bounce more.
\<close>
theorem started_bounce_is_counted:
  assumes "ema_bounce_counter_params params = Inr (p, mode)" "i + nat (bp_touch_lookback p) < length bs"
    and "br_pending_start (snd (scan (bounce_step p) bounce_start bs) ! i)"
    and "\<And>k. i < k \<Longrightarrow> k \<le> i + nat (bp_touch_lookback p) \<Longrightarrow> \<not> br_trend_break_event (snd (scan (bounce_step p) bounce_start bs) ! k)"
  shows "br_completed_bounce_count (snd (scan (bounce_step p) bounce_start bs) ! (i + nat (bp_touch_lookback p))) =
    br_completed_bounce_count (snd (scan (bounce_step p) bounce_start bs) ! i) + 1"
  by (rule pending_bounce_completes[OF bounce_params_valid[OF assms(1)] assms(2-4)])

theorem started_bounce_is_counted_witness:
  "br_completed_bounce_count (snd (scan (bounce_step two_bar_bounce) bounce_start touching_bars) ! 3) =
    br_completed_bounce_count (snd (scan (bounce_step two_bar_bounce) bounce_start touching_bars) ! 1) + 1"
proof -
  have s: "br_pending_start (snd (scan (bounce_step two_bar_bounce) bounce_start touching_bars) ! 1)" by code_simp
  have b: "\<not> br_trend_break_event (snd (scan (bounce_step two_bar_bounce) bounce_start touching_bars) ! 2)"
    "\<not> br_trend_break_event (snd (scan (bounce_step two_bar_bounce) bounce_start touching_bars) ! 3)" by code_simp+
  have k: "k = 2 \<or> k = 3" if "1 < k" "k \<le> 1 + nat (bp_touch_lookback two_bar_bounce)" for k :: nat
    using that by (auto simp: two_bar_bounce_def)
  have n: "1 + nat (bp_touch_lookback two_bar_bounce) = 3" by (simp add: two_bar_bounce_def)
  have "1 + nat (bp_touch_lookback two_bar_bounce) < length touching_bars" unfolding n by (simp add: touching_bars_def)
  from started_bounce_is_counted[OF two_bar_params this s] k b show ?thesis unfolding n by blast
qed

section \<open>Weighted votes\<close>

text \<open>
  C37. A weighted vote that parses is well-formed: a positive threshold and weights within the limit,
  unique voters and inputs, levels of the kind the input needs and pairwise different, linear inputs
  with two weights and no direction, and veto voters without weights or extensions.
\<close>
theorem parsed_vote_well_formed:
  assumes "parse_weighted_vote_setup it path = Inr s"
  shows "vote_spec_ok s"
  using assms by (rule parse_vote_ok)

definition step_doc :: "int \<Rightarrow> string \<Rightarrow> json \<Rightarrow> json" where
  "step_doc lv k v = JObj [(''level'', JInt lv), (k, v)]"

definition voter_doc :: "string \<Rightarrow> string \<Rightarrow> string \<Rightarrow> string \<Rightarrow> json list \<Rightarrow> json" where
  "voter_doc vid role iid dir steps = JObj [(''voter_id'', JStr vid), (''role'', JStr role),
     (''inputs'', JList [JObj [(''input_id'', JStr iid), (''operand'', JStr ''rsi''), (''direction'', JStr dir), (''steps'', JList steps)]])]"

definition vote_item :: "json list \<Rightarrow> obj" where
  "vote_item voters = [(''instance_id'', JStr ''vote''), (''params'', JObj [(''threshold'', JInt 3), (''voters'', JList voters)])]"

definition strong_voter :: json where
  "strong_voter = voter_doc ''strong'' ''vote'' ''a'' ''at_least'' [step_doc 2 ''weight'' (JInt 1), step_doc 3 ''weight'' (JInt 2)]"

definition weak_voter :: json where
  "weak_voter = voter_doc ''weak'' ''vote'' ''b'' ''at_least'' [step_doc 3 ''weight'' (JInt 1)]"

definition sample_vote :: vote_spec where
  "sample_vote = projr (parse_weighted_vote_setup (vote_item [strong_voter, weak_voter]) ''setup'')"

lemma sample_vote: "parse_weighted_vote_setup (vote_item [strong_voter, weak_voter]) ''setup'' = Inr sample_vote"
  unfolding sample_vote_def by code_simp

theorem parsed_vote_well_formed_witness: "vote_spec_ok sample_vote"
  by (rule parsed_vote_well_formed[OF sample_vote])

text \<open>
  C39. The score of a vote without extensions is bounded on every bar: it is not negative and at most
  the number of voters times the largest weight, so the integer sum stays exact.
\<close>
theorem vote_score_is_bounded:
  assumes "parse_weighted_vote_setup it path = Inr s" "vote_parts pf s fr side bundle = Inr parts" "\<not> floating s"
    and "b < length (frame_time_ms fr)"
  shows "0 \<le> column_sum_int (map (voter_weight_int (length (frame_time_ms fr))) parts) b \<and>
    column_sum_int (map (voter_weight_int (length (frame_time_ms fr))) parts) b \<le> int (length (wv_voters s)) * (WEIGHT_MAX * WEIGHT_SCALE)"
  by (rule vote_score_bounds[OF assms(2) parse_vote_ok[OF assms(1)] assms(3,4)])

definition range_predicates :: predicate_functions where
  "range_predicates = no_predicates\<lparr>pf_range := \<lambda>_ _ _ _ _. Inr [Fin 1, Fin 2, Fin 3]\<rparr>"

definition no_contexts :: context_bundle where
  "no_contexts = \<lparr>bundle_time_ms = [], bundle_outputs = []\<rparr>"

definition sample_parts :: "input_result list list" where
  "sample_parts = projr (vote_parts range_predicates sample_vote live_frame ''long'' no_contexts)"

lemma sample_parts: "vote_parts range_predicates sample_vote live_frame ''long'' no_contexts = Inr sample_parts" "\<not> floating sample_vote"
  unfolding sample_parts_def by code_simp+

theorem vote_score_is_bounded_witness:
  "0 \<le> column_sum_int (map (voter_weight_int 3) sample_parts) 2 \<and>
    column_sum_int (map (voter_weight_int 3) sample_parts) 2 \<le> int (length (wv_voters sample_vote)) * (WEIGHT_MAX * WEIGHT_SCALE)"
proof -
  have n: "length (frame_time_ms live_frame) = 3" by (simp add: live_frame_def)
  have "2 < length (frame_time_ms live_frame)" unfolding n by simp
  from vote_score_is_bounded[OF sample_vote sample_parts this] show ?thesis unfolding n .
qed

text \<open>
  C23. Listing the voters in another order changes nothing: a vote without extensions that returns
  returns the same mask for every permutation of its voters.
\<close>
theorem vote_is_order_free:
  assumes "weighted_vote_compute pf s fr side bundle = Inr (ok, tr)" "\<not> floating s"
    and "mset (wv_voters s) = mset (wv_voters s')" "wv_threshold s = wv_threshold s'" "wv_instance_id s = wv_instance_id s'"
  shows "\<exists>tr'. weighted_vote_compute pf s' fr side bundle = Inr (ok, tr')"
  by (rule int_vote_order_free[OF assms])

definition swapped_vote :: vote_spec where
  "swapped_vote = projr (parse_weighted_vote_setup (vote_item [weak_voter, strong_voter]) ''setup'')"

theorem vote_is_order_free_witness:
  "\<exists>tr'. weighted_vote_compute range_predicates swapped_vote live_frame ''long'' no_contexts = Inr ([True, True, False], tr')"
proof (rule vote_is_order_free[where s = sample_vote])
  let ?r = "weighted_vote_compute range_predicates sample_vote live_frame ''long'' no_contexts"
  have "is_ok ?r \<and> fst (projr ?r) = [True, True, False]" by code_simp
  then show "?r = Inr ([True, True, False], snd (projr ?r))" by (cases ?r) auto
  show "\<not> floating sample_vote" by (rule sample_parts)
  show "mset (wv_voters sample_vote) = mset (wv_voters swapped_vote)"
  proof -
    have "wv_voters swapped_vote = rev (wv_voters sample_vote)" by code_simp
    then show ?thesis by simp
  qed
  show "wv_threshold sample_vote = wv_threshold swapped_vote" "wv_instance_id sample_vote = wv_instance_id swapped_vote" by code_simp+
qed

end
