(* ===== verification/EpisodeBundle.thy ===== *)
theory EpisodeBundle
  imports EpisodeWire EvalContext Masks
begin

text \<open>
  The episodes of a strategy on one feature frame (\<open>build_episode_bundle\<close> of
  \<open>stack_episode.py\<close>): every declared episode once per side, through the evaluation context when
  its node is known, the wire of the bundle, and the identities of the episode nodes.  The bars of a
  frame are float64 already (\<open>MarketArrays\<close>); the C logarithm is a parameter.
\<close>

section \<open>One side on a frame\<close>

text \<open>\<open>_series\<close>: values that are not finite become NaN.\<close>

definition episode_series :: "feature_frame \<Rightarrow> string \<Rightarrow> f64 list res" where
  "episode_series fr oid = bindR (float_series fr oid) (\<lambda>vs. Inr (map finite_or_nan vs))"

definition role_series :: "feature_frame \<Rightarrow> (string \<times> string) list \<Rightarrow> string \<Rightarrow> f64 list res" where
  "role_series fr cols role = bindR (column_at cols role) (episode_series fr)"

text \<open>
  The bars the machine reads.  A frame has one value per bar in every series; arrays of other lengths
  do not combine in numpy.
\<close>

definition episode_bar :: "f64 market_bar \<Rightarrow> f64 \<Rightarrow> f64 \<Rightarrow> f64 \<Rightarrow> ep_bar" where
  "episode_bar b f a s = \<lparr>hi = bar_high b, lo = bar_low b, cl = bar_close b, fa = f, an = a, sl = s\<rparr>"

definition episode_bars_of :: "f64 market_bar list \<Rightarrow> f64 list \<Rightarrow> f64 list \<Rightarrow> f64 list \<Rightarrow> ep_bar list res" where
  "episode_bars_of bs f a s =
     raise_if (length f \<noteq> length bs \<or> length a \<noteq> length bs \<or> length s \<noteq> length bs)
       (PyValueError ''operands could not be broadcast together'')
       (Inr (map (\<lambda>(b, f, a, s). episode_bar b f a s) (zip bs (zip f (zip a s)))))"

definition compute_side_episode ::
  "(f64 \<Rightarrow> f64) \<Rightarrow> feature_frame \<Rightarrow> (string \<times> string) list \<Rightarrow> episode_params \<Rightarrow> string \<Rightarrow> side_episode res" where
  "compute_side_episode py_log fr cols p side =
     bindR (role_series fr cols ''fast'') (\<lambda>f.
     bindR (role_series fr cols ''anchor'') (\<lambda>a.
     bindR (role_series fr cols ''slow'') (\<lambda>s.
     bindR (episode_bars_of (frame_bars fr) f a s) (\<lambda>bs. project_side py_log bs p side))))"

section \<open>The bundle\<close>

type_synonym episode_ctx = "(node, side_episode) eval_ctx"

record episode_output =
  eo_ref :: string
  eo_params :: episode_params
  eo_sides :: "(string \<times> side_episode) list"

record episode_bundle =
  eb_time_ms :: "int list"
  eb_outputs :: "episode_output list"

text \<open>A loop whose body threads the context; the first error ends it and keeps the context.\<close>

fun run_all :: "('a \<Rightarrow> 's \<Rightarrow> 's \<times> 'b res) \<Rightarrow> 'a list \<Rightarrow> 's \<Rightarrow> 's \<times> 'b list res" where
  "run_all f [] c = (c, Inr [])"
| "run_all f (x # xs) c =
     (case f x c of
        (c1, Inl e) \<Rightarrow> (c1, Inl e)
      | (c1, Inr y) \<Rightarrow> (case run_all f xs c1 of (c2, r) \<Rightarrow> (c2, bindR r (\<lambda>ys. Inr (y # ys)))))"

text \<open>The NUL prefix keeps the key apart from every declared context.\<close>

definition episode_identity_key :: "string \<Rightarrow> string \<Rightarrow> string" where
  "episode_identity_key ref side = CHR 0x00 # ''ema_stack_episode:'' @ side @ '':'' @ ref"

definition episode_columns :: "ema_plan \<Rightarrow> string \<Rightarrow> (string \<times> string) list res" where
  "episode_columns plan ref =
     (case map_of (episode_columns_by_ref plan) ref of
        None \<Rightarrow> Inl (InvalidRequest ''episode has no feature-plan mapping'') | Some cols \<Rightarrow> Inr cols)"

definition SIDES :: "string list" where "SIDES = [''long'', ''short'']"

definition side_pass ::
  "(err \<Rightarrow> err option) \<Rightarrow> (string \<times> node) list \<Rightarrow> string \<Rightarrow> (string \<Rightarrow> side_episode res) \<Rightarrow> string \<Rightarrow>
     episode_ctx \<Rightarrow> episode_ctx \<times> (string \<times> side_episode) res" where
  "side_pass rebuild ids ref compute side c =
     (case compute_through rebuild (map_of ids (episode_identity_key ref side)) (\<lambda>c. (c, compute side)) c of
        (c1, r) \<Rightarrow> (c1, bindR r (\<lambda>e. Inr (side, e))))"

definition output_pass ::
  "(f64 \<Rightarrow> f64) \<Rightarrow> (err \<Rightarrow> err option) \<Rightarrow> (string \<times> node) list \<Rightarrow> feature_frame \<Rightarrow> ema_plan \<Rightarrow>
     string \<times> episode_params \<Rightarrow> episode_ctx \<Rightarrow> episode_ctx \<times> episode_output res" where
  "output_pass py_log rebuild ids fr plan d c =
     (case d of (ref, p) \<Rightarrow>
        case episode_columns plan ref of
          Inl e \<Rightarrow> (c, Inl e)
        | Inr cols \<Rightarrow>
            (case run_all (side_pass rebuild ids ref (compute_side_episode py_log fr cols p)) SIDES c of
               (c1, r) \<Rightarrow> (c1, bindR r (\<lambda>ss. Inr \<lparr>eo_ref = ref, eo_params = p, eo_sides = ss\<rparr>))))"

definition build_episode_bundle ::
  "(f64 \<Rightarrow> f64) \<Rightarrow> (err \<Rightarrow> err option) \<Rightarrow> (string \<times> node) list \<Rightarrow> obj \<Rightarrow> feature_frame \<Rightarrow> ema_plan \<Rightarrow>
     episode_ctx \<Rightarrow> episode_ctx \<times> episode_bundle option res" where
  "build_episode_bundle py_log rebuild ids raw_spec fr plan c =
     (case parse_episode_section raw_spec of
        Inl e \<Rightarrow> (c, Inl e)
      | Inr [] \<Rightarrow> (c, Inr None)
      | Inr declared \<Rightarrow>
          (case run_all (output_pass py_log rebuild ids fr plan) declared c of
             (c1, r) \<Rightarrow> (c1, bindR r (\<lambda>os. Inr (Some \<lparr>eb_time_ms = frame_time_ms fr, eb_outputs = os\<rparr>)))))"

definition bundle_side :: "episode_bundle \<Rightarrow> string \<Rightarrow> string \<Rightarrow> side_episode res" where
  "bundle_side b ref side =
     (case find (\<lambda>o'. eo_ref o' = ref) (eb_outputs b) of
        None \<Rightarrow> Inl (InvalidRequest ''episode is not evaluated'')
      | Some o' \<Rightarrow> (case map_of (eo_sides o') side of None \<Rightarrow> Inl (PyKeyError side) | Some e \<Rightarrow> Inr e))"

section \<open>Wire\<close>

definition params_to_wire :: "episode_params \<Rightarrow> obj" where
  "params_to_wire p =
     [(''fast_period'', JInt (fast_period p)), (''anchor_period'', JInt (anchor_period p)),
      (''slow_period'', JInt (slow_period p)), (''window_bars'', JInt (window_bars p)),
      (''break_bars'', JInt (break_bars p)), (''history_bars'', JInt (history_bars p))]"

definition float_or_none :: "f64 \<Rightarrow> json" where
  "float_or_none x = (if isfinite x then JFloat x else JNull)"

definition state_wire :: "side_episode \<Rightarrow> obj" where
  "state_wire e =
     map (\<lambda>k. (k, JList (map (\<lambda>r. case state_field k (out_state r) of None \<Rightarrow> JNull | Some x \<Rightarrow> float_or_none x) (se_rows e))))
       (STATE_FIELDS @ EVENT_FIELDS)"

definition side_to_wire :: "side_episode \<Rightarrow> int list \<Rightarrow> obj res" where
  "side_to_wire e tm =
     bindR (side_entities_to_wire e tm) (\<lambda>tables. Inr ((''state'', JObj (state_wire e)) # tables))"

definition output_to_wire :: "int list \<Rightarrow> episode_output \<Rightarrow> (string \<times> json) res" where
  "output_to_wire tm o' =
     bindR (mapR (\<lambda>(side, e). bindR (side_to_wire e tm) (\<lambda>w. Inr (side, JObj w))) (eo_sides o')) (\<lambda>sides.
     Inr (eo_ref o', JObj [(''params'', JObj (params_to_wire (eo_params o'))), (''sides'', JObj sides)]))"

definition bundle_to_wire :: "episode_bundle \<Rightarrow> obj res" where
  "bundle_to_wire b =
     bindR (mapR (output_to_wire (eb_time_ms b)) (eb_outputs b)) (\<lambda>items.
     Inr [(''time_ms'', JList (map JInt (eb_time_ms b))), (''items'', JObj items)])"

section \<open>Identity\<close>

definition EPISODE_NODE_VERSION :: int where "EPISODE_NODE_VERSION = 1"

text \<open>\<open>feature_ids.get\<close>: a column without a node is an absent dependency.\<close>

definition known_dependency :: "(string \<times> node) list \<Rightarrow> string \<Rightarrow> dependency" where
  "known_dependency ids oid = (case map_of ids oid of None \<Rightarrow> NoNode | Some n \<Rightarrow> Single n)"

definition episode_node ::
  "(string \<times> node) list \<Rightarrow> (string \<times> string) list \<Rightarrow> episode_params \<Rightarrow> string \<Rightarrow> node res" where
  "episode_node ids cols p side =
     bindR (mapR (\<lambda>role. bindR (column_at cols role) (\<lambda>oid. Inr (role, known_dependency ids oid))) [''fast'', ''anchor'', ''slow'']) (\<lambda>ups.
     node_spec ''episode.ema_stack'' EPISODE_NODE_VERSION
       [(''window_bars'', PInt (window_bars p)), (''break_bars'', PInt (break_bars p)), (''history_bars'', PInt (history_bars p))]
       ups (Some side))"

definition resolve_episode_identities :: "obj \<Rightarrow> ema_plan \<Rightarrow> (string \<times> node) list \<Rightarrow> (string \<times> node) list res" where
  "resolve_episode_identities raw_spec plan ids =
     bindR (parse_episode_section raw_spec) (\<lambda>declared.
     bindR (mapR (\<lambda>(ref, p).
        bindR (episode_columns plan ref) (\<lambda>cols.
        mapR (\<lambda>side. bindR (episode_node ids cols p side) (\<lambda>n. Inr (episode_identity_key ref side, n))) SIDES)) declared) (\<lambda>items.
     Inr (concat items)))"

section \<open>Equal identities compute the same episode\<close>

text \<open>
  The periods are not parameters of the node: they are in its upstream nodes.  Of the periods the
  projection reads the slow one, for the warm-up of its EMA.
\<close>

definition slow_period_known :: "(string \<times> node) list \<Rightarrow> (string \<times> string) list \<Rightarrow> episode_params \<Rightarrow> bool" where
  "slow_period_known ids cols p \<longleftrightarrow>
     (\<forall>oid n. map_of cols ''slow'' = Some oid \<longrightarrow> map_of ids oid = Some n \<longrightarrow> param n ''period'' = Inr (CInt (slow_period p)))"

text \<open>Every column of the episode has a node.\<close>

definition columns_known :: "(string \<times> node) list \<Rightarrow> (string \<times> string) list \<Rightarrow> bool" where
  "columns_known ids cols \<longleftrightarrow> list_all (\<lambda>(role, oid). map_of ids oid \<noteq> None) cols"

lemma columns_knownD: "columns_known ids cols \<Longrightarrow> map_of cols role = Some oid \<Longrightarrow> \<exists>n. map_of ids oid = Some n"
  by (auto simp: columns_known_def list_all_iff dest!: map_of_SomeD)

lemma episode_node_parts:
  assumes "episode_node ids cols p side = Inr n" "columns_known ids cols"
  obtains f a s where "node_spec ''episode.ema_stack'' EPISODE_NODE_VERSION
       [(''window_bars'', PInt (window_bars p)), (''break_bars'', PInt (break_bars p)), (''history_bars'', PInt (history_bars p))]
       [(''fast'', Single f), (''anchor'', Single a), (''slow'', Single s)] (Some side) = Inr n"
    "bindR (column_at cols ''fast'') (feature_node ids) = Inr f" "bindR (column_at cols ''anchor'') (feature_node ids) = Inr a"
    "bindR (column_at cols ''slow'') (feature_node ids) = Inr s"
proof -
  obtain uf ua us where u: "column_at cols ''fast'' = Inr uf" "column_at cols ''anchor'' = Inr ua" "column_at cols ''slow'' = Inr us"
    using assms(1) by (auto simp: episode_node_def bindR_Inr)
  have c: "\<exists>n. map_of ids oid = Some n" if "column_at cols role = Inr oid" for role oid
    using that columns_knownD[OF assms(2), of role oid] by (simp add: column_at_def split: option.splits)
  obtain f a s where k: "map_of ids uf = Some f" "map_of ids ua = Some a" "map_of ids us = Some s"
    using c[OF u(1)] c[OF u(2)] c[OF u(3)] by blast
  show thesis
    by (rule that[of f a s]) (use assms(1) u k in \<open>simp_all add: episode_node_def known_dependency_def feature_node_def bindR_Inr\<close>)
qed

lemma role_series_agree:
  assumes "bindR (column_at cols role) (feature_node ids) = Inr n" "bindR (column_at cols' role) (feature_node ids') = Inr n"
    and "ids_agree ids fr ids' fr'"
  shows "role_series fr cols role = role_series fr' cols' role"
  using assms ids_agree_floats[OF assms(3)] by (auto simp: bindR_Inr role_series_def episode_series_def)

text \<open>The projection reads the windows and, of the periods, the slow one.\<close>

lemma project_side_params:
  assumes "slow_period p = slow_period p'" "window_bars p = window_bars p'" "break_bars p = break_bars p'"
  shows "project_side py_log bs p side = project_side py_log bs p' side"
  using assms by (simp add: project_side_def)

lemma episode_identity_sound:
  assumes n: "episode_node ids cols p side = Inr n" "episode_node ids' cols' p' side' = Inr n"
    and known: "columns_known ids cols" "columns_known ids' cols'"
    and period: "slow_period_known ids cols p" "slow_period_known ids' cols' p'"
    and agree: "ids_agree ids fr ids' fr'" and bars: "frame_bars fr = frame_bars fr'"
  shows "compute_side_episode py_log fr cols p side = compute_side_episode py_log fr' cols' p' side'"
proof -
  obtain f a s where ns: "node_spec ''episode.ema_stack'' EPISODE_NODE_VERSION
       [(''window_bars'', PInt (window_bars p)), (''break_bars'', PInt (break_bars p)), (''history_bars'', PInt (history_bars p))]
       [(''fast'', Single f), (''anchor'', Single a), (''slow'', Single s)] (Some side) = Inr n"
    and r: "bindR (column_at cols ''fast'') (feature_node ids) = Inr f" "bindR (column_at cols ''anchor'') (feature_node ids) = Inr a"
      "bindR (column_at cols ''slow'') (feature_node ids) = Inr s"
    by (rule episode_node_parts[OF n(1) known(1)])
  obtain f' a' s' where ns': "node_spec ''episode.ema_stack'' EPISODE_NODE_VERSION
       [(''window_bars'', PInt (window_bars p')), (''break_bars'', PInt (break_bars p')), (''history_bars'', PInt (history_bars p'))]
       [(''fast'', Single f'), (''anchor'', Single a'), (''slow'', Single s')] (Some side') = Inr n"
    and r': "bindR (column_at cols' ''fast'') (feature_node ids') = Inr f'" "bindR (column_at cols' ''anchor'') (feature_node ids') = Inr a'"
      "bindR (column_at cols' ''slow'') (feature_node ids') = Inr s'"
    by (rule episode_node_parts[OF n(2) known(2)])
  have side: "side = side'" using node_spec_same_kind[OF ns ns'] by simp
  have "window_bars p = window_bars p'" by (rule same_int_parameter[OF ns ns', of "''window_bars''"]) simp_all
  moreover have "break_bars p = break_bars p'" by (rule same_int_parameter[OF ns ns', of "''break_bars''"]) simp_all
  moreover have up: "f = f'" "a = a'" "s = s'"
    by (rule same_dependency[OF ns ns', of "''fast''"], simp_all) (rule same_dependency[OF ns ns', of "''anchor''"], simp_all,
      rule same_dependency[OF ns ns', of "''slow''"], simp_all)
  moreover have "slow_period p = slow_period p'"
    using period r(3) r'(3) up(3)
    by (auto simp: slow_period_known_def bindR_Inr column_at_def feature_node_Inr split: option.splits)
  ultimately have "project_side py_log bs p side = project_side py_log bs p' side" for bs by (intro project_side_params)
  moreover have "role_series fr cols role = role_series fr' cols' role" if "role \<in> {''fast'', ''anchor'', ''slow''}" for role
    using that r r' up role_series_agree[OF _ _ agree] by blast
  ultimately show ?thesis by (simp add: compute_side_episode_def bars side)
qed

section \<open>The bundle through the memo\<close>

lemma run_all_sound:
  assumes "\<And>x c. x \<in> set xs \<Longrightarrow> memo_sound f c \<Longrightarrow> snd (g x c) = r x \<and> memo_sound f (fst (g x c))" "memo_sound f c"
  shows "snd (run_all g xs c) = mapR r xs \<and> memo_sound f (fst (run_all g xs c))"
  using assms
proof (induction xs arbitrary: c)
  case (Cons x xs)
  obtain c1 y where g: "g x c = (c1, y)" by fastforce
  then have y: "y = r x" "memo_sound f c1" using Cons.prems(1)[of x c] Cons.prems(2) by auto
  have IH: "snd (run_all g xs c1) = mapR r xs \<and> memo_sound f (fst (run_all g xs c1))"
    by (rule Cons.IH[OF _ y(2)]) (use Cons.prems(1) in auto)
  show ?case using y IH by (cases "r x") (auto simp: g split_beta)
qed simp

text \<open>What a side, an episode and the bundle are without a memo.\<close>

definition direct_output ::
  "(f64 \<Rightarrow> f64) \<Rightarrow> feature_frame \<Rightarrow> ema_plan \<Rightarrow> string \<times> episode_params \<Rightarrow> episode_output res" where
  "direct_output py_log fr plan d =
     (case d of (ref, p) \<Rightarrow>
        bindR (episode_columns plan ref) (\<lambda>cols.
        bindR (mapR (\<lambda>side. bindR (compute_side_episode py_log fr cols p side) (\<lambda>e. Inr (side, e))) SIDES) (\<lambda>ss.
        Inr \<lparr>eo_ref = ref, eo_params = p, eo_sides = ss\<rparr>)))"

definition direct_bundle :: "(f64 \<Rightarrow> f64) \<Rightarrow> obj \<Rightarrow> feature_frame \<Rightarrow> ema_plan \<Rightarrow> episode_bundle option res" where
  "direct_bundle py_log raw_spec fr plan =
     bindR (parse_episode_section raw_spec) (\<lambda>declared.
     if declared = [] then Inr None
     else bindR (mapR (direct_output py_log fr plan) declared) (\<lambda>os.
       Inr (Some \<lparr>eb_time_ms = frame_time_ms fr, eb_outputs = os\<rparr>)))"

text \<open>The nodes given to the bundle stand for its own computations.\<close>

definition nodes_stand_for ::
  "(f64 \<Rightarrow> f64) \<Rightarrow> (node \<Rightarrow> side_episode res) \<Rightarrow> (string \<times> node) list \<Rightarrow> obj \<Rightarrow> feature_frame \<Rightarrow> ema_plan \<Rightarrow> bool" where
  "nodes_stand_for py_log f ids raw_spec fr plan \<longleftrightarrow>
     (\<forall>declared ref p cols side n. parse_episode_section raw_spec = Inr declared \<longrightarrow> (ref, p) \<in> set declared \<longrightarrow>
        episode_columns plan ref = Inr cols \<longrightarrow> side \<in> set SIDES \<longrightarrow> map_of ids (episode_identity_key ref side) = Some n \<longrightarrow>
        f n = compute_side_episode py_log fr cols p side)"

lemma side_pass_sound:
  assumes "\<And>n. map_of ids (episode_identity_key ref side) = Some n \<Longrightarrow> f n = compute side" "memo_sound f c"
  shows "snd (side_pass rebuild ids ref compute side c) = bindR (compute side) (\<lambda>e. Inr (side, e)) \<and>
    memo_sound f (fst (side_pass rebuild ids ref compute side c))"
proof (cases "map_of ids (episode_identity_key ref side)")
  case None
  then show ?thesis using assms(2) by (simp add: side_pass_def compute_through_def)
next
  case (Some n)
  have "implements f (memoized rebuild n (\<lambda>c. (c, compute side))) (f n)"
    by (rule memoized_implements) (use assms(1)[OF Some] in \<open>simp add: implements_def\<close>)
  then show ?thesis using assms(2) assms(1)[OF Some] Some
    by (auto simp: side_pass_def compute_through_def implements_def split_beta)
qed

lemma output_pass_sound:
  assumes "nodes_stand_for py_log f ids raw_spec fr plan" "parse_episode_section raw_spec = Inr declared" "d \<in> set declared"
    and "memo_sound f c"
  shows "snd (output_pass py_log rebuild ids fr plan d c) = direct_output py_log fr plan d \<and>
    memo_sound f (fst (output_pass py_log rebuild ids fr plan d c))"
proof -
  obtain ref p where d: "d = (ref, p)" by fastforce
  show ?thesis
  proof (cases "episode_columns plan ref")
    case (Inl err)
    then show ?thesis using assms(4) by (simp add: output_pass_def direct_output_def d)
  next
    case (Inr cols)
    let ?compute = "compute_side_episode py_log fr cols p"
    have "snd (run_all (side_pass rebuild ids ref ?compute) SIDES c) = mapR (\<lambda>side. bindR (?compute side) (\<lambda>e. Inr (side, e))) SIDES \<and>
        memo_sound f (fst (run_all (side_pass rebuild ids ref ?compute) SIDES c))"
      by (rule run_all_sound[OF side_pass_sound assms(4)])
        (use assms(1-3) Inr d in \<open>auto simp: nodes_stand_for_def\<close>)
    then show ?thesis using Inr by (auto simp: output_pass_def direct_output_def d split_beta)
  qed
qed

lemma bundle_through_memo:
  assumes "nodes_stand_for py_log f ids raw_spec fr plan" "memo_sound f c"
  shows "snd (build_episode_bundle py_log rebuild ids raw_spec fr plan c) = direct_bundle py_log raw_spec fr plan \<and>
    memo_sound f (fst (build_episode_bundle py_log rebuild ids raw_spec fr plan c))"
proof (cases "parse_episode_section raw_spec")
  case (Inl err)
  then show ?thesis using assms(2) by (simp add: build_episode_bundle_def direct_bundle_def)
next
  case (Inr declared)
  have "snd (run_all (output_pass py_log rebuild ids fr plan) declared c) = mapR (direct_output py_log fr plan) declared \<and>
      memo_sound f (fst (run_all (output_pass py_log rebuild ids fr plan) declared c))"
    by (rule run_all_sound[OF output_pass_sound[OF assms(1) Inr] assms(2)]) auto
  then show ?thesis using Inr assms(2)
    by (cases declared) (auto simp: build_episode_bundle_def direct_bundle_def split_beta simp del: mapR.simps run_all.simps)
qed

section \<open>The resolved nodes\<close>

lemma identity_key_inj:
  assumes "side \<in> set SIDES" "side' \<in> set SIDES" "episode_identity_key ref side = episode_identity_key ref' side'"
  shows "side = side' \<and> ref = ref'"
  using assms by (auto simp: SIDES_def episode_identity_key_def)

text \<open>Every declared episode has its columns, their nodes and its slow period.\<close>

definition episodes_planned :: "obj \<Rightarrow> ema_plan \<Rightarrow> (string \<times> node) list \<Rightarrow> bool" where
  "episodes_planned raw_spec plan ids \<longleftrightarrow>
     (case parse_episode_section raw_spec of Inl _ \<Rightarrow> False
      | Inr declared \<Rightarrow> distinct (map fst declared) \<and>
          list_all (\<lambda>(ref, p). case episode_columns plan ref of Inl _ \<Rightarrow> False
             | Inr cols \<Rightarrow> columns_known ids cols \<and> slow_period_known ids cols p) declared)"

lemma resolved_node:
  assumes r: "resolve_episode_identities raw_spec plan fids = Inr ids" and p: "parse_episode_section raw_spec = Inr declared"
    "distinct (map fst declared)" "(ref, p) \<in> set declared" "episode_columns plan ref = Inr cols" "side \<in> set SIDES"
    and n: "map_of ids (episode_identity_key ref side) = Some n"
  shows "episode_node fids cols p side = Inr n"
proof -
  obtain items where i: "mapR (\<lambda>(ref, p). bindR (episode_columns plan ref) (\<lambda>cols.
        mapR (\<lambda>side. bindR (episode_node fids cols p side) (\<lambda>n. Inr (episode_identity_key ref side, n))) SIDES)) declared = Inr items"
      and ids: "ids = concat items"
    using r by (auto simp: resolve_episode_identities_def p(1) bindR_Inr)
  obtain it where it: "it \<in> set items" "(episode_identity_key ref side, n) \<in> set it"
    using map_of_SomeD[OF n] by (auto simp: ids)
  obtain ref' p' cols' where d: "(ref', p') \<in> set declared" "episode_columns plan ref' = Inr cols'"
    "mapR (\<lambda>side. bindR (episode_node fids cols' p' side) (\<lambda>n. Inr (episode_identity_key ref' side, n))) SIDES = Inr it"
    using mapR_set[OF i it(1)] by (auto simp: bindR_Inr)
  obtain side' where s: "side' \<in> set SIDES" "episode_node fids cols' p' side' = Inr n"
      "episode_identity_key ref side = episode_identity_key ref' side'"
    using mapR_set[OF d(3) it(2)] by (auto simp: bindR_Inr)
  have k: "side = side'" "ref = ref'" using identity_key_inj[OF p(5) s(1) s(3)] by simp_all
  have "p = p'" using p(2,3) d(1) k by (simp add: eq_key_imp_eq_value)
  then show ?thesis using s(2) d(2) p(4) k by simp
qed

lemma resolved_nodes_stand_for:
  assumes r: "resolve_episode_identities raw_spec plan fids = Inr ids" and planned: "episodes_planned raw_spec plan fids"
    and agree: "ids_agree fids fr fids fr"
  shows "\<exists>f. nodes_stand_for py_log f ids raw_spec fr plan"
proof -
  obtain declared where d: "parse_episode_section raw_spec = Inr declared" "distinct (map fst declared)"
    and all: "\<And>ref p cols. (ref, p) \<in> set declared \<Longrightarrow> episode_columns plan ref = Inr cols \<Longrightarrow>
        columns_known fids cols \<and> slow_period_known fids cols p"
    using planned by (fastforce simp: episodes_planned_def list_all_iff split: sum.splits)
  define node_of where "node_of = (\<lambda>n (ref, p, cols, side). (ref, p) \<in> set declared \<and> episode_columns plan ref = Inr cols \<and>
     side \<in> set SIDES \<and> episode_node fids cols p side = Inr n)"
  define f where "f n = (case (SOME x. node_of n x) of (ref, p, cols, side) \<Rightarrow> compute_side_episode py_log fr cols p side)" for n
  have "f n = compute_side_episode py_log fr cols p side" if x: "node_of n (ref, p, cols, side)" for n ref p cols side
  proof -
    obtain ref' p' cols' side' where y: "(SOME x. node_of n x) = (ref', p', cols', side')" "node_of n (ref', p', cols', side')"
      using someI[of "node_of n", OF x] by (metis prod_cases4)
    have "compute_side_episode py_log fr cols p side = compute_side_episode py_log fr cols' p' side'"
      by (rule episode_identity_sound[of fids _ _ _ n fids]) (use x y(2) all agree in \<open>auto simp: node_of_def\<close>)
    then show ?thesis by (simp add: f_def y)
  qed
  then show ?thesis using resolved_node[OF r d] d(1)
    by (intro exI[of _ f]) (auto simp: nodes_stand_for_def node_of_def)
qed

end
