(* ===== verification/EpisodeHistory.thy ===== *)
theory EpisodeHistory
  imports EpisodeBundle OpenTrade
begin

text \<open>
  The episode history query (\<open>application/query_episode_history.py\<close>): the bounded memo of computed
  histories, the shaping of the entity tables, the reload of the candles and the pages of finished
  episodes.  The market data port, the indicator port, the clock and the content hash are parameters:
  what the two ports and the clock answer during one request is the record \<open>upstream\<close>.  Requests
  run one after another, so the locks have no counterpart.
\<close>

section \<open>Requests\<close>

definition QUERY_PARAM_KEYS :: "string list" where
  "QUERY_PARAM_KEYS = [''fast_period'', ''anchor_period'', ''slow_period'', ''window_bars'', ''break_bars'']"

definition MAX_PAGE_LIMIT :: int where "MAX_PAGE_LIMIT = 500"

record history_request =
  hr_market :: market_stream
  hr_params :: episode_params
  hr_side :: string
  hr_before_start_ms :: "int option"
  hr_limit :: int
  hr_expected_hash :: "string option"

definition make_history_request :: "history_request \<Rightarrow> history_request res" where
  "make_history_request r =
     raise_if (hr_side r \<notin> set SIDES) (InvalidRequest ''side must be long or short'')
     (raise_if (\<not> (1 \<le> hr_limit r \<and> hr_limit r \<le> MAX_PAGE_LIMIT)) (InvalidRequest ''page.limit must be between 1 and 500'')
     (Inr r))"

section \<open>The bounded memo\<close>

text \<open>An \<open>OrderedDict\<close>, oldest first; the slot of a key holds its entry once one is computed.\<close>

type_synonym history_key = "string \<times> string \<times> string"

record 'e history_cache =
  hc_max :: int
  hc_slots :: "(history_key \<times> 'e option) list"

definition make_history_cache :: "int \<Rightarrow> 'e history_cache res" where
  "make_history_cache n =
     raise_if (n < 1) (PyValueError ''max_entries must be at least 1'') (Inr \<lparr>hc_max = n, hc_slots = []\<rparr>)"

definition move_to_end :: "'k \<Rightarrow> 'v \<Rightarrow> ('k \<times> 'v) list \<Rightarrow> ('k \<times> 'v) list" where
  "move_to_end k v xs = AList.delete k xs @ [(k, v)]"

text \<open>The loop that pops the oldest slot.\<close>

function evict_slots :: "int \<Rightarrow> 'a list \<Rightarrow> 'a list" where
  "evict_slots n xs = (if n < int (length xs) \<and> xs \<noteq> [] then evict_slots n (tl xs) else xs)"
  by auto
termination by (relation "measure (length \<circ> snd)") auto

declare evict_slots.simps [simp del]

definition take_slot :: "history_key \<Rightarrow> 'e history_cache \<Rightarrow> 'e history_cache \<times> 'e option" where
  "take_slot k c =
     (let e = (case map_of (hc_slots c) k of None \<Rightarrow> None | Some s \<Rightarrow> s)
      in (c\<lparr>hc_slots := evict_slots (hc_max c) (move_to_end k e (hc_slots c))\<rparr>, e))"

text \<open>\<open>slot.entry = entry\<close>\<close>

definition put_entry :: "history_key \<Rightarrow> 'e \<Rightarrow> 'e history_cache \<Rightarrow> 'e history_cache" where
  "put_entry k e c = c\<lparr>hc_slots := map (\<lambda>(k', s). (k', if k' = k then Some e else s)) (hc_slots c)\<rparr>"

section \<open>Hashes\<close>

definition params_wire :: "episode_params \<Rightarrow> obj" where
  "params_wire p =
     [(''fast_period'', JInt (fast_period p)), (''anchor_period'', JInt (anchor_period p)),
      (''slow_period'', JInt (slow_period p)), (''window_bars'', JInt (window_bars p)),
      (''break_bars'', JInt (break_bars p))]"

definition params_hash :: "(json \<Rightarrow> string) \<Rightarrow> episode_params \<Rightarrow> string" where
  "params_hash json_hash p =
     json_hash (JObj [(''node'', JStr ''episode.ema_stack''), (''version'', JInt EPISODE_NODE_VERSION),
       (''params'', JObj (params_wire p))])"

definition history_id :: "(json \<Rightarrow> string) \<Rightarrow> market_stream \<Rightarrow> episode_params \<Rightarrow> string" where
  "history_id json_hash m p =
     json_hash (JObj [(''ticker'', JStr (ticker m)), (''base_timeframe'', JStr (base_timeframe m)),
       (''params'', JObj (params_wire p))])"

definition history_key_of :: "(json \<Rightarrow> string) \<Rightarrow> market_stream \<Rightarrow> episode_params \<Rightarrow> history_key" where
  "history_key_of json_hash m p = (ticker m, base_timeframe m, params_hash json_hash p)"

section \<open>Shaping one side\<close>

definition is_point :: "obj \<Rightarrow> bool" where
  "is_point ob \<longleftrightarrow> set (map fst ob) = {''bar'', ''time_ms''}"

fun times_only :: "json \<Rightarrow> json" where
  "times_only (JObj ob) =
     (if is_point ob then get ob ''time_ms''
      else JObj (filter (\<lambda>(k, v). k \<noteq> ''episode_id'') (map (\<lambda>(k, v). (k, times_only v)) ob)))"
| "times_only (JList vs) = JList (map times_only vs)"
| "times_only v = v"

text \<open>\<open>row[key]\<close> of an entity row, an integer or a nested object.\<close>

definition row_field :: "json \<Rightarrow> string \<Rightarrow> json res" where
  "row_field row k =
     (case row of JObj ob \<Rightarrow> (case map_of ob k of None \<Rightarrow> Inl (PyKeyError k) | Some v \<Rightarrow> Inr v)
      | _ \<Rightarrow> Inl (PyTypeError ''entity row is not a mapping''))"

definition row_int :: "json \<Rightarrow> string \<Rightarrow> int res" where
  "row_int row k =
     bindR (row_field row k) (\<lambda>v. case v of JInt n \<Rightarrow> Inr n | _ \<Rightarrow> Inl (PyTypeError ''entity row value is not an integer''))"

text \<open>\<open>by_episode.setdefault(id, []).append(row)\<close>\<close>

definition append_to :: "'k \<Rightarrow> 'a \<Rightarrow> ('k \<times> 'a list) list \<Rightarrow> ('k \<times> 'a list) list" where
  "append_to k x g = AList.update k ((case map_of g k of None \<Rightarrow> [] | Some xs \<Rightarrow> xs) @ [x]) g"

definition group_rows :: "json list \<Rightarrow> (int \<times> json list) list res" where
  "group_rows rows =
     foldR (\<lambda>g row. bindR (row_int row ''episode_id'') (\<lambda>k. Inr (append_to k (times_only row) g))) [] rows"

definition rows_of :: "(int \<times> json list) list \<Rightarrow> int \<Rightarrow> json list" where
  "rows_of g k = (case map_of g k of None \<Rightarrow> [] | Some xs \<Rightarrow> xs)"

record side_history =
  sh_finished :: "obj list"
  sh_starts :: "int list"
  sh_current :: "obj option"

text \<open>\<open>_current_state\<close>: touch number and phase of the last bar.\<close>

definition current_state :: "side_episode \<Rightarrow> bool \<Rightarrow> (json \<times> json) res" where
  "current_state e cens =
     (if cens then Inr (JNull, JNull)
      else if se_rows e = [] then Inl PyIndexError
      else
        let st = out_state (last (se_rows e));
            phase = (if sn_in_zone st = Fin 1 then ''in_zone''
                     else if sn_in_false_break st = Fin 1 then ''in_false_break'' else ''away'')
        in bindR (py_int (JFloat (sn_touch_number st))) (\<lambda>n. Inr (JInt n, JStr phase)))"

type_synonym episode_groups = "(int \<times> json list) list \<times> (int \<times> json list) list \<times> (int \<times> json list) list"

definition episode_record :: "episode_groups \<Rightarrow> json \<Rightarrow> obj res" where
  "episode_record gs row =
     (case gs of (gz, gf, gw) \<Rightarrow>
        bindR (row_int row ''episode_id'') (\<lambda>k.
        bindR (row_field row ''start'') (\<lambda>st. bindR (row_field st ''time_ms'') (\<lambda>start_ms.
        bindR (row_field row ''stack_break'') (\<lambda>sb. bindR (row_field sb ''time_ms'') (\<lambda>break_ms.
        bindR (row_field row ''censored'') (\<lambda>cens.
        let zones = rows_of gz k; fbs = rows_of gf k in
        Inr [(''start_ms'', start_ms), (''stack_break_ms'', break_ms), (''censored'', cens),
             (''touches'', JInt (int (length zones))), (''false_breaks_count'', JInt (int (length fbs))),
             (''zones'', JList zones), (''false_breaks'', JList fbs), (''waves'', JList (rows_of gw k))])))))))"

text \<open>One row of the loop over the episodes: the current episode or one more finished one.\<close>

definition shape_row ::
  "side_episode \<Rightarrow> episode_groups \<Rightarrow> obj list \<times> obj option \<Rightarrow> json \<Rightarrow> (obj list \<times> obj option) res" where
  "shape_row e gs acc row =
     (case acc of (finished, current) \<Rightarrow>
        bindR (episode_record gs row) (\<lambda>rec.
        bindR (row_field row ''stack_break'') (\<lambda>sb.
        bindR (row_field sb ''bar'') (\<lambda>b.
        if b = JNull then
          bindR (row_field row ''censored'') (\<lambda>cens.
          bindR (current_state e (truthy cens)) (\<lambda>(n, phase).
          Inr (finished, Some (rec @ [(''touch_number'', n), (''phase'', phase)]))))
        else Inr (finished @ [rec], current)))))"

definition table :: "obj \<Rightarrow> string \<Rightarrow> json list" where
  "table tables k = (case get tables k of JList rows \<Rightarrow> rows | _ \<Rightarrow> [])"

definition shape_side :: "side_episode \<Rightarrow> int list \<Rightarrow> side_history res" where
  "shape_side e tm =
     bindR (side_entities_to_wire e tm) (\<lambda>tables.
     bindR (group_rows (table tables ''zones'')) (\<lambda>gz.
     bindR (group_rows (table tables ''false_breaks'')) (\<lambda>gf.
     bindR (group_rows (table tables ''waves'')) (\<lambda>gw.
     bindR (foldR (shape_row e (gz, gf, gw)) ([], None) (table tables ''episodes'')) (\<lambda>(finished, current).
     bindR (mapR (\<lambda>r. row_int (JObj r) ''start_ms'') finished) (\<lambda>starts.
     Inr \<lparr>sh_finished = finished, sh_starts = starts, sh_current = current\<rparr>))))))"

section \<open>Serving a request\<close>

record history_entry =
  he_earliest_ms :: int
  he_latest_ms :: int
  he_hash :: string
  he_sides :: "(string \<times> side_history) list"
  he_loaded_at :: f64

text \<open>What the ports and the clock answer while one request runs.\<close>

record 'd upstream =
  up_bounds :: "market_stream \<Rightarrow> stream_bounds res"
  up_range :: "market_stream \<Rightarrow> time_range \<Rightarrow> 'd market_frame res"
  up_native :: "market_stream \<Rightarrow> time_range \<Rightarrow> indicator_plan \<Rightarrow> 'd market_frame \<Rightarrow> feature_frame res"
  up_checked_at :: f64
  up_loaded_at :: f64

definition ema_feature :: "string \<Rightarrow> string \<Rightarrow> int \<Rightarrow> planned_feature" where
  "ema_feature source tf period =
     \<lparr>output_id = ''ema_close_'' @ tf @ ''_'' @ show_int period, feature_kind = ''ema'', feature_timeframe = tf,
      feature_source = Some source, parameters = [(''period'', JInt period)], dependencies = [], availability = ''bar_open''\<rparr>"

definition episode_indicator_plan :: "episode_params \<Rightarrow> indicator_plan \<times> (string \<times> string) list" where
  "episode_indicator_plan p =
     (let feats = map (\<lambda>(role, period). (role, ema_feature ''close'' ''base'' period))
        [(''fast'', fast_period p), (''anchor'', anchor_period p), (''slow'', slow_period p)]
      in (\<lparr>plan_version = ''bbb_v1'', features = dedup (map snd feats)\<rparr>, map (\<lambda>(role, f). (role, output_id f)) feats))"

definition entry_valid :: "f64 \<Rightarrow> f64 \<Rightarrow> history_entry \<Rightarrow> int \<Rightarrow> int \<Rightarrow> bool" where
  "entry_valid revalidate now e earliest latest \<longleftrightarrow>
     he_earliest_ms e = earliest \<and> he_latest_ms e = latest \<and> fle (fsub now (he_loaded_at e)) revalidate"

text \<open>The history of a loaded range, both sides.\<close>

definition computed_sides ::
  "(f64 \<Rightarrow> f64) \<Rightarrow> 'd upstream \<Rightarrow> market_stream \<Rightarrow> episode_params \<Rightarrow> time_range \<Rightarrow> 'd market_frame \<Rightarrow>
     (string \<times> side_history) list res" where
  "computed_sides py_log up m p r frame =
     (case episode_indicator_plan p of (plan, cols) \<Rightarrow>
        bindR (up_native up m r plan frame) (\<lambda>native.
        mapR (\<lambda>side. bindR (compute_side_episode py_log native cols p side) (\<lambda>e.
           bindR (shape_side e (frame_time_ms native)) (\<lambda>h. Inr (side, h)))) SIDES))"

definition refresh_entry ::
  "(f64 \<Rightarrow> f64) \<Rightarrow> 'd upstream \<Rightarrow> history_request \<Rightarrow> history_entry option \<Rightarrow> int \<Rightarrow> int \<Rightarrow> history_entry res" where
  "refresh_entry py_log up req previous earliest latest =
     bindR (timeframe_duration_ms (base_timeframe (hr_market req))) (\<lambda>step_ms.
     let r = \<lparr>from_ms = earliest, to_ms = latest + step_ms\<rparr> in
     bindR (up_range up (hr_market req) r) (\<lambda>frame.
     case (case previous of None \<Rightarrow> None
           | Some e \<Rightarrow> if he_earliest_ms e = earliest \<and> he_latest_ms e = latest \<and> he_hash e = market_data_hash frame then Some e else None) of
       Some e \<Rightarrow> Inr (e\<lparr>he_loaded_at := up_loaded_at up\<rparr>)
     | None \<Rightarrow>
         bindR (computed_sides py_log up (hr_market req) (hr_params req) r frame) (\<lambda>sides.
         Inr \<lparr>he_earliest_ms = earliest, he_latest_ms = latest, he_hash = market_data_hash frame, he_sides = sides,
              he_loaded_at = up_loaded_at up\<rparr>)))"

text \<open>\<open>bisect.bisect_left\<close>\<close>

function bisect_from :: "int list \<Rightarrow> int \<Rightarrow> nat \<Rightarrow> nat \<Rightarrow> nat" where
  "bisect_from xs x a b =
     (if a < b then let mid = (a + b) div 2 in if xs ! mid < x then bisect_from xs x (mid + 1) b else bisect_from xs x a mid
      else a)"
  by auto
termination by (relation "measure (\<lambda>(xs, x, a, b). b - a)") auto

declare bisect_from.simps [simp del]

definition bisect_left :: "int list \<Rightarrow> int \<Rightarrow> nat" where
  "bisect_left xs x = bisect_from xs x 0 (length xs)"

text \<open>The bounds of a page in the finished episodes.\<close>

definition page_upper :: "side_history \<Rightarrow> int option \<Rightarrow> nat" where
  "page_upper h before_ms = (case before_ms of None \<Rightarrow> length (sh_starts h) | Some t \<Rightarrow> bisect_left (sh_starts h) t)"

definition page_lower :: "side_history \<Rightarrow> int option \<Rightarrow> int \<Rightarrow> nat" where
  "page_lower h before_ms limit = nat (max 0 (int (page_upper h before_ms) - limit))"

definition page_episodes :: "side_history \<Rightarrow> int option \<Rightarrow> int \<Rightarrow> obj list" where
  "page_episodes h before_ms limit =
     (let a = page_lower h before_ms limit in rev (take (page_upper h before_ms - a) (drop a (sh_finished h))))"

definition next_before :: "side_history \<Rightarrow> int option \<Rightarrow> int \<Rightarrow> int option" where
  "next_before h before_ms limit =
     (let l = page_lower h before_ms limit in if 0 < l then Some (sh_starts h ! l) else None)"

definition page_of :: "(json \<Rightarrow> string) \<Rightarrow> history_request \<Rightarrow> history_entry \<Rightarrow> obj res" where
  "page_of json_hash req e =
     (case map_of (he_sides e) (hr_side req) of None \<Rightarrow> Inl (PyKeyError (hr_side req))
      | Some h \<Rightarrow> Inr
          [(''history_id'', JStr (history_id json_hash (hr_market req) (hr_params req))),
           (''market'', JObj [(''ticker'', JStr (ticker (hr_market req))), (''base_timeframe'', JStr (base_timeframe (hr_market req))),
              (''earliest_ms'', JInt (he_earliest_ms e)), (''as_of_ms'', JInt (he_latest_ms e))]),
           (''episode'', JObj (params_wire (hr_params req))),
           (''params_hash'', JStr (params_hash json_hash (hr_params req))),
           (''market_data_hash'', JStr (he_hash e)),
           (''side'', JStr (hr_side req)),
           (''current'', case sh_current h of None \<Rightarrow> JNull | Some c \<Rightarrow> JObj c),
           (''episodes'', JList (map JObj (page_episodes h (hr_before_start_ms req) (hr_limit req)))),
           (''next_before_start_ms'', case next_before h (hr_before_start_ms req) (hr_limit req) of None \<Rightarrow> JNull | Some t \<Rightarrow> JInt t)])"

section \<open>The service\<close>

text \<open>The entry a request is answered from, and the memo after it.\<close>

definition entry_for ::
  "(f64 \<Rightarrow> f64) \<Rightarrow> (json \<Rightarrow> string) \<Rightarrow> f64 \<Rightarrow> 'd upstream \<Rightarrow> history_request \<Rightarrow> int \<Rightarrow> int \<Rightarrow>
     history_entry history_cache \<Rightarrow> history_entry history_cache \<times> history_entry res" where
  "entry_for py_log json_hash revalidate up req earliest latest c =
     (let k = history_key_of json_hash (hr_market req) (hr_params req); (c1, previous) = take_slot k c in
      case (case previous of None \<Rightarrow> None
            | Some e \<Rightarrow> if entry_valid revalidate (up_checked_at up) e earliest latest then Some e else None) of
        Some e \<Rightarrow> (c1, Inr e)
      | None \<Rightarrow> (case refresh_entry py_log up req previous earliest latest of
                   Inl err \<Rightarrow> (c1, Inl err) | Inr e \<Rightarrow> (put_entry k e c1, Inr e)))"

definition query_history ::
  "(f64 \<Rightarrow> f64) \<Rightarrow> (json \<Rightarrow> string) \<Rightarrow> f64 \<Rightarrow> history_entry history_cache \<Rightarrow> 'd upstream \<times> history_request \<Rightarrow>
     history_entry history_cache \<times> obj res" where
  "query_history py_log json_hash revalidate c call =
     (case call of (up, req) \<Rightarrow>
        case bindR (up_bounds up (hr_market req)) bounds_of_ready of
          Inl err \<Rightarrow> (c, Inl err)
        | Inr (earliest, latest) \<Rightarrow>
            (case entry_for py_log json_hash revalidate up req earliest latest c of
               (c1, r) \<Rightarrow>
                 (c1, bindR r (\<lambda>e.
                    raise_if (hr_expected_hash req \<noteq> None \<and> hr_expected_hash req \<noteq> Some (he_hash e))
                      (MarketDataVersionChanged (he_hash e)) (page_of json_hash req e)))))"

end
