(* ===== verification/HistoryFacts.thy ===== *)
theory HistoryFacts
  imports EpisodeHistory
begin

text \<open>
  The episode history query: the binary search, the least recently used memo, the pages, and what
  the entry of a served page was computed from (locale \<open>slot_memo\<close>).
\<close>

section \<open>Binary search\<close>

lemma bisect_from_bounds: "a \<le> b \<Longrightarrow> a \<le> bisect_from xs x a b \<and> bisect_from xs x a b \<le> b"
proof (induction xs x a b rule: bisect_from.induct)
  case (1 xs x a b)
  then show ?case by (subst (1 2) bisect_from.simps) (fastforce simp: Let_def)
qed

lemma bisect_from_split:
  assumes "sorted xs" "a \<le> b" "b \<le> length xs" "\<And>i. i < a \<Longrightarrow> xs ! i < x" "\<And>i. b \<le> i \<Longrightarrow> i < length xs \<Longrightarrow> x \<le> xs ! i"
  shows "(\<forall>i < bisect_from xs x a b. xs ! i < x) \<and> (\<forall>i. bisect_from xs x a b \<le> i \<longrightarrow> i < length xs \<longrightarrow> x \<le> xs ! i)"
  using assms
proof (induction xs x a b rule: bisect_from.induct)
  case (1 xs x a b)
  show ?case
  proof (cases "a < b")
    case False
    then show ?thesis using 1(3-) by (subst (1 2) bisect_from.simps) simp
  next
    case True
    define mid where "mid = (a + b) div 2"
    have mid: "a \<le> mid" "mid < b" "mid < length xs" using True 1(5) by (simp_all add: mid_def)
    show ?thesis
    proof (cases "xs ! mid < x")
      case less: True
      have "xs ! i < x" if "i < mid + 1" for i
        using sorted_nth_mono[OF 1(3), of i mid] that mid less by fastforce
      note lower = this
      have "(\<forall>i < bisect_from xs x (mid + 1) b. xs ! i < x) \<and> (\<forall>i. bisect_from xs x (mid + 1) b \<le> i \<longrightarrow> i < length xs \<longrightarrow> x \<le> xs ! i)"
        by (rule 1(1)[OF True mid_def less 1(3) _ 1(5) lower 1(7)]) (use mid in simp)
      moreover have "bisect_from xs x a b = bisect_from xs x (mid + 1) b"
        by (subst bisect_from.simps) (use True less in \<open>simp only: mid_def Let_def if_True\<close>)
      ultimately show ?thesis by simp
    next
      case ge: False
      have "x \<le> xs ! i" if "mid \<le> i" "i < length xs" for i
        using sorted_nth_mono[OF 1(3), of mid i] that ge by fastforce
      note upper = this
      have "(\<forall>i < bisect_from xs x a mid. xs ! i < x) \<and> (\<forall>i. bisect_from xs x a mid \<le> i \<longrightarrow> i < length xs \<longrightarrow> x \<le> xs ! i)"
        by (rule 1(2)[OF True mid_def ge 1(3) _ _ 1(6) upper]) (use mid in simp_all)
      moreover have "bisect_from xs x a b = bisect_from xs x a mid"
        by (subst bisect_from.simps) (use True ge in \<open>simp only: mid_def Let_def if_True if_False\<close>)
      ultimately show ?thesis by simp
    qed
  qed
qed

lemma bisect_left_split:
  assumes "sorted xs"
  shows "bisect_left xs x \<le> length xs" "i < bisect_left xs x \<Longrightarrow> xs ! i < x"
    "bisect_left xs x \<le> i \<Longrightarrow> i < length xs \<Longrightarrow> x \<le> xs ! i"
  using bisect_from_bounds[of 0 "length xs" xs x] bisect_from_split[OF assms, of 0 "length xs" x]
  by (simp_all add: bisect_left_def)

lemma split_position:
  assumes "k \<le> length xs" "\<And>i. i < k \<Longrightarrow> P (xs ! i)" "\<And>i. k \<le> i \<Longrightarrow> i < length xs \<Longrightarrow> \<not> P (xs ! i)"
  shows "length (filter P xs) = k"
proof -
  have "filter P (take k xs) = take k xs" using assms(1,2) by (auto simp: filter_id_conv in_set_conv_nth)
  moreover have "filter P (drop k xs) = []" using assms(3) by (auto simp: filter_empty_conv in_set_conv_nth)
  ultimately show ?thesis using assms(1) append_take_drop_id[of k xs] filter_append[of P "take k xs" "drop k xs"] by simp
qed

lemma bisect_left_count: "sorted xs \<Longrightarrow> bisect_left xs x = length (filter (\<lambda>y. y < x) xs)"
  by (rule split_position[symmetric]) (auto simp: bisect_left_split not_less)

lemma bisect_left_nth:
  assumes "sorted_wrt (<) xs" "k < length xs"
  shows "bisect_left xs (xs ! k) = k"
proof -
  have s: "sorted xs" using assms(1) by (simp add: strict_sorted_imp_sorted)
  have "length (filter (\<lambda>y. y < xs ! k) xs) = k"
    using assms sorted_wrt_nth_less[OF assms(1)] sorted_nth_mono[OF s] by (intro split_position) (auto simp: not_less)
  then show ?thesis by (simp add: bisect_left_count[OF s])
qed

section \<open>The least recently used memo\<close>

lemma evict_slots_drop: "0 \<le> n \<Longrightarrow> evict_slots n xs = drop (length xs - nat n) xs"
proof (induction n xs rule: evict_slots.induct)
  case (1 n xs)
  show ?case
  proof (cases "n < int (length xs) \<and> xs \<noteq> []")
    case True
    then obtain y ys where x: "xs = y # ys" by (cases xs) auto
    then have "length xs - nat n = Suc (length ys - nat n)" using True 1(2) by auto
    then show ?thesis using True 1 x by (subst evict_slots.simps) simp
  next
    case False
    then show ?thesis using 1(2) by (subst evict_slots.simps) auto
  qed
qed

text \<open>The last \<open>n\<close> of a list; taking out one element and adding one keeps them apart from the rest.\<close>

definition last_of :: "nat \<Rightarrow> 'a list \<Rightarrow> 'a list" where
  "last_of n xs = drop (length xs - n) xs"

lemma last_of_append: "n \<le> length ys \<Longrightarrow> last_of n (xs @ ys) = last_of n ys"
  by (simp add: last_of_def)

lemma filter_other: "distinct xs \<Longrightarrow> length xs \<le> Suc (length (filter (\<lambda>y. y \<noteq> k) xs))"
proof (induction xs)
  case (Cons x xs)
  moreover have "filter (\<lambda>y. y \<noteq> k) xs = xs" if "k \<notin> set xs" using that by (auto simp: filter_id_conv)
  ultimately show ?case by (cases "x = k") auto
qed simp

lemma last_of_step:
  assumes "distinct xs"
  shows "last_of n (filter (\<lambda>y. y \<noteq> k) (last_of n xs) @ [k]) = last_of n (filter (\<lambda>y. y \<noteq> k) xs @ [k])"
proof (cases "length xs \<le> n")
  case True
  then show ?thesis by (simp add: last_of_def)
next
  case False
  define zs where "zs = last_of n xs"
  have x: "xs = take (length xs - n) xs @ zs" by (simp add: zs_def last_of_def)
  have "length zs = n" "distinct zs" using False assms by (simp_all add: zs_def last_of_def)
  then have "n \<le> length (filter (\<lambda>y. y \<noteq> k) zs @ [k])" using filter_other[of zs k] by simp
  then have "last_of n (filter (\<lambda>y. y \<noteq> k) (take (length xs - n) xs) @ (filter (\<lambda>y. y \<noteq> k) zs @ [k])) = last_of n (filter (\<lambda>y. y \<noteq> k) zs @ [k])"
    by (rule last_of_append)
  then show ?thesis using x by (metis append.assoc filter_append zs_def)
qed

lemma remdups_snoc: "remdups (ks @ [k]) = filter (\<lambda>y. y \<noteq> k) (remdups ks) @ [k]"
  by (induction ks) auto

lemma keys_delete: "map fst (AList.delete k xs) = filter (\<lambda>y. y \<noteq> k) (map fst xs)"
  by (induction xs) auto

lemma take_slot_keys:
  "0 \<le> hc_max c \<Longrightarrow> map fst (hc_slots (fst (take_slot k c))) =
     last_of (nat (hc_max c)) (filter (\<lambda>y. y \<noteq> k) (map fst (hc_slots c)) @ [k])"
proof -
  let ?xs = "move_to_end k (case map_of (hc_slots c) k of None \<Rightarrow> None | Some s \<Rightarrow> s) (hc_slots c)"
  assume "0 \<le> hc_max c"
  then have "map fst (hc_slots (fst (take_slot k c))) = last_of (nat (hc_max c)) (map fst ?xs)"
    by (simp add: take_slot_def Let_def evict_slots_drop last_of_def drop_map)
  then show ?thesis by (simp add: move_to_end_def keys_delete)
qed

lemma take_slot_max [simp]: "hc_max (fst (take_slot k c)) = hc_max c"
  by (simp add: take_slot_def Let_def)

lemma slots_most_recent:
  assumes "0 \<le> n"
  defines "run \<equiv> \<lambda>ks. foldl (\<lambda>c k. fst (take_slot k c)) \<lparr>hc_max = n, hc_slots = []\<rparr> ks"
  shows "map fst (hc_slots (run ks)) = last_of (nat n) (remdups ks) \<and> hc_max (run ks) = n"
proof (induction ks rule: rev_induct)
  case (snoc k ks)
  have "run (ks @ [k]) = fst (take_slot k (run ks))" by (simp add: run_def)
  then show ?case using snoc assms(1) last_of_step[OF distinct_remdups, of "nat n" k ks]
    by (simp add: take_slot_keys remdups_snoc del: remdups_append2)
qed (simp add: run_def last_of_def)

section \<open>Pages\<close>

text \<open>A reader that follows \<open>next_before_start_ms\<close> for at most so many pages.\<close>

fun read_pages :: "side_history \<Rightarrow> int \<Rightarrow> nat \<Rightarrow> int option \<Rightarrow> obj list option" where
  "read_pages h limit 0 before_ms = None"
| "read_pages h limit (Suc n) before_ms =
     (case next_before h before_ms limit of
        None \<Rightarrow> Some (page_episodes h before_ms limit)
      | Some t \<Rightarrow> map_option (\<lambda>rest. page_episodes h before_ms limit @ rest) (read_pages h limit n (Some t)))"

definition history_ok :: "side_history \<Rightarrow> bool" where
  "history_ok h \<longleftrightarrow> sorted_wrt (<) (sh_starts h) \<and> length (sh_starts h) = length (sh_finished h)"

lemma page_upper_le: "history_ok h \<Longrightarrow> page_upper h before_ms \<le> length (sh_finished h)"
  using bisect_left_split(1)[OF strict_sorted_imp_sorted, of "sh_starts h"]
  by (auto simp: page_upper_def history_ok_def split: option.splits)

lemma read_pages_all:
  assumes "history_ok h" "1 \<le> limit" "int (page_upper h before_ms) \<le> int n * limit"
  shows "read_pages h limit (Suc n) before_ms = Some (rev (take (page_upper h before_ms) (sh_finished h)))"
  using assms(3)
proof (induction n arbitrary: before_ms)
  case 0
  then show ?case using assms(2) by (simp add: next_before_def page_lower_def page_episodes_def)
next
  case (Suc n)
  define u where "u = page_upper h before_ms"
  define l where "l = page_lower h before_ms limit"
  have l: "l = u - nat limit" using assms(2) by (simp add: l_def u_def page_lower_def nat_diff_distrib' max_def)
  have u: "u \<le> length (sh_finished h)" using page_upper_le[OF assms(1)] by (simp add: u_def)
  have split: "take u (sh_finished h) = take l (sh_finished h) @ take (u - l) (drop l (sh_finished h))"
    using l by (simp flip: take_add)
  show ?case
  proof (cases "0 < l")
    case False
    then show ?thesis using split by (simp add: next_before_def page_episodes_def l_def[symmetric] u_def[symmetric] Let_def)
  next
    case True
    have "page_upper h (Some (sh_starts h ! l)) = l"
      using True l u assms(1,2) by (auto simp: page_upper_def history_ok_def intro!: bisect_left_nth)
    moreover have "int l \<le> int n * limit" using Suc.prems True assms(2) unfolding l u_def[symmetric] by (simp add: algebra_simps)
    ultimately have "read_pages h limit (Suc n) (Some (sh_starts h ! l)) = Some (rev (take l (sh_finished h)))"
      using Suc.IH[of "Some (sh_starts h ! l)"] by simp
    then show ?thesis unfolding read_pages.simps(2)[of h limit "Suc n"] using True split
      by (simp add: next_before_def page_episodes_def l_def[symmetric] u_def[symmetric] Let_def)
  qed
qed

section \<open>What a memo keeps\<close>

text \<open>
  The interface of the memo: taking a slot finds only what was stored under the key, storing adds one
  entry.  A statement that holds of every entry put under a key then holds of every entry found.
\<close>

locale slot_memo =
  fixes take_entry :: "'k \<Rightarrow> 'c \<Rightarrow> 'c \<times> 'e option"
    and put :: "'k \<Rightarrow> 'e \<Rightarrow> 'c \<Rightarrow> 'c"
    and entries :: "'c \<Rightarrow> ('k \<times> 'e) set"
  assumes take_entries: "entries (fst (take_entry k c)) \<subseteq> entries c"
    and take_found: "snd (take_entry k c) = Some e \<Longrightarrow> (k, e) \<in> entries c"
    and put_entries: "entries (put k e c) \<subseteq> insert (k, e) (entries c)"
begin

definition holds :: "('k \<Rightarrow> 'e \<Rightarrow> bool) \<Rightarrow> 'c \<Rightarrow> bool" where
  "holds P c \<longleftrightarrow> (\<forall>(k, e) \<in> entries c. P k e)"

lemma holds_take: "holds P c \<Longrightarrow> holds P (fst (take_entry k c))"
  using take_entries by (fastforce simp: holds_def)

lemma holds_found: "holds P c \<Longrightarrow> snd (take_entry k c) = Some e \<Longrightarrow> P k e"
  using take_found by (fastforce simp: holds_def)

lemma holds_put: "holds P c \<Longrightarrow> P k e \<Longrightarrow> holds P (put k e c)"
  using put_entries[of k e c] by (fastforce simp: holds_def)

lemma holds_mono: "holds P c \<Longrightarrow> (\<And>k e. P k e \<Longrightarrow> Q k e) \<Longrightarrow> holds Q c"
  by (auto simp: holds_def)

end

definition cache_entries :: "'e history_cache \<Rightarrow> (history_key \<times> 'e) set" where
  "cache_entries c = {(k, e). (k, Some e) \<in> set (hc_slots c)}"

lemma set_evict: "set (evict_slots n xs) \<subseteq> set xs"
proof (induction n xs rule: evict_slots.induct)
  case (1 n xs)
  then show ?case by (subst evict_slots.simps) (auto dest: list.set_sel(2))
qed

lemma set_delete: "set (AList.delete k xs) \<subseteq> set xs"
  by (induction xs) auto

interpretation slots: slot_memo take_slot put_entry cache_entries
proof unfold_locales
  fix k :: history_key and c :: "'e history_cache" and e
  show "cache_entries (fst (take_slot k c)) \<subseteq> cache_entries c"
  proof (rule subsetI, simp add: cache_entries_def split_beta)
    fix x assume "(fst x, Some (snd x)) \<in> set (hc_slots (fst (take_slot k c)))"
    then have "(fst x, Some (snd x)) \<in> set (AList.delete k (hc_slots c)) \<or>
        fst x = k \<and> Some (snd x) = (case map_of (hc_slots c) k of None \<Rightarrow> None | Some s \<Rightarrow> s)"
      using set_evict by (fastforce simp: take_slot_def Let_def move_to_end_def)
    then show "(fst x, Some (snd x)) \<in> set (hc_slots c)"
      using set_delete by (fastforce split: option.splits dest: map_of_SomeD)
  qed
  show "(k, e) \<in> cache_entries c" if "snd (take_slot k c) = Some e"
    using that by (auto simp: cache_entries_def take_slot_def Let_def split: option.splits dest: map_of_SomeD)
  show "cache_entries (put_entry k e c) \<subseteq> insert (k, e) (cache_entries c)"
    by (auto simp: cache_entries_def put_entry_def split: if_splits)
qed

section \<open>Where a served page comes from\<close>

text \<open>
  An entry under a key was computed while answering one of the calls: from the range that call
  loaded, whose hash it carries.
\<close>

definition computed_in :: "(f64 \<Rightarrow> f64) \<Rightarrow> (json \<Rightarrow> string) \<Rightarrow> 'd upstream \<times> history_request \<Rightarrow> history_key \<Rightarrow> history_entry \<Rightarrow> bool" where
  "computed_in py_log json_hash call k e \<longleftrightarrow>
     (case call of (up, req) \<Rightarrow> k = history_key_of json_hash (hr_market req) (hr_params req) \<and>
        (\<exists>step frame. timeframe_duration_ms (base_timeframe (hr_market req)) = Inr step \<and>
           (let r = \<lparr>from_ms = he_earliest_ms e, to_ms = he_latest_ms e + step\<rparr> in
            up_range up (hr_market req) r = Inr frame \<and> he_hash e = market_data_hash frame \<and>
            computed_sides py_log up (hr_market req) (hr_params req) r frame = Inr (he_sides e))))"

definition computed_by where
  "computed_by py_log json_hash calls k e \<longleftrightarrow> (\<exists>call \<in> set calls. computed_in py_log json_hash call k e)"

lemma computed_by_snoc:
  "computed_by py_log json_hash (calls @ [call]) k e \<longleftrightarrow>
     computed_by py_log json_hash calls k e \<or> computed_in py_log json_hash call k e"
  by (auto simp: computed_by_def)

lemma computed_in_loaded [simp]: "computed_in py_log json_hash call k (e\<lparr>he_loaded_at := t\<rparr>) = computed_in py_log json_hash call k e"
  by (simp add: computed_in_def split: prod.splits)

lemma refresh_computed:
  assumes "refresh_entry py_log up req previous earliest latest = Inr e"
    and "\<And>e'. previous = Some e' \<Longrightarrow> P e'" "\<And>e' t. P e' \<Longrightarrow> P (e'\<lparr>he_loaded_at := t\<rparr>)"
  shows "(P e \<or> computed_in py_log json_hash (up, req) (history_key_of json_hash (hr_market req) (hr_params req)) e) \<and>
    he_earliest_ms e = earliest \<and> he_latest_ms e = latest"
  using assms
  by (auto simp: refresh_entry_def bindR_Inr Let_def computed_in_def split: option.splits if_splits)

lemma entry_for_computed:
  assumes "slots.holds (computed_by py_log json_hash calls) c"
    and "entry_for py_log json_hash revalidate up req earliest latest c = (c1, r)"
  shows "slots.holds (computed_by py_log json_hash (calls @ [(up, req)])) c1 \<and>
    (\<forall>e. r = Inr e \<longrightarrow> he_earliest_ms e = earliest \<and> he_latest_ms e = latest \<and>
       computed_by py_log json_hash (calls @ [(up, req)]) (history_key_of json_hash (hr_market req) (hr_params req)) e)"
proof -
  let ?k = "history_key_of json_hash (hr_market req) (hr_params req)"
  let ?P = "computed_by py_log json_hash (calls @ [(up, req)])"
  obtain c2 previous where t: "take_slot ?k c = (c2, previous)" by fastforce
  have h: "slots.holds ?P c" by (rule slots.holds_mono[OF assms(1)]) (simp add: computed_by_snoc)
  have c2: "slots.holds ?P c2" using slots.holds_take[OF h, of ?k] t by simp
  have prev: "?P ?k e" if "previous = Some e" for e using slots.holds_found[OF h, of ?k] t that by simp
  have fresh: "?P ?k e \<and> he_earliest_ms e = earliest \<and> he_latest_ms e = latest"
    if "refresh_entry py_log up req previous earliest latest = Inr e" for e
    using refresh_computed[OF that, of "?P ?k" json_hash] prev by (auto simp: computed_by_def)
  show ?thesis
    using assms(2) c2 prev fresh slots.holds_put[OF c2, of ?k]
    by (auto simp: entry_for_def Let_def t entry_valid_def split: option.splits if_splits sum.splits)
qed

definition run_queries ::
  "(f64 \<Rightarrow> f64) \<Rightarrow> (json \<Rightarrow> string) \<Rightarrow> f64 \<Rightarrow> history_entry history_cache \<Rightarrow> ('d upstream \<times> history_request) list \<Rightarrow>
     history_entry history_cache" where
  "run_queries py_log json_hash revalidate c calls = foldl (\<lambda>c call. fst (query_history py_log json_hash revalidate c call)) c calls"

lemma query_computed:
  assumes "slots.holds (computed_by py_log json_hash calls) c"
  shows "slots.holds (computed_by py_log json_hash (calls @ [call])) (fst (query_history py_log json_hash revalidate c call))"
proof -
  obtain up req where call: "call = (up, req)" by fastforce
  have keep: "slots.holds (computed_by py_log json_hash (calls @ [call])) c"
    by (rule slots.holds_mono[OF assms]) (simp add: computed_by_snoc)
  show ?thesis
  proof (cases "bindR (up_bounds up (hr_market req)) bounds_of_ready")
    case (Inl err)
    then show ?thesis using keep by (simp add: query_history_def call)
  next
    case (Inr b)
    obtain earliest latest where b: "b = (earliest, latest)" by fastforce
    obtain c1 r where e: "entry_for py_log json_hash revalidate up req earliest latest c = (c1, r)" by fastforce
    then show ?thesis using entry_for_computed[OF assms e] Inr b by (simp add: query_history_def call)
  qed
qed

lemma run_computed:
  assumes "hc_slots c = []"
  shows "slots.holds (computed_by py_log json_hash calls) (run_queries py_log json_hash revalidate c calls)"
proof (induction calls rule: rev_induct)
  case Nil
  then show ?case using assms unfolding slots.holds_def by (simp add: run_queries_def cache_entries_def)
next
  case (snoc call calls)
  then show ?case using query_computed by (fastforce simp: run_queries_def)
qed

lemma served_page:
  assumes "slots.holds (computed_by py_log json_hash calls) c"
    and "snd (query_history py_log json_hash revalidate c (up, req)) = Inr page"
  shows "\<exists>e earliest latest. bindR (up_bounds up (hr_market req)) bounds_of_ready = Inr (earliest, latest) \<and>
    he_earliest_ms e = earliest \<and> he_latest_ms e = latest \<and>
    (\<forall>h. hr_expected_hash req = Some h \<longrightarrow> he_hash e = h) \<and> page_of json_hash req e = Inr page \<and>
    computed_by py_log json_hash (calls @ [(up, req)]) (history_key_of json_hash (hr_market req) (hr_params req)) e"
proof -
  obtain earliest latest where b: "bindR (up_bounds up (hr_market req)) bounds_of_ready = Inr (earliest, latest)"
    using assms(2) by (auto simp: query_history_def split: sum.splits)
  obtain c1 r where e: "entry_for py_log json_hash revalidate up req earliest latest c = (c1, r)" by fastforce
  obtain e' where "r = Inr e'" "page_of json_hash req e' = Inr page"
    "\<forall>h. hr_expected_hash req = Some h \<longrightarrow> he_hash e' = h"
    using assms(2) e by (auto simp: query_history_def b bindR_Inr raise_if_Inr)
  then show ?thesis using entry_for_computed[OF assms(1) e] b by blast
qed

end
