(* ===== verification/HistoryShape.thy ===== *)
theory HistoryShape
  imports EpisodeLookahead HistoryFacts
begin

text \<open>
  The table of the episodes of a projected side: starts in strictly increasing order, every episode
  but the last one closed, and a last bar that carries the state of the open one.
\<close>

section \<open>The invariant of the table\<close>

definition closed :: "episode_row \<Rightarrow> bool" where
  "closed r \<longleftrightarrow> er_end_bar r \<noteq> None"

definition spans :: "nat \<Rightarrow> bool \<Rightarrow> bool \<Rightarrow> episode_row list \<Rightarrow> bool" where
  "spans i act cens es \<longleftrightarrow>
     sorted_wrt (<) (map er_start_bar es) \<and> list_all (\<lambda>r. er_start_bar r < i) es \<and>
     (if act then es \<noteq> [] \<and> list_all closed (butlast es) \<and> \<not> closed (last es) \<and> er_censored (last es) = cens
      else list_all closed es)"

lemma spans_mono: "spans i act cens es \<Longrightarrow> spans (Suc i) act cens es"
  by (auto simp: spans_def list_all_iff intro: less_SucI)

lemma spans_open:
  "spans i False c es \<Longrightarrow> spans (Suc i) True cens (es @ [\<lparr>er_episode_id = k, er_start_bar = i, er_end_bar = None, er_censored = cens\<rparr>])"
  by (auto simp: spans_def list_all_iff sorted_wrt_append closed_def intro: less_SucI)

lemma spans_close:
  assumes "spans i True c es"
  shows "spans (Suc i) False c' (butlast es @ [(last es)\<lparr>er_end_bar := Some i\<rparr>])"
proof -
  have e: "es = butlast es @ [last es]" using assms by (simp add: spans_def)
  then have "map er_start_bar (butlast es @ [(last es)\<lparr>er_end_bar := Some i\<rparr>]) = map er_start_bar es"
    by (metis (no_types, lifting) episode_row.select_convs(2) episode_row.surjective episode_row.update_convs(3) list.simps(8,9) map_append)
  moreover have "list_all (\<lambda>r. er_start_bar r < i) (butlast es)" "er_start_bar (last es) < i"
    using assms e by (auto simp: spans_def list_all_iff dest: in_set_butlastD)
  ultimately show ?thesis using assms by (auto simp: spans_def list_all_iff closed_def intro: less_SucI)
qed

lemma active_bar_table:
  fixes w k :: nat and bs :: "ep_bar list" and i :: nat
  assumes "ph s \<noteq> Broken"
  defines "t \<equiv> fst (active_bar w k bs i s)"
  shows "active t = active s \<and> censored t = censored s \<and>
    episodes t = (if ph t = Broken then butlast (episodes s) @ [(last (episodes s))\<lparr>er_end_bar := Some i\<rparr>] else episodes s)"
  using assms(1) unfolding t_def active_bar_def Let_def stack_break_def
  by (cases "ph s") (auto simp: away_bar_def open_zone_def zone_bar_def false_break_bar_def open_false_break_def extend_false_break_def Let_def)

definition span_inv :: "nat list \<Rightarrow> ep_state \<Rightarrow> bool" where
  "span_inv xs s \<longleftrightarrow> (xs = [0..<length xs] \<longrightarrow> spans (length xs) (active s) (censored s) (episodes s) \<and> (active s \<longrightarrow> ph s \<noteq> Broken))"

lemma span_step:
  fixes w k i :: nat and c :: int and bs :: "ep_bar list"
  assumes "spans i (active s) (censored s) (episodes s)" "active s \<longrightarrow> ph s \<noteq> Broken"
  defines "t \<equiv> fst (StackEpisode.bar_step w k c bs s i)"
  shows "spans (Suc i) (active t) (censored t) (episodes t) \<and> (active t \<longrightarrow> ph t \<noteq> Broken)"
proof (cases "active s")
  case False
  then show ?thesis using assms(1,2) spans_mono[of i False] spans_open[of i "censored s" "episodes s"]
    by (auto simp: t_def StackEpisode.bar_step_def end_bar_def open_episode_def Let_def)
next
  case True
  define u where "u = fst (active_bar w k bs i s)"
  have u: "active u" "censored u = censored s"
    "episodes u = (if ph u = Broken then butlast (episodes s) @ [(last (episodes s))\<lparr>er_end_bar := Some i\<rparr>] else episodes s)"
    using active_bar_table[of s w k bs i] assms(2) True by (simp_all add: u_def)
  have "t = end_bar u" using True by (simp add: t_def u_def StackEpisode.bar_step_def split_beta)
  then show ?thesis using u assms(1) True spans_close[of i "censored s" "episodes s"] spans_mono[of i True]
    by (auto simp: end_bar_def)
qed

interpretation span: bar_machine "StackEpisode.bar_step w k c bs" init_state span_inv
proof unfold_locales
  show "span_inv [] init_state" by (simp add: span_inv_def init_state_def spans_def)
  fix xs s x
  assume s: "span_inv xs s"
  show "span_inv (xs @ [x]) (fst (StackEpisode.bar_step w k c bs s x))"
    unfolding span_inv_def
  proof
    assume "xs @ [x] = [0..<length (xs @ [x])]"
    then have "xs = [0..<length xs]" "x = length xs" using upt_snoc_inv by blast+
    then show "spans (length (xs @ [x])) (active (fst (StackEpisode.bar_step w k c bs s x))) (censored (fst (StackEpisode.bar_step w k c bs s x)))
          (episodes (fst (StackEpisode.bar_step w k c bs s x))) \<and>
        (active (fst (StackEpisode.bar_step w k c bs s x)) \<longrightarrow> ph (fst (StackEpisode.bar_step w k c bs s x)) \<noteq> Broken)"
      using s span_step[of "length xs" s w k c bs] by (simp add: span_inv_def)
  qed
qed

lemma run_spans:
  fixes w k :: nat and c :: int and bs :: "ep_bar list"
  defines "s \<equiv> fst (project_run w k c bs)"
  shows "spans (length bs) (active s) (censored s) (episodes s)"
  using span.inv_run[of "[0..<length bs]" w k c bs] by (simp add: s_def span_inv_def project_run_def)

section \<open>The last row\<close>

text \<open>An open episode that is not censored has its touch number in the row of the last bar.\<close>

lemma last_row_touch:
  assumes "active (fst (project_run w k c bs))" "\<not> censored (fst (project_run w k c bs))"
  shows "bs \<noteq> [] \<and> (\<exists>n \<le> length bs. sn_touch_number (out_state (last (snd (project_run w k c bs)))) = f64_of_nat n)"
proof -
  have ne: "bs \<noteq> []"
  proof
    assume "bs = []"
    then show False using assms(1) by (simp add: project_run_def init_state_def)
  qed
  define n where "n = length bs - 1"
  have n: "length bs = Suc n" using ne by (simp add: n_def)
  define s where "s = fst (scan (StackEpisode.bar_step w k c bs) init_state [0..<n])"
  have run: "project_run w k c bs = (fst (StackEpisode.bar_step w k c bs s n), snd (scan (StackEpisode.bar_step w k c bs) init_state [0..<n]) @ [snd (StackEpisode.bar_step w k c bs s n)])"
    unfolding project_run_def n upt_Suc_append[OF le0] by (simp add: scan_snoc s_def)
  have t: "active (fst (StackEpisode.bar_step w k c bs s n))" "\<not> censored (fst (StackEpisode.bar_step w k c bs s n))"
    using assms unfolding run by simp_all
  have "snd (StackEpisode.bar_step w k c bs s n) = row_of n (fst (StackEpisode.bar_step w k c bs s n)) ev" if "ev = (if active s then snd (active_bar w k bs n s) else Some EpisodeStart)" for ev
    using t(1) that by (auto simp: StackEpisode.bar_step_def end_bar_def split_beta Let_def split: if_splits)
  then have "sn_touch_number (out_state (snd (StackEpisode.bar_step w k c bs s n))) = f64_of_nat (touch_number (fst (StackEpisode.bar_step w k c bs s n)))"
    using t(2) by (simp add: row_of_def state_of_def)
  moreover have "touch_number (fst (StackEpisode.bar_step w k c bs s n)) \<le> length bs"
    using counts.inv_run[of "[0..<length bs]" w k c bs] run by (simp add: count_inv_def project_run_def)
  ultimately show ?thesis using ne by (auto simp: run)
qed

text \<open>
  The shaping of a projected side: it never raises, the finished episodes keep the order of their
  starts, and at most the last episode is the current one.
\<close>

section \<open>Rows of the entity tables\<close>

lemma wire_episode_ids:
  "zone_wire tm r = Inr j \<Longrightarrow> row_int j ''episode_id'' = Inr (int (tr_episode_id r))"
  "fb_wire tm r = Inr j \<Longrightarrow> row_int j ''episode_id'' = Inr (int (tr_episode_id r))"
  "wave_wire tm r = Inr j \<Longrightarrow> row_int j ''episode_id'' = Inr (int (tr_episode_id r))"
  "forming_wire tm f = Inr j \<Longrightarrow> row_int j ''episode_id'' = Inr (int (fr_episode_id f))"
  by (auto simp: zone_wire_def fb_wire_def wave_wire_def forming_wire_def bindR_Inr row_int_def row_field_def)

lemma foldR_total: "(\<And>x s. x \<in> set xs \<Longrightarrow> \<exists>s'. f s x = Inr s') \<Longrightarrow> \<exists>s'. foldR f s xs = Inr s'"
proof (induction xs arbitrary: s)
  case (Cons x xs)
  obtain s1 where "f s x = Inr s1" using Cons.prems[of x s] by auto
  moreover obtain s2 where "foldR f s1 xs = Inr s2" using Cons.IH[of s1] Cons.prems by auto
  ultimately show ?case by simp
qed simp

lemma group_rows_total:
  assumes "\<And>row. row \<in> set rows \<Longrightarrow> \<exists>k. row_int row ''episode_id'' = Inr k"
  shows "\<exists>g. group_rows rows = Inr g"
  unfolding group_rows_def using assms by (intro foldR_total) (auto simp: bindR_Inr)

lemma mapR_ids:
  assumes "mapR f xs = Inr rows" "\<And>x j. f x = Inr j \<Longrightarrow> \<exists>k. row_int j ''episode_id'' = Inr k"
  shows "\<exists>g. group_rows rows = Inr g"
  by (rule group_rows_total) (use mapR_set[OF assms(1)] assms(2) in blast)

section \<open>The loop over the episodes\<close>

text \<open>What one row of the table turns into.\<close>

lemma episode_wire_record:
  assumes "episode_wire tm r = Inr row"
  shows "\<exists>rec. episode_record gs row = Inr rec \<and> row_int (JObj rec) ''start_ms'' = Inr (tm ! er_start_bar r)"
proof -
  obtain gz gf gw where gs: "gs = (gz, gf, gw)" by (cases gs)
  have "\<exists>rec. episode_record gs row = Inr rec \<and> map_of rec ''start_ms'' = Some (JInt (tm ! er_start_bar r))"
    using assms
    by (auto simp: episode_wire_def at_bar_def item_Inr bindR_Inr gs episode_record_def row_int_def row_field_def Let_def split: option.splits)
  then show ?thesis by (auto simp: row_int_def row_field_def)
qed

lemma episode_wire_fields:
  assumes "episode_wire tm r = Inr row"
  shows "\<exists>sb b. row_field row ''stack_break'' = Inr sb \<and> row_field sb ''bar'' = Inr b \<and> (b = JNull \<longleftrightarrow> \<not> closed r) \<and>
    row_field row ''censored'' = Inr (JBool (er_censored r))"
  using assms by (auto simp: episode_wire_def at_bar_def bindR_Inr row_field_def closed_def split: option.splits)

text \<open>The loop never raises when the state of the open episode can be read.\<close>

lemma shape_rows:
  assumes "mapR (episode_wire tm) es = Inr rows"
    and "\<And>r. r \<in> set es \<Longrightarrow> \<not> closed r \<Longrightarrow> \<exists>n phase. current_state e (er_censored r) = Inr (n, phase)"
  shows "\<exists>recs cur. foldR (shape_row e gs) (acc, c) rows = Inr (acc @ recs, cur) \<and>
    mapR (\<lambda>r. row_int (JObj r) ''start_ms'') recs = Inr (map (\<lambda>r. tm ! er_start_bar r) (filter closed es)) \<and>
    (cur = None \<longleftrightarrow> c = None \<and> list_all closed es)"
  using assms
proof (induction es arbitrary: rows acc c)
  case (Cons r es)
  obtain row rows' where rows: "rows = row # rows'" "episode_wire tm r = Inr row" "mapR (episode_wire tm) es = Inr rows'"
    using Cons.prems(1) by (auto simp: bindR_Inr)
  obtain rec where rec: "episode_record gs row = Inr rec" "row_int (JObj rec) ''start_ms'' = Inr (tm ! er_start_bar r)"
    using episode_wire_record[OF rows(2)] by blast
  obtain sb b where f: "row_field row ''stack_break'' = Inr sb" "row_field sb ''bar'' = Inr b" "b = JNull \<longleftrightarrow> \<not> closed r"
    "row_field row ''censored'' = Inr (JBool (er_censored r))" using episode_wire_fields[OF rows(2)] by blast
  have IH: "\<exists>recs cur. foldR (shape_row e gs) (acc', c') rows' = Inr (acc' @ recs, cur) \<and>
      mapR (\<lambda>r. row_int (JObj r) ''start_ms'') recs = Inr (map (\<lambda>r. tm ! er_start_bar r) (filter closed es)) \<and>
      (cur = None \<longleftrightarrow> c' = None \<and> list_all closed es)" for acc' c'
    by (rule Cons.IH[OF rows(3)]) (use Cons.prems(2) in auto)
  show ?case
  proof (cases "closed r")
    case True
    have step: "shape_row e gs (acc, c) row = Inr (acc @ [rec], c)" using rec f True by (simp add: shape_row_def)
    show ?thesis using IH[of "acc @ [rec]" c] True rec(2) by (auto simp: rows(1) step)
  next
    case False
    obtain n phase where cs: "current_state e (er_censored r) = Inr (n, phase)" using Cons.prems(2)[of r] False by auto
    have step: "shape_row e gs (acc, c) row = Inr (acc, Some (rec @ [(''touch_number'', n), (''phase'', phase)]))"
      using rec f False cs by (simp add: shape_row_def)
    show ?thesis using IH[of acc "Some (rec @ [(''touch_number'', n), (''phase'', phase)])"] False by (auto simp: rows(1) step)
  qed
qed simp

section \<open>A projected side\<close>

lemma current_state_readable:
  assumes "rows \<noteq> []" "sn_touch_number (out_state (last rows)) = f64_of_nat n" "n < 2 ^ 53" "se_rows e = rows"
  shows "\<exists>m phase. current_state e False = Inr (m, phase)"
  using assms f64_of_int_finite[of "int n"] by (auto simp: current_state_def Let_def)

lemma projected_episodes:
  assumes "project_side py_log bs p sd = Inr e" "length bs < 2 ^ 53"
  shows "sorted_wrt (<) (map er_start_bar (se_episodes e)) \<and> list_all closed (butlast (se_episodes e)) \<and>
    (\<forall>r \<in> set (se_episodes e). \<not> closed r \<longrightarrow> (\<exists>n phase. current_state e (er_censored r) = Inr (n, phase)))"
proof -
  let ?run = "\<lambda>c. project_long (nat (window_bars p)) (nat (break_bars p)) c (side_bars sd bs)"
  from assms(1) obtain c where c: "se_episodes e = episodes (fst (?run c))"
      "se_rows e = map (if sd = ''short'' then unmirror_out else (\<lambda>r. r)) (snd (?run c))"
    by (auto simp: project_side_def bindR_Inr raise_if_Inr Let_def split_beta side_bars_def)
  define s where "s = fst (?run c)"
  define rows where "rows = snd (?run c)"
  have s: "(s, rows) = ?run c" and e: "se_episodes e = episodes s" "se_rows e = map (if sd = ''short'' then unmirror_out else (\<lambda>r. r)) rows"
    using c by (simp_all add: s_def rows_def)
  define u where "u = fst (project_run (nat (window_bars p)) (nat (break_bars p)) c (side_bars sd bs))"
  have su: "episodes s = episodes u" "rows = snd (project_run (nat (window_bars p)) (nat (break_bars p)) c (side_bars sd bs))"
    using s by (simp_all add: project_long_def split_beta u_def split: if_splits)
  have sp: "spans (length (side_bars sd bs)) (active u) (censored u) (episodes u)" unfolding u_def by (rule run_spans)
  have open_last: "active u \<and> er_censored r = censored u" if "r \<in> set (episodes u)" "\<not> closed r" for r
  proof -
    have "active u" using sp that by (auto simp: spans_def list_all_iff split: if_splits)
    moreover have "r = last (episodes u)"
    proof -
      have l: "episodes u = butlast (episodes u) @ [last (episodes u)]" using sp \<open>active u\<close> by (simp add: spans_def)
      have "r \<in> set (butlast (episodes u) @ [last (episodes u)])" using that(1) l by simp
      then show ?thesis using sp that(2) \<open>active u\<close> by (auto simp: spans_def list_all_iff)
    qed
    ultimately show ?thesis using sp by (simp add: spans_def)
  qed
  have cur: "\<exists>n phase. current_state e (censored u) = Inr (n, phase)" if act: "active u"
  proof (cases "censored u")
    case True
    then show ?thesis by (simp add: current_state_def)
  next
    case False
    obtain n where n: "side_bars sd bs \<noteq> []" "n \<le> length (side_bars sd bs)" "sn_touch_number (out_state (last rows)) = f64_of_nat n"
      using last_row_touch[of "nat (window_bars p)" "nat (break_bars p)" c "side_bars sd bs", folded u_def su(2)] act False by auto
    have "rows \<noteq> []" using n(1) by (auto simp: su(2) project_run_def scan_length dest: arg_cong[of _ _ length])
    then have "\<exists>m phase. current_state e False = Inr (m, phase)"
      using n(2,3) assms(2) by (intro current_state_readable[OF _ _ _ e(2), of n]) (auto simp: last_map unmirror_out_def side_bars_def split: if_splits)
    then show ?thesis using False by simp
  qed
  show ?thesis using sp open_last cur by (auto simp: e su spans_def list_all_iff dest: in_set_butlastD split: if_splits)
qed

lemma shape_side_spec:
  assumes p: "project_side py_log bs p sd = Inr e" "length bs < 2 ^ 53" and tm: "length tm = length bs" "sorted_wrt (<) tm"
  shows "\<exists>h. shape_side e tm = Inr h \<and> history_ok h \<and>
    sh_starts h = map (\<lambda>r. tm ! er_start_bar r) (filter closed (se_episodes e)) \<and>
    (sh_current h = None \<longleftrightarrow> list_all closed (se_episodes e))"
proof -
  note bars = project_side_bars[OF p(1), folded tm(1)]
  define known where "known = filter (\<lambda>r. tr_episode_id r \<notin> set (censored_ids e)) (se_touches e)"
  obtain zones where z: "mapR (zone_wire tm) known = Inr zones"
    using mapR_total[of known "zone_wire tm"] touch_wires_ok(1) bars(1) by (auto simp: known_def)
  obtain fbs where f: "mapR (fb_wire tm) (filter (\<lambda>r. has_false_break r = Fin 1) known) = Inr fbs"
    using mapR_total[of "filter (\<lambda>r. has_false_break r = Fin 1) known" "fb_wire tm"] touch_wires_ok(2) bars(1) by (auto simp: known_def)
  obtain waves where w: "mapR (wave_wire tm) known = Inr waves"
    using mapR_total[of known "wave_wire tm"] touch_wires_ok(3) bars(1) by (auto simp: known_def)
  obtain fws where fw: "mapR (forming_wire tm) (filter (\<lambda>f. fr_episode_id f \<notin> set (censored_ids e)) (se_forming_rows e)) = Inr fws"
    using mapR_total[of _ "forming_wire tm"] forming_wire_ok bars(2) by fastforce
  obtain eps where ep: "mapR (episode_wire tm) (se_episodes e) = Inr eps"
    using mapR_total[of _ "episode_wire tm"] episode_wire_ok bars(3) by blast
  have tables: "side_entities_to_wire e tm = Inr [(''episodes'', JList eps), (''zones'', JList zones), (''false_breaks'', JList fbs),
      (''waves'', JList (waves @ fws))]"
    using z f w fw ep by (simp add: side_entities_to_wire_def known_def Let_def)
  obtain gz gf gw where g: "group_rows zones = Inr gz" "group_rows fbs = Inr gf" "group_rows (waves @ fws) = Inr gw"
    using mapR_ids[OF z] mapR_ids[OF f] group_rows_total[of "waves @ fws"] mapR_set[OF w] mapR_set[OF fw] wire_episode_ids
    by (metis Un_iff set_append)
  note proj = projected_episodes[OF p]
  obtain recs cur where r: "foldR (shape_row e (gz, gf, gw)) ([], None) eps = Inr (recs, cur)"
    "mapR (\<lambda>r. row_int (JObj r) ''start_ms'') recs = Inr (map (\<lambda>r. tm ! er_start_bar r) (filter closed (se_episodes e)))"
    "cur = None \<longleftrightarrow> list_all closed (se_episodes e)"
    using shape_rows[OF ep, of e "(gz, gf, gw)" "[]" None] proj by auto
  have "sorted_wrt (<) (map (\<lambda>r. tm ! er_start_bar r) (filter closed (se_episodes e)))"
  proof -
    have "sorted_wrt (<) (map er_start_bar (filter closed (se_episodes e)))"
      using proj by (auto simp: sorted_wrt_map intro: sorted_wrt_filter)
    moreover have "er_start_bar r < length tm" if "r \<in> set (se_episodes e)" for r
      using bars(3) that by (auto simp: episode_bars_def)
    ultimately show ?thesis using sorted_wrt_nth_less[OF tm(2)]
      by (auto simp: sorted_wrt_map intro: sorted_wrt_mono_rel[of _ "\<lambda>x y. er_start_bar x < er_start_bar y"])
  qed
  moreover have "length recs = length (filter closed (se_episodes e))" using mapR_length[OF r(2)] by simp
  ultimately show ?thesis
    by (intro exI[of _ "\<lparr>sh_finished = recs, sh_starts = map (\<lambda>r. tm ! er_start_bar r) (filter closed (se_episodes e)), sh_current = cur\<rparr>"])
      (simp add: shape_side_def tables table_def get_def get_or_def g r history_ok_def)
qed

end
