(* ===== verification/EpisodeQueryProperties.thy ===== *)
theory EpisodeQueryProperties
  imports HistoryShape EpisodeProperties
begin

text \<open>
  Properties of the episode history query and of the bundle of episodes: every finished episode is
  paged exactly once, shaping never raises, the memo keeps the most recent keys, a served page was
  computed from a loaded range with the hash it shows, and a memoized bundle is the direct one.
\<close>

section \<open>A frame with three episodes\<close>

definition broken_bar :: ep_bar where
  "broken_bar = (wbar 10 8 5)\<lparr>fa := f64_of_int 3\<rparr>"

definition query_bars :: "ep_bar list" where
  "query_bars = [broken_bar, wbar 10 8 5, broken_bar, broken_bar, wbar 10 8 5, wbar 9 4 5, broken_bar, broken_bar, wbar 11 8 6]"

definition query_params :: episode_params where
  "query_params = wparams\<lparr>break_bars := 1\<rparr>"

definition query_times :: "int list" where
  "query_times = map (\<lambda>i. 60000 * int i) [0..<9]"

lemma query_side: "project_side wlog query_bars query_params ''long'' = Inr (side_ok wlog query_bars query_params ''long'')"
  using wwarmup by (simp add: side_ok_def project_side_def query_params_def wparams_def Let_def split_beta)

lemma query_grid: "length query_bars < 2 ^ 53" "length query_times = length query_bars" "sorted_wrt (<) query_times"
  by (simp_all add: query_bars_def query_times_def upt_rec)

section \<open>Properties\<close>

text \<open>
  C6. The pages of an episode history are complete: following \<open>next_before_start_ms\<close> from the newest
  page on lists every finished episode of the side exactly once, newest first, whatever the page
  limit; the reader stops after at most one page per episode and one more.
\<close>
theorem history_pages_list_every_episode:
  assumes "project_side py_log bs p sd = Inr e" "length bs < 2 ^ 53" "length tm = length bs" "sorted_wrt (<) tm" "1 \<le> limit"
  shows "\<exists>h. shape_side e tm = Inr h \<and>
    sh_starts h = map (\<lambda>r. tm ! er_start_bar r) (filter closed (se_episodes e)) \<and>
    length (sh_finished h) = length (filter closed (se_episodes e)) \<and>
    read_pages h limit (Suc (length (sh_finished h))) None = Some (rev (sh_finished h))"
proof -
  obtain h where h: "shape_side e tm = Inr h" "history_ok h"
    "sh_starts h = map (\<lambda>r. tm ! er_start_bar r) (filter closed (se_episodes e))"
    using shape_side_spec[OF assms(1-4)] by blast
  have u: "page_upper h None = length (sh_finished h)" using h(2) by (simp add: page_upper_def history_ok_def)
  have "int (length (sh_finished h)) * 1 \<le> int (length (sh_finished h)) * limit" using assms(5) by (rule mult_left_mono) simp
  then show ?thesis using h read_pages_all[OF h(2) assms(5), of None "length (sh_finished h)"] u
    by (intro exI[of _ h]) (simp add: history_ok_def)
qed

theorem history_pages_list_every_episode_witness:
  "\<exists>h. shape_side (side_ok wlog query_bars query_params ''long'') query_times = Inr h \<and>
    sh_starts h = map (\<lambda>r. query_times ! er_start_bar r) (filter closed (se_episodes (side_ok wlog query_bars query_params ''long''))) \<and>
    length (sh_finished h) = length (filter closed (se_episodes (side_ok wlog query_bars query_params ''long''))) \<and>
    read_pages h 1 (Suc (length (sh_finished h))) None = Some (rev (sh_finished h))"
  by (rule history_pages_list_every_episode[OF query_side query_grid]) simp

text \<open>
  C33. Shaping the history of a projected side never raises: every bar of its entity tables is on the
  time axis, the state of the open episode can be read from the last bar, and there is a current
  episode exactly when one is open.
\<close>
theorem shaping_never_raises:
  assumes "project_side py_log bs p sd = Inr e" "length bs < 2 ^ 53" "length tm = length bs" "sorted_wrt (<) tm"
  shows "\<exists>h. shape_side e tm = Inr h \<and> sorted_wrt (<) (sh_starts h) \<and>
    (sh_current h = None \<longleftrightarrow> list_all closed (se_episodes e))"
  using shape_side_spec[OF assms] by (auto simp: history_ok_def)

theorem shaping_never_raises_witness:
  "\<exists>h. shape_side (side_ok wlog query_bars query_params ''long'') query_times = Inr h \<and> sorted_wrt (<) (sh_starts h) \<and>
    (sh_current h = None \<longleftrightarrow> list_all closed (se_episodes (side_ok wlog query_bars query_params ''long'')))"
  by (rule shaping_never_raises[OF query_side query_grid])

text \<open>
  C22. The bounded memo refines a recency list: after any sequence of requests it holds exactly the
  most recently requested keys, as many as it may hold, least recent first.  The eviction loop ends.
\<close>
theorem memo_keeps_most_recent:
  assumes "make_history_cache n = Inr c"
  shows "map fst (hc_slots (foldl (\<lambda>c k. fst (take_slot k c)) c ks)) = last_of (nat n) (remdups ks)"
proof -
  have n: "0 \<le> n" and c: "c = \<lparr>hc_max = n, hc_slots = []\<rparr>" using assms by (auto simp: make_history_cache_def raise_if_Inr)
  show ?thesis unfolding c by (rule conjunct1[OF slots_most_recent[OF n]])
qed

definition key_of :: "string \<Rightarrow> history_key" where "key_of s = (s, ''1m'', ''h'')"

theorem memo_keeps_most_recent_witness:
  "map fst (hc_slots (foldl (\<lambda>c k. fst (take_slot k c)) (\<lparr>hc_max = 2, hc_slots = []\<rparr> :: history_entry history_cache)
      (map key_of [''A'', ''B'', ''A'', ''C'']))) = map key_of [''A'', ''C'']"
proof -
  have "make_history_cache 2 = Inr (\<lparr>hc_max = 2, hc_slots = []\<rparr> :: history_entry history_cache)"
    by (simp add: make_history_cache_def)
  from memo_keeps_most_recent[OF this, of "map key_of [''A'', ''B'', ''A'', ''C'']"] show ?thesis
    by (simp add: last_of_def key_of_def)
qed

text \<open>
  The binary search of the page cursor ends and finds the number of starts before the cursor.
\<close>
theorem bisect_left_counts_smaller:
  assumes "sorted xs"
  shows "bisect_left xs x = length (filter (\<lambda>y. y < x) xs)"
  using assms by (rule bisect_left_count)

theorem bisect_left_counts_smaller_witness: "bisect_left [10, 20, 20, 30] 20 = 1"
proof -
  have "sorted [10, 20, 20, 30 :: int]" by simp
  from bisect_left_counts_smaller[OF this, of 20] show ?thesis by simp
qed

text \<open>
  C5. A served page is never mixed: after any calls on an empty memo, the page of a call is the page
  of one entry whose bounds are the committed bounds of that very call, whose hash is the pinned one
  when the caller pins a version, and whose sides were computed, for the same market and parameter
  hash, from a range that one of the calls loaded with exactly that hash.
\<close>
theorem served_page_is_of_a_loaded_range:
  assumes "make_history_cache n = Inr c"
    and "snd (query_history py_log json_hash revalidate (run_queries py_log json_hash revalidate c calls) (up, req)) = Inr page"
  shows "\<exists>e. page_of json_hash req e = Inr page \<and>
    bindR (up_bounds up (hr_market req)) bounds_of_ready = Inr (he_earliest_ms e, he_latest_ms e) \<and>
    hr_expected_hash req \<in> {None, Some (he_hash e)} \<and>
    list_ex (\<lambda>call. computed_in py_log json_hash call (history_key_of json_hash (hr_market req) (hr_params req)) e) (calls @ [(up, req)])"
proof -
  have "hc_slots c = []" using assms(1) by (auto simp: make_history_cache_def raise_if_Inr)
  then show ?thesis using served_page[OF run_computed assms(2)]
    by (cases "hr_expected_hash req") (fastforce simp: computed_by_def list_ex_iff)+
qed

definition query_market :: market_stream where
  "query_market = \<lparr>ticker = ''BTC.P'', base_timeframe = ''1m''\<rparr>"

definition empty_frame :: feature_frame where
  "empty_frame = \<lparr>frame_time_ms = [], frame_series = [(''ema_close_base_2'', []), (''ema_close_base_3'', []), (''ema_close_base_7'', [])],
     frame_bars = []\<rparr>"

definition query_upstream :: "rat upstream" where
  "query_upstream = \<lparr>up_bounds = \<lambda>m. make_stream_bounds m ''ready'' (Some 0) (Some 60000),
     up_range = \<lambda>m r. Inr \<lparr>market = m, requested_range = r, bars = [], market_data_hash = ''v1''\<rparr>,
     up_native = \<lambda>m r plan fr. Inr empty_frame, up_checked_at = Fin 0, up_loaded_at = Fin 0\<rparr>"

definition query_request :: history_request where
  "query_request = \<lparr>hr_market = query_market, hr_params = query_params, hr_side = ''long'', hr_before_start_ms = None,
     hr_limit = 50, hr_expected_hash = Some ''v1''\<rparr>"

definition plain_hash :: "json \<Rightarrow> string" where
  "plain_hash j = (case j of JObj ((_, JStr s) # _) \<Rightarrow> s | _ \<Rightarrow> [])"

definition query_run :: "obj res" where
  "query_run = snd (query_history wlog plain_hash (Fin 300)
     (run_queries wlog plain_hash (Fin 300) \<lparr>hc_max = 16, hc_slots = []\<rparr> [(query_upstream, query_request)]) (query_upstream, query_request))"

theorem served_page_is_of_a_loaded_range_witness:
  "\<exists>e. page_of plain_hash query_request e = Inr (projr query_run) \<and>
    bindR (up_bounds query_upstream (hr_market query_request)) bounds_of_ready = Inr (he_earliest_ms e, he_latest_ms e) \<and>
    hr_expected_hash query_request \<in> {None, Some (he_hash e)} \<and>
    list_ex (\<lambda>call. computed_in wlog plain_hash call (history_key_of plain_hash (hr_market query_request) (hr_params query_request)) e)
      ([(query_upstream, query_request)] @ [(query_upstream, query_request)])"
proof (rule served_page_is_of_a_loaded_range)
  show "make_history_cache 16 = Inr \<lparr>hc_max = 16, hc_slots = []\<rparr>" by (simp add: make_history_cache_def)
  have "is_ok query_run" by code_simp
  then show "snd (query_history wlog plain_hash (Fin 300)
     (run_queries wlog plain_hash (Fin 300) \<lparr>hc_max = 16, hc_slots = []\<rparr> [(query_upstream, query_request)]) (query_upstream, query_request)) =
       Inr (projr query_run)"
    unfolding query_run_def by (cases rule: sum.exhaust[of "snd (query_history wlog plain_hash (Fin 300)
     (run_queries wlog plain_hash (Fin 300) \<lparr>hc_max = 16, hc_slots = []\<rparr> [(query_upstream, query_request)]) (query_upstream, query_request))"]) auto
qed

section \<open>The bundle\<close>

definition ema_node :: "int \<Rightarrow> node" where
  "ema_node k = NodeSpec ''indicator.ema'' 1 [(''period'', CInt k)] [] None"

definition query_ids :: "(string \<times> node) list" where
  "query_ids = [(''f'', ema_node 2), (''a'', ema_node 3), (''s'', ema_node 7)]"

definition query_columns :: "(string \<times> string) list" where
  "query_columns = [(''fast'', ''f''), (''anchor'', ''a''), (''slow'', ''s'')]"

text \<open>The same features under other labels.\<close>

definition renamed_ids :: "(string \<times> node) list" where
  "renamed_ids = [(''ema_2'', ema_node 2), (''ema_3'', ema_node 3), (''ema_7'', ema_node 7)]"

definition renamed_columns :: "(string \<times> string) list" where
  "renamed_columns = [(''fast'', ''ema_2''), (''anchor'', ''ema_3''), (''slow'', ''ema_7'')]"

definition three_bars :: "f64 market_bar list" where
  "three_bars = map (\<lambda>i. \<lparr>open_time_ms = 60000 * int i, bar_open = Fin 10, bar_high = Fin 12, bar_low = Fin 9, bar_close = Fin 11,
     bar_volume = Fin 1, open_interest = None\<rparr>) [0..<3]"

definition frame_named :: "string \<Rightarrow> string \<Rightarrow> string \<Rightarrow> feature_frame" where
  "frame_named f a s = \<lparr>frame_time_ms = [0, 60000, 120000],
     frame_series = [(f, replicate 3 (Some (Fin 8))), (a, replicate 3 (Some (Fin 7))), (s, replicate 3 (Some (Fin 6)))],
     frame_bars = three_bars\<rparr>"

text \<open>
  The identity of an episode node is sound: two episodes, of any reference and under any column
  labels, that resolve to the same node on the same bars project to the same side, because the node
  carries the side, the windows and the nodes of the three averages, and the slow one carries its
  period.
\<close>
theorem equal_episode_identity_equal_projection:
  assumes "episode_node ids cols p side = Inr n" "episode_node ids' cols' p' side' = Inr n"
    and "columns_known ids cols" "columns_known ids' cols'" "slow_period_known ids cols p" "slow_period_known ids' cols' p'"
    and "ids_agree ids fr ids' fr'" "frame_bars fr = frame_bars fr'"
  shows "compute_side_episode py_log fr cols p side = compute_side_episode py_log fr' cols' p' side'"
  by (rule episode_identity_sound[OF assms])

theorem equal_episode_identity_equal_projection_witness:
  "compute_side_episode wlog (frame_named ''f'' ''a'' ''s'') query_columns wparams ''short'' =
    compute_side_episode wlog (frame_named ''ema_2'' ''ema_3'' ''ema_7'') renamed_columns (wparams\<lparr>fast_period := 5\<rparr>) ''short''"
proof -
  have n: "episode_node query_ids query_columns wparams ''short'' = Inr (projr (episode_node query_ids query_columns wparams ''short''))"
    "episode_node renamed_ids renamed_columns (wparams\<lparr>fast_period := 5\<rparr>) ''short'' = Inr (projr (episode_node query_ids query_columns wparams ''short''))"
    by code_simp+
  show ?thesis
    by (rule equal_episode_identity_equal_projection[OF n])
      (auto simp: columns_known_def slow_period_known_def query_ids_def query_columns_def renamed_ids_def renamed_columns_def ema_node_def
        param_def wparams_def ids_agree_def frame_named_def split: if_splits)
qed

text \<open>
  C11. Evaluating the declared episodes through the evaluation context changes nothing: with the
  identities resolved for the strategy, the bundle read through a fresh memo, whatever the planned
  reference counts, is the bundle computed directly, errors included.
\<close>
theorem memoized_bundle_is_direct:
  assumes "resolve_episode_identities raw_spec plan fids = Inr ids" "episodes_planned raw_spec plan fids"
    and "ids_agree fids fr fids fr" "memo c = []"
  shows "snd (build_episode_bundle py_log rebuild ids raw_spec fr plan c) = direct_bundle py_log raw_spec fr plan"
proof -
  obtain f where f: "nodes_stand_for py_log f ids raw_spec fr plan" using resolved_nodes_stand_for[OF assms(1-3)] by blast
  have "memo_sound f c" using assms(4) by (simp add: memo_sound_def)
  then show ?thesis using bundle_through_memo[OF f] by blast
qed

definition bundle_spec :: obj where
  "bundle_spec = [(''ema_stack_episode'', JObj
     [(''one'', JObj [(''fast_period'', JInt 2), (''anchor_period'', JInt 3), (''slow_period'', JInt 7)]),
      (''two'', JObj [(''fast_period'', JInt 2), (''anchor_period'', JInt 3), (''slow_period'', JInt 7), (''window_bars'', JInt 24)])])]"

definition bundle_plan :: ema_plan where
  "bundle_plan = empty_plan\<lparr>episode_columns_by_ref := [(''one'', query_columns), (''two'', query_columns)]\<rparr>"

definition bundle_ids :: "(string \<times> node) list" where
  "bundle_ids = projr (resolve_episode_identities bundle_spec bundle_plan query_ids)"

definition bundle_context :: episode_ctx where
  "bundle_context = (projr (new_context True True))\<lparr>pending := Some [counter (map snd bundle_ids)], active_root := Some 0,
     refcounts := (\<lambda>i. if i \<in> set (map snd bundle_ids) then Some 2 else None)\<rparr>"

theorem memoized_bundle_is_direct_witness:
  "snd (build_episode_bundle wlog Some bundle_ids bundle_spec (frame_named ''f'' ''a'' ''s'') bundle_plan bundle_context) =
    direct_bundle wlog bundle_spec (frame_named ''f'' ''a'' ''s'') bundle_plan"
proof (rule memoized_bundle_is_direct)
  have "is_ok (resolve_episode_identities bundle_spec bundle_plan query_ids)" by code_simp
  then show "resolve_episode_identities bundle_spec bundle_plan query_ids = Inr bundle_ids"
    unfolding bundle_ids_def by (cases "resolve_episode_identities bundle_spec bundle_plan query_ids") auto
  have "parse_episode_section bundle_spec = Inr (map (\<lambda>r. (r, wparams\<lparr>window_bars := 24, break_bars := 24, history_bars := 15000\<rparr>)) [''one'', ''two''])"
    by code_simp
  then show "episodes_planned bundle_spec bundle_plan query_ids"
    by (auto simp: episodes_planned_def bundle_plan_def empty_plan_def episode_columns_def columns_known_def slow_period_known_def query_ids_def
        query_columns_def ema_node_def param_def wparams_def)
  show "ids_agree query_ids (frame_named ''f'' ''a'' ''s'') query_ids (frame_named ''f'' ''a'' ''s'')"
    by (auto simp: ids_agree_def query_ids_def frame_named_def ema_node_def split: if_splits)
  show "memo bundle_context = []" by (simp add: bundle_context_def new_context_def)
qed

end
