(* ===== verification/IndicatorKinds.thy ===== *)
theory IndicatorKinds
  imports Masks "HOL-Library.AList"
begin

text \<open>
  The contract of every canonical feature kind (\<open>indicators/feature_kinds.py\<close>): schema, default
  source, validator, column label, parameters of the identity and upstream role; the validators of
  \<open>indicators/implementations\<close>; the normalization of one standalone feature request; and the
  identities of planned features (\<open>resolve_feature\<close>, \<open>resolve_indicator_plan\<close> and
  \<open>resolve_indicator_consumptions\<close> of \<open>range_evaluator.py\<close>).
\<close>

section \<open>Sources and kinds\<close>

definition OHLCV_FIELDS :: "string list" where
  "OHLCV_FIELDS = [''open'', ''high'', ''low'', ''close'', ''volume'']"
definition OPEN_INTEREST_FIELD :: string where "OPEN_INTEREST_FIELD = ''open_interest''"
definition EMA_SOURCES :: "string list" where "EMA_SOURCES = [''open'', ''high'', ''low'', ''close'']"
definition ADX_KINDS :: "string list" where "ADX_KINDS = [''adx'', ''di_plus'', ''di_minus'']"
definition ROLLING_EXTREME_KINDS :: "string list" where "ROLLING_EXTREME_KINDS = [''rolling_max'', ''rolling_min'']"
definition ROLLING_EXTREME_SOURCES :: "string list" where
  "ROLLING_EXTREME_SOURCES = [''open'', ''high'', ''low'', ''close'', OPEN_INTEREST_FIELD]"
definition ROLLING_SUM_KIND :: string where "ROLLING_SUM_KIND = ''rolling_sum''"
definition ROLLING_SUM_SOURCES :: "string list" where "ROLLING_SUM_SOURCES = OHLCV_FIELDS @ [OPEN_INTEREST_FIELD]"

section \<open>Validators\<close>

definition source_among :: "planned_feature \<Rightarrow> string list \<Rightarrow> bool" where
  "source_among f sources = (case feature_source f of None \<Rightarrow> False | Some s \<Rightarrow> s \<in> set sources)"

text \<open>The checks every kind with a period ends with, in their order.\<close>

definition positive_period :: "planned_feature \<Rightarrow> bool" where
  "positive_period f = (case get (parameters f) ''period'' of JInt n \<Rightarrow> 0 < n | _ \<Rightarrow> False)"

definition period_checks :: "string \<Rightarrow> planned_feature \<Rightarrow> unit res" where
  "period_checks name f =
     raise_if (\<not> positive_period f) (InvalidRequest (name @ '' period must be a positive integer''))
     (raise_if (set (map fst (parameters f)) \<noteq> {''period''}) (InvalidRequest (name @ '' parameters must contain only period''))
     (raise_if (dependencies f \<noteq> []) (InvalidRequest (name @ '' does not accept feature dependencies'')) (Inr ())))"

definition validate_ema_feature :: "planned_feature \<Rightarrow> unit res" where
  "validate_ema_feature f =
     raise_if (\<not> source_among f EMA_SOURCES) (InvalidRequest ''EMA source must be open, high, low, or close'')
       (period_checks ''EMA'' f)"

definition validate_atr_feature :: "planned_feature \<Rightarrow> unit res" where
  "validate_atr_feature f =
     raise_if (feature_source f \<noteq> Some ''close'') (InvalidRequest ''ATR source must be close for BBB compatibility'')
       (period_checks ''ATR'' f)"

definition validate_rsi_feature :: "planned_feature \<Rightarrow> unit res" where
  "validate_rsi_feature f =
     raise_if (feature_source f \<noteq> Some ''close'') (InvalidRequest ''RSI source must be close'') (period_checks ''RSI'' f)"

definition validate_adx_dmi_feature :: "planned_feature \<Rightarrow> unit res" where
  "validate_adx_dmi_feature f =
     raise_if (feature_kind f \<notin> set ADX_KINDS) (InvalidRequest ''ADX/DMI feature kind must be adx, di_plus, or di_minus'')
     (raise_if (feature_source f \<noteq> Some ''close'') (InvalidRequest ''ADX/DMI source must be close for BBB compatibility'')
       (period_checks ''ADX/DMI'' f))"

definition validate_atr_distance_feature :: "planned_feature \<Rightarrow> unit res" where
  "validate_atr_distance_feature f =
     raise_if (feature_source f \<noteq> None) (InvalidRequest ''atr_distance source must be null'')
     (raise_if (set (map fst (parameters f)) \<noteq> {''multiplier''})
       (InvalidRequest ''atr_distance parameters must contain only multiplier'')
     (let multiplier = get (parameters f) ''multiplier'' in
      raise_if (case multiplier of JInt _ \<Rightarrow> False | JFloat _ \<Rightarrow> False | _ \<Rightarrow> True)
        (InvalidRequest ''atr_distance multiplier must be a positive number'')
      (bindR (py_float multiplier) (\<lambda>x.
       raise_if (\<not> isfinite x) (InvalidRequest ''atr_distance multiplier must be finite'')
       (raise_if (fle x (Fin 0)) (InvalidRequest ''atr_distance multiplier must be greater than zero'')
       (raise_if (length (dependencies f) \<noteq> 1) (InvalidRequest ''atr_distance requires exactly one ATR dependency'') (Inr ())))))))"

definition validate_candle_body_atr_feature :: "planned_feature \<Rightarrow> unit res" where
  "validate_candle_body_atr_feature f = validate_atr_feature f"

definition validate_candle_close_position_feature :: "planned_feature \<Rightarrow> unit res" where
  "validate_candle_close_position_feature f =
     raise_if (feature_source f \<noteq> Some ''close'') (InvalidRequest ''candle close position source must be close'')
     (raise_if (parameters f \<noteq> []) (InvalidRequest ''candle close position has no parameters'')
     (raise_if (dependencies f \<noteq> []) (InvalidRequest ''candle close position does not accept feature dependencies'') (Inr ())))"

definition validate_rolling_extreme_feature :: "planned_feature \<Rightarrow> unit res" where
  "validate_rolling_extreme_feature f =
     raise_if (\<not> source_among f ROLLING_EXTREME_SOURCES)
       (InvalidRequest (feature_kind f @ '' source must be one of '' @ join_text ROLLING_EXTREME_SOURCES))
       (period_checks (feature_kind f) f)"

definition validate_rolling_sum_feature :: "planned_feature \<Rightarrow> unit res" where
  "validate_rolling_sum_feature f =
     raise_if (\<not> source_among f ROLLING_SUM_SOURCES)
       (InvalidRequest (''rolling_sum source must be one of '' @ join_text ROLLING_SUM_SOURCES))
     (raise_if (\<not> positive_period f) (InvalidRequest ''rolling_sum period must be a positive integer'')
     (raise_if (case get_or (parameters f) ''lag'' (JInt 0) of JInt n \<Rightarrow> n < 0 | _ \<Rightarrow> True)
       (InvalidRequest ''rolling_sum lag must be a non-negative integer'')
     (raise_if (\<not> set (map fst (parameters f)) \<subseteq> {''period'', ''lag''})
       (InvalidRequest ''rolling_sum parameters must contain only period and lag'')
     (raise_if (dependencies f \<noteq> []) (InvalidRequest ''rolling_sum does not accept feature dependencies'') (Inr ())))))"

section \<open>Schemas\<close>

text \<open>\<open>{**base, key: value, ...}\<close>: a known key keeps its place, a new one goes to the end.\<close>

definition overlay :: "obj \<Rightarrow> obj \<Rightarrow> obj" where
  "overlay base ob = foldl (\<lambda>acc (k, v). AList.update k v acc) base ob"

definition texts :: "string list \<Rightarrow> json" where "texts ss = JList (map JStr ss)"

definition integer_from :: "int \<Rightarrow> json" where
  "integer_from n = JObj [(''type'', JStr ''integer''), (''minimum'', JInt n)]"

definition string_type :: json where "string_type = JObj [(''type'', JStr ''string'')]"

definition schema_of :: "string \<Rightarrow> string \<Rightarrow> string list \<Rightarrow> obj \<Rightarrow> obj \<Rightarrow> obj" where
  "schema_of kind title inputs params extra =
     [(''indicator_id'', JStr kind), (''title'', JStr title), (''inputs'', texts inputs), (''parameters'', JObj params),
      (''outputs'', texts [''value''])] @ extra @
     [(''supports_batch'', JBool True), (''supports_managed_replay'', JBool True), (''supports_incremental'', JBool False),
      (''compatibility_profile'', JStr ''bbb_v1'')]"

definition close_params :: obj where
  "close_params = [(''period'', integer_from 1), (''source'', JObj [(''const'', JStr ''close'')]), (''timeframe'', string_type)]"

definition EMA_SCHEMA :: obj where
  "EMA_SCHEMA = schema_of ''ema'' ''Exponential Moving Average'' [''open'', ''high'', ''low'', ''close'']
     [(''period'', integer_from 1), (''source'', JObj [(''enum'', texts [''open'', ''high'', ''low'', ''close''])]),
      (''timeframe'', string_type)] []"

definition ATR_SCHEMA :: obj where
  "ATR_SCHEMA = schema_of ''atr'' ''Average True Range'' [''high'', ''low'', ''close''] close_params []"

definition ATR_WILDER_SCHEMA :: obj where
  "ATR_WILDER_SCHEMA = overlay ATR_SCHEMA [(''indicator_id'', JStr ''atr_wilder''), (''title'', JStr ''Wilder Average True Range'')]"

definition ATR_DISTANCE_SCHEMA :: obj where
  "ATR_DISTANCE_SCHEMA = schema_of ''atr_distance'' ''ATR Distance'' [''atr'']
     [(''multiplier'', JObj [(''type'', JStr ''number''), (''exclusiveMinimum'', JInt 0)]), (''timeframe'', string_type)]
     [(''requires_dependencies'', JInt 1)] @ [(''derived_from'', JStr ''atr'')]"

definition RSI_SCHEMA :: obj where
  "RSI_SCHEMA = schema_of ''rsi'' ''Relative Strength Index'' [''close''] close_params []"

definition ADX_SCHEMA :: obj where
  "ADX_SCHEMA = schema_of ''adx'' ''Average Directional Index'' [''high'', ''low'', ''close''] close_params [] @
     [(''calculation_group'', JStr ''adx_dmi'')]"

definition DI_PLUS_SCHEMA :: obj where
  "DI_PLUS_SCHEMA = overlay ADX_SCHEMA [(''indicator_id'', JStr ''di_plus''), (''title'', JStr ''Positive Directional Index'')]"
definition DI_MINUS_SCHEMA :: obj where
  "DI_MINUS_SCHEMA = overlay ADX_SCHEMA [(''indicator_id'', JStr ''di_minus''), (''title'', JStr ''Negative Directional Index'')]"

definition CANDLE_BODY_ATR_SCHEMA :: obj where
  "CANDLE_BODY_ATR_SCHEMA = overlay ATR_SCHEMA
     [(''indicator_id'', JStr ''candle_body_atr''), (''title'', JStr ''Candle body over the Wilder ATR of the previous candle''),
      (''inputs'', texts [''open'', ''high'', ''low'', ''close''])]"

definition rolling_extreme_schema :: "string \<Rightarrow> string \<Rightarrow> obj" where
  "rolling_extreme_schema kind title = schema_of kind title [''open'', ''high'', ''low'', ''close'', ''open_interest'']
     [(''period'', integer_from 1),
      (''source'', JObj [(''enum'', texts [''open'', ''high'', ''low'', ''close'', ''open_interest''])]), (''timeframe'', string_type)] []"

definition CANDLE_CLOSE_POSITION_SCHEMA :: obj where
  "CANDLE_CLOSE_POSITION_SCHEMA = schema_of ''candle_close_position'' ''Candle close position in its range'' [''high'', ''low'', ''close'']
     [(''source'', JObj [(''const'', JStr ''close'')]), (''timeframe'', string_type)] []"

definition ROLLING_SUM_SCHEMA :: obj where
  "ROLLING_SUM_SCHEMA = schema_of ''rolling_sum'' ''Rolling sum over period candles ending lag candles back''
     [''open'', ''high'', ''low'', ''close'', ''volume'', ''open_interest'']
     [(''period'', integer_from 1),
      (''lag'', JObj [(''type'', JStr ''integer''), (''minimum'', JInt 0), (''default'', JInt 0)]),
      (''source'', JObj [(''enum'', texts [''open'', ''high'', ''low'', ''close'', ''volume'', ''open_interest''])]),
      (''timeframe'', string_type)] []"

section \<open>Labels and identity parameters\<close>

type_synonym label_fun = "string \<Rightarrow> string option \<Rightarrow> obj \<Rightarrow> string list \<Rightarrow> string res"

text \<open>An f-string prints \<open>None\<close> for a missing source.\<close>

definition source_text :: "string option \<Rightarrow> string" where
  "source_text s = (case s of None \<Rightarrow> ''None'' | Some t \<Rightarrow> t)"

definition parameter :: "obj \<Rightarrow> string \<Rightarrow> json res" where
  "parameter params k = (case map_of params k of None \<Rightarrow> Inl (PyKeyError k) | Some v \<Rightarrow> Inr v)"

definition close_period_label :: "string \<Rightarrow> label_fun" where
  "close_period_label kind tf source params deps =
     bindR (parameter params ''period'') (\<lambda>p. Inr (kind @ ''_close_'' @ tf @ ''_'' @ py_str p))"

definition multiplier_token :: "f64 \<Rightarrow> string" where
  "multiplier_token m = map (\<lambda>c. if c = CHR ''.'' then CHR ''_'' else c) (float_repr m)"

definition atr_distance_label :: label_fun where
  "atr_distance_label tf source params deps =
     (case deps of [] \<Rightarrow> Inl PyIndexError
      | d # _ \<Rightarrow> bindR (parameter params ''multiplier'') (\<lambda>m. bindR (py_float m) (\<lambda>x. Inr (d @ ''_x'' @ multiplier_token x))))"

definition close_position_label :: label_fun where
  "close_position_label tf source params deps = Inr (''candle_close_position_'' @ tf)"

definition rolling_sum_label :: label_fun where
  "rolling_sum_label tf source params deps =
     bindR (parameter params ''period'') (\<lambda>p.
     Inr (''rolling_sum_'' @ source_text source @ ''_'' @ tf @ ''_'' @ py_str p @ ''_lag'' @ py_str (get_or params ''lag'' (JInt 0))))"

definition source_period_label :: "string \<Rightarrow> label_fun" where
  "source_period_label kind tf source params deps =
     bindR (parameter params ''period'') (\<lambda>p. Inr (kind @ ''_'' @ source_text source @ ''_'' @ tf @ ''_'' @ py_str p))"

type_synonym identity_fun = "planned_feature \<Rightarrow> (string \<times> pval) list res"

definition no_identity :: identity_fun where "no_identity f = Inr []"

definition period_identity :: identity_fun where
  "period_identity f = bindR (int_parameter f ''period'') (\<lambda>p. Inr [(''period'', PInt p)])"

definition multiplier_identity :: identity_fun where
  "multiplier_identity f =
     bindR (parameter (parameters f) ''multiplier'') (\<lambda>m. bindR (py_float m) (\<lambda>x. Inr [(''multiplier'', PFloat (f64_bits x))]))"

definition rolling_sum_identity :: identity_fun where
  "rolling_sum_identity f =
     bindR (int_parameter f ''period'') (\<lambda>p. bindR (py_int (get_or (parameters f) ''lag'' (JInt 0))) (\<lambda>l.
     Inr [(''period'', PInt p), (''lag'', PInt l)]))"

section \<open>Contracts\<close>

record kind_contract =
  fk_kind :: string
  fk_schema :: obj
  fk_default_source :: "string option"
  fk_validate :: "planned_feature \<Rightarrow> unit res"
  fk_label :: label_fun
  fk_identity_params :: identity_fun
  fk_dependency_role :: "string option"

definition requestable :: "kind_contract \<Rightarrow> bool" where "requestable c \<longleftrightarrow> fk_dependency_role c = None"

definition period_kind :: "string \<Rightarrow> obj \<Rightarrow> (planned_feature \<Rightarrow> unit res) \<Rightarrow> kind_contract" where
  "period_kind kind schema validate =
     \<lparr>fk_kind = kind, fk_schema = schema, fk_default_source = Some ''close'', fk_validate = validate,
      fk_label = close_period_label kind, fk_identity_params = period_identity, fk_dependency_role = None\<rparr>"

definition rolling_kind :: "string \<Rightarrow> string \<Rightarrow> kind_contract" where
  "rolling_kind kind title =
     \<lparr>fk_kind = kind, fk_schema = rolling_extreme_schema kind title, fk_default_source = Some ''close'',
      fk_validate = validate_rolling_extreme_feature, fk_label = source_period_label kind,
      fk_identity_params = period_identity, fk_dependency_role = None\<rparr>"

text \<open>In the order of the public listing.\<close>

definition CONTRACTS :: "kind_contract list" where
  "CONTRACTS =
     [period_kind ''ema'' EMA_SCHEMA validate_ema_feature,
      period_kind ''atr'' ATR_SCHEMA validate_atr_feature,
      \<lparr>fk_kind = ''atr_distance'', fk_schema = ATR_DISTANCE_SCHEMA, fk_default_source = None,
       fk_validate = validate_atr_distance_feature, fk_label = atr_distance_label,
       fk_identity_params = multiplier_identity, fk_dependency_role = Some ''atr''\<rparr>,
      period_kind ''rsi'' RSI_SCHEMA validate_rsi_feature,
      period_kind ''rsi_ewm'' (overlay RSI_SCHEMA [(''indicator_id'', JStr ''rsi_ewm''), (''title'', JStr ''Zero-seeded recursive RSI''),
        (''compatibility_profile'', JStr ''recursive_zero_seed_v1'')]) validate_rsi_feature,
      period_kind ''adx'' ADX_SCHEMA validate_adx_dmi_feature,
      period_kind ''di_plus'' DI_PLUS_SCHEMA validate_adx_dmi_feature,
      period_kind ''di_minus'' DI_MINUS_SCHEMA validate_adx_dmi_feature,
      period_kind ''atr_wilder'' ATR_WILDER_SCHEMA validate_atr_feature,
      period_kind ''candle_body_atr'' CANDLE_BODY_ATR_SCHEMA validate_candle_body_atr_feature,
      \<lparr>fk_kind = ''candle_close_position'', fk_schema = CANDLE_CLOSE_POSITION_SCHEMA, fk_default_source = Some ''close'',
       fk_validate = validate_candle_close_position_feature, fk_label = close_position_label,
       fk_identity_params = no_identity, fk_dependency_role = None\<rparr>,
      rolling_kind ''rolling_max'' ''Rolling maximum over the last period candles'',
      rolling_kind ''rolling_min'' ''Rolling minimum over the last period candles'',
      \<lparr>fk_kind = ''rolling_sum'', fk_schema = ROLLING_SUM_SCHEMA, fk_default_source = Some ''volume'',
       fk_validate = validate_rolling_sum_feature, fk_label = rolling_sum_label,
       fk_identity_params = rolling_sum_identity, fk_dependency_role = None\<rparr>]"

definition find_feature_kind :: "string \<Rightarrow> kind_contract option" where
  "find_feature_kind kind = find (\<lambda>c. fk_kind c = kind) CONTRACTS"

definition kind_of :: "string \<Rightarrow> kind_contract res" where
  "kind_of kind = (case find_feature_kind kind of None \<Rightarrow> Inl (InvalidRequest ''unsupported feature kind'') | Some c \<Rightarrow> Inr c)"

section \<open>One standalone request\<close>

definition plan_feature_request ::
  "string \<Rightarrow> string option \<Rightarrow> string option \<Rightarrow> obj \<Rightarrow> string \<Rightarrow> planned_feature res" where
  "plan_feature_request kind tf source params avail =
     bindR (kind_of kind) (\<lambda>c.
     raise_if (\<not> requestable c) (InvalidRequest ''feature kind is not requestable as an operand'')
     (let rtf = (case tf of None \<Rightarrow> ''base'' | Some t \<Rightarrow> t);
          rsource = (case source of None \<Rightarrow> fk_default_source c | Some s \<Rightarrow> Some s) in
      bindR (make_planned_feature \<lparr>output_id = [], feature_kind = kind, feature_timeframe = rtf, feature_source = rsource,
        parameters = params, dependencies = [], availability = avail\<rparr>) (\<lambda>unlabeled.
      bindR (fk_validate c unlabeled) (\<lambda>_.
      bindR (fk_label c rtf rsource (parameters unlabeled) []) (\<lambda>l.
      make_planned_feature (unlabeled\<lparr>output_id := l @ (if avail = ''bar_close'' then ''__bar_close'' else [])\<rparr>))))))"

section \<open>Identities of planned features\<close>

text \<open>\<open>_validate_feature_timeframe\<close>: the base timeframe or an integral higher one.\<close>

definition validate_feature_timeframe :: "planned_feature \<Rightarrow> string \<Rightarrow> string res" where
  "validate_feature_timeframe f base =
     (let tf = resolve_timeframe (feature_timeframe f) base in
      bindR (timeframe_duration_ms base) (\<lambda>base_step.
      bindR (timeframe_duration_ms tf) (\<lambda>step.
      raise_if (step < base_step \<or> step mod base_step \<noteq> 0)
        (InvalidRequest ''indicator timeframe must be base or an integral higher timeframe'') (Inr tf))))"

definition INDICATOR_NODE_VERSION :: int where "INDICATOR_NODE_VERSION = 1"

definition resolve_feature :: "planned_feature \<Rightarrow> string \<Rightarrow> node_ids \<Rightarrow> node res" where
  "resolve_feature f base upstream =
     bindR (validate_feature_timeframe f base) (\<lambda>tf.
     (case find_feature_kind (feature_kind f) of
        None \<Rightarrow> Inl (InvalidRequest ''range evaluator received unsupported indicator kind'')
      | Some c \<Rightarrow>
          bindR (fk_validate c f) (\<lambda>_.
          (case fk_dependency_role c of
             Some role \<Rightarrow>
               (case dependencies f of [] \<Rightarrow> Inl PyIndexError
                | d # _ \<Rightarrow>
                   (case map_of upstream d of
                      None \<Rightarrow> Inl (InvalidRequest (feature_kind f @ '' dependency has not been evaluated''))
                    | Some dep \<Rightarrow>
                        bindR (fk_identity_params c f) (\<lambda>ps.
                        node_spec (''indicator.'' @ feature_kind f) INDICATOR_NODE_VERSION
                          ((''timeframe'', PStr tf) # ps) [(role, Single dep)] None)))
           | None \<Rightarrow>
               bindR (fk_identity_params c f) (\<lambda>ps.
               node_spec (''indicator.'' @ feature_kind f) INDICATOR_NODE_VERSION
                 ([(''timeframe'', PStr tf), (''source'', case feature_source f of None \<Rightarrow> PNone | Some s \<Rightarrow> PStr s)] @ ps @
                  (if availability f \<noteq> ''bar_open'' then [(''availability'', PStr (availability f))] else []))
                 [] None)))))"

definition resolve_step :: "string \<Rightarrow> node_ids \<Rightarrow> planned_feature \<Rightarrow> node_ids res" where
  "resolve_step base resolved f = bindR (resolve_feature f base resolved) (\<lambda>n. Inr (AList.update (output_id f) n resolved))"

definition resolve_indicator_plan :: "indicator_plan \<Rightarrow> string \<Rightarrow> node_ids res" where
  "resolve_indicator_plan plan base = foldR (resolve_step base) [] (features plan)"

text \<open>The consumptions up to the first feature without an identity.\<close>

fun consumptions_from :: "string \<Rightarrow> node_ids \<Rightarrow> planned_feature list \<Rightarrow> node list" where
  "consumptions_from base resolved [] = []"
| "consumptions_from base resolved (f # fs) =
     (case resolve_feature f base resolved of Inl _ \<Rightarrow> []
      | Inr n \<Rightarrow> n # consumptions_from base (AList.update (output_id f) n resolved) fs)"

definition resolve_indicator_consumptions :: "indicator_plan \<Rightarrow> string \<Rightarrow> node list" where
  "resolve_indicator_consumptions plan base = consumptions_from base [] (features plan)"

end
