(* ===== verification/PredicateSpec.thy ===== *)
theory PredicateSpec
  imports IndicatorKinds EpisodeProject
begin

text \<open>
  The predicate documents of a strategy (\<open>predicates.py\<close>, parsing): operands, conditions with
  their short override, state and temporal predicates, and the features they request.  An operand
  document nests operands, so its parser takes the parser of the nested documents as an argument and
  is closed over a fuel that every document bounds by its size (\<open>PredicateFacts\<close>).  An operand
  object of the code has exactly one of its fields set; here it is one constructor.
\<close>

section \<open>Operands\<close>

record segment_series =
  sg_left :: planned_feature
  sg_right :: "planned_feature option"
  sg_by_side :: bool

definition series_features :: "segment_series \<Rightarrow> planned_feature list" where
  "series_features s = sg_left s # (case sg_right s of None \<Rightarrow> [] | Some r \<Rightarrow> [r])"

text \<open>The series of a side: the left one long, the right one short.\<close>

definition series_for_side :: "segment_series \<Rightarrow> string \<Rightarrow> planned_feature res" where
  "series_for_side s side =
     (case sg_right s of None \<Rightarrow> Inl PyAssertionError
      | Some r \<Rightarrow> raise_if (\<not> sg_by_side s) PyAssertionError (Inr (if side = ''long'' then sg_left s else r)))"

record eligibility =
  el_legs_min_bars :: "int option"
  el_window :: "int option"
  el_impulse_positive :: bool
  el_pullback_min_bars :: "int option"

record segment =
  seg_episode :: string
  seg_series :: segment_series
  seg_start :: string
  seg_end :: string
  seg_aggregate :: string
  seg_value :: string
  seg_last_n :: "int option"
  seg_negate :: bool
  seg_span :: "int option"
  seg_top :: "int option"
  seg_eligibility :: "eligibility option"
  seg_touch :: string
  seg_include_start :: bool
  seg_empty_policy :: string

record candle_operand =
  cn_episode :: string
  cn_leg :: string
  cn_timeframe :: string
  cn_direction :: string
  cn_atr :: "planned_feature option"

record leg_mean =
  lm_episode :: string
  lm_leg :: string
  lm_field :: string

record leg_sum =
  ls_episode :: string
  ls_leg :: string
  ls_field :: string

record leg_top_mean =
  lt_episode :: string
  lt_leg :: string
  lt_field :: string
  lt_share :: f64

text \<open>An episode and one of its legs: \<open>LegSpeed\<close>, \<open>LegBars\<close> and \<open>LegEfficiency\<close>.\<close>

record leg_of =
  lo_episode :: string
  lo_leg :: string

record leg_change =
  lc_episode :: string
  lc_leg :: string
  lc_field :: string
  lc_touch :: string

record pullback_depth =
  pd_episode :: string
  pd_touch :: string

record impulse_atr =
  ia_episode :: string
  ia_atr :: planned_feature

record forming_candle =
  fc_episode :: string
  fc_timeframe :: string
  fc_atr :: planned_feature
  fc_field :: string

record window_change =
  wc_episode :: string
  wc_series :: planned_feature
  wc_last_n :: int
  wc_form :: string

record interval =
  iv_kind :: string
  iv_bars :: "int option"
  iv_ref :: "string option"
  iv_leg :: "string option"
  iv_last_n :: "int option"

datatype operand =
    OFeature planned_feature
  | OPrice string
  | OConst f64
  | OEpisode episode_ref
  | OSegment segment
  | ORatio operand operand f64 string
  | OCandle candle_operand
  | OLegMean leg_mean
  | OLegSum leg_sum
  | OLegTopMean leg_top_mean
  | OAnchorFollow string
  | OPullbackDepth pullback_depth
  | OLegSpeed leg_of
  | OImpulseAtr impulse_atr
  | OLegBars leg_of
  | OFormingCandle forming_candle
  | OLegEfficiency leg_of
  | OLegChange leg_change
  | OAbs operand
  | ODifference operand operand
  | OAtPoint string string operand
  | OWindowChange window_change
  | OScale operand f64
  | OIntervalChange operand interval string
  | OSigned operand f64
  | OOnlyIf operand "range_spec list"
  and range_spec =
    Range (rg_operand: operand) (rg_min: "f64 option") (rg_max: "f64 option") (rg_bounds: string) (rg_empty: string)

datatype condition =
    Compare operand string operand
  | InRange range_spec
  | Change operand int string f64

record predicate =
  pr_long :: condition
  pr_short :: "condition option"

datatype any_predicate =
    Plain predicate
  | State string "string list"
  | Temporal string int any_predicate

definition condition_for_side :: "predicate \<Rightarrow> string \<Rightarrow> condition" where
  "condition_for_side p side =
     (case pr_short p of Some s \<Rightarrow> if side = ''short'' then s else pr_long p | None \<Rightarrow> pr_long p)"

fun is_const :: "operand \<Rightarrow> bool" where
  "is_const (OConst _) = True"
| "is_const _ = False"

section \<open>Features of an operand\<close>

fun operand_features :: "operand \<Rightarrow> planned_feature list" and range_features :: "range_spec \<Rightarrow> planned_feature list" where
  "operand_features (OScale x _) = operand_features x"
| "operand_features (OIntervalChange x _ _) = operand_features x"
| "operand_features (OFeature f) = [f]"
| "operand_features (OSegment s) = series_features (seg_series s)"
| "operand_features (OCandle c) = (case cn_atr c of None \<Rightarrow> [] | Some a \<Rightarrow> [a])"
| "operand_features (OImpulseAtr i) = [ia_atr i]"
| "operand_features (OFormingCandle c) = [fc_atr c]"
| "operand_features (ORatio l r _ _) = operand_features l @ operand_features r"
| "operand_features (OAbs x) = operand_features x"
| "operand_features (ODifference l r) = operand_features l @ operand_features r"
| "operand_features (OAtPoint _ _ x) = operand_features x"
| "operand_features (OWindowChange w) = [wc_series w]"
| "operand_features (OSigned x _) = operand_features x"
| "operand_features (OOnlyIf x rs) = operand_features x @ concat (map range_features rs)"
| "operand_features _ = []"
| "range_features (Range x _ _ _ _) = operand_features x"

fun operand_needs_episode :: "operand \<Rightarrow> bool" where
  "operand_needs_episode (OScale x _) = operand_needs_episode x"
| "operand_needs_episode (OIntervalChange _ i _) = (iv_kind i = ''episode'')"
| "operand_needs_episode (OAbs x) = operand_needs_episode x"
| "operand_needs_episode (ODifference l r) = (operand_needs_episode l \<or> operand_needs_episode r)"
| "operand_needs_episode (ORatio l r _ _) = (operand_needs_episode l \<or> operand_needs_episode r)"
| "operand_needs_episode (OFeature _) = False"
| "operand_needs_episode (OPrice _) = False"
| "operand_needs_episode (OConst _) = False"
| "operand_needs_episode _ = True"

fun condition_operands :: "condition \<Rightarrow> operand list" where
  "condition_operands (Compare l _ r) = [l, r]"
| "condition_operands (InRange r) = [rg_operand r]"
| "condition_operands (Change x _ _ _) = [x]"

definition predicate_features :: "predicate \<Rightarrow> planned_feature list" where
  "predicate_features p =
     concat (map operand_features (condition_operands (pr_long p) @ (case pr_short p of None \<Rightarrow> [] | Some c \<Rightarrow> condition_operands c)))"

fun any_features :: "any_predicate \<Rightarrow> planned_feature list" where
  "any_features (Plain p) = predicate_features p"
| "any_features (State _ _) = []"
| "any_features (Temporal _ _ p) = any_features p"

section \<open>Reading fields\<close>

text \<open>\<open>_only_fields\<close>, required keys in order, and members of a set (hashed) or of a tuple (compared).\<close>

definition only_fields :: "obj \<Rightarrow> string list \<Rightarrow> string \<Rightarrow> 'a res \<Rightarrow> 'a res" where
  "only_fields ob allowed path k = raise_if (unknown_fields ob allowed \<noteq> []) (InvalidRequest (path @ '' has unknown fields'')) k"

fun required :: "obj \<Rightarrow> string list \<Rightarrow> string \<Rightarrow> 'a res \<Rightarrow> 'a res" where
  "required ob [] path k = k"
| "required ob (key # keys) path k =
     raise_if (\<not> has_key ob key) (InvalidRequest (path @ ''.'' @ key @ '' is required'')) (required ob keys path k)"

definition unhashable :: "json \<Rightarrow> bool" where
  "unhashable v = (case v of JList _ \<Rightarrow> True | JObj _ \<Rightarrow> True | _ \<Rightarrow> False)"

definition in_tuple :: "json \<Rightarrow> string list \<Rightarrow> string \<Rightarrow> string res" where
  "in_tuple v allowed msg =
     (case v of JStr s \<Rightarrow> raise_if (s \<notin> set allowed) (InvalidRequest msg) (Inr s) | _ \<Rightarrow> Inl (InvalidRequest msg))"

definition in_hashed :: "json \<Rightarrow> string list \<Rightarrow> string \<Rightarrow> string res" where
  "in_hashed v allowed msg = raise_if (unhashable v) (PyTypeError ''unhashable type'') (in_tuple v allowed msg)"

definition number :: "json \<Rightarrow> string \<Rightarrow> f64 res" where
  "number v path =
     raise_if (case v of JInt _ \<Rightarrow> False | JFloat _ \<Rightarrow> False | _ \<Rightarrow> True) (InvalidRequest (path @ '' must be a number''))
     (bindR (py_float v) (\<lambda>x. raise_if (\<not> isfinite x) (InvalidRequest (path @ '' must be finite'')) (Inr x)))"

definition at_least_one :: "json \<Rightarrow> string \<Rightarrow> int res" where
  "at_least_one v path =
     (case v of JInt n \<Rightarrow> raise_if (n < 1) (InvalidRequest (path @ '' must be a positive integer'')) (Inr n)
      | _ \<Rightarrow> Inl (InvalidRequest (path @ '' must be a positive integer'')))"

definition optional_count :: "json \<Rightarrow> string \<Rightarrow> int option res" where
  "optional_count v path = (case v of JNull \<Rightarrow> Inr None | _ \<Rightarrow> bindR (at_least_one v path) (\<lambda>n. Inr (Some n)))"

definition boolean :: "json \<Rightarrow> string \<Rightarrow> bool res" where
  "boolean v path = (case v of JBool b \<Rightarrow> Inr b | _ \<Rightarrow> Inl (InvalidRequest (path @ '' must be a boolean'')))"

definition named :: "json \<Rightarrow> string \<Rightarrow> string res" where
  "named v path =
     (case v of JStr s \<Rightarrow> raise_if (s = []) (InvalidRequest (path @ '' must be a non-empty string'')) (Inr s)
      | _ \<Rightarrow> Inl (InvalidRequest (path @ '' must be a non-empty string'')))"

text \<open>The episode an operand names: a non-empty string, declared when the declarations are known.\<close>

definition declared_episode :: "string list option \<Rightarrow> json \<Rightarrow> string \<Rightarrow> string res" where
  "declared_episode refs v path =
     bindR (named v (path @ ''.episode'')) (\<lambda>ref.
     raise_if (case refs of None \<Rightarrow> False | Some rs \<Rightarrow> ref \<notin> set rs)
       (InvalidRequest (path @ ''.episode is not declared in ema_stack_episode'')) (Inr ref))"

definition LEGS :: "string list" where "LEGS = [''impulse'', ''pullback'']"
definition TOUCHES :: "string list" where "TOUCHES = [''current'', ''previous'']"

definition read_leg :: "json \<Rightarrow> string \<Rightarrow> string res" where
  "read_leg v path = in_tuple v LEGS (path @ ''.leg must be impulse or pullback'')"

definition feature_timeframe_of :: "json \<Rightarrow> string \<Rightarrow> string option res" where
  "feature_timeframe_of v path =
     (case v of JNull \<Rightarrow> Inr None
      | JStr s \<Rightarrow> raise_if (s = []) (InvalidRequest (path @ ''.timeframe must be a non-empty string''))
          (if s = ''base'' then Inr (Some s) else bindR (timeframe_duration_ms s) (\<lambda>_. Inr (Some s)))
      | _ \<Rightarrow> Inl (InvalidRequest (path @ ''.timeframe must be a non-empty string'')))"

definition parse_feature :: "json \<Rightarrow> string \<Rightarrow> planned_feature res" where
  "parse_feature raw path =
     bindR (require_mapping raw path) (\<lambda>ob.
     only_fields ob [''kind'', ''timeframe'', ''source'', ''params'', ''availability''] path
     (bindR (named (get ob ''kind'') (path @ ''.kind'')) (\<lambda>kind.
      bindR (feature_timeframe_of (get ob ''timeframe'') path) (\<lambda>tf.
      bindR (case get ob ''source'' of JNull \<Rightarrow> Inr None | JStr s \<Rightarrow> Inr (Some s)
               | _ \<Rightarrow> Inl (InvalidRequest (path @ ''.source must be a string''))) (\<lambda>source.
      bindR (require_mapping (get_or ob ''params'' (JObj [])) (path @ ''.params'')) (\<lambda>params.
      (case get_or ob ''availability'' (JStr ''bar_open'') of
         JStr avail \<Rightarrow> plan_feature_request kind tf source params avail
       | _ \<Rightarrow> Inl (InvalidRequest (path @ ''.availability must be bar_open or bar_close'')))))))))"

section \<open>Segments\<close>

definition SEGMENT_FIELDS :: "string list" where
  "SEGMENT_FIELDS = [''include_start'', ''empty_policy'', ''episode'', ''of'', ''from'', ''to'', ''aggregate'', ''value'',
     ''window'', ''negate'', ''span'', ''top'', ''eligibility'', ''touch'']"
definition SEGMENT_REQUIRED :: "string list" where "SEGMENT_REQUIRED = [''episode'', ''of'', ''from'', ''to'', ''aggregate'']"
definition SEGMENT_SPANS :: "(string \<times> string) list" where
  "SEGMENT_SPANS = [(''origin'', ''peak''), (''peak'', ''current''), (''origin'', ''current''), (''peak'', ''touch''), (''peak'', ''next_origin'')]"
definition PREVIOUS_SPANS :: "(string \<times> string) list" where
  "PREVIOUS_SPANS = [(''origin'', ''peak''), (''peak'', ''next_origin'')]"
definition SEGMENT_AGGREGATES :: "string list" where
  "SEGMENT_AGGREGATES = [''sum'', ''mean_per_bar'', ''max'', ''min'', ''abs_sum'', ''top_abs_sum'', ''top_abs_share'']"
definition SEGMENT_VALUES :: "string list" where "SEGMENT_VALUES = [''level'', ''change'', ''change_over'', ''from_start'']"
definition SEGMENT_CHANGE_AGGREGATES :: "string list" where
  "SEGMENT_CHANGE_AGGREGATES = [''max'', ''min'', ''abs_sum'', ''top_abs_sum'', ''top_abs_share'']"
definition ELIGIBILITY_FIELDS :: "string list" where
  "ELIGIBILITY_FIELDS = [''legs_min_bars'', ''window'', ''impulse_positive'', ''pullback_min_bars'']"

definition parse_eligibility :: "json \<Rightarrow> string \<Rightarrow> eligibility res" where
  "parse_eligibility raw path =
     bindR (require_mapping raw path) (\<lambda>ob.
     only_fields ob ELIGIBILITY_FIELDS path
     (bindR (boolean (get_or ob ''impulse_positive'' (JBool False)) (path @ ''.impulse_positive'')) (\<lambda>positive.
      raise_if (positive \<and> get ob ''window'' = JNull) (InvalidRequest (path @ ''.impulse_positive requires window''))
      (bindR (optional_count (get ob ''legs_min_bars'') (path @ ''.legs_min_bars'')) (\<lambda>legs.
       bindR (optional_count (get ob ''window'') (path @ ''.window'')) (\<lambda>win.
       bindR (optional_count (get ob ''pullback_min_bars'') (path @ ''.pullback_min_bars'')) (\<lambda>pull.
       Inr \<lparr>el_legs_min_bars = legs, el_window = win, el_impulse_positive = positive, el_pullback_min_bars = pull\<rparr>)))))))"

definition parse_segment_series :: "json \<Rightarrow> string \<Rightarrow> segment_series res" where
  "parse_segment_series raw path =
     bindR (require_mapping raw path) (\<lambda>ob.
     if has_key ob ''by_side'' then
       raise_if (length ob \<noteq> 1) (InvalidRequest (path @ '' must carry only by_side''))
       (bindR (require_mapping (get ob ''by_side'') (path @ ''.by_side'')) (\<lambda>sides.
        only_fields sides [''long'', ''short''] (path @ ''.by_side'')
        (raise_if (set (map fst sides) \<noteq> {''long'', ''short''}) (InvalidRequest (path @ ''.by_side needs exactly long and short''))
        (bindR (parse_feature (get sides ''long'') (path @ ''.by_side.long'')) (\<lambda>l.
         bindR (parse_feature (get sides ''short'') (path @ ''.by_side.short'')) (\<lambda>s.
         Inr \<lparr>sg_left = l, sg_right = Some s, sg_by_side = True\<rparr>))))))
     else if \<not> has_key ob ''difference'' then
       bindR (parse_feature (JObj ob) path) (\<lambda>f. Inr \<lparr>sg_left = f, sg_right = None, sg_by_side = False\<rparr>)
     else
       raise_if (length ob \<noteq> 1) (InvalidRequest (path @ '' must carry only difference''))
       (bindR (require_mapping (get ob ''difference'') (path @ ''.difference'')) (\<lambda>d.
        only_fields d [''left'', ''right''] (path @ ''.difference'')
        (bindR (parse_feature (get d ''left'') (path @ ''.difference.left'')) (\<lambda>l.
         bindR (parse_feature (get d ''right'') (path @ ''.difference.right'')) (\<lambda>r.
         Inr \<lparr>sg_left = l, sg_right = Some r, sg_by_side = False\<rparr>))))))"

definition in_spans :: "json \<Rightarrow> json \<Rightarrow> (string \<times> string) list \<Rightarrow> string \<Rightarrow> (string \<times> string) res" where
  "in_spans s e spans msg =
     raise_if (unhashable s \<or> unhashable e) (PyTypeError ''unhashable type'')
     (case (s, e) of (JStr a, JStr b) \<Rightarrow> raise_if ((a, b) \<notin> set spans) (InvalidRequest msg) (Inr (a, b))
      | _ \<Rightarrow> Inl (InvalidRequest msg))"

text \<open>The span of \<open>change_over\<close>, the number of top changes, the window and the boundary policies.\<close>

definition segment_span :: "obj \<Rightarrow> string \<Rightarrow> string \<Rightarrow> int option res" where
  "segment_span ob val path =
     (if val = ''change_over'' then
        raise_if (\<not> has_key ob ''span'') (InvalidRequest (path @ ''.span is required with change_over''))
          (bindR (at_least_one (get ob ''span'') (path @ ''.span'')) (\<lambda>n. Inr (Some n)))
      else raise_if (has_key ob ''span'') (InvalidRequest (path @ ''.span is only allowed with change_over'')) (Inr None))"

definition segment_top :: "obj \<Rightarrow> string \<Rightarrow> string \<Rightarrow> int option res" where
  "segment_top ob agg path =
     (if agg = ''top_abs_sum'' \<or> agg = ''top_abs_share'' then
        raise_if (\<not> has_key ob ''top'') (InvalidRequest (path @ ''.top is required with '' @ agg))
          (bindR (at_least_one (get ob ''top'') (path @ ''.top'')) (\<lambda>n.
           raise_if (get ob ''window'' = JNull) (InvalidRequest (path @ ''.window.last_n is required with '' @ agg)) (Inr (Some n))))
      else raise_if (has_key ob ''top'') (InvalidRequest (path @ ''.top is only allowed with top_abs_sum or top_abs_share'')) (Inr None))"

definition segment_window :: "obj \<Rightarrow> string \<Rightarrow> int option res" where
  "segment_window ob path =
     (case get ob ''window'' of JNull \<Rightarrow> Inr None
      | v \<Rightarrow> bindR (require_mapping v (path @ ''.window'')) (\<lambda>w.
          only_fields w [''last_n''] (path @ ''.window'')
          (bindR (at_least_one (get w ''last_n'') (path @ ''.window.last_n'')) (\<lambda>n. Inr (Some n)))))"

definition segment_bounds :: "obj \<Rightarrow> string \<Rightarrow> string \<Rightarrow> string \<Rightarrow> (bool \<times> string) res" where
  "segment_bounds ob val agg path =
     bindR (boolean (get_or ob ''include_start'' (JBool True)) (path @ ''.include_start'')) (\<lambda>inc.
     bindR (in_tuple (get_or ob ''empty_policy'' (JStr ''missing'')) [''missing'', ''end''] (path @ ''.empty_policy must be missing or end'')) (\<lambda>policy.
     raise_if ((has_key ob ''include_start'' \<or> has_key ob ''empty_policy'') \<and> \<not> (val = ''level'' \<and> (agg = ''min'' \<or> agg = ''max'')))
       (InvalidRequest (path @ '' boundary policies require level min/max'')) (Inr (inc, policy))))"

definition parse_segment :: "string list option \<Rightarrow> json \<Rightarrow> string \<Rightarrow> segment res" where
  "parse_segment refs raw path =
     bindR (require_mapping raw path) (\<lambda>ob.
     only_fields ob SEGMENT_FIELDS path (required ob SEGMENT_REQUIRED path
     (bindR (declared_episode refs (get ob ''episode'') path) (\<lambda>ref.
      bindR (in_spans (get ob ''from'') (get ob ''to'') SEGMENT_SPANS (path @ ''.from/to is not a segment'')) (\<lambda>(start, stop).
      bindR (in_hashed (get ob ''aggregate'') SEGMENT_AGGREGATES (path @ ''.aggregate is unknown'')) (\<lambda>agg.
      bindR (in_hashed (get_or ob ''value'' (JStr ''level'')) SEGMENT_VALUES
        (path @ ''.value must be level, change, change_over or from_start'')) (\<lambda>val.
      raise_if (val = ''from_start'' \<and> agg \<notin> {''sum'', ''mean_per_bar'', ''max'', ''min''})
        (InvalidRequest (path @ ''.'' @ agg @ '' is not defined for from_start''))
      (raise_if (val = ''from_start'' \<and> has_key ob ''window'') (InvalidRequest (path @ ''.window is not allowed with from_start''))
      (bindR (in_hashed (get_or ob ''touch'' (JStr ''current'')) TOUCHES (path @ ''.touch must be current or previous'')) (\<lambda>touch.
       raise_if (touch = ''previous'' \<and> (start, stop) \<notin> set PREVIOUS_SPANS)
         (InvalidRequest (path @ ''.touch previous needs origin to peak or peak to next_origin''))
       (raise_if (stop = ''next_origin'' \<and> touch \<noteq> ''previous'') (InvalidRequest (path @ ''.to next_origin needs touch previous''))
       (bindR (segment_span ob val path) (\<lambda>span.
        raise_if (agg \<in> {''abs_sum'', ''top_abs_sum'', ''top_abs_share''} \<and> val = ''level'')
          (InvalidRequest (path @ ''.'' @ agg @ '' needs value change or change_over''))
        (raise_if (val = ''change_over'' \<and> agg \<in> {''sum'', ''mean_per_bar''})
          (InvalidRequest (path @ ''.'' @ agg @ '' is not defined for change_over''))
        (bindR (segment_top ob agg path) (\<lambda>top.
         bindR (segment_window ob path) (\<lambda>last_n.
         bindR (boolean (get_or ob ''negate'' (JBool False)) (path @ ''.negate'')) (\<lambda>negate.
         bindR (segment_bounds ob val agg path) (\<lambda>(inc, policy).
         bindR (parse_segment_series (get ob ''of'') (path @ ''.of'')) (\<lambda>series.
         bindR (case get ob ''eligibility'' of JNull \<Rightarrow> Inr None
                  | v \<Rightarrow> bindR (parse_eligibility v (path @ ''.eligibility'')) (\<lambda>e. Inr (Some e))) (\<lambda>elig.
         Inr \<lparr>seg_episode = ref, seg_series = series, seg_start = start, seg_end = stop, seg_aggregate = agg, seg_value = val,
              seg_last_n = last_n, seg_negate = negate, seg_span = span, seg_top = top, seg_eligibility = elig, seg_touch = touch,
              seg_include_start = inc, seg_empty_policy = policy\<rparr>)))))))))))))))))))))"

end
