(* ===== verification/PredicateParse.thy ===== *)
theory PredicateParse
  imports PredicateSpec ManagedComposite
begin

text \<open>
  The operand, condition and predicate parsers of \<open>predicates.py\<close>, and the atom
  \<open>change_since_entry\<close> of \<open>entry_change.py\<close>.  A parser of a document that nests operands takes
  \<open>rec\<close>, the parser of the nested ones; \<open>parse_operand_at\<close> and \<open>parse_sampled_at\<close> tie the knot over a fuel, and
  the size of the document is always enough of it (\<open>PredicateFacts\<close>).
\<close>

section \<open>Operands over a leg\<close>

definition ATR_FIELD :: string where "ATR_FIELD = ''atr''"
definition WILDER_KIND :: string where "WILDER_KIND = ''atr_wilder''"
definition LEG_MEAN_FIELDS :: "string list" where
  "LEG_MEAN_FIELDS = [''volume'', ''open_interest'', ''force_with'', ''force_against'']"
definition LEG_SUM_FIELDS :: "string list" where "LEG_SUM_FIELDS = [''volume'', ''open_interest'', ''own_color_volume'']"
definition LEG_TOP_MEAN_FIELDS :: "string list" where "LEG_TOP_MEAN_FIELDS = [''volume'', ''open_interest'']"
definition LEG_CHANGE_FIELDS :: "string list" where "LEG_CHANGE_FIELDS = [''close'', ''open_interest'']"

text \<open>A timeframe that is a longer candle than the base bar.\<close>

definition candle_timeframe :: "json \<Rightarrow> string \<Rightarrow> string res" where
  "candle_timeframe v msg =
     (case v of JStr s \<Rightarrow> raise_if (s = [] \<or> s = ''base'') (InvalidRequest msg) (bindR (timeframe_duration_ms s) (\<lambda>_. Inr s))
      | _ \<Rightarrow> Inl (InvalidRequest msg))"

text \<open>An ATR feature of the kind and the timeframe the operand needs.\<close>

definition atr_feature :: "json \<Rightarrow> string \<Rightarrow> string \<Rightarrow> string \<Rightarrow> planned_feature res" where
  "atr_feature v kind tf path =
     bindR (parse_feature v (path @ ''.atr'')) (\<lambda>atr.
     raise_if (feature_kind atr \<noteq> kind) (InvalidRequest (path @ ''.atr must be the ATR feature''))
     (raise_if (feature_timeframe atr \<noteq> tf) (InvalidRequest (path @ ''.atr.timeframe must equal the candle timeframe'')) (Inr atr)))"

definition parse_candle :: "string list option \<Rightarrow> json \<Rightarrow> string \<Rightarrow> candle_operand res" where
  "parse_candle refs raw path =
     bindR (require_mapping raw path) (\<lambda>ob.
     only_fields ob [''episode'', ''leg'', ''timeframe'', ''direction'', ATR_FIELD] path
     (required ob [''episode'', ''leg'', ''timeframe'', ''direction''] path
     (bindR (declared_episode refs (get ob ''episode'') path) (\<lambda>ref.
      bindR (read_leg (get ob ''leg'') path) (\<lambda>leg.
      bindR (in_tuple (get ob ''direction'') [''with'', ''against''] (path @ ''.direction must be with or against'')) (\<lambda>dir.
      bindR (candle_timeframe (get ob ''timeframe'') (path @ ''.timeframe must be a timeframe such as 15m'')) (\<lambda>tf.
      bindR (if get ob ATR_FIELD = JNull then Inr None
             else bindR (atr_feature (get ob ATR_FIELD) WILDER_KIND tf path) (\<lambda>a. Inr (Some a))) (\<lambda>atr.
      Inr \<lparr>cn_episode = ref, cn_leg = leg, cn_timeframe = tf, cn_direction = dir, cn_atr = atr\<rparr>))))))))"

definition parse_leg_mean :: "string list option \<Rightarrow> json \<Rightarrow> string \<Rightarrow> leg_mean res" where
  "parse_leg_mean refs raw path =
     bindR (require_mapping raw path) (\<lambda>ob.
     only_fields ob [''episode'', ''leg'', ''field''] path (required ob [''episode'', ''leg'', ''field''] path
     (bindR (declared_episode refs (get ob ''episode'') path) (\<lambda>ref.
      bindR (read_leg (get ob ''leg'') path) (\<lambda>leg.
      bindR (in_tuple (get ob ''field'') LEG_MEAN_FIELDS (path @ ''.field is unknown'')) (\<lambda>fld.
      Inr \<lparr>lm_episode = ref, lm_leg = leg, lm_field = fld\<rparr>))))))"

definition parse_leg_sum :: "string list option \<Rightarrow> json \<Rightarrow> string \<Rightarrow> leg_sum res" where
  "parse_leg_sum refs raw path =
     bindR (require_mapping raw path) (\<lambda>ob.
     only_fields ob [''episode'', ''leg'', ''field''] path (required ob [''episode'', ''leg'', ''field''] path
     (bindR (declared_episode refs (get ob ''episode'') path) (\<lambda>ref.
      bindR (read_leg (get ob ''leg'') path) (\<lambda>leg.
      bindR (in_tuple (get ob ''field'') LEG_SUM_FIELDS (path @ ''.field is unknown'')) (\<lambda>fld.
      Inr \<lparr>ls_episode = ref, ls_leg = leg, ls_field = fld\<rparr>))))))"

definition parse_leg_top_mean :: "string list option \<Rightarrow> json \<Rightarrow> string \<Rightarrow> leg_top_mean res" where
  "parse_leg_top_mean refs raw path =
     bindR (require_mapping raw path) (\<lambda>ob.
     only_fields ob [''episode'', ''leg'', ''field'', ''share''] path (required ob [''episode'', ''leg'', ''field'', ''share''] path
     (bindR (declared_episode refs (get ob ''episode'') path) (\<lambda>ref.
      bindR (read_leg (get ob ''leg'') path) (\<lambda>leg.
      bindR (in_tuple (get ob ''field'') LEG_TOP_MEAN_FIELDS (path @ ''.field is unknown'')) (\<lambda>fld.
      bindR (number (get ob ''share'') (path @ ''.share'')) (\<lambda>share.
      raise_if (\<not> (flt (Fin 0) share \<and> fle share (Fin 1))) (InvalidRequest (path @ ''.share must be in (0, 1]''))
        (Inr \<lparr>lt_episode = ref, lt_leg = leg, lt_field = fld, lt_share = share\<rparr>))))))))"

definition parse_anchor_follow :: "string list option \<Rightarrow> json \<Rightarrow> string \<Rightarrow> string res" where
  "parse_anchor_follow refs raw path =
     bindR (require_mapping raw path) (\<lambda>ob.
     only_fields ob [''episode''] path (required ob [''episode''] path (declared_episode refs (get ob ''episode'') path)))"

definition parse_pullback_depth :: "string list option \<Rightarrow> json \<Rightarrow> string \<Rightarrow> pullback_depth res" where
  "parse_pullback_depth refs raw path =
     bindR (require_mapping raw path) (\<lambda>ob.
     only_fields ob [''episode'', ''touch''] path (required ob [''episode''] path
     (bindR (declared_episode refs (get ob ''episode'') path) (\<lambda>ref.
      bindR (in_tuple (get_or ob ''touch'' (JStr ''current'')) TOUCHES (path @ ''.touch must be current or previous'')) (\<lambda>touch.
      Inr \<lparr>pd_episode = ref, pd_touch = touch\<rparr>)))))"

definition parse_leg_speed :: "string list option \<Rightarrow> json \<Rightarrow> string \<Rightarrow> leg_of res" where
  "parse_leg_speed refs raw path =
     bindR (require_mapping raw path) (\<lambda>ob.
     only_fields ob [''episode'', ''leg''] path (required ob [''episode'', ''leg''] path
     (bindR (declared_episode refs (get ob ''episode'') path) (\<lambda>ref.
      bindR (read_leg (get ob ''leg'') path) (\<lambda>leg. Inr \<lparr>lo_episode = ref, lo_leg = leg\<rparr>)))))"

definition parse_leg_efficiency :: "string list option \<Rightarrow> json \<Rightarrow> string \<Rightarrow> leg_of res" where
  "parse_leg_efficiency refs raw path = parse_leg_speed refs raw path"

definition parse_leg_bars :: "string list option \<Rightarrow> json \<Rightarrow> string \<Rightarrow> leg_of res" where
  "parse_leg_bars refs raw path = parse_leg_speed refs raw path"

definition parse_leg_change :: "string list option \<Rightarrow> json \<Rightarrow> string \<Rightarrow> leg_change res" where
  "parse_leg_change refs raw path =
     bindR (require_mapping raw path) (\<lambda>ob.
     only_fields ob [''episode'', ''leg'', ''field'', ''touch''] path (required ob [''field''] path
     (bindR (parse_leg_speed refs (JObj (filter (\<lambda>kv. fst kv = ''episode'' \<or> fst kv = ''leg'') ob)) path) (\<lambda>speed.
      bindR (in_tuple (get ob ''field'') LEG_CHANGE_FIELDS (path @ ''.field must be one of '' @ join_text LEG_CHANGE_FIELDS)) (\<lambda>fld.
      bindR (in_tuple (get_or ob ''touch'' (JStr ''current'')) TOUCHES (path @ ''.touch must be current or previous'')) (\<lambda>touch.
      raise_if (touch = ''previous'' \<and> lo_leg speed \<noteq> ''impulse'')
        (InvalidRequest (path @ ''.touch previous is only allowed with leg impulse''))
        (Inr \<lparr>lc_episode = lo_episode speed, lc_leg = lo_leg speed, lc_field = fld, lc_touch = touch\<rparr>)))))))"

definition parse_impulse_atr :: "string list option \<Rightarrow> json \<Rightarrow> string \<Rightarrow> impulse_atr res" where
  "parse_impulse_atr refs raw path =
     bindR (require_mapping raw path) (\<lambda>ob.
     only_fields ob [''episode'', ATR_FIELD] path (required ob [''episode'', ATR_FIELD] path
     (bindR (declared_episode refs (get ob ''episode'') path) (\<lambda>ref.
      bindR (atr_feature (get ob ATR_FIELD) ''atr'' ''base'' path) (\<lambda>atr. Inr \<lparr>ia_episode = ref, ia_atr = atr\<rparr>)))))"

definition parse_forming_candle :: "string list option \<Rightarrow> json \<Rightarrow> string \<Rightarrow> forming_candle res" where
  "parse_forming_candle refs raw path =
     bindR (require_mapping raw path) (\<lambda>ob.
     only_fields ob [''episode'', ''timeframe'', ATR_FIELD, ''field''] path (required ob [''episode'', ''timeframe'', ATR_FIELD] path
     (bindR (declared_episode refs (get ob ''episode'') path) (\<lambda>ref.
      bindR (candle_timeframe (get ob ''timeframe'') (path @ ''.timeframe must be a timeframe such as 1d'')) (\<lambda>tf.
      bindR (atr_feature (get ob ATR_FIELD) WILDER_KIND tf path) (\<lambda>atr.
      bindR (in_tuple (get_or ob ''field'' (JStr ''body'')) [''body'', ''range''] (path @ ''.field must be body or range'')) (\<lambda>fld.
      Inr \<lparr>fc_episode = ref, fc_timeframe = tf, fc_atr = atr, fc_field = fld\<rparr>)))))))"

definition parse_window_change :: "string list option \<Rightarrow> json \<Rightarrow> string \<Rightarrow> window_change res" where
  "parse_window_change refs raw path =
     bindR (require_mapping raw path) (\<lambda>ob.
     only_fields ob [''episode'', ''of'', ''last_n'', ''form''] path (required ob [''episode'', ''of'', ''last_n'', ''form''] path
     (bindR (declared_episode refs (get ob ''episode'') path) (\<lambda>ref.
      bindR (parse_feature (get ob ''of'') (path @ ''.of'')) (\<lambda>series.
      raise_if (feature_timeframe series \<noteq> ''base'') (InvalidRequest (path @ ''.of must be on the base timeframe''))
      (bindR (at_least_one (get ob ''last_n'') (path @ ''.last_n'')) (\<lambda>last_n.
       bindR (in_tuple (get ob ''form'') [''change'', ''slope''] (path @ ''.form must be change or slope'')) (\<lambda>form.
       Inr \<lparr>wc_episode = ref, wc_series = series, wc_last_n = last_n, wc_form = form\<rparr>))))))))"

section \<open>Operands over operands\<close>

type_synonym operand_parser = "json \<Rightarrow> string \<Rightarrow> operand res"

definition denominator_mode :: "obj \<Rightarrow> string \<Rightarrow> string res" where
  "denominator_mode ob path =
     in_tuple (get_or ob ''denominator_mode'' (JStr ''positive'')) [''positive'', ''absolute'']
       (path @ ''.denominator_mode must be positive or absolute'')"

definition parse_ratio :: "operand_parser \<Rightarrow> json \<Rightarrow> string \<Rightarrow> operand res" where
  "parse_ratio rec raw path =
     bindR (require_mapping raw path) (\<lambda>ob.
     only_fields ob [''left'', ''right'', ''right_floor'', ''denominator_mode''] path
     (bindR (if has_key ob ''right_floor'' then number (get ob ''right_floor'') (path @ ''.right_floor'') else Inr (Fin 0)) (\<lambda>floor.
      bindR (rec (get ob ''left'') (path @ ''.left'')) (\<lambda>l.
      bindR (rec (get ob ''right'') (path @ ''.right'')) (\<lambda>r.
      raise_if (is_const l \<and> is_const r) (InvalidRequest (path @ '' must have at least one non-constant side''))
      (bindR (denominator_mode ob path) (\<lambda>mode.
       raise_if (mode = ''absolute'' \<and> flt floor (Fin 0)) (InvalidRequest (path @ ''.right_floor must be nonnegative in absolute mode''))
         (Inr (ORatio l r floor mode)))))))))"

definition parse_difference :: "operand_parser \<Rightarrow> json \<Rightarrow> string \<Rightarrow> operand res" where
  "parse_difference rec raw path =
     bindR (require_mapping raw path) (\<lambda>ob.
     only_fields ob [''left'', ''right''] path (required ob [''left'', ''right''] path
     (bindR (rec (get ob ''left'') (path @ ''.left'')) (\<lambda>l.
      bindR (rec (get ob ''right'') (path @ ''.right'')) (\<lambda>r.
      raise_if (is_const l \<and> is_const r) (InvalidRequest (path @ '' must have at least one non-constant side''))
        (Inr (ODifference l r)))))))"

definition parse_absolute :: "operand_parser \<Rightarrow> json \<Rightarrow> string \<Rightarrow> operand res" where
  "parse_absolute rec raw path =
     bindR (rec raw path) (\<lambda>inner.
     raise_if (case inner of OConst _ \<Rightarrow> True | OAbs _ \<Rightarrow> True | ORatio _ _ _ _ \<Rightarrow> True | _ \<Rightarrow> False)
       (InvalidRequest (path @ '' must not be a constant, an abs or a ratio'')) (Inr (OAbs inner)))"

definition parse_at_point :: "operand_parser \<Rightarrow> string list option \<Rightarrow> json \<Rightarrow> string \<Rightarrow> operand res" where
  "parse_at_point rec refs raw path =
     bindR (require_mapping raw path) (\<lambda>ob.
     only_fields ob [''episode'', ''point'', ''operand''] path (required ob [''episode'', ''point'', ''operand''] path
     (bindR (declared_episode refs (get ob ''episode'') path) (\<lambda>ref.
      bindR (in_tuple (get ob ''point'') [''peak'', ''origin''] (path @ ''.point must be peak or origin'')) (\<lambda>point.
      bindR (rec (get ob ''operand'') (path @ ''.operand'')) (\<lambda>inner.
      raise_if (case inner of OConst _ \<Rightarrow> True | OAtPoint _ _ _ \<Rightarrow> True | _ \<Rightarrow> False)
        (InvalidRequest (path @ ''.operand must not be a constant or an at_point'')) (Inr (OAtPoint ref point inner))))))))"

definition parse_signed :: "operand_parser \<Rightarrow> json \<Rightarrow> string \<Rightarrow> operand res" where
  "parse_signed rec raw path =
     bindR (require_mapping raw path) (\<lambda>ob.
     only_fields ob [''operand'', ''center''] path (required ob [''operand'', ''center''] path
     (bindR (rec (get ob ''operand'') (path @ ''.operand'')) (\<lambda>inner.
      raise_if (is_const inner) (InvalidRequest (path @ ''.operand must not be a constant''))
      (bindR (number (get ob ''center'') (path @ ''.center'')) (\<lambda>c. Inr (OSigned inner c)))))))"

text \<open>A required bound: a number or null.\<close>

definition optional_bound :: "obj \<Rightarrow> string \<Rightarrow> string \<Rightarrow> f64 option res" where
  "optional_bound ob key path =
     raise_if (\<not> has_key ob key) (InvalidRequest (path @ ''.'' @ key @ '' is required (a number or null)''))
     (case get ob key of JNull \<Rightarrow> Inr None | v \<Rightarrow> bindR (number v (path @ ''.'' @ key)) (\<lambda>x. Inr (Some x)))"

definition parse_range :: "operand_parser \<Rightarrow> obj \<Rightarrow> string \<Rightarrow> range_spec res" where
  "parse_range rec ob path =
     bindR (rec (get ob ''operand'') (path @ ''.operand'')) (\<lambda>x.
     raise_if (is_const x) (InvalidRequest (path @ ''.operand must be a feature, an episode or a price''))
     (bindR (optional_bound ob ''min'' path) (\<lambda>low.
      bindR (optional_bound ob ''max'' path) (\<lambda>high.
      bindR (in_hashed (get_or ob ''bounds'' (JStr ''inclusive'')) [''inclusive'', ''exclusive'']
        (path @ ''.bounds must be inclusive or exclusive'')) (\<lambda>bounds.
      bindR (in_hashed (get_or ob ''empty'' (JStr ''block'')) [''block'', ''pass''] (path @ ''.empty must be block or pass'')) (\<lambda>empty.
      raise_if (case (low, high) of (Some a, Some b) \<Rightarrow> flt b a \<or> bounds = ''exclusive'' \<and> feq a b | _ \<Rightarrow> False)
        (InvalidRequest (path @ ''.min must not exceed max''))
        (Inr (Range x low high bounds empty))))))))"

fun requirements_at :: "operand_parser \<Rightarrow> string \<Rightarrow> nat \<Rightarrow> json list \<Rightarrow> range_spec list res" where
  "requirements_at rec path i [] = Inr []"
| "requirements_at rec path i (it # its) =
     (let p = at_index (path @ ''.require'') i in
      bindR (require_mapping it p) (\<lambda>ob.
      only_fields ob [''operand'', ''min'', ''max'', ''bounds''] p
      (bindR (parse_range rec ob p) (\<lambda>r. bindR (requirements_at rec path (Suc i) its) (\<lambda>rs. Inr (r # rs))))))"

definition parse_only_if :: "operand_parser \<Rightarrow> json \<Rightarrow> string \<Rightarrow> operand res" where
  "parse_only_if rec raw path =
     bindR (require_mapping raw path) (\<lambda>ob.
     only_fields ob [''operand'', ''require''] path (required ob [''operand'', ''require''] path
     (bindR (rec (get ob ''operand'') (path @ ''.operand'')) (\<lambda>inner.
      raise_if (is_const inner) (InvalidRequest (path @ ''.operand must not be a constant''))
      (case get ob ''require'' of
         JList its \<Rightarrow> raise_if (its = []) (InvalidRequest (path @ ''.require must be a non-empty list''))
           (bindR (requirements_at rec path 0 its) (\<lambda>rs. Inr (OOnlyIf inner rs)))
       | _ \<Rightarrow> Inl (InvalidRequest (path @ ''.require must be a non-empty list'')))))))"

definition parse_scale :: "operand_parser \<Rightarrow> json \<Rightarrow> string \<Rightarrow> operand res" where
  "parse_scale rec v path =
     bindR (require_mapping v (path @ ''.scale'')) (\<lambda>ob.
     only_fields ob [''operand'', ''factor''] path
     (bindR (rec (get ob ''operand'') (path @ ''.operand'')) (\<lambda>inner.
      raise_if (is_const inner) (InvalidRequest (path @ ''.operand must not be a constant''))
      (bindR (number (get ob ''factor'') (path @ ''.factor'')) (\<lambda>k. Inr (OScale inner k))))))"

section \<open>Sampled series\<close>

fun has_series_leaf :: "operand \<Rightarrow> bool" where
  "has_series_leaf (OFeature _) = True"
| "has_series_leaf (OPrice _) = True"
| "has_series_leaf (OAbs x) = has_series_leaf x"
| "has_series_leaf (OScale x _) = has_series_leaf x"
| "has_series_leaf (ORatio l r _ _) = (has_series_leaf l \<or> has_series_leaf r)"
| "has_series_leaf (ODifference l r) = (has_series_leaf l \<or> has_series_leaf r)"
| "has_series_leaf _ = False"

definition sampled_scale :: "operand_parser \<Rightarrow> obj \<Rightarrow> string \<Rightarrow> operand res" where
  "sampled_scale rec d path =
     only_fields d [''operand'', ''factor''] path
     (bindR (rec (get d ''operand'') (path @ ''.operand'')) (\<lambda>x.
      raise_if (\<not> has_series_leaf x) (InvalidRequest (path @ ''.operand must contain a nonconstant series''))
      (bindR (number (get d ''factor'') (path @ ''.factor'')) (\<lambda>k. Inr (OScale x k)))))"

definition sampled_pair :: "operand_parser \<Rightarrow> string \<Rightarrow> obj \<Rightarrow> string \<Rightarrow> operand res" where
  "sampled_pair rec key d path =
     only_fields d ([''left'', ''right''] @ (if key = ''ratio'' then [''right_floor'', ''denominator_mode''] else [])) path
     (bindR (rec (get d ''left'') (path @ ''.left'')) (\<lambda>l.
      bindR (rec (get d ''right'') (path @ ''.right'')) (\<lambda>r.
      if key = ''difference'' then Inr (ODifference l r)
      else bindR (number (get_or d ''right_floor'' (JInt 0)) (path @ ''.right_floor'')) (\<lambda>floor.
        case get_or d ''denominator_mode'' (JStr ''positive'') of
          JStr mode \<Rightarrow>
            raise_if (mode \<notin> {''positive'', ''absolute''} \<or> mode = ''absolute'' \<and> flt floor (Fin 0))
              (InvalidRequest (path @ '' has invalid denominator mode or floor'')) (Inr (ORatio l r floor mode))
        | _ \<Rightarrow> Inl (InvalidRequest (path @ '' has invalid denominator mode or floor''))))))"

text \<open>Only arithmetic over features, prices and constants; a leaf is an operand of one of those.\<close>

definition sampled_key :: "operand_parser \<Rightarrow> operand_parser \<Rightarrow> string \<Rightarrow> json \<Rightarrow> json \<Rightarrow> string \<Rightarrow> operand res" where
  "sampled_key leaf rec key v raw path =
     (if key \<notin> {''feature'', ''price'', ''const'', ''difference'', ''ratio'', ''abs'', ''scale''}
      then Inl (InvalidRequest (path @ '' is not a sampled-series operation''))
      else if key = ''abs'' then bindR (rec v (path @ ''.abs'')) (\<lambda>x. Inr (OAbs x))
      else if key \<in> {''difference'', ''ratio'', ''scale''} then
        bindR (require_mapping v (path @ ''.'' @ key)) (\<lambda>d.
        if key = ''scale'' then sampled_scale rec d path else sampled_pair rec key d path)
      else bindR (leaf raw path) (\<lambda>x.
        raise_if (case x of OFeature f \<Rightarrow> feature_timeframe f \<noteq> ''base'' | _ \<Rightarrow> False)
          (InvalidRequest (path @ '' must use base-timeframe features'')) (Inr x)))"

definition parse_sampled :: "operand_parser \<Rightarrow> operand_parser \<Rightarrow> json \<Rightarrow> string \<Rightarrow> operand res" where
  "parse_sampled leaf rec raw path =
     bindR (require_mapping raw path) (\<lambda>ob.
     case ob of [(key, v)] \<Rightarrow> sampled_key leaf rec key v raw path
     | _ \<Rightarrow> Inl (InvalidRequest (path @ '' must carry one sampled-series operation'')))"

definition parse_interval :: "string list option \<Rightarrow> obj \<Rightarrow> string \<Rightarrow> interval res" where
  "parse_interval refs d path =
     (if get d ''kind'' = JStr ''fixed'' then
        only_fields d [''kind'', ''bars''] path
        (bindR (at_least_one (get d ''bars'') (path @ ''.bars'')) (\<lambda>n.
         Inr \<lparr>iv_kind = ''fixed'', iv_bars = Some n, iv_ref = None, iv_leg = None, iv_last_n = None\<rparr>))
      else if get d ''kind'' = JStr ''episode'' then
        only_fields d [''kind'', ''ref'', ''leg'', ''last_n''] path
        (case get d ''ref'' of
           JStr ref \<Rightarrow>
             raise_if (ref = [] \<or> (case refs of None \<Rightarrow> False | Some rs \<Rightarrow> ref \<notin> set rs))
               (InvalidRequest (path @ ''.ref must name a declared episode''))
             (bindR (read_leg (get d ''leg'') path) (\<lambda>leg.
              bindR (if has_key d ''last_n'' then bindR (at_least_one (get d ''last_n'') (path @ ''.last_n'')) (\<lambda>n. Inr (Some n))
                     else Inr None) (\<lambda>last_n.
              Inr \<lparr>iv_kind = ''episode'', iv_bars = None, iv_ref = Some ref, iv_leg = Some leg, iv_last_n = last_n\<rparr>)))
         | _ \<Rightarrow> Inl (InvalidRequest (path @ ''.ref must name a declared episode'')))
      else Inl (InvalidRequest (path @ ''.interval.kind must be fixed or episode'')))"

definition parse_interval_change :: "string list option \<Rightarrow> operand_parser \<Rightarrow> json \<Rightarrow> string \<Rightarrow> operand res" where
  "parse_interval_change refs sampled raw path =
     bindR (require_mapping raw path) (\<lambda>ob.
     only_fields ob [''of'', ''interval'', ''operation''] path
     (bindR (sampled (get ob ''of'') (path @ ''.of'')) (\<lambda>series.
      raise_if (\<not> has_series_leaf series) (InvalidRequest (path @ ''.of must contain a nonconstant series''))
      (bindR (require_mapping (get ob ''interval'') (path @ ''.interval'')) (\<lambda>d.
       bindR (parse_interval refs d path) (\<lambda>i.
       bindR (in_tuple (get ob ''operation'') [''change'', ''change_per_bar'', ''relative_change'', ''relative_change_per_bar'']
         (path @ ''.operation is invalid'')) (\<lambda>op. Inr (OIntervalChange series i op))))))))"

section \<open>The operand parser\<close>

definition PRICE_FIELDS :: "string list" where
  "PRICE_FIELDS = [''open'', ''high'', ''low'', ''close'', ''open_interest'']"

definition parse_operand_key ::
  "string list option \<Rightarrow> operand_parser \<Rightarrow> operand_parser \<Rightarrow> string \<Rightarrow> json \<Rightarrow> string \<Rightarrow> operand res" where
  "parse_operand_key refs rec sampled key v path =
     (let p = path @ ''.'' @ key in
      if key = ''interval_change'' then parse_interval_change refs sampled v p
      else if key = ''scale'' then parse_scale rec v path
      else if key = ''feature'' then bindR (parse_feature v p) (\<lambda>x. Inr (OFeature x))
      else if key = ''episode'' then bindR (parse_episode_ref v p refs) (\<lambda>x. Inr (OEpisode x))
      else if key = ''segment'' then bindR (parse_segment refs v p) (\<lambda>x. Inr (OSegment x))
      else if key = ''candle'' then bindR (parse_candle refs v p) (\<lambda>x. Inr (OCandle x))
      else if key = ''leg_mean'' then bindR (parse_leg_mean refs v p) (\<lambda>x. Inr (OLegMean x))
      else if key = ''leg_sum'' then bindR (parse_leg_sum refs v p) (\<lambda>x. Inr (OLegSum x))
      else if key = ''leg_top_mean'' then bindR (parse_leg_top_mean refs v p) (\<lambda>x. Inr (OLegTopMean x))
      else if key = ''anchor_follow'' then bindR (parse_anchor_follow refs v p) (\<lambda>x. Inr (OAnchorFollow x))
      else if key = ''pullback_depth'' then bindR (parse_pullback_depth refs v p) (\<lambda>x. Inr (OPullbackDepth x))
      else if key = ''leg_speed'' then bindR (parse_leg_speed refs v p) (\<lambda>x. Inr (OLegSpeed x))
      else if key = ''leg_efficiency'' then bindR (parse_leg_efficiency refs v p) (\<lambda>x. Inr (OLegEfficiency x))
      else if key = ''leg_bars'' then bindR (parse_leg_bars refs v p) (\<lambda>x. Inr (OLegBars x))
      else if key = ''leg_change'' then bindR (parse_leg_change refs v p) (\<lambda>x. Inr (OLegChange x))
      else if key = ''forming_candle'' then bindR (parse_forming_candle refs v p) (\<lambda>x. Inr (OFormingCandle x))
      else if key = ''impulse_atr'' then bindR (parse_impulse_atr refs v p) (\<lambda>x. Inr (OImpulseAtr x))
      else if key = ''ratio'' then parse_ratio rec v p
      else if key = ''abs'' then parse_absolute rec v p
      else if key = ''difference'' then parse_difference rec v p
      else if key = ''at_point'' then parse_at_point rec refs v p
      else if key = ''signed'' then parse_signed rec v p
      else if key = ''only_if'' then parse_only_if rec v p
      else if key = ''window_change'' then bindR (parse_window_change refs v p) (\<lambda>x. Inr (OWindowChange x))
      else if key = ''price'' then bindR (in_hashed v PRICE_FIELDS (path @ ''.price must be open, high, low or close'')) (\<lambda>x. Inr (OPrice x))
      else if key = ''const'' then bindR (number v p) (\<lambda>x. Inr (OConst x))
      else Inl (InvalidRequest (path @ '' must carry exactly one operand'')))"

definition parse_operand_with :: "string list option \<Rightarrow> operand_parser \<Rightarrow> operand_parser \<Rightarrow> operand_parser" where
  "parse_operand_with refs rec sampled raw path =
     bindR (require_mapping raw path) (\<lambda>ob.
     case ob of [(key, v)] \<Rightarrow> parse_operand_key refs rec sampled key v path
     | _ \<Rightarrow> Inl (InvalidRequest (path @ '' must carry exactly one operand'')))"

text \<open>No document is deeper than its size, so the assertion at fuel 0 is never reached from outside.\<close>

fun parse_operand_at :: "string list option \<Rightarrow> nat \<Rightarrow> operand_parser" and parse_sampled_at :: "string list option \<Rightarrow> nat \<Rightarrow> operand_parser" where
  "parse_operand_at refs 0 raw path = Inl PyAssertionError"
| "parse_operand_at refs (Suc n) raw path = parse_operand_with refs (parse_operand_at refs n) (parse_sampled_at refs n) raw path"
| "parse_sampled_at refs 0 raw path = Inl PyAssertionError"
| "parse_sampled_at refs (Suc n) raw path =
     parse_sampled (parse_operand_with refs (parse_operand_at refs n) (parse_sampled_at refs n)) (parse_sampled_at refs n) raw path"

definition parse_operand :: "string list option \<Rightarrow> operand_parser" where
  "parse_operand refs raw path = parse_operand_at refs (Suc (size raw)) raw path"

definition sampled_operand :: "string list option \<Rightarrow> operand_parser" where
  "sampled_operand refs raw path = parse_sampled_at refs (Suc (size raw)) raw path"

section \<open>Conditions\<close>

definition COMPARE_OPS :: "string list" where "COMPARE_OPS = [''>'', ''>='', ''<'', ''<='']"

definition read_op :: "obj \<Rightarrow> string \<Rightarrow> string res" where
  "read_op ob path = in_hashed (get ob ''op'') COMPARE_OPS (path @ ''.op must be one of >, >=, <, <='')"

definition parse_compare :: "string list option \<Rightarrow> obj \<Rightarrow> string \<Rightarrow> condition res" where
  "parse_compare refs ob path =
     bindR (read_op ob path) (\<lambda>op.
     bindR (parse_operand refs (get ob ''left'') (path @ ''.left'')) (\<lambda>l.
     bindR (parse_operand refs (get ob ''right'') (path @ ''.right'')) (\<lambda>r.
     raise_if (is_const l \<and> is_const r) (InvalidRequest (path @ '' must compare at least one non-constant operand''))
       (Inr (Compare l op r)))))"

definition parse_change :: "string list option \<Rightarrow> obj \<Rightarrow> string \<Rightarrow> condition res" where
  "parse_change refs ob path =
     bindR (parse_operand refs (get ob ''operand'') (path @ ''.operand'')) (\<lambda>x.
     raise_if (case x of OFeature _ \<Rightarrow> False | _ \<Rightarrow> True) (InvalidRequest (path @ ''.operand must be a feature reference''))
     (bindR (at_least_one (get ob ''lookback'') (path @ ''.lookback'')) (\<lambda>n.
      bindR (read_op ob path) (\<lambda>op.
      bindR (number (get ob ''value'') (path @ ''.value'')) (\<lambda>v. Inr (Change x n op v))))))"

definition parse_in_range :: "string list option \<Rightarrow> obj \<Rightarrow> string \<Rightarrow> condition res" where
  "parse_in_range refs ob path = bindR (parse_range (parse_operand refs) ob path) (\<lambda>r. Inr (InRange r))"

text \<open>The fields of a condition class, and those a short override may replace.\<close>

definition CLASS_FIELDS :: "(string \<times> string list \<times> string list) list" where
  "CLASS_FIELDS =
     [(''compare'', [''left'', ''op'', ''right''], [''left'', ''op'', ''right'']),
      (''range'', [''operand'', ''min'', ''max'', ''bounds'', ''empty''], [''min'', ''max'', ''bounds'', ''empty'']),
      (''change'', [''operand'', ''lookback'', ''op'', ''value''], [''op'', ''value''])]"

definition parse_condition :: "string \<Rightarrow> string list option \<Rightarrow> obj \<Rightarrow> string \<Rightarrow> condition res" where
  "parse_condition kind refs ob path =
     (if kind = ''compare'' then parse_compare refs ob path
      else if kind = ''range'' then parse_in_range refs ob path else parse_change refs ob path)"

text \<open>A short override never introduces an episode operand, and over an episode only a constant.\<close>

definition check_episode_override :: "condition \<Rightarrow> condition \<Rightarrow> obj \<Rightarrow> string \<Rightarrow> unit res" where
  "check_episode_override long short override path =
     (let has_episode = list_ex operand_needs_episode (condition_operands long) in
      bindR (mapR (\<lambda>(role, x).
        if \<not> has_key override role then Inr ()
        else raise_if (operand_needs_episode x) (InvalidRequest (path @ ''.'' @ role @ '' must not be an episode, segment or ratio reference''))
          (raise_if (has_episode \<and> \<not> is_const x)
             (InvalidRequest (path @ ''.'' @ role @ '' of an episode predicate may only be a constant'')) (Inr ())))
        (zip [''left'', ''right''] (condition_operands short))) (\<lambda>_. Inr ()))"

definition parse_short :: "string \<Rightarrow> string list \<Rightarrow> condition \<Rightarrow> string list option \<Rightarrow> obj \<Rightarrow> string \<Rightarrow> condition option res" where
  "parse_short kind overridable long refs ob path =
     (case get ob ''short'' of JNull \<Rightarrow> Inr None
      | v \<Rightarrow> bindR (require_mapping v (path @ ''.short'')) (\<lambda>override.
          raise_if (override = []) (InvalidRequest (path @ ''.short must not be empty''))
          (only_fields override overridable (path @ ''.short'')
          (bindR (parse_condition kind refs (overlay ob override) (path @ ''.short'')) (\<lambda>short.
           bindR (check_episode_override long short override (path @ ''.short'')) (\<lambda>_. Inr (Some short)))))))"

section \<open>Predicates\<close>

definition REGIMES :: "string list" where "REGIMES = [''aligned'', ''countertrend'', ''neutral'']"

text \<open>Regimes: hashed one after the other, then counted, then sorted.\<close>

fun read_regimes :: "json list \<Rightarrow> string \<Rightarrow> string list res" where
  "read_regimes [] msg = Inr []"
| "read_regimes (v # vs) msg =
     bindR (in_hashed v REGIMES msg) (\<lambda>s. bindR (read_regimes vs msg) (\<lambda>ss. Inr (s # ss)))"

definition parse_state :: "string list option \<Rightarrow> obj \<Rightarrow> string \<Rightarrow> any_predicate res" where
  "parse_state contexts ob path =
     only_fields ob [''kind'', ''context_ref'', ''in''] path
     (bindR (named (get ob ''context_ref'') (path @ ''.context_ref'')) (\<lambda>ref.
      raise_if (case contexts of None \<Rightarrow> False | Some cs \<Rightarrow> ref \<notin> set cs)
        (InvalidRequest (path @ ''.context_ref is not declared in contexts''))
      (let msg = path @ ''.in must be a non-empty unique subset of aligned, countertrend, neutral'' in
       case get ob ''in'' of
         JList vs \<Rightarrow> raise_if (vs = []) (InvalidRequest msg)
           (bindR (read_regimes vs msg) (\<lambda>rs.
            raise_if (\<not> distinct rs) (InvalidRequest msg) (Inr (State ref (sort_key id rs)))))
       | _ \<Rightarrow> Inl (InvalidRequest msg))))"

definition parse_temporal :: "(json \<Rightarrow> string \<Rightarrow> any_predicate res) \<Rightarrow> obj \<Rightarrow> string \<Rightarrow> any_predicate res" where
  "parse_temporal rec ob path =
     only_fields ob [''kind'', ''mode'', ''bars'', ''of''] path
     (bindR (in_hashed (get ob ''mode'') [''held_for'', ''within''] (path @ ''.mode must be held_for or within'')) (\<lambda>mode.
      bindR (at_least_one (get ob ''bars'') (path @ ''.bars'')) (\<lambda>bars.
      bindR (rec (get ob ''of'') (path @ ''.of'')) (\<lambda>inner.
      raise_if (case inner of Temporal _ _ _ \<Rightarrow> True | _ \<Rightarrow> False) (InvalidRequest (path @ ''.of must not be temporal''))
        (Inr (Temporal mode bars inner))))))"

definition parse_plain :: "string list option \<Rightarrow> obj \<Rightarrow> string \<Rightarrow> any_predicate res" where
  "parse_plain refs ob path =
     bindR (in_hashed (get ob ''kind'') (map fst CLASS_FIELDS) (path @ ''.kind must be compare, range, change, state or temporal'')) (\<lambda>kind.
     (case map_of CLASS_FIELDS kind of
        None \<Rightarrow> Inl (PyKeyError kind)
      | Some (flds, overridable) \<Rightarrow>
          only_fields ob ([''kind'', ''short''] @ flds) path
          (bindR (parse_condition kind refs ob path) (\<lambda>long.
           bindR (parse_short kind overridable long refs ob path) (\<lambda>short.
           Inr (Plain \<lparr>pr_long = long, pr_short = short\<rparr>))))))"

fun predicate_at :: "string list option \<Rightarrow> string list option \<Rightarrow> nat \<Rightarrow> json \<Rightarrow> string \<Rightarrow> any_predicate res" where
  "predicate_at contexts refs 0 raw path = Inl PyAssertionError"
| "predicate_at contexts refs (Suc n) raw path =
     bindR (require_mapping raw path) (\<lambda>ob.
     if get ob ''kind'' = JStr ''state'' then parse_state contexts ob path
     else if get ob ''kind'' = JStr ''temporal'' then parse_temporal (predicate_at contexts refs n) ob path
     else parse_plain refs ob path)"

definition parse_predicate :: "string list option \<Rightarrow> string list option \<Rightarrow> json \<Rightarrow> string \<Rightarrow> any_predicate res" where
  "parse_predicate contexts refs raw path = predicate_at contexts refs (Suc (size raw)) raw path"

section \<open>Change since the entry\<close>

definition parse_change_since_entry :: "json \<Rightarrow> string \<Rightarrow> change_since_entry res" where
  "parse_change_since_entry params path =
     bindR (require_mapping params path) (\<lambda>ob.
     only_fields ob [''operand'', ''op'', ''value''] path
     (bindR (parse_operand None (get ob ''operand'') (path @ ''.operand'')) (\<lambda>x.
      case x of
        OFeature f \<Rightarrow>
          bindR (read_op ob path) (\<lambda>op.
          bindR (number (get ob ''value'') (path @ ''.value'')) (\<lambda>v. Inr \<lparr>cse_feature = f, cse_op = op, cse_value = v\<rparr>))
      | _ \<Rightarrow> Inl (InvalidRequest (path @ ''.operand must be a feature reference'')))))"

end
