(* ===== verification/FeaturePlan.thy ===== *)
theory FeaturePlan
  imports PredicateParse EpisodeHistory WeightedVote
begin

text \<open>
  The feature plan of a strategy (\<open>feature_plan.py\<close>): every indicator the strategy reads, in the
  order its sections ask for them, and the columns that name them.  The local lists and dictionaries
  of \<open>build_feature_plan_from_canonical_spec\<close> are the record \<open>planner\<close>; the sections are its
  steps.  Predicate features come last and never take over a label of another feature.
\<close>

section \<open>The planner\<close>

record planner =
  pl_features :: "planned_feature list"
  pl_exits :: "(string \<times> string) list"
  pl_rsi :: "((string \<times> int) \<times> string) list"
  pl_adx :: "((string \<times> int) \<times> (string \<times> string) list) list"
  pl_setups :: "(string \<times> (string \<times> string) list) list"
  pl_ema :: "((string \<times> int) \<times> string) list"
  pl_contexts :: "(string \<times> (string \<times> string) list) list"
  pl_episodes :: "(string \<times> (string \<times> string) list) list"
  pl_episode_params :: "(string \<times> (string \<times> int) list) list"
  pl_predicates :: "planned_feature list"

definition empty_planner :: planner where
  "empty_planner = \<lparr>pl_features = [], pl_exits = [], pl_rsi = [], pl_adx = [], pl_setups = [], pl_ema = [], pl_contexts = [],
     pl_episodes = [], pl_episode_params = [], pl_predicates = []\<rparr>"

definition ALLOWED_KINDS :: "string list" where "ALLOWED_KINDS = map fk_kind CONTRACTS"

text \<open>\<open>add\<close>: the first feature of a label is planned, later ones of that label are not.\<close>

definition add_feature :: "planned_feature \<Rightarrow> planner \<Rightarrow> planner res" where
  "add_feature f s =
     raise_if (feature_kind f \<notin> set ALLOWED_KINDS) (InvalidRequest ''unsupported planned feature kind'')
     (if output_id f \<in> set (map output_id (pl_features s)) then Inr s
      else Inr (s\<lparr>pl_features := pl_features s @ [f]\<rparr>))"

section \<open>Requests of a section\<close>

definition plan_int :: "json \<Rightarrow> string \<Rightarrow> int res" where
  "plan_int v path =
     (case v of JInt n \<Rightarrow> raise_if (n \<le> 0) (InvalidRequest (path @ '' must be a positive integer'')) (Inr n)
      | _ \<Rightarrow> Inl (InvalidRequest (path @ '' must be a positive integer'')))"

text \<open>\<open>_label\<close>, \<open>_atr_id\<close>, \<open>_rsi_id\<close> and \<open>_adx_id\<close>\<close>

definition period_id :: "string \<Rightarrow> string \<Rightarrow> int \<Rightarrow> string" where
  "period_id kind tf period = kind @ ''_close_'' @ tf @ ''_'' @ show_int period"

definition close_feature :: "string \<Rightarrow> string \<Rightarrow> int \<Rightarrow> planned_feature" where
  "close_feature kind tf period =
     \<lparr>output_id = period_id kind tf period, feature_kind = kind, feature_timeframe = tf, feature_source = Some ''close'',
      parameters = [(''period'', JInt period)], dependencies = [], availability = ''bar_open''\<rparr>"

definition ema_request :: "json \<Rightarrow> string \<Rightarrow> (string \<times> string \<times> int) res" where
  "ema_request raw path =
     bindR (require_mapping raw path) (\<lambda>ob.
     bindR (plan_int (get ob ''period'') (path @ ''.period'')) (\<lambda>period.
     Inr (text_of ob ''source'' ''close'', text_of ob ''timeframe'' ''base'', period)))"

definition rsi_request :: "json \<Rightarrow> string \<Rightarrow> (string \<times> int) option res" where
  "rsi_request raw path =
     (if raw = JNull then Inr None
      else bindR (require_mapping raw path) (\<lambda>ob.
        bindR (plan_int (get_or ob ''period'' (JInt 14)) (path @ ''.period'')) (\<lambda>period.
        Inr (Some (text_of ob ''timeframe'' ''base'', period)))))"

definition add_ema :: "json \<Rightarrow> string \<Rightarrow> planner \<Rightarrow> (planner \<times> string) res" where
  "add_ema raw path s =
     bindR (ema_request raw path) (\<lambda>(source, tf, period).
     bindR (add_feature (ema_feature source tf period) s) (\<lambda>s'. Inr (s', output_id (ema_feature source tf period))))"

text \<open>The same, and its column under the timeframe and the period.\<close>

definition add_ema_column :: "json \<Rightarrow> string \<Rightarrow> planner \<Rightarrow> planner res" where
  "add_ema_column raw path s =
     bindR (ema_request raw path) (\<lambda>(source, tf, period).
     bindR (add_ema raw path s) (\<lambda>(s', oid). Inr (s'\<lparr>pl_ema := AList.update (tf, period) oid (pl_ema s')\<rparr>)))"

definition add_atr :: "string \<Rightarrow> int \<Rightarrow> planner \<Rightarrow> (planner \<times> string) res" where
  "add_atr tf period s =
     bindR (add_feature (close_feature ''atr'' tf period) s) (\<lambda>s'. Inr (s', period_id ''atr'' tf period))"

definition add_rsi :: "planner \<Rightarrow> string \<times> int \<Rightarrow> planner res" where
  "add_rsi s spec =
     (case spec of (tf, period) \<Rightarrow>
       bindR (add_feature (close_feature ''rsi'' tf period) s) (\<lambda>s'.
       Inr (s'\<lparr>pl_rsi := AList.update (tf, period) (period_id ''rsi'' tf period) (pl_rsi s')\<rparr>)))"

definition add_adx_dmi :: "string \<Rightarrow> int \<Rightarrow> planner \<Rightarrow> planner res" where
  "add_adx_dmi tf period s =
     (if map_of (pl_adx s) (tf, period) \<noteq> None then Inr s
      else bindR (foldR (\<lambda>s kind. add_feature (close_feature kind tf period) s) s ADX_KINDS) (\<lambda>s'.
        Inr (s'\<lparr>pl_adx := AList.update (tf, period) (map (\<lambda>kind. (kind, period_id kind tf period)) ADX_KINDS) (pl_adx s')\<rparr>)))"

section \<open>Contexts and episodes\<close>

definition ROLES :: "string list" where "ROLES = [''fast'', ''anchor'', ''slow'']"

text \<open>\<open>_context_ema_features\<close>: one role at a time, each planned before the next is read.\<close>

definition context_ema_feature :: "string \<Rightarrow> obj \<Rightarrow> string \<Rightarrow> planned_feature res" where
  "context_ema_feature ref provider role =
     bindR (plan_int (get provider (role @ ''_period'')) (''contexts.'' @ ref @ ''.'' @ role @ ''_period'')) (\<lambda>period.
     Inr (ema_feature (text_of provider ''source'' ''close'') (text_of provider ''timeframe'' []) period))"

definition add_context :: "planner \<Rightarrow> string \<times> json \<Rightarrow> planner res" where
  "add_context s c =
     (case c of (ref, raw) \<Rightarrow>
       bindR (require_mapping raw (''contexts.'' @ ref)) (\<lambda>provider.
       bindR (mapS (\<lambda>s role.
         bindR (context_ema_feature ref provider role) (\<lambda>f.
         bindR (add_feature f s) (\<lambda>s'. Inr (s', (role, output_id f))))) s ROLES) (\<lambda>(s', cols).
       Inr (s'\<lparr>pl_contexts := AList.update ref cols (pl_contexts s')\<rparr>))))"

definition context_section :: "obj \<Rightarrow> (string \<times> json) list res" where
  "context_section doc =
     (let raw = get_or doc ''contexts'' (JObj []) in
      if raw = JNull then Inr [] else require_mapping raw ''contexts'')"

definition episode_ints :: "episode_params \<Rightarrow> (string \<times> int) list" where
  "episode_ints p =
     [(''fast_period'', fast_period p), (''anchor_period'', anchor_period p), (''slow_period'', slow_period p),
      (''window_bars'', window_bars p), (''break_bars'', break_bars p), (''history_bars'', history_bars p)]"

definition episode_periods :: "episode_params \<Rightarrow> (string \<times> int) list" where
  "episode_periods p = [(''fast'', fast_period p), (''anchor'', anchor_period p), (''slow'', slow_period p)]"

definition add_episode :: "planner \<Rightarrow> string \<times> episode_params \<Rightarrow> planner res" where
  "add_episode s d =
     (case d of (ref, p) \<Rightarrow>
       bindR (mapS (\<lambda>s (role, period).
         bindR (add_ema (JObj [(''period'', JInt period)]) (''ema_stack_episode.'' @ ref @ ''.'' @ role @ ''_period'') s) (\<lambda>(s', oid).
         Inr (s', (role, oid)))) (s\<lparr>pl_episode_params := AList.update ref (episode_ints p) (pl_episode_params s)\<rparr>) (episode_periods p)) (\<lambda>(s', cols).
       Inr (s'\<lparr>pl_episodes := AList.update ref cols (pl_episodes s')\<rparr>)))"

section \<open>Setups\<close>

definition WIDTH_BAND_SETUP :: string where "WIDTH_BAND_SETUP = ''anchor_stack_width_band_setup''"

text \<open>The columns of the anchor stack: fast, anchor and slow.\<close>

type_synonym stack_columns = "string \<times> string \<times> string"

definition plan_setup_columns :: "stack_columns \<Rightarrow> string \<Rightarrow> string \<Rightarrow> obj \<Rightarrow> string \<Rightarrow> planner \<Rightarrow> planner res" where
  "plan_setup_columns stack cid inst params path s =
     (case stack of (fast, anchor, slow) \<Rightarrow>
       if cid = ''anchor_stack_width_setup'' then
         bindR (plan_int (get_or params ''atr_period'' (JInt 14)) (path @ ''.params.atr_period'')) (\<lambda>period.
         bindR (add_atr (text_of params ''atr_timeframe'' ''base'') period s) (\<lambda>(s', atr).
         Inr (s'\<lparr>pl_setups := AList.update inst
           [(''fast'', fast), (''anchor'', anchor), (''slow'', slow), (''atr'', atr)] (pl_setups s')\<rparr>)))
       else if cid = WIDTH_BAND_SETUP then
         bindR (parse_width_band_params params) (\<lambda>band.
         bindR (add_atr (band_atr_timeframe band) (band_atr_period band) s) (\<lambda>(s', atr).
         Inr (s'\<lparr>pl_setups := AList.update inst [(''fast'', fast), (''slow'', slow), (''atr'', atr)] (pl_setups s')\<rparr>)))
       else if cid = ''ema_bounce_counter_setup'' then
         Inr (s\<lparr>pl_setups := AList.update inst [(''fast'', fast), (''anchor'', anchor), (''slow'', slow)] (pl_setups s)\<rparr>)
       else Inr s)"

text \<open>The contexts and the episodes a predicate may name.\<close>

definition predicate_request :: "planner \<Rightarrow> obj \<Rightarrow> string \<Rightarrow> planned_feature list res" where
  "predicate_request s raw path =
     bindR (parse_predicate (Some (map fst (pl_contexts s))) (Some (map fst (pl_episodes s))) (JObj raw) path) (\<lambda>p.
     Inr (any_features p))"

definition add_predicate :: "obj \<Rightarrow> string \<Rightarrow> planner \<Rightarrow> planner res" where
  "add_predicate raw path s =
     bindR (predicate_request s raw path) (\<lambda>fs. Inr (s\<lparr>pl_predicates := pl_predicates s @ fs\<rparr>))"

text \<open>\<open>enumerate(items)\<close>\<close>

definition enumerated :: "'a list \<Rightarrow> (nat \<times> 'a) list" where
  "enumerated xs = zip [0 ..< length xs] xs"

definition add_setup_child :: "stack_columns \<Rightarrow> composite_spec \<Rightarrow> string \<Rightarrow> planner \<Rightarrow> nat \<times> composite_child \<Rightarrow> planner res" where
  "add_setup_child stack spec path s it =
     (case it of (j, child) \<Rightarrow>
       let p = at_index (path @ ''.params.children'') j in
       case child_predicate child of
         Some raw \<Rightarrow> add_predicate raw (p @ ''.predicate'') s
       | None \<Rightarrow>
           bindR (child_setup_item spec child) (\<lambda>item.
           bindR (require_mapping (get item ''params'') (p @ ''.setup'')) (\<lambda>params.
           plan_setup_columns stack (text_of item ''component_id'' []) (text_of item ''instance_id'' []) params (p @ ''.setup'') s)))"

definition add_setup :: "stack_columns \<Rightarrow> planner \<Rightarrow> nat \<times> json \<Rightarrow> planner res" where
  "add_setup stack s it =
     (case it of (i, raw) \<Rightarrow>
       let path = at_index ''setups'' i in
       bindR (require_mapping raw path) (\<lambda>ob.
       bindR (require_mapping (get_or ob ''params'' (JObj [])) (path @ ''.params'')) (\<lambda>params.
       let cid = text_of ob ''component_id'' [] in
       if cid = COMPOSITE_SETUP then
         bindR (parse_composite_setup ob path) (\<lambda>spec.
         foldR (add_setup_child stack spec path) s (enumerated (spec_children spec)))
       else if cid = WEIGHTED_VOTE_SETUP then
         bindR (parse_weighted_vote_setup ob path) (\<lambda>vote.
         foldR (\<lambda>s (i, raw). add_predicate raw (path @ ''.params.'' @ vi_input_id i) s) s
           (concat (map (\<lambda>i. map (Pair i) (input_predicates i)) (spec_inputs vote))))
       else plan_setup_columns stack cid (text_of ob ''instance_id'' []) params path s)))"

section \<open>Exits and blockers\<close>

text \<open>The rules of every group, in the order of the groups.\<close>

definition all_exits :: "rule_groups \<Rightarrow> obj list" where
  "all_exits groups =
     concat (map (\<lambda>g. case map_of groups g of None \<Rightarrow> [] | Some rs \<Rightarrow> rs) [''always_on'', ''aligned'', ''countertrend'', ''neutral''])"

definition distance_feature :: "string \<Rightarrow> f64 \<Rightarrow> string \<Rightarrow> planned_feature" where
  "distance_feature tf multiplier base_id =
     \<lparr>output_id = base_id @ ''_x'' @ multiplier_token multiplier, feature_kind = ''atr_distance'', feature_timeframe = tf,
      feature_source = None, parameters = [(''multiplier'', JFloat multiplier)], dependencies = [base_id], availability = ''bar_open''\<rparr>"

text \<open>\<open>dict.setdefault\<close>\<close>

definition set_default :: "'k \<Rightarrow> 'v \<Rightarrow> ('k \<times> 'v) list \<Rightarrow> ('k \<times> 'v) list" where
  "set_default k v d = (if map_of d k = None then d @ [(k, v)] else d)"

definition put_exit_column :: "string \<Rightarrow> string \<Rightarrow> string \<Rightarrow> (string \<times> string) list \<Rightarrow> (string \<times> string) list" where
  "put_exit_column inst kind column d =
     (let cols = AList.update inst column d in if kind \<noteq> PARTIAL_TAKE_EXIT_KIND then set_default kind column cols else cols)"

definition exit_distance :: "nat \<Rightarrow> obj \<Rightarrow> obj \<Rightarrow> planner \<Rightarrow> planner res" where
  "exit_distance i rule d s =
     bindR (plan_int (get_or d ''period'' (JInt 14)) (at_index ''exits'' i @ ''.distance.period'')) (\<lambda>period.
     bindR (py_float (get d ''multiplier'')) (\<lambda>multiplier.
     let tf = text_of d ''timeframe'' ''base'' in
     bindR (add_atr tf period s) (\<lambda>(s1, base_id).
     let f = distance_feature tf multiplier base_id in
     bindR (add_feature f s1) (\<lambda>s2.
     Inr (s2\<lparr>pl_exits := put_exit_column (text_of rule ''instance_id'' ''None'') (text_of rule ''exit_kind'' []) (output_id f) (pl_exits s2)\<rparr>)))))"

definition add_exit_distance :: "planner \<Rightarrow> nat \<times> obj \<Rightarrow> planner res" where
  "add_exit_distance s it =
     (case it of (i, rule) \<Rightarrow>
       bindR (require_non_empty_instance_id (get rule ''instance_id'') (at_index ''exits'' i @ ''.instance_id'')) (\<lambda>_.
       if get rule ''distance'' = JNull then Inr s
       else bindR (require_mapping (get rule ''distance'') (at_index ''exits'' i @ ''.distance'')) (\<lambda>d. exit_distance i rule d s)))"

text \<open>The RSI requests of the blockers and of the exits are collected and planned after both.\<close>

definition add_blocker :: "planner \<times> (string \<times> int) list \<Rightarrow> nat \<times> json \<Rightarrow> (planner \<times> (string \<times> int) list) res" where
  "add_blocker sr it =
     (case sr of (s, specs) \<Rightarrow> case it of (i, raw) \<Rightarrow>
       let path = at_index ''components.blockers'' i in
       bindR (require_mapping raw path) (\<lambda>ob.
       bindR (rsi_request (get ob ''rsi'') (path @ ''.rsi'')) (\<lambda>rsi.
       let specs' = specs @ (case rsi of None \<Rightarrow> [] | Some r \<Rightarrow> [r]) in
       if get ob ''trend_strength'' = JNull then Inr (s, specs')
       else bindR (require_mapping (get ob ''trend_strength'') (path @ ''.trend_strength'')) (\<lambda>t.
         bindR (plan_int (get_or t ''adx_period'' (JInt 14)) ''trend_strength.adx_period'') (\<lambda>period.
         bindR (add_adx_dmi (text_of t ''timeframe'' ''base'') period s) (\<lambda>s'. Inr (s', specs')))))))"

definition EXIT_EMA_FIELDS :: "string list" where "EXIT_EMA_FIELDS = [''ema'', ''fast_ema'', ''slow_ema'']"

definition add_exit_signal :: "planner \<times> (string \<times> int) list \<Rightarrow> nat \<times> obj \<Rightarrow> (planner \<times> (string \<times> int) list) res" where
  "add_exit_signal sr it =
     (case sr of (s, specs) \<Rightarrow> case it of (i, rule) \<Rightarrow>
       bindR (rsi_request (get rule ''rsi'') (at_index ''exits'' i @ ''.rsi'')) (\<lambda>rsi.
       bindR (foldR (\<lambda>s fld. if get rule fld = JNull then Inr s else add_ema_column (get rule fld) (at_index ''exits'' i @ ''.'' @ fld) s)
         s EXIT_EMA_FIELDS) (\<lambda>s'.
       Inr (s', specs @ (case rsi of None \<Rightarrow> [] | Some r \<Rightarrow> [r])))))"

section \<open>Exit management\<close>

text \<open>\<open>for item in (value or ())\<close>: a mapping gives its keys, a text its characters.\<close>

definition iterate_or_empty :: "json \<Rightarrow> json list res" where
  "iterate_or_empty v =
     (if \<not> truthy v then Inr []
      else case v of JList xs \<Rightarrow> Inr xs | JObj ob \<Rightarrow> Inr (map (\<lambda>kv. JStr (fst kv)) ob) | JStr t \<Rightarrow> Inr (map (\<lambda>c. JStr [c]) t)
        | _ \<Rightarrow> Inl (PyTypeError ''object is not iterable''))"

definition plan_phase_atom :: "obj \<Rightarrow> string \<Rightarrow> planner \<Rightarrow> planner res" where
  "plan_phase_atom condition path s =
     (let cid = text_of condition ''component_id'' [] in
      bindR (require_mapping (get_or condition ''params'' (JObj [])) (path @ ''.params'')) (\<lambda>params.
      if cid = ''mfe_atr'' then
        bindR (require_mapping (get params ''atr'') (path @ ''.params.atr'')) (\<lambda>atr.
        bindR (plan_int (get atr ''period'') ''phase_rule.atr.period'') (\<lambda>period.
        bindR (add_atr (text_of atr ''timeframe'' ''base'') period s) (\<lambda>(s', _). Inr s')))
      else if cid = ''adx_di_threshold'' then
        bindR (plan_int (get params ''period'') ''phase_rule.period'') (\<lambda>period.
        add_adx_dmi (text_of params ''timeframe'' ''base'') period s)
      else if cid = ''change_since_entry'' then
        bindR (parse_change_since_entry (JObj params) (path @ ''.params'')) (\<lambda>c.
        Inr (s\<lparr>pl_predicates := pl_predicates s @ [cse_feature c]\<rparr>))
      else Inr s))"

definition add_phase_child :: "string \<Rightarrow> planner \<Rightarrow> composite_child \<Rightarrow> planner res" where
  "add_phase_child path s child =
     (let p = path @ ''.params.children.'' @ child_id child in
      case child_predicate child of
        Some raw \<Rightarrow> add_predicate raw (p @ ''.predicate'') s
      | None \<Rightarrow> (case child_condition child of None \<Rightarrow> Inl PyAssertionError
          | Some c \<Rightarrow> plan_phase_atom c (p @ ''.condition'') s))"

definition add_phase_rule :: "planner \<Rightarrow> nat \<times> json \<Rightarrow> planner res" where
  "add_phase_rule s it =
     (case it of (i, raw) \<Rightarrow>
       bindR (require_mapping raw (at_index ''phase_rules'' i)) (\<lambda>ob.
       let path = at_index ''phase_rules'' i @ ''.condition'' in
       bindR (require_mapping (get ob ''condition'') path) (\<lambda>c.
       if text_of c ''component_id'' [] = COMPOSITE_PHASE_CONDITION then
         bindR (parse_composite_phase_condition c path) (\<lambda>pc. foldR (add_phase_child path) s (cond_children pc))
       else plan_phase_atom c path s)))"

definition add_stop :: "planner \<Rightarrow> nat \<times> json \<Rightarrow> planner res" where
  "add_stop s it =
     (case it of (i, raw) \<Rightarrow>
       let path = at_index ''stop_management'' i in
       bindR (require_mapping raw path) (\<lambda>ob.
       bindR (require_mapping (get_or ob ''params'' (JObj [])) (path @ ''.params'')) (\<lambda>params.
       let cid = text_of ob ''component_id'' [] in
       if cid = ''lock_profit_stop'' \<or> cid = ''break_even_stop'' \<and> get params ''buffer_type'' = JStr ''atr'' then
         bindR (require_mapping (get_or params ''atr'' (JObj [])) (path @ ''.params.atr'')) (\<lambda>atr.
         bindR (plan_int (get_or atr ''period'' (get_or params ''atr_period'' (JInt 14))) (path @ ''.params.atr_period'')) (\<lambda>period.
         bindR (add_atr (text_of atr ''timeframe'' ''base'') period s) (\<lambda>(s', _). Inr s')))
       else Inr s)))"

definition add_runtime_exit :: "planner \<Rightarrow> nat \<times> json \<Rightarrow> planner res" where
  "add_runtime_exit s it =
     (case it of (i, raw) \<Rightarrow>
       let path = at_index ''runtime_exits'' i in
       bindR (require_mapping raw path) (\<lambda>ob.
       bindR (require_mapping (get_or ob ''params'' (JObj [])) (path @ ''.params'')) (\<lambda>params.
       let cid = text_of ob ''component_id'' [] in
       if cid = ''rsi_signal_exit'' then
         bindR (rsi_request (get params ''rsi'') (path @ ''.params.rsi'')) (\<lambda>rsi.
         case rsi of None \<Rightarrow> Inr s | Some r \<Rightarrow> add_rsi s r)
       else if cid = ''ema_cross_loss_exit'' then
         foldR (\<lambda>s fld. add_ema_column (get params fld) (path @ ''.params.'' @ fld) s) s [''fast_ema'', ''slow_ema'']
       else Inr s)))"

section \<open>Predicate features\<close>

text \<open>Equality of planned features; parameters are dictionaries, so their order does not count.\<close>

definition same_feature :: "planned_feature \<Rightarrow> planned_feature \<Rightarrow> bool" where
  "same_feature f g \<longleftrightarrow>
     output_id f = output_id g \<and> feature_kind f = feature_kind g \<and> feature_timeframe f = feature_timeframe g \<and>
     feature_source f = feature_source g \<and> set (parameters f) = set (parameters g) \<and> dependencies f = dependencies g \<and>
     availability f = availability g"

definition find_label :: "planned_feature list \<Rightarrow> string \<Rightarrow> planned_feature option" where
  "find_label fs oid = find (\<lambda>f. output_id f = oid) fs"

definition add_predicate_feature :: "planner \<Rightarrow> planned_feature \<Rightarrow> planner res" where
  "add_predicate_feature s f =
     raise_if (case find_label (pl_features s) (output_id f) of None \<Rightarrow> False | Some g \<Rightarrow> \<not> same_feature g f)
       (InvalidRequest ''predicate feature collides with a different planned feature'')
       (add_feature f s)"

section \<open>The plan\<close>

text \<open>The sections up to the predicates, in their order.\<close>

definition plan_stack :: "obj \<Rightarrow> (planner \<times> stack_columns) res" where
  "plan_stack stack =
     bindR (add_ema (get stack ''fast'') ''anchor_stack.fast'' empty_planner) (\<lambda>(s1, fast).
     bindR (add_ema (get stack ''anchor'') ''anchor_stack.anchor'' s1) (\<lambda>(s2, anchor).
     bindR (add_ema (get stack ''slow'') ''anchor_stack.slow'' s2) (\<lambda>(s3, slow). Inr (s3, fast, anchor, slow))))"

definition plan_inputs :: "obj \<Rightarrow> planner \<Rightarrow> planner res" where
  "plan_inputs doc s =
     bindR (context_section doc) (\<lambda>contexts.
     bindR (foldR add_context s contexts) (\<lambda>s1.
     bindR (parse_episode_section doc) (\<lambda>declared. foldR add_episode s1 declared)))"

definition plan_signals :: "obj \<Rightarrow> obj list \<Rightarrow> planner \<Rightarrow> planner res" where
  "plan_signals comps exits s =
     bindR (foldR add_exit_distance s (enumerated exits)) (\<lambda>s1.
     bindR (require_list (get comps ''blockers'') ''components.blockers'') (\<lambda>blockers.
     bindR (foldR add_blocker (s1, []) (enumerated blockers)) (\<lambda>b.
     bindR (foldR add_exit_signal b (enumerated exits)) (\<lambda>(s2, specs). foldR add_rsi s2 specs))))"

definition plan_management :: "obj \<Rightarrow> planner \<Rightarrow> planner res" where
  "plan_management management s =
     bindR (require_mapping (get_or management ''exit_management'' (JObj [])) ''trade_management.exit_management'') (\<lambda>em.
     bindR (iterate_or_empty (get_or em ''phase_rules'' (JList []))) (\<lambda>rules.
     bindR (foldR add_phase_rule s (enumerated rules)) (\<lambda>s1.
     bindR (iterate_or_empty (get_or em ''stop_management'' (JList []))) (\<lambda>stops.
     bindR (foldR add_stop s1 (enumerated stops)) (\<lambda>s2.
     bindR (iterate_or_empty (get_or em ''runtime_exits'' (JList []))) (\<lambda>exits.
     foldR add_runtime_exit s2 (enumerated exits)))))))"

definition finished_plan :: "stack_columns \<Rightarrow> planner \<Rightarrow> ema_plan" where
  "finished_plan stack s =
     (case stack of (fast, anchor, slow) \<Rightarrow>
       \<lparr>plan_indicators = \<lparr>plan_version = ''bbb_v1'', features = pl_features s\<rparr>,
        anchor_columns = [(''fast'', fast), (''anchor'', anchor), (''slow'', slow)],
        exit_distance_columns = pl_exits s, rsi_columns = pl_rsi s, adx_dmi_columns = pl_adx s,
        setup_columns_by_instance_id = pl_setups s, ema_columns = pl_ema s, htf_context_columns_by_ref = pl_contexts s,
        episode_columns_by_ref = pl_episodes s, episode_params_by_ref = pl_episode_params s\<rparr>)"

text \<open>Every section up to the predicate features.\<close>

definition collect_plan :: "obj \<Rightarrow> (stack_columns \<times> planner) res" where
  "collect_plan doc =
     bindR (require_mapping (get doc ''anchor_stack'') ''anchor_stack'') (\<lambda>stack.
     bindR (require_mapping (get doc ''components'') ''components'') (\<lambda>comps.
     bindR (require_mapping (get doc ''trade_management'') ''trade_management'') (\<lambda>management.
     bindR (plan_stack stack) (\<lambda>(s0, cols).
     bindR (plan_inputs doc s0) (\<lambda>s1.
     bindR (resolve_exit_rule_groups doc) (\<lambda>groups.
     bindR (require_list (get doc ''setups'') ''setups'') (\<lambda>setups.
     bindR (foldR (add_setup cols) s1 (enumerated setups)) (\<lambda>s2.
     bindR (plan_signals comps (all_exits groups) s2) (\<lambda>s3.
     bindR (plan_management management s3) (\<lambda>s4. Inr (cols, s4)))))))))))"

definition build_feature_plan_from_canonical_spec :: "obj \<Rightarrow> ema_plan res" where
  "build_feature_plan_from_canonical_spec doc =
     bindR (collect_plan doc) (\<lambda>(cols, s).
     bindR (foldR add_predicate_feature s (pl_predicates s)) (\<lambda>s'. Inr (finished_plan cols s')))"

section \<open>Identities\<close>

definition resolve_feature_identities :: "ema_plan \<Rightarrow> string \<Rightarrow> node_ids res" where
  "resolve_feature_identities plan base = resolve_indicator_plan (plan_indicators plan) base"

definition resolve_ema_request :: "json \<Rightarrow> string \<Rightarrow> string \<Rightarrow> node res" where
  "resolve_ema_request raw path base =
     bindR (ema_request raw path) (\<lambda>(source, tf, period). resolve_feature (ema_feature source tf period) base [])"

definition resolve_context_ema_requests :: "obj \<Rightarrow> string \<Rightarrow> (string \<times> (string \<times> node) list) list res" where
  "resolve_context_ema_requests doc base =
     bindR (context_section doc) (\<lambda>contexts.
     mapR (\<lambda>(ref, raw).
       bindR (require_mapping raw (''contexts.'' @ ref)) (\<lambda>provider.
       bindR (mapR (\<lambda>role. bindR (context_ema_feature ref provider role) (\<lambda>f.
         bindR (resolve_feature f base []) (\<lambda>n. Inr (role, n)))) ROLES) (\<lambda>nodes. Inr (ref, nodes)))) contexts)"

section \<open>Wire\<close>

definition columns_wire :: "(string \<times> string) list \<Rightarrow> json" where
  "columns_wire cols = JObj (map (\<lambda>(k, v). (k, JStr v)) cols)"

text \<open>\<open>f"{timeframe}:{period}"\<close>\<close>

definition period_key :: "string \<times> int \<Rightarrow> string" where
  "period_key k = (case k of (tf, period) \<Rightarrow> tf @ '':'' @ show_int period)"

text \<open>A dictionary comprehension: a repeated key keeps its place and takes the last value.\<close>

definition dict_of :: "(string \<times> json) list \<Rightarrow> obj" where
  "dict_of kvs = foldl (\<lambda>d (k, v). AList.update k v d) [] kvs"

definition plan_hash :: "(obj \<Rightarrow> string) \<Rightarrow> indicator_plan \<Rightarrow> string" where
  "plan_hash content_hash plan =
     content_hash [(''plan_version'', JStr (plan_version plan)), (''features'', JList (map (\<lambda>f. JObj (canonical_payload f)) (features plan)))]"

definition plan_to_wire :: "(obj \<Rightarrow> string) \<Rightarrow> ema_plan \<Rightarrow> obj" where
  "plan_to_wire content_hash plan =
     [(''plan_version'', JStr (plan_version (plan_indicators plan))),
      (''plan_hash'', JStr (plan_hash content_hash (plan_indicators plan))),
      (''features'', JList (map (\<lambda>f. JObj (canonical_payload f)) (features (plan_indicators plan)))),
      (''anchor_columns'', columns_wire (anchor_columns plan)),
      (''exit_distance_columns'', columns_wire (exit_distance_columns plan)),
      (''rsi_columns'', JObj (dict_of (map (\<lambda>(k, v). (period_key k, JStr v)) (rsi_columns plan)))),
      (''adx_dmi_columns'', JObj (dict_of (map (\<lambda>(k, v). (period_key k, columns_wire v)) (adx_dmi_columns plan)))),
      (''setup_columns_by_instance_id'', JObj (map (\<lambda>(k, v). (k, columns_wire v)) (setup_columns_by_instance_id plan))),
      (''ema_columns'', JObj (dict_of (map (\<lambda>(k, v). (period_key k, JStr v)) (ema_columns plan)))),
      (''htf_context_columns_by_ref'', JObj (map (\<lambda>(k, v). (k, columns_wire v)) (htf_context_columns_by_ref plan)))] @
     (if episode_columns_by_ref plan = [] then []
      else [(''episode_columns_by_ref'', JObj (map (\<lambda>(k, v). (k, columns_wire v)) (episode_columns_by_ref plan))),
            (''episode_params_by_ref'', JObj (map (\<lambda>(k, v). (k, JObj (map (\<lambda>(f, n). (f, JInt n)) v))) (episode_params_by_ref plan)))])"

end
