(* ===== verification/PredicateFacts.thy ===== *)
theory PredicateFacts
  imports PredicateParse
begin

text \<open>
  The size of a document is enough fuel for its parser: the parsers of nested documents are only
  called on smaller ones, so \<open>parse_operand\<close>, \<open>sampled_operand\<close> and \<open>parse_predicate\<close> satisfy the
  recursion equations of the code.
\<close>

section \<open>Nested documents are smaller\<close>

lemma size_member: "map_of ob k = Some v \<Longrightarrow> size v < size (JObj ob)"
  by (induction ob) (auto split: if_splits)

lemma size_get: "size (get ob k) < size (JObj ob)"
  by (auto simp: get_def get_or_def split: option.splits dest: size_member)

lemma size_value: "size v < size (JObj [(key, v)])"
  by simp

lemma size_item: "it \<in> set its \<Longrightarrow> size it < size (JList its)"
  by (induction its) auto

text \<open>Two parsers that agree below a size.\<close>

definition agree_below :: "nat \<Rightarrow> operand_parser \<Rightarrow> operand_parser \<Rightarrow> bool" where
  "agree_below n r s \<longleftrightarrow> (\<forall>raw path. size raw < n \<longrightarrow> r raw path = s raw path)"

lemma agree_belowD: "agree_below n r s \<Longrightarrow> size raw < n \<Longrightarrow> r raw path = s raw path"
  by (simp add: agree_below_def)

lemma agree_get: "agree_below n r s \<Longrightarrow> size (JObj ob) \<le> n \<Longrightarrow> r (get ob k) path = s (get ob k) path"
  using size_get[of ob k] by (auto intro: agree_belowD)

lemma agree_below_mono: "agree_below n r s \<Longrightarrow> m \<le> n \<Longrightarrow> agree_below m r s"
  by (auto simp: agree_below_def)

section \<open>The parsers read nested documents only\<close>

text \<open>Equal continuations of an equal reading.\<close>

lemma bindR_cong_right: "(\<And>x. m = Inr x \<Longrightarrow> f x = g x) \<Longrightarrow> bindR m f = bindR m g"
  by (cases m) auto

lemma parse_ratio_cong: "agree_below (size raw) r s \<Longrightarrow> parse_ratio r raw path = parse_ratio s raw path"
  unfolding parse_ratio_def by (rule bindR_cong_right) (simp add: res_simps agree_get)

lemma parse_difference_cong: "agree_below (size raw) r s \<Longrightarrow> parse_difference r raw path = parse_difference s raw path"
  unfolding parse_difference_def by (rule bindR_cong_right) (simp add: res_simps agree_get)

lemma parse_at_point_cong: "agree_below (size raw) r s \<Longrightarrow> parse_at_point r refs raw path = parse_at_point s refs raw path"
  unfolding parse_at_point_def by (rule bindR_cong_right) (simp add: res_simps agree_get)

lemma parse_signed_cong: "agree_below (size raw) r s \<Longrightarrow> parse_signed r raw path = parse_signed s raw path"
  unfolding parse_signed_def by (rule bindR_cong_right) (simp add: res_simps agree_get)

lemma parse_scale_cong: "agree_below (size raw) r s \<Longrightarrow> parse_scale r raw path = parse_scale s raw path"
  unfolding parse_scale_def by (rule bindR_cong_right) (simp add: res_simps agree_get)

lemma parse_range_cong: "agree_below n r s \<Longrightarrow> size (JObj ob) \<le> n \<Longrightarrow> parse_range r ob path = parse_range s ob path"
  by (simp add: parse_range_def agree_get)

lemma requirements_cong:
  "agree_below n r s \<Longrightarrow> size (JList its) \<le> n \<Longrightarrow> requirements_at r path i its = requirements_at s path i its"
proof (induction its arbitrary: i)
  case (Cons it its)
  have "parse_range r ob p = parse_range s ob p" if "it = JObj ob" for ob p
    by (rule parse_range_cong[OF Cons.prems(1)]) (use Cons.prems(2) that in simp)
  moreover have "requirements_at r path (Suc i) its = requirements_at s path (Suc i) its"
    by (rule Cons.IH[OF Cons.prems(1)]) (use Cons.prems(2) in simp)
  ultimately show ?case by (auto simp: Let_def res_simps only_fields_def intro!: bindR_cong_right)
qed simp

lemma parse_only_if_cong:
  assumes "agree_below (size raw) r s"
  shows "parse_only_if r raw path = parse_only_if s raw path"
proof (cases "\<exists>ob. raw = JObj ob")
  case True
  then obtain ob where raw: "raw = JObj ob" by blast
  have "requirements_at r path 0 its = requirements_at s path 0 its" if "get ob ''require'' = JList its" for its
    by (rule requirements_cong[OF assms]) (use size_get[of ob "''require''"] that raw in simp)
  moreover have "r (get ob ''operand'') p = s (get ob ''operand'') p" for p
    by (rule agree_get[OF assms]) (simp add: raw)
  ultimately show ?thesis by (cases "get ob ''require''") (simp_all add: parse_only_if_def raw)
next
  case False
  then show ?thesis by (cases raw) (simp_all add: parse_only_if_def require_mapping_def)
qed

lemma parse_interval_change_cong:
  "agree_below (size raw) r s \<Longrightarrow> parse_interval_change refs r raw path = parse_interval_change refs s raw path"
  unfolding parse_interval_change_def by (rule bindR_cong_right) (simp add: res_simps agree_get)

lemma parse_absolute_cong: "size raw < n \<Longrightarrow> agree_below n r s \<Longrightarrow> parse_absolute r raw path = parse_absolute s raw path"
  by (simp add: parse_absolute_def agree_belowD)

lemma parse_operand_key_cong:
  assumes "agree_below (size (JObj [(key, v)])) r r'" "agree_below (size (JObj [(key, v)])) s s'"
  shows "parse_operand_key refs r s key v path = parse_operand_key refs r' s' key v path"
proof -
  have v: "agree_below (size v) r r'" "agree_below (size v) s s'" "size v < size (JObj [(key, v)])"
    using assms by (auto intro: agree_below_mono)
  show ?thesis unfolding parse_operand_key_def Let_def
    by (simp only: parse_ratio_cong[OF v(1)] parse_difference_cong[OF v(1)] parse_at_point_cong[OF v(1)] parse_signed_cong[OF v(1)]
      parse_scale_cong[OF v(1)] parse_only_if_cong[OF v(1)] parse_interval_change_cong[OF v(2)] parse_absolute_cong[OF v(3) assms(1)])
qed

lemma parse_operand_with_cong:
  assumes "agree_below (size raw) r r'" "agree_below (size raw) s s'"
  shows "parse_operand_with refs r s raw path = parse_operand_with refs r' s' raw path"
proof (cases "\<exists>key v. raw = JObj [(key, v)]")
  case True
  then obtain key v where raw: "raw = JObj [(key, v)]" by blast
  show ?thesis using parse_operand_key_cong[of key v r r' s s' refs path] assms by (simp add: parse_operand_with_def raw)
next
  case False
  then show ?thesis by (cases raw) (auto simp: parse_operand_with_def require_mapping_def split: list.split)
qed

lemma sampled_key_cong:
  assumes "agree_below (size (JObj [(key, v)])) r r'" "l (JObj [(key, v)]) path = l' (JObj [(key, v)]) path"
  shows "sampled_key l r key v (JObj [(key, v)]) path = sampled_key l' r' key v (JObj [(key, v)]) path"
proof -
  have "r (get d k) p = r' (get d k) p" if "v = JObj d" for d k p
    by (rule agree_get[OF assms(1)]) (simp add: that)
  then have "bindR (require_mapping v q) (\<lambda>d. if key = ''scale'' then sampled_scale r d path else sampled_pair r key d path) =
      bindR (require_mapping v q) (\<lambda>d. if key = ''scale'' then sampled_scale r' d path else sampled_pair r' key d path)" for q
    by (intro bindR_cong_right) (simp add: res_simps sampled_scale_def sampled_pair_def)
  moreover have "r v p = r' v p" for p by (rule agree_belowD[OF assms(1)]) simp
  ultimately show ?thesis using assms(2) by (simp only: sampled_key_def)
qed

lemma parse_sampled_cong:
  assumes "agree_below (size raw) r r'" "l raw path = l' raw path"
  shows "parse_sampled l r raw path = parse_sampled l' r' raw path"
proof (cases "\<exists>key v. raw = JObj [(key, v)]")
  case True
  then obtain key v where raw: "raw = JObj [(key, v)]" by blast
  show ?thesis using sampled_key_cong[of key v r r' l path l'] assms by (simp add: parse_sampled_def raw)
next
  case False
  then show ?thesis by (cases raw) (auto simp: parse_sampled_def require_mapping_def split: list.split)
qed

section \<open>Enough fuel\<close>

lemma fuel_enough:
  "size raw < n \<Longrightarrow> parse_operand_at refs n raw path = parse_operand_at refs (Suc (size raw)) raw path \<and>
     parse_sampled_at refs n raw path = parse_sampled_at refs (Suc (size raw)) raw path"
proof (induction "size raw" arbitrary: raw path n rule: less_induct)
  case less
  obtain m where m: "n = Suc m" "size raw \<le> m" using less.prems by (cases n) auto
  have "parse_operand_at refs m x p = parse_operand_at refs (size raw) x p \<and> parse_sampled_at refs m x p = parse_sampled_at refs (size raw) x p"
    if "size x < size raw" for x p
    using less.hyps[OF that, of m p] less.hyps[OF that, of "size raw" p] that m(2) by simp
  then have agree: "agree_below (size raw) (parse_operand_at refs m) (parse_operand_at refs (size raw))"
       "agree_below (size raw) (parse_sampled_at refs m) (parse_sampled_at refs (size raw))"
    unfolding agree_below_def by blast+
  have o: "parse_operand_with refs (parse_operand_at refs m) (parse_sampled_at refs m) raw path =
      parse_operand_with refs (parse_operand_at refs (size raw)) (parse_sampled_at refs (size raw)) raw path"
    by (rule parse_operand_with_cong[OF agree])
  show ?case unfolding m(1) parse_operand_at.simps parse_sampled_at.simps
    by (intro conjI o parse_sampled_cong agree(2))
qed

lemma operand_fuel: "size raw < n \<Longrightarrow> parse_operand_at refs n raw path = parse_operand refs raw path"
  by (simp add: parse_operand_def fuel_enough[THEN conjunct1])

lemma sampled_fuel: "size raw < n \<Longrightarrow> parse_sampled_at refs n raw path = sampled_operand refs raw path"
  by (simp add: sampled_operand_def fuel_enough[THEN conjunct2])

text \<open>The recursion equations of the code.\<close>

lemma parse_operand_rec:
  "parse_operand refs raw path = parse_operand_with refs (parse_operand refs) (sampled_operand refs) raw path"
proof -
  have "agree_below (size raw) (parse_operand_at refs (size raw)) (parse_operand refs)"
    "agree_below (size raw) (parse_sampled_at refs (size raw)) (sampled_operand refs)"
    by (simp_all add: agree_below_def operand_fuel sampled_fuel)
  from parse_operand_with_cong[OF this] show ?thesis by (simp add: parse_operand_def)
qed

lemma sampled_operand_rec:
  "sampled_operand refs raw path = parse_sampled (parse_operand refs) (sampled_operand refs) raw path"
proof -
  have a: "agree_below (size raw) (parse_sampled_at refs (size raw)) (sampled_operand refs)"
    by (simp add: agree_below_def sampled_fuel)
  have "parse_operand_with refs (parse_operand_at refs (size raw)) (parse_sampled_at refs (size raw)) raw path = parse_operand refs raw path"
    by (simp add: parse_operand_def)
  then have "parse_sampled (parse_operand_with refs (parse_operand_at refs (size raw)) (parse_sampled_at refs (size raw)))
      (parse_sampled_at refs (size raw)) raw path = parse_sampled (parse_operand refs) (sampled_operand refs) raw path"
    by (intro parse_sampled_cong a)
  then show ?thesis by (simp add: sampled_operand_def)
qed

lemma parse_temporal_cong:
  assumes "\<And>raw' path. size raw' < size (JObj ob) \<Longrightarrow> r raw' path = s raw' path"
  shows "parse_temporal r ob path = parse_temporal s ob path"
  using assms[OF size_get[of ob "''of''"]] by (simp add: parse_temporal_def)

lemma predicate_fuel: "size raw < n \<Longrightarrow> predicate_at contexts refs n raw path = parse_predicate contexts refs raw path"
proof (induction "size raw" arbitrary: raw path n rule: less_induct)
  case less
  obtain m where m: "n = Suc m" "size raw \<le> m" using less.prems by (cases n) auto
  have "predicate_at contexts refs m raw' p = predicate_at contexts refs (size raw) raw' p" if "size raw' < size raw" for raw' p
    using less.hyps[OF that, of m p] less.hyps[OF that, of "size raw" p] that m(2) by simp
  then show ?case unfolding parse_predicate_def m(1)
    by (auto simp: res_simps intro!: bindR_cong_right parse_temporal_cong)
qed

lemma parse_predicate_rec:
  "parse_predicate contexts refs raw path =
     bindR (require_mapping raw path) (\<lambda>ob.
     if get ob ''kind'' = JStr ''state'' then parse_state contexts ob path
     else if get ob ''kind'' = JStr ''temporal'' then parse_temporal (parse_predicate contexts refs) ob path
     else parse_plain refs ob path)"
  unfolding parse_predicate_def[of contexts refs raw] predicate_at.simps
  by (rule bindR_cong_right) (auto simp: res_simps intro!: parse_temporal_cong predicate_fuel)

text \<open>
  Every feature of a parsed predicate is one that \<open>plan_feature_request\<close> made: its kind accepts it,
  it carries the label of its kind, and it depends on no other feature.
\<close>

section \<open>Requested features\<close>

definition requested :: "planned_feature \<Rightarrow> bool" where
  "requested f \<longleftrightarrow> (\<exists>kind tf source params avail. plan_feature_request kind tf source params avail = Inr f)"

lemma make_planned_feature_Inr:
  "make_planned_feature f = Inr g \<longleftrightarrow>
     g = f \<and> availability f \<in> {''bar_open'', ''bar_close''} \<and> (dependencies f = [] \<or> availability f = ''bar_open'')"
  by (auto simp: make_planned_feature_def raise_if_Inr)

lemma request_Inr:
  assumes "plan_feature_request kind tf source params avail = Inr f"
  obtains c u l where "find_feature_kind kind = Some c" "requestable c" "fk_validate c u = Inr ()"
    "fk_label c (feature_timeframe u) (feature_source u) (parameters u) [] = Inr l" "feature_kind u = kind" "dependencies u = []"
    "availability u = avail" "avail \<in> {''bar_open'', ''bar_close''}"
    "f = u\<lparr>output_id := l @ (if avail = ''bar_close'' then ''__bar_close'' else [])\<rparr>"
proof -
  obtain c where c: "find_feature_kind kind = Some c" using assms
    by (auto simp: plan_feature_request_def kind_of_def res_simps split: option.splits)
  define u where "u = \<lparr>output_id = [], feature_kind = kind, feature_timeframe = (case tf of None \<Rightarrow> ''base'' | Some t \<Rightarrow> t),
    feature_source = (case source of None \<Rightarrow> fk_default_source c | Some s \<Rightarrow> Some s), parameters = params, dependencies = [], availability = avail\<rparr>"
  have "requestable c \<and> bindR (make_planned_feature u) (\<lambda>unlabeled. bindR (fk_validate c unlabeled) (\<lambda>_.
      bindR (fk_label c (feature_timeframe u) (feature_source u) (parameters unlabeled) []) (\<lambda>l.
      make_planned_feature (unlabeled\<lparr>output_id := l @ (if avail = ''bar_close'' then ''__bar_close'' else [])\<rparr>)))) = Inr f"
    using assms by (simp add: plan_feature_request_def kind_of_def c Let_def raise_if_Inr u_def)
  then obtain l where "requestable c" "fk_validate c u = Inr ()" "fk_label c (feature_timeframe u) (feature_source u) (parameters u) [] = Inr l"
    "make_planned_feature u = Inr u" "f = u\<lparr>output_id := l @ (if avail = ''bar_close'' then ''__bar_close'' else [])\<rparr>"
    by (auto simp: bindR_Inr make_planned_feature_Inr)
  then show thesis by (intro that[OF c]) (auto simp: make_planned_feature_Inr u_def)
qed

lemma requested_parts:
  assumes "requested f"
  shows "dependencies f = []" "find_feature_kind (feature_kind f) \<noteq> None" "availability f \<in> {''bar_open'', ''bar_close''}"
  using assms unfolding requested_def by (auto elim!: request_Inr)

section \<open>Whatever a parser accepts\<close>

text \<open>A partial judgement on results, with one rule per operator of the parsers.\<close>

definition ensures :: "'a res \<Rightarrow> ('a \<Rightarrow> bool) \<Rightarrow> bool" where
  "ensures r P \<longleftrightarrow> (\<forall>x. r = Inr x \<longrightarrow> P x)"

lemma ensures_Inl: "ensures (Inl e) P"
  and ensures_Inr: "P x \<Longrightarrow> ensures (Inr x) P"
  and ensures_raise: "ensures k P \<Longrightarrow> ensures (raise_if c e k) P"
  and ensures_only: "ensures k P \<Longrightarrow> ensures (only_fields ob allowed path k) P"
  and ensures_then: "ensures m Q \<Longrightarrow> (\<And>x. Q x \<Longrightarrow> ensures (f x) P) \<Longrightarrow> ensures (bindR m f) P"
  and ensures_bind: "(\<And>x. ensures (f x) P) \<Longrightarrow> ensures (bindR m f) P"
  by (auto simp: ensures_def res_simps only_fields_def raise_if_def)

lemma ensures_required: "ensures k P \<Longrightarrow> ensures (required ob keys path k) P"
  by (induction keys) (simp_all add: ensures_raise)

lemma ensures_if: "(c \<Longrightarrow> ensures a P) \<Longrightarrow> (\<not> c \<Longrightarrow> ensures b P) \<Longrightarrow> ensures (if c then a else b) P"
  by simp

lemma ensures_weaken: "ensures r Q \<Longrightarrow> (\<And>x. Q x \<Longrightarrow> P x) \<Longrightarrow> ensures r P"
  by (auto simp: ensures_def)

lemma ensures_json:
  "(\<And>b. ensures n P) \<Longrightarrow> (\<And>b. ensures (f b) P) \<Longrightarrow> (\<And>b. ensures (g b) P) \<Longrightarrow> (\<And>b. ensures (h b) P) \<Longrightarrow> (\<And>b. ensures (i b) P) \<Longrightarrow>
    (\<And>b. ensures (j b) P) \<Longrightarrow> (\<And>b. ensures (k b) P) \<Longrightarrow>
    ensures (case v of JNull \<Rightarrow> n | JBool b \<Rightarrow> f b | JInt b \<Rightarrow> g b | JFloat b \<Rightarrow> h b | JStr b \<Rightarrow> i b | JList b \<Rightarrow> j b | JObj b \<Rightarrow> k b) P"
  by (cases v) auto

lemma ensures_prod: "(\<And>a b. ensures (f a b) P) \<Longrightarrow> ensures (case p of (a, b) \<Rightarrow> f a b) P"
  by (cases p) auto

lemma ensures_singleton:
  "(\<And>a b. ensures (f a b) P) \<Longrightarrow> ensures e P \<Longrightarrow>
    ensures (case ob of [] \<Rightarrow> e | x # xs \<Rightarrow> (case x of (a, b) \<Rightarrow> (case xs of [] \<Rightarrow> f a b | _ # _ \<Rightarrow> e))) P"
  by (auto split: list.split)

lemmas ensures_rules = ensures_Inl ensures_raise ensures_only ensures_required ensures_if ensures_json ensures_prod ensures_singleton

section \<open>Parsers\<close>

abbreviation all_requested :: "planned_feature list \<Rightarrow> bool" where "all_requested \<equiv> list_all requested"

definition gives_requested :: "operand_parser \<Rightarrow> bool" where
  "gives_requested r \<longleftrightarrow> (\<forall>raw path. ensures (r raw path) (\<lambda>x. all_requested (operand_features x)))"

lemma parse_feature_requested: "ensures (parse_feature raw path) requested"
  unfolding parse_feature_def
  by (rule ensures_bind ensures_rules | simp add: ensures_def requested_def, blast?)+

lemma segment_series_requested: "ensures (parse_segment_series raw path) (\<lambda>s. all_requested (series_features s))"
  unfolding parse_segment_series_def
  by (rule ensures_then[OF parse_feature_requested] ensures_bind ensures_rules | rule ensures_Inr, simp add: series_features_def)+

lemma segment_requested: "ensures (parse_segment refs raw path) (\<lambda>s. all_requested (series_features (seg_series s)))"
  unfolding parse_segment_def
  by (rule ensures_then[OF segment_series_requested] ensures_bind ensures_rules | rule ensures_Inr, simp)+

lemma atr_feature_requested: "ensures (atr_feature v kind tf path) requested"
  unfolding atr_feature_def
  by (rule ensures_then[OF parse_feature_requested] ensures_rules | rule ensures_Inr, assumption)+

lemma candle_atr_requested:
  "ensures (if c then Inr None else bindR (atr_feature v kind tf path) (\<lambda>a. Inr (Some a))) (\<lambda>a. all_requested (case a of None \<Rightarrow> [] | Some a \<Rightarrow> [a]))"
  by (rule ensures_then[OF atr_feature_requested] ensures_rules | rule ensures_Inr, simp)+

lemma candle_requested: "ensures (parse_candle refs raw path) (\<lambda>c. all_requested (case cn_atr c of None \<Rightarrow> [] | Some a \<Rightarrow> [a]))"
  unfolding parse_candle_def
  by (rule ensures_then[OF candle_atr_requested] ensures_bind ensures_rules | rule ensures_Inr, simp)+

lemma impulse_requested: "ensures (parse_impulse_atr refs raw path) (\<lambda>c. requested (ia_atr c))"
  unfolding parse_impulse_atr_def
  by (rule ensures_then[OF atr_feature_requested] ensures_bind ensures_rules | rule ensures_Inr, simp)+

lemma forming_requested: "ensures (parse_forming_candle refs raw path) (\<lambda>c. requested (fc_atr c))"
  unfolding parse_forming_candle_def
  by (rule ensures_then[OF atr_feature_requested] ensures_bind ensures_rules | rule ensures_Inr, simp)+

lemma window_requested: "ensures (parse_window_change refs raw path) (\<lambda>c. requested (wc_series c))"
  unfolding parse_window_change_def
  by (rule ensures_then[OF parse_feature_requested] ensures_bind ensures_rules | rule ensures_Inr, simp)+

text \<open>Parsers over nested parsers, both of requested features.\<close>

lemma nested_requested: "gives_requested r \<Longrightarrow> ensures (r raw path) (\<lambda>x. all_requested (operand_features x))"
  by (simp add: gives_requested_def)

lemma range_requested: "gives_requested r \<Longrightarrow> ensures (parse_range r ob path) (\<lambda>x. all_requested (range_features x))"
  unfolding parse_range_def
  by (rule ensures_then[OF nested_requested] ensures_bind ensures_rules | rule ensures_Inr, simp | assumption)+

lemma requirements_requested:
  "gives_requested r \<Longrightarrow> ensures (requirements_at r path i its) (\<lambda>rs. all_requested (concat (map range_features rs)))"
proof (induction its arbitrary: i)
  case (Cons it its)
  show ?case unfolding requirements_at.simps Let_def
    by (rule ensures_then[OF range_requested[OF Cons.prems]] ensures_then[OF Cons.IH[OF Cons.prems]] ensures_bind ensures_rules
      | rule ensures_Inr, simp)+
qed (simp add: ensures_Inr)

lemma only_if_requested: "gives_requested r \<Longrightarrow> ensures (parse_only_if r raw path) (\<lambda>x. all_requested (operand_features x))"
  unfolding parse_only_if_def
  by (rule ensures_then[OF nested_requested] ensures_then[OF requirements_requested] ensures_bind ensures_rules
    | rule ensures_Inr, simp | assumption)+

lemma ratio_requested: "gives_requested r \<Longrightarrow> ensures (parse_ratio r raw path) (\<lambda>x. all_requested (operand_features x))"
  unfolding parse_ratio_def
  by (rule ensures_then[OF nested_requested] ensures_bind ensures_rules | rule ensures_Inr, simp | assumption)+

lemma difference_requested: "gives_requested r \<Longrightarrow> ensures (parse_difference r raw path) (\<lambda>x. all_requested (operand_features x))"
  unfolding parse_difference_def
  by (rule ensures_then[OF nested_requested] ensures_bind ensures_rules | rule ensures_Inr, simp | assumption)+

lemma absolute_requested: "gives_requested r \<Longrightarrow> ensures (parse_absolute r raw path) (\<lambda>x. all_requested (operand_features x))"
  unfolding parse_absolute_def
  by (rule ensures_then[OF nested_requested] ensures_bind ensures_rules | rule ensures_Inr, simp | assumption)+

lemma at_point_requested: "gives_requested r \<Longrightarrow> ensures (parse_at_point r refs raw path) (\<lambda>x. all_requested (operand_features x))"
  unfolding parse_at_point_def
  by (rule ensures_then[OF nested_requested] ensures_bind ensures_rules | rule ensures_Inr, simp | assumption)+

lemma signed_requested: "gives_requested r \<Longrightarrow> ensures (parse_signed r raw path) (\<lambda>x. all_requested (operand_features x))"
  unfolding parse_signed_def
  by (rule ensures_then[OF nested_requested] ensures_bind ensures_rules | rule ensures_Inr, simp | assumption)+

lemma scale_requested: "gives_requested r \<Longrightarrow> ensures (parse_scale r raw path) (\<lambda>x. all_requested (operand_features x))"
  unfolding parse_scale_def
  by (rule ensures_then[OF nested_requested] ensures_bind ensures_rules | rule ensures_Inr, simp | assumption)+

lemma interval_change_requested:
  "gives_requested r \<Longrightarrow> ensures (parse_interval_change refs r raw path) (\<lambda>x. all_requested (operand_features x))"
  unfolding parse_interval_change_def
  by (rule ensures_then[OF nested_requested] ensures_bind ensures_rules | rule ensures_Inr, simp | assumption)+

lemmas leaf_requested =
  ensures_then[OF parse_feature_requested] ensures_then[OF segment_requested] ensures_then[OF candle_requested]
  ensures_then[OF impulse_requested] ensures_then[OF forming_requested] ensures_then[OF window_requested]

lemma operand_key_requested:
  assumes "gives_requested r" "gives_requested s"
  shows "ensures (parse_operand_key refs r s key v path) (\<lambda>x. all_requested (operand_features x))"
  unfolding parse_operand_key_def Let_def
  by (rule assms interval_change_requested scale_requested ratio_requested absolute_requested difference_requested at_point_requested
      signed_requested only_if_requested leaf_requested ensures_bind ensures_rules | rule ensures_Inr, simp)+

lemma operand_with_requested: "gives_requested r \<Longrightarrow> gives_requested s \<Longrightarrow> gives_requested (parse_operand_with refs r s)"
  unfolding gives_requested_def parse_operand_with_def
  by (intro allI ensures_bind ensures_singleton operand_key_requested) (simp_all add: gives_requested_def ensures_Inl)

lemma sampled_scale_requested: "gives_requested r \<Longrightarrow> ensures (sampled_scale r d path) (\<lambda>x. all_requested (operand_features x))"
  unfolding sampled_scale_def
  by (rule ensures_then[OF nested_requested] ensures_bind ensures_rules | rule ensures_Inr, simp | assumption)+

lemma sampled_pair_requested: "gives_requested r \<Longrightarrow> ensures (sampled_pair r key d path) (\<lambda>x. all_requested (operand_features x))"
  unfolding sampled_pair_def
  by (rule ensures_then[OF nested_requested] ensures_bind ensures_rules | rule ensures_Inr, simp | assumption)+

lemma sampled_key_requested:
  "gives_requested l \<Longrightarrow> gives_requested r \<Longrightarrow> ensures (sampled_key l r key v raw path) (\<lambda>x. all_requested (operand_features x))"
  unfolding sampled_key_def
  by (rule sampled_scale_requested sampled_pair_requested ensures_then[OF nested_requested] ensures_bind ensures_rules
    | rule ensures_Inr, simp | assumption)+

lemma sampled_with_requested: "gives_requested l \<Longrightarrow> gives_requested r \<Longrightarrow> gives_requested (parse_sampled l r)"
  unfolding gives_requested_def[of "parse_sampled l r"] parse_sampled_def
  by (intro allI ensures_bind ensures_singleton sampled_key_requested) (simp_all add: ensures_Inl)

lemma at_fuel_requested: "gives_requested (parse_operand_at refs n) \<and> gives_requested (parse_sampled_at refs n)"
proof (induction n)
  case 0
  then show ?case by (simp add: gives_requested_def ensures_Inl)
next
  case (Suc n)
  have "parse_operand_at refs (Suc n) = parse_operand_with refs (parse_operand_at refs n) (parse_sampled_at refs n)"
    "parse_sampled_at refs (Suc n) = parse_sampled (parse_operand_with refs (parse_operand_at refs n) (parse_sampled_at refs n)) (parse_sampled_at refs n)"
    by (simp_all add: fun_eq_iff)
  then show ?case using Suc.IH operand_with_requested sampled_with_requested by metis
qed

lemma operand_requested: "gives_requested (parse_operand refs)"
  unfolding gives_requested_def parse_operand_def by (intro allI nested_requested at_fuel_requested[THEN conjunct1])

section \<open>Predicates\<close>

abbreviation condition_features :: "condition \<Rightarrow> planned_feature list" where
  "condition_features c \<equiv> concat (map operand_features (condition_operands c))"

lemma range_features_operand: "range_features r = operand_features (rg_operand r)"
  by (cases r) simp

lemma condition_requested: "ensures (parse_condition kind refs ob path) (\<lambda>c. all_requested (condition_features c))"
  unfolding parse_condition_def parse_compare_def parse_in_range_def parse_change_def
  by (rule ensures_then[OF nested_requested[OF operand_requested]] ensures_then[OF range_requested[OF operand_requested]] ensures_bind ensures_rules
    | rule ensures_Inr, simp add: range_features_operand)+

lemma short_requested:
  "ensures (parse_short kind overridable long refs ob path) (\<lambda>c. all_requested (case c of None \<Rightarrow> [] | Some c \<Rightarrow> condition_features c))"
  unfolding parse_short_def
  by (rule ensures_then[OF condition_requested] ensures_bind ensures_rules | rule ensures_Inr, simp)+

lemma plain_requested: "ensures (parse_plain refs ob path) (\<lambda>p. all_requested (any_features p))"
  unfolding parse_plain_def
proof (rule ensures_bind)
  fix kind
  show "ensures (case map_of CLASS_FIELDS kind of None \<Rightarrow> Inl (PyKeyError kind)
      | Some (flds, overridable) \<Rightarrow> only_fields ob ([''kind'', ''short''] @ flds) path
          (bindR (parse_condition kind refs ob path) (\<lambda>long. bindR (parse_short kind overridable long refs ob path) (\<lambda>short.
           Inr (Plain \<lparr>pr_long = long, pr_short = short\<rparr>))))) (\<lambda>p. all_requested (any_features p))"
  proof (cases "map_of CLASS_FIELDS kind")
    case (Some fo)
    obtain flds overridable where fo: "fo = (flds, overridable)" by fastforce
    show ?thesis unfolding Some option.case fo prod.case
      by (rule ensures_only, rule ensures_then[OF condition_requested], rule ensures_then[OF short_requested], rule ensures_Inr)
        (simp add: predicate_features_def split: option.splits)
  qed (simp add: ensures_Inl)
qed

lemma predicate_requested: "ensures (parse_predicate contexts refs raw path) (\<lambda>p. all_requested (any_features p))"
proof (induction "size raw" arbitrary: raw path rule: less_induct)
  case less
  have state: "ensures (parse_state contexts ob path) (\<lambda>p. all_requested (any_features p))" for ob
    unfolding parse_state_def Let_def by (rule ensures_bind ensures_rules | rule ensures_Inr, simp)+
  have temporal: "ensures (parse_temporal (parse_predicate contexts refs) ob path) (\<lambda>p. all_requested (any_features p))" if "raw = JObj ob" for ob
    unfolding parse_temporal_def
  proof (rule ensures_only, rule ensures_bind, rule ensures_bind)
    fix mode bars
    have "ensures (parse_predicate contexts refs (get ob ''of'') (path @ ''.of'')) (\<lambda>p. all_requested (any_features p))"
      by (rule less) (use size_get[of ob "''of''"] that in simp)
    then show "ensures (bindR (parse_predicate contexts refs (get ob ''of'') (path @ ''.of'')) (\<lambda>inner.
        raise_if (case inner of Temporal _ _ _ \<Rightarrow> True | _ \<Rightarrow> False) (InvalidRequest (path @ ''.of must not be temporal''))
          (Inr (Temporal mode bars inner)))) (\<lambda>p. all_requested (any_features p))"
      by (rule ensures_then) (simp add: ensures_raise ensures_Inr)
  qed
  show ?case unfolding parse_predicate_rec[of contexts refs raw]
    using state temporal plain_requested by (auto simp: ensures_def res_simps split: if_splits)
qed

lemma change_requested: "ensures (parse_change_since_entry params path) (\<lambda>c. requested (cse_feature c))"
  unfolding parse_change_since_entry_def
proof (rule ensures_bind, rule ensures_only)
  fix ob
  have "ensures (case x of OFeature f \<Rightarrow> bindR (read_op ob path) (\<lambda>op. bindR (number (get ob ''value'') (path @ ''.value'')) (\<lambda>v.
          Inr \<lparr>cse_feature = f, cse_op = op, cse_value = v\<rparr>))
      | _ \<Rightarrow> Inl (InvalidRequest (path @ ''.operand must be a feature reference''))) (\<lambda>c. requested (cse_feature c))"
    if "all_requested (operand_features x)" for x
    using that by (cases x) (auto simp: ensures_def res_simps)
  then show "ensures (bindR (parse_operand None (get ob ''operand'') (path @ ''.operand'')) (\<lambda>x.
      case x of OFeature f \<Rightarrow> bindR (read_op ob path) (\<lambda>op. bindR (number (get ob ''value'') (path @ ''.value'')) (\<lambda>v.
          Inr \<lparr>cse_feature = f, cse_op = op, cse_value = v\<rparr>))
      | _ \<Rightarrow> Inl (InvalidRequest (path @ ''.operand must be a feature reference'')))) (\<lambda>c. requested (cse_feature c))"
    by (rule ensures_then[OF nested_requested[OF operand_requested]])
qed

end
