(* ===== verification/PlannerFacts.thy ===== *)
theory PlannerFacts
  imports FeaturePlan PredicateFacts "HOL-Library.Sublist"
begin

text \<open>
  What every step of the planner keeps: one feature per label, of an allowed kind, after the features
  it depends on; columns that name planned features; and labels that stay planned.
\<close>

section \<open>Well-formed planners\<close>

abbreviation labels :: "planner \<Rightarrow> string set" where "labels s \<equiv> output_id ` set (pl_features s)"

text \<open>Each feature depends on labels planned before it.\<close>

definition dependencies_before :: "planned_feature list \<Rightarrow> bool" where
  "dependencies_before fs \<longleftrightarrow>
     list_all (\<lambda>i. set (dependencies (fs ! i)) \<subseteq> set (map output_id (take i fs))) [0 ..< length fs]"

definition column_values :: "(string \<times> string) list \<Rightarrow> string set" where
  "column_values cols = snd ` set cols"

definition planner_columns :: "planner \<Rightarrow> string set" where
  "planner_columns s =
     column_values (pl_exits s) \<union> snd ` set (pl_rsi s) \<union> snd ` set (pl_ema s) \<union>
     \<Union> (column_values ` (snd ` set (pl_adx s) \<union> snd ` set (pl_setups s) \<union> snd ` set (pl_contexts s) \<union> snd ` set (pl_episodes s)))"

definition planner_ok :: "planner \<Rightarrow> bool" where
  "planner_ok s \<longleftrightarrow>
     distinct (map output_id (pl_features s)) \<and> list_all (\<lambda>f. feature_kind f \<in> set ALLOWED_KINDS) (pl_features s) \<and>
     dependencies_before (pl_features s) \<and> planner_columns s \<subseteq> labels s \<and> all_requested (pl_predicates s)"

text \<open>
  A step from one state to a later one, with labels \<open>st\<close> that its columns may use: it keeps
  well-formedness and only plans more.
\<close>

definition grows :: "string set \<Rightarrow> planner \<Rightarrow> planner \<Rightarrow> bool" where
  "grows st s s' \<longleftrightarrow>
     (planner_ok s \<and> st \<subseteq> labels s \<longrightarrow> planner_ok s' \<and> prefix (pl_features s) (pl_features s'))"

lemma prefix_labels: "prefix (pl_features s) (pl_features s') \<Longrightarrow> labels s \<subseteq> labels s'"
  by (auto simp: prefix_def)

lemma grows_refl [simp, intro]: "grows st s s"
  by (simp add: grows_def)

lemma grows_trans: "grows st a b \<Longrightarrow> grows st b c \<Longrightarrow> grows st a c"
  unfolding grows_def using prefix_labels prefix_order.trans by blast

lemma grows_weaken: "grows {} s s' \<Longrightarrow> grows st s s'"
  by (auto simp: grows_def)

lemma grows_fold:
  "foldR f s xs = Inr t \<Longrightarrow> (\<And>s x s'. x \<in> set xs \<Longrightarrow> f s x = Inr s' \<Longrightarrow> grows st s s') \<Longrightarrow> grows st s t"
  by (rule foldR_relation[where R = "grows st"]) (auto intro: grows_trans)

section \<open>Adding a feature\<close>

lemma dependencies_snoc:
  "dependencies_before fs \<Longrightarrow> set (dependencies f) \<subseteq> set (map output_id fs) \<Longrightarrow> dependencies_before (fs @ [f])"
  by (auto simp: dependencies_before_def list_all_iff nth_append less_Suc_eq)

lemma add_feature_grows:
  assumes "add_feature f s = Inr s'" "set (dependencies f) \<subseteq> st"
  shows "grows st s s'" "output_id f \<in> labels s'"
proof -
  have kind: "feature_kind f \<in> set ALLOWED_KINDS" and s': "s' = (if output_id f \<in> labels s then s else s\<lparr>pl_features := pl_features s @ [f]\<rparr>)"
    using assms(1) by (auto simp: add_feature_def raise_if_Inr split: if_splits)
  show "output_id f \<in> labels s'" by (simp add: s')
  show "grows st s s'" using kind assms(2) unfolding grows_def
    by (auto simp: s' planner_ok_def planner_columns_def image_Un intro!: dependencies_snoc)
qed

section \<open>Columns\<close>

lemma update_values: "snd ` set (AList.update k v d) \<subseteq> insert v (snd ` set d)"
  by (induction d) auto

lemma set_default_values: "snd ` set (set_default k v d) \<subseteq> insert v (snd ` set d)"
  by (auto simp: set_default_def)

text \<open>Changing columns only, to planned ones, keeps a planner well-formed.\<close>

lemma grows_columns:
  assumes "pl_features s' = pl_features s" "pl_predicates s' = pl_predicates s" "planner_columns s' \<subseteq> planner_columns s \<union> X" "X \<subseteq> labels s"
  shows "grows st s s'"
  using assms unfolding grows_def planner_ok_def by auto

text \<open>One dictionary of a planner changes, the others stay.\<close>

lemma one_changes:
  "E' \<subseteq> insert v E \<Longrightarrow> E' \<union> R \<union> M \<union> U \<subseteq> (E \<union> R \<union> M \<union> U) \<union> {v}"
  "R' \<subseteq> insert v R \<Longrightarrow> E \<union> R' \<union> M \<union> U \<subseteq> (E \<union> R \<union> M \<union> U) \<union> {v}"
  "M' \<subseteq> insert v M \<Longrightarrow> E \<union> R \<union> M' \<union> U \<subseteq> (E \<union> R \<union> M \<union> U) \<union> {v}"
  by blast+

lemma nested_changes:
  "A' \<subseteq> insert v A \<Longrightarrow> E \<union> \<Union> (f ` (A' \<union> B \<union> C \<union> D)) \<subseteq> (E \<union> \<Union> (f ` (A \<union> B \<union> C \<union> D))) \<union> f v"
  "B' \<subseteq> insert v B \<Longrightarrow> E \<union> \<Union> (f ` (A \<union> B' \<union> C \<union> D)) \<subseteq> (E \<union> \<Union> (f ` (A \<union> B \<union> C \<union> D))) \<union> f v"
  "C' \<subseteq> insert v C \<Longrightarrow> E \<union> \<Union> (f ` (A \<union> B \<union> C' \<union> D)) \<subseteq> (E \<union> \<Union> (f ` (A \<union> B \<union> C \<union> D))) \<union> f v"
  "D' \<subseteq> insert v D \<Longrightarrow> E \<union> \<Union> (f ` (A \<union> B \<union> C \<union> D')) \<subseteq> (E \<union> \<Union> (f ` (A \<union> B \<union> C \<union> D))) \<union> f v"
  by blast+

lemma exits_step: "oid \<in> labels s \<Longrightarrow> column_values d \<subseteq> insert oid (column_values (pl_exits s)) \<Longrightarrow> grows st s (s\<lparr>pl_exits := d\<rparr>)"
  by (rule grows_columns[where X = "{oid}"]; cases s) (simp_all only: planner_columns_def planner.simps one_changes insert_subset empty_subsetI)

lemma rsi_step: "oid \<in> labels s \<Longrightarrow> grows st s (s\<lparr>pl_rsi := AList.update i oid (pl_rsi s)\<rparr>)"
  by (rule grows_columns[where X = "{oid}"]; cases s) (simp_all only: planner_columns_def planner.simps one_changes update_values insert_subset empty_subsetI)

lemma ema_step: "oid \<in> labels s \<Longrightarrow> grows st s (s\<lparr>pl_ema := AList.update i oid (pl_ema s)\<rparr>)"
  by (rule grows_columns[where X = "{oid}"]; cases s) (simp_all only: planner_columns_def planner.simps one_changes update_values insert_subset empty_subsetI)

lemma adx_step: "column_values cols \<subseteq> labels s \<Longrightarrow> grows st s (s\<lparr>pl_adx := AList.update i cols (pl_adx s)\<rparr>)"
  by (rule grows_columns[where X = "column_values cols"]; cases s) (simp_all only: planner_columns_def planner.simps nested_changes update_values)

lemma setups_step: "column_values cols \<subseteq> labels s \<Longrightarrow> grows st s (s\<lparr>pl_setups := AList.update i cols (pl_setups s)\<rparr>)"
  by (rule grows_columns[where X = "column_values cols"]; cases s) (simp_all only: planner_columns_def planner.simps nested_changes update_values)

lemma contexts_step: "column_values cols \<subseteq> labels s \<Longrightarrow> grows st s (s\<lparr>pl_contexts := AList.update i cols (pl_contexts s)\<rparr>)"
  by (rule grows_columns[where X = "column_values cols"]; cases s) (simp_all only: planner_columns_def planner.simps nested_changes update_values)

lemma episodes_step: "column_values cols \<subseteq> labels s \<Longrightarrow> grows st s (s\<lparr>pl_episodes := AList.update i cols (pl_episodes s)\<rparr>)"
  by (rule grows_columns[where X = "column_values cols"]; cases s) (simp_all only: planner_columns_def planner.simps nested_changes update_values)

section \<open>Features with a column\<close>

text \<open>A step that plans a feature and gives its label.\<close>

definition plans :: "string set \<Rightarrow> planner \<Rightarrow> planner \<times> string \<Rightarrow> bool" where
  "plans st s r \<longleftrightarrow> grows st s (fst r) \<and> snd r \<in> labels (fst r)"

lemma ema_feature_parts [simp]: "dependencies (ema_feature source tf period) = []"
  by (simp add: ema_feature_def)

lemma close_feature_parts [simp]:
  "dependencies (close_feature kind tf period) = []" "output_id (close_feature kind tf period) = period_id kind tf period"
  by (simp_all add: close_feature_def)

lemma add_ema_plans: "add_ema raw path s = Inr r \<Longrightarrow> plans st s r"
  by (auto simp: add_ema_def res_simps plans_def intro: add_feature_grows)

lemma add_atr_plans: "add_atr tf period s = Inr r \<Longrightarrow> plans st s r"
  using add_feature_grows[of "close_feature ''atr'' tf period" s _ st] by (auto simp: add_atr_def res_simps plans_def)

lemma grows_then: "plans st s (s1, oid) \<Longrightarrow> (oid \<in> labels s1 \<Longrightarrow> grows st s1 s') \<Longrightarrow> grows st s s'"
  by (auto simp: plans_def intro: grows_trans)

lemma add_ema_column_grows: "add_ema_column raw path s = Inr s' \<Longrightarrow> grows st s s'"
proof -
  assume "add_ema_column raw path s = Inr s'"
  then obtain tf period s1 oid where s1: "add_ema raw path s = Inr (s1, oid)"
    and s': "s' = s1\<lparr>pl_ema := AList.update (tf, period) oid (pl_ema s1)\<rparr>"
    by (clarsimp simp: add_ema_column_def bindR_Inr split: prod.splits)
  show ?thesis unfolding s' using grows_then[OF add_ema_plans[OF s1]] ema_step by blast
qed

lemma add_rsi_grows:
  assumes "add_rsi s spec = Inr s'"
  shows "grows st s s'"
proof -
  obtain tf period s1 where s1: "add_feature (close_feature ''rsi'' tf period) s = Inr s1"
    and s': "s' = s1\<lparr>pl_rsi := AList.update (tf, period) (period_id ''rsi'' tf period) (pl_rsi s1)\<rparr>"
    using assms by (cases spec) (auto simp: add_rsi_def res_simps)
  show ?thesis using add_feature_grows[OF s1, of st] unfolding s' by (auto intro: grows_trans rsi_step)
qed

text \<open>The three features of a directional index.\<close>

lemma add_kinds:
  assumes "foldR (\<lambda>s kind. add_feature (close_feature kind tf period) s) s kinds = Inr t" "planner_ok s"
  shows "planner_ok t \<and> prefix (pl_features s) (pl_features t) \<and> (\<lambda>kind. period_id kind tf period) ` set kinds \<subseteq> labels t"
  using assms
proof (induction kinds arbitrary: s)
  case (Cons kind kinds)
  obtain s1 where s1: "add_feature (close_feature kind tf period) s = Inr s1"
    "foldR (\<lambda>s kind. add_feature (close_feature kind tf period) s) s1 kinds = Inr t"
    using Cons.prems(1) by (auto simp: bindR_Inr)
  have g: "grows {} s s1" "period_id kind tf period \<in> labels s1" using add_feature_grows[OF s1(1), of "{}"] by simp_all
  then have "planner_ok s1" "prefix (pl_features s) (pl_features s1)" using Cons.prems(2) by (simp_all add: grows_def)
  moreover from Cons.IH[OF s1(2) this(1)]
  have "planner_ok t \<and> prefix (pl_features s1) (pl_features t) \<and> (\<lambda>kind. period_id kind tf period) ` set kinds \<subseteq> labels t" .
  ultimately show ?case using g(2) prefix_labels[of s1 t] by (auto intro: prefix_order.trans)
qed simp

lemma add_adx_dmi_grows: "add_adx_dmi tf period s = Inr s' \<Longrightarrow> grows st s s'"
proof (cases "map_of (pl_adx s) (tf, period) = None")
  case True
  assume "add_adx_dmi tf period s = Inr s'"
  then obtain t where t: "foldR (\<lambda>s kind. add_feature (close_feature kind tf period) s) s ADX_KINDS = Inr t"
    and s': "s' = t\<lparr>pl_adx := AList.update (tf, period) (map (\<lambda>kind. (kind, period_id kind tf period)) ADX_KINDS) (pl_adx t)\<rparr>"
    using True by (auto simp: add_adx_dmi_def res_simps)
  have "grows {} t s'" if "(\<lambda>kind. period_id kind tf period) ` set ADX_KINDS \<subseteq> labels t"
    unfolding s' by (rule adx_step) (use that in \<open>auto simp: column_values_def\<close>)
  then show ?thesis using add_kinds[OF t] unfolding grows_def by (auto intro: prefix_order.trans)
qed (auto simp: add_adx_dmi_def)

section \<open>Sections\<close>

text \<open>A loop that plans one column per item.\<close>

lemma mapS_plans:
  assumes "mapS f s xs = Inr (t, cols)" "\<And>s x s' k oid. f s x = Inr (s', k, oid) \<Longrightarrow> plans {} s (s', oid)" "planner_ok s"
  shows "planner_ok t \<and> prefix (pl_features s) (pl_features t) \<and> column_values cols \<subseteq> labels t"
  using assms(1,3)
proof (induction xs arbitrary: s cols)
  case (Cons x xs)
  obtain s1 k oid rest where st: "f s x = Inr (s1, k, oid)" "mapS f s1 xs = Inr (t, rest)" "cols = (k, oid) # rest"
    using Cons.prems(1) by (auto simp: bindR_Inr)
  have g: "planner_ok s1" "prefix (pl_features s) (pl_features s1)" "oid \<in> labels s1"
    using assms(2)[OF st(1)] Cons.prems(2) by (simp_all add: plans_def grows_def)
  have "planner_ok t \<and> prefix (pl_features s1) (pl_features t) \<and> column_values rest \<subseteq> labels t" by (rule Cons.IH[OF st(2) g(1)])
  then show ?case using g(2,3) prefix_labels[of s1 t] st(3) by (auto simp: column_values_def intro: prefix_order.trans)
qed (simp add: column_values_def)

lemma add_context_grows: "add_context s c = Inr s' \<Longrightarrow> grows st s s'"
proof -
  assume "add_context s c = Inr s'"
  then obtain ref provider t cols where m: "mapS (\<lambda>s role. bindR (context_ema_feature ref provider role) (\<lambda>f.
         bindR (add_feature f s) (\<lambda>s'. Inr (s', (role, output_id f))))) s ROLES = Inr (t, cols)"
    and s': "s' = t\<lparr>pl_contexts := AList.update ref cols (pl_contexts t)\<rparr>"
    by (cases c) (auto simp: add_context_def res_simps)
  have "planner_ok t \<and> prefix (pl_features s) (pl_features t) \<and> column_values cols \<subseteq> labels t" if "planner_ok s"
    by (rule mapS_plans[OF m _ that]) (auto simp: res_simps context_ema_feature_def plans_def intro: add_feature_grows)
  moreover have "grows {} t s'" if "column_values cols \<subseteq> labels t"
    unfolding s' by (rule contexts_step[OF that])
  ultimately show ?thesis unfolding grows_def by (auto intro: prefix_order.trans)
qed

text \<open>
  The sections of the planner keep what \<open>PlannerFacts\<close> states: episodes, setups, exits, blockers,
  exit management, predicate features, and their composition, the whole plan.
\<close>

section \<open>More ways to grow\<close>

text \<open>What a step needs of the state it starts from may be assumed.\<close>

lemma grows_assume: "(st \<subseteq> labels s \<Longrightarrow> planner_ok s \<Longrightarrow> grows st s s') \<Longrightarrow> grows st s s'"
  by (auto simp: grows_def)

lemma grows_absorb: "X \<subseteq> labels s \<Longrightarrow> grows X s s' \<Longrightarrow> grows st s s'"
  by (auto simp: grows_def)

lemma grows_pairs:
  "foldR f a xs = Inr b \<Longrightarrow> (\<And>s x s'. x \<in> set xs \<Longrightarrow> f s x = Inr s' \<Longrightarrow> grows st (fst s) (fst s')) \<Longrightarrow> grows st (fst a) (fst b)"
  by (rule foldR_relation[where R = "\<lambda>a b. grows st (fst a) (fst b)"]) (auto intro: grows_trans)

lemma params_step: "grows st s (s\<lparr>pl_episode_params := ps\<rparr>)"
  by (simp add: grows_def planner_ok_def planner_columns_def)

lemma predicates_step: "all_requested fs \<Longrightarrow> grows st s (s\<lparr>pl_predicates := pl_predicates s @ fs\<rparr>)"
  by (auto simp: grows_def planner_ok_def planner_columns_def)

text \<open>A step that plans a feature and drops its label.\<close>

lemma atr_grows: "add_atr tf period s = Inr (t, oid) \<Longrightarrow> grows st s t"
  using add_atr_plans[of tf period s "(t, oid)" st] by (simp add: plans_def)

lemma change_grows: "parse_change_since_entry params path = Inr c \<Longrightarrow> grows st s (s\<lparr>pl_predicates := pl_predicates s @ [cse_feature c]\<rparr>)"
  using change_requested[of params path] by (intro predicates_step) (simp add: ensures_def)

lemma bindR_InrE: "bindR m f = Inr t \<Longrightarrow> (\<And>x. m = Inr x \<Longrightarrow> f x = Inr t \<Longrightarrow> P) \<Longrightarrow> P"
  by (auto simp: bindR_Inr)

section \<open>Episodes and setups\<close>

lemma add_episode_grows:
  assumes "add_episode s d = Inr s'"
  shows "grows st s s'"
proof -
  obtain ref p t cols where m: "mapS (\<lambda>s (role, period).
         bindR (add_ema (JObj [(''period'', JInt period)]) (''ema_stack_episode.'' @ ref @ ''.'' @ role @ ''_period'') s) (\<lambda>(s', oid).
         Inr (s', (role, oid)))) (s\<lparr>pl_episode_params := AList.update ref (episode_ints p) (pl_episode_params s)\<rparr>) (episode_periods p) = Inr (t, cols)"
    and s': "s' = t\<lparr>pl_episodes := AList.update ref cols (pl_episodes t)\<rparr>"
    using assms by (cases d) (auto simp: add_episode_def res_simps)
  let ?s = "s\<lparr>pl_episode_params := AList.update ref (episode_ints p) (pl_episode_params s)\<rparr>"
  have "planner_ok t \<and> prefix (pl_features ?s) (pl_features t) \<and> column_values cols \<subseteq> labels t" if "planner_ok ?s"
    by (rule mapS_plans[OF m _ that]) (auto simp: res_simps split: prod.splits dest!: add_ema_plans)
  moreover have "grows {} s ?s" by (rule params_step)
  moreover have "grows {} t s'" if "column_values cols \<subseteq> labels t" unfolding s' by (rule episodes_step[OF that])
  ultimately show ?thesis unfolding grows_def by (auto intro: prefix_order.trans)
qed

text \<open>A setup whose columns are those of the stack and an average true range.\<close>

lemma setup_atr_grows:
  assumes "bindR (add_atr tf period s) (\<lambda>(s', atr). Inr (s'\<lparr>pl_setups := AList.update inst (cols @ [(''atr'', atr)]) (pl_setups s')\<rparr>)) = Inr t"
    "column_values cols \<subseteq> st"
  shows "grows st s t"
proof (rule grows_assume)
  assume st: "st \<subseteq> labels s" "planner_ok s"
  obtain s1 atr where a: "add_atr tf period s = Inr (s1, atr)"
    and t: "t = s1\<lparr>pl_setups := AList.update inst (cols @ [(''atr'', atr)]) (pl_setups s1)\<rparr>"
    using assms(1) by (auto simp: bindR_Inr split: prod.splits)
  have p: "grows st s s1" "atr \<in> labels s1" using add_atr_plans[OF a, of st] by (simp_all add: plans_def)
  then have "labels s \<subseteq> labels s1" using st prefix_labels unfolding grows_def by blast
  then have "column_values (cols @ [(''atr'', atr)]) \<subseteq> labels s1" using p(2) st(1) assms(2)
    by (auto simp: column_values_def)
  from setups_step[OF this] show "grows st s t" unfolding t using p(1) grows_trans by blast
qed

lemma setup_columns_grows:
  assumes "plan_setup_columns (fast, anchor, slow) cid inst params path s = Inr s'" "{fast, anchor, slow} \<subseteq> st"
  shows "grows st s s'"
proof -
  consider "cid = ''anchor_stack_width_setup''" | "cid = WIDTH_BAND_SETUP" | "cid = ''ema_bounce_counter_setup''"
    | "s' = s" using assms(1) by (auto simp: plan_setup_columns_def split: if_splits)
  then show ?thesis
  proof cases
    case 1
    then show ?thesis using assms setup_atr_grows[of _ _ s inst "[(''fast'', fast), (''anchor'', anchor), (''slow'', slow)]" s' st]
      by (auto simp: plan_setup_columns_def column_values_def bindR_Inr[where m = "plan_int _ _"])
  next
    case 2
    then show ?thesis using assms setup_atr_grows[of _ _ s inst "[(''fast'', fast), (''slow'', slow)]" s' st]
      by (auto simp: plan_setup_columns_def WIDTH_BAND_SETUP_def column_values_def bindR_Inr[where m = "parse_width_band_params _"])
  next
    case 3
    then have s'_eq: "s' = s\<lparr>pl_setups := AList.update inst [(''fast'', fast), (''anchor'', anchor), (''slow'', slow)] (pl_setups s)\<rparr>"
      using assms(1) by (simp add: plan_setup_columns_def WIDTH_BAND_SETUP_def)
    show ?thesis unfolding s'_eq by (rule grows_assume, rule setups_step) (use assms(2) in \<open>auto simp: column_values_def\<close>)
  qed simp
qed

lemma add_predicate_grows: "add_predicate raw path s = Inr s' \<Longrightarrow> grows st s s'"
  using predicate_requested[of "Some (map fst (pl_contexts s))" "Some (map fst (pl_episodes s))" "JObj raw" path]
  by (auto simp: add_predicate_def predicate_request_def bindR_Inr ensures_def intro!: predicates_step)

lemma add_setup_child_grows: "add_setup_child (fast, anchor, slow) spec path s it = Inr s' \<Longrightarrow> {fast, anchor, slow} \<subseteq> st \<Longrightarrow> grows st s s'"
  by (auto simp: add_setup_child_def Let_def bindR_Inr split: prod.splits option.splits intro: add_predicate_grows setup_columns_grows)

lemma add_setup_grows:
  assumes "add_setup (fast, anchor, slow) s it = Inr s'" "{fast, anchor, slow} \<subseteq> st"
  shows "grows st s s'"
proof -
  obtain i raw where it: "it = (i, raw)" by fastforce
  obtain ob params where parts: "require_mapping raw (at_index ''setups'' i) = Inr ob"
    "require_mapping (get_or ob ''params'' (JObj [])) (at_index ''setups'' i @ ''.params'') = Inr params"
    using assms(1) by (auto simp: add_setup_def it Let_def bindR_Inr)
  note step = assms(1)[unfolded add_setup_def it prod.case Let_def parts bindR_simps]
  show ?thesis
  proof (cases "text_of ob ''component_id'' [] = COMPOSITE_SETUP")
    case True
    then obtain spec path where "foldR (add_setup_child (fast, anchor, slow) spec path) s (enumerated (spec_children spec)) = Inr s'"
      using step[unfolded if_P[OF True]] by (auto elim: bindR_InrE)
    then show ?thesis by (rule grows_fold) (rule add_setup_child_grows[OF _ assms(2)])
  next
    case composite: False
    show ?thesis
    proof (cases "text_of ob ''component_id'' [] = WEIGHTED_VOTE_SETUP")
      case True
      obtain vote where "foldR (\<lambda>s (j, raw). add_predicate raw (at_index ''setups'' i @ ''.params.'' @ vi_input_id j) s) s
          (concat (map (\<lambda>i. map (Pair i) (input_predicates i)) (spec_inputs vote))) = Inr s'"
        using step[unfolded if_not_P[OF composite] if_P[OF True]] by (rule bindR_InrE)
      then show ?thesis by (rule grows_fold) (auto intro: add_predicate_grows)
    next
      case False
      show ?thesis using step unfolding if_not_P[OF composite] if_not_P[OF False] by (rule setup_columns_grows[OF _ assms(2)])
    qed
  qed
qed

section \<open>Exits and blockers\<close>

lemma exit_columns: "column_values (put_exit_column i k v d) \<subseteq> insert v (column_values d)"
proof -
  have "column_values (AList.update i v d) \<subseteq> insert v (column_values d)"
    unfolding column_values_def by (rule update_values)
  moreover have "column_values (set_default k v (AList.update i v d)) \<subseteq> insert v (column_values (AList.update i v d))"
    unfolding column_values_def by (rule set_default_values)
  ultimately show ?thesis unfolding put_exit_column_def Let_def by (cases "k \<noteq> PARTIAL_TAKE_EXIT_KIND") auto
qed

lemma exit_distance_grows:
  assumes "exit_distance i rule d s = Inr s'"
  shows "grows st s s'"
proof -
  obtain tf period multiplier s1 base_id s2 inst kind where a: "add_atr tf period s = Inr (s1, base_id)"
    and f: "add_feature (distance_feature tf multiplier base_id) s1 = Inr s2"
    and s': "s' = s2\<lparr>pl_exits := put_exit_column inst kind (output_id (distance_feature tf multiplier base_id)) (pl_exits s2)\<rparr>"
    using assms unfolding exit_distance_def Let_def bindR_Inr by (clarsimp simp: bindR_Inr split: prod.splits)
  have p: "grows st s s1" "base_id \<in> labels s1" using add_atr_plans[OF a, of st] by (simp_all add: plans_def)
  have g: "grows {base_id} s1 s2" "output_id (distance_feature tf multiplier base_id) \<in> labels s2"
    using add_feature_grows[OF f, of "{base_id}"] by (simp_all add: distance_feature_def)
  have "grows st s1 s2" using grows_absorb[OF _ g(1)] p(2) by simp
  moreover have "grows st s2 s'" unfolding s' by (rule exits_step[OF g(2) exit_columns])
  ultimately show ?thesis using p(1) grows_trans by blast
qed

lemma add_exit_distance_grows: "add_exit_distance s it = Inr s' \<Longrightarrow> grows st s s'"
  by (auto simp: add_exit_distance_def bindR_Inr split: prod.splits if_splits intro: exit_distance_grows)

lemma add_blocker_grows: "add_blocker sr it = Inr sr' \<Longrightarrow> grows st (fst sr) (fst sr')"
  by (auto simp: add_blocker_def Let_def bindR_Inr split: prod.splits if_splits intro: add_adx_dmi_grows)

lemma add_exit_signal_grows:
  assumes "add_exit_signal sr it = Inr sr'"
  shows "grows st (fst sr) (fst sr')"
proof -
  obtain i rule where f: "foldR (\<lambda>s fld. if get rule fld = JNull then Inr s else add_ema_column (get rule fld) (at_index ''exits'' i @ ''.'' @ fld) s)
         (fst sr) EXIT_EMA_FIELDS = Inr (fst sr')"
    using assms by (auto simp: add_exit_signal_def bindR_Inr split: prod.splits)
  show ?thesis by (rule grows_fold[OF f]) (auto split: if_splits intro: add_ema_column_grows)
qed

section \<open>Exit management\<close>

lemma phase_atom_grows: "plan_phase_atom c path s = Inr s' \<Longrightarrow> grows st s s'"
  by (auto simp: plan_phase_atom_def Let_def bindR_Inr split: if_splits prod.splits intro: atr_grows add_adx_dmi_grows change_grows)

lemma add_phase_child_grows: "add_phase_child path s child = Inr s' \<Longrightarrow> grows st s s'"
  by (auto simp: add_phase_child_def Let_def split: option.splits intro: add_predicate_grows phase_atom_grows)

lemma add_phase_rule_grows: "add_phase_rule s it = Inr s' \<Longrightarrow> grows st s s'"
  by (auto simp: add_phase_rule_def Let_def bindR_Inr split: prod.splits if_splits
      intro: phase_atom_grows grows_fold[OF _ add_phase_child_grows])

lemma add_stop_grows: "add_stop s it = Inr s' \<Longrightarrow> grows st s s'"
  by (auto simp: add_stop_def Let_def bindR_Inr split: prod.splits if_splits intro: atr_grows)

lemma add_runtime_exit_grows: "add_runtime_exit s it = Inr s' \<Longrightarrow> grows st s s'"
  by (auto simp: add_runtime_exit_def Let_def bindR_Inr split: prod.splits if_splits option.splits
      intro: add_rsi_grows grows_trans[OF add_ema_column_grows add_ema_column_grows])

section \<open>The whole plan\<close>

lemma empty_planner_ok: "planner_ok empty_planner"
  by (simp add: planner_ok_def empty_planner_def dependencies_before_def planner_columns_def column_values_def)

lemma grows_ok: "grows st s s' \<Longrightarrow> planner_ok s \<Longrightarrow> st \<subseteq> labels s \<Longrightarrow> planner_ok s' \<and> labels s \<subseteq> labels s'"
  using prefix_labels by (auto simp: grows_def)

lemma plan_stack_ok:
  assumes "plan_stack stack = Inr (s, fast, anchor, slow)"
  shows "planner_ok s \<and> {fast, anchor, slow} \<subseteq> labels s"
proof -
  obtain s1 s2 where st: "add_ema (get stack ''fast'') ''anchor_stack.fast'' empty_planner = Inr (s1, fast)"
    "add_ema (get stack ''anchor'') ''anchor_stack.anchor'' s1 = Inr (s2, anchor)"
    "add_ema (get stack ''slow'') ''anchor_stack.slow'' s2 = Inr (s, slow)"
    using assms by (auto simp: plan_stack_def bindR_Inr split: prod.splits)
  have one: "planner_ok b \<and> labels a \<subseteq> labels b \<and> oid \<in> labels b" if "add_ema raw path a = Inr (b, oid)" "planner_ok a" for raw path a b oid
    using add_ema_plans[OF that(1), of "{}"] grows_ok[of "{}" a b] that(2) by (simp add: plans_def)
  show ?thesis using one[OF st(1) empty_planner_ok] one[OF st(2)] one[OF st(3)] by blast
qed

lemma plan_inputs_grows: "plan_inputs doc s = Inr s' \<Longrightarrow> grows st s s'"
  by (auto simp: plan_inputs_def bindR_Inr intro: grows_trans[OF grows_fold[OF _ add_context_grows] grows_fold[OF _ add_episode_grows]])

lemma plan_signals_grows:
  assumes "plan_signals comps exits s = Inr s'"
  shows "grows st s s'"
proof -
  obtain s1 blockers b s2 specs where p: "foldR add_exit_distance s (enumerated exits) = Inr s1"
    "foldR add_blocker (s1, []) (enumerated blockers) = Inr b" "foldR add_exit_signal b (enumerated exits) = Inr (s2, specs)"
    "foldR add_rsi s2 specs = Inr s'"
    using assms by (auto simp: plan_signals_def bindR_Inr split: prod.splits)
  have "grows st s s1" using p(1) by (rule grows_fold) (rule add_exit_distance_grows)
  moreover have "grows st s1 (fst b)" using grows_pairs[OF p(2) add_blocker_grows] by simp
  moreover have "grows st (fst b) s2" using grows_pairs[OF p(3) add_exit_signal_grows] by simp
  moreover have "grows st s2 s'" using p(4) by (rule grows_fold) (rule add_rsi_grows)
  ultimately show ?thesis by (rule grows_trans[OF _ grows_trans[OF _ grows_trans]])
qed

lemma plan_management_grows:
  assumes "plan_management management s = Inr s'"
  shows "grows st s s'"
proof -
  obtain rules stops exits s1 s2 where p: "foldR add_phase_rule s (enumerated rules) = Inr s1" "foldR add_stop s1 (enumerated stops) = Inr s2"
    "foldR add_runtime_exit s2 (enumerated exits) = Inr s'"
    using assms by (auto simp: plan_management_def bindR_Inr)
  have "grows st s s1" using p(1) by (rule grows_fold) (rule add_phase_rule_grows)
  moreover have "grows st s1 s2" using p(2) by (rule grows_fold) (rule add_stop_grows)
  moreover have "grows st s2 s'" using p(3) by (rule grows_fold) (rule add_runtime_exit_grows)
  ultimately show ?thesis using grows_trans by metis
qed

lemma collect_plan_ok:
  assumes "collect_plan doc = Inr ((fast, anchor, slow), s)"
  shows "planner_ok s \<and> {fast, anchor, slow} \<subseteq> labels s"
proof -
  let ?st = "{fast, anchor, slow}"
  obtain stack s0 s1 s2 s3 comps exits management setups where p: "plan_stack stack = Inr (s0, fast, anchor, slow)" "plan_inputs doc s0 = Inr s1"
    "foldR (add_setup (fast, anchor, slow)) s1 (enumerated setups) = Inr s2" "plan_signals comps exits s2 = Inr s3"
    "plan_management management s3 = Inr s"
    using assms by (auto simp: collect_plan_def bindR_Inr split: prod.splits)
  have "grows ?st s1 s2" using p(3) by (rule grows_fold) (rule add_setup_grows, assumption, simp)
  then have "grows ?st s0 s"
    by (intro grows_trans[OF plan_inputs_grows[OF p(2)]] grows_trans[OF _ grows_trans[OF plan_signals_grows[OF p(4)] plan_management_grows[OF p(5)]]])
  note kept = grows_ok[OF this conjunct1[OF plan_stack_ok[OF p(1)]] conjunct2[OF plan_stack_ok[OF p(1)]]]
  then show ?thesis using subset_trans[OF conjunct2[OF plan_stack_ok[OF p(1)]]] by simp
qed

section \<open>Predicate features\<close>

lemma find_label_None: "find_label fs oid = None \<longleftrightarrow> oid \<notin> output_id ` set fs"
  by (auto simp: find_label_def find_None_iff)

lemma find_label_Some: "find_label fs oid = Some g \<Longrightarrow> g \<in> set fs \<and> output_id g = oid"
  by (auto simp: find_label_def find_Some_iff)

lemma same_feature_refl: "same_feature f f"
  by (simp add: same_feature_def)

lemma add_predicate_feature_planned:
  assumes "add_predicate_feature s f = Inr s'" "requested f"
  shows "grows st s s'" "\<exists>g \<in> set (pl_features s'). same_feature g f" "pl_predicates s' = pl_predicates s"
proof -
  have a: "add_feature f s = Inr s'" and c: "find_label (pl_features s) (output_id f) = Some g \<Longrightarrow> same_feature g f" for g
    using assms(1) by (auto simp: add_predicate_feature_def raise_if_Inr split: option.splits)
  show "grows st s s'" by (rule add_feature_grows[OF a]) (simp add: requested_parts(1)[OF assms(2)])
  show "\<exists>g \<in> set (pl_features s'). same_feature g f"
  proof (cases "find_label (pl_features s) (output_id f)")
    case None
    then have "pl_features s' = pl_features s @ [f]" using a by (auto simp: add_feature_def raise_if_Inr find_label_None split: if_splits)
    then show ?thesis using same_feature_refl by auto
  next
    case (Some g)
    then have "output_id f \<in> labels s" using find_label_Some[OF Some] by (metis imageI)
    then have "s' = s" using a by (auto simp: add_feature_def raise_if_Inr)
    then show ?thesis using c[OF Some] find_label_Some[OF Some] by auto
  qed
  show "pl_predicates s' = pl_predicates s" using a by (auto simp: add_feature_def raise_if_Inr split: if_splits)
qed

lemma predicate_features_planned:
  assumes "foldR add_predicate_feature s fs = Inr t" "all_requested fs" "planner_ok s"
  shows "planner_ok t \<and> prefix (pl_features s) (pl_features t) \<and> (\<forall>f \<in> set fs. \<exists>g \<in> set (pl_features t). same_feature g f)"
  using assms
proof (induction fs arbitrary: s)
  case (Cons f fs)
  obtain s1 where s1: "add_predicate_feature s f = Inr s1" "foldR add_predicate_feature s1 fs = Inr t"
    using Cons.prems(1) by (auto simp: bindR_Inr)
  have f: "requested f" "all_requested fs" using Cons.prems(2) by simp_all
  note step = add_predicate_feature_planned[OF s1(1) f(1)]
  have g: "planner_ok s1 \<and> prefix (pl_features s) (pl_features s1)" using step(1)[of "{}"] Cons.prems(3) by (simp add: grows_def)
  note rest = Cons.IH[OF s1(2) f(2) conjunct1[OF g]]
  then show ?case using g step(2) set_mono_prefix[of "pl_features s1" "pl_features t"] by (auto intro: prefix_order.trans)
qed simp

text \<open>A built plan is the collected one and the predicate features behind it.\<close>

lemma built_plan:
  assumes "build_feature_plan_from_canonical_spec doc = Inr plan"
  obtains fast anchor slow s t where "collect_plan doc = Inr ((fast, anchor, slow), s)" "plan = finished_plan (fast, anchor, slow) t"
    "planner_ok t" "{fast, anchor, slow} \<subseteq> labels t" "prefix (pl_features s) (pl_features t)"
    "\<forall>f \<in> set (pl_predicates s). \<exists>g \<in> set (pl_features t). same_feature g f"
proof -
  obtain fast anchor slow s t where c: "collect_plan doc = Inr ((fast, anchor, slow), s)" "foldR add_predicate_feature s (pl_predicates s) = Inr t"
    "plan = finished_plan (fast, anchor, slow) t"
    using assms by (auto simp: build_feature_plan_from_canonical_spec_def bindR_Inr split: prod.splits)
  have ok: "planner_ok s" "{fast, anchor, slow} \<subseteq> labels s" using collect_plan_ok[OF c(1)] by simp_all
  then have "all_requested (pl_predicates s)" by (simp add: planner_ok_def)
  note planned = predicate_features_planned[OF c(2) this ok(1)]
  then have "labels s \<subseteq> labels t" using prefix_labels by simp
  with ok(2) have "{fast, anchor, slow} \<subseteq> labels t" by (rule subset_trans)
  with planned show thesis using that[OF c(1,3)] by simp
qed

end
