(* ===== verification/PlanProperties.thy ===== *)
theory PlanProperties
  imports PlannerFacts
begin

text \<open>
  The properties of the feature plan: what a built plan is made of, that every feature of a predicate
  is in it, and that its identities resolve in its own order.
\<close>

section \<open>A built plan\<close>

text \<open>Every label that a column of a plan names.\<close>

definition plan_columns :: "ema_plan \<Rightarrow> string set" where
  "plan_columns plan =
     column_values (anchor_columns plan) \<union> column_values (exit_distance_columns plan) \<union>
     snd ` set (rsi_columns plan) \<union> snd ` set (ema_columns plan) \<union>
     \<Union> (column_values ` (snd ` set (adx_dmi_columns plan) \<union> snd ` set (setup_columns_by_instance_id plan) \<union>
       snd ` set (htf_context_columns_by_ref plan) \<union> snd ` set (episode_columns_by_ref plan)))"

definition well_planned :: "ema_plan \<Rightarrow> bool" where
  "well_planned plan \<longleftrightarrow>
     distinct (map output_id (features (plan_indicators plan))) \<and>
     list_all (\<lambda>f. feature_kind f \<in> set ALLOWED_KINDS) (features (plan_indicators plan)) \<and>
     dependencies_before (features (plan_indicators plan)) \<and>
     plan_columns plan \<subseteq> output_id ` set (features (plan_indicators plan))"

lemma finished_columns: "plan_columns (finished_plan (fast, anchor, slow) s) = {fast, anchor, slow} \<union> planner_columns s"
  by (auto simp: plan_columns_def finished_plan_def planner_columns_def column_values_def)

lemma finished_features [simp]: "features (plan_indicators (finished_plan cols s)) = pl_features s"
  by (cases cols) (simp add: finished_plan_def)

definition width_setup :: json where
  "width_setup = JObj [(''component_id'', JStr ''anchor_stack_width_setup''), (''params'', JObj [(''atr_period'', JInt 5)])]"

definition rsi_operand :: "int \<Rightarrow> json" where
  "rsi_operand period = JObj [(''feature'', JObj [(''kind'', JStr ''rsi_ewm''), (''params'', JObj [(''period'', JInt period)])])]"

definition rsi_predicate :: json where
  "rsi_predicate = JObj [(''kind'', JStr ''compare''), (''left'', rsi_operand 7), (''op'', JStr ''>''), (''right'', rsi_operand 9)]"

definition plan_document :: obj where
  "plan_document =
     [(''anchor_stack'', JObj [(''fast'', JObj [(''period'', JInt 2)]), (''anchor'', JObj [(''period'', JInt 3)]), (''slow'', JObj [(''period'', JInt 5)])]),
      (''components'', JObj [(''blockers'', JList [])]),
      (''trade_management'', JObj [(''exit_policy'', JObj [(''always_on'', JObj [(''exits'', JList
        [JObj [(''instance_id'', JStr ''stop''), (''exit_kind'', JStr ''stop_loss''),
          (''distance'', JObj [(''period'', JInt 5), (''multiplier'', JInt 2)])]])])])]),
      (''setups'', JList [JObj [(''component_id'', JStr ''composite_setup''), (''instance_id'', JStr ''s''), (''params'', JObj
        [(''children'', JList [JObj [(''child_id'', JStr ''width''), (''setup'', width_setup)],
                              JObj [(''child_id'', JStr ''rsi''), (''predicate'', rsi_predicate)]]),
         (''paths'', JList [JObj [(''path_id'', JStr ''p''), (''require'', JList [JStr ''width'', JStr ''rsi''])]])])]])]"

definition sample_plan :: ema_plan where "sample_plan = projr (build_feature_plan_from_canonical_spec plan_document)"

lemma sample_labels:
  "map_sum id (\<lambda>p. map output_id (features (plan_indicators p))) (build_feature_plan_from_canonical_spec plan_document) =
     Inr [''ema_close_base_2'', ''ema_close_base_3'', ''ema_close_base_5'', ''atr_close_base_5'', ''atr_close_base_5_x2_0'',
       ''rsi_ewm_close_base_7'', ''rsi_ewm_close_base_9'']"
  by code_simp

lemma sample_built: "build_feature_plan_from_canonical_spec plan_document = Inr sample_plan"
  using sample_labels by (cases "build_feature_plan_from_canonical_spec plan_document") (auto simp: sample_plan_def)


section \<open>Properties\<close>

text \<open>
  C8. A plan that is built plans every label once, only with kinds the engine knows, every feature
  behind the features it depends on, and no column of the plan names a label that is not planned.
\<close>

theorem built_plan_well_planned:
  assumes "build_feature_plan_from_canonical_spec doc = Inr plan"
  shows "well_planned plan"
proof -
  obtain fast anchor slow t where t: "plan = finished_plan (fast, anchor, slow) t" "planner_ok t" "{fast, anchor, slow} \<subseteq> labels t"
    using built_plan[OF assms] by metis
  then show ?thesis unfolding well_planned_def t(1) finished_columns finished_features by (auto simp: planner_ok_def)
qed

theorem built_plan_well_planned_witness:
  "length (features (plan_indicators sample_plan)) = 7 \<and> well_planned sample_plan"
proof -
  have "map output_id (features (plan_indicators sample_plan)) = [''ema_close_base_2'', ''ema_close_base_3'', ''ema_close_base_5'',
      ''atr_close_base_5'', ''atr_close_base_5_x2_0'', ''rsi_ewm_close_base_7'', ''rsi_ewm_close_base_9'']"
    using sample_labels unfolding sample_built by (simp only: map_sum.simps sum.inject)
  then have "length (map output_id (features (plan_indicators sample_plan))) = 7" by (simp only: list.size)
  then have "length (features (plan_indicators sample_plan)) = 7" by simp
  then show ?thesis using built_plan_well_planned[OF sample_built] by simp
qed



section \<open>Identities of a plan\<close>

definition identifiable :: "string \<Rightarrow> planned_feature \<Rightarrow> bool" where
  "identifiable base f \<longleftrightarrow> is_ok (validate_feature_timeframe f base) \<and>
     (case find_feature_kind (feature_kind f) of None \<Rightarrow> False | Some c \<Rightarrow> is_ok (fk_validate c f))"

definition scalar :: "pval \<Rightarrow> bool" where
  "scalar v \<longleftrightarrow> is_ok (canonical v)"

lemma mapR_is_ok: "list_all (\<lambda>x. is_ok (f x)) xs \<Longrightarrow> is_ok (mapR f xs)"
  by (induction xs) (auto simp: is_ok_def bindR_def split: sum.splits)

lemma node_spec_ok:
  assumes "list_all (\<lambda>kv. scalar (snd kv)) params"
  shows "is_ok (node_spec kind version params ups None)"
proof -
  have "list_all (\<lambda>kv. scalar (snd kv)) (sort_key fst params)" using assms by (simp add: list_all_iff)
  then have "is_ok (mapR (\<lambda>(k, v). bindR (canonical v) (\<lambda>c. Inr (k, c))) (sort_key fst params))"
    by (intro mapR_is_ok) (auto simp: list_all_iff scalar_def is_ok_def bindR_def split: sum.splits)
  then show ?thesis by (auto simp: node_spec_def is_ok_def bindR_def raise_if_def split: sum.splits)
qed

text \<open>A validated feature has the parameters its identity reads.\<close>

definition gives_scalars :: "(string \<times> pval) list res \<Rightarrow> bool" where
  "gives_scalars r \<longleftrightarrow> (case r of Inl _ \<Rightarrow> False | Inr ps \<Rightarrow> list_all (\<lambda>kv. scalar (snd kv)) ps)"

lemma get_JInt: "get ob k = JInt n \<Longrightarrow> map_of ob k = Some (JInt n)"
  by (auto simp: get_def get_or_def split: option.splits)

lemma gives_scalars_Inr [simp]: "gives_scalars (Inr ps) \<longleftrightarrow> list_all (\<lambda>kv. scalar (snd kv)) ps"
  by (simp add: gives_scalars_def)

lemma scalar_simps [simp]: "scalar (PInt n)" "scalar (PStr t)" "scalar (PFloat x)" "scalar PNone"
  by (simp_all add: scalar_def)

lemma positive_period_int: "positive_period f \<Longrightarrow> \<exists>n. int_parameter f ''period'' = Inr n"
  by (auto simp: positive_period_def int_parameter_def dest: get_JInt split: json.splits)

lemma checked_scalars:
  assumes "period_checks name f = Inr ()"
  shows "gives_scalars (period_identity f)"
proof -
  have "positive_period f" using assms unfolding period_checks_def raise_if_Inr by simp
  then obtain n where "int_parameter f ''period'' = Inr n" using positive_period_int by blast
  then show ?thesis by (simp add: period_identity_def)
qed

lemma distance_scalars:
  assumes "validate_atr_distance_feature f = Inr ()"
  shows "gives_scalars (multiplier_identity f)" "length (dependencies f) = 1"
proof -
  define m where "m = get (parameters f) ''multiplier''"
  obtain x where x: "py_float m = Inr x" "\<not> (case m of JInt _ \<Rightarrow> False | JFloat _ \<Rightarrow> False | _ \<Rightarrow> True)" "length (dependencies f) = 1"
    using assms unfolding validate_atr_distance_feature_def Let_def raise_if_Inr bindR_Inr m_def[symmetric] by blast
  then have "map_of (parameters f) ''multiplier'' = Some m"
    unfolding m_def get_def get_or_def by (cases "map_of (parameters f) ''multiplier''") simp_all
  then show "gives_scalars (multiplier_identity f)" using x(1) by (simp add: multiplier_identity_def parameter_def)
  show "length (dependencies f) = 1" by (rule x(3))
qed

lemma sum_scalars:
  assumes "validate_rolling_sum_feature f = Inr ()"
  shows "gives_scalars (rolling_sum_identity f)"
proof -
  have p: "positive_period f" and l: "\<not> (case get_or (parameters f) ''lag'' (JInt 0) of JInt n \<Rightarrow> n < 0 | _ \<Rightarrow> True)"
    using assms unfolding validate_rolling_sum_feature_def raise_if_Inr by simp_all
  obtain m where "get_or (parameters f) ''lag'' (JInt 0) = JInt m" using l by (auto split: json.splits)
  then show ?thesis using positive_period_int[OF p] by (auto simp: rolling_sum_identity_def)
qed

lemma contract_scalars:
  assumes "find_feature_kind kind = Some c" "fk_validate c f = Inr ()"
  shows "gives_scalars (fk_identity_params c f)"
proof -
  have "c \<in> set CONTRACTS" using assms(1) by (auto simp: find_feature_kind_def find_Some_iff)
  then show ?thesis using assms(2) distance_scalars sum_scalars checked_scalars
    by (auto simp: CONTRACTS_def period_kind_def rolling_kind_def no_identity_def validate_ema_feature_def validate_atr_feature_def
        validate_rsi_feature_def validate_adx_dmi_feature_def validate_candle_body_atr_feature_def validate_rolling_extreme_feature_def
        raise_if_Inr)
qed

lemma role_has_dependency:
  assumes "find_feature_kind kind = Some c" "fk_validate c f = Inr ()" "fk_dependency_role c \<noteq> None"
  shows "length (dependencies f) = 1"
proof -
  have "c \<in> set CONTRACTS" using assms(1) by (auto simp: find_feature_kind_def find_Some_iff)
  then show ?thesis using assms(2,3) distance_scalars(2) by (auto simp: CONTRACTS_def period_kind_def rolling_kind_def)
qed

text \<open>A feature resolves when it is identifiable and its dependency has an identity.\<close>

lemma resolve_feature_ok:
  assumes "set (dependencies f) \<subseteq> fst ` set upstream"
  shows "is_ok (resolve_feature f base upstream) \<longleftrightarrow> identifiable base f"
proof (cases "find_feature_kind (feature_kind f)")
  case None
  then show ?thesis by (cases "validate_feature_timeframe f base") (simp_all add: resolve_feature_def identifiable_def)
next
  case (Some c)
  show ?thesis
  proof (cases "\<exists>tf. validate_feature_timeframe f base = Inr tf \<and> fk_validate c f = Inr ()")
    case True
    then obtain tf where tf: "validate_feature_timeframe f base = Inr tf" "fk_validate c f = Inr ()" by blast
    obtain ps where ps: "fk_identity_params c f = Inr ps" "list_all (\<lambda>kv. scalar (snd kv)) ps"
      using contract_scalars[OF Some tf(2)] by (cases "fk_identity_params c f") (simp_all add: gives_scalars_def)
    have sub: "set (dependencies f) \<subseteq> fst ` set upstream" by (rule assms)
    have "is_ok (resolve_feature f base upstream)"
    proof (cases "fk_dependency_role c")
      case None
      then show ?thesis unfolding resolve_feature_def tf bindR_simps Some option.case ps(1) None
        by (intro node_spec_ok) (use ps(2) in \<open>auto split: option.splits\<close>)
    next
      case role: (Some role)
      then have "length (dependencies f) = 1" using role_has_dependency[OF Some tf(2)] by simp
      then obtain d where d: "dependencies f = [d]" by (auto simp: length_Suc_conv)
      then have "map_of upstream d \<noteq> None" using sub by (auto simp: map_of_eq_None_iff)
      then obtain n where n: "map_of upstream d = Some n" by blast
      show ?thesis unfolding resolve_feature_def tf bindR_simps Some option.case ps(1) role d list.case n
        by (intro node_spec_ok) (use ps(2) in simp)
    qed
    then show ?thesis by (simp add: identifiable_def tf Some)
  next
    case False
    then show ?thesis unfolding resolve_feature_def identifiable_def Some
      by (cases "validate_feature_timeframe f base"; cases "fk_validate c f") auto
  qed
qed

lemma update_keys: "k \<notin> fst ` set d \<Longrightarrow> AList.update k v d = d @ [(k, v)]"
  by (induction d) auto

lemma resolve_all:
  assumes "distinct (map output_id fs)" "dependencies_before fs" "n \<le> length fs" "map fst ids = map output_id (take n fs)"
  shows "case foldR (resolve_step base) ids (drop n fs) of
      Inl e \<Rightarrow> \<not> list_all (identifiable base) (drop n fs)
    | Inr all \<Rightarrow> list_all (identifiable base) (drop n fs) \<and> map fst all = map output_id fs"
  using assms(3,4)
proof (induction "length fs - n" arbitrary: n ids)
  case 0
  then show ?case by simp
next
  case (Suc k)
  let ?f = "fs ! n"
  have n: "n < length fs" using Suc.hyps(2) by simp
  have keys: "fst ` set ids = set (map output_id (take n fs))" using Suc.prems(2) by (metis list.set_map)
  have "set (dependencies ?f) \<subseteq> fst ` set ids" using assms(2) n by (simp add: keys dependencies_before_def list_all_iff)
  note ok = resolve_feature_ok[OF this, of base]
  show ?case
  proof (cases "resolve_feature ?f base ids")
    case (Inl e)
    then show ?thesis using ok n by (simp add: Cons_nth_drop_Suc[symmetric] resolve_step_def)
  next
    case (Inr node)
    have "output_id ?f \<notin> fst ` set ids"
      using assms(1) n unfolding keys by (auto simp: in_set_conv_nth distinct_conv_nth)
    then have s: "resolve_step base ids ?f = Inr (ids @ [(output_id ?f, node)])" by (simp add: resolve_step_def Inr update_keys)
    have "map fst (ids @ [(output_id ?f, node)]) = map output_id (take (Suc n) fs)" using Suc.prems(2) n by (simp add: take_Suc_conv_app_nth)
    moreover have "k = length fs - Suc n" "Suc n \<le> length fs" using Suc.hyps(2) n by simp_all
    ultimately have "case foldR (resolve_step base) (ids @ [(output_id ?f, node)]) (drop (Suc n) fs) of
        Inl e \<Rightarrow> \<not> list_all (identifiable base) (drop (Suc n) fs)
      | Inr all \<Rightarrow> list_all (identifiable base) (drop (Suc n) fs) \<and> map fst all = map output_id fs"
      by (intro Suc.hyps(1))
    then show ?thesis using ok Inr by (simp add: Cons_nth_drop_Suc[OF n, symmetric] s split: sum.splits)
  qed
qed

text \<open>
  C10. The identities of a built plan resolve exactly when every feature has an admissible timeframe
  and passes the validation of its kind; then each planned label gets its identity, in plan order.
\<close>

theorem plan_identities_resolve:
  assumes "build_feature_plan_from_canonical_spec doc = Inr plan"
  shows "case resolve_feature_identities plan base of
      Inl e \<Rightarrow> \<not> list_all (identifiable base) (features (plan_indicators plan))
    | Inr ids \<Rightarrow> list_all (identifiable base) (features (plan_indicators plan)) \<and>
        map fst ids = map output_id (features (plan_indicators plan))"
proof -
  obtain fast anchor slow t where t: "plan = finished_plan (fast, anchor, slow) t" "planner_ok t" using built_plan[OF assms] by metis
  have "distinct (map output_id (pl_features t))" "dependencies_before (pl_features t)" using t(2) by (simp_all add: planner_ok_def)
  from resolve_all[OF this, of 0 "[]" base, unfolded drop_0] show ?thesis
    unfolding t(1) finished_features resolve_feature_identities_def resolve_indicator_plan_def by simp
qed

theorem plan_identities_resolve_witness:
  "map_sum id (map fst) (resolve_feature_identities sample_plan ''1m'') =
     Inr [''ema_close_base_2'', ''ema_close_base_3'', ''ema_close_base_5'', ''atr_close_base_5'', ''atr_close_base_5_x2_0'',
       ''rsi_ewm_close_base_7'', ''rsi_ewm_close_base_9'']"
proof -
  have "list_all (identifiable ''1m'') (features (plan_indicators sample_plan))" unfolding sample_plan_def by code_simp
  then show ?thesis using plan_identities_resolve[OF sample_built, of "''1m''"] sample_labels unfolding sample_built
    by (auto split: sum.splits)
qed

section \<open>The operand parser ends\<close>


end
