(* ===== verification/Spec2Isabelle.thy ===== *)
theory Spec2Isabelle
  imports EpisodeProperties EvalContextProperties LiveWindow NodeIdentity ManagedProperties RawSpecProperties HistoricalProperties LegProperties
    SetupProperties EpisodeQueryProperties PlanProperties
begin

text \<open>
  A verification development for the strategy engine (\<open>src/src/strategy_engine\<close>).

  \<^bold>\<open>The program.\<close>  The service receives a strategy document (untyped JSON) and market bars, plans
  the indicator features the strategy needs, reads them from the indicator engine, and evaluates
  the EMA pullback strategy over them: direction and blockers, setups, triggers, risk and entries,
  exit policy, the managed exits of open trades, and two projections of the last bar for the live
  runtime.  A batch of strategy candidates shares one evaluation context, a memo keyed by the
  semantic identity of each computed node.

  \<^bold>\<open>Conventions.\<close>  Prices, indicators and every Python or NumPy \<open>float\<close> are \<open>f64\<close> (theory Float64): a
  NaN, a signed infinity or an exactly represented rational, with every operation rounded to
  binary64 and the comparisons of IEEE (a comparison with NaN is false).  Python integers are
  \<open>int\<close>.  An exception is a value: \<open>err + 'a\<close> with \<open>Inl\<close> the exception, one constructor per
  exception type that the code raises or lets escape.  An untyped document is the datatype \<open>json\<close>.
  Tuples and lists are lists, dictionaries are maps, or association lists where their order is
  observable.  Loops over bars are structural recursions (\<open>foldl\<close>, \<open>scan\<close>); the loops that are not
  (the places of a decimal, the eviction of the history memo, the binary search of a page) are total
  functions with a measure.

  \<^bold>\<open>Shared theories.\<close>  Prelude: errors, results and their sequencing, JSON, strict zips, lemmas on lists.
  Float64: arithmetic of floats with its order (\<open>f64 :: linorder\<close>).  PyText and PyFloat:
  \<open>int(text)\<close>, \<open>float(text)\<close>, \<open>str\<close> and \<open>strip\<close> over code points below 256.  Frames: the feature frame
  (\<open>indicators/contracts.py\<close>) and the columns of the feature plan that the components read.

  \<^bold>\<open>Components.\<close>
  \<^item> Domain (\<open>domain/ranges.py\<close>, \<open>market.py\<close>, \<open>market_data.py\<close>): timeframes, half-open ranges,
    base frames; that a validated frame lies on the grid of its range.
  \<^item> NodeIdentity (\<open>domain/node_identity.py\<close>): the type-tagged canonical form of a parameter and
    the identity of a node; two nodes are equal only if kind, version, parameters, upstream
    identities and side are.
  \<^item> EvalContext, EvalContextCounts, EvalContextOnce, EvalContextProperties
    (\<open>indicators/evaluation_context.py\<close>): memo, planning pass and reference counts.  A locale of
    sound computations shows that a batch returns what a direct evaluation returns, that the counts
    are the consumptions still expected, that each node is computed once and nothing is retained.
  \<^item> StackEpisode, EpisodeProject (\<open>stack_episode.py\<close>): the parameters, the bar step of the episode
    machine, both sides, the operands read from the touch table and the wire form.
    EpisodeInvariant and EpisodeSteps hold the invariant (locale \<open>bar_machine\<close>, interpreted on the
    step), EpisodeWire the index bounds, EpisodeCausality and EpisodeLookahead that row and operand
    of a bar depend on the bars up to it only.  EpisodeProperties states the properties.
  \<^item> LegOperands, CandleOperands (\<open>leg_change.py\<close>, \<open>leg_speed.py\<close>, \<open>leg_efficiency.py\<close>,
    \<open>leg_means.py\<close>, \<open>anchor_follow.py\<close>, \<open>pullback_depth.py\<close>, \<open>impulse_atr.py\<close>, \<open>candles.py\<close>,
    \<open>forming_candle.py\<close>, \<open>window_extreme.py\<close>): operands on the legs of the current touch.  LegFacts
    (locale \<open>window_operation\<close>: an idempotent commutative operation folded by the sparse table,
    interpreted on maximum and minimum), LegLoops and CandleFacts relate the incremental loops,
    caches and tables to a fresh evaluation of every bar.  LegProperties states the properties.
  \<^item> LiveWindow (\<open>live_calculation/\<close>): the history each indicator needs and the start of the
    window that a live evaluation reads.
  \<^item> RawSpec, RawSpecProperties (\<open>raw_spec_identity.py\<close>): reading components and rules from the
    document, unique instance identifiers, the ladder of partial takes.
  \<^item> CompositeSpec, CompositeProperties (\<open>composite_spec.py\<close>): parsing of composites of named
    conditions and paths, the internal keys of their children.
  \<^item> ManagedTrade, ManagedReplay, ManagedComposite (\<open>managed.py\<close>, \<open>managed_composite.py\<close>,
    \<open>entry_change.py\<close>): one open trade, its phases, stop rules and runtime exits; composite phase
    conditions with their market fold.  ManagedSteps holds the abstract machine, ManagedFacts the
    relations its steps respect (locale with interpretations for phase, stop and what entry
    fixes), ManagedProperties the properties.
  \<^item> HistoricalManaged, HistoricalFacts, HistoricalComposite, HistoricalProperties
    (\<open>historical_managed_projection.py\<close>): the projection of managed rules over a whole range and
    its agreement with the replay of one trade.

  \<^item> FloatBits, Masks: a float and the bits its identity carries; bar-aligned masks, strict zips,
    trailing windows and the series of a frame, with the cut of a frame at a bar.
  \<^item> ContextStates (\<open>contexts.py\<close>, \<open>context_consumption.py\<close>): the regime of every declared context on
    every bar, the gates and the exit profile that consume it, and their identities.
  \<^item> Blockers, BlockerFacts, BlockerIdentity (\<open>direction_blockers.py\<close>): direction, the three blockers
    and their gates; the trend blocker as a search, the cut of every mask, equal identity implies
    equal mask.
  \<^item> Setups, WeightedVote, SetupEvaluation, SetupIdentity (\<open>setups.py\<close>, \<open>weighted_vote_spec.py\<close>): the
    setup kinds, composites and weighted votes with their parser.  SetupFacts holds the invariant of
    the bounce counter (locale \<open>bar_machine\<close>), VoteFacts the integer score, SetupCausality the cut.
  \<^item> Triggers, TriggerFacts (\<open>triggers.py\<close>), ExitPolicy, ExitCausality (\<open>exits.py\<close>), Entries (\<open>risk.py\<close>,
    \<open>potential_entries.py\<close>, \<open>evaluation.py\<close>): the later stages and their composition.
    EvaluationCausality shows that an evaluation of a frame cut at a bar is the evaluation cut there.
  \<^item> DecimalText (\<open>domain/values.py\<close>): decimal text, normalized text, and their round trip.
  \<^item> LiveEntry, OpenTrade (\<open>live_projections/\<close>, \<open>application/\<close>): the plan of a new entry,
    the projection of an open trade and the requests around both.  LiveFacts follows a plan back to
    the direction of the trend and relates it to the receipt it becomes.
  \<^item> EpisodeBundle (\<open>stack_episode.py\<close>): every declared episode of a frame through the evaluation
    context, the bundle's wire and the identities of its nodes, with the proof that the memo changes
    nothing.
  \<^item> EpisodeHistory, HistoryFacts, HistoryShape (\<open>query_episode_history.py\<close>): the bounded memo of
    computed histories (locale \<open>slot_memo\<close>, interpreted on the cache), shaping, reload and pages.
    HistoryShape also holds the invariant of the episode table that the order of the pages rests on.
  \<^item> EvaluationProperties, SetupProperties, EpisodeQueryProperties: the properties of the above.
  \<^item> IndicatorKinds (\<open>feature_kinds.py\<close>, the validators of \<open>indicators/implementations/\<close>): the registry
    of indicator kinds, one standalone feature request, the identities of an indicator plan.
  \<^item> PredicateSpec, PredicateParse, PredicateFacts (\<open>predicates.py\<close>): the predicate language, its
    recursive parser, the proof that it ends, and the features that a parsed predicate requests.
  \<^item> FeaturePlan, PlannerFacts, PlanProperties (\<open>feature_plan.py\<close>): the planner.  Its sections are
    steps of the record \<open>planner\<close>; PlannerFacts shows that each step \<open>grows\<close> the plan: it keeps the
    invariant \<open>planner_ok\<close> and every label planned before.

  \<^bold>\<open>Parameters.\<close>  Code outside the repository, or whose result the modelled code only passes on, is an
  argument of the definitions: the C logarithm; the record \<open>predicate_functions\<close> with what the
  predicate layer (\<open>predicates.py\<close>) computes on a frame and NumPy's exponential and interpolation;
  the answers of the market data port, the indicator engine and the clock (record \<open>upstream\<close> of the
  history query, arguments of the live requests); the hash of a JSON document; the decoding of a
  request's document by the HTTP layer.  That the predicate layer does not look ahead is the
  hypothesis \<open>causal_predicates\<close>; that features of equal identity have equal series is \<open>ids_agree\<close>.

  \<^bold>\<open>Bounds and fuel.\<close>  The parsers of nested operands and predicates take the
  size of the document as fuel, which PredicateFacts shows to be enough.  The reader of history pages takes the
  number of pages it may follow, and one more than the number of finished episodes is shown to be
  enough.  Floats round to 53 bits with subnormals and overflow to infinity; the decimal text that
  \<open>float(text)\<close> accepts is read exactly before it is rounded; decimals round to 28 digits, half to even.

  \<^bold>\<open>Not modelled.\<close>  HTTP routes and models, the market data client, settings and wiring are input and
  output.  The JSON catalogues, the composer and its static checks are data and documentation of the
  document.  The indicator formulas run in pandas and NumPy and are the port's answers here.  The
  evaluation of parsed predicates and their identities are parameters.  Not modelled either: the
  history requirements of a document (\<open>live_calculation_requirements.py\<close>), the identities of exit
  nodes, and the wire forms of contexts and their consumption.
\<close>

end
